(* ===== verification/Prelude.thy ===== *)
theory Prelude
  imports Complex_Main "HOL-Library.AList"
begin

text \<open>
  What every component shares: the errors a Python expression can raise and their
  propagation, Python's insertion-ordered dictionaries, \<open>Decimal\<close> arithmetic as far
  as the code relies on it, and the string operations on trading pairs.

  \<open>Decimal\<close> values (and the floats that carry timestamps) are exact rationals: the
  28-digit rounding of the default context is abstracted away, division by zero is an
  error value, and NaN is a constructor of its own where the code stores or tests it.
\<close>

named_theorems dict_simps \<open>lookup laws of the dictionary operations\<close>
named_theorems err_simps \<open>propagation of raised errors\<close>

section \<open>Errors as values\<close>

datatype py_error =
    ValueError | KeyError | IndexError | AttributeError | AssertionError | TypeError
  | ZeroDivisionError | InvalidOperation | StopIteration
  | ExternalError  \<comment> \<open>the last a plain \<open>Exception\<close> or one from a library\<close>

type_synonym 'a py_result = "py_error + 'a"

definition ebind :: "'a py_result \<Rightarrow> ('a \<Rightarrow> 'b py_result) \<Rightarrow> 'b py_result" where
  "ebind m f = (case m of Inl e \<Rightarrow> Inl e | Inr x \<Rightarrow> f x)"

lemma ebind_Inl [simp, err_simps]: "ebind (Inl e) f = Inl e"
  by (simp add: ebind_def)

lemma ebind_Inr [simp, err_simps]: "ebind (Inr x) f = f x"
  by (simp add: ebind_def)

lemma ebind_eq_Inr_iff [err_simps]:
  "ebind m f = Inr y \<longleftrightarrow> (\<exists>x. m = Inr x \<and> f x = Inr y)"
  by (cases m) auto

lemma ebind_eq_Inl_iff:
  "ebind m f = Inl e \<longleftrightarrow> m = Inl e \<or> (\<exists>x. m = Inr x \<and> f x = Inl e)"
  by (cases m) auto

lemma ebind_assoc: "ebind (ebind m f) g = ebind m (\<lambda>x. ebind (f x) g)"
  by (cases m) auto

fun emap :: "('a \<Rightarrow> 'b py_result) \<Rightarrow> 'a list \<Rightarrow> 'b list py_result" where
  "emap f [] = Inr []"
| "emap f (x # xs) = ebind (f x) (\<lambda>y. ebind (emap f xs) (\<lambda>ys. Inr (y # ys)))"

lemma emap_Inr: "(\<And>x. x \<in> set xs \<Longrightarrow> f x = Inr (g x)) \<Longrightarrow> emap f xs = Inr (map g xs)"
  by (induction xs) auto

text \<open>A statement that mutates a state may raise, leaving the state as it then is.\<close>

type_synonym 's outcome = "'s \<times> py_error option"

definition obind :: "'s outcome \<Rightarrow> ('s \<Rightarrow> 's outcome) \<Rightarrow> 's outcome" where
  "obind m f = (case m of (s, None) \<Rightarrow> f s | (s, Some e) \<Rightarrow> (s, Some e))"

lemma obind_simps [simp, err_simps]:
  "obind (s, None) f = f s"
  "obind (s, Some e) f = (s, Some e)"
  by (simp_all add: obind_def)

text \<open>A property of the state that each statement keeps is kept by their sequence.\<close>

lemma obind_fst_inv:
  "P (fst m) \<Longrightarrow> (\<And>s. P s \<Longrightarrow> P (fst (f s))) \<Longrightarrow> P (fst (obind m f))"
  by (cases m) (simp add: obind_def split: option.split)

text \<open>A loop over a list whose body may raise.\<close>

fun ofold :: "('a \<Rightarrow> 's \<Rightarrow> 's outcome) \<Rightarrow> 'a list \<Rightarrow> 's \<Rightarrow> 's outcome" where
  "ofold f [] s = (s, None)"
| "ofold f (x # xs) s = obind (f x s) (ofold f xs)"

lemma obind_eq_NoneE:
  "obind m f = (s', None) \<Longrightarrow> (\<And>s. m = (s, None) \<Longrightarrow> f s = (s', None) \<Longrightarrow> P) \<Longrightarrow> P"
  by (cases m; cases "snd m") auto

lemma ofold_cong [fundef_cong]:
  "xs = ys \<Longrightarrow> s = t \<Longrightarrow> (\<And>x u. x \<in> set ys \<Longrightarrow> f x u = g x u) \<Longrightarrow> ofold f xs s = ofold g ys t"
proof (induction xs arbitrary: ys s t)
  case (Cons x xs)
  then have "ofold f xs = ofold g xs" by (intro ext) auto
  with Cons.prems show ?case by auto
qed simp

section \<open>Dictionaries\<close>

text \<open>
  A Python \<open>dict\<close> keeps insertion order: assignment to a present key replaces the
  value in place, assignment to a new key appends. \<open>AList.update\<close> does exactly that.
\<close>

type_synonym ('k, 'v) dict = "('k \<times> 'v) list"

definition dict_get :: "('k, 'v) dict \<Rightarrow> 'k \<Rightarrow> 'v option" where
  "dict_get d k = map_of d k"

definition dict_has :: "('k, 'v) dict \<Rightarrow> 'k \<Rightarrow> bool" where
  "dict_has d k = (dict_get d k \<noteq> None)"

definition dict_set :: "('k, 'v) dict \<Rightarrow> 'k \<Rightarrow> 'v \<Rightarrow> ('k, 'v) dict" where
  "dict_set d k v = AList.update k v d"

definition dict_del :: "('k, 'v) dict \<Rightarrow> 'k \<Rightarrow> ('k, 'v) dict" where
  "dict_del d k = AList.delete k d"

definition get_or :: "('k, 'v) dict \<Rightarrow> 'k \<Rightarrow> 'v \<Rightarrow> 'v" where
  \<comment> \<open>\<open>d.get(k, default)\<close>\<close>
  "get_or d k dflt = (case dict_get d k of None \<Rightarrow> dflt | Some v \<Rightarrow> v)"

definition dict_pop_strict :: "('k, 'v) dict \<Rightarrow> 'k \<Rightarrow> ('k, 'v) dict py_result" where
  \<comment> \<open>\<open>del d[k]\<close>\<close>
  "dict_pop_strict d k = (if dict_has d k then Inr (dict_del d k) else Inl KeyError)"

definition dict_at :: "('k, 'v) dict \<Rightarrow> 'k \<Rightarrow> 'v py_result" where
  \<comment> \<open>\<open>d[k]\<close>\<close>
  "dict_at d k = (case dict_get d k of None \<Rightarrow> Inl KeyError | Some v \<Rightarrow> Inr v)"

definition dict_values :: "('k, 'v) dict \<Rightarrow> 'v list" where
  "dict_values d = map snd d"

definition dict_keys :: "('k, 'v) dict \<Rightarrow> 'k list" where
  "dict_keys d = map fst d"

fun dict_merge :: "('k, 'v) dict \<Rightarrow> ('k, 'v) dict \<Rightarrow> ('k, 'v) dict" where
  \<comment> \<open>\<open>{**a, **b}\<close>\<close>
  "dict_merge a [] = a"
| "dict_merge a ((k, v) # b) = dict_merge (dict_set a k v) b"

definition dict_wf :: "('k, 'v) dict \<Rightarrow> bool" where
  "dict_wf d = distinct (map fst d)"

lemma dict_get_Nil [simp, dict_simps]: "dict_get [] k = None"
  by (simp add: dict_get_def)

lemma dict_get_set [simp, dict_simps]:
  "dict_get (dict_set d k v) k' = (if k' = k then Some v else dict_get d k')"
  by (simp add: dict_get_def dict_set_def update_conv)

lemma dict_get_del [simp, dict_simps]:
  "dict_get (dict_del d k) k' = (if k' = k then None else dict_get d k')"
  by (simp add: dict_get_def dict_del_def delete_conv)

lemma dict_has_set [simp, dict_simps]: "dict_has (dict_set d k v) k' = (k' = k \<or> dict_has d k')"
  by (simp add: dict_has_def)

lemma dict_has_del [simp, dict_simps]: "dict_has (dict_del d k) k' = (k' \<noteq> k \<and> dict_has d k')"
  by (simp add: dict_has_def)

lemma dict_has_Nil [simp, dict_simps]: "\<not> dict_has [] k"
  by (simp add: dict_has_def)

lemma get_or_set [simp]: "get_or (dict_set d k v) k' dflt = (if k' = k then v else get_or d k' dflt)"
  by (simp add: get_or_def)

lemma get_or_del [simp]: "get_or (dict_del d k) k' dflt = (if k' = k then dflt else get_or d k' dflt)"
  by (simp add: get_or_def)

lemma get_or_Nil [simp]: "get_or [] k dflt = dflt"
  by (simp add: get_or_def)

lemma dict_wf_Nil [simp]: "dict_wf []"
  by (simp add: dict_wf_def)

lemma dict_wf_set [simp, intro]: "dict_wf d \<Longrightarrow> dict_wf (dict_set d k v)"
  by (simp add: dict_wf_def dict_set_def distinct_update)

lemma dict_wf_del [simp, intro]: "dict_wf d \<Longrightarrow> dict_wf (dict_del d k)"
  by (simp add: dict_wf_def dict_del_def distinct_delete)

lemma dict_get_SomeD: "dict_get d k = Some v \<Longrightarrow> (k, v) \<in> set d"
  by (simp add: dict_get_def map_of_SomeD)

lemma dict_get_in_set: "dict_wf d \<Longrightarrow> dict_get d k = Some v \<longleftrightarrow> (k, v) \<in> set d"
  by (simp add: dict_get_def dict_wf_def)

lemma dict_has_keys: "dict_has d k \<longleftrightarrow> k \<in> set (map fst d)"
  by (simp add: dict_has_def dict_get_def map_of_eq_None_iff)

lemma dict_keys_set: "set (map fst (dict_set d k v)) = insert k (set (map fst d))"
  by (simp add: set_eq_iff dict_has_keys [symmetric] del: set_map)

lemma dict_set_new: "\<not> dict_has d k \<Longrightarrow> dict_set d k v = d @ [(k, v)]"
  by (induction d) (auto simp: dict_set_def dict_has_keys)

lemma dict_get_append: "dict_get (d @ e) k = (case dict_get d k of None \<Rightarrow> dict_get e k | Some v \<Rightarrow> Some v)"
  by (simp add: dict_get_def map_add_def split: option.splits)

lemma dict_get_merge:
  "dict_wf b \<Longrightarrow> dict_get (dict_merge a b) k = (case dict_get b k of None \<Rightarrow> dict_get a k | Some v \<Rightarrow> Some v)"
proof (induction a b rule: dict_merge.induct)
  case (1 a)
  then show ?case by simp
next
  case (2 a k' v b)
  then have "dict_wf b" and "k' \<notin> set (map fst b)" by (auto simp: dict_wf_def)
  moreover from this have "dict_get b k' = None"
    by (simp add: dict_get_def map_of_eq_None_iff)
  moreover have "dict_get ((k', v) # b) k = (if k = k' then Some v else dict_get b k)"
    by (simp add: dict_get_def)
  ultimately show ?case
    using "2.IH" by (auto split: option.splits)
qed

lemma dict_wf_merge: "dict_wf a \<Longrightarrow> dict_wf (dict_merge a b)"
  by (induction a b rule: dict_merge.induct) auto

section \<open>Decimals\<close>

type_synonym decimal = rat

datatype pdecimal = NaN | Fin decimal

definition dec_div :: "decimal \<Rightarrow> decimal \<Rightarrow> decimal py_result" where
  "dec_div a b =
     (if b = 0 then Inl (if a = 0 then InvalidOperation else ZeroDivisionError) else Inr (a / b))"

lemma dec_div_Inr [simp]: "b \<noteq> 0 \<Longrightarrow> dec_div a b = Inr (a / b)"
  by (simp add: dec_div_def)

lemma dec_div_eq_Inr_iff: "dec_div a b = Inr q \<longleftrightarrow> b \<noteq> 0 \<and> q = a / b"
  by (auto simp: dec_div_def)

text \<open>The division of floats, which raises for every zero divisor.\<close>

definition float_div :: "decimal \<Rightarrow> decimal \<Rightarrow> decimal py_result" where
  "float_div a b = (if b = 0 then Inl ZeroDivisionError else Inr (a / b))"

text \<open>\<open>math.isclose\<close> with its default tolerances.\<close>

definition py_isclose :: "decimal \<Rightarrow> decimal \<Rightarrow> bool" where
  "py_isclose a b = (\<bar>a - b\<bar> \<le> (1 / 10 ^ 9) * max \<bar>a\<bar> \<bar>b\<bar>)"

lemma py_isclose_refl [simp]: "py_isclose a a"
  by (simp add: py_isclose_def)

text \<open>\<open>Decimal.quantize\<close> to a number of places, with the default \<open>ROUND_HALF_EVEN\<close>.\<close>

definition round_half_even :: "decimal \<Rightarrow> int" where
  "round_half_even x =
     (let f = \<lfloor>x\<rfloor>; r = x - of_int f
      in if r < 1 / 2 then f else if r > 1 / 2 then f + 1 else if even f then f else f + 1)"

definition dec_quantize :: "nat \<Rightarrow> decimal \<Rightarrow> decimal" where
  "dec_quantize places x = of_int (round_half_even (x * 10 ^ places)) / 10 ^ places"

lemma round_half_even_le_0_iff: "round_half_even x \<le> 0 \<longleftrightarrow> x \<le> 1 / 2"
proof -
  let ?f = "\<lfloor>x\<rfloor>"
  have lo: "of_int ?f \<le> x" and hi: "x < of_int ?f + 1"
    using floor_correct [of x] by simp_all
  consider "?f \<le> -1" | "?f = 0" | "?f \<ge> 1" by linarith
  then show ?thesis
  proof cases
    case 1
    then have "x < 0" by linarith
    with 1 show ?thesis by (auto simp: round_half_even_def Let_def)
  next
    case 2
    then show ?thesis by (auto simp: round_half_even_def Let_def)
  next
    case 3
    then have "x \<ge> 1" using lo by linarith
    with 3 show ?thesis by (auto simp: round_half_even_def Let_def) linarith
  qed
qed

lemma dec_quantize_le_0_iff: "dec_quantize n x \<le> 0 \<longleftrightarrow> x * 10 ^ n \<le> 1 / 2"
proof -
  have "(0 :: rat) < 10 ^ n" by simp
  then have "dec_quantize n x \<le> 0 \<longleftrightarrow> round_half_even (x * 10 ^ n) \<le> 0"
    by (simp add: dec_quantize_def pos_divide_le_eq)
  then show ?thesis by (simp add: round_half_even_le_0_iff)
qed

section \<open>JSON values\<close>

text \<open>
  The JSON the code writes and reads back. \<open>str\<close> of a \<open>Decimal\<close> or an
  \<open>int\<close> is kept as the value it denotes (\<open>Decimal(str(d)) == d\<close>); \<open>str(None)\<close>
  is a string that no number parser accepts.
\<close>

datatype json =
    JNull | JStr string | JDec pdecimal | JInt int | JNum decimal | JNoneStr
  | JList "json list" | JObj "(string \<times> json) list"

definition json_at :: "json \<Rightarrow> string \<Rightarrow> json py_result" where
  "json_at j k = (case j of JObj d \<Rightarrow> dict_at d k | _ \<Rightarrow> Inl TypeError)"

definition json_get :: "json \<Rightarrow> string \<Rightarrow> json \<Rightarrow> json py_result" where
  "json_get j k dflt =
     (case j of JObj d \<Rightarrow> Inr (case dict_get d k of None \<Rightarrow> dflt | Some v \<Rightarrow> v) | _ \<Rightarrow> Inl TypeError)"

fun json_str :: "json \<Rightarrow> string py_result" where
  "json_str (JStr s) = Inr s"
| "json_str _ = Inl TypeError"

fun json_opt_str :: "json \<Rightarrow> string option py_result" where
  "json_opt_str JNull = Inr None"
| "json_opt_str (JStr s) = Inr (Some s)"
| "json_opt_str _ = Inl TypeError"

fun json_pdecimal :: "json \<Rightarrow> pdecimal py_result" where
  \<comment> \<open>\<open>Decimal(v)\<close>\<close>
  "json_pdecimal (JDec d) = Inr d"
| "json_pdecimal (JInt i) = Inr (Fin (of_int i))"
| "json_pdecimal (JNum x) = Inr (Fin x)"
| "json_pdecimal (JStr _) = Inl InvalidOperation"
| "json_pdecimal JNoneStr = Inl InvalidOperation"
| "json_pdecimal _ = Inl TypeError"

definition json_decimal :: "json \<Rightarrow> decimal py_result" where
  \<comment> \<open>\<open>Decimal(v)\<close> where the model keeps finite values only\<close>
  "json_decimal j = ebind (json_pdecimal j) (\<lambda>d. case d of Fin x \<Rightarrow> Inr x | NaN \<Rightarrow> Inl InvalidOperation)"

fun json_int :: "json \<Rightarrow> int py_result" where
  "json_int (JInt i) = Inr i"
| "json_int _ = Inl ValueError"

fun json_num :: "json \<Rightarrow> decimal py_result" where
  "json_num (JNum x) = Inr x"
| "json_num _ = Inl TypeError"

fun json_list :: "json \<Rightarrow> json list py_result" where
  "json_list (JList js) = Inr js"
| "json_list _ = Inl TypeError"

fun json_items :: "json \<Rightarrow> (string \<times> json) list py_result" where
  "json_items (JObj d) = Inr d"
| "json_items _ = Inl TypeError"

lemma json_decimal_Fin [simp]: "json_decimal (JDec (Fin x)) = Inr x"
  by (simp add: json_decimal_def)

lemma json_at_hd [simp]: "json_at (JObj ((k, v) # d)) k = Inr v"
  by (simp add: json_at_def dict_at_def dict_get_def)

lemma json_at_tl [simp]: "k \<noteq> k' \<Longrightarrow> json_at (JObj ((k', v) # d)) k = json_at (JObj d) k"
  by (simp add: json_at_def dict_at_def dict_get_def)

lemma json_get_hd [simp]: "json_get (JObj ((k, v) # d)) k dflt = Inr v"
  by (simp add: json_get_def dict_get_def)

lemma json_get_tl [simp]:
  "k \<noteq> k' \<Longrightarrow> json_get (JObj ((k', v) # d)) k dflt = json_get (JObj d) k dflt"
  by (simp add: json_get_def dict_get_def)

section \<open>Strings\<close>

fun split_on :: "char \<Rightarrow> string \<Rightarrow> string list" where
  \<comment> \<open>\<open>s.split(c)\<close> for a one-character separator\<close>
  "split_on c [] = [[]]"
| "split_on c (x # xs) =
     (if x = c then [] # split_on c xs
      else (case split_on c xs of [] \<Rightarrow> [[x]] | w # ws \<Rightarrow> (x # w) # ws))"

lemma split_on_nonempty [simp]: "split_on c xs \<noteq> []"
  by (induction xs) (auto split: list.splits)

lemma split_on_no_sep: "c \<notin> set xs \<Longrightarrow> split_on c xs = [xs]"
  by (induction xs) auto

lemma split_on_append: "c \<notin> set xs \<Longrightarrow> split_on c (xs @ c # ys) = xs # split_on c ys"
  by (induction xs) auto

text \<open>\<open>str.upper\<close> on a character, for letters of the alphabet.\<close>

definition upper_char :: "char \<Rightarrow> char" where
  "upper_char c = (let n = of_char c :: nat in if 97 \<le> n \<and> n \<le> 122 then char_of (n - 32) else c)"

fun py_or :: "string option \<Rightarrow> string option \<Rightarrow> string option" where
  \<comment> \<open>\<open>a or b\<close> on optional strings: None and the empty string are falsy\<close>
  "py_or (Some (c # cs)) b = Some (c # cs)"
| "py_or _ b = b"

fun truthy_str :: "string option \<Rightarrow> bool" where
  "truthy_str (Some (c # cs)) = True"
| "truthy_str _ = False"

end
