(* ===== verification/Common_Types.thy ===== *)
theory Common_Types
  imports Prelude
begin

text \<open>
  The enumerations of \<open>core/data_type/common.py\<close>, \<open>OrderState\<close> and
  \<open>RunnableStatus\<close> with their numeric values (the code compares states by value),
  the trading-pair functions of \<open>connector/utils.py\<close> and \<open>GroupedSetDict\<close>.
\<close>

section \<open>Enumerations\<close>

datatype order_type = MARKET | LIMIT | LIMIT_MAKER | AMM_SWAP | AMM_ADD | AMM_REMOVE

datatype trade_type = BUY | SELL | RANGE

datatype position_action = OPEN | CLOSE | NIL

datatype position_side = LONG | SHORT | BOTH

datatype position_mode = HEDGE | ONEWAY

datatype price_type =
    MidPrice | BestBid | BestAsk | LastTrade | LastOwnTrade | InventoryCost | CustomPrice

fun is_limit_type :: "order_type \<Rightarrow> bool" where
  "is_limit_type LIMIT = True"
| "is_limit_type LIMIT_MAKER = True"
| "is_limit_type _ = False"

datatype order_state =
    PENDING_CREATE | OPEN_STATE | PENDING_CANCEL | CANCELED | PARTIALLY_FILLED | FILLED | FAILED
  | PENDING_APPROVAL | APPROVED | CREATED | COMPLETED

fun order_state_value :: "order_state \<Rightarrow> int" where
  "order_state_value PENDING_CREATE = 0"
| "order_state_value OPEN_STATE = 1"
| "order_state_value PENDING_CANCEL = 2"
| "order_state_value CANCELED = 3"
| "order_state_value PARTIALLY_FILLED = 4"
| "order_state_value FILLED = 5"
| "order_state_value FAILED = 6"
| "order_state_value PENDING_APPROVAL = 7"
| "order_state_value APPROVED = 8"
| "order_state_value CREATED = 9"
| "order_state_value COMPLETED = 10"

definition all_order_states :: "order_state list" where
  "all_order_states =
     [PENDING_CREATE, OPEN_STATE, PENDING_CANCEL, CANCELED, PARTIALLY_FILLED, FILLED, FAILED,
      PENDING_APPROVAL, APPROVED, CREATED, COMPLETED]"

text \<open>\<open>OrderState(v)\<close>: the member with that value, or ValueError.\<close>

definition order_state_of_value :: "int \<Rightarrow> order_state py_result" where
  "order_state_of_value v =
     (case List.find (\<lambda>s. order_state_value s = v) all_order_states of
        None \<Rightarrow> Inl ValueError | Some s \<Rightarrow> Inr s)"

lemma order_state_value_inject [simp]: "order_state_value a = order_state_value b \<longleftrightarrow> a = b"
  by (cases a; cases b) simp_all

lemma order_state_of_value_inv [simp]: "order_state_of_value (order_state_value s) = Inr s"
  by (cases s) (simp_all add: order_state_of_value_def all_order_states_def)

instantiation order_state :: linorder
begin

definition less_eq_order_state :: "order_state \<Rightarrow> order_state \<Rightarrow> bool" where
  "less_eq_order_state a b = (order_state_value a \<le> order_state_value b)"

definition less_order_state :: "order_state \<Rightarrow> order_state \<Rightarrow> bool" where
  "less_order_state a b = (order_state_value a < order_state_value b)"

instance
  by standard (auto simp: less_eq_order_state_def less_order_state_def)

end

datatype runnable_status = NOT_STARTED | RUNNING | SHUTTING_DOWN | TERMINATED

fun runnable_status_value :: "runnable_status \<Rightarrow> nat" where
  "runnable_status_value NOT_STARTED = 1"
| "runnable_status_value RUNNING = 2"
| "runnable_status_value SHUTTING_DOWN = 3"
| "runnable_status_value TERMINATED = 4"

lemma runnable_status_value_inject [simp]:
  "runnable_status_value a = runnable_status_value b \<longleftrightarrow> a = b"
  by (cases a; cases b) simp_all

instantiation runnable_status :: linorder
begin

definition less_eq_runnable_status :: "runnable_status \<Rightarrow> runnable_status \<Rightarrow> bool" where
  "less_eq_runnable_status a b = (runnable_status_value a \<le> runnable_status_value b)"

definition less_runnable_status :: "runnable_status \<Rightarrow> runnable_status \<Rightarrow> bool" where
  "less_runnable_status a b = (runnable_status_value a < runnable_status_value b)"

instance
  by standard (auto simp: less_eq_runnable_status_def less_runnable_status_def)

end

lemmas status_order_simps = less_eq_runnable_status_def less_runnable_status_def

lemma status_le_TERMINATED [simp]: "(s :: runnable_status) \<le> TERMINATED"
  by (cases s) (simp_all add: status_order_simps)

lemma TERMINATED_le_iff [simp]: "TERMINATED \<le> s \<longleftrightarrow> s = TERMINATED"
  by (cases s) (simp_all add: status_order_simps)

datatype close_type =
    TIME_LIMIT | STOP_LOSS | TAKE_PROFIT | EXPIRED | EARLY_STOP | TRAILING_STOP
  | INSUFFICIENT_BALANCE | FAILED_CLOSE | COMPLETED_CLOSE | POSITION_HOLD

section \<open>Trading pairs\<close>

definition split_hb_trading_pair :: "string \<Rightarrow> (string \<times> string) py_result" where
  "split_hb_trading_pair pair =
     (case split_on CHR ''-'' pair of [b, q] \<Rightarrow> Inr (b, q) | _ \<Rightarrow> Inl ValueError)"

definition combine_to_hb_trading_pair :: "string \<Rightarrow> string \<Rightarrow> string" where
  "combine_to_hb_trading_pair base quote = base @ ''-'' @ quote"

definition validate_trading_pair :: "string \<Rightarrow> bool" where
  "validate_trading_pair pair = (CHR ''-'' \<in> set pair \<and> length (split_on CHR ''-'' pair) = 2)"

lemma split_combine_hb_trading_pair [simp]:
  assumes "CHR ''-'' \<notin> set base" and "CHR ''-'' \<notin> set quote"
  shows "split_hb_trading_pair (combine_to_hb_trading_pair base quote) = Inr (base, quote)"
  using assms
  by (simp add: split_hb_trading_pair_def combine_to_hb_trading_pair_def split_on_append
      split_on_no_sep)

lemma validate_trading_pair_iff_split:
  "validate_trading_pair pair \<longleftrightarrow> (\<exists>b q. split_hb_trading_pair pair = Inr (b, q))"
proof -
  have "length (split_on CHR ''-'' pair) = 2 \<Longrightarrow> CHR ''-'' \<in> set pair"
    by (rule ccontr) (simp add: split_on_no_sep)
  then show ?thesis
    by (auto simp: validate_trading_pair_def split_hb_trading_pair_def split: list.splits)
qed

section \<open>GroupedSetDict\<close>

text \<open>A dictionary of sets; the sets are kept as lists without duplicates.\<close>

type_synonym ('k, 'v) grouped_set_dict = "('k, 'v list) dict"

definition gsd_add_or_update ::
  "('k, 'v) grouped_set_dict \<Rightarrow> 'k \<Rightarrow> 'v list \<Rightarrow> ('k, 'v) grouped_set_dict" where
  "gsd_add_or_update d key args =
     (case dict_get d key of
        Some vs \<Rightarrow> dict_set d key (fold List.insert args vs)
      | None \<Rightarrow> dict_set d key (fold List.insert args []))"

definition gsd_remove ::
  "('k, 'v) grouped_set_dict \<Rightarrow> 'k \<Rightarrow> 'v \<Rightarrow> ('k, 'v) grouped_set_dict" where
  "gsd_remove d key v =
     (case dict_get d key of
        Some vs \<Rightarrow>
          (let vs' = removeAll v vs
           in if vs' = [] then dict_del d key else dict_set d key vs')
      | None \<Rightarrow> d)"

definition gsd_member :: "('k, 'v) grouped_set_dict \<Rightarrow> 'k \<Rightarrow> 'v \<Rightarrow> bool" where
  "gsd_member d key v = (case dict_get d key of None \<Rightarrow> False | Some vs \<Rightarrow> v \<in> set vs)"

lemma set_fold_insert: "set (fold List.insert xs ys) = set xs \<union> set ys"
  by (induction xs arbitrary: ys) auto

lemma gsd_member_add:
  "gsd_member (gsd_add_or_update d key args) k v \<longleftrightarrow> (k = key \<and> v \<in> set args) \<or> gsd_member d k v"
  by (auto simp: gsd_member_def gsd_add_or_update_def set_fold_insert split: option.splits)

lemma gsd_member_remove:
  "gsd_member (gsd_remove d key u) k v \<longleftrightarrow> gsd_member d k v \<and> \<not> (k = key \<and> v = u)"
proof -
  have "removeAll u vs = [] \<Longrightarrow> v \<in> set vs \<Longrightarrow> v = u" for vs
    by (metis Diff_iff empty_iff list.set(1) set_removeAll singletonD)
  then show ?thesis
    by (auto simp: gsd_member_def gsd_remove_def Let_def split: option.splits)
qed

end
