(* ===== verification/Trade_Fee.thy ===== *)
theory Trade_Fee
  imports Common_Types
begin

text \<open>
  \<open>core/data_type/trade_fee.py\<close> and \<open>core/utils/estimate_fee.py\<close>: token amounts, fee
  schemas, the two fee classes with their JSON form, the choice of the class, and the
  conversion of a fee into a token. The rate oracle is a parameter \<open>rate\<close> (its
  \<open>get_pair_rate\<close>), the configured schema of an exchange an argument.
  The fee's impact on an order's cost and returns is in \<open>Order_Candidate\<close>, beside the
  candidate it reads.
\<close>

section \<open>Token amounts\<close>

record token_amount =
  ta_token :: string
  ta_amount :: decimal

definition token_amount_to_json :: "token_amount \<Rightarrow> json" where
  "token_amount_to_json ta =
     JObj [(''token'', JStr (ta_token ta)), (''amount'', JDec (Fin (ta_amount ta)))]"

definition token_amount_from_json :: "json \<Rightarrow> token_amount py_result" where
  "token_amount_from_json j =
     ebind (ebind (json_at j ''token'') json_str) (\<lambda>t.
     ebind (ebind (json_at j ''amount'') json_decimal) (\<lambda>a.
     Inr \<lparr>ta_token = t, ta_amount = a\<rparr>))"

lemma token_amount_json_roundtrip [simp]:
  "token_amount_from_json (token_amount_to_json ta) = Inr ta"
  by (simp add: token_amount_from_json_def token_amount_to_json_def)

section \<open>Fee schemas\<close>

record trade_fee_schema =
  percent_fee_token :: "string option"
  maker_percent_fee_decimal :: decimal
  taker_percent_fee_decimal :: decimal
  buy_percent_fee_deducted_from_returns :: bool
  maker_fixed_fees :: "token_amount list"
  taker_fixed_fees :: "token_amount list"

definition validate_schema :: "trade_fee_schema \<Rightarrow> trade_fee_schema py_result" where
  "validate_schema sch =
     (if percent_fee_token sch \<noteq> None \<and> buy_percent_fee_deducted_from_returns sch
      then Inl AssertionError else Inr sch)"

section \<open>Fees\<close>

datatype fee_class = AddedToCost | DeductedFromReturns

record trade_fee =
  fee_kind :: fee_class
  fee_percent :: decimal
  fee_percent_token :: "string option"
  flat_fees :: "token_amount list"

fun type_descriptor_for_json :: "fee_class \<Rightarrow> string" where
  "type_descriptor_for_json AddedToCost = ''AddedToCost''"
| "type_descriptor_for_json DeductedFromReturns = ''DeductedFromReturns''"

definition fee_class_for_type :: "string \<Rightarrow> fee_class py_result" where
  "fee_class_for_type d =
     dict_at [(type_descriptor_for_json AddedToCost, AddedToCost),
              (type_descriptor_for_json DeductedFromReturns, DeductedFromReturns)] d"

definition new_spot_fee ::
  "trade_fee_schema \<Rightarrow> trade_type \<Rightarrow> decimal \<Rightarrow> string option \<Rightarrow> token_amount list option \<Rightarrow> trade_fee" where
  "new_spot_fee sch tt pct pct_token flats =
     \<lparr>fee_kind =
        (if tt = BUY \<and> (\<not> buy_percent_fee_deducted_from_returns sch \<or> percent_fee_token sch \<noteq> None)
         then AddedToCost else DeductedFromReturns),
      fee_percent = pct, fee_percent_token = pct_token,
      flat_fees = (case flats of None \<Rightarrow> [] | Some fs \<Rightarrow> fs)\<rparr>"

definition new_perpetual_fee ::
  "trade_fee_schema \<Rightarrow> position_action \<Rightarrow> decimal \<Rightarrow> string option \<Rightarrow> token_amount list option \<Rightarrow> trade_fee" where
  "new_perpetual_fee sch pa pct pct_token flats =
     \<lparr>fee_kind =
        (if pa = OPEN \<or> percent_fee_token sch \<noteq> None then AddedToCost else DeductedFromReturns),
      fee_percent = pct, fee_percent_token = pct_token,
      flat_fees = (case flats of None \<Rightarrow> [] | Some fs \<Rightarrow> fs)\<rparr>"

definition trade_fee_to_json :: "trade_fee \<Rightarrow> json" where
  "trade_fee_to_json f =
     JObj [(''fee_type'', JStr (type_descriptor_for_json (fee_kind f))),
           (''percent'', JDec (Fin (fee_percent f))),
           (''percent_token'', (case fee_percent_token f of None \<Rightarrow> JNull | Some t \<Rightarrow> JStr t)),
           (''flat_fees'', JList (map token_amount_to_json (flat_fees f)))]"

definition trade_fee_from_json :: "json \<Rightarrow> trade_fee py_result" where
  "trade_fee_from_json j =
     ebind (ebind (ebind (json_at j ''fee_type'') json_str) fee_class_for_type) (\<lambda>k.
     ebind (ebind (json_at j ''percent'') json_decimal) (\<lambda>p.
     ebind (ebind (json_at j ''percent_token'') json_opt_str) (\<lambda>pt.
     ebind (ebind (ebind (json_at j ''flat_fees'') json_list) (emap token_amount_from_json)) (\<lambda>fs.
     Inr \<lparr>fee_kind = k, fee_percent = p, fee_percent_token = pt, flat_fees = fs\<rparr>))))"

definition fee_asset :: "trade_fee \<Rightarrow> string option" where
  "fee_asset f =
     py_or (fee_percent_token f) (case flat_fees f of [] \<Rightarrow> None | ta # _ \<Rightarrow> Some (ta_token ta))"

lemma fee_class_for_type_inv [simp]: "fee_class_for_type (type_descriptor_for_json k) = Inr k"
  by (cases k) (simp_all add: fee_class_for_type_def dict_at_def dict_get_def)

lemma emap_token_amount_roundtrip [simp]:
  "emap token_amount_from_json (map token_amount_to_json fs) = Inr fs"
  by (induction fs) simp_all

lemma trade_fee_json_inverse [simp]: "trade_fee_from_json (trade_fee_to_json f) = Inr f"
  by (cases "fee_percent_token f") (simp_all add: trade_fee_from_json_def trade_fee_to_json_def)

section \<open>Conversion of a fee into a token\<close>

definition interchangeable_tokens :: "string list list" where
  "interchangeable_tokens =
     [[''WETH'', ''ETH''], [''WBNB'', ''BNB''], [''WPOL'', ''POL''], [''WAVAX'', ''AVAX''],
      [''WONE'', ''ONE''], [''USDC'', ''USDC.E''], [''WBTC'', ''BTC''], [''USOL'', ''SOL''],
      [''UETH'', ''ETH''], [''UBTC'', ''BTC'']]"

definition are_tokens_interchangeable :: "string \<Rightarrow> string \<Rightarrow> bool" where
  "are_tokens_interchangeable a b =
     (a = b \<or> list_ex (\<lambda>pr. a \<in> set pr \<and> b \<in> set pr) interchangeable_tokens)"

type_synonym rate_source = "string \<Rightarrow> decimal option"

definition get_exchange_rate :: "rate_source \<Rightarrow> string \<Rightarrow> decimal py_result" where
  "get_exchange_rate rate pair = (case rate pair of None \<Rightarrow> Inl ValueError | Some r \<Rightarrow> Inr r)"

definition percent_fee_in_token ::
  "rate_source \<Rightarrow> trade_fee \<Rightarrow> string \<Rightarrow> string \<Rightarrow> decimal \<Rightarrow> decimal \<Rightarrow> string \<Rightarrow> decimal py_result" where
  "percent_fee_in_token rate f pair quote price order_amount token =
     (if fee_percent f = 0 then Inr 0
      else let amount_from_percentage = (price * order_amount) * fee_percent f in
        if are_tokens_interchangeable quote token then Inr amount_from_percentage
        else ebind (get_exchange_rate rate pair) (\<lambda>r.
               let r' = (if r = 0 then (if price > 0 then price else 1) else r)
               in dec_div amount_from_percentage r'))"

fun flat_fees_in_token ::
  "rate_source \<Rightarrow> string \<Rightarrow> string \<Rightarrow> decimal \<Rightarrow> string \<Rightarrow> token_amount list \<Rightarrow> decimal \<Rightarrow> decimal py_result" where
  "flat_fees_in_token rate base quote price token [] acc = Inr acc"
| "flat_fees_in_token rate base quote price token (ff # ffs) acc =
     (if are_tokens_interchangeable (ta_token ff) token
      then flat_fees_in_token rate base quote price token ffs (acc + ta_amount ff)
      else if are_tokens_interchangeable (ta_token ff) base \<and> are_tokens_interchangeable quote token
      then flat_fees_in_token rate base quote price token ffs (acc + ta_amount ff * price)
      else ebind (get_exchange_rate rate (combine_to_hb_trading_pair (ta_token ff) token)) (\<lambda>r.
             flat_fees_in_token rate base quote price token ffs (acc + ta_amount ff * r)))"

definition fee_amount_in_token ::
  "rate_source \<Rightarrow> trade_fee \<Rightarrow> string \<Rightarrow> decimal \<Rightarrow> decimal \<Rightarrow> string \<Rightarrow> decimal py_result" where
  "fee_amount_in_token rate f pair price order_amount token =
     ebind (split_hb_trading_pair pair) (\<lambda>(base, quote).
     ebind (percent_fee_in_token rate f pair quote price order_amount token) (\<lambda>acc.
     flat_fees_in_token rate base quote price token (flat_fees f) acc))"

lemma are_tokens_interchangeable_refl [simp]: "are_tokens_interchangeable t t"
  by (simp add: are_tokens_interchangeable_def)

lemma are_tokens_interchangeable_sym:
  "are_tokens_interchangeable a b \<longleftrightarrow> are_tokens_interchangeable b a"
  by (auto simp: are_tokens_interchangeable_def list_ex_iff)

text \<open>The zero-rate guard: the conversion never divides by zero.\<close>

lemma percent_fee_no_zero_division:
  "percent_fee_in_token rate f pair quote price amt token \<noteq> Inl ZeroDivisionError \<and>
   percent_fee_in_token rate f pair quote price amt token \<noteq> Inl InvalidOperation"
  by (auto simp: percent_fee_in_token_def get_exchange_rate_def Let_def dec_div_def ebind_def
      split: option.splits)

lemma flat_fees_only_ValueError:
  "flat_fees_in_token rate base quote price token ffs acc = Inl e \<Longrightarrow> e = ValueError"
  by (induction ffs arbitrary: acc)
    (auto simp: get_exchange_rate_def ebind_def split: if_splits option.splits)

lemma percent_fee_only_ValueError:
  "percent_fee_in_token rate f pair quote price amt token = Inl e \<Longrightarrow> e = ValueError"
  by (auto simp: percent_fee_in_token_def get_exchange_rate_def Let_def dec_div_def ebind_def
      split: option.splits if_splits)

lemma fee_amount_only_ValueError:
  "fee_amount_in_token rate f pair price amt token = Inl e \<Longrightarrow> e = ValueError"
  by (auto simp: fee_amount_in_token_def ebind_eq_Inl_iff split_hb_trading_pair_def
      dest: flat_fees_only_ValueError percent_fee_only_ValueError split: list.splits)

text \<open>A flat-fee fold only adds to its accumulator.\<close>

lemma flat_fees_in_token_shift:
  "flat_fees_in_token rate base quote price token ffs (acc + d) =
     ebind (flat_fees_in_token rate base quote price token ffs acc) (\<lambda>x. Inr (x + d))"
proof (induction ffs arbitrary: acc)
  case Nil
  then show ?case by simp
next
  case (Cons ff ffs)
  have shift: "acc + d + x = acc + x + d" for x by simp
  show ?case
    by (simp add: shift Cons.IH ebind_assoc del: add.assoc)
qed

lemma flat_fees_in_token_mono:
  assumes "flat_fees_in_token rate base quote price token ffs acc = Inr r"
    and "\<And>ff. ff \<in> set ffs \<Longrightarrow> 0 \<le> ta_amount ff"
    and "0 \<le> price" and "\<And>p q. rate p = Some q \<Longrightarrow> 0 \<le> q"
  shows "acc \<le> r"
  using assms
proof (induction ffs arbitrary: acc)
  case Nil
  then show ?case by simp
next
  case (Cons ff ffs)
  have step: "flat_fees_in_token rate base quote price token ffs (acc + x) = Inr r \<Longrightarrow> 0 \<le> x \<Longrightarrow> acc \<le> r"
    for x using Cons.IH [of "acc + x"] Cons.prems(2-4) by (auto intro: order_trans [rotated])
  have "0 \<le> ta_amount ff" using Cons.prems(2) by simp
  moreover have "0 \<le> q" if "rate p = Some q" for p q using that Cons.prems(4) by blast
  ultimately show ?case
    using Cons.prems(1,3) step
    by (auto simp: get_exchange_rate_def ebind_def split: if_splits option.splits)
qed

section \<open>Building the fee of an order\<close>

definition build_trade_fee ::
  "trade_fee_schema \<Rightarrow> bool \<Rightarrow> trade_type \<Rightarrow> token_amount list option \<Rightarrow> trade_fee" where
  "build_trade_fee sch is_maker side extra_flat_fees =
     (let pct = (if is_maker then maker_percent_fee_decimal sch else taker_percent_fee_decimal sch);
          fixed = (if is_maker then maker_fixed_fees sch else taker_fixed_fees sch);
          fixed = (case extra_flat_fees of
                     Some ex \<Rightarrow> if length ex > 0 then fixed @ ex else fixed
                   | None \<Rightarrow> fixed)
      in new_spot_fee sch side pct (percent_fee_token sch) (Some fixed))"

definition build_perpetual_trade_fee ::
  "trade_fee_schema \<Rightarrow> bool \<Rightarrow> position_action \<Rightarrow> trade_fee" where
  "build_perpetual_trade_fee sch is_maker pa =
     (let pct = (if is_maker then maker_percent_fee_decimal sch else taker_percent_fee_decimal sch);
          fixed = (if is_maker then maker_fixed_fees sch else taker_fixed_fees sch)
      in new_perpetual_fee sch pa pct (percent_fee_token sch) (Some fixed))"

lemma flat_fees_build_trade_fee [simp]:
  "flat_fees (build_trade_fee sch mk side None) = (if mk then maker_fixed_fees sch else taker_fixed_fees sch)"
  by (simp add: build_trade_fee_def new_spot_fee_def Let_def)

lemma fee_percent_build_trade_fee [simp]:
  "fee_percent (build_trade_fee sch mk side ex) =
     (if mk then maker_percent_fee_decimal sch else taker_percent_fee_decimal sch)"
  by (simp add: build_trade_fee_def new_spot_fee_def Let_def)

lemma fee_percent_token_build_trade_fee [simp]:
  "fee_percent_token (build_trade_fee sch mk side ex) = percent_fee_token sch"
  by (simp add: build_trade_fee_def new_spot_fee_def Let_def)

text \<open>
  A fee that is paid in its own token never reduces the returns of a spot order: where a
  valid schema names a percent token, the buy fee is added to the cost.
\<close>

lemma build_trade_fee_percent_token_added:
  "percent_fee_token sch \<noteq> None \<Longrightarrow> fee_kind (build_trade_fee sch mk BUY ex) = AddedToCost"
  by (simp add: build_trade_fee_def new_spot_fee_def Let_def)

end
