(* ===== verification/In_Flight_Order.thy ===== *)
theory In_Flight_Order
  imports Trade_Fee "HOL-Library.Multiset"
begin

text \<open>
  \<open>core/data_type/in_flight_order.py\<close>: the order a connector tracks while it lives on the
  exchange. The record holds the Python object's attributes, its dictionary of fills by
  trade id and its three one-way \<open>asyncio.Event\<close>s; the two update methods return the new
  object and whether it changed.
\<close>

section \<open>Data\<close>

record order_update =
  ou_trading_pair :: string
  ou_timestamp :: decimal
  ou_new_state :: order_state
  ou_client_order_id :: "string option"
  ou_exchange_order_id :: "string option"
  ou_misc_updates :: "(string, string) dict option"

record trade_update =
  tu_trade_id :: string
  tu_client_order_id :: string
  tu_exchange_order_id :: string
  tu_trading_pair :: string
  tu_fill_timestamp :: decimal
  tu_fill_price :: decimal
  tu_fill_base_amount :: decimal
  tu_fill_quote_amount :: decimal
  tu_fee :: trade_fee
  tu_is_taker :: bool

record in_flight_order =
  o_client_order_id :: string
  o_trading_pair :: string
  o_order_type :: order_type
  o_trade_type :: trade_type
  o_price :: "pdecimal option"
  o_amount :: decimal
  o_exchange_order_id :: "string option"
  o_current_state :: order_state
  o_leverage :: int
  o_position :: position_action
  o_executed_amount_base :: decimal
  o_executed_amount_quote :: decimal
  o_creation_timestamp :: decimal
  o_last_update_timestamp :: decimal
  o_order_fills :: "(string, trade_update) dict"
  o_exchange_order_id_update_event :: bool
  o_completely_filled_event :: bool
  o_processed_by_exchange_event :: bool

section \<open>Conditions on the events\<close>

definition check_filled_condition :: "in_flight_order \<Rightarrow> in_flight_order" where
  "check_filled_condition ord =
     (if dec_quantize 8 (\<bar>o_amount ord\<bar> - o_executed_amount_base ord) \<le> 0
      then ord\<lparr>o_completely_filled_event := True\<rparr> else ord)"

definition check_processed_by_exchange_condition :: "in_flight_order \<Rightarrow> in_flight_order" where
  "check_processed_by_exchange_condition ord =
     (if order_state_value (o_current_state ord) > order_state_value PENDING_CREATE
      then ord\<lparr>o_processed_by_exchange_event := True\<rparr> else ord)"

definition new_in_flight_order ::
  "string \<Rightarrow> string \<Rightarrow> order_type \<Rightarrow> trade_type \<Rightarrow> decimal \<Rightarrow> decimal \<Rightarrow> pdecimal option \<Rightarrow>
   string option \<Rightarrow> order_state \<Rightarrow> int \<Rightarrow> position_action \<Rightarrow> in_flight_order" where
  "new_in_flight_order cid pair ot tt amount created price exid st lev pos =
     check_processed_by_exchange_condition
       \<lparr>o_client_order_id = cid, o_trading_pair = pair, o_order_type = ot, o_trade_type = tt,
        o_price = price, o_amount = amount, o_exchange_order_id = exid, o_current_state = st,
        o_leverage = lev, o_position = pos, o_executed_amount_base = 0,
        o_executed_amount_quote = 0, o_creation_timestamp = created,
        o_last_update_timestamp = created, o_order_fills = [],
        o_exchange_order_id_update_event = truthy_str exid,
        o_completely_filled_event = False, o_processed_by_exchange_event = False\<rparr>"

section \<open>Queries\<close>

definition base_asset :: "in_flight_order \<Rightarrow> string" where
  "base_asset ord = hd (split_on CHR ''-'' (o_trading_pair ord))"

definition quote_asset :: "in_flight_order \<Rightarrow> string py_result" where
  "quote_asset ord =
     (case split_on CHR ''-'' (o_trading_pair ord) of _ # q # _ \<Rightarrow> Inr q | _ \<Rightarrow> Inl IndexError)"

definition is_open :: "in_flight_order \<Rightarrow> bool" where
  "is_open ord =
     (o_current_state ord \<in> set [PENDING_CREATE, OPEN_STATE, PARTIALLY_FILLED, PENDING_CANCEL])"

definition is_done :: "in_flight_order \<Rightarrow> bool" where
  "is_done ord =
     (o_current_state ord \<in> set [CANCELED, FILLED, FAILED]
      \<or> py_isclose (o_executed_amount_base ord) (o_amount ord)
      \<or> o_executed_amount_base ord \<ge> o_amount ord)"

definition is_filled :: "in_flight_order \<Rightarrow> bool" where
  "is_filled ord =
     (o_current_state ord = FILLED
      \<or> (o_amount ord \<noteq> 0 \<and>
         (py_isclose (o_executed_amount_base ord) (o_amount ord)
          \<or> o_executed_amount_base ord \<ge> o_amount ord)))"

definition is_failure :: "in_flight_order \<Rightarrow> bool" where
  "is_failure ord = (o_current_state ord = FAILED)"

definition is_cancelled :: "in_flight_order \<Rightarrow> bool" where
  "is_cancelled ord = (o_current_state ord = CANCELED)"

fun fill_totals :: "trade_update list \<Rightarrow> decimal \<Rightarrow> decimal \<Rightarrow> decimal \<times> decimal" where
  "fill_totals [] value base = (value, base)"
| "fill_totals (f # fs) value base =
     fill_totals fs (value + tu_fill_price f * tu_fill_base_amount f) (base + tu_fill_base_amount f)"

definition average_executed_price :: "in_flight_order \<Rightarrow> decimal option" where
  "average_executed_price ord =
     (let (value, base) = fill_totals (dict_values (o_order_fills ord)) 0 0
      in if value = 0 \<or> base = 0 then None else Some (value / base))"

text \<open>
  \<open>cumulative_fee_paid\<close> adds the fills' fees one by one; an exception in the middle is
  logged and the partial sum is returned.
\<close>

fun sum_fees :: "rate_source \<Rightarrow> string \<Rightarrow> string \<Rightarrow> trade_update list \<Rightarrow> decimal \<Rightarrow> decimal" where
  "sum_fees rate pair token [] acc = acc"
| "sum_fees rate pair token (f # fs) acc =
     (case fee_amount_in_token rate (tu_fee f) pair (tu_fill_price f) (tu_fill_base_amount f) token of
        Inl _ \<Rightarrow> acc
      | Inr x \<Rightarrow> sum_fees rate pair token fs (acc + x))"

definition cumulative_fee_paid :: "rate_source \<Rightarrow> in_flight_order \<Rightarrow> string \<Rightarrow> decimal" where
  "cumulative_fee_paid rate ord token =
     sum_fees rate (o_trading_pair ord) token (dict_values (o_order_fills ord)) 0"

section \<open>Updates\<close>

definition update_exchange_order_id :: "in_flight_order \<Rightarrow> string \<Rightarrow> in_flight_order" where
  "update_exchange_order_id ord exid =
     ord\<lparr>o_exchange_order_id := Some exid, o_exchange_order_id_update_event := True\<rparr>"

definition update_with_order_update :: "in_flight_order \<Rightarrow> order_update \<Rightarrow> in_flight_order \<times> bool" where
  "update_with_order_update ord u =
     (if ou_client_order_id u \<noteq> Some (o_client_order_id ord)
         \<and> ou_exchange_order_id u \<noteq> o_exchange_order_id ord
      then (ord, False)
      else
        let prev = (o_exchange_order_id ord, o_current_state ord);
            o1 = (case (o_exchange_order_id ord, ou_exchange_order_id u) of
                    (None, Some exid) \<Rightarrow> update_exchange_order_id ord exid
                  | _ \<Rightarrow> ord);
            o2 = check_processed_by_exchange_condition (o1\<lparr>o_current_state := ou_new_state u\<rparr>);
            updated = (prev \<noteq> (o_exchange_order_id o2, o_current_state o2))
        in (if updated then o2\<lparr>o_last_update_timestamp := ou_timestamp u\<rparr> else o2, updated))"

definition update_with_trade_update :: "in_flight_order \<Rightarrow> trade_update \<Rightarrow> in_flight_order \<times> bool" where
  "update_with_trade_update ord t =
     (if dict_has (o_order_fills ord) (tu_trade_id t)
         \<or> (o_client_order_id ord \<noteq> tu_client_order_id t
            \<and> o_exchange_order_id ord \<noteq> Some (tu_exchange_order_id t))
      then (ord, False)
      else
        (check_filled_condition
           (ord\<lparr>o_order_fills := dict_set (o_order_fills ord) (tu_trade_id t) t,
                o_executed_amount_base := o_executed_amount_base ord + tu_fill_base_amount t,
                o_executed_amount_quote := o_executed_amount_quote ord + tu_fill_quote_amount t,
                o_last_update_timestamp := tu_fill_timestamp t\<rparr>), True))"

section \<open>JSON\<close>

fun order_type_name :: "order_type \<Rightarrow> string" where
  "order_type_name MARKET = ''MARKET''"
| "order_type_name LIMIT = ''LIMIT''"
| "order_type_name LIMIT_MAKER = ''LIMIT_MAKER''"
| "order_type_name AMM_SWAP = ''AMM_SWAP''"
| "order_type_name AMM_ADD = ''AMM_ADD''"
| "order_type_name AMM_REMOVE = ''AMM_REMOVE''"

fun trade_type_name :: "trade_type \<Rightarrow> string" where
  "trade_type_name BUY = ''BUY''"
| "trade_type_name SELL = ''SELL''"
| "trade_type_name RANGE = ''RANGE''"

fun position_action_value :: "position_action \<Rightarrow> string" where
  "position_action_value OPEN = ''OPEN''"
| "position_action_value CLOSE = ''CLOSE''"
| "position_action_value NIL = ''NIL''"

definition enum_by_name :: "('a \<Rightarrow> string) \<Rightarrow> 'a list \<Rightarrow> py_error \<Rightarrow> string \<Rightarrow> 'a py_result" where
  "enum_by_name name members err n =
     (case List.find (\<lambda>x. name x = n) members of None \<Rightarrow> Inl err | Some x \<Rightarrow> Inr x)"

definition order_type_of_name :: "string \<Rightarrow> order_type py_result" where
  "order_type_of_name =
     enum_by_name order_type_name [MARKET, LIMIT, LIMIT_MAKER, AMM_SWAP, AMM_ADD, AMM_REMOVE] AttributeError"

definition trade_type_of_name :: "string \<Rightarrow> trade_type py_result" where
  "trade_type_of_name = enum_by_name trade_type_name [BUY, SELL, RANGE] AttributeError"

definition position_action_of_value :: "string \<Rightarrow> position_action py_result" where
  "position_action_of_value = enum_by_name position_action_value [OPEN, CLOSE, NIL] ValueError"

lemma order_type_of_name_inverse [simp]: "order_type_of_name (order_type_name ot) = Inr ot"
  by (cases ot) (simp_all add: order_type_of_name_def enum_by_name_def)

lemma trade_type_of_name_inverse [simp]: "trade_type_of_name (trade_type_name tt) = Inr tt"
  by (cases tt) (simp_all add: trade_type_of_name_def enum_by_name_def)

lemma position_action_of_value_inverse [simp]:
  "position_action_of_value (position_action_value pa) = Inr pa"
  by (cases pa) (simp_all add: position_action_of_value_def enum_by_name_def)

definition trade_update_to_json :: "trade_update \<Rightarrow> json" where
  "trade_update_to_json t =
     JObj [(''trade_id'', JStr (tu_trade_id t)),
           (''client_order_id'', JStr (tu_client_order_id t)),
           (''exchange_order_id'', JStr (tu_exchange_order_id t)),
           (''trading_pair'', JStr (tu_trading_pair t)),
           (''fill_timestamp'', JNum (tu_fill_timestamp t)),
           (''fill_price'', JDec (Fin (tu_fill_price t))),
           (''fill_base_amount'', JDec (Fin (tu_fill_base_amount t))),
           (''fill_quote_amount'', JDec (Fin (tu_fill_quote_amount t))),
           (''fee'', trade_fee_to_json (tu_fee t)),
           (''is_taker'', JInt (if tu_is_taker t then 1 else 0))]"

definition trade_update_from_json :: "json \<Rightarrow> trade_update py_result" where
  "trade_update_from_json j =
     ebind (ebind (json_at j ''trade_id'') json_str) (\<lambda>tid.
     ebind (ebind (json_at j ''client_order_id'') json_str) (\<lambda>cid.
     ebind (ebind (json_at j ''exchange_order_id'') json_str) (\<lambda>eid.
     ebind (ebind (json_at j ''trading_pair'') json_str) (\<lambda>pair.
     ebind (ebind (json_at j ''fill_timestamp'') json_num) (\<lambda>ts.
     ebind (ebind (json_at j ''fill_price'') json_decimal) (\<lambda>price.
     ebind (ebind (json_at j ''fill_base_amount'') json_decimal) (\<lambda>base.
     ebind (ebind (json_at j ''fill_quote_amount'') json_decimal) (\<lambda>qt.
     ebind (ebind (json_at j ''fee'') trade_fee_from_json) (\<lambda>fee.
     Inr \<lparr>tu_trade_id = tid, tu_client_order_id = cid, tu_exchange_order_id = eid,
          tu_trading_pair = pair, tu_fill_timestamp = ts, tu_fill_price = price,
          tu_fill_base_amount = base, tu_fill_quote_amount = qt, tu_fee = fee,
          tu_is_taker = True\<rparr>)))))))))"

text \<open>\<open>is_taker\<close> is written but never read back: a maker fill returns as a taker fill.\<close>

lemma trade_update_json_inverse [simp]:
  "trade_update_from_json (trade_update_to_json t) = Inr (t\<lparr>tu_is_taker := True\<rparr>)"
  by (simp add: trade_update_from_json_def trade_update_to_json_def)

definition order_to_json :: "rate_source \<Rightarrow> in_flight_order \<Rightarrow> json py_result" where
  "order_to_json rate ord =
     ebind (quote_asset ord) (\<lambda>qa.
     Inr (JObj
       [(''client_order_id'', JStr (o_client_order_id ord)),
        (''exchange_order_id'', (case o_exchange_order_id ord of None \<Rightarrow> JNull | Some e \<Rightarrow> JStr e)),
        (''trading_pair'', JStr (o_trading_pair ord)),
        (''order_type'', JStr (order_type_name (o_order_type ord))),
        (''trade_type'', JStr (trade_type_name (o_trade_type ord))),
        (''price'', (case o_price ord of None \<Rightarrow> JNoneStr | Some p \<Rightarrow> JDec p)),
        (''amount'', JDec (Fin (o_amount ord))),
        (''executed_amount_base'', JDec (Fin (o_executed_amount_base ord))),
        (''executed_amount_quote'', JDec (Fin (o_executed_amount_quote ord))),
        (''last_state'', JInt (order_state_value (o_current_state ord))),
        (''leverage'', JInt (o_leverage ord)),
        (''position'', JStr (position_action_value (o_position ord))),
        (''creation_timestamp'', JNum (o_creation_timestamp ord)),
        (''last_update_timestamp'', JNum (o_last_update_timestamp ord)),
        (''order_fills'', JObj (map (\<lambda>(k, f). (k, trade_update_to_json f)) (o_order_fills ord))),
        (''cumulative_fee_paid_base'', JNum (cumulative_fee_paid rate ord (base_asset ord))),
        (''cumulative_fee_paid_quote'', JNum (cumulative_fee_paid rate ord qa))]))"

fun fills_from_json :: "(string \<times> json) list \<Rightarrow> (string, trade_update) dict \<Rightarrow> (string, trade_update) dict py_result" where
  "fills_from_json [] acc = Inr acc"
| "fills_from_json ((k, j) # js) acc =
     ebind (trade_update_from_json j) (\<lambda>t. fills_from_json js (dict_set acc k t))"

definition order_from_json :: "json \<Rightarrow> in_flight_order py_result" where
  "order_from_json j =
     ebind (ebind (json_at j ''client_order_id'') json_str) (\<lambda>cid.
     ebind (ebind (json_at j ''trading_pair'') json_str) (\<lambda>pair.
     ebind (ebind (ebind (json_at j ''order_type'') json_str) order_type_of_name) (\<lambda>ot.
     ebind (ebind (ebind (json_at j ''trade_type'') json_str) trade_type_of_name) (\<lambda>tt.
     ebind (ebind (json_at j ''amount'') json_decimal) (\<lambda>amount.
     ebind (ebind (json_at j ''price'') json_pdecimal) (\<lambda>price.
     ebind (ebind (json_at j ''exchange_order_id'') json_opt_str) (\<lambda>exid.
     ebind (ebind (ebind (json_at j ''last_state'') json_int) order_state_of_value) (\<lambda>st.
     ebind (ebind (json_at j ''leverage'') json_int) (\<lambda>lev.
     ebind (ebind (ebind (json_at j ''position'') json_str) position_action_of_value) (\<lambda>pos.
     ebind (ebind (json_get j ''creation_timestamp'' (JNum (-1))) json_num) (\<lambda>created.
     ebind (ebind (json_at j ''executed_amount_base'') json_decimal) (\<lambda>eb.
     ebind (ebind (json_at j ''executed_amount_quote'') json_decimal) (\<lambda>eq.
     ebind (ebind (ebind (json_get j ''order_fills'' (JObj [])) json_items)
              (\<lambda>items. fills_from_json items [])) (\<lambda>fills.
     ebind (ebind (json_get j ''last_update_timestamp'' (JNum created)) json_num) (\<lambda>lu.
     Inr (check_processed_by_exchange_condition (check_filled_condition
       ((new_in_flight_order cid pair ot tt amount created (Some price) exid st lev pos)
          \<lparr>o_executed_amount_base := eb, o_executed_amount_quote := eq, o_order_fills := fills,
           o_last_update_timestamp := lu\<rparr>))))))))))))))))))"

section \<open>Fields the updates leave alone\<close>

definition order_attributes ::
  "in_flight_order \<Rightarrow> (string \<times> string \<times> order_type \<times> trade_type \<times> pdecimal option \<times> decimal \<times>
     string option) \<times> (order_state \<times> int \<times> position_action \<times> decimal \<times> decimal \<times> decimal \<times> decimal)" where
  "order_attributes ord =
     ((o_client_order_id ord, o_trading_pair ord, o_order_type ord, o_trade_type ord, o_price ord,
       o_amount ord, o_exchange_order_id ord),
      (o_current_state ord, o_leverage ord, o_position ord, o_executed_amount_base ord,
       o_executed_amount_quote ord, o_creation_timestamp ord, o_last_update_timestamp ord))"

lemma check_filled_condition_frame [simp]:
  "o_client_order_id (check_filled_condition ord) = o_client_order_id ord"
  "o_trading_pair (check_filled_condition ord) = o_trading_pair ord"
  "o_trade_type (check_filled_condition ord) = o_trade_type ord"
  "o_amount (check_filled_condition ord) = o_amount ord"
  "o_exchange_order_id (check_filled_condition ord) = o_exchange_order_id ord"
  "o_current_state (check_filled_condition ord) = o_current_state ord"
  "o_executed_amount_base (check_filled_condition ord) = o_executed_amount_base ord"
  "o_executed_amount_quote (check_filled_condition ord) = o_executed_amount_quote ord"
  "o_order_fills (check_filled_condition ord) = o_order_fills ord"
  "o_last_update_timestamp (check_filled_condition ord) = o_last_update_timestamp ord"
  "order_attributes (check_filled_condition ord) = order_attributes ord"
  by (simp_all add: check_filled_condition_def order_attributes_def)

lemma check_processed_frame [simp]:
  "o_client_order_id (check_processed_by_exchange_condition ord) = o_client_order_id ord"
  "o_trading_pair (check_processed_by_exchange_condition ord) = o_trading_pair ord"
  "o_trade_type (check_processed_by_exchange_condition ord) = o_trade_type ord"
  "o_amount (check_processed_by_exchange_condition ord) = o_amount ord"
  "o_exchange_order_id (check_processed_by_exchange_condition ord) = o_exchange_order_id ord"
  "o_current_state (check_processed_by_exchange_condition ord) = o_current_state ord"
  "o_executed_amount_base (check_processed_by_exchange_condition ord) = o_executed_amount_base ord"
  "o_executed_amount_quote (check_processed_by_exchange_condition ord) = o_executed_amount_quote ord"
  "o_order_fills (check_processed_by_exchange_condition ord) = o_order_fills ord"
  "o_last_update_timestamp (check_processed_by_exchange_condition ord) = o_last_update_timestamp ord"
  "order_attributes (check_processed_by_exchange_condition ord) = order_attributes ord"
  by (simp_all add: check_processed_by_exchange_condition_def order_attributes_def)

lemma order_update_frame [simp]:
  "o_trading_pair (fst (update_with_order_update ord u)) = o_trading_pair ord"
  "o_client_order_id (fst (update_with_order_update ord u)) = o_client_order_id ord"
  "o_trade_type (fst (update_with_order_update ord u)) = o_trade_type ord"
  "o_amount (fst (update_with_order_update ord u)) = o_amount ord"
  "o_executed_amount_base (fst (update_with_order_update ord u)) = o_executed_amount_base ord"
  "o_executed_amount_quote (fst (update_with_order_update ord u)) = o_executed_amount_quote ord"
  "o_order_fills (fst (update_with_order_update ord u)) = o_order_fills ord"
  by (auto simp: update_with_order_update_def update_exchange_order_id_def Let_def
      split: option.splits)

lemma trade_update_frame [simp]:
  "o_trading_pair (fst (update_with_trade_update ord t)) = o_trading_pair ord"
  "o_client_order_id (fst (update_with_trade_update ord t)) = o_client_order_id ord"
  "o_trade_type (fst (update_with_trade_update ord t)) = o_trade_type ord"
  "o_amount (fst (update_with_trade_update ord t)) = o_amount ord"
  "o_exchange_order_id (fst (update_with_trade_update ord t)) = o_exchange_order_id ord"
  "o_current_state (fst (update_with_trade_update ord t)) = o_current_state ord"
  by (simp_all add: update_with_trade_update_def)

text \<open>An exchange id, once known, is never replaced.\<close>

lemma order_update_exchange_id_stable:
  "o_exchange_order_id ord = Some e \<Longrightarrow>
   o_exchange_order_id (fst (update_with_order_update ord u)) = Some e"
  by (auto simp: update_with_order_update_def Let_def split: option.splits)

lemma order_update_not_updated:
  "\<not> snd (update_with_order_update ord u) \<Longrightarrow>
   o_current_state (fst (update_with_order_update ord u)) = o_current_state ord \<and>
   o_last_update_timestamp (fst (update_with_order_update ord u)) = o_last_update_timestamp ord"
  by (auto simp: update_with_order_update_def update_exchange_order_id_def Let_def
      split: option.splits if_splits)

lemma order_update_state:
  "ou_client_order_id u = Some (o_client_order_id ord) \<Longrightarrow>
   o_current_state (fst (update_with_order_update ord u)) = ou_new_state u"
  by (auto simp: update_with_order_update_def update_exchange_order_id_def Let_def
      split: option.splits)

text \<open>The same update delivered twice changes nothing the second time.\<close>

lemma order_update_idempotent:
  "\<not> snd (update_with_order_update (fst (update_with_order_update ord u)) u)"
  by (auto simp: update_with_order_update_def update_exchange_order_id_def Let_def
      split: option.splits if_splits)

section \<open>Fill accounting\<close>

definition fills_consistent :: "in_flight_order \<Rightarrow> bool" where
  "fills_consistent ord \<longleftrightarrow>
     dict_wf (o_order_fills ord) \<and>
     o_executed_amount_base ord = sum_list (map tu_fill_base_amount (dict_values (o_order_fills ord))) \<and>
     o_executed_amount_quote ord = sum_list (map tu_fill_quote_amount (dict_values (o_order_fills ord)))"

lemma fills_consistent_new:
  "fills_consistent (new_in_flight_order cid pair ot tt amount created price exid st lev pos)"
  by (simp add: fills_consistent_def new_in_flight_order_def dict_values_def)

lemma fills_consistent_order_update:
  "fills_consistent ord \<Longrightarrow> fills_consistent (fst (update_with_order_update ord u))"
  by (simp add: fills_consistent_def)

lemma fills_consistent_trade_update:
  "fills_consistent ord \<Longrightarrow> fills_consistent (fst (update_with_trade_update ord t))"
  by (auto simp: fills_consistent_def update_with_trade_update_def dict_set_new dict_values_def
      dict_wf_def dict_has_keys)

definition apply_trade :: "in_flight_order \<Rightarrow> trade_update \<Rightarrow> in_flight_order" where
  "apply_trade ord t = fst (update_with_trade_update ord t)"

definition trade_accepted :: "in_flight_order \<Rightarrow> trade_update \<Rightarrow> bool" where
  "trade_accepted ord t \<longleftrightarrow>
     o_client_order_id ord = tu_client_order_id t \<or>
     o_exchange_order_id ord = Some (tu_exchange_order_id t)"

text \<open>The trades of a stream that count: accepted by the order, first with their id.\<close>

fun fresh_trades :: "in_flight_order \<Rightarrow> string list \<Rightarrow> trade_update list \<Rightarrow> trade_update list" where
  "fresh_trades ord seen [] = []"
| "fresh_trades ord seen (t # ts) =
     (if tu_trade_id t \<in> set seen \<or> \<not> trade_accepted ord t then fresh_trades ord seen ts
      else t # fresh_trades ord (tu_trade_id t # seen) ts)"

lemma fresh_trades_cong:
  "set seen = set seen' \<Longrightarrow> o_client_order_id ord = o_client_order_id ord' \<Longrightarrow>
   o_exchange_order_id ord = o_exchange_order_id ord' \<Longrightarrow>
   fresh_trades ord seen ts = fresh_trades ord' seen' ts"
  by (induction ts arbitrary: seen seen') (auto simp: trade_accepted_def)

lemma apply_trade_skip:
  "tu_trade_id t \<in> set (dict_keys (o_order_fills ord)) \<or> \<not> trade_accepted ord t \<Longrightarrow>
   apply_trade ord t = ord"
  by (auto simp: apply_trade_def update_with_trade_update_def trade_accepted_def dict_keys_def
      dict_has_keys)

lemma apply_trade_take:
  assumes "tu_trade_id t \<notin> set (dict_keys (o_order_fills ord))" and "trade_accepted ord t"
  shows "o_executed_amount_base (apply_trade ord t) = o_executed_amount_base ord + tu_fill_base_amount t"
    and "o_executed_amount_quote (apply_trade ord t) = o_executed_amount_quote ord + tu_fill_quote_amount t"
    and "dict_keys (o_order_fills (apply_trade ord t)) = dict_keys (o_order_fills ord) @ [tu_trade_id t]"
    and "o_order_fills (apply_trade ord t) = o_order_fills ord @ [(tu_trade_id t, t)]"
  using assms
  by (auto simp: apply_trade_def update_with_trade_update_def trade_accepted_def dict_keys_def
      dict_has_keys dict_set_new)

lemma apply_trades_fresh:
  "o_order_fills (foldl apply_trade ord ts) =
     o_order_fills ord @ map (\<lambda>t. (tu_trade_id t, t)) (fresh_trades ord (dict_keys (o_order_fills ord)) ts) \<and>
   o_executed_amount_base (foldl apply_trade ord ts) = o_executed_amount_base ord
     + sum_list (map tu_fill_base_amount (fresh_trades ord (dict_keys (o_order_fills ord)) ts)) \<and>
   o_executed_amount_quote (foldl apply_trade ord ts) = o_executed_amount_quote ord
     + sum_list (map tu_fill_quote_amount (fresh_trades ord (dict_keys (o_order_fills ord)) ts))"
proof (induction ts arbitrary: ord)
  case Nil
  then show ?case by simp
next
  case (Cons t ts)
  show ?case
  proof (cases "tu_trade_id t \<in> set (dict_keys (o_order_fills ord)) \<or> \<not> trade_accepted ord t")
    case True
    with Cons.IH [of ord] show ?thesis by (simp add: apply_trade_skip)
  next
    case False
    then have "fresh_trades (apply_trade ord t) (dict_keys (o_order_fills (apply_trade ord t))) ts
        = fresh_trades ord (tu_trade_id t # dict_keys (o_order_fills ord)) ts"
      by (intro fresh_trades_cong) (simp_all add: apply_trade_take(3), simp_all add: apply_trade_def)
    with False Cons.IH [of "apply_trade ord t"] show ?thesis
      by (simp add: apply_trade_take add.assoc)
  qed
qed

lemma foldl_apply_trade_frame [simp]:
  "o_client_order_id (foldl apply_trade ord ts) = o_client_order_id ord"
  "o_exchange_order_id (foldl apply_trade ord ts) = o_exchange_order_id ord"
  "o_amount (foldl apply_trade ord ts) = o_amount ord"
  "o_current_state (foldl apply_trade ord ts) = o_current_state ord"
  by (induction ts arbitrary: ord) (simp_all add: apply_trade_def)

lemma foldl_apply_trade_skip:
  "(\<And>t. t \<in> set ts \<Longrightarrow> tu_trade_id t \<in> set (dict_keys (o_order_fills ord)) \<or> \<not> trade_accepted ord t) \<Longrightarrow>
   foldl apply_trade ord ts = ord"
  by (induction ts) (simp_all add: apply_trade_skip)

lemma fresh_trades_ids:
  "t \<in> set ts \<Longrightarrow> trade_accepted ord t \<Longrightarrow>
   tu_trade_id t \<in> set seen \<union> tu_trade_id ` set (fresh_trades ord seen ts)"
proof (induction ts arbitrary: seen)
  case Nil
  then show ?case by simp
next
  case (Cons u ts)
  show ?case
  proof (cases "t = u")
    case True
    with Cons.prems show ?thesis by auto
  next
    case False
    with Cons.prems Cons.IH [of seen] Cons.IH [of "tu_trade_id u # seen"] show ?thesis by auto
  qed
qed

section \<open>Arrival order does not matter\<close>

definition trades_consistent :: "trade_update list \<Rightarrow> bool" where
  "trades_consistent ts \<longleftrightarrow>
     (\<forall>t \<in> set ts. \<forall>u \<in> set ts. tu_trade_id t = tu_trade_id u \<longrightarrow> t = u)"

lemma set_fresh_trades:
  "trades_consistent ts \<Longrightarrow>
   set (fresh_trades ord seen ts) = {t \<in> set ts. trade_accepted ord t \<and> tu_trade_id t \<notin> set seen}"
proof (induction ts arbitrary: seen)
  case Nil
  then show ?case by simp
next
  case (Cons t ts)
  then have tc: "trades_consistent ts" by (simp add: trades_consistent_def)
  have same: "u = t" if "u \<in> set ts" "tu_trade_id u = tu_trade_id t" for u
    using Cons.prems that by (auto simp: trades_consistent_def)
  show ?case
    using Cons.IH [OF tc, of seen] Cons.IH [OF tc, of "tu_trade_id t # seen"] same by auto
qed

lemma fresh_trades_unseen:
  "u \<in> set (fresh_trades ord seen ts) \<Longrightarrow> tu_trade_id u \<notin> set seen"
proof (induction ts arbitrary: seen)
  case Nil
  then show ?case by simp
next
  case (Cons t ts)
  then show ?case by (fastforce split: if_splits)
qed

lemma distinct_fresh_trades: "distinct (fresh_trades ord seen ts)"
proof (induction ts arbitrary: seen)
  case Nil
  then show ?case by simp
next
  case (Cons t ts)
  have "t \<notin> set (fresh_trades ord (tu_trade_id t # seen) ts)"
    using fresh_trades_unseen by fastforce
  with Cons.IH show ?case by simp
qed

lemma sum_fresh_trades:
  "trades_consistent ts \<Longrightarrow>
   sum_list (map g (fresh_trades ord seen ts)) =
     sum g {t \<in> set ts. trade_accepted ord t \<and> tu_trade_id t \<notin> set seen}" for g :: "trade_update \<Rightarrow> decimal"
  by (simp add: sum_list_distinct_conv_sum_set distinct_fresh_trades set_fresh_trades)

section \<open>Average price\<close>

lemma fill_totals_eq:
  "fill_totals fs v b =
     (v + sum_list (map (\<lambda>f. tu_fill_price f * tu_fill_base_amount f) fs),
      b + sum_list (map tu_fill_base_amount fs))"
  by (induction fs arbitrary: v b) (simp_all add: algebra_simps)

lemma weighted_sum_bounds:
  fixes w x :: "'a \<Rightarrow> decimal"
  assumes "\<And>f. f \<in> set fs \<Longrightarrow> 0 \<le> w f" and "\<And>f. f \<in> set fs \<Longrightarrow> lo \<le> x f \<and> x f \<le> hi"
  shows "lo * sum_list (map w fs) \<le> sum_list (map (\<lambda>f. x f * w f) fs) \<and>
         sum_list (map (\<lambda>f. x f * w f) fs) \<le> hi * sum_list (map w fs)"
  using assms
proof (induction fs)
  case Nil
  then show ?case by simp
next
  case (Cons f fs)
  then have IH: "lo * sum_list (map w fs) \<le> sum_list (map (\<lambda>f. x f * w f) fs)"
    "sum_list (map (\<lambda>f. x f * w f) fs) \<le> hi * sum_list (map w fs)" by auto
  have "lo * w f \<le> x f * w f" and "x f * w f \<le> hi * w f"
    using Cons.prems by (auto intro: mult_right_mono)
  with IH show ?case by (simp add: distrib_left)
qed

lemma sum_list_nonneg_nonzero:
  fixes w :: "'a \<Rightarrow> decimal"
  shows "(\<And>f. f \<in> set fs \<Longrightarrow> 0 \<le> w f) \<Longrightarrow> 0 \<le> sum_list (map w fs)"
  by (induction fs) auto

section \<open>Properties\<close>

text \<open>
  C8: Every fill is counted exactly once. Whatever stream of trade updates an order
  receives (duplicates, other orders' trades), its executed amounts grow by the sum of the
  first accepted delivery of each new trade id, and replaying the whole stream (REST after
  websocket) changes nothing.
\<close>

theorem order_fills_counted_once:
  "o_executed_amount_base (foldl apply_trade ord ts) = o_executed_amount_base ord
     + sum_list (map tu_fill_base_amount (fresh_trades ord (dict_keys (o_order_fills ord)) ts)) \<and>
   o_executed_amount_quote (foldl apply_trade ord ts) = o_executed_amount_quote ord
     + sum_list (map tu_fill_quote_amount (fresh_trades ord (dict_keys (o_order_fills ord)) ts)) \<and>
   foldl apply_trade (foldl apply_trade ord ts) ts = foldl apply_trade ord ts"
proof -
  have "tu_trade_id t \<in> set (dict_keys (o_order_fills (foldl apply_trade ord ts)))
      \<or> \<not> trade_accepted (foldl apply_trade ord ts) t" if "t \<in> set ts" for t
    using fresh_trades_ids [OF that, of ord "dict_keys (o_order_fills ord)"] apply_trades_fresh [of ord ts]
    by (auto simp: trade_accepted_def dict_keys_def image_image)
  then show ?thesis
    using apply_trades_fresh [of ord ts] foldl_apply_trade_skip by blast
qed

text \<open>
  The executed amounts do not depend on the order in which trade updates arrive: two
  interleavings of the same updates (one content per trade id) give the same totals.
\<close>

theorem order_fills_order_independent:
  assumes "mset ts = mset us" and "trades_consistent ts"
  shows "o_executed_amount_base (foldl apply_trade ord ts) = o_executed_amount_base (foldl apply_trade ord us)
       \<and> o_executed_amount_quote (foldl apply_trade ord ts) = o_executed_amount_quote (foldl apply_trade ord us)"
proof -
  have "set ts = set us" using assms(1) by (metis set_mset_mset)
  moreover from this assms(2) have "trades_consistent us" by (simp add: trades_consistent_def)
  ultimately show ?thesis
    using assms(2) by (simp add: apply_trades_fresh sum_fresh_trades)
qed

definition demo_trade :: "string \<Rightarrow> decimal \<Rightarrow> trade_update" where
  "demo_trade tid amt =
     \<lparr>tu_trade_id = tid, tu_client_order_id = ''c1'', tu_exchange_order_id = ''e1'',
      tu_trading_pair = ''SOL-USDC'', tu_fill_timestamp = 5, tu_fill_price = 20,
      tu_fill_base_amount = amt, tu_fill_quote_amount = 20 * amt,
      tu_fee = \<lparr>fee_kind = DeductedFromReturns, fee_percent = 1 / 1000, fee_percent_token = None,
                flat_fees = []\<rparr>, tu_is_taker = True\<rparr>"

definition demo_order :: in_flight_order where
  "demo_order =
     new_in_flight_order ''c1'' ''SOL-USDC'' LIMIT BUY 3 1 (Some (Fin 20)) (Some ''e1'') OPEN_STATE 1 NIL"

lemma demo_trades_consistent:
  "trades_consistent [demo_trade ''t1'' 1, demo_trade ''t2'' 2, demo_trade ''t1'' 1]"
  by (simp add: trades_consistent_def demo_trade_def)

theorem order_fills_order_independent_witness:
  "o_executed_amount_base (foldl apply_trade demo_order
      [demo_trade ''t1'' 1, demo_trade ''t2'' 2, demo_trade ''t1'' 1]) =
   o_executed_amount_base (foldl apply_trade demo_order
      [demo_trade ''t2'' 2, demo_trade ''t1'' 1, demo_trade ''t1'' 1])"
  using order_fills_order_independent
    [of "[demo_trade ''t1'' 1, demo_trade ''t2'' 2, demo_trade ''t1'' 1]"
        "[demo_trade ''t2'' 2, demo_trade ''t1'' 1, demo_trade ''t1'' 1]" demo_order]
    demo_trades_consistent by simp

text \<open>
  The average executed price of an order whose fills have nonnegative amounts lies
  between the lowest and the highest fill price.
\<close>

theorem average_executed_price_bounds:
  assumes "average_executed_price ord = Some p"
    and "\<And>f. f \<in> set (dict_values (o_order_fills ord)) \<Longrightarrow> 0 \<le> tu_fill_base_amount f"
    and "\<And>f. f \<in> set (dict_values (o_order_fills ord)) \<Longrightarrow> lo \<le> tu_fill_price f \<and> tu_fill_price f \<le> hi"
  shows "lo \<le> p \<and> p \<le> hi"
proof -
  let ?fs = "dict_values (o_order_fills ord)"
  let ?b = "sum_list (map tu_fill_base_amount ?fs)"
  let ?v = "sum_list (map (\<lambda>f. tu_fill_price f * tu_fill_base_amount f) ?fs)"
  from assms(1) have p: "p = ?v / ?b" and "?b \<noteq> 0"
    by (auto simp: average_executed_price_def fill_totals_eq Let_def split: if_splits)
  moreover have "0 \<le> ?b" using assms(2) by (rule sum_list_nonneg_nonzero)
  ultimately have "0 < ?b" by simp
  moreover have "lo * ?b \<le> ?v \<and> ?v \<le> hi * ?b"
    using assms(2,3) by (intro weighted_sum_bounds) auto
  ultimately show ?thesis by (simp add: p pos_le_divide_eq pos_divide_le_eq)
qed

theorem average_executed_price_bounds_witness:
  "20 \<le> (20 :: decimal) \<and> average_executed_price (foldl apply_trade demo_order [demo_trade ''t1'' 1]) = Some 20"
proof -
  have avg: "average_executed_price (foldl apply_trade demo_order [demo_trade ''t1'' 1]) = Some 20"
    and fs: "dict_values (o_order_fills (foldl apply_trade demo_order [demo_trade ''t1'' 1])) = [demo_trade ''t1'' 1]"
    by code_simp+
  show ?thesis
    using average_executed_price_bounds [OF avg, of 20 20] avg unfolding fs
    by (simp add: demo_trade_def)
qed

lemma fills_from_json_inverse:
  "distinct (map fst acc @ map fst fs) \<Longrightarrow>
   fills_from_json (map (\<lambda>(k, f). (k, trade_update_to_json f)) fs) acc =
     Inr (acc @ map (\<lambda>(k, f). (k, f\<lparr>tu_is_taker := True\<rparr>)) fs)"
proof (induction fs arbitrary: acc)
  case Nil
  then show ?case by simp
next
  case (Cons kf fs)
  obtain k f where kf: "kf = (k, f)" by (cases kf)
  with Cons.prems have "\<not> dict_has acc k" by (auto simp: dict_has_keys)
  with Cons kf show ?case by (simp add: dict_set_new)
qed

lemma order_from_to_json:
  assumes "order_to_json rate ord = Inr j" and "o_price ord = Some price" and "dict_wf (o_order_fills ord)"
  shows "order_from_json j = Inr (check_processed_by_exchange_condition (check_filled_condition
           ((new_in_flight_order (o_client_order_id ord) (o_trading_pair ord) (o_order_type ord)
               (o_trade_type ord) (o_amount ord) (o_creation_timestamp ord) (Some price)
               (o_exchange_order_id ord) (o_current_state ord) (o_leverage ord) (o_position ord))
             \<lparr>o_executed_amount_base := o_executed_amount_base ord,
              o_executed_amount_quote := o_executed_amount_quote ord,
              o_order_fills := map (\<lambda>(k, f). (k, f\<lparr>tu_is_taker := True\<rparr>)) (o_order_fills ord),
              o_last_update_timestamp := o_last_update_timestamp ord\<rparr>)))"
proof -
  have fills: "fills_from_json (map (\<lambda>(k, f). (k, trade_update_to_json f)) (o_order_fills ord)) [] =
      Inr (map (\<lambda>(k, f). (k, f\<lparr>tu_is_taker := True\<rparr>)) (o_order_fills ord))"
    using assms(3) by (subst fills_from_json_inverse) (simp_all add: dict_wf_def)
  from assms(1,2) show ?thesis
    by (cases "o_exchange_order_id ord")
      (auto simp: order_to_json_def order_from_json_def ebind_eq_Inr_iff fills)
qed

text \<open>
  C9: An order survives the tracking-state file. Reading back the JSON of an order with a
  price (finite or NaN) and a base-quote pair returns an order with the same attributes and
  the same fills, except that every fill comes back as a taker fill; its completion event
  is set again exactly where the filled condition holds.
\<close>

theorem order_json_roundtrip:
  assumes "order_to_json rate ord = Inr j" and "o_price ord \<noteq> None" and "dict_wf (o_order_fills ord)"
  shows "\<exists>ord'. order_from_json j = Inr ord' \<and> order_attributes ord' = order_attributes ord
           \<and> o_order_fills ord' = map (\<lambda>(k, f). (k, f\<lparr>tu_is_taker := True\<rparr>)) (o_order_fills ord)
           \<and> (o_completely_filled_event ord' \<longleftrightarrow>
                dec_quantize 8 (\<bar>o_amount ord\<bar> - o_executed_amount_base ord) \<le> 0)"
proof -
  obtain price where price: "o_price ord = Some price" using assms(2) by auto
  show ?thesis
    using order_from_to_json [OF assms(1) price assms(3)] price
    by (simp add: order_attributes_def new_in_flight_order_def check_processed_by_exchange_condition_def
        check_filled_condition_def)
qed

theorem order_json_roundtrip_witness:
  "\<exists>j ord'. order_to_json (\<lambda>_. None) demo_order = Inr j \<and> order_from_json j = Inr ord' \<and>
     order_attributes ord' = order_attributes demo_order"
proof -
  obtain j where j: "order_to_json (\<lambda>_. None) demo_order = Inr j"
    by (simp add: order_to_json_def quote_asset_def demo_order_def new_in_flight_order_def
        check_processed_by_exchange_condition_def)
  have "o_price demo_order \<noteq> None" and "dict_wf (o_order_fills demo_order)"
    by (simp_all add: demo_order_def new_in_flight_order_def check_processed_by_exchange_condition_def)
  from order_json_roundtrip [OF j this] j show ?thesis by blast
qed

text \<open>
  An order created without a price (the constructor's default) cannot be restored:
  its JSON holds \<open>str(None)\<close>, which \<open>Decimal\<close> rejects.
\<close>

theorem order_json_without_price_fails:
  assumes "order_to_json rate ord = Inr j" and "o_price ord = None"
  shows "order_from_json j = Inl InvalidOperation"
  using assms
  by (auto simp: order_to_json_def order_from_json_def ebind_eq_Inr_iff)

theorem order_json_without_price_fails_witness:
  "\<exists>j. order_to_json (\<lambda>_. None) (demo_order\<lparr>o_price := None\<rparr>) = Inr j \<and>
       order_from_json j = Inl InvalidOperation"
proof -
  obtain j where j: "order_to_json (\<lambda>_. None) (demo_order\<lparr>o_price := None\<rparr>) = Inr j"
    by (simp add: order_to_json_def quote_asset_def demo_order_def new_in_flight_order_def
        check_processed_by_exchange_condition_def)
  from order_json_without_price_fails [OF j] j show ?thesis by simp
qed

end
