(* ===== verification/Order_Tracker.thy ===== *)
theory Order_Tracker
  imports In_Flight_Order
begin

text \<open>
  \<open>connector/client_order_tracker.py\<close>. The in-flight, cached and lost dictionaries hold
  references to shared order objects, so the model has a store of orders \<open>trk_orders\<close>
  (address to object, allocation pointer \<open>trk_next\<close>) and the dictionaries map client ids
  to addresses. Triggered market events are logged in order in \<open>trk_events\<close>.

  \<open>_process_order_update\<close> suspends at one point (waiting for the fills of a FILLED order);
  it is split there into \<open>process_order_update_begin\<close> and \<open>finish_order_update\<close>, and
  \<open>tracker_step\<close> interleaves the halves with every other operation and with the expiry of
  entries of the TTL cache.
\<close>

section \<open>State\<close>

type_synonym address = nat

datatype market_event =
    EvCreated bool decimal order_type string decimal "pdecimal option" string decimal
      "string option" int position_action
  | EvCancelled decimal string "string option"
  | EvFilled decimal string string trade_type order_type decimal decimal trade_fee string int
      position_action string
  | EvCompleted bool decimal string string string decimal decimal order_type "string option"
  | EvFailure decimal string order_type "string option" "string option"

record tracker =
  trk_orders :: "address \<Rightarrow> in_flight_order"
  trk_next :: address
  trk_in_flight_orders :: "(string, address) dict"
  trk_cached_orders :: "(string, address) dict"
  trk_lost_orders :: "(string, address) dict"
  trk_order_not_found_records :: "(string, int) dict"
  trk_lost_order_count_limit :: int
  trk_current_timestamp :: decimal
  trk_events :: "market_event list"

definition put_order :: "tracker \<Rightarrow> address \<Rightarrow> in_flight_order \<Rightarrow> tracker" where
  "put_order s r ord = s\<lparr>trk_orders := (trk_orders s)(r := ord)\<rparr>"

definition alloc_order :: "tracker \<Rightarrow> in_flight_order \<Rightarrow> tracker \<times> address" where
  "alloc_order s ord =
     (s\<lparr>trk_orders := (trk_orders s)(trk_next s := ord), trk_next := Suc (trk_next s)\<rparr>, trk_next s)"

definition trigger_event :: "tracker \<Rightarrow> market_event \<Rightarrow> tracker" where
  "trigger_event s e = s\<lparr>trk_events := trk_events s @ [e]\<rparr>"

section \<open>Views\<close>

definition all_orders :: "tracker \<Rightarrow> (string, address) dict" where
  "all_orders s = dict_merge (trk_in_flight_orders s) (trk_cached_orders s)"

definition all_fillable_orders :: "tracker \<Rightarrow> (string, address) dict" where
  "all_fillable_orders s =
     dict_merge (dict_merge (trk_in_flight_orders s) (trk_cached_orders s)) (trk_lost_orders s)"

definition all_updatable_orders :: "tracker \<Rightarrow> (string, address) dict" where
  "all_updatable_orders s = dict_merge (trk_in_flight_orders s) (trk_lost_orders s)"

definition by_exchange_order_id :: "tracker \<Rightarrow> address list \<Rightarrow> (string option, address) dict" where
  "by_exchange_order_id s rs =
     fold (\<lambda>r d. dict_set d (o_exchange_order_id (trk_orders s r)) r) rs []"

definition all_fillable_orders_by_exchange_order_id :: "tracker \<Rightarrow> (string option, address) dict" where
  "all_fillable_orders_by_exchange_order_id s =
     by_exchange_order_id s (dict_values (trk_in_flight_orders s) @ dict_values (trk_cached_orders s)
       @ dict_values (trk_lost_orders s))"

definition all_updatable_orders_by_exchange_order_id :: "tracker \<Rightarrow> (string option, address) dict" where
  "all_updatable_orders_by_exchange_order_id s =
     by_exchange_order_id s (dict_values (trk_in_flight_orders s) @ dict_values (trk_lost_orders s))"

definition fetch_from ::
  "tracker \<Rightarrow> (string, address) dict \<Rightarrow> string option \<Rightarrow> string option \<Rightarrow> address option" where
  "fetch_from s d cid exid =
     (case (case cid of None \<Rightarrow> None | Some c \<Rightarrow> dict_get d c) of
        Some r \<Rightarrow> Some r
      | None \<Rightarrow>
          (if exid \<noteq> None
           then List.find (\<lambda>r. o_exchange_order_id (trk_orders s r) = exid) (dict_values d)
           else None))"

definition fetch_tracked_order :: "tracker \<Rightarrow> string \<Rightarrow> address option" where
  "fetch_tracked_order s cid = dict_get (trk_in_flight_orders s) cid"

definition fetch_cached_order :: "tracker \<Rightarrow> string \<Rightarrow> address option" where
  "fetch_cached_order s cid = dict_get (trk_cached_orders s) cid"

definition fetch_order :: "tracker \<Rightarrow> string option \<Rightarrow> string option \<Rightarrow> address option" where
  "fetch_order s cid exid = fetch_from s (all_orders s) cid exid"

definition fetch_lost_order :: "tracker \<Rightarrow> string option \<Rightarrow> string option \<Rightarrow> address option" where
  "fetch_lost_order s cid exid = fetch_from s (trk_lost_orders s) cid exid"

section \<open>Tracking\<close>

definition start_tracking_order :: "tracker \<Rightarrow> address \<Rightarrow> tracker" where
  "start_tracking_order s r =
     s\<lparr>trk_in_flight_orders :=
         dict_set (trk_in_flight_orders s) (o_client_order_id (trk_orders s r)) r\<rparr>"

definition stop_tracking_order :: "tracker \<Rightarrow> string \<Rightarrow> tracker" where
  "stop_tracking_order s cid =
     (case dict_get (trk_in_flight_orders s) cid of
        Some r \<Rightarrow>
          s\<lparr>trk_cached_orders := dict_set (trk_cached_orders s) cid r,
            trk_in_flight_orders := dict_del (trk_in_flight_orders s) cid,
            trk_order_not_found_records := dict_del (trk_order_not_found_records s) cid\<rparr>
      | None \<Rightarrow> s)"

fun restore_tracking_states :: "tracker \<Rightarrow> json list \<Rightarrow> tracker outcome" where
  "restore_tracking_states s [] = (s, None)"
| "restore_tracking_states s (j # js) =
     (case order_from_json j of
        Inl e \<Rightarrow> (s, Some e)
      | Inr ord \<Rightarrow>
          (let (s1, r) = alloc_order s ord;
               s2 = (if is_open ord then start_tracking_order s1 r
                     else if is_failure ord
                     then s1\<lparr>trk_lost_orders := dict_set (trk_lost_orders s1) (o_client_order_id ord) r\<rparr>
                     else s1)
           in restore_tracking_states s2 js))"

section \<open>Events\<close>

definition trigger_created_event :: "tracker \<Rightarrow> in_flight_order \<Rightarrow> tracker" where
  "trigger_created_event s ord =
     trigger_event s (EvCreated (o_trade_type ord = BUY) (trk_current_timestamp s) (o_order_type ord)
       (o_trading_pair ord) (o_amount ord) (o_price ord) (o_client_order_id ord)
       (o_creation_timestamp ord) (o_exchange_order_id ord) (o_leverage ord) (o_position ord))"

definition trigger_cancelled_event :: "tracker \<Rightarrow> in_flight_order \<Rightarrow> tracker" where
  "trigger_cancelled_event s ord =
     trigger_event s (EvCancelled (trk_current_timestamp s) (o_client_order_id ord) (o_exchange_order_id ord))"

definition trigger_filled_event ::
  "tracker \<Rightarrow> in_flight_order \<Rightarrow> decimal \<Rightarrow> decimal \<Rightarrow> trade_fee \<Rightarrow> string \<Rightarrow> string \<Rightarrow> tracker" where
  "trigger_filled_event s ord fill_amount fill_price fill_fee trade_id exid =
     trigger_event s (EvFilled (trk_current_timestamp s) (o_client_order_id ord) (o_trading_pair ord)
       (o_trade_type ord) (o_order_type ord) fill_price fill_amount fill_fee trade_id (o_leverage ord)
       (o_position ord) exid)"

definition trigger_completed_event :: "tracker \<Rightarrow> in_flight_order \<Rightarrow> tracker outcome" where
  "trigger_completed_event s ord =
     (case quote_asset ord of
        Inl e \<Rightarrow> (s, Some e)
      | Inr qa \<Rightarrow>
          (trigger_event s (EvCompleted (o_trade_type ord = BUY) (trk_current_timestamp s)
             (o_client_order_id ord) (base_asset ord) qa (o_executed_amount_base ord)
             (o_executed_amount_quote ord) (o_order_type ord) (o_exchange_order_id ord)), None))"

definition trigger_failure_event :: "tracker \<Rightarrow> in_flight_order \<Rightarrow> order_update \<Rightarrow> tracker" where
  "trigger_failure_event s ord u =
     (let misc = (case ou_misc_updates u of None \<Rightarrow> [] | Some m \<Rightarrow> m)
      in trigger_event s (EvFailure (trk_current_timestamp s) (o_client_order_id ord) (o_order_type ord)
           (dict_get misc ''error_type'') (dict_get misc ''error_message'')))"

definition trigger_order_creation ::
  "tracker \<Rightarrow> in_flight_order \<Rightarrow> order_state \<Rightarrow> order_state \<Rightarrow> tracker" where
  "trigger_order_creation s ord previous_state new_state =
     (if previous_state = PENDING_CREATE \<and> previous_state \<noteq> new_state
         \<and> new_state \<notin> set [CANCELED, FAILED, PENDING_CANCEL]
      then trigger_created_event s ord else s)"

text \<open>The log message of a fill reads \<open>quote_asset\<close> before the event is triggered.\<close>

definition trigger_order_fills ::
  "tracker \<Rightarrow> in_flight_order \<Rightarrow> decimal \<Rightarrow> trade_update \<Rightarrow> tracker outcome" where
  "trigger_order_fills s ord prev_executed t =
     (if prev_executed < o_executed_amount_base ord
      then (case quote_asset ord of
              Inl e \<Rightarrow> (s, Some e)
            | Inr _ \<Rightarrow>
                (trigger_filled_event s ord (tu_fill_base_amount t) (tu_fill_price t) (tu_fee t)
                   (tu_trade_id t) (tu_exchange_order_id t), None))
      else (s, None))"

definition trigger_order_completion :: "tracker \<Rightarrow> address \<Rightarrow> order_update \<Rightarrow> tracker outcome" where
  "trigger_order_completion s r u =
     (let ord = trk_orders s r in
      if is_open ord then (s, None)
      else obind
        (if is_cancelled ord then (trigger_cancelled_event s ord, None)
         else if is_filled ord then trigger_completed_event s ord
         else if is_failure ord then (trigger_failure_event s ord u, None)
         else (s, None))
        (\<lambda>s'. (stop_tracking_order s' (o_client_order_id ord), None)))"

section \<open>Processing updates\<close>

definition process_trade_update :: "tracker \<Rightarrow> trade_update \<Rightarrow> tracker outcome" where
  "process_trade_update s t =
     (case dict_get (all_fillable_orders s) (tu_client_order_id t) of
        None \<Rightarrow> (s, None)
      | Some r \<Rightarrow>
          (let prev = o_executed_amount_base (trk_orders s r);
               (ord, updated) = update_with_trade_update (trk_orders s r) t;
               s1 = put_order s r ord
           in if updated then trigger_order_fills s1 ord prev t else (s1, None)))"

text \<open>The part after the wait, on the order object fetched before it.\<close>

definition finish_order_update :: "tracker \<Rightarrow> address \<Rightarrow> order_update \<Rightarrow> tracker outcome" where
  "finish_order_update s r u =
     (let previous_state = o_current_state (trk_orders s r);
          (ord, updated) = update_with_order_update (trk_orders s r) u;
          s1 = put_order s r ord
      in if updated
         then trigger_order_completion (trigger_order_creation s1 ord previous_state (ou_new_state u)) r u
         else (s1, None))"

definition order_update_of_lost :: "tracker \<Rightarrow> order_update \<Rightarrow> tracker outcome" where
  "order_update_of_lost s u =
     (case fetch_lost_order s (ou_client_order_id u) (ou_exchange_order_id u) of
        Some r \<Rightarrow>
          (if ou_new_state u \<in> set [CANCELED, FILLED, FAILED]
           then (case dict_pop_strict (trk_lost_orders s) (o_client_order_id (trk_orders s r)) of
                   Inl e \<Rightarrow> (s, Some e)
                 | Inr d \<Rightarrow> (s\<lparr>trk_lost_orders := d\<rparr>, None))
           else (s, None))
      | None \<Rightarrow> (s, None))"

datatype update_progress = Finished "tracker outcome" | Awaiting address

definition process_order_update_begin :: "tracker \<Rightarrow> order_update \<Rightarrow> update_progress" where
  "process_order_update_begin s u =
     (if \<not> truthy_str (ou_client_order_id u) \<and> \<not> truthy_str (ou_exchange_order_id u)
      then Finished (s, None)
      else case fetch_order s (ou_client_order_id u) (ou_exchange_order_id u) of
        Some r \<Rightarrow>
          (if ou_new_state u = FILLED \<and> \<not> is_done (trk_orders s r) then Awaiting r
           else Finished (finish_order_update s r u))
      | None \<Rightarrow> Finished (order_update_of_lost s u))"

text \<open>An update processed with nothing happening during its wait.\<close>

definition process_order_update :: "tracker \<Rightarrow> order_update \<Rightarrow> tracker outcome" where
  "process_order_update s u =
     (case process_order_update_begin s u of
        Finished out \<Rightarrow> out
      | Awaiting r \<Rightarrow> finish_order_update s r u)"

definition failed_update :: "tracker \<Rightarrow> string \<Rightarrow> address \<Rightarrow> order_update" where
  "failed_update s cid r =
     \<lparr>ou_trading_pair = o_trading_pair (trk_orders s r), ou_timestamp = trk_current_timestamp s,
      ou_new_state = FAILED, ou_client_order_id = Some cid, ou_exchange_order_id = None,
      ou_misc_updates = None\<rparr>"

definition process_order_not_found :: "tracker \<Rightarrow> string \<Rightarrow> tracker outcome" where
  "process_order_not_found s cid =
     (case fetch_tracked_order s cid of
        Some r \<Rightarrow>
          (let count = (case dict_get (trk_order_not_found_records s) cid of None \<Rightarrow> 0 | Some n \<Rightarrow> n) + 1;
               s1 = s\<lparr>trk_order_not_found_records := dict_set (trk_order_not_found_records s) cid count\<rparr>
           in if count > trk_lost_order_count_limit s
                 \<and> o_current_state (trk_orders s r) \<notin> set [CANCELED, FILLED, FAILED]
              then obind (process_order_update s1 (failed_update s1 cid r)) (\<lambda>s2.
                     case dict_pop_strict (trk_cached_orders s2) cid of
                       Inl e \<Rightarrow> (s2, Some e)
                     | Inr d \<Rightarrow>
                         (s2\<lparr>trk_cached_orders := d,
                             trk_lost_orders :=
                               dict_set (trk_lost_orders s2) (o_client_order_id (trk_orders s2 r)) r\<rparr>, None))
              else (s1, None))
      | None \<Rightarrow>
          (case dict_get (trk_lost_orders s) cid of
             Some r \<Rightarrow> process_order_update s (failed_update s cid r)
           | None \<Rightarrow> (s, None)))"

text \<open>An entry of the TTL cache may vanish at any time (expiry, or the size bound).\<close>

definition expire_cached :: "tracker \<Rightarrow> string \<Rightarrow> tracker" where
  "expire_cached s cid = s\<lparr>trk_cached_orders := dict_del (trk_cached_orders s) cid\<rparr>"

section \<open>The tracker under interleaving\<close>

record tracker_sys =
  sys_tracker :: tracker
  sys_pending :: "(address \<times> order_update) list"

definition fresh_client_id :: "tracker \<Rightarrow> string \<Rightarrow> bool" where
  "fresh_client_id s cid \<longleftrightarrow> (\<forall>r < trk_next s. o_client_order_id (trk_orders s r) \<noteq> cid)"

definition track_new_order :: "tracker \<Rightarrow> in_flight_order \<Rightarrow> tracker" where
  "track_new_order s ord = (let (s1, r) = alloc_order s ord in start_tracking_order s1 r)"

text \<open>
  The environment: orders are created pending with fresh client ids and a valid pair, trades
  have positive amounts, and no update moves an order back to PENDING_CREATE.
\<close>

inductive tracker_step :: "tracker_sys \<Rightarrow> tracker_sys \<Rightarrow> bool" where
  track: "fresh_client_id (sys_tracker y) cid \<Longrightarrow> cid \<noteq> [] \<Longrightarrow> validate_trading_pair pair \<Longrightarrow>
    tracker_step y (y\<lparr>sys_tracker := track_new_order (sys_tracker y)
      (new_in_flight_order cid pair ot tt amount created price exid PENDING_CREATE lev pos)\<rparr>)"
| stop: "tracker_step y (y\<lparr>sys_tracker := stop_tracking_order (sys_tracker y) cid\<rparr>)"
| trade: "0 < tu_fill_base_amount t \<Longrightarrow>
    tracker_step y (y\<lparr>sys_tracker := fst (process_trade_update (sys_tracker y) t)\<rparr>)"
| update_now: "ou_new_state u \<noteq> PENDING_CREATE \<Longrightarrow>
    process_order_update_begin (sys_tracker y) u = Finished out \<Longrightarrow>
    tracker_step y (y\<lparr>sys_tracker := fst out\<rparr>)"
| update_wait: "ou_new_state u \<noteq> PENDING_CREATE \<Longrightarrow>
    process_order_update_begin (sys_tracker y) u = Awaiting r \<Longrightarrow>
    tracker_step y (y\<lparr>sys_pending := (r, u) # sys_pending y\<rparr>)"
| update_resume: "(r, u) \<in> set (sys_pending y) \<Longrightarrow>
    tracker_step y (y\<lparr>sys_tracker := fst (finish_order_update (sys_tracker y) r u),
                     sys_pending := remove1 (r, u) (sys_pending y)\<rparr>)"
| not_found: "tracker_step y (y\<lparr>sys_tracker := fst (process_order_not_found (sys_tracker y) cid)\<rparr>)"
| expire: "tracker_step y (y\<lparr>sys_tracker := expire_cached (sys_tracker y) cid\<rparr>)"
| clock: "tracker_step y (y\<lparr>sys_tracker := (sys_tracker y)\<lparr>trk_current_timestamp := t\<rparr>\<rparr>)"

definition init_tracker :: "int \<Rightarrow> decimal \<Rightarrow> tracker" where
  "init_tracker limit now =
     \<lparr>trk_orders = (\<lambda>_. new_in_flight_order [] [] MARKET BUY 0 0 None None PENDING_CREATE 1 NIL),
      trk_next = 0, trk_in_flight_orders = [], trk_cached_orders = [], trk_lost_orders = [],
      trk_order_not_found_records = [], trk_lost_order_count_limit = limit,
      trk_current_timestamp = now, trk_events = []\<rparr>"

inductive tracker_reachable :: "int \<Rightarrow> decimal \<Rightarrow> tracker_sys \<Rightarrow> bool" for limit now where
  start: "tracker_reachable limit now \<lparr>sys_tracker = init_tracker limit now, sys_pending = []\<rparr>"
| step: "tracker_reachable limit now y \<Longrightarrow> tracker_step y z \<Longrightarrow> tracker_reachable limit now z"

section \<open>Structural invariant\<close>

definition order_ids :: "tracker \<Rightarrow> address \<Rightarrow> string" where
  "order_ids s = (\<lambda>r. o_client_order_id (trk_orders s r))"

definition order_pairs :: "tracker \<Rightarrow> address \<Rightarrow> string" where
  "order_pairs s = (\<lambda>r. o_trading_pair (trk_orders s r))"

definition refs_ok :: "address \<Rightarrow> (address \<Rightarrow> string) \<Rightarrow> (string, address) dict \<Rightarrow> bool" where
  "refs_ok n ids d \<longleftrightarrow> dict_wf d \<and> (\<forall>k r. dict_get d k = Some r \<longrightarrow> r < n \<and> ids r = k)"

definition disjoint_keys :: "('k, 'v) dict \<Rightarrow> ('k, 'v) dict \<Rightarrow> bool" where
  "disjoint_keys d e \<longleftrightarrow> (\<forall>k. dict_has d k \<longrightarrow> \<not> dict_has e k)"

definition tracker_inv :: "tracker \<Rightarrow> bool" where
  "tracker_inv s \<longleftrightarrow>
     refs_ok (trk_next s) (order_ids s) (trk_in_flight_orders s) \<and>
     refs_ok (trk_next s) (order_ids s) (trk_cached_orders s) \<and>
     refs_ok (trk_next s) (order_ids s) (trk_lost_orders s) \<and>
     disjoint_keys (trk_in_flight_orders s) (trk_cached_orders s) \<and>
     disjoint_keys (trk_in_flight_orders s) (trk_lost_orders s) \<and>
     disjoint_keys (trk_cached_orders s) (trk_lost_orders s) \<and>
     inj_on (order_ids s) {..<trk_next s} \<and>
     (\<forall>r < trk_next s. validate_trading_pair (order_pairs s r) \<and> order_ids s r \<noteq> [])"

definition pending_inv :: "tracker_sys \<Rightarrow> bool" where
  "pending_inv y \<longleftrightarrow>
     (\<forall>(r, u) \<in> set (sys_pending y). r < trk_next (sys_tracker y) \<and> ou_new_state u \<noteq> PENDING_CREATE)"

lemma quote_asset_valid:
  assumes "validate_trading_pair (o_trading_pair ord)"
  shows "\<exists>q. quote_asset ord = Inr q"
proof -
  obtain b q where "split_hb_trading_pair (o_trading_pair ord) = Inr (b, q)"
    using assms validate_trading_pair_iff_split by blast
  then show ?thesis
    by (auto simp: split_hb_trading_pair_def quote_asset_def split: list.splits)
qed

lemma refs_okD: "refs_ok n ids d \<Longrightarrow> dict_get d k = Some r \<Longrightarrow> r < n \<and> ids r = k"
  by (simp add: refs_ok_def)

lemma refs_ok_has: "refs_ok n ids d \<Longrightarrow> dict_has d k \<Longrightarrow> \<exists>r < n. ids r = k"
  by (auto simp: refs_ok_def dict_has_def)

lemma refs_ok_del [intro]: "refs_ok n ids d \<Longrightarrow> refs_ok n ids (dict_del d k)"
  by (auto simp: refs_ok_def)

lemma refs_ok_set [intro]: "refs_ok n ids d \<Longrightarrow> r < n \<Longrightarrow> ids r = k \<Longrightarrow> refs_ok n ids (dict_set d k r)"
  by (auto simp: refs_ok_def)

lemma refs_ok_Suc: "refs_ok n ids d \<Longrightarrow> refs_ok (Suc n) (ids(n := c)) d"
  by (fastforce simp: refs_ok_def)

lemma disjoint_keys_del:
  "disjoint_keys d e \<Longrightarrow> disjoint_keys (dict_del d k) e"
  "disjoint_keys d e \<Longrightarrow> disjoint_keys d (dict_del e k)"
  by (simp_all add: disjoint_keys_def)

lemma disjoint_keys_set:
  "disjoint_keys d e \<Longrightarrow> \<not> dict_has e k \<Longrightarrow> disjoint_keys (dict_set d k v) e"
  "disjoint_keys d e \<Longrightarrow> \<not> dict_has d k \<Longrightarrow> disjoint_keys d (dict_set e k v)"
  by (auto simp: disjoint_keys_def)

lemmas disjoint_keys_intros = disjoint_keys_del disjoint_keys_set

lemma dict_get_values: "dict_wf d \<Longrightarrow> r \<in> set (dict_values d) \<Longrightarrow> \<exists>k. dict_get d k = Some r"
  by (force simp: dict_values_def dict_get_in_set)

lemma fetch_from_get:
  "dict_wf d \<Longrightarrow> fetch_from s d cid exid = Some r \<Longrightarrow> \<exists>k. dict_get d k = Some r"
  by (fastforce simp: fetch_from_def find_Some_iff split: option.splits if_splits
      intro: dict_get_values)

lemma all_orders_wf [simp]: "tracker_inv s \<Longrightarrow> dict_wf (all_orders s)"
  by (simp add: tracker_inv_def refs_ok_def all_orders_def dict_wf_merge)

lemma all_orders_get:
  "tracker_inv s \<Longrightarrow> dict_get (all_orders s) k =
     (case dict_get (trk_cached_orders s) k of None \<Rightarrow> dict_get (trk_in_flight_orders s) k | Some r \<Rightarrow> Some r)"
  by (simp add: all_orders_def dict_get_merge tracker_inv_def refs_ok_def)

lemma all_orders_refs:
  "tracker_inv s \<Longrightarrow> dict_get (all_orders s) k = Some r \<Longrightarrow> r < trk_next s \<and> order_ids s r = k"
  by (auto simp: all_orders_get tracker_inv_def dest: refs_okD split: option.splits)

lemma all_fillable_get:
  "tracker_inv s \<Longrightarrow> dict_get (all_fillable_orders s) k =
     (case dict_get (trk_lost_orders s) k of None \<Rightarrow> dict_get (all_orders s) k | Some r \<Rightarrow> Some r)"
  by (simp add: all_fillable_orders_def all_orders_def [symmetric] dict_get_merge tracker_inv_def refs_ok_def)

lemma all_fillable_refs:
  assumes "tracker_inv s" and "dict_get (all_fillable_orders s) k = Some r"
  shows "r < trk_next s \<and> order_ids s r = k"
proof (cases "dict_get (trk_lost_orders s) k")
  case None
  with assms all_orders_refs show ?thesis by (simp add: all_fillable_get)
next
  case (Some r')
  with assms show ?thesis by (auto simp: all_fillable_get tracker_inv_def dest: refs_okD)
qed

lemma fetch_order_ref: "tracker_inv s \<Longrightarrow> fetch_order s cid exid = Some r \<Longrightarrow> r < trk_next s"
  using fetch_from_get [of "all_orders s" s cid exid r] all_orders_refs
  by (auto simp: fetch_order_def)

text \<open>Replacing an order object by one with the same ids keeps the structure.\<close>

lemma put_order_simps [simp]:
  "trk_next (put_order s r ord) = trk_next s"
  "trk_in_flight_orders (put_order s r ord) = trk_in_flight_orders s"
  "trk_cached_orders (put_order s r ord) = trk_cached_orders s"
  "trk_lost_orders (put_order s r ord) = trk_lost_orders s"
  "trk_events (put_order s r ord) = trk_events s"
  "trk_order_not_found_records (put_order s r ord) = trk_order_not_found_records s"
  "trk_orders (put_order s r ord) = (trk_orders s)(r := ord)"
  by (simp_all add: put_order_def)

lemma trigger_event_simps [simp]:
  "trk_next (trigger_event s e) = trk_next s"
  "trk_in_flight_orders (trigger_event s e) = trk_in_flight_orders s"
  "trk_cached_orders (trigger_event s e) = trk_cached_orders s"
  "trk_lost_orders (trigger_event s e) = trk_lost_orders s"
  "trk_events (trigger_event s e) = trk_events s @ [e]"
  "trk_order_not_found_records (trigger_event s e) = trk_order_not_found_records s"
  "trk_orders (trigger_event s e) = trk_orders s"
  by (simp_all add: trigger_event_def)

lemma order_ids_put [simp]:
  "o_client_order_id ord = o_client_order_id (trk_orders s r) \<Longrightarrow> order_ids (put_order s r ord) = order_ids s"
  "o_trading_pair ord = o_trading_pair (trk_orders s r) \<Longrightarrow> order_pairs (put_order s r ord) = order_pairs s"
  by (auto simp: order_ids_def order_pairs_def)

lemma order_ids_trigger [simp]:
  "order_ids (trigger_event s e) = order_ids s" "order_pairs (trigger_event s e) = order_pairs s"
  by (simp_all add: order_ids_def order_pairs_def)

lemma tracker_inv_put_order:
  assumes "tracker_inv s" and "o_client_order_id ord = o_client_order_id (trk_orders s r)"
    and "o_trading_pair ord = o_trading_pair (trk_orders s r)"
  shows "tracker_inv (put_order s r ord)"
  using assms by (simp add: tracker_inv_def)

lemma tracker_inv_trigger [simp]: "tracker_inv (trigger_event s e) = tracker_inv s"
  by (simp add: tracker_inv_def)

lemma stop_tracking_frame [simp]:
  "trk_orders (stop_tracking_order s cid) = trk_orders s"
  "trk_next (stop_tracking_order s cid) = trk_next s"
  "trk_events (stop_tracking_order s cid) = trk_events s"
  "trk_lost_orders (stop_tracking_order s cid) = trk_lost_orders s"
  "order_ids (stop_tracking_order s cid) = order_ids s"
  "order_pairs (stop_tracking_order s cid) = order_pairs s"
  by (auto simp: stop_tracking_order_def order_ids_def order_pairs_def split: option.splits)

lemma tracker_inv_stop:
  assumes "tracker_inv s" shows "tracker_inv (stop_tracking_order s cid)"
proof (cases "dict_get (trk_in_flight_orders s) cid")
  case None
  with assms show ?thesis by (simp add: stop_tracking_order_def)
next
  case (Some r)
  then have "dict_has (trk_in_flight_orders s) cid" by (simp add: dict_has_def)
  with assms have free: "\<not> dict_has (trk_lost_orders s) cid" "\<not> dict_has (trk_cached_orders s) cid"
    by (auto simp: tracker_inv_def disjoint_keys_def)
  have "r < trk_next s" "order_ids s r = cid"
    using assms Some by (auto simp: tracker_inv_def dest: refs_okD)
  with assms Some free show ?thesis
    unfolding tracker_inv_def stop_tracking_frame
    by (simp add: stop_tracking_order_def refs_ok_del refs_ok_set disjoint_keys_intros)
qed

lemma tracker_inv_expire: "tracker_inv s \<Longrightarrow> tracker_inv (expire_cached s cid)"
  by (simp add: expire_cached_def tracker_inv_def order_ids_def order_pairs_def refs_ok_del
      disjoint_keys_intros)

lemma tracker_inv_clock [simp]: "tracker_inv (s\<lparr>trk_current_timestamp := t\<rparr>) = tracker_inv s"
  by (simp add: tracker_inv_def order_ids_def [abs_def] order_pairs_def [abs_def])

lemma tracker_inv_track:
  assumes "tracker_inv s" and "fresh_client_id s (o_client_order_id ord)"
    and "validate_trading_pair (o_trading_pair ord)" and "o_client_order_id ord \<noteq> []"
  shows "tracker_inv (track_new_order s ord)"
proof -
  let ?s = "track_new_order s ord" and ?n = "trk_next s" and ?c = "o_client_order_id ord"
  have ids: "order_ids ?s = (order_ids s)(?n := ?c)"
    and pairs: "order_pairs ?s = (order_pairs s)(?n := o_trading_pair ord)"
    by (auto simp: order_ids_def order_pairs_def track_new_order_def alloc_order_def start_tracking_order_def)
  have fields: "trk_next ?s = Suc ?n" "trk_cached_orders ?s = trk_cached_orders s"
    "trk_lost_orders ?s = trk_lost_orders s"
    "trk_in_flight_orders ?s = dict_set (trk_in_flight_orders s) ?c ?n"
    by (simp_all add: track_new_order_def alloc_order_def start_tracking_order_def)
  have old: "r < ?n \<Longrightarrow> order_ids s r \<noteq> ?c" for r
    using assms(2) by (simp add: fresh_client_id_def order_ids_def)
  have unused: "\<not> dict_has d ?c" if "refs_ok ?n (order_ids s) d" for d
    using refs_ok_has [OF that] old by blast
  have "inj_on ((order_ids s)(?n := ?c)) {..<Suc ?n}"
    using assms(1) old by (fastforce simp: tracker_inv_def inj_on_def less_Suc_eq)
  moreover have "\<not> dict_has (trk_cached_orders s) ?c" "\<not> dict_has (trk_lost_orders s) ?c"
    using assms(1) unused by (simp_all add: tracker_inv_def)
  moreover have "refs_ok (Suc ?n) ((order_ids s)(?n := ?c)) (dict_set (trk_in_flight_orders s) ?c ?n)"
    using assms(1) by (intro refs_ok_set refs_ok_Suc) (simp_all add: tracker_inv_def)
  ultimately show ?thesis
    using assms(1,3,4) unfolding tracker_inv_def ids pairs fields
    by (simp add: less_Suc_eq refs_ok_Suc disjoint_keys_set(1))
qed

subsection \<open>Completion\<close>

text \<open>
  What \<open>trigger_order_completion\<close> can do with a valid pair: nothing while the order is open;
  otherwise at most one event, which is neither a creation nor a fill, and the end of tracking.
\<close>

definition completion_event :: "tracker \<Rightarrow> in_flight_order \<Rightarrow> order_update \<Rightarrow> market_event list" where
  "completion_event s ord u =
     (if is_cancelled ord
      then [EvCancelled (trk_current_timestamp s) (o_client_order_id ord) (o_exchange_order_id ord)]
      else if is_filled ord
      then [EvCompleted (o_trade_type ord = BUY) (trk_current_timestamp s) (o_client_order_id ord)
              (base_asset ord) (case quote_asset ord of Inr q \<Rightarrow> q | Inl _ \<Rightarrow> []) (o_executed_amount_base ord)
              (o_executed_amount_quote ord) (o_order_type ord) (o_exchange_order_id ord)]
      else if is_failure ord
      then (let misc = (case ou_misc_updates u of None \<Rightarrow> [] | Some m \<Rightarrow> m)
            in [EvFailure (trk_current_timestamp s) (o_client_order_id ord) (o_order_type ord)
                  (dict_get misc ''error_type'') (dict_get misc ''error_message'')])
      else [])"

definition log_events :: "tracker \<Rightarrow> market_event list \<Rightarrow> tracker" where
  "log_events s es = s\<lparr>trk_events := trk_events s @ es\<rparr>"

lemma log_events_simps [simp]:
  "trk_next (log_events s es) = trk_next s"
  "trk_in_flight_orders (log_events s es) = trk_in_flight_orders s"
  "trk_cached_orders (log_events s es) = trk_cached_orders s"
  "trk_lost_orders (log_events s es) = trk_lost_orders s"
  "trk_events (log_events s es) = trk_events s @ es"
  "trk_orders (log_events s es) = trk_orders s"
  "trk_current_timestamp (log_events s es) = trk_current_timestamp s"
  "order_ids (log_events s es) = order_ids s"
  "order_pairs (log_events s es) = order_pairs s"
  "log_events s [] = s"
  "tracker_inv (log_events s es) = tracker_inv s"
  by (simp_all add: log_events_def order_ids_def order_pairs_def tracker_inv_def)

lemma trigger_order_completion_eq:
  assumes "validate_trading_pair (o_trading_pair (trk_orders s r))"
  shows "trigger_order_completion s r u =
     (if is_open (trk_orders s r) then (s, None)
      else (stop_tracking_order (log_events s (completion_event s (trk_orders s r) u))
              (o_client_order_id (trk_orders s r)), None))"
proof -
  obtain q where "quote_asset (trk_orders s r) = Inr q"
    using quote_asset_valid [OF assms] by blast
  then show ?thesis
    by (simp add: trigger_order_completion_def completion_event_def trigger_completed_event_def
        trigger_cancelled_event_def trigger_failure_event_def trigger_event_def log_events_def Let_def)
qed

lemma trigger_order_creation_eq:
  "trigger_order_creation s ord previous_state new_state =
     log_events s (if previous_state = PENDING_CREATE \<and> previous_state \<noteq> new_state
                      \<and> new_state \<notin> set [CANCELED, FAILED, PENDING_CANCEL]
        then [EvCreated (o_trade_type ord = BUY) (trk_current_timestamp s) (o_order_type ord)
                (o_trading_pair ord) (o_amount ord) (o_price ord) (o_client_order_id ord)
                (o_creation_timestamp ord) (o_exchange_order_id ord) (o_leverage ord) (o_position ord)]
        else [])"
  by (simp add: trigger_order_creation_def trigger_created_event_def trigger_event_def log_events_def)

text \<open>The whole second half of an order update, in one equation.\<close>

definition creation_events :: "tracker \<Rightarrow> in_flight_order \<Rightarrow> order_state \<Rightarrow> order_state \<Rightarrow> market_event list" where
  "creation_events s ord previous_state new_state =
     (if previous_state = PENDING_CREATE \<and> previous_state \<noteq> new_state
         \<and> new_state \<notin> set [CANCELED, FAILED, PENDING_CANCEL]
      then [EvCreated (o_trade_type ord = BUY) (trk_current_timestamp s) (o_order_type ord)
              (o_trading_pair ord) (o_amount ord) (o_price ord) (o_client_order_id ord)
              (o_creation_timestamp ord) (o_exchange_order_id ord) (o_leverage ord) (o_position ord)]
      else [])"

lemma put_order_timestamp [simp]: "trk_current_timestamp (put_order s r ord) = trk_current_timestamp s"
  by (simp add: put_order_def)

lemma finish_order_update_eq:
  assumes "validate_trading_pair (o_trading_pair (trk_orders s r))"
    and "update_with_order_update (trk_orders s r) u = (ord, updated)"
  shows "finish_order_update s r u =
     (let s1 = put_order s r ord;
          s2 = log_events s1 (creation_events s ord (o_current_state (trk_orders s r)) (ou_new_state u))
      in if \<not> updated then (s1, None)
         else if is_open ord then (s2, None)
         else (stop_tracking_order (log_events s2 (completion_event s ord u)) (o_client_order_id ord), None))"
proof -
  have "validate_trading_pair (o_trading_pair ord)"
    using assms order_update_frame(1) [of "trk_orders s r" u] by simp
  moreover have "completion_event (log_events (put_order s r ord) es) ord u = completion_event s ord u" for es
    by (simp add: completion_event_def)
  ultimately show ?thesis
    using assms(2)
    by (simp add: finish_order_update_def trigger_order_creation_eq creation_events_def
        trigger_order_completion_eq Let_def)
qed

lemma finish_order_update_no_error:
  assumes "validate_trading_pair (o_trading_pair (trk_orders s r))"
  shows "snd (finish_order_update s r u) = None"
  by (cases "update_with_order_update (trk_orders s r) u")
    (simp add: finish_order_update_eq [OF assms] Let_def)

lemma tracker_inv_finish:
  assumes "tracker_inv s" and "r < trk_next s"
  shows "tracker_inv (fst (finish_order_update s r u))"
proof -
  obtain ord updated where upd: "update_with_order_update (trk_orders s r) u = (ord, updated)"
    by (cases "update_with_order_update (trk_orders s r) u")
  have valid: "validate_trading_pair (o_trading_pair (trk_orders s r))"
    using assms by (simp add: tracker_inv_def order_pairs_def)
  have same: "o_client_order_id ord = o_client_order_id (trk_orders s r)"
    "o_trading_pair ord = o_trading_pair (trk_orders s r)"
    using order_update_frame(1,2) [of "trk_orders s r" u] upd by simp_all
  show ?thesis
    using tracker_inv_put_order [OF assms(1) same]
    by (simp add: finish_order_update_eq [OF valid upd] Let_def tracker_inv_stop)
qed

subsection \<open>The other operations\<close>

lemma tracker_inv_valid:
  "tracker_inv s \<Longrightarrow> r < trk_next s \<Longrightarrow> validate_trading_pair (o_trading_pair (trk_orders s r))"
  by (simp add: tracker_inv_def order_pairs_def)

lemma fetch_lost_order_key:
  assumes "tracker_inv s" and "fetch_lost_order s cid exid = Some r"
  shows "r < trk_next s \<and> dict_get (trk_lost_orders s) (o_client_order_id (trk_orders s r)) = Some r"
proof -
  have wf: "dict_wf (trk_lost_orders s)" using assms(1) by (simp add: tracker_inv_def refs_ok_def)
  obtain k where k: "dict_get (trk_lost_orders s) k = Some r"
    using fetch_from_get [OF wf] assms(2) unfolding fetch_lost_order_def by blast
  with assms(1) have "r < trk_next s \<and> order_ids s r = k"
    by (auto simp: tracker_inv_def dest: refs_okD)
  with k show ?thesis by (simp add: order_ids_def)
qed

lemma order_update_of_lost_ok:
  assumes "tracker_inv s"
  shows "snd (order_update_of_lost s u) = None" and "tracker_inv (fst (order_update_of_lost s u))"
    and "trk_orders (fst (order_update_of_lost s u)) = trk_orders s"
    and "trk_next (fst (order_update_of_lost s u)) = trk_next s"
    and "trk_events (fst (order_update_of_lost s u)) = trk_events s"
  using assms fetch_lost_order_key [OF assms]
  by (auto simp: order_update_of_lost_def dict_pop_strict_def dict_has_def tracker_inv_def
      order_ids_def order_pairs_def refs_ok_del disjoint_keys_intros split: option.splits)

lemma process_order_update_begin_Finished:
  assumes "tracker_inv s" and "process_order_update_begin s u = Finished out"
  shows "out = (s, None) \<or> (\<exists>r < trk_next s. out = finish_order_update s r u) \<or> out = order_update_of_lost s u"
  using assms fetch_order_ref
  by (fastforce simp: process_order_update_begin_def split: if_splits option.splits)

lemma process_order_update_begin_Awaiting:
  "tracker_inv s \<Longrightarrow> process_order_update_begin s u = Awaiting r \<Longrightarrow> r < trk_next s"
  using fetch_order_ref by (fastforce simp: process_order_update_begin_def split: if_splits option.splits)

lemma process_order_update_cases:
  assumes "tracker_inv s"
  shows "process_order_update s u = (s, None) \<or>
         (\<exists>r < trk_next s. process_order_update s u = finish_order_update s r u) \<or>
         process_order_update s u = order_update_of_lost s u"
  using process_order_update_begin_Finished [OF assms] process_order_update_begin_Awaiting [OF assms]
  by (fastforce simp: process_order_update_def split: update_progress.splits)

lemma process_order_update_ok:
  assumes "tracker_inv s"
  shows "snd (process_order_update s u) = None \<and> tracker_inv (fst (process_order_update s u))"
  using process_order_update_cases [OF assms, of u] assms
  by (auto simp: order_update_of_lost_ok tracker_inv_finish finish_order_update_no_error tracker_inv_valid)

lemma process_trade_update_ok:
  assumes "tracker_inv s"
  shows "snd (process_trade_update s t) = None \<and> tracker_inv (fst (process_trade_update s t))"
proof (cases "dict_get (all_fillable_orders s) (tu_client_order_id t)")
  case None
  with assms show ?thesis by (simp add: process_trade_update_def)
next
  case (Some r)
  obtain ord upd where u: "update_with_trade_update (trk_orders s r) t = (ord, upd)"
    by (cases "update_with_trade_update (trk_orders s r) t")
  have r: "r < trk_next s" using all_fillable_refs [OF assms Some] by simp
  have same: "o_client_order_id ord = o_client_order_id (trk_orders s r)"
    "o_trading_pair ord = o_trading_pair (trk_orders s r)"
    using trade_update_frame(1,2) [of "trk_orders s r" t] u by simp_all
  then obtain q where "quote_asset ord = Inr q"
    using quote_asset_valid tracker_inv_valid [OF assms r] by metis
  with Some u tracker_inv_put_order [OF assms same] show ?thesis
    by (simp add: process_trade_update_def trigger_order_fills_def trigger_filled_event_def Let_def)
qed

text \<open>
  Losing an order: with the structure intact, the failed update finds the in-flight order
  itself, completes it into the cache, and the deletion from the cache succeeds.
\<close>

definition count_not_found :: "tracker \<Rightarrow> string \<Rightarrow> tracker" where
  "count_not_found s cid =
     s\<lparr>trk_order_not_found_records := dict_set (trk_order_not_found_records s) cid
         ((case dict_get (trk_order_not_found_records s) cid of None \<Rightarrow> 0 | Some n \<Rightarrow> n) + 1)\<rparr>"

lemma count_not_found_frame [simp]:
  "trk_orders (count_not_found s cid) = trk_orders s"
  "trk_next (count_not_found s cid) = trk_next s"
  "trk_events (count_not_found s cid) = trk_events s"
  "trk_in_flight_orders (count_not_found s cid) = trk_in_flight_orders s"
  "trk_cached_orders (count_not_found s cid) = trk_cached_orders s"
  "trk_lost_orders (count_not_found s cid) = trk_lost_orders s"
  "order_ids (count_not_found s cid) = order_ids s"
  "tracker_inv (count_not_found s cid) = tracker_inv s"
  by (simp_all add: count_not_found_def tracker_inv_def order_ids_def order_pairs_def)

lemma in_flight_fetch:
  assumes "tracker_inv s" and "dict_get (trk_in_flight_orders s) cid = Some r"
  shows "fetch_order s (Some cid) exid = Some r"
proof -
  have "dict_get (trk_cached_orders s) cid = None"
    using assms by (auto simp: tracker_inv_def disjoint_keys_def dict_has_def)
  with assms show ?thesis by (simp add: fetch_order_def fetch_from_def all_orders_get)
qed

lemma failed_update_simps [simp]:
  "ou_new_state (failed_update s cid r) = FAILED"
  "ou_client_order_id (failed_update s cid r) = Some cid"
  "ou_exchange_order_id (failed_update s cid r) = None"
  by (simp_all add: failed_update_def)

lemma lose_order_update:
  assumes inv: "tracker_inv s" and get: "dict_get (trk_in_flight_orders s) cid = Some r"
    and live: "o_current_state (trk_orders s r) \<notin> set [CANCELED, FILLED, FAILED]"
  defines "s' \<equiv> fst (process_order_update s (failed_update s cid r))"
  shows "process_order_update s (failed_update s cid r) = (s', None)"
    and "tracker_inv s'" and "dict_get (trk_cached_orders s') cid = Some r"
    and "trk_next s' = trk_next s" and "o_client_order_id (trk_orders s' r) = cid"
    and "\<not> dict_has (trk_in_flight_orders s') cid"
proof -
  let ?u = "failed_update s cid r"
  have r: "r < trk_next s" and cid: "o_client_order_id (trk_orders s r) = cid"
    using inv get by (auto simp: tracker_inv_def order_ids_def dest: refs_okD)
  have "cid \<noteq> []" using inv r cid by (auto simp: tracker_inv_def order_ids_def)
  then have truthy: "truthy_str (Some cid)" by (cases cid) simp_all
  then have fin: "process_order_update s ?u = finish_order_update s r ?u"
    using in_flight_fetch [OF inv get]
    by (simp add: process_order_update_def process_order_update_begin_def)
  obtain ord upd where u: "update_with_order_update (trk_orders s r) ?u = (ord, upd)"
    by (cases "update_with_order_update (trk_orders s r) ?u")
  have state: "o_current_state ord = FAILED"
    using order_update_state [of ?u "trk_orders s r"] u cid by simp
  have upd: "upd"
  proof (rule ccontr)
    assume "\<not> upd"
    with order_update_not_updated [of "trk_orders s r" ?u] u state live show False by simp
  qed
  have same: "o_client_order_id ord = cid"
    using order_update_frame(2) [of "trk_orders s r" ?u] u cid by simp
  have closed: "\<not> is_open ord" by (simp add: is_open_def state)
  show ok: "process_order_update s ?u = (s', None)" and "tracker_inv s'"
    using process_order_update_ok [OF inv, of ?u] by (simp_all add: s'_def prod_eq_iff)
  have "s' = stop_tracking_order (log_events (log_events (put_order s r ord)
          (creation_events s ord (o_current_state (trk_orders s r)) FAILED)) (completion_event s ord ?u)) cid"
    using upd closed same
    by (simp add: s'_def fin finish_order_update_eq [OF tracker_inv_valid [OF inv r] u] Let_def)
  then show "dict_get (trk_cached_orders s') cid = Some r" "trk_next s' = trk_next s"
    "o_client_order_id (trk_orders s' r) = cid" "\<not> dict_has (trk_in_flight_orders s') cid"
    using get same by (simp_all add: stop_tracking_order_def dict_has_def)
qed

lemma process_order_not_found_count:
  assumes "fetch_tracked_order s cid = Some r"
  defines "n_missing \<equiv> (case dict_get (trk_order_not_found_records s) cid of None \<Rightarrow> 0 | Some n \<Rightarrow> n) + 1"
  shows "process_order_not_found s cid =
     (if n_missing > trk_lost_order_count_limit s
         \<and> o_current_state (trk_orders s r) \<notin> set [CANCELED, FILLED, FAILED]
      then obind (process_order_update (count_not_found s cid) (failed_update (count_not_found s cid) cid r)) (\<lambda>s2.
             case dict_pop_strict (trk_cached_orders s2) cid of
               Inl e \<Rightarrow> (s2, Some e)
             | Inr d \<Rightarrow>
                 (s2\<lparr>trk_cached_orders := d,
                     trk_lost_orders :=
                       dict_set (trk_lost_orders s2) (o_client_order_id (trk_orders s2 r)) r\<rparr>, None))
      else (count_not_found s cid, None))"
  using assms by (simp add: process_order_not_found_def count_not_found_def n_missing_def Let_def)

definition move_to_lost :: "tracker \<Rightarrow> string \<Rightarrow> address \<Rightarrow> tracker" where
  "move_to_lost s cid r =
     s\<lparr>trk_cached_orders := dict_del (trk_cached_orders s) cid,
       trk_lost_orders := dict_set (trk_lost_orders s) cid r\<rparr>"

lemma tracker_inv_move_to_lost:
  assumes "tracker_inv s" and "dict_get (trk_cached_orders s) cid = Some r"
  shows "tracker_inv (move_to_lost s cid r)"
proof -
  have r: "r < trk_next s" "order_ids s r = cid"
    using assms by (auto simp: tracker_inv_def dest: refs_okD)
  have free: "\<not> dict_has (trk_in_flight_orders s) cid"
    using assms by (auto simp: tracker_inv_def disjoint_keys_def dict_has_def)
  have ids: "order_ids (move_to_lost s cid r) = order_ids s" "order_pairs (move_to_lost s cid r) = order_pairs s"
    by (simp_all add: move_to_lost_def order_ids_def order_pairs_def)
  show ?thesis
    using assms(1) r free unfolding tracker_inv_def ids
    by (simp add: move_to_lost_def refs_ok_del refs_ok_set disjoint_keys_intros)
qed

lemma process_order_not_found_lose:
  assumes inv: "tracker_inv s" and get: "fetch_tracked_order s cid = Some r"
    and live: "o_current_state (trk_orders s r) \<notin> set [CANCELED, FILLED, FAILED]"
    and over: "(case dict_get (trk_order_not_found_records s) cid of None \<Rightarrow> 0 | Some n \<Rightarrow> n) + 1
                 > trk_lost_order_count_limit s"
  shows "process_order_not_found s cid =
     (move_to_lost (fst (process_order_update (count_not_found s cid)
        (failed_update (count_not_found s cid) cid r))) cid r, None)"
proof -
  let ?s = "count_not_found s cid"
  have i: "tracker_inv ?s" and g: "dict_get (trk_in_flight_orders ?s) cid = Some r"
    and l: "o_current_state (trk_orders ?s r) \<notin> set [CANCELED, FILLED, FAILED]"
    using inv get live by (simp_all add: fetch_tracked_order_def)
  obtain s2 where s2: "process_order_update ?s (failed_update ?s cid r) = (s2, None)"
    using lose_order_update(1) [OF i g l] by blast
  show ?thesis
    using lose_order_update(3,5) [OF i g l] live over
    by (simp add: process_order_not_found_count [OF get] move_to_lost_def dict_pop_strict_def dict_has_def s2)
qed

lemma process_order_not_found_ok:
  assumes inv: "tracker_inv s"
  shows "snd (process_order_not_found s cid) = None \<and> tracker_inv (fst (process_order_not_found s cid))"
proof (cases "fetch_tracked_order s cid")
  case None
  with process_order_update_ok [OF inv] inv show ?thesis
    by (simp add: process_order_not_found_def split: option.split)
next
  case (Some r)
  let ?s = "count_not_found s cid" and ?st = "o_current_state (trk_orders s r)"
  let ?c = "(case dict_get (trk_order_not_found_records s) cid of None \<Rightarrow> 0 | Some n \<Rightarrow> n) + 1"
  show ?thesis
  proof (cases "?c > trk_lost_order_count_limit s \<and> ?st \<notin> set [CANCELED, FILLED, FAILED]")
    case True
    have i: "tracker_inv ?s" and g: "dict_get (trk_in_flight_orders ?s) cid = Some r"
      and l: "o_current_state (trk_orders ?s r) \<notin> set [CANCELED, FILLED, FAILED]"
      using inv Some True by (simp_all add: fetch_tracked_order_def)
    show ?thesis
      using process_order_not_found_lose [OF inv Some] True
        tracker_inv_move_to_lost [OF lose_order_update(2,3) [OF i g l]] by simp
  next
    case False
    with inv show ?thesis
      unfolding process_order_not_found_count [OF Some] if_not_P [OF False] by simp
  qed
qed

section \<open>Reachable states\<close>

lemmas tracker_ops_ok =
  process_trade_update_ok process_order_update_ok process_order_not_found_ok

inductive_cases tracker_stepE: "tracker_step y z"

lemma trk_next_mono:
  "trk_next (fst (finish_order_update s r u)) = trk_next s"
  "trk_next (fst (process_trade_update s t)) = trk_next s"
  "trk_next (fst (order_update_of_lost s u)) = trk_next s"
  by (auto simp: finish_order_update_def trigger_order_completion_def trigger_completed_event_def
      trigger_order_creation_def trigger_created_event_def trigger_cancelled_event_def
      trigger_failure_event_def process_trade_update_def trigger_order_fills_def
      trigger_filled_event_def order_update_of_lost_def Let_def obind_def
      split: prod.splits option.splits sum.splits if_splits)

lemma trk_next_process_order_update: "trk_next (fst (process_order_update s u)) = trk_next s"
  by (auto simp: process_order_update_def process_order_update_begin_def trk_next_mono
      split: option.splits)

lemma trk_next_stop [simp]: "trk_next (expire_cached s cid) = trk_next s"
  by (simp add: expire_cached_def)

lemma trk_next_not_found: "trk_next (fst (process_order_not_found s cid)) = trk_next s"
proof (cases "fetch_tracked_order s cid")
  case None
  then show ?thesis
    by (simp add: process_order_not_found_def trk_next_process_order_update split: option.split)
next
  case (Some r)
  have "trk_next (fst (process_order_update (count_not_found s cid) u)) = trk_next s" for u
    by (simp add: trk_next_process_order_update)
  then show ?thesis
    by (auto simp: process_order_not_found_count [OF Some] obind_def split: prod.splits option.splits sum.splits)
      (metis fst_conv)+
qed

lemma tracker_inv_init: "tracker_inv (init_tracker limit now)"
  by (simp add: tracker_inv_def init_tracker_def refs_ok_def disjoint_keys_def)

lemma tracker_step_inv:
  assumes "tracker_step y z" and "tracker_inv (sys_tracker y)" and "pending_inv y"
  shows "tracker_inv (sys_tracker z) \<and> pending_inv z"
  using assms
proof (cases rule: tracker_step.cases)
  case (track cid pair ot tt amount created price exid lev pos)
  let ?ord = "new_in_flight_order cid pair ot tt amount created price exid PENDING_CREATE lev pos"
  have "o_client_order_id ?ord = cid" "o_trading_pair ?ord = pair"
    by (simp_all add: new_in_flight_order_def)
  then have "tracker_inv (track_new_order (sys_tracker y) ?ord)"
    using tracker_inv_track [of "sys_tracker y" ?ord] track assms(2) by simp
  moreover have "trk_next (track_new_order (sys_tracker y) ?ord) = Suc (trk_next (sys_tracker y))"
    by (simp add: track_new_order_def alloc_order_def start_tracking_order_def)
  ultimately show ?thesis
    using assms(3) track(1) by (auto simp: pending_inv_def)
next
  case (update_now u out)
  then show ?thesis
    using assms(2,3) process_order_update_begin_Finished [OF assms(2) update_now(3)]
    by (auto simp: pending_inv_def trk_next_mono order_update_of_lost_ok tracker_inv_finish)
next
  case (update_wait u r)
  then show ?thesis
    using assms(2,3) process_order_update_begin_Awaiting [OF assms(2) update_wait(3)]
    by (auto simp: pending_inv_def)
next
  case (update_resume r u)
  then have "r < trk_next (sys_tracker y)" using assms(3) by (auto simp: pending_inv_def)
  moreover have "set (remove1 (r, u) (sys_pending y)) \<subseteq> set (sys_pending y)"
    by (rule set_remove1_subset)
  ultimately show ?thesis
    using assms(2,3) update_resume(1) by (auto simp: pending_inv_def trk_next_mono tracker_inv_finish)
qed (use assms(2,3) in \<open>simp_all add: pending_inv_def trk_next_mono trk_next_not_found
      tracker_ops_ok tracker_inv_stop tracker_inv_expire\<close>)

lemma tracker_reachable_inv:
  assumes "tracker_reachable limit now y"
  shows "tracker_inv (sys_tracker y) \<and> pending_inv y"
  using assms
  by induction (simp_all add: tracker_inv_init pending_inv_def [of "\<lparr>sys_tracker = _, sys_pending = []\<rparr>"]
      tracker_step_inv)

end
