(* ===== verification/Trading_Rules.thy ===== *)
theory Trading_Rules
  imports Trade_Fee
begin

text \<open>
  \<open>connector/trading_rule.pyx\<close> and the quantization of prices and amounts in
  \<open>connector/connector_base.pyx\<close> with the increments of \<open>connector/exchange_py_base.py\<close>.
  The interface \<open>quantizer\<close> is what sizing code relies on; the trading rules provide it.
\<close>

section \<open>Floor division of decimals\<close>

text \<open>\<open>Decimal.__floordiv__\<close> truncates towards zero.\<close>

definition dec_trunc :: "decimal \<Rightarrow> int" where
  "dec_trunc x = (if 0 \<le> x then \<lfloor>x\<rfloor> else - \<lfloor>- x\<rfloor>)"

definition dec_floordiv :: "decimal \<Rightarrow> decimal \<Rightarrow> decimal py_result" where
  "dec_floordiv a b = ebind (dec_div a b) (\<lambda>q. Inr (of_int (dec_trunc q)))"

definition quantize_step :: "decimal \<Rightarrow> decimal \<Rightarrow> decimal py_result" where
  "quantize_step quantum x = ebind (dec_floordiv x quantum) (\<lambda>n. Inr (n * quantum))"

lemma dec_trunc_nonneg: "0 \<le> x \<Longrightarrow> dec_trunc x = \<lfloor>x\<rfloor>"
  by (simp add: dec_trunc_def)

lemma dec_trunc_of_int [simp]: "dec_trunc (of_int n) = n"
proof (cases "0 \<le> n")
  case True
  then show ?thesis by (simp add: dec_trunc_def)
next
  case False
  have "\<lfloor>- of_int n :: rat\<rfloor> = - n" using floor_of_int [of "- n"] by simp
  with False show ?thesis by (simp add: dec_trunc_def)
qed

lemma quantize_step_eq: "q \<noteq> 0 \<Longrightarrow> quantize_step q x = Inr (of_int (dec_trunc (x / q)) * q)"
  by (simp add: quantize_step_def dec_floordiv_def)

lemma quantize_step_multiple: "q \<noteq> 0 \<Longrightarrow> quantize_step q (of_int n * q) = Inr (of_int n * q)"
  by (simp add: quantize_step_eq)

lemma quantize_step_bounds:
  assumes "0 < q" and "0 \<le> x"
  obtains y where "quantize_step q x = Inr y" and "0 \<le> y" and "y \<le> x" and "x < y + q"
proof
  let ?n = "\<lfloor>x / q\<rfloor>"
  show "quantize_step q x = Inr (of_int ?n * q)"
    using assms by (simp add: quantize_step_eq dec_trunc_nonneg)
  have "0 \<le> ?n" using assms by simp
  then show "0 \<le> of_int ?n * q" using assms(1) by simp
  have "of_int ?n * q \<le> (x / q) * q"
    using assms(1) by (intro mult_right_mono of_int_floor_le) simp
  moreover have "(x / q) * q < (of_int ?n + 1) * q"
    using assms(1) floor_correct [of "x / q"] by (intro mult_strict_right_mono) simp_all
  ultimately show "of_int ?n * q \<le> x" and "x < of_int ?n * q + q"
    using assms(1) by (simp_all add: distrib_right)
qed

lemma quantize_step_mono:
  assumes "0 < q" and "0 \<le> x" and "x \<le> x'" and "quantize_step q x = Inr y" and "quantize_step q x' = Inr y'"
  shows "y \<le> y'"
proof -
  have "\<lfloor>x / q\<rfloor> \<le> \<lfloor>x' / q\<rfloor>"
    using assms(1,3) by (intro floor_mono) (simp add: divide_right_mono)
  moreover have "y = of_int \<lfloor>x / q\<rfloor> * q" "y' = of_int \<lfloor>x' / q\<rfloor> * q"
    using assms by (auto simp: quantize_step_eq dec_trunc_nonneg)
  ultimately show ?thesis using assms(1) by simp
qed

section \<open>Trading rules\<close>

record trading_rule =
  rule_trading_pair :: string
  min_order_size :: decimal
  max_order_size :: decimal
  min_price_increment :: decimal
  min_base_amount_increment :: decimal
  min_quote_amount_increment :: decimal
  min_notional_size :: decimal
  min_order_value :: decimal
  supports_limit_orders :: bool
  supports_market_orders :: bool
  buy_order_collateral_token :: string
  sell_order_collateral_token :: string

definition s_decimal_max :: decimal where "s_decimal_max = 10 ^ 56"
definition s_decimal_min :: decimal where "s_decimal_min = 1 / s_decimal_max"

text \<open>The constructor: defaults, and the quote token where no collateral token is given.\<close>

definition new_trading_rule ::
  "string \<Rightarrow> decimal \<Rightarrow> decimal \<Rightarrow> decimal \<Rightarrow> decimal \<Rightarrow> string option \<Rightarrow> string option \<Rightarrow> trading_rule py_result" where
  "new_trading_rule pair min_size price_inc amount_inc min_notional buy_token sell_token =
     ebind (split_hb_trading_pair pair) (\<lambda>(_, quote).
     let token = (\<lambda>t. case py_or t (Some quote) of Some c \<Rightarrow> c | None \<Rightarrow> quote) in
     Inr \<lparr>rule_trading_pair = pair, min_order_size = min_size, max_order_size = s_decimal_max,
          min_price_increment = price_inc, min_base_amount_increment = amount_inc,
          min_quote_amount_increment = s_decimal_min, min_notional_size = min_notional,
          min_order_value = 0, supports_limit_orders = True, supports_market_orders = True,
          buy_order_collateral_token = token buy_token, sell_order_collateral_token = token sell_token\<rparr>)"

type_synonym trading_rules = "(string, trading_rule) dict"

definition get_order_price_quantum :: "trading_rules \<Rightarrow> string \<Rightarrow> decimal py_result" where
  "get_order_price_quantum rules pair = ebind (dict_at rules pair) (\<lambda>r. Inr (min_price_increment r))"

definition get_order_size_quantum :: "trading_rules \<Rightarrow> string \<Rightarrow> decimal py_result" where
  "get_order_size_quantum rules pair = ebind (dict_at rules pair) (\<lambda>r. Inr (min_base_amount_increment r))"

definition quantize_order_price :: "trading_rules \<Rightarrow> string \<Rightarrow> pdecimal \<Rightarrow> pdecimal py_result" where
  "quantize_order_price rules pair price =
     (case price of
        NaN \<Rightarrow> Inr NaN
      | Fin p \<Rightarrow> ebind (get_order_price_quantum rules pair) (\<lambda>q. ebind (quantize_step q p) (\<lambda>x. Inr (Fin x))))"

definition quantize_order_amount :: "trading_rules \<Rightarrow> string \<Rightarrow> decimal \<Rightarrow> decimal py_result" where
  "quantize_order_amount rules pair amount =
     ebind (get_order_size_quantum rules pair) (\<lambda>q. quantize_step q amount)"

section \<open>What sizing code relies on\<close>

locale quantizer =
  fixes quantize :: "'rules \<Rightarrow> string \<Rightarrow> decimal \<Rightarrow> decimal py_result"
    and listed :: "'rules \<Rightarrow> string \<Rightarrow> bool"
  assumes quantize_total: "listed rules pair \<Longrightarrow> 0 \<le> x \<Longrightarrow> \<exists>y. quantize rules pair x = Inr y"
    and quantize_range: "listed rules pair \<Longrightarrow> 0 \<le> x \<Longrightarrow> quantize rules pair x = Inr y \<Longrightarrow> 0 \<le> y \<and> y \<le> x"
    and quantize_fixed: "listed rules pair \<Longrightarrow> quantize rules pair x = Inr y \<Longrightarrow> quantize rules pair y = Inr y"
    and quantize_monotone: "listed rules pair \<Longrightarrow> 0 \<le> x \<Longrightarrow> x \<le> x' \<Longrightarrow> quantize rules pair x = Inr y \<Longrightarrow>
      quantize rules pair x' = Inr y' \<Longrightarrow> y \<le> y'"
begin

text \<open>The quantized amount is the largest quantized amount below the given one.\<close>

lemma quantize_greatest:
  assumes "listed rules pair" and "0 \<le> z" and "z \<le> x" and "quantize rules pair z = Inr z"
    and "quantize rules pair x = Inr y"
  shows "z \<le> y"
  using quantize_monotone [OF assms(1,2,3,4,5)] .

lemma quantize_zero: "listed rules pair \<Longrightarrow> quantize rules pair 0 = Inr 0"
  using quantize_total [of rules pair 0] quantize_range [of rules pair 0] by force

end

definition rule_listed :: "trading_rules \<Rightarrow> string \<Rightarrow> bool" where
  "rule_listed rules pair \<longleftrightarrow> (\<exists>r. dict_get rules pair = Some r \<and> 0 < min_base_amount_increment r)"

lemma quantize_order_amount_listed:
  "rule_listed rules pair \<Longrightarrow> \<exists>q > 0. \<forall>x. quantize_order_amount rules pair x = quantize_step q x"
  by (auto simp: rule_listed_def quantize_order_amount_def get_order_size_quantum_def dict_at_def)

interpretation amounts: quantizer quantize_order_amount rule_listed
proof
  fix rules :: trading_rules and pair x x' y y'
  assume "rule_listed rules pair"
  then obtain q where q: "0 < q" "\<And>x. quantize_order_amount rules pair x = quantize_step q x"
    using quantize_order_amount_listed by blast
  show "0 \<le> x \<Longrightarrow> \<exists>y. quantize_order_amount rules pair x = Inr y"
    using q by (auto elim: quantize_step_bounds)
  show "0 \<le> x \<Longrightarrow> quantize_order_amount rules pair x = Inr y \<Longrightarrow> 0 \<le> y \<and> y \<le> x"
    using quantize_step_bounds [OF q(1), of x] by (auto simp: q(2))
  show "quantize_order_amount rules pair x = Inr y \<Longrightarrow> quantize_order_amount rules pair y = Inr y"
    using q by (auto simp: quantize_step_eq)
  show "0 \<le> x \<Longrightarrow> x \<le> x' \<Longrightarrow> quantize_order_amount rules pair x = Inr y \<Longrightarrow>
      quantize_order_amount rules pair x' = Inr y' \<Longrightarrow> y \<le> y'"
    unfolding q(2) by (rule quantize_step_mono [OF q(1)])
qed

text \<open>
  Quantizing an order amount under a trading rule with a positive increment succeeds, never
  enlarges the amount, loses less than one increment, and is the largest multiple of the
  increment that is not above the amount.
\<close>

theorem quantize_order_amount_largest_multiple:
  assumes "dict_get rules pair = Some rule" and "0 < min_base_amount_increment rule" and "0 \<le> amount"
  shows "\<exists>y n. quantize_order_amount rules pair amount = Inr y \<and> y = of_int n * min_base_amount_increment rule
    \<and> 0 \<le> y \<and> y \<le> amount \<and> amount < y + min_base_amount_increment rule
    \<and> (\<forall>m. of_int m * min_base_amount_increment rule \<le> amount \<longrightarrow> of_int m * min_base_amount_increment rule \<le> y)"
proof -
  let ?q = "min_base_amount_increment rule"
  have eq: "quantize_order_amount rules pair x = quantize_step ?q x" for x
    using assms(1) by (simp add: quantize_order_amount_def get_order_size_quantum_def dict_at_def)
  obtain y where y: "quantize_step ?q amount = Inr y" "0 \<le> y" "y \<le> amount" "amount < y + ?q"
    using quantize_step_bounds [OF assms(2,3)] .
  have n: "y = of_int (dec_trunc (amount / ?q)) * ?q" using y(1) assms(2) by (simp add: quantize_step_eq)
  have "of_int m * ?q \<le> y" if m: "of_int m * ?q \<le> amount" for m
  proof (cases "0 \<le> (of_int m * ?q)")
    case True
    with m assms(2) y(1) show ?thesis
      using quantize_step_mono [of ?q "of_int m * ?q" amount "of_int m * ?q" y] quantize_step_multiple [of ?q m] by simp
  next
    case False
    with y(2) show ?thesis by linarith
  qed
  with y n eq show ?thesis by (metis (no_types, lifting))
qed

definition demo_rules :: trading_rules where
  "demo_rules = [(''SOL-USDC'',
     \<lparr>rule_trading_pair = ''SOL-USDC'', min_order_size = 1 / 10, max_order_size = s_decimal_max,
      min_price_increment = 1 / 100, min_base_amount_increment = 1 / 100,
      min_quote_amount_increment = s_decimal_min, min_notional_size = 5, min_order_value = 0,
      supports_limit_orders = True, supports_market_orders = True,
      buy_order_collateral_token = ''USDC'', sell_order_collateral_token = ''USDC''\<rparr>)]"

theorem quantize_order_amount_largest_multiple_witness:
  "\<exists>y. quantize_order_amount demo_rules ''SOL-USDC'' (1234 / 1000) = Inr y \<and> y \<le> 1234 / 1000 \<and> 1234 / 1000 < y + 1 / 100"
proof -
  let ?r = "snd (hd demo_rules)"
  have "dict_get demo_rules ''SOL-USDC'' = Some ?r" and "min_base_amount_increment ?r = 1 / 100"
    by (simp_all add: demo_rules_def dict_get_def)
  then show ?thesis
    using quantize_order_amount_largest_multiple [of demo_rules "''SOL-USDC''" ?r "1234 / 1000"] by fastforce
qed

end
