(* ===== verification/Exchange_Connector.thy ===== *)
theory Exchange_Connector
  imports Order_Tracker Trading_Rules
begin

text \<open>
  \<open>connector/exchange_py_base.py\<close>: how a connector creates, cancels and polls orders. The state is the
  order tracker, the trading rules, the updates handed to the tracker and not processed yet
  (\<open>safe_ensure_future\<close> runs them later, in order), the suspended coroutines and the requests sent
  to the exchange. A coroutine is cut at its awaits: each request adds a task that holds what the
  coroutine still has to do, and each reply of the exchange is a step that consumes it.

  What an exchange decides (its order types, whether its cancel is synchronous, which errors mean
  that an order is unknown, how it writes decimals) is the record \<open>exchange_spec\<close>; replies are arguments. The
  errors of the tracker's operations are dropped here: they never occur (\<open>Tracker_Ledger\<close>).
\<close>

section \<open>State\<close>

text \<open>\<open>asyncio.TimeoutError\<close>, or any other exception with its class and message.\<close>

datatype api_error = RequestTimeout | ApiError string string

definition error_type :: "api_error \<Rightarrow> string" where
  "error_type e = (case e of RequestTimeout \<Rightarrow> ''TimeoutError'' | ApiError t m \<Rightarrow> t)"

definition error_message :: "api_error \<Rightarrow> string" where
  "error_message e = (case e of RequestTimeout \<Rightarrow> '''' | ApiError t m \<Rightarrow> m)"

record exchange_spec =
  xs_supported_order_types :: "order_type list"
  xs_synchronous_cancel :: bool
  xs_not_found_on_cancel :: "api_error \<Rightarrow> bool"
  xs_not_found_on_status :: "api_error \<Rightarrow> bool"
  xs_show_decimal :: "decimal \<Rightarrow> string"

datatype exchange_call =
    PlaceRequest string string decimal trade_type order_type "pdecimal option"
  | CancelRequest string

text \<open>
  The suspended coroutines with the orders they still have to go through. The flag of the polling
  tasks tells the loop of the lost orders from the status poll.
\<close>

datatype task =
    Placing address
  | Cancelling address
  | CancellingLost address "address list"
  | FetchingFills bool address "address list"
  | FetchingStatus bool address "address list"

record exchange_connector =
  cn_tracker :: tracker
  cn_trading_rules :: trading_rules
  cn_updates :: "order_update list"
  cn_waiting :: "(address \<times> order_update) list"
  cn_tasks :: "task list"
  cn_calls :: "exchange_call list"

definition new_connector :: "int \<Rightarrow> decimal \<Rightarrow> exchange_connector" where
  "new_connector limit now =
     \<lparr>cn_tracker = init_tracker limit now, cn_trading_rules = [], cn_updates = [], cn_waiting = [],
      cn_tasks = [], cn_calls = []\<rparr>"

abbreviation order_at :: "exchange_connector \<Rightarrow> address \<Rightarrow> in_flight_order" where
  "order_at c r \<equiv> trk_orders (cn_tracker c) r"

definition schedule :: "order_update \<Rightarrow> exchange_connector \<Rightarrow> exchange_connector" where
  "schedule u c = c\<lparr>cn_updates := cn_updates c @ [u]\<rparr>"

definition add_task :: "task \<Rightarrow> exchange_connector \<Rightarrow> exchange_connector" where
  "add_task t c = c\<lparr>cn_tasks := cn_tasks c @ [t]\<rparr>"

definition end_task :: "task \<Rightarrow> exchange_connector \<Rightarrow> exchange_connector" where
  "end_task t c = c\<lparr>cn_tasks := remove1 t (cn_tasks c)\<rparr>"

definition send_call :: "exchange_call \<Rightarrow> exchange_connector \<Rightarrow> exchange_connector" where
  "send_call k c = c\<lparr>cn_calls := cn_calls c @ [k]\<rparr>"

definition upd_tracker :: "(tracker \<Rightarrow> tracker) \<Rightarrow> exchange_connector \<Rightarrow> exchange_connector" where
  "upd_tracker f c = c\<lparr>cn_tracker := f (cn_tracker c)\<rparr>"

section \<open>Creating orders\<close>

definition update_order_after_failure ::
  "string \<Rightarrow> string \<Rightarrow> api_error \<Rightarrow> exchange_connector \<Rightarrow> exchange_connector" where
  "update_order_after_failure order_id pair e c =
     schedule \<lparr>ou_trading_pair = pair, ou_timestamp = trk_current_timestamp (cn_tracker c),
       ou_new_state = FAILED, ou_client_order_id = Some order_id, ou_exchange_order_id = None,
       ou_misc_updates = Some [(''error_message'', error_message e), (''error_type'', error_type e)]\<rparr> c"

definition quantized_order ::
  "exchange_connector \<Rightarrow> string \<Rightarrow> decimal \<Rightarrow> order_type \<Rightarrow> pdecimal option \<Rightarrow>
   (trading_rule \<times> pdecimal option \<times> decimal) py_result" where
  "quantized_order c pair amount ot price =
     ebind (dict_at (cn_trading_rules c) pair) (\<lambda>rule.
     ebind (if ot \<in> set [LIMIT, LIMIT_MAKER]
            then (case price of
                    None \<Rightarrow> Inl AttributeError
                  | Some p \<Rightarrow> ebind (quantize_order_price (cn_trading_rules c) pair p) (\<lambda>q. Inr (Some q)))
            else Inr price) (\<lambda>price'.
     ebind (quantize_order_amount (cn_trading_rules c) pair amount) (\<lambda>q. Inr (rule, price', q))))"

text \<open>\<open>price_of\<close> is the connector's \<open>get_price\<close>; NaN when the order book has no price.\<close>

definition order_notional :: "pdecimal \<Rightarrow> decimal \<Rightarrow> pdecimal" where
  "order_notional p a = (case p of NaN \<Rightarrow> NaN | Fin x \<Rightarrow> Fin (x * a))"

definition notional_size ::
  "(string \<Rightarrow> pdecimal py_result) \<Rightarrow> string \<Rightarrow> pdecimal option \<Rightarrow> decimal \<Rightarrow> pdecimal py_result" where
  "notional_size price_of pair price q =
     (if price \<in> set [None, Some NaN, Some (Fin 0)] then ebind (price_of pair) (\<lambda>p. Inr (order_notional p q))
      else Inr (order_notional (the price) q))"

definition order_type_text :: "order_type \<Rightarrow> string" where
  "order_type_text ot = ''OrderType.'' @ order_type_name ot"

text \<open>Why the connector refuses an order without asking the exchange; comparing NaN raises.\<close>

definition refusal ::
  "exchange_spec \<Rightarrow> trading_rule \<Rightarrow> string \<Rightarrow> order_type \<Rightarrow> decimal \<Rightarrow> decimal \<Rightarrow> pdecimal \<Rightarrow> string option py_result" where
  "refusal xs rule pair ot amount q notional =
     (if ot \<notin> set (xs_supported_order_types xs)
      then Inr (Some (order_type_text ot @ '' is not in the list of supported order types''))
      else if q < min_order_size rule
      then Inr (Some (''Order amount '' @ xs_show_decimal xs amount @ '' is lower than minimum order size ''
             @ xs_show_decimal xs (min_order_size rule) @ '' for the pair '' @ pair @ ''. The order will not be created.''))
      else case notional of
             NaN \<Rightarrow> Inl InvalidOperation
           | Fin n \<Rightarrow>
               Inr (if n < min_notional_size rule
                    then Some (''Order notional '' @ xs_show_decimal xs n @ '' is lower than minimum notional size ''
                           @ xs_show_decimal xs (min_notional_size rule) @ '' for the pair '' @ pair @ ''. The order will not be created.'')
                    else None))"

definition connector_start_tracking ::
  "string \<Rightarrow> string \<Rightarrow> order_type \<Rightarrow> trade_type \<Rightarrow> decimal \<Rightarrow> pdecimal option \<Rightarrow> exchange_connector \<Rightarrow> exchange_connector" where
  "connector_start_tracking order_id pair ot t q price c =
     upd_tracker (\<lambda>s. track_new_order s
       (new_in_flight_order order_id pair ot t q (trk_current_timestamp s) price None PENDING_CREATE 1 NIL)) c"

text \<open>The request is sent for the tracked order, at the address \<open>r\<close>.\<close>

definition place_call :: "in_flight_order \<Rightarrow> exchange_call" where
  "place_call ord = PlaceRequest (o_client_order_id ord) (o_trading_pair ord) (o_amount ord) (o_trade_type ord)
     (o_order_type ord) (o_price ord)"

definition begin_place_order :: "address \<Rightarrow> exchange_connector \<Rightarrow> exchange_connector" where
  "begin_place_order r c = add_task (Placing r) (send_call (place_call (order_at c r)) c)"

definition create_order ::
  "exchange_spec \<Rightarrow> (string \<Rightarrow> pdecimal py_result) \<Rightarrow> trade_type \<Rightarrow> string \<Rightarrow> string \<Rightarrow> decimal \<Rightarrow> order_type \<Rightarrow>
   pdecimal option \<Rightarrow> exchange_connector \<Rightarrow> exchange_connector outcome" where
  "create_order xs price_of t order_id pair amount ot price c =
     (case quantized_order c pair amount ot price of
        Inl e \<Rightarrow> (c, Some e)
      | Inr (rule, price', q) \<Rightarrow>
          (let c1 = connector_start_tracking order_id pair ot t q price' c in
           case notional_size price_of pair price' q of
             Inl e \<Rightarrow> (c1, Some e)
           | Inr notional \<Rightarrow>
               (case refusal xs rule pair ot amount q notional of
                  Inl e \<Rightarrow> (c1, Some e)
                | Inr (Some msg) \<Rightarrow> (update_order_after_failure order_id pair (ApiError ''ValueError'' msg) c1, None)
                | Inr None \<Rightarrow> (begin_place_order (trk_next (cn_tracker c)) c1, None))))"

definition on_place_reply :: "address \<Rightarrow> api_error + string \<times> decimal \<Rightarrow> exchange_connector \<Rightarrow> exchange_connector" where
  "on_place_reply r reply c =
     (let ord = order_at c r; c1 = end_task (Placing r) c in
      case reply of
        Inl e \<Rightarrow> update_order_after_failure (o_client_order_id ord) (o_trading_pair ord) e c1
      | Inr (exid, ts) \<Rightarrow>
          schedule \<lparr>ou_trading_pair = o_trading_pair ord, ou_timestamp = ts, ou_new_state = OPEN_STATE,
            ou_client_order_id = Some (o_client_order_id ord), ou_exchange_order_id = Some exid,
            ou_misc_updates = None\<rparr> c1)"

text \<open>The oldest scheduled update runs; waiting for the fills of a FILLED order it is suspended.\<close>

definition run_update :: "exchange_connector \<Rightarrow> exchange_connector" where
  "run_update c =
     (case cn_updates c of
        [] \<Rightarrow> c
      | u # us \<Rightarrow>
          (let c1 = c\<lparr>cn_updates := us\<rparr> in
           case process_order_update_begin (cn_tracker c) u of
             Finished out \<Rightarrow> c1\<lparr>cn_tracker := fst out\<rparr>
           | Awaiting r \<Rightarrow> c1\<lparr>cn_waiting := (r, u) # cn_waiting c\<rparr>))"

definition resume_update :: "address \<times> order_update \<Rightarrow> exchange_connector \<Rightarrow> exchange_connector" where
  "resume_update p c =
     c\<lparr>cn_tracker := fst (finish_order_update (cn_tracker c) (fst p) (snd p)), cn_waiting := remove1 p (cn_waiting c)\<rparr>"

section \<open>Cancelling\<close>

definition begin_cancel :: "address \<Rightarrow> task \<Rightarrow> exchange_connector \<Rightarrow> exchange_connector" where
  "begin_cancel r t c = add_task t (send_call (CancelRequest (o_client_order_id (order_at c r))) c)"

definition execute_cancel :: "string \<Rightarrow> exchange_connector \<Rightarrow> exchange_connector" where
  "execute_cancel order_id c =
     (case fetch_tracked_order (cn_tracker c) order_id of
        None \<Rightarrow> c
      | Some r \<Rightarrow> begin_cancel r (Cancelling r) c)"

definition not_found :: "address \<Rightarrow> exchange_connector \<Rightarrow> exchange_connector" where
  "not_found r c =
     upd_tracker (\<lambda>s. fst (process_order_not_found s (o_client_order_id (trk_orders s r)))) c"

definition execute_order_cancel ::
  "exchange_spec \<Rightarrow> address \<Rightarrow> api_error + bool \<Rightarrow> exchange_connector \<Rightarrow> exchange_connector" where
  "execute_order_cancel xs r reply c =
     (case reply of
        Inr cancelled \<Rightarrow>
          (if cancelled
           then schedule \<lparr>ou_trading_pair = o_trading_pair (order_at c r),
                  ou_timestamp = trk_current_timestamp (cn_tracker c),
                  ou_new_state = (if xs_synchronous_cancel xs then CANCELED else PENDING_CANCEL),
                  ou_client_order_id = Some (o_client_order_id (order_at c r)), ou_exchange_order_id = None,
                  ou_misc_updates = None\<rparr> c
           else c)
      | Inl e \<Rightarrow> (if e = RequestTimeout \<or> xs_not_found_on_cancel xs e then not_found r c else c))"

definition on_cancel_reply ::
  "exchange_spec \<Rightarrow> address \<Rightarrow> api_error + bool \<Rightarrow> exchange_connector \<Rightarrow> exchange_connector" where
  "on_cancel_reply xs r reply c = execute_order_cancel xs r reply (end_task (Cancelling r) c)"

text \<open>
  What \<open>cancel_all\<close> reports: per order the id its cancel returned, None, or an exception; no results
  at all when the time ran out.
\<close>

definition cancel_all_report ::
  "string list \<Rightarrow> (py_error + string option) list option \<Rightarrow> (string \<times> bool) list" where
  "cancel_all_report ids results =
     (let ok = (case results of None \<Rightarrow> [] | Some rs \<Rightarrow> [i. Inr (Some i) \<leftarrow> rs])
      in map (\<lambda>i. (i, True)) ok @ map (\<lambda>i. (i, False)) (filter (\<lambda>i. i \<notin> set ok) ids))"

section \<open>Polling\<close>

definition handle_update_error ::
  "exchange_spec \<Rightarrow> bool \<Rightarrow> address \<Rightarrow> api_error \<Rightarrow> exchange_connector \<Rightarrow> exchange_connector" where
  "handle_update_error xs lost r e c =
     (if lost
      then (if xs_not_found_on_status xs e
            then update_order_after_failure (o_client_order_id (order_at c r)) (o_trading_pair (order_at c r)) e c
            else c)
      else not_found r c)"

definition polled_orders :: "bool \<Rightarrow> exchange_connector \<Rightarrow> address list" where
  "polled_orders lost c =
     dict_values (if lost then trk_lost_orders (cn_tracker c) else trk_in_flight_orders (cn_tracker c))"

definition next_status :: "bool \<Rightarrow> address list \<Rightarrow> exchange_connector \<Rightarrow> exchange_connector" where
  "next_status lost rs c = (case rs of [] \<Rightarrow> c | r # rs' \<Rightarrow> add_task (FetchingStatus lost r rs') c)"

definition on_status_reply ::
  "exchange_spec \<Rightarrow> bool \<Rightarrow> address \<Rightarrow> address list \<Rightarrow> api_error + order_update \<Rightarrow> exchange_connector \<Rightarrow> exchange_connector" where
  "on_status_reply xs lost r rs reply c =
     (let c1 = end_task (FetchingStatus lost r rs) c
      in next_status lost rs (case reply of Inr u \<Rightarrow> schedule u c1 | Inl e \<Rightarrow> handle_update_error xs lost r e c1))"

text \<open>The fills of all orders first, then their states, of the orders tracked by then.\<close>

definition next_fills :: "bool \<Rightarrow> address list \<Rightarrow> exchange_connector \<Rightarrow> exchange_connector" where
  "next_fills lost rs c =
     (case rs of [] \<Rightarrow> next_status lost (polled_orders lost c) c | r # rs' \<Rightarrow> add_task (FetchingFills lost r rs') c)"

definition on_fills_reply ::
  "bool \<Rightarrow> address \<Rightarrow> address list \<Rightarrow> api_error + trade_update list \<Rightarrow> exchange_connector \<Rightarrow> exchange_connector" where
  "on_fills_reply lost r rs reply c =
     (let c1 = end_task (FetchingFills lost r rs) c
      in next_fills lost rs
           (case reply of
              Inr ts \<Rightarrow> upd_tracker (\<lambda>s. foldl (\<lambda>s t. fst (process_trade_update s t)) s ts) c1
            | Inl e \<Rightarrow> c1))"

definition update_order_status :: "exchange_connector \<Rightarrow> exchange_connector" where
  "update_order_status c = next_fills False (dict_values (all_fillable_orders (cn_tracker c))) c"

definition next_lost_cancel :: "address list \<Rightarrow> exchange_connector \<Rightarrow> exchange_connector" where
  "next_lost_cancel rs c =
     (case rs of
        [] \<Rightarrow> next_fills True (polled_orders True c) c
      | r # rs' \<Rightarrow> begin_cancel r (CancellingLost r rs') c)"

definition lost_orders_update :: "exchange_connector \<Rightarrow> exchange_connector" where
  "lost_orders_update c = next_lost_cancel (polled_orders True c) c"

definition on_lost_cancel_reply ::
  "exchange_spec \<Rightarrow> address \<Rightarrow> address list \<Rightarrow> api_error + bool \<Rightarrow> exchange_connector \<Rightarrow> exchange_connector" where
  "on_lost_cancel_reply xs r rs reply c =
     next_lost_cancel rs (execute_order_cancel xs r reply (end_task (CancellingLost r rs) c))"

text \<open>The polls are loops: one of each kind runs at a time.\<close>

fun polls :: "bool \<Rightarrow> task \<Rightarrow> bool" where
  "polls lost (CancellingLost r rs) = lost"
| "polls lost (FetchingFills l r rs) = (l = lost)"
| "polls lost (FetchingStatus l r rs) = (l = lost)"
| "polls lost _ = False"

definition idle :: "bool \<Rightarrow> exchange_connector \<Rightarrow> bool" where
  "idle lost c = list_all (\<lambda>t. \<not> polls lost t) (cn_tasks c)"

definition stop_network :: "exchange_connector \<Rightarrow> exchange_connector" where
  "stop_network c = c\<lparr>cn_tasks := filter (\<lambda>t. \<not> polls True t \<and> \<not> polls False t) (cn_tasks c)\<rparr>"

definition update_trading_rules :: "trading_rule list \<Rightarrow> exchange_connector \<Rightarrow> exchange_connector" where
  "update_trading_rules rules c =
     c\<lparr>cn_trading_rules := foldl (\<lambda>d r. dict_set d (rule_trading_pair r) r) [] rules\<rparr>"

section \<open>The poll clock\<close>

definition get_poll_interval :: "decimal \<Rightarrow> decimal \<Rightarrow> decimal" where
  "get_poll_interval last_recv_time timestamp = (if timestamp - last_recv_time > 60 then 5 else 120)"

text \<open>Whether a tick asks for a poll.\<close>

definition tick_polls :: "decimal \<Rightarrow> decimal \<Rightarrow> decimal \<Rightarrow> bool" where
  "tick_polls last_recv_time last_timestamp timestamp =
     (let i = get_poll_interval last_recv_time timestamp
      in dec_trunc (timestamp / i) > dec_trunc (last_timestamp / i))"

section \<open>The connector under interleaving\<close>

text \<open>
  The exchange reports positive fills and never that an order is still to be created; the rules are
  of valid pairs; new client order ids are fresh.
\<close>

definition proper_update :: "order_update \<Rightarrow> bool" where
  "proper_update u = (ou_new_state u \<noteq> PENDING_CREATE)"

definition proper_trade :: "trade_update \<Rightarrow> bool" where
  "proper_trade t = (tu_fill_base_amount t > 0)"

inductive connector_step :: "exchange_spec \<Rightarrow> exchange_connector \<Rightarrow> exchange_connector \<Rightarrow> bool" for xs where
  clock: "connector_step xs c (upd_tracker (\<lambda>s. s\<lparr>trk_current_timestamp := now\<rparr>) c)"
| create: "fresh_client_id (cn_tracker c) cid \<Longrightarrow> cid \<noteq> [] \<Longrightarrow>
    connector_step xs c (fst (create_order xs price_of t cid pair amount ot price c))"
| place_reply: "Placing r \<in> set (cn_tasks c) \<Longrightarrow> connector_step xs c (on_place_reply r reply c)"
| update: "connector_step xs c (run_update c)"
| resume: "p \<in> set (cn_waiting c) \<Longrightarrow> connector_step xs c (resume_update p c)"
| cancel: "connector_step xs c (execute_cancel cid c)"
| cancel_reply: "Cancelling r \<in> set (cn_tasks c) \<Longrightarrow> connector_step xs c (on_cancel_reply xs r cancelled c)"
| status_poll: "idle False c \<Longrightarrow> connector_step xs c (update_order_status c)"
| lost_poll: "idle True c \<Longrightarrow> connector_step xs c (lost_orders_update c)"
| lost_cancel_reply: "CancellingLost r rs \<in> set (cn_tasks c) \<Longrightarrow>
    connector_step xs c (on_lost_cancel_reply xs r rs cancelled c)"
| fills: "FetchingFills lost r rs \<in> set (cn_tasks c) \<Longrightarrow> list_all proper_trade ts \<Longrightarrow>
    connector_step xs c (on_fills_reply lost r rs (Inr ts) c)"
| fills_error: "FetchingFills lost r rs \<in> set (cn_tasks c) \<Longrightarrow> connector_step xs c (on_fills_reply lost r rs (Inl e) c)"
| status: "FetchingStatus lost r rs \<in> set (cn_tasks c) \<Longrightarrow> proper_update u \<Longrightarrow>
    connector_step xs c (on_status_reply xs lost r rs (Inr u) c)"
| status_error: "FetchingStatus lost r rs \<in> set (cn_tasks c) \<Longrightarrow>
    connector_step xs c (on_status_reply xs lost r rs (Inl e) c)"
| stream_update: "proper_update u \<Longrightarrow> connector_step xs c (schedule u c)"
| stream_trade: "proper_trade t \<Longrightarrow> connector_step xs c (upd_tracker (\<lambda>s. fst (process_trade_update s t)) c)"
| expire: "connector_step xs c (upd_tracker (\<lambda>s. expire_cached s cid) c)"
| stop: "connector_step xs c (stop_network c)"
| rules: "list_all (\<lambda>r. validate_trading_pair (rule_trading_pair r)) rules \<Longrightarrow>
    connector_step xs c (update_trading_rules rules c)"

inductive connector_reachable :: "exchange_spec \<Rightarrow> int \<Rightarrow> decimal \<Rightarrow> exchange_connector \<Rightarrow> bool" for xs limit now where
  start: "connector_reachable xs limit now (new_connector limit now)"
| step: "connector_reachable xs limit now c \<Longrightarrow> connector_step xs c d \<Longrightarrow> connector_reachable xs limit now d"

end
