(* ===== verification/Tracker_Ledger.thy ===== *)
theory Tracker_Ledger
  imports Order_Tracker
begin

text \<open>
  What the tracker promises its listeners, over every interleaving of \<open>tracker_step\<close>: no
  operation raises, the three dictionaries stay disjoint and agree with the orders they hold,
  the events sent for an order account exactly for its fills, and an order is announced as
  created at most once. Then the outcome of losing an order.
\<close>

section \<open>Reading the event log\<close>

fun fill_amount_of :: "string \<Rightarrow> market_event \<Rightarrow> decimal" where
  "fill_amount_of cid (EvFilled ts c pair tt ot price amount fee tid lev pos exid) =
     (if c = cid then amount else 0)"
| "fill_amount_of cid _ = 0"

fun announces_creation :: "string \<Rightarrow> market_event \<Rightarrow> bool" where
  "announces_creation cid (EvCreated buy ts ot pair amount price c created exid lev pos) = (c = cid)"
| "announces_creation cid _ = False"

definition filled_by_events :: "string \<Rightarrow> market_event list \<Rightarrow> decimal" where
  "filled_by_events cid es = sum_list (map (fill_amount_of cid) es)"

definition creations_announced :: "string \<Rightarrow> market_event list \<Rightarrow> nat" where
  "creations_announced cid es = length (filter (announces_creation cid) es)"

lemma event_log_simps [simp]:
  "filled_by_events cid [] = 0"
  "filled_by_events cid (es @ fs) = filled_by_events cid es + filled_by_events cid fs"
  "filled_by_events cid (e # es) = fill_amount_of cid e + filled_by_events cid es"
  "creations_announced cid [] = 0"
  "creations_announced cid (es @ fs) = creations_announced cid es + creations_announced cid fs"
  "creations_announced cid (e # es) = (if announces_creation cid e then 1 else 0) + creations_announced cid es"
  by (simp_all add: filled_by_events_def creations_announced_def)

lemma completion_event_log [simp]:
  "filled_by_events cid (completion_event s ord u) = 0"
  "creations_announced cid (completion_event s ord u) = 0"
  by (simp_all add: completion_event_def Let_def)

lemma creation_events_log [simp]:
  "filled_by_events cid (creation_events s ord st st') = 0"
  "creations_announced cid (creation_events s ord st st') =
     (if cid = o_client_order_id ord \<and> st = PENDING_CREATE \<and> st' \<notin> {PENDING_CREATE, CANCELED, FAILED, PENDING_CANCEL}
      then 1 else 0)"
  by (auto simp: creation_events_def)

section \<open>The ledger\<close>

definition order_ledger :: "market_event list \<Rightarrow> in_flight_order \<Rightarrow> bool" where
  "order_ledger es ord \<longleftrightarrow>
     filled_by_events (o_client_order_id ord) es = o_executed_amount_base ord \<and>
     creations_announced (o_client_order_id ord) es \<le> 1 \<and>
     (o_current_state ord = PENDING_CREATE \<longrightarrow> creations_announced (o_client_order_id ord) es = 0)"

definition ledger_inv :: "tracker \<Rightarrow> bool" where
  "ledger_inv s \<longleftrightarrow>
     (\<forall>r < trk_next s. order_ledger (trk_events s) (trk_orders s r)) \<and>
     (\<forall>cid. fresh_client_id s cid \<longrightarrow>
        filled_by_events cid (trk_events s) = 0 \<and> creations_announced cid (trk_events s) = 0)"

lemma ledger_inv_cong:
  "trk_orders s' = trk_orders s \<Longrightarrow> trk_next s' = trk_next s \<Longrightarrow> trk_events s' = trk_events s \<Longrightarrow>
   ledger_inv s' = ledger_inv s"
  by (simp add: ledger_inv_def fresh_client_id_def)

text \<open>One order is replaced and events about that order only are appended.\<close>

lemma ledger_inv_advance:
  assumes inv: "tracker_inv s" and led: "ledger_inv s" and r: "r < trk_next s"
    and next': "trk_next s' = trk_next s" and orders: "trk_orders s' = (trk_orders s)(r := ord)"
    and events: "trk_events s' = trk_events s @ es"
    and cid: "o_client_order_id ord = o_client_order_id (trk_orders s r)"
    and quiet: "\<And>c. c \<noteq> o_client_order_id ord \<Longrightarrow> filled_by_events c es = 0 \<and> creations_announced c es = 0"
    and ord: "order_ledger (trk_events s @ es) ord"
  shows "ledger_inv s'"
proof -
  have other: "o_client_order_id (trk_orders s q) \<noteq> o_client_order_id ord" if "q < trk_next s" "q \<noteq> r" for q
    using inv r that cid unfolding tracker_inv_def order_ids_def inj_on_def by force
  have "order_ledger (trk_events s') (trk_orders s' q)" if q: "q < trk_next s'" for q
  proof (cases "q = r")
    case True
    with ord orders events show ?thesis by simp
  next
    case False
    with led other [of q] quiet q next' show ?thesis
      by (simp add: orders events ledger_inv_def order_ledger_def)
  qed
  moreover have "filled_by_events c (trk_events s') = 0 \<and> creations_announced c (trk_events s') = 0"
    if fresh: "fresh_client_id s' c" for c
  proof -
    have "fresh_client_id s c"
      using fresh cid unfolding fresh_client_id_def orders next' by (metis fun_upd_apply)
    moreover from this have "c \<noteq> o_client_order_id ord" using r cid by (auto simp: fresh_client_id_def)
    ultimately show ?thesis using led quiet by (simp add: ledger_inv_def events)
  qed
  ultimately show ?thesis by (simp add: ledger_inv_def)
qed

lemma ledger_finish:
  assumes inv: "tracker_inv s" and led: "ledger_inv s" and r: "r < trk_next s"
    and st: "ou_new_state u \<noteq> PENDING_CREATE"
  shows "ledger_inv (fst (finish_order_update s r u))"
proof -
  let ?o = "trk_orders s r"
  obtain ord upd where upd: "update_with_order_update ?o u = (ord, upd)"
    by (cases "update_with_order_update ?o u")
  have same: "o_client_order_id ord = o_client_order_id ?o" "o_executed_amount_base ord = o_executed_amount_base ?o"
    using order_update_frame [of ?o u] upd by simp_all
  have state: "upd \<Longrightarrow> o_current_state ord = ou_new_state u" "\<not> upd \<Longrightarrow> o_current_state ord = o_current_state ?o"
    using order_update_not_updated [of ?o u] order_update_state [of u ?o] upd
    by (auto simp: update_with_order_update_def Let_def split: if_splits)
  define es where "es = (if \<not> upd then [] else
     creation_events s ord (o_current_state ?o) (ou_new_state u)
       @ (if is_open ord then [] else completion_event s ord u))"
  have ev: "completion_event (log_events (put_order s r ord) xs) ord u = completion_event s ord u"
    "creation_events (put_order s r ord) ord = creation_events s ord" for xs
    by (simp_all add: completion_event_def creation_events_def fun_eq_iff)
  have fin: "trk_next (fst (finish_order_update s r u)) = trk_next s"
    "trk_orders (fst (finish_order_update s r u)) = (trk_orders s)(r := ord)"
    "trk_events (fst (finish_order_update s r u)) = trk_events s @ es"
    by (simp_all add: finish_order_update_eq [OF tracker_inv_valid [OF inv r] upd] es_def Let_def ev)
  have "order_ledger (trk_events s) ?o" using led r by (simp add: ledger_inv_def)
  then have "order_ledger (trk_events s @ es) ord"
    using same state st by (auto simp: order_ledger_def es_def)
  moreover have "filled_by_events c es = 0 \<and> creations_announced c es = 0" if "c \<noteq> o_client_order_id ord" for c
    using that by (simp add: es_def)
  ultimately show ?thesis
    using ledger_inv_advance [OF inv led r fin same(1)] by blast
qed

lemma ledger_trade:
  assumes inv: "tracker_inv s" and led: "ledger_inv s" and pos: "0 < tu_fill_base_amount t"
  shows "ledger_inv (fst (process_trade_update s t))"
proof (cases "dict_get (all_fillable_orders s) (tu_client_order_id t)")
  case None
  with led show ?thesis by (simp add: process_trade_update_def)
next
  case (Some r)
  let ?o = "trk_orders s r"
  obtain ord upd where upd: "update_with_trade_update ?o t = (ord, upd)"
    by (cases "update_with_trade_update ?o t")
  have r: "r < trk_next s" using all_fillable_refs [OF inv Some] by simp
  have same: "o_client_order_id ord = o_client_order_id ?o" "o_trading_pair ord = o_trading_pair ?o"
    "o_current_state ord = o_current_state ?o"
    using trade_update_frame [of ?o t] upd by simp_all
  then obtain q where q: "quote_asset ord = Inr q"
    using quote_asset_valid tracker_inv_valid [OF inv r] by metis
  have amount: "o_executed_amount_base ord = o_executed_amount_base ?o + (if upd then tu_fill_base_amount t else 0)"
    using upd by (auto simp: update_with_trade_update_def split: if_splits)
  define es where "es = (if upd then [EvFilled (trk_current_timestamp s) (o_client_order_id ord) (o_trading_pair ord)
       (o_trade_type ord) (o_order_type ord) (tu_fill_price t) (tu_fill_base_amount t) (tu_fee t) (tu_trade_id t)
       (o_leverage ord) (o_position ord) (tu_exchange_order_id t)] else [])"
  have fin: "trk_next (fst (process_trade_update s t)) = trk_next s"
    "trk_orders (fst (process_trade_update s t)) = (trk_orders s)(r := ord)"
    "trk_events (fst (process_trade_update s t)) = trk_events s @ es"
    using Some upd q amount pos
    by (simp_all add: process_trade_update_def trigger_order_fills_def trigger_filled_event_def es_def Let_def)
  have "order_ledger (trk_events s) ?o" using led r by (simp add: ledger_inv_def)
  then have "order_ledger (trk_events s @ es) ord"
    using same amount by (auto simp: order_ledger_def es_def)
  moreover have "filled_by_events c es = 0 \<and> creations_announced c es = 0" if "c \<noteq> o_client_order_id ord" for c
    using that by (simp add: es_def)
  ultimately show ?thesis
    using ledger_inv_advance [OF inv led r fin same(1)] by blast
qed

lemma ledger_order_update:
  assumes "tracker_inv s" and "ledger_inv s" and "ou_new_state u \<noteq> PENDING_CREATE"
  shows "ledger_inv (fst (process_order_update s u))"
  using process_order_update_cases [OF assms(1), of u] assms
  by (auto simp: ledger_finish order_update_of_lost_ok
      ledger_inv_cong [of "fst (order_update_of_lost s u)" s])

lemma ledger_track:
  assumes led: "ledger_inv s" and fresh: "fresh_client_id s (o_client_order_id ord)"
    and new: "o_executed_amount_base ord = 0"
  shows "ledger_inv (track_new_order s ord)"
proof -
  let ?s = "track_new_order s ord"
  have f: "trk_next ?s = Suc (trk_next s)" "trk_orders ?s = (trk_orders s)(trk_next s := ord)"
    "trk_events ?s = trk_events s"
    by (simp_all add: track_new_order_def alloc_order_def start_tracking_order_def)
  have "fresh_client_id s c" if "fresh_client_id ?s c" for c
    using that unfolding fresh_client_id_def f by (metis fun_upd_apply less_SucI less_irrefl)
  with led fresh new show ?thesis
    by (simp add: ledger_inv_def f order_ledger_def less_Suc_eq)
qed

lemma ledger_not_found:
  assumes inv: "tracker_inv s" and led: "ledger_inv s"
  shows "ledger_inv (fst (process_order_not_found s cid))"
proof (cases "fetch_tracked_order s cid")
  case None
  with led ledger_order_update [OF inv led] show ?thesis
    by (simp add: process_order_not_found_def split: option.split)
next
  case (Some r)
  let ?s = "count_not_found s cid" and ?st = "o_current_state (trk_orders s r)"
  let ?c = "(case dict_get (trk_order_not_found_records s) cid of None \<Rightarrow> 0 | Some n \<Rightarrow> n) + 1"
  have l: "ledger_inv ?s" and i: "tracker_inv ?s"
    using led inv by (simp_all add: ledger_inv_cong [of ?s s])
  show ?thesis
  proof (cases "?c > trk_lost_order_count_limit s \<and> ?st \<notin> set [CANCELED, FILLED, FAILED]")
    case True
    have "ledger_inv (move_to_lost x cid r) = ledger_inv x" for x
      by (rule ledger_inv_cong) (simp_all add: move_to_lost_def)
    then show ?thesis
      using process_order_not_found_lose [OF inv Some] True ledger_order_update [OF i l] by simp
  next
    case False
    with l show ?thesis
      unfolding process_order_not_found_count [OF Some] if_not_P [OF False] by simp
  qed
qed

lemma tracker_step_ledger:
  assumes "tracker_step y z" and inv: "tracker_inv (sys_tracker y)" and "pending_inv y"
    and led: "ledger_inv (sys_tracker y)"
  shows "ledger_inv (sys_tracker z)"
  using assms(1)
proof (cases rule: tracker_step.cases)
  case (track cid pair ot tt amount created price exid lev pos)
  let ?ord = "new_in_flight_order cid pair ot tt amount created price exid PENDING_CREATE lev pos"
  have "o_client_order_id ?ord = cid" "o_executed_amount_base ?ord = 0"
    by (simp_all add: new_in_flight_order_def)
  with ledger_track [OF led, of ?ord] track show ?thesis by simp
next
  case (stop cid)
  then show ?thesis using led by (simp add: ledger_inv_cong [of "stop_tracking_order _ _" "sys_tracker y"])
next
  case (update_now u out)
  then show ?thesis
    using process_order_update_begin_Finished [OF inv update_now(3)] led inv
    by (auto simp: ledger_finish order_update_of_lost_ok
        ledger_inv_cong [of "fst (order_update_of_lost (sys_tracker y) u)" "sys_tracker y"])
next
  case (update_resume r u)
  then have "r < trk_next (sys_tracker y)" "ou_new_state u \<noteq> PENDING_CREATE"
    using assms(3) by (auto simp: pending_inv_def)
  with update_resume(1) show ?thesis by (simp add: ledger_finish [OF inv led])
next
  case (expire cid)
  then show ?thesis
    using led by (simp add: expire_cached_def ledger_inv_def fresh_client_id_def)
next
  case (clock t)
  then show ?thesis using led by (simp add: ledger_inv_cong [of "_\<lparr>trk_current_timestamp := t\<rparr>" "sys_tracker y"])
qed (use led inv in \<open>simp_all add: ledger_trade ledger_not_found\<close>)

lemma tracker_reachable_ledger:
  assumes "tracker_reachable limit now y"
  shows "ledger_inv (sys_tracker y)"
  using assms
proof induction
  case start
  show ?case by (simp add: ledger_inv_def init_tracker_def)
next
  case (step y z)
  then show ?case using tracker_step_ledger tracker_reachable_inv by blast
qed

section \<open>Closing an order\<close>

lemma log_events_append:
  "log_events (log_events s es) fs = log_events s (es @ fs)"
  "completion_event (log_events s es) ord u = completion_event s ord u"
  "completion_event (put_order s r o1) ord u = completion_event s ord u"
  "creation_events (put_order s r o1) = creation_events s"
  by (simp_all add: log_events_def completion_event_def creation_events_def fun_eq_iff)

text \<open>
  What a reader of the event log sees of an update that closes the order \<open>cid\<close>: the creation of
  the order when the update fills an order nobody had announced yet, and then the one event that
  ends it, with the amounts the order has executed when it completes.
\<close>

fun announces_end :: "string \<Rightarrow> order_state \<Rightarrow> in_flight_order \<Rightarrow> market_event \<Rightarrow> bool" where
  "announces_end cid st ord (EvCancelled _ c _) = (c = cid \<and> st = CANCELED)"
| "announces_end cid st ord (EvCompleted buy _ c _ _ b q _ _) = (c = cid \<and> st \<noteq> CANCELED
     \<and> buy = (o_trade_type ord = BUY) \<and> b = o_executed_amount_base ord \<and> q = o_executed_amount_quote ord)"
| "announces_end cid st ord (EvFailure _ c _ _ _) = (c = cid \<and> st = FAILED)"
| "announces_end cid st ord _ = False"

lemma close_order_update:
  assumes inv: "tracker_inv s" and get: "dict_get (trk_in_flight_orders s) cid = Some r"
    and live: "o_current_state (trk_orders s r) \<noteq> ou_new_state u"
    and u: "ou_client_order_id u = Some cid" "ou_new_state u \<in> {CANCELED, FILLED, FAILED}"
  shows "\<exists>s' e. process_order_update s u = (s', None)
    \<and> o_current_state (trk_orders s' r) = ou_new_state u
    \<and> dict_get (trk_cached_orders s') cid = Some r \<and> \<not> dict_has (trk_in_flight_orders s') cid
    \<and> \<not> dict_has (trk_order_not_found_records s') cid
    \<and> announces_end cid (ou_new_state u) (trk_orders s' r) e
    \<and> (if o_current_state (trk_orders s r) = PENDING_CREATE \<and> ou_new_state u = FILLED
       then \<exists>c. trk_events s' = trk_events s @ [c, e] \<and> announces_creation cid c
       else trk_events s' = trk_events s @ [e])"
proof -
  have r: "r < trk_next s" and cid: "o_client_order_id (trk_orders s r) = cid"
    using inv get by (auto simp: tracker_inv_def order_ids_def dest: refs_okD)
  have "cid \<noteq> []" using inv r cid by (auto simp: tracker_inv_def order_ids_def)
  then have "truthy_str (ou_client_order_id u)" using u(1) by (cases cid) simp_all
  then have fin: "process_order_update s u = finish_order_update s r u"
    using in_flight_fetch [OF inv get] u(1)
    by (simp add: process_order_update_def process_order_update_begin_def)
  obtain ord upd where upd: "update_with_order_update (trk_orders s r) u = (ord, upd)"
    by (cases "update_with_order_update (trk_orders s r) u")
  have state: "o_current_state ord = ou_new_state u" and same: "o_client_order_id ord = cid"
    using order_update_state [of u "trk_orders s r"] order_update_frame(2) [of "trk_orders s r" u] upd cid u(1)
    by simp_all
  have "upd" using order_update_not_updated [of "trk_orders s r" u] upd state live by auto
  moreover have "\<not> is_open ord" using u(2) state by (auto simp: is_open_def)
  moreover have "\<exists>e. completion_event (put_order s r ord) ord u = [e] \<and> announces_end cid (ou_new_state u) ord e"
    using u(2) state same
    by (simp add: completion_event_def is_cancelled_def is_failure_def Let_def) (auto simp: is_filled_def)
  then obtain e where e: "completion_event (put_order s r ord) ord u = [e]"
    and kind: "announces_end cid (ou_new_state u) ord e" by blast
  let ?made = "creation_events (put_order s r ord) ord (o_current_state (trk_orders s r)) (ou_new_state u)"
  have made: "if o_current_state (trk_orders s r) = PENDING_CREATE \<and> ou_new_state u = FILLED
      then \<exists>c. ?made = [c] \<and> announces_creation cid c else ?made = []"
    using u(2) same by (auto simp: creation_events_def)
  have "process_order_update s u =
      (stop_tracking_order (log_events (put_order s r ord) (?made @ [e])) cid, None)"
    using same e \<open>upd\<close> \<open>\<not> is_open ord\<close>
    by (simp add: fin finish_order_update_eq [OF tracker_inv_valid [OF inv r] upd] Let_def log_events_append)
  then show ?thesis
    using get state kind made by (fastforce simp: stop_tracking_order_def dict_has_def split: if_splits)
qed

lemma lose_order_update_state:
  assumes "tracker_inv s" and "dict_get (trk_in_flight_orders s) cid = Some r"
    and "o_current_state (trk_orders s r) \<notin> set [CANCELED, FILLED, FAILED]"
  shows "o_current_state (trk_orders (fst (process_order_update s (failed_update s cid r))) r) = FAILED"
  using close_order_update [OF assms(1,2), of "failed_update s cid r"] assms(3) by auto

section \<open>Properties\<close>

definition pending_order :: in_flight_order where
  "pending_order = new_in_flight_order ''c1'' ''SOL-USDC'' LIMIT BUY 3 1 (Some (Fin 20)) None PENDING_CREATE 1 NIL"

definition order_opened :: order_update where
  "order_opened = \<lparr>ou_trading_pair = ''SOL-USDC'', ou_timestamp = 2, ou_new_state = OPEN_STATE,
     ou_client_order_id = Some ''c1'', ou_exchange_order_id = Some ''e1'', ou_misc_updates = None\<rparr>"

definition order_cancelled :: order_update where
  "order_cancelled = order_opened\<lparr>ou_timestamp := 9, ou_new_state := CANCELED\<rparr>"

definition tracked_once :: tracker where
  "tracked_once = track_new_order (init_tracker 0 1) pending_order"

definition opened_once :: tracker where
  "opened_once = fst (process_order_update tracked_once order_opened)"

definition filled_once :: tracker where
  "filled_once = fst (process_trade_update opened_once (demo_trade ''t1'' 1))"

lemma pair_valid: "validate_trading_pair ''SOL-USDC''"
  by code_simp

lemma tracked_reachable: "tracker_reachable 0 1 \<lparr>sys_tracker = tracked_once, sys_pending = []\<rparr>"
proof -
  have "fresh_client_id (init_tracker 0 1) ''c1''" by (simp add: fresh_client_id_def init_tracker_def)
  from tracker_step.track [of "\<lparr>sys_tracker = init_tracker 0 1, sys_pending = []\<rparr>" "''c1''" "''SOL-USDC''"]
    this pair_valid
  have "tracker_step \<lparr>sys_tracker = init_tracker 0 1, sys_pending = []\<rparr> \<lparr>sys_tracker = tracked_once, sys_pending = []\<rparr>"
    by (simp add: tracked_once_def pending_order_def)
  then show ?thesis using tracker_reachable.intros by blast
qed

lemma tracked_begin:
  "process_order_update_begin tracked_once order_opened =
     Finished (finish_order_update tracked_once 0 order_opened)"
proof -
  have "fetch_order tracked_once (Some ''c1'') (Some ''e1'') = Some 0" by code_simp
  then show ?thesis by (simp add: process_order_update_begin_def order_opened_def)
qed

lemma opened_reachable: "tracker_reachable 0 1 \<lparr>sys_tracker = opened_once, sys_pending = []\<rparr>"
proof -
  have "opened_once = fst (finish_order_update tracked_once 0 order_opened)"
    by (simp add: opened_once_def process_order_update_def tracked_begin)
  then show ?thesis
    using tracker_reachable.step [OF tracked_reachable, of "\<lparr>sys_tracker = opened_once, sys_pending = []\<rparr>"]
      tracker_step.update_now [of order_opened "\<lparr>sys_tracker = tracked_once, sys_pending = []\<rparr>"] tracked_begin
    by (simp add: order_opened_def)
qed

lemma filled_reachable: "tracker_reachable 0 1 \<lparr>sys_tracker = filled_once, sys_pending = []\<rparr>"
  using tracker_reachable.step [OF opened_reachable, of "\<lparr>sys_tracker = filled_once, sys_pending = []\<rparr>"]
    tracker_step.trade [of "demo_trade ''t1'' 1" "\<lparr>sys_tracker = opened_once, sys_pending = []\<rparr>"]
  by (simp add: demo_trade_def [of _ 1] filled_once_def)

text \<open>
  C3: In every reachable state of the tracker, however its operations, the waits of FILLED
  updates and the expiry of the cache interleave, the three dictionaries are pairwise disjoint,
  every entry is filed under the client id of the order it refers to, and no two orders share a
  client id.
\<close>

theorem tracker_dictionaries_consistent:
  assumes "tracker_reachable limit now y"
  shows "tracker_inv (sys_tracker y)"
  using tracker_reachable_inv [OF assms] by blast

theorem tracker_dictionaries_consistent_witness:
  "tracker_inv filled_once \<and> dict_get (trk_in_flight_orders filled_once) ''c1'' = Some 0"
proof
  show "tracker_inv filled_once"
    using tracker_dictionaries_consistent [OF filled_reachable] by simp
  show "dict_get (trk_in_flight_orders filled_once) ''c1'' = Some 0" by code_simp
qed

text \<open>
  C4: In a reachable state none of the tracker's handlers of exchange messages raises: not the
  handler of a trade update, of an order update (run through, or finished later for an update that
  waited for its fills) or of a report that an order was not found. The deletions from the cache
  and from the lost orders find their key, and the asset names of the order can be read. (Restoring
  saved orders is not such a handler, and can raise.)
\<close>

theorem tracker_operations_never_raise:
  assumes "tracker_reachable limit now y"
  shows "snd (process_trade_update (sys_tracker y) t) = None
    \<and> snd (process_order_update (sys_tracker y) u) = None
    \<and> snd (process_order_not_found (sys_tracker y) cid) = None
    \<and> (\<forall>(r, v) \<in> set (sys_pending y). snd (finish_order_update (sys_tracker y) r v) = None)"
  using tracker_reachable_inv [OF assms]
  by (auto simp: tracker_ops_ok pending_inv_def finish_order_update_no_error tracker_inv_valid)

theorem tracker_operations_never_raise_witness:
  "snd (process_order_update filled_once order_cancelled) = None
    \<and> snd (process_order_not_found filled_once ''c1'') = None"
  using tracker_operations_never_raise [OF filled_reachable, of _ order_cancelled "''c1''"] by simp

text \<open>
  C1: The fill events sent for an order add up to its executed amount, whatever duplicates,
  late fills of cached or lost orders, and order updates came between.
\<close>

theorem fill_events_match_executed_amount:
  assumes "tracker_reachable limit now y" and "r < trk_next (sys_tracker y)"
  shows "filled_by_events (o_client_order_id (trk_orders (sys_tracker y) r)) (trk_events (sys_tracker y))
       = o_executed_amount_base (trk_orders (sys_tracker y) r)"
  using tracker_reachable_ledger [OF assms(1)] assms(2) by (simp add: ledger_inv_def order_ledger_def)

theorem fill_events_match_executed_amount_witness:
  "filled_by_events (o_client_order_id (trk_orders filled_once 0)) (trk_events filled_once) =
     o_executed_amount_base (trk_orders filled_once 0)
   \<and> o_executed_amount_base (trk_orders filled_once 0) = 1"
proof
  have "0 < trk_next filled_once" by code_simp
  then show "filled_by_events (o_client_order_id (trk_orders filled_once 0)) (trk_events filled_once) =
     o_executed_amount_base (trk_orders filled_once 0)"
    using fill_events_match_executed_amount [OF filled_reachable, of 0] by simp
  show "o_executed_amount_base (trk_orders filled_once 0) = 1" by code_simp
qed

text \<open>
  An order is announced as created at most once, and not at all while it is still waiting
  for the exchange.
\<close>

theorem creation_announced_at_most_once:
  assumes "tracker_reachable limit now y" and "r < trk_next (sys_tracker y)"
  shows "creations_announced (o_client_order_id (trk_orders (sys_tracker y) r)) (trk_events (sys_tracker y))
       \<le> (if o_current_state (trk_orders (sys_tracker y) r) = PENDING_CREATE then 0 else 1)"
  using tracker_reachable_ledger [OF assms(1)] assms(2) by (simp add: ledger_inv_def order_ledger_def)

theorem creation_announced_at_most_once_witness:
  "creations_announced (o_client_order_id (trk_orders filled_once 0)) (trk_events filled_once) \<le> 1
   \<and> creations_announced ''c1'' (trk_events filled_once) = 1"
proof
  have n: "0 < trk_next filled_once" and "o_current_state (trk_orders filled_once 0) \<noteq> PENDING_CREATE"
    by code_simp+
  then show "creations_announced (o_client_order_id (trk_orders filled_once 0)) (trk_events filled_once) \<le> 1"
    using creation_announced_at_most_once [OF filled_reachable, of 0] by simp
  show "creations_announced ''c1'' (trk_events filled_once) = 1" by code_simp
qed

text \<open>
  Once a live order has been missing from the exchange more often than the limit, the next
  report moves it to the lost orders: it leaves the in-flight and the cached orders, its state is
  FAILED, and the report does not raise.
\<close>

theorem missing_order_becomes_lost:
  assumes reach: "tracker_reachable limit now y"
    and get: "dict_get (trk_in_flight_orders (sys_tracker y)) cid = Some r"
    and live: "o_current_state (trk_orders (sys_tracker y) r) \<notin> {CANCELED, FILLED, FAILED}"
    and over: "(case dict_get (trk_order_not_found_records (sys_tracker y)) cid of None \<Rightarrow> 0 | Some n \<Rightarrow> n) + 1
                 > trk_lost_order_count_limit (sys_tracker y)"
  shows "\<exists>s'. process_order_not_found (sys_tracker y) cid = (s', None)
    \<and> dict_get (trk_lost_orders s') cid = Some r \<and> o_current_state (trk_orders s' r) = FAILED
    \<and> \<not> dict_has (trk_in_flight_orders s') cid \<and> \<not> dict_has (trk_cached_orders s') cid"
proof -
  let ?s = "count_not_found (sys_tracker y) cid"
  let ?s' = "fst (process_order_update ?s (failed_update ?s cid r))"
  have inv: "tracker_inv ?s" and inv0: "tracker_inv (sys_tracker y)"
    using tracker_reachable_inv [OF reach] by simp_all
  have g: "dict_get (trk_in_flight_orders ?s) cid = Some r"
    and l: "o_current_state (trk_orders ?s r) \<notin> set [CANCELED, FILLED, FAILED]"
    using get live by simp_all
  have "process_order_not_found (sys_tracker y) cid = (move_to_lost ?s' cid r, None)"
    using process_order_not_found_lose [OF inv0 _ _ over] get live by (simp add: fetch_tracked_order_def)
  then show ?thesis
    using lose_order_update(6) [OF inv g l] lose_order_update_state [OF inv g l]
    by (simp add: move_to_lost_def)
qed

theorem missing_order_becomes_lost_witness:
  "\<exists>s'. process_order_not_found filled_once ''c1'' = (s', None)
    \<and> dict_get (trk_lost_orders s') ''c1'' = Some 0 \<and> o_current_state (trk_orders s' 0) = FAILED
    \<and> \<not> dict_has (trk_in_flight_orders s') ''c1'' \<and> \<not> dict_has (trk_cached_orders s') ''c1''"
proof -
  have "dict_get (trk_in_flight_orders filled_once) ''c1'' = Some 0"
    "o_current_state (trk_orders filled_once 0) \<notin> {CANCELED, FILLED, FAILED}"
    "(case dict_get (trk_order_not_found_records filled_once) ''c1'' of None \<Rightarrow> 0 | Some n \<Rightarrow> n) + 1
       > trk_lost_order_count_limit filled_once"
    by code_simp+
  then show ?thesis using missing_order_becomes_lost [OF filled_reachable, of "''c1''" 0] by simp
qed

text \<open>
  C2: A CANCELED, FILLED or FAILED update of a live in-flight order, once processed, ends its
  tracking: the order has that state, is filed among the cached orders and no longer in flight,
  and its not-found count is forgotten. The log grows by exactly one event that ends the order,
  with the order's own side and executed amounts when it is a completion; nothing else is sent,
  except the announcement of its creation just before, when the update fills an order that was
  still waiting to be created.
\<close>

theorem terminal_update_ends_tracking:
  assumes reach: "tracker_reachable limit now y"
    and get: "dict_get (trk_in_flight_orders (sys_tracker y)) cid = Some r"
    and live: "o_current_state (trk_orders (sys_tracker y) r) \<noteq> ou_new_state u"
    and u: "ou_client_order_id u = Some cid" "ou_new_state u \<in> {CANCELED, FILLED, FAILED}"
  shows "\<exists>s' e. process_order_update (sys_tracker y) u = (s', None)
    \<and> o_current_state (trk_orders s' r) = ou_new_state u
    \<and> dict_get (trk_cached_orders s') cid = Some r \<and> \<not> dict_has (trk_in_flight_orders s') cid
    \<and> \<not> dict_has (trk_order_not_found_records s') cid
    \<and> announces_end cid (ou_new_state u) (trk_orders s' r) e
    \<and> (if o_current_state (trk_orders (sys_tracker y) r) = PENDING_CREATE \<and> ou_new_state u = FILLED
       then \<exists>c. trk_events s' = trk_events (sys_tracker y) @ [c, e] \<and> announces_creation cid c
       else trk_events s' = trk_events (sys_tracker y) @ [e])"
  using close_order_update [OF conjunct1 [OF tracker_reachable_inv [OF reach]] get live u] by blast

theorem terminal_update_ends_tracking_witness:
  "\<exists>s'. process_order_update filled_once order_cancelled = (s', None)
    \<and> o_current_state (trk_orders s' 0) = CANCELED \<and> dict_get (trk_cached_orders s') ''c1'' = Some 0
    \<and> \<not> dict_has (trk_in_flight_orders s') ''c1''
    \<and> (\<exists>e. trk_events s' = trk_events filled_once @ [e] \<and> announces_end ''c1'' CANCELED (trk_orders s' 0) e)"
proof -
  have "dict_get (trk_in_flight_orders filled_once) ''c1'' = Some 0"
    "o_current_state (trk_orders filled_once 0) \<noteq> ou_new_state order_cancelled"
    "ou_client_order_id order_cancelled = Some ''c1''" "ou_new_state order_cancelled = CANCELED"
    by code_simp+
  then show ?thesis
    using terminal_update_ends_tracking [OF filled_reachable, of "''c1''" 0 order_cancelled] by auto
qed

end
