(* ===== verification/Connector_Safety.thy ===== *)
theory Connector_Safety
  imports Exchange_Connector Tracker_Ledger
begin

text \<open>
  What the connector guarantees. It refines the tracker: each of its steps is a sequence of tracker
  steps, so whatever holds in every reachable state of the tracker holds in every connector. Then:
  what creating an order does, which requests reach the exchange, how orders are cancelled and lost,
  and two ways in which an order slips away.
\<close>

section \<open>Refinement of the tracker\<close>

text \<open>The interface of a simulation by which invariants are handed down.\<close>

locale simulation =
  fixes cstep :: "'c \<Rightarrow> 'c \<Rightarrow> bool" and astep :: "'a \<Rightarrow> 'a \<Rightarrow> bool"
    and view :: "'c \<Rightarrow> 'a" and inv :: "'c \<Rightarrow> bool"
  assumes inv_step: "cstep c d \<Longrightarrow> inv c \<Longrightarrow> inv d"
    and simulated: "cstep c d \<Longrightarrow> inv c \<Longrightarrow> astep\<^sup>*\<^sup>* (view c) (view d)"
begin

lemma run_simulated: "cstep\<^sup>*\<^sup>* c d \<Longrightarrow> inv c \<Longrightarrow> inv d \<and> astep\<^sup>*\<^sup>* (view c) (view d)"
  by (induction rule: rtranclp_induct) (auto intro: inv_step rtranclp_trans simulated)

end

definition tracker_of :: "exchange_connector \<Rightarrow> tracker_sys" where
  "tracker_of c = \<lparr>sys_tracker = cn_tracker c, sys_pending = cn_waiting c\<rparr>"

definition connector_inv :: "exchange_connector \<Rightarrow> bool" where
  "connector_inv c \<longleftrightarrow> list_all proper_update (cn_updates c) \<and>
     (\<forall>pair. dict_has (cn_trading_rules c) pair \<longrightarrow> validate_trading_pair pair)"

definition simulates :: "exchange_connector \<Rightarrow> exchange_connector \<Rightarrow> bool" where
  "simulates c d \<longleftrightarrow> (connector_inv c \<longrightarrow> connector_inv d \<and> tracker_step\<^sup>*\<^sup>* (tracker_of c) (tracker_of d))"

named_theorems sim_intros

lemma simulates_refl [sim_intros]: "simulates c c"
  by (simp add: simulates_def)

lemma simulates_trans: "simulates c d \<Longrightarrow> simulates d e \<Longrightarrow> simulates c e"
  by (auto simp: simulates_def)

text \<open>The elementary changes of the state, each as a continuation of what came before.\<close>

lemma simulates_schedule [sim_intros]: "simulates b c \<Longrightarrow> proper_update u \<Longrightarrow> simulates b (schedule u c)"
  by (auto simp: simulates_def schedule_def connector_inv_def tracker_of_def)

lemma simulates_tasks [sim_intros]:
  "simulates b c \<Longrightarrow> simulates b (add_task t c)"
  "simulates b c \<Longrightarrow> simulates b (end_task t c)"
  "simulates b c \<Longrightarrow> simulates b (send_call k c)"
  "simulates b c \<Longrightarrow> simulates b (stop_network c)"
  by (auto simp: simulates_def connector_inv_def tracker_of_def add_task_def end_task_def send_call_def stop_network_def)

lemma simulates_tracker:
  assumes "simulates b c" and "tracker_step\<^sup>*\<^sup>* (tracker_of c) (tracker_of (upd_tracker f c))"
  shows "simulates b (upd_tracker f c)"
  using assms by (auto simp: simulates_def connector_inv_def upd_tracker_def)

lemma tracker_of_upd: "tracker_of (upd_tracker f c) = (tracker_of c)\<lparr>sys_tracker := f (sys_tracker (tracker_of c))\<rparr>"
  by (simp add: tracker_of_def upd_tracker_def)

lemma simulates_not_found [sim_intros]: "simulates b c \<Longrightarrow> simulates b (not_found r c)"
  unfolding not_found_def by (rule simulates_tracker) (auto simp: tracker_of_upd intro: tracker_step.not_found)

lemma simulates_expire: "simulates c (upd_tracker (\<lambda>s. expire_cached s cid) c)"
  by (rule simulates_tracker [OF simulates_refl]) (auto simp: tracker_of_upd intro: tracker_step.expire)

lemma simulates_clock: "simulates c (upd_tracker (\<lambda>s. s\<lparr>trk_current_timestamp := now\<rparr>) c)"
  by (rule simulates_tracker [OF simulates_refl]) (auto simp: tracker_of_upd intro: tracker_step.clock)

lemma simulates_trades [sim_intros]:
  "simulates b c \<Longrightarrow> list_all proper_trade ts \<Longrightarrow>
   simulates b (upd_tracker (\<lambda>s. foldl (\<lambda>s t. fst (process_trade_update s t)) s ts) c)"
proof (induction ts arbitrary: c)
  case Nil
  then show ?case by (simp add: upd_tracker_def)
next
  case (Cons t ts)
  let ?d = "upd_tracker (\<lambda>s. fst (process_trade_update s t)) c"
  have "simulates b ?d"
    using Cons.prems by (auto intro!: simulates_tracker tracker_step.trade r_into_rtranclp simp: tracker_of_upd proper_trade_def)
  moreover have "upd_tracker (\<lambda>s. foldl (\<lambda>s t. fst (process_trade_update s t)) s (t # ts)) c =
      upd_tracker (\<lambda>s. foldl (\<lambda>s t. fst (process_trade_update s t)) s ts) ?d"
    by (simp add: upd_tracker_def)
  ultimately show ?case using Cons.IH Cons.prems(2) by simp
qed

lemma simulates_failure [sim_intros]: "simulates b c \<Longrightarrow> simulates b (update_order_after_failure i p e c)"
  by (simp add: update_order_after_failure_def simulates_schedule proper_update_def)

lemma simulates_run_update: "simulates c (run_update c)"
proof (cases "cn_updates c")
  case Nil
  then show ?thesis by (simp add: run_update_def simulates_refl)
next
  case (Cons u us)
  show ?thesis
  proof (cases "process_order_update_begin (cn_tracker c) u")
    case (Finished out)
    then show ?thesis
      using Cons tracker_step.update_now [of u "tracker_of c" out]
      by (auto simp: run_update_def simulates_def connector_inv_def tracker_of_def proper_update_def)
  next
    case (Awaiting r)
    then show ?thesis
      using Cons tracker_step.update_wait [of u "tracker_of c" r]
      by (auto simp: run_update_def simulates_def connector_inv_def tracker_of_def proper_update_def)
  qed
qed

lemma simulates_resume: "p \<in> set (cn_waiting c) \<Longrightarrow> simulates c (resume_update p c)"
  using tracker_step.update_resume [of "fst p" "snd p" "tracker_of c"]
  by (auto simp: resume_update_def simulates_def connector_inv_def tracker_of_def)

lemma quantized_order_listed:
  "quantized_order c pair amount ot price = Inr (rule, p, q) \<Longrightarrow> dict_has (cn_trading_rules c) pair"
  by (auto simp: quantized_order_def ebind_eq_Inr_iff dict_at_def dict_has_def split: option.splits)

lemma simulates_track:
  assumes "fresh_client_id (cn_tracker c) cid" and "cid \<noteq> []" and "dict_has (cn_trading_rules c) pair"
  shows "simulates c (connector_start_tracking cid pair ot t q price c)"
proof -
  have "tracker_step\<^sup>*\<^sup>* (tracker_of c) (tracker_of (connector_start_tracking cid pair ot t q price c))"
    if "connector_inv c"
    using that assms tracker_step.track [of "tracker_of c" cid pair]
    by (auto simp: connector_start_tracking_def tracker_of_def upd_tracker_def connector_inv_def)
  then show ?thesis by (auto simp: simulates_def connector_inv_def connector_start_tracking_def upd_tracker_def)
qed

lemma simulates_create:
  assumes "fresh_client_id (cn_tracker c) cid" and "cid \<noteq> []"
  shows "simulates c (fst (create_order xs price_of t cid pair amount ot price c))"
proof (cases "quantized_order c pair amount ot price")
  case (Inl e)
  then show ?thesis by (simp add: create_order_def simulates_refl)
next
  case (Inr x)
  obtain rule p q where x: "x = (rule, p, q)" by (cases x)
  have "simulates c (connector_start_tracking cid pair ot t q p c)"
    using simulates_track [OF assms] quantized_order_listed [OF Inr [unfolded x]] by blast
  then show ?thesis
    using Inr x by (auto simp: create_order_def begin_place_order_def Let_def sim_intros split: sum.split option.split)
qed

lemma simulates_cancel [sim_intros]:
  "simulates b c \<Longrightarrow> simulates b (begin_cancel r t c)"
  "simulates b c \<Longrightarrow> simulates b (execute_order_cancel xs r reply c)"
  by (auto simp: begin_cancel_def execute_order_cancel_def proper_update_def sim_intros split: sum.split)

lemma simulates_polls [sim_intros]:
  "simulates b c \<Longrightarrow> simulates b (next_status lost rs c)"
  "simulates b c \<Longrightarrow> simulates b (next_fills lost rs c)"
  "simulates b c \<Longrightarrow> simulates b (next_lost_cancel rs c)"
  "simulates b c \<Longrightarrow> simulates b (handle_update_error xs lost r e c)"
  by (auto simp: next_status_def next_fills_def next_lost_cancel_def handle_update_error_def sim_intros split: list.split)

lemma foldl_rules_has:
  "dict_has (foldl (\<lambda>d r. dict_set d (rule_trading_pair r) r) d rules) pair \<longleftrightarrow>
   dict_has d pair \<or> pair \<in> set (map rule_trading_pair rules)"
  by (induction rules arbitrary: d) auto

lemma simulates_rules:
  assumes "list_all (\<lambda>r. validate_trading_pair (rule_trading_pair r)) rules"
  shows "simulates c (update_trading_rules rules c)"
  using assms
  by (auto simp: simulates_def connector_inv_def tracker_of_def update_trading_rules_def foldl_rules_has list_all_iff)

lemma simulates_place_reply: "simulates c (on_place_reply r reply c)"
  by (auto simp: on_place_reply_def proper_update_def Let_def split: sum.split intro!: sim_intros)

lemma simulates_execute_cancel: "simulates c (execute_cancel cid c)"
  by (auto simp: execute_cancel_def split: option.split intro!: sim_intros)

lemma simulates_status_reply:
  "proper_update u \<Longrightarrow> simulates c (on_status_reply xs lost r rs (Inr u) c)"
  "simulates c (on_status_reply xs lost r rs (Inl e) c)"
  by (simp_all add: on_status_reply_def Let_def sim_intros)

lemma simulates_fills_reply:
  "list_all proper_trade ts \<Longrightarrow> simulates c (on_fills_reply lost r rs (Inr ts) c)"
  "simulates c (on_fills_reply lost r rs (Inl e) c)"
  by (simp_all add: on_fills_reply_def Let_def sim_intros)

lemma simulates_other_replies:
  "simulates c (on_cancel_reply xs r b c)" "simulates c (on_lost_cancel_reply xs r rs b c)"
  "simulates c (update_order_status c)" "simulates c (lost_orders_update c)" "simulates c (stop_network c)"
  by (simp_all add: on_cancel_reply_def on_lost_cancel_reply_def update_order_status_def lost_orders_update_def sim_intros)

lemmas simulates_ops =
  simulates_clock simulates_create simulates_place_reply simulates_run_update simulates_resume simulates_execute_cancel
  simulates_status_reply simulates_fills_reply simulates_other_replies simulates_expire simulates_rules
  simulates_schedule [OF simulates_refl] simulates_trades [OF simulates_refl, of "[_]", simplified]

lemma connector_step_simulates: "connector_step xs c d \<Longrightarrow> simulates c d"
  by (erule connector_step.cases) (simp_all add: simulates_ops)

interpretation connector: simulation "connector_step xs" tracker_step tracker_of connector_inv
  by unfold_locales (auto dest!: connector_step_simulates simp: simulates_def)

lemma connector_run: "connector_reachable xs limit now c \<longleftrightarrow> (connector_step xs)\<^sup>*\<^sup>* (new_connector limit now) c"
proof
  show "connector_reachable xs limit now c \<Longrightarrow> (connector_step xs)\<^sup>*\<^sup>* (new_connector limit now) c"
    by (induction rule: connector_reachable.induct) auto
  show "(connector_step xs)\<^sup>*\<^sup>* (new_connector limit now) c \<Longrightarrow> connector_reachable xs limit now c"
    by (induction rule: rtranclp_induct) (auto intro: connector_reachable.intros)
qed

lemma tracker_run: "tracker_step\<^sup>*\<^sup>* y z \<Longrightarrow> tracker_reachable limit now y \<Longrightarrow> tracker_reachable limit now z"
  by (induction rule: rtranclp_induct) (auto intro: tracker_reachable.step)

lemma connector_reachable_inv:
  assumes "connector_reachable xs limit now c"
  shows "connector_inv c \<and> tracker_reachable limit now (tracker_of c)"
proof -
  have "connector_inv (new_connector limit now)" by (simp add: connector_inv_def new_connector_def)
  moreover have "tracker_reachable limit now (tracker_of (new_connector limit now))"
    by (simp add: tracker_of_def new_connector_def tracker_reachable.start)
  ultimately show ?thesis
    using connector.run_simulated assms [unfolded connector_run] tracker_run by blast
qed

text \<open>
  A connector refines the order tracker: in whatever order its coroutines, the replies of the
  exchange, the user stream and the clock interleave, its tracker goes through tracker steps only,
  starting from the empty tracker.
\<close>

theorem connector_refines_tracker:
  assumes "connector_reachable xs limit now c"
  shows "tracker_reachable limit now (tracker_of c)"
  using connector_reachable_inv [OF assms] by blast

lemma connector_tracker_inv: "connector_reachable xs limit now c \<Longrightarrow> tracker_inv (cn_tracker c)"
  using connector_reachable_inv tracker_reachable_inv by (fastforce simp: tracker_of_def)

section \<open>What is sent to the exchange\<close>

text \<open>The terms of an order, which no update changes.\<close>

lemma place_call_updates [simp]:
  "place_call (fst (update_with_order_update ord u)) = place_call ord"
  "place_call (fst (update_with_trade_update ord t)) = place_call ord"
  by (auto simp: place_call_def update_with_order_update_def update_with_trade_update_def update_exchange_order_id_def
      check_processed_by_exchange_condition_def check_filled_condition_def Let_def split: option.split)

definition keeps_terms :: "tracker \<Rightarrow> tracker \<Rightarrow> bool" where
  "keeps_terms s s' \<longleftrightarrow> trk_next s \<le> trk_next s' \<and>
     (\<forall>r < trk_next s. place_call (trk_orders s' r) = place_call (trk_orders s r))"

lemma keeps_terms_refl: "trk_next s' = trk_next s \<Longrightarrow> trk_orders s' = trk_orders s \<Longrightarrow> keeps_terms s s'"
  by (simp add: keeps_terms_def)

lemma keeps_terms_trans: "keeps_terms s s' \<Longrightarrow> keeps_terms s' s'' \<Longrightarrow> keeps_terms s s''"
  by (fastforce simp: keeps_terms_def)

lemma trk_orders_finish:
  "trk_orders (fst (finish_order_update s r u)) = (trk_orders s)(r := fst (update_with_order_update (trk_orders s r) u))"
  by (auto simp: finish_order_update_def trigger_order_completion_def trigger_completed_event_def
      trigger_order_creation_def trigger_created_event_def trigger_cancelled_event_def
      trigger_failure_event_def Let_def obind_def split: prod.splits option.splits sum.splits if_splits)

lemma keeps_finish: "keeps_terms s (fst (finish_order_update s r u))"
  by (simp add: keeps_terms_def trk_orders_finish trk_next_mono)

lemma keeps_order_update:
  "tracker_inv s \<Longrightarrow> keeps_terms s (fst (process_order_update s u))"
  using process_order_update_cases [of s u]
  by (auto simp: keeps_finish order_update_of_lost_ok intro: keeps_terms_refl)

lemma keeps_trade: "keeps_terms s (fst (process_trade_update s t))"
proof (cases "dict_get (all_fillable_orders s) (tu_client_order_id t)")
  case None
  then show ?thesis by (simp add: process_trade_update_def keeps_terms_refl)
next
  case (Some r)
  then have "trk_orders (fst (process_trade_update s t)) = (trk_orders s)(r := fst (update_with_trade_update (trk_orders s r) t))"
    by (auto simp: process_trade_update_def trigger_order_fills_def trigger_filled_event_def Let_def
        split: prod.splits sum.splits if_splits)
  then show ?thesis by (simp add: keeps_terms_def trk_next_mono)
qed

lemma keeps_not_found:
  assumes inv: "tracker_inv s"
  shows "keeps_terms s (fst (process_order_not_found s cid))"
proof (cases "fetch_tracked_order s cid")
  case None
  then show ?thesis
    using keeps_order_update [OF inv] by (auto simp: process_order_not_found_def keeps_terms_refl split: option.split)
next
  case (Some r)
  let ?s = "count_not_found s cid"
  have "keeps_terms ?s (fst (process_order_update ?s u))" for u
    using keeps_order_update [of ?s] inv by simp
  then have "keeps_terms s (fst (process_order_update ?s u))" for u
    by (simp add: keeps_terms_def)
  from this [of "failed_update ?s cid r"] show ?thesis
    unfolding process_order_not_found_count [OF Some]
    by (cases "process_order_update ?s (failed_update ?s cid r)")
      (auto simp: obind_def keeps_terms_def split: option.splits sum.splits)
qed

lemma tracker_step_keeps_terms:
  assumes "tracker_step y z" and "tracker_inv (sys_tracker y)"
  shows "keeps_terms (sys_tracker y) (sys_tracker z)"
  using assms
proof (cases rule: tracker_step.cases)
  case (track cid pair ot tt amount created price exid lev pos)
  then show ?thesis by (simp add: keeps_terms_def track_new_order_def alloc_order_def start_tracking_order_def)
next
  case (update_now u out)
  then show ?thesis
    using process_order_update_begin_Finished [OF assms(2) update_now(3)] assms(2)
    by (auto simp: keeps_finish order_update_of_lost_ok intro: keeps_terms_refl)
next
  case (expire cid)
  then show ?thesis by (simp add: expire_cached_def keeps_terms_refl)
qed (simp_all add: keeps_terms_refl keeps_finish keeps_trade keeps_not_found)

lemma tracker_run_keeps_terms:
  "tracker_step\<^sup>*\<^sup>* y z \<Longrightarrow> tracker_inv (sys_tracker y) \<and> pending_inv y \<Longrightarrow>
   keeps_terms (sys_tracker y) (sys_tracker z) \<and> tracker_inv (sys_tracker z) \<and> pending_inv z"
  by (induction rule: rtranclp_induct)
    (auto intro: keeps_terms_refl keeps_terms_trans tracker_step_keeps_terms dest: tracker_step_inv)

lemma connector_step_keeps_terms:
  assumes "connector_step xs c d" and "connector_reachable xs limit now c"
  shows "keeps_terms (cn_tracker c) (cn_tracker d)"
proof -
  have "tracker_step\<^sup>*\<^sup>* (tracker_of c) (tracker_of d)"
    using connector.simulated [OF assms(1)] connector_reachable_inv [OF assms(2)] by blast
  then show ?thesis
    using tracker_run_keeps_terms tracker_reachable_inv [OF connector_refines_tracker [OF assms(2)]]
    by (fastforce simp: tracker_of_def)
qed

text \<open>The orders among the calls.\<close>

fun call_id :: "exchange_call \<Rightarrow> string" where
  "call_id (PlaceRequest i p q t ot pr) = i"
| "call_id (CancelRequest i) = i"

fun is_place_request :: "exchange_call \<Rightarrow> bool" where
  "is_place_request (PlaceRequest i p q t ot pr) = True"
| "is_place_request (CancelRequest i) = False"

definition placed :: "exchange_connector \<Rightarrow> exchange_call list" where
  "placed c = filter is_place_request (cn_calls c)"

lemma placed_elementary [simp]:
  "placed (schedule u c) = placed c" "placed (add_task t c) = placed c" "placed (end_task t c) = placed c"
  "placed (upd_tracker f c) = placed c" "placed (stop_network c) = placed c" "placed (update_trading_rules rules c) = placed c"
  "placed (begin_cancel r t c) = placed c" "placed (update_order_after_failure i p e c) = placed c"
  by (simp_all add: placed_def schedule_def add_task_def end_task_def upd_tracker_def stop_network_def
      update_trading_rules_def begin_cancel_def send_call_def update_order_after_failure_def)

lemma placed_replies [simp]:
  "placed (not_found r c) = placed c" "placed (execute_order_cancel xs r b c) = placed c"
  "placed (handle_update_error xs lost r e c) = placed c" "placed (next_status lost rs c) = placed c"
  "placed (on_place_reply r reply c) = placed c" "placed (execute_cancel cid c) = placed c"
  "placed (run_update c) = placed c" "placed (resume_update p c) = placed c"
  by (auto simp: not_found_def execute_order_cancel_def handle_update_error_def next_status_def on_place_reply_def
      execute_cancel_def Let_def split: sum.split list.split option.split)
    (auto simp: placed_def run_update_def resume_update_def Let_def split: list.split update_progress.split)

lemma placed_polls [simp]:
  "placed (next_fills lost rs c) = placed c" "placed (next_lost_cancel rs c) = placed c"
  by (auto simp: next_fills_def next_lost_cancel_def split: list.split)

lemma placed_operations [simp]:
  "placed (on_status_reply xs lost r rs u c) = placed c" "placed (on_fills_reply lost r rs ts c) = placed c"
  "placed (on_cancel_reply xs r b c) = placed c" "placed (on_lost_cancel_reply xs r rs b c) = placed c"
  "placed (update_order_status c) = placed c" "placed (lost_orders_update c) = placed c"
  by (auto simp: on_status_reply_def on_fills_reply_def on_cancel_reply_def on_lost_cancel_reply_def
      update_order_status_def lost_orders_update_def Let_def split: sum.split)

lemma start_tracking_fields:
  assumes "d = connector_start_tracking cid pair ot t q price c"
  shows "trk_next (cn_tracker d) = Suc (trk_next (cn_tracker c))"
    and "order_at d (trk_next (cn_tracker c)) =
      new_in_flight_order cid pair ot t q (trk_current_timestamp (cn_tracker c)) price None PENDING_CREATE 1 NIL"
    and "dict_get (trk_in_flight_orders (cn_tracker d)) cid = Some (trk_next (cn_tracker c))"
    and "placed d = placed c" and "cn_updates d = cn_updates c" and "cn_tasks d = cn_tasks c" and "cn_calls d = cn_calls c"
    and "trk_events (cn_tracker d) = trk_events (cn_tracker c)"
    and "trk_current_timestamp (cn_tracker d) = trk_current_timestamp (cn_tracker c)"
  by (simp_all add: assms connector_start_tracking_def upd_tracker_def track_new_order_def alloc_order_def
      start_tracking_order_def new_in_flight_order_def check_processed_by_exchange_condition_def placed_def)

lemma place_call_new:
  "place_call (new_in_flight_order cid pair ot t q ts price exid st lev pos) = PlaceRequest cid pair q t ot price"
  by (simp add: place_call_def new_in_flight_order_def check_processed_by_exchange_condition_def)


lemma place_created:
  assumes "d = connector_start_tracking cid pair ot t q price c"
  shows "placed (begin_place_order (trk_next (cn_tracker c)) d) = placed c @ [PlaceRequest cid pair q t ot price]"
    and "cn_tasks (begin_place_order (trk_next (cn_tracker c)) d) = cn_tasks c @ [Placing (trk_next (cn_tracker c))]"
    and "cn_updates (begin_place_order (trk_next (cn_tracker c)) d) = cn_updates c"
    and "cn_tracker (begin_place_order (trk_next (cn_tracker c)) d) = cn_tracker d"
  using place_call_new [of cid pair ot t q "trk_current_timestamp (cn_tracker c)" price None PENDING_CREATE 1 NIL]
    start_tracking_fields(2,6,7,5) [OF assms]
  by (simp_all add: begin_place_order_def add_task_def send_call_def placed_def place_call_def)

section \<open>Creating orders\<close>


lemma failure_fields:
  "cn_tracker (update_order_after_failure i p e c) = cn_tracker c"
  "cn_updates (update_order_after_failure i p e c) = cn_updates c @
     [\<lparr>ou_trading_pair = p, ou_timestamp = trk_current_timestamp (cn_tracker c), ou_new_state = FAILED,
       ou_client_order_id = Some i, ou_exchange_order_id = None,
       ou_misc_updates = Some [(''error_message'', error_message e), (''error_type'', error_type e)]\<rparr>]"
  "cn_waiting (update_order_after_failure i p e c) = cn_waiting c"
  by (simp_all add: update_order_after_failure_def schedule_def)

lemma create_order_cases:
  assumes "create_order xs price_of t cid pair amount ot price c = (d, e)"
  obtains (unlisted) err where "d = c" "e = Some err" "quantized_order c pair amount ot price = Inl err"
  | (unvalued) rule p q err where "quantized_order c pair amount ot price = Inr (rule, p, q)" "e = Some err"
      "d = connector_start_tracking cid pair ot t q p c"
      "notional_size price_of pair p q = Inl err \<or>
       (\<exists>v. notional_size price_of pair p q = Inr v \<and> refusal xs rule pair ot amount q v = Inl err)"
  | (refused) rule p q v msg where "quantized_order c pair amount ot price = Inr (rule, p, q)" "e = None"
      "notional_size price_of pair p q = Inr v" "refusal xs rule pair ot amount q v = Inr (Some msg)"
      "d = update_order_after_failure cid pair (ApiError ''ValueError'' msg) (connector_start_tracking cid pair ot t q p c)"
  | (placed) rule p q v where "quantized_order c pair amount ot price = Inr (rule, p, q)" "e = None"
      "notional_size price_of pair p q = Inr v" "refusal xs rule pair ot amount q v = Inr None"
      "d = begin_place_order (trk_next (cn_tracker c)) (connector_start_tracking cid pair ot t q p c)"
  using assms unfolding create_order_def Let_def
  by (auto split: sum.splits prod.splits option.splits)

lemma placed_create:
  assumes "create_order xs price_of t cid pair amount ot price c = (d, e)"
  shows "placed d = placed c \<or> (\<exists>q p. placed d = placed c @ [PlaceRequest cid pair q t ot p]
    \<and> place_call (order_at d (trk_next (cn_tracker c))) = PlaceRequest cid pair q t ot p
    \<and> trk_next (cn_tracker d) = Suc (trk_next (cn_tracker c)))"
  using assms
proof (cases rule: create_order_cases)
  case (placed rule p q v)
  note d = start_tracking_fields [OF refl, of cid pair ot t q p c]
  show ?thesis
    using d(1,2) place_created [OF refl, of c cid pair ot t q p] placed(5) by (auto simp: place_call_new)
qed (simp_all add: start_tracking_fields(4) [OF refl])

definition sent_inv :: "exchange_connector \<Rightarrow> bool" where
  "sent_inv c \<longleftrightarrow> distinct (map call_id (placed c)) \<and>
     (\<forall>k \<in> set (placed c). \<exists>r < trk_next (cn_tracker c). k = place_call (order_at c r))"

lemma sent_inv_same:
  assumes "placed d = placed c" and "keeps_terms (cn_tracker c) (cn_tracker d)" and "sent_inv c"
  shows "sent_inv d"
  using assms unfolding sent_inv_def keeps_terms_def by (metis order_less_le_trans)

lemma sent_ids_fresh:
  assumes "sent_inv c" and "fresh_client_id (cn_tracker c) cid"
  shows "cid \<notin> set (map call_id (placed c))"
proof
  assume "cid \<in> set (map call_id (placed c))"
  then obtain r where "r < trk_next (cn_tracker c)" "call_id (place_call (order_at c r)) = cid"
    using assms(1) by (auto simp: sent_inv_def)
  then show False using assms(2) by (simp add: fresh_client_id_def place_call_def)
qed

lemma sent_inv_create:
  assumes "create_order xs price_of t cid pair amount ot price c = (d, e)" and "sent_inv c"
    and "keeps_terms (cn_tracker c) (cn_tracker d)" and "fresh_client_id (cn_tracker c) cid"
  shows "sent_inv d"
  using placed_create [OF assms(1)]
proof
  assume "placed d = placed c"
  then show ?thesis using sent_inv_same assms(2,3) by blast
next
  assume "\<exists>q p. placed d = placed c @ [PlaceRequest cid pair q t ot p]
    \<and> place_call (order_at d (trk_next (cn_tracker c))) = PlaceRequest cid pair q t ot p
    \<and> trk_next (cn_tracker d) = Suc (trk_next (cn_tracker c))"
  then obtain q p where d: "placed d = placed c @ [PlaceRequest cid pair q t ot p]"
    "place_call (order_at d (trk_next (cn_tracker c))) = PlaceRequest cid pair q t ot p"
    "trk_next (cn_tracker d) = Suc (trk_next (cn_tracker c))" by blast
  have "distinct (map call_id (placed d))"
    using assms(2) sent_ids_fresh [OF assms(2,4)] by (simp add: d(1) sent_inv_def)
  moreover have "\<exists>r < trk_next (cn_tracker d). k = place_call (order_at d r)" if "k \<in> set (placed d)" for k
  proof (cases "k \<in> set (placed c)")
    case True
    then obtain r where "r < trk_next (cn_tracker c)" "k = place_call (order_at c r)"
      using assms(2) unfolding sent_inv_def by blast
    then show ?thesis using assms(3) unfolding keeps_terms_def by (metis order_less_le_trans)
  next
    case False
    then show ?thesis using that d by auto
  qed
  ultimately show ?thesis by (simp add: sent_inv_def)
qed

lemma connector_step_sent_inv:
  assumes "connector_step xs c d" and "connector_reachable xs limit now c" and "sent_inv c"
  shows "sent_inv d"
proof -
  have "placed d = placed c \<or> (\<exists>price_of t cid pair amount ot price.
      d = fst (create_order xs price_of t cid pair amount ot price c) \<and> fresh_client_id (cn_tracker c) cid)"
    using assms(1)
  proof (cases rule: connector_step.cases)
    case (create cid price_of t pair amount ot price)
    then show ?thesis by blast
  qed simp_all
  then show ?thesis
    using sent_inv_same sent_inv_create [OF _ assms(3) connector_step_keeps_terms [OF assms(1,2)]] assms(3)
      connector_step_keeps_terms [OF assms(1,2)]
    by (metis prod.collapse)
qed

text \<open>
  Every order is sent to the exchange at most once, and only with the terms (pair, amount, side,
  type and price) under which the tracker knows it: no reply can come for an order that is not known.
\<close>

theorem orders_sent_once:
  assumes "connector_reachable xs limit now c"
  shows "distinct (map call_id (placed c))
    \<and> (\<forall>k \<in> set (placed c). \<exists>r < trk_next (cn_tracker c). k = place_call (order_at c r))"
proof -
  have "sent_inv c"
    using assms
    proof induction
    case start
    show ?case by (simp add: sent_inv_def new_connector_def placed_def)
  qed (rule connector_step_sent_inv)
  then show ?thesis by (simp add: sent_inv_def)
qed

lemma quantized_amount_bounds:
  assumes "quantized_order c pair amount ot price = Inr (rule', p, q)"
    and "dict_get (cn_trading_rules c) pair = Some rule" and "0 < min_base_amount_increment rule" and "0 \<le> amount"
  shows "rule' = rule \<and> 0 \<le> q \<and> q \<le> amount"
proof -
  have r: "rule' = rule" "quantize_order_amount (cn_trading_rules c) pair amount = Inr q"
    using assms(1,2) by (auto simp: quantized_order_def ebind_eq_Inr_iff dict_at_def)
  then have "quantize_step (min_base_amount_increment rule) amount = Inr q"
    using assms(2) by (simp add: quantize_order_amount_def get_order_size_quantum_def dict_at_def)
  then show ?thesis using quantize_step_bounds [OF assms(3,4)] r(1) by (metis sum.inject(2))
qed


lemma create_order_steps:
  assumes "connector_reachable xs limit now c" and "fresh_client_id (cn_tracker c) cid" and "cid \<noteq> []"
    and "create_order xs price_of t cid pair amount ot price c = (d, e)"
  shows "connector_reachable xs limit now d"
  using connector_reachable.step [OF assms(1) connector_step.create [OF assms(2,3), of xs price_of t pair amount ot price]] assms(4)
  by simp

text \<open>
  An order that the connector refuses is announced as failed, with the error's class, as soon as
  the tracker processes the update, and is not tracked any more; nothing was sent.
\<close>

theorem refused_order_is_announced:
  assumes reach: "connector_reachable xs limit now c" and "cn_updates c = []"
    and fresh: "fresh_client_id (cn_tracker c) cid" "cid \<noteq> []"
    and created: "create_order xs price_of t cid pair amount ot price c = (d, None)" and "cn_updates d \<noteq> []"
    and rule: "dict_get (cn_trading_rules c) pair = Some rule" "0 < min_base_amount_increment rule" "0 \<le> amount"
  shows "\<exists>msg. trk_events (cn_tracker (run_update d)) = trk_events (cn_tracker c)
        @ [EvFailure (trk_current_timestamp (cn_tracker c)) cid ot (Some ''ValueError'') (Some msg)]
    \<and> \<not> dict_has (trk_in_flight_orders (cn_tracker (run_update d))) cid
    \<and> cn_updates (run_update d) = [] \<and> placed (run_update d) = placed c"
  using created
proof (cases rule: create_order_cases)
  case (refused rule' p q v msg)
  have q: "0 \<le> q" using quantized_amount_bounds [OF refused(1) rule] by simp
  let ?r = "trk_next (cn_tracker c)"
  note new = start_tracking_fields [OF refl, of cid pair ot t q p c]
  have inv: "tracker_inv (cn_tracker d)"
    using connector_tracker_inv create_order_steps [OF reach fresh created] by blast
  obtain u where u: "cn_updates d = [u]" "ou_client_order_id u = Some cid" "ou_new_state u = FAILED"
    "ou_misc_updates u = Some [(''error_message'', msg), (''error_type'', ''ValueError'')]"
    using assms(2) by (simp_all add: refused(5) failure_fields new error_message_def error_type_def)
  have get: "dict_get (trk_in_flight_orders (cn_tracker d)) cid = Some ?r" "?r < trk_next (cn_tracker d)"
    by (simp_all add: refused(5) failure_fields new)
  have ord: "o_client_order_id (order_at d ?r) = cid" "o_current_state (order_at d ?r) = PENDING_CREATE" "o_order_type (order_at d ?r) = ot"
    "o_executed_amount_base (order_at d ?r) = 0" "o_amount (order_at d ?r) = q"
    by (simp_all add: refused(5) failure_fields new new_in_flight_order_def check_processed_by_exchange_condition_def)
  obtain ord' upd where upd: "update_with_order_update (order_at d ?r) u = (ord', upd)" by fastforce
  have o': "o_current_state ord' = FAILED" "o_client_order_id ord' = cid" "o_order_type ord' = ot" "upd"
    using order_update_state [of u "order_at d ?r"] order_update_not_updated [of "order_at d ?r" u]
      order_update_frame(2) [of "order_at d ?r" u] place_call_updates(1) [of "order_at d ?r" u] upd u ord
    by (auto simp: place_call_def)
  have "o_executed_amount_base ord' = 0" "o_amount ord' = q"
    using order_update_frame [of "order_at d ?r" u] upd ord by simp_all
  then have unfilled: "\<not> is_filled ord'" using q o'(1) by (auto simp: is_filled_def py_isclose_def)
  have "truthy_str (Some cid)" using fresh(2) by (cases cid) simp_all
  then have "process_order_update_begin (cn_tracker d) u = Finished (finish_order_update (cn_tracker d) ?r u)"
    using in_flight_fetch [OF inv get(1)] u by (simp add: process_order_update_begin_def)
  moreover have "finish_order_update (cn_tracker d) ?r u =
      (stop_tracking_order (log_events (put_order (cn_tracker d) ?r ord')
         [EvFailure (trk_current_timestamp (cn_tracker d)) cid ot (Some ''ValueError'') (Some msg)]) cid, None)"
    using o' u ord unfilled
    by (simp add: finish_order_update_eq [OF tracker_inv_valid [OF inv get(2)] upd] Let_def is_open_def log_events_append
        completion_event_def is_cancelled_def is_failure_def creation_events_def dict_get_def)
  ultimately have "run_update d = d\<lparr>cn_updates := [], cn_tracker := stop_tracking_order (log_events (put_order (cn_tracker d) ?r ord')
         [EvFailure (trk_current_timestamp (cn_tracker d)) cid ot (Some ''ValueError'') (Some msg)]) cid\<rparr>"
    by (subst run_update_def) (simp add: u(1) Let_def)
  moreover have "trk_events (cn_tracker d) = trk_events (cn_tracker c)" "placed d = placed c"
    "trk_current_timestamp (cn_tracker d) = trk_current_timestamp (cn_tracker c)"
    by (simp_all add: refused(5) failure_fields new)
  ultimately show ?thesis
    using get(1) by (simp add: stop_tracking_order_def placed_def dict_has_def)
next
  case (placed rule p q v)
  then show ?thesis using assms(2,6) place_created(3) [OF refl, of c cid pair ot t q p] by simp
qed simp_all

text \<open>
  A market order for which the order book has no price raises after the tracking has begun: the
  order stays in flight, pending, while no request was sent and no failure was scheduled.
\<close>

theorem unpriced_order_stays_pending:
  assumes "quantized_order c pair amount MARKET price = Inr (rule, p, q)" and "p \<in> {None, Some NaN}"
    and "price_of pair = Inr NaN" and "MARKET \<in> set (xs_supported_order_types xs)" and "min_order_size rule \<le> q"
  shows "\<exists>d. create_order xs price_of t cid pair amount MARKET price c = (d, Some InvalidOperation)
    \<and> placed d = placed c \<and> cn_updates d = cn_updates c \<and> cn_tasks d = cn_tasks c
    \<and> (\<exists>r. fetch_tracked_order (cn_tracker d) cid = Some r \<and> o_current_state (order_at d r) = PENDING_CREATE)"
proof -
  have "create_order xs price_of t cid pair amount MARKET price c =
      (connector_start_tracking cid pair MARKET t q p c, Some InvalidOperation)"
    using assms by (auto simp: create_order_def notional_size_def order_notional_def refusal_def Let_def)
  then show ?thesis
    using start_tracking_fields [OF refl, of cid pair MARKET t q p c]
    by (simp add: fetch_tracked_order_def new_in_flight_order_def check_processed_by_exchange_condition_def)
qed

section \<open>Cancelling\<close>

text \<open>
  \<open>cancel_all\<close> reports each of the incomplete orders exactly once, as cancelled exactly when its
  cancel returned its id; when the time runs out all are reported as not cancelled.
\<close>

theorem cancel_all_reports_each_order_once:
  assumes "distinct ids" and "distinct [i. Inr (Some i) \<leftarrow> rs]" and "\<forall>i. Inr (Some i) \<in> set rs \<longrightarrow> i \<in> set ids"
  shows "mset (map fst (cancel_all_report ids (Some rs))) = mset ids
    \<and> (\<forall>i. (i, True) \<in> set (cancel_all_report ids (Some rs)) \<longleftrightarrow> Inr (Some i) \<in> set rs)
    \<and> cancel_all_report ids None = map (\<lambda>i. (i, False)) ids"
proof -
  define ok where "ok = [i. Inr (Some i) \<leftarrow> rs]"
  have ok: "set ok = {i. Inr (Some i) \<in> set rs}"
    unfolding ok_def by (auto split: sum.splits option.splits)
  then have sub: "set ok \<subseteq> set ids" "distinct ok" using assms(2,3) by (auto simp: ok_def)
  have "distinct (ok @ filter (\<lambda>i. i \<notin> set ok) ids)" "set (ok @ filter (\<lambda>i. i \<notin> set ok) ids) = set ids"
    using sub assms(1) by auto
  then have "mset (ok @ filter (\<lambda>i. i \<notin> set ok) ids) = mset ids"
    using assms(1) set_eq_iff_mset_eq_distinct by blast
  moreover have "cancel_all_report ids (Some rs) = map (\<lambda>i. (i, True)) ok @ map (\<lambda>i. (i, False)) (filter (\<lambda>i. i \<notin> set ok) ids)"
    by (simp add: cancel_all_report_def ok_def Let_def)
  ultimately show ?thesis using ok by (auto simp: cancel_all_report_def comp_def)
qed

section \<open>Orders that slip away\<close>

lemma fetch_order_lost: "fetch_order (s\<lparr>trk_lost_orders := x\<rparr>) a b = fetch_order s a b"
proof -
  have "all_orders (s\<lparr>trk_lost_orders := x\<rparr>) = all_orders s" by (simp add: all_orders_def)
  moreover have "fetch_from (s\<lparr>trk_lost_orders := x\<rparr>) dct a b = fetch_from s dct a b" for dct
    by (simp add: fetch_from_def cong: option.case_cong)
  ultimately show ?thesis by (simp only: fetch_order_def)
qed

lemma no_order_of_exchange_id:
  assumes "tracker_inv s" and "\<forall>q < trk_next s. o_exchange_order_id (trk_orders s q) \<noteq> Some exid"
    and "dict_get (trk_lost_orders s) cid = Some r"
  shows "fetch_order s (Some cid) (Some exid) = None \<and> fetch_order s (Some cid) None = None"
proof -
  have wf: "dict_wf (all_orders s)" using assms(1) by simp
  have none: "dict_get (all_orders s) cid = None"
    using assms(1,3) by (auto simp: all_orders_get tracker_inv_def disjoint_keys_def dict_has_def split: option.split)
  have "List.find (\<lambda>r. o_exchange_order_id (trk_orders s r) = Some exid) (dict_values (all_orders s)) = None"
    using assms(2) all_orders_refs [OF assms(1)] dict_get_values [OF wf] by (force simp: find_None_iff)
  then show ?thesis by (simp add: fetch_order_def fetch_from_def none)
qed

text \<open>
  An order that was given up as lost while the request that places it was still under way is
  forgotten: when the exchange accepts the order, the update with the exchange's id is ignored; then
  cancelling the lost order, which cannot be done without that id, times out and removes it from the
  lost orders. The exchange has the order and the tracker does not know it any more.
\<close>

theorem late_order_is_forgotten:
  assumes reach: "connector_reachable xs limit now c" and "cn_updates c = []"
    and lost: "dict_get (trk_lost_orders (cn_tracker c)) cid = Some r"
    and new: "\<forall>q < trk_next (cn_tracker c). o_exchange_order_id (order_at c q) \<noteq> Some exid"
    and d_def: "d = run_update (on_place_reply r (Inr (exid, ts)) c)"
    and e_def: "e = execute_order_cancel xs r (Inl RequestTimeout) d"
  shows "cn_tracker d = cn_tracker c \<and> fetch_order (cn_tracker e) (Some cid) (Some exid) = None
    \<and> fetch_lost_order (cn_tracker e) (Some cid) (Some exid) = None \<and> trk_events (cn_tracker e) = trk_events (cn_tracker c)"
proof -
  let ?s = "cn_tracker c"
  have inv: "tracker_inv ?s" using connector_tracker_inv [OF reach] .
  have r: "r < trk_next ?s" "o_client_order_id (trk_orders ?s r) = cid"
    using inv lost by (auto simp: tracker_inv_def order_ids_def dest: refs_okD)
  have "cid \<noteq> []" using inv r by (auto simp: tracker_inv_def order_ids_def)
  then have truthy: "truthy_str (Some cid)" by (cases cid) simp_all
  have none: "fetch_order ?s (Some cid) (Some exid) = None" "fetch_order ?s (Some cid) None = None"
    using no_order_of_exchange_id [OF inv new lost] by simp_all
  have lost_fetch: "fetch_lost_order ?s (Some cid) x = Some r" for x using lost by (simp add: fetch_lost_order_def fetch_from_def)
  have d: "cn_tracker d = ?s"
    using truthy none(1) lost_fetch r(2) assms(2)
    by (simp add: d_def on_place_reply_def Let_def end_task_def schedule_def run_update_def process_order_update_begin_def
        order_update_of_lost_def)
  have free: "dict_get (trk_in_flight_orders ?s) cid = None"
    using inv lost by (auto simp: tracker_inv_def disjoint_keys_def dict_has_def)
  have "cn_tracker e = fst (process_order_not_found ?s cid)"
    using d r(2) by (simp add: e_def execute_order_cancel_def not_found_def upd_tracker_def)
  also have "\<dots> = ?s\<lparr>trk_lost_orders := dict_del (trk_lost_orders ?s) cid\<rparr>"
    using truthy none(2) lost_fetch free lost r(2)
    by (simp add: process_order_not_found_def fetch_tracked_order_def process_order_update_def process_order_update_begin_def
        order_update_of_lost_def dict_pop_strict_def dict_has_def)
  finally have e: "cn_tracker e = ?s\<lparr>trk_lost_orders := dict_del (trk_lost_orders ?s) cid\<rparr>" .
  have "set (dict_values (dict_del (trk_lost_orders ?s) cid)) \<subseteq> {..<trk_next ?s}"
  proof
    fix q assume "q \<in> set (dict_values (dict_del (trk_lost_orders ?s) cid))"
    moreover have "dict_wf (dict_del (trk_lost_orders ?s) cid)" using inv by (auto simp: tracker_inv_def refs_ok_def)
    ultimately obtain k where "dict_get (dict_del (trk_lost_orders ?s) cid) k = Some q" using dict_get_values by metis
    then have "dict_get (trk_lost_orders ?s) k = Some q" by (simp split: if_splits)
    then show "q \<in> {..<trk_next ?s}" using inv by (auto simp: tracker_inv_def dest: refs_okD)
  qed
  then have "List.find (\<lambda>q. o_exchange_order_id (trk_orders ?s q) = Some exid) (dict_values (dict_del (trk_lost_orders ?s) cid)) = None"
    using new by (auto simp: find_None_iff)
  moreover have "fetch_order (cn_tracker e) (Some cid) (Some exid) = None"
    using none(1) by (simp only: e fetch_order_lost)
  ultimately show ?thesis using d by (simp add: e fetch_lost_order_def fetch_from_def)
qed

text \<open>
  When the user stream reports an order as cancelled before the request that placed it returns,
  the update made from the reply opens the order again: its state says open although it is no longer
  in flight, so it is neither polled nor can it be cancelled.
\<close>

theorem late_reply_reopens_cancelled_order:
  assumes reach: "connector_reachable xs limit now c" and "cn_updates c = []"
    and cached: "dict_get (trk_cached_orders (cn_tracker c)) cid = Some r" and "o_current_state (order_at c r) = CANCELED"
    and d_def: "d = run_update (on_place_reply r (Inr (exid, ts)) c)"
  shows "is_open (order_at d r) \<and> fetch_tracked_order (cn_tracker d) cid = None
    \<and> trk_events (cn_tracker d) = trk_events (cn_tracker c) \<and> execute_cancel cid d = d"
proof -
  let ?s = "cn_tracker c"
  define u where "u = \<lparr>ou_trading_pair = o_trading_pair (order_at c r), ou_timestamp = ts, ou_new_state = OPEN_STATE,
    ou_client_order_id = Some cid, ou_exchange_order_id = Some exid, ou_misc_updates = None\<rparr>"
  have inv: "tracker_inv ?s" using connector_tracker_inv [OF reach] .
  have r: "r < trk_next ?s" "o_client_order_id (trk_orders ?s r) = cid"
    using inv cached by (auto simp: tracker_inv_def order_ids_def dest: refs_okD)
  have "cid \<noteq> []" using inv r by (auto simp: tracker_inv_def order_ids_def)
  then have truthy: "truthy_str (Some cid)" by (cases cid) simp_all
  have free: "dict_get (trk_in_flight_orders ?s) cid = None"
    using inv cached by (auto simp: tracker_inv_def disjoint_keys_def dict_has_def)
  have "fetch_order ?s (Some cid) (Some exid) = Some r"
    using inv cached by (simp add: fetch_order_def fetch_from_def all_orders_get)
  then have d: "d = (end_task (Placing r) c)\<lparr>cn_updates := [], cn_tracker := fst (finish_order_update ?s r u)\<rparr>"
    using truthy r(2) assms(2)
    by (simp add: d_def on_place_reply_def Let_def end_task_def schedule_def run_update_def process_order_update_begin_def u_def)
  obtain ord upd where upd: "update_with_order_update (order_at c r) u = (ord, upd)" by fastforce
  have ord: "o_current_state ord = OPEN_STATE" "upd"
    using order_update_state [of u "order_at c r"] order_update_not_updated [of "order_at c r" u] upd r(2) assms(4)
    by (auto simp: u_def)
  have "fst (finish_order_update ?s r u) = put_order ?s r ord"
    using ord assms(4)
    by (simp add: finish_order_update_eq [OF tracker_inv_valid [OF inv r(1)] upd] Let_def is_open_def creation_events_def log_events_def)
  then show ?thesis
    using ord(1) free by (simp add: d is_open_def fetch_tracked_order_def execute_cancel_def)
qed

section \<open>Application\<close>

definition demo_spec :: exchange_spec where
  "demo_spec = \<lparr>xs_supported_order_types = [LIMIT, MARKET], xs_synchronous_cancel = True,
     xs_not_found_on_cancel = (\<lambda>_. False), xs_not_found_on_status = (\<lambda>_. True), xs_show_decimal = (\<lambda>_. ''0'')\<rparr>"

definition demo_listed :: exchange_connector where
  "demo_listed = update_trading_rules (map snd demo_rules) (new_connector 0 1)"

definition demo_placing :: exchange_connector where
  "demo_placing = fst (create_order demo_spec (\<lambda>_. Inr NaN) BUY ''c1'' ''SOL-USDC'' 3 LIMIT (Some (Fin 20)) demo_listed)"

definition demo_lost :: exchange_connector where
  "demo_lost = on_cancel_reply demo_spec 0 (Inl RequestTimeout) (execute_cancel ''c1'' demo_placing)"

definition demo_cancelled :: exchange_connector where
  "demo_cancelled = run_update (schedule (order_cancelled\<lparr>ou_exchange_order_id := None\<rparr>) demo_placing)"

lemma demo_listed_reachable: "connector_reachable xs 0 1 demo_listed"
  unfolding demo_listed_def
  by (rule connector_reachable.step [OF connector_reachable.start connector_step.rules]) code_simp

lemma demo_fresh: "fresh_client_id (cn_tracker demo_listed) cid"
  by (simp add: fresh_client_id_def demo_listed_def update_trading_rules_def new_connector_def init_tracker_def)

lemma demo_placing_reachable: "connector_reachable demo_spec 0 1 demo_placing"
  unfolding demo_placing_def
  by (rule connector_reachable.step [OF demo_listed_reachable connector_step.create [OF demo_fresh]]) simp

lemma demo_lost_reachable: "connector_reachable demo_spec 0 1 demo_lost"
proof -
  have "connector_reachable demo_spec 0 1 (execute_cancel ''c1'' demo_placing)"
    by (rule connector_reachable.step [OF demo_placing_reachable connector_step.cancel])
  moreover have "Cancelling 0 \<in> set (cn_tasks (execute_cancel ''c1'' demo_placing))" by code_simp
  ultimately show ?thesis unfolding demo_lost_def by (rule connector_reachable.step [OF _ connector_step.cancel_reply])
qed

lemma demo_cancelled_reachable: "connector_reachable demo_spec 0 1 demo_cancelled"
proof -
  have "proper_update (order_cancelled\<lparr>ou_exchange_order_id := None\<rparr>)" by code_simp
  then have "connector_reachable demo_spec 0 1 (schedule (order_cancelled\<lparr>ou_exchange_order_id := None\<rparr>) demo_placing)"
    by (rule connector_reachable.step [OF demo_placing_reachable connector_step.stream_update])
  then show ?thesis unfolding demo_cancelled_def by (rule connector_reachable.step [OF _ connector_step.update])
qed

theorem connector_refines_tracker_witness:
  "tracker_reachable 0 1 (tracker_of demo_lost) \<and> dict_get (trk_lost_orders (cn_tracker demo_lost)) ''c1'' = Some 0"
proof
  show "tracker_reachable 0 1 (tracker_of demo_lost)" by (rule connector_refines_tracker [OF demo_lost_reachable])
  show "dict_get (trk_lost_orders (cn_tracker demo_lost)) ''c1'' = Some 0" by code_simp
qed

theorem orders_sent_once_witness:
  "distinct (map call_id (placed demo_lost)) \<and> placed demo_lost = [PlaceRequest ''c1'' ''SOL-USDC'' 3 BUY LIMIT (Some (Fin 20))]"
proof
  show "distinct (map call_id (placed demo_lost))" using orders_sent_once [OF demo_lost_reachable] by blast
  show "placed demo_lost = [PlaceRequest ''c1'' ''SOL-USDC'' 3 BUY LIMIT (Some (Fin 20))]" by code_simp
qed

lemma demo_rule:
  "dict_get (cn_trading_rules demo_listed) ''SOL-USDC'' = Some (snd (hd demo_rules))"
  "0 < min_base_amount_increment (snd (hd demo_rules))"
  by code_simp+


theorem refused_order_is_announced_witness:
  "\<exists>d msg. create_order demo_spec (\<lambda>_. Inr NaN) SELL ''c2'' ''SOL-USDC'' 3 LIMIT_MAKER (Some (Fin 20)) demo_listed = (d, None)
    \<and> trk_events (cn_tracker (run_update d)) = [EvFailure 1 ''c2'' LIMIT_MAKER (Some ''ValueError'') (Some msg)]"
proof -
  let ?d = "fst (create_order demo_spec (\<lambda>_. Inr NaN) SELL ''c2'' ''SOL-USDC'' 3 LIMIT_MAKER (Some (Fin 20)) demo_listed)"
  have d: "create_order demo_spec (\<lambda>_. Inr NaN) SELL ''c2'' ''SOL-USDC'' 3 LIMIT_MAKER (Some (Fin 20)) demo_listed = (?d, None)"
    by (rule prod_eqI) (simp, code_simp)
  have c: "cn_updates demo_listed = []" "trk_events (cn_tracker demo_listed) = []" "trk_current_timestamp (cn_tracker demo_listed) = 1"
    by code_simp+
  have "cn_updates ?d \<noteq> []" by code_simp
  then show ?thesis
    using refused_order_is_announced [OF demo_listed_reachable c(1) demo_fresh _ d _ demo_rule] d c by auto
qed

theorem unpriced_order_stays_pending_witness:
  "\<exists>d. create_order demo_spec (\<lambda>_. Inr NaN) BUY ''c3'' ''SOL-USDC'' 3 MARKET (Some NaN) demo_listed = (d, Some InvalidOperation)
    \<and> placed d = placed demo_listed"
proof -
  have "quantized_order demo_listed ''SOL-USDC'' 3 MARKET (Some NaN) = Inr (snd (hd demo_rules), Some NaN, 3)"
    "MARKET \<in> set (xs_supported_order_types demo_spec)" "min_order_size (snd (hd demo_rules)) \<le> 3" by code_simp+
  then show ?thesis
    using unpriced_order_stays_pending [of demo_listed "''SOL-USDC''" 3 "Some NaN" "snd (hd demo_rules)" "Some NaN" 3 "\<lambda>_. Inr NaN"
        demo_spec BUY "''c3''"] by auto
qed

theorem cancel_all_reports_each_order_once_witness:
  "mset (map fst (cancel_all_report [''c1'', ''c2'', ''c3''] (Some [Inr (Some ''c2''), Inl ExternalError, Inr None]))) = mset [''c1'', ''c2'', ''c3'']"
  using cancel_all_reports_each_order_once [of "[''c1'', ''c2'', ''c3'']" "[Inr (Some ''c2''), Inl ExternalError, Inr None]"] by simp

theorem late_order_is_forgotten_witness:
  "\<exists>e. placed e = [PlaceRequest ''c1'' ''SOL-USDC'' 3 BUY LIMIT (Some (Fin 20))]
    \<and> fetch_order (cn_tracker e) (Some ''c1'') (Some ''e1'') = None \<and> fetch_lost_order (cn_tracker e) (Some ''c1'') (Some ''e1'') = None"
proof -
  have "cn_updates demo_lost = []" "dict_get (trk_lost_orders (cn_tracker demo_lost)) ''c1'' = Some 0"
    "o_exchange_order_id (order_at demo_lost 0) \<noteq> Some ''e1''" "trk_next (cn_tracker demo_lost) = Suc 0"
    "placed demo_lost = [PlaceRequest ''c1'' ''SOL-USDC'' 3 BUY LIMIT (Some (Fin 20))]" by code_simp+
  then show ?thesis
    using late_order_is_forgotten [OF demo_lost_reachable, of "''c1''" 0 "''e1''" _ 2, OF _ _ _ refl refl]
    by (intro exI [of _ "execute_order_cancel demo_spec 0 (Inl RequestTimeout) (run_update (on_place_reply 0 (Inr (''e1'', 2)) demo_lost))"])
      simp
qed

theorem late_reply_reopens_cancelled_order_witness:
  "\<exists>d. is_open (order_at d 0) \<and> fetch_tracked_order (cn_tracker d) ''c1'' = None \<and> execute_cancel ''c1'' d = d"
proof -
  have "cn_updates demo_cancelled = []" "dict_get (trk_cached_orders (cn_tracker demo_cancelled)) ''c1'' = Some 0"
    "o_current_state (order_at demo_cancelled 0) = CANCELED" by code_simp+
  then show ?thesis
    using late_reply_reopens_cancelled_order [OF demo_cancelled_reachable, of "''c1''" 0 _ "''e1''" 2] by blast
qed

end
