(* ===== verification/Order_Candidate.thy ===== *)
theory Order_Candidate
  imports Trading_Rules
begin

text \<open>
  \<open>core/data_type/order_candidate.py\<close> and the fee impacts of \<open>core/data_type/trade_fee.py\<close>.
  The subclass \<open>PerpetualOrderCandidate\<close> is a constructor of \<open>candidate_kind\<close>; an
  overridden method is a case distinction on it. What the code reads from the exchange (prices,
  balances, collateral tokens, quantization, its fee schema) is the record \<open>exchange_view\<close>.
  \<open>fixed_fee_collaterals\<close> is \<open>None\<close> until it is populated: its dataclass default
  is the class \<open>list\<close> itself, over which no loop can run. Amounts and prices are finite,
  so the \<open>is_nan\<close> guard of the order collateral is always passed.
\<close>

section \<open>Data\<close>

datatype candidate_kind = Spot | Perpetual decimal bool  \<comment> \<open>leverage, position_close\<close>

record order_candidate =
  oc_trading_pair :: string
  oc_is_maker :: bool
  oc_order_type :: order_type
  oc_order_side :: trade_type
  oc_amount :: decimal
  oc_price :: decimal
  oc_order_collateral :: "token_amount option"
  oc_percent_fee_collateral :: "token_amount option"
  oc_percent_fee_value :: "token_amount option"
  oc_fixed_fee_collaterals :: "token_amount list option"
  oc_potential_returns :: "token_amount option"
  oc_resized :: bool
  oc_from_total_balances :: bool
  oc_kind :: candidate_kind

record exchange_view =
  ex_get_price :: "string \<Rightarrow> decimal py_result"
  ex_get_balance :: "string \<Rightarrow> decimal"
  ex_get_available_balance :: "string \<Rightarrow> decimal"
  ex_get_buy_collateral_token :: "string \<Rightarrow> string py_result"
  ex_get_sell_collateral_token :: "string \<Rightarrow> string py_result"
  ex_fee_schema :: trade_fee_schema
  ex_rules :: trading_rules

definition new_order_candidate ::
  "string \<Rightarrow> bool \<Rightarrow> order_type \<Rightarrow> trade_type \<Rightarrow> decimal \<Rightarrow> decimal \<Rightarrow> bool \<Rightarrow> candidate_kind \<Rightarrow> order_candidate" where
  "new_order_candidate pair mk ot side amount price ft kind =
     \<lparr>oc_trading_pair = pair, oc_is_maker = mk, oc_order_type = ot, oc_order_side = side,
      oc_amount = amount, oc_price = price, oc_order_collateral = None,
      oc_percent_fee_collateral = None, oc_percent_fee_value = None, oc_fixed_fee_collaterals = None,
      oc_potential_returns = None, oc_resized = False, oc_from_total_balances = ft, oc_kind = kind\<rparr>"

definition is_position_close :: "order_candidate \<Rightarrow> bool" where
  "is_position_close c = (case oc_kind c of Spot \<Rightarrow> False | Perpetual _ close \<Rightarrow> close)"

definition is_zero_order :: "order_candidate \<Rightarrow> bool" where
  "is_zero_order c = (oc_amount c = 0)"

definition entry_amount :: "token_amount option \<Rightarrow> string \<Rightarrow> decimal" where
  "entry_amount e t = (case e of None \<Rightarrow> 0 | Some ta \<Rightarrow> if ta_token ta = t then ta_amount ta else 0)"

definition add_entry :: "(string, decimal) dict \<Rightarrow> token_amount \<Rightarrow> (string, decimal) dict" where
  "add_entry cd ta =
     dict_set cd (ta_token ta)
       ((case dict_get cd (ta_token ta) of None \<Rightarrow> 0 | Some x \<Rightarrow> x) + ta_amount ta)"

definition collateral_dict :: "order_candidate \<Rightarrow> (string, decimal) dict py_result" where
  "collateral_dict c =
     (let cd = (case oc_order_collateral c of None \<Rightarrow> [] | Some ta \<Rightarrow> add_entry [] ta);
          cd = (case oc_percent_fee_collateral c of None \<Rightarrow> cd | Some ta \<Rightarrow> add_entry cd ta)
      in case oc_fixed_fee_collaterals c of
           None \<Rightarrow> Inl TypeError
         | Some ffs \<Rightarrow> Inr (foldl add_entry cd ffs))"

section \<open>Sizes and tokens\<close>

definition get_size_token_and_order_size :: "order_candidate \<Rightarrow> token_amount py_result" where
  "get_size_token_and_order_size c =
     ebind (split_hb_trading_pair (oc_trading_pair c)) (\<lambda>(base, quote).
     Inr (if oc_order_side c = BUY
          then \<lparr>ta_token = quote, ta_amount = oc_amount c * oc_price c\<rparr>
          else \<lparr>ta_token = base, ta_amount = oc_amount c\<rparr>))"

definition get_size_collateral_price :: "exchange_view \<Rightarrow> order_candidate \<Rightarrow> string \<Rightarrow> decimal py_result" where
  "get_size_collateral_price ex c token =
     ebind (get_size_token_and_order_size c) (\<lambda>size.
     ebind (split_hb_trading_pair (oc_trading_pair c)) (\<lambda>(base, quote).
     if token = ta_token size then Inr 1
     else if token = base then dec_div 1 (oc_price c)
     else if token = quote then Inr (oc_price c)
     else ex_get_price ex (combine_to_hb_trading_pair (ta_token size) token)))"

definition flip_order_side :: "order_candidate \<Rightarrow> order_candidate" where
  "flip_order_side c = c\<lparr>oc_order_side := (if oc_order_side c = SELL then BUY else SELL)\<rparr>"

definition get_collateral_token :: "exchange_view \<Rightarrow> order_candidate \<Rightarrow> string py_result" where
  "get_collateral_token ex c =
     (if oc_order_side c = BUY then ex_get_buy_collateral_token ex (oc_trading_pair c)
      else ex_get_sell_collateral_token ex (oc_trading_pair c))"

text \<open>
  The perpetual collateral amount: the size is read with the side flipped for a closing order,
  the token and the conversion price with the side as it is.
\<close>

definition get_collateral_amount :: "exchange_view \<Rightarrow> order_candidate \<Rightarrow> decimal \<Rightarrow> bool \<Rightarrow> decimal py_result" where
  "get_collateral_amount ex c leverage close =
     ebind (get_size_token_and_order_size (if close then flip_order_side c else c)) (\<lambda>size.
     ebind (get_collateral_token ex c) (\<lambda>token.
     ebind (get_size_collateral_price ex c token) (\<lambda>price.
     dec_div (ta_amount size * price) leverage)))"

definition get_order_collateral_token :: "exchange_view \<Rightarrow> order_candidate \<Rightarrow> string option py_result" where
  "get_order_collateral_token ex c =
     (case oc_kind c of
        Spot \<Rightarrow> ebind (split_hb_trading_pair (oc_trading_pair c)) (\<lambda>(base, quote).
                  Inr (Some (if oc_order_side c = BUY then quote else base)))
      | Perpetual leverage close \<Rightarrow>
          if close then Inr None else ebind (get_collateral_token ex c) (\<lambda>t. Inr (Some t)))"

definition get_order_collateral_amount :: "exchange_view \<Rightarrow> order_candidate \<Rightarrow> string \<Rightarrow> decimal py_result" where
  "get_order_collateral_amount ex c token =
     (case oc_kind c of
        Spot \<Rightarrow> ebind (get_size_token_and_order_size c) (\<lambda>size.
                ebind (get_size_collateral_price ex c token) (\<lambda>price. Inr (ta_amount size * price)))
      | Perpetual leverage close \<Rightarrow> if close then Inr 0 else get_collateral_amount ex c leverage close)"

definition get_returns_token :: "exchange_view \<Rightarrow> order_candidate \<Rightarrow> string option py_result" where
  "get_returns_token ex c =
     (case oc_kind c of
        Spot \<Rightarrow> ebind (split_hb_trading_pair (oc_trading_pair c)) (\<lambda>(base, quote).
                  Inr (Some (if oc_order_side c = BUY then base else quote)))
      | Perpetual leverage close \<Rightarrow>
          if close then ebind (get_collateral_token ex c) (\<lambda>t. Inr (Some t)) else Inr None)"

definition get_returns_amount :: "exchange_view \<Rightarrow> order_candidate \<Rightarrow> decimal py_result" where
  "get_returns_amount ex c =
     (case oc_kind c of
        Spot \<Rightarrow> Inr (if oc_order_side c = BUY then oc_amount c else oc_amount c * oc_price c)
      | Perpetual leverage close \<Rightarrow> if close then get_collateral_amount ex c leverage close else Inr 0)"

section \<open>The fee of a candidate and its impact\<close>

definition candidate_fee :: "exchange_view \<Rightarrow> order_candidate \<Rightarrow> trade_fee py_result" where
  "candidate_fee ex c =
     ebind (split_hb_trading_pair (oc_trading_pair c)) (\<lambda>_.
     Inr (case oc_kind c of
            Spot \<Rightarrow> build_trade_fee (ex_fee_schema ex) (oc_is_maker c) (oc_order_side c) None
          | Perpetual leverage close \<Rightarrow>
              build_perpetual_trade_fee (ex_fee_schema ex) (oc_is_maker c) (if close then CLOSE else OPEN)))"

definition fee_in_other_token ::
  "exchange_view \<Rightarrow> trade_fee \<Rightarrow> order_candidate \<Rightarrow> string \<Rightarrow> decimal py_result" where
  "fee_in_other_token ex fee c fee_token =
     ebind (get_size_token_and_order_size c) (\<lambda>size.
     ebind (if fee_token = ta_token size then Inr 1
            else ex_get_price ex (combine_to_hb_trading_pair (ta_token size) fee_token)) (\<lambda>rate.
     Inr (ta_amount size * rate * fee_percent fee)))"

definition get_fee_impact_on_order_cost ::
  "exchange_view \<Rightarrow> trade_fee \<Rightarrow> order_candidate \<Rightarrow> token_amount option py_result" where
  "get_fee_impact_on_order_cost ex fee c =
     (case fee_kind fee of
        DeductedFromReturns \<Rightarrow> Inr None
      | AddedToCost \<Rightarrow>
          if fee_percent fee = 0 then Inr None
          else ebind (case py_or (fee_percent_token fee) None of
                        Some t \<Rightarrow> Inr t
                      | None \<Rightarrow> (case oc_order_collateral c of
                                  None \<Rightarrow> Inl AttributeError | Some oc \<Rightarrow> Inr (ta_token oc))) (\<lambda>fee_token.
            ebind (case oc_order_collateral c of
                     Some oc \<Rightarrow>
                       if fee_token = ta_token oc then Inr (ta_amount oc * fee_percent fee)
                       else fee_in_other_token ex fee c fee_token
                   | None \<Rightarrow> fee_in_other_token ex fee c fee_token) (\<lambda>amount.
            Inr (Some \<lparr>ta_token = fee_token, ta_amount = amount\<rparr>))))"

definition get_fee_impact_on_order_returns ::
  "trade_fee \<Rightarrow> order_candidate \<Rightarrow> decimal option py_result" where
  "get_fee_impact_on_order_returns fee c =
     (case fee_kind fee of
        AddedToCost \<Rightarrow> Inr None
      | DeductedFromReturns \<Rightarrow>
          (case oc_potential_returns c of
             None \<Rightarrow> Inl AttributeError
           | Some r \<Rightarrow> Inr (Some (ta_amount r * fee_percent fee))))"

section \<open>Populating the entries\<close>

definition populate_order_collateral_entry :: "exchange_view \<Rightarrow> order_candidate \<Rightarrow> order_candidate py_result" where
  "populate_order_collateral_entry ex c =
     ebind (get_order_collateral_token ex c) (\<lambda>tok.
     case tok of
       None \<Rightarrow> Inr c
     | Some t \<Rightarrow> ebind (get_order_collateral_amount ex c t) (\<lambda>a.
                  Inr (c\<lparr>oc_order_collateral := Some \<lparr>ta_token = t, ta_amount = a\<rparr>\<rparr>)))"

definition scale_entry :: "decimal \<Rightarrow> token_amount \<Rightarrow> token_amount" where
  "scale_entry s ta = ta\<lparr>ta_amount := ta_amount ta * s\<rparr>"

text \<open>The perpetual override multiplies an entry in the collateral token by the leverage.\<close>

definition leverage_entry :: "order_candidate \<Rightarrow> decimal \<Rightarrow> token_amount option \<Rightarrow> token_amount option py_result" where
  "leverage_entry c leverage e =
     (case e of
        None \<Rightarrow> Inr None
      | Some ta \<Rightarrow>
          (case oc_order_collateral c of
             None \<Rightarrow> Inl AttributeError
           | Some oc \<Rightarrow> Inr (Some (if ta_token ta = ta_token oc then scale_entry leverage ta else ta))))"

definition populate_percent_fee_collateral_entry ::
  "exchange_view \<Rightarrow> trade_fee \<Rightarrow> order_candidate \<Rightarrow> order_candidate py_result" where
  "populate_percent_fee_collateral_entry ex fee c =
     (let spot = ebind (get_fee_impact_on_order_cost ex fee c) (\<lambda>impact.
                   Inr (case impact of None \<Rightarrow> c | Some ta \<Rightarrow> c\<lparr>oc_percent_fee_collateral := Some ta\<rparr>))
      in case oc_kind c of
           Spot \<Rightarrow> spot
         | Perpetual leverage close \<Rightarrow>
             if close then Inr c
             else ebind spot (\<lambda>c'. ebind (leverage_entry c' leverage (oc_percent_fee_collateral c')) (\<lambda>e.
                  Inr (c'\<lparr>oc_percent_fee_collateral := e\<rparr>))))"

definition populate_fixed_fee_collateral_entries :: "trade_fee \<Rightarrow> order_candidate \<Rightarrow> order_candidate" where
  "populate_fixed_fee_collateral_entries fee c = c\<lparr>oc_fixed_fee_collaterals := Some (flat_fees fee)\<rparr>"

definition populate_potential_returns_entry :: "exchange_view \<Rightarrow> order_candidate \<Rightarrow> order_candidate py_result" where
  "populate_potential_returns_entry ex c =
     ebind (get_returns_token ex c) (\<lambda>tok.
     case tok of
       None \<Rightarrow> Inr c
     | Some t \<Rightarrow> ebind (get_returns_amount ex c) (\<lambda>a.
                  Inr (c\<lparr>oc_potential_returns := Some \<lparr>ta_token = t, ta_amount = a\<rparr>\<rparr>)))"

definition populate_percent_fee_value ::
  "exchange_view \<Rightarrow> trade_fee \<Rightarrow> order_candidate \<Rightarrow> order_candidate py_result" where
  "populate_percent_fee_value ex fee c =
     (let spot = ebind (get_fee_impact_on_order_cost ex fee c) (\<lambda>impact.
        case impact of
          Some ta \<Rightarrow> Inr (c\<lparr>oc_percent_fee_value := Some ta\<rparr>)
        | None \<Rightarrow> ebind (get_fee_impact_on_order_returns fee c) (\<lambda>r.
            case r of
              None \<Rightarrow> Inr c
            | Some x \<Rightarrow> (case oc_potential_returns c of
                 None \<Rightarrow> Inl AttributeError
               | Some pr \<Rightarrow> Inr (c\<lparr>oc_percent_fee_value := Some \<lparr>ta_token = ta_token pr, ta_amount = x\<rparr>\<rparr>))))
      in case oc_kind c of
           Spot \<Rightarrow> spot
         | Perpetual leverage close \<Rightarrow>
             if close then Inr c
             else ebind spot (\<lambda>c'. ebind (leverage_entry c' leverage (oc_percent_fee_value c')) (\<lambda>e.
                  Inr (c'\<lparr>oc_percent_fee_value := e\<rparr>))))"

definition apply_fee_impact_on_potential_returns :: "trade_fee \<Rightarrow> order_candidate \<Rightarrow> order_candidate py_result" where
  "apply_fee_impact_on_potential_returns fee c =
     (case oc_potential_returns c of
        None \<Rightarrow> Inr c
      | Some pr \<Rightarrow> ebind (get_fee_impact_on_order_returns fee c) (\<lambda>r.
          Inr (case r of None \<Rightarrow> c
               | Some x \<Rightarrow> c\<lparr>oc_potential_returns := Some (pr\<lparr>ta_amount := ta_amount pr - x\<rparr>)\<rparr>)))"

definition populate_collateral_entries :: "exchange_view \<Rightarrow> order_candidate \<Rightarrow> order_candidate py_result" where
  "populate_collateral_entries ex c =
     ebind (populate_order_collateral_entry ex c) (\<lambda>c1.
     ebind (candidate_fee ex c1) (\<lambda>fee.
     ebind (populate_percent_fee_collateral_entry ex fee c1) (\<lambda>c2.
     ebind (populate_potential_returns_entry ex (populate_fixed_fee_collateral_entries fee c2)) (\<lambda>c3.
     ebind (populate_percent_fee_value ex fee c3) (\<lambda>c4.
     apply_fee_impact_on_potential_returns fee c4)))))"

section \<open>Adjusting to balances\<close>

definition scale_order :: "decimal \<Rightarrow> order_candidate \<Rightarrow> order_candidate" where
  "scale_order s c =
     (if oc_amount c * s = 0
      then c\<lparr>oc_amount := 0, oc_order_collateral := None, oc_percent_fee_collateral := None,
             oc_percent_fee_value := None, oc_fixed_fee_collaterals := Some [],
             oc_potential_returns := None, oc_resized := True\<rparr>
      else c\<lparr>oc_amount := oc_amount c * s,
             oc_order_collateral := map_option (scale_entry s) (oc_order_collateral c),
             oc_percent_fee_collateral := map_option (scale_entry s) (oc_percent_fee_collateral c),
             oc_percent_fee_value := map_option (scale_entry s) (oc_percent_fee_value c),
             oc_potential_returns := map_option (scale_entry s) (oc_potential_returns c),
             oc_resized := True\<rparr>)"

definition set_to_zero :: "order_candidate \<Rightarrow> order_candidate" where
  "set_to_zero c = scale_order 0 c"

type_synonym balances = "(string, decimal) dict"

definition adjust_for_order_collateral :: "balances \<Rightarrow> order_candidate \<Rightarrow> order_candidate py_result" where
  "adjust_for_order_collateral bal c =
     (case oc_order_collateral c of
        None \<Rightarrow> Inr c
      | Some oc \<Rightarrow> ebind (dict_at bal (ta_token oc)) (\<lambda>b.
          if b < ta_amount oc
          then ebind (dec_div b (ta_amount oc)) (\<lambda>s. Inr (scale_order s c))
          else Inr c))"

definition adjust_for_percent_fee_collateral :: "balances \<Rightarrow> order_candidate \<Rightarrow> order_candidate py_result" where
  "adjust_for_percent_fee_collateral bal c =
     (case oc_percent_fee_collateral c of
        None \<Rightarrow> Inr c
      | Some pf \<Rightarrow>
          (case oc_order_collateral c of
             None \<Rightarrow> Inl AttributeError
           | Some oc \<Rightarrow>
               (let amount = (if ta_token pf = ta_token oc then ta_amount pf + ta_amount oc else ta_amount pf)
                in ebind (dict_at bal (ta_token pf)) (\<lambda>b.
                   if b < amount then ebind (dec_div b amount) (\<lambda>s. Inr (scale_order s c)) else Inr c))))"

text \<open>The amounts the fixed fees compete with: the percent fee is merged where the token agrees.\<close>

definition collateral_amounts_for_ff_adjustment :: "order_candidate \<Rightarrow> decimal \<times> decimal" where
  "collateral_amounts_for_ff_adjustment c =
     (case (oc_order_collateral c, oc_percent_fee_collateral c) of
        (None, None) \<Rightarrow> (0, 0)
      | (Some oc, None) \<Rightarrow> (ta_amount oc, 0)
      | (None, Some pf) \<Rightarrow> (0, ta_amount pf)
      | (Some oc, Some pf) \<Rightarrow>
          if ta_token pf = ta_token oc then (ta_amount oc + ta_amount pf, 0)
          else (ta_amount oc, ta_amount pf))"

text \<open>
  One round of the loop over the fixed fees; \<open>oc_token\<close> and \<open>pfc_token\<close> are read once,
  before the loop. The result says whether the loop goes on.
\<close>

definition ff_shrink ::
  "string option \<Rightarrow> string \<Rightarrow> decimal \<Rightarrow> decimal \<Rightarrow> decimal \<Rightarrow> order_candidate \<Rightarrow> order_candidate py_result" where
  "ff_shrink tok ff_token ff_amount b amount c =
     (if tok = Some ff_token \<and> b < ff_amount + amount
      then ebind (dec_div (b - ff_amount) amount) (\<lambda>s. Inr (scale_order s c))
      else Inr c)"

fun adjust_fixed_fees ::
  "balances \<Rightarrow> string option \<Rightarrow> string option \<Rightarrow> token_amount list \<Rightarrow> order_candidate \<Rightarrow> order_candidate py_result" where
  "adjust_fixed_fees bal oc_tok pf_tok [] c = Inr c"
| "adjust_fixed_fees bal oc_tok pf_tok (ff # ffs) c =
     ebind (dict_at bal (ta_token ff)) (\<lambda>b.
     if b < ta_amount ff then Inr (scale_order 0 c)
     else ebind (ff_shrink oc_tok (ta_token ff) (ta_amount ff) b
                   (fst (collateral_amounts_for_ff_adjustment c)) c) (\<lambda>c1.
          ebind (ff_shrink pf_tok (ta_token ff) (ta_amount ff) b
                   (snd (collateral_amounts_for_ff_adjustment c1)) c1) (\<lambda>c2.
          if is_zero_order c2 then Inr c2 else adjust_fixed_fees bal oc_tok pf_tok ffs c2)))"

definition adjust_for_fixed_fee_collaterals :: "balances \<Rightarrow> order_candidate \<Rightarrow> order_candidate py_result" where
  "adjust_for_fixed_fee_collaterals bal c =
     (case oc_fixed_fee_collaterals c of
        None \<Rightarrow> Inl TypeError
      | Some ffs \<Rightarrow> adjust_fixed_fees bal (map_option ta_token (oc_order_collateral c))
                      (map_option ta_token (oc_percent_fee_collateral c)) ffs c)"

definition adjust_from_balances :: "balances \<Rightarrow> order_candidate \<Rightarrow> order_candidate py_result" where
  "adjust_from_balances bal c =
     ebind (if is_zero_order c then Inr c else adjust_for_order_collateral bal c) (\<lambda>c1.
     ebind (if is_zero_order c1 then Inr c1 else adjust_for_percent_fee_collateral bal c1) (\<lambda>c2.
     if is_zero_order c2 then Inr c2 else adjust_for_fixed_fee_collaterals bal c2))"

end
