(* ===== verification/Budget_Checker.thy ===== *)
theory Budget_Checker
  imports Order_Candidate
begin

text \<open>
  \<open>connector/budget_checker.py\<close> and \<open>connector/derivative/perpetual_budget_checker.py\<close>.
  The state of a checker is the dictionary of locked collateral. Reading an absent token of that
  \<open>defaultdict\<close> gives zero; the key it inserts is not observable and not modelled.
\<close>

section \<open>The checker\<close>

datatype checker_kind = SpotChecker | PerpetualChecker

type_synonym locked_collateral = "(string, decimal) dict"

definition locked_amount :: "locked_collateral \<Rightarrow> string \<Rightarrow> decimal" where
  "locked_amount locked t = (case dict_get locked t of None \<Rightarrow> 0 | Some x \<Rightarrow> x)"

definition balance_fn :: "exchange_view \<Rightarrow> order_candidate \<Rightarrow> string \<Rightarrow> decimal" where
  "balance_fn ex c = (if oc_from_total_balances c then ex_get_balance ex else ex_get_available_balance ex)"

definition add_balance ::
  "exchange_view \<Rightarrow> locked_collateral \<Rightarrow> order_candidate \<Rightarrow> balances \<Rightarrow> token_amount \<Rightarrow> balances" where
  "add_balance ex locked c bal ta =
     dict_set bal (ta_token ta) (balance_fn ex c (ta_token ta) - locked_amount locked (ta_token ta))"

definition get_available_balances ::
  "exchange_view \<Rightarrow> locked_collateral \<Rightarrow> order_candidate \<Rightarrow> balances py_result" where
  "get_available_balances ex locked c =
     (let bal = (case oc_order_collateral c of None \<Rightarrow> [] | Some ta \<Rightarrow> add_balance ex locked c [] ta);
          bal = (case oc_percent_fee_collateral c of None \<Rightarrow> bal | Some ta \<Rightarrow> add_balance ex locked c bal ta)
      in case oc_fixed_fee_collaterals c of
           None \<Rightarrow> Inl TypeError
         | Some ffs \<Rightarrow> Inr (foldl (add_balance ex locked c) bal ffs))"

definition quantize_adjusted_order :: "exchange_view \<Rightarrow> order_candidate \<Rightarrow> order_candidate py_result" where
  "quantize_adjusted_order ex c =
     ebind (quantize_order_amount (ex_rules ex) (oc_trading_pair c) (oc_amount c)) (\<lambda>q.
     if oc_amount c \<noteq> q then populate_collateral_entries ex (c\<lparr>oc_amount := q\<rparr>) else Inr c)"

definition adjust_candidate ::
  "exchange_view \<Rightarrow> locked_collateral \<Rightarrow> bool \<Rightarrow> order_candidate \<Rightarrow> order_candidate py_result" where
  "adjust_candidate ex locked all_or_none c =
     ebind (populate_collateral_entries ex c) (\<lambda>c1.
     ebind (get_available_balances ex locked c1) (\<lambda>bal.
     ebind (adjust_from_balances bal c1) (\<lambda>c2.
     if oc_resized c2
     then (if all_or_none then Inr (set_to_zero c2) else quantize_adjusted_order ex c2)
     else Inr c2)))"

definition lock_all :: "locked_collateral \<Rightarrow> order_candidate \<Rightarrow> locked_collateral py_result" where
  "lock_all locked c =
     ebind (collateral_dict c) (\<lambda>cd.
     Inr (foldl (\<lambda>l (t, a). dict_set l t (locked_amount l t + a)) locked cd))"

definition lock_available_collateral ::
  "checker_kind \<Rightarrow> locked_collateral \<Rightarrow> order_candidate \<Rightarrow> locked_collateral py_result" where
  "lock_available_collateral k locked c =
     (case k of
        SpotChecker \<Rightarrow> lock_all locked c
      | PerpetualChecker \<Rightarrow>
          (case oc_kind c of
             Spot \<Rightarrow> Inl AttributeError
           | Perpetual leverage close \<Rightarrow> if close then Inr locked else lock_all locked c))"

definition adjust_candidate_and_lock_available_collateral ::
  "checker_kind \<Rightarrow> exchange_view \<Rightarrow> bool \<Rightarrow> locked_collateral \<Rightarrow> order_candidate \<Rightarrow>
   (locked_collateral \<times> order_candidate) py_result" where
  "adjust_candidate_and_lock_available_collateral k ex all_or_none locked c =
     ebind (adjust_candidate ex locked all_or_none c) (\<lambda>c'.
     ebind (lock_available_collateral k locked c') (\<lambda>locked'. Inr (locked', c')))"

fun adjust_and_lock_each ::
  "checker_kind \<Rightarrow> exchange_view \<Rightarrow> bool \<Rightarrow> locked_collateral \<Rightarrow> order_candidate list \<Rightarrow>
   (locked_collateral \<times> order_candidate list) py_result" where
  "adjust_and_lock_each k ex aon locked [] = Inr (locked, [])"
| "adjust_and_lock_each k ex aon locked (c # cs) =
     ebind (adjust_candidate_and_lock_available_collateral k ex aon locked c) (\<lambda>(locked', c').
     ebind (adjust_and_lock_each k ex aon locked' cs) (\<lambda>(locked'', cs'). Inr (locked'', c' # cs')))"

definition reset_locked_collateral :: "locked_collateral \<Rightarrow> locked_collateral" where
  "reset_locked_collateral locked = []"

definition adjust_candidates ::
  "checker_kind \<Rightarrow> exchange_view \<Rightarrow> bool \<Rightarrow> locked_collateral \<Rightarrow> order_candidate list \<Rightarrow>
   (locked_collateral \<times> order_candidate list) py_result" where
  "adjust_candidates k ex aon locked cs =
     ebind (adjust_and_lock_each k ex aon (reset_locked_collateral locked) cs) (\<lambda>(locked', cs').
     Inr (reset_locked_collateral locked', cs'))"

section \<open>Loads\<close>

definition percent_load :: "order_candidate \<Rightarrow> string \<Rightarrow> decimal" where
  "percent_load c t = entry_amount (oc_order_collateral c) t + entry_amount (oc_percent_fee_collateral c) t"

definition fees_in :: "token_amount list \<Rightarrow> string \<Rightarrow> decimal" where
  "fees_in ffs t = sum_list (map (\<lambda>ta. entry_amount (Some ta) t) ffs)"

definition fixed_load :: "order_candidate \<Rightarrow> string \<Rightarrow> decimal" where
  "fixed_load c t = fees_in (case oc_fixed_fee_collaterals c of None \<Rightarrow> [] | Some ffs \<Rightarrow> ffs) t"

definition collateral_needed :: "order_candidate \<Rightarrow> string \<Rightarrow> decimal" where
  "collateral_needed c t = percent_load c t + fixed_load c t"

lemma entry_amount_simps [simp]:
  "entry_amount None t = 0"
  "entry_amount (Some ta) t = (if ta_token ta = t then ta_amount ta else 0)"
  "entry_amount (map_option (scale_entry s) e) t = entry_amount e t * s"
  by (auto simp: entry_amount_def scale_entry_def split: option.splits)

lemma fees_in_simps [simp]:
  "fees_in [] t = 0"
  "fees_in (ta # ffs) t = (if ta_token ta = t then ta_amount ta else 0) + fees_in ffs t"
  by (simp_all add: fees_in_def)

lemma fees_in_absent: "t \<notin> set (map ta_token ffs) \<Longrightarrow> fees_in ffs t = 0"
  by (induction ffs) auto

lemma fees_in_distinct:
  "distinct (map ta_token ffs) \<Longrightarrow> ta \<in> set ffs \<Longrightarrow> fees_in ffs (ta_token ta) = ta_amount ta"
  by (induction ffs) (auto simp: fees_in_absent)

lemma scale_order_load [simp]:
  "percent_load (scale_order s c) t = (if oc_amount c * s = 0 then 0 else percent_load c t * s)"
  by (simp add: percent_load_def scale_order_def distrib_right)

lemma scale_order_simps [simp]:
  "oc_amount (scale_order s c) = oc_amount c * s"
  "oc_resized (scale_order s c)"
  "oc_trading_pair (scale_order s c) = oc_trading_pair c"
  "oc_from_total_balances (scale_order s c) = oc_from_total_balances c"
  "oc_kind (scale_order s c) = oc_kind c"
  by (auto simp: scale_order_def)

lemma scale_order_scale:
  "oc_amount c * s \<noteq> 0 \<Longrightarrow> scale_order r (scale_order s c) = scale_order (s * r) c"
proof -
  have "scale_entry r \<circ> scale_entry s = scale_entry (s * r)" by (simp add: scale_entry_def fun_eq_iff mult.assoc)
  then show "oc_amount c * s \<noteq> 0 \<Longrightarrow> scale_order r (scale_order s c) = scale_order (s * r) c"
    by (cases "r = 0") (simp_all add: scale_order_def option.map_comp mult.assoc)
qed

text \<open>Shrinking: no change, or scaling by a factor between zero and one.\<close>

definition shrinks :: "order_candidate \<Rightarrow> order_candidate \<Rightarrow> bool" where
  "shrinks c c' \<longleftrightarrow> c' = c \<or> (\<exists>s. 0 \<le> s \<and> s \<le> 1 \<and> c' = scale_order s c)"

lemma shrinks_refl [simp]: "shrinks c c"
  by (simp add: shrinks_def)

lemma shrinks_scale: "0 \<le> s \<Longrightarrow> s \<le> 1 \<Longrightarrow> shrinks c (scale_order s c)"
  by (auto simp: shrinks_def)

lemma shrinks_trans:
  assumes "shrinks c d" and "shrinks d e" and "oc_amount d \<noteq> 0"
  shows "shrinks c e"
proof -
  consider "d = c" | "e = d" | s r where "0 \<le> s" "s \<le> 1" "0 \<le> r" "r \<le> 1" "d = scale_order s c" "e = scale_order r d"
    using assms by (auto simp: shrinks_def)
  then show ?thesis
  proof cases
    case 3
    with assms(3) have "e = scale_order (s * r) c" by (simp add: scale_order_scale)
    moreover have "0 \<le> s * r" "s * r \<le> 1" using 3 by (simp_all add: mult_le_one)
    ultimately show ?thesis by (simp add: shrinks_scale)
  qed (use assms in simp_all)
qed

lemma convex_le:
  fixes x b f s :: decimal
  assumes "f + x \<le> b" and "f \<le> b" and "0 \<le> s" and "s \<le> 1"
  shows "f + x * s \<le> b"
proof -
  have "x * s \<le> (b - f) * s" using assms by (intro mult_right_mono) simp_all
  also have "\<dots> \<le> (b - f) * 1" using assms by (intro mult_left_mono) simp_all
  finally show ?thesis by simp
qed

lemma shrinks_load:
  "shrinks c c' \<Longrightarrow> f + percent_load c t \<le> b \<Longrightarrow> f \<le> b \<Longrightarrow> f + percent_load c' t \<le> b"
  by (auto simp: shrinks_def convex_le)

section \<open>Adjusting fits the balances\<close>

text \<open>The balances dictionary agrees with a nonnegative balance function where it is read.\<close>

definition covers :: "balances \<Rightarrow> (string \<Rightarrow> decimal) \<Rightarrow> order_candidate \<Rightarrow> bool" where
  "covers bal B c \<longleftrightarrow> (\<forall>t. 0 \<le> B t) \<and>
     (\<forall>t. map_option ta_token (oc_order_collateral c) = Some t
         \<or> map_option ta_token (oc_percent_fee_collateral c) = Some t
         \<or> t \<in> ta_token ` set (case oc_fixed_fee_collaterals c of None \<Rightarrow> [] | Some ffs \<Rightarrow> ffs) \<longrightarrow>
       dict_at bal t = Inr (B t))"

definition same_tokens :: "order_candidate \<Rightarrow> order_candidate \<Rightarrow> bool" where
  "same_tokens c d \<longleftrightarrow>
     map_option ta_token (oc_order_collateral d) = map_option ta_token (oc_order_collateral c) \<and>
     map_option ta_token (oc_percent_fee_collateral d) = map_option ta_token (oc_percent_fee_collateral c) \<and>
     oc_fixed_fee_collaterals d = oc_fixed_fee_collaterals c"

lemma same_tokens_percent_fee:
  "same_tokens c d \<Longrightarrow> (oc_order_collateral c = None \<Longrightarrow> oc_percent_fee_collateral c = None) \<Longrightarrow>
   oc_order_collateral d = None \<Longrightarrow> oc_percent_fee_collateral d = None"
  by (cases "oc_order_collateral c"; cases "oc_percent_fee_collateral d") (auto simp: same_tokens_def)

lemma entry_amount_other: "map_option ta_token e \<noteq> Some t \<Longrightarrow> entry_amount e t = 0"
  by (cases e) simp_all

lemma shrinks_tokens: "shrinks c d \<Longrightarrow> oc_amount d \<noteq> 0 \<Longrightarrow> same_tokens c d"
  by (auto simp: shrinks_def same_tokens_def scale_order_def option.map_comp comp_def scale_entry_def)

lemma shrinks_zero: "shrinks c d \<Longrightarrow> oc_amount c \<noteq> 0 \<Longrightarrow> oc_amount d = 0 \<Longrightarrow> d = scale_order 0 c"
  by (auto simp: shrinks_def scale_order_def)

lemma zero_order_load [simp]:
  "collateral_needed (scale_order 0 c) t = 0" "fixed_load (scale_order 0 c) t = 0"
  by (simp_all add: collateral_needed_def fixed_load_def percent_load_def scale_order_def)

text \<open>Scaling by the ratio of what there is to what is needed.\<close>

lemma shrink_ratio:
  assumes "(0 :: decimal) \<le> f" and "f < x"
  shows "dec_div f x = Inr (f / x)" and "0 \<le> f / x" and "f / x \<le> 1" and "x * (f / x) = f"
  using assms by simp_all

lemma percent_load_token:
  "oc_order_collateral c = Some oc \<Longrightarrow> oc_percent_fee_collateral c = pf \<Longrightarrow>
   percent_load c (ta_token oc) = ta_amount oc + entry_amount pf (ta_token oc)"
  by (simp add: percent_load_def)

lemma adjust_order_collateral_fits:
  assumes cov: "covers bal B c" and nz: "oc_amount c \<noteq> 0"
  shows "\<exists>c'. adjust_for_order_collateral bal c = Inr c' \<and> shrinks c c' \<and>
     (oc_amount c' \<noteq> 0 \<longrightarrow> (\<forall>t. entry_amount (oc_order_collateral c') t \<le> B t))"
proof (cases "oc_order_collateral c")
  case None
  then show ?thesis using cov by (simp add: adjust_for_order_collateral_def covers_def)
next
  case (Some oc)
  let ?b = "B (ta_token oc)"
  have at: "dict_at bal (ta_token oc) = Inr ?b" and b: "0 \<le> ?b" "\<And>t. 0 \<le> B t"
    using cov Some by (auto simp: covers_def)
  show ?thesis
  proof (cases "?b < ta_amount oc")
    case True
    note r = shrink_ratio [OF b(1) True]
    have "\<forall>t. entry_amount (oc_order_collateral (scale_order (?b / ta_amount oc) c)) t \<le> B t"
      using Some r(4) b by (auto simp: scale_order_def scale_entry_def)
    with r(1-3) True at Some show ?thesis
      by (simp add: adjust_for_order_collateral_def shrinks_scale)
  next
    case False
    with at Some b show ?thesis by (auto simp: adjust_for_order_collateral_def)
  qed
qed

lemma adjust_percent_fee_fits:
  assumes cov: "covers bal B c" and nz: "oc_amount c \<noteq> 0"
    and oc: "oc_order_collateral c = None \<Longrightarrow> oc_percent_fee_collateral c = None"
    and fit: "\<And>t. entry_amount (oc_order_collateral c) t \<le> B t"
  shows "\<exists>c'. adjust_for_percent_fee_collateral bal c = Inr c' \<and> shrinks c c' \<and>
     (oc_amount c' \<noteq> 0 \<longrightarrow> (\<forall>t. percent_load c' t \<le> B t))"
proof (cases "oc_percent_fee_collateral c")
  case None
  with fit show ?thesis by (simp add: adjust_for_percent_fee_collateral_def percent_load_def)
next
  case (Some pf)
  with oc obtain oc where oc: "oc_order_collateral c = Some oc" by (cases "oc_order_collateral c") auto
  let ?b = "B (ta_token pf)" and ?x = "percent_load c (ta_token pf)"
  have at: "dict_at bal (ta_token pf) = Inr ?b" and b: "0 \<le> ?b" "\<And>t. 0 \<le> B t"
    using cov Some by (auto simp: covers_def)
  have x: "?x = (if ta_token pf = ta_token oc then ta_amount pf + ta_amount oc else ta_amount pf)"
    using Some oc by (simp add: percent_load_def add.commute)
  have rest: "percent_load c t \<le> B t" if "t \<noteq> ta_token pf" for t
    using fit [of t] that Some by (simp add: percent_load_def)
  have eq: "adjust_for_percent_fee_collateral bal c =
      (if ?b < ?x then ebind (dec_div ?b ?x) (\<lambda>s. Inr (scale_order s c)) else Inr c)"
    using Some oc at x by (simp add: adjust_for_percent_fee_collateral_def)
  show ?thesis
  proof (cases "?b < ?x")
    case True
    note r = shrink_ratio [OF b(1) True]
    have "percent_load (scale_order (?b / ?x) c) t \<le> B t" for t
      using r(2-4) b rest [of t] convex_le [of 0 "percent_load c t" "B t" "?b / ?x"]
      by (cases "t = ta_token pf") simp_all
    with r(1-3) True eq show ?thesis by (auto simp: shrinks_scale)
  next
    case False
    have "percent_load c t \<le> B t" for t using rest [of t] False by (cases "t = ta_token pf") simp_all
    with eq False show ?thesis by auto
  qed
qed

lemma ff_shrink_fits:
  assumes "ff \<le> b"
    and x: "tok = Some ft \<Longrightarrow> x = percent_load c ft"
  shows "\<exists>c'. ff_shrink tok ft ff b x c = Inr c' \<and> shrinks c c' \<and>
     (tok = Some ft \<longrightarrow> oc_amount c' \<noteq> 0 \<longrightarrow> ff + percent_load c' ft \<le> b)"
proof (cases "tok = Some ft \<and> b < ff + x")
  case True
  with assms(1) have "0 \<le> b - ff" "b - ff < x" by simp_all
  note r = shrink_ratio [OF this]
  have "ff + percent_load (scale_order ((b - ff) / x) c) ft \<le> b"
    using True x r(4) assms(1) by auto
  with True r(1-3) show ?thesis by (auto simp: ff_shrink_def shrinks_scale)
next
  case False
  with x show ?thesis by (auto simp: ff_shrink_def)
qed

lemma ff_amounts:
  assumes "oc_order_collateral c = None \<Longrightarrow> oc_percent_fee_collateral c = None"
  shows "map_option ta_token (oc_order_collateral c) = Some t \<Longrightarrow>
      fst (collateral_amounts_for_ff_adjustment c) = percent_load c t"
    and "map_option ta_token (oc_percent_fee_collateral c) = Some t \<Longrightarrow>
      map_option ta_token (oc_order_collateral c) \<noteq> Some t \<Longrightarrow>
      snd (collateral_amounts_for_ff_adjustment c) = percent_load c t"
    and "map_option ta_token (oc_percent_fee_collateral c) = Some t \<Longrightarrow>
      map_option ta_token (oc_order_collateral c) = Some t \<Longrightarrow>
      snd (collateral_amounts_for_ff_adjustment c) = 0"
    and "map_option ta_token (oc_percent_fee_collateral c) \<noteq> Some t \<Longrightarrow>
      map_option ta_token (oc_order_collateral c) \<noteq> Some t \<Longrightarrow> percent_load c t = 0"
  using assms
  by (auto simp: collateral_amounts_for_ff_adjustment_def percent_load_def entry_amount_other split: option.splits)

lemma ff_zero: "collateral_amounts_for_ff_adjustment (scale_order 0 c) = (0, 0)"
  by (simp add: collateral_amounts_for_ff_adjustment_def scale_order_def)

lemma ff_round_fits:
  assumes nz: "oc_amount c \<noteq> 0" and ff: "ff \<le> b"
    and oc: "oc_order_collateral c = None \<Longrightarrow> oc_percent_fee_collateral c = None"
    and tok: "oc_tok = map_option ta_token (oc_order_collateral c)" "pf_tok = map_option ta_token (oc_percent_fee_collateral c)"
  shows "\<exists>c1 c2. ff_shrink oc_tok ft ff b (fst (collateral_amounts_for_ff_adjustment c)) c = Inr c1
    \<and> ff_shrink pf_tok ft ff b (snd (collateral_amounts_for_ff_adjustment c1)) c1 = Inr c2
    \<and> shrinks c c2 \<and> (oc_amount c2 \<noteq> 0 \<longrightarrow> ff + percent_load c2 ft \<le> b)"
proof -
  obtain c1 where c1: "ff_shrink oc_tok ft ff b (fst (collateral_amounts_for_ff_adjustment c)) c = Inr c1"
    "shrinks c c1" "oc_tok = Some ft \<longrightarrow> oc_amount c1 \<noteq> 0 \<longrightarrow> ff + percent_load c1 ft \<le> b"
    using ff_shrink_fits [OF ff, of oc_tok ft "fst (collateral_amounts_for_ff_adjustment c)" c]
      ff_amounts(1) [OF oc, of ft] tok by auto
  show ?thesis
  proof (cases "oc_amount c1 = 0")
    case True
    with c1(2) nz have "c1 = scale_order 0 c" by (simp add: shrinks_zero)
    then have "ff_shrink pf_tok ft ff b (snd (collateral_amounts_for_ff_adjustment c1)) c1 = Inr c1"
      using ff by (simp add: ff_shrink_def ff_zero)
    with c1 True show ?thesis by auto
  next
    case False
    then have st: "same_tokens c c1" using c1(2) by (rule shrinks_tokens [rotated])
    then have oc1: "oc_order_collateral c1 = None \<Longrightarrow> oc_percent_fee_collateral c1 = None"
      and tok1: "oc_tok = map_option ta_token (oc_order_collateral c1)" "pf_tok = map_option ta_token (oc_percent_fee_collateral c1)"
      using same_tokens_percent_fee [OF st oc] st tok by (simp_all add: same_tokens_def)
    let ?x = "snd (collateral_amounts_for_ff_adjustment c1)"
    show ?thesis
    proof (cases "oc_tok = Some ft")
      case True
      then have "ff_shrink pf_tok ft ff b ?x c1 = Inr c1"
        using ff ff_amounts(3) [OF oc1, of ft] tok1 by (auto simp: ff_shrink_def)
      with c1 True show ?thesis by auto
    next
      case oc_ne: False
      obtain c2 where c2: "ff_shrink pf_tok ft ff b ?x c1 = Inr c2" "shrinks c1 c2"
        "pf_tok = Some ft \<longrightarrow> oc_amount c2 \<noteq> 0 \<longrightarrow> ff + percent_load c2 ft \<le> b"
        using ff_shrink_fits [OF ff, of pf_tok ft ?x c1] ff_amounts(2) [OF oc1, of ft] tok1 oc_ne by auto
      have "ff + percent_load c2 ft \<le> b" if "pf_tok \<noteq> Some ft"
        using ff_amounts(4) [OF oc1, of ft] tok1 oc_ne that ff shrinks_load [OF c2(2), of ff ft b] by simp
      with c1 c2 False show ?thesis
        using shrinks_trans [OF c1(2) c2(2) False] by blast
    qed
  qed
qed

lemma adjust_fixed_fees_fits:
  assumes "oc_amount c \<noteq> 0"
    and "\<And>ta. ta \<in> set ffs \<Longrightarrow> dict_at bal (ta_token ta) = Inr (B (ta_token ta))"
    and "oc_order_collateral c = None \<Longrightarrow> oc_percent_fee_collateral c = None"
    and "oc_tok = map_option ta_token (oc_order_collateral c)" "pf_tok = map_option ta_token (oc_percent_fee_collateral c)"
  shows "\<exists>c'. adjust_fixed_fees bal oc_tok pf_tok ffs c = Inr c' \<and> shrinks c c' \<and>
     (oc_amount c' \<noteq> 0 \<longrightarrow>
       (\<forall>ta \<in> set ffs. ta_amount ta \<le> B (ta_token ta) \<and> ta_amount ta + percent_load c' (ta_token ta) \<le> B (ta_token ta)))"
  using assms
proof (induction ffs arbitrary: c)
  case Nil
  then show ?case by simp
next
  case (Cons ff ffs)
  let ?b = "B (ta_token ff)"
  have at: "dict_at bal (ta_token ff) = Inr ?b" using Cons.prems(2) by simp
  show ?case
  proof (cases "?b < ta_amount ff")
    case True
    then show ?thesis using at shrinks_scale [of 0 c] by simp
  next
    case False
    then have le: "ta_amount ff \<le> ?b" by simp
    obtain c1 c2 where r: "ff_shrink oc_tok (ta_token ff) (ta_amount ff) ?b (fst (collateral_amounts_for_ff_adjustment c)) c = Inr c1"
      "ff_shrink pf_tok (ta_token ff) (ta_amount ff) ?b (snd (collateral_amounts_for_ff_adjustment c1)) c1 = Inr c2"
      "shrinks c c2" "oc_amount c2 \<noteq> 0 \<longrightarrow> ta_amount ff + percent_load c2 (ta_token ff) \<le> ?b"
      using ff_round_fits [OF Cons.prems(1) le Cons.prems(3-5), of "ta_token ff"] by auto
    show ?thesis
    proof (cases "oc_amount c2 = 0")
      case True
      with r at False show ?thesis by (simp add: is_zero_order_def)
    next
      case nz: False
      have st: "same_tokens c c2" using shrinks_tokens [OF r(3) nz] .
      obtain c' where c': "adjust_fixed_fees bal oc_tok pf_tok ffs c2 = Inr c'" "shrinks c2 c'"
        "oc_amount c' \<noteq> 0 \<longrightarrow> (\<forall>ta \<in> set ffs. ta_amount ta \<le> B (ta_token ta) \<and>
            ta_amount ta + percent_load c' (ta_token ta) \<le> B (ta_token ta))"
        using Cons.IH [OF nz _ same_tokens_percent_fee [OF st Cons.prems(3)]] Cons.prems(2,4,5) st
        by (auto simp: same_tokens_def)
      have "ta_amount ff + percent_load c' (ta_token ff) \<le> ?b"
        using shrinks_load [OF c'(2)] r(4) nz le by blast
      with c' r at False nz le show ?thesis
        using shrinks_trans [OF r(3) c'(2) nz] by (auto simp: is_zero_order_def)
    qed
  qed
qed

lemma covers_shrinks: "covers bal B c \<Longrightarrow> same_tokens c d \<Longrightarrow> covers bal B d"
  by (simp add: covers_def same_tokens_def)

lemma adjust_from_balances_fits:
  assumes cov: "covers bal B c" and nz: "oc_amount c \<noteq> 0"
    and oc: "oc_order_collateral c = None \<Longrightarrow> oc_percent_fee_collateral c = None"
    and ffs: "oc_fixed_fee_collaterals c = Some ffs" and dist: "distinct (map ta_token ffs)"
  shows "\<exists>c'. adjust_from_balances bal c = Inr c' \<and> shrinks c c' \<and>
     (\<forall>t. collateral_needed c' t \<le> B t \<and> fixed_load c' t \<le> B t)"
proof -
  have b: "0 \<le> B t" for t using cov by (simp add: covers_def)
  have zero: "\<forall>t. collateral_needed d t \<le> B t \<and> fixed_load d t \<le> B t" if "shrinks c d" "oc_amount d = 0" for d
    using shrinks_zero [OF that(1) nz that(2)] b by simp
  obtain c1 where c1: "adjust_for_order_collateral bal c = Inr c1" "shrinks c c1"
    "oc_amount c1 \<noteq> 0 \<longrightarrow> (\<forall>t. entry_amount (oc_order_collateral c1) t \<le> B t)"
    using adjust_order_collateral_fits [OF cov nz] by blast
  show ?thesis
  proof (cases "oc_amount c1 = 0")
    case True
    with c1 nz zero show ?thesis by (simp add: adjust_from_balances_def is_zero_order_def)
  next
    case nz1: False
    have st1: "same_tokens c c1" using shrinks_tokens [OF c1(2) nz1] .
    note oc1 = same_tokens_percent_fee [OF st1 oc]
    obtain c2 where c2: "adjust_for_percent_fee_collateral bal c1 = Inr c2" "shrinks c1 c2"
      "oc_amount c2 \<noteq> 0 \<longrightarrow> (\<forall>t. percent_load c2 t \<le> B t)"
      using adjust_percent_fee_fits [OF covers_shrinks [OF cov st1] nz1 oc1] c1(3) nz1 by blast
    note cc2 = shrinks_trans [OF c1(2) c2(2) nz1]
    show ?thesis
    proof (cases "oc_amount c2 = 0")
      case True
      with c1 c2 nz nz1 cc2 zero show ?thesis by (simp add: adjust_from_balances_def is_zero_order_def)
    next
      case nz2: False
      have st2: "same_tokens c c2" using shrinks_tokens [OF cc2 nz2] .
      have ffs2: "oc_fixed_fee_collaterals c2 = Some ffs" using st2 ffs by (simp add: same_tokens_def)
      note oc2 = same_tokens_percent_fee [OF st2 oc]
      have at: "\<And>ta. ta \<in> set ffs \<Longrightarrow> dict_at bal (ta_token ta) = Inr (B (ta_token ta))"
        using cov ffs by (simp add: covers_def)
      obtain c3 where c3: "adjust_for_fixed_fee_collaterals bal c2 = Inr c3" "shrinks c2 c3"
        "oc_amount c3 \<noteq> 0 \<longrightarrow> (\<forall>ta \<in> set ffs. ta_amount ta \<le> B (ta_token ta) \<and>
            ta_amount ta + percent_load c3 (ta_token ta) \<le> B (ta_token ta))"
        using adjust_fixed_fees_fits [OF nz2 at oc2 refl refl] ffs2
        by (auto simp: adjust_for_fixed_fee_collaterals_def)
      note cc3 = shrinks_trans [OF cc2 c3(2) nz2]
      have "collateral_needed c3 t \<le> B t \<and> fixed_load c3 t \<le> B t" if nz3: "oc_amount c3 \<noteq> 0" for t
      proof -
        have "oc_fixed_fee_collaterals c3 = Some ffs"
          using shrinks_tokens [OF cc3 nz3] ffs by (simp add: same_tokens_def)
        moreover have "percent_load c3 t \<le> B t"
          using shrinks_load [OF c3(2), of 0 t "B t"] c2(3) nz2 b by simp
        moreover have "fees_in ffs t + percent_load c3 t \<le> B t" "fees_in ffs t \<le> B t" if "t \<in> set (map ta_token ffs)"
          using that c3(3) nz3 fees_in_distinct [OF dist] by auto
        ultimately show ?thesis
          using b by (cases "t \<in> set (map ta_token ffs)") (simp_all add: collateral_needed_def fixed_load_def fees_in_absent add.commute)
      qed
      with c1 c2 c3 nz nz1 nz2 cc3 zero show ?thesis
        by (auto simp: adjust_from_balances_def is_zero_order_def)
    qed
  qed
qed

section \<open>Populating is linear in the amount\<close>

definition same_order :: "order_candidate \<Rightarrow> order_candidate \<Rightarrow> bool" where
  "same_order c d \<longleftrightarrow>
     oc_trading_pair d = oc_trading_pair c \<and> oc_is_maker d = oc_is_maker c \<and>
     oc_order_side d = oc_order_side c \<and> oc_price d = oc_price c \<and> oc_kind d = oc_kind c"

lemma size_linear:
  assumes "same_order c d" and "oc_amount d = oc_amount c * r"
  shows "get_size_token_and_order_size d =
     ebind (get_size_token_and_order_size c) (\<lambda>size. Inr (scale_entry r size))"
  using assms
  by (cases "split_hb_trading_pair (oc_trading_pair c)")
    (auto simp: get_size_token_and_order_size_def same_order_def scale_entry_def)

lemma size_token_price_same:
  assumes "same_order c d" and "oc_amount d = oc_amount c * r"
  shows "get_size_collateral_price ex d t = get_size_collateral_price ex c t"
  using assms(1) unfolding get_size_collateral_price_def size_linear [OF assms] ebind_assoc
  by (simp add: same_order_def scale_entry_def cong: if_cong)

lemma collateral_token_same: "same_order c d \<Longrightarrow> get_collateral_token ex d = get_collateral_token ex c"
  by (simp add: get_collateral_token_def same_order_def)

lemma order_collateral_linear:
  assumes same: "same_order c d" "oc_amount d = oc_amount c * r" and "\<not> is_position_close c"
    and "populate_order_collateral_entry ex c = Inr c1"
  shows "\<exists>oc. c1 = c\<lparr>oc_order_collateral := Some oc\<rparr> \<and>
     populate_order_collateral_entry ex d = Inr (d\<lparr>oc_order_collateral := Some (scale_entry r oc)\<rparr>)"
proof -
  obtain t where t: "get_order_collateral_token ex c = Inr (Some t)" "get_order_collateral_token ex d = Inr (Some t)"
    using assms(1,3,4) collateral_token_same [OF same(1), of ex]
    by (cases "oc_kind c") (auto simp: populate_order_collateral_entry_def get_order_collateral_token_def
        is_position_close_def same_order_def ebind_eq_Inr_iff)
  with assms(4) obtain x where x: "get_order_collateral_amount ex c t = Inr x"
    and c1: "c1 = c\<lparr>oc_order_collateral := Some \<lparr>ta_token = t, ta_amount = x\<rparr>\<rparr>"
    by (auto simp: populate_order_collateral_entry_def ebind_eq_Inr_iff)
  have "get_order_collateral_amount ex d t = Inr (x * r)"
    using x assms(1,3) unfolding get_order_collateral_amount_def
    by (cases "oc_kind c")
      (auto simp: same_order_def get_collateral_amount_def size_linear [OF same] is_position_close_def
        size_token_price_same [OF same] collateral_token_same [OF same(1)]
        ebind_eq_Inr_iff dec_div_eq_Inr_iff scale_entry_def)
  with t c1 show ?thesis
    by (auto simp: populate_order_collateral_entry_def scale_entry_def)
qed

lemma candidate_fee_same: "same_order c d \<Longrightarrow> candidate_fee ex d = candidate_fee ex c"
  by (cases "oc_kind c") (simp_all add: candidate_fee_def same_order_def)

lemma same_order_update:
  "same_order c d \<Longrightarrow> same_order (c\<lparr>oc_order_collateral := e\<rparr>) (d\<lparr>oc_order_collateral := e'\<rparr>)"
  by (simp add: same_order_def)

lemma fee_impact_linear:
  assumes same: "same_order c d" "oc_amount d = oc_amount c * r"
    and oc: "oc_order_collateral d = map_option (scale_entry r) (oc_order_collateral c)"
    and imp: "get_fee_impact_on_order_cost ex fee c = Inr e"
  shows "get_fee_impact_on_order_cost ex fee d = Inr (map_option (scale_entry r) e)"
proof -
  have other: "fee_in_other_token ex fee d t = ebind (fee_in_other_token ex fee c t) (\<lambda>x. Inr (x * r))" for t
    by (cases "get_size_token_and_order_size c")
      (auto simp: fee_in_other_token_def size_linear [OF same] scale_entry_def ebind_assoc mult.assoc mult.left_commute mult.commute)
  show ?thesis
    using imp oc
    by (auto simp: get_fee_impact_on_order_cost_def other ebind_eq_Inr_iff scale_entry_def
        split: fee_class.splits option.splits if_splits)
qed

text \<open>What populating a candidate leaves alone.\<close>

definition same_request :: "order_candidate \<Rightarrow> order_candidate \<Rightarrow> bool" where
  "same_request c d \<longleftrightarrow> same_order c d \<and> oc_amount d = oc_amount c \<and> oc_resized d = oc_resized c
     \<and> oc_from_total_balances d = oc_from_total_balances c"

lemma populate_returns_frame:
  assumes "populate_potential_returns_entry ex c = Inr c'"
  shows "\<exists>pr. c' = c\<lparr>oc_potential_returns := pr\<rparr>"
proof (rule exI [of _ "oc_potential_returns c'"], cases "oc_kind c")
qed (use assms in \<open>auto simp: populate_potential_returns_entry_def ebind_eq_Inr_iff split: option.splits\<close>)

lemma populate_fee_value_frame:
  assumes "populate_percent_fee_value ex fee c = Inr c'"
  shows "\<exists>v. c' = c\<lparr>oc_percent_fee_value := v\<rparr>"
proof (cases "get_fee_impact_on_order_cost ex fee c")
  case (Inl e)
  with assms show ?thesis
    by (intro exI [of _ "oc_percent_fee_value c'"])
      (auto simp: populate_percent_fee_value_def Let_def split: candidate_kind.split_asm if_split_asm)
next
  case (Inr impact)
  show ?thesis
  proof (cases impact)
    case (Some ta)
    with Inr assms show ?thesis
      by (auto simp: populate_percent_fee_value_def Let_def ebind_eq_Inr_iff intro: exI [of _ "oc_percent_fee_value c'"]
          split: candidate_kind.split_asm if_split_asm)
  next
    case None
    obtain r where "get_fee_impact_on_order_returns fee c = r" by blast
    with Inr None assms show ?thesis
      by (intro exI [of _ "oc_percent_fee_value c'"], cases r)
        (auto simp: populate_percent_fee_value_def Let_def ebind_eq_Inr_iff
          split: candidate_kind.split_asm if_split_asm option.split_asm)
  qed
qed

lemma apply_fee_impact_frame:
  assumes "apply_fee_impact_on_potential_returns fee c = Inr c'"
  shows "\<exists>pr. c' = c\<lparr>oc_potential_returns := pr\<rparr>"
proof (rule exI [of _ "oc_potential_returns c'"], cases "oc_kind c")
qed (use assms in \<open>auto simp: apply_fee_impact_on_potential_returns_def ebind_eq_Inr_iff split: option.splits\<close>)

lemma percent_fee_entry_frame:
  assumes "populate_percent_fee_collateral_entry ex fee c = Inr c'"
  shows "\<exists>e. c' = c\<lparr>oc_percent_fee_collateral := e\<rparr>"
proof (rule exI [of _ "oc_percent_fee_collateral c'"], cases "oc_kind c")
qed (use assms in \<open>auto simp: populate_percent_fee_collateral_entry_def ebind_eq_Inr_iff Let_def split: option.splits if_splits\<close>)

text \<open>The four populated fields, from the two steps that determine them.\<close>

lemma populate_entries:
  assumes "populate_collateral_entries ex c = Inr c'"
  shows "\<exists>c1 fee c2. populate_order_collateral_entry ex c = Inr c1 \<and> candidate_fee ex c1 = Inr fee \<and>
     populate_percent_fee_collateral_entry ex fee c1 = Inr c2 \<and>
     oc_order_collateral c' = oc_order_collateral c2 \<and>
     oc_percent_fee_collateral c' = oc_percent_fee_collateral c2 \<and>
     oc_fixed_fee_collaterals c' = Some (flat_fees fee) \<and> same_request c2 c'"
proof -
  obtain c1 fee c2 c3 c4 where
    s: "populate_order_collateral_entry ex c = Inr c1" "candidate_fee ex c1 = Inr fee"
      "populate_percent_fee_collateral_entry ex fee c1 = Inr c2"
    and c3: "populate_potential_returns_entry ex (populate_fixed_fee_collateral_entries fee c2) = Inr c3"
    and c4: "populate_percent_fee_value ex fee c3 = Inr c4"
    and c': "apply_fee_impact_on_potential_returns fee c4 = Inr c'"
    using assms unfolding populate_collateral_entries_def ebind_eq_Inr_iff by blast
  obtain pr v pr' where "c' = (populate_fixed_fee_collateral_entries fee c2)
      \<lparr>oc_potential_returns := pr, oc_percent_fee_value := v, oc_potential_returns := pr'\<rparr>"
    using populate_returns_frame [OF c3] populate_fee_value_frame [OF c4] apply_fee_impact_frame [OF c'] by blast
  with s show ?thesis
    by (intro exI [of _ c1] exI [of _ fee] exI [of _ c2])
      (simp add: populate_fixed_fee_collateral_entries_def same_request_def same_order_def)
qed

lemma percent_fee_entry_linear:
  assumes same: "same_order c d" "oc_amount d = oc_amount c * r" and is_open: "\<not> is_position_close c"
    and oc: "oc_order_collateral d = map_option (scale_entry r) (oc_order_collateral c)"
    and pop: "populate_percent_fee_collateral_entry ex fee c = Inr c'"
    and none: "oc_percent_fee_collateral c = None" "oc_percent_fee_collateral c' = None \<Longrightarrow> oc_percent_fee_collateral d = None"
  shows "\<exists>d'. populate_percent_fee_collateral_entry ex fee d = Inr d' \<and>
     oc_percent_fee_collateral d' = map_option (scale_entry r) (oc_percent_fee_collateral c')"
proof -
  obtain e where e: "get_fee_impact_on_order_cost ex fee c = Inr e"
    using pop is_open by (cases "get_fee_impact_on_order_cost ex fee c"; cases "oc_kind c")
      (auto simp: populate_percent_fee_collateral_entry_def is_position_close_def)
  have d: "get_fee_impact_on_order_cost ex fee d = Inr (map_option (scale_entry r) e)"
    using fee_impact_linear [OF same oc e] .
  have k: "oc_kind d = oc_kind c" using same(1) by (simp add: same_order_def)
  have sc: "scale_entry l (scale_entry r ta) = scale_entry r (scale_entry l ta)"
    "ta_token (scale_entry r ta) = ta_token ta" for l and ta :: token_amount
    by (simp_all add: scale_entry_def mult.assoc mult.commute)
  show ?thesis
  proof (cases "oc_kind c")
    case Spot
    with pop e d k none show ?thesis
      by (cases e) (auto simp: populate_percent_fee_collateral_entry_def)
  next
    case (Perpetual leverage close)
    with pop e d k none is_open oc show ?thesis
      by (cases e; cases "oc_order_collateral c")
        (auto simp: populate_percent_fee_collateral_entry_def is_position_close_def leverage_entry_def sc)
  qed
qed

text \<open>The remaining steps of populating only fail where the first ones do.\<close>

lemma populate_returns_succeeds:
  assumes "split_hb_trading_pair (oc_trading_pair c) = Inr bq" and "\<not> is_position_close c"
  shows "\<exists>c'. populate_potential_returns_entry ex c = Inr c' \<and> (oc_kind c = Spot \<longrightarrow> oc_potential_returns c' \<noteq> None)"
  using assms
  by (cases "oc_kind c"; cases bq) (auto simp: populate_potential_returns_entry_def get_returns_token_def
      get_returns_amount_def is_position_close_def)

lemma populate_fee_value_succeeds:
  assumes "get_fee_impact_on_order_cost ex fee c = Inr e" and "\<not> is_position_close c"
    and "oc_order_collateral c \<noteq> None" and "fee_kind fee = DeductedFromReturns \<Longrightarrow> oc_potential_returns c \<noteq> None"
  shows "\<exists>c'. populate_percent_fee_value ex fee c = Inr c'"
proof (cases "oc_kind c")
  case Spot
  with assms show ?thesis
    by (cases e; cases "fee_kind fee")
      (auto simp: populate_percent_fee_value_def get_fee_impact_on_order_returns_def)
next
  case (Perpetual leverage close)
  with assms show ?thesis
    by (cases e; cases "fee_kind fee")
      (auto simp: populate_percent_fee_value_def get_fee_impact_on_order_returns_def leverage_entry_def
        is_position_close_def split: option.split)
qed

lemma apply_fee_impact_succeeds: "\<exists>c'. apply_fee_impact_on_potential_returns fee c = Inr c'"
  by (cases "fee_kind fee"; cases "oc_potential_returns c")
    (simp_all add: apply_fee_impact_on_potential_returns_def get_fee_impact_on_order_returns_def)

lemma opening_fee_kind:
  assumes "candidate_fee ex c = Inr fee" and "\<not> is_position_close c" and "fee_kind fee = DeductedFromReturns"
  shows "oc_kind c = Spot"
  using assms
  by (cases "oc_kind c") (auto simp: candidate_fee_def is_position_close_def build_perpetual_trade_fee_def
      new_perpetual_fee_def Let_def ebind_eq_Inr_iff)

lemma order_collateral_frame:
  assumes "\<not> is_position_close c" and "populate_order_collateral_entry ex c = Inr c1"
  shows "\<exists>oc. c1 = c\<lparr>oc_order_collateral := Some oc\<rparr>"
  using order_collateral_linear [of c c 1 ex c1] assms by (auto simp: same_order_def)

lemma populate_linear:
  assumes pop: "populate_collateral_entries ex c = Inr c'"
    and same: "same_order c d" "oc_amount d = oc_amount c * r" and is_open: "\<not> is_position_close c"
    and none: "oc_percent_fee_collateral c = None" "oc_percent_fee_collateral c' = None \<Longrightarrow> oc_percent_fee_collateral d = None"
  shows "\<exists>d'. populate_collateral_entries ex d = Inr d' \<and>
     oc_order_collateral d' = map_option (scale_entry r) (oc_order_collateral c') \<and>
     oc_percent_fee_collateral d' = map_option (scale_entry r) (oc_percent_fee_collateral c') \<and>
     oc_fixed_fee_collaterals d' = oc_fixed_fee_collaterals c' \<and> same_request d d'"
proof -
  obtain c1 fee c2 where c1: "populate_order_collateral_entry ex c = Inr c1" and fee: "candidate_fee ex c1 = Inr fee"
    and c2: "populate_percent_fee_collateral_entry ex fee c1 = Inr c2"
    and c': "oc_order_collateral c' = oc_order_collateral c2" "oc_percent_fee_collateral c' = oc_percent_fee_collateral c2"
      "oc_fixed_fee_collaterals c' = Some (flat_fees fee)"
    using populate_entries [OF pop] by blast
  obtain oc where oc: "c1 = c\<lparr>oc_order_collateral := Some oc\<rparr>"
    and d1: "populate_order_collateral_entry ex d = Inr (d\<lparr>oc_order_collateral := Some (scale_entry r oc)\<rparr>)"
    using order_collateral_linear [OF same is_open c1] by blast
  let ?d1 = "d\<lparr>oc_order_collateral := Some (scale_entry r oc)\<rparr>"
  have same1: "same_order c1 ?d1" "oc_amount ?d1 = oc_amount c1 * r" "\<not> is_position_close c1"
    using same is_open by (simp_all add: oc same_order_def is_position_close_def)
  have feed: "candidate_fee ex ?d1 = Inr fee" using candidate_fee_same [OF same1(1)] fee by simp
  obtain d2 where d2: "populate_percent_fee_collateral_entry ex fee ?d1 = Inr d2"
    "oc_percent_fee_collateral d2 = map_option (scale_entry r) (oc_percent_fee_collateral c2)"
    using percent_fee_entry_linear [OF same1 _ c2] none c' by (auto simp: oc)
  obtain f where f: "d2 = ?d1\<lparr>oc_percent_fee_collateral := f\<rparr>"
    using percent_fee_entry_frame [OF d2(1)] by blast
  let ?d2 = "populate_fixed_fee_collateral_entries fee d2"
  have open2: "\<not> is_position_close ?d2" "oc_kind ?d2 = oc_kind c"
    using is_open same(1) by (simp_all add: f populate_fixed_fee_collateral_entries_def is_position_close_def same_order_def)
  obtain bq where "split_hb_trading_pair (oc_trading_pair ?d2) = Inr bq"
    using feed by (auto simp: candidate_fee_def ebind_eq_Inr_iff f populate_fixed_fee_collateral_entries_def)
  then obtain d3 where d3: "populate_potential_returns_entry ex ?d2 = Inr d3"
    "oc_kind ?d2 = Spot \<longrightarrow> oc_potential_returns d3 \<noteq> None"
    using populate_returns_succeeds open2(1) by blast
  obtain pr where pr: "d3 = ?d2\<lparr>oc_potential_returns := pr\<rparr>"
    using populate_returns_frame [OF d3(1)] by blast
  obtain e where e: "get_fee_impact_on_order_cost ex fee c1 = Inr e"
    using c2 same1(3) by (cases "get_fee_impact_on_order_cost ex fee c1"; cases "oc_kind c1")
      (auto simp: populate_percent_fee_collateral_entry_def is_position_close_def)
  have "get_fee_impact_on_order_cost ex fee d3 = Inr (map_option (scale_entry r) e)"
    using same by (intro fee_impact_linear [OF _ _ _ e])
      (simp_all add: oc pr f populate_fixed_fee_collateral_entries_def same_order_def)
  then obtain d4 where d4: "populate_percent_fee_value ex fee d3 = Inr d4"
    using populate_fee_value_succeeds [of ex fee d3] open2 d3(2) opening_fee_kind [OF fee same1(3)]
    by (auto simp: oc pr f populate_fixed_fee_collateral_entries_def is_position_close_def)
  obtain d' where d': "apply_fee_impact_on_potential_returns fee d4 = Inr d'"
    using apply_fee_impact_succeeds by blast
  have pop_d: "populate_collateral_entries ex d = Inr d'"
    by (simp add: populate_collateral_entries_def d1 feed d2 d3 d4 d')
  obtain v where v: "d4 = d3\<lparr>oc_percent_fee_value := v\<rparr>" using populate_fee_value_frame [OF d4] by blast
  obtain pr' where "d' = d4\<lparr>oc_potential_returns := pr'\<rparr>" using apply_fee_impact_frame [OF d'] by blast
  moreover have "oc_order_collateral c2 = Some oc"
    using percent_fee_entry_frame [OF c2] by (auto simp: oc)
  ultimately show ?thesis
    using pop_d d2(2) c' by (simp add: v pr f populate_fixed_fee_collateral_entries_def same_request_def same_order_def)
qed

section \<open>One candidate\<close>

text \<open>Requests a strategy makes: freshly built, of the checker's kind, opening, with a positive amount.\<close>

definition fresh_request :: "checker_kind \<Rightarrow> order_candidate \<Rightarrow> bool" where
  "fresh_request k c \<longleftrightarrow>
     0 < oc_amount c \<and> \<not> oc_resized c \<and> oc_percent_fee_collateral c = None \<and>
     (case k of SpotChecker \<Rightarrow> oc_kind c = Spot
      | PerpetualChecker \<Rightarrow> (\<exists>leverage. oc_kind c = Perpetual leverage False))"

definition distinct_fixed_fees :: "trade_fee_schema \<Rightarrow> bool" where
  "distinct_fixed_fees sch \<longleftrightarrow>
     distinct (map ta_token (maker_fixed_fees sch)) \<and> distinct (map ta_token (taker_fixed_fees sch))"

lemma foldl_add_balance:
  assumes "\<And>t x. dict_get bal t = Some x \<Longrightarrow> x = balance_fn ex c t - locked_amount locked t"
  shows "(\<forall>t x. dict_get (foldl (add_balance ex locked c) bal tas) t = Some x \<longrightarrow>
            x = balance_fn ex c t - locked_amount locked t) \<and>
     (\<forall>t. dict_has bal t \<or> t \<in> ta_token ` set tas \<longrightarrow> dict_has (foldl (add_balance ex locked c) bal tas) t)"
  using assms
proof (induction tas arbitrary: bal)
  case Nil
  then show ?case by simp
next
  case (Cons ta tas)
  have "x = balance_fn ex c t - locked_amount locked t" if "dict_get (add_balance ex locked c bal ta) t = Some x" for t x
    using that Cons.prems by (auto simp: add_balance_def split: if_splits)
  note IH = Cons.IH [OF this]
  moreover have "dict_has (add_balance ex locked c bal ta) t" if "dict_has bal t \<or> t = ta_token ta" for t
    using that by (auto simp: add_balance_def)
  ultimately show ?case using IH by (auto simp del: foldl_Cons simp: foldl_Cons)
qed

lemma available_balances_cover:
  assumes ffs: "oc_fixed_fee_collaterals c = Some ffs"
    and nonneg: "\<And>t. 0 \<le> balance_fn ex c t - locked_amount locked t"
  shows "\<exists>bal. get_available_balances ex locked c = Inr bal \<and>
     covers bal (\<lambda>t. balance_fn ex c t - locked_amount locked t) c"
proof -
  define tas where "tas = (case oc_order_collateral c of None \<Rightarrow> [] | Some ta \<Rightarrow> [ta]) @
     (case oc_percent_fee_collateral c of None \<Rightarrow> [] | Some ta \<Rightarrow> [ta]) @ ffs"
  let ?bal = "foldl (add_balance ex locked c) [] tas"
  have "get_available_balances ex locked c = Inr ?bal"
    using ffs by (simp add: get_available_balances_def tas_def split: option.split)
  moreover have "dict_at ?bal t = Inr (balance_fn ex c t - locked_amount locked t)" if "t \<in> ta_token ` set tas" for t
    using foldl_add_balance [of "[]" ex c locked tas] that
    by (fastforce simp: dict_at_def dict_has_def split: option.split)
  ultimately show ?thesis
    using ffs nonneg by (auto simp: covers_def tas_def)
qed

lemma candidate_fee_distinct:
  assumes "candidate_fee ex c = Inr fee" and "distinct_fixed_fees (ex_fee_schema ex)"
  shows "distinct (map ta_token (flat_fees fee))"
  using assms by (cases "oc_kind c") (auto simp: candidate_fee_def ebind_eq_Inr_iff distinct_fixed_fees_def
      build_trade_fee_def build_perpetual_trade_fee_def new_spot_fee_def new_perpetual_fee_def Let_def)

lemma populated_request:
  assumes req: "fresh_request k c" and pop: "populate_collateral_entries ex c = Inr c1"
    and dist: "distinct_fixed_fees (ex_fee_schema ex)"
  shows "same_request c c1" and "oc_order_collateral c1 \<noteq> None"
    and "\<exists>ffs. oc_fixed_fee_collaterals c1 = Some ffs \<and> distinct (map ta_token ffs)"
proof -
  have is_open: "\<not> is_position_close c"
    using req by (auto simp: fresh_request_def is_position_close_def split: checker_kind.splits)
  obtain o1 fee c2 where o1: "populate_order_collateral_entry ex c = Inr o1" and fee: "candidate_fee ex o1 = Inr fee"
    and c2: "populate_percent_fee_collateral_entry ex fee o1 = Inr c2"
    and c1: "oc_order_collateral c1 = oc_order_collateral c2" "oc_fixed_fee_collaterals c1 = Some (flat_fees fee)"
      "same_request c2 c1"
    using populate_entries [OF pop] by blast
  obtain oc where oc: "o1 = c\<lparr>oc_order_collateral := Some oc\<rparr>"
    using order_collateral_frame [OF is_open o1] by blast
  obtain e where "c2 = o1\<lparr>oc_percent_fee_collateral := e\<rparr>" using percent_fee_entry_frame [OF c2] by blast
  with oc c1 show "same_request c c1" "oc_order_collateral c1 \<noteq> None"
    by (simp_all add: same_request_def same_order_def)
  show "\<exists>ffs. oc_fixed_fee_collaterals c1 = Some ffs \<and> distinct (map ta_token ffs)"
    using c1(2) candidate_fee_distinct [OF fee dist] by simp
qed

lemma scale_order_same:
  "same_order c (scale_order s c)" "same_order c d \<Longrightarrow> same_order c (d\<lparr>oc_amount := q\<rparr>)"
  "same_order c d \<Longrightarrow> same_order d e \<Longrightarrow> same_order c e"
  by (auto simp: same_order_def scale_order_def)

text \<open>The second populating, after quantizing, still fits.\<close>

lemma quantize_adjusted_fits:
  assumes req: "fresh_request k c" and pop: "populate_collateral_entries ex c = Inr c1"
    and dist: "distinct_fixed_fees (ex_fee_schema ex)" and listed: "rule_listed (ex_rules ex) (oc_trading_pair c)"
    and s: "0 \<le> s" "s \<le> 1" and c2: "c2 = scale_order s c1"
    and fits: "\<And>t. collateral_needed c2 t \<le> B t" "\<And>t. fixed_load c2 t \<le> B t"
  shows "\<exists>c'. quantize_adjusted_order ex c2 = Inr c' \<and> (\<forall>t. collateral_needed c' t \<le> B t) \<and>
     0 \<le> oc_amount c' \<and> oc_amount c' \<le> oc_amount c \<and> same_order c c' \<and> oc_fixed_fee_collaterals c' \<noteq> None"
proof -
  note p = populated_request [OF req pop dist]
  have is_open: "\<not> is_position_close c" and a: "0 < oc_amount c" and fresh: "oc_percent_fee_collateral c = None"
    using req by (auto simp: fresh_request_def is_position_close_def split: checker_kind.splits)
  have a1: "oc_amount c1 = oc_amount c" "same_order c c1" using p(1) by (simp_all add: same_request_def)
  then have a2: "oc_amount c2 = oc_amount c * s" and same2: "same_order c c2"
    using c2 scale_order_same(3) [OF a1(2) scale_order_same(1)] by simp_all
  have pair: "oc_trading_pair c2 = oc_trading_pair c" using same2 by (simp add: same_order_def)
  have nn: "0 \<le> oc_amount c2" and le: "oc_amount c2 \<le> oc_amount c"
    using a s by (simp_all add: a2 mult_left_le)
  obtain q where q: "quantize_order_amount (ex_rules ex) (oc_trading_pair c) (oc_amount c2) = Inr q"
    using amounts.quantize_total [OF listed nn] by blast
  have qr: "0 \<le> q" "q \<le> oc_amount c2" using amounts.quantize_range [OF listed nn q] by simp_all
  have ffs2: "oc_fixed_fee_collaterals c2 \<noteq> None" using p(3) by (auto simp: c2 scale_order_def)
  show ?thesis
  proof (cases "oc_amount c2 = q")
    case True
    with q fits nn le same2 ffs2 show ?thesis by (simp add: quantize_adjusted_order_def pair)
  next
    case False
    then have nz: "oc_amount c2 \<noteq> 0" using qr by auto
    define r where "r = q / oc_amount c"
    let ?k = "q / oc_amount c2"
    have r: "q = oc_amount c * r" "r = s * ?k" and k: "0 \<le> ?k"
      using a nz qr nn by (simp_all add: r_def a2)
    have k1: "?k \<le> 1" using nn nz qr by simp
    have "same_order c (c2\<lparr>oc_amount := q\<rparr>)" using scale_order_same(2) [OF same2] .
    moreover have "oc_percent_fee_collateral (c2\<lparr>oc_amount := q\<rparr>) = None" if "oc_percent_fee_collateral c1 = None"
      using that by (simp add: c2 scale_order_def)
    ultimately obtain d' where d': "populate_collateral_entries ex (c2\<lparr>oc_amount := q\<rparr>) = Inr d'"
      "oc_order_collateral d' = map_option (scale_entry r) (oc_order_collateral c1)"
      "oc_percent_fee_collateral d' = map_option (scale_entry r) (oc_percent_fee_collateral c1)"
      "oc_fixed_fee_collaterals d' = oc_fixed_fee_collaterals c1" "same_request (c2\<lparr>oc_amount := q\<rparr>) d'"
      using populate_linear [OF pop _ _ is_open fresh, of "c2\<lparr>oc_amount := q\<rparr>" r] r(1) by auto
    have "collateral_needed d' t \<le> B t" for t
    proof -
      have "oc_amount c1 * s \<noteq> 0" using nz a1 a2 by simp
      then have ff: "fixed_load d' t = fixed_load c2 t" using d'(4) by (simp add: fixed_load_def c2 scale_order_def)
      have "percent_load d' t = percent_load c1 t * r" using d'(2,3) by (simp add: percent_load_def distrib_right)
      also have "\<dots> = percent_load c2 t * ?k" using nz a1 r(2) by (simp add: c2 a2)
      finally have "percent_load d' t = percent_load c2 t * ?k" .
      with ff convex_le [OF _ fits(2) k k1, of t "percent_load c2 t"] fits(1) [of t] show ?thesis
        by (simp add: collateral_needed_def add.commute)
    qed
    moreover have "oc_amount d' = q" "same_order c d'"
      using d'(5) scale_order_same(2) [OF same2] scale_order_same(3) by (auto simp: same_request_def)
    ultimately show ?thesis
      using q False d' qr le p(3) by (auto simp: quantize_adjusted_order_def pair)
  qed
qed

lemma adjust_candidate_fits:
  assumes req: "fresh_request k c" and pop: "populate_collateral_entries ex c = Inr c1"
    and dist: "distinct_fixed_fees (ex_fee_schema ex)" and listed: "rule_listed (ex_rules ex) (oc_trading_pair c)"
    and nonneg: "\<And>t. 0 \<le> balance_fn ex c t - locked_amount locked t"
  shows "\<exists>c'. adjust_candidate ex locked aon c = Inr c' \<and>
     (\<forall>t. collateral_needed c' t \<le> balance_fn ex c t - locked_amount locked t) \<and>
     0 \<le> oc_amount c' \<and> oc_amount c' \<le> oc_amount c \<and> (aon \<longrightarrow> oc_amount c' \<in> {0, oc_amount c}) \<and>
     same_order c c' \<and> oc_fixed_fee_collaterals c' \<noteq> None"
proof -
  let ?B = "\<lambda>t. balance_fn ex c t - locked_amount locked t"
  note p = populated_request [OF req pop dist]
  have a: "0 < oc_amount c" "\<not> oc_resized c" using req by (simp_all add: fresh_request_def)
  have a1: "oc_amount c1 = oc_amount c" "same_order c c1" "\<not> oc_resized c1" "balance_fn ex c1 = balance_fn ex c"
    using p(1) a by (simp_all add: same_request_def balance_fn_def fun_eq_iff)
  obtain ffs where ffs: "oc_fixed_fee_collaterals c1 = Some ffs" "distinct (map ta_token ffs)" using p(3) by blast
  obtain bal where bal: "get_available_balances ex locked c1 = Inr bal" "covers bal ?B c1"
    using available_balances_cover [OF ffs(1), of ex locked] nonneg by (auto simp: a1(4))
  obtain c2 where c2: "adjust_from_balances bal c1 = Inr c2" "shrinks c1 c2"
    "\<And>t. collateral_needed c2 t \<le> ?B t" "\<And>t. fixed_load c2 t \<le> ?B t"
    using adjust_from_balances_fits [OF bal(2) _ _ ffs] a(1) a1(1) p(2) by auto
  have step: "adjust_candidate ex locked aon c =
      (if oc_resized c2 then (if aon then Inr (set_to_zero c2) else quantize_adjusted_order ex c2) else Inr c2)"
    by (simp add: adjust_candidate_def pop bal(1) c2(1))
  show ?thesis
  proof (cases "oc_resized c2")
    case False
    with c2(2) have "c2 = c1" by (auto simp: shrinks_def)
    with False step c2 a a1 ffs show ?thesis by simp
  next
    case True
    then obtain s where s: "0 \<le> s" "s \<le> 1" "c2 = scale_order s c1"
      using c2(2) a1(3) by (auto simp: shrinks_def)
    show ?thesis
    proof (cases aon)
      case True
      have "same_order c (scale_order 0 c2)"
        using a1(2) scale_order_same(1,3) by (metis s(3))
      moreover have "oc_fixed_fee_collaterals (scale_order 0 c2) \<noteq> None" by (simp add: scale_order_def)
      ultimately show ?thesis
        using True \<open>oc_resized c2\<close> step nonneg a by (simp add: set_to_zero_def)
    next
      case False
      with \<open>oc_resized c2\<close> step quantize_adjusted_fits [OF req pop dist listed s c2(3,4)] show ?thesis by simp
    qed
  qed
qed

section \<open>A list of candidates\<close>

definition collateral_of :: "order_candidate \<Rightarrow> string \<Rightarrow> decimal" where
  "collateral_of c t = (case collateral_dict c of Inl _ \<Rightarrow> 0 | Inr cd \<Rightarrow> locked_amount cd t)"

lemma locked_amount_add_entry [simp]:
  "locked_amount (add_entry cd ta) t = locked_amount cd t + entry_amount (Some ta) t"
  by (simp add: add_entry_def locked_amount_def)

lemma locked_amount_add_entries:
  "locked_amount (foldl add_entry cd ffs) t = locked_amount cd t + fees_in ffs t"
  by (induction ffs arbitrary: cd) simp_all

lemma locked_amount_Nil [simp]: "locked_amount [] t = 0"
  by (simp add: locked_amount_def)

lemma collateral_dict_total:
  assumes "oc_fixed_fee_collaterals c \<noteq> None"
  shows "\<exists>cd. collateral_dict c = Inr cd \<and> dict_wf cd \<and> (\<forall>t. locked_amount cd t = collateral_needed c t)"
proof -
  have one: "dict_wf cd \<Longrightarrow> dict_wf (add_entry cd ta)" for cd ta by (simp add: add_entry_def)
  then have wf: "dict_wf cd \<Longrightarrow> dict_wf (foldl add_entry cd ffs)" for cd ffs
    by (induction ffs arbitrary: cd) simp_all
  show ?thesis
    using assms one wf by (auto simp: collateral_dict_def collateral_needed_def percent_load_def fixed_load_def
        locked_amount_add_entries Let_def split: option.split)
qed

lemma lock_entries:
  "dict_wf cd \<Longrightarrow> locked_amount (foldl (\<lambda>l (t, a). dict_set l t (locked_amount l t + a)) locked cd) t =
     locked_amount locked t + locked_amount cd t"
proof (induction cd arbitrary: locked)
  case Nil
  then show ?case by simp
next
  case (Cons ta cd)
  obtain u a where ta: "ta = (u, a)" by (cases ta)
  have "dict_get cd u = None" "dict_wf cd"
    using Cons.prems by (auto simp: ta dict_wf_def dict_get_def map_of_eq_None_iff)
  with Cons.IH show ?case
    by (auto simp: ta locked_amount_def dict_get_def [of "(u, a) # cd"] dict_get_def [of cd])
qed

lemma lock_request:
  assumes "fresh_request k c" and "same_order c c'" and "oc_fixed_fee_collaterals c' \<noteq> None"
  shows "\<exists>locked'. lock_available_collateral k locked c' = Inr locked' \<and>
     (\<forall>t. locked_amount locked' t = locked_amount locked t + collateral_needed c' t)"
proof -
  obtain cd where cd: "collateral_dict c' = Inr cd" "dict_wf cd" "\<forall>t. locked_amount cd t = collateral_needed c' t"
    using collateral_dict_total [OF assms(3)] by blast
  have "lock_available_collateral k locked c' = lock_all locked c'"
    using assms(1,2) by (auto simp: lock_available_collateral_def fresh_request_def same_order_def
        split: checker_kind.splits candidate_kind.splits)
  with cd lock_entries [OF cd(2)] show ?thesis by (simp add: lock_all_def)
qed

lemma collateral_of_needed: "oc_fixed_fee_collaterals c \<noteq> None \<Longrightarrow> collateral_of c t = collateral_needed c t"
  using collateral_dict_total [of c] by (auto simp: collateral_of_def)

definition sized_down :: "bool \<Rightarrow> order_candidate \<Rightarrow> order_candidate \<Rightarrow> bool" where
  "sized_down all_or_none c c' \<longleftrightarrow>
     oc_trading_pair c' = oc_trading_pair c \<and> oc_order_side c' = oc_order_side c \<and> oc_price c' = oc_price c \<and>
     0 \<le> oc_amount c' \<and> oc_amount c' \<le> oc_amount c \<and> (all_or_none \<longrightarrow> oc_amount c' \<in> {0, oc_amount c})"

definition checkable :: "checker_kind \<Rightarrow> exchange_view \<Rightarrow> bool \<Rightarrow> order_candidate \<Rightarrow> bool" where
  "checkable k ex totals c \<longleftrightarrow>
     fresh_request k c \<and> oc_from_total_balances c = totals \<and> rule_listed (ex_rules ex) (oc_trading_pair c)
     \<and> (\<exists>c1. populate_collateral_entries ex c = Inr c1)"

lemma adjust_and_lock_each_fits:
  assumes "\<And>c. c \<in> set cs \<Longrightarrow> checkable k ex totals c" and "distinct_fixed_fees (ex_fee_schema ex)"
    and "\<And>t. locked_amount locked t \<le> (if totals then ex_get_balance ex else ex_get_available_balance ex) t"
  shows "\<exists>locked' cs'. adjust_and_lock_each k ex aon locked cs = Inr (locked', cs') \<and>
     list_all2 (sized_down aon) cs cs' \<and>
     (\<forall>t. locked_amount locked t + sum_list (map (\<lambda>c'. collateral_of c' t) cs')
            \<le> (if totals then ex_get_balance ex else ex_get_available_balance ex) t)"
  using assms
proof (induction cs arbitrary: locked)
  case Nil
  then show ?case by simp
next
  case (Cons c cs)
  let ?B = "if totals then ex_get_balance ex else ex_get_available_balance ex"
  have c: "checkable k ex totals c" using Cons.prems(1) by simp
  then have B: "balance_fn ex c = ?B" by (simp add: checkable_def balance_fn_def)
  obtain c' where c': "adjust_candidate ex locked aon c = Inr c'"
    "\<And>t. collateral_needed c' t \<le> ?B t - locked_amount locked t" "sized_down aon c c'"
    "same_order c c'" "oc_fixed_fee_collaterals c' \<noteq> None"
    using c adjust_candidate_fits [of k c ex _ locked aon] Cons.prems(2,3)
    by (auto simp: checkable_def B sized_down_def same_order_def)
  obtain locked' where l: "lock_available_collateral k locked c' = Inr locked'"
    "\<And>t. locked_amount locked' t = locked_amount locked t + collateral_needed c' t"
    using lock_request [of k c c' locked] c c'(4,5) by (auto simp: checkable_def)
  have "locked_amount locked' t \<le> ?B t" for t using c'(2) [of t] l(2) [of t] by simp
  from Cons.IH [OF _ Cons.prems(2) this] Cons.prems(1)
  obtain locked'' cs' where cs': "adjust_and_lock_each k ex aon locked' cs = Inr (locked'', cs')"
    "list_all2 (sized_down aon) cs cs'"
    "\<And>t. locked_amount locked' t + sum_list (map (\<lambda>c'. collateral_of c' t) cs') \<le> ?B t"
    by auto
  then show ?case
    using c' l by (simp add: adjust_candidate_and_lock_available_collateral_def collateral_of_needed add.assoc)
qed

section \<open>Properties\<close>

text \<open>
  C10: The budget checker never promises more than there is, for these requests: each candidate
  opens, has a positive amount, has not been adjusted before, names a listed pair and can be priced;
  the fee schema has no two fixed fees in one token; and no balance is negative. Then adjusting a list
  of candidates succeeds, gives one candidate per request with an amount between zero and the requested
  one (zero or the full amount under all-or-none), and the collateral of all adjusted candidates
  together stays, token by token, within the balance; no collateral remains locked. With two fixed
  fees in one token it can promise more (\<open>fixed_fees_in_one_token_overcommit\<close>).
\<close>

theorem adjusted_candidates_within_balances:
  assumes "\<And>c. c \<in> set cs \<Longrightarrow> checkable k ex totals c"
    and "distinct_fixed_fees (ex_fee_schema ex)"
    and "\<And>t. 0 \<le> (if totals then ex_get_balance ex else ex_get_available_balance ex) t"
  shows "\<exists>cs'. adjust_candidates k ex aon locked cs = Inr ([], cs') \<and> list_all2 (sized_down aon) cs cs' \<and>
     (\<forall>t. sum_list (map (\<lambda>c. collateral_of c t) cs')
            \<le> (if totals then ex_get_balance ex else ex_get_available_balance ex) t)"
proof -
  have "locked_amount (reset_locked_collateral locked) t \<le> (if totals then ex_get_balance ex else ex_get_available_balance ex) t"
    for t using assms(3) by (simp add: reset_locked_collateral_def)
  from adjust_and_lock_each_fits [OF assms(1,2) this, of cs aon] show ?thesis
    by (auto simp: adjust_candidates_def reset_locked_collateral_def)
qed

definition demo_exchange :: "token_amount list \<Rightarrow> exchange_view" where
  "demo_exchange fixed =
     \<lparr>ex_get_price = (\<lambda>_. Inl ValueError), ex_get_balance = (\<lambda>t. if t = ''USDC'' then 100 else 0),
      ex_get_available_balance = (\<lambda>t. if t = ''USDC'' then 100 else 0),
      ex_get_buy_collateral_token = (\<lambda>_. Inr ''USDC''), ex_get_sell_collateral_token = (\<lambda>_. Inr ''USDC''),
      ex_fee_schema = \<lparr>percent_fee_token = None, maker_percent_fee_decimal = 1 / 1000,
        taker_percent_fee_decimal = 1 / 500, buy_percent_fee_deducted_from_returns = False,
        maker_fixed_fees = fixed, taker_fixed_fees = fixed\<rparr>,
      ex_rules = demo_rules\<rparr>"

definition demo_buy :: "decimal \<Rightarrow> order_candidate" where
  "demo_buy amount = new_order_candidate ''SOL-USDC'' True LIMIT BUY amount 20 False Spot"

lemma demo_buy_checkable:
  assumes "0 < amount"
  shows "checkable SpotChecker (demo_exchange fixed) False (demo_buy amount)"
proof -
  have "split_hb_trading_pair ''SOL-USDC'' = Inr (''SOL'', ''USDC'')" by code_simp
  then have "\<exists>c1. populate_collateral_entries (demo_exchange fixed) (demo_buy amount) = Inr c1"
    by (simp add: populate_collateral_entries_def populate_order_collateral_entry_def demo_buy_def
        new_order_candidate_def get_order_collateral_token_def get_order_collateral_amount_def
        get_size_token_and_order_size_def get_size_collateral_price_def candidate_fee_def
        build_trade_fee_def new_spot_fee_def demo_exchange_def populate_percent_fee_collateral_entry_def
        get_fee_impact_on_order_cost_def populate_fixed_fee_collateral_entries_def
        populate_potential_returns_entry_def get_returns_token_def get_returns_amount_def
        populate_percent_fee_value_def apply_fee_impact_on_potential_returns_def
        get_fee_impact_on_order_returns_def Let_def)
  moreover have "rule_listed demo_rules ''SOL-USDC''"
    by (simp add: rule_listed_def demo_rules_def dict_get_def)
  ultimately show ?thesis
    using assms by (simp add: checkable_def fresh_request_def demo_buy_def new_order_candidate_def demo_exchange_def)
qed

theorem adjusted_candidates_within_balances_witness:
  "\<exists>cs'. adjust_candidates SpotChecker (demo_exchange []) False [] [demo_buy 3, demo_buy 4] = Inr ([], cs') \<and>
     sum_list (map (\<lambda>c. collateral_of c ''USDC'') cs') \<le> 100"
proof -
  have "checkable SpotChecker (demo_exchange []) False c" if "c \<in> set [demo_buy 3, demo_buy 4]" for c
    using that by (auto intro: demo_buy_checkable)
  moreover have "distinct_fixed_fees (ex_fee_schema (demo_exchange []))"
    and "\<And>t. 0 \<le> (if False then ex_get_balance (demo_exchange []) else ex_get_available_balance (demo_exchange [])) t"
    by (simp_all add: demo_exchange_def distinct_fixed_fees_def)
  ultimately obtain cs' where "adjust_candidates SpotChecker (demo_exchange []) False [] [demo_buy 3, demo_buy 4] = Inr ([], cs')"
    "\<forall>t. sum_list (map (\<lambda>c. collateral_of c t) cs') \<le> ex_get_available_balance (demo_exchange []) t"
    using adjusted_candidates_within_balances [of "[demo_buy 3, demo_buy 4]" SpotChecker "demo_exchange []" False False "[]"]
    by fastforce
  moreover have "ex_get_available_balance (demo_exchange []) ''USDC'' = 100" by (simp add: demo_exchange_def)
  ultimately show ?thesis by metis
qed

text \<open>
  Two fixed fees in one token are each checked against the whole balance. A buy of 4.5 at 20
  with fixed fees of 5 and 6 USDC passes unresized against a balance of 100 USDC although it needs
  101.09.
\<close>

theorem fixed_fees_in_one_token_overcommit:
  "(case adjust_candidate (demo_exchange [\<lparr>ta_token = ''USDC'', ta_amount = 5\<rparr>, \<lparr>ta_token = ''USDC'', ta_amount = 6\<rparr>])
           [] True (demo_buy (45 / 10)) of
      Inl _ \<Rightarrow> False
    | Inr c \<Rightarrow> \<not> oc_resized c \<and> collateral_of c ''USDC'' = 10109 / 100
        \<and> ex_get_available_balance (demo_exchange []) ''USDC'' = 100)"
  by code_simp

text \<open>
  The collateral a closing order is expected to return is read with one side for the size and
  the other for the price: closing a long (SELL) with quote collateral counts the price twice,
  closing a short (BUY) not at all.
\<close>

theorem closing_returns_wrong_price:
  assumes pair: "split_hb_trading_pair (oc_trading_pair c) = Inr (base, quote)" "base \<noteq> quote"
    and kind: "oc_kind c = Perpetual leverage True" "leverage \<noteq> 0"
    and tokens: "ex_get_buy_collateral_token ex (oc_trading_pair c) = Inr quote"
      "ex_get_sell_collateral_token ex (oc_trading_pair c) = Inr quote"
    and side: "oc_order_side c = BUY \<or> oc_order_side c = SELL"
  shows "get_returns_amount ex c = Inr (if oc_order_side c = BUY then oc_amount c / leverage
      else oc_amount c * oc_price c * oc_price c / leverage)"
  using assms
  by (auto simp: get_returns_amount_def get_collateral_amount_def get_size_token_and_order_size_def
      flip_order_side_def get_collateral_token_def get_size_collateral_price_def)

theorem closing_returns_wrong_price_witness:
  "get_returns_amount (demo_exchange [])
     (new_order_candidate ''SOL-USDC'' True LIMIT SELL 2 20 False (Perpetual 10 True)) = Inr 80"
proof -
  let ?c = "new_order_candidate ''SOL-USDC'' True LIMIT SELL 2 20 False (Perpetual 10 True)"
  have "split_hb_trading_pair (oc_trading_pair ?c) = Inr (''SOL'', ''USDC'')" by code_simp
  from closing_returns_wrong_price [OF this, of 10 "demo_exchange []"] show ?thesis
    by (simp add: new_order_candidate_def demo_exchange_def)
qed

end
