(* ===== verification/Executor_Base.thy ===== *)
theory Executor_Base
  imports Order_Tracker Budget_Checker
begin

text \<open>
  \<open>strategy_v2/runnable_base.py\<close>, \<open>strategy_v2/executors/executor_base.py\<close> and the tracked
  orders of \<open>strategy_v2/models/executors.py\<close>. The part of the state every executor has is the
  record \<open>executor_core\<close>, extended by the executors. What an executor asks of its strategy
  (placing and cancelling orders, refreshing an order) is logged in \<open>ex_calls\<close>; what it reads
  from the connector is the record \<open>exec_env\<close>.
\<close>

section \<open>Reading the connector\<close>

text \<open>
  Order objects are shared with the connector's tracker, so an executor holds addresses and reads
  the objects through \<open>env_orders\<close>. Prices are finite (an empty book gives NaN in the code,
  on which every comparison raises). The id of a new order is the strategy's choice, here a
  function of how many orders the executor has placed before.
\<close>

record exec_env =
  env_orders :: "address \<Rightarrow> in_flight_order"
  env_fetch :: "string \<Rightarrow> address option"
  env_price :: "price_type \<Rightarrow> decimal"
  env_now :: decimal
  env_exchange :: exchange_view
  env_position_mode :: position_mode
  env_rate :: rate_source
  env_order_id :: "nat \<Rightarrow> string"

definition get_in_flight_order :: "exec_env \<Rightarrow> string \<Rightarrow> address option" where
  "get_in_flight_order env oid = env_fetch env oid"

definition tracker_env :: "tracker \<Rightarrow> exec_env \<Rightarrow> exec_env" where
  "tracker_env s env =
     env\<lparr>env_orders := trk_orders s, env_fetch := (\<lambda>oid. fetch_order s (Some oid) None)\<rparr>"

definition lower_char :: "char \<Rightarrow> char" where
  "lower_char c = (let n = of_char c :: nat in if 65 \<le> n \<and> n \<le> 90 then char_of (n + 32) else c)"

fun contains_string :: "string \<Rightarrow> string \<Rightarrow> bool" where
  \<comment> \<open>\<open>w in s\<close>\<close>
  "contains_string w [] = (w = [])"
| "contains_string w (c # cs) = (take (length w) (c # cs) = w \<or> contains_string w cs)"

definition is_perpetual_connector :: "string \<Rightarrow> bool" where
  "is_perpetual_connector name = contains_string ''perpetual'' (map lower_char name)"

section \<open>Tracked orders\<close>

record tracked_order =
  to_order_id :: string
  to_order :: "address option"

definition tracked :: "exec_env \<Rightarrow> tracked_order \<Rightarrow> in_flight_order option" where
  "tracked env t = map_option (env_orders env) (to_order t)"

text \<open>\<open>average_executed_price or price\<close>: a price that is neither raises where it is used.\<close>

definition to_average_executed_price :: "exec_env \<Rightarrow> tracked_order \<Rightarrow> decimal py_result" where
  "to_average_executed_price env t =
     (case tracked env t of
        None \<Rightarrow> Inr 0
      | Some ord \<Rightarrow>
          (case average_executed_price ord of
             Some p \<Rightarrow> if p \<noteq> 0 then Inr p else
               (case o_price ord of None \<Rightarrow> Inl TypeError | Some NaN \<Rightarrow> Inl InvalidOperation | Some (Fin q) \<Rightarrow> Inr q)
           | None \<Rightarrow>
               (case o_price ord of None \<Rightarrow> Inl TypeError | Some NaN \<Rightarrow> Inl InvalidOperation | Some (Fin q) \<Rightarrow> Inr q)))"

definition to_executed_amount_base :: "exec_env \<Rightarrow> tracked_order \<Rightarrow> decimal" where
  "to_executed_amount_base env t = (case tracked env t of None \<Rightarrow> 0 | Some ord \<Rightarrow> o_executed_amount_base ord)"

definition to_executed_amount_quote :: "exec_env \<Rightarrow> tracked_order \<Rightarrow> decimal" where
  "to_executed_amount_quote env t = (case tracked env t of None \<Rightarrow> 0 | Some ord \<Rightarrow> o_executed_amount_quote ord)"

definition to_fee_asset :: "exec_env \<Rightarrow> tracked_order \<Rightarrow> string option" where
  "to_fee_asset env t =
     (case tracked env t of
        None \<Rightarrow> None
      | Some ord \<Rightarrow> (case dict_values (o_order_fills ord) of [] \<Rightarrow> None | f # _ \<Rightarrow> fee_asset (tu_fee f)))"

definition to_cum_fees_base :: "exec_env \<Rightarrow> tracked_order \<Rightarrow> decimal" where
  "to_cum_fees_base env t =
     (case tracked env t of None \<Rightarrow> 0 | Some ord \<Rightarrow> cumulative_fee_paid (env_rate env) ord (base_asset ord))"

definition to_cum_fees_quote :: "exec_env \<Rightarrow> tracked_order \<Rightarrow> decimal py_result" where
  "to_cum_fees_quote env t =
     (case tracked env t of
        None \<Rightarrow> Inr 0
      | Some ord \<Rightarrow> ebind (quote_asset ord) (\<lambda>qa. Inr (cumulative_fee_paid (env_rate env) ord qa)))"

definition to_is_done :: "exec_env \<Rightarrow> tracked_order \<Rightarrow> bool" where
  "to_is_done env t = (case tracked env t of None \<Rightarrow> False | Some ord \<Rightarrow> is_done ord)"

definition to_is_open :: "exec_env \<Rightarrow> tracked_order \<Rightarrow> bool" where
  "to_is_open env t = (case tracked env t of None \<Rightarrow> False | Some ord \<Rightarrow> is_open ord)"

definition to_is_filled :: "exec_env \<Rightarrow> tracked_order \<Rightarrow> bool" where
  "to_is_filled env t = (case tracked env t of None \<Rightarrow> False | Some ord \<Rightarrow> is_filled ord)"

section \<open>The common state\<close>

datatype strategy_call =
    PlaceOrder string order_type trade_type decimal pdecimal position_action
  | CancelOrder string
  | RequestOrderUpdate string

record executor_core =
  ex_status :: runnable_status
  ex_close_type :: "close_type option"
  ex_close_timestamp :: "decimal option"
  ex_max_retries :: int
  ex_current_retries :: int
  ex_held_position_orders :: "json list"
  ex_terminated :: bool  \<comment> \<open>the event the control loop waits for\<close>
  ex_registered :: bool
  ex_calls :: "strategy_call list"

definition log_call :: "strategy_call \<Rightarrow> 'a executor_core_scheme \<Rightarrow> 'a executor_core_scheme" where
  "log_call c x = x\<lparr>ex_calls := ex_calls x @ [c]\<rparr>"

fun is_place :: "strategy_call \<Rightarrow> bool" where
  "is_place (PlaceOrder oid ot side amount price action) = True"
| "is_place _ = False"

fun placed_id :: "strategy_call \<Rightarrow> string option" where
  "placed_id (PlaceOrder oid ot side amount price action) = Some oid"
| "placed_id _ = None"

definition placed_ids :: "strategy_call list \<Rightarrow> string list" where
  "placed_ids cs = List.map_filter placed_id cs"

definition next_order_id :: "exec_env \<Rightarrow> 'a executor_core_scheme \<Rightarrow> string" where
  "next_order_id env x = env_order_id env (length (placed_ids (ex_calls x)))"

definition place_order ::
  "exec_env \<Rightarrow> order_type \<Rightarrow> trade_type \<Rightarrow> decimal \<Rightarrow> pdecimal \<Rightarrow> position_action \<Rightarrow>
   'a executor_core_scheme \<Rightarrow> 'a executor_core_scheme \<times> string" where
  "place_order env ot side amount price action x =
     (let oid = next_order_id env x;
          side' = (if side = BUY then BUY else SELL)
      in (log_call (PlaceOrder oid ot side' amount price action) x, oid))"

section \<open>Life cycle\<close>

definition executor_start :: "'a executor_core_scheme \<Rightarrow> 'a executor_core_scheme" where
  "executor_start x =
     (let x1 = (if ex_status x = NOT_STARTED then x\<lparr>ex_status := RUNNING, ex_terminated := False\<rparr> else x)
      in x1\<lparr>ex_registered := True\<rparr>)"

definition executor_stop :: "exec_env \<Rightarrow> 'a executor_core_scheme \<Rightarrow> 'a executor_core_scheme" where
  "executor_stop env x =
     (let x1 = x\<lparr>ex_close_timestamp := Some (env_now env)\<rparr>;
          x2 = (if ex_status x1 \<noteq> TERMINATED then x1\<lparr>ex_status := TERMINATED, ex_terminated := True\<rparr> else x1)
      in x2\<lparr>ex_registered := False\<rparr>)"

definition evaluate_max_retries :: "exec_env \<Rightarrow> 'a executor_core_scheme \<Rightarrow> 'a executor_core_scheme" where
  "evaluate_max_retries env x =
     (if ex_current_retries x > ex_max_retries x
      then executor_stop env (x\<lparr>ex_close_type := Some FAILED_CLOSE\<rparr>) else x)"

definition ex_is_active :: "'a executor_core_scheme \<Rightarrow> bool" where
  "ex_is_active x = (ex_status x \<in> set [RUNNING, NOT_STARTED])"

definition ex_is_closed :: "'a executor_core_scheme \<Rightarrow> bool" where
  "ex_is_closed x = (ex_status x = TERMINATED)"

text \<open>One round of the control loop: an exception of the task skips the retry check and is logged.\<close>

definition control_round ::
  "(exec_env \<Rightarrow> 'a executor_core_scheme \<Rightarrow> 'a executor_core_scheme outcome) \<Rightarrow>
   exec_env \<Rightarrow> 'a executor_core_scheme \<Rightarrow> 'a executor_core_scheme outcome" where
  "control_round task env x =
     (if ex_terminated x then (x, None)
      else obind (task env x) (\<lambda>x'. (evaluate_max_retries env x', None)))"

definition try_value :: "'s \<Rightarrow> 'a py_result \<Rightarrow> ('a \<Rightarrow> 's outcome) \<Rightarrow> 's outcome" where
  "try_value s m f = (case m of Inl e \<Rightarrow> (s, Some e) | Inr v \<Rightarrow> f v)"

lemma try_value_simps [simp, err_simps]:
  "try_value s (Inl e) f = (s, Some e)" "try_value s (Inr v) f = f v"
  by (simp_all add: try_value_def)

lemma try_value_inv:
  "P x \<Longrightarrow> (\<And>v. m = Inr v \<Longrightarrow> P (fst (f v))) \<Longrightarrow> P (fst (try_value x m f))"
  by (cases m) simp_all

lemma placed_ids_simps [simp]:
  "placed_ids [] = []" "placed_ids (cs @ ds) = placed_ids cs @ placed_ids ds"
  "placed_ids [PlaceOrder oid ot side amount price action] = [oid]"
  "placed_ids [CancelOrder oid] = []" "placed_ids [RequestOrderUpdate oid] = []"
  by (simp_all add: placed_ids_def List.map_filter_def)

lemma executor_stop_simps [simp]:
  "ex_status (executor_stop env x) = TERMINATED" "ex_close_type (executor_stop env x) = ex_close_type x"
  "ex_close_timestamp (executor_stop env x) = Some (env_now env)" "\<not> ex_registered (executor_stop env x)"
  "ex_calls (executor_stop env x) = ex_calls x" "ex_current_retries (executor_stop env x) = ex_current_retries x"
  "ex_max_retries (executor_stop env x) = ex_max_retries x"
  "ex_held_position_orders (executor_stop env x) = ex_held_position_orders x"
  "ex_status x \<noteq> TERMINATED \<Longrightarrow> ex_terminated (executor_stop env x)"
  by (simp_all add: executor_stop_def Let_def)

text \<open>
  What the owner of a running component relies on: stopping is final for the control loop, and
  a round either raises, ends the component or leaves its retries within the limit.
\<close>

locale lifecycle =
  fixes status :: "'s \<Rightarrow> runnable_status" and ended :: "'s \<Rightarrow> bool"
    and round :: "'e \<Rightarrow> 's \<Rightarrow> 's outcome" and halt :: "'e \<Rightarrow> 's \<Rightarrow> 's"
    and retries :: "'s \<Rightarrow> int" and limit :: "'s \<Rightarrow> int"
  assumes halt_status: "status (halt e s) = TERMINATED"
    and halt_ends: "status s \<noteq> TERMINATED \<Longrightarrow> ended (halt e s)"
    and round_ended: "ended s \<Longrightarrow> round e s = (s, None)"
    and round_retries: "\<not> ended s \<Longrightarrow> round e s = (s', None) \<Longrightarrow> status s' = TERMINATED \<or> retries s' \<le> limit s'"
begin

fun rounds :: "'e list \<Rightarrow> 's \<Rightarrow> 's" where
  "rounds [] s = s"
| "rounds (e # es) s = rounds es (fst (round e s))"

lemma ended_stays: "ended s \<Longrightarrow> rounds es s = s"
  by (induction es) (simp_all add: round_ended)

lemma halted_stays: "status s \<noteq> TERMINATED \<Longrightarrow> rounds es (halt e s) = halt e s"
  by (simp add: ended_stays halt_ends)

end

interpretation core: lifecycle ex_status ex_terminated "control_round task" executor_stop ex_current_retries ex_max_retries
  for task :: "exec_env \<Rightarrow> 'a executor_core_scheme \<Rightarrow> 'a executor_core_scheme outcome"
proof
  show "ex_status (executor_stop e s) = TERMINATED" for e and s :: "'a executor_core_scheme" by simp
  show "ex_status s \<noteq> TERMINATED \<Longrightarrow> ex_terminated (executor_stop e s)" for e and s :: "'a executor_core_scheme"
    by simp
  show "ex_terminated s \<Longrightarrow> control_round task e s = (s, None)" for e s
    by (simp add: control_round_def)
  show "\<not> ex_terminated s \<Longrightarrow> control_round task e s = (s', None) \<Longrightarrow>
      ex_status s' = TERMINATED \<or> ex_current_retries s' \<le> ex_max_retries s'" for e s s'
    by (cases "task e s"; cases "snd (task e s)")
      (auto simp: control_round_def evaluate_max_retries_def split: if_splits)
qed

end
