(* ===== verification/Position_Executor.thy ===== *)
theory Position_Executor
  imports Executor_Base
begin

text \<open>
  \<open>strategy_v2/executors/position_executor/position_executor.py\<close> and its \<open>data_types.py\<close>:
  one position with an entry order, the triple barrier (stop loss, take profit, time limit), a
  trailing stop and the shutdown. \<open>TrackedOrder\<close> objects are compared by identity and shared
  (a completed take profit becomes the close order), so the executor holds addresses of cells.

  \<open>control_shutdown_process\<close> awaits the refresh of an order and a sleep; the only effect after
  them is the increment of the retry counter, which commutes with every event handler, so a round
  is one step. Formatting for display is not modelled.
\<close>

section \<open>Configuration\<close>

record trailing_stop =
  ts_activation_price :: decimal
  ts_trailing_delta :: decimal

record triple_barrier_config =
  tb_stop_loss :: "decimal option"
  tb_take_profit :: "decimal option"
  tb_time_limit :: "int option"
  tb_trailing_stop :: "trailing_stop option"
  tb_open_order_type :: order_type
  tb_take_profit_order_type :: order_type
  tb_stop_loss_order_type :: order_type
  tb_time_limit_order_type :: order_type

definition new_instance_with_adjusted_volatility ::
  "triple_barrier_config \<Rightarrow> decimal \<Rightarrow> triple_barrier_config" where
  "new_instance_with_adjusted_volatility tb f =
     tb\<lparr>tb_trailing_stop := map_option (\<lambda>ts. \<lparr>ts_activation_price = ts_activation_price ts * f,
           ts_trailing_delta = ts_trailing_delta ts * f\<rparr>) (tb_trailing_stop tb),
        tb_stop_loss := map_option (\<lambda>s. s * f) (tb_stop_loss tb),
        tb_take_profit := map_option (\<lambda>s. s * f) (tb_take_profit tb)\<rparr>"

record position_executor_config =
  pc_id :: string
  pc_timestamp :: decimal
  pc_controller_id :: string
  pc_trading_pair :: string
  pc_connector_name :: string
  pc_side :: trade_type
  pc_entry_price :: "decimal option"
  pc_amount :: decimal
  pc_triple_barrier_config :: triple_barrier_config
  pc_leverage :: int
  pc_activation_bounds :: "decimal list option"
  pc_level_id :: "string option"

section \<open>State\<close>

record position_executor = executor_core +
  pe_config :: position_executor_config
  pe_entry_price :: decimal  \<comment> \<open>\<open>config.entry_price\<close> as the constructor leaves it\<close>
  pe_trading_rule :: trading_rule
  pe_cells :: "nat \<Rightarrow> tracked_order"
  pe_next_cell :: nat
  pe_open_order :: "nat option"
  pe_close_order :: "nat option"
  pe_take_profit_limit_order :: "nat option"
  pe_failed_orders :: "nat list"
  pe_trailing_stop_trigger_pct :: "decimal option"
  pe_total_executed_amount_backup :: decimal

definition new_position_executor ::
  "exec_env \<Rightarrow> position_executor_config \<Rightarrow> int \<Rightarrow> position_executor py_result" where
  "new_position_executor env cfg max_retries =
     (let tb = pc_triple_barrier_config cfg in
      if tb_time_limit_order_type tb \<noteq> MARKET \<or> tb_stop_loss_order_type tb \<noteq> MARKET then Inl ValueError
      else
        let entry = (case pc_entry_price cfg of
                       Some p \<Rightarrow> if p \<noteq> 0 then p
                                 else env_price env (if pc_side cfg = BUY then BestBid else BestAsk)
                     | None \<Rightarrow> env_price env (if pc_side cfg = BUY then BestBid else BestAsk))
        in ebind (dict_at (ex_rules (env_exchange env)) (pc_trading_pair cfg)) (\<lambda>rule.
           Inr \<lparr>ex_status = NOT_STARTED, ex_close_type = None, ex_close_timestamp = None,
                ex_max_retries = max_retries, ex_current_retries = 0, ex_held_position_orders = [],
                ex_terminated = False, ex_registered = False, ex_calls = [],
                pe_config = cfg, pe_entry_price = entry, pe_trading_rule = rule,
                pe_cells = (\<lambda>_. \<lparr>to_order_id = [], to_order = None\<rparr>), pe_next_cell = 0,
                pe_open_order = None, pe_close_order = None, pe_take_profit_limit_order = None,
                pe_failed_orders = [], pe_trailing_stop_trigger_pct = None,
                pe_total_executed_amount_backup = 0\<rparr>))"

abbreviation barriers :: "position_executor \<Rightarrow> triple_barrier_config" where
  "barriers x \<equiv> pc_triple_barrier_config (pe_config x)"

abbreviation side :: "position_executor \<Rightarrow> trade_type" where
  "side x \<equiv> pc_side (pe_config x)"

definition open_order :: "position_executor \<Rightarrow> tracked_order option" where
  "open_order x = map_option (pe_cells x) (pe_open_order x)"

definition close_order :: "position_executor \<Rightarrow> tracked_order option" where
  "close_order x = map_option (pe_cells x) (pe_close_order x)"

definition take_profit_limit_order :: "position_executor \<Rightarrow> tracked_order option" where
  "take_profit_limit_order x = map_option (pe_cells x) (pe_take_profit_limit_order x)"

definition new_cell :: "position_executor \<Rightarrow> string \<Rightarrow> position_executor \<times> nat" where
  "new_cell x oid =
     (x\<lparr>pe_cells := (pe_cells x)(pe_next_cell x := \<lparr>to_order_id = oid, to_order = None\<rparr>),
        pe_next_cell := Suc (pe_next_cell x)\<rparr>, pe_next_cell x)"

section \<open>Amounts and prices\<close>

definition is_perpetual :: "position_executor \<Rightarrow> bool" where
  "is_perpetual x = is_perpetual_connector (pc_connector_name (pe_config x))"

definition open_filled_amount :: "exec_env \<Rightarrow> position_executor \<Rightarrow> decimal py_result" where
  "open_filled_amount env x =
     (case open_order x of
        None \<Rightarrow> Inr 0
      | Some t \<Rightarrow>
          quantize_order_amount (ex_rules (env_exchange env)) (pc_trading_pair (pe_config x))
            (if to_fee_asset env t = Some (hd (split_on CHR ''-'' (pc_trading_pair (pe_config x))))
             then to_executed_amount_base env t - to_cum_fees_base env t
             else to_executed_amount_base env t))"

definition close_filled_amount :: "exec_env \<Rightarrow> position_executor \<Rightarrow> decimal" where
  "close_filled_amount env x =
     (case close_order x of None \<Rightarrow> 0 | Some t \<Rightarrow> to_executed_amount_base env t)"

definition amount_to_close :: "exec_env \<Rightarrow> position_executor \<Rightarrow> decimal py_result" where
  "amount_to_close env x = ebind (open_filled_amount env x) (\<lambda>a. Inr (a - close_filled_amount env x))"

definition current_market_price :: "exec_env \<Rightarrow> position_executor \<Rightarrow> decimal" where
  "current_market_price env x = env_price env (if side x = BUY then BestBid else BestAsk)"

definition entry_price :: "exec_env \<Rightarrow> position_executor \<Rightarrow> decimal py_result" where
  "entry_price env x =
     (let fallback =
        (if tb_open_order_type (barriers x) = LIMIT_MAKER
         then (if side x = BUY then min (pe_entry_price x) (env_price env BestBid)
               else max (pe_entry_price x) (env_price env BestAsk))
         else pe_entry_price x)
      in case open_order x of
           Some t \<Rightarrow> if to_is_done env t then to_average_executed_price env t else Inr fallback
         | None \<Rightarrow> Inr fallback)"

definition close_price :: "exec_env \<Rightarrow> position_executor \<Rightarrow> decimal py_result" where
  "close_price env x =
     (case close_order x of
        Some t \<Rightarrow> if to_is_done env t then to_average_executed_price env t else Inr (current_market_price env x)
      | None \<Rightarrow> Inr (current_market_price env x))"

definition open_filled_amount_quote :: "exec_env \<Rightarrow> position_executor \<Rightarrow> decimal py_result" where
  "open_filled_amount_quote env x =
     ebind (open_filled_amount env x) (\<lambda>a. ebind (entry_price env x) (\<lambda>p. Inr (a * p)))"

definition close_filled_amount_quote :: "exec_env \<Rightarrow> position_executor \<Rightarrow> decimal py_result" where
  "close_filled_amount_quote env x =
     ebind (close_price env x) (\<lambda>p. Inr (close_filled_amount env x * p))"

definition filled_amount :: "exec_env \<Rightarrow> position_executor \<Rightarrow> decimal py_result" where
  "filled_amount env x = ebind (open_filled_amount env x) (\<lambda>a. Inr (a + close_filled_amount env x))"

definition filled_amount_quote :: "exec_env \<Rightarrow> position_executor \<Rightarrow> decimal py_result" where
  "filled_amount_quote env x =
     (if ex_close_type x \<noteq> Some POSITION_HOLD
      then ebind (open_filled_amount_quote env x) (\<lambda>a. ebind (close_filled_amount_quote env x) (\<lambda>b. Inr (a + b)))
      else Inr 0)"

definition end_time :: "position_executor \<Rightarrow> decimal option" where
  "end_time x =
     (case tb_time_limit (barriers x) of
        None \<Rightarrow> None
      | Some l \<Rightarrow> if l = 0 then None else Some (pc_timestamp (pe_config x) + of_int l))"

definition is_expired :: "exec_env \<Rightarrow> position_executor \<Rightarrow> bool" where
  "is_expired env x =
     (case end_time x of None \<Rightarrow> False | Some t \<Rightarrow> t \<noteq> 0 \<and> t \<le> env_now env)"

definition pe_is_trading :: "exec_env \<Rightarrow> position_executor \<Rightarrow> bool py_result" where
  "pe_is_trading env x =
     (if ex_status x = RUNNING then ebind (open_filled_amount env x) (\<lambda>a. Inr (a > 0)) else Inr False)"

definition close_order_side :: "position_executor \<Rightarrow> trade_type" where
  "close_order_side x = (if side x = SELL then BUY else SELL)"

definition close_position_action :: "exec_env \<Rightarrow> position_executor \<Rightarrow> position_action" where
  "close_position_action env x =
     (if is_perpetual x \<and> env_position_mode env = ONEWAY then OPEN else CLOSE)"

section \<open>Profit and loss\<close>

definition trade_pnl_pct :: "exec_env \<Rightarrow> position_executor \<Rightarrow> decimal py_result" where
  "trade_pnl_pct env x =
     ebind (open_filled_amount env x) (\<lambda>a.
     if a \<noteq> 0 \<and> ex_close_type x \<notin> set [Some FAILED_CLOSE, Some POSITION_HOLD]
     then ebind (close_price env x) (\<lambda>cp. ebind (entry_price env x) (\<lambda>ep.
            dec_div (if side x = BUY then cp - ep else ep - cp) ep))
     else Inr 0)"

definition trade_pnl_quote :: "exec_env \<Rightarrow> position_executor \<Rightarrow> decimal py_result" where
  "trade_pnl_quote env x =
     ebind (trade_pnl_pct env x) (\<lambda>pct.
     ebind (open_filled_amount env x) (\<lambda>a. ebind (entry_price env x) (\<lambda>p. Inr (pct * a * p))))"

definition pe_cum_fees_quote :: "exec_env \<Rightarrow> position_executor \<Rightarrow> decimal py_result" where
  "pe_cum_fees_quote env x =
     (let tp = (if pe_take_profit_limit_order x \<noteq> None
                   \<and> pe_take_profit_limit_order x \<noteq> pe_close_order x
                then [take_profit_limit_order x] else []);
          orders = List.map_filter id ([open_order x, close_order x] @ tp)
      in ebind (emap (to_cum_fees_quote env) orders) (\<lambda>fees. Inr (sum_list fees)))"

definition get_net_pnl_quote :: "exec_env \<Rightarrow> position_executor \<Rightarrow> decimal py_result" where
  "get_net_pnl_quote env x =
     ebind (trade_pnl_quote env x) (\<lambda>p. ebind (pe_cum_fees_quote env x) (\<lambda>f. Inr (p - f)))"

definition get_net_pnl_pct :: "exec_env \<Rightarrow> position_executor \<Rightarrow> decimal py_result" where
  "get_net_pnl_pct env x =
     ebind (open_filled_amount_quote env x) (\<lambda>q.
     if q \<noteq> 0 then ebind (get_net_pnl_quote env x) (\<lambda>p. dec_div p q) else Inr 0)"

definition take_profit_price :: "exec_env \<Rightarrow> position_executor \<Rightarrow> decimal py_result" where
  "take_profit_price env x =
     ebind (entry_price env x) (\<lambda>p.
     ebind (case tb_take_profit (barriers x) of None \<Rightarrow> Inl TypeError | Some tp \<Rightarrow> Inr tp) (\<lambda>tp.
     Inr (if side x = BUY
          then (let t = p * (1 + tp)
                in if tb_take_profit_order_type (barriers x) = LIMIT_MAKER then max t (env_price env BestAsk) else t)
          else (let t = p * (1 - tp)
                in if tb_take_profit_order_type (barriers x) = LIMIT_MAKER then min t (env_price env BestBid) else t))))"

definition py_nth :: "'a list \<Rightarrow> nat \<Rightarrow> 'a py_result" where
  "py_nth xs i = (if i < length xs then Inr (xs ! i) else Inl IndexError)"

definition is_within_activation_bounds ::
  "exec_env \<Rightarrow> position_executor \<Rightarrow> decimal \<Rightarrow> trade_type \<Rightarrow> order_type \<Rightarrow> bool py_result" where
  "is_within_activation_bounds env x price sd ot =
     (let mid = env_price env MidPrice in
      case pc_activation_bounds (pe_config x) of
        None \<Rightarrow> Inr True
      | Some [] \<Rightarrow> Inr True
      | Some (b0 # bs) \<Rightarrow>
          (if is_limit_type ot
           then Inr (if sd = BUY then price \<ge> mid * (1 - b0) else price \<le> mid * (1 + b0))
           else ebind (py_nth (b0 # bs) 1) (\<lambda>b1.
                Inr (if sd = BUY then price * (1 - b0) \<le> mid \<and> mid \<le> price * (1 + b1)
                     else price * (1 - b1) \<le> mid \<and> mid \<le> price * (1 + b0)))))"

section \<open>Orders\<close>

definition place_open_order :: "exec_env \<Rightarrow> position_executor \<Rightarrow> position_executor outcome" where
  "place_open_order env x =
     try_value x (entry_price env x) (\<lambda>price.
       let (x1, oid) = place_order env (tb_open_order_type (barriers x)) (side x) (pc_amount (pe_config x))
                         (Fin price) OPEN x;
           (x2, cell) = new_cell x1 oid
       in (x2\<lparr>pe_open_order := Some cell\<rparr>, None))"

definition cancel_open_order :: "exec_env \<Rightarrow> position_executor \<Rightarrow> position_executor outcome" where
  "cancel_open_order env x =
     (case open_order x of
        None \<Rightarrow> (x, Some AttributeError) | Some t \<Rightarrow> (log_call (CancelOrder (to_order_id t)) x, None))"

definition cancel_take_profit :: "exec_env \<Rightarrow> position_executor \<Rightarrow> position_executor outcome" where
  "cancel_take_profit env x =
     (case take_profit_limit_order x of
        None \<Rightarrow> (x, Some AttributeError) | Some t \<Rightarrow> (log_call (CancelOrder (to_order_id t)) x, None))"

definition live_order :: "exec_env \<Rightarrow> tracked_order option \<Rightarrow> bool" where
  "live_order env t = (case t of None \<Rightarrow> False | Some t' \<Rightarrow> to_is_open env t')"

definition cancel_open_orders :: "exec_env \<Rightarrow> position_executor \<Rightarrow> position_executor outcome" where
  "cancel_open_orders env x =
     obind (if live_order env (open_order x) then cancel_open_order env x else (x, None)) (\<lambda>x1.
     if live_order env (take_profit_limit_order x1) then cancel_take_profit env x1 else (x1, None))"

definition place_take_profit_limit_order :: "exec_env \<Rightarrow> position_executor \<Rightarrow> position_executor outcome" where
  "place_take_profit_limit_order env x =
     try_value x (amount_to_close env x) (\<lambda>amount.
     try_value x (take_profit_price env x) (\<lambda>price.
       let (x1, oid) = place_order env (tb_take_profit_order_type (barriers x)) (close_order_side x) amount
                         (Fin price) (close_position_action env x) x;
           (x2, cell) = new_cell x1 oid
       in (x2\<lparr>pe_take_profit_limit_order := Some cell\<rparr>, None)))"

definition renew_take_profit_order :: "exec_env \<Rightarrow> position_executor \<Rightarrow> position_executor outcome" where
  "renew_take_profit_order env x =
     obind (cancel_take_profit env x) (\<lambda>x1. place_take_profit_limit_order env x1)"

definition begin_close :: "exec_env \<Rightarrow> close_type \<Rightarrow> position_executor \<Rightarrow> position_executor" where
  "begin_close env ct x =
     x\<lparr>ex_close_type := Some ct, ex_close_timestamp := Some (env_now env), ex_status := SHUTTING_DOWN\<rparr>"

definition place_close_order_and_cancel_open_orders ::
  "exec_env \<Rightarrow> close_type \<Rightarrow> pdecimal \<Rightarrow> position_executor \<Rightarrow> position_executor outcome" where
  "place_close_order_and_cancel_open_orders env ct price x =
     obind (cancel_open_orders env x) (\<lambda>x1.
     try_value x1 (amount_to_close env x1) (\<lambda>amount.
     if amount \<ge> min_order_size (pe_trading_rule x1) \<and> ct \<noteq> POSITION_HOLD
     then let (x2, oid) = place_order env MARKET (close_order_side x1) amount price
                            (close_position_action env x1) x1;
              (x3, cell) = new_cell x2 oid
          in (begin_close env ct (x3\<lparr>pe_close_order := Some cell\<rparr>), None)
     else (begin_close env ct x1, None)))"

section \<open>Barriers\<close>

definition truthy_dec :: "decimal option \<Rightarrow> bool" where
  "truthy_dec d = (case d of None \<Rightarrow> False | Some x \<Rightarrow> x \<noteq> 0)"

definition control_stop_loss :: "exec_env \<Rightarrow> position_executor \<Rightarrow> position_executor outcome" where
  "control_stop_loss env x =
     (case tb_stop_loss (barriers x) of
        None \<Rightarrow> (x, None)
      | Some sl \<Rightarrow>
          (if sl = 0 then (x, None)
           else try_value x (get_net_pnl_pct env x) (\<lambda>pnl.
             if pnl \<le> - sl then place_close_order_and_cancel_open_orders env STOP_LOSS NaN x else (x, None))))"

definition control_take_profit :: "exec_env \<Rightarrow> position_executor \<Rightarrow> position_executor outcome" where
  "control_take_profit env x =
     (case tb_take_profit (barriers x) of
        None \<Rightarrow> (x, None)
      | Some tp \<Rightarrow>
          (if tp = 0 then (x, None)
           else if is_limit_type (tb_take_profit_order_type (barriers x))
           then try_value x (take_profit_price env x) (\<lambda>price.
                try_value x (is_within_activation_bounds env x price (close_order_side x)
                               (tb_take_profit_order_type (barriers x))) (\<lambda>inside.
                case take_profit_limit_order x of
                  None \<Rightarrow> if inside then place_take_profit_limit_order env x else (x, None)
                | Some t \<Rightarrow>
                    (if to_is_open env t \<and> \<not> to_is_filled env t \<and> \<not> inside then cancel_take_profit env x
                     else (x, None))))
           else try_value x (get_net_pnl_pct env x) (\<lambda>pnl.
                if pnl \<ge> tp then place_close_order_and_cancel_open_orders env TAKE_PROFIT NaN x else (x, None))))"

definition control_time_limit :: "exec_env \<Rightarrow> position_executor \<Rightarrow> position_executor outcome" where
  "control_time_limit env x =
     (if is_expired env x then place_close_order_and_cancel_open_orders env TIME_LIMIT NaN x else (x, None))"

text \<open>A trigger of zero counts as not set.\<close>

definition raise_trigger :: "decimal \<Rightarrow> decimal \<Rightarrow> decimal \<Rightarrow> position_executor \<Rightarrow> position_executor" where
  "raise_trigger pnl delta trigger x =
     (if pnl - delta > trigger then x\<lparr>pe_trailing_stop_trigger_pct := Some (pnl - delta)\<rparr> else x)"

definition control_trailing_stop :: "exec_env \<Rightarrow> position_executor \<Rightarrow> position_executor outcome" where
  "control_trailing_stop env x =
     (case tb_trailing_stop (barriers x) of
        None \<Rightarrow> (x, None)
      | Some ts \<Rightarrow>
          try_value x (get_net_pnl_pct env x) (\<lambda>pnl.
          if \<not> truthy_dec (pe_trailing_stop_trigger_pct x)
          then (if pnl > ts_activation_price ts
                then (x\<lparr>pe_trailing_stop_trigger_pct := Some (pnl - ts_trailing_delta ts)\<rparr>, None)
                else (x, None))
          else (let trigger = the (pe_trailing_stop_trigger_pct x) in
            obind (if pnl < trigger then place_close_order_and_cancel_open_orders env TRAILING_STOP NaN x
                   else (x, None)) (\<lambda>x1. (raise_trigger pnl (ts_trailing_delta ts) trigger x1, None)))))"

definition open_order_matters :: "exec_env \<Rightarrow> position_executor \<Rightarrow> bool py_result" where
  "open_order_matters env x =
     (case open_order x of
        None \<Rightarrow> Inr False
      | Some t \<Rightarrow>
          (if \<not> to_is_filled env t then Inr False
           else ebind (open_filled_amount env x) (\<lambda>a.
             if a < min_order_size (pe_trading_rule x) then Inr False
             else ebind (open_filled_amount_quote env x) (\<lambda>q. Inr (q \<ge> min_notional_size (pe_trading_rule x))))))"

text \<open>The next control runs only while the executor is still running.\<close>

definition while_running ::
  "(position_executor \<Rightarrow> position_executor outcome) \<Rightarrow> position_executor \<Rightarrow> position_executor outcome" where
  "while_running f x = (if ex_status x \<noteq> RUNNING then (x, None) else f x)"

definition control_barriers :: "exec_env \<Rightarrow> position_executor \<Rightarrow> position_executor outcome" where
  "control_barriers env x =
     try_value x (open_order_matters env x) (\<lambda>matters.
     if matters
     then obind (control_stop_loss env x) (while_running (\<lambda>x1.
          obind (control_trailing_stop env x1) (while_running (\<lambda>x2.
          obind (control_take_profit env x2) (while_running (control_time_limit env))))))
     else control_time_limit env x)"

definition control_open_order :: "exec_env \<Rightarrow> position_executor \<Rightarrow> position_executor outcome" where
  "control_open_order env x =
     (let inside = is_within_activation_bounds env x (pe_entry_price x) (side x) (tb_open_order_type (barriers x))
      in case open_order x of
           None \<Rightarrow> try_value x inside (\<lambda>w. if w then place_open_order env x else (x, None))
         | Some t \<Rightarrow>
             (if tracked env t \<noteq> None \<and> \<not> to_is_filled env t
              then try_value x inside (\<lambda>w. if \<not> w then cancel_open_order env x else (x, None))
              else (x, None)))"

section \<open>Shutdown\<close>

definition done_or_absent :: "exec_env \<Rightarrow> tracked_order option \<Rightarrow> bool" where
  "done_or_absent env t = (case t of None \<Rightarrow> True | Some t' \<Rightarrow> to_is_done env t')"

definition all_orders_completed :: "exec_env \<Rightarrow> position_executor \<Rightarrow> bool" where
  "all_orders_completed env x =
     (done_or_absent env (open_order x) \<and> done_or_absent env (take_profit_limit_order x)
      \<and> done_or_absent env (close_order x))"

definition filled_order :: "exec_env \<Rightarrow> tracked_order option \<Rightarrow> bool" where
  "filled_order env t = (case t of None \<Rightarrow> False | Some t' \<Rightarrow> to_is_filled env t')"

definition open_and_close_volume_match :: "exec_env \<Rightarrow> position_executor \<Rightarrow> bool py_result" where
  "open_and_close_volume_match env x =
     ebind (open_filled_amount env x) (\<lambda>a. Inr (if a = 0 then True else filled_order env (close_order x)))"

definition hold_order ::
  "exec_env \<Rightarrow> tracked_order option \<Rightarrow> position_executor \<Rightarrow> position_executor outcome" where
  "hold_order env t x =
     (if filled_order env t
      then (case t of
              None \<Rightarrow> (x, None)
            | Some t' \<Rightarrow> (case tracked env t' of
                None \<Rightarrow> (x, None)
              | Some ord \<Rightarrow> try_value x (order_to_json (env_rate env) ord) (\<lambda>j.
                  (x\<lparr>ex_held_position_orders := ex_held_position_orders x @ [j]\<rparr>, None))))
      else (x, None))"

definition control_close_order :: "exec_env \<Rightarrow> position_executor \<Rightarrow> position_executor outcome" where
  "control_close_order env x =
     (case pe_close_order x of
        Some cell \<Rightarrow>
          (let t = pe_cells x cell;
               found = (case to_order t of None \<Rightarrow> get_in_flight_order env (to_order_id t) | Some a \<Rightarrow> Some a)
           in case found of
                Some a \<Rightarrow>
                  (log_call (RequestOrderUpdate (to_order_id t))
                     (x\<lparr>pe_cells := (pe_cells x)(cell := t\<lparr>to_order := Some a\<rparr>)\<rparr>), None)
              | None \<Rightarrow>
                  (x\<lparr>pe_failed_orders := pe_failed_orders x @ [cell], pe_close_order := None\<rparr>, None))
      | None \<Rightarrow>
          (case ex_close_type x of
             None \<Rightarrow> (x, Some TypeError)
           | Some ct \<Rightarrow> place_close_order_and_cancel_open_orders env ct NaN x))"

definition control_shutdown_process :: "exec_env \<Rightarrow> position_executor \<Rightarrow> position_executor outcome" where
  "control_shutdown_process env x =
     (let x0 = x\<lparr>ex_close_timestamp := Some (env_now env)\<rparr> in
      if all_orders_completed env x0
      then (if ex_close_type x0 = Some POSITION_HOLD
            then obind (hold_order env (open_order x0) x0) (\<lambda>x1.
                 obind (hold_order env (close_order x1) x1) (\<lambda>x2.
                 let x3 = (if ex_held_position_orders x2 = [] then x2\<lparr>ex_close_type := Some EARLY_STOP\<rparr> else x2)
                 in (executor_stop env x3, None)))
            else try_value x0 (open_and_close_volume_match env x0) (\<lambda>matched.
                 if matched then (executor_stop env x0, None)
                 else obind (control_close_order env x0) (\<lambda>x1.
                        (x1\<lparr>ex_current_retries := ex_current_retries x1 + 1\<rparr>, None))))
      else cancel_open_orders env x0)"

definition control_task :: "exec_env \<Rightarrow> position_executor \<Rightarrow> position_executor outcome" where
  "control_task env x =
     (if ex_status x = RUNNING then obind (control_open_order env x) (control_barriers env)
      else if ex_status x = SHUTTING_DOWN then control_shutdown_process env x
      else (x, None))"

definition early_stop :: "bool \<Rightarrow> position_executor \<Rightarrow> position_executor" where
  "early_stop keep_position x =
     x\<lparr>ex_close_type := Some (if keep_position then POSITION_HOLD else EARLY_STOP), ex_status := SHUTTING_DOWN\<rparr>"

section \<open>Starting\<close>

definition position_candidate :: "decimal \<Rightarrow> position_executor \<Rightarrow> order_candidate" where
  "position_candidate price x =
     new_order_candidate (pc_trading_pair (pe_config x)) (is_limit_type (tb_open_order_type (barriers x)))
       (tb_open_order_type (barriers x)) (side x) (pc_amount (pe_config x)) price False
       (if is_perpetual x then Perpetual (of_int (pc_leverage (pe_config x))) False else Spot)"

definition validate_sufficient_balance ::
  "exec_env \<Rightarrow> locked_collateral \<Rightarrow> position_executor \<Rightarrow> position_executor outcome" where
  "validate_sufficient_balance env locked x =
     try_value x (entry_price env x) (\<lambda>price.
     try_value x (adjust_candidates (if is_perpetual x then PerpetualChecker else SpotChecker)
                    (env_exchange env) True locked [position_candidate price x]) (\<lambda>(_, cs).
     try_value x (py_nth cs 0) (\<lambda>c.
     if oc_amount c = 0
     then (executor_stop env (x\<lparr>ex_close_type := Some INSUFFICIENT_BALANCE\<rparr>), None)
     else (x, None))))"

definition on_start :: "exec_env \<Rightarrow> locked_collateral \<Rightarrow> position_executor \<Rightarrow> position_executor outcome" where
  "on_start env locked x =
     obind (validate_sufficient_balance env locked x) (\<lambda>x1.
     if is_expired env x1 then (executor_stop env (x1\<lparr>ex_close_type := Some EXPIRED\<rparr>), None) else (x1, None))"

section \<open>Events\<close>

definition holds_id :: "position_executor \<Rightarrow> nat option \<Rightarrow> string \<Rightarrow> bool" where
  "holds_id x c oid = (case c of None \<Rightarrow> False | Some cell \<Rightarrow> to_order_id (pe_cells x cell) = oid)"

definition set_cell_order :: "nat option \<Rightarrow> address option \<Rightarrow> position_executor \<Rightarrow> position_executor" where
  "set_cell_order c a x =
     (case c of None \<Rightarrow> x | Some cell \<Rightarrow>
        x\<lparr>pe_cells := (pe_cells x)(cell := (pe_cells x cell)\<lparr>to_order := a\<rparr>)\<rparr>)"

definition update_tracked_orders_with_order_id :: "exec_env \<Rightarrow> string \<Rightarrow> position_executor \<Rightarrow> position_executor" where
  "update_tracked_orders_with_order_id env oid x =
     (let a = get_in_flight_order env oid in
      if holds_id x (pe_open_order x) oid then set_cell_order (pe_open_order x) a x
      else if holds_id x (pe_close_order x) oid then set_cell_order (pe_close_order x) a x
      else if holds_id x (pe_take_profit_limit_order x) oid then set_cell_order (pe_take_profit_limit_order x) a x
      else x)"

definition process_order_created_event :: "exec_env \<Rightarrow> string \<Rightarrow> position_executor \<Rightarrow> position_executor" where
  "process_order_created_event env oid x = update_tracked_orders_with_order_id env oid x"

definition process_order_filled_event :: "exec_env \<Rightarrow> string \<Rightarrow> position_executor \<Rightarrow> position_executor" where
  "process_order_filled_event env oid x = update_tracked_orders_with_order_id env oid x"

definition process_order_completed_event ::
  "exec_env \<Rightarrow> string \<Rightarrow> decimal \<Rightarrow> position_executor \<Rightarrow> position_executor" where
  "process_order_completed_event env oid base_asset_amount x =
     (let x1 = update_tracked_orders_with_order_id env oid
                 (x\<lparr>pe_total_executed_amount_backup := pe_total_executed_amount_backup x + base_asset_amount\<rparr>)
      in if holds_id x1 (pe_take_profit_limit_order x1) oid
         then x1\<lparr>ex_close_type := Some TAKE_PROFIT, pe_close_order := pe_take_profit_limit_order x1,
                 ex_status := SHUTTING_DOWN\<rparr>
         else x1)"

definition fail_cell :: "nat option \<Rightarrow> position_executor \<Rightarrow> position_executor" where
  "fail_cell c x = (case c of None \<Rightarrow> x | Some cell \<Rightarrow> x\<lparr>pe_failed_orders := pe_failed_orders x @ [cell]\<rparr>)"

definition process_order_canceled_event :: "exec_env \<Rightarrow> string \<Rightarrow> position_executor \<Rightarrow> position_executor" where
  "process_order_canceled_event env oid x =
     (let x1 = (if holds_id x (pe_close_order x) oid
                then (fail_cell (pe_close_order x) x)\<lparr>pe_close_order := None\<rparr> else x);
          x2 = (if holds_id x1 (pe_open_order x1) oid
                then (fail_cell (pe_open_order x1) x1)\<lparr>pe_open_order := None\<rparr> else x1)
      in if holds_id x2 (pe_take_profit_limit_order x2) oid
         then (fail_cell (pe_take_profit_limit_order x2) x2)\<lparr>pe_take_profit_limit_order := None\<rparr> else x2)"

definition process_order_failed_event :: "exec_env \<Rightarrow> string \<Rightarrow> position_executor \<Rightarrow> position_executor" where
  "process_order_failed_event env oid x =
     (if holds_id x (pe_open_order x) oid
      then (fail_cell (pe_open_order x) x)\<lparr>pe_open_order := None, ex_current_retries := ex_current_retries x + 1\<rparr>
      else if holds_id x (pe_close_order x) oid
      then (fail_cell (pe_close_order x) x)\<lparr>pe_close_order := None, ex_current_retries := ex_current_retries x + 1\<rparr>
      else if holds_id x (pe_take_profit_limit_order x) oid
      then (fail_cell (pe_take_profit_limit_order x) x)\<lparr>pe_take_profit_limit_order := None\<rparr>
      else x)"

section \<open>All interleavings\<close>

text \<open>
  Events reach the executor while it is registered; the control loop runs until it is told to end;
  the owner may call \<open>early_stop\<close> at any time. A raised exception is logged and the loop goes on.
\<close>

inductive pe_step :: "position_executor \<Rightarrow> position_executor \<Rightarrow> bool" where
  start: "pe_step x (executor_start x)"
| on_start: "ex_status x = RUNNING \<Longrightarrow> pe_step x (fst (on_start env locked x))"
| round: "\<not> ex_terminated x \<Longrightarrow> pe_step x (fst (control_round control_task env x))"
| early_stop: "pe_step x (early_stop keep_position x)"
| created: "ex_registered x \<Longrightarrow> pe_step x (process_order_created_event env oid x)"
| filled: "ex_registered x \<Longrightarrow> pe_step x (process_order_filled_event env oid x)"
| completed: "ex_registered x \<Longrightarrow> pe_step x (process_order_completed_event env oid amount x)"
| canceled: "ex_registered x \<Longrightarrow> pe_step x (process_order_canceled_event env oid x)"
| failed: "ex_registered x \<Longrightarrow> pe_step x (process_order_failed_event env oid x)"

inductive pe_reachable :: "exec_env \<Rightarrow> position_executor_config \<Rightarrow> int \<Rightarrow> position_executor \<Rightarrow> bool"
  for env0 cfg retries where
  new: "new_position_executor env0 cfg retries = Inr x \<Longrightarrow> pe_reachable env0 cfg retries x"
| step: "pe_reachable env0 cfg retries x \<Longrightarrow> pe_step x y \<Longrightarrow> pe_reachable env0 cfg retries y"

end
