(* ===== verification/Position_Safety.thy ===== *)
theory Position_Safety
  imports Position_Executor
begin

text \<open>
  What the position executor guarantees: how each barrier closes the position, that the trailing
  stop only ratchets up, that an executor shutting down never opens, what every reachable state
  keeps, and when the shutdown ends.
\<close>

section \<open>Quiet steps\<close>

text \<open>Only calls that place no order were added to the log.\<close>

definition quiet :: "position_executor \<Rightarrow> position_executor \<Rightarrow> bool" where
  "quiet x x' \<longleftrightarrow> (\<exists>cs. placed_ids cs = [] \<and> x' = x\<lparr>ex_calls := ex_calls x @ cs\<rparr>)"

lemma quiet_refl [simp]: "quiet x x"
  unfolding quiet_def by (rule exI [of _ "[]"]) simp

lemma quiet_cancel: "quiet x (log_call (CancelOrder oid) x)"
  unfolding quiet_def log_call_def by (rule exI [of _ "[CancelOrder oid]"]) simp

lemma quiet_trans:
  assumes "quiet x y" and "quiet y z"
  shows "quiet x z"
proof -
  obtain cs ds where "placed_ids cs = []" "y = x\<lparr>ex_calls := ex_calls x @ cs\<rparr>"
    "placed_ids ds = []" "z = y\<lparr>ex_calls := ex_calls y @ ds\<rparr>"
    using assms unfolding quiet_def by blast
  then show ?thesis unfolding quiet_def by (intro exI [of _ "cs @ ds"]) simp
qed

lemma cancel_open_orders_quiet: "\<exists>x'. cancel_open_orders env x = (x', None) \<and> quiet x x'"
proof -
  have 1: "\<exists>x1. (if live_order env (open_order x) then cancel_open_order env x else (x, None)) = (x1, None) \<and> quiet x x1"
    for x by (auto simp: live_order_def cancel_open_order_def quiet_cancel split: option.splits)
  have 2: "\<exists>x1. (if live_order env (take_profit_limit_order x) then cancel_take_profit env x else (x, None)) = (x1, None)
      \<and> quiet x x1"
    for x by (auto simp: live_order_def cancel_take_profit_def quiet_cancel split: option.splits)
  from 1 [of x] 2 quiet_trans show ?thesis unfolding cancel_open_orders_def by fastforce
qed

text \<open>What the log does not enter.\<close>

lemma reads_calls [simp]:
  "open_order (x\<lparr>ex_calls := cs\<rparr>) = open_order x" "close_order (x\<lparr>ex_calls := cs\<rparr>) = close_order x"
  "take_profit_limit_order (x\<lparr>ex_calls := cs\<rparr>) = take_profit_limit_order x"
  by (simp_all add: open_order_def close_order_def take_profit_limit_order_def)

lemma reads_calls_amounts [simp]:
  "open_filled_amount env (x\<lparr>ex_calls := cs\<rparr>) = open_filled_amount env x"
  "close_filled_amount env (x\<lparr>ex_calls := cs\<rparr>) = close_filled_amount env x"
  "entry_price env (x\<lparr>ex_calls := cs\<rparr>) = entry_price env x"
  by (simp_all add: open_filled_amount_def close_filled_amount_def entry_price_def cong: option.case_cong)

lemma quiet_frame:
  assumes "quiet x x'"
  shows "ex_status x' = ex_status x" "ex_close_type x' = ex_close_type x" "pe_config x' = pe_config x"
    "pe_cells x' = pe_cells x" "pe_next_cell x' = pe_next_cell x" "pe_open_order x' = pe_open_order x"
    "pe_close_order x' = pe_close_order x" "pe_take_profit_limit_order x' = pe_take_profit_limit_order x"
    "pe_failed_orders x' = pe_failed_orders x" "pe_trading_rule x' = pe_trading_rule x"
    "pe_trailing_stop_trigger_pct x' = pe_trailing_stop_trigger_pct x" "pe_entry_price x' = pe_entry_price x"
    "ex_current_retries x' = ex_current_retries x" "ex_max_retries x' = ex_max_retries x"
    "ex_terminated x' = ex_terminated x"
    "placed_ids (ex_calls x') = placed_ids (ex_calls x)"
    "amount_to_close env x' = amount_to_close env x" "close_order_side x' = close_order_side x"
    "close_position_action env x' = close_position_action env x"
    "take_profit_price env x' = take_profit_price env x" "entry_price env x' = entry_price env x"
  using assms
  by (auto simp: quiet_def amount_to_close_def close_order_side_def close_position_action_def
      is_perpetual_def take_profit_price_def cong: if_cong)

section \<open>Placing the close order\<close>

definition closing_call :: "exec_env \<Rightarrow> position_executor \<Rightarrow> string \<Rightarrow> decimal \<Rightarrow> pdecimal \<Rightarrow> strategy_call" where
  "closing_call env x oid amount price =
     PlaceOrder oid MARKET (close_order_side x) amount price (close_position_action env x)"

lemma close_order_side_normal [simp]: "(if close_order_side x = BUY then BUY else SELL) = close_order_side x"
  by (simp add: close_order_side_def)

lemma place_close_effect:
  assumes amount: "amount_to_close env x = Inr a"
  shows "\<exists>x' cs oid. place_close_order_and_cancel_open_orders env ct price x = (x', None)
    \<and> ex_status x' = SHUTTING_DOWN \<and> ex_close_type x' = Some ct \<and> ex_close_timestamp x' = Some (env_now env)
    \<and> placed_ids cs = []
    \<and> (if a \<ge> min_order_size (pe_trading_rule x) \<and> ct \<noteq> POSITION_HOLD
       then ex_calls x' = ex_calls x @ cs @ [closing_call env x oid a price]
            \<and> close_order x' = Some \<lparr>to_order_id = oid, to_order = None\<rparr>
       else ex_calls x' = ex_calls x @ cs \<and> pe_close_order x' = pe_close_order x)"
proof -
  obtain x1 where x1: "cancel_open_orders env x = (x1, None)" "quiet x x1"
    using cancel_open_orders_quiet by blast
  then obtain cs where cs: "placed_ids cs = []" "x1 = x\<lparr>ex_calls := ex_calls x @ cs\<rparr>"
    unfolding quiet_def by blast
  note f = quiet_frame [OF x1(2)]
  show ?thesis
  proof (cases "a \<ge> min_order_size (pe_trading_rule x) \<and> ct \<noteq> POSITION_HOLD")
    case True
    let ?oid = "next_order_id env x1"
    show ?thesis
      using True x1(1) amount f cs
      by (intro exI [of _ "fst (place_close_order_and_cancel_open_orders env ct price x)"] exI [of _ cs] exI [of _ ?oid])
        (simp add: place_close_order_and_cancel_open_orders_def place_order_def new_cell_def begin_close_def
          log_call_def closing_call_def close_order_def Let_def)
  next
    case False
    then have "place_close_order_and_cancel_open_orders env ct price x = (begin_close env ct x1, None)"
      using x1(1) amount f by (auto simp: place_close_order_and_cancel_open_orders_def)
    with False cs f show ?thesis by (auto simp: begin_close_def)
  qed
qed

lemma place_close_error:
  "amount_to_close env x = Inl e \<Longrightarrow>
   \<exists>x1. place_close_order_and_cancel_open_orders env ct price x = (x1, Some e) \<and> quiet x x1"
  using cancel_open_orders_quiet [of env x] quiet_frame(17)
  by (fastforce simp: place_close_order_and_cancel_open_orders_def)

section \<open>Barriers\<close>

text \<open>
  C11: A running position whose net result is at or below the stop loss is closed at once: the
  control of the barriers ends with the executor shutting down for STOP_LOSS, having cancelled
  what is open and placed, if the remaining amount reaches the minimum order size, exactly one
  market order over the whole remaining amount on the opposite side, tracked as the close order.
\<close>

theorem stop_loss_closes_position:
  assumes run: "ex_status x = RUNNING" and big: "open_order_matters env x = Inr True"
    and sl: "tb_stop_loss (barriers x) = Some sl" "sl \<noteq> 0"
    and pnl: "get_net_pnl_pct env x = Inr pnl" "pnl \<le> - sl"
    and amount: "amount_to_close env x = Inr a"
  shows "\<exists>x' cs oid. control_barriers env x = (x', None)
    \<and> ex_status x' = SHUTTING_DOWN \<and> ex_close_type x' = Some STOP_LOSS \<and> placed_ids cs = []
    \<and> (if a \<ge> min_order_size (pe_trading_rule x)
       then ex_calls x' = ex_calls x @ cs @ [closing_call env x oid a NaN]
            \<and> close_order x' = Some \<lparr>to_order_id = oid, to_order = None\<rparr>
       else ex_calls x' = ex_calls x @ cs)"
proof -
  obtain x' cs oid where e: "place_close_order_and_cancel_open_orders env STOP_LOSS NaN x = (x', None)"
    "ex_status x' = SHUTTING_DOWN" "ex_close_type x' = Some STOP_LOSS" "placed_ids cs = []"
    "if a \<ge> min_order_size (pe_trading_rule x)
     then ex_calls x' = ex_calls x @ cs @ [closing_call env x oid a NaN]
          \<and> close_order x' = Some \<lparr>to_order_id = oid, to_order = None\<rparr>
     else ex_calls x' = ex_calls x @ cs"
    using place_close_effect [OF amount, of STOP_LOSS NaN] by (auto split: if_splits)
  have "control_barriers env x = (x', None)"
    using run big sl pnl e(1,2)
    by (simp add: control_barriers_def control_stop_loss_def while_running_def)
  with e show ?thesis by blast
qed

text \<open>
  The trailing stop ratchets. With a trigger set (and not zero), a round either closes the
  position for TRAILING_STOP, exactly when the net result is below the trigger, or leaves the
  executor as it is with the trigger raised to the net result less the delta if that is higher.
\<close>

theorem trailing_stop_ratchets:
  assumes ts: "tb_trailing_stop (barriers x) = Some ts"
    and trigger: "pe_trailing_stop_trigger_pct x = Some t" "t \<noteq> 0"
    and pnl: "get_net_pnl_pct env x = Inr pnl" and amount: "amount_to_close env x = Inr a"
  shows "\<exists>x'. control_trailing_stop env x = (x', None) \<and>
     (if pnl < t then ex_status x' = SHUTTING_DOWN \<and> ex_close_type x' = Some TRAILING_STOP
      else x' = x\<lparr>pe_trailing_stop_trigger_pct := Some (max t (pnl - ts_trailing_delta ts))\<rparr>)"
proof (cases "pnl < t")
  case True
  obtain x' where "place_close_order_and_cancel_open_orders env TRAILING_STOP NaN x = (x', None)"
    "ex_status x' = SHUTTING_DOWN" "ex_close_type x' = Some TRAILING_STOP"
    using place_close_effect [OF amount, of TRAILING_STOP NaN] by auto
  with True assms show ?thesis
    by (auto simp: control_trailing_stop_def truthy_dec_def raise_trigger_def)
next
  case False
  with assms show ?thesis
    by (auto simp: control_trailing_stop_def truthy_dec_def raise_trigger_def max_def)
qed

text \<open>
  A trailing trigger of exactly zero counts as not set: with a net result that does not exceed
  the activation the control does nothing, however deep the loss.
\<close>

theorem zero_trailing_trigger_ignored:
  assumes "tb_trailing_stop (barriers x) = Some ts" and "pe_trailing_stop_trigger_pct x = Some 0"
    and "get_net_pnl_pct env x = Inr pnl" and "pnl \<le> ts_activation_price ts"
  shows "control_trailing_stop env x = (x, None)"
  using assms by (simp add: control_trailing_stop_def truthy_dec_def)

text \<open>
  The profit of a position in quote is the price difference times the filled amount, on the
  side of the position, whatever the entry price it is divided by on the way.
\<close>

theorem trade_pnl_quote_difference:
  assumes "open_filled_amount env x = Inr a" and "entry_price env x = Inr ep" and "close_price env x = Inr cp"
    and "a \<noteq> 0" and "ep \<noteq> 0" and "ex_close_type x \<notin> {Some FAILED_CLOSE, Some POSITION_HOLD}"
  shows "trade_pnl_quote env x = Inr (if side x = BUY then (cp - ep) * a else (ep - cp) * a)"
  using assms by (simp add: trade_pnl_quote_def trade_pnl_pct_def)

section \<open>Shutting down\<close>

lemma hold_order_quiet:
  "ex_calls (fst (hold_order env t x)) = ex_calls x \<and> ex_status (fst (hold_order env t x)) = ex_status x
   \<and> ex_terminated (fst (hold_order env t x)) = ex_terminated x"
  by (cases "t"; cases "tracked env (the t)"; cases "order_to_json (env_rate env) (the (tracked env (the t)))")
    (auto simp: hold_order_def)

text \<open>The calls a closing round adds: at most one order, a market order over what remains.\<close>

definition closing_calls :: "exec_env \<Rightarrow> position_executor \<Rightarrow> strategy_call list \<Rightarrow> bool" where
  "closing_calls env x cs \<longleftrightarrow>
     placed_ids cs = [] \<or>
     (\<exists>ds oid a. placed_ids ds = [] \<and> cs = ds @ [closing_call env x oid a NaN] \<and>
        amount_to_close env x = Inr a \<and> a \<ge> min_order_size (pe_trading_rule x))"

lemma place_close_calls:
  "\<exists>cs. ex_calls (fst (place_close_order_and_cancel_open_orders env ct NaN x)) = ex_calls x @ cs \<and> closing_calls env x cs"
proof (cases "amount_to_close env x")
  case (Inl e)
  then obtain x1 where x1: "place_close_order_and_cancel_open_orders env ct NaN x = (x1, Some e)" "quiet x x1"
    using place_close_error by blast
  then obtain cs where "placed_ids cs = []" "ex_calls x1 = ex_calls x @ cs"
    by (auto simp: quiet_def)
  with x1(1) show ?thesis by (auto simp: closing_calls_def)
next
  case (Inr a)
  obtain x' cs oid where e: "place_close_order_and_cancel_open_orders env ct NaN x = (x', None)" "placed_ids cs = []"
    "if a \<ge> min_order_size (pe_trading_rule x) \<and> ct \<noteq> POSITION_HOLD
     then ex_calls x' = ex_calls x @ cs @ [closing_call env x oid a NaN]
          \<and> close_order x' = Some \<lparr>to_order_id = oid, to_order = None\<rparr>
     else ex_calls x' = ex_calls x @ cs \<and> pe_close_order x' = pe_close_order x"
    using place_close_effect [OF Inr, of ct NaN] by blast
  show ?thesis
  proof (cases "a \<ge> min_order_size (pe_trading_rule x) \<and> ct \<noteq> POSITION_HOLD")
    case True
    with e Inr show ?thesis
      by (intro exI [of _ "cs @ [closing_call env x oid a NaN]"]) (auto simp: closing_calls_def)
  next
    case False
    with e show ?thesis by (intro exI [of _ cs]) (auto simp: closing_calls_def)
  qed
qed

lemma control_close_order_calls:
  "\<exists>cs. ex_calls (fst (control_close_order env x)) = ex_calls x @ cs \<and> closing_calls env x cs"
proof (cases "pe_close_order x")
  case None
  then show ?thesis
    using place_close_calls [of env _ x]
    by (cases "ex_close_type x") (simp_all add: control_close_order_def closing_calls_def)
next
  case (Some cell)
  then show ?thesis
    by (auto simp: control_close_order_def log_call_def closing_calls_def Let_def split: option.split)
qed

lemma closing_calls_timestamp:
  "closing_calls env (x\<lparr>ex_close_timestamp := t\<rparr>) cs = closing_calls env x cs"
  by (simp add: closing_calls_def closing_call_def amount_to_close_def open_filled_amount_def close_filled_amount_def
      open_order_def close_order_def close_order_side_def close_position_action_def is_perpetual_def
      cong: option.case_cong)

lemma shutdown_calls:
  "\<exists>cs. ex_calls (fst (control_shutdown_process env x)) = ex_calls x @ cs \<and> closing_calls env x cs"
proof -
  let ?x0 = "x\<lparr>ex_close_timestamp := Some (env_now env)\<rparr>"
  obtain c1 where "cancel_open_orders env ?x0 = (c1, None)" "quiet ?x0 c1"
    using cancel_open_orders_quiet by blast
  then have cancel: "\<exists>cs. ex_calls (fst (cancel_open_orders env ?x0)) = ex_calls x @ cs \<and> closing_calls env x cs"
    by (auto simp: quiet_def closing_calls_def)
  have hold: "ex_calls (fst (obind (hold_order env (open_order ?x0) ?x0) (\<lambda>x1.
        obind (hold_order env (close_order x1) x1) (\<lambda>x2.
        let x3 = (if ex_held_position_orders x2 = [] then x2\<lparr>ex_close_type := Some EARLY_STOP\<rparr> else x2)
        in (executor_stop env x3, None))))) = ex_calls x"
    by (rule obind_fst_inv [where P = "\<lambda>y. ex_calls y = ex_calls x"]
          obind_fst_inv [where P = "\<lambda>y. ex_calls y = ex_calls x" and m = "hold_order env _ _"] | simp add: hold_order_quiet Let_def)+
  obtain cs where cs: "ex_calls (fst (control_close_order env ?x0)) = ex_calls x @ cs" "closing_calls env x cs"
    using control_close_order_calls [of env ?x0] by (auto simp: closing_calls_timestamp)
  then have close: "ex_calls (fst (obind (control_close_order env ?x0) (\<lambda>x1.
        (x1\<lparr>ex_current_retries := ex_current_retries x1 + 1\<rparr>, None)))) = ex_calls x @ cs"
    by (auto simp: obind_def split: prod.split option.split)
  have nil: "closing_calls env x []" by (simp add: closing_calls_def)
  show ?thesis
  proof (cases "all_orders_completed env ?x0")
    case False
    with cancel show ?thesis by (simp add: control_shutdown_process_def Let_def)
  next
    case completed: True
    show ?thesis
    proof (cases "ex_close_type x = Some POSITION_HOLD")
      case True
      with completed hold nil show ?thesis
        by (intro exI [of _ "[]"]) (simp add: control_shutdown_process_def Let_def)
    next
      case False
      show ?thesis
      proof (cases "open_and_close_volume_match env ?x0")
        case (Inl e)
        with completed False nil show ?thesis by (intro exI [of _ "[]"]) (simp add: control_shutdown_process_def Let_def)
      next
        case (Inr matched)
        with completed False nil close cs(2) show ?thesis
          by (cases matched) (auto simp: control_shutdown_process_def Let_def)
      qed
    qed
  qed
qed

text \<open>
  C12: An executor that is shutting down never opens: whatever one round of its control loop asks
  of the strategy, it places at most one order, a market order on the closing side over exactly
  the amount still to close, and none below the minimum order size.
\<close>

theorem shutdown_only_closes:
  assumes "ex_status x = SHUTTING_DOWN"
  shows "\<exists>cs. ex_calls (fst (control_round control_task env x)) = ex_calls x @ cs \<and>
     (placed_ids cs = [] \<or>
      (\<exists>ds oid a. placed_ids ds = [] \<and>
         cs = ds @ [PlaceOrder oid MARKET (close_order_side x) a NaN (close_position_action env x)] \<and>
         amount_to_close env x = Inr a \<and> a \<ge> min_order_size (pe_trading_rule x)))"
proof -
  obtain cs where cs: "ex_calls (fst (control_shutdown_process env x)) = ex_calls x @ cs" "closing_calls env x cs"
    using shutdown_calls by blast
  have "ex_calls (fst (control_round control_task env x)) = (if ex_terminated x then ex_calls x else ex_calls x @ cs)"
    using assms cs(1)
    by (auto simp: control_round_def control_task_def obind_def evaluate_max_retries_def split: prod.split option.split)
  moreover have "closing_calls env x (if ex_terminated x then [] else cs)"
    using cs(2) by (simp add: closing_calls_def)
  ultimately show ?thesis
    unfolding closing_calls_def closing_call_def
    by (intro exI [of _ "if ex_terminated x then [] else cs"]) (auto split: if_splits)
qed

definition run_rounds :: "exec_env list \<Rightarrow> position_executor \<Rightarrow> position_executor" where
  "run_rounds envs x = foldl (\<lambda>y env. fst (control_round control_task env y)) x envs"

definition waiting_for_unknown :: "nat \<Rightarrow> position_executor \<Rightarrow> bool" where
  "waiting_for_unknown cell x \<longleftrightarrow>
     ex_status x = SHUTTING_DOWN \<and> \<not> ex_terminated x \<and> ex_current_retries x \<le> ex_max_retries x \<and>
     pe_close_order x = Some cell \<and> to_order (pe_cells x cell) = None"

lemma waiting_round:
  assumes "waiting_for_unknown cell x"
  shows "waiting_for_unknown cell (fst (control_round control_task env x))"
    and "ex_current_retries (fst (control_round control_task env x)) = ex_current_retries x"
    and "placed_ids (ex_calls (fst (control_round control_task env x))) = placed_ids (ex_calls x)"
proof -
  let ?x0 = "x\<lparr>ex_close_timestamp := Some (env_now env)\<rparr>"
  obtain x1 where x1: "cancel_open_orders env ?x0 = (x1, None)" "quiet ?x0 x1"
    using cancel_open_orders_quiet by blast
  note f = quiet_frame [OF x1(2)]
  have "\<not> all_orders_completed env ?x0"
    using assms by (simp add: all_orders_completed_def done_or_absent_def close_order_def to_is_done_def
        tracked_def waiting_for_unknown_def)
  then have "control_round control_task env x = (x1, None)"
    using assms x1(1) f by (simp add: control_round_def control_task_def control_shutdown_process_def
        waiting_for_unknown_def evaluate_max_retries_def)
  with f assms show "waiting_for_unknown cell (fst (control_round control_task env x))"
    "ex_current_retries (fst (control_round control_task env x)) = ex_current_retries x"
    "placed_ids (ex_calls (fst (control_round control_task env x))) = placed_ids (ex_calls x)"
    by (simp_all add: waiting_for_unknown_def)
qed

text \<open>
  A close order the connector does not know keeps the shutdown waiting for ever: no round,
  whatever the connector answers in it, refreshes the order, gives it up, replaces it or counts a
  retry. (The recovery in \<open>control_close_order\<close> is only reached once every tracked order is done,
  which an unknown order never is.)
\<close>

theorem unknown_close_order_waits_forever:
  assumes "ex_status x = SHUTTING_DOWN" and "\<not> ex_terminated x" and "ex_current_retries x \<le> ex_max_retries x"
    and "pe_close_order x = Some cell" and "to_order (pe_cells x cell) = None"
  shows "ex_status (run_rounds envs x) = SHUTTING_DOWN \<and> pe_close_order (run_rounds envs x) = Some cell
    \<and> to_order (pe_cells (run_rounds envs x) cell) = None
    \<and> ex_current_retries (run_rounds envs x) = ex_current_retries x
    \<and> placed_ids (ex_calls (run_rounds envs x)) = placed_ids (ex_calls x)"
proof -
  have "waiting_for_unknown cell x" using assms by (simp add: waiting_for_unknown_def)
  then have "waiting_for_unknown cell (run_rounds envs x) \<and> ex_current_retries (run_rounds envs x) = ex_current_retries x
      \<and> placed_ids (ex_calls (run_rounds envs x)) = placed_ids (ex_calls x)"
    unfolding run_rounds_def
    by (induction envs arbitrary: x) (simp_all add: waiting_round)
  then show ?thesis by (simp add: waiting_for_unknown_def)
qed

text \<open>A position too small to close: each round counts a retry until the limit ends the executor.\<close>

definition dust :: "exec_env \<Rightarrow> position_executor \<Rightarrow> bool" where
  "dust env x \<longleftrightarrow>
     ex_status x = SHUTTING_DOWN \<and> \<not> ex_terminated x \<and> all_orders_completed env x \<and>
     pe_close_order x = None \<and> (\<exists>ct. ex_close_type x = Some ct \<and> ct \<noteq> POSITION_HOLD) \<and>
     (\<exists>a. open_filled_amount env x = Inr a \<and> a \<noteq> 0 \<and> a < min_order_size (pe_trading_rule x))"

lemma dust_round:
  assumes d: "dust env x"
  shows "ex_current_retries x + 1 \<le> ex_max_retries x \<Longrightarrow>
      dust env (fst (control_round control_task env x)) \<and>
      ex_current_retries (fst (control_round control_task env x)) = ex_current_retries x + 1"
    and "ex_current_retries x + 1 > ex_max_retries x \<Longrightarrow>
      ex_status (fst (control_round control_task env x)) = TERMINATED \<and>
      ex_close_type (fst (control_round control_task env x)) = Some FAILED_CLOSE \<and>
      ex_terminated (fst (control_round control_task env x))"
    and "placed_ids (ex_calls (fst (control_round control_task env x))) = placed_ids (ex_calls x)"
    and "ex_max_retries (fst (control_round control_task env x)) = ex_max_retries x"
proof -
  let ?x0 = "x\<lparr>ex_close_timestamp := Some (env_now env)\<rparr>"
  obtain ct a where s: "ex_status x = SHUTTING_DOWN" "\<not> ex_terminated x" "all_orders_completed env x"
    "pe_close_order x = None" "ex_close_type x = Some ct" "ct \<noteq> POSITION_HOLD"
    "open_filled_amount env x = Inr a" "a \<noteq> 0" "a < min_order_size (pe_trading_rule x)"
    using d unfolding dust_def by blast
  have reads: "open_order (y\<lparr>ex_close_timestamp := t\<rparr>) = open_order y" "close_order (y\<lparr>ex_close_timestamp := t\<rparr>) = close_order y"
    "take_profit_limit_order (y\<lparr>ex_close_timestamp := t\<rparr>) = take_profit_limit_order y" for y t
    by (simp_all add: open_order_def close_order_def take_profit_limit_order_def)
  have x0: "all_orders_completed env ?x0" "open_filled_amount env ?x0 = Inr a" "close_order ?x0 = None"
    using s by (simp_all add: all_orders_completed_def reads open_filled_amount_def close_order_def cong: option.case_cong)
  obtain x1 where x1: "cancel_open_orders env ?x0 = (x1, None)" "quiet ?x0 x1"
    using cancel_open_orders_quiet by blast
  then obtain cs where cs: "placed_ids cs = []" "x1 = ?x0\<lparr>ex_calls := ex_calls x @ cs\<rparr>"
    by (auto simp: quiet_def)
  have amount: "amount_to_close env x1 = Inr a"
    using x0(2,3) quiet_frame(17) [OF x1(2)] by (simp add: amount_to_close_def close_filled_amount_def)
  have close: "place_close_order_and_cancel_open_orders env ct NaN ?x0 = (begin_close env ct x1, None)"
    using x1(1) amount s(9) cs(2) by (simp add: place_close_order_and_cancel_open_orders_def)
  let ?y = "(begin_close env ct x1)\<lparr>ex_current_retries := ex_current_retries x + 1\<rparr>"
  have task: "control_task env x = (?y, None)"
    using s(1-6,8) x0 close cs(2)
    by (simp add: control_task_def control_shutdown_process_def open_and_close_volume_match_def filled_order_def
        control_close_order_def begin_close_def)
  then have round: "control_round control_task env x = (evaluate_max_retries env ?y, None)"
    using s(2) by (simp add: control_round_def)
  have y: "open_order ?y = open_order x" "close_order ?y = close_order x" "take_profit_limit_order ?y = take_profit_limit_order x"
    using cs(2) by (simp_all add: begin_close_def open_order_def close_order_def take_profit_limit_order_def)
  then have "all_orders_completed env ?y" "open_filled_amount env ?y = Inr a"
    using s(3,7) cs(2) by (simp_all add: all_orders_completed_def open_filled_amount_def begin_close_def cong: option.case_cong)
  then show "ex_current_retries x + 1 \<le> ex_max_retries x \<Longrightarrow>
      dust env (fst (control_round control_task env x)) \<and>
      ex_current_retries (fst (control_round control_task env x)) = ex_current_retries x + 1"
    using round s cs(2) by (simp add: evaluate_max_retries_def dust_def begin_close_def)
  show "ex_current_retries x + 1 > ex_max_retries x \<Longrightarrow>
      ex_status (fst (control_round control_task env x)) = TERMINATED \<and>
      ex_close_type (fst (control_round control_task env x)) = Some FAILED_CLOSE \<and>
      ex_terminated (fst (control_round control_task env x))"
    using round cs(2) by (simp add: evaluate_max_retries_def begin_close_def executor_stop_def Let_def)
  show "placed_ids (ex_calls (fst (control_round control_task env x))) = placed_ids (ex_calls x)"
    "ex_max_retries (fst (control_round control_task env x)) = ex_max_retries x"
    using round cs by (simp_all add: evaluate_max_retries_def begin_close_def)
qed

text \<open>
  C13: The shutdown of a position too small to be closed ends. If the filled amount is not zero but
  below the minimum order size, no order is placed any more, every round counts as a retry, and
  after \<open>max_retries - current_retries + 1\<close> rounds the executor is terminated as FAILED.
\<close>

theorem dust_shutdown_terminates:
  assumes "dust env x" and "ex_current_retries x \<le> ex_max_retries x"
    and "n = nat (ex_max_retries x - ex_current_retries x + 1)"
  shows "ex_status (run_rounds (replicate n env) x) = TERMINATED
    \<and> ex_close_type (run_rounds (replicate n env) x) = Some FAILED_CLOSE
    \<and> placed_ids (ex_calls (run_rounds (replicate n env) x)) = placed_ids (ex_calls x)"
  using assms
proof (induction n arbitrary: x)
  case 0
  then show ?case by simp
next
  case (Suc n)
  let ?y = "fst (control_round control_task env x)"
  note r = dust_round [OF Suc.prems(1)]
  show ?case
  proof (cases "ex_current_retries x + 1 \<le> ex_max_retries x")
    case True
    with r Suc.prems have "n = nat (ex_max_retries ?y - ex_current_retries ?y + 1)" by simp
    with Suc.IH [of ?y] r True show ?thesis by (simp add: run_rounds_def)
  next
    case False
    with Suc.prems(2,3) have "n = 0" by simp
    with r False show ?thesis by (simp add: run_rounds_def)
  qed
qed

end
