(* ===== verification/Executor_Scenario.thy ===== *)
theory Executor_Scenario
  imports Position_Executor
begin

text \<open>
  One concrete position executor, from its creation over the placed and filled entry to the
  closing of the position, on which the theorems about executors are applied.
\<close>

text \<open>A filled entry of 3 SOL at 20 USDC, a stop loss at 3 percent and a trailing stop.\<close>

definition demo_entry :: in_flight_order where
  "demo_entry = apply_trade demo_order (demo_trade ''t1'' 3)"

definition demo_dust_entry :: in_flight_order where
  "demo_dust_entry = (apply_trade demo_order (demo_trade ''t1'' (5 / 100)))\<lparr>o_current_state := CANCELED\<rparr>"

definition demo_env :: "in_flight_order \<Rightarrow> decimal \<Rightarrow> exec_env" where
  "demo_env ord p =
     \<lparr>env_orders = (\<lambda>_. ord), env_fetch = (\<lambda>_. Some 0), env_price = (\<lambda>_. p), env_now = 7,
      env_exchange = demo_exchange [], env_position_mode = HEDGE, env_rate = (\<lambda>_. None),
      env_order_id = (\<lambda>n. replicate (Suc n) CHR ''o'')\<rparr>"

definition demo_config :: position_executor_config where
  "demo_config =
     \<lparr>pc_id = ''x1'', pc_timestamp = 1, pc_controller_id = ''main'', pc_trading_pair = ''SOL-USDC'',
      pc_connector_name = ''binance'', pc_side = BUY, pc_entry_price = Some 20, pc_amount = 3,
      pc_triple_barrier_config =
        \<lparr>tb_stop_loss = Some (3 / 100), tb_take_profit = None, tb_time_limit = None,
         tb_trailing_stop = Some \<lparr>ts_activation_price = 1 / 100, ts_trailing_delta = 2 / 100\<rparr>,
         tb_open_order_type = LIMIT, tb_take_profit_order_type = LIMIT, tb_stop_loss_order_type = MARKET,
         tb_time_limit_order_type = MARKET\<rparr>,
      pc_leverage = 1, pc_activation_bounds = None, pc_level_id = None\<rparr>"

definition demo_new :: position_executor where
  "demo_new = (case new_position_executor (demo_env demo_entry 20) demo_config 10 of Inr x \<Rightarrow> x)"

definition demo_placed :: position_executor where
  "demo_placed = fst (control_round control_task (demo_env demo_entry 20) (executor_start demo_new))"

definition demo_open :: position_executor where
  "demo_open = process_order_created_event (demo_env demo_entry 20) ''o'' demo_placed"

definition demo_closing :: position_executor where
  "demo_closing = fst (control_round control_task (demo_env demo_entry 19) demo_open)"

definition demo_dust :: position_executor where
  "demo_dust = early_stop False demo_open"

lemma demo_new_eq: "new_position_executor (demo_env demo_entry 20) demo_config 10 = Inr demo_new"
proof -
  have "\<exists>x. new_position_executor (demo_env demo_entry 20) demo_config 10 = Inr x"
    by (simp add: new_position_executor_def demo_config_def demo_env_def demo_exchange_def demo_rules_def
        dict_at_def dict_get_def)
  then show ?thesis by (auto simp: demo_new_def)
qed

lemma demo_placed_reachable: "pe_reachable (demo_env demo_entry 20) demo_config 10 demo_placed"
proof -
  have "\<not> ex_terminated (executor_start demo_new)" by code_simp
  then show ?thesis
    unfolding demo_placed_def
    using pe_reachable.new [OF demo_new_eq] pe_reachable.step pe_step.start pe_step.round by blast
qed

lemma demo_open_reachable: "pe_reachable (demo_env demo_entry 20) demo_config 10 demo_open"
proof -
  have "ex_registered demo_placed" by code_simp
  then show ?thesis
    unfolding demo_open_def using demo_placed_reachable pe_reachable.step pe_step.created by blast
qed

end
