(* ===== verification/Position_Invariants.thy ===== *)
theory Position_Invariants
  imports Position_Safety Executor_Scenario
begin

text \<open>
  What holds in every reachable state of a position executor, whatever its control loop, its
  connector's events and its owner do in between; and two states the code does not intend.
\<close>

section \<open>The invariant\<close>

definition tracked_cells :: "position_executor \<Rightarrow> nat set" where
  "tracked_cells x =
     set_option (pe_open_order x) \<union> set_option (pe_take_profit_limit_order x) \<union> set (pe_failed_orders x)"

definition tracked_ids :: "position_executor \<Rightarrow> string set" where
  "tracked_ids x = (\<lambda>c. to_order_id (pe_cells x c)) ` tracked_cells x"

definition idle :: "position_executor \<Rightarrow> bool" where
  "idle x \<longleftrightarrow> pe_close_order x = None \<and> ex_close_type x = None \<and>
     (\<forall>c \<in> tracked_cells x. c < pe_next_cell x) \<and> set (placed_ids (ex_calls x)) = tracked_ids x"

definition closing :: "position_executor \<Rightarrow> bool" where
  "closing x \<longleftrightarrow> ex_status x \<in> {SHUTTING_DOWN, TERMINATED} \<and> ex_close_type x \<noteq> None"

definition pe_inv :: "position_executor \<Rightarrow> bool" where
  "pe_inv x \<longleftrightarrow> (if ex_status x \<in> {NOT_STARTED, RUNNING} then idle x else closing x)"

lemma pe_inv_cases:
  "idle x \<Longrightarrow> ex_status x \<in> {NOT_STARTED, RUNNING} \<Longrightarrow> pe_inv x" "closing x \<Longrightarrow> pe_inv x"
  by (auto simp: pe_inv_def closing_def)

lemma pe_inv_running: "pe_inv x \<Longrightarrow> ex_status x = RUNNING \<Longrightarrow> idle x"
  by (simp add: pe_inv_def)

lemma idle_quiet: "idle x \<Longrightarrow> quiet x x' \<Longrightarrow> idle x'"
  using quiet_frame [of x x'] by (simp add: idle_def tracked_ids_def tracked_cells_def)

lemma pe_inv_quiet: "pe_inv x \<Longrightarrow> quiet x x' \<Longrightarrow> pe_inv x'"
  using quiet_frame [of x x'] idle_quiet [of x x'] by (auto simp: pe_inv_def closing_def)

lemma closing_inv_halt: "ex_close_type x \<noteq> None \<Longrightarrow> pe_inv (executor_stop env x)"
  by (simp add: pe_inv_def closing_def)

text \<open>A new order goes into a fresh cell.\<close>

definition with_new_order ::
  "exec_env \<Rightarrow> order_type \<Rightarrow> trade_type \<Rightarrow> decimal \<Rightarrow> pdecimal \<Rightarrow> position_action \<Rightarrow> position_executor \<Rightarrow> position_executor" where
  "with_new_order env ot sd a p act x =
     fst (new_cell (fst (place_order env ot sd a p act x)) (snd (place_order env ot sd a p act x)))"

lemma new_order_eq:
  "(let (x1, oid) = place_order env ot sd a p act x; (x2, cell) = new_cell x1 oid in F x2 cell) =
     F (with_new_order env ot sd a p act x) (pe_next_cell x)"
  by (simp add: with_new_order_def place_order_def new_cell_def log_call_def Let_def)

lemma with_new_order_simps [simp]:
  "ex_status (with_new_order env ot sd a p act x) = ex_status x"
  "ex_close_type (with_new_order env ot sd a p act x) = ex_close_type x"
  "pe_open_order (with_new_order env ot sd a p act x) = pe_open_order x"
  "pe_close_order (with_new_order env ot sd a p act x) = pe_close_order x"
  "pe_take_profit_limit_order (with_new_order env ot sd a p act x) = pe_take_profit_limit_order x"
  "pe_failed_orders (with_new_order env ot sd a p act x) = pe_failed_orders x"
  "pe_next_cell (with_new_order env ot sd a p act x) = Suc (pe_next_cell x)"
  "pe_cells (with_new_order env ot sd a p act x) =
     (pe_cells x)(pe_next_cell x := \<lparr>to_order_id = next_order_id env x, to_order = None\<rparr>)"
  "placed_ids (ex_calls (with_new_order env ot sd a p act x)) = placed_ids (ex_calls x) @ [next_order_id env x]"
  by (simp_all add: with_new_order_def place_order_def new_cell_def log_call_def Let_def)

lemma ids_with_fresh:
  fixes n :: nat
  assumes "\<And>c. c \<in> T \<Longrightarrow> c < n"
  shows "(\<lambda>c. to_order_id ((f(n := t)) c)) ` insert n T = insert (to_order_id t) ((\<lambda>c. to_order_id (f c)) ` T)"
proof -
  have "(\<lambda>c. to_order_id ((f(n := t)) c)) ` T = (\<lambda>c. to_order_id (f c)) ` T"
  proof (rule image_cong)
    fix c assume "c \<in> T"
    then have "c \<noteq> n" using assms by fastforce
    then show "to_order_id ((f(n := t)) c) = to_order_id (f c)" by simp
  qed simp
  then show ?thesis by (simp del: fun_upd_apply add: fun_upd_same)
qed

lemma idle_new_order:
  assumes "idle x" and "tracked_cells y = insert (pe_next_cell x) (tracked_cells x)"
    and "pe_cells y = (pe_cells x)(pe_next_cell x := \<lparr>to_order_id = oid, to_order = None\<rparr>)"
    and "pe_next_cell y = Suc (pe_next_cell x)" and "placed_ids (ex_calls y) = placed_ids (ex_calls x) @ [oid]"
    and "pe_close_order y = None" and "ex_close_type y = None"
  shows "idle y"
proof -
  have "\<And>c. c \<in> tracked_cells x \<Longrightarrow> c < pe_next_cell x" using assms(1) by (simp add: idle_def)
  from ids_with_fresh [of "tracked_cells x" "pe_next_cell x" "pe_cells x", OF this, of "\<lparr>to_order_id = oid, to_order = None\<rparr>"] assms
  have "tracked_ids y = insert oid (tracked_ids x)" by (simp add: tracked_ids_def)
  with assms show ?thesis by (auto simp: idle_def less_Suc_eq)
qed

lemma idle_place:
  assumes "idle x"
  shows "pe_open_order x = None \<Longrightarrow> idle ((with_new_order env ot sd a p act x)\<lparr>pe_open_order := Some (pe_next_cell x)\<rparr>)"
    and "pe_take_profit_limit_order x = None \<Longrightarrow>
      idle ((with_new_order env ot sd a p act x)\<lparr>pe_take_profit_limit_order := Some (pe_next_cell x)\<rparr>)"
  using assms by (auto simp: idle_def [of x] tracked_cells_def intro!: idle_new_order [OF assms])

lemma place_close_inv:
  assumes "idle x" and "ex_status x = RUNNING"
  shows "pe_inv (fst (place_close_order_and_cancel_open_orders env ct price x))"
proof (cases "amount_to_close env x")
  case (Inl e)
  obtain x1 where "place_close_order_and_cancel_open_orders env ct price x = (x1, Some e)" "quiet x x1"
    using place_close_error [OF Inl] by blast
  then show ?thesis using pe_inv_quiet [of x x1] assms by (simp add: pe_inv_def)
next
  case (Inr a)
  then show ?thesis using place_close_effect [OF Inr, of ct price] by (auto simp: pe_inv_def closing_def)
qed

text \<open>Each control of a running executor keeps the invariant.\<close>

lemmas running_inv = pe_inv_cases(1)

lemma while_running_inv:
  assumes "\<And>y. idle y \<Longrightarrow> ex_status y = RUNNING \<Longrightarrow> pe_inv (fst (f y))" and "pe_inv x"
  shows "pe_inv (fst (while_running f x))"
  using assms by (auto simp: while_running_def pe_inv_running)

definition still_running :: "position_executor \<Rightarrow> bool" where
  "still_running x \<longleftrightarrow> pe_inv x \<and> ex_status x = RUNNING"

lemmas pe_inv_try = try_value_inv [where P = pe_inv]
lemmas still_running_try = try_value_inv [where P = still_running]
lemmas pe_inv_obind = obind_fst_inv [where P = pe_inv]

lemma control_stop_loss_inv:
  assumes "idle x" and "ex_status x = RUNNING"
  shows "pe_inv (fst (control_stop_loss env x))"
proof -
  have "pe_inv x" using assms by (simp add: running_inv)
  moreover from place_close_inv [OF assms]
  have "pe_inv (fst (if pnl \<le> - sl then place_close_order_and_cancel_open_orders env STOP_LOSS NaN x else (x, None)))"
    for pnl sl using \<open>pe_inv x\<close> by simp
  ultimately show ?thesis
    unfolding control_stop_loss_def by (auto simp del: if_split intro!: pe_inv_try split: option.split if_split)
qed

lemma control_time_limit_inv:
  "idle x \<Longrightarrow> ex_status x = RUNNING \<Longrightarrow> pe_inv (fst (control_time_limit env x))"
  by (simp add: control_time_limit_def place_close_inv running_inv)

lemma idle_trigger [simp]:
  "idle (x\<lparr>pe_trailing_stop_trigger_pct := t\<rparr>) = idle x"
  "pe_inv (x\<lparr>pe_trailing_stop_trigger_pct := t\<rparr>) = pe_inv x"
  "pe_inv (raise_trigger pnl d tr x) = pe_inv x"
  by (simp_all add: idle_def tracked_ids_def tracked_cells_def pe_inv_def closing_def raise_trigger_def)

lemma control_trailing_stop_inv:
  assumes "idle x" and "ex_status x = RUNNING"
  shows "pe_inv (fst (control_trailing_stop env x))"
proof (cases "tb_trailing_stop (barriers x)")
  case None
  with assms show ?thesis by (simp add: control_trailing_stop_def running_inv)
next
  case (Some ts)
  have x: "pe_inv x" using assms by (simp add: running_inv)
  have step: "pe_inv (fst (obind (if pnl < tr then place_close_order_and_cancel_open_orders env TRAILING_STOP NaN x else (x, None))
      (\<lambda>x1. (raise_trigger pnl d tr x1, None))))" for pnl tr d
    using x place_close_inv [OF assms] by (intro pe_inv_obind) simp_all
  show ?thesis
  proof (cases "get_net_pnl_pct env x")
    case (Inl e)
    with Some x show ?thesis by (simp add: control_trailing_stop_def)
  next
    case (Inr pnl)
    with Some x step show ?thesis by (simp add: control_trailing_stop_def Let_def)
  qed
qed

lemma place_take_profit_inv:
  assumes "idle x" and "ex_status x = RUNNING" and "pe_take_profit_limit_order x = None"
  shows "pe_inv (fst (place_take_profit_limit_order env x))"
  unfolding place_take_profit_limit_order_def new_order_eq
  using assms idle_place(2) [OF assms(1,3)]
  by (intro pe_inv_try) (simp_all add: running_inv)

lemma place_open_inv:
  assumes "idle x" and "ex_status x = RUNNING" and "pe_open_order x = None"
  shows "still_running (fst (place_open_order env x))"
  unfolding place_open_order_def new_order_eq
  using assms idle_place(1) [OF assms(1,3)]
  by (intro still_running_try) (simp_all add: running_inv still_running_def)

lemma cancel_quiet:
  "quiet x (fst (cancel_open_order env x))" "quiet x (fst (cancel_take_profit env x))"
  by (simp_all add: cancel_open_order_def cancel_take_profit_def quiet_cancel split: option.split)

lemma control_open_order_inv:
  assumes "idle x" and "ex_status x = RUNNING"
  shows "still_running (fst (control_open_order env x))"
proof -
  have x: "still_running x" using assms by (simp add: running_inv still_running_def)
  have c: "still_running (fst (cancel_open_order env x))"
    using pe_inv_quiet [OF _ cancel_quiet(1)] quiet_frame(1) [OF cancel_quiet(1)] x by (simp add: still_running_def)
  show ?thesis
  proof (cases "pe_open_order x")
    case None
    have "still_running (fst (if w then place_open_order env x else (x, None)))" for w
      using place_open_inv [OF assms None] x by simp
    with None x show ?thesis
      by (simp add: control_open_order_def open_order_def Let_def del: if_split) (intro still_running_try)
  next
    case (Some cell)
    have "still_running (fst (if \<not> w then cancel_open_order env x else (x, None)))" for w
      using c x by simp
    then have attempt: "still_running (fst (try_value x m (\<lambda>w. if \<not> w then cancel_open_order env x else (x, None))))" for m
      using x by (intro still_running_try)
    show ?thesis
    proof (cases "tracked env (pe_cells x cell) \<noteq> None \<and> \<not> to_is_filled env (pe_cells x cell)")
      case True
      with Some attempt show ?thesis by (simp add: control_open_order_def open_order_def Let_def del: if_split)
    next
      case False
      with Some x show ?thesis by (auto simp add: control_open_order_def open_order_def Let_def)
    qed
  qed
qed

lemma control_take_profit_inv:
  assumes "idle x" and "ex_status x = RUNNING"
  shows "pe_inv (fst (control_take_profit env x))"
proof (cases "tb_take_profit (barriers x)")
  case None
  with assms show ?thesis by (simp add: control_take_profit_def running_inv)
next
  case (Some tp)
  have x: "pe_inv x" using assms by (simp add: running_inv)
  have c: "pe_inv (fst (cancel_take_profit env x))" using pe_inv_quiet [OF x cancel_quiet(2)] .
  have limit: "pe_inv (fst (case take_profit_limit_order x of
        None \<Rightarrow> if inside then place_take_profit_limit_order env x else (x, None)
      | Some t \<Rightarrow> (if to_is_open env t \<and> \<not> to_is_filled env t \<and> \<not> inside then cancel_take_profit env x else (x, None))))"
    for inside
    using x c place_take_profit_inv [OF assms] by (auto simp: take_profit_limit_order_def split: option.split)
  have market: "pe_inv (fst (if pnl \<ge> tp then place_close_order_and_cancel_open_orders env TAKE_PROFIT NaN x else (x, None)))"
    for pnl using x place_close_inv [OF assms] by simp
  show ?thesis
  proof (cases "is_limit_type (tb_take_profit_order_type (barriers x))")
    case True
    have "pe_inv (fst (try_value x (take_profit_price env x) (\<lambda>price.
        try_value x (is_within_activation_bounds env x price (close_order_side x) (tb_take_profit_order_type (barriers x))) (\<lambda>inside.
        case take_profit_limit_order x of
          None \<Rightarrow> if inside then place_take_profit_limit_order env x else (x, None)
        | Some t \<Rightarrow> (if to_is_open env t \<and> \<not> to_is_filled env t \<and> \<not> inside then cancel_take_profit env x else (x, None))))))"
      using x limit by (intro pe_inv_try)
    with True Some x show ?thesis by (simp add: control_take_profit_def)
  next
    case False
    have "pe_inv (fst (try_value x (get_net_pnl_pct env x) (\<lambda>pnl.
        if pnl \<ge> tp then place_close_order_and_cancel_open_orders env TAKE_PROFIT NaN x else (x, None))))"
      using x market by (intro pe_inv_try)
    with False Some x show ?thesis by (simp add: control_take_profit_def)
  qed
qed

lemma control_barriers_inv:
  assumes "idle x" and "ex_status x = RUNNING"
  shows "pe_inv (fst (control_barriers env x))"
proof -
  have x: "pe_inv x" using assms by (simp add: running_inv)
  have tp: "pe_inv (fst (obind (control_take_profit env y) (while_running (control_time_limit env))))"
    if "idle y" "ex_status y = RUNNING" for y
    using control_take_profit_inv [OF that] while_running_inv [OF control_time_limit_inv] by (rule obind_fst_inv)
  have ts: "pe_inv (fst (obind (control_trailing_stop env y) (while_running (\<lambda>x2.
      obind (control_take_profit env x2) (while_running (control_time_limit env))))))"
    if "idle y" "ex_status y = RUNNING" for y
    using control_trailing_stop_inv [OF that] while_running_inv [OF tp] by (rule obind_fst_inv)
  have sl: "pe_inv (fst (obind (control_stop_loss env x) (while_running (\<lambda>x1.
      obind (control_trailing_stop env x1) (while_running (\<lambda>x2.
      obind (control_take_profit env x2) (while_running (control_time_limit env))))))))"
    using control_stop_loss_inv [OF assms] while_running_inv [OF ts] by (rule obind_fst_inv)
  show ?thesis
    unfolding control_barriers_def
    using x sl control_time_limit_inv [OF assms] by (intro pe_inv_try) auto
qed

section \<open>Shutdown and events\<close>

lemmas closing_try = try_value_inv [where P = closing]
lemmas closing_obind = obind_fst_inv [where P = closing]

lemma closing_quiet: "closing x \<Longrightarrow> quiet x x' \<Longrightarrow> closing x'"
  using quiet_frame [of x x'] by (simp add: closing_def)

lemma place_close_closing:
  assumes "closing x"
  shows "closing (fst (place_close_order_and_cancel_open_orders env ct price x))"
proof (cases "amount_to_close env x")
  case (Inl e)
  obtain x1 where "place_close_order_and_cancel_open_orders env ct price x = (x1, Some e)" "quiet x x1"
    using place_close_error [OF Inl] by blast
  then show ?thesis using closing_quiet [of x x1] assms by simp
next
  case (Inr a)
  then show ?thesis using place_close_effect [OF Inr, of ct price] by (auto simp: closing_def)
qed

lemma control_close_order_closing: "closing x \<Longrightarrow> closing (fst (control_close_order env x))"
  using place_close_closing [of x env _ NaN]
  by (auto simp: control_close_order_def Let_def closing_def log_call_def split: option.split)

lemma hold_order_closing: "closing x \<Longrightarrow> closing (fst (hold_order env t x))"
  by (cases t; cases "tracked env (the t)"; cases "order_to_json (env_rate env) (the (tracked env (the t)))")
    (auto simp: hold_order_def closing_def)

lemma stop_closing: "ex_close_type x \<noteq> None \<Longrightarrow> closing (executor_stop env x)"
  by (simp add: closing_def)

lemma control_shutdown_closing:
  assumes "closing x"
  shows "closing (fst (control_shutdown_process env x))"
proof -
  let ?x0 = "x\<lparr>ex_close_timestamp := Some (env_now env)\<rparr>"
  have x0: "closing ?x0" using assms by (simp add: closing_def)
  have cancel: "closing (fst (cancel_open_orders env ?x0))"
    using cancel_open_orders_quiet [of env ?x0] closing_quiet [OF x0] by auto
  have final: "closing (fst (let x3 = (if ex_held_position_orders y = [] then y\<lparr>ex_close_type := Some EARLY_STOP\<rparr> else y)
      in (executor_stop env x3, None :: py_error option)))" if "closing y" for y
    using that by (simp add: Let_def closing_def)
  have hold: "closing (fst (obind (hold_order env (open_order ?x0) ?x0) (\<lambda>x1.
      obind (hold_order env (close_order x1) x1) (\<lambda>x2.
      let x3 = (if ex_held_position_orders x2 = [] then x2\<lparr>ex_close_type := Some EARLY_STOP\<rparr> else x2)
      in (executor_stop env x3, None)))))"
    by (intro closing_obind hold_order_closing x0 final)
  have count: "closing (fst (obind (control_close_order env ?x0) (\<lambda>x1.
      (x1\<lparr>ex_current_retries := ex_current_retries x1 + 1\<rparr>, None))))"
    by (intro closing_obind control_close_order_closing x0) (simp add: closing_def)
  have rest: "closing (fst (try_value ?x0 (open_and_close_volume_match env ?x0) (\<lambda>matched.
      if matched then (executor_stop env ?x0, None)
      else obind (control_close_order env ?x0) (\<lambda>x1.
             (x1\<lparr>ex_current_retries := ex_current_retries x1 + 1\<rparr>, None)))))"
    using x0 count by (intro closing_try) (auto simp: closing_def)
  show ?thesis
    unfolding control_shutdown_process_def Let_def [of ?x0]
    using cancel hold rest by simp
qed

lemma evaluate_max_retries_inv: "pe_inv x \<Longrightarrow> pe_inv (evaluate_max_retries env x)"
  by (simp add: evaluate_max_retries_def closing_inv_halt)

lemma control_task_inv:
  assumes "pe_inv x"
  shows "pe_inv (fst (control_task env x))"
proof (cases "ex_status x")
  case RUNNING
  have "still_running (fst (control_open_order env x))"
    using control_open_order_inv pe_inv_running [OF assms RUNNING] RUNNING by blast
  then have "pe_inv (fst (obind (control_open_order env x) (control_barriers env)))"
    using control_barriers_inv [OF pe_inv_running]
    by (cases "control_open_order env x"; cases "snd (control_open_order env x)") (auto simp: still_running_def)
  with RUNNING show ?thesis by (simp add: control_task_def)
next
  case SHUTTING_DOWN
  with assms have "closing x" by (simp add: pe_inv_def)
  with control_shutdown_closing pe_inv_cases(2) SHUTTING_DOWN show ?thesis by (simp add: control_task_def)
qed (use assms in \<open>simp_all add: control_task_def\<close>)

lemma control_round_inv: "pe_inv x \<Longrightarrow> pe_inv (fst (control_round control_task env x))"
  by (simp add: control_round_def pe_inv_obind control_task_inv evaluate_max_retries_inv)

lemma set_cell_inv [simp]:
  "pe_inv (set_cell_order c a x) = pe_inv x"
proof (cases c)
  case (Some cell)
  have "to_order_id (((pe_cells x)(cell := (pe_cells x cell)\<lparr>to_order := a\<rparr>)) d) = to_order_id (pe_cells x d)" for d
    by simp
  with Some show ?thesis
    by (simp add: set_cell_order_def pe_inv_def closing_def idle_def tracked_ids_def tracked_cells_def)
qed (simp add: set_cell_order_def)

lemma update_tracked_inv [simp]: "pe_inv (update_tracked_orders_with_order_id env oid x) = pe_inv x"
  by (simp add: update_tracked_orders_with_order_id_def Let_def)

lemma completed_inv: "pe_inv x \<Longrightarrow> pe_inv (process_order_completed_event env oid a x)"
proof -
  assume x: "pe_inv x"
  have "pe_inv (x\<lparr>pe_total_executed_amount_backup := b\<rparr>) = pe_inv x" for b
    by (simp add: pe_inv_def closing_def idle_def tracked_ids_def tracked_cells_def)
  with x show ?thesis
    by (simp add: process_order_completed_event_def Let_def pe_inv_def [of "_\<lparr>ex_status := _\<rparr>"] closing_def)
qed

lemma idle_fail:
  assumes "idle x"
  shows "pe_open_order x = Some c \<Longrightarrow> idle ((fail_cell (Some c) x)\<lparr>pe_open_order := None\<rparr>)"
    and "pe_take_profit_limit_order x = Some c \<Longrightarrow> idle ((fail_cell (Some c) x)\<lparr>pe_take_profit_limit_order := None\<rparr>)"
  using assms by (auto simp: idle_def fail_cell_def tracked_ids_def tracked_cells_def image_Un)

lemma holds_id_None [simp]: "\<not> holds_id x None oid"
  by (simp add: holds_id_def)

lemma pe_inv_status: "pe_inv x \<longleftrightarrow> (ex_status x \<in> {NOT_STARTED, RUNNING} \<and> idle x) \<or> closing x"
  by (cases "ex_status x") (auto simp: pe_inv_def closing_def)

lemma drop_order_inv:
  assumes "pe_inv x"
  shows "holds_id x (pe_close_order x) oid \<Longrightarrow> pe_inv ((fail_cell (pe_close_order x) x)\<lparr>pe_close_order := None\<rparr>)"
    and "holds_id x (pe_open_order x) oid \<Longrightarrow> pe_inv ((fail_cell (pe_open_order x) x)\<lparr>pe_open_order := None\<rparr>)"
    and "holds_id x (pe_take_profit_limit_order x) oid \<Longrightarrow>
      pe_inv ((fail_cell (pe_take_profit_limit_order x) x)\<lparr>pe_take_profit_limit_order := None\<rparr>)"
proof -
  have st: "ex_status (fail_cell c x) = ex_status x" "ex_close_type (fail_cell c x) = ex_close_type x" for c
    by (simp_all add: fail_cell_def split: option.split)
  show "holds_id x (pe_close_order x) oid \<Longrightarrow> pe_inv ((fail_cell (pe_close_order x) x)\<lparr>pe_close_order := None\<rparr>)"
    using assms by (auto simp: pe_inv_status idle_def closing_def st)
  show "holds_id x (pe_open_order x) oid \<Longrightarrow> pe_inv ((fail_cell (pe_open_order x) x)\<lparr>pe_open_order := None\<rparr>)"
    using assms idle_fail(1) [of x] by (cases "pe_open_order x") (auto simp: pe_inv_status closing_def st)
  show "holds_id x (pe_take_profit_limit_order x) oid \<Longrightarrow>
      pe_inv ((fail_cell (pe_take_profit_limit_order x) x)\<lparr>pe_take_profit_limit_order := None\<rparr>)"
    using assms idle_fail(2) [of x] by (cases "pe_take_profit_limit_order x") (auto simp: pe_inv_status closing_def st)
qed

lemma pe_inv_retries [simp]: "pe_inv (x\<lparr>ex_current_retries := n\<rparr>) = pe_inv x"
  by (simp add: pe_inv_def closing_def idle_def tracked_ids_def tracked_cells_def)

lemma canceled_inv: "pe_inv x \<Longrightarrow> pe_inv (process_order_canceled_event env oid x)"
  unfolding process_order_canceled_event_def Let_def
  using drop_order_inv by (smt (verit))

lemma failed_inv:
  assumes "pe_inv x"
  shows "pe_inv (process_order_failed_event env oid x)"
proof -
  have swap: "y\<lparr>pe_open_order := a, ex_current_retries := n\<rparr> = (y\<lparr>pe_open_order := a\<rparr>)\<lparr>ex_current_retries := n\<rparr>"
    "y\<lparr>pe_close_order := a, ex_current_retries := n\<rparr> = (y\<lparr>pe_close_order := a\<rparr>)\<lparr>ex_current_retries := n\<rparr>" for y a n
    by simp_all
  have retries: "pe_inv (y\<lparr>ex_current_retries := n\<rparr>) = pe_inv y" for y n
    by (simp add: pe_inv_def closing_def idle_def tracked_ids_def tracked_cells_def)
  show ?thesis
    using drop_order_inv [OF assms, of oid] assms
    by (auto simp: process_order_failed_event_def retries simp del: position_executor.update_convs)
qed

lemma early_stop_inv: "pe_inv (early_stop keep x)"
  by (simp add: early_stop_def pe_inv_def closing_def)

lemma validate_inv:
  assumes "still_running x"
  shows "pe_inv (fst (validate_sufficient_balance env locked x)) \<and>
    ex_status (fst (validate_sufficient_balance env locked x)) \<in> {RUNNING, TERMINATED}"
proof -
  have x: "pe_inv x \<and> ex_status x \<in> {RUNNING, TERMINATED}" using assms by (simp add: still_running_def)
  show ?thesis
    unfolding validate_sufficient_balance_def
    using x by (intro try_value_inv [where P = "\<lambda>y. pe_inv y \<and> ex_status y \<in> {RUNNING, TERMINATED}"])
      (auto simp: closing_inv_halt try_value_def split: prod.split sum.split)
qed

lemma on_start_inv:
  assumes "still_running x"
  shows "pe_inv (fst (on_start env locked x))"
  unfolding on_start_def
  using validate_inv [OF assms, of env locked]
  by (intro pe_inv_obind) (auto simp: closing_inv_halt)

lemma new_executor_inv: "new_position_executor env cfg n = Inr x \<Longrightarrow> pe_inv x"
  by (auto simp: new_position_executor_def Let_def ebind_eq_Inr_iff pe_inv_def idle_def tracked_ids_def
      tracked_cells_def split: if_splits)

lemma start_inv: "pe_inv x \<Longrightarrow> pe_inv (executor_start x)"
  by (auto simp: executor_start_def Let_def pe_inv_def closing_def idle_def tracked_ids_def tracked_cells_def)

lemma pe_step_inv: "pe_step x y \<Longrightarrow> pe_inv x \<Longrightarrow> pe_inv y"
  by (induction rule: pe_step.induct)
    (simp_all add: start_inv on_start_inv still_running_def control_round_inv early_stop_inv canceled_inv failed_inv
      completed_inv process_order_created_event_def process_order_filled_event_def)

lemma pe_reachable_inv: "pe_reachable env cfg n x \<Longrightarrow> pe_inv x"
  by (induction rule: pe_reachable.induct) (auto intro: new_executor_inv pe_step_inv)

section \<open>Properties\<close>

text \<open>
  C14: Until a position executor starts to close, it never loses sight of an order: in every
  reachable state in which it is not started or running, the ids of all orders it ever placed are
  exactly those of its entry order, its take profit and the orders it recorded as failed; it has
  no close order and no close type yet.
\<close>

theorem running_executor_tracks_every_order:
  assumes "pe_reachable env cfg n x" and "ex_status x \<in> {NOT_STARTED, RUNNING}"
  shows "set (placed_ids (ex_calls x)) =
       (\<lambda>c. to_order_id (pe_cells x c)) `
         (set_option (pe_open_order x) \<union> set_option (pe_take_profit_limit_order x) \<union> set (pe_failed_orders x))
     \<and> pe_close_order x = None \<and> ex_close_type x = None"
  using pe_reachable_inv [OF assms(1)] assms(2)
  by (simp add: pe_inv_def idle_def tracked_ids_def tracked_cells_def)

text \<open>
  Whatever happens, an executor that is shutting down or terminated says why: its close type
  is set in every such reachable state.
\<close>

theorem closing_executor_has_close_type:
  assumes "pe_reachable env cfg n x" and "ex_status x \<in> {SHUTTING_DOWN, TERMINATED}"
  shows "ex_close_type x \<noteq> None"
  using pe_reachable_inv [OF assms(1)] assms(2) by (auto simp: pe_inv_status closing_def)

text \<open>
  A take profit that completes while another close order is out replaces it: afterwards that
  close order, still live on the exchange, is neither the close order nor the take profit nor
  among the failed orders, and its result is counted nowhere.
\<close>

theorem take_profit_completion_drops_close_order:
  assumes "pe_close_order x = Some c" and "pe_take_profit_limit_order x = Some tp"
    and "to_order_id (pe_cells x tp) = oid" and "c \<noteq> tp"
    and "c \<notin> set (pe_failed_orders x)" and "pe_open_order x \<noteq> Some c"
  shows "let y = process_order_completed_event env oid amount x in
     pe_close_order y = Some tp \<and> pe_take_profit_limit_order y = Some tp \<and>
     c \<notin> tracked_cells y \<union> set_option (pe_close_order y) \<and>
     placed_ids (ex_calls y) = placed_ids (ex_calls x)"
  using assms
  by (auto simp: process_order_completed_event_def update_tracked_orders_with_order_id_def holds_id_def
      set_cell_order_def tracked_cells_def Let_def split: option.splits)

text \<open>
  \<open>early_stop\<close> does not ask whether the executor has ended. A terminated executor is put back
  to SHUTTING_DOWN, and as its control loop is over it stays there.
\<close>

theorem early_stop_revives_terminated:
  assumes "ex_terminated x"
  shows "ex_status (run_rounds envs (early_stop keep x)) = SHUTTING_DOWN"
proof -
  have "ex_terminated (early_stop keep x)" using assms by (simp add: early_stop_def)
  then have "run_rounds envs (early_stop keep x) = early_stop keep x"
    unfolding run_rounds_def by (induction envs) (simp_all add: control_round_def)
  then show ?thesis by (simp add: early_stop_def)
qed

section \<open>Witnesses\<close>

theorem running_executor_tracks_every_order_witness:
  "set (placed_ids (ex_calls demo_open)) =
       (\<lambda>c. to_order_id (pe_cells demo_open c)) `
         (set_option (pe_open_order demo_open) \<union> set_option (pe_take_profit_limit_order demo_open)
            \<union> set (pe_failed_orders demo_open))
   \<and> placed_ids (ex_calls demo_open) = [''o'']"
proof
  have "ex_status demo_open \<in> {NOT_STARTED, RUNNING}" by code_simp
  from running_executor_tracks_every_order [OF demo_open_reachable this]
  show "set (placed_ids (ex_calls demo_open)) =
       (\<lambda>c. to_order_id (pe_cells demo_open c)) `
         (set_option (pe_open_order demo_open) \<union> set_option (pe_take_profit_limit_order demo_open)
            \<union> set (pe_failed_orders demo_open))" by blast
  show "placed_ids (ex_calls demo_open) = [''o'']" by code_simp
qed

theorem closing_executor_has_close_type_witness:
  "ex_close_type (early_stop True demo_open) \<noteq> None"
  using closing_executor_has_close_type [OF pe_reachable.step [OF demo_open_reachable pe_step.early_stop [of _ True]]]
  by (simp add: early_stop_def)

theorem stop_loss_closes_position_witness:
  "\<exists>x'. control_barriers (demo_env demo_entry 19) demo_open = (x', None) \<and> ex_status x' = SHUTTING_DOWN
    \<and> ex_close_type x' = Some STOP_LOSS"
proof -
  have "ex_status demo_open = RUNNING" "open_order_matters (demo_env demo_entry 19) demo_open = Inr True"
    "tb_stop_loss (barriers demo_open) = Some (3 / 100)" "(3 / 100 :: decimal) \<noteq> 0"
    "get_net_pnl_pct (demo_env demo_entry 19) demo_open = Inr (- 51 / 1000)" "(- 51 / 1000 :: decimal) \<le> - (3 / 100)"
    "amount_to_close (demo_env demo_entry 19) demo_open = Inr 3"
    by code_simp+
  from stop_loss_closes_position [OF this] show ?thesis by blast
qed

theorem trailing_stop_ratchets_witness:
  "\<exists>x'. control_trailing_stop (demo_env demo_entry 21) (demo_open\<lparr>pe_trailing_stop_trigger_pct := Some (1 / 100)\<rparr>) = (x', None)
    \<and> pe_trailing_stop_trigger_pct x' = Some (29 / 1000)"
proof -
  let ?x = "demo_open\<lparr>pe_trailing_stop_trigger_pct := Some (1 / 100)\<rparr>"
  have ts: "tb_trailing_stop (barriers ?x) = Some \<lparr>ts_activation_price = 1 / 100, ts_trailing_delta = 2 / 100\<rparr>"
    and tr: "pe_trailing_stop_trigger_pct ?x = Some (1 / 100)" "(1 / 100 :: decimal) \<noteq> 0"
    and pnl: "get_net_pnl_pct (demo_env demo_entry 21) ?x = Inr (49 / 1000)"
    and amount: "amount_to_close (demo_env demo_entry 21) ?x = Inr 3"
    by code_simp+
  from trailing_stop_ratchets [OF ts tr pnl amount] show ?thesis by (auto simp: max_def)
qed

theorem zero_trailing_trigger_ignored_witness:
  "control_trailing_stop (demo_env demo_entry 1) (demo_open\<lparr>pe_trailing_stop_trigger_pct := Some 0\<rparr>) =
     (demo_open\<lparr>pe_trailing_stop_trigger_pct := Some 0\<rparr>, None)"
proof -
  let ?x = "demo_open\<lparr>pe_trailing_stop_trigger_pct := Some 0\<rparr>"
  have "tb_trailing_stop (barriers ?x) = Some \<lparr>ts_activation_price = 1 / 100, ts_trailing_delta = 2 / 100\<rparr>"
    "pe_trailing_stop_trigger_pct ?x = Some 0" "get_net_pnl_pct (demo_env demo_entry 1) ?x = Inr (- 951 / 1000)"
    by code_simp+
  from zero_trailing_trigger_ignored [OF this] show ?thesis by simp
qed

theorem trade_pnl_quote_difference_witness:
  "trade_pnl_quote (demo_env demo_entry 22) demo_open = Inr 6"
proof -
  have "open_filled_amount (demo_env demo_entry 22) demo_open = Inr 3" "entry_price (demo_env demo_entry 22) demo_open = Inr 20"
    "close_price (demo_env demo_entry 22) demo_open = Inr 22" "(3 :: decimal) \<noteq> 0" "(20 :: decimal) \<noteq> 0"
    "ex_close_type demo_open \<notin> {Some FAILED_CLOSE, Some POSITION_HOLD}" "side demo_open = BUY"
    by code_simp+
  from trade_pnl_quote_difference [OF this(1-6)] this(7) show ?thesis by simp
qed

theorem shutdown_only_closes_witness:
  "\<exists>cs. ex_calls (fst (control_round control_task (demo_env demo_entry 19) (early_stop False demo_open))) =
     ex_calls (early_stop False demo_open) @ cs \<and>
     cs = [CancelOrder ''o'', PlaceOrder ''oo'' MARKET SELL 3 NaN CLOSE]"
proof -
  have "ex_status (early_stop False demo_open) = SHUTTING_DOWN" by code_simp
  from shutdown_only_closes [OF this, of "demo_env demo_entry 19"]
  obtain cs where cs: "ex_calls (fst (control_round control_task (demo_env demo_entry 19) (early_stop False demo_open))) =
     ex_calls (early_stop False demo_open) @ cs" by blast
  have "ex_calls (fst (control_round control_task (demo_env demo_entry 19) (early_stop False demo_open))) =
     ex_calls (early_stop False demo_open) @ [CancelOrder ''o'', PlaceOrder ''oo'' MARKET SELL 3 NaN CLOSE]"
    by code_simp
  with cs show ?thesis by simp
qed

theorem unknown_close_order_waits_forever_witness:
  "ex_status (run_rounds (replicate 50 (demo_env demo_entry 19)) demo_closing) = SHUTTING_DOWN"
proof -
  have "ex_status demo_closing = SHUTTING_DOWN" "\<not> ex_terminated demo_closing"
    "ex_current_retries demo_closing \<le> ex_max_retries demo_closing" "pe_close_order demo_closing = Some 1"
    "to_order (pe_cells demo_closing 1) = None"
    by code_simp+
  from unknown_close_order_waits_forever [OF this] show ?thesis by blast
qed

theorem dust_shutdown_terminates_witness:
  "ex_status (run_rounds (replicate 11 (demo_env demo_dust_entry 20)) demo_dust) = TERMINATED"
proof -
  have s: "ex_status demo_dust = SHUTTING_DOWN" "\<not> ex_terminated demo_dust"
    "all_orders_completed (demo_env demo_dust_entry 20) demo_dust" "pe_close_order demo_dust = None"
    "ex_close_type demo_dust = Some EARLY_STOP"
    "open_filled_amount (demo_env demo_dust_entry 20) demo_dust = Inr (5 / 100)"
    "(5 / 100 :: decimal) < min_order_size (pe_trading_rule demo_dust)"
    and r: "ex_max_retries demo_dust = 10" "ex_current_retries demo_dust = 0"
    by code_simp+
  then have "dust (demo_env demo_dust_entry 20) demo_dust" by (auto simp: dust_def simp del: less_divide_eq_numeral1 divide_eq_eq_numeral1)
  from dust_shutdown_terminates [OF this, of 11] r show ?thesis by simp
qed

definition demo_race :: position_executor where
  "demo_race = demo_closing\<lparr>pe_cells := (pe_cells demo_closing)(2 := \<lparr>to_order_id = ''tp'', to_order = None\<rparr>),
     pe_next_cell := 3, pe_take_profit_limit_order := Some 2\<rparr>"

theorem take_profit_completion_drops_close_order_witness:
  "pe_close_order (process_order_completed_event (demo_env demo_entry 19) ''tp'' 3 demo_race) = Some 2
   \<and> pe_close_order demo_race = Some 1"
proof
  have "pe_close_order demo_race = Some 1" "pe_take_profit_limit_order demo_race = Some 2"
    "to_order_id (pe_cells demo_race 2) = ''tp''" "(1 :: nat) \<noteq> 2" "1 \<notin> set (pe_failed_orders demo_race)"
    "pe_open_order demo_race \<noteq> Some 1"
    by code_simp+
  from take_profit_completion_drops_close_order [OF this, of "demo_env demo_entry 19" 3]
  show "pe_close_order (process_order_completed_event (demo_env demo_entry 19) ''tp'' 3 demo_race) = Some 2"
    by (simp add: Let_def)
  show "pe_close_order demo_race = Some 1" by code_simp
qed

theorem early_stop_revives_terminated_witness:
  "ex_status (run_rounds [demo_env demo_entry 19] (early_stop False (executor_stop (demo_env demo_entry 19) demo_open))) =
     SHUTTING_DOWN"
proof -
  have "ex_terminated (executor_stop (demo_env demo_entry 19) demo_open)" by code_simp
  from early_stop_revives_terminated [OF this] show ?thesis .
qed

end
