(* ===== verification/Position_Hold.thy ===== *)
theory Position_Hold
  imports Executor_Scenario
begin

text \<open>
  \<open>ExecutorInfo\<close> (\<open>strategy_v2/models/executors_info.py\<close>) with the view a position executor
  gives of itself, and \<open>PositionHold\<close> of \<open>strategy_v2/executors/executor_orchestrator.py\<close>: the
  net position built from the orders of executors that ended with POSITION_HOLD. The lemmas show
  that its profit and loss is the mark-to-market value of the orders, each counted once.
\<close>

section \<open>Executor infos\<close>

text \<open>
  The fields of \<open>config\<close> the orchestrator reads are kept beside the others; those that not every
  configuration class has are optional, and reading an absent one raises AttributeError.
\<close>

record executor_info =
  ei_id :: string
  ei_timestamp :: decimal
  ei_type :: string
  ei_status :: runnable_status
  ei_trading_pair :: "string option"
  ei_connector_name :: "string option"
  ei_side :: "trade_type option"
  ei_position_action :: "position_action option"
  ei_net_pnl_pct :: decimal
  ei_net_pnl_quote :: decimal
  ei_cum_fees_quote :: decimal
  ei_filled_amount_quote :: decimal
  ei_is_active :: bool
  ei_is_trading :: bool
  ei_held_position_orders :: "json list option"
  ei_close_timestamp :: "decimal option"
  ei_close_type :: "close_type option"
  ei_controller_id :: string

definition ei_is_done :: "executor_info \<Rightarrow> bool" where
  "ei_is_done i = (ei_status i = TERMINATED)"

fun attr :: "'a option \<Rightarrow> 'a py_result" where
  "attr None = Inl AttributeError"
| "attr (Some x) = Inr x"

text \<open>What \<open>get_custom_info\<close> computes beside the held orders can raise.\<close>

definition pe_custom_info :: "exec_env \<Rightarrow> position_executor \<Rightarrow> json list py_result" where
  "pe_custom_info env x =
     ebind (entry_price env x) (\<lambda>_. ebind (close_price env x) (\<lambda>_. Inr (ex_held_position_orders x)))"

definition pe_executor_info :: "exec_env \<Rightarrow> position_executor \<Rightarrow> executor_info py_result" where
  "pe_executor_info env x =
     ebind (get_net_pnl_pct env x) (\<lambda>pct.
     ebind (get_net_pnl_quote env x) (\<lambda>pnl.
     ebind (pe_cum_fees_quote env x) (\<lambda>fees.
     ebind (filled_amount_quote env x) (\<lambda>filled.
     ebind (pe_is_trading env x) (\<lambda>trading.
     ebind (pe_custom_info env x) (\<lambda>held.
     Inr \<lparr>ei_id = pc_id (pe_config x), ei_timestamp = pc_timestamp (pe_config x),
          ei_type = ''position_executor'', ei_status = ex_status x,
          ei_trading_pair = Some (pc_trading_pair (pe_config x)),
          ei_connector_name = Some (pc_connector_name (pe_config x)),
          ei_side = Some (pc_side (pe_config x)), ei_position_action = None,
          ei_net_pnl_pct = pct, ei_net_pnl_quote = pnl, ei_cum_fees_quote = fees,
          ei_filled_amount_quote = filled, ei_is_active = ex_is_active x, ei_is_trading = trading,
          ei_held_position_orders = Some held, ei_close_timestamp = ex_close_timestamp x,
          ei_close_type = ex_close_type x, ei_controller_id = pc_controller_id (pe_config x)\<rparr>))))))"

section \<open>The net position\<close>

record position_hold =
  ph_connector_name :: string
  ph_trading_pair :: string
  ph_side :: "trade_type option"
  ph_order_ids :: "string option set"
  ph_net_amount_base :: decimal
  ph_avg_entry_price :: decimal
  ph_realized_pnl_quote :: decimal
  ph_volume_traded_quote :: decimal
  ph_cum_fees_quote :: decimal
  ph_buy_amount_base :: decimal
  ph_buy_amount_quote :: decimal
  ph_sell_amount_base :: decimal
  ph_sell_amount_quote :: decimal

definition new_position_hold :: "string \<Rightarrow> string \<Rightarrow> trade_type option \<Rightarrow> position_hold" where
  "new_position_hold connector pair sd =
     \<lparr>ph_connector_name = connector, ph_trading_pair = pair, ph_side = sd, ph_order_ids = {},
      ph_net_amount_base = 0, ph_avg_entry_price = 0, ph_realized_pnl_quote = 0,
      ph_volume_traded_quote = 0, ph_cum_fees_quote = 0, ph_buy_amount_base = 0,
      ph_buy_amount_quote = 0, ph_sell_amount_base = 0, ph_sell_amount_quote = 0\<rparr>"

definition reduce_position :: "bool \<Rightarrow> decimal \<Rightarrow> decimal \<Rightarrow> position_hold \<Rightarrow> position_hold" where
  "reduce_position is_buy base price p =
     (let net = ph_net_amount_base p; avg = ph_avg_entry_price p;
          matched = min base \<bar>net\<bar>;
          p1 = p\<lparr>ph_realized_pnl_quote := ph_realized_pnl_quote p
                   + (if net > 0 then (price - avg) * matched else (avg - price) * matched)\<rparr>;
          excess = base - matched
      in if excess > 0
         then p1\<lparr>ph_net_amount_base := (if is_buy then excess else - excess), ph_avg_entry_price := price\<rparr>
         else if matched = \<bar>net\<bar> then p1\<lparr>ph_net_amount_base := 0, ph_avg_entry_price := 0\<rparr>
         else p1\<lparr>ph_net_amount_base := (if net > 0 then net - matched else net + matched)\<rparr>)"

definition extend_position :: "bool \<Rightarrow> decimal \<Rightarrow> decimal \<Rightarrow> decimal \<Rightarrow> position_hold \<Rightarrow> position_hold outcome" where
  "extend_position is_buy base qt price p =
     (let net = ph_net_amount_base p in
      if net = 0
      then (p\<lparr>ph_net_amount_base := (if is_buy then base else - base), ph_avg_entry_price := price\<rparr>, None)
      else (let new_abs = \<bar>net\<bar> + base in
            try_value p (dec_div (ph_avg_entry_price p * \<bar>net\<bar> + qt) new_abs) (\<lambda>avg.
              (p\<lparr>ph_avg_entry_price := avg, ph_net_amount_base := (if is_buy then new_abs else - new_abs)\<rparr>,
               None))))"

definition process_order :: "bool \<Rightarrow> decimal \<Rightarrow> decimal \<Rightarrow> position_hold \<Rightarrow> position_hold outcome" where
  "process_order is_buy base qt p =
     (if base = 0 then (p, None)
      else let price = qt / base; net = ph_net_amount_base p
           in if (net > 0 \<and> \<not> is_buy) \<or> (net < 0 \<and> is_buy)
              then (reduce_position is_buy base price p, None)
              else extend_position is_buy base qt price p)"

definition count_order :: "bool \<Rightarrow> decimal \<Rightarrow> decimal \<Rightarrow> position_hold \<Rightarrow> position_hold" where
  "count_order is_buy base qt p =
     (let p1 = p\<lparr>ph_volume_traded_quote := ph_volume_traded_quote p + qt\<rparr>
      in if is_buy
         then p1\<lparr>ph_buy_amount_base := ph_buy_amount_base p1 + base,
                 ph_buy_amount_quote := ph_buy_amount_quote p1 + qt\<rparr>
         else p1\<lparr>ph_sell_amount_base := ph_sell_amount_base p1 + base,
                 ph_sell_amount_quote := ph_sell_amount_quote p1 + qt\<rparr>)"

text \<open>One order of the list; the closing debug line reads \<open>config.side\<close>.\<close>

definition add_held_order :: "executor_info \<Rightarrow> json \<Rightarrow> position_hold \<Rightarrow> position_hold outcome" where
  "add_held_order i j p =
     try_value p (ebind (json_get j ''client_order_id'' JNull) json_opt_str) (\<lambda>oid.
     if oid \<in> ph_order_ids p then (p, None)
     else let p1 = p\<lparr>ph_order_ids := insert oid (ph_order_ids p)\<rparr> in
       try_value p1 (ebind (json_get j ''executed_amount_base'' (JInt 0)) json_decimal) (\<lambda>base.
       try_value p1 (ebind (json_get j ''executed_amount_quote'' (JInt 0)) json_decimal) (\<lambda>qt.
       try_value p1 (json_get j ''trade_type'' JNull) (\<lambda>tt.
       let is_buy = (tt = JStr ''BUY''); p2 = count_order is_buy base qt p1 in
       try_value p2 (ebind (json_get j ''cumulative_fee_paid_quote'' (JInt 0)) json_decimal) (\<lambda>fee.
       obind (process_order is_buy base qt (p2\<lparr>ph_cum_fees_quote := ph_cum_fees_quote p2 + fee\<rparr>)) (\<lambda>p3.
       try_value p3 (attr (ei_side i)) (\<lambda>_. (p3, None))))))))"

fun add_held_orders :: "executor_info \<Rightarrow> json list \<Rightarrow> position_hold \<Rightarrow> position_hold outcome" where
  "add_held_orders i [] p = (p, None)"
| "add_held_orders i (j # js) p = obind (add_held_order i j p) (add_held_orders i js)"

definition add_orders_from_executor :: "executor_info \<Rightarrow> position_hold \<Rightarrow> position_hold outcome" where
  "add_orders_from_executor i p =
     (case ei_held_position_orders i of
        None \<Rightarrow> try_value p (attr (ei_side i)) (\<lambda>_. (p, None))
      | Some [] \<Rightarrow> try_value p (attr (ei_side i)) (\<lambda>_. (p, None))
      | Some (j # js) \<Rightarrow> add_held_orders i (j # js) p)"

record position_summary =
  psm_connector_name :: string
  psm_trading_pair :: string
  psm_volume_traded_quote :: decimal
  psm_side :: trade_type
  psm_amount :: decimal
  psm_breakeven_price :: decimal
  psm_unrealized_pnl_quote :: decimal
  psm_realized_pnl_quote :: decimal
  psm_cum_fees_quote :: decimal

definition psm_amount_quote :: "position_summary \<Rightarrow> decimal" where
  "psm_amount_quote s = psm_amount s * psm_breakeven_price s"

definition psm_global_pnl_quote :: "position_summary \<Rightarrow> decimal" where
  "psm_global_pnl_quote s = psm_unrealized_pnl_quote s + psm_realized_pnl_quote s - psm_cum_fees_quote s"

definition get_position_summary :: "decimal \<Rightarrow> position_hold \<Rightarrow> position_summary" where
  "get_position_summary mid p =
     (let abs_amount = \<bar>ph_net_amount_base p\<bar>;
          is_net_long = (ph_net_amount_base p \<ge> 0);
          unrealized = (if abs_amount > 0
                        then (if is_net_long then (mid - ph_avg_entry_price p) * abs_amount
                              else (ph_avg_entry_price p - mid) * abs_amount)
                        else 0)
      in \<lparr>psm_connector_name = ph_connector_name p, psm_trading_pair = ph_trading_pair p,
          psm_volume_traded_quote = ph_volume_traded_quote p,
          psm_side = (if is_net_long then BUY else SELL), psm_amount = abs_amount,
          psm_breakeven_price = ph_avg_entry_price p, psm_unrealized_pnl_quote = unrealized,
          psm_realized_pnl_quote = ph_realized_pnl_quote p, psm_cum_fees_quote = ph_cum_fees_quote p\<rparr>)"

section \<open>Held orders read\<close>

record held_order =
  ho_id :: "string option"
  ho_is_buy :: bool
  ho_base :: decimal
  ho_quote :: decimal
  ho_fee :: decimal

definition read_held_order :: "json \<Rightarrow> held_order py_result" where
  "read_held_order j =
     ebind (ebind (json_get j ''client_order_id'' JNull) json_opt_str) (\<lambda>oid.
     ebind (ebind (json_get j ''executed_amount_base'' (JInt 0)) json_decimal) (\<lambda>base.
     ebind (ebind (json_get j ''executed_amount_quote'' (JInt 0)) json_decimal) (\<lambda>qt.
     ebind (json_get j ''trade_type'' JNull) (\<lambda>tt.
     ebind (ebind (json_get j ''cumulative_fee_paid_quote'' (JInt 0)) json_decimal) (\<lambda>fee.
     Inr \<lparr>ho_id = oid, ho_is_buy = (tt = JStr ''BUY''), ho_base = base, ho_quote = qt, ho_fee = fee\<rparr>)))))"

definition held_order_ok :: "held_order \<Rightarrow> bool" where
  "held_order_ok h = (ho_base h > 0 \<or> ho_base h = 0 \<and> ho_quote h = 0)"

text \<open>The orders of a list that have not been counted, each once.\<close>

fun fresh_orders :: "string option set \<Rightarrow> held_order list \<Rightarrow> held_order list" where
  "fresh_orders ids [] = []"
| "fresh_orders ids (h # hs) =
     (if ho_id h \<in> ids then fresh_orders ids hs else h # fresh_orders (insert (ho_id h) ids) hs)"

text \<open>What an order is worth when the market stands at \<open>mid\<close>.\<close>

definition order_value :: "decimal \<Rightarrow> held_order \<Rightarrow> decimal" where
  "order_value mid h = (if ho_is_buy h then ho_base h * mid - ho_quote h else ho_quote h - ho_base h * mid)"

definition position_value :: "decimal \<Rightarrow> position_hold \<Rightarrow> decimal" where
  "position_value mid p =
     psm_realized_pnl_quote (get_position_summary mid p) + psm_unrealized_pnl_quote (get_position_summary mid p)"

lemma position_value_eq:
  "position_value mid p = ph_realized_pnl_quote p + (mid - ph_avg_entry_price p) * ph_net_amount_base p"
  by (auto simp: position_value_def get_position_summary_def Let_def abs_if algebra_simps)

definition signed_base :: "held_order \<Rightarrow> decimal" where
  "signed_base h = (if ho_is_buy h then ho_base h else - ho_base h)"

text \<open>What an order leaves alone, and what it adds.\<close>

definition same_counters :: "position_hold \<Rightarrow> position_hold \<Rightarrow> bool" where
  "same_counters p q =
     (ph_order_ids q = ph_order_ids p \<and> ph_volume_traded_quote q = ph_volume_traded_quote p
      \<and> ph_cum_fees_quote q = ph_cum_fees_quote p \<and> ph_connector_name q = ph_connector_name p
      \<and> ph_trading_pair q = ph_trading_pair p \<and> ph_side q = ph_side p
      \<and> ph_buy_amount_base q = ph_buy_amount_base p \<and> ph_buy_amount_quote q = ph_buy_amount_quote p
      \<and> ph_sell_amount_base q = ph_sell_amount_base p \<and> ph_sell_amount_quote q = ph_sell_amount_quote p)"

lemma same_counters_update [simp]:
  "same_counters p (p\<lparr>ph_net_amount_base := a\<rparr>)" "same_counters p (p\<lparr>ph_avg_entry_price := a\<rparr>)"
  "same_counters p (p\<lparr>ph_net_amount_base := a, ph_avg_entry_price := b\<rparr>)"
  "same_counters p (p\<lparr>ph_avg_entry_price := b, ph_net_amount_base := a\<rparr>)"
  by (simp_all add: same_counters_def)

lemma reduce_position_value:
  assumes "base > 0" and "(ph_net_amount_base p > 0 \<and> \<not> is_buy) \<or> (ph_net_amount_base p < 0 \<and> is_buy)"
  shows "position_value mid (reduce_position is_buy base price p)
           = position_value mid p + (if is_buy then base * mid - base * price else base * price - base * mid)"
    and "ph_net_amount_base (reduce_position is_buy base price p)
           = ph_net_amount_base p + (if is_buy then base else - base)"
    and "same_counters p (reduce_position is_buy base price p)"
  using assms
  by (auto simp: reduce_position_def Let_def position_value_eq same_counters_def min_def abs_if algebra_simps)

lemma extend_position_value:
  assumes "base > 0" and "\<not> ((ph_net_amount_base p > 0 \<and> \<not> is_buy) \<or> (ph_net_amount_base p < 0 \<and> is_buy))"
  shows "\<exists>q. extend_position is_buy base (base * price) price p = (q, None)
           \<and> position_value mid q = position_value mid p + (if is_buy then base * mid - base * price else base * price - base * mid)
           \<and> ph_net_amount_base q = ph_net_amount_base p + (if is_buy then base else - base)
           \<and> same_counters p q"
proof (cases "ph_net_amount_base p = 0")
  case True
  then show ?thesis
    using assms(1) by (auto simp: extend_position_def position_value_eq algebra_simps)
next
  case False
  let ?n = "ph_net_amount_base p" and ?a = "ph_avg_entry_price p"
  let ?new = "\<bar>?n\<bar> + base"
  have pos: "?new > 0" using assms(1) by linarith
  define avg where "avg = (?a * \<bar>?n\<bar> + base * price) / ?new"
  have cost: "avg * ?new = ?a * \<bar>?n\<bar> + base * price" using pos by (simp add: avg_def)
  have dir: "(?n > 0 \<and> is_buy) \<or> (?n < 0 \<and> \<not> is_buy)" using assms(2) False by auto
  let ?q = "p\<lparr>ph_avg_entry_price := avg, ph_net_amount_base := (if is_buy then ?new else - ?new)\<rparr>"
  have "extend_position is_buy base (base * price) price p = (?q, None)"
    using pos False by (simp add: extend_position_def Let_def avg_def)
  moreover have "position_value mid ?q = position_value mid p + (if is_buy then base * mid - base * price else base * price - base * mid)"
  proof -
    have "position_value mid ?q = ph_realized_pnl_quote p + (if is_buy then mid * ?new - avg * ?new else avg * ?new - mid * ?new)"
      by (simp add: position_value_eq algebra_simps)
    also have "\<dots> = position_value mid p + (if is_buy then base * mid - base * price else base * price - base * mid)"
      unfolding cost using dir by (auto simp: position_value_eq algebra_simps)
    finally show ?thesis .
  qed
  moreover have "ph_net_amount_base ?q = ?n + (if is_buy then base else - base)"
    using dir by auto
  ultimately show ?thesis by (intro exI [of _ ?q]) simp
qed

lemma process_order_value:
  assumes "base > 0 \<or> base = 0 \<and> qt = 0"
  obtains q where "process_order is_buy base qt p = (q, None)"
    and "\<And>mid. position_value mid q = position_value mid p + (if is_buy then base * mid - qt else qt - base * mid)"
    and "ph_net_amount_base q = ph_net_amount_base p + (if is_buy then base else - base)"
    and "same_counters p q"
proof (cases "base = 0")
  case True
  then show ?thesis
    using assms that [of p] by (simp add: process_order_def same_counters_def)
next
  case False
  then have pos: "base > 0" using assms by auto
  then have qt: "base * (qt / base) = qt" by simp
  show ?thesis
  proof (cases "(ph_net_amount_base p > 0 \<and> \<not> is_buy) \<or> (ph_net_amount_base p < 0 \<and> is_buy)")
    case True
    note red = reduce_position_value [OF pos True, where price = "qt / base", unfolded qt]
    show ?thesis
      by (rule that [of "reduce_position is_buy base (qt / base) p"])
        (use True False red in \<open>simp_all add: process_order_def Let_def\<close>)
  next
    case other: False
    obtain q where q: "extend_position is_buy base qt (qt / base) p = (q, None)"
        "ph_net_amount_base q = ph_net_amount_base p + (if is_buy then base else - base)" "same_counters p q"
      using extend_position_value [OF pos other, where price = "qt / base", unfolded qt] by blast
    moreover have "position_value mid q = position_value mid p + (if is_buy then base * mid - qt else qt - base * mid)" for mid
      using extend_position_value [OF pos other, where price = "qt / base" and mid = mid, unfolded qt] q(1) by auto
    moreover have "process_order is_buy base qt p = extend_position is_buy base qt (qt / base) p"
      using False other by (auto simp: process_order_def Let_def)
    ultimately show ?thesis by (intro that) simp_all
  qed
qed

section \<open>Booking the orders of an executor\<close>

text \<open>\<open>q\<close> is \<open>p\<close> after exactly the orders \<open>hs\<close>.\<close>

definition booked :: "position_hold \<Rightarrow> held_order list \<Rightarrow> position_hold \<Rightarrow> bool" where
  "booked p hs q =
     (ph_order_ids q = ph_order_ids p \<union> set (map ho_id hs)
      \<and> ph_volume_traded_quote q = ph_volume_traded_quote p + sum_list (map ho_quote hs)
      \<and> ph_cum_fees_quote q = ph_cum_fees_quote p + sum_list (map ho_fee hs)
      \<and> ph_net_amount_base q = ph_net_amount_base p + sum_list (map signed_base hs)
      \<and> ph_connector_name q = ph_connector_name p \<and> ph_trading_pair q = ph_trading_pair p
      \<and> ph_side q = ph_side p
      \<and> (\<forall>mid. position_value mid q = position_value mid p + sum_list (map (order_value mid) hs)))"

lemma ebind5_InrD:
  "ebind A (\<lambda>a. ebind B (\<lambda>b. ebind C (\<lambda>c. ebind D (\<lambda>d. ebind E (\<lambda>e. Inr (F a b c d e)))))) = Inr h
   \<Longrightarrow> \<exists>a b c d e. A = Inr a \<and> B = Inr b \<and> C = Inr c \<and> D = Inr d \<and> E = Inr e \<and> h = F a b c d e"
  by (cases A; cases B; cases C; cases D; cases E) auto

lemma booked_refl [simp]: "booked p [] p"
  by (simp add: booked_def)

lemma booked_trans: "booked p hs q \<Longrightarrow> booked q hs' r \<Longrightarrow> booked p (hs @ hs') r"
  by (simp add: booked_def Un_assoc)

lemma add_held_order_counted:
  "read_held_order j = Inr h \<Longrightarrow> ho_id h \<in> ph_order_ids p \<Longrightarrow> add_held_order i j p = (p, None)"
  by (auto simp: add_held_order_def read_held_order_def ebind_eq_Inr_iff Let_def)

lemma add_held_order_unfold:
  assumes "read_held_order j = Inr h" and "ho_id h \<notin> ph_order_ids p"
  shows "add_held_order i j p =
           (let p2 = count_order (ho_is_buy h) (ho_base h) (ho_quote h)
                       (p\<lparr>ph_order_ids := insert (ho_id h) (ph_order_ids p)\<rparr>) in
            obind (process_order (ho_is_buy h) (ho_base h) (ho_quote h)
                     (p2\<lparr>ph_cum_fees_quote := ph_cum_fees_quote p2 + ho_fee h\<rparr>)) (\<lambda>p3.
              try_value p3 (attr (ei_side i)) (\<lambda>_. (p3, None))))"
proof -
  obtain oid base qt tt fee where
    r: "ebind (json_get j ''client_order_id'' JNull) json_opt_str = Inr oid"
       "ebind (json_get j ''executed_amount_base'' (JInt 0)) json_decimal = Inr base"
       "ebind (json_get j ''executed_amount_quote'' (JInt 0)) json_decimal = Inr qt"
       "json_get j ''trade_type'' JNull = Inr tt"
       "ebind (json_get j ''cumulative_fee_paid_quote'' (JInt 0)) json_decimal = Inr fee"
    and h: "h = \<lparr>ho_id = oid, ho_is_buy = (tt = JStr ''BUY''), ho_base = base, ho_quote = qt, ho_fee = fee\<rparr>"
    using ebind5_InrD [OF assms(1) [unfolded read_held_order_def]] by blast
  show ?thesis
    using assms(2) unfolding add_held_order_def r try_value_simps h Let_def by (simp only: held_order.select_convs if_False)
qed

lemma count_order_simps [simp]:
  "ph_net_amount_base (count_order b x y p) = ph_net_amount_base p"
  "position_value mid (count_order b x y p) = position_value mid p"
  "ph_volume_traded_quote (count_order b x y p) = ph_volume_traded_quote p + y"
  "ph_cum_fees_quote (count_order b x y p) = ph_cum_fees_quote p"
  "ph_order_ids (count_order b x y p) = ph_order_ids p"
  "ph_connector_name (count_order b x y p) = ph_connector_name p"
  "ph_trading_pair (count_order b x y p) = ph_trading_pair p"
  "ph_side (count_order b x y p) = ph_side p"
  "ph_avg_entry_price (count_order b x y p) = ph_avg_entry_price p"
  "ph_realized_pnl_quote (count_order b x y p) = ph_realized_pnl_quote p"
  by (simp_all add: count_order_def Let_def position_value_eq)

lemma position_value_other_fields [simp]:
  "position_value mid (p\<lparr>ph_order_ids := ids\<rparr>) = position_value mid p"
  "position_value mid (p\<lparr>ph_cum_fees_quote := c\<rparr>) = position_value mid p"
  by (simp_all add: position_value_eq)

lemma add_held_order_booked:
  assumes "read_held_order j = Inr h" "ho_id h \<notin> ph_order_ids p" "held_order_ok h" "ei_side i = Some sd"
  obtains q where "add_held_order i j p = (q, None)" and "booked p [h] q"
proof -
  let ?p2 = "count_order (ho_is_buy h) (ho_base h) (ho_quote h)
               (p\<lparr>ph_order_ids := insert (ho_id h) (ph_order_ids p)\<rparr>)"
  let ?p3 = "?p2\<lparr>ph_cum_fees_quote := ph_cum_fees_quote ?p2 + ho_fee h\<rparr>"
  have ok: "ho_base h > 0 \<or> ho_base h = 0 \<and> ho_quote h = 0"
    using assms(3) by (simp add: held_order_ok_def)
  show ?thesis
  proof (rule process_order_value [OF ok, where p = ?p3 and is_buy = "ho_is_buy h"])
    fix q
    assume q: "process_order (ho_is_buy h) (ho_base h) (ho_quote h) ?p3 = (q, None)"
      "\<And>mid. position_value mid q = position_value mid ?p3
         + (if ho_is_buy h then ho_base h * mid - ho_quote h else ho_quote h - ho_base h * mid)"
      "ph_net_amount_base q = ph_net_amount_base ?p3 + (if ho_is_buy h then ho_base h else - ho_base h)"
      "same_counters ?p3 q"
    have "add_held_order i j p = (q, None)"
      using q(1) assms(4) by (simp add: add_held_order_unfold [OF assms(1,2)] Let_def)
    moreover have "booked p [h] q"
      using q(2-4) by (auto simp: booked_def same_counters_def signed_base_def order_value_def)
    ultimately show ?thesis by (rule that)
  qed
qed

lemma add_held_orders_booked:
  assumes "emap read_held_order js = Inr hs" "\<forall>h \<in> set hs. held_order_ok h" "ei_side i = Some sd"
  shows "\<exists>q. add_held_orders i js p = (q, None) \<and> booked p (fresh_orders (ph_order_ids p) hs) q"
  using assms(1,2)
proof (induction js arbitrary: hs p)
  case Nil
  then show ?case by simp
next
  case (Cons j js)
  then obtain h hs' where h: "read_held_order j = Inr h" "emap read_held_order js = Inr hs'" "hs = h # hs'"
    by (auto simp: ebind_eq_Inr_iff)
  have ok: "held_order_ok h" "\<forall>h \<in> set hs'. held_order_ok h" using Cons.prems(2) h(3) by auto
  show ?case
  proof (cases "ho_id h \<in> ph_order_ids p")
    case True
    then show ?thesis
      using Cons.IH [OF h(2) ok(2)] add_held_order_counted [OF h(1)] h(3) by simp
  next
    case False
    obtain p1 where p1: "add_held_order i j p = (p1, None)" "booked p [h] p1"
      using add_held_order_booked [OF h(1) False ok(1) assms(3)] by blast
    obtain q where q: "add_held_orders i js p1 = (q, None)" "booked p1 (fresh_orders (ph_order_ids p1) hs') q"
      using Cons.IH [OF h(2) ok(2)] by blast
    have "ph_order_ids p1 = insert (ho_id h) (ph_order_ids p)" using p1(2) by (simp add: booked_def)
    then show ?thesis
      using booked_trans [OF p1(2) q(2)] p1(1) q(1) False h(3) by simp
  qed
qed

lemma fresh_orders_seen: "ho_id ` set hs \<subseteq> ids \<Longrightarrow> fresh_orders ids hs = []"
  by (induction hs) auto

lemma fresh_orders_ids: "ids \<union> ho_id ` set (fresh_orders ids hs) = ids \<union> ho_id ` set hs"
proof (induction hs arbitrary: ids)
  case (Cons h hs)
  show ?case
    using Cons.IH [of ids] Cons.IH [of "insert (ho_id h) ids"] by auto
qed simp

text \<open>
  C15: The orders of an executor that ends with its position held enter a position once each: the
  position's profit and loss at any price, realized and unrealized together, grows by exactly what
  the orders not counted before are worth at that price, and the traded volume and the fees by
  their amounts. Prices at which the position is reduced, closed or turned over only move value
  between the realized and the unrealized part.
\<close>

theorem held_position_marks_orders_to_market:
  assumes "ei_side i = Some sd" and "ei_held_position_orders i = Some js"
    and "emap read_held_order js = Inr hs" and "\<forall>h \<in> set hs. held_order_ok h"
  shows "\<exists>q. add_orders_from_executor i p = (q, None)
     \<and> (\<forall>mid. position_value mid q
              = position_value mid p + sum_list (map (order_value mid) (fresh_orders (ph_order_ids p) hs)))
     \<and> ph_volume_traded_quote q
         = ph_volume_traded_quote p + sum_list (map ho_quote (fresh_orders (ph_order_ids p) hs))
     \<and> ph_cum_fees_quote q
         = ph_cum_fees_quote p + sum_list (map ho_fee (fresh_orders (ph_order_ids p) hs))"
proof -
  obtain q where q: "add_held_orders i js p = (q, None)" "booked p (fresh_orders (ph_order_ids p) hs) q"
    using add_held_orders_booked [OF assms(3,4,1)] by blast
  have "add_orders_from_executor i p = (q, None)"
    using q(1) assms(1,2) by (cases js) (simp_all add: add_orders_from_executor_def)
  then show ?thesis using q(2) by (auto simp: booked_def)
qed

section \<open>Counted once\<close>

lemma try_valueE:
  "try_value s m f = (q, None) \<Longrightarrow> (\<And>v. m = Inr v \<Longrightarrow> f v = (q, None) \<Longrightarrow> P) \<Longrightarrow> P"
  by (cases m) auto

lemma add_held_order_ids:
  assumes "add_held_order i j p = (q, None)"
  shows "add_held_order i j q = (q, None)" and "ph_order_ids p \<subseteq> ph_order_ids q"
    and "\<exists>oid. ebind (json_get j ''client_order_id'' JNull) json_opt_str = Inr oid \<and> oid \<in> ph_order_ids q"
proof -
  obtain oid where oid: "ebind (json_get j ''client_order_id'' JNull) json_opt_str = Inr oid"
    using assms by (cases "ebind (json_get j ''client_order_id'' JNull) json_opt_str") (auto simp: add_held_order_def)
  have sub: "insert oid (ph_order_ids p) \<subseteq> ph_order_ids q"
  proof (cases "oid \<in> ph_order_ids p")
    case True
    then show ?thesis using assms oid by (simp add: add_held_order_def)
  next
    case False
    have ids: "ph_order_ids (fst (process_order b x y r)) = ph_order_ids r" for b x y r
      by (auto simp: process_order_def reduce_position_def extend_position_def Let_def try_value_def
          split: sum.split)
    have keep: "obind (process_order b x y r) (\<lambda>p3. try_value p3 m (\<lambda>_. (p3, None))) = (q', None)
        \<Longrightarrow> ph_order_ids q' = ph_order_ids r" for b x y r q' and m :: "'z py_result"
      using ids [of b x y r]
      by (cases "process_order b x y r"; cases "snd (process_order b x y r)"; cases m) auto
    have "ph_order_ids q = insert oid (ph_order_ids p)"
      using assms oid False unfolding add_held_order_def Let_def
      by (simp only: try_value_simps if_False) (elim try_valueE, drule keep, simp)
    then show ?thesis by simp
  qed
  then show "ph_order_ids p \<subseteq> ph_order_ids q" by simp
  show "\<exists>oid. ebind (json_get j ''client_order_id'' JNull) json_opt_str = Inr oid \<and> oid \<in> ph_order_ids q"
    using oid sub by blast
  show "add_held_order i j q = (q, None)"
    using oid sub by (simp add: add_held_order_def)
qed

text \<open>A position that has counted every order of an executor.\<close>

definition absorbed :: "json list \<Rightarrow> position_hold \<Rightarrow> bool" where
  "absorbed js p =
     (\<forall>j \<in> set js. \<exists>oid. ebind (json_get j ''client_order_id'' JNull) json_opt_str = Inr oid \<and> oid \<in> ph_order_ids p)"

lemma absorbed_mono: "absorbed js p \<Longrightarrow> ph_order_ids p \<subseteq> ph_order_ids q \<Longrightarrow> absorbed js q"
  unfolding absorbed_def by blast

lemma absorbed_add: "absorbed js p \<Longrightarrow> add_held_orders i js p = (p, None)"
proof (induction js)
  case (Cons j js)
  then have "add_held_order i j p = (p, None)" and "absorbed js p"
    by (auto simp: absorbed_def add_held_order_def)
  then show ?case using Cons.IH by simp
qed simp

lemma add_held_orders_absorbed:
  "add_held_orders i js p = (q, None) \<Longrightarrow> absorbed js q \<and> ph_order_ids p \<subseteq> ph_order_ids q"
proof (induction js arbitrary: p)
  case Nil
  then show ?case by (simp add: absorbed_def)
next
  case (Cons j js)
  from Cons.prems obtain p1 where p1: "add_held_order i j p = (p1, None)" "add_held_orders i js p1 = (q, None)"
    by (cases "add_held_order i j p"; cases "snd (add_held_order i j p)") auto
  have "absorbed js q" and sub: "ph_order_ids p1 \<subseteq> ph_order_ids q"
    using Cons.IH [OF p1(2)] by auto
  moreover have "\<exists>oid. ebind (json_get j ''client_order_id'' JNull) json_opt_str = Inr oid \<and> oid \<in> ph_order_ids q"
    using add_held_order_ids(3) [OF p1(1)] sub by blast
  ultimately have "absorbed (j # js) q" by (simp add: absorbed_def)
  moreover have "ph_order_ids p \<subseteq> ph_order_ids q"
    using add_held_order_ids(2) [OF p1(1)] sub by (rule subset_trans)
  ultimately show ?case by simp
qed

definition held_orders_of :: "executor_info \<Rightarrow> json list" where
  "held_orders_of i = (case ei_held_position_orders i of None \<Rightarrow> [] | Some js \<Rightarrow> js)"

lemma add_orders_eq:
  "add_orders_from_executor i p =
     (if held_orders_of i = [] then try_value p (attr (ei_side i)) (\<lambda>_. (p, None))
      else add_held_orders i (held_orders_of i) p)"
  by (simp add: add_orders_from_executor_def held_orders_of_def split: option.split list.split)

lemma add_orders_absorbed:
  assumes "add_orders_from_executor i p = (q, None)"
  shows "absorbed (held_orders_of i) q" and "ph_order_ids p \<subseteq> ph_order_ids q"
  using assms add_held_orders_absorbed [of i "held_orders_of i" p q]
  by (cases "ei_side i"; auto simp: add_orders_eq absorbed_def split: if_splits)+

lemma absorbed_add_orders:
  assumes "absorbed (held_orders_of i) q" and "add_orders_from_executor i p = (r, None)"
  shows "add_orders_from_executor i q = (q, None)"
  using assms absorbed_add [OF assms(1), of i]
  by (cases "ei_side i") (auto simp: add_orders_eq split: if_splits)

section \<open>The average entry price\<close>

definition entry_within :: "decimal \<Rightarrow> decimal \<Rightarrow> position_hold \<Rightarrow> bool" where
  "entry_within lo hi p =
     (ph_net_amount_base p \<noteq> 0 \<longrightarrow> lo \<le> ph_avg_entry_price p \<and> ph_avg_entry_price p \<le> hi)"

definition filled_within :: "decimal \<Rightarrow> decimal \<Rightarrow> held_order \<Rightarrow> bool" where
  "filled_within lo hi h =
     (ho_base h \<ge> 0 \<and> lo * ho_base h \<le> ho_quote h \<and> ho_quote h \<le> hi * ho_base h)"

lemma weighted_mean_bounds:
  assumes "(a :: rat) \<ge> 0" "b > 0" "lo \<le> x" "x \<le> hi" "lo * b \<le> y" "y \<le> hi * b"
  shows "lo \<le> (x * a + y) / (a + b)" "(x * a + y) / (a + b) \<le> hi"
proof -
  have pos: "a + b > 0" using assms by linarith
  have "lo * a \<le> x * a" "x * a \<le> hi * a" using assms by (simp_all add: mult_right_mono)
  then have "lo * (a + b) \<le> x * a + y" "x * a + y \<le> hi * (a + b)"
    using assms(5,6) by (simp_all add: distrib_left)
  then show "lo \<le> (x * a + y) / (a + b)" "(x * a + y) / (a + b) \<le> hi"
    using pos by (simp_all add: pos_le_divide_eq pos_divide_le_eq)
qed

lemma process_order_within:
  assumes "entry_within lo hi p" "base \<ge> 0" "lo * base \<le> qt" "qt \<le> hi * base"
    and "process_order is_buy base qt p = (q, None)"
  shows "entry_within lo hi q"
proof (cases "base = 0")
  case True
  then show ?thesis using assms by (simp add: process_order_def)
next
  case False
  then have pos: "base > 0" using assms(2) by simp
  have price: "lo \<le> qt / base" "qt / base \<le> hi"
    using assms(3,4) pos by (simp_all add: pos_le_divide_eq pos_divide_le_eq)
  let ?n = "ph_net_amount_base p"
  show ?thesis
  proof (cases "(?n > 0 \<and> \<not> is_buy) \<or> (?n < 0 \<and> is_buy)")
    case True
    then have "q = reduce_position is_buy base (qt / base) p"
      using assms(5) False by (auto simp: process_order_def Let_def)
    then show ?thesis
      using assms(1) price True by (auto simp: reduce_position_def Let_def entry_within_def)
  next
    case other: False
    have ext: "extend_position is_buy base qt (qt / base) p = (q, None)"
      using assms(5) False other by (auto simp: process_order_def Let_def split: if_splits)
    show ?thesis
    proof (cases "?n = 0")
      case True
      then show ?thesis using ext price by (auto simp: extend_position_def entry_within_def)
    next
      case nz: False
      have "ph_avg_entry_price q = (ph_avg_entry_price p * \<bar>?n\<bar> + qt) / (\<bar>?n\<bar> + base)"
        using ext nz pos by (auto simp: extend_position_def Let_def)
      then show ?thesis
        using weighted_mean_bounds [OF abs_ge_zero pos _ _ assms(3,4), of "ph_avg_entry_price p" ?n] assms(1) nz
        by (simp add: entry_within_def)
    qed
  qed
qed

lemma add_held_order_within:
  assumes "entry_within lo hi p" "read_held_order j = Inr h" "filled_within lo hi h"
    and "add_held_order i j p = (q, None)"
  shows "entry_within lo hi q"
proof (cases "ho_id h \<in> ph_order_ids p")
  case True
  then show ?thesis using assms add_held_order_counted by simp
next
  case False
  let ?p2 = "count_order (ho_is_buy h) (ho_base h) (ho_quote h)
               (p\<lparr>ph_order_ids := insert (ho_id h) (ph_order_ids p)\<rparr>)"
  let ?p3 = "?p2\<lparr>ph_cum_fees_quote := ph_cum_fees_quote ?p2 + ho_fee h\<rparr>"
  have "process_order (ho_is_buy h) (ho_base h) (ho_quote h) ?p3 = (q, None)"
    using assms(4) unfolding add_held_order_unfold [OF assms(2) False] Let_def
    by (cases "process_order (ho_is_buy h) (ho_base h) (ho_quote h) ?p3";
        cases "snd (process_order (ho_is_buy h) (ho_base h) (ho_quote h) ?p3)"; cases "ei_side i") auto
  moreover have "entry_within lo hi ?p3" using assms(1) by (simp add: entry_within_def)
  ultimately show ?thesis
    using process_order_within assms(3) unfolding filled_within_def by blast
qed

lemma add_held_orders_within:
  "entry_within lo hi p \<Longrightarrow> emap read_held_order js = Inr hs \<Longrightarrow> \<forall>h \<in> set hs. filled_within lo hi h
   \<Longrightarrow> add_held_orders i js p = (q, None) \<Longrightarrow> entry_within lo hi q"
proof (induction js arbitrary: p hs)
  case (Cons j js)
  then obtain h hs' where h: "read_held_order j = Inr h" "emap read_held_order js = Inr hs'" "hs = h # hs'"
    by (auto simp: ebind_eq_Inr_iff)
  obtain p1 where p1: "add_held_order i j p = (p1, None)" "add_held_orders i js p1 = (q, None)"
    using Cons.prems(4) by (cases "add_held_order i j p"; cases "snd (add_held_order i j p)") auto
  have "entry_within lo hi p1"
    using add_held_order_within [OF Cons.prems(1) h(1) _ p1(1)] Cons.prems(3) h(3) by simp
  then show ?case using Cons.IH [OF _ h(2) _ p1(2)] Cons.prems(3) h(3) by simp
qed simp

text \<open>
  The average entry price of an open position lies between the lowest and the highest price
  its orders were filled at, however they extend, reduce, close and turn over the position.
\<close>

theorem average_entry_price_within_fills:
  assumes "entry_within lo hi p" and "emap read_held_order (held_orders_of i) = Inr hs"
    and "\<forall>h \<in> set hs. filled_within lo hi h" and "add_orders_from_executor i p = (q, None)"
    and "ph_net_amount_base q \<noteq> 0"
  shows "lo \<le> psm_breakeven_price (get_position_summary mid q)
    \<and> psm_breakeven_price (get_position_summary mid q) \<le> hi"
proof -
  have "entry_within lo hi q"
  proof (cases "held_orders_of i = []")
    case True
    then show ?thesis using assms(1,4) by (cases "ei_side i") (auto simp: add_orders_eq)
  next
    case False
    then show ?thesis using add_held_orders_within [OF assms(1-3)] assms(4) by (simp add: add_orders_eq)
  qed
  then show ?thesis
    using assms(5) by (simp_all add: entry_within_def get_position_summary_def Let_def)
qed

section \<open>From the executor to the position\<close>

lemma held_order_of_json:
  "order_to_json rate ord = Inr j \<Longrightarrow> quote_asset ord = Inr qa \<Longrightarrow>
   read_held_order j = Inr \<lparr>ho_id = Some (o_client_order_id ord), ho_is_buy = (o_trade_type ord = BUY),
      ho_base = o_executed_amount_base ord, ho_quote = o_executed_amount_quote ord,
      ho_fee = cumulative_fee_paid rate ord qa\<rparr>"
  by (cases "o_trade_type ord") (auto simp: order_to_json_def read_held_order_def json_decimal_def)

lemma pe_executor_info_fields:
  "pe_executor_info env x = Inr i \<Longrightarrow>
   ei_held_position_orders i = Some (ex_held_position_orders x) \<and> ei_side i = Some (side x)
   \<and> ei_close_type i = ex_close_type x \<and> ei_status i = ex_status x"
  by (auto simp: pe_executor_info_def pe_custom_info_def ebind_eq_Inr_iff)

text \<open>
  When a position executor that was stopped with its position kept has only its filled entry
  order, one round of its shutdown terminates it with that order held, and the position it is
  added to changes by exactly the order's executed amount, in the order's direction.
\<close>

theorem kept_position_enters_net_position:
  assumes "ex_status x = SHUTTING_DOWN" and "ex_close_type x = Some POSITION_HOLD"
    and "\<not> ex_terminated x" and "ex_held_position_orders x = []" and "ex_current_retries x \<le> ex_max_retries x"
    and "open_order x = Some t" and "tracked env t = Some ord" and "is_done ord" and "is_filled ord"
    and "pe_close_order x = None" and "pe_take_profit_limit_order x = None"
    and "quote_asset ord = Inr qa" and "o_executed_amount_base ord > 0"
    and "pe_executor_info env (fst (control_round control_task env x)) = Inr i"
    and "Some (o_client_order_id ord) \<notin> ph_order_ids p"
  shows "ei_is_done i
    \<and> (\<exists>q. add_orders_from_executor i p = (q, None)
           \<and> ph_net_amount_base q = ph_net_amount_base p
               + (if o_trade_type ord = BUY then o_executed_amount_base ord else - o_executed_amount_base ord))"
proof -
  obtain j where j: "order_to_json (env_rate env) ord = Inr j"
    using assms(12) by (simp add: order_to_json_def)
  define h where "h = \<lparr>ho_id = Some (o_client_order_id ord), ho_is_buy = (o_trade_type ord = BUY),
      ho_base = o_executed_amount_base ord, ho_quote = o_executed_amount_quote ord,
      ho_fee = cumulative_fee_paid (env_rate env) ord qa\<rparr>"
  define y where "y = fst (control_round control_task env x)"
  obtain c a where c: "pe_open_order x = Some c" "pe_cells x c = t" "to_order t = Some a" "env_orders env a = ord"
    using assms(6,7) by (auto simp: open_order_def tracked_def)
  have y: "ex_status y = TERMINATED" "ex_held_position_orders y = [j]"
    using assms(1-5,8-11) c j
    by (simp_all add: y_def control_round_def control_task_def control_shutdown_process_def Let_def
        all_orders_completed_def done_or_absent_def take_profit_limit_order_def close_order_def open_order_def
        to_is_done_def to_is_filled_def tracked_def filled_order_def hold_order_def evaluate_max_retries_def)
  have i: "ei_held_position_orders i = Some [j]" "ei_side i = Some (side y)" "ei_status i = TERMINATED"
    using pe_executor_info_fields [of env y i] assms(14) y by (simp_all add: y_def)
  have ended: "ei_is_done i" using i(3) by (simp add: ei_is_done_def)
  have rd: "emap read_held_order [j] = Inr [h]"
    using held_order_of_json [OF j assms(12)] by (simp add: h_def)
  obtain q where q: "add_held_orders i [j] p = (q, None)" "booked p (fresh_orders (ph_order_ids p) [h]) q"
    using add_held_orders_booked [OF rd _ i(2)] assms(13) by (auto simp: held_order_ok_def h_def)
  have "fresh_orders (ph_order_ids p) [h] = [h]" using assms(15) by (simp add: h_def)
  then have "ph_net_amount_base q = ph_net_amount_base p
               + (if o_trade_type ord = BUY then o_executed_amount_base ord else - o_executed_amount_base ord)"
    using q(2) by (simp add: booked_def signed_base_def h_def)
  then show ?thesis
    using ended q(1) i(1) by (auto simp: add_orders_from_executor_def)
qed

text \<open>
  An entry order that was cancelled after a partial fill is not held: stopped with its position
  kept, the executor drops the filled part and ends as EARLY_STOP with no held order, although the
  position is open.
\<close>

theorem kept_partial_fill_is_forgotten:
  assumes "ex_status x = SHUTTING_DOWN" and "ex_close_type x = Some POSITION_HOLD"
    and "\<not> ex_terminated x" and "ex_held_position_orders x = []" and "ex_current_retries x \<le> ex_max_retries x"
    and "open_order x = Some t" and "tracked env t = Some ord" and "is_done ord" and "\<not> is_filled ord"
    and "pe_close_order x = None" and "pe_take_profit_limit_order x = None"
    and "pe_executor_info env (fst (control_round control_task env x)) = Inr i"
  shows "ei_is_done i \<and> ei_close_type i = Some EARLY_STOP \<and> held_orders_of i = []"
proof -
  define y where "y = fst (control_round control_task env x)"
  obtain c a where c: "pe_open_order x = Some c" "pe_cells x c = t" "to_order t = Some a" "env_orders env a = ord"
    using assms(6,7) by (auto simp: open_order_def tracked_def)
  have y: "ex_status y = TERMINATED" "ex_held_position_orders y = []" "ex_close_type y = Some EARLY_STOP"
    using assms(1-5,8-11) c
    by (simp_all add: y_def control_round_def control_task_def control_shutdown_process_def Let_def
        all_orders_completed_def done_or_absent_def take_profit_limit_order_def close_order_def open_order_def
        to_is_done_def to_is_filled_def tracked_def filled_order_def hold_order_def evaluate_max_retries_def)
  then show ?thesis
    using pe_executor_info_fields [of env y i] assms(12)
    by (simp_all add: y_def ei_is_done_def held_orders_of_def)
qed

section \<open>Witnesses\<close>

definition demo_held :: "string \<Rightarrow> string \<Rightarrow> decimal \<Rightarrow> decimal \<Rightarrow> json" where
  "demo_held oid tt base qt =
     JObj [(''client_order_id'', JStr oid), (''trade_type'', JStr tt), (''executed_amount_base'', JDec (Fin base)),
           (''executed_amount_quote'', JDec (Fin qt)), (''cumulative_fee_paid_quote'', JNum (1 / 10))]"

definition demo_info :: "json list \<Rightarrow> executor_info" where
  "demo_info js =
     \<lparr>ei_id = ''x1'', ei_timestamp = 1, ei_type = ''position_executor'', ei_status = TERMINATED,
      ei_trading_pair = Some ''SOL-USDC'', ei_connector_name = Some ''binance'', ei_side = Some BUY,
      ei_position_action = None, ei_net_pnl_pct = 0, ei_net_pnl_quote = 0, ei_cum_fees_quote = 0,
      ei_filled_amount_quote = 0, ei_is_active = False, ei_is_trading = False,
      ei_held_position_orders = Some js, ei_close_timestamp = Some 9, ei_close_type = Some POSITION_HOLD,
      ei_controller_id = ''main''\<rparr>"

text \<open>A long position of 3 at 20 that a sale of 5 at 22 turns over; the first order comes twice.\<close>

definition demo_orders :: "json list" where
  "demo_orders = [demo_held ''a'' ''BUY'' 3 60, demo_held ''b'' ''SELL'' 5 110, demo_held ''a'' ''BUY'' 3 60]"

lemma demo_orders_read:
  "emap read_held_order demo_orders = Inr
     [\<lparr>ho_id = Some ''a'', ho_is_buy = True, ho_base = 3, ho_quote = 60, ho_fee = 1 / 10\<rparr>,
      \<lparr>ho_id = Some ''b'', ho_is_buy = False, ho_base = 5, ho_quote = 110, ho_fee = 1 / 10\<rparr>,
      \<lparr>ho_id = Some ''a'', ho_is_buy = True, ho_base = 3, ho_quote = 60, ho_fee = 1 / 10\<rparr>]"
  by code_simp

theorem held_position_marks_orders_to_market_witness:
  "\<exists>q. add_orders_from_executor (demo_info demo_orders) (new_position_hold ''binance'' ''SOL-USDC'' None) = (q, None)
     \<and> position_value 25 q = (- 60 + 75) + (110 - 125) \<and> ph_volume_traded_quote q = 170"
proof -
  have "ei_side (demo_info demo_orders) = Some BUY" "ei_held_position_orders (demo_info demo_orders) = Some demo_orders"
    by (simp_all add: demo_info_def)
  from held_position_marks_orders_to_market [OF this demo_orders_read,
      of "new_position_hold ''binance'' ''SOL-USDC'' None"]
  obtain q where q: "add_orders_from_executor (demo_info demo_orders) (new_position_hold ''binance'' ''SOL-USDC'' None) = (q, None)"
    and "position_value 25 q = position_value 25 (new_position_hold ''binance'' ''SOL-USDC'' None) + (15 + - 15)"
    and "ph_volume_traded_quote q = 170"
    by (auto simp: held_order_ok_def new_position_hold_def order_value_def)
  then show ?thesis by (auto simp: position_value_eq new_position_hold_def)
qed

theorem average_entry_price_within_fills_witness:
  "\<exists>q. add_orders_from_executor (demo_info demo_orders) (new_position_hold ''binance'' ''SOL-USDC'' None) = (q, None)
     \<and> 20 \<le> psm_breakeven_price (get_position_summary 25 q) \<and> psm_breakeven_price (get_position_summary 25 q) \<le> 22"
proof -
  let ?p = "new_position_hold ''binance'' ''SOL-USDC'' None"
  define q where "q = fst (add_orders_from_executor (demo_info demo_orders) ?p)"
  have add: "add_orders_from_executor (demo_info demo_orders) ?p = (q, None)"
    and net: "ph_net_amount_base q \<noteq> 0"
    unfolding q_def by (rule prod_eqI) (code_simp+)
  have start: "entry_within 20 22 ?p" by code_simp
  have orders: "emap read_held_order (held_orders_of (demo_info demo_orders)) = Inr
     [\<lparr>ho_id = Some ''a'', ho_is_buy = True, ho_base = 3, ho_quote = 60, ho_fee = 1 / 10\<rparr>,
      \<lparr>ho_id = Some ''b'', ho_is_buy = False, ho_base = 5, ho_quote = 110, ho_fee = 1 / 10\<rparr>,
      \<lparr>ho_id = Some ''a'', ho_is_buy = True, ho_base = 3, ho_quote = 60, ho_fee = 1 / 10\<rparr>]"
    using demo_orders_read by (simp add: held_orders_of_def demo_info_def)
  show ?thesis
    using average_entry_price_within_fills [OF start orders _ add net] add by (auto simp: filled_within_def)
qed

definition demo_keeping :: position_executor where
  "demo_keeping = early_stop True demo_open"

theorem kept_position_enters_net_position_witness:
  "\<exists>i q. pe_executor_info (demo_env demo_entry 19) (fst (control_round control_task (demo_env demo_entry 19) demo_keeping)) = Inr i
     \<and> add_orders_from_executor i (new_position_hold ''binance'' ''SOL-USDC'' None) = (q, None)
     \<and> ph_net_amount_base q = 3"
proof -
  let ?env = "demo_env demo_entry 19"
  obtain i where i: "pe_executor_info ?env (fst (control_round control_task ?env demo_keeping)) = Inr i"
  proof -
    have "case pe_executor_info ?env (fst (control_round control_task ?env demo_keeping)) of Inr i \<Rightarrow> True | Inl e \<Rightarrow> False"
      by code_simp
    then show thesis using that by (auto split: sum.splits)
  qed
  have "ex_status demo_keeping = SHUTTING_DOWN" "ex_close_type demo_keeping = Some POSITION_HOLD"
    "\<not> ex_terminated demo_keeping" "ex_held_position_orders demo_keeping = []"
    "ex_current_retries demo_keeping \<le> ex_max_retries demo_keeping"
    "open_order demo_keeping = Some \<lparr>to_order_id = ''o'', to_order = Some 0\<rparr>"
    "tracked ?env \<lparr>to_order_id = ''o'', to_order = Some 0\<rparr> = Some demo_entry"
    "is_done demo_entry" "is_filled demo_entry" "pe_close_order demo_keeping = None"
    "pe_take_profit_limit_order demo_keeping = None" "quote_asset demo_entry = Inr ''USDC''"
    "o_executed_amount_base demo_entry > 0"
    by code_simp+
  from kept_position_enters_net_position [OF this i, of "new_position_hold ''binance'' ''SOL-USDC'' None"]
  obtain q where "add_orders_from_executor i (new_position_hold ''binance'' ''SOL-USDC'' None) = (q, None)"
    and "ph_net_amount_base q = (if o_trade_type demo_entry = BUY then o_executed_amount_base demo_entry
           else - o_executed_amount_base demo_entry)"
    by (auto simp: new_position_hold_def)
  moreover have "(if o_trade_type demo_entry = BUY then o_executed_amount_base demo_entry
           else - o_executed_amount_base demo_entry) = 3" by code_simp
  ultimately show ?thesis using i by auto
qed

definition demo_partial_entry :: in_flight_order where
  "demo_partial_entry = (apply_trade demo_order (demo_trade ''t1'' 2))\<lparr>o_current_state := CANCELED\<rparr>"

theorem kept_partial_fill_is_forgotten_witness:
  "\<exists>i. pe_executor_info (demo_env demo_partial_entry 19)
         (fst (control_round control_task (demo_env demo_partial_entry 19) demo_keeping)) = Inr i
     \<and> ei_close_type i = Some EARLY_STOP \<and> held_orders_of i = [] \<and> o_executed_amount_base demo_partial_entry = 2"
proof -
  let ?env = "demo_env demo_partial_entry 19"
  obtain i where i: "pe_executor_info ?env (fst (control_round control_task ?env demo_keeping)) = Inr i"
  proof -
    have "case pe_executor_info ?env (fst (control_round control_task ?env demo_keeping)) of Inr i \<Rightarrow> True | Inl e \<Rightarrow> False"
      by code_simp
    then show thesis using that by (auto split: sum.splits)
  qed
  have "ex_status demo_keeping = SHUTTING_DOWN" "ex_close_type demo_keeping = Some POSITION_HOLD"
    "\<not> ex_terminated demo_keeping" "ex_held_position_orders demo_keeping = []"
    "ex_current_retries demo_keeping \<le> ex_max_retries demo_keeping"
    "open_order demo_keeping = Some \<lparr>to_order_id = ''o'', to_order = Some 0\<rparr>"
    "tracked ?env \<lparr>to_order_id = ''o'', to_order = Some 0\<rparr> = Some demo_partial_entry"
    "is_done demo_partial_entry" "\<not> is_filled demo_partial_entry" "pe_close_order demo_keeping = None"
    "pe_take_profit_limit_order demo_keeping = None"
    by code_simp+
  from kept_partial_fill_is_forgotten [OF this i] i show ?thesis
    by (auto intro!: exI [of _ i]) code_simp
qed

end
