(* ===== verification/Orchestrator.thy ===== *)
theory Orchestrator
  imports Position_Hold
begin

text \<open>
  \<open>ExecutorOrchestrator\<close> of \<open>strategy_v2/executors/executor_orchestrator.py\<close>, the actions of
  \<open>strategy_v2/models/executor_actions.py\<close> and \<open>PerformanceReport\<close>.

  The orchestrator is written over executors of any class: a record gives what it uses of them,
  their configurations' type, constructor, start, \<open>early_stop\<close> and \<open>executor_info\<close>. What it reads
  of the strategy is the record \<open>strategy_view\<close>; what it writes to the database is logged.
\<close>

section \<open>What the orchestrator uses\<close>

record ('c, 'x) executor_classes =
  xl_type :: "'c \<Rightarrow> string"
  xl_new :: "string \<Rightarrow> 'c \<Rightarrow> 'x py_result"
  xl_start :: "'x \<Rightarrow> 'x"
  xl_early_stop :: "bool \<Rightarrow> 'x \<Rightarrow> 'x"
  xl_info :: "'x \<Rightarrow> executor_info"

text \<open>
  \<open>sv_position_mode\<close> is None for a connector that is missing or has no position mode;
  \<open>sv_recorder_ok\<close> tells whether the database accepts an executor.
\<close>

record strategy_view =
  sv_controllers :: "string list"
  sv_markets :: "(string, string list) dict"
  sv_position_mode :: "string \<Rightarrow> position_mode option"
  sv_mid_price :: "string \<Rightarrow> string \<Rightarrow> pdecimal"
  sv_recorder_ok :: "executor_info \<Rightarrow> bool"

datatype 'c executor_action =
    CreateExecutorAction "string option" 'c
  | StopExecutorAction "string option" string bool
  | StoreExecutorAction "string option" string

fun action_controller_id :: "'c executor_action \<Rightarrow> string option" where
  "action_controller_id (CreateExecutorAction cid c) = cid"
| "action_controller_id (StopExecutorAction cid eid keep) = cid"
| "action_controller_id (StoreExecutorAction cid eid) = cid"

record performance_report =
  pr_realized_pnl_quote :: decimal
  pr_unrealized_pnl_quote :: decimal
  pr_unrealized_pnl_pct :: decimal
  pr_realized_pnl_pct :: decimal
  pr_global_pnl_quote :: decimal
  pr_global_pnl_pct :: decimal
  pr_volume_traded :: decimal
  pr_positions_summary :: "position_summary list"
  pr_close_type_counts :: "(close_type, int) dict"

definition empty_report :: performance_report where
  "empty_report =
     \<lparr>pr_realized_pnl_quote = 0, pr_unrealized_pnl_quote = 0, pr_unrealized_pnl_pct = 0,
      pr_realized_pnl_pct = 0, pr_global_pnl_quote = 0, pr_global_pnl_pct = 0, pr_volume_traded = 0,
      pr_positions_summary = [], pr_close_type_counts = []\<rparr>"

text \<open>A row of the table of positions, and a position given in a controller's configuration.\<close>

record position_row =
  prw_controller_id :: string
  prw_connector_name :: string
  prw_trading_pair :: string
  prw_side :: string
  prw_volume_traded_quote :: decimal
  prw_amount :: decimal
  prw_breakeven_price :: decimal
  prw_unrealized_pnl_quote :: decimal
  prw_realized_pnl_quote :: decimal
  prw_cum_fees_quote :: decimal

record initial_position =
  ip_connector_name :: string
  ip_trading_pair :: string
  ip_side :: trade_type
  ip_amount :: decimal

record 'x orchestrator =
  orc_active_executors :: "(string, 'x list) dict"
  orc_positions_held :: "(string, position_hold list) dict"
  orc_ids_position_held :: "string list"
  orc_cached_performance :: "(string, performance_report) dict"
  orc_initial_positions :: "(string, initial_position list) dict"
  orc_initial_positions_initialized :: bool
  orc_stored_executors :: "executor_info list"
  orc_stored_positions :: "position_row list"

definition known_market :: "strategy_view \<Rightarrow> string \<Rightarrow> string \<Rightarrow> bool" where
  "known_market sv connector pair =
     (dict_has (sv_markets sv) connector \<and> pair \<in> set (get_or (sv_markets sv) connector []))"

definition mid_or_zero :: "strategy_view \<Rightarrow> string \<Rightarrow> string \<Rightarrow> decimal" where
  "mid_or_zero sv connector pair = (case sv_mid_price sv connector pair of NaN \<Rightarrow> 0 | Fin x \<Rightarrow> x)"

section \<open>Cached performance\<close>

definition count_close_type :: "close_type option \<Rightarrow> performance_report \<Rightarrow> performance_report" where
  "count_close_type ct r =
     (case ct of
        None \<Rightarrow> r
      | Some c \<Rightarrow> r\<lparr>pr_close_type_counts := dict_set (pr_close_type_counts r) c (get_or (pr_close_type_counts r) c 0 + 1)\<rparr>)"

definition count_realized :: "executor_info \<Rightarrow> performance_report \<Rightarrow> performance_report" where
  "count_realized i r =
     count_close_type (ei_close_type i)
       (if ei_close_type i \<noteq> Some POSITION_HOLD
        then r\<lparr>pr_realized_pnl_quote := pr_realized_pnl_quote r + ei_net_pnl_quote i,
               pr_volume_traded := pr_volume_traded r + ei_filled_amount_quote i\<rparr>
        else r)"

definition update_cached_performance :: "string \<Rightarrow> executor_info \<Rightarrow> 'x orchestrator \<Rightarrow> 'x orchestrator" where
  "update_cached_performance cid i orc =
     orc\<lparr>orc_cached_performance :=
       dict_set (orc_cached_performance orc) cid
         (count_realized i (get_or (orc_cached_performance orc) cid empty_report))\<rparr>"

definition add_controller :: "string \<Rightarrow> 'x orchestrator \<Rightarrow> 'x orchestrator" where
  "add_controller cid orc =
     (if dict_has (orc_cached_performance orc) cid then orc
      else orc\<lparr>orc_cached_performance := dict_set (orc_cached_performance orc) cid empty_report,
               orc_active_executors := dict_set (orc_active_executors orc) cid [],
               orc_positions_held := dict_set (orc_positions_held orc) cid []\<rparr>)"

definition position_from_row :: "position_row \<Rightarrow> position_hold" where
  "position_from_row r =
     (let p = (new_position_hold (prw_connector_name r) (prw_trading_pair r)
                 (Some (if prw_side r = ''BUY'' then BUY else SELL)))
                \<lparr>ph_volume_traded_quote := prw_volume_traded_quote r, ph_cum_fees_quote := prw_cum_fees_quote r\<rparr>;
          p1 = (if prw_side r = ''BUY''
                then p\<lparr>ph_net_amount_base := prw_amount r, ph_buy_amount_base := prw_amount r,
                       ph_buy_amount_quote := prw_amount r * prw_breakeven_price r\<rparr>
                else p\<lparr>ph_net_amount_base := - prw_amount r, ph_sell_amount_base := prw_amount r,
                       ph_sell_amount_quote := prw_amount r * prw_breakeven_price r\<rparr>)
      in p1\<lparr>ph_avg_entry_price := prw_breakeven_price r, ph_realized_pnl_quote := prw_realized_pnl_quote r\<rparr>)"

definition append_position :: "string \<Rightarrow> position_hold \<Rightarrow> 'x orchestrator \<Rightarrow> 'x orchestrator outcome" where
  "append_position cid p orc =
     try_value orc (dict_at (orc_positions_held orc) cid) (\<lambda>ps.
       (orc\<lparr>orc_positions_held := dict_set (orc_positions_held orc) cid (ps @ [p])\<rparr>, None))"

definition load_position_from_db :: "string \<Rightarrow> position_row \<Rightarrow> 'x orchestrator \<Rightarrow> 'x orchestrator outcome" where
  "load_position_from_db cid r = append_position cid (position_from_row r)"

definition load_db_executor :: "strategy_view \<Rightarrow> executor_info \<Rightarrow> 'x orchestrator \<Rightarrow> 'x orchestrator" where
  "load_db_executor sv i orc =
     (if ei_controller_id i \<notin> set (sv_controllers sv) then orc
      else update_cached_performance (ei_controller_id i) i orc)"

definition load_db_position :: "strategy_view \<Rightarrow> position_row \<Rightarrow> 'x orchestrator \<Rightarrow> 'x orchestrator outcome" where
  "load_db_position sv r orc =
     (let cid = prw_controller_id r in
      if dict_has (orc_initial_positions orc) cid \<or> cid \<notin> set (sv_controllers sv) then (orc, None)
      else if \<not> known_market sv (prw_connector_name r) (prw_trading_pair r) then (orc, None)
      else load_position_from_db cid r orc)"

definition initialize_cached_performance ::
  "strategy_view \<Rightarrow> executor_info list \<Rightarrow> position_row list \<Rightarrow> 'x orchestrator \<Rightarrow> 'x orchestrator outcome" where
  "initialize_cached_performance sv db_executors db_positions orc =
     ofold (load_db_position sv) db_positions
       (fold (load_db_executor sv) db_executors (fold add_controller (sv_controllers sv) orc))"

definition new_orchestrator ::
  "strategy_view \<Rightarrow> (string, initial_position list) dict \<Rightarrow> executor_info list \<Rightarrow> position_row list \<Rightarrow>
   'x orchestrator outcome" where
  "new_orchestrator sv initial db_executors db_positions =
     initialize_cached_performance sv db_executors db_positions
       \<lparr>orc_active_executors = [], orc_positions_held = [], orc_ids_position_held = [],
        orc_cached_performance = [], orc_initial_positions = initial,
        orc_initial_positions_initialized = False, orc_stored_executors = [], orc_stored_positions = []\<rparr>"

text \<open>A NaN price makes the whole position NaN in the code; here the initial prices are finite.\<close>

definition position_from_config :: "strategy_view \<Rightarrow> initial_position \<Rightarrow> position_hold" where
  "position_from_config sv c =
     (let mid = mid_or_zero sv (ip_connector_name c) (ip_trading_pair c);
          qt = ip_amount c * mid;
          p = new_position_hold (ip_connector_name c) (ip_trading_pair c) (Some (ip_side c));
          p1 = (if ip_side c = BUY
                then p\<lparr>ph_net_amount_base := ip_amount c, ph_buy_amount_base := ip_amount c, ph_buy_amount_quote := qt\<rparr>
                else p\<lparr>ph_net_amount_base := - ip_amount c, ph_sell_amount_base := ip_amount c, ph_sell_amount_quote := qt\<rparr>)
      in p1\<lparr>ph_avg_entry_price := mid\<rparr>)"

definition create_initial_positions :: "strategy_view \<Rightarrow> 'x orchestrator \<Rightarrow> 'x orchestrator outcome" where
  "create_initial_positions sv orc =
     ofold (\<lambda>(cid, cs) o1. ofold (\<lambda>c. append_position cid (position_from_config sv c)) cs (add_controller cid o1))
       (orc_initial_positions orc) orc"

definition initialize_initial_positions :: "strategy_view \<Rightarrow> 'x orchestrator \<Rightarrow> 'x orchestrator outcome" where
  "initialize_initial_positions sv orc =
     (if orc_initial_positions_initialized orc then (orc, None)
      else create_initial_positions sv (orc\<lparr>orc_initial_positions_initialized := True\<rparr>))"

section \<open>Actions\<close>

definition executor_types :: "string list" where
  "executor_types =
     [''position_executor'', ''grid_executor'', ''dca_executor'', ''arbitrage_executor'', ''twap_executor'',
      ''xemm_executor'', ''order_executor'', ''lp_executor'']"

definition create_executor ::
  "('c, 'x) executor_classes \<Rightarrow> string \<Rightarrow> 'c \<Rightarrow> 'x orchestrator \<Rightarrow> 'x orchestrator outcome" where
  "create_executor xl cid cfg orc =
     (if xl_type xl cfg \<notin> set executor_types then (orc, Some ValueError)
      else try_value orc (xl_new xl cid cfg) (\<lambda>x.
           try_value orc (dict_at (orc_active_executors orc) cid) (\<lambda>xs.
             (orc\<lparr>orc_active_executors := dict_set (orc_active_executors orc) cid (xs @ [xl_start xl x])\<rparr>, None))))"

text \<open>The position of the first executor with an id.\<close>

fun index_of :: "('a \<Rightarrow> bool) \<Rightarrow> 'a list \<Rightarrow> nat option" where
  "index_of P [] = None"
| "index_of P (x # xs) = (if P x then Some 0 else map_option Suc (index_of P xs))"

definition has_id :: "('c, 'x) executor_classes \<Rightarrow> string \<Rightarrow> 'x \<Rightarrow> bool" where
  "has_id xl eid x = (ei_id (xl_info xl x) = eid)"

definition stop_executor ::
  "('c, 'x) executor_classes \<Rightarrow> string \<Rightarrow> string \<Rightarrow> bool \<Rightarrow> 'x orchestrator \<Rightarrow> 'x orchestrator outcome" where
  "stop_executor xl cid eid keep orc =
     try_value orc (dict_at (orc_active_executors orc) cid) (\<lambda>xs.
       case index_of (has_id xl eid) xs of
         None \<Rightarrow> (orc, None)
       | Some n \<Rightarrow>
           (orc\<lparr>orc_active_executors :=
              dict_set (orc_active_executors orc) cid (xs[n := xl_early_stop xl keep (xs ! n)])\<rparr>, None))"

definition delete_nth :: "nat \<Rightarrow> 'a list \<Rightarrow> 'a list" where
  "delete_nth n xs = take n xs @ drop (Suc n) xs"

definition record_executor :: "strategy_view \<Rightarrow> executor_info \<Rightarrow> 'x orchestrator \<Rightarrow> 'x orchestrator" where
  "record_executor sv i orc =
     (if sv_recorder_ok sv i then orc\<lparr>orc_stored_executors := orc_stored_executors orc @ [i]\<rparr> else orc)"

definition store_executor ::
  "strategy_view \<Rightarrow> ('c, 'x) executor_classes \<Rightarrow> string \<Rightarrow> string \<Rightarrow> 'x orchestrator \<Rightarrow> 'x orchestrator outcome" where
  "store_executor sv xl cid eid orc =
     try_value orc (dict_at (orc_active_executors orc) cid) (\<lambda>xs.
       case index_of (has_id xl eid) xs of
         None \<Rightarrow> (orc, None)
       | Some n \<Rightarrow>
           (let i = xl_info xl (xs ! n) in
            if ei_is_active i then (orc, None)
            else let o1 = (if sv_recorder_ok sv i
                           then update_cached_performance cid i (record_executor sv i orc) else orc)
                 in (o1\<lparr>orc_active_executors := dict_set (orc_active_executors o1) cid (delete_nth n xs)\<rparr>, None)))"

fun execute_action ::
  "strategy_view \<Rightarrow> ('c, 'x) executor_classes \<Rightarrow> 'c executor_action \<Rightarrow> 'x orchestrator \<Rightarrow> 'x orchestrator outcome" where
  "execute_action sv xl a orc =
     (case action_controller_id a of
        None \<Rightarrow> (orc, None)
      | Some cid \<Rightarrow>
          (let o1 = add_controller cid orc in
           case a of
             CreateExecutorAction c cfg \<Rightarrow> create_executor xl cid cfg o1
           | StopExecutorAction c eid keep \<Rightarrow> stop_executor xl cid eid keep o1
           | StoreExecutorAction c eid \<Rightarrow> store_executor sv xl cid eid o1))"

definition execute_actions ::
  "strategy_view \<Rightarrow> ('c, 'x) executor_classes \<Rightarrow> 'c executor_action list \<Rightarrow> 'x orchestrator \<Rightarrow> 'x orchestrator outcome" where
  "execute_actions sv xl = ofold (execute_action sv xl)"

section \<open>Positions of executors that ended with their position held\<close>

text \<open>\<open>deque(maxlen=50).append\<close>\<close>

definition deque_append :: "'a \<Rightarrow> 'a list \<Rightarrow> 'a list" where
  "deque_append x xs = (let ys = xs @ [x] in drop (length ys - 50) ys)"

definition determine_position_side :: "strategy_view \<Rightarrow> executor_info \<Rightarrow> trade_type option py_result" where
  "determine_position_side sv i =
     ebind (attr (ei_connector_name i)) (\<lambda>connector.
     if \<not> contains_string ''_perpetual'' connector then Inr None
     else case sv_position_mode sv connector of
       None \<Rightarrow> Inr None
     | Some mode \<Rightarrow>
         (case ei_position_action i of
            None \<Rightarrow> Inr None
          | Some action \<Rightarrow>
              (if mode = HEDGE
               then ebind (attr (ei_side i)) (\<lambda>sd.
                    let opposite_side = (if sd = SELL then BUY else SELL)
                    in Inr (Some (if action = CLOSE then opposite_side else sd)))
               else Inr None)))"

definition holds_position_of :: "string \<Rightarrow> string \<Rightarrow> trade_type option \<Rightarrow> position_hold \<Rightarrow> bool" where
  "holds_position_of connector pair sd p =
     (ph_trading_pair p = pair \<and> ph_connector_name p = connector
      \<and> (case sd of Some s \<Rightarrow> ph_side p = Some s | None \<Rightarrow> True))"

definition find_existing_position ::
  "position_hold list \<Rightarrow> string \<Rightarrow> string \<Rightarrow> trade_type option \<Rightarrow> nat option" where
  "find_existing_position ps connector pair sd = index_of (holds_position_of connector pair sd) ps"

type_synonym hold_state = "string list \<times> position_hold list"

definition merge_executor :: "strategy_view \<Rightarrow> executor_info \<Rightarrow> position_hold list \<Rightarrow> position_hold list outcome" where
  "merge_executor sv i ps =
     try_value ps (determine_position_side sv i) (\<lambda>sd.
     try_value ps (attr (ei_side i)) (\<lambda>_.
     try_value ps (attr (ei_connector_name i)) (\<lambda>connector.
     try_value ps (attr (ei_trading_pair i)) (\<lambda>pair.
       case find_existing_position ps connector pair sd of
         Some n \<Rightarrow> (let (p, e) = add_orders_from_executor i (ps ! n) in (ps[n := p], e))
       | None \<Rightarrow>
           (case add_orders_from_executor i (new_position_hold connector pair sd) of
              (p, None) \<Rightarrow> (ps @ [p], None)
            | (p, Some e) \<Rightarrow> (ps, Some e))))))"

definition process_held_executor :: "strategy_view \<Rightarrow> executor_info \<Rightarrow> hold_state \<Rightarrow> hold_state outcome" where
  "process_held_executor sv i s =
     (let (ps, e) = merge_executor sv i (snd s) in ((deque_append (ei_id i) (fst s), ps), e))"

definition needs_position_update :: "string list \<Rightarrow> executor_info \<Rightarrow> bool" where
  "needs_position_update ids i =
     (ei_is_done i \<and> ei_close_type i = Some POSITION_HOLD \<and> ei_id i \<notin> set ids)"

text \<open>A controller without an entry in \<open>positions_held\<close> gets a list that is dropped.\<close>

definition update_controller_positions ::
  "strategy_view \<Rightarrow> string \<Rightarrow> executor_info list \<Rightarrow> 'x orchestrator \<Rightarrow> 'x orchestrator outcome" where
  "update_controller_positions sv cid infos orc =
     (case ofold (process_held_executor sv) (filter (needs_position_update (orc_ids_position_held orc)) infos)
             (orc_ids_position_held orc, get_or (orc_positions_held orc) cid []) of
        ((ids, ps), e) \<Rightarrow>
          (let o1 = orc\<lparr>orc_ids_position_held := ids\<rparr> in
           (if dict_has (orc_positions_held o1) cid
            then o1\<lparr>orc_positions_held := dict_set (orc_positions_held o1) cid ps\<rparr> else o1, e)))"

definition update_positions_from_done_executors ::
  "strategy_view \<Rightarrow> ('c, 'x) executor_classes \<Rightarrow> 'x orchestrator \<Rightarrow> 'x orchestrator outcome" where
  "update_positions_from_done_executors sv xl orc =
     ofold (\<lambda>(cid, xs). update_controller_positions sv cid (map (xl_info xl) xs)) (orc_active_executors orc) orc"

section \<open>Reports\<close>

definition get_executors_report :: "('c, 'x) executor_classes \<Rightarrow> 'x orchestrator \<Rightarrow> (string, executor_info list) dict" where
  "get_executors_report xl orc = map (\<lambda>(cid, xs). (cid, map (xl_info xl) xs)) (orc_active_executors orc)"

definition summary_at_market :: "strategy_view \<Rightarrow> position_hold \<Rightarrow> position_summary" where
  "summary_at_market sv p = get_position_summary (mid_or_zero sv (ph_connector_name p) (ph_trading_pair p)) p"

definition get_positions_report :: "strategy_view \<Rightarrow> 'x orchestrator \<Rightarrow> (string, position_summary list) dict" where
  "get_positions_report sv orc = map (\<lambda>(cid, ps). (cid, map (summary_at_market sv) ps)) (orc_positions_held orc)"

definition report_executor :: "executor_info \<Rightarrow> performance_report \<Rightarrow> performance_report" where
  "report_executor i r =
     (if \<not> ei_is_done i
      then r\<lparr>pr_unrealized_pnl_quote := pr_unrealized_pnl_quote r + ei_net_pnl_quote i,
             pr_volume_traded := pr_volume_traded r + ei_filled_amount_quote i\<rparr>
      else count_realized i r)"

definition report_position :: "strategy_view \<Rightarrow> position_hold \<Rightarrow> performance_report \<Rightarrow> performance_report" where
  "report_position sv p r =
     (if \<not> known_market sv (ph_connector_name p) (ph_trading_pair p) then r
      else let s = summary_at_market sv p in
        r\<lparr>pr_realized_pnl_quote := pr_realized_pnl_quote r + psm_realized_pnl_quote s,
          pr_volume_traded := pr_volume_traded r + psm_volume_traded_quote s,
          pr_unrealized_pnl_quote := pr_unrealized_pnl_quote r + psm_unrealized_pnl_quote s,
          pr_positions_summary := pr_positions_summary r @ [s]\<rparr>)"

definition percent_of_volume :: "decimal \<Rightarrow> performance_report \<Rightarrow> decimal" where
  "percent_of_volume x r = (if pr_volume_traded r \<noteq> 0 then x / pr_volume_traded r * 100 else 0)"

definition close_report :: "performance_report \<Rightarrow> performance_report" where
  "close_report r =
     (let r1 = r\<lparr>pr_global_pnl_quote := pr_unrealized_pnl_quote r + pr_realized_pnl_quote r\<rparr>
      in r1\<lparr>pr_global_pnl_pct := percent_of_volume (pr_global_pnl_quote r1) r1,
            pr_unrealized_pnl_pct := percent_of_volume (pr_unrealized_pnl_quote r1) r1,
            pr_realized_pnl_pct := percent_of_volume (pr_realized_pnl_quote r1) r1\<rparr>)"

definition generate_performance_report ::
  "strategy_view \<Rightarrow> ('c, 'x) executor_classes \<Rightarrow> string \<Rightarrow> 'x orchestrator \<Rightarrow> performance_report" where
  "generate_performance_report sv xl cid orc =
     (let cached = get_or (orc_cached_performance orc) cid empty_report;
          r0 = empty_report\<lparr>pr_realized_pnl_quote := pr_realized_pnl_quote cached,
                 pr_volume_traded := pr_volume_traded cached,
                 pr_close_type_counts := pr_close_type_counts cached\<rparr>;
          r1 = fold (\<lambda>x. report_executor (xl_info xl x)) (get_or (orc_active_executors orc) cid []) r0;
          r2 = fold (report_position sv) (get_or (orc_positions_held orc) cid []) r1
      in close_report r2)"

definition all_controller_ids :: "'x orchestrator \<Rightarrow> string list" where
  "all_controller_ids orc =
     remdups (dict_keys (orc_active_executors orc) @ dict_keys (orc_positions_held orc)
              @ dict_keys (orc_cached_performance orc))"

type_synonym controller_report = "executor_info list \<times> position_summary list \<times> performance_report"

definition get_all_reports ::
  "strategy_view \<Rightarrow> ('c, 'x) executor_classes \<Rightarrow> 'x orchestrator \<Rightarrow>
   'x orchestrator \<times> (py_error + (string, controller_report) dict)" where
  "get_all_reports sv xl orc =
     (case update_positions_from_done_executors sv xl orc of
        (o1, Some e) \<Rightarrow> (o1, Inl e)
      | (o1, None) \<Rightarrow>
          (o1, Inr (map (\<lambda>cid. (cid, (get_or (get_executors_report xl o1) cid [],
                                     get_or (get_positions_report sv o1) cid [],
                                     generate_performance_report sv xl cid o1)))
                     (all_controller_ids o1))))"

section \<open>Stopping\<close>

definition position_row_of :: "strategy_view \<Rightarrow> string \<Rightarrow> position_hold \<Rightarrow> position_row" where
  "position_row_of sv cid p =
     (let s = summary_at_market sv p in
      \<lparr>prw_controller_id = cid, prw_connector_name = psm_connector_name s, prw_trading_pair = psm_trading_pair s,
       prw_side = trade_type_name (psm_side s), prw_volume_traded_quote = psm_volume_traded_quote s,
       prw_amount = psm_amount s, prw_breakeven_price = psm_breakeven_price s,
       prw_unrealized_pnl_quote = psm_unrealized_pnl_quote s, prw_realized_pnl_quote = psm_realized_pnl_quote s,
       prw_cum_fees_quote = psm_cum_fees_quote s\<rparr>)"

definition store_all_positions :: "strategy_view \<Rightarrow> 'x orchestrator \<Rightarrow> 'x orchestrator" where
  "store_all_positions sv orc =
     orc\<lparr>orc_stored_positions := orc_stored_positions orc
           @ concat (map (\<lambda>(cid, ps). map (position_row_of sv cid)
                (filter (\<lambda>p. known_market sv (ph_connector_name p) (ph_trading_pair p)) ps)) (orc_positions_held orc)),
         orc_positions_held := []\<rparr>"

definition store_done_executor :: "strategy_view \<Rightarrow> string \<Rightarrow> executor_info \<Rightarrow> 'x orchestrator \<Rightarrow> 'x orchestrator outcome" where
  "store_done_executor sv cid i orc =
     (if sv_recorder_ok sv i then (update_cached_performance cid i (record_executor sv i orc), None)
      else (orc, Some ExternalError))"

definition store_all_executors ::
  "strategy_view \<Rightarrow> ('c, 'x) executor_classes \<Rightarrow> 'x orchestrator \<Rightarrow> 'x orchestrator outcome" where
  "store_all_executors sv xl orc =
     obind (ofold (\<lambda>(cid, xs). ofold (store_done_executor sv cid) (map (xl_info xl) xs))
              (orc_active_executors orc) orc)
       (\<lambda>o1. (o1\<lparr>orc_active_executors := []\<rparr>, None))"

text \<open>
  \<open>stop\<close> asks every executor that is not closed to stop, waits up to
  \<open>max_executors_close_attempts\<close> times while the executors go on by themselves (the function
  \<open>waiting\<close>), and stores what there is then.
\<close>

definition stop_executors :: "('c, 'x) executor_classes \<Rightarrow> 'x orchestrator \<Rightarrow> 'x orchestrator" where
  "stop_executors xl orc =
     orc\<lparr>orc_active_executors :=
       map (\<lambda>(cid, xs). (cid, map (\<lambda>x. if ei_is_done (xl_info xl x) then x else xl_early_stop xl False x) xs))
         (orc_active_executors orc)\<rparr>"

definition all_done :: "('c, 'x) executor_classes \<Rightarrow> 'x orchestrator \<Rightarrow> bool" where
  "all_done xl orc = list_all (\<lambda>(cid, xs). list_all (\<lambda>x. ei_is_done (xl_info xl x)) xs) (orc_active_executors orc)"

fun await_executors ::
  "('c, 'x) executor_classes \<Rightarrow> ('x \<Rightarrow> 'x) \<Rightarrow> nat \<Rightarrow> 'x orchestrator \<Rightarrow> 'x orchestrator" where
  "await_executors xl waiting 0 orc = orc"
| "await_executors xl waiting (Suc n) orc =
     (if all_done xl orc then orc
      else await_executors xl waiting n
             (orc\<lparr>orc_active_executors := map (\<lambda>(cid, xs). (cid, map waiting xs)) (orc_active_executors orc)\<rparr>))"

definition orchestrator_stop ::
  "strategy_view \<Rightarrow> ('c, 'x) executor_classes \<Rightarrow> ('x \<Rightarrow> 'x) \<Rightarrow> nat \<Rightarrow> 'x orchestrator \<Rightarrow> 'x orchestrator outcome" where
  "orchestrator_stop sv xl waiting attempts orc =
     obind (store_all_executors sv xl (store_all_positions sv (await_executors xl waiting attempts (stop_executors xl orc))))
       (\<lambda>o1. (o1\<lparr>orc_active_executors := []\<rparr>, None))"

section \<open>Position executors under the orchestrator\<close>

text \<open>\<open>executor_info\<close> of a position executor that can compute it, in the market \<open>env\<close>.\<close>

definition position_executors ::
  "exec_env \<Rightarrow> int \<Rightarrow> (position_executor_config, position_executor) executor_classes" where
  "position_executors env max_retries =
     \<lparr>xl_type = (\<lambda>_. ''position_executor''),
      xl_new = (\<lambda>cid cfg. new_position_executor env (cfg\<lparr>pc_controller_id := cid\<rparr>) max_retries),
      xl_start = executor_start,
      xl_early_stop = early_stop,
      xl_info = (\<lambda>x. case pe_executor_info env x of Inr i \<Rightarrow> i)\<rparr>"

end
