(* ===== verification/Orchestrator_Reports.thy ===== *)
theory Orchestrator_Reports
  imports Orchestrator
begin

text \<open>
  What the orchestrator's bookkeeping guarantees: a performance report is the sum of what it has
  cached, its executors and its positions; storing an executor that is done changes no report; the
  orders of an executor enter its position once; and what stopping loses.
\<close>

section \<open>Reports as sums\<close>

definition realized_of :: "executor_info \<Rightarrow> decimal" where
  "realized_of i = (if ei_is_done i \<and> ei_close_type i \<noteq> Some POSITION_HOLD then ei_net_pnl_quote i else 0)"

definition unrealized_of :: "executor_info \<Rightarrow> decimal" where
  "unrealized_of i = (if ei_is_done i then 0 else ei_net_pnl_quote i)"

definition volume_of :: "executor_info \<Rightarrow> decimal" where
  "volume_of i = (if ei_is_done i \<and> ei_close_type i = Some POSITION_HOLD then 0 else ei_filled_amount_quote i)"

definition closes_as :: "close_type \<Rightarrow> executor_info \<Rightarrow> int" where
  "closes_as c i = (if ei_is_done i \<and> ei_close_type i = Some c then 1 else 0)"

definition close_count :: "performance_report \<Rightarrow> close_type \<Rightarrow> int" where
  "close_count r c = get_or (pr_close_type_counts r) c 0"

lemma count_realized_simps [simp]:
  "pr_realized_pnl_quote (count_realized i r) =
     pr_realized_pnl_quote r + (if ei_close_type i \<noteq> Some POSITION_HOLD then ei_net_pnl_quote i else 0)"
  "pr_volume_traded (count_realized i r) =
     pr_volume_traded r + (if ei_close_type i \<noteq> Some POSITION_HOLD then ei_filled_amount_quote i else 0)"
  "pr_unrealized_pnl_quote (count_realized i r) = pr_unrealized_pnl_quote r"
  "pr_positions_summary (count_realized i r) = pr_positions_summary r"
  "close_count (count_realized i r) c = close_count r c + (if ei_close_type i = Some c then 1 else 0)"
  by (auto simp: count_realized_def count_close_type_def close_count_def split: option.split)

lemma report_executor_simps:
  "pr_realized_pnl_quote (report_executor i r) = pr_realized_pnl_quote r + realized_of i"
  "pr_unrealized_pnl_quote (report_executor i r) = pr_unrealized_pnl_quote r + unrealized_of i"
  "pr_volume_traded (report_executor i r) = pr_volume_traded r + volume_of i"
  "pr_positions_summary (report_executor i r) = pr_positions_summary r"
  "close_count (report_executor i r) c = close_count r c + closes_as c i"
  by (auto simp: report_executor_def realized_of_def unrealized_of_def volume_of_def closes_as_def close_count_def)
    (auto simp flip: close_count_def)

lemma report_executors_sum:
  "pr_realized_pnl_quote (fold report_executor is r) = pr_realized_pnl_quote r + sum_list (map realized_of is)
   \<and> pr_unrealized_pnl_quote (fold report_executor is r) = pr_unrealized_pnl_quote r + sum_list (map unrealized_of is)
   \<and> pr_volume_traded (fold report_executor is r) = pr_volume_traded r + sum_list (map volume_of is)
   \<and> pr_positions_summary (fold report_executor is r) = pr_positions_summary r
   \<and> close_count (fold report_executor is r) c = close_count r c + sum_list (map (closes_as c) is)"
  by (induction "is" arbitrary: r) (simp_all add: report_executor_simps)

definition market_positions :: "strategy_view \<Rightarrow> position_hold list \<Rightarrow> position_hold list" where
  "market_positions sv ps = filter (\<lambda>p. known_market sv (ph_connector_name p) (ph_trading_pair p)) ps"

lemma report_positions_sum:
  "pr_realized_pnl_quote (fold (report_position sv) ps r)
     = pr_realized_pnl_quote r + sum_list (map ph_realized_pnl_quote (market_positions sv ps))
   \<and> pr_unrealized_pnl_quote (fold (report_position sv) ps r)
     = pr_unrealized_pnl_quote r
       + sum_list (map (\<lambda>p. psm_unrealized_pnl_quote (summary_at_market sv p)) (market_positions sv ps))
   \<and> pr_volume_traded (fold (report_position sv) ps r)
     = pr_volume_traded r + sum_list (map ph_volume_traded_quote (market_positions sv ps))
   \<and> pr_positions_summary (fold (report_position sv) ps r)
     = pr_positions_summary r @ map (summary_at_market sv) (market_positions sv ps)
   \<and> pr_close_type_counts (fold (report_position sv) ps r) = pr_close_type_counts r"
  by (induction ps arbitrary: r)
    (simp_all add: report_position_def market_positions_def summary_at_market_def get_position_summary_def Let_def)

lemma close_report_simps [simp]:
  "pr_realized_pnl_quote (close_report r) = pr_realized_pnl_quote r"
  "pr_unrealized_pnl_quote (close_report r) = pr_unrealized_pnl_quote r"
  "pr_volume_traded (close_report r) = pr_volume_traded r"
  "pr_positions_summary (close_report r) = pr_positions_summary r"
  "pr_close_type_counts (close_report r) = pr_close_type_counts r"
  "pr_global_pnl_quote (close_report r) = pr_unrealized_pnl_quote r + pr_realized_pnl_quote r"
  by (simp_all add: close_report_def Let_def)

lemma close_report_cong:
  "pr_realized_pnl_quote r = pr_realized_pnl_quote r' \<Longrightarrow> pr_unrealized_pnl_quote r = pr_unrealized_pnl_quote r'
   \<Longrightarrow> pr_volume_traded r = pr_volume_traded r' \<Longrightarrow>
   pr_global_pnl_pct (close_report r) = pr_global_pnl_pct (close_report r')
   \<and> pr_unrealized_pnl_pct (close_report r) = pr_unrealized_pnl_pct (close_report r')
   \<and> pr_realized_pnl_pct (close_report r) = pr_realized_pnl_pct (close_report r')"
  by (simp add: close_report_def percent_of_volume_def Let_def)

definition controller_infos :: "('c, 'x) executor_classes \<Rightarrow> string \<Rightarrow> 'x orchestrator \<Rightarrow> executor_info list" where
  "controller_infos xl cid orc = map (xl_info xl) (get_or (orc_active_executors orc) cid [])"

definition cached_report :: "string \<Rightarrow> 'x orchestrator \<Rightarrow> performance_report" where
  "cached_report cid orc = get_or (orc_cached_performance orc) cid empty_report"

definition controller_positions :: "strategy_view \<Rightarrow> string \<Rightarrow> 'x orchestrator \<Rightarrow> position_hold list" where
  "controller_positions sv cid orc = market_positions sv (get_or (orc_positions_held orc) cid [])"

text \<open>The report before its totals are closed.\<close>

definition open_report ::
  "strategy_view \<Rightarrow> ('c, 'x) executor_classes \<Rightarrow> string \<Rightarrow> 'x orchestrator \<Rightarrow> performance_report" where
  "open_report sv xl cid orc =
     fold (report_position sv) (get_or (orc_positions_held orc) cid [])
       (fold report_executor (controller_infos xl cid orc)
         (empty_report\<lparr>pr_realized_pnl_quote := pr_realized_pnl_quote (cached_report cid orc),
            pr_volume_traded := pr_volume_traded (cached_report cid orc),
            pr_close_type_counts := pr_close_type_counts (cached_report cid orc)\<rparr>))"

lemma generate_performance_report_eq:
  "generate_performance_report sv xl cid orc = close_report (open_report sv xl cid orc)"
  by (simp add: generate_performance_report_def open_report_def cached_report_def controller_infos_def
      fold_map comp_def Let_def)

lemma open_report_totals:
  "pr_realized_pnl_quote (open_report sv xl cid orc) =
     pr_realized_pnl_quote (cached_report cid orc) + sum_list (map realized_of (controller_infos xl cid orc))
     + sum_list (map ph_realized_pnl_quote (controller_positions sv cid orc))"
  "pr_unrealized_pnl_quote (open_report sv xl cid orc) =
     sum_list (map unrealized_of (controller_infos xl cid orc))
     + sum_list (map (\<lambda>p. psm_unrealized_pnl_quote (summary_at_market sv p)) (controller_positions sv cid orc))"
  "pr_volume_traded (open_report sv xl cid orc) =
     pr_volume_traded (cached_report cid orc) + sum_list (map volume_of (controller_infos xl cid orc))
     + sum_list (map ph_volume_traded_quote (controller_positions sv cid orc))"
  "close_count (open_report sv xl cid orc) c =
     close_count (cached_report cid orc) c + sum_list (map (closes_as c) (controller_infos xl cid orc))"
  "pr_positions_summary (open_report sv xl cid orc) = map (summary_at_market sv) (controller_positions sv cid orc)"
  using report_executors_sum [of "controller_infos xl cid orc" "empty_report\<lparr>pr_realized_pnl_quote := pr_realized_pnl_quote (cached_report cid orc),
            pr_volume_traded := pr_volume_traded (cached_report cid orc),
            pr_close_type_counts := pr_close_type_counts (cached_report cid orc)\<rparr>" c]
  by (simp_all add: open_report_def report_positions_sum controller_positions_def close_count_def empty_report_def)

text \<open>
  The profit and loss a controller's report shows is what its stored executors realized, plus
  the result of each of its executors that did not end with its position held, plus the mark to
  market value of the positions it holds in the strategy's markets.
\<close>

theorem performance_report_totals:
  "pr_global_pnl_quote (generate_performance_report sv xl cid orc) =
     pr_realized_pnl_quote (cached_report cid orc)
     + (\<Sum>i \<leftarrow> controller_infos xl cid orc.
          if ei_is_done i \<and> ei_close_type i = Some POSITION_HOLD then 0 else ei_net_pnl_quote i)
     + (\<Sum>p \<leftarrow> controller_positions sv cid orc.
          position_value (mid_or_zero sv (ph_connector_name p) (ph_trading_pair p)) p)"
proof -
  have infos: "(\<Sum>i \<leftarrow> is. realized_of i) + (\<Sum>i \<leftarrow> is. unrealized_of i) =
      (\<Sum>i \<leftarrow> is. if ei_is_done i \<and> ei_close_type i = Some POSITION_HOLD then 0 else ei_net_pnl_quote i)" for "is"
    unfolding sum_list_addf [symmetric]
    by (rule arg_cong [where f = sum_list]) (auto simp: realized_of_def unrealized_of_def)
  have positions: "(\<Sum>p \<leftarrow> ps. ph_realized_pnl_quote p)
        + (\<Sum>p \<leftarrow> ps. psm_unrealized_pnl_quote (summary_at_market sv p)) =
      (\<Sum>p \<leftarrow> ps. position_value (mid_or_zero sv (ph_connector_name p) (ph_trading_pair p)) p)" for ps
    unfolding sum_list_addf [symmetric]
    by (rule arg_cong [where f = sum_list])
      (simp add: position_value_def summary_at_market_def get_position_summary_def Let_def)
  show ?thesis
    unfolding generate_performance_report_eq close_report_simps open_report_totals
    by (simp add: infos [symmetric] positions [symmetric])
qed

section \<open>Storing an executor\<close>

lemma index_of_SomeD: "index_of P xs = Some n \<Longrightarrow> n < length xs \<and> P (xs ! n)"
  by (induction xs arbitrary: n) (auto split: if_splits)

lemma sum_list_delete_nth:
  "n < length xs \<Longrightarrow> f (xs ! n) + sum_list (map f (delete_nth n xs)) = (sum_list (map f xs) :: 'a :: comm_monoid_add)"
proof -
  assume "n < length xs"
  then have "xs = take n xs @ xs ! n # drop (Suc n) xs" by (simp add: id_take_nth_drop)
  then have "sum_list (map f xs) = sum_list (map f (take n xs)) + (f (xs ! n) + sum_list (map f (drop (Suc n) xs)))"
    by (metis map_append list.simps(9) sum_list.append sum_list.Cons)
  then show ?thesis by (simp add: delete_nth_def add.left_commute)
qed

lemma sum_list_delete_infos:
  fixes f :: "executor_info \<Rightarrow> 'b :: comm_monoid_add"
  assumes "n < length xs"
  shows "f (xl_info xl (xs ! n)) + sum_list (map f (map (xl_info xl) (delete_nth n xs)))
           = sum_list (map f (map (xl_info xl) xs))"
  using sum_list_delete_nth [OF assms, of "f \<circ> xl_info xl"] by (simp add: comp_def)

lemma store_executor_accepts:
  assumes "dict_get (orc_active_executors orc) cid = Some xs" and "index_of (has_id xl eid) xs = Some n"
    and "\<not> ei_is_active (xl_info xl (xs ! n))" and "sv_recorder_ok sv (xl_info xl (xs ! n))"
  obtains o' where "store_executor sv xl cid eid orc = (o', None)"
    and "orc_active_executors o' = dict_set (orc_active_executors orc) cid (delete_nth n xs)"
    and "orc_positions_held o' = orc_positions_held orc"
    and "cached_report cid o' = count_realized (xl_info xl (xs ! n)) (cached_report cid orc)"
  using assms
  by (auto simp: store_executor_def dict_at_def update_cached_performance_def record_executor_def cached_report_def Let_def)

text \<open>A refused executor is removed all the same, and nothing is counted.\<close>

lemma store_executor_refuses:
  assumes "dict_get (orc_active_executors orc) cid = Some xs" and "index_of (has_id xl eid) xs = Some n"
    and "\<not> ei_is_active (xl_info xl (xs ! n))" and "\<not> sv_recorder_ok sv (xl_info xl (xs ! n))"
  obtains o' where "store_executor sv xl cid eid orc = (o', None)"
    and "orc_active_executors o' = dict_set (orc_active_executors orc) cid (delete_nth n xs)"
    and "orc_positions_held o' = orc_positions_held orc"
    and "cached_report cid o' = cached_report cid orc"
  using assms by (auto simp: store_executor_def dict_at_def cached_report_def Let_def)

text \<open>
  C16: Storing an executor that is done moves what it contributes (its close type only, when it
  ended with its position held) from the executors into the cached performance when the recorder
  accepts it: no field of the controller's report changes, neither a profit and loss, the volume, a percentage, the table of
  positions, nor the count of a close type. When the recorder raises, the executor is removed all
  the same and the report loses its profit and loss, its volume and its close type.
\<close>

theorem storing_done_executor_keeps_report:
  assumes "dict_get (orc_active_executors orc) cid = Some xs" and "index_of (has_id xl eid) xs = Some n"
    and "\<not> ei_is_active (xl_info xl (xs ! n))" and "ei_is_done (xl_info xl (xs ! n))"
  shows "\<exists>o'. store_executor sv xl cid eid orc = (o', None) \<and>
     (let i = xl_info xl (xs ! n); r = generate_performance_report sv xl cid orc; r' = generate_performance_report sv xl cid o' in
      if sv_recorder_ok sv i
      then r'\<lparr>pr_close_type_counts := pr_close_type_counts r\<rparr> = r \<and> (\<forall>c. close_count r' c = close_count r c)
      else pr_unrealized_pnl_quote r' = pr_unrealized_pnl_quote r \<and> pr_positions_summary r' = pr_positions_summary r
        \<and> pr_realized_pnl_quote r' = pr_realized_pnl_quote r - (if ei_close_type i = Some POSITION_HOLD then 0 else ei_net_pnl_quote i)
        \<and> pr_volume_traded r' = pr_volume_traded r - (if ei_close_type i = Some POSITION_HOLD then 0 else ei_filled_amount_quote i)
        \<and> (\<forall>c. close_count r' c = close_count r c - (if ei_close_type i = Some c then 1 else 0)))"
proof -
  let ?i = "xl_info xl (xs ! n)"
  have n: "n < length xs" using index_of_SomeD [OF assms(2)] by simp
  obtain o' where o': "store_executor sv xl cid eid orc = (o', None)"
    and act: "orc_active_executors o' = dict_set (orc_active_executors orc) cid (delete_nth n xs)"
    and pos: "orc_positions_held o' = orc_positions_held orc"
    and cache: "cached_report cid o' = (if sv_recorder_ok sv ?i then count_realized ?i (cached_report cid orc) else cached_report cid orc)"
  proof (cases "sv_recorder_ok sv ?i")
    case True
    then show ?thesis using that store_executor_accepts [OF assms(1-3) True] by (metis (full_types))
  next
    case False
    then show ?thesis using that store_executor_refuses [OF assms(1-3) False] by (metis (full_types))
  qed
  have infos: "controller_infos xl cid orc = map (xl_info xl) xs"
      "controller_infos xl cid o' = map (xl_info xl) (delete_nth n xs)"
    using assms(1) act by (simp_all add: controller_infos_def get_or_def)
  have ps: "controller_positions sv cid o' = controller_positions sv cid orc"
    using pos by (simp add: controller_positions_def)
  note sums = sum_list_delete_infos [OF n, where xl = xl, folded infos]
  have done_i: "realized_of ?i = (if ei_close_type ?i \<noteq> Some POSITION_HOLD then ei_net_pnl_quote ?i else 0)"
      "unrealized_of ?i = 0" "volume_of ?i = (if ei_close_type ?i \<noteq> Some POSITION_HOLD then ei_filled_amount_quote ?i else 0)"
      "closes_as c ?i = (if ei_close_type ?i = Some c then 1 else 0)" for c
    using assms(4) by (simp_all add: realized_of_def unrealized_of_def volume_of_def closes_as_def)
  note totals = open_report_totals ps cache count_realized_simps
  note parts = sums [of realized_of] sums [of unrealized_of] sums [of volume_of] sums [of "closes_as c" for c]
  let ?r = "open_report sv xl cid orc" and ?r' = "open_report sv xl cid o'"
  show ?thesis
  proof (cases "sv_recorder_ok sv ?i")
    case True
    have eqs: "pr_realized_pnl_quote ?r' = pr_realized_pnl_quote ?r" "pr_positions_summary ?r' = pr_positions_summary ?r"
        "pr_unrealized_pnl_quote ?r' = pr_unrealized_pnl_quote ?r"
        "pr_volume_traded ?r' = pr_volume_traded ?r" "close_count ?r' c = close_count ?r c" for c
      unfolding totals using True parts unfolding done_i by simp_all
    have "close_report ?r'\<lparr>pr_close_type_counts := pr_close_type_counts ?r\<rparr> = close_report ?r"
      by (rule performance_report.equality) (use eqs(1-4) close_report_cong [of ?r' ?r] in simp_all)
    with True o' eqs(5) show ?thesis
      by (intro exI [of _ o']) (simp add: generate_performance_report_eq Let_def close_count_def)
  next
    case False
    have eqs: "pr_realized_pnl_quote ?r' = pr_realized_pnl_quote ?r - realized_of ?i" "pr_positions_summary ?r' = pr_positions_summary ?r"
        "pr_unrealized_pnl_quote ?r' = pr_unrealized_pnl_quote ?r - unrealized_of ?i"
        "pr_volume_traded ?r' = pr_volume_traded ?r - volume_of ?i" "close_count ?r' c = close_count ?r c - closes_as c ?i" for c
      unfolding totals using False by (simp_all flip: parts)
    with False o' show ?thesis
      by (intro exI [of _ o']) (simp add: generate_performance_report_eq Let_def close_count_def done_i)
  qed
qed

text \<open>
  An executor that is shutting down is not active, so \<open>store_executor\<close> takes it although its
  close orders are still out: it leaves the orchestrator for good and its current result counts as
  realized.
\<close>

theorem closing_executor_can_be_stored:
  assumes "dict_get (orc_active_executors orc) cid = Some [x]" and "ei_id (xl_info xl x) = eid"
    and "ei_status (xl_info xl x) = SHUTTING_DOWN" and "\<not> ei_is_active (xl_info xl x)"
    and "ei_close_type (xl_info xl x) \<noteq> Some POSITION_HOLD" and "sv_recorder_ok sv (xl_info xl x)"
  shows "\<exists>o'. store_executor sv xl cid eid orc = (o', None) \<and> get_or (orc_active_executors o') cid [] = []
     \<and> pr_realized_pnl_quote (cached_report cid o')
         = pr_realized_pnl_quote (cached_report cid orc) + ei_net_pnl_quote (xl_info xl x)"
proof -
  have "index_of (has_id xl eid) [x] = Some 0" using assms(2) by (simp add: has_id_def)
  from store_executor_accepts [OF assms(1) this, of sv]
  obtain o' where "store_executor sv xl cid eid orc = (o', None)"
    and "orc_active_executors o' = dict_set (orc_active_executors orc) cid (delete_nth 0 [x])"
    and "cached_report cid o' = count_realized (xl_info xl x) (cached_report cid orc)"
    using assms(4,6) by auto
  then show ?thesis using assms(5) by (intro exI [of _ o']) (simp add: delete_nth_def)
qed

section \<open>Held executors enter their position once\<close>

text \<open>The bucket of a position never changes.\<close>

definition same_bucket :: "position_hold \<Rightarrow> position_hold \<Rightarrow> bool" where
  "same_bucket p q =
     (ph_connector_name q = ph_connector_name p \<and> ph_trading_pair q = ph_trading_pair p \<and> ph_side q = ph_side p)"

lemma same_bucket_trans: "same_bucket p q \<Longrightarrow> same_bucket q r \<Longrightarrow> same_bucket p r"
  by (simp add: same_bucket_def)

lemma same_bucket_updates [simp]:
  "same_bucket p p" "same_bucket p (p\<lparr>ph_order_ids := ids\<rparr>)" "same_bucket p (p\<lparr>ph_cum_fees_quote := c\<rparr>)"
  "same_bucket p (count_order b x y p)"
  by (simp_all add: same_bucket_def)

lemma process_order_bucket: "same_bucket p (fst (process_order b x y p))"
  by (auto simp: process_order_def reduce_position_def extend_position_def Let_def try_value_def same_bucket_def
      split: sum.split)

lemma obind_try_value_fst [simp]: "fst (obind m (\<lambda>s. try_value s v (\<lambda>_. (s, None)))) = fst m"
  by (cases m; cases "snd m"; cases v) auto

lemma add_held_order_bucket: "same_bucket p (fst (add_held_order i j p))"
proof -
  have "same_bucket p (fst (process_order b x y
          ((count_order b x y (p\<lparr>ph_order_ids := ids\<rparr>))\<lparr>ph_cum_fees_quote := c\<rparr>)))" for b x y ids c
    using process_order_bucket [of "(count_order b x y (p\<lparr>ph_order_ids := ids\<rparr>))\<lparr>ph_cum_fees_quote := c\<rparr>" b x y]
    by (simp add: same_bucket_def)
  moreover have "same_bucket p (count_order b x y (p\<lparr>ph_order_ids := ids\<rparr>))" for b x y ids
    by (simp add: same_bucket_def)
  ultimately show ?thesis
    unfolding add_held_order_def try_value_def [of _ "json_get j ''trade_type'' JNull"]
      try_value_def [of _ "ebind u json_decimal" for u] try_value_def [of _ "ebind u json_opt_str" for u] Let_def
    by (auto split: sum.split)
qed

lemma add_held_orders_bucket: "same_bucket p (fst (add_held_orders i js p))"
proof (induction js arbitrary: p)
  case (Cons j js)
  show ?case
    using add_held_order_bucket [of p i j] Cons.IH [of "fst (add_held_order i j p)"]
    by (cases "add_held_order i j p"; cases "snd (add_held_order i j p)") (auto intro: same_bucket_trans)
qed simp

lemma add_orders_bucket: "add_orders_from_executor i p = (q, e) \<Longrightarrow> same_bucket p q"
  using add_held_orders_bucket [of p i "held_orders_of i"]
  by (cases "ei_side i") (auto simp: add_orders_eq split: if_splits)

lemma holds_position_of_bucket:
  "same_bucket p q \<Longrightarrow> holds_position_of connector pair sd q = holds_position_of connector pair sd p"
  by (cases sd) (simp_all add: same_bucket_def holds_position_of_def)

text \<open>A list of positions grows: the old ones keep their buckets and forget no order.\<close>

definition grows :: "position_hold list \<Rightarrow> position_hold list \<Rightarrow> bool" where
  "grows ps ps' =
     (length ps \<le> length ps'
      \<and> (\<forall>n < length ps. same_bucket (ps ! n) (ps' ! n) \<and> ph_order_ids (ps ! n) \<subseteq> ph_order_ids (ps' ! n)))"

lemma grows_refl [simp]: "grows ps ps"
  by (simp add: grows_def)

lemma grows_trans:
  assumes "grows ps qs" and "grows qs rs"
  shows "grows ps rs"
  unfolding grows_def
proof (intro conjI allI impI)
  show "length ps \<le> length rs" using assms by (simp add: grows_def)
  fix n assume "n < length ps"
  then have "n < length qs" and one: "same_bucket (ps ! n) (qs ! n)" "ph_order_ids (ps ! n) \<subseteq> ph_order_ids (qs ! n)"
    using assms(1) by (simp_all add: grows_def)
  then have two: "same_bucket (qs ! n) (rs ! n)" "ph_order_ids (qs ! n) \<subseteq> ph_order_ids (rs ! n)"
    using assms(2) by (simp_all add: grows_def)
  show "same_bucket (ps ! n) (rs ! n)" using one(1) two(1) by (rule same_bucket_trans)
  show "ph_order_ids (ps ! n) \<subseteq> ph_order_ids (rs ! n)" using one(2) two(2) by (rule subset_trans)
qed

lemma index_of_grows:
  "length xs \<le> length ys \<Longrightarrow> (\<And>k. k < length xs \<Longrightarrow> P (ys ! k) = P (xs ! k)) \<Longrightarrow>
   index_of P xs = Some n \<Longrightarrow> index_of P ys = Some n"
proof (induction xs arbitrary: ys n)
  case (Cons x xs)
  obtain y ys' where y: "ys = y # ys'" using Cons.prems(1) by (cases ys) auto
  have hd: "P y = P x" using Cons.prems(2) [of 0] y by simp
  have tl: "P (ys' ! k) = P (xs ! k)" if "k < length xs" for k
    using Cons.prems(2) [of "Suc k"] y that by simp
  show ?case
    using Cons.prems(1,3) Cons.IH [OF _ tl] hd y by (auto split: if_splits)
qed simp

lemma index_of_last: "index_of P xs = None \<Longrightarrow> P x \<Longrightarrow> index_of P (xs @ [x]) = Some (length xs)"
  by (induction xs) (auto split: if_splits)

text \<open>The executor's orders are in its position.\<close>

definition merged :: "strategy_view \<Rightarrow> executor_info \<Rightarrow> position_hold list \<Rightarrow> bool" where
  "merged sv i ps =
     (\<exists>sd connector pair n. determine_position_side sv i = Inr sd \<and> ei_side i \<noteq> None
        \<and> ei_connector_name i = Some connector \<and> ei_trading_pair i = Some pair
        \<and> find_existing_position ps connector pair sd = Some n \<and> absorbed (held_orders_of i) (ps ! n))"

lemma merged_grows:
  assumes "merged sv i ps" and "grows ps ps'"
  shows "merged sv i ps'"
proof -
  obtain sd connector pair n where m: "determine_position_side sv i = Inr sd" "ei_side i \<noteq> None"
      "ei_connector_name i = Some connector" "ei_trading_pair i = Some pair"
      "find_existing_position ps connector pair sd = Some n" "absorbed (held_orders_of i) (ps ! n)"
    using assms(1) by (auto simp: merged_def)
  have n: "n < length ps" using m(5) index_of_SomeD by (auto simp: find_existing_position_def)
  have "find_existing_position ps' connector pair sd = Some n"
    unfolding find_existing_position_def
    by (rule index_of_grows [of ps])
      (use assms(2) m(5) in \<open>auto simp: grows_def find_existing_position_def holds_position_of_bucket\<close>)
  moreover have "absorbed (held_orders_of i) (ps' ! n)"
    using absorbed_mono [OF m(6)] assms(2) n by (simp add: grows_def)
  ultimately show ?thesis using m by (auto simp: merged_def)
qed

lemma merge_executor_merged: "merged sv i ps \<Longrightarrow> merge_executor sv i ps = (ps, None)"
proof -
  assume "merged sv i ps"
  then obtain sd connector pair n where m: "determine_position_side sv i = Inr sd" "ei_side i \<noteq> None"
      "ei_connector_name i = Some connector" "ei_trading_pair i = Some pair"
      "find_existing_position ps connector pair sd = Some n" "absorbed (held_orders_of i) (ps ! n)"
    by (auto simp: merged_def)
  have "add_orders_from_executor i (ps ! n) = (ps ! n, None)"
    using m(2) absorbed_add [OF m(6), of i] by (cases "ei_side i") (auto simp: add_orders_eq)
  then show ?thesis using m by (auto simp: merge_executor_def)
qed

lemma merge_executor_grows:
  assumes "merge_executor sv i ps = (ps', None)"
  shows "merged sv i ps'" and "grows ps ps'"
proof -
  obtain sd s connector pair where a: "determine_position_side sv i = Inr sd" "ei_side i = Some s"
      "ei_connector_name i = Some connector" "ei_trading_pair i = Some pair"
    using assms
    by (cases "determine_position_side sv i"; cases "ei_side i"; cases "ei_connector_name i"; cases "ei_trading_pair i")
      (auto simp: merge_executor_def)
  note step = assms [unfolded merge_executor_def a attr.simps try_value_simps]
  have "merged sv i ps' \<and> grows ps ps'"
  proof (cases "find_existing_position ps connector pair sd")
    case (Some n)
    then have n: "n < length ps" "holds_position_of connector pair sd (ps ! n)"
      using index_of_SomeD by (auto simp: find_existing_position_def)
    obtain p where p: "add_orders_from_executor i (ps ! n) = (p, None)" "ps' = ps[n := p]"
      using step Some by (auto split: prod.splits)
    note ab = add_orders_absorbed [OF p(1)] and bucket = add_orders_bucket [OF p(1)]
    have g: "grows ps ps'" using ab(2) bucket n(1) p(2) by (auto simp: grows_def nth_list_update)
    have "find_existing_position ps' connector pair sd = Some n"
      unfolding find_existing_position_def
      by (rule index_of_grows [of ps])
        (use g Some in \<open>auto simp: grows_def find_existing_position_def holds_position_of_bucket\<close>)
    then show ?thesis using g ab(1) a n(1) p(2) by (auto simp: merged_def)
  next
    case None
    obtain p where p: "add_orders_from_executor i (new_position_hold connector pair sd) = (p, None)" "ps' = ps @ [p]"
      using step None by (auto split: prod.splits option.splits)
    note ab = add_orders_absorbed [OF p(1)] and bucket = add_orders_bucket [OF p(1)]
    have "holds_position_of connector pair sd p"
      using holds_position_of_bucket [OF bucket]
      by (simp add: holds_position_of_def new_position_hold_def split: option.split)
    then have "find_existing_position ps' connector pair sd = Some (length ps)"
      using None p(2) index_of_last by (auto simp: find_existing_position_def)
    then show ?thesis using ab(1) a p(2) by (auto simp: merged_def grows_def nth_append)
  qed
  then show "merged sv i ps'" "grows ps ps'" by simp_all
qed

lemma process_held_executor_eq:
  "process_held_executor sv i (ids, ps) =
     ((deque_append (ei_id i) ids, fst (merge_executor sv i ps)), snd (merge_executor sv i ps))"
  by (simp add: process_held_executor_def split: prod.split)

lemma process_held_executors_merged:
  assumes "ofold (process_held_executor sv) is (ids, ps) = ((ids', ps'), None)"
  shows "grows ps ps' \<and> (\<forall>i \<in> set is. merged sv i ps')"
  using assms
proof (induction "is" arbitrary: ids ps)
  case (Cons i "is")
  obtain ps1 where ps1: "merge_executor sv i ps = (ps1, None)"
      "ofold (process_held_executor sv) is (deque_append (ei_id i) ids, ps1) = ((ids', ps'), None)"
    using Cons.prems that by (cases "merge_executor sv i ps"; cases "snd (merge_executor sv i ps)")
      (auto simp: process_held_executor_eq)
  note g = merge_executor_grows [OF ps1(1)] and ih = Cons.IH [OF ps1(2)]
  have "grows ps ps'"
    using grows_trans [OF g(2)] ih by blast
  then show ?case using merged_grows [OF g(1)] ih by auto
qed simp

lemma process_merged_executors:
  "\<forall>i \<in> set is. merged sv i ps \<Longrightarrow>
   \<exists>ids'. ofold (process_held_executor sv) is (ids, ps) = ((ids', ps), None)"
  by (induction "is" arbitrary: ids) (auto simp: process_held_executor_eq merge_executor_merged)

text \<open>
  However many executors the bounded memory of fifty ids has forgotten, processing a
  controller's held executors again leaves its positions as they are: every order counts once.
\<close>

theorem held_executors_processed_once:
  assumes "update_controller_positions sv cid infos orc = (o1, None)"
    and "dict_has (orc_positions_held orc) cid"
    and "\<forall>i \<in> set infos. ei_id i \<notin> set (orc_ids_position_held orc)"
  shows "\<exists>o2. update_controller_positions sv cid infos (o1\<lparr>orc_ids_position_held := ids\<rparr>) = (o2, None)
           \<and> orc_positions_held o2 = orc_positions_held o1"
proof -
  let ?held = "filter (needs_position_update (orc_ids_position_held orc)) infos"
  obtain ids1 ps1 where run: "ofold (process_held_executor sv) ?held
        (orc_ids_position_held orc, get_or (orc_positions_held orc) cid []) = ((ids1, ps1), None)"
    and o1: "o1 = orc\<lparr>orc_ids_position_held := ids1, orc_positions_held := dict_set (orc_positions_held orc) cid ps1\<rparr>"
    using assms(1,2) by (auto simp: update_controller_positions_def Let_def split: prod.splits)
  let ?again = "filter (needs_position_update ids) infos"
  have "set ?again \<subseteq> set ?held"
    using assms(3) by (auto simp: needs_position_update_def)
  then have "\<forall>i \<in> set ?again. merged sv i ps1"
    using process_held_executors_merged [OF run] by blast
  then obtain ids2 where again: "ofold (process_held_executor sv) ?again (ids, ps1) = ((ids2, ps1), None)"
    using process_merged_executors by blast
  have "dict_set (dict_set (orc_positions_held orc) cid ps1) cid ps1 = dict_set (orc_positions_held orc) cid ps1"
    by (simp add: dict_set_def update_last)
  then show ?thesis
    using again assms(2) by (simp add: update_controller_positions_def o1 Let_def get_or_def)
qed

section \<open>Stopping\<close>

lemma record_positions [simp]:
  "orc_stored_positions (update_cached_performance cid i orc) = orc_stored_positions orc"
  "orc_positions_held (update_cached_performance cid i orc) = orc_positions_held orc"
  "orc_stored_positions (record_executor sv i orc) = orc_stored_positions orc"
  "orc_positions_held (record_executor sv i orc) = orc_positions_held orc"
  by (simp_all add: update_cached_performance_def record_executor_def)

lemma store_done_executors_positions:
  "orc_stored_positions (fst (ofold (store_done_executor sv cid) is orc)) = orc_stored_positions orc
   \<and> orc_positions_held (fst (ofold (store_done_executor sv cid) is orc)) = orc_positions_held orc"
proof (induction "is" arbitrary: orc)
  case (Cons i "is")
  show ?case
    using Cons.IH [of "update_cached_performance cid i (record_executor sv i orc)"]
    by (simp add: store_done_executor_def)
qed simp

lemma store_all_executors_positions:
  "orc_stored_positions (fst (store_all_executors sv xl orc)) = orc_stored_positions orc
   \<and> orc_positions_held (fst (store_all_executors sv xl orc)) = orc_positions_held orc"
proof -
  have "orc_stored_positions (fst (ofold (\<lambda>(cid, xs). ofold (store_done_executor sv cid) (map (xl_info xl) xs)) d orc))
           = orc_stored_positions orc
        \<and> orc_positions_held (fst (ofold (\<lambda>(cid, xs). ofold (store_done_executor sv cid) (map (xl_info xl) xs)) d orc))
           = orc_positions_held orc" for d
  proof (induction d arbitrary: orc)
    case (Cons a d)
    obtain cid xs where a: "a = (cid, xs)" by (cases a)
    let ?m = "ofold (store_done_executor sv cid) (map (xl_info xl) xs) orc"
    show ?case
      using store_done_executors_positions [of sv cid "map (xl_info xl) xs" orc] Cons.IH [of "fst ?m"] a
      by (cases ?m; cases "snd ?m") auto
  qed simp
  from this [of "orc_active_executors orc"] show ?thesis
    unfolding store_all_executors_def
    by (cases "ofold (\<lambda>(cid, xs). ofold (store_done_executor sv cid) (map (xl_info xl) xs)) (orc_active_executors orc) orc";
        cases "snd (ofold (\<lambda>(cid, xs). ofold (store_done_executor sv cid) (map (xl_info xl) xs)) (orc_active_executors orc) orc)")
      auto
qed

lemma await_executors_positions:
  "orc_positions_held (await_executors xl w n orc) = orc_positions_held orc
   \<and> orc_stored_positions (await_executors xl w n orc) = orc_stored_positions orc"
  by (induction n arbitrary: orc) simp_all

text \<open>
  Stopping stores the positions as they stood at the last report and then drops them. The
  executors play no part in what is stored, so one that ended with its position held since that
  report leaves no trace of its orders in the positions.
\<close>

theorem stop_stores_only_reported_positions:
  "orc_stored_positions (fst (orchestrator_stop sv xl waiting attempts orc)) =
     orc_stored_positions orc @ orc_stored_positions (store_all_positions sv
       (orc\<lparr>orc_active_executors := [], orc_stored_positions := []\<rparr>))
   \<and> orc_positions_held (fst (orchestrator_stop sv xl waiting attempts orc)) = []"
proof -
  let ?o = "store_all_positions sv (await_executors xl waiting attempts (stop_executors xl orc))"
  have "orc_stored_positions (fst (store_all_executors sv xl ?o)) = orc_stored_positions ?o"
    "orc_positions_held (fst (store_all_executors sv xl ?o)) = orc_positions_held ?o"
    using store_all_executors_positions by blast+
  moreover have "orc_positions_held ?o = []"
    "orc_stored_positions ?o = orc_stored_positions orc @ orc_stored_positions (store_all_positions sv
       (orc\<lparr>orc_active_executors := [], orc_stored_positions := []\<rparr>))"
    using await_executors_positions [of xl waiting attempts "stop_executors xl orc"]
    by (simp_all add: store_all_positions_def stop_executors_def)
  ultimately show ?thesis
    unfolding orchestrator_stop_def
    by (cases "store_all_executors sv xl ?o"; cases "snd (store_all_executors sv xl ?o)") auto
qed

section \<open>Witnesses\<close>

definition demo_strategy :: strategy_view where
  "demo_strategy =
     \<lparr>sv_controllers = [''main''], sv_markets = [(''binance'', [''SOL-USDC''])], sv_position_mode = (\<lambda>_. None),
      sv_mid_price = (\<lambda>_ _. Fin 19), sv_recorder_ok = (\<lambda>_. True)\<rparr>"

definition demo_classes :: "(position_executor_config, position_executor) executor_classes" where
  "demo_classes = position_executors (demo_env demo_entry 19) 10"

definition demo_orchestrator :: "position_executor list \<Rightarrow> position_executor orchestrator" where
  "demo_orchestrator xs =
     (fst (new_orchestrator demo_strategy [] [] []))\<lparr>orc_active_executors := [(''main'', xs)]\<rparr>"

definition demo_stopped :: position_executor where
  "demo_stopped = executor_stop (demo_env demo_entry 19) (early_stop False demo_open)"

theorem storing_done_executor_keeps_report_witness:
  "\<exists>o'. store_executor demo_strategy demo_classes ''main'' ''x1'' (demo_orchestrator [demo_stopped]) = (o', None)
     \<and> pr_global_pnl_quote (generate_performance_report demo_strategy demo_classes ''main'' o')
       = pr_global_pnl_quote (generate_performance_report demo_strategy demo_classes ''main'' (demo_orchestrator [demo_stopped]))"
proof -
  have "dict_get (orc_active_executors (demo_orchestrator [demo_stopped])) ''main'' = Some [demo_stopped]"
    by (simp add: demo_orchestrator_def dict_get_def)
  moreover have "index_of (has_id demo_classes ''x1'') [demo_stopped] = Some 0"
    "\<not> ei_is_active (xl_info demo_classes ([demo_stopped] ! 0))" "ei_is_done (xl_info demo_classes ([demo_stopped] ! 0))"
    by code_simp+
  moreover have "sv_recorder_ok demo_strategy i" for i by (simp add: demo_strategy_def)
  ultimately obtain o' where "store_executor demo_strategy demo_classes ''main'' ''x1'' (demo_orchestrator [demo_stopped]) = (o', None)"
    and "generate_performance_report demo_strategy demo_classes ''main'' o'\<lparr>pr_close_type_counts := pr_close_type_counts
       (generate_performance_report demo_strategy demo_classes ''main'' (demo_orchestrator [demo_stopped]))\<rparr>
       = generate_performance_report demo_strategy demo_classes ''main'' (demo_orchestrator [demo_stopped])"
    using storing_done_executor_keeps_report [of "demo_orchestrator [demo_stopped]" "''main''" "[demo_stopped]" demo_classes "''x1''" 0 demo_strategy]
    unfolding Let_def by auto
  then show ?thesis by (intro exI [of _ o'] conjI) (assumption, drule arg_cong [of _ _ pr_global_pnl_quote], simp)
qed

theorem closing_executor_can_be_stored_witness:
  "\<exists>o'. store_executor demo_strategy demo_classes ''main'' ''x1'' (demo_orchestrator [demo_closing]) = (o', None)
     \<and> get_or (orc_active_executors o') ''main'' [] = [] \<and> pr_realized_pnl_quote (cached_report ''main'' o') = - (306 / 100)"
proof -
  have get: "dict_get (orc_active_executors (demo_orchestrator [demo_closing])) ''main'' = Some [demo_closing]"
    by (simp add: demo_orchestrator_def dict_get_def)
  have x: "ei_id (xl_info demo_classes demo_closing) = ''x1''"
    "ei_status (xl_info demo_classes demo_closing) = SHUTTING_DOWN" "\<not> ei_is_active (xl_info demo_classes demo_closing)"
    "ei_close_type (xl_info demo_classes demo_closing) \<noteq> Some POSITION_HOLD"
    "sv_recorder_ok demo_strategy (xl_info demo_classes demo_closing)"
    by code_simp+
  have "pr_realized_pnl_quote (cached_report ''main'' (demo_orchestrator [demo_closing])) + ei_net_pnl_quote (xl_info demo_classes demo_closing) = - (306 / 100)"
    by code_simp
  with closing_executor_can_be_stored [OF get x] show ?thesis by auto
qed

theorem held_executors_processed_once_witness:
  "\<exists>o1 o2. update_controller_positions demo_strategy ''main'' [demo_info demo_orders] (demo_orchestrator []) = (o1, None)
     \<and> update_controller_positions demo_strategy ''main'' [demo_info demo_orders] (o1\<lparr>orc_ids_position_held := []\<rparr>) = (o2, None)
     \<and> orc_positions_held o2 = orc_positions_held o1"
proof -
  define o1 where "o1 = fst (update_controller_positions demo_strategy ''main'' [demo_info demo_orders] (demo_orchestrator []))"
  have "snd (update_controller_positions demo_strategy ''main'' [demo_info demo_orders] (demo_orchestrator [])) = None"
    by code_simp
  then have o1: "update_controller_positions demo_strategy ''main'' [demo_info demo_orders] (demo_orchestrator []) = (o1, None)"
    by (simp add: o1_def prod_eq_iff)
  have "dict_has (orc_positions_held (demo_orchestrator [])) ''main''" by code_simp
  moreover have "\<forall>i \<in> set [demo_info demo_orders]. ei_id i \<notin> set (orc_ids_position_held (demo_orchestrator []))"
    by code_simp
  ultimately show ?thesis using held_executors_processed_once [OF o1] o1 by blast
qed

end
