(* ===== verification/LP_Executor.thy ===== *)
theory LP_Executor
  imports Position_Hold
begin

text \<open>
  \<open>strategy_v2/executors/lp_executor/lp_executor.py\<close> and its \<open>data_types.py\<close>: the life of one
  concentrated liquidity position. A round of the control loop awaits the gateway up to three
  times, and \<open>early_stop\<close> may come at any of these points, so a round is cut there into steps: the
  field \<open>lx_phase\<close> says what is awaited and each reply of the gateway is one step. Replies are
  values or exceptions with a message, which the code searches for \<open>position closed\<close> and
  \<open>not found\<close>. The calls and database events are logged.
\<close>

section \<open>Configuration and state\<close>

datatype lp_state =
    NOT_ACTIVE | OPENING | IN_RANGE | OUT_OF_RANGE | CLOSING | SWAPPING | COMPLETE | LP_FAILED

record lp_config =
  lc_id :: string
  lc_controller_id :: string
  lc_timestamp :: decimal
  lc_connector_name :: string
  lc_swap_provider :: "string option"
  lc_pool_address :: string
  lc_trading_pair :: string
  lc_lower_price :: decimal
  lc_upper_price :: decimal
  lc_base_amount :: decimal
  lc_quote_amount :: decimal
  lc_side :: trade_type
  lc_upper_limit_price :: "decimal option"
  lc_lower_limit_price :: "decimal option"
  lc_keep_position :: bool

record lp_position =
  ls_position_address :: "string option"
  ls_lower_price :: decimal
  ls_upper_price :: decimal
  ls_base_amount :: decimal
  ls_quote_amount :: decimal
  ls_base_fee :: decimal
  ls_quote_fee :: decimal
  ls_initial_base_amount :: decimal
  ls_initial_quote_amount :: decimal
  ls_add_mid_price :: decimal
  ls_position_rent :: decimal
  ls_position_rent_refunded :: decimal
  ls_tx_fee :: decimal
  ls_open_tx_hash :: "string option"
  ls_close_tx_hash :: "string option"
  ls_active_open_order :: "string option"
  ls_active_close_order :: "string option"
  ls_active_swap_order :: "string option"
  ls_state :: lp_state
  ls_out_of_range_since :: "decimal option"

definition new_lp_position :: lp_position where
  "new_lp_position =
     \<lparr>ls_position_address = None, ls_lower_price = 0, ls_upper_price = 0, ls_base_amount = 0,
      ls_quote_amount = 0, ls_base_fee = 0, ls_quote_fee = 0, ls_initial_base_amount = 0,
      ls_initial_quote_amount = 0, ls_add_mid_price = 0, ls_position_rent = 0,
      ls_position_rent_refunded = 0, ls_tx_fee = 0, ls_open_tx_hash = None, ls_close_tx_hash = None,
      ls_active_open_order = None, ls_active_close_order = None, ls_active_swap_order = None,
      ls_state = NOT_ACTIVE, ls_out_of_range_since = None\<rparr>"

definition get_out_of_range_seconds :: "decimal \<Rightarrow> lp_position \<Rightarrow> int option" where
  "get_out_of_range_seconds now p =
     map_option (\<lambda>t. let d = now - t in if d \<ge> 0 then \<lfloor>d\<rfloor> else \<lceil>d\<rceil>) (ls_out_of_range_since p)"

definition range_timer :: "decimal option \<Rightarrow> lp_position \<Rightarrow> lp_position" where
  "range_timer now p =
     (if ls_state p = IN_RANGE then p\<lparr>ls_out_of_range_since := None\<rparr>
      else if ls_state p = OUT_OF_RANGE \<and> ls_out_of_range_since p = None then p\<lparr>ls_out_of_range_since := now\<rparr>
      else p)"

definition update_state :: "decimal option \<Rightarrow> decimal option \<Rightarrow> lp_position \<Rightarrow> lp_position" where
  "update_state price now p =
     (if ls_state p \<in> set [COMPLETE, CLOSING, SWAPPING, LP_FAILED] then p
      else if ls_state p = OPENING \<and> ls_position_address p = None then p
      else if ls_active_close_order p \<noteq> None then p\<lparr>ls_state := CLOSING\<rparr>
      else if ls_active_open_order p \<noteq> None \<and> ls_position_address p = None then p\<lparr>ls_state := OPENING\<rparr>
      else range_timer now
        (if truthy_str (ls_position_address p) \<and> price \<noteq> None
         then (if the price < ls_lower_price p \<or> the price > ls_upper_price p
               then p\<lparr>ls_state := OUT_OF_RANGE\<rparr> else p\<lparr>ls_state := IN_RANGE\<rparr>)
         else if ls_position_address p = None then p\<lparr>ls_state := NOT_ACTIVE\<rparr>
         else p))"

text \<open>What is awaited: nothing, the refresh at the start of a round, or a call of the gateway.\<close>

datatype lp_phase =
    Resting | FetchingPosition | FetchingPool | Adding string | ReadingAdded string string
  | CheckingClose | Removing string

datatype lp_call =
    AddLiquidity string decimal decimal decimal decimal
  | ClosePosition string "string option"
  | PlaceSwap string bool decimal
  | RecordAdded "string option" decimal decimal
  | RecordRemoved "string option" decimal decimal decimal decimal

record lp_executor = executor_core +
  lx_config :: lp_config
  lx_position :: lp_position
  lx_current_price :: "decimal option"
  lx_swap_not_found_count :: int
  lx_added :: "(decimal \<times> decimal \<times> decimal) option"  \<comment> \<open>base, quote and fee of the ADD event\<close>
  lx_phase :: lp_phase
  lx_orders :: nat
  lx_calls :: "lp_call list"

definition new_lp_executor :: "lp_config \<Rightarrow> int \<Rightarrow> lp_executor" where
  "new_lp_executor cfg max_retries =
     \<lparr>ex_status = NOT_STARTED, ex_close_type = None, ex_close_timestamp = None,
      ex_max_retries = max_retries, ex_current_retries = 0, ex_held_position_orders = [],
      ex_terminated = False, ex_registered = False, ex_calls = [], lx_config = cfg,
      lx_position = new_lp_position, lx_current_price = None, lx_swap_not_found_count = 0,
      lx_added = None, lx_phase = Resting, lx_orders = 0, lx_calls = []\<rparr>"

text \<open>
  What the executor reads of the connector beside the awaited calls: the state of a swap order,
  and the id of a swap it places, None when placing raises.
\<close>

record lp_env = exec_env +
  lpe_has_connector :: bool
  lpe_native_currency :: string
  lpe_swap_state :: "string \<Rightarrow> order_state option"
  lpe_swap_id :: "string option"

datatype 'a reply = Reply 'a | Raised string

definition error_says :: "string \<Rightarrow> string \<Rightarrow> bool" where
  "error_says w msg = contains_string w (map lower_char msg)"

record position_info =
  psi_base_amount :: decimal
  psi_quote_amount :: decimal
  psi_base_fee :: decimal
  psi_quote_fee :: decimal
  psi_lower_price :: decimal
  psi_upper_price :: decimal
  psi_price :: decimal

text \<open>What the connector's metadata hold after a position was added or closed.\<close>

record add_result =
  ar_signature :: string
  ar_position_address :: string
  ar_position_rent :: decimal
  ar_tx_fee :: decimal

record close_result =
  cr_signature :: string
  cr_position_rent_refunded :: decimal
  cr_base_amount :: decimal
  cr_quote_amount :: decimal
  cr_base_fee :: decimal
  cr_quote_fee :: decimal
  cr_tx_fee :: decimal

section \<open>Small steps of the state\<close>

abbreviation upd_position :: "(lp_position \<Rightarrow> lp_position) \<Rightarrow> lp_executor \<Rightarrow> lp_executor" where
  "upd_position f x \<equiv> x\<lparr>lx_position := f (lx_position x)\<rparr>"

definition set_lp_state :: "lp_state \<Rightarrow> lp_executor \<Rightarrow> lp_executor" where
  "set_lp_state st = upd_position (\<lambda>p. p\<lparr>ls_state := st\<rparr>)"

definition log_lp :: "lp_call \<Rightarrow> lp_executor \<Rightarrow> lp_executor" where
  "log_lp c x = x\<lparr>lx_calls := lx_calls x @ [c]\<rparr>"

definition new_lp_order :: "lp_env \<Rightarrow> lp_executor \<Rightarrow> string \<times> lp_executor" where
  "new_lp_order env x = (env_order_id env (lx_orders x), x\<lparr>lx_orders := Suc (lx_orders x)\<rparr>)"

definition lp_stop :: "lp_env \<Rightarrow> lp_executor \<Rightarrow> lp_executor" where
  "lp_stop env = executor_stop (exec_env.truncate env)"

text \<open>The end of a round: the control loop looks at the retries and sleeps.\<close>

definition lp_rest :: "lp_env \<Rightarrow> lp_executor \<Rightarrow> lp_executor" where
  "lp_rest env x = evaluate_max_retries (exec_env.truncate env) (x\<lparr>lx_phase := Resting\<rparr>)"

definition native_to_quote_rate :: "lp_env \<Rightarrow> lp_executor \<Rightarrow> decimal py_result" where
  "native_to_quote_rate env x =
     ebind (split_hb_trading_pair (lc_trading_pair (lx_config x))) (\<lambda>(base, quote_token).
     Inr (if lpe_native_currency env = quote_token then 1
          else case env_rate env (lpe_native_currency env @ ''-'' @ quote_token) of
                 None \<Rightarrow> 1 | Some r \<Rightarrow> if r > 0 then r else 1))"

definition net_base_difference :: "lp_executor \<Rightarrow> decimal" where
  "net_base_difference x =
     (let p = lx_position x in ls_base_amount p + ls_base_fee p - ls_initial_base_amount p)"

definition handle_create_failure :: "lp_executor \<Rightarrow> lp_executor" where
  "handle_create_failure = upd_position (\<lambda>p. p\<lparr>ls_active_open_order := None, ls_state := LP_FAILED\<rparr>)"

definition handle_close_failure :: "lp_executor \<Rightarrow> lp_executor" where
  "handle_close_failure = upd_position (\<lambda>p. p\<lparr>ls_active_close_order := None, ls_state := LP_FAILED\<rparr>)"

definition handle_swap_failure :: "lp_executor \<Rightarrow> lp_executor" where
  "handle_swap_failure = upd_position (\<lambda>p. p\<lparr>ls_active_swap_order := None, ls_state := LP_FAILED\<rparr>)"

definition emit_already_closed_event :: "lp_env \<Rightarrow> lp_executor \<Rightarrow> lp_executor" where
  "emit_already_closed_event env x =
     (if \<not> lpe_has_connector env then x
      else let p = lx_position x; (oid, x1) = new_lp_order env x
           in log_lp (RecordRemoved (ls_position_address p) (ls_base_amount p) (ls_quote_amount p)
                (ls_base_fee p) (ls_quote_fee p)) x1)"

section \<open>The net trade of a closed position\<close>

definition held_lp_order ::
  "string \<Rightarrow> string \<Rightarrow> decimal \<Rightarrow> decimal \<Rightarrow> decimal \<Rightarrow> decimal \<Rightarrow> json" where
  "held_lp_order oid tt price base qt fee =
     JObj [(''client_order_id'', JStr oid), (''trade_type'', JStr tt), (''price'', JNum price),
           (''executed_amount_base'', JNum base), (''executed_amount_quote'', JNum qt),
           (''cumulative_fee_paid_quote'', JNum fee)]"

text \<open>The order that stands for what a position returned beyond what was deposited.\<close>

definition net_trade_order ::
  "string \<Rightarrow> decimal \<Rightarrow> decimal \<Rightarrow> decimal \<Rightarrow> decimal \<Rightarrow> json option" where
  "net_trade_order oid mid net_base net_quote fee =
     (let threshold = 1 / 10000 in
      if \<bar>net_base\<bar> < threshold \<and> \<bar>net_quote\<bar> < threshold
      then (if fee > 0 then Some (held_lp_order oid ''BUY'' mid 0 0 fee) else None)
      else if net_base > threshold \<and> net_quote < - threshold
      then Some (held_lp_order oid ''BUY'' (\<bar>net_quote\<bar> / net_base) net_base \<bar>net_quote\<bar> fee)
      else if net_base < - threshold \<and> net_quote > threshold
      then Some (held_lp_order oid ''SELL'' (net_quote / \<bar>net_base\<bar>) \<bar>net_base\<bar> net_quote fee)
      else if \<bar>net_base\<bar> > threshold
      then (if net_base > 0 then Some (held_lp_order oid ''BUY'' mid net_base (net_base * mid) fee)
            else Some (held_lp_order oid ''SELL'' mid \<bar>net_base\<bar> (\<bar>net_base\<bar> * mid) fee))
      else Some (held_lp_order oid ''BUY'' mid 0 \<bar>net_quote\<bar> fee))"

definition store_lp_event_from_add :: "lp_env \<Rightarrow> lp_executor \<Rightarrow> lp_executor outcome" where
  "store_lp_event_from_add env x =
     (let p = lx_position x in
      try_value x (native_to_quote_rate env x) (\<lambda>rate.
        (x\<lparr>lx_added := Some (ls_base_amount p, ls_quote_amount p, ls_tx_fee p * rate)\<rparr>, None)))"

definition store_lp_event_from_remove ::
  "lp_env \<Rightarrow> string \<Rightarrow> decimal \<Rightarrow> decimal \<Rightarrow> lp_executor \<Rightarrow> lp_executor outcome" where
  "store_lp_event_from_remove env signature mid close_tx_fee x =
     (let p = lx_position x;
          (add_base, add_quote, add_fee) = (case lx_added x of None \<Rightarrow> (0, 0, 0) | Some a \<Rightarrow> a);
          net_base = ls_base_amount p + ls_base_fee p - add_base;
          net_quote = ls_quote_amount p + ls_quote_fee p - add_quote
      in try_value x (native_to_quote_rate env x) (\<lambda>rate.
           (case net_trade_order signature mid net_base net_quote (add_fee + close_tx_fee * rate) of
              None \<Rightarrow> x
            | Some j \<Rightarrow> x\<lparr>ex_held_position_orders := ex_held_position_orders x @ [j]\<rparr>, None)))"

section \<open>Opening\<close>

definition begin_create :: "lp_env \<Rightarrow> lp_executor \<Rightarrow> lp_executor" where
  "begin_create env x =
     (if \<not> lpe_has_connector env then lp_rest env (handle_create_failure x)
      else let cfg = lx_config x; (oid, x1) = new_lp_order env x;
               x2 = upd_position (\<lambda>p. p\<lparr>ls_active_open_order := Some oid\<rparr>) x1
           in (log_lp (AddLiquidity oid (lc_base_amount cfg) (lc_quote_amount cfg) (lc_lower_price cfg)
                 (lc_upper_price cfg)) x2)\<lparr>lx_phase := Adding oid\<rparr>)"

definition on_add_reply :: "lp_env \<Rightarrow> add_result reply \<Rightarrow> lp_executor \<Rightarrow> lp_executor" where
  "on_add_reply env r x =
     (case r of
        Raised msg \<Rightarrow> lp_rest env (handle_create_failure x)
      | Reply a \<Rightarrow>
          (if ar_position_address a = [] then lp_rest env (handle_create_failure x)
           else (upd_position (\<lambda>p. p\<lparr>ls_position_address := Some (ar_position_address a),
                    ls_position_rent := ar_position_rent a, ls_tx_fee := ar_tx_fee a,
                    ls_open_tx_hash := Some (ar_signature a), ls_active_open_order := None\<rparr>) x)
                  \<lparr>lx_phase := ReadingAdded (ar_signature a) (ar_position_address a)\<rparr>))"

definition set_position_amounts :: "position_info \<Rightarrow> lp_position \<Rightarrow> lp_position" where
  "set_position_amounts i p =
     p\<lparr>ls_base_amount := psi_base_amount i, ls_quote_amount := psi_quote_amount i,
       ls_base_fee := psi_base_fee i, ls_quote_fee := psi_quote_fee i,
       ls_lower_price := psi_lower_price i, ls_upper_price := psi_upper_price i\<rparr>"

definition record_initial_amounts :: "decimal \<Rightarrow> lp_position \<Rightarrow> lp_position" where
  "record_initial_amounts price p =
     p\<lparr>ls_initial_base_amount := ls_base_amount p, ls_initial_quote_amount := ls_quote_amount p,
       ls_add_mid_price := price\<rparr>"

text \<open>Without position info the amounts and bounds of the configuration stand in.\<close>

definition amounts_of_config :: "lp_config \<Rightarrow> lp_position \<Rightarrow> lp_position" where
  "amounts_of_config cfg p =
     p\<lparr>ls_base_amount := lc_base_amount cfg, ls_quote_amount := lc_quote_amount cfg,
       ls_lower_price := lc_lower_price cfg, ls_upper_price := lc_upper_price cfg\<rparr>"

definition finish_create :: "lp_env \<Rightarrow> decimal \<Rightarrow> lp_executor \<Rightarrow> lp_executor" where
  "finish_create env price x =
     (let p = lx_position x in
      if price = 0 then handle_create_failure x
      else let x1 = log_lp (RecordAdded (ls_position_address p) (ls_base_amount p) (ls_quote_amount p)) x
           in (case (if lc_keep_position (lx_config x) then store_lp_event_from_add env x1 else (x1, None)) of
                 (x2, Some e) \<Rightarrow> handle_create_failure x2
               | (x2, None) \<Rightarrow> upd_position (update_state (Some price) (Some (env_now env))) x2))"

definition on_added_info :: "lp_env \<Rightarrow> position_info option reply \<Rightarrow> lp_executor \<Rightarrow> lp_executor" where
  "on_added_info env r x =
     lp_rest env
       (case r of
          Raised msg \<Rightarrow> handle_create_failure x
        | Reply (Some i) \<Rightarrow>
            finish_create env (psi_price i)
              ((upd_position (\<lambda>p. record_initial_amounts (psi_price i) (set_position_amounts i p)) x)
                 \<lparr>lx_current_price := Some (psi_price i)\<rparr>)
        | Reply None \<Rightarrow>
            (let cfg = lx_config x; mid = (lc_lower_price cfg + lc_upper_price cfg) / 2
             in finish_create env mid
                  ((upd_position (\<lambda>p. record_initial_amounts mid (amounts_of_config cfg p)) x)
                     \<lparr>lx_current_price := Some mid\<rparr>)))"

section \<open>Closing\<close>

definition begin_lp_close :: "lp_env \<Rightarrow> lp_executor \<Rightarrow> lp_executor" where
  "begin_lp_close env x =
     (if \<not> lpe_has_connector env then lp_rest env (handle_close_failure x) else x\<lparr>lx_phase := CheckingClose\<rparr>)"

definition confirm_closed :: "lp_env \<Rightarrow> lp_executor \<Rightarrow> lp_executor" where
  "confirm_closed env x = set_lp_state COMPLETE (emit_already_closed_event env x)"

definition says_gone :: "position_info option reply \<Rightarrow> bool" where
  "says_gone r =
     (case r of
        Reply i \<Rightarrow> i = None
      | Raised msg \<Rightarrow> error_says ''position closed'' msg \<or> error_says ''not found'' msg)"

definition on_check_reply :: "lp_env \<Rightarrow> position_info option reply \<Rightarrow> lp_executor \<Rightarrow> lp_executor" where
  "on_check_reply env r x =
     (if says_gone r then lp_rest env (confirm_closed env x)
      else let (oid, x1) = new_lp_order env x;
               x2 = upd_position (\<lambda>p. p\<lparr>ls_active_close_order := Some oid\<rparr>) x1
           in (log_lp (ClosePosition oid (ls_position_address (lx_position x))) x2)\<lparr>lx_phase := Removing oid\<rparr>)"

definition close_amounts :: "close_result \<Rightarrow> lp_position \<Rightarrow> lp_position" where
  "close_amounts c p =
     p\<lparr>ls_position_rent_refunded := cr_position_rent_refunded c, ls_base_amount := cr_base_amount c,
       ls_quote_amount := cr_quote_amount c, ls_base_fee := cr_base_fee c, ls_quote_fee := cr_quote_fee c,
       ls_tx_fee := ls_tx_fee p + cr_tx_fee c, ls_close_tx_hash := Some (cr_signature c)\<rparr>"

definition price_or_0 :: "lp_executor \<Rightarrow> decimal" where
  "price_or_0 x = (case lx_current_price x of None \<Rightarrow> 0 | Some p \<Rightarrow> p)"

definition after_close :: "lp_executor \<Rightarrow> lp_executor" where
  "after_close x =
     (let x1 = upd_position (\<lambda>p. p\<lparr>ls_active_close_order := None, ls_position_address := None\<rparr>) x in
      if \<not> lc_keep_position (lx_config x1) \<and> ex_close_type x1 \<noteq> Some POSITION_HOLD
      then (if \<bar>net_base_difference x1\<bar> > 1 / 1000000 then set_lp_state SWAPPING x1 else set_lp_state COMPLETE x1)
      else set_lp_state COMPLETE x1)"

definition finish_close :: "lp_env \<Rightarrow> close_result \<Rightarrow> lp_executor \<Rightarrow> lp_executor" where
  "finish_close env c x =
     (let x1 = upd_position (close_amounts c) x;
          p = lx_position x1;
          x2 = log_lp (RecordRemoved (ls_position_address p) (ls_base_amount p) (ls_quote_amount p)
                 (ls_base_fee p) (ls_quote_fee p)) x1
      in (case (if lc_keep_position (lx_config x2) \<or> ex_close_type x2 = Some POSITION_HOLD
                then store_lp_event_from_remove env (cr_signature c) (price_or_0 x2) (cr_tx_fee c) x2
                else (x2, None)) of
            (x3, Some e) \<Rightarrow> handle_close_failure x3
          | (x3, None) \<Rightarrow> after_close x3))"

definition on_remove_reply :: "lp_env \<Rightarrow> close_result reply \<Rightarrow> lp_executor \<Rightarrow> lp_executor" where
  "on_remove_reply env r x =
     lp_rest env (case r of Raised msg \<Rightarrow> handle_close_failure x | Reply c \<Rightarrow> finish_close env c x)"

section \<open>The close-out swap\<close>

definition swap_not_found :: "lp_executor \<Rightarrow> lp_executor" where
  "swap_not_found x =
     (let x1 = x\<lparr>lx_swap_not_found_count := lx_swap_not_found_count x + 1\<rparr> in
      if lx_swap_not_found_count x1 \<ge> 3
      then upd_position (\<lambda>p. p\<lparr>ls_active_swap_order := None, ls_state := COMPLETE\<rparr>) x1 else x1)"

definition check_swap :: "lp_env \<Rightarrow> string \<Rightarrow> lp_executor \<Rightarrow> lp_executor" where
  "check_swap env oid x =
     (case lpe_swap_state env oid of
        None \<Rightarrow> swap_not_found x
      | Some st \<Rightarrow>
          (if st = FILLED then upd_position (\<lambda>p. p\<lparr>ls_active_swap_order := None, ls_state := COMPLETE\<rparr>) x
           else if st \<in> set [FAILED, CANCELED] then handle_swap_failure x
           else x))"

definition place_swap :: "lp_env \<Rightarrow> lp_executor \<Rightarrow> lp_executor" where
  "place_swap env x =
     (let diff = net_base_difference x in
      if \<bar>diff\<bar> < 1 / 1000000 then set_lp_state COMPLETE x
      else case lpe_swap_id env of
        None \<Rightarrow> handle_swap_failure x
      | Some oid \<Rightarrow>
          (upd_position (\<lambda>p. p\<lparr>ls_active_swap_order := Some oid\<rparr>) (log_lp (PlaceSwap oid (diff < 0) \<bar>diff\<bar>) x))
            \<lparr>lx_swap_not_found_count := 0\<rparr>)"

definition execute_closeout_swap :: "lp_env \<Rightarrow> lp_executor \<Rightarrow> lp_executor" where
  "execute_closeout_swap env x =
     (if \<not> lpe_has_connector env \<or> \<not> truthy_str (lc_swap_provider (lx_config x)) then handle_swap_failure x
      else case ls_active_swap_order (lx_position x) of
             Some oid \<Rightarrow> check_swap env oid x
           | None \<Rightarrow> place_swap env x)"

section \<open>A round of the control loop\<close>

definition exceeds_limits :: "lp_executor \<Rightarrow> bool" where
  "exceeds_limits x =
     (case lx_current_price x of
        None \<Rightarrow> False
      | Some price \<Rightarrow>
          ((case lc_upper_limit_price (lx_config x) of None \<Rightarrow> False | Some u \<Rightarrow> price \<ge> u)
           \<or> (case lc_lower_limit_price (lx_config x) of None \<Rightarrow> False | Some l \<Rightarrow> price \<le> l)))"

definition dispatch_state :: "lp_env \<Rightarrow> lp_executor \<Rightarrow> lp_executor" where
  "dispatch_state env x =
     (case ls_state (lx_position x) of
        NOT_ACTIVE \<Rightarrow> begin_create env (set_lp_state OPENING x)
      | OPENING \<Rightarrow> begin_create env x
      | CLOSING \<Rightarrow> begin_lp_close env x
      | SWAPPING \<Rightarrow> lp_rest env (execute_closeout_swap env x)
      | LP_FAILED \<Rightarrow> lp_rest env (lp_stop env (x\<lparr>ex_close_type := Some FAILED_CLOSE\<rparr>))
      | IN_RANGE \<Rightarrow> lp_rest env x
      | OUT_OF_RANGE \<Rightarrow>
          lp_rest env
            (if exceeds_limits x
             then set_lp_state CLOSING
                    (x\<lparr>ex_close_type := Some (if lc_keep_position (lx_config x) then POSITION_HOLD else EARLY_STOP)\<rparr>)
             else x)
      | COMPLETE \<Rightarrow> lp_rest env (lp_stop env x))"

definition continue_round :: "lp_env \<Rightarrow> lp_executor \<Rightarrow> lp_executor" where
  "continue_round env x =
     dispatch_state env (upd_position (update_state (lx_current_price x) (Some (env_now env))) x)"

definition begin_round :: "lp_env \<Rightarrow> lp_executor \<Rightarrow> lp_executor" where
  "begin_round env x =
     (if \<not> lpe_has_connector env then continue_round env x
      else if truthy_str (ls_position_address (lx_position x)) then x\<lparr>lx_phase := FetchingPosition\<rparr>
      else x\<lparr>lx_phase := FetchingPool\<rparr>)"

definition refresh_position :: "lp_env \<Rightarrow> position_info option reply \<Rightarrow> lp_executor \<Rightarrow> lp_executor" where
  "refresh_position env r x =
     (case r of
        Reply (Some i) \<Rightarrow> (upd_position (set_position_amounts i) x)\<lparr>lx_current_price := Some (psi_price i)\<rparr>
      | Reply None \<Rightarrow> x
      | Raised msg \<Rightarrow>
          (if error_says ''position closed'' msg
           then upd_position (\<lambda>p. p\<lparr>ls_active_close_order := None\<rparr>) (confirm_closed env x)
           else x))"

definition on_position_reply :: "lp_env \<Rightarrow> position_info option reply \<Rightarrow> lp_executor \<Rightarrow> lp_executor" where
  "on_position_reply env r x = continue_round env (refresh_position env r x)"

definition on_pool_reply :: "lp_env \<Rightarrow> decimal option reply \<Rightarrow> lp_executor \<Rightarrow> lp_executor" where
  "on_pool_reply env r x =
     continue_round env (case r of Reply (Some p) \<Rightarrow> x\<lparr>lx_current_price := Some p\<rparr> | _ \<Rightarrow> x)"

definition lp_early_stop :: "bool \<Rightarrow> lp_executor \<Rightarrow> lp_executor" where
  "lp_early_stop keep_position x =
     (let x1 = x\<lparr>ex_status := SHUTTING_DOWN,
                 ex_close_type := Some (if keep_position then POSITION_HOLD else EARLY_STOP)\<rparr>;
          st = ls_state (lx_position x1)
      in if st \<in> set [IN_RANGE, OUT_OF_RANGE] then set_lp_state CLOSING x1
         else if st = OPENING then set_lp_state LP_FAILED (x1\<lparr>ex_close_type := Some EARLY_STOP\<rparr>)
         else if st = NOT_ACTIVE then set_lp_state COMPLETE x1
         else x1)"

text \<open>\<open>on_start\<close>: the network's default swap provider when the position is not kept.\<close>

definition lp_on_start :: "string option \<Rightarrow> lp_executor \<Rightarrow> lp_executor" where
  "lp_on_start default_provider x =
     (if \<not> lc_keep_position (lx_config x) \<and> \<not> truthy_str (lc_swap_provider (lx_config x))
         \<and> truthy_str default_provider
      then x\<lparr>lx_config := (lx_config x)\<lparr>lc_swap_provider := default_provider\<rparr>\<rparr> else x)"

section \<open>Reports\<close>

definition initial_amounts :: "lp_executor \<Rightarrow> decimal \<times> decimal" where
  \<comment> \<open>as \<open>get_net_pnl_quote\<close> falls back to the configuration\<close>
  "initial_amounts x =
     (let p = lx_position x in
      if ls_initial_base_amount p = 0 \<and> ls_initial_quote_amount p = 0
      then (lc_base_amount (lx_config x), lc_quote_amount (lx_config x))
      else (ls_initial_base_amount p, ls_initial_quote_amount p))"

definition add_price :: "decimal \<Rightarrow> lp_executor \<Rightarrow> decimal" where
  "add_price price x = (if ls_add_mid_price (lx_position x) > 0 then ls_add_mid_price (lx_position x) else price)"

definition initial_value :: "decimal \<Rightarrow> lp_executor \<Rightarrow> decimal" where
  "initial_value price x = fst (initial_amounts x) * add_price price x + snd (initial_amounts x)"

definition lp_net_pnl_quote :: "lp_env \<Rightarrow> lp_executor \<Rightarrow> decimal py_result" where
  "lp_net_pnl_quote env x =
     (let p = lx_position x; price = price_or_0 x in
      if price = 0 then Inr 0
      else if ls_state p = LP_FAILED \<and> \<not> truthy_str (ls_position_address p) then Inr 0
      else ebind (native_to_quote_rate env x) (\<lambda>rate.
           Inr (ls_base_amount p * price + ls_quote_amount p + (ls_base_fee p * price + ls_quote_fee p)
                - initial_value price x - ls_tx_fee p * rate)))"

definition lp_net_pnl_pct :: "lp_env \<Rightarrow> lp_executor \<Rightarrow> decimal py_result" where
  "lp_net_pnl_pct env x =
     ebind (lp_net_pnl_quote env x) (\<lambda>pnl.
     Inr (if pnl = 0 \<or> price_or_0 x = 0 then 0
          else let v = initial_value (price_or_0 x) x in if v = 0 then 0 else pnl / v * 100))"

definition lp_cum_fees_quote :: "lp_env \<Rightarrow> lp_executor \<Rightarrow> decimal py_result" where
  "lp_cum_fees_quote env x =
     ebind (native_to_quote_rate env x) (\<lambda>rate. Inr (ls_tx_fee (lx_position x) * rate))"

definition lp_filled_amount_quote :: "lp_executor \<Rightarrow> decimal" where
  "lp_filled_amount_quote x =
     (let p = lx_position x in
      if ls_initial_base_amount p = 0 \<and> ls_initial_quote_amount p = 0 then 0
      else let price = (if ls_add_mid_price p \<le> 0 then price_or_0 x else ls_add_mid_price p)
           in if price = 0 then 0 else ls_initial_base_amount p * price + ls_initial_quote_amount p)"

text \<open>The amounts \<open>get_custom_info\<close> reports to the controller.\<close>

definition lp_custom_figures :: "lp_executor \<Rightarrow> (string, decimal) dict" where
  "lp_custom_figures x =
     (let p = lx_position x; price = price_or_0 x;
          deposited = (ls_initial_base_amount p > 0 \<or> ls_initial_quote_amount p > 0)
      in [(''lower_price'', ls_lower_price p), (''upper_price'', ls_upper_price p),
          (''base_amount'', ls_base_amount p), (''quote_amount'', ls_quote_amount p),
          (''base_fee'', ls_base_fee p), (''quote_fee'', ls_quote_fee p),
          (''fees_earned_quote'', ls_base_fee p * price + ls_quote_fee p),
          (''total_value_quote'', ls_base_amount p * price + ls_quote_amount p),
          (''position_rent'', ls_position_rent p), (''position_rent_refunded'', ls_position_rent_refunded p),
          (''tx_fee'', ls_tx_fee p),
          (''initial_base_amount'', if deposited then ls_initial_base_amount p else lc_base_amount (lx_config x)),
          (''initial_quote_amount'', if deposited then ls_initial_quote_amount p else lc_quote_amount (lx_config x)),
          (''filled_amount_base'', ls_base_amount p), (''filled_amount_quote'', ls_quote_amount p)])"

definition lp_executor_info :: "lp_env \<Rightarrow> lp_executor \<Rightarrow> executor_info py_result" where
  "lp_executor_info env x =
     ebind (lp_net_pnl_pct env x) (\<lambda>pct.
     ebind (lp_net_pnl_quote env x) (\<lambda>pnl.
     ebind (lp_cum_fees_quote env x) (\<lambda>fees.
     Inr \<lparr>ei_id = lc_id (lx_config x), ei_timestamp = lc_timestamp (lx_config x), ei_type = ''lp_executor'',
          ei_status = ex_status x, ei_trading_pair = Some (lc_trading_pair (lx_config x)),
          ei_connector_name = Some (lc_connector_name (lx_config x)), ei_side = Some (lc_side (lx_config x)),
          ei_position_action = None, ei_net_pnl_pct = pct, ei_net_pnl_quote = pnl, ei_cum_fees_quote = fees,
          ei_filled_amount_quote = lp_filled_amount_quote x, ei_is_active = ex_is_active x,
          ei_is_trading = (ex_is_active x \<and> pnl \<noteq> 0),
          ei_held_position_orders = Some (ex_held_position_orders x),
          ei_close_timestamp = ex_close_timestamp x, ei_close_type = ex_close_type x,
          ei_controller_id = lc_controller_id (lx_config x)\<rparr>)))"

section \<open>The executor and the chain\<close>

text \<open>
  The chain, as far as the executor's position goes: the address of the open position the executor
  answers for, if there is one, and the positions it has taken for closed while they were open. A
  reply of the gateway that returns a result tells the truth about what happened and an error
  ``position closed'' comes only of a closed position; any other exception may hide anything. The
  check before closing may be wrong: \<open>get_position_info\<close> of the gateway's connector
  (\<open>connector/gateway/gateway.py\<close>) returns None whenever its request fails, and the executor takes
  None, like an error ``not found'', for a closed position (\<open>check_missed\<close>).
\<close>

type_synonym lp_world = "lp_executor \<times> string option \<times> string list"

inductive lp_step :: "lp_world \<Rightarrow> lp_world \<Rightarrow> bool" where
  start: "lp_step (x, ch, gone) (lp_on_start provider (executor_start x), ch, gone)"
| begin_round: "lx_phase x = Resting \<Longrightarrow> \<not> ex_terminated x \<Longrightarrow> lp_step (x, ch, gone) (begin_round env x, ch, gone)"
| position: "lx_phase x = FetchingPosition \<Longrightarrow>
     (\<And>msg. r = Raised msg \<Longrightarrow> error_says ''position closed'' msg \<Longrightarrow> ch = None) \<Longrightarrow>
     lp_step (x, ch, gone) (on_position_reply env r x, ch, gone)"
| pool: "lx_phase x = FetchingPool \<Longrightarrow> lp_step (x, ch, gone) (on_pool_reply env q x, ch, gone)"
| added: "lx_phase x = Adding oid \<Longrightarrow> ar_position_address a \<noteq> [] \<Longrightarrow>
     lp_step (x, ch, gone) (on_add_reply env (Reply a) x, Some (ar_position_address a), gone)"
| add_failed: "lx_phase x = Adding oid \<Longrightarrow> (\<And>a. s = Reply a \<Longrightarrow> ar_position_address a = []) \<Longrightarrow>
     lp_step (x, ch, gone) (on_add_reply env s x, ch', gone)"
| added_info: "lx_phase x = ReadingAdded sig addr \<Longrightarrow> lp_step (x, ch, gone) (on_added_info env r x, ch, gone)"
| check_close: "lx_phase x = CheckingClose \<Longrightarrow> (says_gone r \<Longrightarrow> ch = None) \<Longrightarrow>
     lp_step (x, ch, gone) (on_check_reply env r x, ch, gone)"
| check_missed: "lx_phase x = CheckingClose \<Longrightarrow> says_gone r \<Longrightarrow>
     (\<And>msg. r = Raised msg \<Longrightarrow> \<not> error_says ''position closed'' msg) \<Longrightarrow>
     lp_step (x, Some a, gone) (on_check_reply env r x, None, a # gone)"
| removed: "lx_phase x = Removing oid \<Longrightarrow> lp_step (x, ch, gone) (on_remove_reply env (Reply c) x, None, gone)"
| remove_failed: "lx_phase x = Removing oid \<Longrightarrow> ch' \<in> {ch, None} \<Longrightarrow>
     lp_step (x, ch, gone) (on_remove_reply env (Raised msg) x, ch', gone)"
| early_stop: "lp_step (x, ch, gone) (lp_early_stop keep x, ch, gone)"

inductive lp_reachable :: "lp_config \<Rightarrow> int \<Rightarrow> lp_world \<Rightarrow> bool" for cfg retries where
  new: "lp_reachable cfg retries (new_lp_executor cfg retries, None, [])"
| step: "lp_reachable cfg retries s \<Longrightarrow> lp_step s t \<Longrightarrow> lp_reachable cfg retries t"

inductive_cases lp_stepE: "lp_step s t"

end
