(* ===== verification/LP_Safety.thy ===== *)
theory LP_Safety
  imports LP_Executor
begin

text \<open>
  Safety of the LP executor: the invariant of its reachable states, what it guarantees when it
  ends, how a position can be left behind, and what a closed position adds to the position the
  orchestrator keeps.
\<close>

section \<open>Invariant\<close>

fun is_add_call :: "lp_call \<Rightarrow> bool" where
  "is_add_call (AddLiquidity oid b q lo up) = True"
| "is_add_call c = False"

fun is_close_call :: "lp_call \<Rightarrow> bool" where
  "is_close_call (ClosePosition oid addr) = True"
| "is_close_call c = False"

fun is_swap_call :: "lp_call \<Rightarrow> bool" where
  "is_swap_call (PlaceSwap oid buy amount) = True"
| "is_swap_call c = False"

definition lp_adds :: "lp_executor \<Rightarrow> nat" where
  "lp_adds x = length (filter is_add_call (lx_calls x))"

definition lp_closes :: "lp_executor \<Rightarrow> nat" where
  "lp_closes x = length (filter is_close_call (lx_calls x))"

definition lp_swaps :: "lp_executor \<Rightarrow> nat" where
  "lp_swaps x = length (filter is_swap_call (lx_calls x))"

fun is_adding :: "lp_phase \<Rightarrow> bool" where
  "is_adding (Adding oid) = True"
| "is_adding ph = False"

fun is_reading :: "lp_phase \<Rightarrow> bool" where
  "is_reading (ReadingAdded sig addr) = True"
| "is_reading ph = False"

fun is_removing :: "lp_phase \<Rightarrow> bool" where
  "is_removing (Removing oid) = True"
| "is_removing ph = False"

text \<open>
  What each state of the position says of the chain, the address kept, the calls made and the call
  awaited; a number of calls of a kind is 0 before the state they belong to and at most 1 after.
\<close>

definition lp_state_inv :: "lp_phase \<Rightarrow> lp_position \<Rightarrow> nat \<Rightarrow> nat \<Rightarrow> nat \<Rightarrow> string option \<Rightarrow> bool" where
  "lp_state_inv ph p na nc ns ch =
     ((ls_state p \<notin> {SWAPPING, COMPLETE, LP_FAILED} \<longrightarrow> ns = 0 \<and> ls_active_swap_order p = None) \<and>
      (case ls_state p of
         NOT_ACTIVE \<Rightarrow> ch = None \<and> ls_position_address p = None \<and> na = 0 \<and> nc = 0
       | OPENING \<Rightarrow> na = 1 \<and> nc = 0 \<and>
           (if is_adding ph then ls_position_address p = None \<and> ch = None
            else is_reading ph \<and> truthy_str (ls_position_address p))
       | IN_RANGE \<Rightarrow> truthy_str (ls_position_address p) \<and> na = 1 \<and> nc = 0
       | OUT_OF_RANGE \<Rightarrow> truthy_str (ls_position_address p) \<and> na = 1 \<and> nc = 0
       | CLOSING \<Rightarrow> na = 1 \<and> nc = (if is_removing ph then 1 else 0)
       | SWAPPING \<Rightarrow> ch = None \<and> na \<le> 1 \<and> nc \<le> 1 \<and> ns = (if ls_active_swap_order p = None then 0 else 1)
       | COMPLETE \<Rightarrow> ch = None \<and> na \<le> 1 \<and> nc \<le> 1 \<and> ns \<le> 1
       | LP_FAILED \<Rightarrow> na \<le> 1 \<and> nc \<le> 1 \<and> ns \<le> 1))"

definition lp_phase_inv :: "lp_phase \<Rightarrow> lp_position \<Rightarrow> bool" where
  "lp_phase_inv ph p =
     ((is_adding ph \<or> is_reading ph \<longrightarrow> ls_state p \<in> {OPENING, LP_FAILED})
      \<and> (is_reading ph \<longrightarrow> truthy_str (ls_position_address p))
      \<and> (is_removing ph \<or> ph = CheckingClose \<longrightarrow> ls_state p = CLOSING)
      \<and> (ls_active_open_order p \<noteq> None \<longrightarrow> is_adding ph)
      \<and> (ls_active_close_order p \<noteq> None \<longrightarrow> is_removing ph))"

definition lp_end_inv :: "lp_executor \<Rightarrow> bool" where
  "lp_end_inv x =
     ((ex_terminated x \<longrightarrow> lx_phase x = Resting) \<and>
      (ex_status x = TERMINATED \<longrightarrow>
        ex_terminated x \<and> (ls_state (lx_position x) = COMPLETE \<or> ex_close_type x = Some FAILED_CLOSE)))"

definition lp_inv :: "lp_executor \<times> string option \<Rightarrow> bool" where
  "lp_inv s =
     (let x = fst s in lp_state_inv (lx_phase x) (lx_position x) (lp_adds x) (lp_closes x) (lp_swaps x) (snd s)
        \<and> lp_phase_inv (lx_phase x) (lx_position x) \<and> lp_end_inv x)"

lemmas lp_inv_defs = lp_inv_def Let_def lp_state_inv_def lp_phase_inv_def lp_end_inv_def

text \<open>A step that leaves the loop running keeps the last part if it does not stop the executor.\<close>

definition lp_safe :: "lp_executor \<Rightarrow> string option \<Rightarrow> bool" where
  "lp_safe x ch =
     (lp_state_inv (lx_phase x) (lx_position x) (lp_adds x) (lp_closes x) (lp_swaps x) ch
      \<and> lp_phase_inv (lx_phase x) (lx_position x)
      \<and> ex_status x \<noteq> TERMINATED \<and> \<not> ex_terminated x)"

lemma lp_safe_inv: "lp_safe x ch \<Longrightarrow> lp_inv (x, ch)"
  by (simp add: lp_safe_def lp_inv_def lp_end_inv_def Let_def)

lemma lp_inv_safe: "lp_inv (x, ch) \<Longrightarrow> \<not> ex_terminated x \<Longrightarrow> lp_safe x ch"
  by (auto simp: lp_safe_def lp_inv_def lp_end_inv_def Let_def)

text \<open>Going to rest is harmless where no call of the gateway is pending.\<close>

definition lp_settled :: "lp_executor \<Rightarrow> string option \<Rightarrow> bool" where
  "lp_settled x ch = lp_safe (x\<lparr>lx_phase := Resting\<rparr>) ch"

lemma lp_rest_inv: "lp_settled x ch \<Longrightarrow> lp_inv (lp_rest env x, ch)"
  by (auto simp: lp_settled_def lp_safe_def lp_rest_def lp_inv_def lp_end_inv_def Let_def
      evaluate_max_retries_def executor_stop_def lp_adds_def lp_closes_def lp_swaps_def)

lemma lp_rest_stop_inv:
  assumes "lp_settled x ch" and "ls_state (lx_position x) = COMPLETE \<or> ex_close_type x = Some FAILED_CLOSE"
  shows "lp_inv (lp_rest env (lp_stop env x), ch)"
  using assms
  by (auto simp: lp_settled_def lp_safe_def lp_rest_def lp_stop_def lp_inv_def lp_end_inv_def Let_def
      evaluate_max_retries_def executor_stop_def lp_adds_def lp_closes_def lp_swaps_def)

lemma lp_counts [simp]:
  "lp_adds (log_lp c x) = lp_adds x + (if is_add_call c then 1 else 0)"
  "lp_closes (log_lp c x) = lp_closes x + (if is_close_call c then 1 else 0)"
  "lp_swaps (log_lp c x) = lp_swaps x + (if is_swap_call c then 1 else 0)"
  "lx_position (log_lp c x) = lx_position x" "lx_phase (log_lp c x) = lx_phase x"
  "lx_config (log_lp c x) = lx_config x" "ex_status (log_lp c x) = ex_status x"
  "ex_terminated (log_lp c x) = ex_terminated x" "ex_close_type (log_lp c x) = ex_close_type x"
  by (simp_all add: lp_adds_def lp_closes_def lp_swaps_def log_lp_def)

lemma lp_counts_upd [simp]:
  "lp_adds (x\<lparr>lx_position := p\<rparr>) = lp_adds x" "lp_closes (x\<lparr>lx_position := p\<rparr>) = lp_closes x"
  "lp_swaps (x\<lparr>lx_position := p\<rparr>) = lp_swaps x" "lp_adds (x\<lparr>lx_phase := ph\<rparr>) = lp_adds x"
  "lp_closes (x\<lparr>lx_phase := ph\<rparr>) = lp_closes x" "lp_swaps (x\<lparr>lx_phase := ph\<rparr>) = lp_swaps x"
  "lp_adds (x\<lparr>lx_orders := n\<rparr>) = lp_adds x" "lp_closes (x\<lparr>lx_orders := n\<rparr>) = lp_closes x"
  "lp_swaps (x\<lparr>lx_orders := n\<rparr>) = lp_swaps x" "lp_adds (x\<lparr>ex_close_type := ct\<rparr>) = lp_adds x"
  "lp_closes (x\<lparr>ex_close_type := ct\<rparr>) = lp_closes x" "lp_swaps (x\<lparr>ex_close_type := ct\<rparr>) = lp_swaps x"
  "lp_adds (x\<lparr>lx_current_price := v\<rparr>) = lp_adds x" "lp_closes (x\<lparr>lx_current_price := v\<rparr>) = lp_closes x"
  "lp_swaps (x\<lparr>lx_current_price := v\<rparr>) = lp_swaps x" "lp_adds (x\<lparr>lx_added := a\<rparr>) = lp_adds x"
  "lp_closes (x\<lparr>lx_added := a\<rparr>) = lp_closes x" "lp_swaps (x\<lparr>lx_added := a\<rparr>) = lp_swaps x"
  "lp_adds (x\<lparr>ex_held_position_orders := js\<rparr>) = lp_adds x"
  "lp_closes (x\<lparr>ex_held_position_orders := js\<rparr>) = lp_closes x"
  "lp_swaps (x\<lparr>ex_held_position_orders := js\<rparr>) = lp_swaps x"
  "lp_adds (x\<lparr>lx_swap_not_found_count := k\<rparr>) = lp_adds x"
  "lp_closes (x\<lparr>lx_swap_not_found_count := k\<rparr>) = lp_closes x"
  "lp_swaps (x\<lparr>lx_swap_not_found_count := k\<rparr>) = lp_swaps x"
  "lp_adds (x\<lparr>ex_status := st\<rparr>) = lp_adds x" "lp_closes (x\<lparr>ex_status := st\<rparr>) = lp_closes x"
  "lp_swaps (x\<lparr>ex_status := st\<rparr>) = lp_swaps x" "lp_adds (x\<lparr>lx_config := cfg\<rparr>) = lp_adds x"
  "lp_closes (x\<lparr>lx_config := cfg\<rparr>) = lp_closes x" "lp_swaps (x\<lparr>lx_config := cfg\<rparr>) = lp_swaps x"
  by (simp_all add: lp_adds_def lp_closes_def lp_swaps_def)

lemma lp_state_inv_simps:
  "ls_state p = NOT_ACTIVE \<Longrightarrow> lp_state_inv ph p na nc ns ch =
     (ch = None \<and> ls_position_address p = None \<and> na = 0 \<and> nc = 0 \<and> ns = 0 \<and> ls_active_swap_order p = None)"
  "ls_state p = OPENING \<Longrightarrow> lp_state_inv ph p na nc ns ch =
     (na = 1 \<and> nc = 0 \<and> ns = 0 \<and> ls_active_swap_order p = None \<and>
      (if is_adding ph then ls_position_address p = None \<and> ch = None
       else is_reading ph \<and> truthy_str (ls_position_address p)))"
  "ls_state p = IN_RANGE \<Longrightarrow> lp_state_inv ph p na nc ns ch =
     (truthy_str (ls_position_address p) \<and> na = 1 \<and> nc = 0 \<and> ns = 0 \<and> ls_active_swap_order p = None)"
  "ls_state p = OUT_OF_RANGE \<Longrightarrow> lp_state_inv ph p na nc ns ch =
     (truthy_str (ls_position_address p) \<and> na = 1 \<and> nc = 0 \<and> ns = 0 \<and> ls_active_swap_order p = None)"
  "ls_state p = CLOSING \<Longrightarrow> lp_state_inv ph p na nc ns ch =
     (na = 1 \<and> nc = (if is_removing ph then 1 else 0) \<and> ns = 0 \<and> ls_active_swap_order p = None)"
  "ls_state p = SWAPPING \<Longrightarrow> lp_state_inv ph p na nc ns ch =
     (ch = None \<and> na \<le> 1 \<and> nc \<le> 1 \<and> ns = (if ls_active_swap_order p = None then 0 else 1))"
  "ls_state p = COMPLETE \<Longrightarrow> lp_state_inv ph p na nc ns ch = (ch = None \<and> na \<le> 1 \<and> nc \<le> 1 \<and> ns \<le> 1)"
  "ls_state p = LP_FAILED \<Longrightarrow> lp_state_inv ph p na nc ns ch = (na \<le> 1 \<and> nc \<le> 1 \<and> ns \<le> 1)"
  by (auto simp: lp_state_inv_def)

lemmas lp_safe_defs = lp_settled_def lp_safe_def lp_phase_inv_def lp_state_inv_simps

lemma lp_safe_bounds:
  "lp_safe x ch \<Longrightarrow> lp_adds x \<le> 1 \<and> lp_closes x \<le> 1 \<and> lp_swaps x \<le> 1"
  by (auto simp: lp_safe_def lp_state_inv_def split: lp_state.splits if_splits)

lemma new_lp_order_eq: "new_lp_order env x = (env_order_id env (lx_orders x), x\<lparr>lx_orders := Suc (lx_orders x)\<rparr>)"
  by (simp add: new_lp_order_def)

lemma create_failed_settled:
  assumes "lp_safe x ch" and "\<not> is_removing (lx_phase x)"
  shows "lp_settled (handle_create_failure x) ch'"
  using assms(1) lp_safe_bounds [OF assms(1)] assms(2)
  by (auto simp: lp_settled_def lp_safe_def handle_create_failure_def lp_state_inv_def lp_phase_inv_def
      lp_adds_def lp_closes_def lp_swaps_def)

lemma close_failed_settled:
  assumes "lp_safe x ch" and "\<not> is_adding (lx_phase x)"
  shows "lp_settled (handle_close_failure x) ch'"
  using assms(1) lp_safe_bounds [OF assms(1)] assms(2)
  by (auto simp: lp_settled_def lp_safe_def handle_close_failure_def lp_state_inv_def lp_phase_inv_def
      lp_adds_def lp_closes_def lp_swaps_def)

text \<open>The part of a round before a call of the gateway is awaited: the phase is one of these.\<close>

abbreviation between_calls :: "lp_executor \<Rightarrow> bool" where
  "between_calls x \<equiv> \<not> is_adding (lx_phase x) \<and> \<not> is_reading (lx_phase x) \<and> \<not> is_removing (lx_phase x)
     \<and> lx_phase x \<noteq> CheckingClose"

lemma swap_failed_settled:
  assumes "lp_safe x ch" and "between_calls x"
  shows "lp_settled (handle_swap_failure x) ch'"
  using assms(1) lp_safe_bounds [OF assms(1)] assms(2)
  by (auto simp: lp_safe_defs handle_swap_failure_def)

lemma safe_settled:
  assumes "lp_safe x ch" and "between_calls x"
  shows "lp_settled x ch"
  using assms by (cases "ls_state (lx_position x)") (auto simp: lp_safe_defs)

lemma begin_create_inv:
  assumes "lp_safe x ch" and "between_calls x" and "ls_state (lx_position x) = NOT_ACTIVE"
  shows "lp_inv (begin_create env (set_lp_state OPENING x), ch)"
proof (cases "lpe_has_connector env")
  case True
  with assms show ?thesis
    by (auto simp: begin_create_def set_lp_state_def new_lp_order_eq Let_def lp_safe_def lp_inv_defs
        lp_adds_def lp_closes_def lp_swaps_def log_lp_def)
next
  case False
  have "lp_settled (handle_create_failure (set_lp_state OPENING x)) ch"
    using assms by (auto simp: lp_settled_def lp_safe_def handle_create_failure_def set_lp_state_def
        lp_state_inv_def lp_phase_inv_def lp_adds_def lp_closes_def lp_swaps_def)
  then show ?thesis using False by (simp add: begin_create_def lp_rest_inv)
qed

lemma begin_lp_close_inv:
  assumes "lp_safe x ch" and "between_calls x" and "ls_state (lx_position x) = CLOSING"
  shows "lp_inv (begin_lp_close env x, ch)"
proof (cases "lpe_has_connector env")
  case True
  with assms show ?thesis
    by (auto simp: begin_lp_close_def lp_safe_def lp_inv_defs lp_adds_def lp_closes_def lp_swaps_def)
next
  case False
  then show ?thesis
    using close_failed_settled [OF assms(1)] assms(2) by (auto simp: begin_lp_close_def intro!: lp_rest_inv)
qed

lemma execute_closeout_swap_settled:
  assumes "lp_safe x ch" and "between_calls x" and "ls_state (lx_position x) = SWAPPING"
  shows "lp_settled (execute_closeout_swap env x) ch"
proof -
  have "lp_settled (swap_not_found x) ch" if "ls_active_swap_order (lx_position x) \<noteq> None"
    using assms that by (auto simp: swap_not_found_def Let_def lp_safe_defs)
  moreover have "lp_settled (place_swap env x) ch" if "ls_active_swap_order (lx_position x) = None"
    using assms that swap_failed_settled [OF assms(1,2)]
    by (auto simp: place_swap_def Let_def lp_safe_defs set_lp_state_def log_lp_def lp_adds_def lp_closes_def
        lp_swaps_def split: option.split)
  ultimately show ?thesis
    using assms swap_failed_settled [OF assms(1,2)] safe_settled [OF assms(1,2)]
    by (auto simp: execute_closeout_swap_def check_swap_def lp_safe_defs split: option.split)
qed

lemma dispatch_state_inv:
  assumes "lp_safe x ch" and "between_calls x"
  shows "lp_inv (dispatch_state env x, ch)"
proof (cases "ls_state (lx_position x)")
  case NOT_ACTIVE
  then show ?thesis using begin_create_inv [OF assms] by (simp add: dispatch_state_def)
next
  case OPENING
  then show ?thesis using assms by (auto simp: lp_safe_def lp_state_inv_def split: if_splits)
next
  case CLOSING
  then show ?thesis using begin_lp_close_inv [OF assms] by (simp add: dispatch_state_def)
next
  case SWAPPING
  then show ?thesis
    using execute_closeout_swap_settled [OF assms] by (simp add: dispatch_state_def lp_rest_inv)
next
  case LP_FAILED
  have "lp_settled (x\<lparr>ex_close_type := Some FAILED_CLOSE\<rparr>) ch"
    using safe_settled [OF assms] by (simp add: lp_settled_def lp_safe_def)
  then show ?thesis using LP_FAILED by (auto simp: dispatch_state_def intro: lp_rest_stop_inv)
next
  case COMPLETE
  then show ?thesis
    using safe_settled [OF assms] by (auto simp: dispatch_state_def intro: lp_rest_stop_inv)
next
  case IN_RANGE
  then show ?thesis using safe_settled [OF assms] by (simp add: dispatch_state_def lp_rest_inv)
next
  case OUT_OF_RANGE
  have "lp_settled (set_lp_state CLOSING (x\<lparr>ex_close_type := ct\<rparr>)) ch" for ct
    using safe_settled [OF assms] OUT_OF_RANGE
    by (auto simp: lp_safe_defs set_lp_state_def)
  then show ?thesis
    using OUT_OF_RANGE safe_settled [OF assms] by (auto simp: dispatch_state_def intro!: lp_rest_inv)
qed

lemma update_state_safe:
  assumes "lp_safe x ch" and "between_calls x"
  shows "lp_safe (upd_position (update_state price now) x) ch"
  using assms by (cases "ls_state (lx_position x)") (auto simp: lp_safe_defs update_state_def range_timer_def)

lemma continue_round_inv: "lp_safe x ch \<Longrightarrow> between_calls x \<Longrightarrow> lp_inv (continue_round env x, ch)"
  unfolding continue_round_def by (rule dispatch_state_inv) (auto intro: update_state_safe)

section \<open>The replies\<close>

lemma lp_safe_phase: "lp_safe x ch \<Longrightarrow> ph \<in> {Resting, FetchingPosition, FetchingPool} \<Longrightarrow> between_calls x \<Longrightarrow> lp_safe (x\<lparr>lx_phase := ph\<rparr>) ch"
  by (cases "ls_state (lx_position x)") (auto simp: lp_safe_defs)

lemma lp_safe_price: "lp_safe (x\<lparr>lx_current_price := v\<rparr>) ch = lp_safe x ch"
  by (simp add: lp_safe_def)

lemma emit_already_closed_fields:
  "lx_position (emit_already_closed_event env x) = lx_position x" "lx_phase (emit_already_closed_event env x) = lx_phase x"
  "ex_status (emit_already_closed_event env x) = ex_status x"
  "ex_terminated (emit_already_closed_event env x) = ex_terminated x"
  "lp_adds (emit_already_closed_event env x) = lp_adds x" "lp_closes (emit_already_closed_event env x) = lp_closes x"
  "lp_swaps (emit_already_closed_event env x) = lp_swaps x"
  by (auto simp: emit_already_closed_event_def new_lp_order_eq Let_def)

lemma confirm_closed_settled:
  assumes "lp_safe x None" and "\<not> is_removing (lx_phase x)" and "\<not> is_adding (lx_phase x)"
  shows "lp_settled (confirm_closed env x) None"
  using assms lp_safe_bounds [OF assms(1)]
  by (auto simp: confirm_closed_def set_lp_state_def emit_already_closed_fields lp_safe_defs)

lemma begin_round_inv:
  assumes "lp_inv (x, ch)" and "lx_phase x = Resting" and "\<not> ex_terminated x"
  shows "lp_inv (begin_round env x, ch)"
  using lp_inv_safe [OF assms(1,3)] assms(2) continue_round_inv [of x ch env] lp_safe_phase [of x ch]
  by (auto simp: begin_round_def intro!: lp_safe_inv)

lemma waiting_safe: "lp_inv (x, ch) \<Longrightarrow> lx_phase x \<noteq> Resting \<Longrightarrow> lp_safe x ch"
  by (rule lp_inv_safe) (auto simp: lp_inv_def lp_end_inv_def Let_def)

lemma refresh_position_safe:
  assumes "lp_safe x ch" and "between_calls x" and "\<And>msg. r = Raised msg \<Longrightarrow> error_says ''position closed'' msg \<Longrightarrow> ch = None"
  shows "lp_safe (refresh_position env r x) ch \<and> between_calls (refresh_position env r x)"
proof (cases r)
  case (Reply i)
  then show ?thesis using assms(1,2)
    by (cases "ls_state (lx_position x)")
      (auto simp: refresh_position_def set_position_amounts_def lp_safe_defs split: option.split)
next
  case (Raised msg)
  show ?thesis
  proof (cases "error_says ''position closed'' msg")
    case True
    then have "ch = None" using assms(3) Raised by blast
    with True Raised assms(1,2) lp_safe_bounds [OF assms(1)] show ?thesis
      by (auto simp: refresh_position_def confirm_closed_def set_lp_state_def emit_already_closed_fields lp_safe_defs)
  qed (use Raised assms(1,2) in \<open>simp add: refresh_position_def\<close>)
qed

lemma on_position_reply_inv:
  assumes "lp_inv (x, ch)" and "lx_phase x = FetchingPosition"
    and "\<And>msg. r = Raised msg \<Longrightarrow> error_says ''position closed'' msg \<Longrightarrow> ch = None"
  shows "lp_inv (on_position_reply env r x, ch)"
  using refresh_position_safe [OF waiting_safe [OF assms(1)], of r env] assms(2,3)
  by (auto simp: on_position_reply_def intro!: continue_round_inv)

lemma on_pool_reply_inv:
  assumes "lp_inv (x, ch)" and "lx_phase x = FetchingPool"
  shows "lp_inv (on_pool_reply env q x, ch)"
proof -
  have "lp_safe x ch" using waiting_safe assms by simp
  then show ?thesis unfolding on_pool_reply_def
    by (intro continue_round_inv) (use assms(2) in \<open>auto simp: lp_safe_price split: reply.split option.split\<close>)
qed

lemma on_add_reply_failed_inv:
  assumes "lp_inv (x, ch)" and "lx_phase x = Adding oid" and "\<And>a. s = Reply a \<Longrightarrow> ar_position_address a = []"
  shows "lp_inv (on_add_reply env s x, ch')"
  using create_failed_settled [OF waiting_safe [OF assms(1)]] assms(2,3)
  by (cases s) (auto simp: on_add_reply_def intro!: lp_rest_inv)

lemma on_add_reply_inv:
  assumes "lp_inv (x, ch)" and "lx_phase x = Adding oid" and "ar_position_address a \<noteq> []"
  shows "lp_inv (on_add_reply env (Reply a) x, Some (ar_position_address a))"
proof -
  have safe: "lp_safe x ch" using waiting_safe assms by simp
  then have "ls_state (lx_position x) \<in> {OPENING, LP_FAILED}" using assms(2) by (simp add: lp_safe_defs)
  then show ?thesis
    using safe assms(2,3) by (auto simp: on_add_reply_def lp_safe_defs neq_Nil_conv intro!: lp_safe_inv)
qed

lemma update_state_opened:
  assumes "truthy_str (ls_position_address p)" and "ls_active_close_order p = None" and "ls_state p \<in> {OPENING, LP_FAILED}"
  shows "ls_state (update_state (Some price) now p) \<in> (if ls_state p = LP_FAILED then {LP_FAILED} else {IN_RANGE, OUT_OF_RANGE})
    \<and> ls_position_address (update_state (Some price) now p) = ls_position_address p
    \<and> ls_active_close_order (update_state (Some price) now p) = None
    \<and> ls_active_open_order (update_state (Some price) now p) = ls_active_open_order p
    \<and> ls_active_swap_order (update_state (Some price) now p) = ls_active_swap_order p"
  using assms by (cases "ls_position_address p") (auto simp: update_state_def range_timer_def)

lemma opened_settled:
  assumes z: "lp_safe z ch" "is_reading (lx_phase z)"
  shows "lp_settled (upd_position (update_state (Some price) now) z) ch"
proof -
  let ?q = "update_state (Some price) now (lx_position z)"
  have p: "ls_state (lx_position z) \<in> {OPENING, LP_FAILED}" "truthy_str (ls_position_address (lx_position z))"
      "ls_active_close_order (lx_position z) = None" "ls_active_open_order (lx_position z) = None"
    using z by (cases "lx_phase z"; auto simp: lp_safe_def lp_phase_inv_def)+
  have q: "ls_state ?q \<in> (if ls_state (lx_position z) = LP_FAILED then {LP_FAILED} else {IN_RANGE, OUT_OF_RANGE})"
      "ls_position_address ?q = ls_position_address (lx_position z)" "ls_active_close_order ?q = None"
      "ls_active_open_order ?q = None" "ls_active_swap_order ?q = ls_active_swap_order (lx_position z)"
    using update_state_opened [OF p(2,3,1)] p(4) by metis+
  show ?thesis
  proof (cases "ls_state (lx_position z) = LP_FAILED")
    case True
    with z q show ?thesis by (auto simp: lp_safe_defs)
  next
    case False
    with p(1) have "ls_state (lx_position z) = OPENING" by simp
    with z(1) have "lp_adds z = 1 \<and> lp_closes z = 0 \<and> lp_swaps z = 0 \<and> ls_active_swap_order (lx_position z) = None
        \<and> ex_status z \<noteq> TERMINATED \<and> \<not> ex_terminated z"
      by (simp add: lp_safe_def lp_state_inv_simps)
    with q p(2) False show ?thesis
      by (cases "ls_state ?q") (auto simp: lp_safe_defs)
  qed
qed

lemma finish_create_settled:
  assumes "lp_safe x ch" and "is_reading (lx_phase x)"
  shows "lp_settled (finish_create env price x) ch"
proof -
  have failed: "lp_settled (handle_create_failure y) ch" if "lp_safe y ch" "lx_phase y = lx_phase x" for y
    using create_failed_settled [OF that(1)] that(2) assms(2) by (cases "lx_phase x") auto
  define y where "y = log_lp (RecordAdded (ls_position_address (lx_position x)) (ls_base_amount (lx_position x))
        (ls_quote_amount (lx_position x))) x"
  have y: "lp_safe y ch" "lx_phase y = lx_phase x" using assms(1) by (simp_all add: y_def lp_safe_def)
  have opened: "lp_settled (upd_position (update_state (Some price) now) z) ch"
    if "lp_safe z ch" "lx_phase z = lx_phase x" for z now
    using opened_settled [OF that(1)] that(2) assms(2) by simp
  have "lp_safe (fst (store_lp_event_from_add env y)) ch \<and> lx_phase (fst (store_lp_event_from_add env y)) = lx_phase x"
    using y by (cases "native_to_quote_rate env y") (auto simp: store_lp_event_from_add_def Let_def lp_safe_def)
  then show ?thesis
    using failed opened y assms(1)
    by (auto simp: finish_create_def Let_def y_def [symmetric] split: prod.split option.split)
qed

lemma on_added_info_inv:
  assumes "lp_inv (x, ch)" and "lx_phase x = ReadingAdded sig addr"
  shows "lp_inv (on_added_info env r x, ch)"
proof -
  have safe: "lp_safe x ch" using waiting_safe assms by simp
  have initial: "lp_safe ((upd_position (\<lambda>p. record_initial_amounts m (f p)) x)\<lparr>lx_current_price := v\<rparr>) ch"
    if "f \<in> {set_position_amounts i, amounts_of_config cfg}" for m f v i cfg
    using safe that assms(2) by (cases "ls_state (lx_position x)")
      (auto simp: lp_safe_defs record_initial_amounts_def set_position_amounts_def amounts_of_config_def)
  have created: "lp_settled (finish_create env m ((upd_position (\<lambda>p. record_initial_amounts m (f p)) x)\<lparr>lx_current_price := v\<rparr>)) ch"
    if "f \<in> {set_position_amounts i, amounts_of_config cfg}" for m f v i cfg
    by (rule finish_create_settled [OF initial [OF that]]) (simp add: assms(2))
  have failed: "lp_settled (handle_create_failure x) ch"
    using create_failed_settled [OF safe] assms(2) by simp
  show ?thesis
  proof (cases r)
    case (Raised msg)
    then show ?thesis using lp_rest_inv [OF failed] by (simp add: on_added_info_def)
  next
    case (Reply i)
    show ?thesis
    proof (cases i)
      case None
      then show ?thesis using Reply lp_rest_inv [OF created [where f = "amounts_of_config (lx_config x)" and cfg = "lx_config x"]]
        by (simp add: on_added_info_def Let_def)
    next
      case (Some j)
      then show ?thesis using Reply lp_rest_inv [OF created [where f = "set_position_amounts j" and i = j]]
        by (simp add: on_added_info_def)
    qed
  qed
qed

lemma on_check_reply_inv:
  assumes "lp_inv (x, ch)" and "lx_phase x = CheckingClose" and "says_gone r \<Longrightarrow> ch = None"
  shows "lp_inv (on_check_reply env r x, ch)"
proof (cases "says_gone r")
  case True
  then show ?thesis
    using waiting_safe [OF assms(1)] assms(2,3) confirm_closed_settled [of x env]
    by (auto simp: on_check_reply_def intro!: lp_rest_inv)
next
  case False
  have "lp_safe x ch" "ls_state (lx_position x) = CLOSING"
    using waiting_safe [OF assms(1)] assms(2) by (auto simp: lp_safe_def lp_phase_inv_def)
  with False assms(2) show ?thesis
    by (auto simp: on_check_reply_def new_lp_order_eq Let_def lp_safe_defs intro!: lp_safe_inv)
qed

lemma after_close_settled:
  assumes "lp_safe x ch" and "is_removing (lx_phase x)"
  shows "lp_settled (after_close x) None"
proof -
  have "ls_state (lx_position x) = CLOSING" using assms by (auto simp: lp_safe_def lp_phase_inv_def)
  with assms show ?thesis
    by (cases "lx_phase x") (auto simp: after_close_def Let_def set_lp_state_def lp_safe_defs)
qed

lemma finish_close_settled:
  assumes "lp_safe x ch" and "is_removing (lx_phase x)"
  shows "lp_settled (finish_close env c x) None"
proof -
  have adding: "\<not> is_adding (lx_phase x)" using assms(2) by (cases "lx_phase x") auto
  let ?x1 = "upd_position (close_amounts c) x"
  define y where "y = log_lp (RecordRemoved (ls_position_address (lx_position ?x1)) (ls_base_amount (lx_position ?x1))
      (ls_quote_amount (lx_position ?x1)) (ls_base_fee (lx_position ?x1)) (ls_quote_fee (lx_position ?x1))) ?x1"
  have y: "lp_safe y ch" "lx_phase y = lx_phase x"
    using assms(1) by (cases "ls_state (lx_position x)"; auto simp: y_def close_amounts_def lp_safe_defs)+
  define s where "s = store_lp_event_from_remove env (cr_signature c) (price_or_0 y) (cr_tx_fee c) y"
  have "lp_safe (fst s) ch \<and> lx_phase (fst s) = lx_phase x"
    using y by (cases "native_to_quote_rate env y")
      (auto simp: s_def store_lp_event_from_remove_def Let_def lp_safe_def split: option.split prod.split)
  then have s: "lp_safe (fst s) ch" "lx_phase (fst s) = lx_phase x" by auto
  note ready = after_close_settled [OF y(1)] after_close_settled [OF s(1)]
    close_failed_settled [OF y(1)] close_failed_settled [OF s(1)]
  show ?thesis
    unfolding finish_close_def Let_def y_def [symmetric] s_def [symmetric]
    using ready assms(2) adding y(2) s(2) by (auto split: prod.split option.split)
qed

lemma lp_early_stop_inv: "lp_inv (x, ch) \<Longrightarrow> lp_inv (lp_early_stop keep x, ch)"
  by (cases "ls_state (lx_position x)"; cases "lx_phase x")
    (auto simp: lp_early_stop_def Let_def set_lp_state_def lp_inv_def lp_state_inv_simps lp_phase_inv_def lp_end_inv_def)

section \<open>Reachable states\<close>

lemma lp_start_inv: "lp_inv (x, ch) \<Longrightarrow> lp_inv (lp_on_start provider (executor_start x), ch)"
  by (auto simp: lp_on_start_def executor_start_def Let_def lp_inv_def lp_end_inv_def lp_adds_def lp_closes_def
      lp_swaps_def)

lemma on_check_reply_missed_inv:
  assumes "lp_inv (x, ch)" and "lx_phase x = CheckingClose" and "says_gone r"
  shows "lp_inv (on_check_reply env r x, None)"
proof -
  have "lp_safe x None" using waiting_safe [OF assms(1)] assms(2) by (auto simp: lp_safe_def lp_phase_inv_def lp_state_inv_simps)
  then show ?thesis
    using assms(2,3) confirm_closed_settled [of x env] by (auto simp: on_check_reply_def intro!: lp_rest_inv)
qed

lemma lp_step_inv: "lp_step s t \<Longrightarrow> lp_inv (fst s, fst (snd s)) \<Longrightarrow> lp_inv (fst t, fst (snd t))"
proof (induction rule: lp_step.induct)
  case (removed x oid ch gone env c)
  then show ?case
    using finish_close_settled [OF waiting_safe] by (auto simp: on_remove_reply_def intro!: lp_rest_inv)
next
  case (remove_failed x oid ch' ch gone env msg)
  then show ?case
    using close_failed_settled [OF waiting_safe] by (auto simp: on_remove_reply_def intro!: lp_rest_inv)
qed (unfold fst_conv snd_conv, (blast intro: lp_start_inv begin_round_inv on_position_reply_inv on_pool_reply_inv on_add_reply_inv
      on_add_reply_failed_inv on_added_info_inv on_check_reply_inv on_check_reply_missed_inv lp_early_stop_inv)+)

lemma lp_reachable_world_inv: "lp_reachable cfg retries s \<Longrightarrow> lp_inv (fst s, fst (snd s))"
proof (induction rule: lp_reachable.induct)
  case new
  show ?case
    by (simp add: new_lp_executor_def new_lp_position_def lp_inv_def lp_state_inv_simps lp_phase_inv_def
        lp_end_inv_def lp_adds_def lp_closes_def lp_swaps_def)
qed (blast intro: lp_step_inv)

lemma lp_reachable_inv: "lp_reachable cfg retries (x, ch, gone) \<Longrightarrow> lp_inv (x, ch)"
  using lp_reachable_world_inv by fastforce

text \<open>A complete position stays complete, and nothing is closed any more.\<close>

lemma rounds_stay_complete:
  assumes "ls_state (lx_position x) = COMPLETE"
  shows "ls_state (lx_position (continue_round env x)) = COMPLETE \<and> lp_closes (continue_round env x) = lp_closes x"
    and "ls_state (lx_position (begin_round env x)) = COMPLETE \<and> lp_closes (begin_round env x) = lp_closes x"
proof -
  show 1: "ls_state (lx_position (continue_round env x)) = COMPLETE \<and> lp_closes (continue_round env x) = lp_closes x"
    using assms by (simp add: continue_round_def dispatch_state_def update_state_def lp_rest_def lp_stop_def executor_stop_def
        evaluate_max_retries_def Let_def lp_closes_def)
  show "ls_state (lx_position (begin_round env x)) = COMPLETE \<and> lp_closes (begin_round env x) = lp_closes x"
    using 1 assms by (simp add: begin_round_def)
qed

lemma complete_round_stops:
  assumes "ls_state (lx_position x) = COMPLETE"
  shows "lx_phase (continue_round env x) = Resting"
    and "ex_current_retries x \<le> ex_max_retries x \<Longrightarrow>
      ex_status (continue_round env x) = TERMINATED \<and> ex_close_type (continue_round env x) = ex_close_type x"
  using assms by (simp_all add: continue_round_def dispatch_state_def update_state_def lp_rest_def lp_stop_def executor_stop_def
      evaluate_max_retries_def Let_def)

lemma refresh_stays_complete:
  "ls_state (lx_position x) = COMPLETE \<Longrightarrow>
   ls_state (lx_position (refresh_position env r x)) = COMPLETE \<and> lp_closes (refresh_position env r x) = lp_closes x"
  by (cases r) (auto simp: refresh_position_def set_position_amounts_def confirm_closed_def set_lp_state_def
      emit_already_closed_fields split: option.split)

lemma complete_stays:
  assumes "lp_step s t" and "lp_inv (fst s, fst (snd s))" and "ls_state (lx_position (fst s)) = COMPLETE"
  shows "ls_state (lx_position (fst t)) = COMPLETE \<and> lp_closes (fst t) = lp_closes (fst s) \<and> snd (snd t) = snd (snd s)"
  using assms
proof (induction rule: lp_step.induct)
  case (start x ch gone provider)
  then show ?case by (simp add: lp_on_start_def executor_start_def Let_def lp_closes_def)
next
  case (begin_round x ch gone env)
  then show ?case using rounds_stay_complete(2) by simp
next
  case (position x r ch gone env)
  then show ?case
    using refresh_stays_complete [of x env r] rounds_stay_complete(1) [of "refresh_position env r x" env]
    by (simp add: on_position_reply_def)
next
  case (pool x ch gone env q)
  then show ?case
    using rounds_stay_complete(1) by (auto simp: on_pool_reply_def split: reply.split option.split)
next
  case (early_stop x ch gone keep)
  then show ?case by (simp add: lp_early_stop_def Let_def)
qed (auto simp: lp_inv_def lp_phase_inv_def Let_def)

lemma missed_close_completes:
  assumes "says_gone r"
  shows "ls_state (lx_position (on_check_reply env r x)) = COMPLETE \<and> lp_closes (on_check_reply env r x) = lp_closes x"
  using assms by (simp add: on_check_reply_def lp_rest_def evaluate_max_retries_def executor_stop_def confirm_closed_def
      set_lp_state_def emit_already_closed_fields lp_closes_def Let_def)
    (simp add: emit_already_closed_event_def new_lp_order_eq log_lp_def Let_def)

lemma gone_step:
  assumes "lp_step s t" and "lp_inv (fst s, fst (snd s))"
    and "snd (snd s) = [] \<or> (ls_state (lx_position (fst s)) = COMPLETE \<and> lp_closes (fst s) = 0 \<and> length (snd (snd s)) = 1)"
  shows "snd (snd t) = [] \<or> (ls_state (lx_position (fst t)) = COMPLETE \<and> lp_closes (fst t) = 0 \<and> length (snd (snd t)) = 1)"
proof (cases "ls_state (lx_position (fst s)) = COMPLETE")
  case True
  then show ?thesis using complete_stays [OF assms(1,2)] assms(3) by metis
next
  case False
  then have "snd (snd s) = []" using assms(3) by simp
  with assms(1,2) show ?thesis
  proof (induction rule: lp_step.induct)
    case (check_missed x r a gone env)
    then show ?case
      using missed_close_completes [of r env x] by (auto simp: lp_inv_def lp_phase_inv_def lp_state_inv_simps Let_def)
  qed simp_all
qed

lemma lp_reachable_gone:
  "lp_reachable cfg retries s \<Longrightarrow>
   snd (snd s) = [] \<or> (ls_state (lx_position (fst s)) = COMPLETE \<and> lp_closes (fst s) = 0 \<and> length (snd (snd s)) = 1)"
proof (induction rule: lp_reachable.induct)
  case (step s t)
  then show ?case using gone_step lp_reachable_world_inv by blast
qed simp

text \<open>
  In whatever order replies, failures and early stops come, an executor asks the gateway to add
  liquidity at most once, to close its position at most once, and places at most one close-out
  swap: a failed call is never repeated by the executor.
\<close>

theorem lp_calls_at_most_once:
  assumes "lp_reachable cfg retries (x, ch, gone)"
  shows "lp_adds x \<le> 1 \<and> lp_closes x \<le> 1 \<and> lp_swaps x \<le> 1"
  using lp_reachable_inv [OF assms]
  by (cases "ls_state (lx_position x)") (auto simp: lp_inv_def lp_state_inv_simps Let_def split: if_splits)

text \<open>
  C19: An executor that has ended with any other close type than FAILED has left no position open on
  the chain, whether it never opened one, closed it, or was told that it is closed; the only exception
  is a position that was open when the check before closing was answered None or ``not found'': then
  the executor has left exactly this one and has never asked the gateway to close it.
\<close>

theorem ended_executor_leaves_no_position:
  assumes "lp_reachable cfg retries (x, ch, gone)" and "ex_status x = TERMINATED" and "ex_close_type x \<noteq> Some FAILED_CLOSE"
  shows "ch = None \<and> (gone = [] \<or> (\<exists>a. gone = [a]) \<and> lp_closes x = 0)"
  using lp_reachable_inv [OF assms(1)] lp_reachable_gone [OF assms(1)] assms(2,3)
  by (auto simp: lp_inv_def lp_end_inv_def lp_state_inv_simps Let_def length_Suc_conv)

text \<open>
  A request for the position that fails just before closing abandons it: the connector answers None,
  the executor takes the position for closed, ends without asking to close it, and reports neither
  a failure nor an open position.
\<close>

theorem failed_lookup_abandons_position:
  assumes "lp_reachable cfg retries (x, Some a, [])" and "lx_phase x = CheckingClose"
    and "ex_current_retries x \<le> ex_max_retries x"
    and y: "y = on_check_reply env (Reply None) x"
    and "lx_phase (begin_round env1 y) = FetchingPosition"
    and z: "z = on_position_reply env2 (Reply None) (begin_round env1 y)"
  shows "lp_reachable cfg retries (z, None, [a]) \<and> ex_status z = TERMINATED
    \<and> ex_close_type z = ex_close_type x \<and> lp_closes z = 0 \<and> ls_state (lx_position z) = COMPLETE"
proof -
  have safe: "lp_safe x (Some a)" using waiting_safe [OF lp_reachable_inv [OF assms(1)]] assms(2) by simp
  have ry: "lp_reachable cfg retries (y, None, [a])" unfolding y
    by (rule lp_reachable.step [OF assms(1) lp_step.check_missed [OF assms(2)]]) (simp_all add: says_gone_def)
  have y': "lx_phase y = Resting" "\<not> ex_terminated y" "ls_state (lx_position y) = COMPLETE" "ex_close_type y = ex_close_type x"
      "ex_current_retries y \<le> ex_max_retries y" "ex_status y \<noteq> TERMINATED"
    using safe assms(3)
    by (auto simp: y on_check_reply_def says_gone_def lp_rest_def evaluate_max_retries_def confirm_closed_def set_lp_state_def
        emit_already_closed_event_def new_lp_order_eq log_lp_def Let_def lp_safe_def)
  have rb: "lp_reachable cfg retries (begin_round env1 y, None, [a])"
    by (rule lp_reachable.step [OF ry lp_step.begin_round [OF y'(1,2)]])
  have rz: "lp_reachable cfg retries (z, None, [a])" unfolding z
    by (rule lp_reachable.step [OF rb lp_step.position [OF assms(5)]]) simp
  have b: "begin_round env1 y = y\<lparr>lx_phase := FetchingPosition\<rparr>"
  proof -
    have "(if \<not> c then u else if d then v else w) = u \<or> (if \<not> c then u else if d then v else w) = v
        \<or> (if \<not> c then u else if d then v else w) = w" for c d and u v w :: lp_executor
      by (cases c; cases d; simp)
    then have "begin_round env1 y = continue_round env1 y \<or> begin_round env1 y = y\<lparr>lx_phase := FetchingPosition\<rparr>
        \<or> begin_round env1 y = y\<lparr>lx_phase := FetchingPool\<rparr>"
      unfolding begin_round_def .
    moreover have "lx_phase (y\<lparr>lx_phase := FetchingPool\<rparr>) \<noteq> FetchingPosition" by simp
    ultimately show ?thesis using assms(5) complete_round_stops(1) [OF y'(3), of env1] by (metis lp_phase.distinct(1))
  qed
  have "z = continue_round env2 (y\<lparr>lx_phase := FetchingPosition\<rparr>)"
    unfolding z b on_position_reply_def refresh_position_def by simp
  moreover have "ls_state (lx_position (y\<lparr>lx_phase := FetchingPosition\<rparr>)) = COMPLETE" using y'(3) by simp
  ultimately have "ex_status z = TERMINATED \<and> ex_close_type z = ex_close_type x"
    using complete_round_stops(2) [of "y\<lparr>lx_phase := FetchingPosition\<rparr>" env2] y'(4,5) by simp
  then show ?thesis using rz lp_reachable_gone [OF rz] by simp
qed

section \<open>A position left behind\<close>

lemma failed_round_stops:
  assumes "lx_phase x = FetchingPosition" and "ls_state (lx_position x) = LP_FAILED"
    and "ex_status x \<noteq> TERMINATED" and "\<not> (\<exists>msg. r = Raised msg \<and> error_says ''position closed'' msg)"
  shows "ex_status (on_position_reply env r x) = TERMINATED
    \<and> ex_close_type (on_position_reply env r x) = Some FAILED_CLOSE
    \<and> lp_closes (on_position_reply env r x) = lp_closes x"
proof -
  have "ls_state (lx_position (refresh_position env r x)) = LP_FAILED \<and> ex_status (refresh_position env r x) = ex_status x
      \<and> lp_closes (refresh_position env r x) = lp_closes x"
    using assms(2,4) by (auto simp: refresh_position_def set_position_amounts_def split: reply.split option.split)
  then show ?thesis
    by (auto simp: on_position_reply_def continue_round_def dispatch_state_def update_state_def lp_rest_def lp_stop_def
        executor_stop_def evaluate_max_retries_def Let_def lp_closes_def)
qed

text \<open>What a failed state keeps while the new position is read and recorded.\<close>

definition failed_like :: "lp_executor \<Rightarrow> lp_executor \<Rightarrow> bool" where
  "failed_like x y =
     (ls_state (lx_position y) = LP_FAILED \<and> ls_position_address (lx_position y) = ls_position_address (lx_position x)
      \<and> lp_closes y = lp_closes x \<and> ex_terminated y = ex_terminated x \<and> ex_status y = ex_status x
      \<and> ex_current_retries y = ex_current_retries x \<and> ex_max_retries y = ex_max_retries x)"

lemma failed_like_trans: "failed_like x y \<Longrightarrow> failed_like y z \<Longrightarrow> failed_like x z"
  by (simp add: failed_like_def)

lemma failed_like_failure: "failed_like x (handle_create_failure x)"
  by (simp add: failed_like_def handle_create_failure_def)

lemma finish_create_failed_like:
  assumes "ls_state (lx_position x) = LP_FAILED"
  shows "failed_like x (finish_create env price x)"
proof -
  define y where "y = log_lp (RecordAdded (ls_position_address (lx_position x)) (ls_base_amount (lx_position x))
        (ls_quote_amount (lx_position x))) x"
  have y: "failed_like x y" using assms by (simp add: failed_like_def y_def log_lp_def lp_closes_def)
  have stored: "failed_like y (fst (store_lp_event_from_add env y))"
    using y by (cases "native_to_quote_rate env y") (simp_all add: store_lp_event_from_add_def Let_def failed_like_def)
  have kept: "failed_like z (upd_position (update_state p now) z)" if "failed_like x z" for z p now
    using that by (simp add: failed_like_def update_state_def)
  show ?thesis
    unfolding finish_create_def Let_def y_def [symmetric]
    using failed_like_failure [of x] failed_like_trans [OF y failed_like_failure] kept [OF y]
      failed_like_trans [OF y stored] failed_like_trans [OF failed_like_trans [OF y stored] failed_like_failure]
      kept [OF failed_like_trans [OF y stored]]
    by (auto split: prod.split option.split intro: failed_like_trans [OF y] failed_like_trans [OF failed_like_trans [OF y stored]])
qed

lemma on_added_info_failed_like:
  assumes "ls_state (lx_position x) = LP_FAILED" and "ex_current_retries x \<le> ex_max_retries x"
  shows "failed_like x (on_added_info env r x) \<and> lx_phase (on_added_info env r x) = Resting"
proof -
  have rest: "failed_like x (lp_rest env z) \<and> lx_phase (lp_rest env z) = Resting" if "failed_like x z" for z
    using that assms(2) by (simp add: failed_like_def lp_rest_def evaluate_max_retries_def)
  have info: "failed_like x (upd_position (\<lambda>p. record_initial_amounts m (f p)) x\<lparr>lx_current_price := v\<rparr>)"
    if "f = set_position_amounts i \<or> f = amounts_of_config cfg" for m f v i cfg
    using that assms(1)
    by (auto simp: failed_like_def record_initial_amounts_def set_position_amounts_def amounts_of_config_def)
  have created: "failed_like x (finish_create env m (upd_position (\<lambda>p. record_initial_amounts m (f p)) x\<lparr>lx_current_price := v\<rparr>))"
    if "f = set_position_amounts i \<or> f = amounts_of_config cfg" for m f v i cfg
    by (rule failed_like_trans [OF info [OF that] finish_create_failed_like])
      (use info [OF that] in \<open>simp add: failed_like_def\<close>)
  show ?thesis
  proof (cases r)
    case (Raised msg)
    then show ?thesis using rest [OF failed_like_failure] by (simp add: on_added_info_def)
  next
    case (Reply i)
    show ?thesis
    proof (cases i)
      case None
      then show ?thesis
        using Reply rest [OF created [where f = "amounts_of_config (lx_config x)" and cfg = "lx_config x"]]
        by (simp add: on_added_info_def Let_def)
    next
      case (Some j)
      then show ?thesis
        using Reply rest [OF created [where f = "set_position_amounts j" and i = j]] by (simp add: on_added_info_def)
    qed
  qed
qed

text \<open>
  When a stop arrives while the gateway is still adding the liquidity and the addition then
  succeeds, the executor ends as FAILED without ever asking to close the position, which stays
  open: the state FAILED set by \<open>early_stop\<close> survives the success, whatever the gateway reports of
  the new position.
\<close>

theorem stop_while_opening_leaves_position:
  assumes "lp_reachable cfg retries (x, ch, gone)" and "lx_phase x = Adding oid" and "ls_state (lx_position x) = OPENING"
    and "ar_position_address a \<noteq> []" and "ex_current_retries x \<le> ex_max_retries x"
    and "lpe_has_connector env'" and "\<not> (\<exists>msg. q = Raised msg \<and> error_says ''position closed'' msg)"
    and "y = on_added_info env1 r (on_add_reply env0 (Reply a) (lp_early_stop keep x))"
    and "z = on_position_reply env q (begin_round env' y)"
  shows "lp_reachable cfg retries (z, Some (ar_position_address a), gone) \<and> ex_status z = TERMINATED
    \<and> ex_close_type z = Some FAILED_CLOSE \<and> lp_closes z = 0"
proof -
  let ?s = "lp_early_stop keep x" and ?ch = "Some (ar_position_address a)"
  let ?o = "on_add_reply env0 (Reply a) ?s"
  have inv: "lp_inv (x, ch)" by (rule lp_reachable_inv [OF assms(1)])
  have safe: "lp_safe x ch" using waiting_safe inv assms(2) by simp
  have s: "lx_phase ?s = Adding oid" "ls_state (lx_position ?s) = LP_FAILED" "\<not> ex_terminated ?s"
      "ex_status ?s \<noteq> TERMINATED" "lp_closes ?s = lp_closes x" "ex_current_retries ?s = ex_current_retries x"
      "ex_max_retries ?s = ex_max_retries x"
    using assms(2,3) safe by (simp_all add: lp_early_stop_def Let_def set_lp_state_def lp_safe_def)
  have rs: "lp_reachable cfg retries (?s, ch, gone)" by (rule lp_reachable.step [OF assms(1) lp_step.early_stop])
  have ro: "lp_reachable cfg retries (?o, ?ch, gone)"
    by (rule lp_reachable.step [OF rs lp_step.added [OF s(1) assms(4)]])
  have o: "lx_phase ?o = ReadingAdded (ar_signature a) (ar_position_address a)" "ls_state (lx_position ?o) = LP_FAILED"
      "ls_position_address (lx_position ?o) = ?ch" "lp_closes ?o = lp_closes x" "\<not> ex_terminated ?o" "ex_status ?o \<noteq> TERMINATED"
      "ex_current_retries ?o = ex_current_retries x" "ex_max_retries ?o = ex_max_retries x"
    using s assms(4) by (simp_all add: on_add_reply_def)
  have ry: "lp_reachable cfg retries (y, ?ch, gone)" unfolding assms(8)
    by (rule lp_reachable.step [OF ro lp_step.added_info [OF o(1)]])
  have y: "lx_phase y = Resting" "ls_state (lx_position y) = LP_FAILED" "ls_position_address (lx_position y) = ?ch"
      "lp_closes y = lp_closes x" "\<not> ex_terminated y" "ex_status y \<noteq> TERMINATED"
    using on_added_info_failed_like [OF o(2), of env1 r] o assms(5) by (simp_all add: assms(8) failed_like_def)
  have b: "begin_round env' y = y\<lparr>lx_phase := FetchingPosition\<rparr>"
    using assms(4,6) y(3) by (cases "ar_position_address a") (simp_all add: begin_round_def)
  have rb: "lp_reachable cfg retries (begin_round env' y, ?ch, gone)"
    by (rule lp_reachable.step [OF ry lp_step.begin_round [OF y(1,5)]])
  have "lp_reachable cfg retries (z, ?ch, gone)" unfolding assms(9)
    by (rule lp_reachable.step [OF rb lp_step.position]) (use assms(7) b in auto)
  moreover have "ex_status z = TERMINATED \<and> ex_close_type z = Some FAILED_CLOSE \<and> lp_closes z = lp_closes x"
    using failed_round_stops [of "begin_round env' y" q env] y assms(7) unfolding assms(9) b by simp
  moreover have "lp_closes x = 0"
    using safe assms(2,3) by (simp add: lp_safe_def lp_state_inv_simps)
  ultimately show ?thesis by simp
qed

section \<open>Witnesses\<close>

text \<open>A deposit of 4 USDC below the price of 100, taken back as SOL when the price has fallen to 94.\<close>

definition demo_lp_config :: lp_config where
  "demo_lp_config =
     \<lparr>lc_id = ''lp1'', lc_controller_id = ''phoenix'', lc_timestamp = 1, lc_connector_name = ''solana-mainnet-beta'',
      lc_swap_provider = Some ''jupiter/router'', lc_pool_address = ''pool'', lc_trading_pair = ''SOL-USDC'',
      lc_lower_price = 95, lc_upper_price = 99, lc_base_amount = 0, lc_quote_amount = 4, lc_side = BUY,
      lc_upper_limit_price = Some 100, lc_lower_limit_price = Some 88, lc_keep_position = False\<rparr>"

definition demo_lp_env :: lp_env where
  "demo_lp_env = exec_env.extend (demo_env demo_entry 100)
     \<lparr>lpe_has_connector = True, lpe_native_currency = ''SOL'', lpe_swap_state = (\<lambda>_. Some FILLED),
      lpe_swap_id = Some ''swap''\<rparr>"

definition demo_lp_info :: "decimal \<Rightarrow> decimal \<Rightarrow> decimal \<Rightarrow> position_info" where
  "demo_lp_info b q p =
     \<lparr>psi_base_amount = b, psi_quote_amount = q, psi_base_fee = 0, psi_quote_fee = 0, psi_lower_price = 95,
      psi_upper_price = 99, psi_price = p\<rparr>"

definition demo_added :: add_result where
  "demo_added = \<lparr>ar_signature = ''sig'', ar_position_address = ''pos'', ar_position_rent = 0, ar_tx_fee = 0\<rparr>"

definition demo_removed :: close_result where
  "demo_removed = \<lparr>cr_signature = ''sig2'', cr_position_rent_refunded = 0, cr_base_amount = 4 / 97, cr_quote_amount = 0,
     cr_base_fee = 0, cr_quote_fee = 0, cr_tx_fee = 0\<rparr>"

definition demo_lp_adding :: lp_executor where
  "demo_lp_adding = on_pool_reply demo_lp_env (Reply (Some 100))
     (begin_round demo_lp_env (lp_on_start None (executor_start (new_lp_executor demo_lp_config 10))))"

definition demo_lp_opened :: lp_executor where
  "demo_lp_opened = on_added_info demo_lp_env (Reply (Some (demo_lp_info 0 4 100)))
     (on_add_reply demo_lp_env (Reply demo_added) demo_lp_adding)"

text \<open>A stop, the close and the swap of what came back.\<close>

definition demo_lp_closing :: lp_executor where
  "demo_lp_closing = on_position_reply demo_lp_env (Reply (Some (demo_lp_info (4 / 97) 0 94)))
     (begin_round demo_lp_env (lp_early_stop False demo_lp_opened))"

definition demo_lp_closed :: lp_executor where
  "demo_lp_closed = on_remove_reply demo_lp_env (Reply demo_removed)
     (on_check_reply demo_lp_env (Reply (Some (demo_lp_info (4 / 97) 0 94))) demo_lp_closing)"

definition demo_lp_swapping :: lp_executor where
  "demo_lp_swapping = on_pool_reply demo_lp_env (Reply None) (begin_round demo_lp_env demo_lp_closed)"

definition demo_lp_swapped :: lp_executor where
  "demo_lp_swapped = on_pool_reply demo_lp_env (Reply None) (begin_round demo_lp_env demo_lp_swapping)"

definition demo_lp_ended :: lp_executor where
  "demo_lp_ended = on_pool_reply demo_lp_env (Reply None) (begin_round demo_lp_env demo_lp_swapped)"

lemma demo_lp_adding_reachable: "lp_reachable demo_lp_config 10 (demo_lp_adding, None, [])"
proof -
  let ?x = "lp_on_start None (executor_start (new_lp_executor demo_lp_config 10))"
  have "lx_phase ?x = Resting" "\<not> ex_terminated ?x" "lx_phase (begin_round demo_lp_env ?x) = FetchingPool"
    by code_simp+
  then show ?thesis
    unfolding demo_lp_adding_def
    by (meson lp_reachable.new lp_reachable.step lp_step.start lp_step.begin_round lp_step.pool)
qed

lemma demo_lp_opened_reachable: "lp_reachable demo_lp_config 10 (demo_lp_opened, Some ''pos'', [])"
proof -
  have a: "lx_phase demo_lp_adding = Adding ''o''" "ar_position_address demo_added \<noteq> []"
      "ar_position_address demo_added = ''pos''"
    and r: "lx_phase (on_add_reply demo_lp_env (Reply demo_added) demo_lp_adding) = ReadingAdded ''sig'' ''pos''"
    by code_simp+
  have "lp_reachable demo_lp_config 10 (on_add_reply demo_lp_env (Reply demo_added) demo_lp_adding, Some ''pos'', [])"
    using lp_reachable.step [OF demo_lp_adding_reachable lp_step.added [OF a(1,2)]] a(3) by simp
  then show ?thesis unfolding demo_lp_opened_def by (rule lp_reachable.step) (rule lp_step.added_info [OF r])
qed

lemma demo_lp_closing_reachable: "lp_reachable demo_lp_config 10 (demo_lp_closing, Some ''pos'', [])"
proof -
  let ?x = "lp_early_stop False demo_lp_opened"
  have x: "lx_phase ?x = Resting" "\<not> ex_terminated ?x" "lx_phase (begin_round demo_lp_env ?x) = FetchingPosition"
    by code_simp+
  have "lp_reachable demo_lp_config 10 (begin_round demo_lp_env ?x, Some ''pos'', [])"
    using lp_reachable.step [OF lp_reachable.step [OF demo_lp_opened_reachable lp_step.early_stop] lp_step.begin_round [OF x(1,2)]] .
  then show ?thesis
    unfolding demo_lp_closing_def by (rule lp_reachable.step) (rule lp_step.position [OF x(3)], simp)
qed

lemma demo_lp_closed_reachable: "lp_reachable demo_lp_config 10 (demo_lp_closed, None, [])"
proof -
  let ?r = "Reply (Some (demo_lp_info (4 / 97) 0 94))"
  have c: "lx_phase demo_lp_closing = CheckingClose" "\<not> says_gone ?r"
    and r: "lx_phase (on_check_reply demo_lp_env ?r demo_lp_closing) = Removing ''oo''"
    by code_simp+
  have "lp_reachable demo_lp_config 10 (on_check_reply demo_lp_env ?r demo_lp_closing, Some ''pos'', [])"
    using lp_reachable.step [OF demo_lp_closing_reachable lp_step.check_close [OF c(1)]] c(2) by blast
  then show ?thesis unfolding demo_lp_closed_def by (rule lp_reachable.step) (rule lp_step.removed [OF r])
qed

lemma lp_pool_round:
  assumes "lp_reachable cfg n (x, ch, gone)" and "lx_phase x = Resting" and "\<not> ex_terminated x"
    and "lx_phase (begin_round env x) = FetchingPool"
  shows "lp_reachable cfg n (on_pool_reply env q (begin_round env x), ch, gone)"
  using lp_reachable.step [OF lp_reachable.step [OF assms(1) lp_step.begin_round [OF assms(2,3)]] lp_step.pool [OF assms(4)]] .

lemma demo_lp_ended_reachable: "lp_reachable demo_lp_config 10 (demo_lp_ended, None, [])"
proof -
  have "lx_phase demo_lp_closed = Resting" "\<not> ex_terminated demo_lp_closed" "lx_phase (begin_round demo_lp_env demo_lp_closed) = FetchingPool"
    by code_simp+
  from lp_pool_round [OF demo_lp_closed_reachable this, of "Reply None", folded demo_lp_swapping_def]
  have 1: "lp_reachable demo_lp_config 10 (demo_lp_swapping, None, [])" .
  have "lx_phase demo_lp_swapping = Resting" "\<not> ex_terminated demo_lp_swapping" "lx_phase (begin_round demo_lp_env demo_lp_swapping) = FetchingPool"
    by code_simp+
  from lp_pool_round [OF 1 this, of "Reply None", folded demo_lp_swapped_def]
  have 2: "lp_reachable demo_lp_config 10 (demo_lp_swapped, None, [])" .
  have "lx_phase demo_lp_swapped = Resting" "\<not> ex_terminated demo_lp_swapped" "lx_phase (begin_round demo_lp_env demo_lp_swapped) = FetchingPool"
    by code_simp+
  from lp_pool_round [OF 2 this, of "Reply None", folded demo_lp_ended_def] show ?thesis .
qed

theorem lp_calls_at_most_once_witness:
  "lp_adds demo_lp_ended = 1 \<and> lp_closes demo_lp_ended = 1 \<and> lp_swaps demo_lp_ended = 1
   \<and> ls_state (lx_position demo_lp_ended) = COMPLETE"
proof -
  have "lp_adds demo_lp_ended \<ge> 1 \<and> lp_closes demo_lp_ended \<ge> 1 \<and> lp_swaps demo_lp_ended \<ge> 1
      \<and> ls_state (lx_position demo_lp_ended) = COMPLETE"
    by code_simp
  then show ?thesis using lp_calls_at_most_once [OF demo_lp_ended_reachable] by linarith
qed

theorem ended_executor_leaves_no_position_witness:
  "\<exists>ch gone. lp_reachable demo_lp_config 10 (demo_lp_ended, ch, gone) \<and> ex_close_type demo_lp_ended = Some EARLY_STOP
    \<and> ch = None \<and> gone = []"
proof -
  have "ex_status demo_lp_ended = TERMINATED" "ex_close_type demo_lp_ended \<noteq> Some FAILED_CLOSE"
      "ex_close_type demo_lp_ended = Some EARLY_STOP" "lp_closes demo_lp_ended = 1"
    by code_simp+
  then show ?thesis
    using demo_lp_ended_reachable ended_executor_leaves_no_position [OF demo_lp_ended_reachable] by blast
qed

theorem failed_lookup_abandons_position_witness:
  "\<exists>z. lp_reachable demo_lp_config 10 (z, None, [''pos'']) \<and> ex_status z = TERMINATED
    \<and> ex_close_type z = Some EARLY_STOP \<and> lp_closes z = 0"
proof -
  have "lx_phase demo_lp_closing = CheckingClose" "ex_current_retries demo_lp_closing \<le> ex_max_retries demo_lp_closing"
      "lx_phase (begin_round demo_lp_env (on_check_reply demo_lp_env (Reply None) demo_lp_closing)) = FetchingPosition"
      "ex_close_type demo_lp_closing = Some EARLY_STOP"
    by code_simp+
  then show ?thesis
    using failed_lookup_abandons_position [OF demo_lp_closing_reachable _ _ refl _ refl, of demo_lp_env demo_lp_env] by metis
qed

theorem stop_while_opening_leaves_position_witness:
  "\<exists>z. lp_reachable demo_lp_config 10 (z, Some ''pos'', []) \<and> ex_status z = TERMINATED \<and> lp_closes z = 0"
proof -
  have "lx_phase demo_lp_adding = Adding ''o''" "ls_state (lx_position demo_lp_adding) = OPENING"
      "ar_position_address demo_added \<noteq> []" "ex_current_retries demo_lp_adding \<le> ex_max_retries demo_lp_adding"
      "lpe_has_connector demo_lp_env" "ar_position_address demo_added = ''pos''"
    by code_simp+
  with stop_while_opening_leaves_position [OF demo_lp_adding_reachable this(1-5) _ refl refl,
      where q = "Reply (Some (demo_lp_info 0 4 100))"]
  show ?thesis by (metis reply.distinct(1))
qed

end
