(* ===== verification/Phoenix_LP.thy ===== *)
theory Phoenix_LP
  imports Orchestrator
begin

text \<open>
  \<open>controllers/generic/phoenix_lp.py\<close>: the liquidity controller for one pool. Its signals (log
  return volatility, trend score, the EM fit of a Hawkes process), its accounting, the band
  geometry, and the control loop with the states HATCHING, FLYING, PERCHED, ASHES and VETOED.

  The controller mixes floats and decimals and uses \<open>math.exp\<close>, \<open>math.log\<close> and \<open>math.sqrt\<close>; all
  its numbers are reals here, with the errors those functions and the divisions raise. What the
  strategy tells it of its executors is a list of views; pool data come from the gateway and are
  an argument.
\<close>

section \<open>Numbers\<close>

definition rdiv :: "real \<Rightarrow> real \<Rightarrow> real py_result" where
  "rdiv a b = (if b = 0 then Inl ZeroDivisionError else Inr (a / b))"

definition math_log :: "real \<Rightarrow> real py_result" where
  "math_log x = (if x \<le> 0 then Inl ValueError else Inr (ln x))"

definition math_sqrt :: "real \<Rightarrow> real py_result" where
  "math_sqrt x = (if x < 0 then Inl ValueError else Inr (sqrt x))"

text \<open>\<open>deque(maxlen=n).append\<close>\<close>

definition deque_push :: "nat \<Rightarrow> 'a \<Rightarrow> 'a list \<Rightarrow> 'a list" where
  "deque_push n x xs = (let ys = xs @ [x] in drop (length ys - n) ys)"

section \<open>Configuration and state\<close>

record phoenix_config =
  pxc_id :: string
  pxc_connector_name :: string
  pxc_trading_pair :: string
  pxc_pool_address :: string
  pxc_lp_provider :: string
  pxc_banned_ca_suffixes :: "string list"
  pxc_min_pool_fee_pct :: real
  pxc_total_amount_quote :: real
  pxc_kelly_fraction :: real
  pxc_max_compound_factor :: real
  pxc_ashes_floor_pct :: real
  pxc_as_gamma :: real
  pxc_as_kappa :: real
  pxc_as_horizon_seconds :: int
  pxc_min_width_pct :: real
  pxc_max_width_pct :: real
  pxc_trend_lean :: real
  pxc_upper_rebalance_pct :: real
  pxc_protective_zone_pct :: real
  pxc_min_rebalance_interval :: int
  pxc_flip_hysteresis :: real
  pxc_sample_interval :: int
  pxc_vol_window :: nat
  pxc_ema_fast :: int
  pxc_ema_slow :: int
  pxc_rsi_length :: int
  pxc_min_samples :: int
  pxc_hawkes_event_pct :: real
  pxc_hawkes_window :: int
  pxc_hawkes_decay_seconds :: real
  pxc_hawkes_min_events :: int
  pxc_panic_branching_ratio :: real
  pxc_resume_branching_ratio :: real
  pxc_panic_flatten :: bool

definition lower_string :: "string \<Rightarrow> string" where
  "lower_string s = map lower_char s"

text \<open>\<open>s.endswith(w)\<close>\<close>

definition ends_with :: "string \<Rightarrow> string \<Rightarrow> bool" where
  "ends_with s w = (length w \<le> length s \<and> drop (length s - length w) s = w)"

datatype phoenix_state = HATCHING | FLYING | PERCHED | ASHES | VETOED

text \<open>The reason of a veto is kept for display only; of its wording just the mint is kept.\<close>

text \<open>The id of the flatten order is unknown (\<open>"pending"\<close>) until the order's executor is seen.\<close>

datatype flatten_id = Pending | Flattening string

record phoenix =
  px_state :: phoenix_state
  px_veto_reason :: "string option"
  px_pool_price :: "real option"
  px_pool_fee_pct :: "real option"
  px_venue_checked :: bool
  px_samples :: "(real \<times> real) list"
  px_events :: "real list"
  px_branching_ratio :: real
  px_sigma_sample :: real
  px_trend :: real
  px_current_executor_id :: "string option"
  px_stop_requested_id :: "string option"
  px_flatten_executor_id :: "flatten_id option"
  px_last_close_ts :: real
  px_sigma_robust :: real
  px_hold_base :: real
  px_hold_quote :: real
  px_quoting_side :: trade_type

definition new_phoenix :: phoenix where
  "new_phoenix =
     \<lparr>px_state = HATCHING, px_veto_reason = None, px_pool_price = None, px_pool_fee_pct = None,
      px_venue_checked = False, px_samples = [], px_events = [], px_branching_ratio = 0,
      px_sigma_sample = 0, px_trend = 0, px_current_executor_id = None, px_stop_requested_id = None,
      px_flatten_executor_id = None, px_last_close_ts = 0, px_sigma_robust = 0, px_hold_base = 0,
      px_hold_quote = 0, px_quoting_side = BUY\<rparr>"

text \<open>What the controller reads of an executor; a figure \<open>custom_info\<close> lacks counts as 0.\<close>

record phoenix_executor =
  pxe_id :: string
  pxe_type :: string
  pxe_level_id :: "string option"
  pxe_is_active :: bool
  pxe_status :: runnable_status
  pxe_close_type :: "close_type option"
  pxe_custom_info :: "(string, real) dict"

definition custom_figure :: "phoenix_executor \<Rightarrow> string \<Rightarrow> real" where
  "custom_figure e k = get_or (pxe_custom_info e) k 0"

section \<open>Signals\<close>

fun log_returns :: "real list \<Rightarrow> real list py_result" where
  "log_returns (p # q # ps) =
     (if p > 0
      then ebind (math_log (q / p)) (\<lambda>r. ebind (log_returns (q # ps)) (\<lambda>rs. Inr (r # rs)))
      else log_returns (q # ps))"
| "log_returns _ = Inr []"

definition sample_deviation :: "real list \<Rightarrow> real py_result" where
  "sample_deviation rets =
     ebind (rdiv (sum_list rets) (real (length rets))) (\<lambda>mean.
     math_sqrt (sum_list (map (\<lambda>r. (r - mean)\<^sup>2) rets) / real (max (length rets - 1) 1)))"

definition median_absolute_deviation :: "real list \<Rightarrow> real" where
  "median_absolute_deviation rets =
     (let med = sort rets ! (length rets div 2) in sort (map (\<lambda>r. \<bar>r - med\<bar>) rets) ! (length rets div 2))"

definition ema :: "real list \<Rightarrow> int \<Rightarrow> real py_result" where
  "ema series width =
     ebind (rdiv 2 (of_int width + 1)) (\<lambda>k. Inr (foldl (\<lambda>e p. p * k + e * (1 - k)) (hd series) (tl series)))"

definition clip :: "real \<Rightarrow> real \<Rightarrow> real \<Rightarrow> real" where
  "clip lo hi x = max lo (min hi x)"

text \<open>The differences of neighbours from position \<open>max(1, len - n)\<close> on.\<close>

definition last_moves :: "int \<Rightarrow> real list \<Rightarrow> real list" where
  "last_moves n prices =
     map (\<lambda>i. prices ! i - prices ! (i - 1)) [nat (max 1 (int (length prices) - n)) ..< length prices]"

definition rsi_score :: "real list \<Rightarrow> real" where
  "rsi_score ds =
     (let gains = sum_list (map (\<lambda>d. max d 0) ds); losses = sum_list (map (\<lambda>d. max (- d) 0) ds)
      in if gains + losses = 0 then 0 else (gains - losses) / (gains + losses))"

definition trend_score :: "phoenix_config \<Rightarrow> real \<Rightarrow> real list \<Rightarrow> real py_result" where
  "trend_score cfg sigma prices =
     ebind (ema prices (pxc_ema_fast cfg)) (\<lambda>fast.
     ebind (ema prices (pxc_ema_slow cfg)) (\<lambda>slow.
     ebind (rdiv (fast - slow) (last prices)) (\<lambda>ema_dist.
     ebind (math_sqrt (of_int (pxc_ema_slow cfg))) (\<lambda>root.
       let scale = max (sigma * root) (1 / 10 ^ 9);
           ema_score = clip (- 1) 1 (ema_dist / scale)
       in Inr (clip (- 1) 1 (0.6 * ema_score + 0.4 * rsi_score (last_moves (pxc_rsi_length cfg) prices)))))))"

text \<open>The excitation of the \<open>i\<close>-th event by the at most thirty events before it.\<close>

definition excitation :: "real \<Rightarrow> real \<Rightarrow> real list \<Rightarrow> nat \<Rightarrow> real" where
  "excitation beta n events i =
     (let ti = events ! i
      in sum_list (map (\<lambda>tj. n * beta * exp (- beta * (ti - tj)))
           (filter (\<lambda>tj. ti > tj) (drop (i - 30) (take i events)))))"

definition em_count :: "real \<Rightarrow> real \<Rightarrow> real \<Rightarrow> real list \<Rightarrow> real \<times> real \<Rightarrow> nat \<Rightarrow> real \<times> real" where
  "em_count beta mu n events acc i =
     (let ex = excitation beta n events i; lam = mu + ex
      in if lam \<le> 0 then acc else (fst acc + mu / lam, snd acc + ex / lam))"

definition em_step :: "real \<Rightarrow> real \<Rightarrow> real list \<Rightarrow> real \<times> real \<Rightarrow> real \<times> real" where
  "em_step beta window events p =
     (case p of (mu, n) \<Rightarrow>
       (case foldl (em_count beta mu n events) (0, 0) [0..<length events] of
          (exo, endo) \<Rightarrow> (max (exo / window) (1 / 10 ^ 9), min (endo / real (length events)) 0.98)))"

definition hawkes_branching_ratio :: "phoenix_config \<Rightarrow> real list \<Rightarrow> real \<Rightarrow> real py_result" where
  "hawkes_branching_ratio cfg events now =
     (if int (length events) < pxc_hawkes_min_events cfg then Inr 0
      else ebind (rdiv 1 (pxc_hawkes_decay_seconds cfg)) (\<lambda>beta.
           if events = [] then Inl IndexError
           else let window = max (now - hd events) 1
                in Inr (snd ((em_step beta window events ^^ 15) (real (length events) / window * 0.5, 0.5)))))"

definition refresh_volatility :: "phoenix \<Rightarrow> phoenix outcome" where
  "refresh_volatility s =
     (let prices = map snd (px_samples s) in
      if length prices \<ge> 3
      then try_value s (log_returns prices) (\<lambda>rets.
           try_value s (sample_deviation rets) (\<lambda>sigma.
             (s\<lparr>px_sigma_sample := sigma, px_sigma_robust := 1.4826 * median_absolute_deviation rets\<rparr>, None)))
      else (s, None))"

definition refresh_trend :: "phoenix_config \<Rightarrow> phoenix \<Rightarrow> phoenix outcome" where
  "refresh_trend cfg s =
     (let prices = map snd (px_samples s) in
      if int (length prices) \<ge> pxc_min_samples cfg
      then try_value s (trend_score cfg (px_sigma_sample s) prices) (\<lambda>t. (s\<lparr>px_trend := t\<rparr>, None))
      else (s, None))"

definition refresh_branching :: "phoenix_config \<Rightarrow> real \<Rightarrow> phoenix \<Rightarrow> phoenix outcome" where
  "refresh_branching cfg now s =
     (let s1 = s\<lparr>px_events := dropWhile (\<lambda>t. t < now - of_int (pxc_hawkes_window cfg)) (px_events s)\<rparr> in
      try_value s1 (hawkes_branching_ratio cfg (px_events s1) now) (\<lambda>em_n.
        let recent_window = 2 * pxc_hawkes_decay_seconds cfg;
            recent = real (length (filter (\<lambda>t. t > now - recent_window) (px_events s1)))
        in try_value s1 (rdiv recent (2 * of_int (pxc_hawkes_min_events cfg))) (\<lambda>r.
             (s1\<lparr>px_branching_ratio := max em_n (min r 0.95)\<rparr>, None))))"

definition recompute_signals :: "phoenix_config \<Rightarrow> real \<Rightarrow> phoenix \<Rightarrow> phoenix outcome" where
  "recompute_signals cfg now s =
     obind (refresh_volatility s) (\<lambda>s1. obind (refresh_trend cfg s1) (refresh_branching cfg now))"

section \<open>Pool data\<close>

record pool_info =
  pi_price :: real
  pi_fee_pct :: real
  pi_base_token_address :: string

definition check_venue :: "phoenix_config \<Rightarrow> pool_info \<Rightarrow> phoenix \<Rightarrow> phoenix" where
  "check_venue cfg info s =
     (let mint = pi_base_token_address info in
      if \<exists>w \<in> set (pxc_banned_ca_suffixes cfg). ends_with (lower_string mint) w
      then s\<lparr>px_state := VETOED, px_veto_reason := Some mint, px_venue_checked := True\<rparr>
      else if (case px_pool_fee_pct s of None \<Rightarrow> False | Some f \<Rightarrow> f < pxc_min_pool_fee_pct cfg)
      then s\<lparr>px_state := VETOED, px_veto_reason := Some ''pool fee'', px_venue_checked := True\<rparr>
      else s\<lparr>px_venue_checked := True\<rparr>)"

text \<open>\<open>int(x)\<close> of a float truncates toward zero.\<close>

definition py_int :: "real \<Rightarrow> int" where
  "py_int x = (if x \<ge> 0 then \<lfloor>x\<rfloor> else \<lceil>x\<rceil>)"

definition mark_events :: "real \<Rightarrow> real \<Rightarrow> real \<Rightarrow> real list \<Rightarrow> real list py_result" where
  "mark_events now move threshold events =
     (if move \<le> - threshold
      then ebind (rdiv (- move) threshold) (\<lambda>k.
           Inr (foldl (\<lambda>es i. deque_push 500 (now + 0.05 * real i) es) events [0..<nat (min (py_int k) 10)]))
      else Inr events)"

definition take_sample :: "phoenix_config \<Rightarrow> real \<Rightarrow> real \<Rightarrow> phoenix \<Rightarrow> phoenix outcome" where
  "take_sample cfg now price s =
     (if px_samples s = [] \<or> now - fst (last (px_samples s)) \<ge> of_int (pxc_sample_interval cfg)
      then let prev = (if px_samples s = [] then 0 else snd (last (px_samples s)));
               s1 = s\<lparr>px_samples := deque_push (pxc_vol_window cfg) (now, price) (px_samples s)\<rparr>
           in obind
                (if prev > 0
                 then let move = price / prev - 1;
                          threshold = max (pxc_hawkes_event_pct cfg / 100) (3 * px_sigma_robust s1)
                      in try_value s1 (mark_events now move threshold (px_events s1)) (\<lambda>es.
                           (s1\<lparr>px_events := es\<rparr>, None))
                 else (s1, None))
                (recompute_signals cfg now)
      else (s, None))"

text \<open>No pool information: the fetch failed or the pool gives no price.\<close>

definition update_processed_data ::
  "phoenix_config \<Rightarrow> pool_info option \<Rightarrow> real \<Rightarrow> phoenix \<Rightarrow> phoenix outcome" where
  "update_processed_data cfg info now s =
     (case info of
        None \<Rightarrow> (s, None)
      | Some i \<Rightarrow>
          (if pi_price i = 0 then (s, None)
           else let s1 = s\<lparr>px_pool_price := Some (pi_price i), px_pool_fee_pct := Some (pi_fee_pct i)\<rparr>;
                    s2 = (if px_venue_checked s1 then s1 else check_venue cfg i s1)
                in take_sample cfg now (pi_price i) s2))"

section \<open>Sizing and accounting\<close>

definition price_or_zero :: "phoenix \<Rightarrow> real" where
  "price_or_zero s = (case px_pool_price s of None \<Rightarrow> 0 | Some p \<Rightarrow> p)"

definition equity :: "phoenix_config \<Rightarrow> phoenix \<Rightarrow> real" where
  "equity cfg s = pxc_total_amount_quote cfg + px_hold_quote s + px_hold_base s * price_or_zero s"

definition deploy_amount_quote :: "phoenix_config \<Rightarrow> phoenix \<Rightarrow> real" where
  "deploy_amount_quote cfg s =
     (let eq = max (equity cfg s) 0;
          cap = pxc_total_amount_quote cfg * pxc_max_compound_factor cfg
      in min (eq * pxc_kelly_fraction cfg) cap)"

definition active_executor :: "phoenix_executor list \<Rightarrow> phoenix_executor option" where
  "active_executor es = List.find (\<lambda>e. pxe_is_active e \<and> pxe_type e = ''lp_executor'') es"

definition find_executor :: "string \<Rightarrow> phoenix_executor list \<Rightarrow> phoenix_executor option" where
  "find_executor i es = List.find (\<lambda>e. pxe_id e = i) es"

definition base_net :: "phoenix_executor \<Rightarrow> real" where
  "base_net e = custom_figure e ''base_amount'' + custom_figure e ''base_fee'' - custom_figure e ''initial_base_amount''"

definition quote_net :: "phoenix_executor \<Rightarrow> real" where
  "quote_net e = custom_figure e ''quote_amount'' + custom_figure e ''quote_fee'' - custom_figure e ''initial_quote_amount''"

definition settle_closed_executor :: "phoenix_executor list \<Rightarrow> real \<Rightarrow> phoenix \<Rightarrow> phoenix" where
  "settle_closed_executor es now s =
     (case px_current_executor_id s of
        None \<Rightarrow> s
      | Some i \<Rightarrow>
          (case find_executor i es of
             None \<Rightarrow> s
           | Some e \<Rightarrow>
               (if pxe_status e \<noteq> TERMINATED then s
                else let s1 = (if pxe_close_type e \<noteq> Some FAILED_CLOSE
                               then s\<lparr>px_hold_base := px_hold_base s + base_net e,
                                      px_hold_quote := px_hold_quote s + quote_net e\<rparr>
                               else s)
                     in s1\<lparr>px_current_executor_id := None, px_last_close_ts := now\<rparr>)))"

definition available_quote :: "phoenix_config \<Rightarrow> phoenix \<Rightarrow> real" where
  "available_quote cfg s = max (pxc_total_amount_quote cfg + px_hold_quote s) 0"

definition flatten_candidates :: "phoenix_executor list \<Rightarrow> phoenix_executor list" where
  "flatten_candidates es = filter (\<lambda>e. pxe_type e = ''order_executor'' \<and> pxe_level_id e = Some ''panic_flatten'') es"

definition settle_flatten_of :: "string \<Rightarrow> phoenix_executor list \<Rightarrow> phoenix \<Rightarrow> phoenix" where
  "settle_flatten_of i es s =
     (case find_executor i es of
        None \<Rightarrow> s
      | Some e \<Rightarrow>
          (if pxe_status e \<noteq> TERMINATED then s
           else let executed = custom_figure e ''executed_amount_base'';
                    px = custom_figure e ''average_executed_price'';
                    s1 = (if pxe_close_type e \<noteq> Some FAILED_CLOSE
                          then s\<lparr>px_hold_base := px_hold_base s - executed,
                                 px_hold_quote := px_hold_quote s + executed * px\<rparr>
                          else s)
                in s1\<lparr>px_flatten_executor_id := None\<rparr>))"

definition settle_flatten_executor :: "phoenix_executor list \<Rightarrow> phoenix \<Rightarrow> phoenix" where
  "settle_flatten_executor es s =
     (case px_flatten_executor_id s of
        None \<Rightarrow> s
      | Some (Flattening i) \<Rightarrow> settle_flatten_of i es s
      | Some Pending \<Rightarrow>
          (if flatten_candidates es = [] then s
           else let i = pxe_id (last (flatten_candidates es))
                in settle_flatten_of i es (s\<lparr>px_flatten_executor_id := Some (Flattening i)\<rparr>)))"

section \<open>The band\<close>

record lp_executor_config =
  lpc_timestamp :: real
  lpc_connector_name :: string
  lpc_lp_provider :: string
  lpc_trading_pair :: string
  lpc_pool_address :: string
  lpc_lower_price :: real
  lpc_upper_price :: real
  lpc_base_amount :: real
  lpc_quote_amount :: real
  lpc_side :: trade_type
  lpc_upper_limit_price :: "real option"
  lpc_lower_limit_price :: "real option"
  lpc_keep_position :: bool

record flatten_order =
  fo_timestamp :: real
  fo_connector_name :: string
  fo_trading_pair :: string
  fo_side :: trade_type
  fo_amount :: real
  fo_price :: real
  fo_level_id :: string

datatype phoenix_executor_config = LPConfig lp_executor_config | FlattenConfig flatten_order

type_synonym phoenix_action = "phoenix_executor_config executor_action"

definition panic_flatten_action ::
  "phoenix_config \<Rightarrow> phoenix_executor list \<Rightarrow> real \<Rightarrow> phoenix \<Rightarrow> phoenix \<times> phoenix_action option" where
  "panic_flatten_action cfg es now s =
     (if \<not> pxc_panic_flatten cfg \<or> px_flatten_executor_id s \<noteq> None then (s, None)
      else if px_current_executor_id s \<noteq> None \<or> active_executor es \<noteq> None then (s, None)
      else let price = price_or_zero s in
        if price \<le> 0 \<or> px_hold_base s * price < 1 then (s, None)
        else (s\<lparr>px_flatten_executor_id := Some Pending\<rparr>,
              Some (CreateExecutorAction (Some (pxc_id cfg)) (FlattenConfig
                \<lparr>fo_timestamp = now, fo_connector_name = pxc_connector_name cfg,
                 fo_trading_pair = pxc_trading_pair cfg, fo_side = SELL, fo_amount = px_hold_base s,
                 fo_price = price, fo_level_id = ''panic_flatten''\<rparr>))))"

definition pick_side :: "phoenix_config \<Rightarrow> phoenix \<Rightarrow> phoenix \<times> trade_type" where
  "pick_side cfg s =
     (let price = price_or_zero s; deploy = deploy_amount_quote cfg s in
      if deploy \<le> 0 \<or> price \<le> 0 then (s, px_quoting_side s)
      else let coverage = px_hold_base s * price / deploy;
               sd = (if px_quoting_side s = BUY \<and> coverage > 0.5 + pxc_flip_hysteresis cfg then SELL
                       else if px_quoting_side s = SELL \<and> coverage < 0.5 - pxc_flip_hysteresis cfg then BUY
                       else px_quoting_side s)
           in (s\<lparr>px_quoting_side := sd\<rparr>, sd))"

text \<open>The share of the inventory's value in base, scaled to \<open>[-1, 1]\<close>.\<close>

definition inventory_skew :: "phoenix_config \<Rightarrow> phoenix \<Rightarrow> real \<Rightarrow> real" where
  "inventory_skew cfg s price =
     (let base_value = px_hold_base s * price;
          total = base_value + (px_hold_quote s + pxc_total_amount_quote cfg)
      in if total \<le> 0 then 0 else max (- 1) (min 1 (2 * base_value / total - 1)))"

definition band_width :: "phoenix_config \<Rightarrow> real \<Rightarrow> real" where
  "band_width cfg half_spread =
     max (pxc_min_width_pct cfg / 100) (min (2 * half_spread) (pxc_max_width_pct cfg / 100))"

definition band_sides :: "trade_type \<Rightarrow> real \<Rightarrow> real \<Rightarrow> real \<Rightarrow> real \<times> real" where
  "band_sides sd price center width =
     (if sd = BUY then (let upper = min center (price * 0.9995) in (upper * (1 - width), upper))
      else (let lower = max center (price * 1.0005) in (lower, lower * (1 + width))))"

text \<open>The band for the half spread's constant part, \<open>ln(1 + gamma / kappa) / gamma\<close>.\<close>

definition band_of_spread ::
  "phoenix_config \<Rightarrow> phoenix \<Rightarrow> trade_type \<Rightarrow> real \<Rightarrow> real \<Rightarrow> real \<times> real \<times> real \<times> real" where
  "band_of_spread cfg s sd price base_spread =
     (let gamma = pxc_as_gamma cfg;
          sigma2_t = (px_sigma_sample s)\<^sup>2
                       * (of_int (pxc_as_horizon_seconds cfg) / of_int (max (pxc_sample_interval cfg) 1));
          q = inventory_skew cfg s price;
          half_spread = gamma * sigma2_t / 2 + base_spread;
          width = band_width cfg half_spread;
          shift = - q * gamma * sigma2_t + pxc_trend_lean cfg * px_trend s * width
      in case band_sides sd price (price * (1 + shift)) width of
           (lower, upper) \<Rightarrow>
             (lower, upper, lower * (1 - pxc_protective_zone_pct cfg / 100),
              upper * (1 + pxc_upper_rebalance_pct cfg / 100)))"

definition band ::
  "phoenix_config \<Rightarrow> phoenix \<Rightarrow> trade_type \<Rightarrow> real \<Rightarrow> (real \<times> real \<times> real \<times> real) py_result" where
  "band cfg s sd price =
     ebind (rdiv (pxc_as_gamma cfg) (pxc_as_kappa cfg)) (\<lambda>ratio.
     ebind (math_log (1 + ratio)) (\<lambda>l.
     ebind (rdiv l (pxc_as_gamma cfg)) (\<lambda>base_spread.
       Inr (band_of_spread cfg s sd price base_spread))))"

text \<open>What the wallet can fund of a deployment: base and quote amount.\<close>

definition funded_amounts :: "phoenix_config \<Rightarrow> phoenix \<Rightarrow> trade_type \<Rightarrow> real \<Rightarrow> real \<Rightarrow> real \<times> real" where
  "funded_amounts cfg s sd price deploy =
     (if sd = BUY then (0, min deploy (available_quote cfg s))
      else (min (deploy / price) (max (px_hold_base s) 0), 0))"

definition propose_position ::
  "phoenix_config \<Rightarrow> real \<Rightarrow> phoenix \<Rightarrow> trade_type \<Rightarrow> real \<Rightarrow> real \<Rightarrow> real \<times> real \<times> real \<times> real \<Rightarrow>
   lp_executor_config option" where
  "propose_position cfg now s sd price deploy b =
     (case b of (lower, upper, lower_limit, upper_limit) \<Rightarrow>
        if lower \<ge> upper then None
        else (case funded_amounts cfg s sd price deploy of (base_amt, quote_amt) \<Rightarrow>
          if (if sd = BUY then quote_amt else base_amt * price) < 1 then None
          else Some
            \<lparr>lpc_timestamp = now, lpc_connector_name = pxc_connector_name cfg,
             lpc_lp_provider = pxc_lp_provider cfg, lpc_trading_pair = pxc_trading_pair cfg,
             lpc_pool_address = pxc_pool_address cfg, lpc_lower_price = lower,
             lpc_upper_price = upper, lpc_base_amount = base_amt, lpc_quote_amount = quote_amt,
             lpc_side = sd, lpc_upper_limit_price = Some upper_limit,
             lpc_lower_limit_price = Some lower_limit, lpc_keep_position = True\<rparr>))"

definition create_executor_config ::
  "phoenix_config \<Rightarrow> real \<Rightarrow> phoenix \<Rightarrow> phoenix \<times> lp_executor_config option py_result" where
  "create_executor_config cfg now s =
     (case px_pool_price s of
        None \<Rightarrow> (s, Inr None)
      | Some price \<Rightarrow>
          (if price \<le> 0 then (s, Inr None)
           else let deploy = deploy_amount_quote cfg s in
             if deploy \<le> 0 then (s, Inr None)
             else (case pick_side cfg s of (s1, sd) \<Rightarrow>
               (s1, ebind (band cfg s1 sd price) (\<lambda>b. Inr (propose_position cfg now s1 sd price deploy b))))))"

section \<open>The control loop\<close>

definition sampled_state :: "phoenix_config \<Rightarrow> phoenix \<Rightarrow> phoenix_state" where
  "sampled_state cfg s = (if int (length (px_samples s)) < pxc_min_samples cfg then HATCHING else FLYING)"

definition next_phoenix_state :: "phoenix_config \<Rightarrow> phoenix \<Rightarrow> phoenix_state" where
  "next_phoenix_state cfg s =
     (if px_state s \<in> set [VETOED, ASHES] then px_state s
      else if price_or_zero s \<noteq> 0 \<and> equity cfg s \<le> pxc_total_amount_quote cfg * pxc_ashes_floor_pct cfg
      then ASHES
      else if px_branching_ratio s \<ge> pxc_panic_branching_ratio cfg then PERCHED
      else if px_state s = PERCHED
      then (if px_branching_ratio s \<le> pxc_resume_branching_ratio cfg then sampled_state cfg s else PERCHED)
      else sampled_state cfg s)"

definition halt_actions ::
  "phoenix_config \<Rightarrow> phoenix_executor list \<Rightarrow> real \<Rightarrow> phoenix \<Rightarrow> phoenix \<times> phoenix_action list" where
  "halt_actions cfg es now s =
     (let (s1, stops) =
        (case active_executor es of
           None \<Rightarrow> (s, [])
         | Some e \<Rightarrow>
             (if Some (pxe_id e) \<noteq> px_stop_requested_id s
              then (s\<lparr>px_stop_requested_id := Some (pxe_id e)\<rparr>,
                    [StopExecutorAction (Some (pxc_id cfg)) (pxe_id e) False])
              else (s, [])))
      in if px_state s1 \<in> set [ASHES, PERCHED]
         then (case panic_flatten_action cfg es now s1 of
                 (s2, None) \<Rightarrow> (s2, stops) | (s2, Some a) \<Rightarrow> (s2, stops @ [a]))
         else (s1, stops))"

definition adopt_and_settle :: "phoenix_executor list \<Rightarrow> real \<Rightarrow> phoenix \<Rightarrow> phoenix" where
  "adopt_and_settle es now s =
     (let s1 = (case active_executor es of
                  Some e \<Rightarrow> if px_current_executor_id s = None then s\<lparr>px_current_executor_id := Some (pxe_id e)\<rparr> else s
                | None \<Rightarrow> settle_closed_executor es now s)
      in settle_flatten_executor es s1)"

definition determine_executor_actions ::
  "phoenix_config \<Rightarrow> phoenix_executor list \<Rightarrow> real \<Rightarrow> phoenix \<Rightarrow> phoenix \<times> phoenix_action list py_result" where
  "determine_executor_actions cfg es now s =
     (let s1 = adopt_and_settle es now s;
          s2 = s1\<lparr>px_state := next_phoenix_state cfg s1\<rparr>
      in if px_state s2 \<in> set [VETOED, ASHES, PERCHED]
         then (case halt_actions cfg es now s2 of (s3, acts) \<Rightarrow> (s3, Inr acts))
         else if px_state s2 = FLYING \<and> active_executor es = None \<and> px_flatten_executor_id s2 = None
                 \<and> now - px_last_close_ts s2 \<ge> of_int (pxc_min_rebalance_interval cfg)
         then (case create_executor_config cfg now s2 of
                 (s3, r) \<Rightarrow> (s3, ebind r (\<lambda>c. Inr (case c of None \<Rightarrow> []
                   | Some c' \<Rightarrow> [CreateExecutorAction (Some (pxc_id cfg)) (LPConfig c')]))))
         else (s2, Inr []))"

text \<open>
  One tick of the controller: the pool data first, then the actions. Both log what they raise
  where the strategy's loop catches it; a tick whose data raise determines no actions.
\<close>

record phoenix_input =
  in_pool :: "pool_info option"
  in_executors :: "phoenix_executor list"
  in_now :: real

definition phoenix_tick ::
  "phoenix_config \<Rightarrow> phoenix_input \<Rightarrow> phoenix \<Rightarrow> phoenix \<times> phoenix_action list py_result" where
  "phoenix_tick cfg i s =
     (case update_processed_data cfg (in_pool i) (in_now i) s of
        (s1, Some e) \<Rightarrow> (s1, Inl e)
      | (s1, None) \<Rightarrow> determine_executor_actions cfg (in_executors i) (in_now i) s1)"

end
