(* ===== verification/Phoenix_Safety.thy ===== *)
theory Phoenix_Safety
  imports Phoenix_LP
begin

text \<open>
  What the Phoenix controller guarantees: that ASHES and VETOED are final, that a cascade pulls the
  position and opens none, that every position it opens is funded, sized below the Kelly fraction
  and entirely on its side of the price, and the range of its cascade score; and that an executor
  that is still closing does not keep it from opening another position.
\<close>

section \<open>Frames\<close>

fun opens_position :: "phoenix_action \<Rightarrow> bool" where
  "opens_position (CreateExecutorAction cid (LPConfig c)) = True"
| "opens_position _ = False"

definition halted :: "phoenix \<Rightarrow> bool" where
  "halted s = (px_state s \<in> {VETOED, ASHES})"

lemma settle_state [simp]:
  "px_state (settle_closed_executor es now s) = px_state s"
  "px_state (settle_flatten_of i es s) = px_state s"
  "px_state (settle_flatten_executor es s) = px_state s"
  "px_state (adopt_and_settle es now s) = px_state s"
proof -
  show 1: "px_state (settle_closed_executor es now s) = px_state s" for s
    by (simp add: settle_closed_executor_def Let_def split: option.split)
  show 2: "px_state (settle_flatten_of i es s) = px_state s" for i s
    by (simp add: settle_flatten_of_def Let_def split: option.split)
  show 3: "px_state (settle_flatten_executor es s) = px_state s" for s
    by (simp add: settle_flatten_executor_def Let_def 2 split: option.split flatten_id.split)
  show "px_state (adopt_and_settle es now s) = px_state s"
    by (simp add: adopt_and_settle_def Let_def 1 3 split: option.split)
qed

lemma settle_signals [simp]:
  "px_branching_ratio (adopt_and_settle es now s) = px_branching_ratio s"
  "px_pool_price (adopt_and_settle es now s) = px_pool_price s"
  "px_samples (adopt_and_settle es now s) = px_samples s"
  "px_stop_requested_id (adopt_and_settle es now s) = px_stop_requested_id s"
  by (simp_all add: adopt_and_settle_def settle_closed_executor_def settle_flatten_executor_def
      settle_flatten_of_def Let_def split: option.split flatten_id.split)

lemma panic_flatten_frame:
  "px_state (fst (panic_flatten_action cfg es now s)) = px_state s"
  "snd (panic_flatten_action cfg es now s) = Some a \<Longrightarrow> \<not> opens_position a"
  by (auto simp: panic_flatten_action_def Let_def split: if_splits)

lemma halt_actions_frame:
  "px_state (fst (halt_actions cfg es now s)) = px_state s"
  "\<forall>a \<in> set (snd (halt_actions cfg es now s)). \<not> opens_position a"
proof -
  let ?pull = "(case active_executor es of
       None \<Rightarrow> (s, [])
     | Some e \<Rightarrow>
         (if Some (pxe_id e) \<noteq> px_stop_requested_id s
          then (s\<lparr>px_stop_requested_id := Some (pxe_id e)\<rparr>,
                [StopExecutorAction (Some (pxc_id cfg)) (pxe_id e) False])
          else (s, []))) :: phoenix \<times> phoenix_action list"
  obtain s1 stops where d: "?pull = (s1, stops)" by fastforce
  have s1: "px_state s1 = px_state s" "\<forall>a \<in> set stops. \<not> opens_position a"
    using d by (auto split: option.splits if_splits)
  obtain s2 r where p: "panic_flatten_action cfg es now s1 = (s2, r)" by fastforce
  have s2: "px_state s2 = px_state s1" "\<And>a. r = Some a \<Longrightarrow> \<not> opens_position a"
    using panic_flatten_frame [of cfg es now s1] p by auto
  have "halt_actions cfg es now s =
      (if px_state s1 \<in> set [ASHES, PERCHED] then (case r of None \<Rightarrow> (s2, stops) | Some a \<Rightarrow> (s2, stops @ [a]))
       else (s1, stops))"
    unfolding halt_actions_def d by (simp add: p split: option.split)
  then show "px_state (fst (halt_actions cfg es now s)) = px_state s"
    "\<forall>a \<in> set (snd (halt_actions cfg es now s)). \<not> opens_position a"
    using s1 s2 by (auto split: option.split)
qed

lemma recompute_signals_state [simp]: "px_state (fst (recompute_signals cfg now s)) = px_state s"
  unfolding recompute_signals_def
  by (rule obind_fst_inv [where P = "\<lambda>t. px_state t = px_state s"],
      simp add: refresh_volatility_def Let_def try_value_def split: sum.split,
      rule obind_fst_inv [where P = "\<lambda>t. px_state t = px_state s"])
    (auto simp: refresh_trend_def refresh_branching_def Let_def try_value_def split: sum.split)

lemma take_sample_state [simp]: "px_state (fst (take_sample cfg now price s)) = px_state s"
proof -
  have "px_state (fst (obind m (recompute_signals cfg now))) = px_state s"
    if "px_state (fst m) = px_state s" for m
    by (rule obind_fst_inv [where P = "\<lambda>t. px_state t = px_state s"]) (use that in simp_all)
  then show ?thesis by (auto simp: take_sample_def Let_def try_value_def split: sum.split)
qed

lemma update_data_state:
  "px_state (fst (update_processed_data cfg info now s)) \<in> {px_state s, VETOED}"
  by (auto simp: update_processed_data_def check_venue_def Let_def split: option.split)

section \<open>Final states\<close>

lemma next_state_halted: "halted s \<Longrightarrow> next_phoenix_state cfg s = px_state s"
  by (auto simp: halted_def next_phoenix_state_def)

lemma determine_halted:
  assumes "halted s"
  shows "halted (fst (determine_executor_actions cfg es now s))"
    and "snd (determine_executor_actions cfg es now s) = Inr acts \<Longrightarrow> \<forall>a \<in> set acts. \<not> opens_position a"
proof -
  let ?s = "(adopt_and_settle es now s)\<lparr>px_state := next_phoenix_state cfg (adopt_and_settle es now s)\<rparr>"
  have st: "px_state ?s = px_state s"
    using next_state_halted [of "adopt_and_settle es now s" cfg] assms by (simp add: halted_def)
  have eq: "determine_executor_actions cfg es now s =
      (fst (halt_actions cfg es now ?s), Inr (snd (halt_actions cfg es now ?s)))"
    using assms st by (auto simp: determine_executor_actions_def Let_def halted_def split: prod.split)
  show "halted (fst (determine_executor_actions cfg es now s))"
    using assms st halt_actions_frame(1) [of cfg es now ?s] by (simp add: eq halted_def)
  show "snd (determine_executor_actions cfg es now s) = Inr acts \<Longrightarrow> \<forall>a \<in> set acts. \<not> opens_position a"
    using halt_actions_frame(2) [of cfg es now ?s] by (auto simp: eq)
qed

text \<open>The actions of a run, tick by tick; a tick that raises has none.\<close>

fun phoenix_run :: "phoenix_config \<Rightarrow> phoenix_input list \<Rightarrow> phoenix \<Rightarrow> phoenix \<times> phoenix_action list" where
  "phoenix_run cfg [] s = (s, [])"
| "phoenix_run cfg (i # is) s =
     (case phoenix_tick cfg i s of
        (s1, r) \<Rightarrow> (case phoenix_run cfg is s1 of
          (s2, acts) \<Rightarrow> (s2, (case r of Inl e \<Rightarrow> [] | Inr a \<Rightarrow> a) @ acts)))"

lemma phoenix_tick_halted:
  assumes "halted s"
  shows "halted (fst (phoenix_tick cfg i s))"
    and "snd (phoenix_tick cfg i s) = Inr acts \<Longrightarrow> \<forall>a \<in> set acts. \<not> opens_position a"
proof -
  obtain s1 e where u: "update_processed_data cfg (in_pool i) (in_now i) s = (s1, e)" by fastforce
  then have s1: "halted s1"
    using update_data_state [of cfg "in_pool i" "in_now i" s] assms by (auto simp: halted_def)
  show "halted (fst (phoenix_tick cfg i s))"
    using s1 determine_halted(1) [OF s1] u by (simp add: phoenix_tick_def split: option.split)
  show "snd (phoenix_tick cfg i s) = Inr acts \<Longrightarrow> \<forall>a \<in> set acts. \<not> opens_position a"
    using determine_halted(2) [OF s1] u by (auto simp: phoenix_tick_def split: option.splits)
qed

text \<open>
  C17: A controller that has reached ASHES (the equity floor) or VETOED (the venue guard) stays in
  these states and never opens a position again, whatever the pool, the executors and the clock do.
\<close>

theorem ashes_and_veto_are_final:
  assumes "px_state s \<in> {VETOED, ASHES}"
  shows "px_state (fst (phoenix_run cfg is s)) \<in> {VETOED, ASHES}
     \<and> (\<forall>a \<in> set (snd (phoenix_run cfg is s)). \<not> opens_position a)"
  using assms
proof (induction "is" arbitrary: s)
  case (Cons i "is")
  obtain s1 r where t: "phoenix_tick cfg i s = (s1, r)" by fastforce
  have "halted s1" and none: "\<And>acts. r = Inr acts \<Longrightarrow> \<forall>a \<in> set acts. \<not> opens_position a"
    using phoenix_tick_halted [of s cfg i] Cons.prems t by (auto simp: halted_def)
  then show ?case
    using Cons.IH [of s1] t by (auto simp: halted_def split: prod.split sum.splits)
qed simp

section \<open>Cascades\<close>

text \<open>
  In a tick whose cascade score has reached the panic ratio the controller opens no position,
  ends PERCHED (or in a final state), and asks its active position to stop unless it did before.
\<close>

theorem cascade_pulls_position:
  assumes "px_branching_ratio s \<ge> pxc_panic_branching_ratio cfg"
  shows "px_state (fst (determine_executor_actions cfg es now s)) \<in> {PERCHED, ASHES, VETOED}
     \<and> (\<exists>acts. snd (determine_executor_actions cfg es now s) = Inr acts
          \<and> (\<forall>a \<in> set acts. \<not> opens_position a)
          \<and> (\<forall>e. active_executor es = Some e \<and> px_stop_requested_id s \<noteq> Some (pxe_id e)
                \<longrightarrow> StopExecutorAction (Some (pxc_id cfg)) (pxe_id e) False \<in> set acts))"
proof -
  let ?t = "adopt_and_settle es now s"
  let ?s = "?t\<lparr>px_state := next_phoenix_state cfg ?t\<rparr>"
  have st: "px_state ?s \<in> {PERCHED, ASHES, VETOED}"
    using assms by (auto simp: next_phoenix_state_def)
  have eq: "determine_executor_actions cfg es now s =
      (fst (halt_actions cfg es now ?s), Inr (snd (halt_actions cfg es now ?s)))"
    using st by (auto simp: determine_executor_actions_def Let_def split: prod.split)
  have "StopExecutorAction (Some (pxc_id cfg)) (pxe_id e) False \<in> set (snd (halt_actions cfg es now ?s))"
    if "active_executor es = Some e" "px_stop_requested_id s \<noteq> Some (pxe_id e)" for e
    using that by (auto simp: halt_actions_def Let_def split: prod.split option.split)
  then show ?thesis
    using st halt_actions_frame [of cfg es now ?s] by (auto simp: eq)
qed

section \<open>Positions the controller opens\<close>

lemma pick_side_frame:
  "pick_side cfg s = (s', sd) \<Longrightarrow> equity cfg s' = equity cfg s \<and> available_quote cfg s' = available_quote cfg s
     \<and> px_hold_base s' = px_hold_base s \<and> px_pool_price s' = px_pool_price s
     \<and> px_state s' = px_state s \<and> deploy_amount_quote cfg s' = deploy_amount_quote cfg s"
  by (auto simp: pick_side_def Let_def equity_def available_quote_def price_or_zero_def deploy_amount_quote_def
      split: if_splits)

lemma band_sides_of_price:
  "band_sides sd price center width = (lower, upper) \<Longrightarrow>
     (sd = BUY \<longrightarrow> upper \<le> price * 0.9995) \<and> (sd \<noteq> BUY \<longrightarrow> price * 1.0005 \<le> lower)"
  by (auto simp: band_sides_def Let_def split: if_splits)

lemma band_of_spread_cases:
  "band_of_spread cfg s sd price l = (lower, upper, lower_limit, upper_limit) \<Longrightarrow>
     (\<exists>c w. band_sides sd price c w = (lower, upper))
     \<and> lower_limit = lower * (1 - pxc_protective_zone_pct cfg / 100)
     \<and> upper_limit = upper * (1 + pxc_upper_rebalance_pct cfg / 100)"
  unfolding band_of_spread_def Let_def by (split prod.splits) (metis prod.inject surj_pair)

lemma band_of_price:
  assumes "band cfg s sd price = Inr (lower, upper, lower_limit, upper_limit)"
  shows "(sd = BUY \<longrightarrow> upper \<le> price * 0.9995) \<and> (sd \<noteq> BUY \<longrightarrow> price * 1.0005 \<le> lower)"
proof -
  obtain l where "band_of_spread cfg s sd price l = (lower, upper, lower_limit, upper_limit)"
    using assms unfolding band_def by (auto simp only: ebind_eq_Inr_iff sum.inject)
  then show ?thesis using band_of_spread_cases band_sides_of_price by blast
qed

lemma deploy_bounds:
  assumes "deploy_amount_quote cfg s > 0"
  shows "deploy_amount_quote cfg s \<le> pxc_kelly_fraction cfg * equity cfg s"
    and "deploy_amount_quote cfg s \<le> pxc_total_amount_quote cfg * pxc_max_compound_factor cfg"
proof -
  have le: "deploy_amount_quote cfg s \<le> max (equity cfg s) 0 * pxc_kelly_fraction cfg"
    by (simp add: deploy_amount_quote_def Let_def)
  then have "equity cfg s > 0" using assms by (cases "equity cfg s > 0") (auto simp: max_def)
  then show "deploy_amount_quote cfg s \<le> pxc_kelly_fraction cfg * equity cfg s"
    using le by (simp add: max_def mult.commute)
  show "deploy_amount_quote cfg s \<le> pxc_total_amount_quote cfg * pxc_max_compound_factor cfg"
    by (simp add: deploy_amount_quote_def Let_def)
qed

definition funded_position :: "phoenix_config \<Rightarrow> phoenix \<Rightarrow> real \<Rightarrow> lp_executor_config \<Rightarrow> bool" where
  "funded_position cfg s price c =
     (lpc_lower_price c < lpc_upper_price c
      \<and> (lpc_side c = BUY \<longrightarrow>
           lpc_base_amount c = 0 \<and> 1 \<le> lpc_quote_amount c \<and> lpc_quote_amount c \<le> available_quote cfg s
           \<and> lpc_quote_amount c \<le> pxc_kelly_fraction cfg * equity cfg s
           \<and> lpc_upper_price c \<le> price * 0.9995)
      \<and> (lpc_side c \<noteq> BUY \<longrightarrow>
           lpc_quote_amount c = 0 \<and> 1 \<le> lpc_base_amount c * price \<and> lpc_base_amount c \<le> px_hold_base s
           \<and> lpc_base_amount c * price \<le> pxc_kelly_fraction cfg * equity cfg s
           \<and> price * 1.0005 \<le> lpc_lower_price c))"

lemma propose_position_funded:
  assumes "propose_position cfg now s sd price deploy (lower, upper, ll, ul) = Some c"
    and "band cfg s sd price = Inr (lower, upper, ll, ul)"
    and "price > 0" and "deploy \<le> pxc_kelly_fraction cfg * equity cfg s"
  shows "funded_position cfg s price c"
proof -
  obtain base_amt quote_amt where fa: "funded_amounts cfg s sd price deploy = (base_amt, quote_amt)" by fastforce
  have ok: "lower < upper" "1 \<le> (if sd = BUY then quote_amt else base_amt * price)"
    and c: "lpc_lower_price c = lower" "lpc_upper_price c = upper" "lpc_base_amount c = base_amt"
      "lpc_quote_amount c = quote_amt" "lpc_side c = sd"
    using assms(1) fa by (auto simp: propose_position_def split: if_splits)
  show ?thesis
    unfolding funded_position_def c
  proof (intro conjI impI)
    show "lower < upper" by (rule ok)
  next
    assume buy: "sd = BUY"
    then have amt: "base_amt = 0" "quote_amt = min deploy (available_quote cfg s)"
      using fa by (auto simp: funded_amounts_def)
    show "base_amt = 0" "1 \<le> quote_amt" "quote_amt \<le> available_quote cfg s" "upper \<le> price * 0.9995"
      using ok(2) band_of_price [OF assms(2)] buy amt by auto
    show "quote_amt \<le> pxc_kelly_fraction cfg * equity cfg s"
      using amt(2) assms(4) by simp
  next
    assume sell: "sd \<noteq> BUY"
    then have amt: "quote_amt = 0" "base_amt = min (deploy / price) (max (px_hold_base s) 0)"
      using fa by (auto simp: funded_amounts_def)
    have "base_amt \<le> deploy / price" using amt(2) by simp
    then have "base_amt * price \<le> deploy" using assms(3) by (simp add: pos_le_divide_eq)
    then show "base_amt * price \<le> pxc_kelly_fraction cfg * equity cfg s" using assms(4) by linarith
    show one: "1 \<le> base_amt * price" using ok(2) sell by simp
    have "\<not> base_amt \<le> 0" using one mult_right_mono [of base_amt 0 price] assms(3) by auto
    then show "base_amt \<le> px_hold_base s" using amt(2) by (auto simp: min_def max_def split: if_splits)
    show "quote_amt = 0" by (fact amt(1))
    show "price * 1.0005 \<le> lower" using band_of_price [OF assms(2)] sell by blast
  qed
qed

lemma create_executor_config_funded:
  assumes "create_executor_config cfg now s = (s', Inr (Some c))"
  shows "px_state s' = px_state s"
    and "\<exists>price. px_pool_price s' = Some price \<and> price > 0 \<and> funded_position cfg s' price c"
proof -
  obtain price where some: "px_pool_price s = Some price"
    using assms by (cases "px_pool_price s") (simp_all add: create_executor_config_def)
  have "\<not> price \<le> 0"
  proof
    assume "price \<le> 0"
    then show False using assms some by (simp add: create_executor_config_def)
  qed
  note price = some this
  define deploy where "deploy = deploy_amount_quote cfg s"
  have pos: "\<not> deploy \<le> 0"
  proof
    assume "deploy \<le> 0"
    then show False using assms price by (simp add: create_executor_config_def deploy_def [symmetric])
  qed
  obtain s1 sd where pick: "pick_side cfg s = (s1, sd)" by fastforce
  note frame = pick_side_frame [OF pick]
  have run: "create_executor_config cfg now s =
      (s1, ebind (band cfg s1 sd price) (\<lambda>b. Inr (propose_position cfg now s1 sd price deploy b)))"
    using price pos pick unfolding create_executor_config_def deploy_def by (simp add: Let_def)
  have res: "s1 = s'" "ebind (band cfg s1 sd price) (\<lambda>b. Inr (propose_position cfg now s1 sd price deploy b)) = Inr (Some c)"
    using trans [OF run [symmetric] assms] by (blast dest: Pair_inject)+
  obtain t where t: "band cfg s1 sd price = Inr t" "propose_position cfg now s1 sd price deploy t = Some c"
    using res(2) by (cases "band cfg s1 sd price") simp_all
  obtain lower upper ll ul where "t = (lower, upper, ll, ul)" by (cases t)
  note b = t(1) [unfolded this] and c = t(2) [unfolded this] and s' = res(1) [symmetric]
  have "deploy \<le> pxc_kelly_fraction cfg * equity cfg s1"
    using deploy_bounds(1) [of cfg s] pos frame by (simp add: deploy_def)
  then have "funded_position cfg s1 price c"
    using propose_position_funded [OF c b] price(2) by simp
  then show "\<exists>price. px_pool_price s' = Some price \<and> price > 0 \<and> funded_position cfg s' price c"
    using price frame s' by auto
  show "px_state s' = px_state s" using frame s' by simp
qed

text \<open>
  C18: Every position the controller opens is opened from FLYING with no active position, is a
  proper interval entirely below (bid) or above (ask) the pool price, holds one token only, is
  worth at least one quote unit, and takes no more than the wallet has and no more than the Kelly
  fraction of the equity.
\<close>

theorem opened_positions_are_funded:
  assumes "determine_executor_actions cfg es now s = (s', Inr acts)"
    and "CreateExecutorAction cid (LPConfig c) \<in> set acts"
  shows "px_state s' = FLYING \<and> active_executor es = None
     \<and> (\<exists>price. px_pool_price s' = Some price \<and> price > 0 \<and> funded_position cfg s' price c)"
proof -
  let ?t = "adopt_and_settle es now s"
  let ?s = "?t\<lparr>px_state := next_phoenix_state cfg ?t\<rparr>"
  let ?ready = "px_state ?s = FLYING \<and> active_executor es = None \<and> px_flatten_executor_id ?s = None
                 \<and> now - px_last_close_ts ?s \<ge> of_int (pxc_min_rebalance_interval cfg)"
  have halt: "px_state ?s \<notin> set [VETOED, ASHES, PERCHED]"
  proof
    assume "px_state ?s \<in> set [VETOED, ASHES, PERCHED]"
    then have "acts = snd (halt_actions cfg es now ?s)"
      using assms(1) by (cases "halt_actions cfg es now ?s") (auto simp: determine_executor_actions_def Let_def)
    then show False using assms(2) halt_actions_frame(2) [of cfg es now ?s] by auto
  qed
  have ready: ?ready
  proof (rule ccontr)
    assume no: "\<not> ?ready"
    have "determine_executor_actions cfg es now s = (?s, Inr [])"
      unfolding determine_executor_actions_def Let_def if_not_P [OF halt] if_not_P [OF no] by (rule refl)
    then show False using assms by simp
  qed
  obtain s3 r where cr: "create_executor_config cfg now ?s = (s3, r)" by fastforce
  have "determine_executor_actions cfg es now s =
      (s3, ebind r (\<lambda>c. Inr (case c of None \<Rightarrow> []
         | Some c' \<Rightarrow> [CreateExecutorAction (Some (pxc_id cfg)) (LPConfig c')])))"
    unfolding determine_executor_actions_def Let_def if_not_P [OF halt] if_P [OF ready] cr by simp
  then have "r = Inr (Some c)" "s3 = s'"
    using assms by (cases r; auto split: option.splits)+
  then have some: "create_executor_config cfg now ?s = (s', Inr (Some c))" using cr by simp
  show ?thesis
    using ready create_executor_config_funded [OF some] by simp
qed

section \<open>The cascade score\<close>

lemma excitation_nonneg: "beta \<ge> 0 \<Longrightarrow> n \<ge> 0 \<Longrightarrow> excitation beta n events i \<ge> 0"
  by (auto simp: excitation_def Let_def intro!: sum_list_nonneg)

lemma em_count_nonneg:
  assumes "beta \<ge> 0" "n \<ge> 0" "snd acc \<ge> 0"
  shows "snd (em_count beta mu n events acc i) \<ge> 0"
  using assms excitation_nonneg [OF assms(1,2), of events i] by (auto simp: em_count_def Let_def)

lemma em_step_range:
  assumes "beta \<ge> 0" "0 \<le> snd p"
  shows "0 \<le> snd (em_step beta window events p) \<and> snd (em_step beta window events p) \<le> 0.98"
proof -
  obtain mu n where p: "p = (mu, n)" by (cases p)
  have "snd (foldl (em_count beta mu n events) acc is) \<ge> 0" if "snd acc \<ge> 0" for acc "is"
    using that
  proof (induction "is" arbitrary: acc)
    case (Cons i "is")
    then show ?case using em_count_nonneg [OF assms(1), of n acc mu events i] assms(2) p by simp
  qed simp
  then have endo: "snd (foldl (em_count beta mu n events) (0, 0) [0..<length events]) \<ge> 0" by simp
  show ?thesis
  proof (cases "foldl (em_count beta mu n events) (0, 0) [0..<length events]")
    case (Pair exo e)
    then have "e \<ge> 0" using endo by simp
    then have "0 \<le> e / real (length events)" by simp
    then show ?thesis by (simp add: em_step_def p Pair min_def)
  qed
qed

lemma hawkes_branching_ratio_range:
  assumes "pxc_hawkes_decay_seconds cfg > 0" and "hawkes_branching_ratio cfg events now = Inr r"
  shows "0 \<le> r \<and> r \<le> 0.98"
proof (cases "int (length events) < pxc_hawkes_min_events cfg")
  case True
  then show ?thesis using assms(2) by (simp add: hawkes_branching_ratio_def)
next
  case False
  define beta where "beta = 1 / pxc_hawkes_decay_seconds cfg"
  have "beta \<ge> 0" using assms(1) by (simp add: beta_def)
  define window where "window = max (now - hd events) 1"
  define p where "p = (real (length events) / window * 0.5, 0.5 :: real)"
  have p: "0 \<le> snd p" "snd p \<le> 0.98" by (simp_all add: p_def)
  have r: "r = snd ((em_step beta window events ^^ 15) p)"
    using assms False
    by (simp add: hawkes_branching_ratio_def rdiv_def Let_def beta_def window_def p_def split: if_splits)
  have "0 \<le> snd ((em_step beta window events ^^ k) p) \<and> snd ((em_step beta window events ^^ k) p) \<le> 0.98" for k
    using p em_step_range [OF \<open>beta \<ge> 0\<close>] by (induction k) auto
  then show ?thesis by (simp add: r)
qed

text \<open>
  The cascade score of a tick lies between 0 and 0.98, so a panic ratio above 0.98 switches
  the cascade detector off.
\<close>

theorem cascade_score_range:
  assumes "pxc_hawkes_decay_seconds cfg > 0" and "pxc_hawkes_min_events cfg > 0"
    and "refresh_branching cfg now s = (s', None)"
  shows "0 \<le> px_branching_ratio s' \<and> px_branching_ratio s' \<le> 0.98"
proof -
  let ?es = "dropWhile (\<lambda>t. t < now - of_int (pxc_hawkes_window cfg)) (px_events s)"
  obtain r where r: "hawkes_branching_ratio cfg ?es now = Inr r"
    using assms(3) by (cases "hawkes_branching_ratio cfg ?es now") (auto simp: refresh_branching_def Let_def)
  define recent where "recent = real (length (filter (\<lambda>t. t > now - 2 * pxc_hawkes_decay_seconds cfg) ?es))"
  define x where "x = recent / (2 * of_int (pxc_hawkes_min_events cfg))"
  have "0 \<le> x" using assms(2) by (simp add: x_def recent_def)
  moreover have "px_branching_ratio s' = max r (min x 0.95)"
    using assms(2,3) r by (auto simp: refresh_branching_def Let_def rdiv_def x_def recent_def)
  ultimately show ?thesis using hawkes_branching_ratio_range [OF assms(1) r] by auto
qed

section \<open>A second position\<close>

lemma find_executor_id: "find_executor i es = Some e \<Longrightarrow> pxe_id e = i \<and> e \<in> set es"
  by (auto simp: find_executor_def find_Some_iff)

text \<open>
  An executor that is shutting down is not active and not settled, and its id does not hold the
  controller back: back in FLYING it opens a second position while the first is still closing,
  and keeps the first one's id, so that the second is not the one it will settle.
\<close>

theorem second_position_while_closing:
  assumes "px_current_executor_id s = Some i" and "find_executor i es = Some e"
    and "pxe_status e = SHUTTING_DOWN" and "active_executor es = None" and "px_flatten_executor_id s = None"
    and "next_phoenix_state cfg s = FLYING" and "now - px_last_close_ts s \<ge> of_int (pxc_min_rebalance_interval cfg)"
    and "create_executor_config cfg now (s\<lparr>px_state := FLYING\<rparr>) = (s', Inr (Some c))"
  shows "determine_executor_actions cfg es now s = (s', Inr [CreateExecutorAction (Some (pxc_id cfg)) (LPConfig c)])
    \<and> (\<forall>es' e' now'. active_executor es' = Some e' \<longrightarrow> px_current_executor_id (adopt_and_settle es' now' s') = Some i)"
proof -
  have adopt: "adopt_and_settle es now s = s"
    using assms(1-5) by (simp add: adopt_and_settle_def settle_closed_executor_def settle_flatten_executor_def)
  have created: "determine_executor_actions cfg es now s = (s', Inr [CreateExecutorAction (Some (pxc_id cfg)) (LPConfig c)])"
    using assms(4-8) by (simp add: determine_executor_actions_def adopt Let_def)
  have "px_current_executor_id (fst (pick_side cfg t)) = px_current_executor_id t" for t
    by (simp add: pick_side_def Let_def)
  then have "px_current_executor_id (fst (create_executor_config cfg now t)) = px_current_executor_id t" for t
    by (simp add: create_executor_config_def Let_def split: option.split prod.split) (metis fst_conv)
  from this [of "s\<lparr>px_state := FLYING\<rparr>"] have cur: "px_current_executor_id s' = Some i"
    using assms(1,8) by simp
  have "px_current_executor_id (settle_flatten_executor es' t) = px_current_executor_id t" for es' t
    by (simp add: settle_flatten_executor_def settle_flatten_of_def Let_def split: option.split flatten_id.split)
  then show ?thesis using created cur by (simp add: adopt_and_settle_def)
qed

section \<open>Witnesses\<close>

text \<open>The defaults of the configuration, and a pool at a steady price of 100.\<close>

definition demo_phoenix_config :: phoenix_config where
  "demo_phoenix_config =
     \<lparr>pxc_id = ''phoenix'', pxc_connector_name = ''solana-mainnet-beta'', pxc_trading_pair = ''SOL-USDC'',
      pxc_pool_address = ''pool'', pxc_lp_provider = ''meteora/clmm'', pxc_banned_ca_suffixes = [''pump''],
      pxc_min_pool_fee_pct = 0.25, pxc_total_amount_quote = 10, pxc_kelly_fraction = 0.4,
      pxc_max_compound_factor = 5, pxc_ashes_floor_pct = 0.6, pxc_as_gamma = 0.8, pxc_as_kappa = 150,
      pxc_as_horizon_seconds = 3600, pxc_min_width_pct = 0.4, pxc_max_width_pct = 8, pxc_trend_lean = 0.5,
      pxc_upper_rebalance_pct = 0.5, pxc_protective_zone_pct = 8, pxc_min_rebalance_interval = 300,
      pxc_flip_hysteresis = 0.1, pxc_sample_interval = 5, pxc_vol_window = 240, pxc_ema_fast = 20,
      pxc_ema_slow = 80, pxc_rsi_length = 14, pxc_min_samples = 60, pxc_hawkes_event_pct = 0.3,
      pxc_hawkes_window = 900, pxc_hawkes_decay_seconds = 30, pxc_hawkes_min_events = 5,
      pxc_panic_branching_ratio = 0.7, pxc_resume_branching_ratio = 0.4, pxc_panic_flatten = True\<rparr>"

definition demo_flying :: "string option \<Rightarrow> phoenix" where
  "demo_flying cur = new_phoenix\<lparr>px_state := FLYING, px_pool_price := Some 100, px_venue_checked := True,
      px_samples := replicate 60 (0, 100), px_current_executor_id := cur\<rparr>"

definition demo_closing_lp :: phoenix_executor where
  "demo_closing_lp = \<lparr>pxe_id = ''lp1'', pxe_type = ''lp_executor'', pxe_level_id = None, pxe_is_active = False,
      pxe_status = SHUTTING_DOWN, pxe_close_type = Some EARLY_STOP, pxe_custom_info = []\<rparr>"

definition demo_active_lp :: phoenix_executor where
  "demo_active_lp = \<lparr>pxe_id = ''lp1'', pxe_type = ''lp_executor'', pxe_level_id = None, pxe_is_active = True,
      pxe_status = RUNNING, pxe_close_type = None, pxe_custom_info = []\<rparr>"

lemmas demo_phoenix_defs = demo_phoenix_config_def demo_flying_def new_phoenix_def

lemma demo_position:
  "\<exists>s' c. create_executor_config demo_phoenix_config 400 ((demo_flying cur)\<lparr>px_state := FLYING\<rparr>) = (s', Inr (Some c))"
proof -
  let ?s = "(demo_flying cur)\<lparr>px_state := FLYING\<rparr>" and ?cfg = demo_phoenix_config
  have deploy: "deploy_amount_quote ?cfg ?s = 4"
    by (simp add: deploy_amount_quote_def equity_def price_or_zero_def demo_phoenix_defs)
  have pick: "pick_side ?cfg ?s = (?s, BUY)"
    unfolding pick_side_def deploy Let_def by (simp add: price_or_zero_def demo_phoenix_defs)
  define base where "base = ln (1 + 0.8 / 150) / (0.8 :: real)"
  have band: "band ?cfg ?s BUY 100 = Inr (band_of_spread ?cfg ?s BUY 100 base)"
    by (simp add: band_def rdiv_def math_log_def base_def demo_phoenix_config_def)
  obtain w where w: "w > 0" and b: "band_of_spread ?cfg ?s BUY 100 base =
      (99.95 * (1 - w), 99.95, 99.95 * (1 - w) * (1 - 8 / 100), 99.95 * (1 + 0.5 / 100))"
  proof -
    have sig: "px_sigma_sample ?s = 0" "px_trend ?s = 0" by (simp_all add: demo_phoenix_defs)
    have "band_of_spread ?cfg ?s BUY 100 base =
        (99.95 * (1 - band_width ?cfg base), 99.95, 99.95 * (1 - band_width ?cfg base) * (1 - 8 / 100), 99.95 * (1 + 0.5 / 100))"
      unfolding band_of_spread_def Let_def sig
      by (simp add: band_sides_def Let_def demo_phoenix_config_def)
    moreover have "band_width ?cfg base > 0"
      by (simp add: band_width_def demo_phoenix_config_def less_max_iff_disj)
    ultimately show thesis using that by blast
  qed
  have avail: "available_quote ?cfg ?s = 10"
    by (simp add: available_quote_def demo_phoenix_defs)
  have price: "px_pool_price ?s = Some 100" by (simp add: demo_phoenix_defs)
  have "\<exists>c. propose_position ?cfg 400 ?s BUY 100 4 (band_of_spread ?cfg ?s BUY 100 base) = Some c"
    unfolding b propose_position_def funded_amounts_def avail using w by simp
  then show ?thesis
    unfolding create_executor_config_def price deploy Let_def by (simp add: pick band)
qed

lemma demo_next_state: "next_phoenix_state demo_phoenix_config (demo_flying (Some ''lp1'')) = FLYING"
  by (simp add: next_phoenix_state_def sampled_state_def equity_def price_or_zero_def demo_phoenix_defs)

lemma demo_current: "px_current_executor_id (demo_flying (Some ''lp1'')) = Some ''lp1''" "px_flatten_executor_id (demo_flying (Some ''lp1'')) = None"
    "400 - px_last_close_ts (demo_flying (Some ''lp1'')) \<ge> of_int (pxc_min_rebalance_interval demo_phoenix_config)"
  by (simp_all add: demo_phoenix_defs)

lemma demo_closing_found: "find_executor ''lp1'' [demo_closing_lp] = Some demo_closing_lp"
    "pxe_status demo_closing_lp = SHUTTING_DOWN" "active_executor [demo_closing_lp] = None"
  by (simp_all add: find_executor_def active_executor_def demo_closing_lp_def)

theorem second_position_while_closing_witness:
  "\<exists>s' c. determine_executor_actions demo_phoenix_config [demo_closing_lp] 400 (demo_flying (Some ''lp1'')) =
     (s', Inr [CreateExecutorAction (Some (pxc_id demo_phoenix_config)) (LPConfig c)])"
proof -
  obtain s' c where "create_executor_config demo_phoenix_config 400 ((demo_flying (Some ''lp1''))\<lparr>px_state := FLYING\<rparr>) = (s', Inr (Some c))"
    using demo_position by blast
  from second_position_while_closing [OF demo_current(1) demo_closing_found demo_current(2) demo_next_state demo_current(3) this]
  show ?thesis by blast
qed

theorem opened_positions_are_funded_witness:
  "\<exists>s' c price. determine_executor_actions demo_phoenix_config [] 400 (demo_flying None) =
     (s', Inr [CreateExecutorAction (Some ''phoenix'') (LPConfig c)]) \<and> px_pool_price s' = Some price
     \<and> funded_position demo_phoenix_config s' price c"
proof -
  obtain s' c where cr: "create_executor_config demo_phoenix_config 400 ((demo_flying None)\<lparr>px_state := FLYING\<rparr>) = (s', Inr (Some c))"
    using demo_position by blast
  have adopt: "adopt_and_settle [] 400 (demo_flying None) = demo_flying None"
    by (simp add: adopt_and_settle_def settle_closed_executor_def settle_flatten_executor_def active_executor_def demo_phoenix_defs)
  have next_state: "next_phoenix_state demo_phoenix_config (demo_flying None) = FLYING"
    by (simp add: next_phoenix_state_def sampled_state_def equity_def price_or_zero_def demo_phoenix_defs)
  have due: "px_flatten_executor_id (demo_flying None) = None"
      "400 - px_last_close_ts (demo_flying None) \<ge> of_int (pxc_min_rebalance_interval demo_phoenix_config)"
    by (simp_all add: demo_phoenix_defs)
  have run: "determine_executor_actions demo_phoenix_config [] 400 (demo_flying None) =
      (s', Inr [CreateExecutorAction (Some (pxc_id demo_phoenix_config)) (LPConfig c)])"
    using cr due by (simp add: determine_executor_actions_def adopt next_state Let_def active_executor_def)
  have "pxc_id demo_phoenix_config = ''phoenix''" by (simp add: demo_phoenix_config_def)
  then show ?thesis
    using opened_positions_are_funded [OF run, of "Some (pxc_id demo_phoenix_config)" c] run by auto
qed

theorem ashes_and_veto_are_final_witness:
  "px_state (fst (phoenix_run demo_phoenix_config [\<lparr>in_pool = Some \<lparr>pi_price = 90, pi_fee_pct = 1, pi_base_token_address = ''m''\<rparr>,
      in_executors = [demo_active_lp], in_now = 400\<rparr>] ((demo_flying (Some ''lp1''))\<lparr>px_state := ASHES\<rparr>))) \<in> {VETOED, ASHES}"
  by (rule ashes_and_veto_are_final [THEN conjunct1]) simp

theorem cascade_pulls_position_witness:
  "\<exists>acts. snd (determine_executor_actions demo_phoenix_config [demo_active_lp] 400 ((demo_flying (Some ''lp1''))\<lparr>px_branching_ratio := 0.8\<rparr>)) = Inr acts
     \<and> StopExecutorAction (Some ''phoenix'') ''lp1'' False \<in> set acts"
proof -
  have "px_branching_ratio ((demo_flying (Some ''lp1''))\<lparr>px_branching_ratio := 0.8\<rparr>) \<ge> pxc_panic_branching_ratio demo_phoenix_config"
    by (simp add: demo_phoenix_defs)
  moreover have "active_executor [demo_active_lp] = Some demo_active_lp" "pxe_id demo_active_lp = ''lp1''"
    "px_stop_requested_id ((demo_flying (Some ''lp1''))\<lparr>px_branching_ratio := 0.8\<rparr>) \<noteq> Some ''lp1''" "pxc_id demo_phoenix_config = ''phoenix''"
    by (simp_all add: active_executor_def demo_active_lp_def demo_phoenix_defs)
  ultimately show ?thesis
    using cascade_pulls_position [of demo_phoenix_config "(demo_flying (Some ''lp1''))\<lparr>px_branching_ratio := 0.8\<rparr>" "[demo_active_lp]" 400] by metis
qed

theorem cascade_score_range_witness:
  "\<exists>s'. refresh_branching demo_phoenix_config 400 ((demo_flying (Some ''lp1''))\<lparr>px_events := [390, 390]\<rparr>) = (s', None)
     \<and> 0 \<le> px_branching_ratio s' \<and> px_branching_ratio s' \<le> 0.98"
proof -
  have "pxc_hawkes_decay_seconds demo_phoenix_config > 0" "pxc_hawkes_min_events demo_phoenix_config > 0"
    by (simp_all add: demo_phoenix_config_def)
  moreover have "\<exists>s'. refresh_branching demo_phoenix_config 400 ((demo_flying (Some ''lp1''))\<lparr>px_events := [390, 390]\<rparr>) = (s', None)"
    by (simp add: refresh_branching_def hawkes_branching_ratio_def rdiv_def Let_def demo_phoenix_config_def)
  ultimately show ?thesis using cascade_score_range by blast
qed

end
