(* ===== verification/LP_Accounting.thy ===== *)
theory LP_Accounting
  imports LP_Safety Phoenix_Safety
begin

text \<open>
  What becomes of a liquidity position in the books of those who own its executor: the net trade
  the LP executor keeps for \<open>PositionHold\<close>, and the holdings that the controller
  \<open>phoenix_lp.py\<close> settles from the figures of \<open>get_custom_info\<close>.
\<close>

section \<open>The net position\<close>

lemma read_held_lp_order:
  "read_held_order (held_lp_order oid tt price base qt fee) =
     Inr \<lparr>ho_id = Some oid, ho_is_buy = (tt = ''BUY''), ho_base = base, ho_quote = qt, ho_fee = fee\<rparr>"
  by (simp add: held_lp_order_def read_held_order_def json_decimal_def)

lemma lp_executor_info_fields:
  "lp_executor_info env x = Inr i \<Longrightarrow>
   ei_held_position_orders i = Some (ex_held_position_orders x) \<and> ei_side i = Some (lc_side (lx_config x))"
  by (auto simp: lp_executor_info_def ebind_eq_Inr_iff)

lemma one_held_order_booked:
  assumes "lp_executor_info env x = Inr i" and "ex_held_position_orders x = [held_lp_order oid tt price base qt fee]"
    and "base > 0 \<or> base = 0 \<and> qt = 0" and "Some oid \<notin> ph_order_ids p"
  shows "\<exists>q. add_orders_from_executor i p = (q, None)
     \<and> (\<forall>mid. position_value mid q = position_value mid p + (if tt = ''BUY'' then base * mid - qt else qt - base * mid))
     \<and> ph_cum_fees_quote q = ph_cum_fees_quote p + fee"
proof -
  have i: "ei_side i = Some (lc_side (lx_config x))" "ei_held_position_orders i = Some [held_lp_order oid tt price base qt fee]"
    using lp_executor_info_fields [OF assms(1)] assms(2) by auto
  have rd: "emap read_held_order [held_lp_order oid tt price base qt fee] =
      Inr [\<lparr>ho_id = Some oid, ho_is_buy = (tt = ''BUY''), ho_base = base, ho_quote = qt, ho_fee = fee\<rparr>]"
    by (simp add: read_held_lp_order)
  obtain q where q: "add_held_orders i [held_lp_order oid tt price base qt fee] p = (q, None)"
      "booked p (fresh_orders (ph_order_ids p)
         [\<lparr>ho_id = Some oid, ho_is_buy = (tt = ''BUY''), ho_base = base, ho_quote = qt, ho_fee = fee\<rparr>]) q"
    using add_held_orders_booked [OF rd _ i(1)] assms(3) by (auto simp: held_order_ok_def)
  then show ?thesis
    using i(2) assms(4) by (auto simp: add_orders_from_executor_def booked_def order_value_def)
qed

text \<open>What a removal leaves in the executor: the net trade of what came back against what was deposited.\<close>

lemma store_remove_held:
  assumes "native_to_quote_rate env x = Inr rate" and "lx_added x = Some (ab, aq, af)" and "ex_held_position_orders x = []"
    and "net_base = ls_base_amount (lx_position x) + ls_base_fee (lx_position x) - ab"
    and "net_quote = ls_quote_amount (lx_position x) + ls_quote_fee (lx_position x) - aq"
    and "net_trade_order sig mid net_base net_quote (af + fee * rate) = Some j"
    and "store_lp_event_from_remove env sig mid fee x = (y, None)"
  shows "ex_held_position_orders y = [j]"
  using assms by (auto simp: store_lp_event_from_remove_def Let_def)

text \<open>
  When the position was converted from one token into the other, the order kept for it moves
  the net position by exactly what came back less what was deposited, valued at any price, and
  adds the transaction fees of opening and closing.
\<close>

theorem converted_range_enters_position:
  assumes "native_to_quote_rate env x = Inr rate" and "lx_added x = Some (ab, aq, af)" and "ex_held_position_orders x = []"
    and "net_base = ls_base_amount (lx_position x) + ls_base_fee (lx_position x) - ab"
    and "net_quote = ls_quote_amount (lx_position x) + ls_quote_fee (lx_position x) - aq"
    and "net_base > 1 / 10000 \<and> net_quote < - (1 / 10000) \<or> net_base < - (1 / 10000) \<and> net_quote > 1 / 10000"
    and "store_lp_event_from_remove env sig mid fee x = (y, None)"
    and "lp_executor_info env' y = Inr i" and "Some sig \<notin> ph_order_ids p"
  shows "\<exists>q. add_orders_from_executor i p = (q, None)
     \<and> (\<forall>price. position_value price q = position_value price p + net_base * price + net_quote)
     \<and> ph_cum_fees_quote q = ph_cum_fees_quote p + (af + fee * rate)"
proof (cases "net_base > 0")
  case True
  with assms(6) have n: "net_base > 1 / 10000" "net_quote < - (1 / 10000)" by auto
  then have "net_trade_order sig mid net_base net_quote (af + fee * rate) =
      Some (held_lp_order sig ''BUY'' (\<bar>net_quote\<bar> / net_base) net_base \<bar>net_quote\<bar> (af + fee * rate))"
    by (auto simp: net_trade_order_def Let_def abs_if)
  note held = store_remove_held [OF assms(1-5) this assms(7)]
  from one_held_order_booked [OF assms(8) held _ assms(9)] True n(2) show ?thesis by (auto simp: abs_if)
next
  case False
  with assms(6) have n: "net_base < - (1 / 10000)" "net_quote > 1 / 10000" by auto
  then have "net_trade_order sig mid net_base net_quote (af + fee * rate) =
      Some (held_lp_order sig ''SELL'' (net_quote / \<bar>net_base\<bar>) \<bar>net_base\<bar> net_quote (af + fee * rate))"
    by (auto simp: net_trade_order_def Let_def abs_if)
  note held = store_remove_held [OF assms(1-5) this assms(7)]
  from one_held_order_booked [OF assms(8) held _ assms(9)] n show ?thesis by (auto simp: abs_if)
qed

text \<open>
  When a position earned in both tokens (its fees exceed the conversion), the gain is booked as
  a purchase at the market price: the profit of the net position at that price does not grow by
  anything, the quote that was gained is lost from the books and the gained base is worth what it
  appears to have cost.
\<close>

theorem gain_in_both_tokens_is_booked_as_purchase:
  assumes "native_to_quote_rate env x = Inr rate" and "lx_added x = Some (ab, aq, af)" and "ex_held_position_orders x = []"
    and "net_base = ls_base_amount (lx_position x) + ls_base_fee (lx_position x) - ab"
    and "net_quote = ls_quote_amount (lx_position x) + ls_quote_fee (lx_position x) - aq"
    and "net_base > 1 / 10000" and "net_quote \<ge> 0"
    and "store_lp_event_from_remove env sig mid fee x = (y, None)"
    and "lp_executor_info env' y = Inr i" and "Some sig \<notin> ph_order_ids p"
  shows "\<exists>q. add_orders_from_executor i p = (q, None)
     \<and> (\<forall>price. position_value price q = position_value price p + net_base * (price - mid))"
proof -
  have "net_trade_order sig mid net_base net_quote (af + fee * rate) =
      Some (held_lp_order sig ''BUY'' mid net_base (net_base * mid) (af + fee * rate))"
    using assms(6,7) by (auto simp: net_trade_order_def Let_def abs_if)
  note held = store_remove_held [OF assms(1-5) this assms(8)]
  from one_held_order_booked [OF assms(9) held _ assms(10)] assms(6) show ?thesis
    by (auto simp: right_diff_distrib)
qed

section \<open>The holdings of the controller\<close>

text \<open>The executor as the controller sees it.\<close>

definition phoenix_view :: "lp_executor \<Rightarrow> phoenix_executor" where
  "phoenix_view x =
     \<lparr>pxe_id = lc_id (lx_config x), pxe_type = ''lp_executor'', pxe_level_id = None, pxe_is_active = ex_is_active x,
      pxe_status = ex_status x, pxe_close_type = ex_close_type x,
      pxe_custom_info = map (\<lambda>(k, v). (k, real_of_rat v)) (lp_custom_figures x)\<rparr>"

lemma custom_figures [simp]:
  "custom_figure (phoenix_view x) ''base_amount'' = real_of_rat (ls_base_amount (lx_position x))"
  "custom_figure (phoenix_view x) ''quote_amount'' = real_of_rat (ls_quote_amount (lx_position x))"
  "custom_figure (phoenix_view x) ''base_fee'' = real_of_rat (ls_base_fee (lx_position x))"
  "custom_figure (phoenix_view x) ''quote_fee'' = real_of_rat (ls_quote_fee (lx_position x))"
  "custom_figure (phoenix_view x) ''initial_base_amount'' = real_of_rat
     (if ls_initial_base_amount (lx_position x) > 0 \<or> ls_initial_quote_amount (lx_position x) > 0
      then ls_initial_base_amount (lx_position x) else lc_base_amount (lx_config x))"
  "custom_figure (phoenix_view x) ''initial_quote_amount'' = real_of_rat
     (if ls_initial_base_amount (lx_position x) > 0 \<or> ls_initial_quote_amount (lx_position x) > 0
      then ls_initial_quote_amount (lx_position x) else lc_quote_amount (lx_config x))"
  by (simp_all add: custom_figure_def phoenix_view_def lp_custom_figures_def Let_def get_or_def dict_get_def)

lemma settle_view:
  assumes "px_current_executor_id s = Some (lc_id (lx_config x))" and "find_executor (lc_id (lx_config x)) es = Some (phoenix_view x)"
    and "ex_status x = TERMINATED" and "ex_close_type x \<noteq> Some FAILED_CLOSE"
  shows "settle_closed_executor es now s =
    s\<lparr>px_hold_base := px_hold_base s + base_net (phoenix_view x), px_hold_quote := px_hold_quote s + quote_net (phoenix_view x),
      px_current_executor_id := None, px_last_close_ts := now\<rparr>"
proof -
  have "pxe_status (phoenix_view x) = TERMINATED" "pxe_close_type (phoenix_view x) \<noteq> Some FAILED_CLOSE"
    using assms(3,4) by (simp_all add: phoenix_view_def)
  then show ?thesis using assms(1,2) by (simp add: settle_closed_executor_def)
qed

text \<open>
  A position that was opened and closed changes the holdings of the controller by exactly what
  the executor got back, fees included, less what it deposited, so the equity moves by the value
  of that difference at the pool's price.
\<close>

theorem settlement_books_net_change:
  assumes "px_current_executor_id s = Some (lc_id (lx_config x))" and "find_executor (lc_id (lx_config x)) es = Some (phoenix_view x)"
    and "ex_status x = TERMINATED" and "ex_close_type x \<noteq> Some FAILED_CLOSE"
    and "ls_initial_base_amount (lx_position x) > 0 \<or> ls_initial_quote_amount (lx_position x) > 0"
  shows "equity cfg (settle_closed_executor es now s) = equity cfg s
      + real_of_rat (net_base_difference x) * price_or_zero s
      + real_of_rat (ls_quote_amount (lx_position x) + ls_quote_fee (lx_position x) - ls_initial_quote_amount (lx_position x))"
  using assms(5)
  by (auto simp: settle_view [OF assms(1-4)] equity_def base_net_def quote_net_def net_base_difference_def price_or_zero_def Let_def
      of_rat_add of_rat_diff algebra_simps)

lemma upd_position_same: "f (lx_position z) = lx_position z \<Longrightarrow> upd_position f z = z"
  by (cases z) simp

lemma stopped_before_opening:
  assumes "retries \<ge> 0" and "lpe_has_connector env"
    and "x = on_pool_reply env' q (lp_early_stop keep (begin_round env (lp_on_start prov (executor_start (new_lp_executor c retries)))))"
  shows "ex_status x = TERMINATED" and "ex_close_type x = Some (if keep then POSITION_HOLD else EARLY_STOP)"
    and "lx_calls x = []" and "lx_position x = new_lp_position\<lparr>ls_state := COMPLETE\<rparr>"
    and "lc_id (lx_config x) = lc_id c" and "lc_base_amount (lx_config x) = lc_base_amount c"
    and "lc_quote_amount (lx_config x) = lc_quote_amount c"
proof -
  let ?x0 = "lp_on_start prov (executor_start (new_lp_executor c retries))"
  have x0: "ls_position_address (lx_position ?x0) = None" "lx_position ?x0 = new_lp_position" "ex_status ?x0 = RUNNING"
      "lx_calls ?x0 = []" "ex_current_retries ?x0 = 0" "ex_max_retries ?x0 = retries"
      "lc_id (lx_config ?x0) = lc_id c" "lc_base_amount (lx_config ?x0) = lc_base_amount c"
      "lc_quote_amount (lx_config ?x0) = lc_quote_amount c"
    by (simp_all add: lp_on_start_def executor_start_def new_lp_executor_def new_lp_position_def Let_def)
  have new: "ls_state new_lp_position = NOT_ACTIVE" by (simp add: new_lp_position_def)
  let ?x1 = "lp_early_stop keep (begin_round env ?x0)"
  have x1: "lx_position ?x1 = new_lp_position\<lparr>ls_state := COMPLETE\<rparr>" "ex_status ?x1 = SHUTTING_DOWN"
      "ex_close_type ?x1 = Some (if keep then POSITION_HOLD else EARLY_STOP)"
      "lx_calls ?x1 = []" "ex_current_retries ?x1 = 0" "ex_max_retries ?x1 = retries"
      "lx_config ?x1 = lx_config ?x0"
    using assms(2) x0 new by (simp_all add: begin_round_def lp_early_stop_def set_lp_state_def Let_def)
  obtain v where x: "x = lp_rest env' (lp_stop env' (?x1\<lparr>lx_current_price := v\<rparr>))"
  proof -
    have round: "continue_round env' z = lp_rest env' (lp_stop env' z)"
      if "lx_position z = new_lp_position\<lparr>ls_state := COMPLETE\<rparr>" for z
    proof -
      have "upd_position (update_state (lx_current_price z) (Some (env_now env'))) z = z"
        by (rule upd_position_same) (simp add: that update_state_def)
      then show ?thesis by (simp add: continue_round_def dispatch_state_def that)
    qed
    have at: "lx_position (?x1\<lparr>lx_current_price := v\<rparr>) = new_lp_position\<lparr>ls_state := COMPLETE\<rparr>" for v
      using x1(1) by simp
    have priced: "\<exists>v. (case q of Reply (Some p) \<Rightarrow> z\<lparr>lx_current_price := Some p\<rparr> | _ \<Rightarrow> z) = z\<lparr>lx_current_price := v\<rparr>" for z
    proof (cases q)
      case (Reply p)
      then show ?thesis
        by (cases p) (use exI [where x = "lx_current_price z" and P = "\<lambda>v. z = z\<lparr>lx_current_price := v\<rparr>"] in \<open>simp_all, blast\<close>)
    next
      case (Raised msg)
      show ?thesis by (rule exI [of _ "lx_current_price z"]) (simp add: Raised)
    qed
    have "\<exists>v. x = continue_round env' (?x1\<lparr>lx_current_price := v\<rparr>)"
      unfolding assms(3) on_pool_reply_def using priced [of ?x1] by metis
    then show thesis using that round [OF at] by blast
  qed
  show "ex_status x = TERMINATED" "ex_close_type x = Some (if keep then POSITION_HOLD else EARLY_STOP)"
      "lx_calls x = []" "lx_position x = new_lp_position\<lparr>ls_state := COMPLETE\<rparr>"
      "lc_id (lx_config x) = lc_id c" "lc_base_amount (lx_config x) = lc_base_amount c"
      "lc_quote_amount (lx_config x) = lc_quote_amount c"
    using x1 x0(7-9) assms(1)
    by (simp_all add: x lp_rest_def lp_stop_def executor_stop_def evaluate_max_retries_def Let_def)
qed

text \<open>
  An executor that is stopped before it asks for its position ends as stopped, not as failed,
  and reports the amounts of its configuration as deposited and nothing as returned. The controller
  therefore settles a loss of the whole deployment although nothing was ever deposited.
\<close>

theorem unopened_position_settled_as_loss:
  assumes "retries \<ge> 0" and "lpe_has_connector env"
    and "x = on_pool_reply env' q (lp_early_stop keep (begin_round env (lp_on_start prov (executor_start (new_lp_executor c retries)))))"
    and "px_current_executor_id s = Some (lc_id c)" and "find_executor (lc_id c) es = Some (phoenix_view x)"
  shows "lp_adds x = 0 \<and> equity cfg (settle_closed_executor es now s) =
     equity cfg s - (real_of_rat (lc_base_amount c) * price_or_zero s + real_of_rat (lc_quote_amount c))"
proof -
  note x = stopped_before_opening [OF assms(1-3)]
  have "settle_closed_executor es now s = s\<lparr>px_hold_base := px_hold_base s + base_net (phoenix_view x),
      px_hold_quote := px_hold_quote s + quote_net (phoenix_view x), px_current_executor_id := None, px_last_close_ts := now\<rparr>"
    by (rule settle_view) (use x assms(4,5) in simp_all)
  then show ?thesis
    using x by (simp add: equity_def base_net_def quote_net_def price_or_zero_def new_lp_position_def lp_adds_def algebra_simps)
qed

section \<open>Witnesses\<close>

definition demo_kept_lp :: lp_executor where
  "demo_kept_lp = demo_lp_opened\<lparr>lx_added := Some (0, 4, 0),
     lx_position := (lx_position demo_lp_opened)\<lparr>ls_base_amount := 4 / 97, ls_quote_amount := 0, ls_quote_fee := 1 / 100\<rparr>\<rparr>"

definition demo_gaining_lp :: lp_executor where
  "demo_gaining_lp = demo_lp_opened\<lparr>lx_added := Some (0, 4, 0),
     lx_position := (lx_position demo_lp_opened)\<lparr>ls_base_fee := 1 / 50, ls_quote_fee := 1\<rparr>\<rparr>"

lemma demo_lp_stored:
  assumes "native_to_quote_rate demo_lp_env x = Inr r" and "lx_added x = Some (0, 4, 0)"
  shows "\<exists>y. store_lp_event_from_remove demo_lp_env ''sig2'' 94 0 x = (y, None)
    \<and> lx_config y = lx_config x \<and> lx_position y = lx_position x"
  using assms by (auto simp: store_lp_event_from_remove_def Let_def split: option.split)

lemma demo_lp_reports:
  assumes "lx_config y = demo_lp_config"
  shows "\<exists>i. lp_executor_info demo_lp_env y = Inr i"
proof -
  have pair: "split_hb_trading_pair (lc_trading_pair (lx_config y)) = Inr (''SOL'', ''USDC'')"
    unfolding assms by code_simp
  then have "\<exists>r. native_to_quote_rate demo_lp_env y = Inr r"
    by (simp add: native_to_quote_rate_def)
  then show ?thesis
    by (auto simp: lp_executor_info_def lp_net_pnl_pct_def lp_net_pnl_quote_def lp_cum_fees_quote_def Let_def)
qed

lemma demo_lp_rate: "lx_config x = demo_lp_config \<Longrightarrow> native_to_quote_rate demo_lp_env x = Inr 1"
proof -
  have "split_hb_trading_pair ''SOL-USDC'' = Inr (''SOL'', ''USDC'')" by code_simp
  then show "lx_config x = demo_lp_config \<Longrightarrow> native_to_quote_rate demo_lp_env x = Inr 1"
    by (simp add: native_to_quote_rate_def demo_lp_config_def demo_lp_env_def demo_env_def exec_env.extend_def)
qed

lemma demo_lp_opened_config: "lx_config demo_lp_opened = demo_lp_config"
  by code_simp

theorem converted_range_enters_position_witness:
  "\<exists>y i q. store_lp_event_from_remove demo_lp_env ''sig2'' 94 0 demo_kept_lp = (y, None)
     \<and> lp_executor_info demo_lp_env y = Inr i
     \<and> add_orders_from_executor i (new_position_hold ''solana'' ''SOL-USDC'' None) = (q, None)
     \<and> position_value 97 q = 1 / 100"
proof -
  have cfg: "lx_config demo_kept_lp = demo_lp_config" by (simp add: demo_kept_lp_def demo_lp_opened_config)
  note rate = demo_lp_rate [OF cfg]
  have added: "lx_added demo_kept_lp = Some (0, 4, 0)" by (simp add: demo_kept_lp_def)
  obtain y where y: "store_lp_event_from_remove demo_lp_env ''sig2'' 94 0 demo_kept_lp = (y, None)" "lx_config y = demo_lp_config"
    using demo_lp_stored [OF rate added] cfg by auto
  obtain i where i: "lp_executor_info demo_lp_env y = Inr i" using demo_lp_reports [OF y(2)] by blast
  have held: "ex_held_position_orders demo_kept_lp = []" by code_simp
  have nets: "4 / 97 = ls_base_amount (lx_position demo_kept_lp) + ls_base_fee (lx_position demo_kept_lp) - 0"
      "- (399 / 100) = ls_quote_amount (lx_position demo_kept_lp) + ls_quote_fee (lx_position demo_kept_lp) - 4"
    by code_simp+
  have conv: "4 / 97 > (1 / 10000 :: decimal) \<and> - (399 / 100) < - (1 / 10000 :: decimal) \<or>
      4 / 97 < - (1 / 10000 :: decimal) \<and> - (399 / 100) > (1 / 10000 :: decimal)" by simp
  have fresh: "Some ''sig2'' \<notin> ph_order_ids (new_position_hold ''solana'' ''SOL-USDC'' None)"
    by (simp add: new_position_hold_def)
  obtain q where "add_orders_from_executor i (new_position_hold ''solana'' ''SOL-USDC'' None) = (q, None)"
      "position_value 97 q = position_value 97 (new_position_hold ''solana'' ''SOL-USDC'' None) + 4 / 97 * 97 + - (399 / 100)"
    using converted_range_enters_position [OF rate added held nets conv y(1) i fresh] by blast
  moreover have "position_value 97 (new_position_hold ''solana'' ''SOL-USDC'' None) = 0"
    by (simp add: position_value_eq new_position_hold_def)
  ultimately show ?thesis using y(1) i by auto
qed

theorem gain_in_both_tokens_is_booked_as_purchase_witness:
  "\<exists>y i q. store_lp_event_from_remove demo_lp_env ''sig2'' 94 0 demo_gaining_lp = (y, None)
     \<and> lp_executor_info demo_lp_env y = Inr i
     \<and> add_orders_from_executor i (new_position_hold ''solana'' ''SOL-USDC'' None) = (q, None)
     \<and> position_value 94 q = 0"
proof -
  have cfg: "lx_config demo_gaining_lp = demo_lp_config" by (simp add: demo_gaining_lp_def demo_lp_opened_config)
  note rate = demo_lp_rate [OF cfg]
  have added: "lx_added demo_gaining_lp = Some (0, 4, 0)" by (simp add: demo_gaining_lp_def)
  obtain y where y: "store_lp_event_from_remove demo_lp_env ''sig2'' 94 0 demo_gaining_lp = (y, None)" "lx_config y = demo_lp_config"
    using demo_lp_stored [OF rate added] cfg by auto
  obtain i where i: "lp_executor_info demo_lp_env y = Inr i" using demo_lp_reports [OF y(2)] by blast
  have held: "ex_held_position_orders demo_gaining_lp = []" by code_simp
  have nets: "1 / 50 = ls_base_amount (lx_position demo_gaining_lp) + ls_base_fee (lx_position demo_gaining_lp) - 0"
      "1 = ls_quote_amount (lx_position demo_gaining_lp) + ls_quote_fee (lx_position demo_gaining_lp) - 4"
    by code_simp+
  have fresh: "Some ''sig2'' \<notin> ph_order_ids (new_position_hold ''solana'' ''SOL-USDC'' None)"
    by (simp add: new_position_hold_def)
  obtain q where "add_orders_from_executor i (new_position_hold ''solana'' ''SOL-USDC'' None) = (q, None)"
      "position_value 94 q = position_value 94 (new_position_hold ''solana'' ''SOL-USDC'' None) + 1 / 50 * (94 - 94)"
    using gain_in_both_tokens_is_booked_as_purchase [OF rate added held nets _ _ y(1) i fresh] by auto
  moreover have "position_value 94 (new_position_hold ''solana'' ''SOL-USDC'' None) = 0"
    by (simp add: position_value_eq new_position_hold_def)
  ultimately show ?thesis using y(1) i by auto
qed

text \<open>The controller with its defaults: 10 USDC, of which 4 are deployed.\<close>

theorem settlement_books_net_change_witness:
  "equity demo_phoenix_config (settle_closed_executor [phoenix_view demo_lp_ended] 400 (demo_flying (Some ''lp1'')))
     = 10 + real_of_rat (4 / 97) * 100 - 4"
proof -
  have x: "lc_id (lx_config demo_lp_ended) = ''lp1''" "ex_status demo_lp_ended = TERMINATED"
      "ex_close_type demo_lp_ended \<noteq> Some FAILED_CLOSE"
      "ls_initial_base_amount (lx_position demo_lp_ended) > 0 \<or> ls_initial_quote_amount (lx_position demo_lp_ended) > 0"
      "net_base_difference demo_lp_ended = 4 / 97"
      "ls_quote_amount (lx_position demo_lp_ended) + ls_quote_fee (lx_position demo_lp_ended)
         - ls_initial_quote_amount (lx_position demo_lp_ended) = - 4"
    by code_simp+
  have s: "px_current_executor_id (demo_flying (Some ''lp1'')) = Some (lc_id (lx_config demo_lp_ended))"
      "price_or_zero (demo_flying (Some ''lp1'')) = 100" "equity demo_phoenix_config (demo_flying (Some ''lp1'')) = 10"
    by (simp_all add: x(1) price_or_zero_def equity_def demo_phoenix_defs)
  have "find_executor (lc_id (lx_config demo_lp_ended)) [phoenix_view demo_lp_ended] = Some (phoenix_view demo_lp_ended)"
    by (simp add: find_executor_def phoenix_view_def)
  from settlement_books_net_change [OF s(1) this x(2-4)] show ?thesis by (simp add: s x(5,6) of_rat_minus)
qed

text \<open>The loss of a deposit that was never made is enough for the state ASHES.\<close>

theorem unopened_position_settled_as_loss_witness:
  "let x = on_pool_reply demo_lp_env (Reply (Some 100)) (lp_early_stop False
             (begin_round demo_lp_env (lp_on_start None (executor_start (new_lp_executor demo_lp_config 10)))))
   in lp_adds x = 0 \<and> equity demo_phoenix_config (settle_closed_executor [phoenix_view x] 400 (demo_flying (Some ''lp1''))) = 6
      \<and> next_phoenix_state demo_phoenix_config (settle_closed_executor [phoenix_view x] 400 (demo_flying (Some ''lp1''))) = ASHES"
proof -
  define x where "x = on_pool_reply demo_lp_env (Reply (Some 100)) (lp_early_stop False
      (begin_round demo_lp_env (lp_on_start None (executor_start (new_lp_executor demo_lp_config 10)))))"
  have env: "lpe_has_connector demo_lp_env" by (simp add: demo_lp_env_def exec_env.extend_def)
  have c: "lc_id demo_lp_config = ''lp1''" "lc_base_amount demo_lp_config = 0" "lc_quote_amount demo_lp_config = 4"
    by (simp_all add: demo_lp_config_def)
  have s: "px_current_executor_id (demo_flying (Some ''lp1'')) = Some (lc_id demo_lp_config)"
      "price_or_zero (demo_flying (Some ''lp1'')) = 100" "equity demo_phoenix_config (demo_flying (Some ''lp1'')) = 10"
      "px_state (demo_flying (Some ''lp1'')) = FLYING"
    by (simp_all add: c price_or_zero_def equity_def demo_phoenix_defs)
  note ended = stopped_before_opening [OF _ env x_def]
  have find: "find_executor (lc_id demo_lp_config) [phoenix_view x] = Some (phoenix_view x)"
    using ended(5) by (simp add: find_executor_def phoenix_view_def)
  have eq: "lp_adds x = 0 \<and> equity demo_phoenix_config (settle_closed_executor [phoenix_view x] 400 (demo_flying (Some ''lp1''))) = 6"
    using unopened_position_settled_as_loss [OF _ env x_def s(1) find, of demo_phoenix_config 400] by (simp add: s c)
  have "px_pool_price (settle_closed_executor [phoenix_view x] 400 t) = px_pool_price t
      \<and> px_state (settle_closed_executor [phoenix_view x] 400 t) = px_state t" for t
    by (simp add: settle_closed_executor_def Let_def split: option.split)
  then have "price_or_zero (settle_closed_executor [phoenix_view x] 400 (demo_flying (Some ''lp1''))) = 100"
      "px_state (settle_closed_executor [phoenix_view x] 400 (demo_flying (Some ''lp1''))) = FLYING"
    using s by (simp_all add: price_or_zero_def)
  then have "next_phoenix_state demo_phoenix_config (settle_closed_executor [phoenix_view x] 400 (demo_flying (Some ''lp1''))) = ASHES"
    using eq unfolding next_phoenix_state_def by (simp add: demo_phoenix_config_def)
  then show ?thesis using eq by (simp add: x_def Let_def)
qed

end
