(* ===== verification/Market_Making.thy ===== *)
theory Market_Making
  imports Orchestrator Trading_Rules
begin

text \<open>
  The market making controllers: \<open>strategy_v2/controllers/market_making_controller_base.py\<close>, which
  quotes each level of a ladder with at most one executor, and \<open>controllers/market_making/pmm_phoenix.py\<close>,
  the market maker for very small bankrolls built on it. The hooks the base class leaves to its
  subclasses are arguments of its operations and the interface \<open>level_quoter\<close>.

  Indicators come from \<open>pandas_ta\<close> over the candles and are an argument, possibly not a number; prices
  are positive. The operations are those after the first update of the data.
\<close>

section \<open>Level ids\<close>

text \<open>Decimal digits of a number, and \<open>int\<close> of a string of digits.\<close>

definition digit_char :: "nat \<Rightarrow> char" where
  "digit_char n = char_of (48 + n)"

fun string_of_nat :: "nat \<Rightarrow> string" where
  "string_of_nat n = (if n < 10 then [digit_char n] else string_of_nat (n div 10) @ [digit_char (n mod 10)])"

declare string_of_nat.simps [simp del]

definition is_digit :: "char \<Rightarrow> bool" where
  "is_digit c = (48 \<le> (of_char c :: nat) \<and> (of_char c :: nat) \<le> 57)"

definition int_of_digits :: "string \<Rightarrow> nat" where
  "int_of_digits s = foldl (\<lambda>n c. 10 * n + (of_char c - 48)) 0 s"

definition parse_int :: "string \<Rightarrow> nat py_result" where
  "parse_int s = (if s \<noteq> [] \<and> list_all is_digit s then Inr (int_of_digits s) else Inl ValueError)"

definition get_level_id_from_side :: "trade_type \<Rightarrow> nat \<Rightarrow> string" where
  "get_level_id_from_side t level = (if t = BUY then ''buy'' else if t = SELL then ''sell'' else ''range'') @ ''_'' @ string_of_nat level"

definition get_trade_type_from_level_id :: "string \<Rightarrow> trade_type" where
  "get_trade_type_from_level_id s = (if take 3 s = ''buy'' then BUY else SELL)"

definition get_level_from_level_id :: "string \<Rightarrow> nat py_result" where
  "get_level_from_level_id s = (case split_on CHR ''_'' s of a # b # ws \<Rightarrow> parse_int b | _ \<Rightarrow> Inl IndexError)"

section \<open>Configuration and view\<close>

record mm_config =
  mm_id :: string
  mm_connector_name :: string
  mm_trading_pair :: string
  mm_total_amount_quote :: decimal
  mm_buy_spreads :: "decimal list"
  mm_sell_spreads :: "decimal list"
  mm_buy_amounts_pct :: "decimal list"
  mm_sell_amounts_pct :: "decimal list"
  mm_executor_refresh_time :: int
  mm_cooldown_time :: int
  mm_leverage :: int
  mm_stop_loss :: "decimal option"
  mm_take_profit :: "decimal option"
  mm_time_limit :: "int option"
  mm_take_profit_order_type :: order_type
  mm_trailing_stop :: "trailing_stop option"
  mm_position_rebalance_threshold_pct :: decimal
  mm_skip_rebalance :: bool

text \<open>
  An executor's info with the entry \<open>level_id\<close> of its \<open>custom_info\<close>, which may be absent or None.
\<close>

record mm_executor =
  mme_info :: executor_info
  mme_level_id :: "string option option"

record mm_view =
  mv_executors :: "mm_executor list"
  mv_positions :: "position_summary list"
  mv_now :: decimal
  mv_rules :: trading_rules

record rebalance_order =
  ro_timestamp :: decimal
  ro_connector_name :: string
  ro_trading_pair :: string
  ro_side :: trade_type
  ro_amount :: decimal
  ro_price :: decimal
  ro_level_id :: string

datatype mm_executor_config = PositionConfig position_executor_config | RebalanceConfig rebalance_order

type_synonym mm_action = "mm_executor_config executor_action"

definition mm_triple_barrier_config :: "'a mm_config_scheme \<Rightarrow> triple_barrier_config" where
  "mm_triple_barrier_config cfg =
     \<lparr>tb_stop_loss = mm_stop_loss cfg, tb_take_profit = mm_take_profit cfg, tb_time_limit = mm_time_limit cfg,
      tb_trailing_stop = mm_trailing_stop cfg, tb_open_order_type = LIMIT,
      tb_take_profit_order_type = mm_take_profit_order_type cfg, tb_stop_loss_order_type = MARKET,
      tb_time_limit_order_type = MARKET\<rparr>"

definition get_spreads_and_amounts_in_quote ::
  "'a mm_config_scheme \<Rightarrow> trade_type \<Rightarrow> (decimal list \<times> decimal list) py_result" where
  "get_spreads_and_amounts_in_quote cfg t =
     (let total_pct = sum_list (mm_buy_amounts_pct cfg) + sum_list (mm_sell_amounts_pct cfg) in
      ebind (emap (\<lambda>a. dec_div a total_pct) (if t = BUY then mm_buy_amounts_pct cfg else mm_sell_amounts_pct cfg)) (\<lambda>ps.
      Inr (if t = BUY then mm_buy_spreads cfg else mm_sell_spreads cfg,
           map (\<lambda>p. p * mm_total_amount_quote cfg) ps)))"

definition get_required_base_amount :: "'a mm_config_scheme \<Rightarrow> decimal \<Rightarrow> decimal py_result" where
  "get_required_base_amount cfg reference_price =
     ebind (get_spreads_and_amounts_in_quote cfg SELL) (\<lambda>(_, amounts). dec_div (sum_list amounts) reference_price)"

section \<open>The controller\<close>

definition get_not_active_levels_ids :: "'a mm_config_scheme \<Rightarrow> string option list \<Rightarrow> string list" where
  "get_not_active_levels_ids cfg active =
     filter (\<lambda>l. Some l \<notin> set active) (map (get_level_id_from_side BUY) [0..<length (mm_buy_spreads cfg)])
     @ filter (\<lambda>l. Some l \<notin> set active) (map (get_level_id_from_side SELL) [0..<length (mm_sell_spreads cfg)])"

text \<open>\<open>executor.custom_info["level_id"]\<close>\<close>

definition level_id_of :: "mm_executor \<Rightarrow> string option py_result" where
  "level_id_of e = (case mme_level_id e of None \<Rightarrow> Inl KeyError | Some l \<Rightarrow> Inr l)"

definition is_working :: "'a mm_config_scheme \<Rightarrow> decimal \<Rightarrow> mm_executor \<Rightarrow> bool py_result" where
  "is_working cfg now e =
     (let i = mme_info e in
      if ei_is_active i then Inr True
      else if ei_close_type i \<noteq> Some STOP_LOSS then Inr False
      else case ei_close_timestamp i of
             None \<Rightarrow> Inl TypeError
           | Some t \<Rightarrow> Inr (now - t < of_int (mm_cooldown_time cfg)))"

fun filter_working :: "'a mm_config_scheme \<Rightarrow> decimal \<Rightarrow> mm_executor list \<Rightarrow> mm_executor list py_result" where
  "filter_working cfg now [] = Inr []"
| "filter_working cfg now (e # es) =
     ebind (is_working cfg now e) (\<lambda>b. ebind (filter_working cfg now es) (\<lambda>ws. Inr (if b then e # ws else ws)))"

definition get_levels_to_execute :: "'a mm_config_scheme \<Rightarrow> mm_view \<Rightarrow> string list py_result" where
  "get_levels_to_execute cfg v =
     ebind (filter_working cfg (mv_now v) (mv_executors v)) (\<lambda>ws.
     ebind (emap level_id_of ws) (\<lambda>ids. Inr (get_not_active_levels_ids cfg ids)))"

definition get_current_base_position :: "'a mm_config_scheme \<Rightarrow> mm_view \<Rightarrow> decimal" where
  "get_current_base_position cfg v =
     sum_list (map (\<lambda>p. if psm_side p = BUY then psm_amount p else - psm_amount p)
       (filter (\<lambda>p. psm_connector_name p = mm_connector_name cfg \<and> psm_trading_pair p = mm_trading_pair cfg)
         (mv_positions v)))"

definition create_position_rebalance_order ::
  "'a mm_config_scheme \<Rightarrow> mm_view \<Rightarrow> decimal \<Rightarrow> trade_type \<Rightarrow> decimal \<Rightarrow> mm_action" where
  "create_position_rebalance_order cfg v price t amount =
     CreateExecutorAction (Some (mm_id cfg)) (RebalanceConfig
       \<lparr>ro_timestamp = mv_now v, ro_connector_name = mm_connector_name cfg, ro_trading_pair = mm_trading_pair cfg,
        ro_side = t, ro_amount = amount, ro_price = price, ro_level_id = ''position_rebalance''\<rparr>)"

text \<open>The reference price is None before the first data are processed.\<close>

definition check_position_rebalance ::
  "'a mm_config_scheme \<Rightarrow> mm_view \<Rightarrow> decimal option \<Rightarrow> mm_action option py_result" where
  "check_position_rebalance cfg v reference =
     (case reference of
        None \<Rightarrow> Inr None
      | Some price \<Rightarrow>
          (if contains_string ''_perpetual'' (mm_connector_name cfg) \<or> mm_skip_rebalance cfg then Inr None
           else if \<exists>e \<in> set (mv_executors v). ei_is_active (mme_info e)
                     \<and> mme_level_id e = Some (Some ''position_rebalance'') then Inr None
           else ebind (get_required_base_amount cfg price) (\<lambda>required.
             let diff = required - get_current_base_position cfg v in
             Inr (if \<bar>diff\<bar> > required * mm_position_rebalance_threshold_pct cfg
                  then Some (create_position_rebalance_order cfg v price (if diff > 0 then BUY else SELL) \<bar>diff\<bar>)
                  else None))))"

text \<open>The hook of the subclass gives the executor of a level, or none.\<close>

fun level_actions :: "string \<Rightarrow> (string \<Rightarrow> mm_executor_config option py_result) \<Rightarrow> string list \<Rightarrow> mm_action list py_result" where
  "level_actions cid quote_level [] = Inr []"
| "level_actions cid quote_level (l # ls) =
     ebind (quote_level l) (\<lambda>c. ebind (level_actions cid quote_level ls) (\<lambda>as.
     Inr (case c of None \<Rightarrow> as | Some c' \<Rightarrow> CreateExecutorAction (Some cid) c' # as)))"

definition create_actions_proposal ::
  "'a mm_config_scheme \<Rightarrow> (string \<Rightarrow> mm_executor_config option py_result) \<Rightarrow> decimal option \<Rightarrow> mm_view \<Rightarrow>
   mm_action list py_result" where
  "create_actions_proposal cfg quote_level reference v =
     ebind (check_position_rebalance cfg v reference) (\<lambda>r.
     ebind (get_levels_to_execute cfg v) (\<lambda>ls.
     ebind (level_actions (mm_id cfg) quote_level ls) (\<lambda>as.
     Inr (case r of None \<Rightarrow> as | Some a \<Rightarrow> a # as))))"

definition stop_of :: "'a mm_config_scheme \<Rightarrow> mm_executor \<Rightarrow> mm_action" where
  "stop_of cfg e = StopExecutorAction (Some (mm_id cfg)) (ei_id (mme_info e)) False"

definition executors_to_refresh :: "'a mm_config_scheme \<Rightarrow> mm_view \<Rightarrow> mm_action list" where
  "executors_to_refresh cfg v =
     map (stop_of cfg) (filter (\<lambda>e. \<not> ei_is_trading (mme_info e) \<and> ei_is_active (mme_info e)
        \<and> mv_now v - ei_timestamp (mme_info e) > of_int (mm_executor_refresh_time cfg)) (mv_executors v))"

definition stop_actions_proposal :: "'a mm_config_scheme \<Rightarrow> mm_action list \<Rightarrow> mm_view \<Rightarrow> mm_action list" where
  "stop_actions_proposal cfg early v = executors_to_refresh cfg v @ early"

definition mm_determine_executor_actions ::
  "'a mm_config_scheme \<Rightarrow> (string \<Rightarrow> mm_executor_config option py_result) \<Rightarrow> decimal option \<Rightarrow> mm_action list \<Rightarrow>
   mm_view \<Rightarrow> mm_action list py_result" where
  "mm_determine_executor_actions cfg quote_level reference early v =
     ebind (create_actions_proposal cfg quote_level reference v) (\<lambda>as. Inr (as @ stop_actions_proposal cfg early v))"

section \<open>Phoenix\<close>

record pmm_config = mm_config +
  pm_natr_length :: int
  pm_ema_slow :: int
  pm_rsi_length :: int
  pm_maker_fee_pct :: decimal
  pm_min_profit_pct :: decimal
  pm_trend_lean :: decimal
  pm_trend_spread_skew :: decimal
  pm_trend_size_skew :: decimal
  pm_panic_natr_mult :: decimal
  pm_ashes_floor_pct :: decimal
  pm_max_compound_factor :: decimal

definition fee_floor :: "pmm_config \<Rightarrow> decimal" where
  "fee_floor cfg = 2 * pm_maker_fee_pct cfg + pm_min_profit_pct cfg"

definition max_records :: "pmm_config \<Rightarrow> int" where
  "max_records cfg = max (max (pm_natr_length cfg) (pm_ema_slow cfg)) (pm_rsi_length cfg) + 60"

definition realized_pnl :: "mm_executor list \<Rightarrow> decimal" where
  "realized_pnl es = sum_list (map (\<lambda>e. ei_net_pnl_quote (mme_info e)) (filter (\<lambda>e. ei_is_done (mme_info e)) es))"

definition pmm_equity :: "pmm_config \<Rightarrow> mm_executor list \<Rightarrow> decimal" where
  "pmm_equity cfg es = mm_total_amount_quote cfg + realized_pnl es"

datatype pmm_state = Hatching | Flying | Perched | Ashes

record pmm_data =
  pd_reference_price :: decimal
  pd_spread_multiplier :: decimal
  pd_buy_spread_multiplier :: "decimal option"
  pd_sell_spread_multiplier :: "decimal option"
  pd_take_profit :: "decimal option"
  pd_state :: pmm_state
  pd_trend :: decimal

text \<open>The last value and the median of NATR (in percent), the last EMAs, close and RSI, and the number of candles.\<close>

record candle_view =
  cv_length :: int
  cv_natr :: pdecimal
  cv_natr_median :: pdecimal
  cv_ema_fast :: pdecimal
  cv_ema_slow :: pdecimal
  cv_close :: decimal
  cv_rsi :: pdecimal

definition pmm_trend :: "decimal \<Rightarrow> decimal \<Rightarrow> decimal \<Rightarrow> decimal" where
  "pmm_trend natr ema_dist rsi =
     (let ema_score = max (- 1) (min 1 (ema_dist / max natr (1 / 10 ^ 9))); rsi_score = (rsi - 50) / 50
      in max (- 1) (min 1 (6 / 10 * ema_score + 4 / 10 * rsi_score)))"

definition grounded_data :: "decimal \<Rightarrow> pmm_data" where
  "grounded_data mid =
     \<lparr>pd_reference_price = mid, pd_spread_multiplier = 1, pd_buy_spread_multiplier = None,
      pd_sell_spread_multiplier = None, pd_take_profit = None, pd_state = Hatching, pd_trend = 0\<rparr>"

definition pmm_next_state :: "pmm_config \<Rightarrow> decimal \<Rightarrow> decimal \<Rightarrow> mm_executor list \<Rightarrow> pmm_state" where
  "pmm_next_state cfg natr median es =
     (if pmm_equity cfg es \<le> mm_total_amount_quote cfg * pm_ashes_floor_pct cfg then Ashes
      else if natr > median * pm_panic_natr_mult cfg then Perched
      else Flying)"

definition signal_data :: "pmm_config \<Rightarrow> decimal \<Rightarrow> decimal \<Rightarrow> decimal \<Rightarrow> decimal \<Rightarrow> mm_executor list \<Rightarrow> pmm_data" where
  "signal_data cfg mid natr median trend es =
     \<lparr>pd_reference_price = mid * (1 + pm_trend_lean cfg * natr * trend), pd_spread_multiplier = natr,
      pd_buy_spread_multiplier = Some (natr * (1 - pm_trend_spread_skew cfg * trend)),
      pd_sell_spread_multiplier = Some (natr * (1 + pm_trend_spread_skew cfg * trend)),
      pd_take_profit = Some (max natr (fee_floor cfg)),
      pd_state = pmm_next_state cfg natr median es, pd_trend = trend\<rparr>"

definition pmm_update_processed_data :: "pmm_config \<Rightarrow> decimal \<Rightarrow> candle_view \<Rightarrow> mm_executor list \<Rightarrow> pmm_data" where
  "pmm_update_processed_data cfg mid cv es =
     (if cv_length cv < max_records cfg - 10 then grounded_data mid
      else case (cv_natr cv, cv_natr_median cv, cv_ema_fast cv, cv_ema_slow cv, cv_rsi cv) of
             (Fin natr, Fin median, Fin fast, Fin slow, Fin rsi) \<Rightarrow>
               signal_data cfg mid (natr / 100) (median / 100) (pmm_trend (natr / 100) ((fast - slow) / cv_close cv) rsi) es
           | _ \<Rightarrow> grounded_data mid)"

text \<open>\<open>xs[i]\<close>\<close>

definition list_at :: "'a list \<Rightarrow> nat \<Rightarrow> 'a py_result" where
  "list_at xs i = (if i < length xs then Inr (xs ! i) else Inl IndexError)"

definition side_sign :: "trade_type \<Rightarrow> decimal" where
  "side_sign t = (if t = BUY then - 1 else 1)"

definition pmm_spread :: "pmm_config \<Rightarrow> pmm_data \<Rightarrow> trade_type \<Rightarrow> decimal \<Rightarrow> decimal" where
  "pmm_spread cfg d t spread =
     (let m = (if t = BUY then pd_buy_spread_multiplier d else pd_sell_spread_multiplier d);
          multiplier = (case m of None \<Rightarrow> pd_spread_multiplier d | Some x \<Rightarrow> x)
      in max (spread * multiplier) (fee_floor cfg))"

definition pmm_amount_quote :: "pmm_config \<Rightarrow> pmm_data \<Rightarrow> mm_executor list \<Rightarrow> trade_type \<Rightarrow> decimal \<Rightarrow> decimal \<Rightarrow> decimal py_result" where
  "pmm_amount_quote cfg d es t amount min_notional =
     ebind (dec_div (max (pmm_equity cfg es) 0) (mm_total_amount_quote cfg)) (\<lambda>r.
     Inr (max (amount * min r (pm_max_compound_factor cfg) * (1 - side_sign t * pm_trend_size_skew cfg * pd_trend d))
            (min_notional * (102 / 100))))"

definition pmm_get_price_and_amount ::
  "pmm_config \<Rightarrow> pmm_data \<Rightarrow> mm_view \<Rightarrow> string \<Rightarrow> (decimal \<times> decimal) py_result" where
  "pmm_get_price_and_amount cfg d v level_id =
     ebind (get_level_from_level_id level_id) (\<lambda>level.
     let t = get_trade_type_from_level_id level_id in
     ebind (get_spreads_and_amounts_in_quote cfg t) (\<lambda>(spreads, amounts).
     ebind (list_at spreads level) (\<lambda>spread.
     ebind (list_at amounts level) (\<lambda>amount0.
     ebind (dict_at (mv_rules v) (mm_trading_pair cfg)) (\<lambda>rule.
     ebind (pmm_amount_quote cfg d (mv_executors v) t amount0 (min_notional_size rule)) (\<lambda>amount_quote.
     ebind (quantize_step (min_price_increment rule) (pd_reference_price d * (1 + side_sign t * pmm_spread cfg d t spread))) (\<lambda>price.
     ebind (dec_div amount_quote price) (\<lambda>base.
     ebind (quantize_step (min_base_amount_increment rule) base) (\<lambda>amount.
     Inr (price, amount))))))))))"

text \<open>The id is the one the configuration class draws.\<close>

definition pmm_barriers :: "pmm_config \<Rightarrow> pmm_data \<Rightarrow> triple_barrier_config py_result" where
  "pmm_barriers cfg d =
     (case mm_take_profit cfg of
        None \<Rightarrow> Inr (mm_triple_barrier_config cfg)
      | Some tp \<Rightarrow>
          (if tp = 0 then Inr (mm_triple_barrier_config cfg)
           else case pd_take_profit d of
                  None \<Rightarrow> Inl KeyError
                | Some want \<Rightarrow> Inr (new_instance_with_adjusted_volatility (mm_triple_barrier_config cfg) (want / tp))))"

definition pmm_get_executor_config ::
  "pmm_config \<Rightarrow> pmm_data \<Rightarrow> mm_view \<Rightarrow> (string \<Rightarrow> string) \<Rightarrow> string \<Rightarrow> decimal \<Rightarrow> decimal \<Rightarrow>
   position_executor_config option py_result" where
  "pmm_get_executor_config cfg d v fresh_id level_id price amount =
     (if pd_state d \<noteq> Flying \<or> amount \<le> 0 then Inr None
      else ebind (pmm_barriers cfg d) (\<lambda>tb.
        Inr (Some \<lparr>pc_id = fresh_id level_id, pc_timestamp = mv_now v, pc_controller_id = ''main'',
          pc_trading_pair = mm_trading_pair cfg, pc_connector_name = mm_connector_name cfg,
          pc_side = get_trade_type_from_level_id level_id, pc_entry_price = Some price, pc_amount = amount,
          pc_triple_barrier_config = tb, pc_leverage = mm_leverage cfg, pc_activation_bounds = None,
          pc_level_id = Some level_id\<rparr>)))"

definition pmm_executors_to_early_stop :: "pmm_config \<Rightarrow> pmm_data \<Rightarrow> mm_view \<Rightarrow> mm_action list" where
  "pmm_executors_to_early_stop cfg d v =
     (if pd_state d = Flying then []
      else map (stop_of cfg) (filter (\<lambda>e. ei_is_active (mme_info e) \<and> \<not> ei_is_trading (mme_info e)) (mv_executors v)))"

definition pmm_quote_level :: "pmm_config \<Rightarrow> pmm_data \<Rightarrow> mm_view \<Rightarrow> (string \<Rightarrow> string) \<Rightarrow> string \<Rightarrow> mm_executor_config option py_result" where
  "pmm_quote_level cfg d v fresh_id level_id =
     ebind (pmm_get_price_and_amount cfg d v level_id) (\<lambda>(price, amount).
     ebind (pmm_get_executor_config cfg d v fresh_id level_id price amount) (\<lambda>c. Inr (map_option PositionConfig c)))"

definition pmm_determine_executor_actions ::
  "pmm_config \<Rightarrow> pmm_data \<Rightarrow> (string \<Rightarrow> string) \<Rightarrow> mm_view \<Rightarrow> mm_action list py_result" where
  "pmm_determine_executor_actions cfg d fresh_id v =
     mm_determine_executor_actions cfg (pmm_quote_level cfg d v fresh_id) (Some (pd_reference_price d))
       (pmm_executors_to_early_stop cfg d v) v"

section \<open>Storing old executors\<close>

text \<open>
  \<open>store_actions_proposal\<close> of \<open>strategy/strategy_v2_base.py\<close>: of the executors that are done the
  newest \<open>closed_executors_buffer\<close> stay in the reports, the others are stored and leave them.
\<close>

definition store_actions_proposal :: "nat \<Rightarrow> executor_info list \<Rightarrow> 'c executor_action list" where
  "store_actions_proposal buffer es =
     (let sorted_executors = sort_key (\<lambda>i. - ei_timestamp i) (filter ei_is_done es)
      in if length sorted_executors > buffer
         then map (\<lambda>i. StoreExecutorAction (Some (ei_controller_id i)) (ei_id i)) (drop buffer sorted_executors)
         else [])"

end
