(* ===== verification/Market_Making_Safety.thy ===== *)
theory Market_Making_Safety
  imports Market_Making
begin

text \<open>
  Properties of the market making controllers: level ids read back, one executor per level, the
  fee floor of the quotes and of the take profit, what is done while no quotes are wanted, and two
  ways the promises of \<open>pmm_phoenix.py\<close> are not kept.
\<close>

section \<open>Level ids\<close>

lemma of_char_digit: "n < 10 \<Longrightarrow> (of_char (digit_char n) :: nat) = 48 + n"
  by (simp add: digit_char_def)

lemma is_digit_digit_char: "n < 10 \<Longrightarrow> is_digit (digit_char n)"
  by (simp add: is_digit_def of_char_digit)

lemma string_of_nat_digits: "list_all is_digit (string_of_nat n) \<and> string_of_nat n \<noteq> []"
proof (induction n rule: string_of_nat.induct)
  case (1 n)
  then show ?case
    by (subst (1 2) string_of_nat.simps) (auto simp: is_digit_digit_char)
qed

lemma int_of_digits_append: "int_of_digits (s @ [c]) = 10 * int_of_digits s + (of_char c - 48)"
  by (simp add: int_of_digits_def)

lemma int_of_string_of_nat: "int_of_digits (string_of_nat n) = n"
proof (induction n rule: string_of_nat.induct)
  case (1 n)
  show ?case
  proof (cases "n < 10")
    case True
    then show ?thesis by (subst string_of_nat.simps) (simp add: int_of_digits_def of_char_digit)
  next
    case False
    then have "string_of_nat n = string_of_nat (n div 10) @ [digit_char (n mod 10)]"
      by (subst string_of_nat.simps) simp
    then show ?thesis using 1 [OF False] by (simp add: int_of_digits_append of_char_digit)
  qed
qed

lemma string_of_nat_inject: "string_of_nat m = string_of_nat n \<Longrightarrow> m = n"
  by (metis int_of_string_of_nat)

lemma no_underscore: "CHR ''_'' \<notin> set (string_of_nat n)"
proof
  assume "CHR ''_'' \<in> set (string_of_nat n)"
  then have "is_digit CHR ''_''" using string_of_nat_digits [of n] by (auto simp: list_all_iff)
  then show False by (simp add: is_digit_def)
qed

text \<open>
  The id of a level reads back: the side and the number of the level are recovered from it.
\<close>

theorem level_id_roundtrip:
  assumes "t \<in> {BUY, SELL}"
  shows "get_trade_type_from_level_id (get_level_id_from_side t n) = t
    \<and> get_level_from_level_id (get_level_id_from_side t n) = Inr n"
proof -
  have n: "split_on CHR ''_'' (string_of_nat n) = [string_of_nat n]" "parse_int (string_of_nat n) = Inr n"
    using split_on_no_sep [OF no_underscore] string_of_nat_digits [of n] by (auto simp: parse_int_def int_of_string_of_nat)
  from assms show ?thesis
    by (auto simp: get_trade_type_from_level_id_def get_level_id_from_side_def get_level_from_level_id_def n)
qed

section \<open>One executor per level\<close>

text \<open>What the base class relies on: the executor made for a level is one of that level.\<close>

locale level_quoter =
  fixes quote_level :: "string \<Rightarrow> mm_executor_config option py_result" and level_of :: "mm_executor_config \<Rightarrow> string option"
  assumes quoted_level: "quote_level l = Inr (Some c) \<Longrightarrow> level_of c = Some l"
begin

fun created_level :: "mm_action \<Rightarrow> string option" where
  "created_level (CreateExecutorAction cid c) = level_of c"
| "created_level a = None"

lemma level_actions_levels:
  "level_actions cid quote_level ls = Inr as \<Longrightarrow> distinct ls \<Longrightarrow>
   distinct (map created_level as) \<and> created_level ` set as \<subseteq> Some ` set ls"
proof (induction ls arbitrary: as)
  case (Cons l ls)
  obtain c as' where q: "quote_level l = Inr c" "level_actions cid quote_level ls = Inr as'"
    and as: "as = (case c of None \<Rightarrow> as' | Some c' \<Rightarrow> CreateExecutorAction (Some cid) c' # as')"
    using Cons.prems(1) by (auto simp: ebind_eq_Inr_iff)
  have ih: "distinct (map created_level as')" "created_level ` set as' \<subseteq> Some ` set ls"
    using Cons.IH [OF q(2)] Cons.prems(2) by auto
  show ?case
  proof (cases c)
    case None
    then show ?thesis using ih as by auto
  next
    case (Some c')
    then have "level_of c' = Some l" using quoted_level q(1) by simp
    moreover have "Some l \<notin> created_level ` set as'" using ih(2) Cons.prems(2) by auto
    ultimately show ?thesis using ih as Some by auto
  qed
qed simp

end

fun config_level :: "mm_executor_config \<Rightarrow> string option" where
  "config_level (PositionConfig c) = pc_level_id c"
| "config_level (RebalanceConfig r) = Some (ro_level_id r)"

interpretation pmm: level_quoter "pmm_quote_level cfg d v fresh_id" config_level
  by unfold_locales
    (auto simp: pmm_quote_level_def pmm_get_executor_config_def ebind_eq_Inr_iff split: if_splits prod.splits)

lemma level_ids_distinct:
  "distinct (get_not_active_levels_ids cfg active)"
proof -
  have inj: "inj_on (get_level_id_from_side t) A" for t A
    by (auto simp: inj_on_def get_level_id_from_side_def dest: string_of_nat_inject)
  have "get_level_id_from_side BUY m \<noteq> get_level_id_from_side SELL n" for m n
    by (simp add: get_level_id_from_side_def)
  then show ?thesis
    by (auto simp: get_not_active_levels_ids_def distinct_map inj intro!: distinct_filter)
qed

lemma rebalance_level: "get_level_id_from_side t n \<noteq> ''position_rebalance''"
  by (simp add: get_level_id_from_side_def)

lemma working_active:
  "filter_working cfg now es = Inr ws \<Longrightarrow> e \<in> set es \<Longrightarrow> ei_is_active (mme_info e) \<Longrightarrow> e \<in> set ws"
  by (induction es arbitrary: ws) (auto simp: ebind_eq_Inr_iff is_working_def split: if_splits)

lemma emap_set: "emap f xs = Inr ys \<Longrightarrow> x \<in> set xs \<Longrightarrow> \<exists>y \<in> set ys. f x = Inr y"
  by (induction xs arbitrary: ys) (auto simp: ebind_eq_Inr_iff)

text \<open>The levels of the executors a list of actions creates.\<close>

definition created_levels :: "mm_action list \<Rightarrow> string option list" where
  "created_levels as = List.map_filter (\<lambda>a. case a of CreateExecutorAction cid c \<Rightarrow> Some (config_level c) | _ \<Rightarrow> None) as"

lemma created_levels_simps [simp]:
  "created_levels [] = []" "created_levels (as @ bs) = created_levels as @ created_levels bs"
  "created_levels (CreateExecutorAction cid c # as) = config_level c # created_levels as"
  "created_levels (StopExecutorAction cid eid keep # as) = created_levels as"
  by (simp_all add: created_levels_def map_filter_def)

lemma created_levels_stops: "created_levels (map (stop_of cfg) es) = []"
  by (induction es) (simp_all add: stop_of_def)

lemma level_actions_creates:
  "level_actions cid q ls = Inr as \<Longrightarrow> \<forall>a \<in> set as. \<exists>c. a = CreateExecutorAction (Some cid) c"
  by (induction ls arbitrary: as) (auto simp: ebind_eq_Inr_iff split: option.splits)

lemma created_levels_of_creates:
  "\<forall>a \<in> set as. \<exists>c. a = CreateExecutorAction cid c \<Longrightarrow> created_levels as = map pmm.created_level as"
  by (induction as) auto

lemma rebalance_action:
  "check_position_rebalance cfg v reference = Inr (Some a) \<Longrightarrow>
   (\<exists>p t n. a = create_position_rebalance_order cfg v p t n)
   \<and> (\<forall>e \<in> set (mv_executors v). ei_is_active (mme_info e) \<longrightarrow> mme_level_id e \<noteq> Some (Some ''position_rebalance''))"
  by (auto simp: check_position_rebalance_def ebind_eq_Inr_iff Let_def split: option.splits if_splits)

lemma free_level:
  assumes "get_levels_to_execute cfg v = Inr ls" and "l \<in> set ls" and "e \<in> set (mv_executors v)" and "ei_is_active (mme_info e)"
  shows "mme_level_id e \<noteq> Some (Some l)"
proof
  assume e: "mme_level_id e = Some (Some l)"
  obtain ws ids where w: "filter_working cfg (mv_now v) (mv_executors v) = Inr ws" "emap level_id_of ws = Inr ids"
      "ls = get_not_active_levels_ids cfg ids"
    using assms(1) by (auto simp: get_levels_to_execute_def ebind_eq_Inr_iff)
  have "Some l \<in> set ids"
    using emap_set [OF w(2) working_active [OF w(1) assms(3,4)]] e by (auto simp: level_id_of_def)
  then show False using assms(2) by (auto simp: w(3) get_not_active_levels_ids_def)
qed

lemma pmm_actions:
  assumes "pmm_determine_executor_actions cfg d fresh_id v = Inr as"
  obtains r ls qs where "check_position_rebalance cfg v (Some (pd_reference_price d)) = Inr r"
    and "get_levels_to_execute cfg v = Inr ls"
    and "level_actions (mm_id cfg) (pmm_quote_level cfg d v fresh_id) ls = Inr qs"
    and "as = (case r of None \<Rightarrow> [] | Some a \<Rightarrow> [a]) @ qs @ executors_to_refresh cfg v @ pmm_executors_to_early_stop cfg d v"
  using assms
  by (auto simp: pmm_determine_executor_actions_def mm_determine_executor_actions_def create_actions_proposal_def
      stop_actions_proposal_def ebind_eq_Inr_iff split: option.splits)

lemma levels_to_execute_distinct:
  "get_levels_to_execute cfg v = Inr ls \<Longrightarrow> distinct ls \<and> ''position_rebalance'' \<notin> set ls"
proof -
  have "''position_rebalance'' \<notin> set (get_not_active_levels_ids cfg ids)" for ids
    using rebalance_level by (fastforce simp: get_not_active_levels_ids_def)
  then show "get_levels_to_execute cfg v = Inr ls \<Longrightarrow> distinct ls \<and> ''position_rebalance'' \<notin> set ls"
    by (auto simp: get_levels_to_execute_def ebind_eq_Inr_iff level_ids_distinct)
qed

text \<open>
  C22: The actions of a round create at most one executor for a level and none for a level that has
  an active executor; the same holds for the order that rebalances the position.
\<close>

theorem one_executor_per_level:
  assumes "pmm_determine_executor_actions cfg d fresh_id v = Inr as"
  shows "distinct (created_levels as)
    \<and> (\<forall>e \<in> set (mv_executors v). \<forall>l. ei_is_active (mme_info e) \<and> mme_level_id e = Some (Some l)
         \<longrightarrow> Some l \<notin> set (created_levels as))"
proof -
  obtain r ls qs where a: "check_position_rebalance cfg v (Some (pd_reference_price d)) = Inr r"
      "get_levels_to_execute cfg v = Inr ls" "level_actions (mm_id cfg) (pmm_quote_level cfg d v fresh_id) ls = Inr qs"
      "as = (case r of None \<Rightarrow> [] | Some a \<Rightarrow> [a]) @ qs @ executors_to_refresh cfg v @ pmm_executors_to_early_stop cfg d v"
    using pmm_actions [OF assms] .
  have ls: "distinct ls" "''position_rebalance'' \<notin> set ls" using levels_to_execute_distinct [OF a(2)] by auto
  have qs: "created_levels qs = map pmm.created_level qs"
    using created_levels_of_creates level_actions_creates [OF a(3)] by blast
  have lv: "distinct (created_levels qs)" "set (created_levels qs) \<subseteq> Some ` set ls"
    using pmm.level_actions_levels [OF a(3) ls(1)] by (auto simp: qs)
  have stops: "created_levels as = created_levels (case r of None \<Rightarrow> [] | Some a \<Rightarrow> [a]) @ created_levels qs"
    by (simp add: a(4) executors_to_refresh_def pmm_executors_to_early_stop_def created_levels_stops)
  show ?thesis
  proof (cases r)
    case None
    then show ?thesis using lv free_level [OF a(2)] by (auto simp: stops)
  next
    case (Some act)
    from rebalance_action [OF a(1) [unfolded Some]]
    have "created_levels [act] = [Some ''position_rebalance'']"
      by (auto simp: create_position_rebalance_order_def)
    then show ?thesis
      using Some lv ls(2) free_level [OF a(2)] rebalance_action [OF a(1) [unfolded Some]] by (auto simp: stops)
  qed
qed

section \<open>Prices, sizes and barriers\<close>

lemma pmm_amount_quote_min: "pmm_amount_quote cfg d es t a m = Inr aq \<Longrightarrow> m * (102 / 100) \<le> aq"
  by (auto simp: pmm_amount_quote_def ebind_eq_Inr_iff)

lemma pmm_quote_parts:
  assumes "pmm_get_price_and_amount cfg d v lid = Inr (price, amount)" and "dict_at (mv_rules v) (mm_trading_pair cfg) = Inr rule"
  obtains spread aq base where
    "quantize_step (min_price_increment rule)
       (pd_reference_price d * (1 + side_sign (get_trade_type_from_level_id lid) * pmm_spread cfg d (get_trade_type_from_level_id lid) spread)) = Inr price"
    and "min_notional_size rule * (102 / 100) \<le> aq" and "dec_div aq price = Inr base"
    and "quantize_step (min_base_amount_increment rule) base = Inr amount"
    and "spread \<in> set (if get_trade_type_from_level_id lid = BUY then mm_buy_spreads cfg else mm_sell_spreads cfg)"
proof -
  obtain spread a0 aq base where
    "quantize_step (min_price_increment rule)
       (pd_reference_price d * (1 + side_sign (get_trade_type_from_level_id lid) * pmm_spread cfg d (get_trade_type_from_level_id lid) spread)) = Inr price"
    "pmm_amount_quote cfg d (mv_executors v) (get_trade_type_from_level_id lid) a0 (min_notional_size rule) = Inr aq"
    "dec_div aq price = Inr base" "quantize_step (min_base_amount_increment rule) base = Inr amount"
    "spread \<in> set (if get_trade_type_from_level_id lid = BUY then mm_buy_spreads cfg else mm_sell_spreads cfg)"
    using assms unfolding pmm_get_price_and_amount_def get_spreads_and_amounts_in_quote_def list_at_def Let_def
    by (auto simp: ebind_eq_Inr_iff split: prod.splits if_splits)
  then show thesis using that pmm_amount_quote_min by blast
qed

lemma pmm_spread_floor: "pmm_spread cfg d t spread \<ge> fee_floor cfg"
  by (simp add: pmm_spread_def Let_def)

text \<open>
  C23: A quote keeps the fee floor from the reference price, up to the rounding down to the exchange's
  increments. A bid is at most the reference price less the floor. An ask may fall below the reference
  price plus the floor, by less than one price increment. The value of the order may fall below 1.02
  times the minimum notional, but exceeds it with one more increment of the amount.
\<close>

theorem quotes_keep_fee_floor:
  assumes "pmm_get_price_and_amount cfg d v lid = Inr (price, amount)"
    and "dict_at (mv_rules v) (mm_trading_pair cfg) = Inr rule"
    and "min_price_increment rule > 0" and "min_base_amount_increment rule > 0" and "min_notional_size rule \<ge> 0"
    and "pd_reference_price d \<ge> 0" and "fee_floor cfg \<ge> 0" and "price > 0"
  shows "(if get_trade_type_from_level_id lid = BUY then price \<le> pd_reference_price d * (1 - fee_floor cfg)
      else price + min_price_increment rule > pd_reference_price d * (1 + fee_floor cfg))
    \<and> price * (amount + min_base_amount_increment rule) > min_notional_size rule * (102 / 100)"
proof -
  obtain spread aq base where p: "quantize_step (min_price_increment rule)
       (pd_reference_price d * (1 + side_sign (get_trade_type_from_level_id lid) * pmm_spread cfg d (get_trade_type_from_level_id lid) spread)) = Inr price"
      and aq: "min_notional_size rule * (102 / 100) \<le> aq" "dec_div aq price = Inr base"
        "quantize_step (min_base_amount_increment rule) base = Inr amount"
    using pmm_quote_parts [OF assms(1,2)] .
  let ?t = "get_trade_type_from_level_id lid"
  let ?s = "pmm_spread cfg d ?t spread"
  let ?raw = "pd_reference_price d * (1 + side_sign ?t * ?s)"
  have s: "?s \<ge> fee_floor cfg" by (rule pmm_spread_floor)
  have raw: "?raw \<ge> 0"
  proof (rule ccontr)
    assume "\<not> ?raw \<ge> 0"
    then have "?raw / min_price_increment rule < 0" using assms(3) by (simp add: divide_neg_pos)
    then have "dec_trunc (?raw / min_price_increment rule) \<le> 0" by (simp add: dec_trunc_def)
    then have "price \<le> 0"
      using p assms(3) by (auto simp: quantize_step_eq mult_nonpos_nonneg)
    then show False using assms(8) by simp
  qed
  from quantize_step_bounds [OF assms(3) raw]
  obtain z where "quantize_step (min_price_increment rule) ?raw = Inr z" "z \<le> ?raw" "?raw < z + min_price_increment rule"
    by blast
  then have price: "price \<le> ?raw" "?raw < price + min_price_increment rule" using p by simp_all
  have side: "if ?t = BUY then price \<le> pd_reference_price d * (1 - fee_floor cfg)
      else price + min_price_increment rule > pd_reference_price d * (1 + fee_floor cfg)"
  proof (cases "?t = BUY")
    case True
    have "?raw \<le> pd_reference_price d * (1 - fee_floor cfg)"
      using True s assms(6) by (simp add: side_sign_def mult_left_mono)
    then show ?thesis using True price(1) by simp
  next
    case False
    have "?raw \<ge> pd_reference_price d * (1 + fee_floor cfg)"
      using False s assms(6) by (simp add: side_sign_def mult_left_mono)
    then show ?thesis using False price(2) by simp
  qed
  have base: "base = aq / price" using aq(2) assms(8) by simp
  have "0 \<le> min_notional_size rule * (102 / 100)" using assms(5) by simp
  then have "aq \<ge> 0" using aq(1) by (rule order_trans)
  then have nonneg: "base \<ge> 0" using assms(8) by (simp add: base)
  from quantize_step_bounds [OF assms(4) nonneg]
  obtain y where "quantize_step (min_base_amount_increment rule) base = Inr y" "base < y + min_base_amount_increment rule"
    by blast
  then have "base < amount + min_base_amount_increment rule" using aq(3) by simp
  then have "price * base < price * (amount + min_base_amount_increment rule)" using assms(8) by simp
  moreover have "price * base = aq" using assms(8) by (simp add: base)
  ultimately show ?thesis using side aq(1) by simp
qed

text \<open>
  Every position executor that a round creates takes its profit no closer than the fee floor,
  and its stop loss is scaled by the same factor as the take profit.
\<close>

theorem take_profit_covers_fees:
  assumes "pmm_get_executor_config cfg d v fresh_id lid price amount = Inr (Some c)"
    and "mm_take_profit cfg = Some tp" and "tp > 0" and "pd_take_profit d = Some want" and "want \<ge> fee_floor cfg"
  shows "tb_take_profit (pc_triple_barrier_config c) = Some want
    \<and> tb_stop_loss (pc_triple_barrier_config c) = map_option (\<lambda>sl. sl * (want / tp)) (mm_stop_loss cfg)
    \<and> want \<ge> fee_floor cfg"
  using assms
  by (auto simp: pmm_get_executor_config_def pmm_barriers_def new_instance_with_adjusted_volatility_def
      mm_triple_barrier_config_def split: if_splits)

section \<open>When no quotes are wanted\<close>

text \<open>
  In every state but FLYING a round creates no position executor, and stops every active executor
  that has not traded yet. What may still be created is the market order that rebalances the
  position, in ASHES and before there are enough candles as well.
\<close>

theorem grounded_round_only_rebalances:
  assumes "pmm_determine_executor_actions cfg d fresh_id v = Inr as" and "pd_state d \<noteq> Flying"
  shows "(\<forall>a \<in> set as. case a of CreateExecutorAction cid c \<Rightarrow> \<exists>r. c = RebalanceConfig r | _ \<Rightarrow> True)
    \<and> (\<forall>e \<in> set (mv_executors v). ei_is_active (mme_info e) \<and> \<not> ei_is_trading (mme_info e)
         \<longrightarrow> StopExecutorAction (Some (mm_id cfg)) (ei_id (mme_info e)) False \<in> set as)"
proof -
  obtain r ls qs where a: "check_position_rebalance cfg v (Some (pd_reference_price d)) = Inr r"
      "get_levels_to_execute cfg v = Inr ls" "level_actions (mm_id cfg) (pmm_quote_level cfg d v fresh_id) ls = Inr qs"
      "as = (case r of None \<Rightarrow> [] | Some a \<Rightarrow> [a]) @ qs @ executors_to_refresh cfg v @ pmm_executors_to_early_stop cfg d v"
    using pmm_actions [OF assms(1)] .
  have none: "c = None" if "pmm_quote_level cfg d v fresh_id l = Inr c" for l c
    using that assms(2) by (auto simp: pmm_quote_level_def pmm_get_executor_config_def ebind_eq_Inr_iff split: prod.splits)
  have "qs = []"
    using a(3) by (induction ls arbitrary: qs) (auto simp: ebind_eq_Inr_iff dest!: none)
  moreover have "\<forall>a \<in> set (executors_to_refresh cfg v @ pmm_executors_to_early_stop cfg d v). \<exists>e. a = stop_of cfg e"
    by (auto simp: executors_to_refresh_def pmm_executors_to_early_stop_def)
  moreover have "\<forall>a \<in> set (case r of None \<Rightarrow> [] | Some a \<Rightarrow> [a]). \<exists>cid r. a = CreateExecutorAction cid (RebalanceConfig r)"
    using a(1) by (cases r) (auto simp: create_position_rebalance_order_def dest!: rebalance_action)
  ultimately have "\<forall>a \<in> set as. (\<exists>cid r. a = CreateExecutorAction cid (RebalanceConfig r)) \<or> (\<exists>e. a = stop_of cfg e)"
    unfolding a(4) by (metis Un_iff append_Nil set_append)
  then have creates: "\<forall>a \<in> set as. case a of CreateExecutorAction cid c \<Rightarrow> \<exists>r. c = RebalanceConfig r | _ \<Rightarrow> True"
    by (auto simp: stop_of_def split: executor_action.split)
  have "StopExecutorAction (Some (mm_id cfg)) (ei_id (mme_info e)) False \<in> set as"
    if "e \<in> set (mv_executors v)" "ei_is_active (mme_info e) \<and> \<not> ei_is_trading (mme_info e)" for e
    using that assms(2) by (auto simp: a(4) pmm_executors_to_early_stop_def stop_of_def intro!: imageI)
  with creates show ?thesis by blast
qed

section \<open>Promises that are not kept\<close>

text \<open>
  The floor is kept from the reference price, which the trend moves away from the market: when
  the lean is larger than the spread, a bid is placed at or above the mid price, where it buys at once.
\<close>

theorem leaning_bid_crosses_mid:
  assumes "pmm_get_price_and_amount cfg (signal_data cfg mid natr median trend es) v lid = Inr (price, amount)"
    and "get_trade_type_from_level_id lid = BUY" and "dict_at (mv_rules v) (mm_trading_pair cfg) = Inr rule"
    and "min_price_increment rule > 0" and "mid > 0" and "natr * (1 - pm_trend_spread_skew cfg * trend) \<ge> 0"
    and "\<forall>s \<in> set (mm_buy_spreads cfg). s \<le> widest" and "1 + pm_trend_lean cfg * natr * trend \<ge> 0"
    and "mid * (1 + pm_trend_lean cfg * natr * trend)
          * (1 - max (widest * (natr * (1 - pm_trend_spread_skew cfg * trend))) (fee_floor cfg))
        \<ge> mid + min_price_increment rule"
  shows "price \<ge> mid"
proof -
  let ?d = "signal_data cfg mid natr median trend es"
  let ?m = "natr * (1 - pm_trend_spread_skew cfg * trend)"
  let ?ref = "mid * (1 + pm_trend_lean cfg * natr * trend)"
  obtain spread where p: "quantize_step (min_price_increment rule) (pd_reference_price ?d * (1 + side_sign BUY * pmm_spread cfg ?d BUY spread)) = Inr price"
      and sp: "spread \<in> set (mm_buy_spreads cfg)"
    using pmm_quote_parts [OF assms(1,3)] assms(2) by (metis (full_types))
  have ref: "pd_reference_price ?d = ?ref" by (simp add: signal_data_def)
  have "spread * ?m \<le> widest * ?m" using assms(6,7) sp by (intro mult_right_mono) auto
  then have "pmm_spread cfg ?d BUY spread \<le> max (widest * ?m) (fee_floor cfg)"
    by (auto simp: pmm_spread_def signal_data_def)
  moreover have "?ref \<ge> 0" using assms(5,8) by simp
  ultimately have "?ref * (1 - max (widest * ?m) (fee_floor cfg)) \<le> ?ref * (1 + side_sign BUY * pmm_spread cfg ?d BUY spread)"
    by (intro mult_left_mono) (simp_all add: side_sign_def)
  with assms(9) have raw: "mid + min_price_increment rule \<le> ?ref * (1 + side_sign BUY * pmm_spread cfg ?d BUY spread)"
    by (rule order_trans)
  then have nonneg: "0 \<le> ?ref * (1 + side_sign BUY * pmm_spread cfg ?d BUY spread)" using assms(4,5) by linarith
  from quantize_step_bounds [OF assms(4) nonneg]
  obtain z where "quantize_step (min_price_increment rule) (?ref * (1 + side_sign BUY * pmm_spread cfg ?d BUY spread)) = Inr z"
      "?ref * (1 + side_sign BUY * pmm_spread cfg ?d BUY spread) < z + min_price_increment rule" by blast
  then show ?thesis using p raw unfolding ref by simp
qed

text \<open>The executors left in the report when those the strategy stores have gone.\<close>

definition after_storing :: "nat \<Rightarrow> mm_executor list \<Rightarrow> mm_executor list" where
  "after_storing buffer es =
     (let stored = store_actions_proposal buffer (map mme_info es) :: mm_action list
      in filter (\<lambda>e. StoreExecutorAction (Some (ei_controller_id (mme_info e))) (ei_id (mme_info e)) \<notin> set stored) es)"

lemma distinct_filter_drop:
  assumes "distinct xs"
  shows "filter (\<lambda>x. x \<notin> set (drop n xs)) xs = take n xs"
proof -
  have "filter (\<lambda>x. x \<notin> set (drop n xs)) (take n xs @ drop n xs) = take n xs"
    using assms set_take_disj_set_drop_if_distinct [OF assms, of n n]
    by (simp add: filter_id_conv filter_empty_conv disjoint_iff del: append_take_drop_id)
  then show ?thesis by simp
qed

lemma sum_list_permuted: "mset xs = mset ys \<Longrightarrow> sum_list (map f xs) = (sum_list (map f ys) :: decimal)"
  by (metis mset_map sum_mset_sum_list)

text \<open>
  The strategy stores all but the newest done executors away, and the equity counts the results
  of the executors in the report only: after storing it is the bankroll plus the results of the
  newest ones. So losses that have been stored are forgotten, and the state ASHES, which is to stop
  the quotes for good, is left again although nothing was earned.
\<close>

theorem equity_forgets_stored_results:
  assumes "distinct (map (ei_id \<circ> mme_info) es)"
  shows "pmm_equity cfg (after_storing buffer es) = mm_total_amount_quote cfg
    + sum_list (map ei_net_pnl_quote (take buffer (sort_key (\<lambda>i. - ei_timestamp i) (filter ei_is_done (map mme_info es)))))"
proof -
  define done_infos where "done_infos = filter ei_is_done (map mme_info es)"
  define S where "S = sort_key (\<lambda>i. - ei_timestamp i) done_infos"
  have ids: "distinct (map ei_id (map mme_info es))" using assms by (simp add: comp_def)
  have S: "mset S = mset done_infos" "distinct S"
    using conjunct1 [OF iffD1 [OF distinct_map ids]] by (simp_all add: S_def done_infos_def)
  have "(store_actions_proposal buffer (map mme_info es) :: mm_action list) =
      map (\<lambda>i. StoreExecutorAction (Some (ei_controller_id i)) (ei_id i)) (drop buffer S)"
    unfolding store_actions_proposal_def Let_def S_def [symmetric] done_infos_def [symmetric] by simp
  then have stored: "set (store_actions_proposal buffer (map mme_info es) :: mm_action list) =
      (\<lambda>i. StoreExecutorAction (Some (ei_controller_id i)) (ei_id i)) ` set (drop buffer S)"
    by simp
  have drop_sub: "set (drop buffer S) \<subseteq> set (map mme_info es)"
    using set_drop_subset [of buffer S] mset_eq_setD [OF S(1)] by (auto simp: done_infos_def)
  have kept: "StoreExecutorAction (Some (ei_controller_id i)) (ei_id i)
        \<in> (\<lambda>i. StoreExecutorAction (Some (ei_controller_id i)) (ei_id i)) ` set (drop buffer S) \<longleftrightarrow> i \<in> set (drop buffer S)"
    if "i \<in> set (map mme_info es)" for i
  proof -
    have "j = i" if "j \<in> set (drop buffer S)" "ei_id j = ei_id i" for j
      using inj_onD [OF conjunct2 [OF iffD1 [OF distinct_map ids]] that(2)] that(1) drop_sub \<open>i \<in> set (map mme_info es)\<close>
      by blast
    then show ?thesis by (auto simp: image_iff)
  qed
  have "filter ei_is_done (map mme_info (after_storing buffer es)) = filter (\<lambda>i. i \<notin> set (drop buffer S)) done_infos"
    using kept by (auto simp: after_storing_def Let_def stored done_infos_def filter_map comp_def intro!: arg_cong [of _ _ "map mme_info"] filter_cong)
  also have "mset \<dots> = mset (take buffer S)"
    using S by (metis distinct_filter_drop mset_filter)
  finally have "sum_list (map ei_net_pnl_quote (filter ei_is_done (map mme_info (after_storing buffer es)))) =
      sum_list (map ei_net_pnl_quote (take buffer S))"
    by (rule sum_list_permuted)
  then show ?thesis
    by (simp add: pmm_equity_def realized_pnl_def S_def done_infos_def filter_map comp_def)
qed

section \<open>Witnesses\<close>

definition demo_mm_rule :: trading_rule where
  "demo_mm_rule = (case new_trading_rule ''SOL-USDC'' (1 / 100) (1 / 100) (1 / 100) 1 None None of Inr r \<Rightarrow> r)"

definition demo_pmm_config :: pmm_config where
  "demo_pmm_config =
     \<lparr>mm_id = ''pmm'', mm_connector_name = ''binance'', mm_trading_pair = ''SOL-USDC'', mm_total_amount_quote = 10,
      mm_buy_spreads = [1 / 10], mm_sell_spreads = [1 / 10], mm_buy_amounts_pct = [1], mm_sell_amounts_pct = [1],
      mm_executor_refresh_time = 300, mm_cooldown_time = 15, mm_leverage = 1, mm_stop_loss = Some (3 / 100),
      mm_take_profit = Some (2 / 100), mm_time_limit = None, mm_take_profit_order_type = LIMIT,
      mm_trailing_stop = None, mm_position_rebalance_threshold_pct = 5 / 100, mm_skip_rebalance = False,
      pm_natr_length = 30, pm_ema_slow = 34, pm_rsi_length = 14, pm_maker_fee_pct = 2 / 10000,
      pm_min_profit_pct = 4 / 10000, pm_trend_lean = 1 / 2, pm_trend_spread_skew = 3 / 10,
      pm_trend_size_skew = 4 / 10, pm_panic_natr_mult = 3, pm_ashes_floor_pct = 6 / 10, pm_max_compound_factor = 5\<rparr>"

definition demo_done :: "string \<Rightarrow> decimal \<Rightarrow> decimal \<Rightarrow> mm_executor" where
  "demo_done i t pnl = \<lparr>mme_info = (demo_info [])\<lparr>ei_id := i, ei_timestamp := t, ei_net_pnl_quote := pnl\<rparr>, mme_level_id = Some (Some ''buy_0'')\<rparr>"

definition demo_resting :: mm_executor where
  "demo_resting = \<lparr>mme_info = (demo_info [])\<lparr>ei_id := ''r'', ei_status := RUNNING, ei_is_active := True, ei_close_type := None\<rparr>,
     mme_level_id = Some (Some ''buy_0'')\<rparr>"

definition demo_mm_view :: "mm_executor list \<Rightarrow> mm_view" where
  "demo_mm_view es = \<lparr>mv_executors = es, mv_positions = [], mv_now = 100, mv_rules = [(''SOL-USDC'', demo_mm_rule)]\<rparr>"

text \<open>A steady market, and one that rises by the whole trend score at a volatility of two percent.\<close>

definition demo_calm :: pmm_data where
  "demo_calm = signal_data demo_pmm_config 100 (1 / 100) (1 / 100) 0 []"

definition demo_rising :: pmm_data where
  "demo_rising = signal_data demo_pmm_config 100 (2 / 100) (1 / 100) 1 []"

definition demo_ids :: "string \<Rightarrow> string" where
  "demo_ids l = ''id_'' @ l"

theorem level_id_roundtrip_witness:
  "get_level_from_level_id (get_level_id_from_side SELL 12) = Inr 12 \<and> get_level_id_from_side SELL 12 = ''sell_12''"
proof -
  have "get_level_id_from_side SELL 12 = ''sell_12''" by code_simp
  then show ?thesis using level_id_roundtrip [of SELL 12] by simp
qed

theorem one_executor_per_level_witness:
  "\<exists>as. pmm_determine_executor_actions demo_pmm_config demo_calm demo_ids (demo_mm_view [demo_resting]) = Inr as
     \<and> created_levels as = [Some ''position_rebalance'', Some ''sell_0''] \<and> Some ''buy_0'' \<notin> set (created_levels as)"
proof -
  have "case pmm_determine_executor_actions demo_pmm_config demo_calm demo_ids (demo_mm_view [demo_resting]) of
      Inr as \<Rightarrow> created_levels as = [Some ''position_rebalance'', Some ''sell_0''] | Inl e \<Rightarrow> False" by code_simp
  then obtain as where as: "pmm_determine_executor_actions demo_pmm_config demo_calm demo_ids (demo_mm_view [demo_resting]) = Inr as"
      "created_levels as = [Some ''position_rebalance'', Some ''sell_0'']" by (auto split: sum.splits)
  have "demo_resting \<in> set (mv_executors (demo_mm_view [demo_resting]))" "ei_is_active (mme_info demo_resting)"
      "mme_level_id demo_resting = Some (Some ''buy_0'')"
    by (simp_all add: demo_mm_view_def demo_resting_def)
  with one_executor_per_level [OF as(1)] as show ?thesis by blast
qed

lemma demo_mm_found: "dict_at (mv_rules (demo_mm_view es)) (mm_trading_pair demo_pmm_config) = Inr demo_mm_rule"
  by (simp add: demo_mm_view_def demo_pmm_config_def dict_at_def dict_get_def)

theorem quotes_keep_fee_floor_witness:
  "\<exists>price amount. pmm_get_price_and_amount demo_pmm_config demo_calm (demo_mm_view []) ''sell_0'' = Inr (price, amount)
     \<and> price + 1 / 100 > 100 * (1 + 8 / 10000) \<and> price * (amount + 1 / 100) > 102 / 100"
proof -
  have "case pmm_get_price_and_amount demo_pmm_config demo_calm (demo_mm_view []) ''sell_0'' of Inr (price, amount) \<Rightarrow> price > 0 | Inl e \<Rightarrow> False"
    by code_simp
  then obtain price amount where q: "pmm_get_price_and_amount demo_pmm_config demo_calm (demo_mm_view []) ''sell_0'' = Inr (price, amount)" "price > 0"
    by (auto split: sum.splits prod.splits)
  have r: "min_price_increment demo_mm_rule = 1 / 100" "min_base_amount_increment demo_mm_rule = 1 / 100" "min_notional_size demo_mm_rule = 1"
      "pd_reference_price demo_calm = 100" "fee_floor demo_pmm_config = 8 / 10000"
      "get_trade_type_from_level_id ''sell_0'' = SELL"
    by code_simp+
  show ?thesis
    using quotes_keep_fee_floor [OF q(1) demo_mm_found _ _ _ _ _ q(2)] q(1) by (simp add: r)
qed

theorem take_profit_covers_fees_witness:
  "\<exists>c. pmm_get_executor_config demo_pmm_config demo_calm (demo_mm_view []) demo_ids ''buy_0'' 99 1 = Inr (Some c)
     \<and> tb_take_profit (pc_triple_barrier_config c) = Some (1 / 100)
     \<and> tb_stop_loss (pc_triple_barrier_config c) = Some (3 / 100 * ((1 / 100) / (2 / 100)))"
proof -
  have "case pmm_get_executor_config demo_pmm_config demo_calm (demo_mm_view []) demo_ids ''buy_0'' 99 1 of Inr (Some c) \<Rightarrow> True | _ \<Rightarrow> False"
    by code_simp
  then obtain c where c: "pmm_get_executor_config demo_pmm_config demo_calm (demo_mm_view []) demo_ids ''buy_0'' 99 1 = Inr (Some c)"
    by (auto split: sum.splits option.splits)
  have "mm_take_profit demo_pmm_config = Some (2 / 100)" "(2 / 100 :: decimal) > 0" "pd_take_profit demo_calm = Some (1 / 100)"
      "1 / 100 \<ge> fee_floor demo_pmm_config" and sl: "mm_stop_loss demo_pmm_config = Some (3 / 100)"
    by code_simp+
  from take_profit_covers_fees [OF c this(1-4)] c sl show ?thesis by auto
qed

theorem grounded_round_only_rebalances_witness:
  "\<exists>as. pmm_determine_executor_actions demo_pmm_config (demo_calm\<lparr>pd_state := Ashes\<rparr>) demo_ids (demo_mm_view [demo_resting]) = Inr as
     \<and> StopExecutorAction (Some ''pmm'') ''r'' False \<in> set as \<and> created_levels as = [Some ''position_rebalance'']"
proof -
  let ?d = "demo_calm\<lparr>pd_state := Ashes\<rparr>"
  have "case pmm_determine_executor_actions demo_pmm_config ?d demo_ids (demo_mm_view [demo_resting]) of
      Inr as \<Rightarrow> created_levels as = [Some ''position_rebalance''] | Inl e \<Rightarrow> False" by code_simp
  then obtain as where as: "pmm_determine_executor_actions demo_pmm_config ?d demo_ids (demo_mm_view [demo_resting]) = Inr as"
      "created_levels as = [Some ''position_rebalance'']" by (auto split: sum.splits)
  have "demo_resting \<in> set (mv_executors (demo_mm_view [demo_resting]))" "ei_is_active (mme_info demo_resting)"
      "\<not> ei_is_trading (mme_info demo_resting)" "ei_id (mme_info demo_resting) = ''r''" "mm_id demo_pmm_config = ''pmm''"
    by (simp_all add: demo_mm_view_def demo_resting_def demo_info_def demo_pmm_config_def)
  moreover have "pd_state ?d \<noteq> Flying" by simp
  ultimately show ?thesis using grounded_round_only_rebalances [OF as(1)] as by fastforce
qed

theorem leaning_bid_crosses_mid_witness:
  "\<exists>price amount. pmm_get_price_and_amount demo_pmm_config demo_rising (demo_mm_view []) ''buy_0'' = Inr (price, amount) \<and> price \<ge> 100"
proof -
  have "case pmm_get_price_and_amount demo_pmm_config demo_rising (demo_mm_view []) ''buy_0'' of Inr q \<Rightarrow> True | Inl e \<Rightarrow> False"
    by code_simp
  then obtain price amount where q: "pmm_get_price_and_amount demo_pmm_config demo_rising (demo_mm_view []) ''buy_0'' = Inr (price, amount)"
    by (auto split: sum.splits)
  have b: "get_trade_type_from_level_id ''buy_0'' = BUY" and r: "min_price_increment demo_mm_rule = 1 / 100"
      and f: "fee_floor demo_pmm_config = 8 / 10000"
    by code_simp+
  have "price \<ge> 100"
    by (rule leaning_bid_crosses_mid [OF q [unfolded demo_rising_def] b demo_mm_found, of "1 / 10"])
      (simp_all only: r f, simp_all add: demo_pmm_config_def)
  then show ?thesis using q by blast
qed

text \<open>A loss of five, then two small gains; the strategy keeps the two newest in its report.\<close>

theorem equity_forgets_stored_results_witness:
  "let es = [demo_done ''a'' 1 (- 5), demo_done ''b'' 2 (1 / 10), demo_done ''c'' 3 (1 / 10)]
   in pmm_next_state demo_pmm_config 1 1 es = Ashes \<and> pmm_equity demo_pmm_config (after_storing 2 es) = 51 / 5
      \<and> pmm_next_state demo_pmm_config 1 1 (after_storing 2 es) = Flying"
proof -
  let ?es = "[demo_done ''a'' 1 (- 5), demo_done ''b'' 2 (1 / 10), demo_done ''c'' 3 (1 / 10)]"
  have "distinct (map (ei_id \<circ> mme_info) ?es)" by (simp add: demo_done_def)
  from equity_forgets_stored_results [OF this, of demo_pmm_config 2]
  have "pmm_equity demo_pmm_config (after_storing 2 ?es) = 51 / 5"
    by (simp add: demo_done_def demo_info_def ei_is_done_def demo_pmm_config_def)
  moreover have "pmm_next_state demo_pmm_config 1 1 ?es = Ashes"
    by (simp add: pmm_next_state_def pmm_equity_def realized_pnl_def demo_done_def demo_info_def ei_is_done_def demo_pmm_config_def)
  ultimately show ?thesis by (simp add: pmm_next_state_def demo_pmm_config_def)
qed

end
