(* ===== verification/Fleet.thy ===== *)
theory Fleet
  imports Phoenix_LP
begin

text \<open>
  \<open>podrunner/fleet.py\<close>: the paper-trading fleet, one Phoenix controller per token. Modelled are the
  selection of tokens, the swarm's memory (blacklist, cooldowns, the results of retired pods), the
  pricing of the pods, the rotation of pods, and the totals of the book. A pod's tick, which runs
  the controller against the simulation under \<open>research/\<close>, is an argument that gives its report; so
  are the two web services, the random sample, and what happens when a pod is opened.

  The lemmas show that rotation keeps the fleet's size, retires living pods only against
  replacements, and never changes the profit and loss of the book.
\<close>

section \<open>Selecting tokens\<close>

record selection_limits =
  sl_liq_min :: decimal
  sl_turn_min :: decimal
  sl_vol_min :: decimal
  sl_vol_max :: decimal
  sl_chop_max :: decimal
  sl_age_min_h :: decimal
  sl_h24_min :: decimal

text \<open>A pool as the service lists it; an absent number counts as 0.\<close>

record listed_pool =
  lsp_address :: "string option"
  lsp_name :: "string option"
  lsp_reserve_in_usd :: "decimal option"
  lsp_volume_h24 :: "decimal option"
  lsp_change_h1 :: "decimal option"
  lsp_change_h6 :: "decimal option"
  lsp_change_h24 :: "decimal option"
  lsp_age_hours :: decimal

record token_metrics =
  tm_addr :: "string option"
  tm_symbol :: string
  tm_liq :: decimal
  tm_turnover :: decimal
  tm_vol_h1 :: decimal
  tm_vol_h6 :: decimal
  tm_ch_h24 :: decimal
  tm_age_h :: decimal

text \<open>\<open>name.replace(" / ", "-").replace("/", "-")\<close>\<close>

fun dashed :: "string \<Rightarrow> string" where
  "dashed (c # d # e # cs) =
     (if c = CHR '' '' \<and> d = CHR ''/'' \<and> e = CHR '' '' then CHR ''-'' # dashed cs
      else (if c = CHR ''/'' then CHR ''-'' else c) # dashed (d # e # cs))"
| "dashed cs = map (\<lambda>c. if c = CHR ''/'' then CHR ''-'' else c) cs"

definition or_zero :: "decimal option \<Rightarrow> decimal" where
  "or_zero v = (case v of None \<Rightarrow> 0 | Some x \<Rightarrow> x)"

definition metrics :: "listed_pool \<Rightarrow> token_metrics" where
  "metrics p =
     (let liq = or_zero (lsp_reserve_in_usd p) in
      \<lparr>tm_addr = lsp_address p,
       tm_symbol = dashed (if truthy_str (lsp_name p) then the (lsp_name p) else ''?''),
       tm_liq = liq, tm_turnover = (if liq > 0 then or_zero (lsp_volume_h24 p) / liq else 0),
       tm_vol_h1 = \<bar>or_zero (lsp_change_h1 p)\<bar>, tm_vol_h6 = \<bar>or_zero (lsp_change_h6 p)\<bar>,
       tm_ch_h24 = or_zero (lsp_change_h24 p), tm_age_h = lsp_age_hours p\<rparr>)"

definition passes :: "selection_limits \<Rightarrow> string set \<Rightarrow> token_metrics \<Rightarrow> string" where
  "passes sl blacklist m =
     (if \<not> truthy_str (tm_addr m) then ''no-pair''
      else if tm_symbol m \<in> blacklist then ''blacklisted''
      else if tm_liq m < sl_liq_min sl then ''liq<min''
      else if tm_age_h m < sl_age_min_h sl then ''too-fresh''
      else if tm_turnover m < sl_turn_min sl then ''turnover<min''
      else if \<not> (sl_vol_min sl \<le> tm_vol_h1 m \<and> tm_vol_h1 m \<le> sl_vol_max sl) then ''vol-out-of-band''
      else if tm_vol_h6 m > sl_chop_max sl then ''trending''
      else if tm_ch_h24 m < sl_h24_min sl then ''dying''
      else ''ok'')"

text \<open>\<open>sample xs k\<close> stands for \<open>random.sample\<close>: \<open>k\<close> of the elements, at different places.\<close>

definition ranked :: "selection_limits \<Rightarrow> string set \<Rightarrow> listed_pool list \<Rightarrow> token_metrics list" where
  "ranked sl blacklist pools =
     sort_key (\<lambda>m. - tm_turnover m) (filter (\<lambda>m. passes sl blacklist m = ''ok'') (map metrics pools))"

definition select_tokens ::
  "(token_metrics list \<Rightarrow> nat \<Rightarrow> token_metrics list) \<Rightarrow> selection_limits \<Rightarrow> listed_pool list \<Rightarrow> nat \<Rightarrow> string set \<Rightarrow>
   token_metrics list" where
  "select_tokens sample sl pools n blacklist =
     (let pool = take (max (n * 3) n) (ranked sl blacklist pools) in sample pool (min n (length pool)))"

section \<open>Pods\<close>

record pod_report =
  rep_runtime_state :: phoenix_state
  rep_position :: string
  rep_equity :: decimal
  rep_pnl :: decimal
  rep_fees_earned :: decimal
  rep_hawkes_n :: decimal
  rep_quote_usd :: "decimal option"

record pod =
  pod_symbol :: string
  pod_base_mint :: "string option"
  pod_quote_mint :: "string option"
  pod_quote_usd :: "decimal option"
  pod_price :: decimal
  pod_stale :: int
  pod_report :: "pod_report option"  \<comment> \<open>None before the first tick\<close>

text \<open>The pool reading a feed returns.\<close>

record feed_info =
  fi_price :: decimal
  fi_quote_usd :: "decimal option"

definition apply_price :: "feed_info \<Rightarrow> pod \<Rightarrow> pod" where
  "apply_price i p =
     (let p1 = p\<lparr>pod_price := fi_price i\<rparr>
      in if fi_quote_usd i \<noteq> None \<and> fi_quote_usd i \<noteq> Some 0 then p1\<lparr>pod_quote_usd := fi_quote_usd i\<rparr> else p1)"

text \<open>One batched call prices the book; pods it misses fetch for themselves, and keep their price if that fails.\<close>

definition mint_price :: "(string \<Rightarrow> decimal option) \<Rightarrow> string option \<Rightarrow> decimal option" where
  "mint_price usdmap m = (case m of None \<Rightarrow> None | Some x \<Rightarrow> usdmap x)"

definition price_pod :: "(string \<Rightarrow> decimal option) \<Rightarrow> (pod \<Rightarrow> feed_info option) \<Rightarrow> pod \<Rightarrow> pod" where
  "price_pod usdmap fetch p =
     (case (mint_price usdmap (pod_base_mint p), mint_price usdmap (pod_quote_mint p)) of
        (Some b, Some q) \<Rightarrow>
          (if b \<noteq> 0 \<and> q > 0 then p\<lparr>pod_price := b / q, pod_quote_usd := Some q\<rparr>
           else (case fetch p of None \<Rightarrow> p | Some i \<Rightarrow> apply_price i p))
      | _ \<Rightarrow> (case fetch p of None \<Rightarrow> p | Some i \<Rightarrow> apply_price i p))"

text \<open>What \<open>_extract\<close> reports as the position, from the active executor that has a range.\<close>

definition extract_position :: "(string \<times> decimal) option \<Rightarrow> string" where
  "extract_position active =
     (case active of
        None \<Rightarrow> ''idle''
      | Some (st, initial_quote) \<Rightarrow>
          (let sd = (if initial_quote > 0 then ''bid'' else ''ask'')
           in if st = ''OPENING'' then ''opening'' else if st = ''CLOSING'' then ''closing''
              else if st = ''IN_RANGE'' then sd @ ''_in'' else if st = ''OUT_OF_RANGE'' then sd @ ''_out''
              else ''opening''))"

section \<open>The swarm\<close>

record swarm =
  sw_blacklist :: "string set"
  sw_cooldown :: "(string, int) dict"
  sw_alarms :: nat
  sw_vetoes :: nat
  sw_retired_pnl :: decimal
  sw_retired_fees :: decimal
  sw_retired :: int
  sw_last_refill :: int

definition new_swarm :: "string set \<Rightarrow> swarm" where
  "new_swarm persisted =
     \<lparr>sw_blacklist = persisted, sw_cooldown = [], sw_alarms = 0, sw_vetoes = 0, sw_retired_pnl = 0,
      sw_retired_fees = 0, sw_retired = 0, sw_last_refill = - (10 ^ 9)\<rparr>"

record fleet_config =
  fc_stale_cycles :: int
  fc_refill_cooldown :: int

definition usd :: "decimal option \<Rightarrow> decimal option \<Rightarrow> decimal option" where
  "usd v q = (case (v, q) of (Some x, Some y) \<Rightarrow> if y \<noteq> 0 then Some (x * y) else None | _ \<Rightarrow> None)"

definition runtime_state :: "pod \<Rightarrow> phoenix_state option" where
  "runtime_state p = map_option rep_runtime_state (pod_report p)"

definition pod_usd :: "(pod_report \<Rightarrow> decimal) \<Rightarrow> pod \<Rightarrow> decimal option" where
  "pod_usd f p = usd (map_option f (pod_report p)) (Option.bind (pod_report p) rep_quote_usd)"

definition swarm_update :: "pod list \<Rightarrow> swarm \<Rightarrow> swarm" where
  "swarm_update pods sw =
     sw\<lparr>sw_alarms := length (filter (\<lambda>p. runtime_state p = Some PERCHED
           \<or> (case pod_report p of None \<Rightarrow> False | Some r \<Rightarrow> rep_hawkes_n r \<ge> 7 / 10)) pods),
        sw_vetoes := length (filter (\<lambda>p. runtime_state p = Some VETOED) pods)\<rparr>"

definition excluded :: "swarm \<Rightarrow> int \<Rightarrow> string set" where
  "excluded sw now = sw_blacklist sw \<union> {s. \<exists>c. dict_get (sw_cooldown sw) s = Some c \<and> c > now}"

definition retire :: "fleet_config \<Rightarrow> int \<Rightarrow> bool \<Rightarrow> pod \<Rightarrow> swarm \<Rightarrow> swarm" where
  "retire fc now permanent p sw =
     (let sw1 = sw\<lparr>sw_retired_pnl := sw_retired_pnl sw + or_zero (pod_usd rep_pnl p),
                   sw_retired_fees := sw_retired_fees sw + or_zero (pod_usd rep_fees_earned p),
                   sw_retired := sw_retired sw + 1\<rparr>
      in if permanent then sw1\<lparr>sw_blacklist := insert (pod_symbol p) (sw_blacklist sw1)\<rparr>
         else sw1\<lparr>sw_cooldown := dict_set (sw_cooldown sw1) (pod_symbol p) (now + fc_stale_cycles fc * 2)\<rparr>)"

text \<open>The totals \<open>emit\<close> prints: the live pods and what retired ones have banked.\<close>

definition live_total :: "(pod_report \<Rightarrow> decimal) \<Rightarrow> pod list \<Rightarrow> decimal" where
  "live_total f pods = sum_list (map (\<lambda>p. or_zero (pod_usd f p)) pods)"

definition port_pnl :: "pod list \<Rightarrow> swarm \<Rightarrow> decimal" where
  "port_pnl pods sw = live_total rep_pnl pods + sw_retired_pnl sw"

definition port_fees :: "pod list \<Rightarrow> swarm \<Rightarrow> decimal" where
  "port_fees pods sw = live_total rep_fees_earned pods + sw_retired_fees sw"

section \<open>Rotation\<close>

definition mark_stale :: "pod \<Rightarrow> pod" where
  "mark_stale p =
     (if runtime_state p = Some HATCHING then p\<lparr>pod_stale := 0\<rparr>
      else let active = (case pod_report p of None \<Rightarrow> False | Some r \<Rightarrow> rep_position r \<notin> set [''idle'', ''''])
           in p\<lparr>pod_stale := (if active then 0 else pod_stale p + 1)\<rparr>)"

definition is_dead :: "pod \<Rightarrow> bool" where
  "is_dead p = (runtime_state p \<in> set [Some VETOED, Some ASHES])"

definition bury :: "fleet_config \<Rightarrow> int \<Rightarrow> pod list \<Rightarrow> swarm \<Rightarrow> pod list \<times> swarm" where
  "bury fc now pods sw = (filter (\<lambda>p. \<not> is_dead p) pods, fold (retire fc now True) (filter is_dead pods) sw)"

text \<open>The pods opened from the picks, until enough; opening may fail.\<close>

fun open_pods :: "(token_metrics \<Rightarrow> pod option) \<Rightarrow> nat \<Rightarrow> string set \<Rightarrow> token_metrics list \<Rightarrow> pod list" where
  "open_pods op want held [] = []"
| "open_pods op want held (m # ms) =
     (if want = 0 then []
      else if tm_symbol m \<in> held then open_pods op want held ms
      else case op m of
             None \<Rightarrow> open_pods op want held ms
           | Some p \<Rightarrow> p # open_pods op (want - 1) (insert (pod_symbol p) held) ms)"

definition remove_pods :: "pod list \<Rightarrow> pod list \<Rightarrow> pod list" where
  "remove_pods gone pods = fold remove1 gone pods"

definition refill ::
  "fleet_config \<Rightarrow> nat \<Rightarrow> int \<Rightarrow> (nat \<Rightarrow> string set \<Rightarrow> token_metrics list) \<Rightarrow> (token_metrics \<Rightarrow> pod option) \<Rightarrow>
   pod list \<Rightarrow> swarm \<Rightarrow> pod list \<times> swarm" where
  "refill fc target now select op pods sw =
     (let stale = filter (\<lambda>p. pod_stale p \<ge> fc_stale_cycles fc) pods;
          short = int target - int (length pods)
      in if short \<le> 0 \<and> stale = [] then (pods, sw)
         else let sw1 = sw\<lparr>sw_last_refill := now\<rparr>;
                  held = pod_symbol ` set pods;
                  want = nat (short + int (length stale));
                  picks = select (nat (short + int (length stale) + 3)) (excluded sw1 now \<union> held);
                  new_pods = open_pods op want held picks;
                  gone = take (nat (max 0 (int (length new_pods) - short))) stale
              in (remove_pods gone pods @ new_pods, fold (retire fc now False) gone sw1))"

definition rotate_fleet ::
  "fleet_config \<Rightarrow> nat \<Rightarrow> bool \<Rightarrow> int \<Rightarrow> (nat \<Rightarrow> string set \<Rightarrow> token_metrics list) \<Rightarrow> (token_metrics \<Rightarrow> pod option) \<Rightarrow>
   pod list \<Rightarrow> swarm \<Rightarrow> pod list \<times> swarm" where
  "rotate_fleet fc target auto now select op pods sw =
     (case bury fc now (map mark_stale pods) sw of (alive, sw1) \<Rightarrow>
        if \<not> auto \<or> now - sw_last_refill sw1 < fc_refill_cooldown fc then (alive, sw1)
        else refill fc target now select op alive sw1)"

text \<open>A cycle of the main loop; \<open>tick\<close> gives a pod's report.\<close>

definition fleet_cycle ::
  "fleet_config \<Rightarrow> nat \<Rightarrow> bool \<Rightarrow> int \<Rightarrow> (string \<Rightarrow> decimal option) \<Rightarrow> (pod \<Rightarrow> feed_info option) \<Rightarrow> (pod \<Rightarrow> pod_report) \<Rightarrow>
   (nat \<Rightarrow> string set \<Rightarrow> token_metrics list) \<Rightarrow> (token_metrics \<Rightarrow> pod option) \<Rightarrow> pod list \<times> swarm \<Rightarrow> pod list \<times> swarm" where
  "fleet_cycle fc target auto now usdmap fetch tick select op s =
     (let pods = map (\<lambda>p. let p1 = price_pod usdmap fetch p in p1\<lparr>pod_report := Some (tick p1)\<rparr>) (fst s)
      in rotate_fleet fc target auto now select op pods (swarm_update pods (snd s)))"

section \<open>Size\<close>

lemma open_pods_length: "length (open_pods op want held ms) \<le> want"
proof (induction ms arbitrary: want held)
  case (Cons m ms)
  show ?case
  proof (cases "op m")
    case None
    then show ?thesis using Cons.IH by simp
  next
    case (Some p)
    show ?thesis using Some Cons.IH [of want held] Cons.IH [of "want - 1" "insert (pod_symbol p) held"]
      by (cases want) simp_all
  qed
qed simp

lemma remove_pods_stale:
  assumes "gone = take n (filter P pods)"
  shows "length (remove_pods gone pods) + length gone = length pods
    \<and> mset (remove_pods gone pods) = mset pods - mset gone"
proof -
  have ms: "mset (remove_pods g ps) = mset ps - mset g" for g ps
    unfolding remove_pods_def by (induction g arbitrary: ps) simp_all
  have "mset gone \<subseteq># mset (filter P pods)" unfolding assms by (metis append_take_drop_id mset_append mset_subset_eq_add_left)
  also have "\<dots> \<subseteq># mset pods" by simp
  finally have sub: "mset gone \<subseteq># mset pods" .
  have "size (mset (remove_pods gone pods)) + size (mset gone) = size (mset pods)"
    unfolding ms using size_Diff_submset [OF sub] size_mset_mono [OF sub] by simp
  then show ?thesis by (metis ms size_mset)
qed

lemma refill_size:
  assumes "length pods \<le> target" and "refill fc target now select op pods sw = (pods', sw')"
  shows "length pods \<le> length pods' \<and> length pods' \<le> target"
proof (cases "target = length pods \<and> filter (\<lambda>p. pod_stale p \<ge> fc_stale_cycles fc) pods = []")
  case True
  then show ?thesis using assms by (simp add: refill_def Let_def)
next
  case False
  let ?stale = "filter (\<lambda>p. pod_stale p \<ge> fc_stale_cycles fc) pods"
  let ?short = "int target - int (length pods)"
  define new where "new = open_pods op (nat (?short + int (length ?stale))) (pod_symbol ` set pods)
      (select (nat (?short + int (length ?stale) + 3)) (excluded (sw\<lparr>sw_last_refill := now\<rparr>) now \<union> pod_symbol ` set pods))"
  define gone where "gone = take (nat (max 0 (int (length new) - ?short))) ?stale"
  have "\<not> (?short \<le> 0 \<and> ?stale = [])" using False assms(1) by auto
  then have pods': "pods' = remove_pods gone pods @ new"
    using assms(2) unfolding refill_def Let_def by (simp add: new_def gone_def if_not_P split: if_splits)
  have "int (length new) \<le> ?short + int (length ?stale)"
    using open_pods_length [of op "nat (?short + int (length ?stale))"] assms(1) by (simp add: new_def le_nat_iff)
  then have "int (length gone) = max 0 (int (length new) - ?short)"
    by (simp add: gone_def)
  moreover have "length (remove_pods gone pods) + length gone = length pods"
    using remove_pods_stale [OF gone_def] by simp
  ultimately show ?thesis using assms(1) unfolding pods' length_append by linarith
qed

text \<open>
  A rotation keeps the fleet within its target, and the fleet loses no more pods than died: a
  living pod, perched or idle, goes only when a new one takes its place.
\<close>

theorem rotation_keeps_fleet_size:
  assumes "length pods \<le> target" and "rotate_fleet fc target auto now select op pods sw = (pods', sw')"
  shows "length pods' \<le> target \<and> length (filter (\<lambda>p. \<not> is_dead p) pods) \<le> length pods'"
proof -
  have alive: "length (filter (\<lambda>p. \<not> is_dead p) (map mark_stale pods)) = length (filter (\<lambda>p. \<not> is_dead p) pods)"
    by (simp add: filter_map comp_def is_dead_def mark_stale_def runtime_state_def if_distrib cong: if_cong)
  have "length (filter (\<lambda>p. \<not> is_dead p) (map mark_stale pods)) \<le> target"
    unfolding alive using assms(1) length_filter_le le_trans by blast
  from refill_size [OF this] alive assms(2) this show ?thesis
    by (auto simp: rotate_fleet_def bury_def split: if_splits prod.splits)
qed

section \<open>The book\<close>

lemma retire_totals [simp]:
  "sw_retired_pnl (retire fc now perm p sw) = sw_retired_pnl sw + or_zero (pod_usd rep_pnl p)"
  "sw_retired_fees (retire fc now perm p sw) = sw_retired_fees sw + or_zero (pod_usd rep_fees_earned p)"
  by (simp_all add: retire_def Let_def)

lemma fold_retire_totals:
  "sw_retired_pnl (fold (retire fc now perm) ps sw) = sw_retired_pnl sw + live_total rep_pnl ps"
  "sw_retired_fees (fold (retire fc now perm) ps sw) = sw_retired_fees sw + live_total rep_fees_earned ps"
  by (induction ps arbitrary: sw) (simp_all add: live_total_def)

lemma live_total_simps [simp]:
  "live_total f [] = 0" "live_total f (p # ps) = or_zero (pod_usd f p) + live_total f ps"
  "live_total f (ps @ qs) = live_total f ps + live_total f qs"
  by (simp_all add: live_total_def)

lemma live_total_partition: "live_total f (filter P ps) + live_total f (filter (\<lambda>p. \<not> P p) ps) = live_total f ps"
  by (induction ps) (auto simp: algebra_simps)

lemma live_total_mset: "live_total f ps = sum_mset (image_mset (\<lambda>p. or_zero (pod_usd f p)) (mset ps))"
  by (simp add: live_total_def sum_mset_sum_list [symmetric])

lemma live_total_removed:
  assumes "gone = take n (filter P pods)"
  shows "live_total f (remove_pods gone pods) + live_total f gone = live_total f pods"
proof -
  have "mset gone \<subseteq># mset (filter P pods)" unfolding assms by (metis append_take_drop_id mset_append mset_subset_eq_add_left)
  also have "\<dots> \<subseteq># mset pods" by simp
  finally have "mset gone \<subseteq># mset pods" .
  then have "mset pods = (mset pods - mset gone) + mset gone" by simp
  moreover have "mset (remove_pods gone pods) = mset pods - mset gone" using remove_pods_stale [OF assms] by simp
  ultimately show ?thesis unfolding live_total_mset by (metis image_mset_union sum_mset.union)
qed

lemma live_total_marked: "live_total f (map mark_stale ps) = live_total f ps"
  by (induction ps) (auto simp: mark_stale_def pod_usd_def Let_def)

lemma live_total_new: "\<forall>p \<in> set ps. pod_report p = None \<Longrightarrow> live_total f ps = 0"
  by (induction ps) (auto simp: pod_usd_def usd_def or_zero_def)

lemma open_pods_new:
  assumes "\<And>m p. op m = Some p \<Longrightarrow> Q p"
  shows "\<forall>p \<in> set (open_pods op want held ms). Q p"
  using assms by (induction ms arbitrary: want held) (auto split: option.splits if_splits)

lemma refill_totals:
  assumes "\<And>m p. op m = Some p \<Longrightarrow> pod_report p = None" and "refill fc target now select op pods sw = (pods', sw')"
  shows "port_pnl pods' sw' = port_pnl pods sw \<and> port_fees pods' sw' = port_fees pods sw"
proof (cases "int target - int (length pods) \<le> 0 \<and> filter (\<lambda>p. pod_stale p \<ge> fc_stale_cycles fc) pods = []")
  case True
  then show ?thesis using assms(2) by (simp add: refill_def Let_def)
next
  case False
  obtain new n where parts: "\<forall>p \<in> set new. pod_report p = None"
      "pods' = remove_pods (take n (filter (\<lambda>p. pod_stale p \<ge> fc_stale_cycles fc) pods)) pods @ new"
      "sw' = fold (retire fc now False) (take n (filter (\<lambda>p. pod_stale p \<ge> fc_stale_cycles fc) pods)) (sw\<lparr>sw_last_refill := now\<rparr>)"
  proof -
    have opened: "\<forall>p \<in> set (open_pods op w h ms). pod_report p = None" for w h ms
      using open_pods_new [of op "\<lambda>p. pod_report p = None"] assms(1) by blast
    show thesis
      using assms(2) False that opened unfolding refill_def Let_def if_not_P [OF False] by (metis (no_types, lifting) prod.inject)
  qed
  from live_total_removed [OF refl, of _ n "\<lambda>p. pod_stale p \<ge> fc_stale_cycles fc" pods] live_total_new [OF parts(1)]
  show ?thesis
    by (simp add: parts(2,3) port_pnl_def port_fees_def fold_retire_totals add.commute add.left_commute)
qed

text \<open>
  C24: Rotating pods never changes the profit and loss of the book nor its fees: what a retired pod had
  made or lost stays banked, and a new pod starts with nothing.
\<close>

theorem rotation_conserves_book:
  assumes "\<forall>m p. op m = Some p \<longrightarrow> pod_report p = None"
    and "rotate_fleet fc target auto now select op pods sw = (pods', sw')"
  shows "port_pnl pods' sw' = port_pnl pods sw \<and> port_fees pods' sw' = port_fees pods sw"
proof -
  obtain alive sw1 where b: "bury fc now (map mark_stale pods) sw = (alive, sw1)" by fastforce
  have buried: "port_pnl alive sw1 = port_pnl pods sw \<and> port_fees alive sw1 = port_fees pods sw"
    using b live_total_partition [of _ is_dead "map mark_stale pods"]
    by (auto simp: bury_def port_pnl_def port_fees_def fold_retire_totals live_total_marked algebra_simps)
  show ?thesis
  proof (cases "\<not> auto \<or> now - sw_last_refill sw1 < fc_refill_cooldown fc")
    case True
    then show ?thesis using assms(2) buried by (simp add: rotate_fleet_def b)
  next
    case False
    then have "refill fc target now select op alive sw1 = (pods', sw')" using assms(2) by (simp add: rotate_fleet_def b)
    from refill_totals [OF _ this] assms(1) buried show ?thesis by auto
  qed
qed

section \<open>The blacklist\<close>

lemma retire_blacklist:
  "sw_blacklist (retire fc now perm p sw) = (if perm then insert (pod_symbol p) (sw_blacklist sw) else sw_blacklist sw)"
  "sw_last_refill (retire fc now perm p sw) = sw_last_refill sw"
  by (simp_all add: retire_def Let_def)

lemma fold_retire_blacklist:
  "sw_blacklist (fold (retire fc now perm) ps sw) = (if perm then pod_symbol ` set ps else {}) \<union> sw_blacklist sw"
  "sw_last_refill (fold (retire fc now perm) ps sw) = sw_last_refill sw"
  by (induction ps arbitrary: sw) (auto simp: retire_blacklist)

lemma mark_stale_fields: "pod_symbol (mark_stale p) = pod_symbol p" "is_dead (mark_stale p) = is_dead p"
  by (simp_all add: mark_stale_def is_dead_def runtime_state_def Let_def)

lemma remove_pods_subset: "set (remove_pods gone pods) \<subseteq> set pods"
  unfolding remove_pods_def
proof (induction gone arbitrary: pods)
  case (Cons g gone)
  have "set (fold remove1 gone (remove1 g pods)) \<subseteq> set (remove1 g pods)" by (rule Cons.IH)
  then show ?case using set_remove1_subset [of g pods] by simp
qed simp

lemma refill_pods:
  assumes "refill fc target now select op pods sw = (pods', sw')" and "p \<in> set pods'"
  shows "p \<in> set pods \<or> (\<exists>m. op m = Some p)"
proof -
  have opened: "\<exists>m. op m = Some p" if "p \<in> set (open_pods op w h ms)" for w h ms
    using open_pods_new [of op "\<lambda>p. \<exists>m. op m = Some p"] that by blast
  show ?thesis
    using assms opened remove_pods_subset by (fastforce simp: refill_def Let_def split: if_splits)
qed

lemma refill_blacklist:
  "refill fc target now select op pods sw = (pods', sw') \<Longrightarrow> sw_blacklist sw' = sw_blacklist sw"
  by (auto simp: refill_def Let_def fold_retire_blacklist split: if_splits)

text \<open>
  After a rotation no vetoed pod and none that fell below its floor is left, every such pod's
  symbol is on the blacklist, and nothing ever leaves the blacklist; perched pods are not blacklisted.
\<close>

theorem dead_pods_are_blacklisted:
  assumes "\<forall>m p. op m = Some p \<longrightarrow> pod_report p = None"
    and "rotate_fleet fc target auto now select op pods sw = (pods', sw')"
  shows "(\<forall>p \<in> set pods'. \<not> is_dead p)
    \<and> sw_blacklist sw' = sw_blacklist sw \<union> pod_symbol ` set (filter is_dead pods)"
proof -
  obtain alive sw1 where b: "bury fc now (map mark_stale pods) sw = (alive, sw1)" by fastforce
  have alive: "\<forall>p \<in> set alive. \<not> is_dead p" and bl: "sw_blacklist sw1 = sw_blacklist sw \<union> pod_symbol ` set (filter is_dead pods)"
    using b by (auto simp: bury_def fold_retire_blacklist filter_map comp_def mark_stale_fields image_iff)
  have new: "\<not> is_dead p" if "op m = Some p" for m p
    using assms(1) that by (auto simp: is_dead_def runtime_state_def)
  show ?thesis
  proof (cases "\<not> auto \<or> now - sw_last_refill sw1 < fc_refill_cooldown fc")
    case True
    then show ?thesis using assms(2) alive bl by (simp add: rotate_fleet_def b)
  next
    case False
    then have "refill fc target now select op alive sw1 = (pods', sw')" using assms(2) by (simp add: rotate_fleet_def b)
    from refill_pods [OF this] refill_blacklist [OF this] alive bl new show ?thesis by blast
  qed
qed

lemma selected_pass:
  assumes "\<And>xs k. set (sample xs k) \<subseteq> set xs" and "m \<in> set (select_tokens sample sl pools n blacklist)"
  shows "passes sl blacklist m = ''ok'' \<and> tm_symbol m \<notin> blacklist"
proof -
  have "m \<in> set (ranked sl blacklist pools)"
    using assms set_take_subset by (fastforce simp: select_tokens_def Let_def)
  then have "passes sl blacklist m = ''ok''" by (auto simp: ranked_def)
  then show ?thesis by (auto simp: passes_def split: if_splits)
qed

text \<open>
  The blacklist holds the names of the pods' feeds, the selection compares the names of the
  listing service. Where they differ for a token, the very rotation that retires the token's dead pod
  and blacklists it opens a pod on it again.
\<close>

theorem blacklisted_token_is_reopened:
  assumes "is_dead p" and "target = 1" and "now - sw_last_refill sw \<ge> fc_refill_cooldown fc"
    and "select_tokens sample sl pools 4 (insert (pod_symbol p) (excluded sw now)) = [m]" and "op m = Some p'" and "pod_symbol p' = pod_symbol p"
  shows "\<exists>sw'. rotate_fleet fc target True now (select_tokens sample sl pools) op [p] sw = ([p'], sw') \<and> pod_symbol p' \<in> sw_blacklist sw'"
proof -
  have dead: "is_dead (mark_stale p)" "pod_symbol (mark_stale p) = pod_symbol p" using assms(1) by (simp_all add: mark_stale_fields)
  define sw1 where "sw1 = retire fc now True (mark_stale p) sw"
  have sw1: "sw_blacklist sw1 = insert (pod_symbol p) (sw_blacklist sw)" "sw_last_refill sw1 = sw_last_refill sw"
      "sw_cooldown sw1 = sw_cooldown sw"
    by (simp_all add: sw1_def retire_def Let_def dead(2))
  have ex: "excluded (sw1\<lparr>sw_last_refill := now\<rparr>) now = insert (pod_symbol p) (excluded sw now)"
    by (auto simp: excluded_def sw1)
  let ?select = "select_tokens sample sl pools"
  have "rotate_fleet fc target True now ?select op [p] sw = refill fc target now ?select op [] sw1"
    using assms(3) dead(1) by (simp add: rotate_fleet_def bury_def sw1_def [symmetric] sw1(2))
  also have "\<dots> = ([p'], sw1\<lparr>sw_last_refill := now\<rparr>)"
    using assms(2,4,5) by (simp add: refill_def Let_def ex remove_pods_def)
  finally show ?thesis using assms(6) by (simp add: sw1(1))
qed

section \<open>Witnesses\<close>

definition demo_report :: "phoenix_state \<Rightarrow> string \<Rightarrow> decimal \<Rightarrow> pod_report" where
  "demo_report st pos pnl =
     \<lparr>rep_runtime_state = st, rep_position = pos, rep_equity = 100 + pnl, rep_pnl = pnl, rep_fees_earned = 1,
      rep_hawkes_n = 0, rep_quote_usd = Some 150\<rparr>"

definition demo_pod :: "string \<Rightarrow> int \<Rightarrow> pod_report option \<Rightarrow> pod" where
  "demo_pod name stale r =
     \<lparr>pod_symbol = name, pod_base_mint = None, pod_quote_mint = None, pod_quote_usd = Some 150, pod_price = 2,
      pod_stale = stale, pod_report = r\<rparr>"

text \<open>A pod below its floor, one that rested too long, and one at work; one new token opens.\<close>

definition demo_book :: "pod list" where
  "demo_book =
     [demo_pod ''WIF-SOL'' 0 (Some (demo_report ASHES ''idle'' (- 45))),
      demo_pod ''CAT-SOL'' 60 (Some (demo_report PERCHED ''idle'' (- 5))),
      demo_pod ''DOG-SOL'' 0 (Some (demo_report FLYING ''bid_in'' 3))]"

definition demo_fleet :: fleet_config where
  "demo_fleet = \<lparr>fc_stale_cycles = 60, fc_refill_cooldown = 4\<rparr>"

definition demo_limits :: selection_limits where
  "demo_limits = \<lparr>sl_liq_min = 80000, sl_turn_min = 3, sl_vol_min = 3, sl_vol_max = 40, sl_chop_max = 35,
     sl_age_min_h = 3, sl_h24_min = - 60\<rparr>"

definition demo_listed :: listed_pool where
  "demo_listed = \<lparr>lsp_address = Some ''wifpool'', lsp_name = Some ''WIF / SOL 0.25%'', lsp_reserve_in_usd = Some 100000,
     lsp_volume_h24 = Some 500000, lsp_change_h1 = Some (- 8), lsp_change_h6 = Some 10, lsp_change_h24 = Some (- 20),
     lsp_age_hours = 48\<rparr>"

definition demo_opening :: "token_metrics \<Rightarrow> pod option" where
  "demo_opening m = Some (demo_pod ''WIF-SOL'' 0 None)"

definition demo_select :: "nat \<Rightarrow> string set \<Rightarrow> token_metrics list" where
  "demo_select = select_tokens (\<lambda>xs k. take k xs) demo_limits [demo_listed]"

lemma demo_listed_symbol: "tm_symbol (metrics demo_listed) = ''WIF-SOL 0.25%''"
  by code_simp

lemma demo_selected: "demo_select n b = (if n > 0 \<and> ''WIF-SOL 0.25%'' \<notin> b then [metrics demo_listed] else [])"
proof -
  have "passes demo_limits b (metrics demo_listed) = (if ''WIF-SOL 0.25%'' \<in> b then ''blacklisted'' else ''ok'')" for b
    by (simp add: passes_def demo_listed_symbol) (simp add: metrics_def demo_listed_def demo_limits_def or_zero_def Let_def)
  then show ?thesis
    by (cases n) (auto simp: demo_select_def select_tokens_def ranked_def Let_def)
qed

lemma demo_opening_fresh: "\<forall>m p. demo_opening m = Some p \<longrightarrow> pod_report p = None"
  by (simp add: demo_opening_def demo_pod_def)

lemma demo_rotated:
  "\<exists>sw'. rotate_fleet demo_fleet 3 True 10 demo_select demo_opening demo_book (new_swarm {}) =
     ([demo_pod ''CAT-SOL'' 61 (Some (demo_report PERCHED ''idle'' (- 5))), demo_pod ''DOG-SOL'' 0 (Some (demo_report FLYING ''bid_in'' 3)),
       demo_pod ''WIF-SOL'' 0 None], sw')"
proof -
  have alive: "bury demo_fleet 10 (map mark_stale demo_book) (new_swarm {}) =
      ([demo_pod ''CAT-SOL'' 61 (Some (demo_report PERCHED ''idle'' (- 5))), demo_pod ''DOG-SOL'' 0 (Some (demo_report FLYING ''bid_in'' 3))],
       retire demo_fleet 10 True (demo_pod ''WIF-SOL'' 1 (Some (demo_report ASHES ''idle'' (- 45)))) (new_swarm {}))"
    by (simp add: bury_def demo_book_def is_dead_def runtime_state_def mark_stale_def demo_pod_def demo_report_def)
  show ?thesis
    unfolding rotate_fleet_def alive
    by (simp add: retire_blacklist refill_def Let_def demo_selected excluded_def new_swarm_def demo_fleet_def retire_def
        demo_opening_def remove_pods_def demo_listed_symbol) (simp add: demo_pod_def demo_listed_symbol)
qed

theorem rotation_keeps_fleet_size_witness:
  "\<exists>pods' sw'. rotate_fleet demo_fleet 3 True 10 demo_select demo_opening demo_book (new_swarm {}) = (pods', sw')
     \<and> length pods' \<le> 3 \<and> 2 \<le> length pods'"
proof -
  obtain pods' sw' where r: "rotate_fleet demo_fleet 3 True 10 demo_select demo_opening demo_book (new_swarm {}) = (pods', sw')"
    by fastforce
  have "length demo_book \<le> 3" "length (filter (\<lambda>p. \<not> is_dead p) demo_book) = 2"
    by (simp_all add: demo_book_def is_dead_def runtime_state_def demo_pod_def demo_report_def)
  with rotation_keeps_fleet_size [OF this(1) r] r show ?thesis by auto
qed

theorem rotation_conserves_book_witness:
  "\<exists>pods' sw'. rotate_fleet demo_fleet 3 True 10 demo_select demo_opening demo_book (new_swarm {}) = (pods', sw')
     \<and> port_pnl pods' sw' = - 7050"
proof -
  obtain pods' sw' where r: "rotate_fleet demo_fleet 3 True 10 demo_select demo_opening demo_book (new_swarm {}) = (pods', sw')"
    by fastforce
  have "port_pnl demo_book (new_swarm {}) = - 7050"
    by (simp add: port_pnl_def demo_book_def pod_usd_def usd_def or_zero_def demo_pod_def demo_report_def new_swarm_def)
  with rotation_conserves_book [OF demo_opening_fresh r] r show ?thesis by auto
qed

theorem dead_pods_are_blacklisted_witness:
  "\<exists>pods' sw'. rotate_fleet demo_fleet 3 True 10 demo_select demo_opening demo_book (new_swarm {}) = (pods', sw')
     \<and> sw_blacklist sw' = {''WIF-SOL''} \<and> length pods' = 3"
proof -
  obtain pods' sw' where r: "rotate_fleet demo_fleet 3 True 10 demo_select demo_opening demo_book (new_swarm {}) = (pods', sw')"
      "length pods' = 3" using demo_rotated by fastforce
  have "pod_symbol ` set (filter is_dead demo_book) = {''WIF-SOL''}"
    by (simp add: demo_book_def is_dead_def runtime_state_def demo_pod_def demo_report_def)
  with dead_pods_are_blacklisted [OF demo_opening_fresh r(1)] r show ?thesis by (auto simp: new_swarm_def)
qed

theorem blacklisted_token_is_reopened_witness:
  "\<exists>sw'. rotate_fleet demo_fleet 1 True 10 demo_select demo_opening [demo_pod ''WIF-SOL'' 0 (Some (demo_report ASHES ''idle'' (- 45)))] (new_swarm {})
     = ([demo_pod ''WIF-SOL'' 0 None], sw') \<and> ''WIF-SOL'' \<in> sw_blacklist sw'"
proof -
  let ?p = "demo_pod ''WIF-SOL'' 0 (Some (demo_report ASHES ''idle'' (- 45)))"
  have dead: "is_dead ?p" "10 - sw_last_refill (new_swarm {}) \<ge> fc_refill_cooldown demo_fleet"
    by (simp_all add: is_dead_def runtime_state_def demo_pod_def demo_report_def new_swarm_def demo_fleet_def)
  have sel: "select_tokens (\<lambda>xs k. take k xs) demo_limits [demo_listed] 4 (insert (pod_symbol ?p) (excluded (new_swarm {}) 10)) = [metrics demo_listed]"
    using demo_selected [of 4] by (simp add: demo_select_def excluded_def new_swarm_def demo_pod_def)
  have op: "demo_opening (metrics demo_listed) = Some (demo_pod ''WIF-SOL'' 0 None)" "pod_symbol (demo_pod ''WIF-SOL'' 0 None) = pod_symbol ?p"
    by (simp_all add: demo_opening_def demo_pod_def)
  from blacklisted_token_is_reopened [where target = 1 and op = demo_opening and sample = "\<lambda>xs k. take k xs" and sl = demo_limits, OF dead(1) refl dead(2) sel op]
  show ?thesis by (simp add: demo_select_def demo_pod_def)
qed

end
