(* ===== verification/Api_Throttler.thy ===== *)
theory Api_Throttler
  imports Prelude
begin

text \<open>
  \<open>core/api_throttler\<close>: the rate limits of an exchange's API and the context that every request
  waits in. The lock of the contexts is never held across an await (neither \<open>flush\<close> nor
  \<open>within_capacity\<close> awaits), so between a successful check and the logging of the request no other
  request runs: an attempt is one step, with the three readings of the clock it makes. Requests
  interleave between attempts.

  The abstract description is a limiter that never forgets a request; the log of the code, pruned
  at every attempt, is shown to decide every attempt alike, and to keep every window within its limit.
\<close>

section \<open>Rate limits\<close>

record linked_limit =
  ll_limit_id :: string
  ll_weight :: int

record rate_limit =
  rl_limit_id :: string
  rl_limit :: decimal
  rl_time_interval :: decimal
  rl_weight :: int
  rl_linked_limits :: "linked_limit list"

record task_log =
  tl_timestamp :: decimal
  tl_rate_limit :: rate_limit
  tl_weight :: int

record throttler =
  thr_limits_pct :: decimal
  thr_rate_limits :: "rate_limit list"
  thr_id_to_limit_map :: "(string, rate_limit) dict"
  thr_task_logs :: "task_log list"
  thr_retry_interval :: decimal
  thr_safety_margin_pct :: decimal

text \<open>The share of a limit an instance may use, at least one call.\<close>

definition scale_limit :: "decimal \<Rightarrow> rate_limit \<Rightarrow> rate_limit" where
  "scale_limit pct l = l\<lparr>rl_limit := max 1 (of_int \<lfloor>rl_limit l * pct\<rfloor>)\<rparr>"

definition set_rate_limits :: "rate_limit list \<Rightarrow> throttler \<Rightarrow> throttler" where
  "set_rate_limits ls t =
     (let scaled = map (scale_limit (thr_limits_pct t)) ls
      in t\<lparr>thr_rate_limits := scaled,
           thr_id_to_limit_map := foldl (\<lambda>d l. dict_set d (rl_limit_id l) l) [] scaled\<rparr>)"

definition new_throttler :: "rate_limit list \<Rightarrow> decimal \<Rightarrow> decimal \<Rightarrow> decimal option \<Rightarrow> throttler" where
  "new_throttler ls retry margin share =
     (let pct = (case share of None \<Rightarrow> 100 | Some s \<Rightarrow> if s = 0 then 100 else s) / 100
      in set_rate_limits ls
           \<lparr>thr_limits_pct = pct, thr_rate_limits = [], thr_id_to_limit_map = [], thr_task_logs = [],
            thr_retry_interval = retry, thr_safety_margin_pct = margin\<rparr>)"

definition add_rate_limit :: "throttler \<Rightarrow> rate_limit \<Rightarrow> throttler" where
  "add_rate_limit t l =
     (if dict_has (thr_id_to_limit_map t) (rl_limit_id l) then t
      else let l' = scale_limit (thr_limits_pct t) l
           in t\<lparr>thr_rate_limits := thr_rate_limits t @ [l'],
                thr_id_to_limit_map := dict_set (thr_id_to_limit_map t) (rl_limit_id l') l'\<rparr>)"

definition add_rate_limits :: "rate_limit list \<Rightarrow> throttler \<Rightarrow> throttler" where
  "add_rate_limits ls t = foldl add_rate_limit t ls"

definition get_related_limits :: "string \<Rightarrow> throttler \<Rightarrow> rate_limit option \<times> (rate_limit \<times> int) list" where
  "get_related_limits lid t =
     (let l = dict_get (thr_id_to_limit_map t) lid;
          linked = (case l of None \<Rightarrow> [] | Some x \<Rightarrow> rl_linked_limits x)
      in (l, List.map_filter (\<lambda>p. map_option (\<lambda>x. (x, ll_weight p)) (dict_get (thr_id_to_limit_map t) (ll_limit_id p))) linked))"

section \<open>Request contexts\<close>

record request_context =
  rc_rate_limit :: "rate_limit option"
  rc_related_limits :: "(rate_limit \<times> int) list"

definition execute_task :: "string \<Rightarrow> throttler \<Rightarrow> request_context" where
  "execute_task lid t =
     (case get_related_limits lid t of (l, related) \<Rightarrow> \<lparr>rc_rate_limit = l, rc_related_limits = related\<rparr>)"

text \<open>A log entry counts in its window, which the margin stretches.\<close>

definition flush :: "decimal \<Rightarrow> decimal \<Rightarrow> task_log list \<Rightarrow> task_log list" where
  "flush margin now logs =
     filter (\<lambda>t. now - tl_timestamp t \<le> rl_time_interval (tl_rate_limit t) * (1 + margin)) logs"

definition capacity_used :: "decimal \<Rightarrow> decimal \<Rightarrow> string \<Rightarrow> task_log list \<Rightarrow> int" where
  "capacity_used margin now lid logs =
     sum_list (map tl_weight
       (filter (\<lambda>t. rl_limit_id (tl_rate_limit t) = lid
          \<and> now - tl_timestamp t - rl_time_interval (tl_rate_limit t) * margin \<le> rl_time_interval (tl_rate_limit t)) logs))"

definition limits_of :: "request_context \<Rightarrow> (rate_limit \<times> int) list" where
  "limits_of c = (case rc_rate_limit c of None \<Rightarrow> [] | Some l \<Rightarrow> (l, rl_weight l) # rc_related_limits c)"

definition within_capacity :: "decimal \<Rightarrow> decimal \<Rightarrow> request_context \<Rightarrow> task_log list \<Rightarrow> bool" where
  "within_capacity margin now c logs =
     list_all (\<lambda>(l, w). \<not> of_int (capacity_used margin now (rl_limit_id l) logs + w) > rl_limit l) (limits_of c)"

definition new_logs :: "decimal \<Rightarrow> request_context \<Rightarrow> task_log list" where
  "new_logs now c = map (\<lambda>(l, w). \<lparr>tl_timestamp = now, tl_rate_limit = l, tl_weight = w\<rparr>) (limits_of c)"

text \<open>
  One attempt of \<open>acquire\<close>: whether the request may go. Logging a request whose limit is unknown
  reads the weight of None.
\<close>

record clock =
  ck_flush :: decimal
  ck_check :: decimal
  ck_log :: decimal

definition attempt :: "decimal \<Rightarrow> request_context \<Rightarrow> clock \<Rightarrow> task_log list \<Rightarrow> task_log list \<times> bool py_result" where
  "attempt margin c ck logs =
     (let logs1 = flush margin (ck_flush ck) logs in
      if within_capacity margin (ck_check ck) c logs1
      then (case rc_rate_limit c of
              None \<Rightarrow> (logs1, Inl AttributeError)
            | Some l \<Rightarrow> (logs1 @ new_logs (ck_log ck) c, Inr True))
      else (logs1, Inr False))"

text \<open>The attempts of one request, until it may go, raises, or the given clocks run out (it still waits).\<close>

fun acquire :: "decimal \<Rightarrow> request_context \<Rightarrow> clock list \<Rightarrow> task_log list \<Rightarrow> task_log list \<times> bool py_result" where
  "acquire margin c [] logs = (logs, Inr False)"
| "acquire margin c (ck # cks) logs =
     (case attempt margin c ck logs of
        (logs', Inr False) \<Rightarrow> acquire margin c cks logs'
      | r \<Rightarrow> r)"

text \<open>Attempts of any requests, in the order they run.\<close>

fun run_attempts :: "decimal \<Rightarrow> (request_context \<times> clock) list \<Rightarrow> task_log list \<Rightarrow> bool py_result list" where
  "run_attempts margin [] logs = []"
| "run_attempts margin ((c, ck) # as) logs =
     (case attempt margin c ck logs of (logs', r) \<Rightarrow> r # run_attempts margin as logs')"

section \<open>The limiter that forgets nothing\<close>

definition spec_attempt :: "decimal \<Rightarrow> request_context \<Rightarrow> clock \<Rightarrow> task_log list \<Rightarrow> task_log list \<times> bool py_result" where
  "spec_attempt margin c ck h =
     (if rc_rate_limit c = None then (h, Inl AttributeError)
      else if within_capacity margin (ck_check ck) c h then (h @ new_logs (ck_log ck) c, Inr True)
      else (h, Inr False))"

fun spec_run :: "decimal \<Rightarrow> (request_context \<times> clock) list \<Rightarrow> task_log list \<Rightarrow> bool py_result list" where
  "spec_run margin [] h = []"
| "spec_run margin ((c, ck) # as) h =
     (case spec_attempt margin c ck h of (h', r) \<Rightarrow> r # spec_run margin as h')"

text \<open>The requests that were let through, with the times they were logged at.\<close>

fun requests_sent :: "(request_context \<times> clock) list \<Rightarrow> bool py_result list \<Rightarrow> task_log list" where
  "requests_sent ((c, ck) # as) (r # rs) = (if r = Inr True then new_logs (ck_log ck) c else []) @ requests_sent as rs"
| "requests_sent _ _ = []"

text \<open>A clock that never runs backwards.\<close>

definition ticks :: "decimal \<Rightarrow> clock \<Rightarrow> bool" where
  "ticks now ck = (now \<le> ck_flush ck \<and> ck_flush ck \<le> ck_check ck \<and> ck_check ck \<le> ck_log ck)"

fun monotone_clock :: "decimal \<Rightarrow> (request_context \<times> clock) list \<Rightarrow> bool" where
  "monotone_clock now [] = True"
| "monotone_clock now ((c, ck) # as) = (ticks now ck \<and> monotone_clock (ck_log ck) as)"

section \<open>Refinement\<close>

text \<open>The pruned log stands for the history: from now on they count the same.\<close>

definition stands_for :: "decimal \<Rightarrow> decimal \<Rightarrow> task_log list \<Rightarrow> task_log list \<Rightarrow> bool" where
  "stands_for margin now logs h = (\<forall>t \<ge> now. \<forall>lid. capacity_used margin t lid logs = capacity_used margin t lid h)"

lemma stands_for_refl: "stands_for margin now h h"
  by (simp add: stands_for_def)

lemma stands_for_later: "stands_for margin now logs h \<Longrightarrow> now \<le> t \<Longrightarrow> stands_for margin t logs h"
  by (auto simp: stands_for_def)

lemma capacity_used_append:
  "capacity_used margin now lid (as @ bs) = capacity_used margin now lid as + capacity_used margin now lid bs"
  by (simp add: capacity_used_def)

lemma stands_for_append: "stands_for margin now logs h \<Longrightarrow> stands_for margin now (logs @ new) (h @ new)"
  by (simp add: stands_for_def capacity_used_append)

lemma capacity_used_flush: "now \<le> t \<Longrightarrow> capacity_used margin t lid (flush margin now logs) = capacity_used margin t lid logs"
  unfolding capacity_used_def flush_def filter_filter
  by (intro arg_cong [of _ _ sum_list] arg_cong [of _ _ "map tl_weight"] filter_cong) (auto simp: distrib_left)

lemma stands_for_flush: "stands_for margin now logs h \<Longrightarrow> stands_for margin now (flush margin now logs) h"
  by (simp add: stands_for_def capacity_used_flush)

lemma within_capacity_stands:
  "stands_for margin now logs h \<Longrightarrow> now \<le> t \<Longrightarrow> within_capacity margin t c logs = within_capacity margin t c h"
  by (simp add: within_capacity_def stands_for_def)

lemma unknown_within_capacity: "rc_rate_limit c = None \<Longrightarrow> within_capacity margin t c logs"
  by (simp add: within_capacity_def limits_of_def)

lemma attempt_refines:
  assumes "stands_for margin now logs h" and "ticks now ck"
  shows "snd (attempt margin c ck logs) = snd (spec_attempt margin c ck h)
    \<and> stands_for margin (ck_log ck) (fst (attempt margin c ck logs)) (fst (spec_attempt margin c ck h))"
proof -
  let ?logs = "flush margin (ck_flush ck) logs"
  have flushed: "stands_for margin (ck_flush ck) ?logs h"
    using stands_for_flush [OF stands_for_later [OF assms(1)]] assms(2) by (simp add: ticks_def)
  have check: "within_capacity margin (ck_check ck) c ?logs = within_capacity margin (ck_check ck) c h"
    using within_capacity_stands [OF flushed] assms(2) by (simp add: ticks_def)
  have later: "stands_for margin (ck_log ck) ?logs h"
    using stands_for_later [OF flushed] assms(2) by (simp add: ticks_def)
  show ?thesis
    using check later stands_for_append [OF later] unknown_within_capacity
    by (auto simp: attempt_def spec_attempt_def Let_def split: option.split)
qed

lemma run_attempts_spec:
  assumes "monotone_clock now as" and "stands_for margin now logs h"
  shows "run_attempts margin as logs = spec_run margin as h"
  using assms
proof (induction as arbitrary: now logs h)
  case (Cons a as)
  obtain c ck where a: "a = (c, ck)" by (cases a)
  have t: "ticks now ck" "monotone_clock (ck_log ck) as" using Cons.prems(1) by (simp_all add: a)
  note step = attempt_refines [OF Cons.prems(2) t(1), of c]
  show ?case
    using step Cons.IH [OF t(2), of "fst (attempt margin c ck logs)" "fst (spec_attempt margin c ck h)"]
    by (simp add: a case_prod_beta)
qed simp

text \<open>
  C20: The throttler, which prunes its log at every attempt, lets through, delays and refuses exactly
  the requests that a limiter remembering every request would, for any sequence of attempts under a
  clock that never runs backwards.
\<close>

theorem throttler_refines_unpruned_limiter:
  assumes "monotone_clock now as"
  shows "run_attempts margin as [] = spec_run margin as []"
  by (rule run_attempts_spec [OF assms stands_for_refl])

section \<open>Every window keeps its limit\<close>

text \<open>What was logged for a limit within the \<open>width\<close> seconds up to \<open>t\<close>.\<close>

definition sent_in_window :: "string \<Rightarrow> decimal \<Rightarrow> decimal \<Rightarrow> task_log list \<Rightarrow> int" where
  "sent_in_window lid width t h =
     sum_list (map tl_weight (filter (\<lambda>x. rl_limit_id (tl_rate_limit x) = lid
        \<and> t - width \<le> tl_timestamp x \<and> tl_timestamp x \<le> t) h))"

text \<open>
  A request names no limit twice, its weights are not negative, and it means by the id of \<open>l\<close> the
  limit \<open>l\<close>.
\<close>

definition proper_context :: "rate_limit \<Rightarrow> request_context \<Rightarrow> bool" where
  "proper_context l c =
     (distinct (map (rl_limit_id \<circ> fst) (limits_of c))
      \<and> (\<forall>(k, w) \<in> set (limits_of c). w \<ge> 0 \<and> (rl_limit_id k = rl_limit_id l \<longrightarrow> k = l)))"

definition log_ok :: "rate_limit \<Rightarrow> decimal \<Rightarrow> decimal \<Rightarrow> task_log list \<Rightarrow> bool" where
  "log_ok l width now h =
     ((\<forall>x \<in> set h. tl_timestamp x \<le> now \<and> tl_weight x \<ge> 0 \<and> (rl_limit_id (tl_rate_limit x) = rl_limit_id l \<longrightarrow> tl_rate_limit x = l))
      \<and> (\<forall>t. of_int (sent_in_window (rl_limit_id l) width t h) \<le> rl_limit l))"

lemma sum_list_filter_mono:
  fixes f :: "'a \<Rightarrow> int"
  assumes "\<forall>x \<in> set xs. f x \<ge> 0" and "\<forall>x \<in> set xs. P x \<longrightarrow> Q x"
  shows "sum_list (map f (filter P xs)) \<le> sum_list (map f (filter Q xs))"
  using assms by (induction xs) (auto simp: add_increasing)

lemma sent_in_window_append: "sent_in_window lid width t (as @ bs) = sent_in_window lid width t as + sent_in_window lid width t bs"
  by (simp add: sent_in_window_def)

text \<open>The new entries of a request under one id are one at most.\<close>

lemma distinct_keys_filter:
  "distinct (map f xs) \<Longrightarrow> filter (\<lambda>x. f x = k) xs = [] \<or> (\<exists>x \<in> set xs. f x = k \<and> filter (\<lambda>x. f x = k) xs = [x])"
proof (induction xs)
  case (Cons x xs)
  show ?case
  proof (cases "f x = k")
    case True
    then have "filter (\<lambda>y. f y = k) xs = []" using Cons.prems by (auto simp: filter_empty_conv) (metis image_eqI)
    then show ?thesis using True by auto
  next
    case False
    then show ?thesis using Cons by auto
  qed
qed simp

lemma new_logs_in_window:
  assumes "proper_context l c"
  shows "sent_in_window (rl_limit_id l) width t (new_logs now c) = 0
    \<or> (\<exists>w. (l, w) \<in> set (limits_of c) \<and> w \<ge> 0 \<and> t - width \<le> now \<and> now \<le> t
         \<and> sent_in_window (rl_limit_id l) width t (new_logs now c) = w)"
proof -
  let ?k = "rl_limit_id l"
  have named: "filter (\<lambda>x. rl_limit_id (tl_rate_limit x) = ?k) (new_logs now c) =
      map (\<lambda>(l, w). \<lparr>tl_timestamp = now, tl_rate_limit = l, tl_weight = w\<rparr>) (filter (\<lambda>p. rl_limit_id (fst p) = ?k) (limits_of c))"
    by (simp add: new_logs_def filter_map comp_def case_prod_beta)
  have win: "sent_in_window ?k width t (new_logs now c) =
      (if t - width \<le> now \<and> now \<le> t then sum_list (map snd (filter (\<lambda>p. rl_limit_id (fst p) = ?k) (limits_of c))) else 0)"
  proof (cases "t - width \<le> now \<and> now \<le> t")
    case True
    then have "filter (\<lambda>x. rl_limit_id (tl_rate_limit x) = ?k \<and> t - width \<le> tl_timestamp x \<and> tl_timestamp x \<le> t) (new_logs now c)
        = filter (\<lambda>x. rl_limit_id (tl_rate_limit x) = ?k) (new_logs now c)"
      by (intro filter_cong) (auto simp: new_logs_def)
    then show ?thesis using True by (simp add: sent_in_window_def named comp_def case_prod_beta)
  next
    case False
    then have "filter (\<lambda>x. rl_limit_id (tl_rate_limit x) = ?k \<and> t - width \<le> tl_timestamp x \<and> tl_timestamp x \<le> t) (new_logs now c) = []"
      by (auto simp: new_logs_def filter_empty_conv)
    then show ?thesis by (simp add: sent_in_window_def if_not_P [OF False])
  qed
  have "distinct (map (rl_limit_id \<circ> fst) (limits_of c))" using assms by (simp add: proper_context_def)
  from distinct_keys_filter [OF this, of ?k]
  consider "filter (\<lambda>p. rl_limit_id (fst p) = ?k) (limits_of c) = []"
    | p where "p \<in> set (limits_of c)" "rl_limit_id (fst p) = ?k" "filter (\<lambda>p. rl_limit_id (fst p) = ?k) (limits_of c) = [p]"
    by (auto simp: comp_def)
  then show ?thesis
  proof cases
    case 1
    then show ?thesis by (simp add: win)
  next
    case 2
    obtain w where p: "p = (l, w)" "w \<ge> 0" using 2(1,2) assms by (cases p) (auto simp: proper_context_def)
    then show ?thesis using 2 by (auto simp: win)
  qed
qed

lemma spec_attempt_ok:
  assumes "log_ok l width now h" and "ticks now ck" and "proper_context l c"
    and "width = rl_time_interval l * (1 + margin)"
  shows "log_ok l width (ck_log ck) (fst (spec_attempt margin c ck h))"
proof -
  let ?k = "rl_limit_id l"
  have later: "log_ok l width (ck_log ck) h"
    using assms(1,2) by (force simp: log_ok_def ticks_def)
  show ?thesis
  proof (cases "rc_rate_limit c \<noteq> None \<and> within_capacity margin (ck_check ck) c h")
    case False
    then have "fst (spec_attempt margin c ck h) = h" by (auto simp: spec_attempt_def)
    then show ?thesis using later by simp
  next
    case True
    then have eq: "fst (spec_attempt margin c ck h) = h @ new_logs (ck_log ck) c" by (auto simp: spec_attempt_def)
    have within: "within_capacity margin (ck_check ck) c h" using True by simp
    have bound: "of_int (sent_in_window ?k width t (h @ new_logs (ck_log ck) c)) \<le> rl_limit l" for t
    proof (cases "sent_in_window ?k width t (new_logs (ck_log ck) c) = 0")
      case True
      then show ?thesis using assms(1) by (simp add: sent_in_window_append log_ok_def)
    next
      case False
      then obtain w where w: "(l, w) \<in> set (limits_of c)" "ck_log ck \<le> t" "t - width \<le> ck_log ck"
          "sent_in_window ?k width t (new_logs (ck_log ck) c) = w"
        using new_logs_in_window [OF assms(3), of width t "ck_log ck"] by auto
      have "sent_in_window ?k width t h \<le> capacity_used margin (ck_check ck) ?k h"
        unfolding sent_in_window_def capacity_used_def
      proof (rule sum_list_filter_mono)
        show "\<forall>x \<in> set h. tl_weight x \<ge> 0" using assms(1) by (simp add: log_ok_def)
        show "\<forall>x \<in> set h. rl_limit_id (tl_rate_limit x) = ?k \<and> t - width \<le> tl_timestamp x \<and> tl_timestamp x \<le> t \<longrightarrow>
            rl_limit_id (tl_rate_limit x) = ?k \<and> ck_check ck - tl_timestamp x - rl_time_interval (tl_rate_limit x) * margin
              \<le> rl_time_interval (tl_rate_limit x)"
        proof (intro ballI impI conjI)
          fix x assume x: "x \<in> set h" and p: "rl_limit_id (tl_rate_limit x) = ?k \<and> t - width \<le> tl_timestamp x \<and> tl_timestamp x \<le> t"
          have "tl_rate_limit x = l" using assms(1) x p by (simp add: log_ok_def)
          moreover have "ck_check ck \<le> t" using w(2) assms(2) by (simp add: ticks_def)
          ultimately show "ck_check ck - tl_timestamp x - rl_time_interval (tl_rate_limit x) * margin \<le> rl_time_interval (tl_rate_limit x)"
            using p assms(4) by (simp add: algebra_simps)
        qed simp
      qed
      moreover have "of_int (capacity_used margin (ck_check ck) ?k h + w) \<le> rl_limit l"
        using within w(1) by (auto simp: within_capacity_def list_all_iff)
      moreover have "sent_in_window ?k width t (h @ new_logs (ck_log ck) c) = sent_in_window ?k width t h + w"
        using w(4) by (simp add: sent_in_window_append)
      ultimately show ?thesis by (metis add_right_mono of_int_le_iff order_trans)
    qed
    have "\<forall>x \<in> set (new_logs (ck_log ck) c). tl_timestamp x \<le> ck_log ck \<and> tl_weight x \<ge> 0
        \<and> (rl_limit_id (tl_rate_limit x) = ?k \<longrightarrow> tl_rate_limit x = l)"
      using assms(3) by (auto simp: new_logs_def proper_context_def)
    then show ?thesis using later bound by (auto simp: log_ok_def eq)
  qed
qed

lemma spec_run_ok:
  assumes "monotone_clock now as" and "log_ok l width now h" and "\<forall>(c, ck) \<in> set as. proper_context l c"
    and "width = rl_time_interval l * (1 + margin)"
  shows "\<exists>now'. log_ok l width now' (h @ requests_sent as (spec_run margin as h))"
  using assms(1-3)
proof (induction as arbitrary: now h)
  case (Cons a as)
  obtain c ck where a: "a = (c, ck)" by (cases a)
  have t: "ticks now ck" "monotone_clock (ck_log ck) as" using Cons.prems(1) by (simp_all add: a)
  have ok: "log_ok l width (ck_log ck) (fst (spec_attempt margin c ck h))"
    using spec_attempt_ok [OF Cons.prems(2) t(1) _ assms(4)] Cons.prems(3) by (simp add: a)
  have sent: "fst (spec_attempt margin c ck h) = h @ (if snd (spec_attempt margin c ck h) = Inr True then new_logs (ck_log ck) c else [])"
    by (simp add: spec_attempt_def)
  from Cons.IH [OF t(2) ok] Cons.prems(3) sent show ?case
    by (auto simp: a case_prod_beta)
qed auto

lemma run_keeps_limit:
  assumes "monotone_clock now as" and "\<forall>(c, ck) \<in> set as. proper_context l c" and "rl_limit l \<ge> 0"
  shows "of_int (sent_in_window (rl_limit_id l) (rl_time_interval l * (1 + margin)) t
      (requests_sent as (run_attempts margin as []))) \<le> rl_limit l"
proof -
  have "log_ok l (rl_time_interval l * (1 + margin)) now []"
    using assms(3) by (simp add: log_ok_def sent_in_window_def)
  from spec_run_ok [OF assms(1) this assms(2) refl]
  have "of_int (sent_in_window (rl_limit_id l) (rl_time_interval l * (1 + margin)) t
      (requests_sent as (spec_run margin as []))) \<le> rl_limit l"
    by (auto simp: log_ok_def)
  moreover have "run_attempts margin as [] = spec_run margin as []"
    by (rule run_attempts_spec [OF assms(1) stands_for_refl])
  ultimately show ?thesis by simp
qed

section \<open>The limits of a throttler\<close>

text \<open>A limit whose links name other limits, each once, with weights that are not negative.\<close>

definition well_linked :: "rate_limit \<Rightarrow> bool" where
  "well_linked l =
     (rl_weight l \<ge> 0 \<and> (\<forall>p \<in> set (rl_linked_limits l). ll_weight p \<ge> 0)
      \<and> distinct (rl_limit_id l # map ll_limit_id (rl_linked_limits l)))"

definition limit_map_ok :: "(string, rate_limit) dict \<Rightarrow> bool" where
  "limit_map_ok d = (\<forall>k l. dict_get d k = Some l \<longrightarrow> rl_limit_id l = k \<and> rl_limit l \<ge> 1 \<and> well_linked l)"

lemma scale_limit_ok:
  "well_linked (scale_limit pct l) = well_linked l" "rl_limit (scale_limit pct l) \<ge> 1"
  "rl_limit_id (scale_limit pct l) = rl_limit_id l"
  by (simp_all add: scale_limit_def well_linked_def)

lemma set_rate_limits_ok:
  assumes "\<forall>l \<in> set ls. well_linked l"
  shows "limit_map_ok (thr_id_to_limit_map (set_rate_limits ls t))"
proof -
  have "limit_map_ok (foldl (\<lambda>d l. dict_set d (rl_limit_id l) l) d ks)"
    if "limit_map_ok d" "\<forall>l \<in> set ks. well_linked l \<and> rl_limit l \<ge> 1" for d ks
    using that
  proof (induction ks arbitrary: d)
    case (Cons k ks)
    have "limit_map_ok (dict_set d (rl_limit_id k) k)" using Cons.prems by (simp add: limit_map_ok_def)
    then show ?case using Cons.IH Cons.prems(2) by simp
  qed simp
  from this [of "[]" "map (scale_limit (thr_limits_pct t)) ls"] show ?thesis
    using assms by (simp add: set_rate_limits_def Let_def scale_limit_ok limit_map_ok_def)
qed

lemma add_rate_limits_ok:
  "limit_map_ok (thr_id_to_limit_map t) \<Longrightarrow> \<forall>l \<in> set ls. well_linked l \<Longrightarrow>
   limit_map_ok (thr_id_to_limit_map (add_rate_limits ls t))"
  unfolding add_rate_limits_def
proof (induction ls arbitrary: t)
  case (Cons l ls)
  have "limit_map_ok (thr_id_to_limit_map (add_rate_limit t l))"
    using Cons.prems by (auto simp: add_rate_limit_def Let_def limit_map_ok_def scale_limit_ok)
  then show ?case using Cons by simp
qed simp

lemma linked_ids:
  assumes "limit_map_ok d"
  shows "map (rl_limit_id \<circ> fst) (List.map_filter (\<lambda>p. map_option (\<lambda>x. (x, ll_weight p)) (dict_get d (ll_limit_id p))) ps)
    = filter (dict_has d) (map ll_limit_id ps)"
  using assms by (induction ps) (auto simp: map_filter_simps dict_has_def limit_map_ok_def split: option.split)

lemma linked_limit_in:
  "(k, w) \<in> set (List.map_filter (\<lambda>p. map_option (\<lambda>x. (x, ll_weight p)) (dict_get d (ll_limit_id p))) ps) \<Longrightarrow>
   \<exists>p \<in> set ps. dict_get d (ll_limit_id p) = Some k \<and> w = ll_weight p"
  by (auto simp: map_filter_def)

lemma execute_task_proper:
  assumes "limit_map_ok (thr_id_to_limit_map t)" and "dict_get (thr_id_to_limit_map t) lid = Some l"
  shows "proper_context l (execute_task i t)"
proof (cases "dict_get (thr_id_to_limit_map t) i")
  case None
  then show ?thesis by (simp add: execute_task_def get_related_limits_def Let_def proper_context_def limits_of_def)
next
  case (Some k)
  let ?d = "thr_id_to_limit_map t"
  let ?related = "List.map_filter (\<lambda>p. map_option (\<lambda>x. (x, ll_weight p)) (dict_get ?d (ll_limit_id p))) (rl_linked_limits k)"
  have lim: "limits_of (execute_task i t) = (k, rl_weight k) # ?related"
    using Some by (simp add: execute_task_def get_related_limits_def Let_def limits_of_def)
  have k: "rl_limit_id k = i" "well_linked k" and l: "rl_limit_id l = lid"
    using assms Some by (auto simp: limit_map_ok_def)
  have "distinct (map (rl_limit_id \<circ> fst) (limits_of (execute_task i t)))"
    using k linked_ids [OF assms(1), of "rl_linked_limits k"] by (auto simp: lim well_linked_def)
  moreover have "w \<ge> 0 \<and> (rl_limit_id m = rl_limit_id l \<longrightarrow> m = l)" if m: "(m, w) \<in> set (limits_of (execute_task i t))" for m w
  proof (cases "(m, w) = (k, rl_weight k)")
    case True
    have "rl_limit_id k = rl_limit_id l \<Longrightarrow> k = l" using k(1) l Some assms(2) by (metis option.inject)
    then show ?thesis using True k(2) by (simp add: well_linked_def)
  next
    case False
    with m have in_related: "(m, w) \<in> set ?related" by (auto simp: lim)
    from linked_limit_in [OF in_related]
    obtain p where p: "p \<in> set (rl_linked_limits k)" "dict_get ?d (ll_limit_id p) = Some m" "w = ll_weight p"
      by blast
    then have "rl_limit_id m = ll_limit_id p" using assms(1) by (simp add: limit_map_ok_def)
    then have "rl_limit_id m = rl_limit_id l \<Longrightarrow> m = l" using p(2) l assms(2) by (metis option.inject)
    then show ?thesis using p k(2) by (simp add: well_linked_def)
  qed
  ultimately show ?thesis by (auto simp: proper_context_def)
qed

text \<open>
  Every limit a throttler holds is stored under its own id and is at least one call, however
  small the share of the limits the throttler may use, after any additions of limits.
\<close>

theorem throttler_limits_well_formed:
  assumes "\<forall>l \<in> set (ls @ ls'). well_linked l"
  shows "limit_map_ok (thr_id_to_limit_map (add_rate_limits ls' (new_throttler ls retry margin share)))"
  using assms by (intro add_rate_limits_ok) (auto simp: new_throttler_def Let_def intro!: set_rate_limits_ok)

text \<open>
  C21: Whatever requests of a throttler interleave, the weight sent under any of its limits in any
  window of the limit's interval, stretched by the safety margin, is at most the share of the limit
  that the throttler was given, counted at the times the requests are logged.
\<close>

theorem requests_keep_rate_limit:
  assumes "t = add_rate_limits ls' (new_throttler ls retry margin share)" and "\<forall>l \<in> set (ls @ ls'). well_linked l"
    and "dict_get (thr_id_to_limit_map t) lid = Some l"
    and "\<forall>(c, ck) \<in> set as. \<exists>i. c = execute_task i t" and "monotone_clock now as"
  shows "of_int (sent_in_window lid (rl_time_interval l * (1 + margin)) u
      (requests_sent as (run_attempts margin as []))) \<le> rl_limit l"
proof -
  have ok: "limit_map_ok (thr_id_to_limit_map t)"
    using assms(2) unfolding assms(1)
    by (intro add_rate_limits_ok) (auto simp: new_throttler_def Let_def intro!: set_rate_limits_ok)
  then have l: "rl_limit_id l = lid" "rl_limit l \<ge> 0" using assms(3) by (fastforce simp: limit_map_ok_def)+
  have "\<forall>(c, ck) \<in> set as. proper_context l c"
    using assms(4) execute_task_proper [OF ok assms(3)] by fastforce
  from run_keeps_limit [OF assms(5) this l(2)] show ?thesis by (simp add: l(1))
qed

section \<open>Waiting\<close>

text \<open>
  A request goes through at the first attempt once the windows of all logged requests have
  passed, provided that each of its weights fits into its limit.
\<close>

theorem request_goes_through_when_windows_passed:
  assumes "rc_rate_limit c = Some l" and "\<forall>(k, w) \<in> set (limits_of c). of_int w \<le> rl_limit k"
    and "\<forall>x \<in> set logs. ck_flush ck - tl_timestamp x > rl_time_interval (tl_rate_limit x) * (1 + margin)"
  shows "attempt margin c ck logs = (new_logs (ck_log ck) c, Inr True)"
proof -
  have "flush margin (ck_flush ck) logs = []" using assms(3) by (auto simp: flush_def filter_empty_conv)
  moreover have "within_capacity margin (ck_check ck) c []"
    using assms(2) by (auto simp: within_capacity_def capacity_used_def list_all_iff)
  ultimately show ?thesis using assms(1) by (simp add: attempt_def)
qed

lemma capacity_used_nonneg:
  "\<forall>x \<in> set logs. tl_weight x \<ge> 0 \<Longrightarrow> capacity_used margin now lid logs \<ge> 0"
  unfolding capacity_used_def by (induction logs) auto

lemma limit_found:
  assumes "l \<in> set ls" and "distinct (map rl_limit_id ls)"
  shows "dict_get (thr_id_to_limit_map (set_rate_limits ls t)) (rl_limit_id l) = Some (scale_limit (thr_limits_pct t) l)"
proof -
  have "dict_get (foldl (\<lambda>d l. dict_set d (rl_limit_id l) l) d ks) i =
      (case List.find (\<lambda>l. rl_limit_id l = i) (rev ks) of None \<Rightarrow> dict_get d i | Some l \<Rightarrow> Some l)" for d :: "(string, rate_limit) dict" and ks i
    by (induction ks arbitrary: d rule: rev_induct) auto
  moreover have "List.find (\<lambda>k. rl_limit_id k = rl_limit_id l) (rev (map (scale_limit (thr_limits_pct t)) ls)) =
      Some (scale_limit (thr_limits_pct t) l)"
    using assms by (induction ls rule: rev_induct) (auto simp: scale_limit_ok rev_map)
  ultimately show ?thesis by (simp add: set_rate_limits_def Let_def)
qed

text \<open>
  The share scales the limits but not the weights of the requests: a request that is heavier
  than its limit's share waits forever, however long it tries and whatever was sent before.
\<close>

theorem heavy_request_waits_forever:
  assumes "l \<in> set ls" and "distinct (map rl_limit_id ls)" and "share \<noteq> 0"
    and "of_int (rl_weight l) > max 1 (of_int \<lfloor>rl_limit l * (share / 100)\<rfloor> :: decimal)"
    and "\<forall>x \<in> set logs. tl_weight x \<ge> 0"
  shows "snd (acquire margin (execute_task (rl_limit_id l) (new_throttler ls retry margin (Some share))) cks logs) = Inr False"
proof -
  let ?c = "execute_task (rl_limit_id l) (new_throttler ls retry margin (Some share))"
  have lim: "(scale_limit (share / 100) l, rl_weight l) \<in> set (limits_of ?c)" "rc_rate_limit ?c \<noteq> None"
    using limit_found [OF assms(1,2)] assms(3)
    by (simp_all add: new_throttler_def execute_task_def get_related_limits_def Let_def limits_of_def scale_limit_def)
  have never: "\<not> within_capacity margin now ?c h" if "\<forall>x \<in> set h. tl_weight x \<ge> 0" for now h
  proof -
    have "(of_int (capacity_used margin now (rl_limit_id l) h) :: decimal) \<ge> 0"
      using capacity_used_nonneg [OF that] by simp
    then have "of_int (capacity_used margin now (rl_limit_id l) h + rl_weight l) > rl_limit (scale_limit (share / 100) l)"
      using assms(4) by (simp add: scale_limit_def)
    with lim(1) show ?thesis by (auto simp: within_capacity_def list_all_iff scale_limit_ok intro!: bexI)
  qed
  show ?thesis
    using assms(5)
  proof (induction cks arbitrary: logs)
    case (Cons ck cks)
    have fl: "\<forall>x \<in> set (flush margin (ck_flush ck) logs). tl_weight x \<ge> 0" using Cons.prems by (simp add: flush_def)
    then have "attempt margin ?c ck logs = (flush margin (ck_flush ck) logs, Inr False)"
      using never by (simp add: attempt_def Let_def)
    then show ?case using Cons.IH [OF fl] by simp
  qed simp
qed

text \<open>
  A request under an id without a limit passes the check of the capacity and then fails with
  an AttributeError, whatever was sent before.
\<close>

theorem unknown_limit_raises:
  assumes "dict_get (thr_id_to_limit_map t) lid = None"
  shows "snd (acquire margin (execute_task lid t) (ck # cks) logs) = Inl AttributeError"
  using assms
  by (simp add: attempt_def execute_task_def get_related_limits_def Let_def within_capacity_def limits_of_def)

section \<open>Witnesses\<close>

text \<open>A pool of ten calls a second, and orders that take three calls of the pool each.\<close>

definition demo_pool :: rate_limit where
  "demo_pool = \<lparr>rl_limit_id = ''pool'', rl_limit = 10, rl_time_interval = 1, rl_weight = 1, rl_linked_limits = []\<rparr>"

definition demo_orders_limit :: rate_limit where
  "demo_orders_limit =
     \<lparr>rl_limit_id = ''orders'', rl_limit = 100, rl_time_interval = 60, rl_weight = 1,
      rl_linked_limits = [\<lparr>ll_limit_id = ''pool'', ll_weight = 3\<rparr>]\<rparr>"

definition demo_throttler :: throttler where
  "demo_throttler = add_rate_limits [demo_orders_limit] (new_throttler [demo_pool] (1 / 10) (1 / 20) None)"

definition demo_clock :: "decimal \<Rightarrow> clock" where
  "demo_clock now = \<lparr>ck_flush = now, ck_check = now, ck_log = now\<rparr>"

definition demo_attempts :: "(request_context \<times> clock) list" where
  "demo_attempts = map (\<lambda>now. (execute_task ''orders'' demo_throttler, demo_clock now)) [0, 1 / 10, 2 / 10, 3 / 10, 2]"

lemma demo_attempts_clock: "monotone_clock 0 demo_attempts"
  by code_simp

lemma demo_well_linked: "\<forall>l \<in> set ([demo_pool] @ [demo_orders_limit]). well_linked l"
  by code_simp

theorem throttler_refines_unpruned_limiter_witness:
  "run_attempts (1 / 20) demo_attempts [] = [Inr True, Inr True, Inr True, Inr False, Inr True]
   \<and> spec_run (1 / 20) demo_attempts [] = [Inr True, Inr True, Inr True, Inr False, Inr True]"
proof -
  have "run_attempts (1 / 20) demo_attempts [] = [Inr True, Inr True, Inr True, Inr False, Inr True]" by code_simp
  then show ?thesis using throttler_refines_unpruned_limiter [OF demo_attempts_clock, of "1 / 20"] by simp
qed

theorem throttler_limits_well_formed_witness: "limit_map_ok (thr_id_to_limit_map demo_throttler)"
  unfolding demo_throttler_def by (rule throttler_limits_well_formed [OF demo_well_linked])

theorem requests_keep_rate_limit_witness:
  "sent_in_window ''pool'' (1 * (1 + 1 / 20)) (3 / 10) (requests_sent demo_attempts (run_attempts (1 / 20) demo_attempts [])) \<le> 10"
proof -
  let ?pool = "scale_limit 1 demo_pool"
  have pool: "dict_get (thr_id_to_limit_map demo_throttler) ''pool'' = Some ?pool" "rl_limit ?pool = 10" "rl_time_interval ?pool = 1"
    by code_simp+
  have "\<forall>(c, ck) \<in> set demo_attempts. \<exists>i. c = execute_task i demo_throttler" by (auto simp: demo_attempts_def)
  from requests_keep_rate_limit [OF demo_throttler_def demo_well_linked pool(1) this demo_attempts_clock, where u = "3 / 10"]
  have "(of_int (sent_in_window ''pool'' (1 * (1 + 1 / 20)) (3 / 10) (requests_sent demo_attempts (run_attempts (1 / 20) demo_attempts [])))
      :: decimal) \<le> of_int 10"
    by (simp add: pool(2,3))
  then show ?thesis by (simp only: of_int_le_iff)
qed

theorem request_goes_through_when_windows_passed_witness:
  "\<exists>logs. attempt (1 / 20) (execute_task ''orders'' demo_throttler) (demo_clock 100)
     (new_logs 0 (execute_task ''orders'' demo_throttler)) = (logs, Inr True)"
proof -
  let ?c = "execute_task ''orders'' demo_throttler"
  obtain l where l: "rc_rate_limit ?c = Some l"
  proof -
    have "rc_rate_limit ?c \<noteq> None" by code_simp
    then show thesis using that by auto
  qed
  have "\<forall>(k, w) \<in> set (limits_of ?c). of_int w \<le> rl_limit k"
      "\<forall>x \<in> set (new_logs 0 ?c). ck_flush (demo_clock 100) - tl_timestamp x > rl_time_interval (tl_rate_limit x) * (1 + 1 / 20)"
    by code_simp+
  from request_goes_through_when_windows_passed [OF l this] show ?thesis by blast
qed

text \<open>With a fifth of the limits, an order of weight three on a pool of ten is never sent.\<close>

theorem heavy_request_waits_forever_witness:
  "snd (acquire (1 / 20) (execute_task ''pool'' (new_throttler [demo_pool\<lparr>rl_weight := 3\<rparr>] (1 / 10) (1 / 20) (Some 20)))
     [demo_clock 0, demo_clock 100, demo_clock 1000] []) = Inr False"
proof -
  have "snd (acquire (1 / 20) (execute_task (rl_limit_id (demo_pool\<lparr>rl_weight := 3\<rparr>))
      (new_throttler [demo_pool\<lparr>rl_weight := 3\<rparr>] (1 / 10) (1 / 20) (Some 20))) [demo_clock 0, demo_clock 100, demo_clock 1000] []) = Inr False"
    by (rule heavy_request_waits_forever) (simp_all add: demo_pool_def)
  then show ?thesis by (simp add: demo_pool_def)
qed

theorem unknown_limit_raises_witness:
  "snd (acquire (1 / 20) (execute_task ''candles'' demo_throttler) [demo_clock 0] []) = Inl AttributeError"
proof -
  have "dict_get (thr_id_to_limit_map demo_throttler) ''candles'' = None" by code_simp
  then show ?thesis by (rule unknown_limit_raises)
qed

end
