(* ===== verification/Grid_Executor.thy ===== *)
theory Grid_Executor
  imports Position_Executor
begin

text \<open>
  \<open>strategy_v2/executors/grid_executor\<close>: a ladder of levels between two prices, each with an order
  that opens it and, once that is filled, one that takes its profit; barriers over the whole grid and
  the shutdown. Tracked orders belong to one level each, so they are values; the orders they refer to
  are read through the environment. Floats are exact like the decimals.

  \<open>levels_by_state\<close> maps a state to the positions of its levels in \<open>grid_levels\<close>; \<open>None\<close> is the
  empty dictionary that the shutdown leaves, in which every lookup fails. What the budget checker
  answers is dropped by the code; only its exceptions matter. Log messages are not modelled.
\<close>

section \<open>Configuration and levels\<close>

record grid_config =
  gc_id :: string
  gc_timestamp :: decimal
  gc_controller_id :: string
  gc_connector_name :: string
  gc_trading_pair :: string
  gc_start_price :: decimal
  gc_end_price :: decimal
  gc_limit_price :: decimal
  gc_side :: trade_type
  gc_total_amount_quote :: decimal
  gc_min_spread_between_orders :: decimal
  gc_min_order_amount_quote :: decimal
  gc_max_open_orders :: int
  gc_max_orders_per_batch :: "int option"
  gc_order_frequency :: int
  gc_activation_bounds :: "decimal option"
  gc_safe_extra_spread :: decimal
  gc_triple_barrier_config :: triple_barrier_config
  gc_leverage :: int
  gc_deduct_base_fees :: bool
  gc_keep_position :: bool
  gc_coerce_tp_to_step :: bool

datatype grid_state =
    NOT_ACTIVE | OPEN_ORDER_PLACED | OPEN_ORDER_FILLED | CLOSE_ORDER_PLACED | COMPLETE

record grid_level =
  gl_id :: nat  \<comment> \<open>the level's id is \<open>L\<close> and this number\<close>
  gl_price :: decimal
  gl_amount_quote :: decimal
  gl_take_profit :: decimal
  gl_side :: trade_type
  gl_open_order_type :: order_type
  gl_take_profit_order_type :: order_type
  gl_open :: "tracked_order option"
  gl_close :: "tracked_order option"
  gl_state :: grid_state

definition level_update_state :: "exec_env \<Rightarrow> grid_level \<Rightarrow> grid_level" where
  "level_update_state env l =
     l\<lparr>gl_state :=
         (case gl_close l of
            Some t \<Rightarrow> if to_is_filled env t then COMPLETE else CLOSE_ORDER_PLACED
          | None \<Rightarrow>
              (case gl_open l of
                 None \<Rightarrow> NOT_ACTIVE
               | Some t \<Rightarrow> if to_is_filled env t then OPEN_ORDER_FILLED else OPEN_ORDER_PLACED))\<rparr>"

definition reset_open_order :: "grid_level \<Rightarrow> grid_level" where
  "reset_open_order l = l\<lparr>gl_open := None, gl_state := NOT_ACTIVE\<rparr>"

definition reset_close_order :: "grid_level \<Rightarrow> grid_level" where
  "reset_close_order l = l\<lparr>gl_close := None, gl_state := OPEN_ORDER_FILLED\<rparr>"

definition reset_level :: "grid_level \<Rightarrow> grid_level" where
  "reset_level l = l\<lparr>gl_open := None, gl_close := None, gl_state := NOT_ACTIVE\<rparr>"

section \<open>Generating the levels\<close>

definition linear :: "int \<Rightarrow> decimal \<Rightarrow> decimal \<Rightarrow> decimal list" where
  "linear n a b =
     (if n = 1 then [a]
      else map (\<lambda>i. a + (b - a) * of_int i / (of_int n - 1)) [0..n - 1])"

text \<open>The least amount of an order: above the minimal notional, and a multiple of the increment.\<close>

definition grid_min_base_amount :: "grid_config \<Rightarrow> trading_rule \<Rightarrow> decimal \<Rightarrow> decimal py_result" where
  "grid_min_base_amount cfg rule price =
     (let min_notional = max (gc_min_order_amount_quote cfg) (min_notional_size rule);
          inc = min_base_amount_increment rule
      in ebind (dec_div (min_notional * (105 / 100)) price) (\<lambda>a.
         ebind (float_div min_notional (inc * price)) (\<lambda>k.
         ebind (float_div (max a (inc * of_int \<lceil>k\<rceil>)) inc) (\<lambda>m.
         Inr (of_int \<lceil>m\<rceil> * inc)))))"

text \<open>How many levels, and the quote amount of each.\<close>

definition grid_sizes ::
  "grid_config \<Rightarrow> trading_rule \<Rightarrow> decimal \<Rightarrow> decimal \<Rightarrow> decimal \<Rightarrow> (int \<times> decimal) py_result" where
  "grid_sizes cfg rule price min_base grid_range =
     (let inc = min_base_amount_increment rule; total = gc_total_amount_quote cfg in
      ebind (dec_div (min_price_increment rule) price) (\<lambda>tick.
      ebind (dec_div total (min_base * price)) (\<lambda>possible.
      if dec_trunc possible = 0 then Inr (1, min_base * price)
      else
        ebind (dec_div grid_range (max (gc_min_spread_between_orders cfg) tick)) (\<lambda>steps.
        let n = min (dec_trunc possible) (dec_trunc steps) in
        ebind (dec_div total (price * of_int n)) (\<lambda>each.
        ebind (float_div each inc) (\<lambda>k.
        let quote_per_level = max min_base (of_int \<lfloor>k\<rfloor> * inc) * price in
        ebind (float_div total quote_per_level) (\<lambda>fit.
        Inr (min n (dec_trunc fit), quote_per_level))))))))"

definition grid_take_profit :: "grid_config \<Rightarrow> decimal \<Rightarrow> decimal py_result" where
  "grid_take_profit cfg grid_step =
     (case tb_take_profit (gc_triple_barrier_config cfg) of
        None \<Rightarrow> Inl (if gc_coerce_tp_to_step cfg then TypeError else ValueError)
      | Some tp \<Rightarrow> Inr (if gc_coerce_tp_to_step cfg then max grid_step tp else tp))"

definition generate_grid_levels :: "grid_config \<Rightarrow> trading_rule \<Rightarrow> decimal \<Rightarrow> grid_level list py_result" where
  "generate_grid_levels cfg rule price =
     (let tb = gc_triple_barrier_config cfg; a = gc_start_price cfg; b = gc_end_price cfg in
      ebind (grid_min_base_amount cfg rule price) (\<lambda>min_base.
      ebind (dec_div (b - a) a) (\<lambda>grid_range.
      ebind (grid_sizes cfg rule price min_base grid_range) (\<lambda>(n0, quote_per_level).
      let n = max 1 n0;
          prices = (if n > 1 then linear n a b else [(a + b) / 2]);
          grid_step = (if n > 1 then grid_range / of_int (n - 1) else grid_range)
      in ebind (grid_take_profit cfg grid_step) (\<lambda>tp.
         Inr (map (\<lambda>(i, p). \<lparr>gl_id = i, gl_price = p, gl_amount_quote = quote_per_level, gl_take_profit = tp,
                gl_side = gc_side cfg, gl_open_order_type = tb_open_order_type tb,
                gl_take_profit_order_type = tb_take_profit_order_type tb,
                gl_open = None, gl_close = None, gl_state = NOT_ACTIVE\<rparr>) (enumerate 0 prices)))))))"

section \<open>State\<close>

record grid_executor = executor_core +
  gx_config :: grid_config
  gx_rule :: trading_rule
  gx_levels :: "grid_level list"
  gx_by_state :: "(grid_state \<Rightarrow> nat list) option"
  gx_close_order :: "tracked_order option"
  gx_filled_orders :: "json list"
  gx_failed_orders :: "string list"
  gx_canceled_orders :: "string list"
  gx_mid_price :: decimal
  gx_open_quote :: decimal
  gx_close_quote :: decimal
  gx_break_even_price :: decimal
  gx_size_base :: decimal
  gx_size_quote :: decimal
  gx_fees_quote :: decimal
  gx_pnl_quote :: decimal
  gx_pnl_pct :: decimal
  gx_open_liquidity :: decimal
  gx_close_liquidity :: decimal
  gx_realized_buy :: decimal
  gx_realized_sell :: decimal
  gx_realized_imbalance :: decimal
  gx_realized_fees :: decimal
  gx_realized_pnl :: decimal
  gx_realized_pnl_pct :: decimal
  gx_max_open_creation :: decimal
  gx_max_close_creation :: decimal
  gx_open_fee_in_base :: bool
  gx_trailing_trigger :: "decimal option"

text \<open>The three prices are set by the first \<open>update_metrics\<close>, before anything reads them.\<close>

definition new_grid_executor :: "exec_env \<Rightarrow> grid_config \<Rightarrow> int \<Rightarrow> grid_executor py_result" where
  "new_grid_executor env cfg max_retries =
     (let tb = gc_triple_barrier_config cfg in
      if tb_time_limit_order_type tb \<noteq> MARKET \<or> tb_stop_loss_order_type tb \<noteq> MARKET then Inl ValueError
      else
        ebind (dict_at (ex_rules (env_exchange env)) (gc_trading_pair cfg)) (\<lambda>rule.
        ebind (generate_grid_levels cfg rule (env_price env MidPrice)) (\<lambda>levels.
        Inr \<lparr>ex_status = NOT_STARTED, ex_close_type = None, ex_close_timestamp = None,
             ex_max_retries = max_retries, ex_current_retries = 0, ex_held_position_orders = [],
             ex_terminated = False, ex_registered = False, ex_calls = [],
             gx_config = cfg, gx_rule = rule, gx_levels = levels, gx_by_state = Some (\<lambda>_. []),
             gx_close_order = None, gx_filled_orders = [], gx_failed_orders = [], gx_canceled_orders = [],
             gx_mid_price = 0, gx_open_quote = 0, gx_close_quote = 0, gx_break_even_price = 0,
             gx_size_base = 0, gx_size_quote = 0, gx_fees_quote = 0, gx_pnl_quote = 0, gx_pnl_pct = 0,
             gx_open_liquidity = 0, gx_close_liquidity = 0, gx_realized_buy = 0, gx_realized_sell = 0,
             gx_realized_imbalance = 0, gx_realized_fees = 0, gx_realized_pnl = 0, gx_realized_pnl_pct = 0,
             gx_max_open_creation = 0, gx_max_close_creation = 0, gx_open_fee_in_base = False,
             gx_trailing_trigger = None\<rparr>)))"

abbreviation grid_side :: "grid_executor \<Rightarrow> trade_type" where
  "grid_side x \<equiv> gc_side (gx_config x)"

abbreviation grid_barriers :: "grid_executor \<Rightarrow> triple_barrier_config" where
  "grid_barriers x \<equiv> gc_triple_barrier_config (gx_config x)"

definition grid_close_order_side :: "grid_executor \<Rightarrow> trade_type" where
  "grid_close_order_side x = (if grid_side x = SELL then BUY else SELL)"

definition grid_is_perpetual :: "grid_executor \<Rightarrow> bool" where
  "grid_is_perpetual x = is_perpetual_connector (gc_connector_name (gx_config x))"

definition in_state :: "grid_executor \<Rightarrow> grid_state \<Rightarrow> nat list py_result" where
  "in_state x s = (case gx_by_state x of None \<Rightarrow> Inl KeyError | Some f \<Rightarrow> Inr (f s))"

definition set_level :: "nat \<Rightarrow> grid_level \<Rightarrow> grid_executor \<Rightarrow> grid_executor" where
  "set_level i l x = x\<lparr>gx_levels := (gx_levels x)[i := l]\<rparr>"

abbreviation level :: "grid_executor \<Rightarrow> nat \<Rightarrow> grid_level" where
  "level x i \<equiv> gx_levels x ! i"


section \<open>Updating the levels\<close>

definition states_of :: "grid_level list \<Rightarrow> grid_state \<Rightarrow> nat list" where
  "states_of ls s = filter (\<lambda>i. gl_state (ls ! i) = s) [0..<length ls]"

definition level_order :: "exec_env \<Rightarrow> tracked_order option \<Rightarrow> in_flight_order py_result" where
  \<comment> \<open>\<open>order.order\<close>, where something of it is read\<close>
  "level_order env t =
     (case t of
        None \<Rightarrow> Inl AttributeError
      | Some t' \<Rightarrow> (case tracked env t' of None \<Rightarrow> Inl AttributeError | Some ord \<Rightarrow> Inr ord))"

definition round_trip_filled :: "exec_env \<Rightarrow> grid_level \<Rightarrow> bool py_result" where
  "round_trip_filled env l =
     ebind (level_order env (gl_open l)) (\<lambda>ord.
     if o_completely_filled_event ord
     then ebind (level_order env (gl_close l)) (\<lambda>ord'. Inr (o_completely_filled_event ord'))
     else Inr False)"

definition move_level :: "grid_state \<Rightarrow> nat \<Rightarrow> grid_executor \<Rightarrow> grid_executor" where
  \<comment> \<open>out of the complete ones, into another state\<close>
  "move_level s i x =
     x\<lparr>gx_by_state := map_option (\<lambda>f. let f' = f(COMPLETE := remove1 i (f COMPLETE)) in f'(s := f' s @ [i])) (gx_by_state x)\<rparr>"

definition recycle_level :: "exec_env \<Rightarrow> nat \<Rightarrow> grid_executor \<Rightarrow> grid_executor outcome" where
  "recycle_level env i x =
     try_value x (ebind (level_order env (gl_open (level x i))) (order_to_json (env_rate env))) (\<lambda>a.
     try_value x (ebind (level_order env (gl_close (level x i))) (order_to_json (env_rate env))) (\<lambda>b.
     (move_level NOT_ACTIVE i (set_level i (reset_level (level x i))
        (x\<lparr>gx_filled_orders := gx_filled_orders x @ [a, b]\<rparr>)), None)))"

text \<open>
  The loop removes the level from the list it runs over, so the iteration passes over the level that
  comes after it.
\<close>

fun recycle_levels :: "exec_env \<Rightarrow> nat list \<Rightarrow> grid_executor \<Rightarrow> grid_executor outcome" where
  "recycle_levels env [] x = (x, None)"
| "recycle_levels env (i # is) x =
     try_value x (round_trip_filled env (level x i)) (\<lambda>filled.
     if filled then obind (recycle_level env i x) (\<lambda>y. recycle_levels env (drop 1 is) y)
     else recycle_levels env is x)"

definition update_grid_levels :: "exec_env \<Rightarrow> grid_executor \<Rightarrow> grid_executor outcome" where
  "update_grid_levels env x =
     (let ls = map (level_update_state env) (gx_levels x);
          x1 = x\<lparr>gx_levels := ls, gx_by_state := Some (states_of ls)\<rparr>
      in recycle_levels env (states_of ls COMPLETE) x1)"

section \<open>Metrics\<close>

definition order_cost :: "in_flight_order \<Rightarrow> decimal py_result" where
  "order_cost ord =
     (case o_price ord of
        None \<Rightarrow> Inl TypeError | Some NaN \<Rightarrow> Inl InvalidOperation | Some (Fin p) \<Rightarrow> Inr (p * o_amount ord))"

definition unfilled :: "exec_env \<Rightarrow> tracked_order option \<Rightarrow> bool" where
  "unfilled env t = (case t of None \<Rightarrow> False | Some t' \<Rightarrow> to_executed_amount_base env t' = 0)"

definition liquidity :: "exec_env \<Rightarrow> (grid_level \<Rightarrow> tracked_order option) \<Rightarrow> grid_executor \<Rightarrow> nat list \<Rightarrow> decimal" where
  \<comment> \<open>the amounts of the levels whose order has not been filled at all\<close>
  "liquidity env slot x is = sum_list (map (\<lambda>i. gl_amount_quote (level x i)) (filter (\<lambda>i. unfilled env (slot (level x i))) is))"

definition closed_size :: "exec_env \<Rightarrow> grid_executor \<Rightarrow> decimal" where
  "closed_size env x =
     (case gx_close_order x of None \<Rightarrow> 0 | Some t \<Rightarrow> if to_is_done env t then to_executed_amount_base env t else 0)"

definition no_position :: "grid_executor \<Rightarrow> grid_executor" where
  "no_position x =
     x\<lparr>gx_size_base := 0, gx_size_quote := 0, gx_fees_quote := 0, gx_pnl_quote := 0, gx_pnl_pct := 0,
       gx_close_liquidity := 0\<rparr>"

definition open_position_metrics ::
  "exec_env \<Rightarrow> nat list \<Rightarrow> nat list \<Rightarrow> in_flight_order list \<Rightarrow> grid_executor \<Rightarrow> grid_executor outcome" where
  "open_position_metrics env held closing ords x =
     (let amount = sum_list (map o_amount ords);
          slots = map (\<lambda>i. the (gl_open (level x i))) held;
          mult = (if grid_side x = BUY then 1 else - 1)
      in try_value x (ebind (emap order_cost ords) (\<lambda>cs. dec_div (sum_list cs) amount)) (\<lambda>price.
         let executed = (if gx_open_fee_in_base x then amount - sum_list (map (to_cum_fees_base env) slots) else amount);
             size = executed - closed_size env x;
             x1 = x\<lparr>gx_break_even_price := price, gx_size_base := size, gx_size_quote := size * price\<rparr>
         in try_value x1 (emap (to_cum_fees_quote env) slots) (\<lambda>fees.
            let x2 = x1\<lparr>gx_fees_quote := sum_list fees\<rparr>
            in try_value x2 (dec_div (gx_mid_price x - price) price) (\<lambda>rel.
               let pnl = mult * rel * gx_size_quote x2 - gx_fees_quote x2
               in (x2\<lparr>gx_pnl_quote := pnl,
                      gx_pnl_pct := (if gx_size_quote x2 > 0 then pnl / gx_size_quote x2 else 0),
                      gx_close_liquidity := liquidity env gl_close x2 closing\<rparr>, None)))))"

definition update_position_metrics :: "exec_env \<Rightarrow> grid_executor \<Rightarrow> grid_executor outcome" where
  "update_position_metrics env x =
     try_value x (in_state x OPEN_ORDER_FILLED) (\<lambda>filled.
     try_value x (in_state x CLOSE_ORDER_PLACED) (\<lambda>closing.
     try_value x (in_state x OPEN_ORDER_PLACED) (\<lambda>placed.
     try_value x (emap (\<lambda>i. level_order env (gl_open (level x i))) (filled @ closing)) (\<lambda>ords.
     obind (if sum_list (map o_amount ords) = 0 then (no_position x, None)
            else open_position_metrics env (filled @ closing) closing ords x) (\<lambda>x1.
     (x1\<lparr>gx_open_liquidity := liquidity env gl_open x1 placed\<rparr>, None))))))"

definition reset_metrics :: "grid_executor \<Rightarrow> grid_executor" where
  "reset_metrics x =
     x\<lparr>gx_realized_buy := 0, gx_realized_sell := 0, gx_realized_imbalance := 0, gx_realized_fees := 0,
       gx_realized_pnl := 0, gx_realized_pnl_pct := 0\<rparr>"

definition json_dec :: "string \<Rightarrow> json \<Rightarrow> decimal py_result" where
  \<comment> \<open>\<open>Decimal(order[k])\<close>\<close>
  "json_dec k j = ebind (json_at j k) json_decimal"

definition traded :: "trade_type \<Rightarrow> json \<Rightarrow> bool" where
  "traded t j = (json_at j ''trade_type'' = Inr (JStr (trade_type_name t)))"

definition update_realized_pnl_metrics :: "grid_executor \<Rightarrow> grid_executor outcome" where
  "update_realized_pnl_metrics x =
     (let regular = filter (\<lambda>j. j \<notin> set (ex_held_position_orders x)) (gx_filled_orders x);
          buys = filter (traded BUY) regular; sells = filter (traded SELL) regular
      in if regular = [] then (reset_metrics x, None)
         else try_value x (emap (json_dec ''executed_amount_quote'') buys) (\<lambda>bs.
              try_value x (if gx_open_fee_in_base x then emap (json_dec ''cumulative_fee_paid_quote'') buys else Inr []) (\<lambda>bfs.
              try_value x (emap (json_dec ''executed_amount_quote'') sells) (\<lambda>ss.
              try_value x (emap (json_dec ''cumulative_fee_paid_quote'') regular) (\<lambda>fs.
              let buy = sum_list bs - sum_list bfs; sell = sum_list ss; fees = sum_list fs; pnl = sell - buy - fees
              in (x\<lparr>gx_realized_buy := buy, gx_realized_sell := sell, gx_realized_imbalance := buy - sell,
                    gx_realized_fees := fees, gx_realized_pnl := pnl,
                    gx_realized_pnl_pct := (if buy > 0 then pnl / buy else 0)\<rparr>, None))))))"

definition update_metrics :: "exec_env \<Rightarrow> grid_executor \<Rightarrow> grid_executor outcome" where
  "update_metrics env x =
     (let x1 = x\<lparr>gx_mid_price := env_price env MidPrice,
                 gx_open_quote := env_price env (if grid_side x = BUY then BestBid else BestAsk),
                 gx_close_quote := env_price env (if grid_side x = BUY then BestAsk else BestBid)\<rparr>
      in obind (update_position_metrics env x1) update_realized_pnl_metrics)"


section \<open>Placing orders\<close>

definition get_take_profit_price :: "grid_executor \<Rightarrow> grid_level \<Rightarrow> decimal" where
  "get_take_profit_price x l =
     (if grid_side x = BUY then gl_price l * (1 + gl_take_profit l) else gl_price l * (1 - gl_take_profit l))"

definition grid_candidate :: "grid_executor \<Rightarrow> order_type \<Rightarrow> trade_type \<Rightarrow> decimal \<Rightarrow> decimal \<Rightarrow> order_candidate" where
  "grid_candidate x ot t amount price =
     new_order_candidate (gc_trading_pair (gx_config x)) (is_limit_type ot) ot t amount price False
       (if grid_is_perpetual x then Perpetual (of_int (gc_leverage (gx_config x))) False else Spot)"

definition open_entry_price :: "grid_executor \<Rightarrow> grid_level \<Rightarrow> decimal" where
  "open_entry_price x l =
     (if (gl_side l = BUY \<and> gl_price l \<ge> gx_open_quote x) \<or> (gl_side l = SELL \<and> gl_price l \<le> gx_open_quote x)
      then (if gl_side l = BUY then gx_open_quote x * (1 - gc_safe_extra_spread (gx_config x))
            else gx_open_quote x * (1 + gc_safe_extra_spread (gx_config x)))
      else gl_price l)"

definition get_open_order_candidate :: "grid_executor \<Rightarrow> grid_level \<Rightarrow> order_candidate py_result" where
  "get_open_order_candidate x l =
     ebind (dec_div (gl_amount_quote l) (gx_mid_price x)) (\<lambda>amount.
     Inr (grid_candidate x (tb_open_order_type (grid_barriers x)) (grid_side x) amount (open_entry_price x l)))"

definition close_exit_price :: "grid_executor \<Rightarrow> grid_level \<Rightarrow> decimal" where
  "close_exit_price x l =
     (let tp = get_take_profit_price x l in
      if (gl_side l = BUY \<and> tp \<le> gx_close_quote x) \<or> (gl_side l = SELL \<and> tp \<ge> gx_close_quote x)
      then (if gl_side l = BUY then gx_close_quote x * (1 + gc_safe_extra_spread (gx_config x))
            else gx_close_quote x * (1 - gc_safe_extra_spread (gx_config x)))
      else tp)"

definition fee_in_base :: "exec_env \<Rightarrow> grid_executor \<Rightarrow> tracked_order \<Rightarrow> bool" where
  "fee_in_base env x t \<longleftrightarrow>
     to_fee_asset env t = Some (hd (split_on CHR ''-'' (gc_trading_pair (gx_config x)))) \<and> gc_deduct_base_fees (gx_config x)"

definition get_close_order_candidate :: "exec_env \<Rightarrow> grid_executor \<Rightarrow> grid_level \<Rightarrow> tracked_order \<Rightarrow> order_candidate" where
  "get_close_order_candidate env x l t =
     grid_candidate x (tb_take_profit_order_type (grid_barriers x)) (grid_close_order_side x)
       (if fee_in_base env x t then to_executed_amount_base env t - to_cum_fees_base env t
        else to_executed_amount_base env t) (close_exit_price x l)"

definition check_budget :: "exec_env \<Rightarrow> grid_executor \<Rightarrow> order_candidate \<Rightarrow> order_candidate list py_result" where
  \<comment> \<open>\<open>adjust_order_candidates\<close> of one candidate\<close>
  "check_budget env x c =
     ebind (adjust_candidates (if grid_is_perpetual x then PerpetualChecker else SpotChecker) (env_exchange env) True [] [c])
       (\<lambda>(_, cs). Inr cs)"

definition adjust_and_place_open_order :: "exec_env \<Rightarrow> nat \<Rightarrow> grid_executor \<Rightarrow> grid_executor outcome" where
  "adjust_and_place_open_order env i x =
     try_value x (get_open_order_candidate x (level x i)) (\<lambda>c.
     try_value x (check_budget env x c) (\<lambda>_.
     if oc_amount c > 0
     then let (x1, oid) = place_order env (tb_open_order_type (grid_barriers x)) (oc_order_side c) (oc_amount c)
                            (Fin (oc_price c)) OPEN x
          in (set_level i ((level x1 i)\<lparr>gl_open := Some \<lparr>to_order_id = oid, to_order = None\<rparr>\<rparr>)
                (x1\<lparr>gx_max_open_creation := env_now env\<rparr>), None)
     else (x, None)))"

definition adjust_and_place_close_order :: "exec_env \<Rightarrow> nat \<Rightarrow> grid_executor \<Rightarrow> grid_executor outcome" where
  "adjust_and_place_close_order env i x =
     (case gl_open (level x i) of
        None \<Rightarrow> (x, Some AttributeError)
      | Some t \<Rightarrow>
          (let c = get_close_order_candidate env x (level x i) t;
               x0 = x\<lparr>gx_open_fee_in_base := gx_open_fee_in_base x \<or> fee_in_base env x t\<rparr>
           in try_value x0 (check_budget env x0 c) (\<lambda>_.
              if oc_amount c > 0
              then let (x1, oid) = place_order env (tb_take_profit_order_type (grid_barriers x)) (oc_order_side c)
                                     (oc_amount c) (Fin (oc_price c)) CLOSE x0
                   in (set_level i ((level x1 i)\<lparr>gl_close := Some \<lparr>to_order_id = oid, to_order = None\<rparr>\<rparr>) x1, None)
              else (x0, None))))"

section \<open>Which orders to place and cancel\<close>

definition py_take :: "int option \<Rightarrow> 'a list \<Rightarrow> 'a list" where
  \<comment> \<open>\<open>xs[:k]\<close>\<close>
  "py_take k xs =
     (case k of None \<Rightarrow> xs | Some n \<Rightarrow> if n \<ge> 0 then take (nat n) xs else take (nat (int (length xs) + n)) xs)"

definition filter_levels_by_activation_bounds :: "grid_executor \<Rightarrow> nat list \<Rightarrow> nat list" where
  "filter_levels_by_activation_bounds x is =
     (case gc_activation_bounds (gx_config x) of
        None \<Rightarrow> is
      | Some b \<Rightarrow>
          (if b = 0 then is
           else if grid_side x = BUY then filter (\<lambda>i. gl_price (level x i) \<ge> gx_mid_price x * (1 - b)) is
           else filter (\<lambda>i. gl_price (level x i) \<le> gx_mid_price x * (1 + b)) is))"

definition sort_levels_by_proximity :: "grid_executor \<Rightarrow> nat list \<Rightarrow> nat list" where
  "sort_levels_by_proximity x is = sort_key (\<lambda>i. \<bar>gl_price (level x i) - gx_mid_price x\<bar>) is"

definition get_open_orders_to_create :: "exec_env \<Rightarrow> grid_executor \<Rightarrow> nat list py_result" where
  "get_open_orders_to_create env x =
     ebind (in_state x OPEN_ORDER_PLACED) (\<lambda>placed.
     if gx_max_open_creation x > env_now env - of_int (gc_order_frequency (gx_config x))
        \<or> int (length placed) \<ge> gc_max_open_orders (gx_config x)
     then Inr []
     else ebind (in_state x NOT_ACTIVE) (\<lambda>free.
          Inr (py_take (gc_max_orders_per_batch (gx_config x))
                 (sort_levels_by_proximity x (filter_levels_by_activation_bounds x free)))))"

definition efilter :: "('a \<Rightarrow> bool py_result) \<Rightarrow> 'a list \<Rightarrow> 'a list py_result" where
  "efilter p xs = ebind (emap (\<lambda>x. ebind (p x) (\<lambda>b. Inr (x, b))) xs) (\<lambda>ys. Inr (map fst (filter snd ys)))"

definition distance :: "grid_executor \<Rightarrow> decimal \<Rightarrow> decimal py_result" where
  "distance x p = dec_div \<bar>p - gx_mid_price x\<bar> (gx_mid_price x)"

definition get_close_orders_to_create :: "grid_executor \<Rightarrow> nat list py_result" where
  "get_close_orders_to_create x =
     ebind (in_state x OPEN_ORDER_FILLED) (\<lambda>filled.
     case gc_activation_bounds (gx_config x) of
       None \<Rightarrow> Inr filled
     | Some b \<Rightarrow>
         (if b = 0 then Inr filled
          else efilter (\<lambda>i. ebind (distance x (get_take_profit_price x (level x i))) (\<lambda>d. Inr (d < b))) filled))"

text \<open>The placed orders, of one kind, that are too far from the price: orders without a price never are.\<close>

definition order_too_far :: "exec_env \<Rightarrow> grid_executor \<Rightarrow> decimal \<Rightarrow> tracked_order \<Rightarrow> bool py_result" where
  "order_too_far env x b t =
     (case tracked env t of
        None \<Rightarrow> Inr False
      | Some ord \<Rightarrow>
          (case o_price ord of
             None \<Rightarrow> Inr False
           | Some NaN \<Rightarrow> Inl InvalidOperation
           | Some (Fin p) \<Rightarrow> if p = 0 then Inr False else ebind (distance x p) (\<lambda>d. Inr (d > b))))"

definition order_ids_to_cancel ::
  "exec_env \<Rightarrow> grid_state \<Rightarrow> (grid_level \<Rightarrow> tracked_order option) \<Rightarrow> grid_executor \<Rightarrow> string list py_result" where
  "order_ids_to_cancel env s slot x =
     (case gc_activation_bounds (gx_config x) of
        None \<Rightarrow> Inr []
      | Some b \<Rightarrow>
          (if b = 0 then Inr []
           else ebind (in_state x s) (\<lambda>is.
                ebind (efilter (\<lambda>t. case t of None \<Rightarrow> Inl AttributeError | Some t' \<Rightarrow> order_too_far env x b t')
                         (map (\<lambda>i. slot (level x i)) is)) (\<lambda>ts.
                Inr (map (\<lambda>t. to_order_id (the t)) ts)))))"

definition get_open_order_ids_to_cancel :: "exec_env \<Rightarrow> grid_executor \<Rightarrow> string list py_result" where
  "get_open_order_ids_to_cancel env x = order_ids_to_cancel env OPEN_ORDER_PLACED gl_open x"

definition get_close_order_ids_to_cancel :: "exec_env \<Rightarrow> grid_executor \<Rightarrow> string list py_result" where
  "get_close_order_ids_to_cancel env x = order_ids_to_cancel env CLOSE_ORDER_PLACED gl_close x"

definition cancel_ids :: "string list \<Rightarrow> grid_executor \<Rightarrow> grid_executor" where
  "cancel_ids ids x = foldl (\<lambda>y oid. log_call (CancelOrder oid) y) x ids"

definition grid_cancel_open_orders :: "grid_executor \<Rightarrow> grid_executor outcome" where
  "grid_cancel_open_orders x =
     try_value x (in_state x OPEN_ORDER_PLACED) (\<lambda>placed.
     try_value x (in_state x CLOSE_ORDER_PLACED) (\<lambda>closing.
     (cancel_ids (map to_order_id (List.map_filter id
        (map (\<lambda>i. gl_open (level x i)) placed @ map (\<lambda>i. gl_close (level x i)) closing))) x, None)))"

section \<open>Barriers\<close>

definition grid_end_time :: "grid_executor \<Rightarrow> decimal option" where
  "grid_end_time x =
     (case tb_time_limit (grid_barriers x) of
        None \<Rightarrow> None | Some l \<Rightarrow> if l = 0 then None else Some (gc_timestamp (gx_config x) + of_int l))"

definition grid_is_expired :: "exec_env \<Rightarrow> grid_executor \<Rightarrow> bool" where
  "grid_is_expired env x = (case grid_end_time x of None \<Rightarrow> False | Some t \<Rightarrow> t \<noteq> 0 \<and> t \<le> env_now env)"

definition stop_loss_condition :: "grid_executor \<Rightarrow> bool" where
  "stop_loss_condition x =
     (case tb_stop_loss (grid_barriers x) of None \<Rightarrow> False | Some sl \<Rightarrow> sl \<noteq> 0 \<and> gx_pnl_pct x \<le> - sl)"

definition limit_price_condition :: "grid_executor \<Rightarrow> bool" where
  "limit_price_condition x =
     (gc_limit_price (gx_config x) \<noteq> 0 \<and>
      (if grid_side x = BUY then gx_mid_price x \<le> gc_limit_price (gx_config x)
       else gx_mid_price x \<ge> gc_limit_price (gx_config x)))"

definition take_profit_condition :: "grid_executor \<Rightarrow> bool" where
  "take_profit_condition x =
     (if grid_side x = BUY then gx_mid_price x > gc_end_price (gx_config x)
      else gx_mid_price x < gc_start_price (gx_config x))"

definition trailing_stop_condition :: "grid_executor \<Rightarrow> grid_executor \<times> bool" where
  "trailing_stop_condition x =
     (case tb_trailing_stop (grid_barriers x) of
        None \<Rightarrow> (x, False)
      | Some ts \<Rightarrow>
          (let pnl = gx_pnl_pct x; raised = x\<lparr>gx_trailing_trigger := Some (pnl - ts_trailing_delta ts)\<rparr> in
           if \<not> truthy_dec (gx_trailing_trigger x)
           then (if pnl > ts_activation_price ts then raised else x, False)
           else (let trigger = the (gx_trailing_trigger x) in
                 if pnl < trigger then (x, True)
                 else (if pnl - ts_trailing_delta ts > trigger then raised else x, False))))"

definition control_triple_barrier :: "exec_env \<Rightarrow> grid_executor \<Rightarrow> grid_executor \<times> bool" where
  "control_triple_barrier env x =
     (if stop_loss_condition x then (x\<lparr>ex_close_type := Some STOP_LOSS\<rparr>, True)
      else if limit_price_condition x
      then (x\<lparr>ex_close_type := Some (if gc_keep_position (gx_config x) then POSITION_HOLD else STOP_LOSS)\<rparr>, True)
      else if grid_is_expired env x then (x\<lparr>ex_close_type := Some TIME_LIMIT\<rparr>, True)
      else (let (x1, stopped) = trailing_stop_condition x in
            if stopped then (x1\<lparr>ex_close_type := Some TRAILING_STOP\<rparr>, True)
            else if take_profit_condition x1 then (x1\<lparr>ex_close_type := Some TAKE_PROFIT\<rparr>, True)
            else (x1, False)))"

section \<open>Shutdown\<close>

definition grid_place_close_order_and_cancel_open_orders ::
  "exec_env \<Rightarrow> close_type option \<Rightarrow> pdecimal \<Rightarrow> grid_executor \<Rightarrow> grid_executor outcome" where
  "grid_place_close_order_and_cancel_open_orders env ct price x =
     obind (grid_cancel_open_orders x) (\<lambda>x1.
     let x2 = (if gx_size_base x1 \<ge> min_order_size (gx_rule x1)
               then let (y, oid) = place_order env MARKET (grid_close_order_side x1) (gx_size_base x1) price CLOSE x1
                    in y\<lparr>gx_close_order := Some \<lparr>to_order_id = oid, to_order = None\<rparr>\<rparr>
               else x1)
     in (x2\<lparr>ex_close_type := ct, ex_status := SHUTTING_DOWN\<rparr>, None))"

definition grid_control_close_order :: "exec_env \<Rightarrow> grid_executor \<Rightarrow> grid_executor outcome" where
  "grid_control_close_order env x =
     (case gx_close_order x of
        Some t \<Rightarrow>
          (case (case to_order t of None \<Rightarrow> get_in_flight_order env (to_order_id t) | Some a \<Rightarrow> Some a) of
             Some a \<Rightarrow> (x\<lparr>gx_close_order := Some (t\<lparr>to_order := Some a\<rparr>)\<rparr>, None)
           | None \<Rightarrow> (x\<lparr>gx_failed_orders := gx_failed_orders x @ [to_order_id t], gx_close_order := None\<rparr>, None))
      | None \<Rightarrow> grid_place_close_order_and_cancel_open_orders env (ex_close_type x) NaN x)"

text \<open>Each level of the list is reset, its order written down where there is one.\<close>

definition write_order ::
  "exec_env \<Rightarrow> ((json list \<Rightarrow> json list) \<Rightarrow> grid_executor \<Rightarrow> grid_executor) \<Rightarrow> tracked_order option \<Rightarrow>
   grid_executor \<Rightarrow> grid_executor outcome" where
  "write_order env upd t x =
     (case map_option (tracked env) t of
        Some (Some ord) \<Rightarrow> try_value x (order_to_json (env_rate env) ord) (\<lambda>j. (upd (\<lambda>js. js @ [j]) x, None))
      | _ \<Rightarrow> (x, None))"

definition write_levels ::
  "exec_env \<Rightarrow> ((json list \<Rightarrow> json list) \<Rightarrow> grid_executor \<Rightarrow> grid_executor) \<Rightarrow> (grid_level \<Rightarrow> tracked_order option) \<Rightarrow>
   nat list \<Rightarrow> grid_executor \<Rightarrow> grid_executor outcome" where
  "write_levels env upd slot is x =
     ofold (\<lambda>i x. obind (write_order env upd (slot (level x i)) x) (\<lambda>x1. (set_level i (reset_level (level x1 i)) x1, None))) is x"

definition write_open_levels ::
  "exec_env \<Rightarrow> ((json list \<Rightarrow> json list) \<Rightarrow> grid_executor \<Rightarrow> grid_executor) \<Rightarrow> grid_executor \<Rightarrow> grid_executor outcome" where
  "write_open_levels env upd x =
     try_value x (in_state x OPEN_ORDER_FILLED) (\<lambda>filled.
     obind (write_levels env upd gl_open filled x) (\<lambda>x1.
     try_value x1 (in_state x1 CLOSE_ORDER_PLACED) (\<lambda>closing.
     write_levels env upd gl_close closing x1)))"

definition grid_control_shutdown_process :: "exec_env \<Rightarrow> grid_executor \<Rightarrow> grid_executor outcome" where
  "grid_control_shutdown_process env x =
     (let x0 = x\<lparr>ex_close_timestamp := Some (env_now env)\<rparr> in
      if gx_open_liquidity x0 = 0 \<and> gx_close_liquidity x0 = 0
      then (if ex_close_type x0 = Some POSITION_HOLD
            then obind (write_open_levels env ex_held_position_orders_update x0) (\<lambda>x1.
                 let x2 = (if ex_held_position_orders x1 = [] then x1\<lparr>ex_close_type := Some EARLY_STOP\<rparr> else x1)
                 in (executor_stop env (x2\<lparr>gx_by_state := None\<rparr>), None))
            else if gx_size_base x0 = 0
            then obind (write_open_levels env gx_filled_orders_update x0) (\<lambda>x1.
                 obind (case gx_close_order x1 of
                          None \<Rightarrow> (x1, None)
                        | Some t \<Rightarrow>
                            (case tracked env t of
                               None \<Rightarrow> (x1, None)
                             | Some ord \<Rightarrow>
                                 obind (write_order env gx_filled_orders_update (Some t) x1) (\<lambda>y. (y\<lparr>gx_close_order := None\<rparr>, None)))) (\<lambda>x2.
                 obind (update_realized_pnl_metrics x2) (\<lambda>x3.
                 (executor_stop env (x3\<lparr>gx_by_state := None\<rparr>), None))))
            else obind (grid_control_close_order env x0) (\<lambda>x1.
                 (x1\<lparr>ex_current_retries := ex_current_retries x1 + 1\<rparr>, None)))
      else grid_cancel_open_orders x0)"


section \<open>The control task\<close>

definition place_and_cancel ::
  "exec_env \<Rightarrow> nat list \<Rightarrow> nat list \<Rightarrow> string list \<Rightarrow> grid_executor \<Rightarrow> grid_executor outcome" where
  "place_and_cancel env opening closing ids x =
     obind (ofold (adjust_and_place_open_order env) opening x) (\<lambda>x1.
     obind (ofold (adjust_and_place_close_order env) closing x1) (\<lambda>x2. (cancel_ids ids x2, None)))"

definition grid_running :: "exec_env \<Rightarrow> grid_executor \<Rightarrow> grid_executor outcome" where
  "grid_running env x =
     (let (x1, stopped) = control_triple_barrier env x in
      if stopped then obind (grid_cancel_open_orders x1) (\<lambda>x2. (x2\<lparr>ex_status := SHUTTING_DOWN\<rparr>, None))
      else try_value x1 (get_open_orders_to_create env x1) (\<lambda>opening.
           try_value x1 (get_close_orders_to_create x1) (\<lambda>closing.
           try_value x1 (get_open_order_ids_to_cancel env x1) (\<lambda>ids.
           try_value x1 (get_close_order_ids_to_cancel env x1) (\<lambda>ids'.
           place_and_cancel env opening closing (ids @ ids') x1)))))"

definition grid_control_task :: "exec_env \<Rightarrow> grid_executor \<Rightarrow> grid_executor outcome" where
  "grid_control_task env x =
     obind (update_grid_levels env x) (\<lambda>x1.
     obind (update_metrics env x1) (\<lambda>x2.
     if ex_status x2 = RUNNING then grid_running env x2
     else if ex_status x2 = SHUTTING_DOWN then grid_control_shutdown_process env x2
     else (x2, None)))"

definition grid_early_stop :: "bool \<Rightarrow> grid_executor \<Rightarrow> grid_executor outcome" where
  "grid_early_stop keep_position x =
     obind (grid_cancel_open_orders x) (\<lambda>x1.
     (x1\<lparr>ex_status := SHUTTING_DOWN, ex_close_type := Some (if keep_position then POSITION_HOLD else EARLY_STOP)\<rparr>, None))"

definition grid_validate_sufficient_balance :: "exec_env \<Rightarrow> grid_executor \<Rightarrow> grid_executor outcome" where
  "grid_validate_sufficient_balance env x =
     (let mid = env_price env MidPrice in
      try_value x (dec_div (gc_total_amount_quote (gx_config x)) mid) (\<lambda>amount.
      try_value x (check_budget env x (grid_candidate x (tb_open_order_type (grid_barriers x)) (grid_side x) amount mid)) (\<lambda>cs.
      try_value x (py_nth cs 0) (\<lambda>c.
      if oc_amount c = 0 then (executor_stop env (x\<lparr>ex_close_type := Some INSUFFICIENT_BALANCE\<rparr>), None)
      else (x, None)))))"

definition grid_on_start :: "exec_env \<Rightarrow> grid_executor \<Rightarrow> grid_executor outcome" where
  "grid_on_start env x =
     obind (grid_validate_sufficient_balance env x) (\<lambda>x1.
     obind (update_metrics env x1) (\<lambda>x2.
     let (x3, stopped) = control_triple_barrier env x2
     in (if stopped then x3\<lparr>ex_status := SHUTTING_DOWN\<rparr> else x3, None)))"

section \<open>Events\<close>

definition has_id :: "string \<Rightarrow> tracked_order option \<Rightarrow> bool" where
  "has_id oid t = (case t of None \<Rightarrow> False | Some t' \<Rightarrow> to_order_id t' = oid)"

definition link_order :: "string \<Rightarrow> address \<Rightarrow> tracked_order option \<Rightarrow> tracked_order option" where
  "link_order oid a t = (if has_id oid t then map_option (\<lambda>t'. t'\<lparr>to_order := Some a\<rparr>) t else t)"

definition grid_update_tracked_orders_with_order_id :: "exec_env \<Rightarrow> string \<Rightarrow> grid_executor \<Rightarrow> grid_executor outcome" where
  "grid_update_tracked_orders_with_order_id env oid x =
     obind (update_grid_levels env x) (\<lambda>x1.
     case get_in_flight_order env oid of
       None \<Rightarrow> (x1, None)
     | Some a \<Rightarrow>
         (x1\<lparr>gx_levels := map (\<lambda>l. l\<lparr>gl_open := link_order oid a (gl_open l), gl_close := link_order oid a (gl_close l)\<rparr>) (gx_levels x1),
             gx_close_order := link_order oid a (gx_close_order x1)\<rparr>, None))"

text \<open>Cancelled and failed orders are noted in one of two lists, otherwise alike.\<close>

definition end_open_order ::
  "((string list \<Rightarrow> string list) \<Rightarrow> grid_executor \<Rightarrow> grid_executor) \<Rightarrow> string \<Rightarrow> nat \<Rightarrow> grid_executor \<Rightarrow> grid_executor" where
  "end_open_order upd oid i x =
     (if has_id oid (gl_open (level x i))
      then set_level i (reset_open_order (level x i)) ((upd (\<lambda>ids. ids @ [oid]) x)\<lparr>gx_max_open_creation := 0\<rparr>) else x)"

definition end_close_order ::
  "((string list \<Rightarrow> string list) \<Rightarrow> grid_executor \<Rightarrow> grid_executor) \<Rightarrow> string \<Rightarrow> nat \<Rightarrow> grid_executor \<Rightarrow> grid_executor" where
  "end_close_order upd oid i x =
     (if has_id oid (gl_close (level x i))
      then set_level i (reset_close_order (level x i)) ((upd (\<lambda>ids. ids @ [oid]) x)\<lparr>gx_max_close_creation := 0\<rparr>) else x)"

definition order_ended ::
  "((string list \<Rightarrow> string list) \<Rightarrow> grid_executor \<Rightarrow> grid_executor) \<Rightarrow> exec_env \<Rightarrow> string \<Rightarrow> grid_executor \<Rightarrow>
   grid_executor outcome" where
  "order_ended upd env oid x =
     obind (update_grid_levels env x) (\<lambda>x1.
     try_value x1 (in_state x1 OPEN_ORDER_PLACED) (\<lambda>placed.
     try_value x1 (in_state x1 CLOSE_ORDER_PLACED) (\<lambda>closing.
     let x2 = foldl (\<lambda>y i. end_close_order upd oid i y) (foldl (\<lambda>y i. end_open_order upd oid i y) x1 placed) closing
     in (if has_id oid (gx_close_order x2)
         then (upd (\<lambda>ids. ids @ [oid]) x2)\<lparr>gx_close_order := None\<rparr> else x2, None))))"

definition grid_process_order_canceled_event :: "exec_env \<Rightarrow> string \<Rightarrow> grid_executor \<Rightarrow> grid_executor outcome" where
  "grid_process_order_canceled_event env oid x = order_ended gx_canceled_orders_update env oid x"

definition grid_process_order_failed_event :: "exec_env \<Rightarrow> string \<Rightarrow> grid_executor \<Rightarrow> grid_executor outcome" where
  "grid_process_order_failed_event env oid x = order_ended gx_failed_orders_update env oid x"

section \<open>Reported values\<close>

definition grid_is_trading :: "grid_executor \<Rightarrow> bool" where
  "grid_is_trading x = (ex_status x = RUNNING \<and> gx_size_quote x > 0)"

definition grid_is_active :: "grid_executor \<Rightarrow> bool" where
  "grid_is_active x = (ex_status x \<in> set [RUNNING, NOT_STARTED, SHUTTING_DOWN])"

definition grid_net_pnl_quote :: "grid_executor \<Rightarrow> decimal" where
  "grid_net_pnl_quote x =
     (if ex_close_type x \<noteq> Some POSITION_HOLD then gx_pnl_quote x + gx_realized_pnl x else gx_realized_pnl x)"

definition grid_cum_fees_quote :: "grid_executor \<Rightarrow> decimal" where
  "grid_cum_fees_quote x =
     (if ex_close_type x \<noteq> Some POSITION_HOLD then gx_fees_quote x + gx_realized_fees x else gx_realized_fees x)"

definition grid_filled_amount_quote :: "grid_executor \<Rightarrow> decimal" where
  "grid_filled_amount_quote x =
     (let matched = gx_realized_buy x + gx_realized_sell x
      in if ex_close_type x \<noteq> Some POSITION_HOLD then gx_size_quote x + matched else matched)"

definition grid_net_pnl_pct :: "grid_executor \<Rightarrow> decimal" where
  "grid_net_pnl_pct x =
     (if grid_filled_amount_quote x > 0 then grid_net_pnl_quote x / grid_filled_amount_quote x else 0)"

section \<open>All interleavings\<close>

text \<open>
  The shutdown sleeps before the retries are checked, and events arrive meanwhile; so the check is a
  step of its own. \<open>E\<close> is what is known of the environments that the executor meets.
\<close>

inductive grid_step :: "(exec_env \<Rightarrow> bool) \<Rightarrow> grid_executor \<Rightarrow> grid_executor \<Rightarrow> bool" for E where
  start: "grid_step E x (executor_start x)"
| on_start: "E env \<Longrightarrow> ex_status x = RUNNING \<Longrightarrow> grid_step E x (fst (grid_on_start env x))"
| task: "E env \<Longrightarrow> \<not> ex_terminated x \<Longrightarrow> grid_step E x (fst (grid_control_task env x))"
| retries: "E env \<Longrightarrow> grid_step E x (evaluate_max_retries env x)"
| early_stop: "grid_step E x (fst (grid_early_stop keep_position x))"
| linked: "E env \<Longrightarrow> ex_registered x \<Longrightarrow> grid_step E x (fst (grid_update_tracked_orders_with_order_id env oid x))"
| canceled: "E env \<Longrightarrow> ex_registered x \<Longrightarrow> grid_step E x (fst (grid_process_order_canceled_event env oid x))"
| failed: "E env \<Longrightarrow> ex_registered x \<Longrightarrow> grid_step E x (fst (grid_process_order_failed_event env oid x))"

inductive grid_reachable :: "(exec_env \<Rightarrow> bool) \<Rightarrow> exec_env \<Rightarrow> grid_config \<Rightarrow> int \<Rightarrow> grid_executor \<Rightarrow> bool"
  for E env0 cfg max_retries where
  new: "new_grid_executor env0 cfg max_retries = Inr x \<Longrightarrow> grid_reachable E env0 cfg max_retries x"
| step: "grid_reachable E env0 cfg max_retries x \<Longrightarrow> grid_step E x y \<Longrightarrow> grid_reachable E env0 cfg max_retries y"

end
