(* ===== verification/Grid_Accounts.thy ===== *)
theory Grid_Accounts
  imports Grid_Executor
begin

text \<open>
  What a grid's levels cost, and that until the grid closes every order it has placed is accounted
  for: over every interleaving of rounds, events and stops, each order is with one level or is noted
  once.
\<close>

section \<open>The generated levels\<close>

lemma dec_trunc_floor: "0 \<le> x \<Longrightarrow> dec_trunc x = \<lfloor>x\<rfloor>"
  by (simp add: dec_trunc_def)

lemma proper_ratio: "0 < s \<Longrightarrow> 0 \<le> r \<Longrightarrow> r < s \<Longrightarrow> 0 \<le> r / s \<and> r / s < (1 :: decimal)"
  by simp

lemma ceiling_multiple: "0 < c \<Longrightarrow> a \<le> of_int \<lceil>a / c\<rceil> * (c :: decimal)"
  using le_of_int_ceiling [of "a / c"] by (simp only: pos_divide_le_eq)

lemma floor_multiple: "0 < c \<Longrightarrow> of_int \<lfloor>a / c\<rfloor> * c \<le> (a :: decimal)"
  using of_int_floor_le [of "a / c"] by (simp only: pos_le_divide_eq)

lemma linear_bounds: "2 \<le> n \<Longrightarrow> a \<le> b \<Longrightarrow> p \<in> set (linear n a b) \<Longrightarrow> a \<le> p \<and> p \<le> b"
proof -
  assume n: "2 \<le> n" and ab: "a \<le> b" and "p \<in> set (linear n a b)"
  then obtain i where i: "0 \<le> i" "i \<le> n - 1" and p: "p = a + (b - a) * of_int i / (of_int n - 1)"
    by (auto simp: linear_def)
  have i': "0 \<le> (of_int i :: rat)" "(of_int i :: rat) \<le> of_int n - 1"
    using i by simp_all
  have "1 \<le> (of_int n - 1 :: rat)" using n by linarith
  then have pos: "0 < (of_int n - 1 :: rat)" by linarith
  have "0 \<le> (b - a) * of_int i / (of_int n - 1)" using ab i' pos by simp
  moreover have "(b - a) * of_int i / (of_int n - 1) \<le> b - a"
    using pos i' mult_left_mono [OF i'(2), of "b - a"] ab by (simp add: pos_divide_le_eq)
  ultimately show ?thesis by (simp add: p)
qed

lemma length_linear: "1 \<le> n \<Longrightarrow> length (linear n a b) = nat n"
  by (simp add: linear_def)

lemma min_base_amount_bounds:
  assumes "grid_min_base_amount cfg rule price = Inr m" and "0 < price" and "0 < min_base_amount_increment rule"
    and "0 < gc_min_order_amount_quote cfg"
  shows "105 / 100 * max (gc_min_order_amount_quote cfg) (min_notional_size rule) \<le> m * price \<and> 0 < m"
proof -
  let ?mn = "max (gc_min_order_amount_quote cfg) (min_notional_size rule)"
  let ?inc = "min_base_amount_increment rule"
  let ?a = "max (?mn * (105 / 100) / price) (?inc * of_int \<lceil>?mn / (?inc * price)\<rceil>)"
  have m: "m = of_int \<lceil>?a / ?inc\<rceil> * ?inc"
    using assms by (simp add: grid_min_base_amount_def Let_def float_div_def)
  then have "?a \<le> m" using ceiling_multiple [OF assms(3)] by simp
  then have "?mn * (105 / 100) / price \<le> m" by simp
  then have le: "?mn * (105 / 100) \<le> m * price" using assms(2) by (simp add: pos_divide_le_eq)
  have "0 < ?mn" using assms(4) by simp
  then have "0 < m * price" using le by linarith
  then show ?thesis using le assms(2) by (simp add: zero_less_mult_iff mult.commute)
qed

text \<open>What \<open>grid_sizes\<close> returns when at least one level can be paid for.\<close>

lemma grid_sizes_fit:
  assumes sizes: "grid_sizes cfg rule price m r = Inr (n, q)"
    and pos: "0 < price" "0 < min_base_amount_increment rule" "0 < m" "0 < gc_min_spread_between_orders cfg" "0 \<le> r"
    and fits: "m * price \<le> gc_total_amount_quote cfg"
  shows "1 \<le> n \<and> m * price \<le> q \<and> of_int n * q \<le> gc_total_amount_quote cfg"
proof -
  let ?T = "gc_total_amount_quote cfg"
  let ?inc = "min_base_amount_increment rule"
  let ?tick = "min_price_increment rule / price"
  let ?s = "max (gc_min_spread_between_orders cfg) ?tick"
  define k where "k = min \<lfloor>?T / (m * price)\<rfloor> \<lfloor>r / ?s\<rfloor>"
  have mp: "0 < m * price" using pos by simp
  have s: "0 < ?s" using pos by simp
  have T: "0 < ?T" using mp fits by linarith
  have "1 \<le> ?T / (m * price)" using fits mp by (simp add: pos_le_divide_eq)
  then have f: "1 \<le> \<lfloor>?T / (m * price)\<rfloor>" by linarith
  have ge: "0 \<le> ?T / (m * price)" "0 \<le> r / ?s"
    using divide_nonneg_pos [of ?T "m * price"] divide_nonneg_pos [of r ?s] T mp s pos(5) by (simp_all only: less_imp_le)
  then have k0: "0 \<le> k" unfolding k_def by (simp only: min_def zero_le_floor split: if_split) simp
  have tr: "dec_trunc (?T / (m * price)) = \<lfloor>?T / (m * price)\<rfloor>" "dec_trunc (r / ?s) = \<lfloor>r / ?s\<rfloor>"
    using ge by (simp_all only: dec_trunc_floor)
  have nz: "\<lfloor>?T / (m * price)\<rfloor> \<noteq> 0" using f by linarith
  have eq: "grid_sizes cfg rule price m r =
      ebind (dec_div ?T (price * of_int k)) (\<lambda>each. ebind (float_div each ?inc) (\<lambda>j.
      let q = max m (of_int \<lfloor>j\<rfloor> * ?inc) * price in ebind (float_div ?T q) (\<lambda>fit. Inr (min k (dec_trunc fit), q))))"
    using pos(1,3) s nz tr by (simp add: grid_sizes_def Let_def k_def)
  have "k \<noteq> 0" using sizes T by (auto simp: eq dec_div_def)
  then have k1: "1 \<le> k" using k0 by linarith
  define base where "base = max m (of_int \<lfloor>?T / (price * of_int k) / ?inc\<rfloor> * ?inc)"
  have q: "q = base * price" "n = min k (dec_trunc (?T / q))"
    using sizes pos(1,2) k1 by (auto simp: eq Let_def float_div_def ebind_eq_Inr_iff base_def split: if_splits)
  have each: "of_int \<lfloor>?T / (price * of_int k) / ?inc\<rfloor> * ?inc \<le> ?T / (price * of_int k)"
    using floor_multiple [OF pos(2)] .
  have kr: "1 \<le> (of_int k :: rat)" using k1 by simp
  have "of_int k \<le> ?T / (m * price)"
    unfolding k_def by (meson min.cobounded1 le_floor_iff)
  then have "of_int k * (m * price) \<le> ?T" using mp by (simp add: pos_le_divide_eq)
  then have "m \<le> ?T / (price * of_int k)"
    using pos(1) kr by (simp add: pos_le_divide_eq mult.commute mult.left_commute)
  then have "base \<le> ?T / (price * of_int k)" using each by (simp add: base_def)
  then have "base * (price * of_int k) \<le> ?T" using pos(1) kr by (simp add: pos_le_divide_eq)
  then have kq: "of_int k * q \<le> ?T" by (simp add: q(1) mult.commute mult.left_commute)
  have mq: "m * price \<le> q" using pos(1) by (simp add: q(1) base_def mult_right_mono)
  then have q0: "0 < q" using mp by linarith
  have "of_int k \<le> ?T / q" using kq q0 by (simp add: pos_le_divide_eq)
  then have "k \<le> dec_trunc (?T / q)" using k1 by (simp add: dec_trunc_def le_floor_iff)
  then have "n = k" using q(2) by simp
  then show ?thesis using k1 mq kq by simp
qed

text \<open>
  When the total pays for one order, the levels of a grid cost no more than the total; each of them
  is worth the minimal notional with its margin of five percent, and lies between the two prices.
\<close>

theorem grid_fits_budget:
  assumes "generate_grid_levels cfg rule price = Inr ls" and "grid_min_base_amount cfg rule price = Inr m"
    and "0 < price" and "0 < min_base_amount_increment rule" and "0 < gc_min_order_amount_quote cfg"
    and "0 < gc_min_spread_between_orders cfg" and "0 < gc_start_price cfg" and "gc_start_price cfg \<le> gc_end_price cfg"
    and fits: "m * price \<le> gc_total_amount_quote cfg"
  shows "ls \<noteq> [] \<and> sum_list (map gl_amount_quote ls) \<le> gc_total_amount_quote cfg
    \<and> (\<forall>l \<in> set ls. 105 / 100 * max (gc_min_order_amount_quote cfg) (min_notional_size rule) \<le> gl_amount_quote l
         \<and> gc_start_price cfg \<le> gl_price l \<and> gl_price l \<le> gc_end_price cfg)"
proof -
  let ?a = "gc_start_price cfg" and ?b = "gc_end_price cfg"
  have m: "105 / 100 * max (gc_min_order_amount_quote cfg) (min_notional_size rule) \<le> m * price" "0 < m"
    using min_base_amount_bounds [OF assms(2-5)] by simp_all
  have r: "dec_div (?b - ?a) ?a = Inr ((?b - ?a) / ?a)" "0 \<le> (?b - ?a) / ?a"
    using assms(7,8) by simp_all
  obtain n q where sizes: "grid_sizes cfg rule price m ((?b - ?a) / ?a) = Inr (n, q)"
    using assms(1,2) r(1) by (auto simp: generate_grid_levels_def Let_def ebind_eq_Inr_iff)
  have fit: "1 \<le> n" "m * price \<le> q" "of_int n * q \<le> gc_total_amount_quote cfg"
    using grid_sizes_fit [OF sizes assms(3,4) m(2) assms(6) r(2) fits] by simp_all
  define ps where "ps = (if n > 1 then linear n ?a ?b else [(?a + ?b) / 2])"
  have prices: "map gl_price ls = ps" "map gl_amount_quote ls = replicate (length ps) q"
    using assms(1,2) r(1) sizes fit(1)
    by (auto simp: generate_grid_levels_def Let_def ebind_eq_Inr_iff ps_def max_def comp_def case_prod_beta
        map_replicate_const enumerate_eq_zip map_snd_zip_take)
  have len: "int (length ps) = n" using fit(1) by (auto simp: ps_def length_linear)
  have "\<forall>p \<in> set ps. ?a \<le> p \<and> p \<le> ?b"
    using linear_bounds [of n ?a ?b] assms(8) by (auto simp: ps_def)
  then have in_range: "?a \<le> gl_price l \<and> gl_price l \<le> ?b" if "l \<in> set ls" for l
    using that by (metis image_eqI list.set_map prices(1))
  have amounts: "gl_amount_quote l = q" if "l \<in> set ls" for l
  proof -
    have "gl_amount_quote l \<in> set (map gl_amount_quote ls)" using that by simp
    then show ?thesis by (simp add: prices(2))
  qed
  have "sum_list (map gl_amount_quote ls) = of_int n * q"
    using len by (simp add: prices(2) sum_list_replicate)
  moreover have "ls \<noteq> []" using prices(1) len fit(1) by auto
  ultimately show ?thesis using fit m(1) in_range amounts by force
qed

text \<open>
  A grid that is narrower than the smallest step between two orders cannot be created: the number
  of levels is zero before it is raised to one, and the total is divided by it.
\<close>

theorem narrow_grid_raises:
  assumes "tb_time_limit_order_type (gc_triple_barrier_config cfg) = MARKET"
    and "tb_stop_loss_order_type (gc_triple_barrier_config cfg) = MARKET"
    and "dict_get (ex_rules (env_exchange env)) (gc_trading_pair cfg) = Some rule"
    and "grid_min_base_amount cfg rule (env_price env MidPrice) = Inr m"
    and pos: "0 < env_price env MidPrice" "0 < min_base_amount_increment rule" "0 < gc_min_order_amount_quote cfg"
    and fits: "m * env_price env MidPrice \<le> gc_total_amount_quote cfg"
    and a: "0 < gc_start_price cfg" "gc_start_price cfg \<le> gc_end_price cfg"
    and narrow: "gc_end_price cfg - gc_start_price cfg < gc_min_spread_between_orders cfg * gc_start_price cfg"
  shows "new_grid_executor env cfg max_retries = Inl ZeroDivisionError"
proof -
  let ?p = "env_price env MidPrice" and ?T = "gc_total_amount_quote cfg"
  let ?r = "(gc_end_price cfg - gc_start_price cfg) / gc_start_price cfg"
  let ?s = "max (gc_min_spread_between_orders cfg) (min_price_increment rule / ?p)"
  have m: "0 < m" using min_base_amount_bounds [OF assms(4) pos] by simp
  have mp: "0 < m * ?p" using m pos by simp
  have "1 \<le> ?T / (m * ?p)" using fits mp by (simp add: pos_le_divide_eq)
  then have nz: "dec_trunc (?T / (m * ?p)) \<ge> 1" by (simp add: dec_trunc_def le_floor_iff)
  have T: "0 < ?T" using mp fits by linarith
  have "0 \<le> ?r" "?r < gc_min_spread_between_orders cfg" using a narrow by (simp_all add: pos_divide_less_eq)
  moreover have "gc_min_spread_between_orders cfg \<le> ?s" by simp
  ultimately have "0 < ?s" "0 \<le> ?r" "?r < ?s" by linarith+
  then have "0 \<le> ?r / ?s" "?r / ?s < 1" "?s \<noteq> 0" using proper_ratio [of ?s ?r] by simp_all
  then have steps: "dec_trunc (?r / ?s) = 0" by (simp add: dec_trunc_def floor_eq_iff)
  have "grid_sizes cfg rule ?p m ?r = Inl ZeroDivisionError"
    using nz steps pos mp T \<open>?s \<noteq> 0\<close> by (auto simp: grid_sizes_def Let_def dec_div_def)
  then show ?thesis
    using assms(1-4) a by (simp add: new_grid_executor_def dict_at_def generate_grid_levels_def Let_def)
qed


section \<open>Every order is accounted for\<close>

text \<open>
  The ids of the orders the levels and the shutdown hold, and of those that are written down. The
  connector names its order objects for good: \<open>ids\<close>.
\<close>

definition names :: "(address \<Rightarrow> string) \<Rightarrow> exec_env \<Rightarrow> bool" where
  "names ids env \<longleftrightarrow> (\<forall>a. o_client_order_id (env_orders env a) = ids a) \<and> (\<forall>oid a. env_fetch env oid = Some a \<longrightarrow> ids a = oid)"

fun slot_ids :: "tracked_order option \<Rightarrow> string multiset" where
  "slot_ids None = {#}"
| "slot_ids (Some t) = {#to_order_id t#}"

definition level_ids :: "grid_level \<Rightarrow> string multiset" where
  "level_ids l = slot_ids (gl_open l) + slot_ids (gl_close l)"

definition tracked_ids :: "grid_executor \<Rightarrow> string multiset" where
  "tracked_ids x = sum_list (map level_ids (gx_levels x)) + slot_ids (gx_close_order x)"

definition json_id :: "json \<Rightarrow> string" where
  "json_id j = (case json_at j ''client_order_id'' of Inr (JStr i) \<Rightarrow> i | _ \<Rightarrow> [])"

definition noted_ids :: "grid_executor \<Rightarrow> string multiset" where
  "noted_ids x = mset (gx_failed_orders x) + mset (gx_canceled_orders x) + mset (map json_id (gx_filled_orders x))"

fun linked :: "(address \<Rightarrow> string) \<Rightarrow> tracked_order option \<Rightarrow> bool" where
  "linked ids (Some \<lparr>to_order_id = oid, to_order = Some a\<rparr>) = (ids a = oid)"
| "linked ids _ = True"

fun has_order :: "tracked_order option \<Rightarrow> bool" where
  "has_order (Some \<lparr>to_order_id = oid, to_order = Some a\<rparr>) = True"
| "has_order _ = False"

definition level_ok :: "(address \<Rightarrow> string) \<Rightarrow> grid_level \<Rightarrow> bool" where
  "level_ok ids l \<longleftrightarrow> linked ids (gl_open l) \<and> linked ids (gl_close l) \<and> (gl_close l \<noteq> None \<longrightarrow> has_order (gl_open l))"

definition books :: "(address \<Rightarrow> string) \<Rightarrow> grid_executor \<Rightarrow> bool" where
  "books ids x \<longleftrightarrow> mset (placed_ids (ex_calls x)) = tracked_ids x + noted_ids x
     \<and> list_all (level_ok ids) (gx_levels x) \<and> linked ids (gx_close_order x)
     \<and> (\<forall>f s. gx_by_state x = Some f \<longrightarrow> (\<forall>i \<in> set (f s). i < length (gx_levels x)))"

definition same_books :: "grid_executor \<Rightarrow> grid_executor \<Rightarrow> bool" where
  "same_books x y \<longleftrightarrow> gx_levels y = gx_levels x \<and> gx_by_state y = gx_by_state x \<and> gx_close_order y = gx_close_order x
     \<and> gx_filled_orders y = gx_filled_orders x \<and> gx_failed_orders y = gx_failed_orders x
     \<and> gx_canceled_orders y = gx_canceled_orders x \<and> placed_ids (ex_calls y) = placed_ids (ex_calls x)
     \<and> ex_status y = ex_status x"

named_theorems same_books_intros

lemma same_books_refl [simp, same_books_intros]: "same_books x x"
  by (simp add: same_books_def)

lemma same_books_trans: "same_books x y \<Longrightarrow> same_books y z \<Longrightarrow> same_books x z"
  by (simp add: same_books_def)

lemma same_books_books: "same_books x y \<Longrightarrow> books ids y = books ids x"
  by (simp add: same_books_def books_def tracked_ids_def noted_ids_def)

lemma same_books_obind [same_books_intros]:
  "same_books x (fst m) \<Longrightarrow> (\<And>s. same_books x s \<Longrightarrow> same_books x (fst (f s))) \<Longrightarrow> same_books x (fst (obind m f))"
  by (rule obind_fst_inv)

lemma same_books_try [same_books_intros]:
  "same_books x s \<Longrightarrow> (\<And>v. same_books x (fst (f v))) \<Longrightarrow> same_books x (fst (try_value s m f))"
  by (cases m) simp_all

lemma same_books_if [same_books_intros]:
  "(b \<Longrightarrow> same_books x (fst m)) \<Longrightarrow> (\<not> b \<Longrightarrow> same_books x (fst n)) \<Longrightarrow> same_books x (fst (if b then m else n))"
  by simp

lemma same_books_metrics [same_books_intros]:
  "same_books x y \<Longrightarrow> same_books x (fst (update_realized_pnl_metrics y))"
  "same_books x y \<Longrightarrow> same_books x (fst (open_position_metrics env held closing ords y))"
  "same_books x y \<Longrightarrow> same_books x (no_position y)"
proof -
  assume xy: "same_books x y"
  show "same_books x (fst (update_realized_pnl_metrics y))"
    unfolding update_realized_pnl_metrics_def Let_def using xy
    by (intro same_books_if same_books_try) (simp_all add: same_books_def reset_metrics_def)
  show "same_books x (fst (open_position_metrics env held closing ords y))"
    unfolding open_position_metrics_def Let_def using xy
    by (intro same_books_try) (auto simp: same_books_def)
  show "same_books x (no_position y)" using xy by (simp add: same_books_def no_position_def)
qed

lemma same_books_position_metrics [same_books_intros]:
  assumes "same_books x y"
  shows "same_books x (fst (update_position_metrics env y))"
proof -
  have "same_books x (fst (s\<lparr>gx_open_liquidity := v\<rparr>, None))" if "same_books x s" for s v
    using that by (simp add: same_books_def)
  then show ?thesis
    unfolding update_position_metrics_def using assms
    by (intro same_books_try same_books_obind) (auto intro: same_books_metrics)
qed

lemma same_books_update_metrics: "same_books x (fst (update_metrics env x))"
proof -
  have "same_books x (x\<lparr>gx_mid_price := a, gx_open_quote := b, gx_close_quote := c\<rparr>)" for a b c
    by (simp add: same_books_def)
  then show ?thesis
    unfolding update_metrics_def Let_def by (intro same_books_obind same_books_position_metrics same_books_metrics)
qed

lemma same_books_cancel_ids [same_books_intros]: "same_books x y \<Longrightarrow> same_books x (cancel_ids is y)"
  unfolding cancel_ids_def
  by (induction "is" arbitrary: y) (auto simp: same_books_def log_call_def)

lemma same_books_cancel_open_orders [same_books_intros]: "same_books x y \<Longrightarrow> same_books x (fst (grid_cancel_open_orders y))"
  unfolding grid_cancel_open_orders_def by (intro same_books_try) (auto intro: same_books_cancel_ids)

lemma same_books_barrier: "same_books x (fst (control_triple_barrier env x))"
  by (auto simp: control_triple_barrier_def trailing_stop_condition_def same_books_def Let_def split: option.splits)


text \<open>Changing one level changes what is tracked by the difference.\<close>

lemma sum_list_update_mset:
  "i < length xs \<Longrightarrow> sum_list (xs[i := v]) + xs ! i = sum_list xs + (v :: 'a multiset)"
  by (induction xs arbitrary: i) (auto simp: nth_Cons' gr0_conv_Suc ac_simps split: nat.splits)

lemma tracked_set_level:
  assumes "i < length (gx_levels x)"
  shows "tracked_ids (set_level i l x) + level_ids (level x i) = tracked_ids x + level_ids l"
  using sum_list_update_mset [of i "map level_ids (gx_levels x)" "level_ids l"] assms
  by (simp add: tracked_ids_def set_level_def map_update add.commute add.left_commute)

lemma set_level_simps [simp]:
  "gx_by_state (set_level i l x) = gx_by_state x" "gx_close_order (set_level i l x) = gx_close_order x"
  "gx_filled_orders (set_level i l x) = gx_filled_orders x" "gx_failed_orders (set_level i l x) = gx_failed_orders x"
  "gx_canceled_orders (set_level i l x) = gx_canceled_orders x" "ex_calls (set_level i l x) = ex_calls x"
  "ex_status (set_level i l x) = ex_status x" "length (gx_levels (set_level i l x)) = length (gx_levels x)"
  "gx_levels (set_level i l x) = (gx_levels x)[i := l]" "gx_config (set_level i l x) = gx_config x"
  "gx_rule (set_level i l x) = gx_rule x" "ex_held_position_orders (set_level i l x) = ex_held_position_orders x"
  by (simp_all add: set_level_def)

lemma level_ok_at: "books ids x \<Longrightarrow> i < length (gx_levels x) \<Longrightarrow> level_ok ids (level x i)"
  by (simp add: books_def list_all_length)

lemma bounded_insert: "j \<in> set (g f s) \<Longrightarrow> \<forall>s. set (g f s) \<subseteq> insert i (set (f s)) \<Longrightarrow> \<forall>s. \<forall>k \<in> set (f s). k < n \<Longrightarrow> i < n \<Longrightarrow> j < n"
proof -
  assume "j \<in> set (g f s)" and "\<forall>s. set (g f s) \<subseteq> insert i (set (f s))" and n: "\<forall>s. \<forall>k \<in> set (f s). k < n" "i < n"
  then have "j = i \<or> j \<in> set (f s)" by blast
  then show "j < n" using n by blast
qed

text \<open>Replacing a level keeps the books when its ids balance against what is noted and placed.\<close>

lemma reset_level_simps [simp]: "level_ids (reset_level l) = {#}" "level_ok ids (reset_level l)"
  by (simp_all add: level_ids_def level_ok_def reset_level_def)

lemma books_set_level:
  assumes "books ids x" and i: "i < length (gx_levels x)" and ok: "level_ok ids l"
    and y: "gx_levels y = gx_levels x" "gx_by_state y = gx_by_state x \<or> gx_by_state y = map_option g (gx_by_state x)
        \<and> (\<forall>f s. gx_by_state x = Some f \<longrightarrow> set (g f s) \<subseteq> insert i (set (f s)))"
      "gx_close_order y = gx_close_order x"
    and balance: "mset (placed_ids (ex_calls y)) + noted_ids x + level_ids (level x i)
        = mset (placed_ids (ex_calls x)) + noted_ids y + level_ids l"
  shows "books ids (set_level i l y)"
proof -
  let ?P = "\<lambda>z. mset (placed_ids (ex_calls z))"
  have tracked: "tracked_ids (set_level i l y) + level_ids (level x i) = tracked_ids x + level_ids l"
    using tracked_set_level [of i y l] i y by (simp add: tracked_ids_def)
  have "?P y + noted_ids x + level_ids (level x i) = (tracked_ids x + level_ids l) + (noted_ids x + noted_ids y)"
    using assms(1) balance by (simp add: books_def ac_simps)
  also have "\<dots> = (tracked_ids (set_level i l y) + level_ids (level x i)) + (noted_ids x + noted_ids y)"
    by (simp only: tracked)
  also have "\<dots> = (tracked_ids (set_level i l y) + noted_ids y) + noted_ids x + level_ids (level x i)" by (simp add: ac_simps)
  finally have "?P y = tracked_ids (set_level i l y) + noted_ids y" by (simp only: add_right_cancel)
  moreover have "list_all (level_ok ids) ((gx_levels x)[i := l])"
    using assms(1) ok by (auto simp: books_def list_all_iff dest: set_update_subset_insert [THEN subsetD])
  moreover have "\<forall>f s. gx_by_state y = Some f \<longrightarrow> (\<forall>j \<in> set (f s). j < length (gx_levels x))"
  proof (intro allI impI ballI)
    fix f s j
    assume f: "gx_by_state y = Some f" and j: "j \<in> set (f s)"
    have old: "\<forall>s. \<forall>k \<in> set (f s). k < length (gx_levels x)" if "gx_by_state x = Some f" for f
      using assms(1) that by (simp add: books_def)
    show "j < length (gx_levels x)"
      using y(2)
    proof
      assume "gx_by_state y = gx_by_state x"
      then show ?thesis using f j old [of f] by simp
    next
      assume "gx_by_state y = map_option g (gx_by_state x) \<and> (\<forall>f s. gx_by_state x = Some f \<longrightarrow> set (g f s) \<subseteq> insert i (set (f s)))"
      then obtain h where "gx_by_state x = Some h" "f = g h" "\<forall>s. set (g h s) \<subseteq> insert i (set (h s))" using f by (cases "gx_by_state x") auto
      then show ?thesis using bounded_insert [of j g h s i] old i j by simp
    qed
  qed
  ultimately show ?thesis using assms(1) y by (simp add: books_def noted_ids_def)
qed

lemma order_to_json_id:
  assumes "names ids env" and "linked ids t" and "ebind (level_order env t) (order_to_json (env_rate env)) = Inr j"
  shows "slot_ids t = {#json_id j#}"
proof -
  obtain oid a where t: "t = Some \<lparr>to_order_id = oid, to_order = Some a\<rparr>" and j: "order_to_json (env_rate env) (env_orders env a) = Inr j"
    using assms(3) by (cases t rule: has_order.cases) (auto simp: level_order_def tracked_def)
  then have "json_id j = o_client_order_id (env_orders env a)"
    by (auto simp: order_to_json_def ebind_eq_Inr_iff json_id_def json_at_def dict_at_def dict_get_def)
  then show ?thesis using assms(1,2) t by (simp add: names_def)
qed

lemma recycle_level_books:
  assumes "books ids x" and "names ids env" and i: "i < length (gx_levels x)"
  shows "books ids (fst (recycle_level env i x))"
proof (cases "recycle_level env i x")
  case (Pair y e)
  let ?a = "ebind (level_order env (gl_open (level x i))) (order_to_json (env_rate env))"
  let ?b = "ebind (level_order env (gl_close (level x i))) (order_to_json (env_rate env))"
  show ?thesis
  proof (cases "\<exists>a b. ?a = Inr a \<and> ?b = Inr b")
    case True
    then obtain a b where ab: "?a = Inr a" "?b = Inr b" by blast
    have "linked ids (gl_open (level x i))" "linked ids (gl_close (level x i))"
      using level_ok_at [OF assms(1) i] by (simp_all add: level_ok_def)
    then have "slot_ids (gl_open (level x i)) = {#json_id a#}" "slot_ids (gl_close (level x i)) = {#json_id b#}"
      using order_to_json_id [OF assms(2)] ab by blast+
    then have ids: "level_ids (level x i) = {#json_id a, json_id b#}" by (simp add: level_ids_def)
    have eq: "fst (recycle_level env i x) = set_level i (reset_level (level x i))
        (move_level NOT_ACTIVE i (x\<lparr>gx_filled_orders := gx_filled_orders x @ [a, b]\<rparr>))"
      by (simp add: recycle_level_def ab move_level_def set_level_def)
    show ?thesis
      unfolding eq
      by (rule books_set_level [OF assms(1) i, where g = "\<lambda>f. let f' = f(COMPLETE := remove1 i (f COMPLETE)) in f'(NOT_ACTIVE := f' NOT_ACTIVE @ [i])"])
        (auto simp: move_level_def ids noted_ids_def Let_def dest: notin_set_remove1 split: if_splits)
  next
    case False
    then have "fst (recycle_level env i x) = x" by (cases ?a; cases ?b) (auto simp: recycle_level_def)
    then show ?thesis using assms(1) by simp
  qed
qed

lemma recycle_level_length: "length (gx_levels (fst (recycle_level env i x))) = length (gx_levels x)"
  by (cases "ebind (level_order env (gl_open (level x i))) (order_to_json (env_rate env))";
      cases "ebind (level_order env (gl_close (level x i))) (order_to_json (env_rate env))")
    (simp_all add: recycle_level_def move_level_def)

lemma recycle_levels_books:
  "books ids x \<Longrightarrow> names ids env \<Longrightarrow> \<forall>i \<in> set is. i < length (gx_levels x) \<Longrightarrow> books ids (fst (recycle_levels env is x))"
proof (induction env "is" x rule: recycle_levels.induct)
  case (2 env i "is" x)
  show ?case
  proof (cases "round_trip_filled env (level x i)")
    case (Inr b)
    show ?thesis
    proof (cases b)
      case True
      have "books ids (fst (recycle_level env i x))" "length (gx_levels (fst (recycle_level env i x))) = length (gx_levels x)"
        using recycle_level_books 2(3-5) recycle_level_length by simp_all
      moreover have "\<forall>j \<in> set (drop 1 is). j < length (gx_levels x)" using 2(5) by (auto dest: in_set_dropD)
      ultimately show ?thesis
        using Inr True 2(1) [OF True] 2(4)
        by (cases "recycle_level env i x"; cases "snd (recycle_level env i x)") simp_all
    next
      case False
      then show ?thesis using Inr 2(2-5) by simp
    qed
  qed (use 2 in simp)
qed simp


lemma level_update_slots [simp]:
  "gl_open (level_update_state env l) = gl_open l" "gl_close (level_update_state env l) = gl_close l"
  "level_ids (level_update_state env l) = level_ids l" "level_ok ids (level_update_state env l) = level_ok ids l"
  by (simp_all add: level_update_state_def level_ids_def level_ok_def)

lemma set_states_of [simp]: "set (states_of ls s) = {i. i < length ls \<and> gl_state (ls ! i) = s}"
  by (auto simp: states_of_def)

lemma distinct_states_of [simp]: "distinct (states_of ls s)"
  by (simp add: states_of_def)

lemma refreshed_books:
  assumes "books ids x"
  shows "books ids (x\<lparr>gx_levels := map (level_update_state env) (gx_levels x),
      gx_by_state := Some (states_of (map (level_update_state env) (gx_levels x)))\<rparr>)"
  using assms by (simp add: books_def tracked_ids_def noted_ids_def comp_def list_all_iff)

lemma update_grid_levels_books:
  assumes "books ids x" and "names ids env"
  shows "books ids (fst (update_grid_levels env x))"
  unfolding update_grid_levels_def Let_def
  by (rule recycle_levels_books [OF refreshed_books [OF assms(1)] assms(2)]) simp

text \<open>What the sorting by states says of the levels, after \<open>update_grid_levels\<close>.\<close>

definition sorted_out :: "grid_executor \<Rightarrow> bool" where
  "sorted_out x \<longleftrightarrow> (\<forall>f. gx_by_state x = Some f \<longrightarrow>
     (\<forall>s. distinct (f s)) \<and> (\<forall>s t. s \<noteq> t \<longrightarrow> set (f s) \<inter> set (f t) = {})
     \<and> (\<forall>i \<in> set (f NOT_ACTIVE). gl_open (level x i) = None \<and> gl_close (level x i) = None)
     \<and> (\<forall>i \<in> set (f OPEN_ORDER_PLACED). gl_close (level x i) = None)
     \<and> (\<forall>i \<in> set (f OPEN_ORDER_FILLED). has_order (gl_open (level x i)) \<and> gl_close (level x i) = None))"

lemma filled_has_order: "to_is_filled env t \<Longrightarrow> has_order (Some t)"
  by (cases "Some t" rule: has_order.cases) (auto simp: to_is_filled_def tracked_def)

lemma refreshed_sorted_out:
  "sorted_out (x\<lparr>gx_levels := map (level_update_state env) (gx_levels x),
      gx_by_state := Some (states_of (map (level_update_state env) (gx_levels x)))\<rparr>)"
  by (auto simp: sorted_out_def states_of_def level_update_state_def filled_has_order split: option.splits if_splits)

lemma move_level_sorted_out:
  assumes "sorted_out x" and "gx_by_state x = Some f" and i: "i \<in> set (f COMPLETE)" "i < length (gx_levels x)"
  shows "sorted_out (move_level NOT_ACTIVE i (set_level i (reset_level (level x i)) x))"
proof -
  have d: "distinct (f s)" "s \<noteq> t \<Longrightarrow> set (f s) \<inter> set (f t) = {}" for s t
    using assms(1,2) by (auto simp: sorted_out_def)
  have other: "i \<notin> set (f s)" if "s \<noteq> COMPLETE" for s using d(2) [OF that] i(1) by blast
  have complete: "set (remove1 i (f COMPLETE)) = set (f COMPLETE) - {i}" using d(1) by (simp add: set_remove1_eq)
  have levels: "gx_levels (move_level s i y) = gx_levels y" for s y by (simp add: move_level_def)
  have states: "gx_by_state (move_level NOT_ACTIVE i (set_level i l x)) =
      Some (f(COMPLETE := remove1 i (f COMPLETE), NOT_ACTIVE := f NOT_ACTIVE @ [i]))" for l
    using assms(2) by (simp add: move_level_def Let_def)
  have same: "(gx_levels x)[i := l] ! j = level x j" if "j \<in> set (f s)" "s \<noteq> COMPLETE" for l j s
    using other [OF that(2)] that(1) by (metis nth_list_update_neq)
  show ?thesis
    unfolding sorted_out_def states levels
  proof (intro allI impI conjI ballI)
    fix g s assume "Some (f(COMPLETE := remove1 i (f COMPLETE), NOT_ACTIVE := f NOT_ACTIVE @ [i])) = Some g"
    then have g: "g = f(COMPLETE := remove1 i (f COMPLETE), NOT_ACTIVE := f NOT_ACTIVE @ [i])" by simp
    show "distinct (g s)" using d(1) other [of NOT_ACTIVE] by (simp add: g distinct_remove1)
    show "set (g s) \<inter> set (g t) = {}" if "s \<noteq> t" for t
      using d(2) [OF that] d(2) [of NOT_ACTIVE s] d(2) [of NOT_ACTIVE t] other complete that by (auto simp: g)
    show "gl_open (gx_levels (set_level i (reset_level (level x i)) x) ! j) = None"
      "gl_close (gx_levels (set_level i (reset_level (level x i)) x) ! j) = None" if "j \<in> set (g NOT_ACTIVE)" for j
      using that assms(1,2) i(2) same [of j NOT_ACTIVE] by (auto simp: g sorted_out_def reset_level_def)
    show "gl_close (gx_levels (set_level i (reset_level (level x i)) x) ! j) = None" if "j \<in> set (g OPEN_ORDER_PLACED)" for j
      using that assms(1,2) same [of j OPEN_ORDER_PLACED] by (auto simp: g sorted_out_def)
    show "has_order (gl_open (gx_levels (set_level i (reset_level (level x i)) x) ! j))"
      "gl_close (gx_levels (set_level i (reset_level (level x i)) x) ! j) = None" if "j \<in> set (g OPEN_ORDER_FILLED)" for j
      using that assms(1,2) same [of j OPEN_ORDER_FILLED] by (auto simp: g sorted_out_def)
  qed
qed


lemma recycle_level_result:
  "recycle_level env i x = (x, snd (recycle_level env i x)) \<and> snd (recycle_level env i x) \<noteq> None
   \<or> (\<exists>js. recycle_level env i x = (move_level NOT_ACTIVE i (set_level i (reset_level (level x i))
         (x\<lparr>gx_filled_orders := js\<rparr>)), None))"
  by (cases "ebind (level_order env (gl_open (level x i))) (order_to_json (env_rate env))";
      cases "ebind (level_order env (gl_close (level x i))) (order_to_json (env_rate env))")
    (auto simp: recycle_level_def)

lemma recycle_levels_sorted_out:
  "sorted_out x \<Longrightarrow> gx_by_state x = Some f \<Longrightarrow> set is \<subseteq> set (f COMPLETE) \<Longrightarrow> distinct is \<Longrightarrow>
   \<forall>i \<in> set (f COMPLETE). i < length (gx_levels x) \<Longrightarrow> sorted_out (fst (recycle_levels env is x))"
proof (induction env "is" x arbitrary: f rule: recycle_levels.induct)
  case (2 env i "is" x)
  show ?case
  proof (cases "round_trip_filled env (level x i)")
    case (Inr b)
    show ?thesis
    proof (cases b)
      case True
      show ?thesis
        using recycle_level_result [of env i x]
      proof
        assume "recycle_level env i x = (x, snd (recycle_level env i x)) \<and> snd (recycle_level env i x) \<noteq> None"
        then show ?thesis using Inr True 2(3) by (cases "recycle_level env i x"; cases "snd (recycle_level env i x)") auto
      next
        assume "\<exists>js. recycle_level env i x = (move_level NOT_ACTIVE i (set_level i (reset_level (level x i))
         (x\<lparr>gx_filled_orders := js\<rparr>)), None)"
        then obtain js where r: "recycle_level env i x = (move_level NOT_ACTIVE i (set_level i (reset_level (level x i))
         (x\<lparr>gx_filled_orders := js\<rparr>)), None)" by blast
        let ?y = "move_level NOT_ACTIVE i (set_level i (reset_level (level x i)) (x\<lparr>gx_filled_orders := js\<rparr>))"
        let ?f = "f(COMPLETE := remove1 i (f COMPLETE), NOT_ACTIVE := f NOT_ACTIVE @ [i])"
        have "sorted_out (x\<lparr>gx_filled_orders := js\<rparr>)" using 2(3) by (simp add: sorted_out_def)
        then have y: "sorted_out ?y"
          using move_level_sorted_out [of "x\<lparr>gx_filled_orders := js\<rparr>" f i] 2(4-7) by simp
        have f: "gx_by_state ?y = Some ?f" using 2(4) by (simp add: move_level_def Let_def)
        have len: "length (gx_levels ?y) = length (gx_levels x)" by (simp add: move_level_def)
        have d: "distinct (f COMPLETE)" using 2(3,4) by (auto simp: sorted_out_def)
        have sub: "set (drop 1 is) \<subseteq> set (?f COMPLETE)"
          using 2(5,6) d by (auto simp: set_remove1_eq dest: in_set_dropD)
        have bound: "\<forall>j \<in> set (?f COMPLETE). j < length (gx_levels ?y)"
          using 2(7) d len by (auto simp: set_remove1_eq)
        have "sorted_out (fst (recycle_levels env (drop 1 is) ?y))"
          by (rule 2(1) [OF True y f sub _ bound]) (use 2(6) in simp)
        then show ?thesis using Inr True r by simp
      qed
    next
      case False
      then show ?thesis using Inr 2(2) [OF False 2(3,4) _ _ 2(7)] 2(5,6) by simp
    qed
  qed (use 2 in simp)
qed simp

lemma update_grid_levels_sorted_out: "sorted_out (fst (update_grid_levels env x))"
  unfolding update_grid_levels_def Let_def
  by (rule recycle_levels_sorted_out [OF refreshed_sorted_out, where f = "states_of (map (level_update_state env) (gx_levels x))"])
    simp_all

lemma sorted_out_same: "same_books x y \<Longrightarrow> sorted_out y = sorted_out x"
  by (simp add: same_books_def sorted_out_def)

section \<open>Placing\<close>

text \<open>Filling an empty slot with the order just placed.\<close>

lemma place_order_simps [simp]:
  fixes x :: "'a executor_core_scheme"
  shows "fst (place_order env ot t amount price action x)
      = log_call (PlaceOrder (next_order_id env x) ot (if t = BUY then BUY else SELL) amount price action) x"
    "snd (place_order env ot t amount price action x) = next_order_id env x"
  by (simp_all add: place_order_def Let_def)

lemma log_call_simps [simp]:
  fixes x :: grid_executor
  shows "gx_levels (log_call c x) = gx_levels x" "gx_by_state (log_call c x) = gx_by_state x"
    "gx_close_order (log_call c x) = gx_close_order x" "noted_ids (log_call c x) = noted_ids x"
    "ex_calls (log_call c x) = ex_calls x @ [c]"
  by (simp_all add: log_call_def noted_ids_def)

lemma open_order_result:
  "fst (adjust_and_place_open_order env i x) = x
   \<or> (\<exists>ot t a p. fst (adjust_and_place_open_order env i x) =
        set_level i ((level x i)\<lparr>gl_open := Some \<lparr>to_order_id = next_order_id env x, to_order = None\<rparr>\<rparr>)
          ((log_call (PlaceOrder (next_order_id env x) ot t a p OPEN) x)\<lparr>gx_max_open_creation := env_now env\<rparr>))"
proof (cases "get_open_order_candidate x (level x i)")
  case (Inr c)
  then show ?thesis
    by (cases "check_budget env x c"; cases "oc_amount c > 0") (auto simp: adjust_and_place_open_order_def case_prod_beta Let_def)
qed (simp add: adjust_and_place_open_order_def)

lemma open_order_books:
  assumes "books ids x" and i: "i < length (gx_levels x)" and "gl_open (level x i) = None" "gl_close (level x i) = None"
  shows "books ids (fst (adjust_and_place_open_order env i x))
    \<and> (\<forall>j. j \<noteq> i \<longrightarrow> level (fst (adjust_and_place_open_order env i x)) j = level x j)
    \<and> length (gx_levels (fst (adjust_and_place_open_order env i x))) = length (gx_levels x)
    \<and> gx_by_state (fst (adjust_and_place_open_order env i x)) = gx_by_state x"
  using open_order_result [of env i x]
proof
  assume "\<exists>ot t a p. fst (adjust_and_place_open_order env i x) =
        set_level i ((level x i)\<lparr>gl_open := Some \<lparr>to_order_id = next_order_id env x, to_order = None\<rparr>\<rparr>)
          ((log_call (PlaceOrder (next_order_id env x) ot t a p OPEN) x)\<lparr>gx_max_open_creation := env_now env\<rparr>)"
  then obtain ot t a p where r: "fst (adjust_and_place_open_order env i x) =
        set_level i ((level x i)\<lparr>gl_open := Some \<lparr>to_order_id = next_order_id env x, to_order = None\<rparr>\<rparr>)
          ((log_call (PlaceOrder (next_order_id env x) ot t a p OPEN) x)\<lparr>gx_max_open_creation := env_now env\<rparr>)" by blast
  have "books ids (fst (adjust_and_place_open_order env i x))"
    unfolding r by (rule books_set_level [OF assms(1) i])
      (use assms(3,4) in \<open>simp_all add: level_ok_def level_ids_def noted_ids_def log_call_def\<close>)
  then show ?thesis by (simp add: r)
qed (use assms in simp)

lemma close_order_result:
  assumes "gl_open (level x i) = Some t" and x0_def: "x0 = x\<lparr>gx_open_fee_in_base := gx_open_fee_in_base x \<or> fee_in_base env x t\<rparr>"
  shows "fst (adjust_and_place_close_order env i x) = x0
   \<or> (\<exists>ot s a p. fst (adjust_and_place_close_order env i x) =
        set_level i ((level x i)\<lparr>gl_close := Some \<lparr>to_order_id = next_order_id env x, to_order = None\<rparr>\<rparr>)
          (log_call (PlaceOrder (next_order_id env x) ot s a p CLOSE) x0))"
proof -
  have "next_order_id env x0 = next_order_id env x" "level x0 i = level x i" by (simp_all add: x0_def next_order_id_def)
  then show ?thesis
    by (cases "check_budget env x0 (get_close_order_candidate env x (level x i) t)"; cases "oc_amount (get_close_order_candidate env x (level x i) t) > 0")
      (auto simp: adjust_and_place_close_order_def assms(1) x0_def [symmetric] case_prod_beta Let_def)
qed

lemma close_order_books:
  assumes "books ids x" and i: "i < length (gx_levels x)" and "has_order (gl_open (level x i))" "gl_close (level x i) = None"
  shows "books ids (fst (adjust_and_place_close_order env i x))
    \<and> (\<forall>j. j \<noteq> i \<longrightarrow> level (fst (adjust_and_place_close_order env i x)) j = level x j)
    \<and> length (gx_levels (fst (adjust_and_place_close_order env i x))) = length (gx_levels x)
    \<and> gx_by_state (fst (adjust_and_place_close_order env i x)) = gx_by_state x"
proof -
  obtain t where t: "gl_open (level x i) = Some t" using assms(3) by (cases "gl_open (level x i)") auto
  define x0 where "x0 = x\<lparr>gx_open_fee_in_base := gx_open_fee_in_base x \<or> fee_in_base env x t\<rparr>"
  have x0: "same_books x x0" by (simp add: x0_def same_books_def)
  have "linked ids (gl_open (level x i))" using level_ok_at [OF assms(1) i] by (simp add: level_ok_def)
  show ?thesis
    using close_order_result [OF t x0_def]
  proof
    assume "\<exists>ot s a p. fst (adjust_and_place_close_order env i x) =
        set_level i ((level x i)\<lparr>gl_close := Some \<lparr>to_order_id = next_order_id env x, to_order = None\<rparr>\<rparr>)
          (log_call (PlaceOrder (next_order_id env x) ot s a p CLOSE) x0)"
    then obtain ot s a p where r: "fst (adjust_and_place_close_order env i x) =
        set_level i ((level x i)\<lparr>gl_close := Some \<lparr>to_order_id = next_order_id env x, to_order = None\<rparr>\<rparr>)
          (log_call (PlaceOrder (next_order_id env x) ot s a p CLOSE) x0)" by blast
    have "books ids (fst (adjust_and_place_close_order env i x))"
      unfolding r by (rule books_set_level [OF assms(1) i])
        (use x0 assms(3,4) \<open>linked ids (gl_open (level x i))\<close> in
          \<open>simp_all add: level_ok_def level_ids_def same_books_def noted_ids_def log_call_def\<close>)
    then show ?thesis using x0 by (simp add: r same_books_def)
  next
    assume "fst (adjust_and_place_close_order env i x) = x0"
    then show ?thesis using same_books_books [OF x0, of ids] x0 assms(1) by (simp add: same_books_def)
  qed
qed


text \<open>A loop that treats each level once, and leaves the others alone.\<close>

lemma level_loop:
  assumes step: "\<And>i x. books ids x \<Longrightarrow> i < length (gx_levels x) \<Longrightarrow> P (level x i) \<Longrightarrow>
      books ids (fst (f i x)) \<and> (\<forall>j. j \<noteq> i \<longrightarrow> level (fst (f i x)) j = level x j)
      \<and> length (gx_levels (fst (f i x))) = length (gx_levels x) \<and> gx_by_state (fst (f i x)) = gx_by_state x"
    and "distinct ks" and "books ids x" and "\<forall>i \<in> set ks. i < length (gx_levels x) \<and> P (level x i)"
  shows "books ids (fst (ofold f ks x)) \<and> (\<forall>j. j \<notin> set ks \<longrightarrow> level (fst (ofold f ks x)) j = level x j)
    \<and> length (gx_levels (fst (ofold f ks x))) = length (gx_levels x) \<and> gx_by_state (fst (ofold f ks x)) = gx_by_state x"
  using assms(2-4)
proof (induction ks arbitrary: x)
  case (Cons i ks)
  obtain y e where r: "f i x = (y, e)" by fastforce
  have y: "books ids y" "\<forall>j. j \<noteq> i \<longrightarrow> level y j = level x j" "length (gx_levels y) = length (gx_levels x)"
    "gx_by_state y = gx_by_state x"
    using step [of x i] Cons.prems r by simp_all
  show ?case
  proof (cases e)
    case None
    have "\<forall>j \<in> set ks. j < length (gx_levels y) \<and> P (level y j)"
      using Cons.prems(1,3) y(2,3) by (metis distinct.simps(2) list.set_intros(2))
    then show ?thesis using Cons.IH [of y] Cons.prems(1) y r None by simp
  qed (use y r in simp)
qed simp

lemma opening_levels:
  assumes "get_open_orders_to_create env x = Inr opening" and "sorted_out x" and "books ids x"
  shows "distinct opening \<and> (\<forall>i \<in> set opening. i < length (gx_levels x) \<and> gl_open (level x i) = None \<and> gl_close (level x i) = None)
    \<and> (\<forall>f s. gx_by_state x = Some f \<longrightarrow> s \<noteq> NOT_ACTIVE \<longrightarrow> set opening \<inter> set (f s) = {})"
proof (cases "opening = []")
  case False
  then obtain f where f: "gx_by_state x = Some f"
    "opening = py_take (gc_max_orders_per_batch (gx_config x)) (sort_levels_by_proximity x (filter_levels_by_activation_bounds x (f NOT_ACTIVE)))"
    using assms(1) by (auto simp: get_open_orders_to_create_def ebind_eq_Inr_iff in_state_def split: option.splits if_splits)
  have d: "distinct (f NOT_ACTIVE)" using assms(2) f(1) by (auto simp: sorted_out_def)
  have take: "set (py_take k xs) \<subseteq> set xs" "distinct xs \<Longrightarrow> distinct (py_take k xs)" for k and xs :: "nat list"
    by (auto simp: py_take_def dest: in_set_takeD split: option.splits)
  have filt: "set (filter_levels_by_activation_bounds x is) \<subseteq> set is" "distinct is \<Longrightarrow> distinct (filter_levels_by_activation_bounds x is)" for "is"
    by (auto simp: filter_levels_by_activation_bounds_def split: option.splits)
  have sub: "set opening \<subseteq> set (f NOT_ACTIVE)"
    using take(1) filt(1) unfolding f(2) sort_levels_by_proximity_def by (metis set_sort subset_trans)
  have "distinct opening" unfolding f(2) sort_levels_by_proximity_def by (intro take(2)) (simp add: filt(2) d)
  moreover have "i < length (gx_levels x) \<and> gl_open (level x i) = None \<and> gl_close (level x i) = None" if "i \<in> set opening" for i
    using that sub assms(2,3) f(1) by (auto simp: sorted_out_def books_def)
  moreover have "set opening \<inter> set (f s) = {}" if "s \<noteq> NOT_ACTIVE" for s
  proof -
    have "set (f s) \<inter> set (f NOT_ACTIVE) = {}" using assms(2) f(1) that unfolding sorted_out_def by blast
    then show ?thesis using sub by blast
  qed
  ultimately show ?thesis using f(1) by auto
qed simp

lemma efilter_subset: "efilter p xs = Inr ys \<Longrightarrow> \<exists>q. ys = filter q xs"
proof -
  assume "efilter p xs = Inr ys"
  then obtain zs where zs: "emap (\<lambda>x. ebind (p x) (\<lambda>b. Inr (x, b))) xs = Inr zs" "ys = map fst (filter snd zs)"
    by (auto simp: efilter_def ebind_eq_Inr_iff)
  have "map fst (filter snd zs) = filter (\<lambda>x. p x = Inr True) xs"
    using zs(1) by (induction xs arbitrary: zs) (auto simp: ebind_eq_Inr_iff)
  then show ?thesis using zs(2) by blast
qed

lemma filter_self: "\<exists>q. xs = filter q xs"
  by (rule exI [of _ "\<lambda>_. True"]) simp

lemma closing_levels:
  assumes "get_close_orders_to_create x = Inr closing" and "sorted_out x" and "books ids x"
  shows "distinct closing \<and> (\<exists>f. gx_by_state x = Some f \<and> set closing \<subseteq> set (f OPEN_ORDER_FILLED))
    \<and> (\<forall>i \<in> set closing. i < length (gx_levels x) \<and> has_order (gl_open (level x i)) \<and> gl_close (level x i) = None)"
proof -
  obtain f where f: "gx_by_state x = Some f" "\<exists>q. closing = filter q (f OPEN_ORDER_FILLED)"
  proof -
    from assms(1) obtain f where "gx_by_state x = Some f" by (auto simp: get_close_orders_to_create_def in_state_def split: option.splits)
    moreover from this have "\<exists>q. closing = filter q (f OPEN_ORDER_FILLED)"
      using assms(1) by (auto simp: get_close_orders_to_create_def in_state_def intro: filter_self dest: efilter_subset
          split: option.splits if_splits)
    ultimately show ?thesis using that by blast
  qed
  have "distinct (f OPEN_ORDER_FILLED)" using assms(2) f(1) by (auto simp: sorted_out_def)
  then show ?thesis using f assms(2,3) by (auto simp: sorted_out_def books_def)
qed


lemma same_books_after: "same_books x y \<Longrightarrow> books ids x \<Longrightarrow> books ids y"
  by (simp add: same_books_books)

lemma place_and_cancel_books:
  assumes "books ids x" and "sorted_out x"
    and "get_open_orders_to_create env x = Inr opening" and "get_close_orders_to_create x = Inr closing"
  shows "books ids (fst (place_and_cancel env opening closing is x))"
proof -
  note o = opening_levels [OF assms(3,2,1)] and c = closing_levels [OF assms(4,2,1)]
  let ?y = "fst (ofold (adjust_and_place_open_order env) opening x)"
  have y: "books ids ?y" "\<forall>j. j \<notin> set opening \<longrightarrow> level ?y j = level x j" "length (gx_levels ?y) = length (gx_levels x)"
    using level_loop [where ids = ids and P = "\<lambda>l. gl_open l = None \<and> gl_close l = None" and f = "adjust_and_place_open_order env" and ks = "opening" and x = x]
      open_order_books assms(1) o by blast+
  obtain f where f: "gx_by_state x = Some f" "set closing \<subseteq> set (f OPEN_ORDER_FILLED)" using c by blast
  have "set opening \<inter> set (f OPEN_ORDER_FILLED) = {}" using o f(1) by blast
  then have "\<forall>j \<in> set closing. j < length (gx_levels ?y) \<and> has_order (gl_open (level ?y j)) \<and> gl_close (level ?y j) = None"
    using c f(2) y(2,3) by fastforce
  then have z: "books ids (fst (ofold (adjust_and_place_close_order env) closing ?y))"
    using level_loop [where ids = ids and P = "\<lambda>l. has_order (gl_open l) \<and> gl_close l = None" and f = "adjust_and_place_close_order env" and ks = closing and x = "?y"]
      close_order_books y(1) c by blast
  show ?thesis
    unfolding place_and_cancel_def
    using y(1) z same_books_after [OF same_books_cancel_ids [OF same_books_refl]]
    by (cases "ofold (adjust_and_place_open_order env) opening x"; cases "snd (ofold (adjust_and_place_open_order env) opening x)";
        cases "ofold (adjust_and_place_close_order env) closing ?y"; cases "snd (ofold (adjust_and_place_close_order env) closing ?y)")
      simp_all
qed

section \<open>Orders that end and orders that are linked\<close>

definition notes_id :: "((string list \<Rightarrow> string list) \<Rightarrow> grid_executor \<Rightarrow> grid_executor) \<Rightarrow> bool" where
  "notes_id upd \<longleftrightarrow> (\<forall>x oid. noted_ids (upd (\<lambda>is. is @ [oid]) x) = add_mset oid (noted_ids x)
     \<and> gx_levels (upd (\<lambda>is. is @ [oid]) x) = gx_levels x \<and> gx_by_state (upd (\<lambda>is. is @ [oid]) x) = gx_by_state x
     \<and> gx_close_order (upd (\<lambda>is. is @ [oid]) x) = gx_close_order x \<and> ex_calls (upd (\<lambda>is. is @ [oid]) x) = ex_calls x
     \<and> ex_status (upd (\<lambda>is. is @ [oid]) x) = ex_status x)"

lemma notes_id_updates: "notes_id gx_canceled_orders_update" "notes_id gx_failed_orders_update"
  by (simp_all add: notes_id_def noted_ids_def)

lemma has_id_slot: "has_id oid t \<Longrightarrow> slot_ids t = {#oid#}"
  by (cases t) (simp_all add: has_id_def)

lemma noted_creation [simp]:
  "noted_ids (x\<lparr>gx_max_open_creation := a\<rparr>) = noted_ids x" "noted_ids (x\<lparr>gx_max_close_creation := a\<rparr>) = noted_ids x"
  "noted_ids (x\<lparr>gx_close_order := t\<rparr>) = noted_ids x"
  by (simp_all add: noted_ids_def)

lemma end_open_order_books:
  assumes "notes_id upd" and "books ids x" and i: "i < length (gx_levels x)" and "gl_close (level x i) = None"
  shows "books ids (end_open_order upd oid i x)
    \<and> (\<forall>j. j \<noteq> i \<longrightarrow> level (end_open_order upd oid i x) j = level x j)
    \<and> length (gx_levels (end_open_order upd oid i x)) = length (gx_levels x)
    \<and> gx_by_state (end_open_order upd oid i x) = gx_by_state x"
proof (cases "has_id oid (gl_open (level x i))")
  case True
  let ?y = "(upd (\<lambda>ids. ids @ [oid]) x)\<lparr>gx_max_open_creation := 0\<rparr>"
  have y: "gx_levels ?y = gx_levels x" "gx_by_state ?y = gx_by_state x" "gx_close_order ?y = gx_close_order x"
    "ex_calls ?y = ex_calls x" "noted_ids ?y = add_mset oid (noted_ids x)"
    using assms(1) by (simp_all add: notes_id_def)
  have "books ids (set_level i (reset_open_order (level x i)) ?y)"
    by (rule books_set_level [OF assms(2) i])
      (use y assms(4) has_id_slot [OF True] in \<open>simp_all add: reset_open_order_def level_ok_def level_ids_def\<close>)
  then show ?thesis using True y by (simp add: end_open_order_def)
qed (use assms in \<open>simp add: end_open_order_def\<close>)

lemma end_close_order_books:
  assumes "notes_id upd" and "books ids x" and i: "i < length (gx_levels x)"
  shows "books ids (end_close_order upd oid i x)
    \<and> (\<forall>j. j \<noteq> i \<longrightarrow> level (end_close_order upd oid i x) j = level x j)
    \<and> length (gx_levels (end_close_order upd oid i x)) = length (gx_levels x)
    \<and> gx_by_state (end_close_order upd oid i x) = gx_by_state x"
proof (cases "has_id oid (gl_close (level x i))")
  case True
  let ?y = "(upd (\<lambda>ids. ids @ [oid]) x)\<lparr>gx_max_close_creation := 0\<rparr>"
  have y: "gx_levels ?y = gx_levels x" "gx_by_state ?y = gx_by_state x" "gx_close_order ?y = gx_close_order x"
    "ex_calls ?y = ex_calls x" "noted_ids ?y = add_mset oid (noted_ids x)"
    using assms(1) by (simp_all add: notes_id_def)
  have "level_ok ids (level x i)" using level_ok_at [OF assms(2) i] .
  then have "books ids (set_level i (reset_close_order (level x i)) ?y)"
    by (intro books_set_level [OF assms(2) i])
      (use y has_id_slot [OF True] in \<open>simp_all add: reset_close_order_def level_ok_def level_ids_def\<close>)
  then show ?thesis using True y by (simp add: end_close_order_def)
qed (use assms in \<open>simp add: end_close_order_def\<close>)

lemma foldl_as_ofold: "foldl (\<lambda>y i. g i y) x is = fst (ofold (\<lambda>i y. (g i y, None)) is x)"
  by (induction "is" arbitrary: x) simp_all

lemma order_ended_books:
  assumes "notes_id upd" and "books ids x" and "names ids env"
  shows "books ids (fst (order_ended upd env oid x))"
proof (cases "update_grid_levels env x")
  case (Pair x1 e)
  have x1: "books ids x1" "sorted_out x1"
    using update_grid_levels_books [OF assms(2,3)] update_grid_levels_sorted_out [of env x] Pair by simp_all
  show ?thesis
  proof (cases "e = None \<and> gx_by_state x1 \<noteq> None")
    case True
    then obtain f where f: "gx_by_state x1 = Some f" by blast
    let ?x2 = "foldl (\<lambda>y i. end_open_order upd oid i y) x1 (f OPEN_ORDER_PLACED)"
    let ?x3 = "foldl (\<lambda>y i. end_close_order upd oid i y) ?x2 (f CLOSE_ORDER_PLACED)"
    have fs: "distinct (f s)" "\<forall>i \<in> set (f s). i < length (gx_levels x1)" for s
      using x1 f by (simp_all add: sorted_out_def books_def)
    have "\<forall>i \<in> set (f OPEN_ORDER_PLACED). gl_close (level x1 i) = None" using x1(2) f by (simp add: sorted_out_def)
    then have x2: "books ids ?x2" "length (gx_levels ?x2) = length (gx_levels x1)"
      using level_loop [where ids = ids and P = "\<lambda>l. gl_close l = None" and f = "\<lambda>i y. (end_open_order upd oid i y, None)" and ks = "f OPEN_ORDER_PLACED" and x = x1]
        end_open_order_books [OF assms(1)] x1(1) fs unfolding foldl_as_ofold by simp_all
    have x3: "books ids ?x3"
      using level_loop [where ids = ids and P = "\<lambda>_. True" and f = "\<lambda>i y. (end_close_order upd oid i y, None)" and ks = "f CLOSE_ORDER_PLACED" and x = "?x2"]
        end_close_order_books [OF assms(1)] x2 fs unfolding foldl_as_ofold by simp
    have "books ids (if has_id oid (gx_close_order ?x3) then (upd (\<lambda>ids. ids @ [oid]) ?x3)\<lparr>gx_close_order := None\<rparr> else ?x3)"
      using x3 assms(1) has_id_slot [of oid "gx_close_order ?x3"]
      by (auto simp: books_def notes_id_def tracked_ids_def)
    then show ?thesis using True Pair f by (simp add: order_ended_def in_state_def Let_def)
  next
    case False
    then have "fst (order_ended upd env oid x) = x1" using Pair by (cases e) (auto simp: order_ended_def in_state_def)
    then show ?thesis using x1(1) by simp
  qed
qed

lemma link_order_simps [simp]:
  "slot_ids (link_order oid a t) = slot_ids t" "has_order t \<Longrightarrow> has_order (link_order oid a t)" "(link_order oid a t = None) = (t = None)"
  "(\<exists>u. link_order oid a t = Some u) = (\<exists>u. t = Some u)"
  by (cases t rule: has_order.cases; simp add: link_order_def has_id_def)+

lemma link_order_linked: "linked ids t \<Longrightarrow> ids a = oid \<Longrightarrow> linked ids (link_order oid a t)"
  by (cases t rule: has_order.cases) (auto simp: link_order_def has_id_def)

lemma tracked_update_books:
  assumes "books ids x" and "names ids env"
  shows "books ids (fst (grid_update_tracked_orders_with_order_id env oid x))"
proof (cases "update_grid_levels env x")
  case (Pair x1 e)
  have x1: "books ids x1" using update_grid_levels_books [OF assms] Pair by simp
  have "books ids (x1\<lparr>gx_levels := map (\<lambda>l. l\<lparr>gl_open := link_order oid a (gl_open l), gl_close := link_order oid a (gl_close l)\<rparr>) (gx_levels x1),
             gx_close_order := link_order oid a (gx_close_order x1)\<rparr>)" if "env_fetch env oid = Some a" for a
  proof -
    have "ids a = oid" using assms(2) that by (simp add: names_def)
    then show ?thesis
      using x1 link_order_linked [of ids _ a oid]
      by (simp add: books_def tracked_ids_def noted_ids_def level_ids_def [abs_def] level_ok_def list_all_iff comp_def)
  qed
  then show ?thesis using x1 Pair
    by (cases e) (auto simp: grid_update_tracked_orders_with_order_id_def get_in_flight_order_def split: option.splits)
qed


section \<open>The invariant\<close>

lemma generated_levels_empty:
  "generate_grid_levels cfg rule price = Inr ls \<Longrightarrow> \<forall>l \<in> set ls. gl_open l = None \<and> gl_close l = None"
  by (auto simp: generate_grid_levels_def Let_def ebind_eq_Inr_iff)

lemma new_grid_books: "new_grid_executor env cfg r = Inr x \<Longrightarrow> books ids x"
proof -
  assume new: "new_grid_executor env cfg r = Inr x"
  then obtain rule where "generate_grid_levels cfg rule (env_price env MidPrice) = Inr (gx_levels x)"
    and x: "gx_by_state x = Some (\<lambda>_. [])" "gx_close_order x = None" "ex_calls x = []" "gx_filled_orders x = []"
      "gx_failed_orders x = []" "gx_canceled_orders x = []"
    by (auto simp: new_grid_executor_def Let_def ebind_eq_Inr_iff split: if_splits)
  then have "\<forall>l \<in> set (gx_levels x). level_ids l = {#} \<and> level_ok ids l"
    using generated_levels_empty by (fastforce simp: level_ids_def level_ok_def)
  moreover have "sum_list (map level_ids ls) = {#}" if "\<forall>l \<in> set ls. level_ids l = {#}" for ls
    using that by (induction ls) simp_all
  ultimately show ?thesis using x by (simp add: books_def tracked_ids_def noted_ids_def list_all_iff)
qed

definition closing :: "grid_executor \<Rightarrow> bool" where
  "closing x \<longleftrightarrow> ex_status x \<notin> {NOT_STARTED, RUNNING}"

named_theorems closing_intros

lemma closing_obind [closing_intros]:
  "closing (fst m) \<Longrightarrow> (\<And>s. closing s \<Longrightarrow> closing (fst (f s))) \<Longrightarrow> closing (fst (obind m f))"
  by (rule obind_fst_inv)

lemma closing_try [closing_intros]: "closing s \<Longrightarrow> (\<And>v. closing (fst (f v))) \<Longrightarrow> closing (fst (try_value s m f))"
  by (cases m) simp_all

lemma closing_if [closing_intros]:
  "(b \<Longrightarrow> closing (fst m)) \<Longrightarrow> (\<not> b \<Longrightarrow> closing (fst n)) \<Longrightarrow> closing (fst (if b then m else n))"
  by simp

lemma closing_same: "same_books x y \<Longrightarrow> closing y = closing x"
  by (simp add: same_books_def closing_def)

lemma recycle_level_status [simp]: "ex_status (fst (recycle_level env i x)) = ex_status x"
  using recycle_level_result [of env i x] by (auto simp: move_level_def)

lemma recycle_levels_status [simp]: "ex_status (fst (recycle_levels env is x)) = ex_status x"
proof (induction env "is" x rule: recycle_levels.induct)
  case (2 env i "is" x)
  then show ?case
    using recycle_level_status [of env i x]
    by (cases "round_trip_filled env (level x i)"; cases "recycle_level env i x"; cases "snd (recycle_level env i x)") auto
qed simp

lemma update_grid_levels_status [simp]: "ex_status (fst (update_grid_levels env x)) = ex_status x"
  by (simp add: update_grid_levels_def Let_def)

lemma order_ended_status: "notes_id upd \<Longrightarrow> ex_status (fst (order_ended upd env oid x)) = ex_status x"
proof -
  assume upd: "notes_id upd"
  have o: "ex_status (end_open_order upd oid i y) = ex_status y" "ex_status (end_close_order upd oid i y) = ex_status y" for i y
    using upd by (auto simp: end_open_order_def end_close_order_def notes_id_def)
  have f: "ex_status (foldl (\<lambda>y i. end_open_order upd oid i y) y is) = ex_status y"
    "ex_status (foldl (\<lambda>y i. end_close_order upd oid i y) y is) = ex_status y" for y "is"
    by (induction "is" arbitrary: y) (simp_all add: o)
  show ?thesis
    using update_grid_levels_status [of env x] upd
    by (cases "update_grid_levels env x"; cases "snd (update_grid_levels env x)"; cases "gx_by_state (fst (update_grid_levels env x))")
      (auto simp: order_ended_def in_state_def Let_def f notes_id_def)
qed

lemma tracked_update_status [simp]: "ex_status (fst (grid_update_tracked_orders_with_order_id env oid x)) = ex_status x"
  using update_grid_levels_status [of env x]
  by (cases "update_grid_levels env x"; cases "snd (update_grid_levels env x)")
    (auto simp: grid_update_tracked_orders_with_order_id_def split: option.split)

lemma write_order_closing [closing_intros]:
  assumes "\<And>f y. ex_status (upd f y) = ex_status y" and "closing x"
  shows "closing (fst (write_order env upd t x))"
  using assms
  by (cases "map_option (tracked env) t"; cases "the (map_option (tracked env) t)"; cases "order_to_json (env_rate env) (the (the (map_option (tracked env) t)))")
    (auto simp: write_order_def closing_def)

lemma write_levels_closing [closing_intros]:
  assumes "\<And>f y. ex_status (upd f y) = ex_status y" and "closing x"
  shows "closing (fst (write_levels env upd slot is x))"
  unfolding write_levels_def using assms(2)
proof (induction "is" arbitrary: x)
  case (Cons i "is")
  show ?case
    unfolding ofold.simps
    by (intro closing_obind write_order_closing assms(1) Cons.prems Cons.IH) (simp add: closing_def)
qed simp

lemma write_open_levels_closing [closing_intros]:
  assumes "\<And>f y. ex_status (upd f y) = ex_status y" and "closing x"
  shows "closing (fst (write_open_levels env upd x))"
  unfolding write_open_levels_def by (intro closing_intros assms)

lemma cancel_open_orders_closing [closing_intros]: "closing x \<Longrightarrow> closing (fst (grid_cancel_open_orders x))"
  using closing_same [OF same_books_cancel_open_orders [OF same_books_refl]] by blast

lemma realized_closing [closing_intros]: "closing x \<Longrightarrow> closing (fst (update_realized_pnl_metrics x))"
  using closing_same [OF same_books_metrics(1) [OF same_books_refl]] by blast

lemma closing_upd: "closing x \<Longrightarrow> ex_status y = ex_status x \<Longrightarrow> closing y"
  by (simp add: closing_def)

lemma grid_place_close_closing [closing_intros]:
  "closing x \<Longrightarrow> closing (fst (grid_place_close_order_and_cancel_open_orders env ct p x))"
  unfolding grid_place_close_order_and_cancel_open_orders_def Let_def
  by (rule closing_obind [OF cancel_open_orders_closing]) (simp_all add: closing_def)

lemma close_order_closing [closing_intros]: "closing x \<Longrightarrow> closing (fst (grid_control_close_order env x))"
proof (cases "gx_close_order x")
  case None
  then show "closing x \<Longrightarrow> ?thesis" by (simp add: grid_control_close_order_def grid_place_close_closing)
next
  case (Some t)
  then show "closing x \<Longrightarrow> ?thesis" by (simp add: grid_control_close_order_def closing_def split: option.split)
qed

lemma executor_stop_closing [closing_intros]: "closing (executor_stop env x)"
  by (simp add: closing_def)

lemma book_close_order_closing [closing_intros]:
  assumes "closing x"
  shows "closing (fst (case gx_close_order x of
      None \<Rightarrow> (x, None)
    | Some t \<Rightarrow> (case tracked env t of
          None \<Rightarrow> (x, None)
        | Some ord \<Rightarrow> obind (write_order env gx_filled_orders_update (Some t) x) (\<lambda>y. (y\<lparr>gx_close_order := None\<rparr>, None)))))"
proof -
  have "closing (fst (obind (write_order env gx_filled_orders_update t x) (\<lambda>y. (y\<lparr>gx_close_order := None\<rparr>, None))))" for t
    by (rule closing_obind [OF write_order_closing [OF _ assms]]) (simp_all add: closing_def)
  then show ?thesis using assms by (simp split: option.split)
qed

lemma shutdown_closing: "closing x \<Longrightarrow> closing (fst (grid_control_shutdown_process env x))"
proof -
  assume "closing x"
  then have x: "closing (x\<lparr>ex_close_timestamp := t\<rparr>)" for t by (simp add: closing_def)
  show ?thesis
    unfolding grid_control_shutdown_process_def Let_def
    by (intro closing_if closing_obind write_open_levels_closing book_close_order_closing realized_closing
        close_order_closing cancel_open_orders_closing x) (simp_all add: closing_def)
qed


lemma closing_shutting_down [simp]: "closing (x\<lparr>ex_status := SHUTTING_DOWN\<rparr>)"
  by (simp add: closing_def)

definition grid_inv :: "(address \<Rightarrow> string) \<Rightarrow> grid_executor \<Rightarrow> bool" where
  "grid_inv ids x \<longleftrightarrow> closing x \<or> books ids x"

lemma grid_inv_obind:
  "grid_inv ids (fst m) \<Longrightarrow> (\<And>s. grid_inv ids s \<Longrightarrow> grid_inv ids (fst (f s))) \<Longrightarrow> grid_inv ids (fst (obind m f))"
  by (rule obind_fst_inv)

lemma executor_core_books [simp]:
  "books ids (x\<lparr>ex_status := a\<rparr>) = books ids x" "books ids (x\<lparr>ex_close_type := b\<rparr>) = books ids x"
  "books ids (x\<lparr>ex_close_timestamp := c\<rparr>) = books ids x" "books ids (x\<lparr>ex_terminated := d\<rparr>) = books ids x"
  "books ids (x\<lparr>ex_registered := d\<rparr>) = books ids x" "books ids (x\<lparr>ex_current_retries := n\<rparr>) = books ids x"
  by (simp_all add: books_def tracked_ids_def noted_ids_def)

lemma executor_stop_books [simp]: "books ids (executor_stop env x) = books ids x" for x :: grid_executor
  by (simp add: executor_stop_def Let_def)

lemma grid_running_inv:
  assumes "books ids x" and "sorted_out x"
  shows "grid_inv ids (fst (grid_running env x))"
proof -
  obtain x1 stopped where c: "control_triple_barrier env x = (x1, stopped)" by fastforce
  then have x1: "same_books x x1" using same_books_barrier [of x env] by simp
  have b: "books ids x1" "sorted_out x1"
    using assms same_books_books [OF x1] sorted_out_same [OF x1] by simp_all
  show ?thesis
  proof (cases stopped)
    case True
    have "books ids (fst (grid_cancel_open_orders x1))"
      using b(1) same_books_after same_books_cancel_open_orders [OF same_books_refl] by blast
    then show ?thesis
      using c True by (cases "grid_cancel_open_orders x1"; cases "snd (grid_cancel_open_orders x1)")
        (auto simp: grid_running_def grid_inv_def)
  next
    case False
    have "books ids (fst (grid_running env x))"
      using c False b place_and_cancel_books [OF b]
      by (cases "get_open_orders_to_create env x1"; cases "get_close_orders_to_create x1";
          cases "get_open_order_ids_to_cancel env x1"; cases "get_close_order_ids_to_cancel env x1")
        (simp_all add: grid_running_def)
    then show ?thesis by (simp add: grid_inv_def)
  qed
qed

lemma grid_control_task_inv:
  assumes "grid_inv ids x" and "names ids env"
  shows "grid_inv ids (fst (grid_control_task env x))"
proof -
  obtain x1 e1 where u: "update_grid_levels env x = (x1, e1)" by fastforce
  obtain x2 e2 where m: "update_metrics env x1 = (x2, e2)" by fastforce
  have s1: "ex_status x1 = ex_status x" "sorted_out x1" using update_grid_levels_status [of env x] update_grid_levels_sorted_out [of env x] u by simp_all
  have s2: "same_books x1 x2" using same_books_update_metrics [of x1 env] m by simp
  have i: "grid_inv ids x1" "grid_inv ids x2" "closing x2 = closing x"
    using assms update_grid_levels_books [OF _ assms(2), of x] u s1 same_books_books [OF s2] closing_same [OF s2]
    by (auto simp: grid_inv_def closing_def)
  have t: "fst (grid_control_task env x) = (if e1 \<noteq> None then x1 else if e2 \<noteq> None then x2
      else if ex_status x2 = RUNNING then fst (grid_running env x2)
      else if ex_status x2 = SHUTTING_DOWN then fst (grid_control_shutdown_process env x2) else x2)"
    using u m by (cases e1; cases e2) (simp_all add: grid_control_task_def)
  show ?thesis
  proof (cases "ex_status x2 = RUNNING")
    case True
    then have "books ids x2" using i(2) by (simp add: grid_inv_def closing_def)
    moreover have "sorted_out x2" using s1(2) sorted_out_same [OF s2] by simp
    ultimately show ?thesis using t i grid_running_inv True by simp
  next
    case False
    have "grid_inv ids (fst (grid_control_shutdown_process env x2))" if "ex_status x2 = SHUTTING_DOWN"
      using that shutdown_closing [of x2] by (simp add: grid_inv_def closing_def)
    then show ?thesis using t i False by simp
  qed
qed

lemma grid_on_start_inv:
  assumes "books ids x"
  shows "grid_inv ids (fst (grid_on_start env x))"
proof -
  have v: "books ids (fst (grid_validate_sufficient_balance env x))"
    unfolding grid_validate_sufficient_balance_def Let_def using assms
    by (cases "dec_div (gc_total_amount_quote (gx_config x)) (env_price env MidPrice)")
      (auto simp: try_value_def split: sum.split)
  have b: "books ids (fst (update_metrics env y))" "books ids (fst (control_triple_barrier env y))" if "books ids y" for y
    using that same_books_after same_books_update_metrics same_books_barrier by blast+
  have c: "closing (fst (update_metrics env y))" "closing (fst (control_triple_barrier env y))" if "closing y" for y
    using that closing_same same_books_update_metrics same_books_barrier by blast+
  show ?thesis
    unfolding grid_on_start_def
    by (rule obind_fst_inv [where P = "grid_inv ids"], use v in \<open>simp add: grid_inv_def\<close>)
      (rule obind_fst_inv [where P = "grid_inv ids"], use b c in \<open>auto simp: grid_inv_def case_prod_beta Let_def\<close>)
qed


lemma grid_step_inv:
  assumes "grid_step (names ids) x y" and "grid_inv ids x"
  shows "grid_inv ids y"
  using assms
proof cases
  case start
  then show ?thesis using assms(2) by (auto simp: executor_start_def Let_def grid_inv_def closing_def)
next
  case (on_start env)
  then show ?thesis using assms(2) grid_on_start_inv by (simp add: grid_inv_def closing_def)
next
  case (task env)
  then show ?thesis using assms(2) grid_control_task_inv by simp
next
  case (retries env)
  then show ?thesis using assms(2) by (auto simp: evaluate_max_retries_def grid_inv_def closing_def)
next
  case (early_stop keep_position)
  then show ?thesis
    using assms(2) same_books_books [OF same_books_cancel_open_orders [OF same_books_refl], of ids x]
      cancel_open_orders_closing [of x]
    by (cases "grid_cancel_open_orders x"; cases "snd (grid_cancel_open_orders x)") (auto simp: grid_early_stop_def grid_inv_def closing_def)
next
  case (linked env oid)
  then show ?thesis using assms(2) tracked_update_books by (auto simp: grid_inv_def closing_def)
next
  case (canceled env oid)
  then show ?thesis
    using assms(2) order_ended_books [OF notes_id_updates(1)] order_ended_status [OF notes_id_updates(1), of env oid x]
    by (auto simp: grid_inv_def closing_def grid_process_order_canceled_event_def)
next
  case (failed env oid)
  then show ?thesis
    using assms(2) order_ended_books [OF notes_id_updates(2)] order_ended_status [OF notes_id_updates(2), of env oid x]
    by (auto simp: grid_inv_def closing_def grid_process_order_failed_event_def)
qed

text \<open>
  C25: Until a grid begins to close, it accounts for every order it ever placed: each is held by one
  level (or is its closing order), or is noted exactly once, as cancelled, as failed or among the
  filled orders of a completed level; and a level that takes its profit knows the order that opened it.
\<close>

theorem grid_accounts_for_every_order:
  assumes "grid_reachable (names ids) env0 cfg max_retries x" and "ex_status x \<in> {NOT_STARTED, RUNNING}"
  shows "mset (placed_ids (ex_calls x)) = tracked_ids x + noted_ids x
    \<and> (\<forall>l \<in> set (gx_levels x). gl_close l \<noteq> None \<longrightarrow> has_order (gl_open l))"
proof -
  have "grid_inv ids x"
    using assms(1)
  proof induction
    case (new x)
    then show ?case using new_grid_books by (simp add: grid_inv_def)
  qed (rule grid_step_inv)
  then show ?thesis using assms(2) by (auto simp: grid_inv_def closing_def books_def list_all_iff level_ok_def)
qed

end
