(* ===== verification/Grid_Safety.thy ===== *)
theory Grid_Safety
  imports Grid_Accounts Executor_Scenario
begin

text \<open>
  The shutdown of a grid, the orders and levels that slip away, the realized profit, and a concrete
  grid on which the theorems are applied.
\<close>

section \<open>The shutdown\<close>

text \<open>Statements that place nothing and keep the configuration.\<close>

definition places_nothing :: "grid_executor \<Rightarrow> grid_executor \<Rightarrow> bool" where
  "places_nothing x y \<longleftrightarrow> filter is_place (ex_calls y) = filter is_place (ex_calls x)
     \<and> gx_config y = gx_config x \<and> gx_rule y = gx_rule x"

named_theorems nothing_intros

lemma places_nothing_refl [simp, nothing_intros]: "places_nothing x x"
  by (simp add: places_nothing_def)

lemma places_nothing_trans: "places_nothing x y \<Longrightarrow> places_nothing y z \<Longrightarrow> places_nothing x z"
  by (simp add: places_nothing_def)

lemma nothing_obind [nothing_intros]:
  "places_nothing x (fst m) \<Longrightarrow> (\<And>s. places_nothing x s \<Longrightarrow> places_nothing x (fst (f s))) \<Longrightarrow> places_nothing x (fst (obind m f))"
  by (rule obind_fst_inv)

lemma nothing_try [nothing_intros]:
  "places_nothing x s \<Longrightarrow> (\<And>v. places_nothing x (fst (f v))) \<Longrightarrow> places_nothing x (fst (try_value s m f))"
  by (cases m) simp_all

lemma nothing_if [nothing_intros]:
  "(b \<Longrightarrow> places_nothing x (fst m)) \<Longrightarrow> (\<not> b \<Longrightarrow> places_nothing x (fst n)) \<Longrightarrow> places_nothing x (fst (if b then m else n))"
  by simp

lemma nothing_recycle: "places_nothing x y \<Longrightarrow> places_nothing x (fst (recycle_levels env is y))"
proof (induction env "is" y rule: recycle_levels.induct)
  case (2 env i "is" y)
  have "places_nothing x (fst (recycle_level env i y))"
    using 2(3) recycle_level_result [of env i y] by (auto simp: places_nothing_def move_level_def)
  then show ?case
    unfolding recycle_levels.simps using 2 by (intro nothing_try nothing_if nothing_obind) auto
qed simp

lemma nothing_update_levels: "places_nothing x (fst (update_grid_levels env x))"
  unfolding update_grid_levels_def Let_def by (rule nothing_recycle) (simp add: places_nothing_def)

lemma nothing_metrics: "places_nothing x y \<Longrightarrow> places_nothing x (fst (update_metrics env y))"
proof -
  assume "places_nothing x y"
  moreover have "places_nothing y (fst (update_metrics env y))"
    unfolding update_metrics_def update_position_metrics_def open_position_metrics_def update_realized_pnl_metrics_def Let_def
    by (intro nothing_intros) (simp_all add: places_nothing_def no_position_def reset_metrics_def)
  ultimately show ?thesis by (rule places_nothing_trans)
qed


lemma recycle_levels_close_order: "gx_close_order (fst (recycle_levels env is x)) = gx_close_order x"
proof (induction env "is" x rule: recycle_levels.induct)
  case (2 env i "is" x)
  have "gx_close_order (fst (recycle_level env i x)) = gx_close_order x"
    using recycle_level_result [of env i x] by (auto simp: move_level_def)
  then show ?case
    using 2 by (cases "round_trip_filled env (level x i)"; cases "recycle_level env i x"; cases "snd (recycle_level env i x)") auto
qed simp

lemma nothing_write_order [nothing_intros]:
  assumes "\<And>f y. places_nothing y (upd f y)" and "places_nothing x y"
  shows "places_nothing x (fst (write_order env upd t y))"
proof -
  have "places_nothing x (upd f y)" for f using assms places_nothing_trans by blast
  then show ?thesis
    using assms(2) unfolding write_order_def by (auto split: option.split intro!: nothing_try)
qed

lemma nothing_write_levels [nothing_intros]:
  assumes "\<And>f y. places_nothing y (upd f y)" and "places_nothing x y"
  shows "places_nothing x (fst (write_levels env upd slot is y))"
  unfolding write_levels_def using assms(2)
proof (induction "is" arbitrary: y)
  case (Cons i "is")
  have "places_nothing x (set_level i l z)" if "places_nothing x z" for l z
    using that by (simp add: places_nothing_def)
  then show ?case
    unfolding ofold.simps by (intro nothing_obind nothing_write_order assms(1) Cons.prems Cons.IH) simp
qed simp

lemma nothing_write_open_levels [nothing_intros]:
  assumes "\<And>f y. places_nothing y (upd f y)" and "places_nothing x y"
  shows "places_nothing x (fst (write_open_levels env upd y))"
  unfolding write_open_levels_def by (intro nothing_intros assms)

lemma nothing_cancel [nothing_intros]: "places_nothing x y \<Longrightarrow> places_nothing x (fst (grid_cancel_open_orders y))"
proof -
  assume xy: "places_nothing x y"
  have "filter is_place (ex_calls (cancel_ids is z)) = filter is_place (ex_calls z) \<and> gx_config (cancel_ids is z) = gx_config z
      \<and> gx_rule (cancel_ids is z) = gx_rule z \<and> ex_status (cancel_ids is z) = ex_status z" for "is" and z :: grid_executor
    unfolding cancel_ids_def by (induction "is" arbitrary: z) (simp_all add: log_call_def)
  then show ?thesis
    using xy unfolding grid_cancel_open_orders_def by (intro nothing_try) (simp_all add: places_nothing_def)
qed

lemma nothing_realized: "places_nothing x y \<Longrightarrow> places_nothing x (fst (update_realized_pnl_metrics y))"
  unfolding update_realized_pnl_metrics_def Let_def
  by (intro nothing_intros) (simp_all add: places_nothing_def reset_metrics_def)

text \<open>What a round of the shutdown places: nothing, or the one order that closes the position.\<close>

definition closes_only :: "grid_executor \<Rightarrow> grid_executor \<Rightarrow> strategy_call list \<Rightarrow> bool" where
  "closes_only x y ps \<longleftrightarrow> ps = [] \<or> (\<exists>oid. ps = [PlaceOrder oid MARKET (grid_close_order_side x) (gx_size_base y) NaN CLOSE]
     \<and> min_order_size (gx_rule x) \<le> gx_size_base y \<and> gx_close_order x = None
     \<and> gx_close_order y = Some \<lparr>to_order_id = oid, to_order = None\<rparr>)"

lemma nothing_closes_only:
  "filter is_place (ex_calls y) = filter is_place (ex_calls x) \<Longrightarrow>
   \<exists>ps. filter is_place (ex_calls y) = filter is_place (ex_calls x) @ ps \<and> closes_only x z ps"
  by (simp add: closes_only_def)

lemma cancel_open_orders_keep:
  "gx_size_base (fst (grid_cancel_open_orders x)) = gx_size_base x \<and> gx_open_liquidity (fst (grid_cancel_open_orders x)) = gx_open_liquidity x
    \<and> gx_close_liquidity (fst (grid_cancel_open_orders x)) = gx_close_liquidity x
    \<and> ex_close_type (fst (grid_cancel_open_orders x)) = ex_close_type x"
proof -
  have "gx_size_base (cancel_ids is z) = gx_size_base z \<and> gx_open_liquidity (cancel_ids is z) = gx_open_liquidity z
      \<and> gx_close_liquidity (cancel_ids is z) = gx_close_liquidity z \<and> ex_close_type (cancel_ids is z) = ex_close_type z"
    for "is" and z :: grid_executor
    unfolding cancel_ids_def by (induction "is" arbitrary: z) (simp_all add: log_call_def)
  then show ?thesis
    unfolding grid_cancel_open_orders_def
    by (intro try_value_inv [of "\<lambda>y. gx_size_base y = gx_size_base x \<and> gx_open_liquidity y = gx_open_liquidity x
      \<and> gx_close_liquidity y = gx_close_liquidity x \<and> ex_close_type y = ex_close_type x"]) simp_all
qed

lemma close_order_keeps:
  "gx_open_liquidity (fst (grid_control_close_order env x)) = gx_open_liquidity x
    \<and> gx_close_liquidity (fst (grid_control_close_order env x)) = gx_close_liquidity x
    \<and> ex_close_type (fst (grid_control_close_order env x)) = ex_close_type x"
proof (cases "gx_close_order x")
  case None
  then show ?thesis
    using cancel_open_orders_keep [of x]
    by (cases "grid_cancel_open_orders x"; cases "snd (grid_cancel_open_orders x)")
      (auto simp: grid_control_close_order_def grid_place_close_order_and_cancel_open_orders_def Let_def place_order_def log_call_def)
qed (auto simp: grid_control_close_order_def split: option.split)

lemma closing_order_only:
  "\<exists>ps. filter is_place (ex_calls (fst (grid_control_close_order env x))) = filter is_place (ex_calls x) @ ps
    \<and> closes_only x (fst (grid_control_close_order env x)) ps"
proof (cases "gx_close_order x")
  case (Some t)
  then show ?thesis by (intro nothing_closes_only) (simp add: grid_control_close_order_def split: option.split)
next
  case None
  obtain x1 e where c: "grid_cancel_open_orders x = (x1, e)" by fastforce
  have "places_nothing x x1" using nothing_cancel [of x x] c by simp
  then show ?thesis
    using c None
    by (cases e) (auto simp: grid_control_close_order_def grid_place_close_order_and_cancel_open_orders_def Let_def
        case_prod_beta closes_only_def places_nothing_def log_call_def grid_close_order_side_def place_order_def)
qed


lemma nothing_book_close_order:
  assumes "places_nothing x y"
  shows "places_nothing x (fst (case gx_close_order y of
      None \<Rightarrow> (y, None)
    | Some t \<Rightarrow> (case tracked env t of
          None \<Rightarrow> (y, None)
        | Some ord \<Rightarrow> obind (write_order env gx_filled_orders_update (Some t) y) (\<lambda>z. (z\<lparr>gx_close_order := None\<rparr>, None)))))"
proof -
  have "places_nothing x (fst (obind (write_order env gx_filled_orders_update t y) (\<lambda>z. (z\<lparr>gx_close_order := None\<rparr>, None))))" for t
    by (rule nothing_obind [OF nothing_write_order [OF _ assms]]) (simp_all add: places_nothing_def)
  then show ?thesis using assms by (auto split: option.split)
qed

definition idle_for_close :: "grid_executor \<Rightarrow> bool" where
  "idle_for_close y \<longleftrightarrow> gx_open_liquidity y = 0 \<and> gx_close_liquidity y = 0 \<and> ex_close_type y \<noteq> Some POSITION_HOLD"

lemma shutdown_process_closes_only:
  "\<exists>ps. filter is_place (ex_calls (fst (grid_control_shutdown_process env x))) = filter is_place (ex_calls x) @ ps
    \<and> closes_only x (fst (grid_control_shutdown_process env x)) ps
    \<and> (ps \<noteq> [] \<longrightarrow> idle_for_close (fst (grid_control_shutdown_process env x)))"
proof (cases "gx_open_liquidity x = 0 \<and> gx_close_liquidity x = 0 \<and> ex_close_type x \<noteq> Some POSITION_HOLD \<and> gx_size_base x \<noteq> 0")
  case True
  let ?x = "x\<lparr>ex_close_timestamp := Some (env_now env)\<rparr>"
  obtain y e where y: "grid_control_close_order env ?x = (y, e)" by fastforce
  obtain ps where ps: "filter is_place (ex_calls y) = filter is_place (ex_calls x) @ ps" "closes_only x y ps"
    using closing_order_only [of env ?x] y by (auto simp: closes_only_def grid_close_order_side_def)
  have "idle_for_close y" using close_order_keeps [of env ?x] y True by (simp add: idle_for_close_def)
  then have "idle_for_close (y\<lparr>ex_current_retries := n\<rparr>)" for n by (simp add: idle_for_close_def)
  moreover have "closes_only x (y\<lparr>ex_current_retries := n\<rparr>) ps" for n using ps(2) by (simp add: closes_only_def)
  moreover have "grid_control_shutdown_process env x =
      obind (y, e) (\<lambda>x1. (x1\<lparr>ex_current_retries := ex_current_retries x1 + 1\<rparr>, None))"
    using True y by (simp add: grid_control_shutdown_process_def Let_def)
  ultimately show ?thesis using ps \<open>idle_for_close y\<close> by (cases e) (auto intro!: exI [of _ ps])
next
  case outer: False
  let ?x = "x\<lparr>ex_close_timestamp := Some (env_now env)\<rparr>"
  have x: "places_nothing x ?x" by (simp add: places_nothing_def)
  have "places_nothing x (fst (grid_control_shutdown_process env x))"
  proof (cases "gx_open_liquidity x = 0 \<and> gx_close_liquidity x = 0")
    case True
    show ?thesis
    proof (cases "ex_close_type x = Some POSITION_HOLD")
      case hold: True
      have "places_nothing x (fst (write_open_levels env ex_held_position_orders_update ?x))"
        by (rule nothing_write_open_levels [OF _ x]) (simp add: places_nothing_def)
      then show ?thesis
        using True hold
        by (cases "write_open_levels env ex_held_position_orders_update ?x"; cases "snd (write_open_levels env ex_held_position_orders_update ?x)")
          (auto simp: grid_control_shutdown_process_def Let_def places_nothing_def executor_stop_def)
    next
      case False
      have w: "places_nothing x (fst (write_open_levels env gx_filled_orders_update ?x))"
        by (rule nothing_write_open_levels [OF _ x]) (simp add: places_nothing_def)
      have stop: "places_nothing x (fst (executor_stop env (y\<lparr>gx_by_state := None\<rparr>), None))" if "places_nothing x y" for y
        using that by (simp add: places_nothing_def executor_stop_def Let_def)
      have "places_nothing x (fst (obind (write_open_levels env gx_filled_orders_update ?x) (\<lambda>x1.
          obind (case gx_close_order x1 of
              None \<Rightarrow> (x1, None)
            | Some t \<Rightarrow> (case tracked env t of
                  None \<Rightarrow> (x1, None)
                | Some ord \<Rightarrow> obind (write_order env gx_filled_orders_update (Some t) x1) (\<lambda>y. (y\<lparr>gx_close_order := None\<rparr>, None)))) (\<lambda>x2.
          obind (update_realized_pnl_metrics x2) (\<lambda>x3. (executor_stop env (x3\<lparr>gx_by_state := None\<rparr>), None))))))"
        by (intro nothing_obind nothing_book_close_order nothing_realized w stop)
      moreover have "gx_size_base x = 0" using outer True False by blast
      ultimately show ?thesis using True False by (simp add: grid_control_shutdown_process_def Let_def)
    qed
  next
    case False
    then have "grid_control_shutdown_process env x = grid_cancel_open_orders ?x"
      by (auto simp: grid_control_shutdown_process_def Let_def)
    then show ?thesis using nothing_cancel [OF x] by simp
  qed
  then show ?thesis by (intro exI [of _ "[]"]) (simp add: places_nothing_def closes_only_def)
qed

text \<open>
  C26: A round of a grid that is shutting down never opens: the orders it places are none, or one market
  order on the closing side for exactly the position it has measured in that round, which is at least
  the exchange's minimum. It places one only when no order is open on either side of the grid, the
  position is not to be held and no closing order is known, and then follows this one: a later round
  may place another only after it has been dropped.
\<close>

theorem grid_shutdown_only_closes:
  assumes "ex_status x = SHUTTING_DOWN" and "y = fst (grid_control_task env x)"
  shows "\<exists>ps. filter is_place (ex_calls y) = filter is_place (ex_calls x) @ ps
    \<and> (ps = [] \<or> (\<exists>oid. ps = [PlaceOrder oid MARKET (grid_close_order_side x) (gx_size_base y) NaN CLOSE]
         \<and> min_order_size (gx_rule x) \<le> gx_size_base y
         \<and> gx_open_liquidity y = 0 \<and> gx_close_liquidity y = 0 \<and> ex_close_type y \<noteq> Some POSITION_HOLD
         \<and> gx_close_order x = None \<and> gx_close_order y = Some \<lparr>to_order_id = oid, to_order = None\<rparr>))"
proof -
  obtain x1 e1 where u: "update_grid_levels env x = (x1, e1)" by fastforce
  obtain x2 e2 where m: "update_metrics env x1 = (x2, e2)" by fastforce
  have n: "places_nothing x x1" "places_nothing x x2"
    using nothing_update_levels [of x env] nothing_metrics [of x x1 env] u m by simp_all
  have s: "ex_status x2 = SHUTTING_DOWN" "gx_close_order x2 = gx_close_order x"
    using update_grid_levels_status [of env x] recycle_levels_close_order same_books_update_metrics [of x1 env] u m assms
    by (auto simp: same_books_def update_grid_levels_def Let_def prod_eq_iff)
  have "closes_only x z ps = closes_only x2 z ps" for z ps
    using n(2) s(2) by (simp add: closes_only_def places_nothing_def grid_close_order_side_def)
  moreover have "y = (if e1 \<noteq> None then x1 else if e2 \<noteq> None then x2 else fst (grid_control_shutdown_process env x2))"
    using u m s(1) by (cases e1; cases e2) (simp_all add: assms(2) grid_control_task_def)
  ultimately have "\<exists>ps. filter is_place (ex_calls y) = filter is_place (ex_calls x) @ ps \<and> closes_only x y ps \<and> (ps \<noteq> [] \<longrightarrow> idle_for_close y)"
    using n shutdown_process_closes_only [of env x2] by (auto simp: places_nothing_def closes_only_def)
  then show ?thesis by (auto simp: closes_only_def idle_for_close_def)
qed


section \<open>What slips away\<close>

lemma no_complete:
  assumes "\<forall>l \<in> set ls. gl_close l = None \<and> (gl_open l = None \<or> (\<exists>t. gl_open l = Some t \<and> \<not> to_is_filled env t))"
    and "s \<notin> {NOT_ACTIVE, OPEN_ORDER_PLACED}"
  shows "states_of (map (level_update_state env) ls) s = []"
proof -
  have "gl_state (level_update_state env l) \<noteq> s" if "l \<in> set ls" for l
    using assms that by (fastforce simp: level_update_state_def)
  then show ?thesis by (auto simp: states_of_def filter_empty_conv)
qed

lemma partly_filled_liquidity:
  assumes "\<forall>l \<in> set (gx_levels x). gl_open l = None \<or> (\<exists>t. gl_open l = Some t \<and> to_executed_amount_base env t \<noteq> 0)"
    and "\<forall>i \<in> set is. i < length (gx_levels x)"
  shows "liquidity env gl_open x is = 0"
proof -
  have "\<not> unfilled env (gl_open (level x i))" if "i \<in> set is" for i
    using assms that by (auto simp: unfilled_def split: option.split) (metis nth_mem option.sel option.simps(3))
  then have "filter (\<lambda>i. unfilled env (gl_open (level x i))) is = []" by (simp add: filter_empty_conv)
  then show ?thesis by (simp add: liquidity_def)
qed

text \<open>
  An opening order that is filled in part does not count as open when the grid shuts down: with no
  other order the executor stops in the next round, without asking to cancel the order, without noting
  what it has filled, and never hears of it again.
\<close>

theorem partly_filled_order_is_abandoned:
  assumes shutting: "ex_status x = SHUTTING_DOWN" and "ex_close_type x \<noteq> Some POSITION_HOLD"
    and none: "gx_close_order x = None" "gx_filled_orders x = []"
    and levels: "\<forall>l \<in> set (gx_levels x). gl_close l = None \<and> (gl_open l = None \<or>
      (\<exists>t ord. gl_open l = Some t \<and> tracked env t = Some ord \<and> \<not> is_filled ord \<and> o_executed_amount_base ord \<noteq> 0))"
  shows "\<exists>y. grid_control_task env x = (y, None) \<and> ex_status y = TERMINATED \<and> \<not> ex_registered y \<and> ex_calls y = ex_calls x
    \<and> map gl_open (gx_levels y) = map gl_open (gx_levels x) \<and> gx_filled_orders y = [] \<and> ex_held_position_orders y = ex_held_position_orders x
    \<and> ex_close_type y = ex_close_type x"
proof -
  let ?ls = "map (level_update_state env) (gx_levels x)"
  let ?x1 = "x\<lparr>gx_levels := ?ls, gx_by_state := Some (states_of ?ls)\<rparr>"
  have l: "\<forall>l \<in> set (gx_levels x). gl_close l = None \<and> (gl_open l = None \<or> (\<exists>t. gl_open l = Some t \<and> \<not> to_is_filled env t))"
    "\<forall>l \<in> set (gx_levels x). gl_open l = None \<or> (\<exists>t. gl_open l = Some t \<and> to_executed_amount_base env t \<noteq> 0)"
    using levels by (fastforce simp: to_is_filled_def to_executed_amount_base_def)+
  note empty = no_complete [OF l(1)]
  have u: "update_grid_levels env x = (?x1, None)"
    using empty [of COMPLETE] by (simp add: update_grid_levels_def Let_def)
  let ?x2 = "?x1\<lparr>gx_mid_price := env_price env MidPrice,
                 gx_open_quote := env_price env (if grid_side x = BUY then BestBid else BestAsk),
                 gx_close_quote := env_price env (if grid_side x = BUY then BestAsk else BestBid)\<rparr>"
  let ?x3 = "reset_metrics ((no_position ?x2)\<lparr>gx_open_liquidity := 0\<rparr>)"
  have "liquidity env gl_open (no_position ?x2) (states_of ?ls OPEN_ORDER_PLACED) = 0"
    by (rule partly_filled_liquidity) (use l(2) in \<open>auto simp: no_position_def\<close>)
  then have "update_position_metrics env ?x2 = ((no_position ?x2)\<lparr>gx_open_liquidity := 0\<rparr>, None)"
    using empty [of OPEN_ORDER_FILLED] empty [of CLOSE_ORDER_PLACED] by (simp add: update_position_metrics_def in_state_def)
  then have m: "update_metrics env ?x1 = (?x3, None)"
    using none by (simp add: update_metrics_def Let_def update_realized_pnl_metrics_def no_position_def)
  let ?x4 = "?x3\<lparr>ex_close_timestamp := Some (env_now env)\<rparr>"
  have w: "write_open_levels env gx_filled_orders_update ?x4 = (?x4, None)"
    using empty [of OPEN_ORDER_FILLED] empty [of CLOSE_ORDER_PLACED]
    by (simp add: write_open_levels_def in_state_def reset_metrics_def no_position_def write_levels_def)
  have "grid_control_shutdown_process env ?x3 = (executor_stop env ((reset_metrics ?x4)\<lparr>gx_by_state := None\<rparr>), None)"
    using assms(2) none w
    by (simp add: grid_control_shutdown_process_def Let_def update_realized_pnl_metrics_def reset_metrics_def no_position_def)
  then have "grid_control_task env x = (executor_stop env ((reset_metrics ?x4)\<lparr>gx_by_state := None\<rparr>), None)"
    using u m shutting by (simp add: grid_control_task_def reset_metrics_def no_position_def)
  moreover have "map gl_open ?ls = map gl_open (gx_levels x)" by simp
  ultimately show ?thesis using none by (simp add: executor_stop_def Let_def reset_metrics_def no_position_def)
qed

text \<open>Every other element, the first included.\<close>

fun every_other :: "'a list \<Rightarrow> 'a list" where
  "every_other [] = []"
| "every_other [x] = [x]"
| "every_other (x # y # xs) = x # every_other xs"

lemma round_trip_update: "round_trip_filled env (level_update_state env' l) = round_trip_filled env l"
  by (simp add: round_trip_filled_def cong: if_cong)

lemma every_other_subset: "set (every_other xs) \<subseteq> set xs"
  by (induction xs rule: every_other.induct) auto

lemma every_other_step: "every_other (x # xs) = x # every_other (drop 1 xs)"
  by (cases xs) simp_all

lemma recycled_levels:
  "recycle_levels env is x = (y, None) \<Longrightarrow> distinct is \<Longrightarrow>
   \<forall>i \<in> set is. i < length (gx_levels x) \<and> round_trip_filled env (level x i) = Inr True \<Longrightarrow>
   gx_levels y = map (\<lambda>i. if i \<in> set (every_other is) then reset_level (level x i) else level x i) [0..<length (gx_levels x)]"
proof (induction env "is" x arbitrary: y rule: recycle_levels.induct)
  case (1 env x)
  then show ?case by (simp add: map_nth)
next
  case (2 env i "is" x)
  obtain z e where z: "recycle_level env i x = (z, e)" by fastforce
  have "e = None" and rest: "recycle_levels env (drop 1 is) z = (y, None)"
    using 2(3,5) z by (cases e; simp)+
  then have gz: "gx_levels z = (gx_levels x)[i := reset_level (level x i)]"
    using recycle_level_result [of env i x] z by (auto simp: move_level_def)
  have i: "i < length (gx_levels x)" "i \<notin> set (drop 1 is)" using 2(4,5) by (auto dest: in_set_dropD)
  have "\<forall>j \<in> set (drop 1 is). j < length (gx_levels z) \<and> round_trip_filled env (level z j) = Inr True"
  proof
    fix j assume "j \<in> set (drop 1 is)"
    then have "j \<in> set is" by (rule in_set_dropD)
    moreover from this have "j \<noteq> i" using 2(4) by auto
    ultimately show "j < length (gx_levels z) \<and> round_trip_filled env (level z j) = Inr True" using 2(5) gz by simp
  qed
  then have y: "gx_levels y = map (\<lambda>j. if j \<in> set (every_other (drop 1 is)) then reset_level (level z j) else level z j) [0..<length (gx_levels z)]"
    using 2(1) [OF _ rest] 2(4) by simp
  show ?case
  proof (rule nth_equalityI)
    fix j assume "j < length (gx_levels y)"
    then have j: "j < length (gx_levels x)" by (simp add: y gz)
    have "i \<notin> set (every_other (drop 1 is))" using i(2) every_other_subset [of "drop 1 is"] by blast
    then have "level y j = (if j \<in> set (every_other (i # is)) then reset_level (level x j) else level x j)"
      using j i(1) by (cases "j = i") (simp_all add: y gz every_other_step)
    then show "level y j = map (\<lambda>j. if j \<in> set (every_other (i # is)) then reset_level (level x j) else level x j) [0..<length (gx_levels x)] ! j"
      using j by simp
  qed (simp add: y gz)
qed

text \<open>
  A round recycles only every other completed level: the loop removes a level from the list it
  runs over and passes over the next one, which stays completed, with both of its orders, although
  its profit is made.
\<close>

theorem every_other_level_is_recycled:
  assumes "update_grid_levels env x = (y, None)"
    and completed_def: "completed = filter (\<lambda>i. gl_state (level_update_state env (level x i)) = COMPLETE) [0..<length (gx_levels x)]"
    and "\<forall>i \<in> set completed. round_trip_filled env (level x i) = Inr True"
  shows "\<forall>i \<in> set completed. gl_close (level y i) = (if i \<in> set (every_other completed) then None else gl_close (level x i))"
proof -
  let ?ls = "map (level_update_state env) (gx_levels x)"
  have d: "states_of ?ls COMPLETE = completed" by (auto simp: states_of_def completed_def intro: filter_cong)
  have "\<forall>i \<in> set (states_of ?ls COMPLETE). i < length ?ls \<and> round_trip_filled env (?ls ! i) = Inr True"
    using assms(3) by (auto simp: d completed_def round_trip_update)
  then have "gx_levels y = map (\<lambda>i. if i \<in> set (every_other completed) then reset_level (?ls ! i) else ?ls ! i) [0..<length (gx_levels x)]"
    using recycled_levels [of env "states_of ?ls COMPLETE" "x\<lparr>gx_levels := ?ls, gx_by_state := Some (states_of ?ls)\<rparr>" y] assms(1)
    unfolding update_grid_levels_def Let_def d by (simp add: d [symmetric])
  then show ?thesis using completed_def by (auto simp: reset_level_def)
qed


text \<open>
  An opening order is sent with the full amount of its level whatever the balance: the budget
  checker adjusts a copy, which is dropped, so an order it has reduced to zero is placed all the same.
\<close>

theorem open_order_ignores_budget:
  assumes "get_open_order_candidate x (level x i) = Inr c" and "check_budget env x c = Inr cs" and "oc_amount (hd cs) = 0"
    and "0 < oc_amount c"
  shows "\<exists>y. adjust_and_place_open_order env i x = (y, None)
    \<and> ex_calls y = ex_calls x @ [PlaceOrder (next_order_id env x) (tb_open_order_type (grid_barriers x))
        (if grid_side x = BUY then BUY else SELL) (gl_amount_quote (level x i) / gx_mid_price x) (Fin (open_entry_price x (level x i))) OPEN]"
proof -
  have c: "oc_amount c = gl_amount_quote (level x i) / gx_mid_price x" "oc_price c = open_entry_price x (level x i)"
    "oc_order_side c = grid_side x"
    using assms(1) by (auto simp: get_open_order_candidate_def ebind_eq_Inr_iff dec_div_eq_Inr_iff grid_candidate_def new_order_candidate_def)
  then show ?thesis
    using assms by (simp add: adjust_and_place_open_order_def case_prod_beta Let_def)
qed

section \<open>Realized profit\<close>

definition quote_fee :: "exec_env \<Rightarrow> in_flight_order \<Rightarrow> decimal" where
  "quote_fee env ord = (case quote_asset ord of Inl e \<Rightarrow> 0 | Inr qa \<Rightarrow> cumulative_fee_paid (env_rate env) ord qa)"

lemma written_order_fields:
  assumes "order_to_json (env_rate env) ord = Inr j"
  shows "json_dec ''executed_amount_quote'' j = Inr (o_executed_amount_quote ord)"
    "json_dec ''cumulative_fee_paid_quote'' j = Inr (quote_fee env ord)"
    "json_at j ''trade_type'' = Inr (JStr (trade_type_name (o_trade_type ord)))"
  using assms
  by (auto simp: order_to_json_def ebind_eq_Inr_iff json_dec_def json_at_def dict_at_def dict_get_def json_decimal_def quote_fee_def)

lemma trade_type_name_eq [simp]: "trade_type_name t = trade_type_name u \<longleftrightarrow> t = u"
  by (cases t; cases u) simp_all

lemma written_orders:
  assumes "emap (order_to_json (env_rate env)) ords = Inr js"
  shows "emap (json_dec ''executed_amount_quote'') (filter (traded t) js) = Inr (map o_executed_amount_quote (filter (\<lambda>r. o_trade_type r = t) ords))"
    "emap (json_dec ''cumulative_fee_paid_quote'') js = Inr (map (quote_fee env) ords)"
  using assms
  by (induction ords arbitrary: js) (auto simp: ebind_eq_Inr_iff traded_def written_order_fields)

text \<open>
  The realized profit is what the filled orders sold for, less what was bought and less their
  fees, where each order was written down once and no fee was taken from the base asset.
\<close>

theorem realized_profit_of_filled_orders:
  assumes "emap (order_to_json (env_rate env)) ords = Inr (gx_filled_orders x)" and "ex_held_position_orders x = []"
    and "\<not> gx_open_fee_in_base x"
  shows "gx_realized_pnl (fst (update_realized_pnl_metrics x)) =
      (\<Sum>r \<leftarrow> filter (\<lambda>r. o_trade_type r = SELL) ords. o_executed_amount_quote r)
      - (\<Sum>r \<leftarrow> filter (\<lambda>r. o_trade_type r = BUY) ords. o_executed_amount_quote r)
      - (\<Sum>r \<leftarrow> ords. quote_fee env r)"
proof (cases "gx_filled_orders x = []")
  case True
  then have "ords = []" using assms(1) by (cases ords) (auto simp: ebind_eq_Inr_iff)
  then show ?thesis using True by (simp add: update_realized_pnl_metrics_def reset_metrics_def)
next
  case False
  then show ?thesis
    using assms(2,3) written_orders [OF assms(1)] by (simp add: update_realized_pnl_metrics_def Let_def)
qed

section \<open>A grid run\<close>

text \<open>Two levels between 18 and 22, on an exchange where SOL trades at 20.\<close>

definition demo_grid_config :: grid_config where
  "demo_grid_config =
     \<lparr>gc_id = ''g1'', gc_timestamp = 1, gc_controller_id = ''main'', gc_connector_name = ''binance'',
      gc_trading_pair = ''SOL-USDC'', gc_start_price = 18, gc_end_price = 22, gc_limit_price = 10, gc_side = BUY,
      gc_total_amount_quote = 100, gc_min_spread_between_orders = 1 / 10, gc_min_order_amount_quote = 20,
      gc_max_open_orders = 5, gc_max_orders_per_batch = Some 1, gc_order_frequency = 0, gc_activation_bounds = None,
      gc_safe_extra_spread = 1 / 10000,
      gc_triple_barrier_config =
        \<lparr>tb_stop_loss = None, tb_take_profit = Some (1 / 100), tb_time_limit = None, tb_trailing_stop = None,
         tb_open_order_type = LIMIT, tb_take_profit_order_type = LIMIT, tb_stop_loss_order_type = MARKET,
         tb_time_limit_order_type = MARKET\<rparr>,
      gc_leverage = 1, gc_deduct_base_fees = False, gc_keep_position = False, gc_coerce_tp_to_step = False\<rparr>"


text \<open>The first order is \<open>c1\<close>, the only one the connector knows.\<close>

definition demo_grid_env :: "in_flight_order \<Rightarrow> exec_env" where
  "demo_grid_env ord =
     (demo_env ord 20)\<lparr>env_fetch := (\<lambda>oid. if oid = ''c1'' then Some 0 else None),
        env_order_id := (\<lambda>n. if n = 0 then ''c1'' else replicate n CHR ''o'')\<rparr>"

definition demo_part :: in_flight_order where
  "demo_part = apply_trade demo_order (demo_trade ''t1'' 1)"

definition demo_grid :: grid_executor where
  "demo_grid = (case new_grid_executor (demo_grid_env demo_part) demo_grid_config 10 of Inr x \<Rightarrow> x)"

definition demo_grid_placed :: grid_executor where
  "demo_grid_placed = fst (grid_control_task (demo_grid_env demo_part) (executor_start demo_grid))"

definition demo_grid_part :: grid_executor where
  "demo_grid_part = fst (grid_update_tracked_orders_with_order_id (demo_grid_env demo_part) ''c1'' demo_grid_placed)"

definition demo_grid_stopping :: grid_executor where
  "demo_grid_stopping = fst (grid_early_stop False demo_grid_part)"



lemma demo_grid_new: "new_grid_executor (demo_grid_env demo_part) demo_grid_config 10 = Inr demo_grid"
proof -
  have "\<exists>x. new_grid_executor (demo_grid_env demo_part) demo_grid_config 10 = Inr x"
  proof (cases "new_grid_executor (demo_grid_env demo_part) demo_grid_config 10")
    case (Inl e)
    moreover have "case_sum (\<lambda>_. False) (\<lambda>_. True) (new_grid_executor (demo_grid_env demo_part) demo_grid_config 10)" by code_simp
    ultimately show ?thesis by simp
  qed simp
  then show ?thesis by (auto simp: demo_grid_def)
qed

lemma new_grid_levels:
  "new_grid_executor env cfg r = Inr x \<Longrightarrow> dict_get (ex_rules (env_exchange env)) (gc_trading_pair cfg) = Some rule \<Longrightarrow>
   generate_grid_levels cfg rule (env_price env MidPrice) = Inr (gx_levels x)"
  by (auto simp: new_grid_executor_def Let_def ebind_eq_Inr_iff dict_at_def split: if_splits)

lemma new_grid_unheld:
  "new_grid_executor env cfg r = Inr x \<Longrightarrow> ex_held_position_orders x = [] \<and> \<not> gx_open_fee_in_base x"
  by (auto simp: new_grid_executor_def Let_def ebind_eq_Inr_iff split: if_splits)

lemma demo_names: "names (\<lambda>_. ''c1'') (demo_grid_env demo_part)"
proof -
  have "o_client_order_id demo_part = ''c1''" by code_simp
  then show ?thesis by (simp add: names_def demo_grid_env_def demo_env_def)
qed

text \<open>What is seen of a state; evaluating its argument once.\<close>

definition demo_view :: "grid_executor \<Rightarrow> runnable_status \<times> close_type option \<times> tracked_order option \<times> json list \<times>
    tracked_order option list \<times> tracked_order option list \<times> string list" where
  "demo_view x = (ex_status x, ex_close_type x, gx_close_order x, gx_filled_orders x, map gl_open (gx_levels x),
     map gl_close (gx_levels x), placed_ids (ex_calls x))"

lemma demo_grid_placed_view:
  "demo_view demo_grid_placed = (RUNNING, None, None, [], [Some \<lparr>to_order_id = ''c1'', to_order = None\<rparr>, None], [None, None], [''c1''])"
  by code_simp

lemma demo_grid_stopping_view:
  "demo_view demo_grid_stopping = (SHUTTING_DOWN, Some EARLY_STOP, None, [],
     [Some \<lparr>to_order_id = ''c1'', to_order = Some 0\<rparr>, None], [None, None], [''c1''])"
  by code_simp

lemma demo_grid_placed_reachable:
  "grid_reachable (names (\<lambda>_. ''c1'')) (demo_grid_env demo_part) demo_grid_config 10 demo_grid_placed"
proof -
  have "\<not> ex_terminated (executor_start demo_grid)" by code_simp
  then show ?thesis
    unfolding demo_grid_placed_def
    by (intro grid_reachable.step [OF grid_reachable.step [OF grid_reachable.new [OF demo_grid_new] grid_step.start] grid_step.task] demo_names)
qed

theorem grid_accounts_for_every_order_witness:
  "mset (placed_ids (ex_calls demo_grid_placed)) = tracked_ids demo_grid_placed + noted_ids demo_grid_placed
    \<and> placed_ids (ex_calls demo_grid_placed) = [''c1'']"
proof
  have "ex_status demo_grid_placed \<in> {NOT_STARTED, RUNNING}" using demo_grid_placed_view by (simp add: demo_view_def)
  then show "mset (placed_ids (ex_calls demo_grid_placed)) = tracked_ids demo_grid_placed + noted_ids demo_grid_placed"
    using grid_accounts_for_every_order [OF demo_grid_placed_reachable] by blast
  show "placed_ids (ex_calls demo_grid_placed) = [''c1'']" using demo_grid_placed_view by (simp add: demo_view_def)
qed

theorem grid_fits_budget_witness:
  "sum_list (map gl_amount_quote (gx_levels demo_grid)) \<le> 100 \<and> length (gx_levels demo_grid) = 2"
proof
  let ?r = "the (dict_get demo_rules ''SOL-USDC'')"
  have "dict_get demo_rules ''SOL-USDC'' = Some ?r" "grid_min_base_amount demo_grid_config ?r 20 = Inr (21 / 20)"
    "0 < min_base_amount_increment ?r" by code_simp+
  moreover from this(1) have "generate_grid_levels demo_grid_config ?r 20 = Inr (gx_levels demo_grid)"
    using new_grid_levels [OF demo_grid_new] by (simp add: demo_grid_env_def demo_env_def demo_exchange_def demo_grid_config_def)
  ultimately show "sum_list (map gl_amount_quote (gx_levels demo_grid)) \<le> 100"
    using grid_fits_budget [of demo_grid_config ?r 20 "gx_levels demo_grid" "21 / 20"] by (simp add: demo_grid_config_def)
  show "length (gx_levels demo_grid) = 2" by code_simp
qed

text \<open>The same grid with steps of a quarter does not exist.\<close>

theorem narrow_grid_raises_witness:
  "new_grid_executor (demo_grid_env demo_part) (demo_grid_config\<lparr>gc_min_spread_between_orders := 1 / 4\<rparr>) 10 = Inl ZeroDivisionError"
proof (rule narrow_grid_raises)
  let ?r = "the (dict_get demo_rules ''SOL-USDC'')" and ?c = "demo_grid_config\<lparr>gc_min_spread_between_orders := 1 / 4\<rparr>"
  show "dict_get (ex_rules (env_exchange (demo_grid_env demo_part))) (gc_trading_pair ?c) = Some ?r"
    by (simp add: demo_grid_env_def demo_env_def demo_exchange_def demo_grid_config_def demo_rules_def dict_get_def)
  show "grid_min_base_amount ?c ?r (env_price (demo_grid_env demo_part) MidPrice) = Inr (21 / 20)" "0 < min_base_amount_increment ?r"
    by code_simp+
qed (simp_all add: demo_grid_config_def demo_grid_env_def demo_env_def)

theorem grid_shutdown_only_closes_witness:
  "\<exists>ps. filter is_place (ex_calls (fst (grid_control_task (demo_grid_env demo_entry) demo_grid_stopping)))
      = filter is_place (ex_calls demo_grid_stopping) @ ps \<and> length ps \<le> 1"
proof -
  have "ex_status demo_grid_stopping = SHUTTING_DOWN" using demo_grid_stopping_view by (simp add: demo_view_def)
  from grid_shutdown_only_closes [OF this refl, of "demo_grid_env demo_entry"] show ?thesis by fastforce
qed

theorem partly_filled_order_is_abandoned_witness:
  "\<exists>y. grid_control_task (demo_grid_env demo_part) demo_grid_stopping = (y, None) \<and> ex_status y = TERMINATED
    \<and> map gl_open (gx_levels y) = [Some \<lparr>to_order_id = ''c1'', to_order = Some 0\<rparr>, None]"
proof -
  note stopping = demo_grid_stopping_view [unfolded demo_view_def prod.inject]
  then have s: "ex_status demo_grid_stopping = SHUTTING_DOWN" "ex_close_type demo_grid_stopping \<noteq> Some POSITION_HOLD"
    "gx_close_order demo_grid_stopping = None" "gx_filled_orders demo_grid_stopping = []" by simp_all
  have o: "map gl_open (gx_levels demo_grid_stopping) = [Some \<lparr>to_order_id = ''c1'', to_order = Some 0\<rparr>, None]"
    "map gl_close (gx_levels demo_grid_stopping) = [None, None]" using stopping by simp_all
  have "\<not> is_filled demo_part" "o_executed_amount_base demo_part \<noteq> 0" by code_simp+
  moreover have "tracked (demo_grid_env demo_part) \<lparr>to_order_id = ''c1'', to_order = Some 0\<rparr> = Some demo_part"
    by (simp add: tracked_def demo_grid_env_def demo_env_def)
  moreover have "gl_close l = None \<and> (gl_open l = None \<or> gl_open l = Some \<lparr>to_order_id = ''c1'', to_order = Some 0\<rparr>)"
    if "l \<in> set (gx_levels demo_grid_stopping)" for l
  proof -
    have "gl_open l \<in> set (map gl_open (gx_levels demo_grid_stopping))" "gl_close l \<in> set (map gl_close (gx_levels demo_grid_stopping))"
      using that by simp_all
    then show ?thesis unfolding o by auto
  qed
  ultimately have "\<forall>l \<in> set (gx_levels demo_grid_stopping). gl_close l = None \<and> (gl_open l = None \<or>
      (\<exists>t ord. gl_open l = Some t \<and> tracked (demo_grid_env demo_part) t = Some ord \<and> \<not> is_filled ord \<and> o_executed_amount_base ord \<noteq> 0))"
    by (metis (no_types, lifting))
  from partly_filled_order_is_abandoned [OF s this] show ?thesis using o(1) by auto
qed

text \<open>Three completed levels, of which the first and the third are recycled.\<close>

definition demo_done_level :: grid_level where
  "demo_done_level = \<lparr>gl_id = 0, gl_price = 18, gl_amount_quote = 60, gl_take_profit = 1 / 100, gl_side = BUY,
     gl_open_order_type = LIMIT, gl_take_profit_order_type = LIMIT, gl_open = Some \<lparr>to_order_id = ''c1'', to_order = Some 0\<rparr>,
     gl_close = Some \<lparr>to_order_id = ''c2'', to_order = Some 0\<rparr>, gl_state = COMPLETE\<rparr>"

definition demo_done :: grid_executor where
  "demo_done = demo_grid\<lparr>gx_levels := [demo_done_level, demo_done_level\<lparr>gl_id := 1\<rparr>, demo_done_level\<lparr>gl_id := 2\<rparr>]\<rparr>"

definition demo_done_view :: "grid_executor \<Rightarrow> py_error option \<times> nat list \<times> bool" where
  "demo_done_view x = (snd (update_grid_levels (demo_grid_env demo_entry) x),
     filter (\<lambda>i. gl_state (level_update_state (demo_grid_env demo_entry) (level x i)) = COMPLETE) [0..<length (gx_levels x)],
     list_all (\<lambda>i. case_sum (\<lambda>_. False) id (round_trip_filled (demo_grid_env demo_entry) (level x i))) [0, 1, 2])"

lemma demo_done_seen: "demo_done_view demo_done = (None, [0, 1, 2], True)"
  by code_simp

theorem every_other_level_is_recycled_witness:
  "\<exists>y. update_grid_levels (demo_grid_env demo_entry) demo_done = (y, None)
    \<and> (\<forall>i \<in> set [0, 1, 2]. gl_close (level y i) = (if i = 1 then gl_close demo_done_level else None))"
proof -
  let ?env = "demo_grid_env demo_entry"
  note seen = demo_done_seen [unfolded demo_done_view_def prod.inject]
  obtain y where y: "update_grid_levels ?env demo_done = (y, None)" using seen by (metis prod.collapse)
  have c: "[0, 1, 2] = filter (\<lambda>i. gl_state (level_update_state ?env (level demo_done i)) = COMPLETE) [0..<length (gx_levels demo_done)]"
    using seen by simp
  have "\<forall>i \<in> set [0, 1, 2]. round_trip_filled ?env (level demo_done i) = Inr True" using seen by (auto split: sum.splits)
  from every_other_level_is_recycled [OF y c this]
  have "\<forall>i \<in> set [0, 1, 2]. gl_close (level y i) = (if i = 1 then gl_close demo_done_level else None)"
    by (simp add: demo_done_def)
  then show ?thesis using y by blast
qed

text \<open>An exchange without a balance: the checker reduces the order to nothing, the executor sends it.\<close>

definition demo_poor_env :: exec_env where
  "demo_poor_env = (demo_grid_env demo_part)\<lparr>env_exchange := (demo_exchange [])\<lparr>ex_get_available_balance := (\<lambda>_. 0)\<rparr>\<rparr>"

definition demo_priced :: grid_executor where
  "demo_priced = fst (update_metrics demo_poor_env (fst (update_grid_levels demo_poor_env demo_grid)))"

definition demo_order_view :: "grid_executor \<Rightarrow> decimal option \<times> decimal option \<times> strategy_call list" where
  "demo_order_view x =
     (case get_open_order_candidate x (level x 0) of
        Inl _ \<Rightarrow> (None, None, [])
      | Inr c \<Rightarrow> (Some (oc_amount c), (case check_budget demo_poor_env x c of Inl _ \<Rightarrow> None | Inr cs \<Rightarrow> Some (oc_amount (hd cs))),
          ex_calls x @ [PlaceOrder (next_order_id demo_poor_env x) (tb_open_order_type (grid_barriers x))
            (if grid_side x = BUY then BUY else SELL) (gl_amount_quote (level x 0) / gx_mid_price x)
            (Fin (open_entry_price x (level x 0))) OPEN]))"

lemma demo_priced_view: "demo_order_view demo_priced = (Some (5 / 2), Some 0, [PlaceOrder ''c1'' LIMIT BUY (5 / 2) (Fin 18) OPEN])"
  by code_simp

theorem open_order_ignores_budget_witness:
  "ex_calls (fst (adjust_and_place_open_order demo_poor_env 0 demo_priced)) = [PlaceOrder ''c1'' LIMIT BUY (5 / 2) (Fin 18) OPEN]"
proof -
  obtain c cs where c: "get_open_order_candidate demo_priced (level demo_priced 0) = Inr c" "check_budget demo_poor_env demo_priced c = Inr cs"
    "oc_amount (hd cs) = 0" "0 < oc_amount c"
    using demo_priced_view by (auto simp: demo_order_view_def split: sum.splits)
  then show ?thesis
    using open_order_ignores_budget [OF c] demo_priced_view by (auto simp: demo_order_view_def)
qed

theorem realized_profit_of_filled_orders_witness:
  "\<exists>js. emap (order_to_json (\<lambda>_. None)) [demo_entry] = Inr js
    \<and> gx_realized_pnl (fst (update_realized_pnl_metrics (demo_grid\<lparr>gx_filled_orders := js\<rparr>)))
      = - o_executed_amount_quote demo_entry - quote_fee (demo_grid_env demo_part) demo_entry"
proof -
  have "\<not> case_sum (\<lambda>_. True) (\<lambda>_. False) (emap (order_to_json (\<lambda>_. None)) [demo_entry])" by code_simp
  then obtain js where js: "emap (order_to_json (\<lambda>_. None)) [demo_entry] = Inr js" by (auto split: sum.splits)
  have "o_trade_type demo_entry = BUY" by code_simp
  moreover have "ex_held_position_orders demo_grid = []" "\<not> gx_open_fee_in_base demo_grid"
    using new_grid_unheld [OF demo_grid_new] by simp_all
  moreover have "env_rate (demo_grid_env demo_part) = (\<lambda>_. None)" by (simp add: demo_grid_env_def demo_env_def)
  ultimately have "gx_realized_pnl (fst (update_realized_pnl_metrics (demo_grid\<lparr>gx_filled_orders := js\<rparr>)))
      = - o_executed_amount_quote demo_entry - quote_fee (demo_grid_env demo_part) demo_entry"
    using realized_profit_of_filled_orders [of "demo_grid_env demo_part" "[demo_entry]" "demo_grid\<lparr>gx_filled_orders := js\<rparr>"] js
    by simp
  then show ?thesis using js by blast
qed

end
