(* ===== verification/Order_Executor.thy ===== *)
theory Order_Executor
  imports Position_Executor
begin

text \<open>
  \<open>strategy_v2/executors/order_executor\<close>: one amount, worked as a market, limit, maker or chasing
  order, renewed until it is filled. Tracked orders pass from the executor to one of its lists and are
  not changed there, so they are values. The configuration is built from enumeration values, whose
  validator asks for the price or the chaser's settings. The sleep of the shutdown comes before the
  check of the retries, which is a step of its own. Display is not modelled.
\<close>

section \<open>Configuration and state\<close>

datatype execution_strategy = LIMIT_ORDER | MAKER_ORDER | MARKET_ORDER | LIMIT_CHASER

record limit_chaser_config =
  ch_distance :: decimal
  ch_refresh_threshold :: decimal

record order_executor_config =
  xc_id :: string
  xc_timestamp :: decimal
  xc_controller_id :: string
  xc_trading_pair :: string
  xc_connector_name :: string
  xc_side :: trade_type
  xc_amount :: decimal
  xc_position_action :: position_action
  xc_price :: "decimal option"
  xc_chaser_config :: "limit_chaser_config option"
  xc_execution_strategy :: execution_strategy
  xc_leverage :: int
  xc_level_id :: "string option"

definition validate_execution_strategy :: "order_executor_config \<Rightarrow> order_executor_config py_result" where
  "validate_execution_strategy cfg =
     (if xc_execution_strategy cfg \<in> set [LIMIT_ORDER, MAKER_ORDER]
      then (if xc_price cfg = None then Inl ValueError else Inr cfg)
      else if xc_execution_strategy cfg = LIMIT_CHASER
      then (if xc_chaser_config cfg = None then Inl ValueError else Inr cfg)
      else Inr cfg)"

record order_executor = executor_core +
  ox_config :: order_executor_config
  ox_order :: "tracked_order option"
  ox_failed_orders :: "tracked_order list"
  ox_canceled_orders :: "tracked_order list"
  ox_partial_filled_orders :: "tracked_order list"

definition new_order_executor :: "order_executor_config \<Rightarrow> int \<Rightarrow> order_executor" where
  "new_order_executor cfg max_retries =
     \<lparr>ex_status = NOT_STARTED, ex_close_type = None, ex_close_timestamp = None,
      ex_max_retries = max_retries, ex_current_retries = 0, ex_held_position_orders = [],
      ex_terminated = False, ex_registered = False, ex_calls = [],
      ox_config = cfg, ox_order = None, ox_failed_orders = [], ox_canceled_orders = [],
      ox_partial_filled_orders = []\<rparr>"

section \<open>Amounts and prices\<close>

definition ox_market_price :: "exec_env \<Rightarrow> order_executor \<Rightarrow> decimal" where
  "ox_market_price env x = env_price env (if xc_side (ox_config x) = BUY then BestBid else BestAsk)"

definition order_amount :: "exec_env \<Rightarrow> tracked_order option \<Rightarrow> decimal" where
  "order_amount env t = (case t of None \<Rightarrow> 0 | Some t' \<Rightarrow> to_executed_amount_base env t')"

definition ox_executed_amount_base :: "exec_env \<Rightarrow> order_executor \<Rightarrow> decimal" where
  "ox_executed_amount_base env x =
     order_amount env (ox_order x) + sum_list (map (to_executed_amount_base env) (ox_partial_filled_orders x))"

definition ox_average_executed_price :: "exec_env \<Rightarrow> order_executor \<Rightarrow> decimal py_result" where
  "ox_average_executed_price env x =
     (let filled = filter (\<lambda>t. to_executed_amount_base env t > 0)
                     ((case ox_order x of None \<Rightarrow> [] | Some t \<Rightarrow> [t]) @ ox_partial_filled_orders x)
      in ebind (emap (\<lambda>t. ebind (to_average_executed_price env t) (\<lambda>p. Inr (to_executed_amount_base env t * p))) filled)
           (\<lambda>values. let total = sum_list (map (to_executed_amount_base env) filled)
                     in Inr (if total > 0 then sum_list values / total else 0)))"

definition ox_filled_amount_quote :: "exec_env \<Rightarrow> order_executor \<Rightarrow> decimal py_result" where
  "ox_filled_amount_quote env x =
     ebind (ox_average_executed_price env x) (\<lambda>p. Inr (ox_executed_amount_base env x * p))"

definition ox_cum_fees_quote :: "exec_env \<Rightarrow> order_executor \<Rightarrow> decimal py_result" where
  "ox_cum_fees_quote env x =
     ebind (emap (to_cum_fees_quote env) ((case ox_order x of None \<Rightarrow> [] | Some t \<Rightarrow> [t]) @ ox_partial_filled_orders x))
       (\<lambda>fees. Inr (sum_list fees))"

definition get_order_type :: "order_executor \<Rightarrow> order_type" where
  "get_order_type x =
     (case xc_execution_strategy (ox_config x) of
        MARKET_ORDER \<Rightarrow> MARKET | MAKER_ORDER \<Rightarrow> LIMIT_MAKER | LIMIT_CHASER \<Rightarrow> LIMIT_MAKER | LIMIT_ORDER \<Rightarrow> LIMIT)"

definition get_order_price :: "exec_env \<Rightarrow> order_executor \<Rightarrow> pdecimal py_result" where
  "get_order_price env x =
     (let cfg = ox_config x; market = ox_market_price env x in
      case xc_execution_strategy cfg of
        MARKET_ORDER \<Rightarrow> Inr NaN
      | LIMIT_CHASER \<Rightarrow>
          (case xc_chaser_config cfg of
             None \<Rightarrow> Inl AttributeError
           | Some ch \<Rightarrow> Inr (Fin (if xc_side cfg = BUY then market * (1 - ch_distance ch) else market * (1 + ch_distance ch))))
      | MAKER_ORDER \<Rightarrow>
          (case xc_price cfg of
             None \<Rightarrow> Inl TypeError
           | Some p \<Rightarrow> Inr (Fin (if xc_side cfg = BUY then min p market else max p market)))
      | LIMIT_ORDER \<Rightarrow> (case xc_price cfg of None \<Rightarrow> Inl TypeError | Some p \<Rightarrow> Inr (Fin p)))"

section \<open>Placing, renewing, cancelling\<close>

definition write_orders :: "exec_env \<Rightarrow> tracked_order list \<Rightarrow> json list py_result" where
  "write_orders env ts =
     emap (\<lambda>t. case tracked env t of None \<Rightarrow> Inl AttributeError | Some ord \<Rightarrow> order_to_json (env_rate env) ord) ts"

definition hold_orders :: "exec_env \<Rightarrow> tracked_order list \<Rightarrow> order_executor \<Rightarrow> order_executor outcome" where
  "hold_orders env ts x =
     try_value x (write_orders env ts) (\<lambda>js. (x\<lparr>ex_held_position_orders := ex_held_position_orders x @ js\<rparr>, None))"

definition stop_as :: "exec_env \<Rightarrow> close_type \<Rightarrow> order_executor \<Rightarrow> order_executor" where
  "stop_as env ct x = executor_stop env (x\<lparr>ex_close_type := Some ct\<rparr>)"

definition ox_place_open_order :: "exec_env \<Rightarrow> order_executor \<Rightarrow> order_executor outcome" where
  "ox_place_open_order env x =
     (let remaining = xc_amount (ox_config x) - ox_executed_amount_base env x in
      if remaining \<le> 0
      then obind (hold_orders env (ox_partial_filled_orders x) x) (\<lambda>x1. (stop_as env POSITION_HOLD x1, None))
      else try_value x (get_order_price env x) (\<lambda>price.
           let (x1, oid) = place_order env (get_order_type x) (xc_side (ox_config x)) remaining price
                             (xc_position_action (ox_config x)) x
           in (x1\<lparr>ox_order := Some \<lparr>to_order_id = oid, to_order = None\<rparr>\<rparr>, None)))"

definition ox_cancel_order :: "exec_env \<Rightarrow> order_executor \<Rightarrow> order_executor" where
  "ox_cancel_order env x =
     (case ox_order x of
        None \<Rightarrow> x
      | Some t \<Rightarrow> if to_is_open env t then log_call (CancelOrder (to_order_id t)) x else x)"

definition renew_order :: "exec_env \<Rightarrow> order_executor \<Rightarrow> order_executor outcome" where
  "renew_order env x = ox_place_open_order env (ox_cancel_order env x)"

definition order_limit_price :: "in_flight_order \<Rightarrow> decimal py_result" where
  "order_limit_price ord =
     (case o_price ord of None \<Rightarrow> Inl TypeError | Some NaN \<Rightarrow> Inl InvalidOperation | Some (Fin p) \<Rightarrow> Inr p)"

definition control_limit_chaser :: "exec_env \<Rightarrow> order_executor \<Rightarrow> order_executor outcome" where
  "control_limit_chaser env x =
     (case ox_order x of
        None \<Rightarrow> (x, None)
      | Some t \<Rightarrow>
          (case tracked env t of
             None \<Rightarrow> (x, None)
           | Some ord \<Rightarrow>
               (if \<not> is_open ord then (x, None)
                else case xc_chaser_config (ox_config x) of
                  None \<Rightarrow> (x, Some AttributeError)
                | Some ch \<Rightarrow>
                    try_value x (order_limit_price ord) (\<lambda>p.
                    let market = ox_market_price env x;
                        away = (if xc_side (ox_config x) = BUY then market - p else p - market)
                    in if away > market * ch_refresh_threshold ch then renew_order env x else (x, None)))))"

definition control_order :: "exec_env \<Rightarrow> order_executor \<Rightarrow> order_executor outcome" where
  "control_order env x =
     (if ox_order x = None then ox_place_open_order env x
      else if xc_execution_strategy (ox_config x) = LIMIT_CHASER then control_limit_chaser env x
      else (x, None))"

section \<open>Control and shutdown\<close>

definition ox_control_shutdown_process :: "exec_env \<Rightarrow> order_executor \<Rightarrow> order_executor outcome" where
  "ox_control_shutdown_process env x =
     (case ox_order x of
        Some t \<Rightarrow>
          (if to_is_open env t then (ox_cancel_order env x, None)
           else if to_is_filled env t
           then (let x0 = x\<lparr>ex_close_type := Some POSITION_HOLD\<rparr> in
                 obind (hold_orders env [t] x0) (\<lambda>x1.
                 obind (hold_orders env (ox_partial_filled_orders x1) x1) (\<lambda>x2. (executor_stop env x2, None))))
           else (x, None))
      | None \<Rightarrow>
          (if ox_partial_filled_orders x \<noteq> []
           then obind (hold_orders env (ox_partial_filled_orders x) x) (\<lambda>x1. (stop_as env POSITION_HOLD x1, None))
           else (stop_as env EARLY_STOP x, None)))"

definition ox_control_task :: "exec_env \<Rightarrow> order_executor \<Rightarrow> order_executor outcome" where
  "ox_control_task env x =
     (if ex_status x = RUNNING then control_order env x
      else if ex_status x = SHUTTING_DOWN then ox_control_shutdown_process env x
      else (x, None))"

definition ox_early_stop :: "order_executor \<Rightarrow> order_executor" where
  "ox_early_stop x = x\<lparr>ex_status := SHUTTING_DOWN\<rparr>"

definition get_price_for_balance_validation :: "exec_env \<Rightarrow> order_executor \<Rightarrow> decimal py_result" where
  "get_price_for_balance_validation env x =
     (if xc_execution_strategy (ox_config x) = MARKET_ORDER then Inr (ox_market_price env x)
      else ebind (get_order_price env x) (\<lambda>p. case p of NaN \<Rightarrow> Inl InvalidOperation | Fin q \<Rightarrow> Inr q))"

definition ox_validate_sufficient_balance :: "exec_env \<Rightarrow> order_executor \<Rightarrow> order_executor outcome" where
  "ox_validate_sufficient_balance env x =
     (let cfg = ox_config x; perp = is_perpetual_connector (xc_connector_name cfg); ot = get_order_type x in
      try_value x (get_price_for_balance_validation env x) (\<lambda>price.
      try_value x (adjust_candidates (if perp then PerpetualChecker else SpotChecker) (env_exchange env) True []
          [new_order_candidate (xc_trading_pair cfg) (is_limit_type ot) ot (xc_side cfg) (xc_amount cfg) price False
             (if perp then Perpetual (of_int (xc_leverage cfg)) False else Spot)]) (\<lambda>(_, cs).
      try_value x (py_nth cs 0) (\<lambda>c.
      if oc_amount c = 0 then (stop_as env INSUFFICIENT_BALANCE x, None) else (x, None)))))"

section \<open>Events\<close>

definition is_current :: "string \<Rightarrow> order_executor \<Rightarrow> bool" where
  "is_current oid x = (case ox_order x of None \<Rightarrow> False | Some t \<Rightarrow> to_order_id t = oid)"

definition ox_update_tracked_order :: "exec_env \<Rightarrow> string \<Rightarrow> order_executor \<Rightarrow> order_executor" where
  "ox_update_tracked_order env oid x =
     (if is_current oid x
      then x\<lparr>ox_order := map_option (\<lambda>t. t\<lparr>to_order := get_in_flight_order env oid\<rparr>) (ox_order x)\<rparr> else x)"

definition ox_process_order_completed_event :: "exec_env \<Rightarrow> string \<Rightarrow> order_executor \<Rightarrow> order_executor outcome" where
  "ox_process_order_completed_event env oid x =
     (let x1 = ox_update_tracked_order env oid x in
      if is_current oid x1
      then obind (hold_orders env [the (ox_order x1)] x1) (\<lambda>x2. (stop_as env POSITION_HOLD x2, None))
      else (x1, None))"

definition ox_process_order_canceled_event :: "exec_env \<Rightarrow> string \<Rightarrow> order_executor \<Rightarrow> order_executor" where
  "ox_process_order_canceled_event env oid x =
     (if is_current oid x
      then (let t = the (ox_order x);
                x1 = (if to_executed_amount_base env t > 0
                      then x\<lparr>ox_partial_filled_orders := ox_partial_filled_orders x @ [t]\<rparr>
                      else x\<lparr>ox_canceled_orders := ox_canceled_orders x @ [t]\<rparr>)
            in x1\<lparr>ox_order := None\<rparr>)
      else x)"

definition ox_process_order_failed_event :: "string \<Rightarrow> order_executor \<Rightarrow> order_executor" where
  "ox_process_order_failed_event oid x =
     (if is_current oid x
      then x\<lparr>ox_failed_orders := ox_failed_orders x @ [the (ox_order x)], ox_order := None,
             ex_current_retries := ex_current_retries x + 1\<rparr>
      else x)"

section \<open>All interleavings\<close>

inductive ox_step :: "order_executor \<Rightarrow> order_executor \<Rightarrow> bool" where
  start: "ox_step x (executor_start x)"
| on_start: "ox_step x (fst (ox_validate_sufficient_balance env x))"
| task: "\<not> ex_terminated x \<Longrightarrow> ox_step x (fst (ox_control_task env x))"
| retries: "ox_step x (evaluate_max_retries env x)"
| early_stop: "ox_step x (ox_early_stop x)"
| updated: "ex_registered x \<Longrightarrow> ox_step x (ox_update_tracked_order env oid x)"
| completed: "ex_registered x \<Longrightarrow> ox_step x (fst (ox_process_order_completed_event env oid x))"
| canceled: "ex_registered x \<Longrightarrow> ox_step x (ox_process_order_canceled_event env oid x)"
| failed: "ex_registered x \<Longrightarrow> ox_step x (ox_process_order_failed_event oid x)"

inductive ox_reachable :: "order_executor_config \<Rightarrow> int \<Rightarrow> order_executor \<Rightarrow> bool" for cfg max_retries where
  new: "ox_reachable cfg max_retries (new_order_executor cfg max_retries)"
| step: "ox_reachable cfg max_retries x \<Longrightarrow> ox_step x y \<Longrightarrow> ox_reachable cfg max_retries y"

end
