(* ===== verification/Order_Safety.thy ===== *)
theory Order_Safety
  imports Order_Executor Executor_Scenario
begin

text \<open>
  The order executor: what it places, which orders it can account for, and what it forgets when it
  renews or completes an order.
\<close>

section \<open>What is placed\<close>

lemma executor_stop_placed [simp]: "ex_calls (stop_as env ct x) = ex_calls x"
  by (simp add: stop_as_def)

lemma hold_orders_fields:
  "ex_calls (fst (hold_orders env ts x)) = ex_calls x" "ox_order (fst (hold_orders env ts x)) = ox_order x"
  "ox_failed_orders (fst (hold_orders env ts x)) = ox_failed_orders x" "ox_canceled_orders (fst (hold_orders env ts x)) = ox_canceled_orders x"
  "ox_partial_filled_orders (fst (hold_orders env ts x)) = ox_partial_filled_orders x"
  "ox_config (fst (hold_orders env ts x)) = ox_config x"
  by (cases "write_orders env ts"; simp add: hold_orders_def)+

text \<open>A step that neither places an order nor moves one.\<close>

definition same_orders :: "order_executor \<Rightarrow> order_executor \<Rightarrow> bool" where
  "same_orders x y \<longleftrightarrow> filter is_place (ex_calls y) = filter is_place (ex_calls x) \<and> placed_ids (ex_calls y) = placed_ids (ex_calls x)
     \<and> ox_config y = ox_config x \<and> ox_order y = ox_order x \<and> ox_failed_orders y = ox_failed_orders x
     \<and> ox_canceled_orders y = ox_canceled_orders x \<and> ox_partial_filled_orders y = ox_partial_filled_orders x"

named_theorems same_orders_intros

lemma same_orders_refl [simp, same_orders_intros]: "same_orders x x"
  by (simp add: same_orders_def)

lemma same_orders_obind [same_orders_intros]:
  "same_orders x (fst m) \<Longrightarrow> (\<And>s. same_orders x s \<Longrightarrow> same_orders x (fst (f s))) \<Longrightarrow> same_orders x (fst (obind m f))"
  by (rule obind_fst_inv)

lemma same_orders_try [same_orders_intros]:
  "same_orders x s \<Longrightarrow> (\<And>v. same_orders x (fst (f v))) \<Longrightarrow> same_orders x (fst (try_value s m f))"
  by (cases m) simp_all

lemma same_orders_if:
  "(b \<Longrightarrow> same_orders x (fst m)) \<Longrightarrow> (\<not> b \<Longrightarrow> same_orders x (fst n)) \<Longrightarrow> same_orders x (fst (if b then m else n))"
  by simp

lemma same_orders_stop [same_orders_intros]:
  "same_orders x y \<Longrightarrow> same_orders x (stop_as env ct y)" "same_orders x y \<Longrightarrow> same_orders x (executor_stop env y)"
  by (simp_all add: same_orders_def stop_as_def executor_stop_def Let_def)

lemma same_orders_hold [same_orders_intros]: "same_orders x y \<Longrightarrow> same_orders x (fst (hold_orders env ts y))"
  by (simp add: same_orders_def hold_orders_fields)

lemma same_orders_cancel [same_orders_intros]: "same_orders x y \<Longrightarrow> same_orders x (ox_cancel_order env y)"
  by (auto simp: same_orders_def ox_cancel_order_def log_call_def split: option.split)

text \<open>The order that \<open>place_open_order\<close> places, for the remainder.\<close>

definition remainder_placed :: "exec_env \<Rightarrow> order_executor \<Rightarrow> order_executor \<Rightarrow> bool" where
  "remainder_placed env x y \<longleftrightarrow> (\<exists>oid price.
     filter is_place (ex_calls y) = filter is_place (ex_calls x) @ [PlaceOrder oid (get_order_type x)
         (if xc_side (ox_config x) = BUY then BUY else SELL) (xc_amount (ox_config x) - ox_executed_amount_base env x) price
         (xc_position_action (ox_config x))]
     \<and> placed_ids (ex_calls y) = placed_ids (ex_calls x) @ [oid]
     \<and> ox_executed_amount_base env x < xc_amount (ox_config x) \<and> get_order_price env x = Inr price
     \<and> ox_order y = Some \<lparr>to_order_id = oid, to_order = None\<rparr> \<and> ox_config y = ox_config x
     \<and> ox_failed_orders y = ox_failed_orders x \<and> ox_canceled_orders y = ox_canceled_orders x
     \<and> ox_partial_filled_orders y = ox_partial_filled_orders x)"

lemma place_open_order_cases:
  "same_orders x (fst (ox_place_open_order env x)) \<or> remainder_placed env x (fst (ox_place_open_order env x))"
proof (cases "xc_amount (ox_config x) - ox_executed_amount_base env x \<le> 0")
  case True
  then show ?thesis by (simp add: ox_place_open_order_def Let_def) (intro disjI1 same_orders_intros; simp add: same_orders_intros)
next
  case False
  then show ?thesis
    by (cases "get_order_price env x")
      (auto simp: ox_place_open_order_def Let_def place_order_def log_call_def remainder_placed_def)
qed

lemma cancel_order_keeps [simp]:
  "ox_order (ox_cancel_order env x) = ox_order x" "ox_config (ox_cancel_order env x) = ox_config x"
  "ox_partial_filled_orders (ox_cancel_order env x) = ox_partial_filled_orders x"
  "ox_executed_amount_base env' (ox_cancel_order env x) = ox_executed_amount_base env' x"
  "get_order_price env' (ox_cancel_order env x) = get_order_price env' x" "get_order_type (ox_cancel_order env x) = get_order_type x"
  "next_order_id env' (ox_cancel_order env x) = next_order_id env' x"
  by (auto simp: ox_cancel_order_def log_call_def ox_executed_amount_base_def get_order_price_def ox_market_price_def
      get_order_type_def next_order_id_def split: option.split)

lemma remainder_after_cancel:
  "remainder_placed env (ox_cancel_order env x) y \<Longrightarrow> remainder_placed env x y"
  using same_orders_cancel [OF same_orders_refl, of x env] by (auto simp: remainder_placed_def same_orders_def)

lemma same_after_cancel: "same_orders (ox_cancel_order env x) y \<Longrightarrow> same_orders x y"
  using same_orders_cancel [OF same_orders_refl, of x env] by (auto simp: same_orders_def)

lemma control_order_cases:
  "same_orders x (fst (control_order env x))
   \<or> remainder_placed env x (fst (control_order env x)) \<and> (ox_order x = None \<or> xc_execution_strategy (ox_config x) = LIMIT_CHASER)"
proof (cases "ox_order x")
  case None
  then show ?thesis using place_open_order_cases [of x env] by (auto simp: control_order_def)
next
  case (Some t)
  have "same_orders x (fst (renew_order env x)) \<or> remainder_placed env x (fst (renew_order env x))"
    using place_open_order_cases [of "ox_cancel_order env x" env] remainder_after_cancel same_after_cancel
    unfolding renew_order_def by blast
  then have "same_orders x (fst (control_limit_chaser env x)) \<or> remainder_placed env x (fst (control_limit_chaser env x))"
    by (auto simp: control_limit_chaser_def Let_def try_value_def split: option.split sum.split)
  then show ?thesis by (auto simp: control_order_def Some)
qed

lemma shutdown_same_orders: "same_orders x (fst (ox_control_shutdown_process env x))"
proof (cases "ox_order x")
  case None
  then show ?thesis
    by (auto simp: ox_control_shutdown_process_def intro!: same_orders_intros)
next
  case (Some t)
  have "same_orders x (x\<lparr>ex_close_type := ct\<rparr>)" for ct by (simp add: same_orders_def)
  then show ?thesis
    by (auto simp: ox_control_shutdown_process_def Some Let_def intro!: same_orders_intros)
qed

text \<open>
  Whatever the executor places in a round is one order on its side for exactly the amount that is
  still missing, a positive one; only while it is running, and while another order is current only
  to chase the price.
\<close>

theorem order_executor_places_remainder:
  "\<exists>ps. filter is_place (ex_calls (fst (ox_control_task env x))) = filter is_place (ex_calls x) @ ps
    \<and> (ps = [] \<or> ex_status x = RUNNING \<and> ox_executed_amount_base env x < xc_amount (ox_config x)
        \<and> (ox_order x = None \<or> xc_execution_strategy (ox_config x) = LIMIT_CHASER)
        \<and> (\<exists>oid price. ps = [PlaceOrder oid (get_order_type x) (if xc_side (ox_config x) = BUY then BUY else SELL)
             (xc_amount (ox_config x) - ox_executed_amount_base env x) price (xc_position_action (ox_config x))]))"
proof (cases "ex_status x = RUNNING")
  case True
  then show ?thesis
    using control_order_cases [of x env] by (auto simp: ox_control_task_def same_orders_def remainder_placed_def)
next
  case False
  then show ?thesis using shutdown_same_orders [of x env] by (auto simp: ox_control_task_def same_orders_def)
qed


section \<open>Accounting for the orders\<close>

definition current_order :: "order_executor \<Rightarrow> tracked_order list" where
  "current_order x = (case ox_order x of None \<Rightarrow> [] | Some t \<Rightarrow> [t])"

definition known_ids :: "order_executor \<Rightarrow> string multiset" where
  "known_ids x = mset (map to_order_id (current_order x @ ox_failed_orders x @ ox_canceled_orders x @ ox_partial_filled_orders x))"

lemma same_orders_account:
  "same_orders x y \<Longrightarrow> mset (placed_ids (ex_calls x)) = known_ids x \<Longrightarrow>
   mset (placed_ids (ex_calls y)) = known_ids y \<and> ox_config y = ox_config x"
  by (simp add: same_orders_def known_ids_def current_order_def)

lemma remainder_account:
  "remainder_placed env x y \<Longrightarrow> ox_order x = None \<Longrightarrow> mset (placed_ids (ex_calls x)) = known_ids x \<Longrightarrow>
   mset (placed_ids (ex_calls y)) = known_ids y \<and> ox_config y = ox_config x"
  by (auto simp: remainder_placed_def known_ids_def current_order_def)

lemma validate_same_orders: "same_orders x (fst (ox_validate_sufficient_balance env x))"
  unfolding ox_validate_sufficient_balance_def Let_def case_prod_beta
  by (intro same_orders_intros same_orders_if) (simp_all add: same_orders_intros)

lemma update_tracked_ids [simp]:
  "known_ids (ox_update_tracked_order env oid x) = known_ids x" "ex_calls (ox_update_tracked_order env oid x) = ex_calls x"
  "ox_config (ox_update_tracked_order env oid x) = ox_config x"
  by (auto simp: ox_update_tracked_order_def known_ids_def current_order_def is_current_def split: option.splits)

lemma completed_same_orders:
  "same_orders (ox_update_tracked_order env oid x) (fst (ox_process_order_completed_event env oid x))"
  by (auto simp: ox_process_order_completed_event_def Let_def intro!: same_orders_intros)

lemma ox_step_accounts:
  assumes "ox_step x y" and "xc_execution_strategy (ox_config x) \<noteq> LIMIT_CHASER"
    and "mset (placed_ids (ex_calls x)) = known_ids x"
  shows "mset (placed_ids (ex_calls y)) = known_ids y \<and> ox_config y = ox_config x"
  using assms(1)
proof cases
  case start
  then show ?thesis using assms(3) by (simp add: executor_start_def Let_def known_ids_def current_order_def)
next
  case (on_start env)
  then show ?thesis using same_orders_account [OF validate_same_orders assms(3)] by simp
next
  case (task env)
  have "same_orders x y \<or> remainder_placed env x y \<and> ox_order x = None"
    using task control_order_cases [of x env] shutdown_same_orders [of x env] assms(2)
    by (auto simp: ox_control_task_def split: if_splits)
  then show ?thesis using same_orders_account remainder_account assms(3) by blast
next
  case (retries env)
  then show ?thesis using assms(3) by (auto simp: evaluate_max_retries_def executor_stop_def Let_def known_ids_def current_order_def)
next
  case early_stop
  then show ?thesis using assms(3) by (simp add: ox_early_stop_def known_ids_def current_order_def)
next
  case (updated env oid)
  then show ?thesis using assms(3) by simp
next
  case (completed env oid)
  then show ?thesis using same_orders_account [OF completed_same_orders, of env oid x] assms(3) by simp
next
  case (canceled env oid)
  then show ?thesis
    using assms(3) by (auto simp: ox_process_order_canceled_event_def Let_def is_current_def known_ids_def current_order_def split: option.splits)
next
  case (failed oid)
  then show ?thesis
    using assms(3) by (auto simp: ox_process_order_failed_event_def is_current_def known_ids_def current_order_def split: option.splits)
qed

text \<open>
  An executor that does not chase the price knows every order it ever placed, in every reachable
  state: each is the current one or is kept once among the failed, cancelled or partly filled ones.
\<close>

theorem order_executor_knows_its_orders:
  assumes "ox_reachable cfg max_retries x" and "xc_execution_strategy cfg \<noteq> LIMIT_CHASER"
  shows "mset (placed_ids (ex_calls x)) = known_ids x"
proof -
  have "mset (placed_ids (ex_calls x)) = known_ids x \<and> ox_config x = cfg"
    using assms(1)
  proof induction
    case new
    show ?case by (simp add: new_order_executor_def known_ids_def current_order_def)
  next
    case (step x y)
    then show ?case using ox_step_accounts [of x y] assms(2) by simp
  qed
  then show ?thesis by simp
qed

section \<open>What is forgotten\<close>

text \<open>
  A chasing executor that renews an order filled in part forgets it. The new order takes the place
  of the old one at once, so what the old one has filled is not counted any more, its events are
  ignored, and the order placed next is too large by that amount.
\<close>

theorem renewed_order_is_forgotten:
  assumes running: "ex_status x = RUNNING" and "ox_order x = Some t" and "tracked env t = Some ord" and "is_open ord"
    and chaser: "xc_execution_strategy (ox_config x) = LIMIT_CHASER" "xc_chaser_config (ox_config x) = Some ch"
    and away: "order_limit_price ord = Inr p" "(if xc_side (ox_config x) = BUY then ox_market_price env x - p else p - ox_market_price env x)
      > ox_market_price env x * ch_refresh_threshold ch"
    and missing: "ox_executed_amount_base env x < xc_amount (ox_config x)" and new: "next_order_id env x \<noteq> to_order_id t"
  shows "\<exists>y. ox_control_task env x = (y, None) \<and> ox_order y = Some \<lparr>to_order_id = next_order_id env x, to_order = None\<rparr>
    \<and> ox_executed_amount_base env y = ox_executed_amount_base env x - o_executed_amount_base ord
    \<and> (\<forall>env'. ox_process_order_canceled_event env' (to_order_id t) y = y
         \<and> ox_process_order_completed_event env' (to_order_id t) y = (y, None)
         \<and> ox_update_tracked_order env' (to_order_id t) y = y)"
proof -
  have "to_is_open env t" using assms(3,4) by (simp add: to_is_open_def)
  then have eq: "ox_control_task env x = ox_place_open_order env (ox_cancel_order env x)"
    using assms by (simp add: ox_control_task_def control_order_def control_limit_chaser_def renew_order_def Let_def)
  obtain price where price: "get_order_price env x = Inr price" using chaser by (simp add: get_order_price_def Let_def)
  let ?z = "ox_cancel_order env x"
  let ?y = "(log_call (PlaceOrder (next_order_id env x) (get_order_type x) (if xc_side (ox_config x) = BUY then BUY else SELL)
      (xc_amount (ox_config x) - ox_executed_amount_base env x) price (xc_position_action (ox_config x))) ?z)
      \<lparr>ox_order := Some \<lparr>to_order_id = next_order_id env x, to_order = None\<rparr>\<rparr>"
  have y: "ox_control_task env x = (?y, None)"
    using missing by (simp add: eq ox_place_open_order_def price place_order_def Let_def)
  have "order_amount env (ox_order x) = o_executed_amount_base ord"
    using assms(2,3) by (simp add: order_amount_def to_executed_amount_base_def)
  moreover have "ox_partial_filled_orders ?y = ox_partial_filled_orders x" by (simp add: log_call_def)
  ultimately have e: "ox_executed_amount_base env ?y = ox_executed_amount_base env x - o_executed_amount_base ord"
    by (simp add: ox_executed_amount_base_def order_amount_def to_executed_amount_base_def tracked_def)
  have n: "\<not> is_current (to_order_id t) ?y" using new by (simp add: is_current_def)
  have u: "ox_update_tracked_order env' (to_order_id t) ?y = ?y" for env' using n unfolding ox_update_tracked_order_def by (simp only: if_False)
  have "ox_process_order_canceled_event env' (to_order_id t) ?y = ?y" for env'
    using n unfolding ox_process_order_canceled_event_def by (simp only: if_False)
  moreover have "ox_process_order_completed_event env' (to_order_id t) ?y = (?y, None)" for env'
    using n unfolding ox_process_order_completed_event_def Let_def u by (simp only: if_False)
  ultimately show ?thesis using y e u by (intro exI [of _ ?y]) simp
qed

text \<open>
  An executor whose current order completes hands over that order only: what its earlier orders,
  cancelled in between, have filled stays in its own list and never enters the position.
\<close>

theorem completed_order_drops_partial_fills:
  assumes "ox_order x = Some t" and "get_in_flight_order env (to_order_id t) = Some a"
    and "order_to_json (env_rate env) (env_orders env a) = Inr j"
  shows "\<exists>y. ox_process_order_completed_event env (to_order_id t) x = (y, None) \<and> ex_status y = TERMINATED
    \<and> ex_close_type y = Some POSITION_HOLD \<and> ex_held_position_orders y = ex_held_position_orders x @ [j]
    \<and> ox_partial_filled_orders y = ox_partial_filled_orders x"
proof -
  have u: "ox_update_tracked_order env (to_order_id t) x = x\<lparr>ox_order := Some (t\<lparr>to_order := Some a\<rparr>)\<rparr>"
    using assms(1,2) by (simp add: ox_update_tracked_order_def is_current_def)
  have w: "write_orders env [t\<lparr>to_order := Some a\<rparr>] = Inr [j]" using assms(3) by (simp add: write_orders_def tracked_def)
  show ?thesis
    by (simp add: ox_process_order_completed_event_def Let_def u is_current_def hold_orders_def w stop_as_def executor_stop_def)
qed

text \<open>
  An order that the executor has placed and the connector does not report keeps the shutdown
  waiting for ever: no round cancels it, counts a retry or ends.
\<close>

theorem unreported_order_waits_forever:
  assumes "ex_status x = SHUTTING_DOWN" and "ox_order x = Some \<lparr>to_order_id = oid, to_order = None\<rparr>"
    and "ex_current_retries x \<le> ex_max_retries x"
  shows "foldl (\<lambda>y env. fst (control_round ox_control_task env y)) x envs = x"
proof -
  have "ox_control_task env x = (x, None)" for env
    using assms(1,2) by (simp add: ox_control_task_def ox_control_shutdown_process_def to_is_open_def to_is_filled_def tracked_def)
  then have "fst (control_round ox_control_task env x) = x" for env
    using assms(3) by (simp add: control_round_def evaluate_max_retries_def)
  then show ?thesis by (induction envs) simp_all
qed

section \<open>A concrete executor\<close>

text \<open>Three SOL, bought with a limit order at 20 or chasing the price.\<close>

definition demo_work_config :: "execution_strategy \<Rightarrow> order_executor_config" where
  "demo_work_config strategy =
     \<lparr>xc_id = ''w1'', xc_timestamp = 1, xc_controller_id = ''main'', xc_trading_pair = ''SOL-USDC'',
      xc_connector_name = ''binance'', xc_side = BUY, xc_amount = 3, xc_position_action = OPEN, xc_price = Some 20,
      xc_chaser_config = Some \<lparr>ch_distance = 1 / 100, ch_refresh_threshold = 2 / 100\<rparr>,
      xc_execution_strategy = strategy, xc_leverage = 1, xc_level_id = None\<rparr>"

definition demo_half :: in_flight_order where
  "demo_half = apply_trade demo_order (demo_trade ''t1'' 1)"

definition demo_work :: "execution_strategy \<Rightarrow> order_executor" where
  "demo_work strategy = fst (ox_control_task (demo_env demo_half 20) (executor_start (new_order_executor (demo_work_config strategy) 10)))"

definition demo_work_part :: "execution_strategy \<Rightarrow> order_executor" where
  "demo_work_part strategy = ox_update_tracked_order (demo_env demo_half 20) ''o'' (demo_work strategy)"

text \<open>The first order is cancelled with one SOL filled, the second one follows.\<close>

definition demo_work_again :: order_executor where
  "demo_work_again = fst (ox_control_task (demo_env demo_half 20)
     (ox_process_order_canceled_event (demo_env demo_half 20) ''o'' (demo_work_part LIMIT_ORDER)))"

definition work_view :: "order_executor \<Rightarrow> runnable_status \<times> tracked_order option \<times> tracked_order list \<times> strategy_call list \<times> json list" where
  "work_view x = (ex_status x, ox_order x, ox_partial_filled_orders x, ex_calls x, ex_held_position_orders x)"

lemma demo_work_part_view:
  "work_view (demo_work_part LIMIT_CHASER) = (RUNNING, Some \<lparr>to_order_id = ''o'', to_order = Some 0\<rparr>, [],
     [PlaceOrder ''o'' LIMIT_MAKER BUY 3 (Fin (198 / 10)) OPEN], [])"
  by code_simp

lemma demo_work_again_view:
  "work_view demo_work_again = (RUNNING, Some \<lparr>to_order_id = ''oo'', to_order = None\<rparr>, [\<lparr>to_order_id = ''o'', to_order = Some 0\<rparr>],
     [PlaceOrder ''o'' LIMIT BUY 3 (Fin 20) OPEN, PlaceOrder ''oo'' LIMIT BUY 2 (Fin 20) OPEN], [])"
  by code_simp

lemma demo_work_again_reachable: "ox_reachable (demo_work_config LIMIT_ORDER) 10 demo_work_again"
proof -
  let ?e = "demo_env demo_half 20" and ?n = "new_order_executor (demo_work_config LIMIT_ORDER) 10"
  have "ox_reachable (demo_work_config LIMIT_ORDER) 10 (executor_start ?n)"
    by (rule ox_reachable.step [OF ox_reachable.new ox_step.start])
  moreover have "\<not> ex_terminated (executor_start ?n)" by code_simp
  ultimately have "ox_reachable (demo_work_config LIMIT_ORDER) 10 (demo_work LIMIT_ORDER)"
    unfolding demo_work_def using ox_reachable.step ox_step.task by blast
  moreover have "ex_registered (demo_work LIMIT_ORDER)" by code_simp
  ultimately have "ox_reachable (demo_work_config LIMIT_ORDER) 10 (demo_work_part LIMIT_ORDER)"
    unfolding demo_work_part_def using ox_reachable.step ox_step.updated by blast
  moreover have "ex_registered (demo_work_part LIMIT_ORDER)" by code_simp
  ultimately have "ox_reachable (demo_work_config LIMIT_ORDER) 10 (ox_process_order_canceled_event ?e ''o'' (demo_work_part LIMIT_ORDER))"
    using ox_reachable.step ox_step.canceled by blast
  moreover have "\<not> ex_terminated (ox_process_order_canceled_event ?e ''o'' (demo_work_part LIMIT_ORDER))" by code_simp
  ultimately show ?thesis unfolding demo_work_again_def using ox_reachable.step ox_step.task by blast
qed

theorem order_executor_knows_its_orders_witness:
  "mset (placed_ids (ex_calls demo_work_again)) = known_ids demo_work_again \<and> placed_ids (ex_calls demo_work_again) = [''o'', ''oo'']"
proof
  show "mset (placed_ids (ex_calls demo_work_again)) = known_ids demo_work_again"
    by (rule order_executor_knows_its_orders [OF demo_work_again_reachable]) (simp add: demo_work_config_def)
  show "placed_ids (ex_calls demo_work_again) = [''o'', ''oo'']"
    using demo_work_again_view by (simp add: work_view_def placed_ids_def)
qed

text \<open>The price rises to 25: the order for 3 is renewed for 2, and after that round nothing is filled.\<close>

theorem renewed_order_is_forgotten_witness:
  "\<exists>y. ox_control_task (demo_env demo_half 25) (demo_work_part LIMIT_CHASER) = (y, None)
    \<and> ox_executed_amount_base (demo_env demo_half 25) y = 0 \<and> ox_executed_amount_base (demo_env demo_half 25) (demo_work_part LIMIT_CHASER) = 1"
proof -
  let ?x = "demo_work_part LIMIT_CHASER" and ?e = "demo_env demo_half 25"
  have v: "ex_status ?x = RUNNING" "ox_order ?x = Some \<lparr>to_order_id = ''o'', to_order = Some 0\<rparr>"
    "ox_partial_filled_orders ?x = []"
    using demo_work_part_view by (simp_all add: work_view_def)
  have c: "ox_config ?x = demo_work_config LIMIT_CHASER" by (simp add: demo_work_part_def ox_update_tracked_order_def demo_work_def) code_simp
  have o: "is_open demo_half" "order_limit_price demo_half = Inr 20" "o_executed_amount_base demo_half = 1" by code_simp+
  have t: "tracked ?e \<lparr>to_order_id = ''o'', to_order = Some 0\<rparr> = Some demo_half" by (simp add: tracked_def demo_env_def)
  have e: "ox_executed_amount_base ?e ?x = 1"
    by (simp add: ox_executed_amount_base_def order_amount_def to_executed_amount_base_def v t o)
  have n: "next_order_id ?e ?x \<noteq> ''o''" by code_simp
  show ?thesis
    using renewed_order_is_forgotten [OF v(1,2) t o(1), of "\<lparr>ch_distance = 1 / 100, ch_refresh_threshold = 2 / 100\<rparr>" 20]
      o e n by (auto simp: c demo_work_config_def ox_market_price_def demo_env_def)
qed

theorem completed_order_drops_partial_fills_witness:
  "\<exists>y. ox_process_order_completed_event (demo_env demo_half 20) ''oo'' demo_work_again = (y, None)
    \<and> length (ex_held_position_orders y) = 1 \<and> ox_partial_filled_orders y = [\<lparr>to_order_id = ''o'', to_order = Some 0\<rparr>]"
proof -
  let ?j = "case order_to_json (\<lambda>_. None) demo_half of Inr j \<Rightarrow> j"
  have v: "ox_order demo_work_again = Some \<lparr>to_order_id = ''oo'', to_order = None\<rparr>" "ex_held_position_orders demo_work_again = []"
    "ox_partial_filled_orders demo_work_again = [\<lparr>to_order_id = ''o'', to_order = Some 0\<rparr>]"
    using demo_work_again_view by (simp_all add: work_view_def)
  have "order_to_json (\<lambda>_. None) demo_half = Inr ?j"
    by code_simp
  then show ?thesis
    using completed_order_drops_partial_fills [OF v(1), of "demo_env demo_half 20" 0 ?j] v
    by (auto simp: get_in_flight_order_def demo_env_def)
qed

theorem unreported_order_waits_forever_witness:
  "foldl (\<lambda>y env. fst (control_round ox_control_task env y)) (ox_early_stop demo_work_again) [demo_env demo_half 20, demo_env demo_half 25]
    = ox_early_stop demo_work_again"
proof (rule unreported_order_waits_forever)
  show "ex_status (ox_early_stop demo_work_again) = SHUTTING_DOWN" by (simp add: ox_early_stop_def)
  show "ox_order (ox_early_stop demo_work_again) = Some \<lparr>to_order_id = ''oo'', to_order = None\<rparr>"
    using demo_work_again_view by (simp add: ox_early_stop_def work_view_def)
  show "ex_current_retries (ox_early_stop demo_work_again) \<le> ex_max_retries (ox_early_stop demo_work_again)" by code_simp
qed

end
