(* ===== verification/TWAP_Executor.thy ===== *)
theory TWAP_Executor
  imports Position_Executor
begin

text \<open>
  \<open>strategy_v2/executors/twap_executor\<close>: an amount spread over orders at fixed intervals, sent as
  market orders or as limit orders that are resubmitted. The plan is the dictionary from the
  timestamps to the orders, in the order the code walks it. A tracked order is a value: one that is
  resubmitted sits in the plan and in the list of the resubmitted ones until its successor replaces it,
  and the connector knows one object for it. An order of this executor has a price, so a price NaN
  raises where the code would carry it on. The sleep of the shutdown is a step of its own.
\<close>

section \<open>Configuration\<close>

datatype twap_mode = MAKER_MODE | TAKER_MODE

record twap_config =
  wc_id :: string
  wc_timestamp :: decimal
  wc_controller_id :: string
  wc_connector_name :: string
  wc_trading_pair :: string
  wc_side :: trade_type
  wc_leverage :: int
  wc_total_amount_quote :: decimal
  wc_total_duration :: int
  wc_order_interval :: int
  wc_mode :: twap_mode
  wc_limit_order_buffer :: "decimal option"
  wc_order_resubmission_time :: "int option"

text \<open>
  The validator sees a buffer only when one is given; of None it reads the mode by subscript, which
  the validation information does not support.
\<close>

definition validate_limit_order_buffer :: "decimal option \<Rightarrow> decimal option py_result" where
  "validate_limit_order_buffer v = (if v = None then Inl TypeError else Inr v)"

definition twap_is_maker :: "twap_config \<Rightarrow> bool" where
  "twap_is_maker cfg = (wc_mode cfg = MAKER_MODE)"

definition number_of_orders :: "twap_config \<Rightarrow> int py_result" where
  "number_of_orders cfg =
     (if wc_order_interval cfg = 0 then Inl ZeroDivisionError
      else Inr (wc_total_duration cfg div wc_order_interval cfg + 1))"

definition order_amount_quote :: "twap_config \<Rightarrow> decimal py_result" where
  "order_amount_quote cfg =
     ebind (number_of_orders cfg) (\<lambda>n. dec_div (wc_total_amount_quote cfg) (of_int n))"

definition twap_order_type :: "twap_config \<Rightarrow> order_type" where
  "twap_order_type cfg = (if twap_is_maker cfg then LIMIT else MARKET)"

section \<open>State and creation\<close>

record twap_executor = executor_core +
  tw_config :: twap_config
  tw_start_timestamp :: decimal
  tw_order_plan :: "(decimal, tracked_order option) dict"
  tw_failed_orders :: "tracked_order list"
  tw_refreshed_orders :: "tracked_order list"

definition create_order_plan :: "twap_config \<Rightarrow> decimal \<Rightarrow> (decimal, tracked_order option) dict py_result" where
  "create_order_plan cfg start =
     ebind (number_of_orders cfg) (\<lambda>n.
     Inr (foldl (\<lambda>plan i. dict_set plan (start + of_nat i * of_int (wc_order_interval cfg)) None) [] [0..<nat n]))"

definition twap_close_execution_by :: "exec_env \<Rightarrow> close_type \<Rightarrow> twap_executor \<Rightarrow> twap_executor" where
  "twap_close_execution_by env ct x =
     executor_stop env (x\<lparr>ex_close_type := Some ct, ex_close_timestamp := Some (env_now env)\<rparr>)"

definition new_twap_executor :: "exec_env \<Rightarrow> twap_config \<Rightarrow> int \<Rightarrow> twap_executor py_result" where
  "new_twap_executor env cfg max_retries =
     ebind (dict_at (ex_rules (env_exchange env)) (wc_trading_pair cfg)) (\<lambda>rule.
     ebind (order_amount_quote cfg) (\<lambda>amount.
     ebind (create_order_plan cfg (env_now env)) (\<lambda>plan.
     let x = \<lparr>ex_status = NOT_STARTED, ex_close_type = None, ex_close_timestamp = None,
              ex_max_retries = max_retries, ex_current_retries = 0, ex_held_position_orders = [],
              ex_terminated = False, ex_registered = False, ex_calls = [],
              tw_config = cfg, tw_start_timestamp = env_now env, tw_order_plan = plan,
              tw_failed_orders = [], tw_refreshed_orders = []\<rparr>
     in Inr (if amount < min_order_size rule then twap_close_execution_by env FAILED_CLOSE x else x))))"

section \<open>What has been executed\<close>

definition planned_orders :: "twap_executor \<Rightarrow> tracked_order list" where
  "planned_orders x = List.map_filter id (dict_values (tw_order_plan x))"

definition get_total_executed_amount :: "exec_env \<Rightarrow> twap_executor \<Rightarrow> decimal" where
  "get_total_executed_amount env x = sum_list (map (to_executed_amount_base env) (planned_orders x))"

definition get_average_executed_price :: "exec_env \<Rightarrow> twap_executor \<Rightarrow> decimal py_result" where
  "get_average_executed_price env x =
     (let total = get_total_executed_amount env x in
      if total = 0 then Inr 0
      else ebind (emap (\<lambda>t. ebind (to_average_executed_price env t) (\<lambda>p. Inr (p * to_executed_amount_base env t)))
                    (planned_orders x))
             (\<lambda>values. dec_div (sum_list values) total))"

definition get_total_executed_amount_quote :: "exec_env \<Rightarrow> twap_executor \<Rightarrow> decimal py_result" where
  "get_total_executed_amount_quote env x =
     ebind (get_average_executed_price env x) (\<lambda>p. Inr (get_total_executed_amount env x * p))"

definition twap_trade_pnl_pct :: "exec_env \<Rightarrow> twap_executor \<Rightarrow> decimal py_result" where
  "twap_trade_pnl_pct env x =
     (let mid = env_price env MidPrice in
      ebind (get_average_executed_price env x) (\<lambda>p.
      if p \<noteq> 0 then dec_div (if wc_side (tw_config x) = BUY then mid - p else p - mid) p else Inr 0))"

definition twap_trade_pnl_quote :: "exec_env \<Rightarrow> twap_executor \<Rightarrow> decimal py_result" where
  "twap_trade_pnl_quote env x =
     ebind (twap_trade_pnl_pct env x) (\<lambda>pct.
     ebind (get_total_executed_amount_quote env x) (\<lambda>q. Inr (pct * q)))"

definition twap_cum_fees_quote :: "exec_env \<Rightarrow> twap_executor \<Rightarrow> decimal py_result" where
  "twap_cum_fees_quote env x =
     ebind (emap (to_cum_fees_quote env) (planned_orders x)) (\<lambda>fees. Inr (sum_list fees))"

definition twap_net_pnl_quote :: "exec_env \<Rightarrow> twap_executor \<Rightarrow> decimal py_result" where
  "twap_net_pnl_quote env x =
     ebind (twap_trade_pnl_quote env x) (\<lambda>pnl. ebind (twap_cum_fees_quote env x) (\<lambda>fees. Inr (pnl - fees)))"

definition twap_net_pnl_pct :: "exec_env \<Rightarrow> twap_executor \<Rightarrow> decimal py_result" where
  "twap_net_pnl_pct env x =
     ebind (get_total_executed_amount_quote env x) (\<lambda>q.
     if q > 0 then ebind (twap_net_pnl_quote env x) (\<lambda>pnl. dec_div pnl q) else Inr 0)"

section \<open>Placing orders\<close>

definition finite_price :: "in_flight_order \<Rightarrow> decimal py_result" where
  "finite_price ord =
     (case o_price ord of None \<Rightarrow> Inl TypeError | Some NaN \<Rightarrow> Inl InvalidOperation | Some (Fin p) \<Rightarrow> Inr p)"

definition orders_open_amount :: "exec_env \<Rightarrow> twap_executor \<Rightarrow> decimal py_result" where
  "orders_open_amount env x =
     ebind (emap (\<lambda>ord. ebind (finite_price ord) (\<lambda>p. Inr (o_amount ord * p)))
       (filter (\<lambda>ord. \<not> is_done ord) (List.map_filter (tracked env) (planned_orders x))))
       (\<lambda>amounts. Inr (sum_list amounts))"

definition next_order_amount :: "exec_env \<Rightarrow> twap_executor \<Rightarrow> decimal py_result" where
  "next_order_amount env x =
     ebind (get_total_executed_amount_quote env x) (\<lambda>executed.
     ebind (orders_open_amount env x) (\<lambda>opened.
     ebind (number_of_orders (tw_config x)) (\<lambda>n.
     ebind (dec_div (wc_total_amount_quote (tw_config x) - executed - opened) (of_int (n - int (length (planned_orders x))))) (\<lambda>each.
     dec_div each (env_price env MidPrice)))))"

definition next_order_price :: "exec_env \<Rightarrow> twap_executor \<Rightarrow> decimal py_result" where
  "next_order_price env x =
     (let price = env_price env MidPrice in
      if twap_is_maker (tw_config x)
      then (case wc_limit_order_buffer (tw_config x) of
              None \<Rightarrow> Inl TypeError
            | Some b \<Rightarrow> Inr (if wc_side (tw_config x) = SELL then price * (1 + b) else price * (1 - b)))
      else Inr price)"

definition twap_create_order :: "exec_env \<Rightarrow> decimal \<Rightarrow> twap_executor \<Rightarrow> twap_executor outcome" where
  "twap_create_order env timestamp x =
     try_value x (next_order_amount env x) (\<lambda>amount.
     try_value x (next_order_price env x) (\<lambda>price.
     let (x1, oid) = place_order env (twap_order_type (tw_config x)) (wc_side (tw_config x)) amount (Fin price) OPEN x
     in (x1\<lparr>tw_order_plan := dict_set (tw_order_plan x1) timestamp (Some \<lparr>to_order_id = oid, to_order = None\<rparr>)\<rparr>, None)))"

text \<open>The loops over the plan: what a round places replaces values of the plan, not its keys.\<close>

definition create_due_order :: "exec_env \<Rightarrow> decimal \<Rightarrow> twap_executor \<Rightarrow> twap_executor outcome" where
  "create_due_order env timestamp x =
     (if env_now env \<ge> timestamp \<and> dict_get (tw_order_plan x) timestamp = Some None
      then twap_create_order env timestamp x else (x, None))"

definition evaluate_create_order :: "exec_env \<Rightarrow> twap_executor \<Rightarrow> twap_executor outcome" where
  "evaluate_create_order env x = ofold (create_due_order env) (dict_keys (tw_order_plan x)) x"

definition refresh_order_condition :: "exec_env \<Rightarrow> twap_executor \<Rightarrow> tracked_order option \<Rightarrow> bool" where
  "refresh_order_condition env x t =
     (case wc_order_resubmission_time (tw_config x) of
        None \<Rightarrow> False
      | Some secs \<Rightarrow> secs \<noteq> 0 \<and>
          (case Option.bind t (tracked env) of
             None \<Rightarrow> False
           | Some ord \<Rightarrow> is_open ord \<and> o_creation_timestamp ord < env_now env - of_int secs))"

definition refresh_order :: "exec_env \<Rightarrow> decimal \<Rightarrow> twap_executor \<Rightarrow> twap_executor outcome" where
  "refresh_order env timestamp x =
     (case dict_get (tw_order_plan x) timestamp of
        Some (Some t) \<Rightarrow>
          (if refresh_order_condition env x (Some t)
           then twap_create_order env timestamp
                  ((log_call (CancelOrder (to_order_id t)) x)\<lparr>tw_refreshed_orders := tw_refreshed_orders x @ [t]\<rparr>)
           else (x, None))
      | _ \<Rightarrow> (x, None))"

definition evaluate_refresh_orders :: "exec_env \<Rightarrow> twap_executor \<Rightarrow> twap_executor outcome" where
  "evaluate_refresh_orders env x =
     (if twap_is_maker (tw_config x) then ofold (refresh_order env) (dict_keys (tw_order_plan x)) x else (x, None))"

section \<open>Control\<close>

definition evaluate_all_orders_created :: "twap_executor \<Rightarrow> bool" where
  "evaluate_all_orders_created x = list_all (\<lambda>t. t \<noteq> None) (dict_values (tw_order_plan x))"

definition evaluate_all_orders_completed :: "exec_env \<Rightarrow> twap_executor \<Rightarrow> twap_executor" where
  "evaluate_all_orders_completed env x =
     (if evaluate_all_orders_created x \<and> list_all is_filled (List.map_filter (tracked env) (planned_orders x))
      then x\<lparr>ex_status := SHUTTING_DOWN\<rparr> else x)"

definition evaluate_all_orders_closed :: "exec_env \<Rightarrow> twap_executor \<Rightarrow> twap_executor" where
  "evaluate_all_orders_closed env x =
     (if list_all (to_is_done env) (tw_refreshed_orders x) \<and> list_all (to_is_done env) (tw_failed_orders x)
      then (twap_close_execution_by env COMPLETED_CLOSE x)\<lparr>ex_status := TERMINATED\<rparr>
      else x\<lparr>ex_current_retries := ex_current_retries x + 1\<rparr>)"

definition twap_control_task :: "exec_env \<Rightarrow> twap_executor \<Rightarrow> twap_executor outcome" where
  "twap_control_task env x =
     (if ex_status x = RUNNING
      then obind (evaluate_create_order env x) (\<lambda>x1.
           obind (evaluate_refresh_orders env x1) (\<lambda>x2.
           (evaluate_all_orders_completed env x2, None)))
      else if ex_status x = SHUTTING_DOWN then (evaluate_all_orders_closed env x, None)
      else (x, None))"

definition twap_evaluate_max_retries :: "exec_env \<Rightarrow> twap_executor \<Rightarrow> twap_executor" where
  "twap_evaluate_max_retries env x =
     (if ex_current_retries x > ex_max_retries x then twap_close_execution_by env FAILED_CLOSE x else x)"

definition twap_control_round :: "exec_env \<Rightarrow> twap_executor \<Rightarrow> twap_executor outcome" where
  "twap_control_round env x =
     (if ex_terminated x then (x, None)
      else obind (twap_control_task env x) (\<lambda>x1. (twap_evaluate_max_retries env x1, None)))"

definition twap_cancel_open_orders :: "exec_env \<Rightarrow> twap_executor \<Rightarrow> twap_executor" where
  "twap_cancel_open_orders env x =
     foldl (\<lambda>s t. log_call (CancelOrder (to_order_id t)) s) x (filter (to_is_open env) (planned_orders x))"

definition twap_early_stop :: "exec_env \<Rightarrow> bool \<Rightarrow> twap_executor \<Rightarrow> twap_executor" where
  "twap_early_stop env keep_position x =
     (let x1 = x\<lparr>ex_close_type := Some (if keep_position then POSITION_HOLD else EARLY_STOP),
                ex_close_timestamp := Some (env_now env)\<rparr>
      in (twap_cancel_open_orders env x1)\<lparr>ex_status := SHUTTING_DOWN\<rparr>)"

definition twap_validate_sufficient_balance :: "exec_env \<Rightarrow> twap_executor \<Rightarrow> twap_executor outcome" where
  "twap_validate_sufficient_balance env x =
     (let cfg = tw_config x; mid = env_price env MidPrice; perp = is_perpetual_connector (wc_connector_name cfg) in
      try_value x (dec_div (wc_total_amount_quote cfg) mid) (\<lambda>amount.
      try_value x (adjust_candidates (if perp then PerpetualChecker else SpotChecker) (env_exchange env) True []
          [new_order_candidate (wc_trading_pair cfg) (twap_is_maker cfg) (twap_order_type cfg) (wc_side cfg) amount mid False
             (if perp then Perpetual (of_int (wc_leverage cfg)) False else Spot)]) (\<lambda>(_, cs).
      try_value x (py_nth cs 0) (\<lambda>c.
      if oc_amount c = 0 then (executor_stop env (x\<lparr>ex_close_type := Some INSUFFICIENT_BALANCE\<rparr>), None) else (x, None)))))"

section \<open>Events\<close>

text \<open>The search reads the id of every value of the plan it passes, also of an empty one.\<close>

fun find_planned :: "string \<Rightarrow> tracked_order option list \<Rightarrow> tracked_order option py_result" where
  "find_planned oid [] = Inr None"
| "find_planned oid (None # ts) = Inl AttributeError"
| "find_planned oid (Some t # ts) = (if to_order_id t = oid then Inr (Some t) else find_planned oid ts)"

definition twap_process_order_failed_event :: "string \<Rightarrow> twap_executor \<Rightarrow> twap_executor outcome" where
  "twap_process_order_failed_event oid x =
     try_value x (find_planned oid (dict_values (tw_order_plan x))) (\<lambda>found.
     case found of
       None \<Rightarrow> (x, None)
     | Some t \<Rightarrow>
         (x\<lparr>tw_failed_orders := tw_failed_orders x @ [t],
            tw_order_plan := map (\<lambda>(timestamp, _). (timestamp, None)) (filter (\<lambda>(_, t'). t' = Some t) (tw_order_plan x)),
            ex_current_retries := ex_current_retries x + 1\<rparr>, None))"

definition twap_link_order :: "string \<Rightarrow> address \<Rightarrow> tracked_order option \<Rightarrow> tracked_order option" where
  "twap_link_order oid a =
     map_option (\<lambda>t. if to_order_id t = oid then t\<lparr>to_order := Some a\<rparr> else t)"

definition twap_update_tracked_orders_with_order_id :: "exec_env \<Rightarrow> string \<Rightarrow> twap_executor \<Rightarrow> twap_executor outcome" where
  "twap_update_tracked_orders_with_order_id env oid x =
     try_value x (find_planned oid (dict_values (tw_order_plan x))) (\<lambda>found.
     case (found, get_in_flight_order env oid) of
       (Some t, Some a) \<Rightarrow>
         (x\<lparr>tw_order_plan := map (\<lambda>(timestamp, t'). (timestamp, twap_link_order oid a t')) (tw_order_plan x)\<rparr>, None)
     | _ \<Rightarrow> (x, None))"

definition twap_process_order_completed_event :: "exec_env \<Rightarrow> string \<Rightarrow> twap_executor \<Rightarrow> twap_executor outcome" where
  "twap_process_order_completed_event env oid x =
     try_value x (find_planned oid (dict_values (tw_order_plan x))) (\<lambda>found.
     (if found = None then x else evaluate_all_orders_completed env x, None))"

section \<open>All interleavings\<close>

inductive twap_step :: "twap_executor \<Rightarrow> twap_executor \<Rightarrow> bool" where
  start: "twap_step x (executor_start x)"
| on_start: "twap_step x (fst (twap_validate_sufficient_balance env x))"
| task: "\<not> ex_terminated x \<Longrightarrow> twap_step x (fst (twap_control_task env x))"
| retries: "twap_step x (twap_evaluate_max_retries env x)"
| early_stop: "twap_step x (twap_early_stop env keep_position x)"
| created: "ex_registered x \<Longrightarrow> twap_step x (fst (twap_update_tracked_orders_with_order_id env oid x))"
| completed: "ex_registered x \<Longrightarrow> twap_step x (fst (twap_process_order_completed_event env oid x))"
| failed: "ex_registered x \<Longrightarrow> twap_step x (fst (twap_process_order_failed_event oid x))"

inductive twap_reachable :: "twap_config \<Rightarrow> int \<Rightarrow> twap_executor \<Rightarrow> bool" for cfg max_retries where
  new: "new_twap_executor env cfg max_retries = Inr x \<Longrightarrow> twap_reachable cfg max_retries x"
| step: "twap_reachable cfg max_retries x \<Longrightarrow> twap_step x y \<Longrightarrow> twap_reachable cfg max_retries y"

end
