(* ===== verification/TWAP_Safety.thy ===== *)
theory TWAP_Safety
  imports TWAP_Executor Executor_Scenario
begin

text \<open>
  The TWAP executor: where it places orders, what it places when the plan is overdue, and the orders
  it loses.
\<close>

section \<open>Where orders are placed\<close>

text \<open>Orders placed in between: all on the executor's side, opening, of its type.\<close>

definition opens_only :: "twap_executor \<Rightarrow> twap_executor \<Rightarrow> bool" where
  "opens_only x y \<longleftrightarrow> tw_config y = tw_config x \<and> (\<exists>ps. filter is_place (ex_calls y) = filter is_place (ex_calls x) @ ps
     \<and> (\<forall>c \<in> set ps. \<exists>oid amount price. c = PlaceOrder oid (twap_order_type (tw_config x))
          (if wc_side (tw_config x) = BUY then BUY else SELL) amount (Fin price) OPEN))"

lemma opens_only_refl [simp]: "opens_only x x"
  by (simp add: opens_only_def)

lemma opens_only_trans: "opens_only x y \<Longrightarrow> opens_only y z \<Longrightarrow> opens_only x z"
  by (auto simp: opens_only_def)

lemma opens_only_obind:
  "opens_only x (fst m) \<Longrightarrow> (\<And>s. opens_only s (fst (f s))) \<Longrightarrow> opens_only x (fst (obind m f))"
  by (rule obind_fst_inv) (auto intro: opens_only_trans)

lemma opens_only_ofold:
  "(\<And>k y. opens_only y (fst (f k y))) \<Longrightarrow> opens_only x (fst (ofold f ks x))"
proof (induction ks arbitrary: x)
  case (Cons k ks)
  then show ?case unfolding ofold.simps by (intro opens_only_obind) simp_all
qed simp

lemma create_order_opens: "opens_only x (fst (twap_create_order env ts x))"
proof (cases "next_order_amount env x")
  case (Inr a)
  then show ?thesis
    by (cases "next_order_price env x") (simp_all add: twap_create_order_def opens_only_def place_order_def log_call_def Let_def)
qed (simp add: twap_create_order_def)

lemma refresh_order_opens: "opens_only x (fst (refresh_order env ts x))"
proof -
  have "opens_only x (fst (twap_create_order env ts ((log_call (CancelOrder oid) x)\<lparr>tw_refreshed_orders := rs\<rparr>)))" for oid rs
    by (rule opens_only_trans [OF _ create_order_opens]) (simp add: opens_only_def log_call_def)
  then show ?thesis by (auto simp: refresh_order_def split: option.split)
qed

lemma cancel_orders_calls:
  "filter is_place (ex_calls (foldl (\<lambda>s t. log_call (CancelOrder (to_order_id t)) s) x ts)) = filter is_place (ex_calls x)
   \<and> tw_config (foldl (\<lambda>s t. log_call (CancelOrder (to_order_id t)) s) x ts) = tw_config x" for x :: twap_executor
  by (induction ts arbitrary: x) (simp_all add: log_call_def)

definition no_new_orders :: "twap_executor \<Rightarrow> twap_executor \<Rightarrow> bool" where
  "no_new_orders x y \<longleftrightarrow> tw_config y = tw_config x \<and> filter is_place (ex_calls y) = filter is_place (ex_calls x)"

lemma validate_no_orders: "no_new_orders x (fst (twap_validate_sufficient_balance env x))"
proof -
  have "\<forall>s. no_new_orders x s \<longrightarrow> no_new_orders x (fst (try_value s m f))"
    if "\<And>v. no_new_orders x (fst (f v))" for m :: "'a py_result" and f
    using that by (cases m) simp_all
  then show ?thesis
    unfolding twap_validate_sufficient_balance_def Let_def case_prod_beta
    by (auto simp: no_new_orders_def try_value_def executor_stop_def Let_def split: sum.split)
qed

text \<open>
  An executor places orders only in a round while it is running: on its side, opening, and of the
  type of its mode. No shutdown, event, early stop or check of its balance places one.
\<close>

theorem twap_opens_while_running:
  assumes "twap_step x y" and "filter is_place (ex_calls y) \<noteq> filter is_place (ex_calls x)"
  shows "ex_status x = RUNNING \<and> (\<exists>ps. filter is_place (ex_calls y) = filter is_place (ex_calls x) @ ps
    \<and> (\<forall>c \<in> set ps. \<exists>oid amount price. c = PlaceOrder oid (twap_order_type (tw_config x))
          (if wc_side (tw_config x) = BUY then BUY else SELL) amount (Fin price) OPEN))"
  using assms(1)
proof cases
  case (task env)
  have "fst (twap_control_task env x) = x \<or> fst (twap_control_task env x) = evaluate_all_orders_closed env x" if "ex_status x \<noteq> RUNNING"
    using that by (simp add: twap_control_task_def)
  moreover have "ex_calls (evaluate_all_orders_closed env x) = ex_calls x"
    by (simp add: evaluate_all_orders_closed_def twap_close_execution_by_def)
  ultimately have running: "ex_status x = RUNNING" using task(1) assms(2) by metis
  have create: "opens_only y (fst (evaluate_create_order env y))" for y
    unfolding evaluate_create_order_def by (rule opens_only_ofold) (simp add: create_due_order_def create_order_opens)
  have refresh: "opens_only y (fst (evaluate_refresh_orders env y))" for y
    unfolding evaluate_refresh_orders_def by (simp add: opens_only_ofold refresh_order_opens)
  have completed: "opens_only y (evaluate_all_orders_completed env y)" for y
    by (simp add: evaluate_all_orders_completed_def opens_only_def)
  have "opens_only x (fst (obind (evaluate_create_order env x) (\<lambda>x1. obind (evaluate_refresh_orders env x1) (\<lambda>x2.
      (evaluate_all_orders_completed env x2, None)))))"
    using completed by (intro opens_only_obind create refresh) simp
  then have "opens_only x y" using task(1) running by (simp add: twap_control_task_def)
  then show ?thesis using running by (simp add: opens_only_def)
next
  case (failed oid)
  then have "ex_calls y = ex_calls x"
    by (cases "find_planned oid (dict_values (tw_order_plan x))") (auto simp: twap_process_order_failed_event_def split: option.splits)
  then show ?thesis using assms(2) by simp
next
  case (created env oid)
  then have "ex_calls y = ex_calls x"
    by (cases "find_planned oid (dict_values (tw_order_plan x))")
      (auto simp: twap_update_tracked_orders_with_order_id_def split: option.splits)
  then show ?thesis using assms(2) by simp
next
  case (completed env oid)
  then have "ex_calls y = ex_calls x"
    by (cases "find_planned oid (dict_values (tw_order_plan x))")
      (auto simp: twap_process_order_completed_event_def evaluate_all_orders_completed_def)
  then show ?thesis using assms(2) by simp
next
  case (early_stop env k)
  then show ?thesis using assms(2) by (simp add: twap_early_stop_def Let_def twap_cancel_open_orders_def cancel_orders_calls)
next
  case (on_start env)
  then show ?thesis using assms(2) validate_no_orders [of x env] by (simp add: no_new_orders_def)
qed (use assms(2) in \<open>simp_all add: executor_start_def twap_evaluate_max_retries_def twap_close_execution_by_def Let_def split: if_splits\<close>)

section \<open>An overdue plan\<close>

fun placed_amount :: "strategy_call \<Rightarrow> decimal option" where
  "placed_amount (PlaceOrder oid ot sd amount price action) = Some amount"
| "placed_amount _ = None"

definition placed_amounts :: "strategy_call list \<Rightarrow> decimal list" where
  "placed_amounts cs = List.map_filter placed_amount cs"

lemma placed_amounts_simps [simp]:
  "placed_amounts [] = []" "placed_amounts (cs @ ds) = placed_amounts cs @ placed_amounts ds"
  "placed_amounts [PlaceOrder oid ot sd amount price action] = [amount]"
  by (simp_all add: placed_amounts_def List.map_filter_def)

text \<open>Slots whose orders the connector has not reported.\<close>

definition unreported :: "(decimal \<times> tracked_order option) list \<Rightarrow> bool" where
  "unreported d \<longleftrightarrow> list_all (\<lambda>(_, t). \<exists>oid. t = Some \<lparr>to_order_id = oid, to_order = None\<rparr>) d"

definition empty_slots :: "decimal list \<Rightarrow> (decimal \<times> tracked_order option) list" where
  "empty_slots ks = map (\<lambda>k. (k, None)) ks"

lemma planned_unreported:
  assumes "tw_order_plan x = d @ empty_slots ks" and "unreported d"
  shows "length (planned_orders x) = length d" "t \<in> set (planned_orders x) \<Longrightarrow> to_order t = None"
proof -
  have "List.map_filter id (map snd (empty_slots ks)) = []" by (induction ks) (simp_all add: empty_slots_def List.map_filter_def)
  then have p: "planned_orders x = List.map_filter id (map snd d)"
    using assms(1) by (simp add: planned_orders_def dict_values_def List.map_filter_def)
  show "length (planned_orders x) = length d"
    using assms(2) unfolding p unreported_def by (induction d) (auto simp: List.map_filter_def)
  assume "t \<in> set (planned_orders x)"
  then have "Some t \<in> snd ` set d" by (force simp: p List.map_filter_def)
  then show "to_order t = None" using assms(2) by (auto simp: unreported_def list_all_iff)
qed

lemma sum_list_zero: "(\<And>t. t \<in> set ts \<Longrightarrow> f t = (0 :: decimal)) \<Longrightarrow> sum_list (map f ts) = 0"
  by (induction ts) auto

lemma unreported_amount:
  assumes "tw_order_plan x = d @ empty_slots ks" and "unreported d" and "ks \<noteq> []"
    and "number_of_orders (tw_config x) = Inr (int (length d + length ks))" and "env_price env MidPrice \<noteq> 0"
  shows "next_order_amount env x = Inr (wc_total_amount_quote (tw_config x) / of_nat (length ks) / env_price env MidPrice)"
proof -
  have n: "tracked env t = None" if "t \<in> set (planned_orders x)" for t
    using planned_unreported(2) [OF assms(1,2) that] by (simp add: tracked_def)
  have "get_total_executed_amount env x = 0"
    unfolding get_total_executed_amount_def by (rule sum_list_zero) (simp add: to_executed_amount_base_def n)
  then have "get_total_executed_amount_quote env x = Inr 0"
    by (simp add: get_total_executed_amount_quote_def get_average_executed_price_def)
  moreover have "List.map_filter (tracked env) (planned_orders x) = []"
    using n by (simp add: List.map_filter_def filter_empty_conv)
  then have "orders_open_amount env x = Inr 0" by (simp add: orders_open_amount_def)
  moreover have "of_int (int (length d + length ks) - int (length (planned_orders x))) = (of_nat (length ks) :: decimal)"
    using planned_unreported(1) [OF assms(1,2)] by simp
  ultimately show ?thesis using assms(3-5) by (simp add: next_order_amount_def)
qed

lemma dict_set_present: "k \<notin> set (map fst d) \<Longrightarrow> dict_set (d @ (k, u) # e) k v = d @ (k, v) # e"
  by (induction d) (auto simp: dict_set_def)

lemma create_overdue:
  assumes "tw_order_plan x = d @ empty_slots ks" and "unreported d" and "distinct (map fst d @ ks)"
    and "number_of_orders (tw_config x) = Inr (int (length d + length ks))" and "env_price env MidPrice \<noteq> 0"
    and "\<forall>k \<in> set ks. k \<le> env_now env" and "\<not> twap_is_maker (tw_config x)"
  shows "\<exists>y d'. ofold (create_due_order env) ks x = (y, None) \<and> tw_order_plan y = d' \<and> unreported d' \<and> tw_config y = tw_config x
    \<and> ex_status y = ex_status x \<and> tw_refreshed_orders y = tw_refreshed_orders x \<and> tw_failed_orders y = tw_failed_orders x
    \<and> placed_amounts (ex_calls y) = placed_amounts (ex_calls x)
        @ map (\<lambda>k. wc_total_amount_quote (tw_config x) / of_nat k / env_price env MidPrice) (rev [1..<Suc (length ks)])"
  using assms
proof (induction ks arbitrary: x d)
  case (Cons k ks)
  let ?a = "wc_total_amount_quote (tw_config x) / of_nat (length (k # ks)) / env_price env MidPrice"
  let ?oid = "next_order_id env x" and ?side = "if wc_side (tw_config x) = BUY then BUY else SELL"
  let ?y = "(log_call (PlaceOrder ?oid (twap_order_type (tw_config x)) ?side ?a (Fin (env_price env MidPrice)) OPEN) x)
    \<lparr>tw_order_plan := d @ (k, Some \<lparr>to_order_id = ?oid, to_order = None\<rparr>) # empty_slots ks\<rparr>"
  have new: "k \<notin> set (map fst d)" using Cons.prems(3) by simp
  then have "dict_get d k = None" by (auto simp: dict_get_def map_of_eq_None_iff)
  then have g: "dict_get (tw_order_plan x) k = Some None"
    using Cons.prems(1) by (simp add: dict_get_append empty_slots_def) (simp add: dict_get_def)
  have u: "dict_set (tw_order_plan x) k v = d @ (k, v) # empty_slots ks" for v
    using new Cons.prems(1) by (simp add: empty_slots_def dict_set_present)
  have "next_order_amount env x = Inr ?a"
    using Cons.prems by (intro unreported_amount) simp_all
  then have "create_due_order env k x = (?y, None)"
    using Cons.prems(6,7) g by (simp add: create_due_order_def twap_create_order_def next_order_price_def place_order_def u log_call_def Let_def)
  moreover have "\<exists>y d'. ofold (create_due_order env) ks ?y = (y, None) \<and> tw_order_plan y = d' \<and> unreported d' \<and> tw_config y = tw_config ?y
    \<and> ex_status y = ex_status ?y \<and> tw_refreshed_orders y = tw_refreshed_orders ?y \<and> tw_failed_orders y = tw_failed_orders ?y
    \<and> placed_amounts (ex_calls y) = placed_amounts (ex_calls ?y)
        @ map (\<lambda>k. wc_total_amount_quote (tw_config ?y) / of_nat k / env_price env MidPrice) (rev [1..<Suc (length ks)])"
    using Cons.prems by (intro Cons.IH [of _ "d @ [(k, Some \<lparr>to_order_id = ?oid, to_order = None\<rparr>)]"])
      (simp_all add: unreported_def log_call_def)
  ultimately show ?case by (simp add: log_call_def)
qed (simp add: empty_slots_def)

lemma slots_plan:
  assumes "h \<noteq> (0 :: decimal)"
  shows "foldl (\<lambda>plan i. dict_set plan (s + of_nat i * h) None) [] [0..<n] = empty_slots (map (\<lambda>i. s + of_nat i * h) [0..<n])"
proof (induction n)
  case (Suc n)
  have "\<not> dict_has (empty_slots (map (\<lambda>i. s + of_nat i * h) [0..<n])) (s + of_nat n * h)"
    using assms by (auto simp: dict_has_keys empty_slots_def)
  then show ?case using Suc by (simp add: dict_set_new empty_slots_def)
qed (simp add: empty_slots_def)

lemma slots_distinct: "h \<noteq> (0 :: decimal) \<Longrightarrow> distinct (map (\<lambda>i. s + of_nat i * h) [0..<n])"
  by (simp add: distinct_map inj_on_def)

lemma last_two_exceed:
  assumes "1 < n" and "(0 :: decimal) < a"
  shows "a < sum_list (map (\<lambda>k. a / of_nat k) (rev [1..<Suc n]))"
proof -
  have "0 \<le> sum_list (map (\<lambda>k. a / of_nat k) (rev [3..<Suc n]))"
    using assms(2) by (intro sum_list_nonneg) auto
  moreover have "[1..<Suc n] = 1 # 2 # [3..<Suc n]" using assms(1) by (simp add: upt_conv_Cons numeral_2_eq_2 numeral_3_eq_3 del: upt_Suc)
  then have "sum_list (map (\<lambda>k. a / of_nat k) (rev [1..<Suc n])) = sum_list (map (\<lambda>k. a / of_nat k) (rev [3..<Suc n])) + a / 2 + a"
    by simp
  ultimately show ?thesis using assms(2) by simp
qed

lemma unreported_completed:
  assumes "unreported (tw_order_plan y)"
  shows "evaluate_all_orders_completed env y = y\<lparr>ex_status := SHUTTING_DOWN\<rparr>"
proof -
  have "tw_order_plan y = tw_order_plan y @ empty_slots []" by (simp add: empty_slots_def)
  then have "tracked env t = None" if "t \<in> set (planned_orders y)" for t
    using planned_unreported(2) [of y "tw_order_plan y" "[]" t] assms that by (simp add: tracked_def)
  then have "List.map_filter (tracked env) (planned_orders y) = []" by (simp add: List.map_filter_def filter_empty_conv)
  moreover have "evaluate_all_orders_created y"
    using assms by (auto simp: evaluate_all_orders_created_def dict_values_def unreported_def list_all_iff)
  ultimately show ?thesis by (simp add: evaluate_all_orders_completed_def)
qed

text \<open>
  When the whole plan is overdue before the first order is reported, one round of a taker places
  an order for every slot, the k-th from the end for the k-th part of the total. Together they exceed
  the total, and the next round counts the executor as completed, whatever has become of them.
\<close>

theorem overdue_plan_exceeds_total:
  assumes new: "new_twap_executor env0 cfg r = Inr x" "ex_status x = NOT_STARTED" and taker: "\<not> twap_is_maker cfg"
    and plan: "0 < wc_order_interval cfg" "wc_order_interval cfg \<le> wc_total_duration cfg" and total: "0 < wc_total_amount_quote cfg"
    and late: "env_now env0 + of_int (wc_total_duration cfg) \<le> env_now env" and price: "0 < env_price env MidPrice"
  shows "\<exists>y. twap_control_task env (executor_start x) = (y, None) \<and> ex_status y = SHUTTING_DOWN
    \<and> placed_amounts (ex_calls y) = map (\<lambda>k. wc_total_amount_quote cfg / of_nat k / env_price env MidPrice)
        (rev [1..<Suc (nat (wc_total_duration cfg div wc_order_interval cfg + 1))])
    \<and> wc_total_amount_quote cfg < sum_list (placed_amounts (ex_calls y)) * env_price env MidPrice
    \<and> (\<forall>env'. ex_close_type (fst (twap_control_task env' y)) = Some COMPLETED_CLOSE
        \<and> filter is_place (ex_calls (fst (twap_control_task env' y))) = filter is_place (ex_calls y))"
proof -
  let ?q = "wc_total_duration cfg div wc_order_interval cfg"
  let ?n = "nat (?q + 1)" and ?h = "of_int (wc_order_interval cfg) :: decimal"
  let ?ks = "map (\<lambda>i. env_now env0 + of_nat i * ?h) [0..<?n]"
  have h: "?h \<noteq> 0" using plan by simp
  have q: "1 \<le> ?q" using plan by (simp add: pos_imp_zdiv_pos_iff div_pos_pos_trivial int_one_le_iff_zero_less)
  have num: "number_of_orders cfg = Inr (?q + 1)" using plan by (simp add: number_of_orders_def)
  have x: "ex_calls x = []" "tw_config x = cfg" "tw_order_plan x = empty_slots ?ks" "tw_failed_orders x = []" "tw_refreshed_orders x = []"
    using new by (auto simp: new_twap_executor_def create_order_plan_def num slots_plan [OF h] ebind_eq_Inr_iff Let_def
        twap_close_execution_by_def executor_stop_def split: if_splits)
  let ?s = "executor_start x"
  have s: "ex_status ?s = RUNNING" "ex_calls ?s = []" "tw_config ?s = cfg" "tw_order_plan ?s = empty_slots ?ks"
    "tw_failed_orders ?s = []" "tw_refreshed_orders ?s = []"
    using new(2) x by (simp_all add: executor_start_def Let_def)
  have due: "\<forall>k \<in> set ?ks. k \<le> env_now env"
  proof
    fix k assume "k \<in> set ?ks"
    then obtain i where i: "i < ?n" "k = env_now env0 + of_nat i * ?h" by auto
    have "int i \<le> ?q" using i(1) q by linarith
    then have "int i * wc_order_interval cfg \<le> ?q * wc_order_interval cfg" using plan by (intro mult_right_mono) auto
    also have "\<dots> \<le> wc_total_duration cfg" using plan by (metis minus_mod_eq_div_mult pos_mod_sign diff_le_self add_increasing2 mult.commute le_add_same_cancel1 cancel_div_mod_rules(2) div_mult_mod_eq)
    finally have "(of_int (int i * wc_order_interval cfg) :: decimal) \<le> of_int (wc_total_duration cfg)" by (rule of_int_le_iff [THEN iffD2])
    then show "k \<le> env_now env" using i(2) late by simp
  qed
  have len: "length ?ks = ?n" by simp
  obtain y d' where y: "ofold (create_due_order env) ?ks ?s = (y, None)" "tw_order_plan y = d'" "unreported d'" "tw_config y = cfg"
    "ex_status y = RUNNING" "tw_refreshed_orders y = []" "tw_failed_orders y = []"
    "placed_amounts (ex_calls y) = map (\<lambda>k. wc_total_amount_quote cfg / of_nat k / env_price env MidPrice) (rev [1..<Suc ?n])"
    using create_overdue [of ?s "[]" ?ks env] s slots_distinct [OF h] num due taker price q
    unfolding len by (auto simp: unreported_def)
  have "dict_keys (tw_order_plan ?s) = ?ks" by (simp add: s empty_slots_def dict_keys_def comp_def)
  then have "evaluate_create_order env ?s = (y, None)" using y(1) by (simp add: evaluate_create_order_def)
  moreover have "evaluate_refresh_orders env y = (y, None)" using taker y(4) by (simp add: evaluate_refresh_orders_def)
  moreover have "evaluate_all_orders_completed env y = y\<lparr>ex_status := SHUTTING_DOWN\<rparr>"
    using y(2,3) by (simp add: unreported_completed)
  ultimately have t: "twap_control_task env ?s = (y\<lparr>ex_status := SHUTTING_DOWN\<rparr>, None)" by (simp add: twap_control_task_def s)
  have "sum_list (placed_amounts (ex_calls y)) * env_price env MidPrice = sum_list (map (\<lambda>k. wc_total_amount_quote cfg / of_nat k) (rev [1..<Suc ?n]))"
    using price unfolding y(8) by (simp add: sum_list_mult_const [symmetric] comp_def)
  then have "wc_total_amount_quote cfg < sum_list (placed_amounts (ex_calls y)) * env_price env MidPrice"
    using last_two_exceed [OF _ total, of ?n] q by simp
  moreover have "ex_close_type (fst (twap_control_task env' (y\<lparr>ex_status := SHUTTING_DOWN\<rparr>))) = Some COMPLETED_CLOSE
      \<and> ex_calls (fst (twap_control_task env' (y\<lparr>ex_status := SHUTTING_DOWN\<rparr>))) = ex_calls y" for env'
    using y(6,7) by (simp add: twap_control_task_def evaluate_all_orders_closed_def twap_close_execution_by_def)
  ultimately show ?thesis using t y(8) by (intro exI [of _ "y\<lparr>ex_status := SHUTTING_DOWN\<rparr>"]) simp
qed

section \<open>The last order\<close>

definition filled_slots :: "exec_env \<Rightarrow> (decimal \<times> tracked_order option) list \<Rightarrow> bool" where
  "filled_slots env d \<longleftrightarrow> (\<forall>(k, t) \<in> set d. \<exists>ord. Option.bind t (tracked env) = Some ord \<and> is_filled ord \<and> \<not> is_open ord)"

lemma ofold_skips: "(\<And>k. k \<in> set ks \<Longrightarrow> f k x = (x, None)) \<Longrightarrow> ofold f ks x = (x, None)"
  by (induction ks) simp_all

lemma filled_slots_kept:
  assumes "filled_slots env d" and "dict_wf (tw_order_plan x)" and "set d \<subseteq> set (tw_order_plan x)"
  shows "ofold (create_due_order env) (map fst d) x = (x, None)" "ofold (refresh_order env) (map fst d) x = (x, None)"
proof -
  have "create_due_order env k x = (x, None) \<and> refresh_order env k x = (x, None)" if k: "k \<in> set (map fst d)" for k
  proof -
    obtain t where t: "(k, t) \<in> set d" using k by auto
    then obtain ord where o: "Option.bind t (tracked env) = Some ord" "\<not> is_open ord" using assms(1) by (auto simp: filled_slots_def)
    have g: "dict_get (tw_order_plan x) k = Some t" using t assms(2,3) by (auto simp: dict_get_in_set)
    obtain t' where "t = Some t'" using o(1) by (cases t) simp_all
    then show ?thesis using g o by (simp add: create_due_order_def refresh_order_def refresh_order_condition_def split: option.split)
  qed
  then show "ofold (create_due_order env) (map fst d) x = (x, None)" "ofold (refresh_order env) (map fst d) x = (x, None)"
    by (auto intro: ofold_skips)
qed

lemma filled_slots_tracked:
  "filled_slots env d \<Longrightarrow> list_all is_filled (List.map_filter (tracked env) (List.map_filter id (map snd d)))
     \<and> list_all (\<lambda>t. t \<noteq> None) (map snd d)"
  by (induction d) (auto simp: filled_slots_def List.map_filter_def bind_eq_Some_conv)

lemma ofold_append: "ofold f (ks @ ls) x = obind (ofold f ks x) (ofold f ls)"
  by (induction ks arbitrary: x) (auto simp: obind_def split: option.split prod.split)

text \<open>
  The round that places the last order of a plan whose other orders are filled starts the shutdown
  at once, for it asks only the orders that the connector has reported. The next round completes the
  executor: the last order is neither awaited nor cancelled, in whatever state it is then.
\<close>

theorem last_twap_order_is_not_awaited:
  assumes running: "ex_status x = RUNNING" and plan: "tw_order_plan x = d @ (k, None) # e" "dict_wf (tw_order_plan x)"
    and others: "filled_slots env d" "filled_slots env e" and due: "k \<le> env_now env"
    and new: "next_order_amount env x = Inr a" "next_order_price env x = Inr p"
    and "tw_refreshed_orders x = []" and "tw_failed_orders x = []"
  shows "\<exists>y. twap_control_task env x = (y, None)
    \<and> dict_get (tw_order_plan y) k = Some (Some \<lparr>to_order_id = next_order_id env x, to_order = None\<rparr>)
    \<and> placed_amounts (ex_calls y) = placed_amounts (ex_calls x) @ [a] \<and> ex_status y = SHUTTING_DOWN
    \<and> (\<forall>env'. \<exists>z. twap_control_task env' y = (z, None) \<and> ex_status z = TERMINATED \<and> ex_close_type z = Some COMPLETED_CLOSE
        \<and> \<not> ex_registered z \<and> ex_calls z = ex_calls y)"
proof -
  let ?new = "\<lparr>to_order_id = next_order_id env x, to_order = None\<rparr>"
  define y where "y = (log_call (PlaceOrder (next_order_id env x) (twap_order_type (tw_config x))
      (if wc_side (tw_config x) = BUY then BUY else SELL) a (Fin p) OPEN) x)\<lparr>tw_order_plan := d @ (k, Some ?new) # e\<rparr>"
  have y: "tw_order_plan y = d @ (k, Some ?new) # e" "placed_amounts (ex_calls y) = placed_amounts (ex_calls x) @ [a]"
    "ex_status y = RUNNING" "tw_refreshed_orders y = []" "tw_failed_orders y = []"
    using running assms(9,10) by (simp_all add: y_def log_call_def)
  have wf: "distinct (map fst d @ k # map fst e)" using plan by (simp add: dict_wf_def)
  then have wfy: "dict_wf (tw_order_plan y)" by (simp add: dict_wf_def y)
  have "dict_get (tw_order_plan x) k = Some None" using plan by (simp add: dict_get_in_set)
  then have create: "create_due_order env k x = (y, None)"
    using wf due new by (simp add: create_due_order_def twap_create_order_def place_order_def plan(1) dict_set_present log_call_def Let_def y_def)
  have "ofold (create_due_order env) (map fst d) x = (x, None)"
    by (rule filled_slots_kept(1) [OF others(1) plan(2)]) (auto simp: plan(1))
  moreover have "ofold (create_due_order env) (map fst e) y = (y, None)"
    by (rule filled_slots_kept(1) [OF others(2) wfy]) (auto simp: y(1))
  ultimately have c: "evaluate_create_order env x = (y, None)"
    by (simp add: evaluate_create_order_def dict_keys_def plan(1) ofold_append create)
  have gy: "dict_get (tw_order_plan y) k = Some (Some ?new)" using wfy y(1) by (simp add: dict_get_in_set)
  then have "refresh_order env k y = (y, None)"
    by (simp add: refresh_order_def refresh_order_condition_def tracked_def split: option.split)
  moreover have "ofold (refresh_order env) (map fst d) y = (y, None)" "ofold (refresh_order env) (map fst e) y = (y, None)"
    by (rule filled_slots_kept(2) [OF others(1) wfy]; auto simp: y(1)) (rule filled_slots_kept(2) [OF others(2) wfy]; auto simp: y(1))
  ultimately have r: "evaluate_refresh_orders env y = (y, None)"
    by (simp add: evaluate_refresh_orders_def dict_keys_def y(1) ofold_append)
  have "list_all is_filled (List.map_filter (tracked env) (planned_orders y)) \<and> evaluate_all_orders_created y"
    using filled_slots_tracked [OF others(1)] filled_slots_tracked [OF others(2)]
    by (simp add: planned_orders_def evaluate_all_orders_created_def dict_values_def y(1) List.map_filter_def tracked_def)
  then have f: "evaluate_all_orders_completed env y = y\<lparr>ex_status := SHUTTING_DOWN\<rparr>"
    by (simp add: evaluate_all_orders_completed_def)
  have t: "twap_control_task env x = (y\<lparr>ex_status := SHUTTING_DOWN\<rparr>, None)" by (simp add: twap_control_task_def running c r f)
  have "\<exists>z. twap_control_task env' (y\<lparr>ex_status := SHUTTING_DOWN\<rparr>) = (z, None) \<and> ex_status z = TERMINATED
      \<and> ex_close_type z = Some COMPLETED_CLOSE \<and> \<not> ex_registered z \<and> ex_calls z = ex_calls y" for env'
    using y(4,5) by (simp add: twap_control_task_def evaluate_all_orders_closed_def twap_close_execution_by_def executor_stop_def Let_def)
  then show ?thesis using t gy y(2) by (intro exI [of _ "y\<lparr>ex_status := SHUTTING_DOWN\<rparr>"]) simp
qed

section \<open>Failed and resubmitted orders\<close>

text \<open>
  The failure of one order clears the plan: what remains is a single empty slot. The executor
  forgets what its other orders have filled, and the slots that were to come.
\<close>

theorem failed_order_forgets_plan:
  assumes plan: "tw_order_plan x = d @ (k, Some t) # e" and before: "\<forall>(_, t') \<in> set d. \<exists>u. t' = Some u \<and> to_order_id u \<noteq> to_order_id t"
    and after: "\<forall>(_, t') \<in> set e. t' \<noteq> Some t"
  shows "\<exists>y. twap_process_order_failed_event (to_order_id t) x = (y, None) \<and> tw_order_plan y = [(k, None)]
    \<and> tw_failed_orders y = tw_failed_orders x @ [t] \<and> ex_current_retries y = ex_current_retries x + 1
    \<and> (\<forall>env. get_total_executed_amount_quote env y = Inr 0)"
proof -
  have "find_planned (to_order_id t) (map snd d @ Some t # ts) = Inr (Some t)" for ts
    using before by (induction d) auto
  moreover have "filter (\<lambda>(_, t'). t' = Some t) d = []" "filter (\<lambda>(_, t'). t' = Some t) e = []"
    using before after by (auto simp: filter_empty_conv)
  ultimately show ?thesis
    by (simp add: twap_process_order_failed_event_def plan dict_values_def get_total_executed_amount_quote_def
        get_average_executed_price_def get_total_executed_amount_def planned_orders_def List.map_filter_def)
qed

lemma full_slots: "list_all (\<lambda>t. t \<noteq> None) ts \<Longrightarrow> length (List.map_filter id ts) = length ts"
  by (induction ts) (auto simp: List.map_filter_def)

text \<open>
  Once every slot holds an order, a round that resubmits one cancels it and then raises: the share
  of the next order is taken over the empty slots, of which there is none.
\<close>

theorem full_plan_cannot_resubmit:
  assumes maker: "twap_is_maker (tw_config x)" and plan: "tw_order_plan x = d @ (k, Some t) # e" "dict_wf (tw_order_plan x)"
    and full: "evaluate_all_orders_created x" "number_of_orders (tw_config x) = Inr (int (length (tw_order_plan x)))"
    and first: "\<forall>(_, t') \<in> set d. \<not> refresh_order_condition env x t'" and old: "refresh_order_condition env x (Some t)"
    and counted: "get_total_executed_amount_quote env x = Inr q" "orders_open_amount env x = Inr w"
  shows "\<exists>y err. evaluate_refresh_orders env x = (y, Some err) \<and> err \<in> {ZeroDivisionError, InvalidOperation}
    \<and> ex_calls y = ex_calls x @ [CancelOrder (to_order_id t)] \<and> tw_refreshed_orders y = tw_refreshed_orders x @ [t]
    \<and> tw_order_plan y = tw_order_plan x"
proof -
  let ?y = "(log_call (CancelOrder (to_order_id t)) x)\<lparr>tw_refreshed_orders := tw_refreshed_orders x @ [t]\<rparr>"
  have p: "planned_orders ?y = planned_orders x" by (simp add: log_call_def planned_orders_def)
  have eq: "planned_orders ?y = planned_orders x" "get_total_executed_amount_quote env ?y = get_total_executed_amount_quote env x"
    "orders_open_amount env ?y = orders_open_amount env x" "tw_config ?y = tw_config x" "tw_order_plan ?y = tw_order_plan x"
    unfolding get_total_executed_amount_quote_def get_average_executed_price_def get_total_executed_amount_def orders_open_amount_def p
    by (simp_all add: log_call_def)
  have n: "length (planned_orders x) = length (tw_order_plan x)"
    using full(1) by (simp add: planned_orders_def dict_values_def evaluate_all_orders_created_def full_slots)
  define err where "err = (if wc_total_amount_quote (tw_config x) - q - w = 0 then InvalidOperation else ZeroDivisionError)"
  have "next_order_amount env ?y = Inl err"
    unfolding next_order_amount_def eq counted full(2) n by (simp add: dec_div_def err_def)
  then have "twap_create_order env k ?y = (?y, Some err)" by (simp add: twap_create_order_def)
  moreover have "dict_get (tw_order_plan x) k = Some (Some t)" using plan by (simp add: dict_get_in_set)
  ultimately have at: "refresh_order env k x = (?y, Some err)" using old by (simp add: refresh_order_def)
  have "refresh_order env i x = (x, None)" if i: "i \<in> set (map fst d)" for i
  proof -
    obtain t' where "(i, t') \<in> set d" using i by auto
    then have "dict_get (tw_order_plan x) i = Some t'" "\<not> refresh_order_condition env x t'"
      using plan first by (auto simp: dict_get_in_set)
    then show ?thesis by (cases t') (simp_all add: refresh_order_def)
  qed
  then have "ofold (refresh_order env) (map fst d) x = (x, None)" by (rule ofold_skips)
  then have "evaluate_refresh_orders env x = (?y, Some err)"
    using maker at by (simp add: evaluate_refresh_orders_def dict_keys_def plan(1) ofold_append)
  then show ?thesis using eq(5) by (intro exI [of _ ?y] exI [of _ err]) (simp add: log_call_def err_def)
qed

section \<open>A concrete executor\<close>

text \<open>Ninety USDC in three orders, ten seconds apart.\<close>

definition demo_twap_config :: "twap_mode \<Rightarrow> twap_config" where
  "demo_twap_config mode =
     \<lparr>wc_id = ''t1'', wc_timestamp = 1, wc_controller_id = ''main'', wc_connector_name = ''binance'',
      wc_trading_pair = ''SOL-USDC'', wc_side = BUY, wc_leverage = 1, wc_total_amount_quote = 90,
      wc_total_duration = 20, wc_order_interval = 10, wc_mode = mode, wc_limit_order_buffer = Some (1 / 100),
      wc_order_resubmission_time = Some 5\<rparr>"

definition demo_twap_env :: "in_flight_order \<Rightarrow> decimal \<Rightarrow> exec_env" where
  "demo_twap_env ord now = (demo_env ord 20)\<lparr>env_now := now\<rparr>"

definition demo_twap :: "twap_mode \<Rightarrow> twap_executor" where
  "demo_twap mode = (case new_twap_executor (demo_twap_env demo_order 7) (demo_twap_config mode) 15 of Inr x \<Rightarrow> x)"

lemma demo_twap_new: "new_twap_executor (demo_twap_env demo_order 7) (demo_twap_config mode) 15 = Inr (demo_twap mode)"
proof -
  have "case_sum (\<lambda>_. False) (\<lambda>_. True) (new_twap_executor (demo_twap_env demo_order 7) (demo_twap_config mode) 15)"
    by (cases mode; simp; code_simp)
  then show ?thesis
    by (cases "new_twap_executor (demo_twap_env demo_order 7) (demo_twap_config mode) 15") (simp_all add: demo_twap_def)
qed

definition demo_twap_round :: "in_flight_order \<Rightarrow> decimal \<Rightarrow> twap_executor \<Rightarrow> twap_executor" where
  "demo_twap_round ord now x = fst (twap_control_task (demo_twap_env ord now) x)"

definition demo_twap_report :: "in_flight_order \<Rightarrow> string \<Rightarrow> twap_executor \<Rightarrow> twap_executor" where
  "demo_twap_report ord oid x = fst (twap_update_tracked_orders_with_order_id (demo_twap_env ord 7) oid x)"

definition twap_view :: "twap_executor \<Rightarrow> runnable_status \<times> (decimal \<times> tracked_order option) list \<times> tracked_order list \<times> decimal list" where
  "twap_view x = (ex_status x, tw_order_plan x, tw_failed_orders x @ tw_refreshed_orders x, placed_amounts (ex_calls x))"

text \<open>An order for a third of the total, as it is filled.\<close>

definition demo_third :: in_flight_order where
  "demo_third = (apply_trade (new_in_flight_order ''c1'' ''SOL-USDC'' MARKET BUY (3 / 2) 1 (Some (Fin 20)) (Some ''e1'') OPEN_STATE 1 NIL)
     (demo_trade ''t1'' (3 / 2)))\<lparr>o_current_state := FILLED\<rparr>"

text \<open>Two orders in the plan, filled and reported; the third slot is empty.\<close>

definition demo_twap_last :: twap_executor where
  "demo_twap_last = demo_twap_report demo_third ''oo'' (demo_twap_round demo_third 17
     (demo_twap_report demo_third ''o'' (demo_twap_round demo_third 7 (executor_start (demo_twap TAKER_MODE)))))"

text \<open>Three limit orders placed at once and reported open.\<close>

definition demo_twap_full :: twap_executor where
  "demo_twap_full = demo_twap_report demo_order ''ooo'' (demo_twap_report demo_order ''oo''
     (demo_twap_report demo_order ''o'' (demo_twap_round demo_order 27 (executor_start (demo_twap MAKER_MODE)))))"

lemma demo_twap_last_view:
  "twap_view demo_twap_last = (RUNNING, [(7, Some \<lparr>to_order_id = ''o'', to_order = Some 0\<rparr>),
     (17, Some \<lparr>to_order_id = ''oo'', to_order = Some 0\<rparr>), (27, None)], [], [3 / 2, 3 / 2])"
  by code_simp

lemma demo_twap_full_view:
  "twap_view demo_twap_full = (SHUTTING_DOWN, [(7, Some \<lparr>to_order_id = ''o'', to_order = Some 0\<rparr>),
     (17, Some \<lparr>to_order_id = ''oo'', to_order = Some 0\<rparr>), (27, Some \<lparr>to_order_id = ''ooo'', to_order = Some 0\<rparr>)], [], [3 / 2, 9 / 4, 9 / 2])"
  by code_simp

theorem twap_opens_while_running_witness:
  "\<exists>x y. twap_step x y \<and> ex_status x = RUNNING \<and> placed_amounts (ex_calls y) = placed_amounts (ex_calls x) @ [3 / 2]"
proof -
  let ?x = "executor_start (demo_twap TAKER_MODE)" and ?y = "demo_twap_round demo_third 7 (executor_start (demo_twap TAKER_MODE))"
  have "\<not> ex_terminated ?x" by code_simp
  then have step: "twap_step ?x ?y" unfolding demo_twap_round_def by (rule twap_step.task)
  moreover have "filter is_place (ex_calls ?y) \<noteq> filter is_place (ex_calls ?x)" by code_simp
  then have "ex_status ?x = RUNNING" using twap_opens_while_running [OF step] by simp
  moreover have "placed_amounts (ex_calls ?y) = placed_amounts (ex_calls ?x) @ [3 / 2]" by code_simp
  ultimately show ?thesis by blast
qed

theorem overdue_plan_exceeds_total_witness:
  "\<exists>y. twap_control_task (demo_twap_env demo_order 27) (executor_start (demo_twap TAKER_MODE)) = (y, None)
    \<and> ex_status y = SHUTTING_DOWN \<and> 90 < sum_list (placed_amounts (ex_calls y)) * 20"
proof -
  have "ex_status (demo_twap TAKER_MODE) = NOT_STARTED" by code_simp
  then show ?thesis
    using overdue_plan_exceeds_total [OF demo_twap_new, of TAKER_MODE "demo_twap_env demo_order 27"]
    by (auto simp: demo_twap_config_def demo_twap_env_def demo_env_def twap_is_maker_def)
qed

theorem last_twap_order_is_not_awaited_witness:
  "\<exists>y. twap_control_task (demo_twap_env demo_third 27) demo_twap_last = (y, None) \<and> ex_status y = SHUTTING_DOWN
    \<and> placed_amounts (ex_calls y) = [3 / 2, 3 / 2, 3 / 2]
    \<and> (\<forall>env'. ex_close_type (fst (twap_control_task env' y)) = Some COMPLETED_CLOSE)"
proof -
  let ?x = demo_twap_last and ?e = "demo_twap_env demo_third 27"
  let ?d = "[(7, Some \<lparr>to_order_id = ''o'', to_order = Some 0\<rparr>), (17, Some \<lparr>to_order_id = ''oo'', to_order = Some 0\<rparr>)]"
  have v: "ex_status ?x = RUNNING" "tw_order_plan ?x = ?d @ (27, None) # []" "tw_failed_orders ?x = []" "tw_refreshed_orders ?x = []"
    "placed_amounts (ex_calls ?x) = [3 / 2, 3 / 2]"
    using demo_twap_last_view by (simp_all add: twap_view_def)
  have "is_filled demo_third" "\<not> is_open demo_third" by code_simp+
  then have f: "filled_slots ?e ?d" "filled_slots ?e []"
    by (simp_all add: filled_slots_def tracked_def demo_twap_env_def demo_env_def)
  have w: "dict_wf (tw_order_plan ?x)" by (simp add: v dict_wf_def)
  have n: "next_order_amount ?e ?x = Inr (3 / 2)" "next_order_price ?e ?x = Inr 20" by code_simp+
  have due: "27 \<le> env_now ?e" by (simp add: demo_twap_env_def)
  obtain y where y: "twap_control_task ?e ?x = (y, None)" "ex_status y = SHUTTING_DOWN" "placed_amounts (ex_calls y) = [3 / 2, 3 / 2, 3 / 2]"
    "\<forall>env'. \<exists>z. twap_control_task env' y = (z, None) \<and> ex_status z = TERMINATED \<and> ex_close_type z = Some COMPLETED_CLOSE
       \<and> \<not> ex_registered z \<and> ex_calls z = ex_calls y"
    using last_twap_order_is_not_awaited [OF v(1,2) w f due n v(4,3)] v(5) by auto
  have "ex_close_type (fst (twap_control_task env' y)) = Some COMPLETED_CLOSE" for env' using y(4) by (metis fst_conv)
  then show ?thesis using y(1-3) by blast
qed

theorem failed_order_forgets_plan_witness:
  "tw_order_plan (fst (twap_process_order_failed_event ''oo'' demo_twap_last)) = [(17, None)]"
proof -
  let ?x = demo_twap_last and ?t = "\<lparr>to_order_id = ''oo'', to_order = Some 0\<rparr>"
  have v: "tw_order_plan ?x = [(7, Some \<lparr>to_order_id = ''o'', to_order = Some 0\<rparr>)] @ (17, Some ?t) # [(27, None)]"
    using demo_twap_last_view by (simp add: twap_view_def)
  show ?thesis using failed_order_forgets_plan [OF v] by auto
qed

theorem full_plan_cannot_resubmit_witness:
  "\<exists>y. evaluate_refresh_orders (demo_twap_env demo_order 27) demo_twap_full = (y, Some ZeroDivisionError)
    \<or> evaluate_refresh_orders (demo_twap_env demo_order 27) demo_twap_full = (y, Some InvalidOperation)"
proof -
  let ?x = demo_twap_full and ?e = "demo_twap_env demo_order 27" and ?t = "\<lparr>to_order_id = ''o'', to_order = Some 0\<rparr>"
  have v: "tw_order_plan ?x = [] @ (7, Some ?t) # [(17, Some \<lparr>to_order_id = ''oo'', to_order = Some 0\<rparr>),
      (27, Some \<lparr>to_order_id = ''ooo'', to_order = Some 0\<rparr>)]"
    using demo_twap_full_view by (simp add: twap_view_def)
  have w: "dict_wf (tw_order_plan ?x)" "evaluate_all_orders_created ?x" by (simp_all add: v dict_wf_def evaluate_all_orders_created_def dict_values_def)
  have "twap_is_maker (tw_config ?x)" "number_of_orders (tw_config ?x) = Inr 3" "refresh_order_condition ?e ?x (Some ?t)"
    "get_total_executed_amount_quote ?e ?x = Inr 0" "orders_open_amount ?e ?x = Inr 180" by code_simp+
  then show ?thesis using full_plan_cannot_resubmit [of ?x "[]" 7 ?t _ ?e 0 180] v w by auto
qed

end
