(* ===== verification/DCA_Executor.thy ===== *)
theory DCA_Executor
  imports Position_Executor
begin

text \<open>
  \<open>strategy_v2/executors/dca_executor\<close>: a position built level by level at falling (or rising) prices
  and closed by one market order. The shutdown awaits the connector's update of the closing orders;
  what it reads afterwards is its second environment. An order sits in one list at a time, so tracked
  orders are values; the price of an order that is NaN raises where the code would carry it on.
\<close>

section \<open>Configuration and state\<close>

datatype dca_mode = DCA_MAKER | DCA_TAKER

record dca_config =
  dc_id :: string
  dc_timestamp :: decimal
  dc_controller_id :: string
  dc_connector_name :: string
  dc_trading_pair :: string
  dc_side :: trade_type
  dc_leverage :: int
  dc_amounts_quote :: "decimal list"
  dc_prices :: "decimal list"
  dc_take_profit :: "decimal option"
  dc_stop_loss :: "decimal option"
  dc_trailing_stop :: "trailing_stop option"
  dc_time_limit :: "int option"
  dc_mode :: dca_mode
  dc_activation_bounds :: "decimal list option"
  dc_level_id :: "string option"

record dca_executor = executor_core +
  dx_config :: dca_config
  dx_n_levels :: nat
  dx_open_orders :: "tracked_order list"
  dx_close_orders :: "tracked_order list"
  dx_failed_orders :: "tracked_order list"
  dx_trailing_stop_trigger_pct :: "decimal option"
  dx_total_executed_amount_backup :: decimal

definition dca_rule :: "exec_env \<Rightarrow> dca_config \<Rightarrow> trading_rule py_result" where
  "dca_rule env cfg = dict_at (ex_rules (env_exchange env)) (dc_trading_pair cfg)"

definition is_any_amount_lower_than_min_order_size :: "exec_env \<Rightarrow> dca_config \<Rightarrow> bool py_result" where
  "is_any_amount_lower_than_min_order_size env cfg =
     ebind (emap (\<lambda>amount. ebind (dca_rule env cfg) (\<lambda>rule. Inr (amount < min_notional_size rule))) (dc_amounts_quote cfg)) (\<lambda>notional.
     ebind (emap (\<lambda>(amount, price). ebind (dec_div amount price) (\<lambda>base.
              ebind (dca_rule env cfg) (\<lambda>rule. Inr (base < min_order_size rule)))) (zip (dc_amounts_quote cfg) (dc_prices cfg))) (\<lambda>base.
     Inr (list_ex id notional \<or> list_ex id base)))"

definition dca_close_execution_by :: "exec_env \<Rightarrow> close_type option \<Rightarrow> dca_executor \<Rightarrow> dca_executor" where
  "dca_close_execution_by env ct x =
     executor_stop env (x\<lparr>ex_close_type := ct, ex_close_timestamp := Some (env_now env)\<rparr>)"

definition with_default_bounds :: "dca_config \<Rightarrow> dca_config" where
  "with_default_bounds cfg =
     (if dc_mode cfg = DCA_TAKER \<and> dc_activation_bounds cfg \<in> set [None, Some []]
      then cfg\<lparr>dc_activation_bounds := Some [1 / 10000, 5 / 1000]\<rparr> else cfg)"

definition new_dca_executor :: "exec_env \<Rightarrow> dca_config \<Rightarrow> int \<Rightarrow> dca_executor py_result" where
  "new_dca_executor env cfg max_retries =
     (if length (dc_amounts_quote cfg) \<noteq> length (dc_prices cfg) then Inl ValueError
      else ebind (is_any_amount_lower_than_min_order_size env cfg) (\<lambda>lower.
      let x = \<lparr>ex_status = NOT_STARTED, ex_close_type = None, ex_close_timestamp = None,
               ex_max_retries = max_retries, ex_current_retries = 0, ex_held_position_orders = [],
               ex_terminated = False, ex_registered = False, ex_calls = [],
               dx_config = with_default_bounds cfg, dx_n_levels = length (dc_amounts_quote cfg),
               dx_open_orders = [], dx_close_orders = [], dx_failed_orders = [],
               dx_trailing_stop_trigger_pct = None, dx_total_executed_amount_backup = 0\<rparr>
      in Inr (if lower then dca_close_execution_by env (Some FAILED_CLOSE) x else x)))"

section \<open>Amounts, prices and results\<close>

definition dca_open_order_type :: "dca_executor \<Rightarrow> order_type" where
  "dca_open_order_type x = (if dc_mode (dx_config x) = DCA_MAKER then LIMIT else MARKET)"

definition dca_open_filled_amount :: "exec_env \<Rightarrow> dca_executor \<Rightarrow> decimal" where
  "dca_open_filled_amount env x = sum_list (map (to_executed_amount_base env) (dx_open_orders x))"

definition dca_close_filled_amount :: "exec_env \<Rightarrow> dca_executor \<Rightarrow> decimal" where
  "dca_close_filled_amount env x = sum_list (map (to_executed_amount_base env) (dx_close_orders x))"

definition current_position_average_price :: "exec_env \<Rightarrow> dca_executor \<Rightarrow> decimal py_result" where
  "current_position_average_price env x =
     (if dx_open_orders x \<noteq> [] \<and> dca_open_filled_amount env x > 0
      then ebind (emap (\<lambda>t. ebind (to_average_executed_price env t) (\<lambda>p. Inr (p * to_executed_amount_base env t))) (dx_open_orders x))
             (\<lambda>values. dec_div (sum_list values) (dca_open_filled_amount env x))
      else Inr 0)"

definition dca_open_filled_amount_quote :: "exec_env \<Rightarrow> dca_executor \<Rightarrow> decimal py_result" where
  "dca_open_filled_amount_quote env x =
     ebind (current_position_average_price env x) (\<lambda>p. Inr (dca_open_filled_amount env x * p))"

definition dca_market_price :: "exec_env \<Rightarrow> dca_executor \<Rightarrow> decimal" where
  "dca_market_price env x = env_price env (if dc_side (dx_config x) = BUY then BestBid else BestAsk)"

definition dca_close_price :: "exec_env \<Rightarrow> dca_executor \<Rightarrow> decimal py_result" where
  "dca_close_price env x =
     (case dx_close_orders x of
        t # _ \<Rightarrow> if ex_status x = TERMINATED then to_average_executed_price env t else Inr (dca_market_price env x)
      | [] \<Rightarrow> Inr (dca_market_price env x))"

definition dca_close_filled_amount_quote :: "exec_env \<Rightarrow> dca_executor \<Rightarrow> decimal py_result" where
  "dca_close_filled_amount_quote env x =
     ebind (dca_close_price env x) (\<lambda>p. Inr (dca_close_filled_amount env x * p))"

definition dca_filled_amount_quote :: "exec_env \<Rightarrow> dca_executor \<Rightarrow> decimal py_result" where
  "dca_filled_amount_quote env x =
     ebind (dca_open_filled_amount_quote env x) (\<lambda>a. ebind (dca_close_filled_amount_quote env x) (\<lambda>b. Inr (a + b)))"

definition max_amount_quote :: "dca_executor \<Rightarrow> decimal" where
  "max_amount_quote x = sum_list (dc_amounts_quote (dx_config x))"

definition target_position_average_price :: "dca_executor \<Rightarrow> decimal py_result" where
  "target_position_average_price x =
     dec_div (sum_list (map (\<lambda>(price, amount). price * amount) (zip (dc_prices (dx_config x)) (dc_amounts_quote (dx_config x)))))
       (max_amount_quote x)"

definition dca_min_price :: "dca_executor \<Rightarrow> decimal py_result" where
  "dca_min_price x = (if dc_prices (dx_config x) = [] then Inl ValueError else Inr (Min (set (dc_prices (dx_config x)))))"

definition dca_max_price :: "dca_executor \<Rightarrow> decimal py_result" where
  "dca_max_price x = (if dc_prices (dx_config x) = [] then Inl ValueError else Inr (Max (set (dc_prices (dx_config x)))))"

definition unrealized_pnl_when_last_order_filled :: "dca_executor \<Rightarrow> decimal py_result" where
  "unrealized_pnl_when_last_order_filled x =
     ebind (if dc_side (dx_config x) = SELL then dca_max_price x else dca_min_price x) (\<lambda>last.
     ebind (target_position_average_price x) (\<lambda>target.
     ebind (dec_div \<bar>last - target\<bar> target) (\<lambda>distance. Inr (max_amount_quote x * distance))))"

definition max_loss_quote :: "dca_executor \<Rightarrow> decimal" where
  "max_loss_quote x = max_amount_quote x * (case dc_stop_loss (dx_config x) of None \<Rightarrow> 0 | Some sl \<Rightarrow> sl)"

definition dca_end_time :: "dca_executor \<Rightarrow> decimal option" where
  "dca_end_time x =
     (case dc_time_limit (dx_config x) of
        None \<Rightarrow> None
      | Some l \<Rightarrow> if l = 0 then None else Some (dc_timestamp (dx_config x) + of_int l))"

definition dca_is_expired :: "exec_env \<Rightarrow> dca_executor \<Rightarrow> bool" where
  "dca_is_expired env x =
     (case dca_end_time x of None \<Rightarrow> False | Some e \<Rightarrow> e \<noteq> 0 \<and> e \<le> env_now env)"

definition dca_trade_pnl_pct :: "exec_env \<Rightarrow> dca_executor \<Rightarrow> decimal py_result" where
  "dca_trade_pnl_pct env x =
     ebind (current_position_average_price env x) (\<lambda>avg.
     if avg \<noteq> 0
     then ebind (dca_close_price env x) (\<lambda>cp. dec_div (if dc_side (dx_config x) = BUY then cp - avg else avg - cp) avg)
     else Inr 0)"

definition dca_trade_pnl_quote :: "exec_env \<Rightarrow> dca_executor \<Rightarrow> decimal py_result" where
  "dca_trade_pnl_quote env x =
     ebind (dca_trade_pnl_pct env x) (\<lambda>pct. ebind (dca_open_filled_amount_quote env x) (\<lambda>q. Inr (pct * q)))"

definition dca_cum_fees_quote :: "exec_env \<Rightarrow> dca_executor \<Rightarrow> decimal py_result" where
  "dca_cum_fees_quote env x =
     ebind (emap (to_cum_fees_quote env) (dx_open_orders x @ dx_close_orders x)) (\<lambda>fees. Inr (sum_list fees))"

definition dca_net_pnl_quote :: "exec_env \<Rightarrow> dca_executor \<Rightarrow> decimal py_result" where
  "dca_net_pnl_quote env x =
     ebind (dca_trade_pnl_quote env x) (\<lambda>pnl. ebind (dca_cum_fees_quote env x) (\<lambda>fees. Inr (pnl - fees)))"

definition dca_net_pnl_pct :: "exec_env \<Rightarrow> dca_executor \<Rightarrow> decimal py_result" where
  "dca_net_pnl_pct env x =
     ebind (dca_open_filled_amount_quote env x) (\<lambda>q.
     if q > 0 then ebind (dca_net_pnl_quote env x) (\<lambda>pnl. dec_div pnl q) else Inr 0)"

section \<open>Opening\<close>

definition all_open_orders_executed :: "exec_env \<Rightarrow> dca_executor \<Rightarrow> bool" where
  "all_open_orders_executed env x =
     (list_all (to_is_done env) (dx_open_orders x) \<and> length (dx_open_orders x) = dx_n_levels x)"

definition dca_within_activation_bounds :: "dca_executor \<Rightarrow> decimal \<Rightarrow> decimal \<Rightarrow> bool py_result" where
  "dca_within_activation_bounds x price mid =
     (let cfg = dx_config x; bounds = dc_activation_bounds cfg in
      if dc_mode cfg = DCA_MAKER
      then (case bounds of
              Some (b0 # _) \<Rightarrow>
                Inr (if dc_side cfg = BUY then price > mid * (1 - b0) else price < mid * (1 + b0))
            | _ \<Rightarrow> Inr True)
      else (case bounds of
              None \<Rightarrow> Inl TypeError
            | Some bs \<Rightarrow>
                ebind (py_nth bs 0) (\<lambda>b0. ebind (py_nth bs 1) (\<lambda>b1.
                Inr (if dc_side cfg = BUY
                     then price * (1 - b0) < mid \<and> mid < price * (1 + b1)
                     else price * (1 - b1) < mid \<and> mid < price * (1 + b0))))))"

definition create_dca_order :: "exec_env \<Rightarrow> nat \<Rightarrow> dca_executor \<Rightarrow> dca_executor outcome" where
  "create_dca_order env level x =
     try_value x (py_nth (dc_prices (dx_config x)) level) (\<lambda>price.
     try_value x (py_nth (dc_amounts_quote (dx_config x)) level) (\<lambda>quote.
     try_value x (dec_div quote price) (\<lambda>amount.
     let (x1, oid) = place_order env (dca_open_order_type x) (dc_side (dx_config x)) amount (Fin price) OPEN x
     in (if oid \<noteq> [] then x1\<lparr>dx_open_orders := dx_open_orders x1 @ [\<lparr>to_order_id = oid, to_order = None\<rparr>]\<rparr> else x1, None))))"

definition control_open_order_process :: "exec_env \<Rightarrow> dca_executor \<Rightarrow> dca_executor outcome" where
  "control_open_order_process env x =
     (let next_level = length (dx_open_orders x) in
      if next_level < dx_n_levels x
      then try_value x (py_nth (dc_prices (dx_config x)) next_level) (\<lambda>price.
           try_value x (dca_within_activation_bounds x price (env_price env MidPrice)) (\<lambda>inside.
           if inside \<and> \<not> dca_is_expired env x then create_dca_order env next_level x else (x, None)))
      else (x, None))"

section \<open>Closing\<close>

definition dca_cancel_open_orders :: "exec_env \<Rightarrow> dca_executor \<Rightarrow> dca_executor" where
  "dca_cancel_open_orders env x =
     foldl (\<lambda>s t. log_call (CancelOrder (to_order_id t)) s) x (filter (to_is_open env) (dx_open_orders x))"

definition dca_place_close_order :: "exec_env \<Rightarrow> pdecimal \<Rightarrow> dca_executor \<Rightarrow> dca_executor outcome" where
  "dca_place_close_order env price x =
     (let delta = dca_open_filled_amount env x - dca_close_filled_amount env x in
      try_value x (dca_rule env (dx_config x)) (\<lambda>rule.
      if delta \<ge> min_order_size rule
      then (let (x1, oid) = place_order env MARKET (if dc_side (dx_config x) = BUY then SELL else BUY) delta price CLOSE x
            in (x1\<lparr>dx_close_orders := dx_close_orders x1 @ [\<lparr>to_order_id = oid, to_order = None\<rparr>]\<rparr>, None))
      else (x, None)))"

definition dca_place_close_order_and_cancel_open_orders :: "exec_env \<Rightarrow> dca_executor \<Rightarrow> dca_executor outcome" where
  "dca_place_close_order_and_cancel_open_orders env x =
     obind (dca_place_close_order env NaN (dca_cancel_open_orders env x)) (\<lambda>x1.
     (x1\<lparr>ex_status := SHUTTING_DOWN, ex_close_timestamp := Some (env_now env)\<rparr>, None))"

definition dca_close_as :: "exec_env \<Rightarrow> close_type \<Rightarrow> dca_executor \<Rightarrow> dca_executor outcome" where
  "dca_close_as env ct x = dca_place_close_order_and_cancel_open_orders env (x\<lparr>ex_close_type := Some ct\<rparr>)"

section \<open>Barriers\<close>

definition dca_control_stop_loss :: "exec_env \<Rightarrow> dca_executor \<Rightarrow> dca_executor outcome" where
  "dca_control_stop_loss env x =
     (let sl = dc_stop_loss (dx_config x) in
      if \<not> truthy_dec sl then (x, None)
      else if dc_mode (dx_config x) = DCA_MAKER
      then (if all_open_orders_executed env x
            then try_value x (dca_net_pnl_pct env x) (\<lambda>pnl. if pnl \<le> - the sl then dca_close_as env STOP_LOSS x else (x, None))
            else (x, None))
      else try_value x (dca_net_pnl_quote env x) (\<lambda>pnl.
           if pnl \<le> - max_loss_quote x then dca_close_as env STOP_LOSS x else (x, None)))"

definition dca_raise_trigger :: "decimal \<Rightarrow> decimal \<Rightarrow> decimal \<Rightarrow> dca_executor \<Rightarrow> dca_executor" where
  "dca_raise_trigger pnl delta trigger x =
     (if pnl - delta > trigger then x\<lparr>dx_trailing_stop_trigger_pct := Some (pnl - delta)\<rparr> else x)"

definition dca_control_trailing_stop :: "exec_env \<Rightarrow> dca_executor \<Rightarrow> dca_executor outcome" where
  "dca_control_trailing_stop env x =
     (case dc_trailing_stop (dx_config x) of
        None \<Rightarrow> (x, None)
      | Some ts \<Rightarrow>
          try_value x (dca_net_pnl_pct env x) (\<lambda>pnl.
          if \<not> truthy_dec (dx_trailing_stop_trigger_pct x)
          then (if pnl > ts_activation_price ts
                then (x\<lparr>dx_trailing_stop_trigger_pct := Some (pnl - ts_trailing_delta ts)\<rparr>, None) else (x, None))
          else (let trigger = the (dx_trailing_stop_trigger_pct x) in
                obind (if pnl < trigger then dca_close_as env TRAILING_STOP x else (x, None)) (\<lambda>x1.
                (dca_raise_trigger pnl (ts_trailing_delta ts) trigger x1, None)))))"

definition dca_control_take_profit :: "exec_env \<Rightarrow> dca_executor \<Rightarrow> dca_executor outcome" where
  "dca_control_take_profit env x =
     (let tp = dc_take_profit (dx_config x) in
      if \<not> truthy_dec tp then (x, None)
      else try_value x (dca_net_pnl_pct env x) (\<lambda>pnl. if pnl > the tp then dca_close_as env TAKE_PROFIT x else (x, None)))"

definition dca_control_time_limit :: "exec_env \<Rightarrow> dca_executor \<Rightarrow> dca_executor outcome" where
  "dca_control_time_limit env x = (if dca_is_expired env x then dca_close_as env TIME_LIMIT x else (x, None))"

definition dca_while_running :: "(dca_executor \<Rightarrow> dca_executor outcome) \<Rightarrow> dca_executor \<Rightarrow> dca_executor outcome" where
  "dca_while_running f x = (if ex_status x \<noteq> RUNNING then (x, None) else f x)"

definition dca_control_barriers :: "exec_env \<Rightarrow> dca_executor \<Rightarrow> dca_executor outcome" where
  "dca_control_barriers env x =
     obind (dca_control_stop_loss env x) (dca_while_running (\<lambda>x1.
     obind (dca_control_trailing_stop env x1) (dca_while_running (\<lambda>x2.
     obind (dca_control_take_profit env x2) (dca_while_running (dca_control_time_limit env))))))"

section \<open>Events and shutdown\<close>

definition dca_link :: "string \<Rightarrow> address \<Rightarrow> tracked_order \<Rightarrow> tracked_order" where
  "dca_link oid a t = (if to_order_id t = oid then t\<lparr>to_order := Some a\<rparr> else t)"

definition dca_update_tracked_orders_with_order_id :: "exec_env \<Rightarrow> string \<Rightarrow> dca_executor \<Rightarrow> dca_executor" where
  "dca_update_tracked_orders_with_order_id env oid x =
     (case get_in_flight_order env oid of
        None \<Rightarrow> x
      | Some a \<Rightarrow> x\<lparr>dx_open_orders := map (dca_link oid a) (dx_open_orders x),
                    dx_close_orders := map (dca_link oid a) (dx_close_orders x)\<rparr>)"

text \<open>The loop removes orders from the list it walks, so it passes over the one after each of them.\<close>

definition review_close_order :: "exec_env \<Rightarrow> nat \<Rightarrow> dca_executor \<Rightarrow> dca_executor" where
  "review_close_order env i x =
     (let x1 = dca_update_tracked_orders_with_order_id env (to_order_id (dx_close_orders x ! i)) x;
          t = dx_close_orders x1 ! i
      in if to_is_done env t \<and> to_executed_amount_base env t = 0
         then (log_call (CancelOrder (to_order_id t)) x1)
                \<lparr>dx_close_orders := take i (dx_close_orders x1) @ drop (Suc i) (dx_close_orders x1),
                 dx_failed_orders := dx_failed_orders x1 @ [t]\<rparr>
         else x1)"

fun review_close_orders :: "exec_env \<Rightarrow> nat list \<Rightarrow> dca_executor \<Rightarrow> dca_executor" where
  "review_close_orders env [] x = x"
| "review_close_orders env (i # is) x =
     (if i < length (dx_close_orders x) then review_close_orders env is (review_close_order env i x) else x)"

definition request_updates :: "tracked_order list \<Rightarrow> dca_executor \<Rightarrow> dca_executor" where
  "request_updates ts x = foldl (\<lambda>s t. log_call (RequestOrderUpdate (to_order_id t)) s) x (filter (\<lambda>t. to_order t \<noteq> None) ts)"

definition dca_control_shutdown_process :: "exec_env \<Rightarrow> exec_env \<Rightarrow> dca_executor \<Rightarrow> dca_executor outcome" where
  "dca_control_shutdown_process env env' x =
     (if py_isclose (dca_open_filled_amount env x) (dca_close_filled_amount env x)
      then (dca_close_execution_by env (ex_close_type x) x, None)
      else if dx_close_orders x \<noteq> []
      then (review_close_orders env' [0..<length (dx_close_orders x)] (request_updates (dx_close_orders x) x), None)
      else obind (dca_place_close_order_and_cancel_open_orders env x) (\<lambda>x1.
           (x1\<lparr>ex_current_retries := ex_current_retries x1 + 1\<rparr>, None)))"

definition dca_control_task :: "exec_env \<Rightarrow> exec_env \<Rightarrow> dca_executor \<Rightarrow> dca_executor outcome" where
  "dca_control_task env env' x =
     (if ex_status x = RUNNING
      then obind (control_open_order_process env x) (dca_control_barriers env)
      else if ex_status x = SHUTTING_DOWN then dca_control_shutdown_process env env' x
      else (x, None))"

definition dca_evaluate_max_retries :: "exec_env \<Rightarrow> dca_executor \<Rightarrow> dca_executor" where
  "dca_evaluate_max_retries env x =
     (if ex_current_retries x \<ge> ex_max_retries x then dca_close_execution_by env (Some FAILED_CLOSE) x else x)"

definition dca_control_round :: "exec_env \<Rightarrow> exec_env \<Rightarrow> dca_executor \<Rightarrow> dca_executor outcome" where
  "dca_control_round env env' x =
     (if ex_terminated x then (x, None)
      else obind (dca_control_task env env' x) (\<lambda>x1. (dca_evaluate_max_retries env' x1, None)))"

definition dca_early_stop :: "exec_env \<Rightarrow> bool \<Rightarrow> dca_executor \<Rightarrow> dca_executor outcome" where
  "dca_early_stop env keep_position x =
     (if keep_position
      then (executor_stop env (dca_cancel_open_orders env (x\<lparr>ex_close_type := Some POSITION_HOLD\<rparr>)), None)
      else dca_close_as env EARLY_STOP x)"

definition dca_candidate :: "dca_executor \<Rightarrow> decimal \<Rightarrow> decimal \<Rightarrow> order_candidate" where
  "dca_candidate x amount price =
     (let cfg = dx_config x; perp = is_perpetual_connector (dc_connector_name cfg) in
      new_order_candidate (dc_trading_pair cfg) (dc_mode cfg = DCA_MAKER) (dca_open_order_type x) (dc_side cfg) amount price False
        (if perp then Perpetual (of_int (dc_leverage cfg)) False else Spot))"

definition dca_validate_sufficient_balance :: "exec_env \<Rightarrow> dca_executor \<Rightarrow> dca_executor outcome" where
  "dca_validate_sufficient_balance env x =
     (let cfg = dx_config x; perp = is_perpetual_connector (dc_connector_name cfg) in
      try_value x (emap (\<lambda>(quote, price). ebind (dec_div quote price) (\<lambda>amount. Inr (dca_candidate x amount price)))
                     (zip (dc_amounts_quote cfg) (dc_prices cfg))) (\<lambda>cs.
      try_value x (adjust_candidates (if perp then PerpetualChecker else SpotChecker) (env_exchange env) True [] cs) (\<lambda>(_, adjusted).
      if list_ex (\<lambda>c. oc_amount c = 0) adjusted
      then (dca_close_execution_by env (Some INSUFFICIENT_BALANCE) x, None) else (x, None))))"

definition dca_on_start :: "exec_env \<Rightarrow> dca_executor \<Rightarrow> dca_executor outcome" where
  "dca_on_start env x =
     obind (dca_validate_sufficient_balance env x) (\<lambda>x1.
     (if dca_is_expired env x1 then dca_close_execution_by env (Some EXPIRED) x1 else x1, None))"

text \<open>A failed order leaves the first position at which the list holds its id.\<close>

definition drop_order :: "string \<Rightarrow> tracked_order list \<Rightarrow> tracked_order list" where
  "drop_order oid ts = (case find (\<lambda>t. to_order_id t = oid) ts of None \<Rightarrow> ts | Some t \<Rightarrow> remove1 t ts)"

definition dca_fail_open :: "string \<Rightarrow> dca_executor \<Rightarrow> dca_executor" where
  "dca_fail_open oid x =
     (case find (\<lambda>t. to_order_id t = oid) (dx_open_orders x) of
        None \<Rightarrow> x
      | Some t \<Rightarrow> x\<lparr>dx_failed_orders := dx_failed_orders x @ [t], dx_open_orders := drop_order oid (dx_open_orders x),
                    ex_current_retries := ex_current_retries x + 1\<rparr>)"

definition dca_fail_close :: "string \<Rightarrow> dca_executor \<Rightarrow> dca_executor" where
  "dca_fail_close oid x =
     (case find (\<lambda>t. to_order_id t = oid) (dx_close_orders x) of
        None \<Rightarrow> x
      | Some t \<Rightarrow> x\<lparr>dx_failed_orders := dx_failed_orders x @ [t], dx_close_orders := drop_order oid (dx_close_orders x),
                    ex_current_retries := ex_current_retries x + 1\<rparr>)"

definition dca_process_order_failed_event :: "string \<Rightarrow> dca_executor \<Rightarrow> dca_executor" where
  "dca_process_order_failed_event oid x = dca_fail_close oid (dca_fail_open oid x)"

definition dca_process_order_filled_event :: "exec_env \<Rightarrow> string \<Rightarrow> decimal \<Rightarrow> dca_executor \<Rightarrow> dca_executor" where
  "dca_process_order_filled_event env oid amount x =
     (let x1 = (if oid \<in> set (map to_order_id (dx_open_orders x))
                then x\<lparr>dx_total_executed_amount_backup := dx_total_executed_amount_backup x + amount\<rparr> else x)
      in dca_update_tracked_orders_with_order_id env oid x1)"

section \<open>All interleavings\<close>

text \<open>\<open>E\<close> restricts the environments, for instance to strategies whose order ids are not empty.\<close>

inductive dca_step :: "(exec_env \<Rightarrow> bool) \<Rightarrow> dca_executor \<Rightarrow> dca_executor \<Rightarrow> bool" for E where
  start: "dca_step E x (executor_start x)"
| on_start: "E env \<Longrightarrow> dca_step E x (fst (dca_on_start env x))"
| task: "E env \<Longrightarrow> E env' \<Longrightarrow> \<not> ex_terminated x \<Longrightarrow> dca_step E x (fst (dca_control_task env env' x))"
| retries: "E env \<Longrightarrow> dca_step E x (dca_evaluate_max_retries env x)"
| early_stop: "E env \<Longrightarrow> dca_step E x (fst (dca_early_stop env keep_position x))"
| created: "E env \<Longrightarrow> ex_registered x \<Longrightarrow> dca_step E x (dca_update_tracked_orders_with_order_id env oid x)"
| filled: "E env \<Longrightarrow> ex_registered x \<Longrightarrow> dca_step E x (dca_process_order_filled_event env oid amount x)"
| failed: "ex_registered x \<Longrightarrow> dca_step E x (dca_process_order_failed_event oid x)"

inductive dca_reachable :: "(exec_env \<Rightarrow> bool) \<Rightarrow> dca_config \<Rightarrow> int \<Rightarrow> dca_executor \<Rightarrow> bool" for E cfg max_retries where
  new: "new_dca_executor env cfg max_retries = Inr x \<Longrightarrow> dca_reachable E cfg max_retries x"
| step: "dca_reachable E cfg max_retries x \<Longrightarrow> dca_step E x y \<Longrightarrow> dca_reachable E cfg max_retries y"

end
