(* ===== verification/DCA_Safety.thy ===== *)
theory DCA_Safety
  imports DCA_Executor Executor_Scenario
begin

text \<open>
  The DCA executor: what it opens, that it knows every order it placed, and where its shutdown and its
  levels go wrong.
\<close>

section \<open>What a statement does to the orders\<close>

fun is_opening :: "strategy_call \<Rightarrow> bool" where
  "is_opening (PlaceOrder oid ot sd amount price action) = (action = OPEN)"
| "is_opening _ = False"

definition dca_known :: "dca_executor \<Rightarrow> string multiset" where
  "dca_known x = mset (map to_order_id (dx_open_orders x @ dx_close_orders x @ dx_failed_orders x))"

text \<open>A statement that opens nothing: it may place closing orders, which it keeps, and move orders.\<close>

definition moves_orders :: "dca_executor \<Rightarrow> dca_executor \<Rightarrow> bool" where
  "moves_orders x y \<longleftrightarrow> (\<exists>ids. placed_ids (ex_calls y) = placed_ids (ex_calls x) @ ids \<and> dca_known y = dca_known x + mset ids)
     \<and> filter is_opening (ex_calls y) = filter is_opening (ex_calls x) \<and> ex_held_position_orders y = ex_held_position_orders x
     \<and> dx_config y = dx_config x \<and> dx_n_levels y = dx_n_levels x"

named_theorems moves_intros

lemma moves_refl [simp, moves_intros]: "moves_orders x x"
  by (simp add: moves_orders_def)

lemma moves_trans: "moves_orders x y \<Longrightarrow> moves_orders y z \<Longrightarrow> moves_orders x z"
  by (force simp: moves_orders_def)

lemma moves_same:
  assumes "placed_ids (ex_calls y) = placed_ids (ex_calls x)" and "dca_known y = dca_known x"
    and "filter is_opening (ex_calls y) = filter is_opening (ex_calls x)" and "ex_held_position_orders y = ex_held_position_orders x"
    and "dx_config y = dx_config x" and "dx_n_levels y = dx_n_levels x"
  shows "moves_orders x y"
  using assms by (simp add: moves_orders_def)

lemma moves_obind [moves_intros]:
  "moves_orders x (fst m) \<Longrightarrow> (\<And>s. moves_orders s (fst (f s))) \<Longrightarrow> moves_orders x (fst (obind m f))"
  by (rule obind_fst_inv) (auto intro: moves_trans)

lemma moves_try [moves_intros]:
  "moves_orders x s \<Longrightarrow> (\<And>v. moves_orders x (fst (f v))) \<Longrightarrow> moves_orders x (fst (try_value s m f))"
  by (cases m) simp_all

lemma moves_if [moves_intros]:
  "(b \<Longrightarrow> moves_orders x (fst m)) \<Longrightarrow> (\<not> b \<Longrightarrow> moves_orders x (fst n)) \<Longrightarrow> moves_orders x (fst (if b then m else n))"
  by simp

lemma moves_option [moves_intros]:
  "moves_orders x (fst m) \<Longrightarrow> (\<And>v. moves_orders x (fst (f v))) \<Longrightarrow> moves_orders x (fst (case a of None \<Rightarrow> m | Some v \<Rightarrow> f v))"
  by (cases a) simp_all

lemma moves_stop: "moves_orders x (dca_close_execution_by env ct x)" "moves_orders x (executor_stop env x)"
  by (auto simp: dca_close_execution_by_def executor_stop_def Let_def dca_known_def intro: moves_same)

lemma moves_cancel: "moves_orders x (dca_cancel_open_orders env x)"
proof -
  have "moves_orders x (foldl (\<lambda>s t. log_call (CancelOrder (to_order_id t)) s) x ts)" for ts
  proof (induction ts arbitrary: x)
    case (Cons t ts)
    have "moves_orders x (log_call (CancelOrder (to_order_id t)) x)" by (rule moves_same) (simp_all add: log_call_def dca_known_def)
    then show ?case unfolding foldl.simps by (rule moves_trans [OF _ Cons])
  qed simp
  then show ?thesis by (simp add: dca_cancel_open_orders_def)
qed

lemma moves_place_close: "moves_orders x (fst (dca_place_close_order env p x))"
  unfolding dca_place_close_order_def Let_def
  by (intro moves_intros) (auto simp: place_order_def log_call_def moves_orders_def dca_known_def Let_def)

lemma moves_close_and_cancel: "moves_orders x (fst (dca_place_close_order_and_cancel_open_orders env x))"
  unfolding dca_place_close_order_and_cancel_open_orders_def
  by (intro moves_obind moves_trans [OF moves_cancel moves_place_close]) (auto simp: dca_known_def intro: moves_same)

lemma moves_close_as: "moves_orders x (fst (dca_close_as env ct x))"
  unfolding dca_close_as_def
  by (rule moves_trans [OF _ moves_close_and_cancel]) (auto simp: dca_known_def intro: moves_same)

lemma moves_while_running: "(\<And>s. moves_orders s (fst (f s))) \<Longrightarrow> moves_orders x (fst (dca_while_running f x))"
  by (simp add: dca_while_running_def)

lemma moves_barriers: "moves_orders x (fst (dca_control_barriers env x))"
proof -
  have "moves_orders x (fst (dca_control_stop_loss env x))" for x
    unfolding dca_control_stop_loss_def Let_def by (intro moves_intros moves_close_as) simp_all
  moreover have "moves_orders x (fst (dca_control_take_profit env x))" for x
    unfolding dca_control_take_profit_def Let_def by (intro moves_intros moves_close_as) simp_all
  moreover have "moves_orders x (fst (dca_control_time_limit env x))" for x
    unfolding dca_control_time_limit_def by (intro moves_intros moves_close_as) simp_all
  moreover have raise: "moves_orders x (dca_raise_trigger pnl d trigger x)" "moves_orders x (x\<lparr>dx_trailing_stop_trigger_pct := tr\<rparr>)"
    for x pnl d trigger tr by (auto simp: dca_raise_trigger_def dca_known_def intro: moves_same)
  moreover have "moves_orders x (fst (dca_control_trailing_stop env x))" for x
    unfolding dca_control_trailing_stop_def Let_def
    by (intro moves_intros moves_close_as) (simp_all add: raise)
  ultimately show ?thesis
    unfolding dca_control_barriers_def by (intro moves_obind moves_while_running)
qed

lemma moves_update: "moves_orders x (dca_update_tracked_orders_with_order_id env oid x)"
proof -
  have "to_order_id (dca_link oid a t) = to_order_id t" for a t by (simp add: dca_link_def)
  then have "map to_order_id (map (dca_link oid a) ts) = map to_order_id ts" for a ts by (simp add: comp_def)
  then show ?thesis
    by (cases "get_in_flight_order env oid") (auto simp: dca_update_tracked_orders_with_order_id_def dca_known_def simp del: map_map intro!: moves_same)
qed

lemma mset_without_nth:
  "i < length ts \<Longrightarrow> add_mset (f (ts ! i)) (mset (map f (take i ts)) + mset (map f (drop (Suc i) ts))) = mset (map f ts)"
  by (subst (4) id_take_nth_drop [of i ts]) simp_all

lemma moves_review:
  assumes "i < length (dx_close_orders x)"
  shows "moves_orders x (review_close_order env i x)"
proof -
  define x1 where "x1 = dca_update_tracked_orders_with_order_id env (to_order_id (dx_close_orders x ! i)) x"
  have "moves_orders x x1" unfolding x1_def by (rule moves_update)
  have i: "i < length (dx_close_orders x1)"
    using assms by (simp add: x1_def dca_update_tracked_orders_with_order_id_def split: option.split)
  have "moves_orders x1 ((log_call (CancelOrder (to_order_id (dx_close_orders x1 ! i))) x1)
      \<lparr>dx_close_orders := take i (dx_close_orders x1) @ drop (Suc i) (dx_close_orders x1),
       dx_failed_orders := dx_failed_orders x1 @ [dx_close_orders x1 ! i]\<rparr>)"
    using mset_without_nth [OF i, of to_order_id] by (intro moves_same) (simp_all add: log_call_def dca_known_def ac_simps)
  then show ?thesis
    using \<open>moves_orders x x1\<close> moves_trans unfolding review_close_order_def x1_def [symmetric] Let_def by (simp split: if_split)
qed

lemma moves_reviews: "moves_orders x (review_close_orders env is x)"
proof (induction env "is" x rule: review_close_orders.induct)
  case (2 env i "is" x)
  then show ?case using moves_review moves_trans by auto blast
qed simp

lemma moves_requests: "moves_orders x (request_updates ts x)"
proof -
  have "moves_orders x (foldl (\<lambda>s t. log_call (RequestOrderUpdate (to_order_id t)) s) x ts)" for ts
  proof (induction ts arbitrary: x)
    case (Cons t ts)
    have "moves_orders x (log_call (RequestOrderUpdate (to_order_id t)) x)" by (rule moves_same) (simp_all add: log_call_def dca_known_def)
    then show ?case unfolding foldl.simps by (rule moves_trans [OF _ Cons])
  qed simp
  then show ?thesis by (simp add: request_updates_def)
qed

lemma moves_shutdown: "moves_orders x (fst (dca_control_shutdown_process env env' x))"
  unfolding dca_control_shutdown_process_def
  using moves_stop(1) moves_trans [OF moves_requests moves_reviews]
  by (intro moves_intros moves_close_and_cancel) (auto simp: dca_known_def intro: moves_same)

lemma mset_remove1_find:
  "find P ts = Some t \<Longrightarrow> mset (map f (remove1 t ts)) + {#f t#} = mset (map f ts)"
  by (induction ts) (auto split: if_splits)

lemma moves_failed: "moves_orders x (dca_process_order_failed_event oid x)"
proof -
  have f: "add_mset (to_order_id t) (mset (map to_order_id (drop_order oid ts))) = mset (map to_order_id ts)"
    if "find (\<lambda>t. to_order_id t = oid) ts = Some t" for t ts
    using mset_remove1_find [OF that, of to_order_id] that by (simp add: drop_order_def)
  have "moves_orders x (dca_fail_open oid x)" "moves_orders x (dca_fail_close oid x)" for x
    using f by (auto simp: dca_fail_open_def dca_fail_close_def dca_known_def intro!: moves_same split: option.split)
  then show ?thesis unfolding dca_process_order_failed_event_def using moves_trans by blast
qed

lemma moves_on_start: "moves_orders x (fst (dca_on_start env x))"
  unfolding dca_on_start_def dca_validate_sufficient_balance_def Let_def case_prod_beta
  by (intro moves_intros) (simp_all add: moves_stop)

section \<open>Opening\<close>

text \<open>The order for the next level, and the state that keeps it.\<close>

definition level_opened :: "exec_env \<Rightarrow> dca_executor \<Rightarrow> dca_executor \<Rightarrow> bool" where
  "level_opened env x y \<longleftrightarrow> (\<exists>price quote. let k = length (dx_open_orders x) in
     k < dx_n_levels x \<and> py_nth (dc_prices (dx_config x)) k = Inr price \<and> py_nth (dc_amounts_quote (dx_config x)) k = Inr quote
     \<and> price \<noteq> 0 \<and> dca_within_activation_bounds x price (env_price env MidPrice) = Inr True \<and> \<not> dca_is_expired env x
     \<and> y = (log_call (PlaceOrder (next_order_id env x) (dca_open_order_type x) (if dc_side (dx_config x) = BUY then BUY else SELL)
              (quote / price) (Fin price) OPEN) x)
            \<lparr>dx_open_orders := dx_open_orders x @ (if next_order_id env x = [] then [] else [\<lparr>to_order_id = next_order_id env x, to_order = None\<rparr>])\<rparr>)"

lemma open_process_cases:
  "fst (control_open_order_process env x) = x \<or> level_opened env x (fst (control_open_order_process env x))"
proof (cases "length (dx_open_orders x) < dx_n_levels x")
  case True
  let ?k = "length (dx_open_orders x)"
  show ?thesis
  proof (cases "py_nth (dc_prices (dx_config x)) ?k")
    case (Inr price)
    show ?thesis
    proof (cases "dca_within_activation_bounds x price (env_price env MidPrice) = Inr True \<and> \<not> dca_is_expired env x")
      case go: True
      then have "control_open_order_process env x = create_dca_order env ?k x"
        using True Inr by (simp add: control_open_order_process_def Let_def)
      moreover have "fst (create_dca_order env ?k x) = x \<or> level_opened env x (fst (create_dca_order env ?k x))"
      proof (cases "py_nth (dc_amounts_quote (dx_config x)) ?k")
        case (Inl err)
        then show ?thesis using Inr by (simp add: create_dca_order_def)
      next
        case quote: (Inr quote)
        show ?thesis
        proof (cases "price = 0")
          case True
          then show ?thesis using Inr quote by (simp add: create_dca_order_def dec_div_def)
        next
          case False
          then have "level_opened env x (fst (create_dca_order env ?k x))"
            using True Inr go quote unfolding level_opened_def Let_def
            by (intro exI [of _ price] exI [of _ quote]) (simp add: create_dca_order_def place_order_def log_call_def Let_def)
          then show ?thesis by simp
        qed
      qed
      ultimately show ?thesis by simp
    next
      case False
      then show ?thesis
        using True Inr
        by (cases "dca_within_activation_bounds x price (env_price env MidPrice)") (auto simp: control_open_order_process_def Let_def)
    qed
  qed (simp add: control_open_order_process_def Let_def True)
qed (simp add: control_open_order_process_def Let_def)

lemma dca_step_cases:
  assumes "dca_step E x y"
  shows "moves_orders x y \<or> ex_status x = RUNNING \<and> (\<exists>env z. E env \<and> level_opened env x z \<and> moves_orders z y)"
  using assms
proof cases
  case start
  then show ?thesis by (auto simp: executor_start_def Let_def dca_known_def intro!: disjI1 moves_same)
next
  case (on_start env)
  then show ?thesis by (simp add: moves_on_start)
next
  case (task env env')
  show ?thesis
  proof (cases "ex_status x = RUNNING")
    case True
    let ?m = "control_open_order_process env x"
    have y: "y = fst (obind ?m (dca_control_barriers env))" using task(1) True by (simp add: dca_control_task_def)
    have m: "moves_orders (fst ?m) y" unfolding y by (rule moves_obind) (simp_all add: moves_barriers)
    then show ?thesis using open_process_cases [of env x] task(2) True by auto
  next
    case False
    then show ?thesis using task(1) moves_shutdown [of x env env'] by (simp add: dca_control_task_def)
  qed
next
  case (retries env)
  then show ?thesis by (simp add: dca_evaluate_max_retries_def moves_stop)
next
  case (early_stop env k)
  have "moves_orders x (executor_stop env (dca_cancel_open_orders env (x\<lparr>ex_close_type := ct\<rparr>)))" for ct
    by (rule moves_trans [OF moves_trans [OF _ moves_cancel] moves_stop(2)]) (auto simp: dca_known_def intro: moves_same)
  then show ?thesis using early_stop by (simp add: dca_early_stop_def moves_close_as)
next
  case (created env oid)
  then show ?thesis by (simp add: moves_update)
next
  case (filled env oid amount)
  have "moves_orders x (dca_process_order_filled_event env oid amount x)"
    unfolding dca_process_order_filled_event_def Let_def
    by (rule moves_trans [OF _ moves_update]) (auto simp: dca_known_def intro: moves_same)
  then show ?thesis using filled by simp
next
  case (failed oid)
  then show ?thesis by (simp add: moves_failed)
qed

text \<open>
  C27: Whatever a step does, it opens at most one order: in a round while the executor is running, for
  the level after the orders it holds, at that level's price and for its amount, when the price is
  within the bounds and the executor has not expired.
\<close>

theorem dca_opens_next_level:
  assumes "dca_step E x y"
  shows "filter is_opening (ex_calls y) = filter is_opening (ex_calls x)
    \<or> ex_status x = RUNNING \<and> length (dx_open_orders x) < dx_n_levels x
      \<and> (\<exists>env price quote oid. E env \<and> py_nth (dc_prices (dx_config x)) (length (dx_open_orders x)) = Inr price
        \<and> py_nth (dc_amounts_quote (dx_config x)) (length (dx_open_orders x)) = Inr quote
        \<and> dca_within_activation_bounds x price (env_price env MidPrice) = Inr True \<and> \<not> dca_is_expired env x
        \<and> filter is_opening (ex_calls y) = filter is_opening (ex_calls x) @ [PlaceOrder oid (dca_open_order_type x)
             (if dc_side (dx_config x) = BUY then BUY else SELL) (quote / price) (Fin price) OPEN])"
  using dca_step_cases [OF assms] by (fastforce simp: moves_orders_def level_opened_def log_call_def Let_def)

section \<open>Accounting for the orders\<close>

lemma new_dca:
  "new_dca_executor env cfg r = Inr x \<Longrightarrow> placed_ids (ex_calls x) = [] \<and> dca_known x = {#} \<and> ex_held_position_orders x = []"
  by (auto simp: new_dca_executor_def ebind_eq_Inr_iff Let_def dca_known_def dca_close_execution_by_def executor_stop_def split: if_splits)

text \<open>
  An executor knows every order it ever placed, in every reachable state: each is held once, as an
  opening, a closing or a failed one, provided the strategy's order ids are not empty.
\<close>

theorem dca_knows_its_orders:
  assumes "dca_reachable E cfg r x" and "\<And>env n. E env \<Longrightarrow> env_order_id env n \<noteq> []"
  shows "mset (placed_ids (ex_calls x)) = mset (map to_order_id (dx_open_orders x @ dx_close_orders x @ dx_failed_orders x))"
proof -
  have "mset (placed_ids (ex_calls x)) = dca_known x"
    using assms(1)
  proof induction
    case (new env x)
    then show ?case using new_dca by simp
  next
    case (step x y)
    have keep: "mset (placed_ids (ex_calls z)) = dca_known z \<Longrightarrow> moves_orders z y \<Longrightarrow> mset (placed_ids (ex_calls y)) = dca_known y" for z
      by (auto simp: moves_orders_def)
    have "mset (placed_ids (ex_calls z)) = dca_known z" if "E env" "level_opened env x z" for env z
      using that(2) assms(2) [OF that(1)] step.IH by (auto simp: level_opened_def log_call_def dca_known_def next_order_id_def Let_def)
    then show ?case using dca_step_cases [OF step.hyps(2)] keep step.IH by blast
  qed
  then show ?thesis by (simp add: dca_known_def)
qed

lemma cancel_fields:
  "filter is_place (ex_calls (dca_cancel_open_orders env z)) = filter is_place (ex_calls z)"
  "ex_held_position_orders (dca_cancel_open_orders env z) = ex_held_position_orders z"
  "ex_close_type (dca_cancel_open_orders env z) = ex_close_type z" "dx_open_orders (dca_cancel_open_orders env z) = dx_open_orders z"
proof -
  have "filter is_place (ex_calls (foldl (\<lambda>s t. log_call (CancelOrder (to_order_id t)) s) z ts)) = filter is_place (ex_calls z)
      \<and> ex_held_position_orders (foldl (\<lambda>s t. log_call (CancelOrder (to_order_id t)) s) z ts) = ex_held_position_orders z
      \<and> ex_close_type (foldl (\<lambda>s t. log_call (CancelOrder (to_order_id t)) s) z ts) = ex_close_type z
      \<and> dx_open_orders (foldl (\<lambda>s t. log_call (CancelOrder (to_order_id t)) s) z ts) = dx_open_orders z" for ts :: "tracked_order list"
    by (induction ts arbitrary: z) (simp_all add: log_call_def)
  then show "filter is_place (ex_calls (dca_cancel_open_orders env z)) = filter is_place (ex_calls z)"
    "ex_held_position_orders (dca_cancel_open_orders env z) = ex_held_position_orders z"
    "ex_close_type (dca_cancel_open_orders env z) = ex_close_type z" "dx_open_orders (dca_cancel_open_orders env z) = dx_open_orders z"
    by (simp_all add: dca_cancel_open_orders_def)
qed

text \<open>
  An early stop that is to keep the position ends the executor as \<open>POSITION_HOLD\<close> without a
  closing order, and hands no order over: the position it has built is lost to the orchestrator.
\<close>

theorem kept_dca_position_is_lost:
  assumes "dca_reachable E cfg r x"
  shows "\<exists>y. dca_early_stop env True x = (y, None) \<and> ex_status y = TERMINATED \<and> ex_close_type y = Some POSITION_HOLD
    \<and> ex_held_position_orders y = [] \<and> filter is_place (ex_calls y) = filter is_place (ex_calls x)
    \<and> dca_open_filled_amount env y = dca_open_filled_amount env x"
proof -
  have "ex_held_position_orders x = []"
    using assms
  proof induction
    case (new env x)
    then show ?case using new_dca by simp
  next
    case (step x y)
    then show ?case using dca_step_cases [OF step.hyps(2)]
      by (auto simp: moves_orders_def level_opened_def log_call_def Let_def)
  qed
  moreover have "dx_open_orders (executor_stop env z) = dx_open_orders z" for z :: dca_executor by (simp add: executor_stop_def Let_def)
  ultimately show ?thesis by (simp add: dca_early_stop_def cancel_fields dca_open_filled_amount_def)
qed

section \<open>Levels and late fills\<close>

lemma same_config:
  assumes "dx_config y = dx_config x"
  shows "dca_within_activation_bounds y = dca_within_activation_bounds x" "dca_is_expired env y = dca_is_expired env x"
    "dca_open_order_type y = dca_open_order_type x"
  unfolding dca_within_activation_bounds_def dca_is_expired_def dca_end_time_def dca_open_order_type_def assms by simp_all

text \<open>
  When an order fails, the level it was for is not tried again: the levels are counted by the
  orders held, so the last level is opened a second time instead.
\<close>

theorem failed_level_is_not_retried:
  assumes "dx_open_orders x = t # ts" and "length (dx_open_orders x) = dx_n_levels x" and "dx_close_orders x = []"
    and "py_nth (dc_prices (dx_config x)) (length ts) = Inr price" "py_nth (dc_amounts_quote (dx_config x)) (length ts) = Inr quote"
    and "price \<noteq> 0" and "dca_within_activation_bounds x price (env_price env MidPrice) = Inr True" and "\<not> dca_is_expired env x"
    and "next_order_id env x \<noteq> []"
  shows "\<exists>y. control_open_order_process env (dca_process_order_failed_event (to_order_id t) x) = (y, None)
    \<and> dx_open_orders y = ts @ [\<lparr>to_order_id = next_order_id env x, to_order = None\<rparr>]
    \<and> filter is_opening (ex_calls y) = filter is_opening (ex_calls x) @ [PlaceOrder (next_order_id env x) (dca_open_order_type x)
         (if dc_side (dx_config x) = BUY then BUY else SELL) (quote / price) (Fin price) OPEN]"
proof -
  let ?f = "x\<lparr>dx_failed_orders := dx_failed_orders x @ [t], dx_open_orders := ts, ex_current_retries := ex_current_retries x + 1\<rparr>"
  have f: "dca_process_order_failed_event (to_order_id t) x = ?f"
    using assms(1,3) by (simp add: dca_process_order_failed_event_def dca_fail_open_def dca_fail_close_def drop_order_def)
  have "dca_within_activation_bounds ?f price (env_price env MidPrice) = Inr True" "\<not> dca_is_expired env ?f"
    "next_order_id env ?f = next_order_id env x" "dca_open_order_type ?f = dca_open_order_type x"
    using assms(7,8) same_config [of ?f x] by (simp_all add: next_order_id_def)
  then show ?thesis
    using assms unfolding f by (simp add: control_open_order_process_def create_dca_order_def place_order_def log_call_def Let_def)
qed

lemma shutdown_stuck:
  assumes "ex_status x = SHUTTING_DOWN" and "dx_close_orders x = [t]" and "to_order t = Some a"
    and "to_order_id t \<notin> to_order_id ` set (dx_open_orders x)"
    and "\<not> py_isclose (dca_open_filled_amount env x) (dca_close_filled_amount env x)"
    and "get_in_flight_order env' (to_order_id t) \<in> {None, Some a}" and "o_executed_amount_base (env_orders env' a) \<noteq> 0"
  shows "dca_control_task env env' x = (log_call (RequestOrderUpdate (to_order_id t)) x, None)"
proof -
  let ?y = "log_call (RequestOrderUpdate (to_order_id t)) x"
  have r: "request_updates (dx_close_orders x) x = ?y" using assms(2,3) by (simp add: request_updates_def)
  have "map (dca_link (to_order_id t) a) (dx_open_orders x) = dx_open_orders x"
    using assms(4) by (intro map_idI) (metis dca_link_def image_eqI)
  moreover have "dca_link (to_order_id t) a t = t" using assms(3) by (simp add: dca_link_def)
  ultimately have u: "dca_update_tracked_orders_with_order_id env' (to_order_id t) ?y = ?y"
    using assms(2,6) by (auto simp: dca_update_tracked_orders_with_order_id_def log_call_def split: option.split)
  have "to_executed_amount_base env' t \<noteq> 0" using assms(3,7) by (simp add: to_executed_amount_base_def tracked_def)
  then have "review_close_order env' 0 ?y = ?y"
    unfolding review_close_order_def Let_def using assms(2) u by (simp add: log_call_def)
  then have "review_close_orders env' [0..<length (dx_close_orders x)] ?y = ?y" using assms(2) by (simp add: log_call_def)
  then show ?thesis
    using assms(1,2,5) r by (simp add: dca_control_task_def dca_control_shutdown_process_def)
qed

text \<open>
  A fill of an opening order that comes after the closing order keeps the shutdown going for ever:
  the two amounts do not match, and with a closing order at hand no other one is placed and no retry
  is counted.
\<close>

theorem late_fill_is_never_closed:
  assumes "ex_status x = SHUTTING_DOWN" and "dx_close_orders x = [t]" and "to_order t = Some a"
    and "to_order_id t \<notin> to_order_id ` set (dx_open_orders x)" and "ex_current_retries x < ex_max_retries x"
    and "\<forall>(env, env') \<in> set envs. \<not> py_isclose (dca_open_filled_amount env x) (dca_close_filled_amount env x)
       \<and> get_in_flight_order env' (to_order_id t) \<in> {None, Some a} \<and> o_executed_amount_base (env_orders env' a) \<noteq> 0"
  shows "\<exists>calls. foldl (\<lambda>y (env, env'). fst (dca_control_round env env' y)) x envs = x\<lparr>ex_calls := calls\<rparr>
    \<and> filter is_place calls = filter is_place (ex_calls x)"
  using assms(6)
proof (induction envs rule: rev_induct)
  case Nil
  show ?case by (intro exI [of _ "ex_calls x"]) simp
next
  case (snoc e envs)
  obtain env env' where e: "e = (env, env')" by (cases e)
  obtain calls where calls: "foldl (\<lambda>y (env, env'). fst (dca_control_round env env' y)) x envs = x\<lparr>ex_calls := calls\<rparr>"
    "filter is_place calls = filter is_place (ex_calls x)" using snoc by auto
  let ?y = "x\<lparr>ex_calls := calls\<rparr>"
  have "dca_control_task env env' ?y = (log_call (RequestOrderUpdate (to_order_id t)) ?y, None)"
    using assms(1-4) snoc.prems e by (intro shutdown_stuck [of _ t a]) (auto simp: dca_open_filled_amount_def dca_close_filled_amount_def)
  then have "fst (dca_control_round env env' ?y) = ?y \<or> fst (dca_control_round env env' ?y) = log_call (RequestOrderUpdate (to_order_id t)) ?y"
    using assms(5) by (auto simp: dca_control_round_def dca_evaluate_max_retries_def log_call_def)
  then show ?case using calls e by (auto simp: log_call_def)
qed

section \<open>A concrete executor\<close>

text \<open>Two levels of 40 USDC at 20 and 16.\<close>

definition demo_dca_config :: dca_config where
  "demo_dca_config =
     \<lparr>dc_id = ''d1'', dc_timestamp = 1, dc_controller_id = ''main'', dc_connector_name = ''binance'',
      dc_trading_pair = ''SOL-USDC'', dc_side = BUY, dc_leverage = 1, dc_amounts_quote = [40, 40], dc_prices = [20, 16],
      dc_take_profit = None, dc_stop_loss = Some (1 / 2), dc_trailing_stop = None, dc_time_limit = None,
      dc_mode = DCA_MAKER, dc_activation_bounds = None, dc_level_id = None\<rparr>"

definition demo_dca_part :: in_flight_order where
  "demo_dca_part = apply_trade demo_order (demo_trade ''t1'' 1)"

definition demo_dca :: dca_executor where
  "demo_dca = (case new_dca_executor (demo_env demo_dca_part 20) demo_dca_config 15 of Inr x \<Rightarrow> x)"

lemma demo_dca_new: "new_dca_executor (demo_env demo_dca_part 20) demo_dca_config 15 = Inr demo_dca"
proof -
  have "case_sum (\<lambda>_. False) (\<lambda>_. True) (new_dca_executor (demo_env demo_dca_part 20) demo_dca_config 15)" by code_simp
  then show ?thesis by (cases "new_dca_executor (demo_env demo_dca_part 20) demo_dca_config 15") (simp_all add: demo_dca_def)
qed

text \<open>The connector knows each order by its own object.\<close>

definition demo_dca_env :: "(address \<Rightarrow> in_flight_order) \<Rightarrow> exec_env" where
  "demo_dca_env ords = (demo_env demo_dca_part 20)\<lparr>env_orders := ords, env_fetch := (\<lambda>oid. Some (length oid))\<rparr>"

definition demo_dca_round :: "dca_executor \<Rightarrow> dca_executor" where
  "demo_dca_round x = fst (dca_control_task (demo_dca_env (\<lambda>_. demo_dca_part)) (demo_dca_env (\<lambda>_. demo_dca_part)) x)"

definition demo_dca_report :: "string \<Rightarrow> dca_executor \<Rightarrow> dca_executor" where
  "demo_dca_report oid x = dca_update_tracked_orders_with_order_id (demo_dca_env (\<lambda>_. demo_dca_part)) oid x"

definition dca_view :: "dca_executor \<Rightarrow> runnable_status \<times> tracked_order list \<times> tracked_order list \<times> strategy_call list \<times> dca_config \<times> nat" where
  "dca_view x = (ex_status x, dx_open_orders x, dx_close_orders x, ex_calls x, dx_config x, dx_n_levels x)"

text \<open>Both levels placed; then stopped, with the first order filled in part and reported.\<close>

definition demo_dca_opened :: dca_executor where
  "demo_dca_opened = demo_dca_round (demo_dca_round (executor_start demo_dca))"

definition demo_dca_stopped :: dca_executor where
  "demo_dca_stopped = demo_dca_report ''ooo'' (fst (dca_early_stop (demo_dca_env (\<lambda>_. demo_dca_part)) False
     (demo_dca_report ''o'' demo_dca_opened)))"

lemma demo_dca_opened_view:
  "dca_view demo_dca_opened = (RUNNING, [\<lparr>to_order_id = ''o'', to_order = None\<rparr>, \<lparr>to_order_id = ''oo'', to_order = None\<rparr>], [],
     [PlaceOrder ''o'' LIMIT BUY 2 (Fin 20) OPEN, PlaceOrder ''oo'' LIMIT BUY (5 / 2) (Fin 16) OPEN], demo_dca_config, 2)"
  by code_simp

lemma demo_dca_stopped_view:
  "dca_view demo_dca_stopped = (SHUTTING_DOWN, [\<lparr>to_order_id = ''o'', to_order = Some 1\<rparr>, \<lparr>to_order_id = ''oo'', to_order = None\<rparr>],
     [\<lparr>to_order_id = ''ooo'', to_order = Some 3\<rparr>],
     [PlaceOrder ''o'' LIMIT BUY 2 (Fin 20) OPEN, PlaceOrder ''oo'' LIMIT BUY (5 / 2) (Fin 16) OPEN, CancelOrder ''o'',
      PlaceOrder ''ooo'' MARKET SELL 1 NaN CLOSE], demo_dca_config, 2)"
  by code_simp

definition demo_dca_names :: "exec_env \<Rightarrow> bool" where
  "demo_dca_names env \<longleftrightarrow> (\<forall>n. env_order_id env n \<noteq> [])"

lemma demo_dca_env_names: "demo_dca_names (demo_dca_env ords)"
  by (simp add: demo_dca_names_def demo_dca_env_def demo_env_def)

lemma demo_dca_opened_reachable: "dca_reachable demo_dca_names demo_dca_config 15 demo_dca_opened"
proof -
  have step: "dca_reachable demo_dca_names demo_dca_config 15 (demo_dca_round x)"
    if "dca_reachable demo_dca_names demo_dca_config 15 x" "\<not> ex_terminated x" for x
    unfolding demo_dca_round_def by (intro dca_reachable.step [OF that(1)] dca_step.task demo_dca_env_names that(2))
  have "dca_reachable demo_dca_names demo_dca_config 15 (executor_start demo_dca)"
    by (rule dca_reachable.step [OF dca_reachable.new [OF demo_dca_new] dca_step.start])
  moreover have "\<not> ex_terminated (executor_start demo_dca)" "\<not> ex_terminated (demo_dca_round (executor_start demo_dca))" by code_simp+
  ultimately show ?thesis unfolding demo_dca_opened_def by (intro step)
qed

theorem dca_opens_next_level_witness:
  "\<exists>y. dca_step demo_dca_names (executor_start demo_dca) y \<and> length (filter is_opening (ex_calls y)) = 1"
proof -
  let ?x = "executor_start demo_dca" and ?y = "demo_dca_round (executor_start demo_dca)"
  have "\<not> ex_terminated ?x" by code_simp
  then have step: "dca_step demo_dca_names ?x ?y"
    unfolding demo_dca_round_def by (intro dca_step.task demo_dca_env_names)
  have "filter is_opening (ex_calls ?x) = []" "filter is_opening (ex_calls ?y) \<noteq> []" by code_simp+
  then have "length (filter is_opening (ex_calls ?y)) = 1" using dca_opens_next_level [OF step] by auto
  then show ?thesis using step by blast
qed

theorem dca_knows_its_orders_witness:
  "mset (placed_ids (ex_calls demo_dca_opened)) = {#''o'', ''oo''#}"
proof -
  have "mset (placed_ids (ex_calls demo_dca_opened))
    = mset (map to_order_id (dx_open_orders demo_dca_opened @ dx_close_orders demo_dca_opened @ dx_failed_orders demo_dca_opened))"
    by (rule dca_knows_its_orders [OF demo_dca_opened_reachable]) (simp add: demo_dca_names_def)
  moreover have "dx_failed_orders demo_dca_opened = []" by code_simp
  ultimately show ?thesis using demo_dca_opened_view by (simp add: dca_view_def)
qed

theorem kept_dca_position_is_lost_witness:
  "\<exists>y. dca_early_stop (demo_dca_env (\<lambda>_. demo_dca_part)) True demo_dca_opened = (y, None)
    \<and> ex_close_type y = Some POSITION_HOLD \<and> ex_held_position_orders y = []"
  using kept_dca_position_is_lost [OF demo_dca_opened_reachable, of "demo_dca_env (\<lambda>_. demo_dca_part)"] by blast

theorem failed_level_is_not_retried_witness:
  "\<exists>y. control_open_order_process (demo_env demo_dca_part 20) (dca_process_order_failed_event ''o'' demo_dca_opened) = (y, None)
    \<and> filter is_opening (ex_calls y) = [PlaceOrder ''o'' LIMIT BUY 2 (Fin 20) OPEN, PlaceOrder ''oo'' LIMIT BUY (5 / 2) (Fin 16) OPEN,
        PlaceOrder ''ooo'' LIMIT BUY (5 / 2) (Fin 16) OPEN]"
proof -
  let ?x = demo_dca_opened and ?t = "\<lparr>to_order_id = ''o'', to_order = None\<rparr>" and ?u = "\<lparr>to_order_id = ''oo'', to_order = None\<rparr>"
  have v: "dx_open_orders ?x = [?t, ?u]" "dx_close_orders ?x = []" "dx_config ?x = demo_dca_config" "dx_n_levels ?x = 2"
    "ex_calls ?x = [PlaceOrder ''o'' LIMIT BUY 2 (Fin 20) OPEN, PlaceOrder ''oo'' LIMIT BUY (5 / 2) (Fin 16) OPEN]"
    using demo_dca_opened_view by (simp_all add: dca_view_def)
  have n: "next_order_id (demo_env demo_dca_part 20) ?x = ''ooo''" by (simp add: next_order_id_def v placed_ids_def List.map_filter_def demo_env_def eval_nat_numeral)
  have w: "dca_within_activation_bounds ?x 16 20 = Inr True" "\<not> dca_is_expired (demo_env demo_dca_part 20) ?x"
    by (simp_all add: dca_within_activation_bounds_def dca_is_expired_def dca_end_time_def v demo_dca_config_def Let_def)
  show ?thesis
    using failed_level_is_not_retried [of ?x ?t "[?u]" 16 40 "demo_env demo_dca_part 20"] n w
    by (auto simp: v demo_dca_config_def py_nth_def dca_open_order_type_def demo_env_def)
qed

text \<open>The second order, which nobody cancelled, is filled after the stop.\<close>

theorem late_fill_is_never_closed_witness:
  "ex_status (foldl (\<lambda>y (env, env'). fst (dca_control_round env env' y)) (demo_dca_report ''oo'' demo_dca_stopped)
     (replicate 100 (demo_dca_env (\<lambda>_. demo_dca_part), demo_dca_env (\<lambda>_. demo_dca_part)))) = SHUTTING_DOWN"
proof -
  let ?x = "demo_dca_report ''oo'' demo_dca_stopped" and ?e = "demo_dca_env (\<lambda>_. demo_dca_part)" and ?t = "\<lparr>to_order_id = ''ooo'', to_order = Some 3\<rparr>"
  have v: "ex_status ?x = SHUTTING_DOWN" "dx_close_orders ?x = [?t]"
    "dx_open_orders ?x = [\<lparr>to_order_id = ''o'', to_order = Some 1\<rparr>, \<lparr>to_order_id = ''oo'', to_order = Some 2\<rparr>]"
    using demo_dca_stopped_view
    by (simp_all add: dca_view_def demo_dca_report_def dca_update_tracked_orders_with_order_id_def get_in_flight_order_def
        demo_dca_env_def dca_link_def)
  have "ex_current_retries ?x < ex_max_retries ?x" "o_executed_amount_base demo_dca_part = 1" by code_simp+
  moreover have "get_in_flight_order ?e ''ooo'' = Some 3" "env_orders ?e a = demo_dca_part" for a
    by (simp_all add: get_in_flight_order_def demo_dca_env_def)
  ultimately have "\<exists>calls. foldl (\<lambda>y (env, env'). fst (dca_control_round env env' y)) ?x (replicate 100 (?e, ?e)) = ?x\<lparr>ex_calls := calls\<rparr>"
    using late_fill_is_never_closed [of ?x ?t 3 "replicate 100 (?e, ?e)"] v
    by (auto simp: dca_open_filled_amount_def dca_close_filled_amount_def to_executed_amount_base_def tracked_def py_isclose_def)
  then show ?thesis using v(1) by auto
qed

end
