(* ===== verification/Arbitrage_Executor.thy ===== *)
theory Arbitrage_Executor
  imports Position_Executor
begin

text \<open>
  \<open>strategy_v2/executors/arbitrage_executor\<close>: one amount bought on one market and sold on another once
  their quotes promise enough. A round asks both markets for quotes and waits; what comes in between,
  a stop above all, comes between \<open>arb_begin_round\<close> and \<open>arb_finish_round\<close>. An order goes to the
  buying or the selling market by its side. The quote asked for to compute a fee is taken to be a price
  or an error. Display is not modelled.
\<close>

section \<open>Two markets\<close>

record connector_pair =
  cp_connector_name :: string
  cp_trading_pair :: string

text \<open>
  What a round reads of the two markets, by the side of the orders that go there: the connector, the
  quotes for the amount, whether it is an automated market maker, its network fee and the fee it
  computes for an order; and the rate oracle.
\<close>

record cross_env =
  ce_market :: "trade_type \<Rightarrow> exec_env"
  ce_quote :: "trade_type \<Rightarrow> decimal option py_result"
  ce_fee_quote :: "trade_type \<Rightarrow> decimal py_result"
  ce_is_amm :: "trade_type \<Rightarrow> bool"
  ce_network_fee :: "trade_type \<Rightarrow> token_amount"
  ce_get_fee :: "trade_type \<Rightarrow> order_type \<Rightarrow> decimal \<Rightarrow> trade_fee py_result"
  ce_rate :: rate_source

definition executor_tokens_interchangeable :: "string \<Rightarrow> string \<Rightarrow> bool" where
  "executor_tokens_interchangeable first_token second_token =
     (first_token = second_token
      \<or> list_ex (\<lambda>pair. first_token \<in> set pair \<and> second_token \<in> set pair)
          [[''WETH'', ''ETH''], [''WBTC'', ''BTC''], [''WBNB'', ''BNB''], [''WPOL'', ''POL''], [''WAVAX'', ''AVAX''],
           [''WONE'', ''ONE''], [''USDC'', ''USDC.E''], [''WBTC'', ''BTC''], [''USOL'', ''SOL''], [''UETH'', ''ETH''],
           [''UBTC'', ''BTC'']]
      \<or> contains_string ''USD'' first_token \<and> contains_string ''USD'' second_token)"

definition is_arbitrage_valid :: "string \<Rightarrow> string \<Rightarrow> bool py_result" where
  "is_arbitrage_valid pair1 pair2 =
     ebind (split_hb_trading_pair pair1) (\<lambda>(base1, _).
     ebind (split_hb_trading_pair pair2) (\<lambda>(base2, _). Inr (executor_tokens_interchangeable base1 base2)))"

definition without_wrapped :: "string \<Rightarrow> string" where
  "without_wrapped base = (case base of c # cs \<Rightarrow> if c = CHR ''W'' then cs else base | [] \<Rightarrow> [])"

section \<open>State\<close>

record arbitrage_config =
  ac_id :: string
  ac_timestamp :: decimal
  ac_controller_id :: string
  ac_buying_market :: connector_pair
  ac_selling_market :: connector_pair
  ac_order_amount :: decimal
  ac_min_profitability :: decimal
  ac_gas_conversion_price :: "decimal option"

text \<open>A tracked order that may have no id yet.\<close>

record arb_leg =
  leg_id :: "string option"
  leg_order :: "address option"

definition leg_tracked :: "arb_leg \<Rightarrow> tracked_order" where
  "leg_tracked l = \<lparr>to_order_id = (case leg_id l of None \<Rightarrow> [] | Some oid \<Rightarrow> oid), to_order = leg_order l\<rparr>"

record arbitrage_executor = executor_core +
  ar_config :: arbitrage_config
  ar_buy_order :: arb_leg
  ar_sell_order :: arb_leg
  ar_last_buy_price :: "decimal option"
  ar_last_sell_price :: "decimal option"
  ar_trade_pnl_pct :: decimal
  ar_last_tx_cost :: decimal
  ar_last_buy_fee :: decimal
  ar_last_sell_fee :: decimal
  ar_current_profitability :: decimal
  ar_quote_conversion_pair :: string
  ar_cumulative_failures :: int
  ar_quoting :: bool  \<comment> \<open>a round is waiting for quotes\<close>

definition new_arbitrage_executor :: "arbitrage_config \<Rightarrow> int \<Rightarrow> arbitrage_executor py_result" where
  "new_arbitrage_executor cfg max_retries =
     (let buying = cp_trading_pair (ac_buying_market cfg); selling = cp_trading_pair (ac_selling_market cfg) in
      ebind (is_arbitrage_valid buying selling) (\<lambda>valid.
      if \<not> valid then Inl ExternalError
      else ebind (split_hb_trading_pair buying) (\<lambda>(_, buy_quote).
           ebind (split_hb_trading_pair selling) (\<lambda>(_, sell_quote).
           Inr \<lparr>ex_status = NOT_STARTED, ex_close_type = None, ex_close_timestamp = None,
                ex_max_retries = max_retries, ex_current_retries = 0, ex_held_position_orders = [],
                ex_terminated = False, ex_registered = False, ex_calls = [],
                ar_config = cfg, ar_buy_order = \<lparr>leg_id = None, leg_order = None\<rparr>,
                ar_sell_order = \<lparr>leg_id = None, leg_order = None\<rparr>, ar_last_buy_price = Some 1,
                ar_last_sell_price = Some 1, ar_trade_pnl_pct = 0, ar_last_tx_cost = 0, ar_last_buy_fee = 0,
                ar_last_sell_fee = 0, ar_current_profitability = 0,
                ar_quote_conversion_pair = sell_quote @ ''-'' @ buy_quote, ar_cumulative_failures = 0,
                ar_quoting = False\<rparr>))))"

section \<open>Profitability\<close>

definition truthy_price :: "decimal option \<Rightarrow> bool" where
  "truthy_price p = (case p of None \<Rightarrow> False | Some x \<Rightarrow> x \<noteq> 0)"

definition quote_conversion_rate :: "cross_env \<Rightarrow> string \<Rightarrow> decimal py_result" where
  \<comment> \<open>None, which the oracle returns for an unknown pair, raises where it is multiplied\<close>
  "quote_conversion_rate env pair = (case ce_rate env pair of None \<Rightarrow> Inl TypeError | Some r \<Rightarrow> Inr r)"

definition update_trade_pnl_pct :: "cross_env \<Rightarrow> arbitrage_executor \<Rightarrow> arbitrage_executor outcome" where
  "update_trade_pnl_pct env x =
     try_value x (ce_quote env BUY) (\<lambda>buy.
     try_value x (ce_quote env SELL) (\<lambda>sell.
     let x1 = x\<lparr>ar_last_buy_price := buy, ar_last_sell_price := sell\<rparr> in
     if \<not> truthy_price buy \<or> \<not> truthy_price sell then (x1, Some ExternalError)
     else try_value x1 (quote_conversion_rate env (ar_quote_conversion_pair x1)) (\<lambda>rate.
          try_value x1 (dec_div (the sell * rate - the buy) (the buy)) (\<lambda>pct.
          (x1\<lparr>ar_trade_pnl_pct := pct\<rparr>, None)))))"

definition arb_tx_cost_in_asset :: "cross_env \<Rightarrow> arbitrage_config \<Rightarrow> trade_type \<Rightarrow> string \<Rightarrow> decimal py_result" where
  "arb_tx_cost_in_asset env cfg sd asset =
     ebind (ce_fee_quote env sd) (\<lambda>price.
     if ce_is_amm env sd
     then (case ac_gas_conversion_price cfg of
             None \<Rightarrow> Inl TypeError
           | Some conversion \<Rightarrow> dec_div (ta_amount (ce_network_fee env sd)) conversion)
     else ebind (ce_get_fee env sd MARKET price) (\<lambda>fee.
          fee_amount_in_token (ce_rate env) fee
            (cp_trading_pair (if sd = BUY then ac_buying_market cfg else ac_selling_market cfg)) price (ac_order_amount cfg) asset))"

definition update_tx_cost :: "cross_env \<Rightarrow> arbitrage_executor \<Rightarrow> arbitrage_executor outcome" where
  "update_tx_cost env x =
     (let cfg = ar_config x in
      try_value x (split_hb_trading_pair (cp_trading_pair (ac_buying_market cfg))) (\<lambda>(base, _).
      try_value x (arb_tx_cost_in_asset env cfg BUY (without_wrapped base)) (\<lambda>buy_fee.
      try_value x (arb_tx_cost_in_asset env cfg SELL (without_wrapped base)) (\<lambda>sell_fee.
      (x\<lparr>ar_last_buy_fee := buy_fee, ar_last_sell_fee := sell_fee, ar_last_tx_cost := buy_fee + sell_fee\<rparr>, None)))))"

section \<open>Orders\<close>

definition last_price_arg :: "decimal option \<Rightarrow> pdecimal" where
  \<comment> \<open>orders are placed after a round with two prices, so None does not occur\<close>
  "last_price_arg p = (case p of None \<Rightarrow> NaN | Some x \<Rightarrow> Fin x)"

definition place_buy_arbitrage_order :: "cross_env \<Rightarrow> arbitrage_executor \<Rightarrow> arbitrage_executor" where
  "place_buy_arbitrage_order env x =
     (let (x1, oid) = place_order (ce_market env BUY) MARKET BUY (ac_order_amount (ar_config x))
                        (last_price_arg (ar_last_buy_price x)) NIL x
      in x1\<lparr>ar_buy_order := (ar_buy_order x1)\<lparr>leg_id := Some oid\<rparr>\<rparr>)"

definition place_sell_arbitrage_order :: "cross_env \<Rightarrow> arbitrage_executor \<Rightarrow> arbitrage_executor" where
  "place_sell_arbitrage_order env x =
     (let (x1, oid) = place_order (ce_market env SELL) MARKET SELL (ac_order_amount (ar_config x))
                        (last_price_arg (ar_last_sell_price x)) NIL x
      in x1\<lparr>ar_sell_order := (ar_sell_order x1)\<lparr>leg_id := Some oid\<rparr>\<rparr>)"

definition execute_arbitrage :: "cross_env \<Rightarrow> arbitrage_executor \<Rightarrow> arbitrage_executor" where
  "execute_arbitrage env x =
     place_sell_arbitrage_order env (place_buy_arbitrage_order env (x\<lparr>ex_status := SHUTTING_DOWN\<rparr>))"

definition leg_filled :: "exec_env \<Rightarrow> arb_leg \<Rightarrow> bool" where
  "leg_filled env l = to_is_filled env (leg_tracked l)"

definition check_order_status :: "cross_env \<Rightarrow> arbitrage_executor \<Rightarrow> arbitrage_executor" where
  "check_order_status env x =
     (if leg_filled (ce_market env BUY) (ar_buy_order x) \<and> leg_filled (ce_market env SELL) (ar_sell_order x)
      then executor_stop (ce_market env BUY) (x\<lparr>ex_close_type := Some COMPLETED_CLOSE\<rparr>) else x)"

section \<open>Rounds\<close>

text \<open>A running executor asks for quotes. An exception of the rest of the round is logged there.\<close>

definition arb_begin_round :: "arbitrage_executor \<Rightarrow> arbitrage_executor" where
  "arb_begin_round x = (if ex_status x = RUNNING then x\<lparr>ar_quoting := True\<rparr> else x)"

definition arb_finish_round :: "cross_env \<Rightarrow> arbitrage_executor \<Rightarrow> arbitrage_executor" where
  "arb_finish_round env x =
     fst (obind (update_trade_pnl_pct env (x\<lparr>ar_quoting := False\<rparr>)) (\<lambda>x1.
          obind (update_tx_cost env x1) (\<lambda>x2.
          let amount = ac_order_amount (ar_config x2) in
          try_value x2 (dec_div (ar_trade_pnl_pct x2 * amount - ar_last_tx_cost x2) amount) (\<lambda>profitability.
          let x3 = x2\<lparr>ar_current_profitability := profitability\<rparr> in
          (if profitability > ac_min_profitability (ar_config x3) then execute_arbitrage env x3 else x3, None)))))"

definition arb_shutdown_round :: "cross_env \<Rightarrow> arbitrage_executor \<Rightarrow> arbitrage_executor" where
  "arb_shutdown_round env x =
     (if ex_status x \<noteq> SHUTTING_DOWN then x
      else if ar_cumulative_failures x > ex_max_retries x
      then executor_stop (ce_market env BUY) (x\<lparr>ex_close_type := Some FAILED_CLOSE\<rparr>)
      else check_order_status env x)"

definition arb_early_stop :: "cross_env \<Rightarrow> bool \<Rightarrow> arbitrage_executor \<Rightarrow> arbitrage_executor" where
  "arb_early_stop env keep_position x =
     executor_stop (ce_market env BUY) (x\<lparr>ex_close_type := Some (if keep_position then POSITION_HOLD else EARLY_STOP)\<rparr>)"

definition no_balance :: "cross_env \<Rightarrow> arbitrage_executor \<Rightarrow> arbitrage_executor" where
  "no_balance env x = executor_stop (ce_market env BUY) (x\<lparr>ex_close_type := Some INSUFFICIENT_BALANCE\<rparr>)"

definition arb_validate_sufficient_balance :: "cross_env \<Rightarrow> arbitrage_executor \<Rightarrow> arbitrage_executor outcome" where
  "arb_validate_sufficient_balance env x =
     (let cfg = ar_config x; amount = ac_order_amount cfg in
      try_value x (split_hb_trading_pair (cp_trading_pair (ac_selling_market cfg))) (\<lambda>(base, _).
      if amount > ex_get_available_balance (env_exchange (ce_market env SELL)) base then (no_balance env x, None)
      else try_value x (ce_quote env BUY) (\<lambda>price.
           try_value x (split_hb_trading_pair (cp_trading_pair (ac_buying_market cfg))) (\<lambda>(_, quote).
           case price of
             None \<Rightarrow> (x, Some TypeError)
           | Some p \<Rightarrow>
               (if amount * p > ex_get_available_balance (env_exchange (ce_market env BUY)) quote
                then (no_balance env x, None) else (x, None))))))"

section \<open>Events and results\<close>

definition arb_process_order_created_event :: "cross_env \<Rightarrow> string \<Rightarrow> arbitrage_executor \<Rightarrow> arbitrage_executor" where
  "arb_process_order_created_event env oid x =
     (if leg_id (ar_buy_order x) = Some oid
      then x\<lparr>ar_buy_order := (ar_buy_order x)\<lparr>leg_order := get_in_flight_order (ce_market env BUY) oid\<rparr>\<rparr>
      else if leg_id (ar_sell_order x) = Some oid
      then x\<lparr>ar_sell_order := (ar_sell_order x)\<lparr>leg_order := get_in_flight_order (ce_market env SELL) oid\<rparr>\<rparr>
      else x)"

definition arb_process_order_failed_event :: "cross_env \<Rightarrow> string \<Rightarrow> arbitrage_executor \<Rightarrow> arbitrage_executor" where
  "arb_process_order_failed_event env oid x =
     (if leg_id (ar_buy_order x) = Some oid
      then (place_buy_arbitrage_order env x)\<lparr>ar_cumulative_failures := ar_cumulative_failures x + 1\<rparr>
      else if leg_id (ar_sell_order x) = Some oid
      then (place_sell_arbitrage_order env x)\<lparr>ar_cumulative_failures := ar_cumulative_failures x + 1\<rparr>
      else x)"

definition arb_cum_fees_quote :: "cross_env \<Rightarrow> arbitrage_executor \<Rightarrow> decimal py_result" where
  "arb_cum_fees_quote env x =
     ebind (to_cum_fees_quote (ce_market env BUY) (leg_tracked (ar_buy_order x))) (\<lambda>a.
     ebind (to_cum_fees_quote (ce_market env SELL) (leg_tracked (ar_sell_order x))) (\<lambda>b. Inr (a + b)))"

definition leg_quote_amount :: "exec_env \<Rightarrow> arb_leg \<Rightarrow> decimal py_result" where
  "leg_quote_amount env l =
     (case tracked env (leg_tracked l) of
        None \<Rightarrow> Inl AttributeError
      | Some ord \<Rightarrow> ebind (to_average_executed_price env (leg_tracked l)) (\<lambda>p. Inr (o_executed_amount_base ord * p)))"

definition arb_net_pnl_quote :: "cross_env \<Rightarrow> arbitrage_executor \<Rightarrow> decimal py_result" where
  "arb_net_pnl_quote env x =
     (if ex_close_type x = Some COMPLETED_CLOSE
      then ebind (leg_quote_amount (ce_market env SELL) (ar_sell_order x)) (\<lambda>sold.
           ebind (leg_quote_amount (ce_market env BUY) (ar_buy_order x)) (\<lambda>bought.
           ebind (arb_cum_fees_quote env x) (\<lambda>fees. Inr (sold - bought - fees))))
      else Inr 0)"

definition arb_net_pnl_pct :: "cross_env \<Rightarrow> arbitrage_executor \<Rightarrow> decimal py_result" where
  "arb_net_pnl_pct env x =
     (if ex_is_closed x
      then (case tracked (ce_market env BUY) (leg_tracked (ar_buy_order x)) of
              None \<Rightarrow> Inr 0
            | Some ord \<Rightarrow>
                (if o_executed_amount_base ord > 0
                 then ebind (arb_net_pnl_quote env x) (\<lambda>pnl. dec_div pnl (o_executed_amount_base ord)) else Inr 0))
      else Inr 0)"

section \<open>All interleavings\<close>

inductive arb_step :: "arbitrage_executor \<Rightarrow> arbitrage_executor \<Rightarrow> bool" where
  start: "arb_step x (executor_start x)"
| on_start: "arb_step x (fst (arb_validate_sufficient_balance env x))"
| begin_round: "\<not> ex_terminated x \<Longrightarrow> \<not> ar_quoting x \<Longrightarrow> arb_step x (arb_begin_round x)"
| finish_round: "ar_quoting x \<Longrightarrow> arb_step x (arb_finish_round env x)"
| shutdown_round: "\<not> ex_terminated x \<Longrightarrow> \<not> ar_quoting x \<Longrightarrow> arb_step x (arb_shutdown_round env x)"
| retries: "arb_step x (evaluate_max_retries env x)"
| early_stop: "arb_step x (arb_early_stop cenv keep_position x)"
| created: "ex_registered x \<Longrightarrow> arb_step x (arb_process_order_created_event cenv oid x)"
| failed: "ex_registered x \<Longrightarrow> arb_step x (arb_process_order_failed_event cenv oid x)"

inductive arb_reachable :: "arbitrage_config \<Rightarrow> int \<Rightarrow> arbitrage_executor \<Rightarrow> bool" for cfg max_retries where
  new: "new_arbitrage_executor cfg max_retries = Inr x \<Longrightarrow> arb_reachable cfg max_retries x"
| step: "arb_reachable cfg max_retries x \<Longrightarrow> arb_step x y \<Longrightarrow> arb_reachable cfg max_retries y"

end
