(* ===== verification/XEMM_Executor.thy ===== *)
theory XEMM_Executor
  imports Arbitrage_Executor
begin

text \<open>
  \<open>strategy_v2/executors/xemm_executor\<close>: a limit order on the maker market, hedged by a market order on
  the taker market once it is complete. A round waits for quotes and fees between
  \<open>xemm_begin_round\<close> and \<open>xemm_finish_round\<close>; events and stops come in between. The maker's price is
  finite, as a limit order's is; a price NaN is treated as an error of the calculation. Display is not
  modelled.
\<close>

section \<open>Configuration and state\<close>

record xemm_config =
  xmc_id :: string
  xmc_timestamp :: decimal
  xmc_controller_id :: string
  xmc_buying_market :: connector_pair
  xmc_selling_market :: connector_pair
  xmc_maker_side :: trade_type
  xmc_order_amount :: decimal
  xmc_min_profitability :: decimal
  xmc_target_profitability :: decimal
  xmc_max_profitability :: decimal

record xemm_executor = executor_core +
  xm_config :: xemm_config
  xm_quote_conversion_pair :: string
  xm_taker_result_price :: decimal
  xm_maker_target_price :: decimal
  xm_tx_cost :: decimal
  xm_tx_cost_pct :: decimal
  xm_current_trade_profitability :: decimal
  xm_maker_order :: "tracked_order option"
  xm_taker_order :: "tracked_order option"
  xm_failed_orders :: "tracked_order list"
  xm_quoting :: bool  \<comment> \<open>a round is waiting for quotes\<close>

definition xemm_is_arbitrage_valid :: "string \<Rightarrow> string \<Rightarrow> bool py_result" where
  "xemm_is_arbitrage_valid pair1 pair2 =
     ebind (split_hb_trading_pair pair1) (\<lambda>(base1, _).
     ebind (split_hb_trading_pair pair2) (\<lambda>(base2, _). Inr (executor_tokens_interchangeable base1 base2)))"

definition maker_order_side :: "xemm_config \<Rightarrow> trade_type" where
  "maker_order_side cfg = (if xmc_maker_side cfg = BUY then BUY else SELL)"

definition taker_order_side :: "xemm_config \<Rightarrow> trade_type" where
  "taker_order_side cfg = (if xmc_maker_side cfg = BUY then SELL else BUY)"

definition xemm_market :: "xemm_config \<Rightarrow> trade_type \<Rightarrow> connector_pair" where
  "xemm_market cfg sd = (if sd = BUY then xmc_buying_market cfg else xmc_selling_market cfg)"

text \<open>The argument says whether the taker's connector supports market orders.\<close>

definition new_xemm_executor :: "cross_env \<Rightarrow> bool \<Rightarrow> xemm_config \<Rightarrow> int \<Rightarrow> xemm_executor py_result" where
  "new_xemm_executor env taker_supports_market cfg max_retries =
     ebind (xemm_is_arbitrage_valid (cp_trading_pair (xmc_buying_market cfg)) (cp_trading_pair (xmc_selling_market cfg))) (\<lambda>valid.
     if \<not> valid then Inl ExternalError
     else ebind (split_hb_trading_pair (cp_trading_pair (xemm_market cfg (maker_order_side cfg)))) (\<lambda>(_, maker_quote).
          ebind (split_hb_trading_pair (cp_trading_pair (xemm_market cfg (taker_order_side cfg)))) (\<lambda>(_, taker_quote).
          if \<not> ce_is_amm env (taker_order_side cfg) \<and> \<not> taker_supports_market then Inl ValueError
          else Inr \<lparr>ex_status = NOT_STARTED, ex_close_type = None, ex_close_timestamp = None,
                    ex_max_retries = max_retries, ex_current_retries = 0, ex_held_position_orders = [],
                    ex_terminated = False, ex_registered = False, ex_calls = [],
                    xm_config = cfg, xm_quote_conversion_pair = taker_quote @ ''-'' @ maker_quote,
                    xm_taker_result_price = 1, xm_maker_target_price = 1, xm_tx_cost = 1, xm_tx_cost_pct = 1,
                    xm_current_trade_profitability = 0, xm_maker_order = None, xm_taker_order = None,
                    xm_failed_orders = [], xm_quoting = False\<rparr>)))"

section \<open>Prices and costs\<close>

definition xemm_tx_cost_in_asset ::
  "cross_env \<Rightarrow> xemm_executor \<Rightarrow> trade_type \<Rightarrow> order_type \<Rightarrow> string \<Rightarrow> decimal py_result" where
  "xemm_tx_cost_in_asset env x sd ot asset =
     (if ce_is_amm env sd
      then (case ce_rate env (asset @ ''-'' @ ta_token (ce_network_fee env sd)) of
              None \<Rightarrow> Inr 0
            | Some conversion \<Rightarrow> dec_div (ta_amount (ce_network_fee env sd)) conversion)
      else ebind (ce_get_fee env sd ot (xm_taker_result_price x)) (\<lambda>fee.
           fee_amount_in_token (ce_rate env) fee (cp_trading_pair (xemm_market (xm_config x) sd)) (xm_taker_result_price x)
             (xmc_order_amount (xm_config x)) asset))"

definition update_tx_costs :: "cross_env \<Rightarrow> xemm_executor \<Rightarrow> xemm_executor outcome" where
  "update_tx_costs env x =
     (let cfg = xm_config x in
      try_value x (split_hb_trading_pair (cp_trading_pair (xmc_buying_market cfg))) (\<lambda>(base, _).
      try_value x (xemm_tx_cost_in_asset env x (taker_order_side cfg) MARKET (without_wrapped base)) (\<lambda>taker_fee.
      try_value x (xemm_tx_cost_in_asset env x (maker_order_side cfg) LIMIT (without_wrapped base)) (\<lambda>maker_fee.
      let x1 = x\<lparr>xm_tx_cost := taker_fee + maker_fee\<rparr> in
      try_value x1 (dec_div (xm_tx_cost x1) (xmc_order_amount cfg)) (\<lambda>pct. (x1\<lparr>xm_tx_cost_pct := pct\<rparr>, None))))))"

definition update_prices_and_tx_costs :: "cross_env \<Rightarrow> xemm_executor \<Rightarrow> xemm_executor outcome" where
  "update_prices_and_tx_costs env x =
     (let cfg = xm_config x in
      try_value x (ce_fee_quote env (taker_order_side cfg)) (\<lambda>price.
      obind (update_tx_costs env (x\<lparr>xm_taker_result_price := price\<rparr>)) (\<lambda>x1.
      let margin = xmc_target_profitability cfg; cost = xm_tx_cost_pct x1 in
      try_value x1 (dec_div price (if taker_order_side cfg = BUY then 1 - margin - cost else 1 + margin + cost)) (\<lambda>target.
      (x1\<lparr>xm_maker_target_price := target\<rparr>, None)))))"

definition xemm_conversion_rate :: "cross_env \<Rightarrow> string \<Rightarrow> decimal py_result" where
  "xemm_conversion_rate env pair = (case ce_rate env pair of None \<Rightarrow> Inl ValueError | Some r \<Rightarrow> Inr r)"

definition maker_limit_price :: "in_flight_order \<Rightarrow> decimal py_result" where
  "maker_limit_price ord =
     (case o_price ord of None \<Rightarrow> Inl TypeError | Some NaN \<Rightarrow> Inl InvalidOperation | Some (Fin p) \<Rightarrow> Inr p)"

definition trade_profitability :: "cross_env \<Rightarrow> xemm_executor \<Rightarrow> in_flight_order \<Rightarrow> decimal py_result" where
  "trade_profitability env x ord =
     ebind (xemm_conversion_rate env (xm_quote_conversion_pair x)) (\<lambda>rate.
     ebind (maker_limit_price ord) (\<lambda>maker_price.
     let taker = xm_taker_result_price x * rate in
     dec_div (if maker_order_side (xm_config x) = BUY then taker - maker_price else maker_price - taker) maker_price))"

text \<open>An error of the calculation is logged and leaves the last value.\<close>

definition update_current_trade_profitability :: "cross_env \<Rightarrow> xemm_executor \<Rightarrow> xemm_executor" where
  "update_current_trade_profitability env x =
     (case Option.bind (xm_maker_order x) (tracked (ce_market env (maker_order_side (xm_config x)))) of
        None \<Rightarrow> x\<lparr>xm_current_trade_profitability := 0\<rparr>
      | Some ord \<Rightarrow>
          (if \<not> is_open ord then x\<lparr>xm_current_trade_profitability := 0\<rparr>
           else case trade_profitability env x ord of
             Inl e \<Rightarrow> x
           | Inr p \<Rightarrow> x\<lparr>xm_current_trade_profitability := p\<rparr>))"

section \<open>Orders\<close>

definition create_maker_order :: "cross_env \<Rightarrow> xemm_executor \<Rightarrow> xemm_executor" where
  "create_maker_order env x =
     (let sd = maker_order_side (xm_config x);
          (x1, oid) = place_order (ce_market env sd) LIMIT sd (xmc_order_amount (xm_config x)) (Fin (xm_maker_target_price x)) NIL x
      in x1\<lparr>xm_maker_order := Some \<lparr>to_order_id = oid, to_order = None\<rparr>\<rparr>)"

definition place_taker_order :: "cross_env \<Rightarrow> xemm_executor \<Rightarrow> xemm_executor" where
  "place_taker_order env x =
     (let sd = taker_order_side (xm_config x);
          (x1, oid) = place_order (ce_market env sd) MARKET sd (xmc_order_amount (xm_config x)) NaN NIL x
      in x1\<lparr>xm_taker_order := Some \<lparr>to_order_id = oid, to_order = None\<rparr>\<rparr>)"

definition cancel_maker_order :: "xemm_executor \<Rightarrow> xemm_executor" where
  "cancel_maker_order x =
     (case xm_maker_order x of None \<Rightarrow> x | Some t \<Rightarrow> (log_call (CancelOrder (to_order_id t)) x)\<lparr>xm_maker_order := None\<rparr>)"

definition control_update_maker_order :: "cross_env \<Rightarrow> xemm_executor \<Rightarrow> xemm_executor" where
  "control_update_maker_order env x =
     (let x1 = update_current_trade_profitability env x;
          net = xm_current_trade_profitability x1 - xm_tx_cost_pct x1
      in if net < xmc_min_profitability (xm_config x1) then cancel_maker_order x1
         else if net > xmc_max_profitability (xm_config x1) then cancel_maker_order x1
         else x1)"

definition control_maker_order :: "cross_env \<Rightarrow> xemm_executor \<Rightarrow> xemm_executor" where
  "control_maker_order env x =
     (if xm_maker_order x = None then create_maker_order env x else control_update_maker_order env x)"

section \<open>Rounds\<close>

definition xemm_begin_round :: "xemm_executor \<Rightarrow> xemm_executor" where
  "xemm_begin_round x = (if ex_status x = RUNNING then x\<lparr>xm_quoting := True\<rparr> else x)"

definition xemm_finish_round :: "cross_env \<Rightarrow> xemm_executor \<Rightarrow> xemm_executor outcome" where
  "xemm_finish_round env x =
     obind (update_prices_and_tx_costs env (x\<lparr>xm_quoting := False\<rparr>)) (\<lambda>x1. (control_maker_order env x1, None))"

definition xemm_control_shutdown_process :: "cross_env \<Rightarrow> xemm_executor \<Rightarrow> xemm_executor outcome" where
  "xemm_control_shutdown_process env x =
     (case xm_maker_order x of
        None \<Rightarrow> (x, Some AttributeError)
      | Some m \<Rightarrow>
          (if \<not> to_is_done (ce_market env (maker_order_side (xm_config x))) m then (x, None)
           else case xm_taker_order x of
             None \<Rightarrow> (x, Some AttributeError)
           | Some t \<Rightarrow>
               (if to_is_done (ce_market env (taker_order_side (xm_config x))) t
                then (executor_stop (ce_market env BUY) x, None) else (x, None))))"

definition xemm_shutdown_round :: "cross_env \<Rightarrow> xemm_executor \<Rightarrow> xemm_executor outcome" where
  "xemm_shutdown_round env x =
     (if ex_status x = SHUTTING_DOWN then xemm_control_shutdown_process env x else (x, None))"

definition xemm_early_stop :: "cross_env \<Rightarrow> bool \<Rightarrow> xemm_executor \<Rightarrow> xemm_executor" where
  "xemm_early_stop env keep_position x =
     (let x1 = (case xm_maker_order x of
                  None \<Rightarrow> x
                | Some t \<Rightarrow> if to_is_open (ce_market env (maker_order_side (xm_config x))) t
                           then log_call (CancelOrder (to_order_id t)) x else x)
      in executor_stop (ce_market env BUY) (x1\<lparr>ex_close_type := Some (if keep_position then POSITION_HOLD else EARLY_STOP)\<rparr>))"

definition xemm_validate_sufficient_balance :: "cross_env \<Rightarrow> xemm_executor \<Rightarrow> xemm_executor outcome" where
  "xemm_validate_sufficient_balance env x =
     (let cfg = xm_config x; maker = maker_order_side cfg; taker = taker_order_side cfg;
          mid = env_price (ce_market env maker) MidPrice;
          candidate = (\<lambda>sd is_maker ot. new_order_candidate (cp_trading_pair (xemm_market cfg sd)) is_maker ot sd
                         (xmc_order_amount cfg) mid False Spot);
          adjust = (\<lambda>sd c. ebind (adjust_candidates (if is_perpetual_connector (cp_connector_name (xemm_market cfg sd)) then PerpetualChecker else SpotChecker)
                         (env_exchange (ce_market env sd)) True [] [c]) (\<lambda>(_, cs). py_nth cs 0))
      in try_value x (adjust maker (candidate maker True LIMIT)) (\<lambda>m.
         try_value x (adjust taker (candidate taker False MARKET)) (\<lambda>t.
         if oc_amount m = 0 \<or> oc_amount t = 0
         then (executor_stop (ce_market env BUY) (x\<lparr>ex_close_type := Some INSUFFICIENT_BALANCE\<rparr>), None)
         else (x, None))))"

section \<open>Events and results\<close>

definition is_order_of :: "string \<Rightarrow> tracked_order option \<Rightarrow> bool" where
  "is_order_of oid t = (case t of None \<Rightarrow> False | Some t' \<Rightarrow> to_order_id t' = oid)"

definition xemm_process_order_created_event :: "cross_env \<Rightarrow> string \<Rightarrow> xemm_executor \<Rightarrow> xemm_executor" where
  "xemm_process_order_created_event env oid x =
     (if is_order_of oid (xm_maker_order x)
      then x\<lparr>xm_maker_order := map_option (\<lambda>t. t\<lparr>to_order := get_in_flight_order (ce_market env (maker_order_side (xm_config x))) oid\<rparr>)
                                 (xm_maker_order x)\<rparr>
      else if is_order_of oid (xm_taker_order x)
      then x\<lparr>xm_taker_order := map_option (\<lambda>t. t\<lparr>to_order := get_in_flight_order (ce_market env (taker_order_side (xm_config x))) oid\<rparr>)
                                 (xm_taker_order x)\<rparr>
      else x)"

definition xemm_process_order_completed_event :: "cross_env \<Rightarrow> string \<Rightarrow> xemm_executor \<Rightarrow> xemm_executor" where
  "xemm_process_order_completed_event env oid x =
     (if is_order_of oid (xm_maker_order x) then (place_taker_order env x)\<lparr>ex_status := SHUTTING_DOWN\<rparr> else x)"

definition xemm_process_order_failed_event :: "cross_env \<Rightarrow> string \<Rightarrow> xemm_executor \<Rightarrow> xemm_executor" where
  "xemm_process_order_failed_event env oid x =
     (if is_order_of oid (xm_maker_order x)
      then x\<lparr>xm_failed_orders := xm_failed_orders x @ [the (xm_maker_order x)], xm_maker_order := None,
             ex_current_retries := ex_current_retries x + 1\<rparr>
      else if is_order_of oid (xm_taker_order x)
      then place_taker_order env (x\<lparr>xm_failed_orders := xm_failed_orders x @ [the (xm_taker_order x)],
             ex_current_retries := ex_current_retries x + 1\<rparr>)
      else x)"

definition xemm_cum_fees_quote :: "cross_env \<Rightarrow> xemm_executor \<Rightarrow> decimal py_result" where
  "xemm_cum_fees_quote env x =
     (case (xm_maker_order x, xm_taker_order x) of
        (Some m, Some t) \<Rightarrow>
          (if ex_is_closed x
           then ebind (to_cum_fees_quote (ce_market env (maker_order_side (xm_config x))) m) (\<lambda>a.
                ebind (to_cum_fees_quote (ce_market env (taker_order_side (xm_config x))) t) (\<lambda>b. Inr (a + b)))
           else Inr 0)
      | _ \<Rightarrow> Inr 0)"

definition order_quote_amount :: "exec_env \<Rightarrow> tracked_order \<Rightarrow> decimal py_result" where
  "order_quote_amount env t = ebind (to_average_executed_price env t) (\<lambda>p. Inr (to_executed_amount_base env t * p))"

definition xemm_net_pnl_quote :: "cross_env \<Rightarrow> xemm_executor \<Rightarrow> decimal py_result" where
  "xemm_net_pnl_quote env x =
     (let me = ce_market env (maker_order_side (xm_config x)); te = ce_market env (taker_order_side (xm_config x)) in
      case (xm_maker_order x, xm_taker_order x) of
        (Some m, Some t) \<Rightarrow>
          (if ex_is_closed x \<and> to_is_done me m \<and> to_is_done te t
           then ebind (order_quote_amount me m) (\<lambda>maker_pnl. ebind (order_quote_amount te t) (\<lambda>taker_pnl.
                ebind (xemm_cum_fees_quote env x) (\<lambda>fees. Inr (taker_pnl - maker_pnl - fees))))
           else Inr 0)
      | _ \<Rightarrow> Inr 0)"

definition xemm_net_pnl_pct :: "cross_env \<Rightarrow> xemm_executor \<Rightarrow> decimal py_result" where
  "xemm_net_pnl_pct env x =
     ebind (xemm_net_pnl_quote env x) (\<lambda>pnl. dec_div pnl (xmc_order_amount (xm_config x)))"

section \<open>All interleavings\<close>

inductive xemm_step :: "xemm_executor \<Rightarrow> xemm_executor \<Rightarrow> bool" where
  start: "xemm_step x (executor_start x)"
| on_start: "xemm_step x (fst (xemm_validate_sufficient_balance env x))"
| begin_round: "\<not> ex_terminated x \<Longrightarrow> \<not> xm_quoting x \<Longrightarrow> xemm_step x (xemm_begin_round x)"
| finish_round: "xm_quoting x \<Longrightarrow> xemm_step x (fst (xemm_finish_round env x))"
| shutdown_round: "\<not> ex_terminated x \<Longrightarrow> \<not> xm_quoting x \<Longrightarrow> xemm_step x (fst (xemm_shutdown_round env x))"
| retries: "xemm_step x (evaluate_max_retries env' x)"
| early_stop: "xemm_step x (xemm_early_stop env keep_position x)"
| created: "ex_registered x \<Longrightarrow> xemm_step x (xemm_process_order_created_event env oid x)"
| completed: "ex_registered x \<Longrightarrow> xemm_step x (xemm_process_order_completed_event env oid x)"
| failed: "ex_registered x \<Longrightarrow> xemm_step x (xemm_process_order_failed_event env oid x)"

inductive xemm_reachable :: "xemm_config \<Rightarrow> int \<Rightarrow> xemm_executor \<Rightarrow> bool" for cfg max_retries where
  new: "new_xemm_executor env supported cfg max_retries = Inr x \<Longrightarrow> xemm_reachable cfg max_retries x"
| step: "xemm_reachable cfg max_retries x \<Longrightarrow> xemm_step x y \<Longrightarrow> xemm_reachable cfg max_retries y"

end
