(* ===== verification/Arbitrage_Safety.thy ===== *)
theory Arbitrage_Safety
  imports Arbitrage_Executor Executor_Scenario
begin

text \<open>
  The arbitrage executor: both legs are placed once, for the configured amount, when the quotes promise
  enough; and what a stop or a failing leg leaves behind.
\<close>

section \<open>Rounds\<close>

definition legs_of :: "cross_env \<Rightarrow> arbitrage_executor \<Rightarrow> decimal \<Rightarrow> decimal \<Rightarrow> strategy_call list" where
  "legs_of env x buy sell =
     [PlaceOrder (next_order_id (ce_market env BUY) x) MARKET BUY (ac_order_amount (ar_config x)) (Fin buy) NIL,
      PlaceOrder (env_order_id (ce_market env SELL) (Suc (length (placed_ids (ex_calls x))))) MARKET SELL
        (ac_order_amount (ar_config x)) (Fin sell) NIL]"

text \<open>A step that places no order and keeps what the orders are counted by.\<close>

definition arb_keeps :: "arbitrage_executor \<Rightarrow> arbitrage_executor \<Rightarrow> bool" where
  "arb_keeps x y \<longleftrightarrow> ex_calls y = ex_calls x \<and> ar_config y = ar_config x \<and> ar_cumulative_failures y = ar_cumulative_failures x
     \<and> leg_id (ar_buy_order y) = leg_id (ar_buy_order x) \<and> leg_id (ar_sell_order y) = leg_id (ar_sell_order x)"

lemma arb_keeps_refl [simp]: "arb_keeps x x"
  by (simp add: arb_keeps_def)

lemma pnl_update_result:
  assumes "update_trade_pnl_pct env x = (x1, e)"
  shows "arb_keeps x x1 \<and> ex_status x1 = ex_status x \<and> ar_quoting x1 = ar_quoting x
    \<and> (e = None \<longrightarrow> (\<exists>buy sell rate. ce_quote env BUY = Inr (Some buy) \<and> ce_quote env SELL = Inr (Some sell)
        \<and> ce_rate env (ar_quote_conversion_pair x) = Some rate \<and> ar_last_buy_price x1 = Some buy \<and> ar_last_sell_price x1 = Some sell
        \<and> ar_trade_pnl_pct x1 = (sell * rate - buy) / buy))"
proof (cases "ce_quote env BUY")
  case buy: (Inr buy)
  show ?thesis
  proof (cases "ce_quote env SELL")
    case (Inr sell)
    then show ?thesis
      using assms buy
      by (cases buy; cases sell; cases "ce_rate env (ar_quote_conversion_pair x)")
        (auto simp: update_trade_pnl_pct_def Let_def truthy_price_def quote_conversion_rate_def arb_keeps_def split: if_splits)
  qed (use assms buy in \<open>auto simp: update_trade_pnl_pct_def\<close>)
qed (use assms in \<open>auto simp: update_trade_pnl_pct_def\<close>)

lemma tx_cost_result:
  assumes "update_tx_cost env x = (x1, e)"
  shows "arb_keeps x x1 \<and> ex_status x1 = ex_status x \<and> ar_quoting x1 = ar_quoting x \<and> ar_last_buy_price x1 = ar_last_buy_price x
    \<and> ar_last_sell_price x1 = ar_last_sell_price x \<and> ar_trade_pnl_pct x1 = ar_trade_pnl_pct x"
proof (cases "split_hb_trading_pair (cp_trading_pair (ac_buying_market (ar_config x)))")
  case (Inr p)
  then show ?thesis
    using assms
    by (cases p; cases "arb_tx_cost_in_asset env (ar_config x) BUY (without_wrapped (fst p))";
        cases "arb_tx_cost_in_asset env (ar_config x) SELL (without_wrapped (fst p))")
      (auto simp: update_tx_cost_def Let_def arb_keeps_def)
qed (use assms in \<open>auto simp: update_tx_cost_def Let_def\<close>)

lemma execute_arbitrage_result:
  assumes "ar_last_buy_price x = Some buy" and "ar_last_sell_price x = Some sell"
  shows "ex_calls (execute_arbitrage env x) = ex_calls x @ legs_of env x buy sell"
    "leg_id (ar_buy_order (execute_arbitrage env x)) = Some (next_order_id (ce_market env BUY) x)"
    "leg_id (ar_sell_order (execute_arbitrage env x)) = Some (env_order_id (ce_market env SELL) (Suc (length (placed_ids (ex_calls x)))))"
    "ex_status (execute_arbitrage env x) = SHUTTING_DOWN" "ar_quoting (execute_arbitrage env x) = ar_quoting x"
    "ar_cumulative_failures (execute_arbitrage env x) = ar_cumulative_failures x" "ar_config (execute_arbitrage env x) = ar_config x"
  using assms
  by (simp_all add: execute_arbitrage_def place_buy_arbitrage_order_def place_sell_arbitrage_order_def place_order_def log_call_def
      legs_of_def last_price_arg_def next_order_id_def Let_def)

definition arb_traded :: "cross_env \<Rightarrow> arbitrage_executor \<Rightarrow> arbitrage_executor \<Rightarrow> decimal \<Rightarrow> decimal \<Rightarrow> decimal \<Rightarrow> bool" where
  "arb_traded env x y buy sell rate \<longleftrightarrow> ce_quote env BUY = Inr (Some buy) \<and> ce_quote env SELL = Inr (Some sell)
     \<and> ce_rate env (ar_quote_conversion_pair x) = Some rate \<and> ex_calls y = ex_calls x @ legs_of env x buy sell
     \<and> ((sell * rate - buy) / buy * ac_order_amount (ar_config x) - ar_last_tx_cost y) / ac_order_amount (ar_config x)
         > ac_min_profitability (ar_config x)
     \<and> leg_id (ar_buy_order y) = Some (next_order_id (ce_market env BUY) x)
     \<and> leg_id (ar_sell_order y) = Some (env_order_id (ce_market env SELL) (Suc (length (placed_ids (ex_calls x)))))
     \<and> ex_status y = SHUTTING_DOWN \<and> ar_cumulative_failures y = ar_cumulative_failures x \<and> ar_config y = ar_config x"

lemma finish_round_cases:
  "\<not> ar_quoting (arb_finish_round env x) \<and>
   (arb_keeps x (arb_finish_round env x) \<and> ex_status (arb_finish_round env x) = ex_status x
    \<or> (\<exists>buy sell rate. arb_traded env x (arb_finish_round env x) buy sell rate))"
proof -
  let ?x0 = "x\<lparr>ar_quoting := False\<rparr>" and ?a = "ac_order_amount (ar_config x)"
  obtain x1 e1 where p: "update_trade_pnl_pct env ?x0 = (x1, e1)" by (cases "update_trade_pnl_pct env ?x0")
  note k1 = pnl_update_result [OF p]
  obtain x2 e2 where t: "update_tx_cost env x1 = (x2, e2)" by (cases "update_tx_cost env x1")
  note k2 = tx_cost_result [OF t]
  show ?thesis
  proof (cases "e1 = None \<and> e2 = None")
    case False
    then show ?thesis using k1 k2 by (cases e1; cases e2) (auto simp: arb_finish_round_def p t arb_keeps_def)
  next
    case True
    obtain buy sell rate where q: "ce_quote env BUY = Inr (Some buy)" "ce_quote env SELL = Inr (Some sell)"
      "ce_rate env (ar_quote_conversion_pair x) = Some rate" "ar_last_buy_price x2 = Some buy" "ar_last_sell_price x2 = Some sell"
      "ar_trade_pnl_pct x2 = (sell * rate - buy) / buy" "arb_keeps x x2" "\<not> ar_quoting x2" "ex_status x2 = ex_status x"
      using k1 k2 True by (auto simp: arb_keeps_def)
    then have c: "ar_config x2 = ar_config x" by (simp add: arb_keeps_def)
    let ?m = "dec_div (ar_trade_pnl_pct x2 * ?a - ar_last_tx_cost x2) ?a"
    have f: "arb_finish_round env x = fst (try_value x2 ?m (\<lambda>profitability.
        (if profitability > ac_min_profitability (ar_config x) then execute_arbitrage env (x2\<lparr>ar_current_profitability := profitability\<rparr>)
         else x2\<lparr>ar_current_profitability := profitability\<rparr>, None)))"
      using True by (simp add: arb_finish_round_def p t c Let_def)
    show ?thesis
    proof (cases "\<exists>r. ?m = Inr r \<and> r > ac_min_profitability (ar_config x)")
      case False
      then show ?thesis using f q(7-9) by (cases ?m) (auto simp: arb_keeps_def)
    next
      case True
      then obtain r where r: "?m = Inr r" "r > ac_min_profitability (ar_config x)" by blast
      let ?x3 = "x2\<lparr>ar_current_profitability := r\<rparr>"
      have fin: "arb_finish_round env x = execute_arbitrage env ?x3" using f r by simp
      have "ar_last_tx_cost (arb_finish_round env x) = ar_last_tx_cost x2"
        unfolding fin by (simp add: execute_arbitrage_def place_buy_arbitrage_order_def place_sell_arbitrage_order_def place_order_def log_call_def Let_def)
      moreover have "r = (ar_trade_pnl_pct x2 * ?a - ar_last_tx_cost x2) / ?a" using r(1) by (auto simp: dec_div_eq_Inr_iff)
      moreover have "legs_of env ?x3 buy sell = legs_of env x buy sell" using q(7) by (simp add: legs_of_def next_order_id_def arb_keeps_def)
      moreover have "next_order_id (ce_market env BUY) ?x3 = next_order_id (ce_market env BUY) x" "ex_calls ?x3 = ex_calls x"
        using q(7) by (simp_all add: next_order_id_def arb_keeps_def)
      ultimately have "arb_traded env x (arb_finish_round env x) buy sell rate"
        using execute_arbitrage_result [of ?x3 buy sell env] q r(2) c unfolding fin arb_traded_def by (simp add: arb_keeps_def)
      then show ?thesis using execute_arbitrage_result(5) [of ?x3 buy sell env] q(4,5,8) unfolding fin by auto
    qed
  qed
qed

section \<open>Both legs, once\<close>

fun order_of_side :: "trade_type \<Rightarrow> strategy_call \<Rightarrow> string list" where
  "order_of_side sd (PlaceOrder oid ot sd' amount price pos) = (if sd' = sd then [oid] else [])"
| "order_of_side sd c = []"

definition ids_of_side :: "trade_type \<Rightarrow> strategy_call list \<Rightarrow> string list" where
  "ids_of_side sd cs = concat (map (order_of_side sd) cs)"

lemma ids_of_side_simps [simp]:
  "ids_of_side sd [] = []" "ids_of_side sd (c # cs) = order_of_side sd c @ ids_of_side sd cs"
  "ids_of_side sd (cs @ ds) = ids_of_side sd cs @ ids_of_side sd ds"
  by (simp_all add: ids_of_side_def)

definition arb_order :: "arbitrage_config \<Rightarrow> strategy_call \<Rightarrow> bool" where
  "arb_order cfg c \<longleftrightarrow> (\<exists>oid sd price. c = PlaceOrder oid MARKET sd (ac_order_amount cfg) price NIL)"

text \<open>
  Either nothing has been placed, or a buy leg and a sell leg have been, and after them one order for
  each failure; the executor follows the last order of each side. Then no round is waiting and the
  executor is not running any more.
\<close>

definition both_legs :: "arbitrage_config \<Rightarrow> arbitrage_executor \<Rightarrow> bool" where
  "both_legs cfg x \<longleftrightarrow> (\<exists>b s pb ps rest.
     ex_calls x = PlaceOrder b MARKET BUY (ac_order_amount cfg) pb NIL # PlaceOrder s MARKET SELL (ac_order_amount cfg) ps NIL # rest
     \<and> list_all (arb_order cfg) rest \<and> int (length rest) = ar_cumulative_failures x)
   \<and> leg_id (ar_buy_order x) = Some (last (ids_of_side BUY (ex_calls x)))
   \<and> leg_id (ar_sell_order x) = Some (last (ids_of_side SELL (ex_calls x)))"

definition legs_accounted :: "arbitrage_config \<Rightarrow> arbitrage_executor \<Rightarrow> bool" where
  "legs_accounted cfg x \<longleftrightarrow> ar_config x = cfg \<and> (ex_calls x = [] \<and> leg_id (ar_buy_order x) = None \<and> leg_id (ar_sell_order x) = None
        \<and> ar_cumulative_failures x = 0
     \<or> both_legs cfg x \<and> \<not> ar_quoting x \<and> ex_status x \<notin> {NOT_STARTED, RUNNING})"

lemma both_legs_keeps: "both_legs cfg x \<Longrightarrow> arb_keeps x y \<Longrightarrow> both_legs cfg y"
  unfolding both_legs_def arb_keeps_def by metis

lemma both_legs_cong:
  "both_legs cfg (executor_start x) = both_legs cfg x" "both_legs cfg (x\<lparr>ar_quoting := b\<rparr>) = both_legs cfg x"
  by (simp_all add: both_legs_def executor_start_def Let_def)

lemma both_legs_traded:
  assumes "arb_traded env x y buy sell rate" and "ex_calls x = []" and "ar_cumulative_failures x = 0"
  shows "both_legs (ar_config x) y"
  using assms by (simp add: both_legs_def arb_traded_def legs_of_def)

lemma both_legs_replaced:
  assumes "both_legs cfg x" and "ar_config x = cfg"
  shows "both_legs cfg (arb_process_order_failed_event env oid x)"
proof -
  obtain b s pb ps rest where c: "ex_calls x = PlaceOrder b MARKET BUY (ac_order_amount cfg) pb NIL
      # PlaceOrder s MARKET SELL (ac_order_amount cfg) ps NIL # rest"
    and rest: "list_all (arb_order cfg) rest" "int (length rest) = ar_cumulative_failures x"
    using assms(1) unfolding both_legs_def by blast
  have "ids_of_side BUY (ex_calls x) \<noteq> []" "ids_of_side SELL (ex_calls x) \<noteq> []" by (simp_all add: c)
  then show ?thesis
    using assms rest
    by (simp add: arb_process_order_failed_event_def place_buy_arbitrage_order_def place_sell_arbitrage_order_def
        place_order_def log_call_def Let_def both_legs_def c arb_order_def)
qed

lemma legs_accounted_keeps:
  "legs_accounted cfg x \<Longrightarrow> arb_keeps x y \<Longrightarrow> (ar_quoting y \<longrightarrow> ar_quoting x) \<Longrightarrow> ex_status y = ex_status x \<or> ex_status y = TERMINATED \<Longrightarrow>
   legs_accounted cfg y"
  using both_legs_keeps [of cfg x y] by (auto simp: legs_accounted_def arb_keeps_def)

lemma arb_step_accounted:
  assumes "arb_step x y" and "legs_accounted cfg x"
  shows "legs_accounted cfg y"
  using assms(1)
proof cases
  case start
  then show ?thesis using assms(2) both_legs_cong(1) [of cfg x] by (auto simp: executor_start_def legs_accounted_def Let_def)
next
  case (on_start env)
  have stop: "legs_accounted cfg (no_balance env x)"
    using assms(2) by (rule legs_accounted_keeps) (simp_all add: no_balance_def arb_keeps_def executor_stop_def Let_def)
  let ?P = "\<lambda>o'. legs_accounted cfg (fst o')"
  have t: "legs_accounted cfg (fst (try_value x m f))" if "\<And>v. legs_accounted cfg (fst (f v))" for m :: "'v py_result" and f
    using that assms(2) by (cases m) simp_all
  have "legs_accounted cfg (fst (arb_validate_sufficient_balance env x))"
    unfolding arb_validate_sufficient_balance_def Let_def case_prod_beta
    using assms(2) stop by (auto simp: try_value_def split: sum.split option.split)
  then show ?thesis using on_start by simp
next
  case begin_round
  then show ?thesis using assms(2) by (auto simp: arb_begin_round_def legs_accounted_def both_legs_cong)
next
  case (finish_round env)
  have fresh: "ex_calls x = []" "ar_cumulative_failures x = 0" "ar_config x = cfg" using assms(2) finish_round by (auto simp: legs_accounted_def)
  from finish_round_cases [of env x] show ?thesis
  proof (elim conjE disjE)
    assume "\<not> ar_quoting (arb_finish_round env x)" "arb_keeps x (arb_finish_round env x)" "ex_status (arb_finish_round env x) = ex_status x"
    then show ?thesis using finish_round legs_accounted_keeps [OF assms(2)] by blast
  next
    assume "\<not> ar_quoting (arb_finish_round env x)" "\<exists>buy sell rate. arb_traded env x (arb_finish_round env x) buy sell rate"
    then show ?thesis
      using finish_round(1) fresh both_legs_traded [OF _ fresh(1,2)] by (auto simp: legs_accounted_def arb_traded_def)
  qed
next
  case (shutdown_round env)
  then show ?thesis
    using legs_accounted_keeps [OF assms(2)]
    by (auto simp: arb_shutdown_round_def check_order_status_def arb_keeps_def executor_stop_def Let_def)
next
  case (retries env)
  then show ?thesis
    using legs_accounted_keeps [OF assms(2)] assms(2) by (auto simp: evaluate_max_retries_def arb_keeps_def executor_stop_def Let_def)
next
  case (early_stop env k)
  then show ?thesis
    using legs_accounted_keeps [OF assms(2)] by (auto simp: arb_early_stop_def arb_keeps_def executor_stop_def Let_def)
next
  case (created env oid)
  then show ?thesis
    using legs_accounted_keeps [OF assms(2)] assms(2) by (auto simp: arb_process_order_created_event_def arb_keeps_def)
next
  case (failed env oid)
  show ?thesis
  proof (cases "both_legs cfg x")
    case True
    then show ?thesis
      using failed(1) assms(2) both_legs_replaced [of cfg x env oid]
      by (auto simp: legs_accounted_def arb_process_order_failed_event_def place_buy_arbitrage_order_def
          place_sell_arbitrage_order_def place_order_def log_call_def Let_def)
  next
    case False
    then show ?thesis using failed(1) assms(2) by (auto simp: legs_accounted_def arb_process_order_failed_event_def)
  qed
qed

lemma arb_reachable_accounted: "arb_reachable cfg r x \<Longrightarrow> legs_accounted cfg x"
proof (induction rule: arb_reachable.induct)
  case (new x)
  then show ?case by (auto simp: new_arbitrage_executor_def ebind_eq_Inr_iff legs_accounted_def Let_def split: if_splits prod.splits)
next
  case (step x y)
  then show ?case using arb_step_accounted by blast
qed

text \<open>
  C29: In every reachable state an executor has placed either nothing, or one buy leg and one sell leg,
  both market orders for the configured amount, and after them one such order for each failure it has
  counted; it follows the last order of each side. No round trades twice, whatever comes between the
  quotes and the orders.
\<close>

theorem arbitrage_legs_placed_once:
  assumes "arb_reachable cfg r x"
  shows "ex_calls x = [] \<or> (\<exists>b s pb ps rest.
      ex_calls x = PlaceOrder b MARKET BUY (ac_order_amount cfg) pb NIL # PlaceOrder s MARKET SELL (ac_order_amount cfg) ps NIL # rest
      \<and> (\<forall>c \<in> set rest. \<exists>oid sd price. c = PlaceOrder oid MARKET sd (ac_order_amount cfg) price NIL)
      \<and> int (length rest) = ar_cumulative_failures x)
    \<and> leg_id (ar_buy_order x) = Some (last (ids_of_side BUY (ex_calls x)))
    \<and> leg_id (ar_sell_order x) = Some (last (ids_of_side SELL (ex_calls x)))"
  using arb_reachable_accounted [OF assms] unfolding legs_accounted_def both_legs_def arb_order_def list_all_iff by blast

text \<open>
  C28: A step of a reachable executor places orders in two cases only. A round that had asked for quotes
  places the first two: a buy and a sell market order for the configured amount, at the prices quoted,
  and only when the gain on the amount, at those prices and the rate between the quote assets, less the
  costs it has computed, exceeds the minimal profitability. Or the failure of the order a leg follows,
  which is replaced by one market order of the same side and amount, at the price quoted last and
  without asking whether the trade still pays, and counted.
\<close>

theorem arbitrage_trades_only_for_profit:
  assumes "arb_reachable cfg r x" and "arb_step x y" and "ex_calls y \<noteq> ex_calls x"
  shows "(\<exists>env buy sell rate b s. y = arb_finish_round env x \<and> ar_quoting x
      \<and> ce_quote env BUY = Inr (Some buy) \<and> ce_quote env SELL = Inr (Some sell) \<and> ce_rate env (ar_quote_conversion_pair x) = Some rate
      \<and> ex_calls x = [] \<and> ex_calls y = [PlaceOrder b MARKET BUY (ac_order_amount cfg) (Fin buy) NIL, PlaceOrder s MARKET SELL (ac_order_amount cfg) (Fin sell) NIL]
      \<and> ((sell * rate - buy) / buy * ac_order_amount cfg - ar_last_tx_cost y) / ac_order_amount cfg > ac_min_profitability cfg)
    \<or> (\<exists>env oid new sd. y = arb_process_order_failed_event env oid x \<and> ex_registered x
      \<and> leg_id (if sd = BUY then ar_buy_order x else ar_sell_order x) = Some oid \<and> oid = last (ids_of_side sd (ex_calls x))
      \<and> ex_calls y = ex_calls x @ [PlaceOrder new MARKET sd (ac_order_amount cfg)
           (last_price_arg (if sd = BUY then ar_last_buy_price x else ar_last_sell_price x)) NIL]
      \<and> ar_cumulative_failures y = ar_cumulative_failures x + 1)"
proof -
  have acc: "legs_accounted cfg x" by (rule arb_reachable_accounted [OF assms(1)])
  show ?thesis
    using assms(2)
  proof cases
    case (finish_round env)
    have fresh: "ex_calls x = []" "ar_config x = cfg" using acc finish_round by (auto simp: legs_accounted_def both_legs_def)
    have "\<exists>buy sell rate. arb_traded env x y buy sell rate"
      using finish_round_cases [of env x] assms(3) finish_round by (auto simp: arb_keeps_def)
    then show ?thesis using fresh finish_round unfolding arb_traded_def legs_of_def by force
  next
    case (failed env oid)
    then consider "leg_id (ar_buy_order x) = Some oid" | "leg_id (ar_buy_order x) \<noteq> Some oid" "leg_id (ar_sell_order x) = Some oid"
      using assms(3) by (auto simp: arb_process_order_failed_event_def split: if_splits)
    then show ?thesis
    proof cases
      case 1
      moreover have "oid = last (ids_of_side BUY (ex_calls x))" using acc 1 by (auto simp: legs_accounted_def both_legs_def)
      ultimately show ?thesis
        using failed acc
        by (intro disjI2 exI [of _ env] exI [of _ oid] exI [of _ "next_order_id (ce_market env BUY) x"] exI [of _ BUY])
          (simp add: arb_process_order_failed_event_def place_buy_arbitrage_order_def place_order_def log_call_def next_order_id_def
            Let_def legs_accounted_def)
    next
      case 2
      moreover have "oid = last (ids_of_side SELL (ex_calls x))" using acc 2 by (auto simp: legs_accounted_def both_legs_def)
      ultimately show ?thesis
        using failed acc
        by (intro disjI2 exI [of _ env] exI [of _ oid] exI [of _ "next_order_id (ce_market env SELL) x"] exI [of _ SELL])
          (simp add: arb_process_order_failed_event_def place_sell_arbitrage_order_def place_order_def log_call_def next_order_id_def
            Let_def legs_accounted_def)
    qed
  qed (use assms(3) in \<open>auto simp: executor_start_def arb_begin_round_def arb_shutdown_round_def check_order_status_def executor_stop_def
      evaluate_max_retries_def arb_early_stop_def arb_process_order_created_event_def arb_validate_sufficient_balance_def no_balance_def
      try_value_def Let_def split: if_splits sum.splits option.splits prod.splits\<close>)
qed

section \<open>Stops and failures\<close>

definition stopped :: "close_type \<Rightarrow> decimal \<Rightarrow> arbitrage_executor \<Rightarrow> arbitrage_executor" where
  "stopped ct t x = x\<lparr>ex_status := TERMINATED, ex_close_type := Some ct, ex_close_timestamp := Some t, ex_terminated := True, ex_registered := False\<rparr>"

lemma stopped_simps [simp]:
  "ar_config (stopped ct t x) = ar_config x" "ex_calls (stopped ct t x) = ex_calls x" "ar_trade_pnl_pct (stopped ct t x) = ar_trade_pnl_pct x"
  "ar_last_tx_cost (stopped ct t x) = ar_last_tx_cost x" "ar_quote_conversion_pair (stopped ct t x) = ar_quote_conversion_pair x"
  "stopped ct t (x\<lparr>ar_quoting := b\<rparr>) = (stopped ct t x)\<lparr>ar_quoting := b\<rparr>"
  "stopped ct t (x\<lparr>ar_current_profitability := p\<rparr>) = (stopped ct t x)\<lparr>ar_current_profitability := p\<rparr>"
  by (simp_all add: stopped_def)

lemma pnl_update_stopped:
  "update_trade_pnl_pct env (stopped ct t x) = (stopped ct t (fst (update_trade_pnl_pct env x)), snd (update_trade_pnl_pct env x))"
proof (cases "ce_quote env BUY")
  case buy: (Inr buy)
  show ?thesis
  proof (cases "ce_quote env SELL")
    case (Inr sell)
    then show ?thesis
      using buy by (cases "quote_conversion_rate env (ar_quote_conversion_pair x)"; cases buy)
        (simp_all add: update_trade_pnl_pct_def Let_def stopped_def try_value_def dec_div_def)
  qed (simp add: update_trade_pnl_pct_def buy)
qed (simp add: update_trade_pnl_pct_def)

lemma tx_cost_stopped:
  "update_tx_cost env (stopped ct t x) = (stopped ct t (fst (update_tx_cost env x)), snd (update_tx_cost env x))"
proof (cases "split_hb_trading_pair (cp_trading_pair (ac_buying_market (ar_config x)))")
  case (Inr p)
  then show ?thesis
    by (cases p; cases "arb_tx_cost_in_asset env (ar_config x) BUY (without_wrapped (fst p))";
        cases "arb_tx_cost_in_asset env (ar_config x) SELL (without_wrapped (fst p))")
      (simp_all add: update_tx_cost_def Let_def stopped_def)
qed (simp add: update_tx_cost_def Let_def)

lemma execute_stopped:
  "ex_calls (execute_arbitrage env (stopped ct t x)) = ex_calls (execute_arbitrage env x)"
  "ex_terminated (execute_arbitrage env (stopped ct t x))" "\<not> ex_registered (execute_arbitrage env (stopped ct t x))"
  by (simp_all add: execute_arbitrage_def place_buy_arbitrage_order_def place_sell_arbitrage_order_def place_order_def log_call_def
      next_order_id_def stopped_def Let_def)

lemma finish_stopped:
  "ex_calls (arb_finish_round env (stopped ct t x)) = ex_calls (arb_finish_round env x)
    \<and> ex_terminated (arb_finish_round env (stopped ct t x)) \<and> \<not> ex_registered (arb_finish_round env (stopped ct t x))"
proof -
  have st: "ex_terminated (stopped ct t y)" "\<not> ex_registered (stopped ct t y)" for y by (simp_all add: stopped_def)
  obtain x1 e1 where p: "update_trade_pnl_pct env (x\<lparr>ar_quoting := False\<rparr>) = (x1, e1)" by (cases "update_trade_pnl_pct env (x\<lparr>ar_quoting := False\<rparr>)")
  obtain x2 e2 where c: "update_tx_cost env x1 = (x2, e2)" by (cases "update_tx_cost env x1")
  have p': "update_trade_pnl_pct env ((stopped ct t x)\<lparr>ar_quoting := False\<rparr>) = (stopped ct t x1, e1)"
    using pnl_update_stopped [of env ct t "x\<lparr>ar_quoting := False\<rparr>"] p by simp
  have c': "update_tx_cost env (stopped ct t x1) = (stopped ct t x2, e2)" using tx_cost_stopped [of env ct t x1] c by simp
  have ex: "execute_arbitrage env ((stopped ct t x2)\<lparr>ar_current_profitability := r\<rparr>) = execute_arbitrage env (stopped ct t (x2\<lparr>ar_current_profitability := r\<rparr>))"
    for r by simp
  show ?thesis
    unfolding arb_finish_round_def p p' Let_def
    by (cases e1; cases e2; cases "dec_div (ar_trade_pnl_pct x2 * ac_order_amount (ar_config x2) - ar_last_tx_cost x2) (ac_order_amount (ar_config x2))")
      (simp_all add: c c' st ex execute_stopped del: stopped_simps(7))
qed

text \<open>
  A stop that comes while a round waits for its quotes does not prevent the trade: the round
  resumes, places what it would have placed and puts the executor back into its shutdown, although its
  control loop has ended and its events are not registered, so nobody follows the orders.
\<close>

theorem stopped_arbitrage_still_trades:
  assumes "ar_quoting x" and "ex_status x \<noteq> TERMINATED" and trades: "ex_calls (arb_finish_round env x) \<noteq> ex_calls x"
  shows "\<exists>y. arb_finish_round env (arb_early_stop env0 keep_position x) = y \<and> ex_calls y = ex_calls (arb_finish_round env x)
    \<and> ex_status y = SHUTTING_DOWN \<and> ex_terminated y \<and> \<not> ex_registered y"
proof -
  let ?s = "arb_early_stop env0 keep_position x"
  let ?ct = "if keep_position then POSITION_HOLD else EARLY_STOP" and ?t = "env_now (ce_market env0 BUY)"
  have s: "?s = stopped ?ct ?t x" using assms(2) by (simp add: arb_early_stop_def executor_stop_def stopped_def Let_def)
  have "ex_calls (arb_finish_round env ?s) \<noteq> ex_calls ?s" using finish_stopped [of env ?ct ?t x] trades by (simp add: s)
  then have "ex_status (arb_finish_round env ?s) = SHUTTING_DOWN"
    using finish_round_cases [of env ?s] by (auto simp: arb_keeps_def arb_traded_def)
  then show ?thesis using finish_stopped [of env ?ct ?t x] by (simp add: s)
qed

text \<open>
  An arbitrage whose failures exceed the limit ends as \<open>FAILED\<close> without cancelling or undoing
  anything, and reports no profit or loss, whatever its other leg has bought or sold.
\<close>

theorem failed_arbitrage_reports_nothing:
  assumes "ex_status x = SHUTTING_DOWN" and "ar_cumulative_failures x > ex_max_retries x"
  shows "\<exists>y. arb_shutdown_round env x = y \<and> ex_status y = TERMINATED \<and> ex_close_type y = Some FAILED_CLOSE
    \<and> ex_calls y = ex_calls x \<and> (\<forall>env'. arb_net_pnl_quote env' y = Inr 0)"
  using assms by (simp add: arb_shutdown_round_def arb_net_pnl_quote_def)

section \<open>A concrete executor\<close>

text \<open>Three SOL, bought at 20 and sold at 22, with a network fee of a hundredth of a SOL a swap.\<close>

definition demo_arb_config :: arbitrage_config where
  "demo_arb_config =
     \<lparr>ac_id = ''a1'', ac_timestamp = 1, ac_controller_id = ''main'',
      ac_buying_market = \<lparr>cp_connector_name = ''jupiter'', cp_trading_pair = ''SOL-USDC''\<rparr>,
      ac_selling_market = \<lparr>cp_connector_name = ''orca'', cp_trading_pair = ''SOL-USDC''\<rparr>,
      ac_order_amount = 3, ac_min_profitability = 1 / 100, ac_gas_conversion_price = Some 10\<rparr>"

definition demo_cross :: "in_flight_order \<Rightarrow> cross_env" where
  "demo_cross ord =
     \<lparr>ce_market = (\<lambda>_. demo_env ord 20), ce_quote = (\<lambda>sd. Inr (Some (if sd = BUY then 20 else 22))),
      ce_fee_quote = (\<lambda>_. Inr 20), ce_is_amm = (\<lambda>_. True), ce_network_fee = (\<lambda>_. \<lparr>ta_token = ''USDC'', ta_amount = 1 / 10\<rparr>),
      ce_get_fee = (\<lambda>_ _ _. Inl ExternalError), ce_rate = (\<lambda>_. Some 1)\<rparr>"

definition demo_arb :: arbitrage_executor where
  "demo_arb = (case new_arbitrage_executor demo_arb_config 3 of Inr x \<Rightarrow> x)"

definition demo_arb_quoting :: arbitrage_executor where
  "demo_arb_quoting = arb_begin_round (executor_start demo_arb)"

definition demo_arb_traded :: arbitrage_executor where
  "demo_arb_traded = arb_process_order_failed_event (demo_cross demo_entry) ''oo'' (arb_finish_round (demo_cross demo_entry) demo_arb_quoting)"

lemma demo_arb_quoting_reachable: "arb_reachable demo_arb_config 3 demo_arb_quoting"
proof -
  have "case_sum (\<lambda>_. False) (\<lambda>_. True) (new_arbitrage_executor demo_arb_config 3)" by code_simp
  then have "new_arbitrage_executor demo_arb_config 3 = Inr demo_arb"
    by (cases "new_arbitrage_executor demo_arb_config 3") (simp_all add: demo_arb_def)
  then have "arb_reachable demo_arb_config 3 (executor_start demo_arb)"
    by (rule arb_reachable.step [OF arb_reachable.new arb_step.start])
  moreover have "\<not> ex_terminated (executor_start demo_arb)" "\<not> ar_quoting (executor_start demo_arb)" by code_simp+
  ultimately show ?thesis
    unfolding demo_arb_quoting_def using arb_reachable.step arb_step.begin_round by blast
qed

lemma demo_arb_reachable: "arb_reachable demo_arb_config 3 demo_arb_traded"
proof -
  have "ar_quoting demo_arb_quoting" by code_simp
  then have "arb_reachable demo_arb_config 3 (arb_finish_round (demo_cross demo_entry) demo_arb_quoting)"
    using arb_reachable.step [OF demo_arb_quoting_reachable] arb_step.finish_round by blast
  moreover have "ex_registered (arb_finish_round (demo_cross demo_entry) demo_arb_quoting)" by code_simp
  ultimately show ?thesis unfolding demo_arb_traded_def using arb_reachable.step arb_step.failed by blast
qed

lemma demo_arb_calls:
  "ex_calls (arb_finish_round (demo_cross demo_entry) demo_arb_quoting) =
     [PlaceOrder ''o'' MARKET BUY 3 (Fin 20) NIL, PlaceOrder ''oo'' MARKET SELL 3 (Fin 22) NIL]" "ex_calls demo_arb_quoting = []"
  by code_simp+

theorem arbitrage_trades_only_for_profit_witness:
  "\<exists>y buy sell rate b s. y = arb_finish_round (demo_cross demo_entry) demo_arb_quoting
    \<and> ex_calls y = [PlaceOrder b MARKET BUY 3 (Fin buy) NIL, PlaceOrder s MARKET SELL 3 (Fin sell) NIL]
    \<and> ((sell * rate - buy) / buy * 3 - ar_last_tx_cost y) / 3 > 1 / 100"
proof -
  define y where "y = arb_finish_round (demo_cross demo_entry) demo_arb_quoting"
  have "ar_quoting demo_arb_quoting" by code_simp
  then have step: "arb_step demo_arb_quoting y" unfolding y_def by (rule arb_step.finish_round)
  have c: "ac_order_amount demo_arb_config = 3" "ac_min_profitability demo_arb_config = 1 / 100" by (simp_all add: demo_arb_config_def)
  have calls: "length (ex_calls y) = 2" "ex_calls demo_arb_quoting = []" using demo_arb_calls by (simp_all add: y_def)
  then have "ex_calls y \<noteq> ex_calls demo_arb_quoting" by auto
  from arbitrage_trades_only_for_profit [OF demo_arb_quoting_reachable step this, unfolded c calls(2)] calls(1) show ?thesis
    unfolding y_def [symmetric] by (elim disjE exE conjE) (blast, simp)
qed

theorem arbitrage_legs_placed_once_witness:
  "\<exists>c1 c2 c3. ex_calls demo_arb_traded = [c1, c2, c3] \<and> ar_cumulative_failures demo_arb_traded = 1
    \<and> leg_id (ar_sell_order demo_arb_traded) = Some (last (ids_of_side SELL (ex_calls demo_arb_traded)))"
proof -
  have "ex_calls demo_arb_traded \<noteq> []" "ar_cumulative_failures demo_arb_traded = 1" by code_simp+
  then show ?thesis using arbitrage_legs_placed_once [OF demo_arb_reachable] by (auto simp: length_Suc_conv)
qed

theorem stopped_arbitrage_still_trades_witness:
  "\<exists>y. arb_finish_round (demo_cross demo_entry) (arb_early_stop (demo_cross demo_entry) False demo_arb_quoting) = y
    \<and> length (ex_calls y) = 2 \<and> \<not> ex_registered y"
proof -
  have "ar_quoting demo_arb_quoting" "ex_status demo_arb_quoting \<noteq> TERMINATED" by code_simp+
  then show ?thesis
    using stopped_arbitrage_still_trades [of demo_arb_quoting "demo_cross demo_entry" "demo_cross demo_entry" False] demo_arb_calls by auto
qed

theorem failed_arbitrage_reports_nothing_witness:
  "arb_net_pnl_quote (demo_cross demo_entry) (arb_shutdown_round (demo_cross demo_entry) (demo_arb_traded\<lparr>ar_cumulative_failures := 4\<rparr>)) = Inr 0"
proof -
  have "ex_status demo_arb_traded = SHUTTING_DOWN" "ex_max_retries demo_arb_traded = 3" by code_simp+
  then show ?thesis
    using failed_arbitrage_reports_nothing [of "demo_arb_traded\<lparr>ar_cumulative_failures := 4\<rparr>" "demo_cross demo_entry"] by auto
qed

end
