(* ===== verification/XEMM_Safety.thy ===== *)
theory XEMM_Safety
  imports XEMM_Executor Arbitrage_Safety
begin

text \<open>
  The XEMM executor: the target price, when it hedges, how a filled maker order escapes the hedge, and
  what it reports.
\<close>

section \<open>The target price\<close>

text \<open>Updating prices and costs touches no order and no call.\<close>

definition xemm_keeps :: "xemm_executor \<Rightarrow> xemm_executor \<Rightarrow> bool" where
  "xemm_keeps x y \<longleftrightarrow> ex_calls y = ex_calls x \<and> xm_config y = xm_config x \<and> ex_status y = ex_status x
     \<and> xm_maker_order y = xm_maker_order x \<and> xm_taker_order y = xm_taker_order x \<and> xm_failed_orders y = xm_failed_orders x
     \<and> xm_quoting y = xm_quoting x \<and> ex_close_type y = ex_close_type x
     \<and> xm_quote_conversion_pair y = xm_quote_conversion_pair x"

lemma tx_costs_keep:
  "xemm_keeps x (fst (update_tx_costs env x)) \<and> xm_taker_result_price (fst (update_tx_costs env x)) = xm_taker_result_price x"
  unfolding update_tx_costs_def Let_def case_prod_beta
  by (intro try_value_inv [of "\<lambda>y. xemm_keeps x y \<and> xm_taker_result_price y = xm_taker_result_price x"]) (simp_all add: xemm_keeps_def)

lemma prices_keep: "xemm_keeps x (fst (update_prices_and_tx_costs env x))"
proof -
  have "xemm_keeps x (fst (update_tx_costs env (x\<lparr>xm_taker_result_price := p\<rparr>)))" for p
    using tx_costs_keep [of "x\<lparr>xm_taker_result_price := p\<rparr>" env] by (simp add: xemm_keeps_def)
  then show ?thesis
    unfolding update_prices_and_tx_costs_def Let_def
    by (intro try_value_inv [of "xemm_keeps x"] obind_fst_inv [of "xemm_keeps x"]) (simp_all add: xemm_keeps_def)
qed

text \<open>
  An order resting at the price the executor asks for meets the target: with the same quote and
  costs and a rate of one, its profitability less the costs is exactly the target.
\<close>

theorem maker_target_price_meets_target:
  assumes up: "update_prices_and_tx_costs env x = (y, None)" and "xm_taker_result_price y \<noteq> 0"
    and "xemm_conversion_rate env (xm_quote_conversion_pair y) = Inr 1" and "maker_limit_price ord = Inr (xm_maker_target_price y)"
  shows "trade_profitability env y ord = Inr (xmc_target_profitability (xm_config y) + xm_tx_cost_pct y)"
proof -
  let ?c = "xm_config x"
  obtain price where price: "ce_fee_quote env (taker_order_side ?c) = Inr price"
    using up by (cases "ce_fee_quote env (taker_order_side ?c)") (simp_all add: update_prices_and_tx_costs_def Let_def)
  obtain x1 e where t: "update_tx_costs env (x\<lparr>xm_taker_result_price := price\<rparr>) = (x1, e)"
    by (cases "update_tx_costs env (x\<lparr>xm_taker_result_price := price\<rparr>)")
  have e: "e = None" using up by (cases e) (simp_all add: update_prices_and_tx_costs_def Let_def price t)
  let ?d = "if taker_order_side ?c = BUY then 1 - xmc_target_profitability ?c - xm_tx_cost_pct x1
    else 1 + xmc_target_profitability ?c + xm_tx_cost_pct x1"
  have k: "xm_config x1 = ?c \<and> xm_taker_result_price x1 = price"
    using tx_costs_keep [of "x\<lparr>xm_taker_result_price := price\<rparr>" env] by (simp add: t xemm_keeps_def)
  obtain target where d: "dec_div price ?d = Inr target"
    using up by (cases "dec_div price ?d") (simp_all add: update_prices_and_tx_costs_def Let_def price t e)
  then have "y = x1\<lparr>xm_maker_target_price := target\<rparr>"
    using up by (simp add: update_prices_and_tx_costs_def Let_def price t e)
  moreover have "?d \<noteq> 0" "target = price / ?d" using d by (auto simp: dec_div_eq_Inr_iff)
  ultimately show ?thesis
    using assms(2-4) k
    by (auto simp: trade_profitability_def maker_order_side_def taker_order_side_def field_simps split: if_splits)
qed

section \<open>When it hedges\<close>

fun places_on :: "trade_type \<Rightarrow> strategy_call \<Rightarrow> bool" where
  "places_on sd (PlaceOrder oid ot sd' amount price action) = (sd' = sd)"
| "places_on sd _ = False"

definition no_hedge :: "xemm_executor \<Rightarrow> xemm_executor \<Rightarrow> bool" where
  "no_hedge x y \<longleftrightarrow> filter (places_on (taker_order_side (xm_config x))) (ex_calls y)
     = filter (places_on (taker_order_side (xm_config x))) (ex_calls x)"

lemma keeps_no_hedge: "xemm_keeps x y \<Longrightarrow> no_hedge x y"
  by (simp add: xemm_keeps_def no_hedge_def)

lemma sides_differ: "maker_order_side cfg \<noteq> taker_order_side cfg"
  by (simp add: maker_order_side_def taker_order_side_def)

lemma cancel_maker_no_hedge: "no_hedge x (cancel_maker_order x)"
  by (simp add: no_hedge_def cancel_maker_order_def log_call_def split: option.split)

lemma profitability_keeps:
  "ex_calls (update_current_trade_profitability env x) = ex_calls x" "xm_config (update_current_trade_profitability env x) = xm_config x"
  "ex_status (update_current_trade_profitability env x) = ex_status x"
  "xm_maker_order (update_current_trade_profitability env x) = xm_maker_order x"
  "xm_taker_order (update_current_trade_profitability env x) = xm_taker_order x"
  "xm_tx_cost_pct (update_current_trade_profitability env x) = xm_tx_cost_pct x"
  by (auto simp: update_current_trade_profitability_def split: option.split sum.split)

lemma control_maker_no_hedge: "no_hedge x (control_maker_order env x)"
proof (cases "xm_maker_order x = None")
  case True
  then show ?thesis
    using sides_differ [of "xm_config x"]
    by (auto simp: control_maker_order_def create_maker_order_def place_order_def log_call_def no_hedge_def Let_def
        maker_order_side_def taker_order_side_def)
next
  case False
  then obtain t where t: "xm_maker_order x = Some t" by blast
  let ?x1 = "update_current_trade_profitability env x"
  have "no_hedge x (cancel_maker_order ?x1)" using cancel_maker_no_hedge [of ?x1] by (simp add: no_hedge_def profitability_keeps)
  moreover have "no_hedge x ?x1" by (simp add: no_hedge_def profitability_keeps)
  ultimately show ?thesis by (simp add: control_maker_order_def control_update_maker_order_def t Let_def)
qed

lemma finish_round_no_hedge: "no_hedge x (fst (xemm_finish_round env x))"
proof -
  let ?x0 = "x\<lparr>xm_quoting := False\<rparr>"
  have k: "xemm_keeps ?x0 (fst (update_prices_and_tx_costs env ?x0))" by (rule prices_keep)
  obtain x1 e where p: "update_prices_and_tx_costs env ?x0 = (x1, e)" by (cases "update_prices_and_tx_costs env ?x0")
  show ?thesis
    using k control_maker_no_hedge [of x1 env] by (cases e) (auto simp: xemm_finish_round_def p xemm_keeps_def no_hedge_def)
qed

lemma validate_no_hedge: "no_hedge x (fst (xemm_validate_sufficient_balance env x))"
  unfolding xemm_validate_sufficient_balance_def Let_def
  by (intro try_value_inv [of "no_hedge x"]) (simp_all add: no_hedge_def)

lemma hedge_placed:
  "\<exists>new. ex_calls (place_taker_order env x) = ex_calls x @ [PlaceOrder new MARKET (taker_order_side (xm_config x)) (xmc_order_amount (xm_config x)) NaN NIL]
    \<and> xm_taker_order (place_taker_order env x) = Some \<lparr>to_order_id = new, to_order = None\<rparr>"
  by (auto simp: place_taker_order_def place_order_def log_call_def Let_def taker_order_side_def)

text \<open>
  C30: The executor sends an order to its taker market on two events only: the completion of its current
  maker order, which puts it into its shutdown, and the failure of its current hedge, which is counted
  and noted. It is one market order for the configured amount, on the other side, and becomes
  the current hedge; no round, stop or other event, the completion of the hedge among them, sends one.
\<close>

theorem hedge_follows_maker_completion:
  assumes "xemm_step x y" and "filter (places_on (taker_order_side (xm_config x))) (ex_calls y)
    \<noteq> filter (places_on (taker_order_side (xm_config x))) (ex_calls x)"
  shows "ex_registered x \<and> (\<exists>new. ex_calls y = ex_calls x @ [PlaceOrder new MARKET (taker_order_side (xm_config x)) (xmc_order_amount (xm_config x)) NaN NIL]
      \<and> xm_taker_order y = Some \<lparr>to_order_id = new, to_order = None\<rparr>)
    \<and> ((\<exists>env oid. y = xemm_process_order_completed_event env oid x \<and> is_order_of oid (xm_maker_order x)
          \<and> ex_status y = SHUTTING_DOWN \<and> ex_current_retries y = ex_current_retries x)
      \<or> (\<exists>env oid t. y = xemm_process_order_failed_event env oid x \<and> xm_taker_order x = Some t \<and> to_order_id t = oid
          \<and> \<not> is_order_of oid (xm_maker_order x) \<and> xm_failed_orders y = xm_failed_orders x @ [t]
          \<and> ex_status y = ex_status x \<and> ex_current_retries y = ex_current_retries x + 1))"
proof -
  have hedge: "\<not> no_hedge x y" using assms(2) by (simp add: no_hedge_def)
  from assms(1) show ?thesis
  proof cases
    case (on_start env)
    then show ?thesis using hedge validate_no_hedge by blast
  next
    case (finish_round env)
    then show ?thesis using hedge finish_round_no_hedge by blast
  next
    case (shutdown_round env)
    then show ?thesis
      using hedge by (auto simp: xemm_shutdown_round_def xemm_control_shutdown_process_def no_hedge_def split: option.splits if_splits)
  next
    case (early_stop env k)
    then show ?thesis using hedge by (auto simp: xemm_early_stop_def no_hedge_def log_call_def Let_def split: option.splits if_splits)
  next
    case (completed env oid)
    then have m: "is_order_of oid (xm_maker_order x)"
      using hedge by (auto simp: xemm_process_order_completed_event_def no_hedge_def split: if_splits)
    then have y: "y = (place_taker_order env x)\<lparr>ex_status := SHUTTING_DOWN\<rparr>"
      using completed by (simp add: xemm_process_order_completed_event_def)
    then have "ex_status y = SHUTTING_DOWN \<and> ex_current_retries y = ex_current_retries x"
      by (simp add: place_taker_order_def place_order_def log_call_def Let_def)
    moreover have "\<exists>new. ex_calls y = ex_calls x @ [PlaceOrder new MARKET (taker_order_side (xm_config x)) (xmc_order_amount (xm_config x)) NaN NIL]
      \<and> xm_taker_order y = Some \<lparr>to_order_id = new, to_order = None\<rparr>"
      using hedge_placed [of env x] by (simp add: y)
    ultimately show ?thesis using completed(1,2) m by blast
  next
    case (failed env oid)
    then have m: "\<not> is_order_of oid (xm_maker_order x)" "is_order_of oid (xm_taker_order x)"
      using hedge by (auto simp: xemm_process_order_failed_event_def no_hedge_def split: if_splits)
    then obtain t where t: "xm_taker_order x = Some t" "to_order_id t = oid" by (auto simp: is_order_of_def split: option.splits)
    let ?x1 = "x\<lparr>xm_failed_orders := xm_failed_orders x @ [t], ex_current_retries := ex_current_retries x + 1\<rparr>"
    have y: "y = place_taker_order env ?x1"
      using failed m t by (simp add: xemm_process_order_failed_event_def)
    then have "ex_status y = ex_status x \<and> ex_current_retries y = ex_current_retries x + 1 \<and> xm_failed_orders y = xm_failed_orders x @ [t]"
      by (simp add: place_taker_order_def place_order_def log_call_def Let_def)
    moreover have "\<exists>new. ex_calls y = ex_calls x @ [PlaceOrder new MARKET (taker_order_side (xm_config x)) (xmc_order_amount (xm_config x)) NaN NIL]
      \<and> xm_taker_order y = Some \<lparr>to_order_id = new, to_order = None\<rparr>"
      using hedge_placed [of env ?x1] by (simp add: y)
    ultimately show ?thesis using failed(1,2) m(1) t by blast
  qed (use hedge in \<open>auto simp: executor_start_def xemm_begin_round_def evaluate_max_retries_def
        xemm_process_order_created_event_def no_hedge_def Let_def split: if_splits\<close>)
qed

section \<open>How a filled maker order escapes the hedge\<close>

text \<open>A round over a maker order that is not open drops it when the costs alone are below the minimum.\<close>

lemma round_drops_maker:
  assumes "xm_maker_order x = Some t" and "tracked (ce_market env (maker_order_side (xm_config x))) t = Some ord" and "\<not> is_open ord"
    and up: "update_prices_and_tx_costs env (x\<lparr>xm_quoting := False\<rparr>) = (x1, None)"
    and cost: "- xm_tx_cost_pct x1 < xmc_min_profitability (xm_config x)"
  shows "\<exists>y. xemm_finish_round env x = (y, None) \<and> xm_maker_order y = None \<and> ex_calls y = ex_calls x @ [CancelOrder (to_order_id t)]
    \<and> xm_taker_order y = xm_taker_order x \<and> ex_status y = ex_status x"
proof -
  have k: "xemm_keeps (x\<lparr>xm_quoting := False\<rparr>) x1" using prices_keep [of "x\<lparr>xm_quoting := False\<rparr>" env] by (simp add: up)
  then have m: "xm_maker_order x1 = Some t" "xm_config x1 = xm_config x" using assms(1) by (simp_all add: xemm_keeps_def)
  then have "update_current_trade_profitability env x1 = x1\<lparr>xm_current_trade_profitability := 0\<rparr>"
    using assms(2,3) by (simp add: update_current_trade_profitability_def)
  then have "control_maker_order env x1 = cancel_maker_order (x1\<lparr>xm_current_trade_profitability := 0\<rparr>)"
    using m cost by (simp add: control_maker_order_def control_update_maker_order_def Let_def)
  then show ?thesis using k m by (simp add: xemm_finish_round_def up cancel_maker_order_def log_call_def xemm_keeps_def)
qed

text \<open>
  A maker order that is filled when a round ends, before its completion is announced, is taken for
  an unprofitable one: the round asks for its cancellation and forgets it, so that the announcement is
  ignored and nothing is ever sent to hedge it.
\<close>

theorem filled_maker_is_never_hedged:
  assumes "xm_maker_order x = Some t" and "tracked (ce_market env (maker_order_side (xm_config x))) t = Some ord" and "is_filled ord" "\<not> is_open ord"
    and "update_prices_and_tx_costs env (x\<lparr>xm_quoting := False\<rparr>) = (x1, None)"
    and "- xm_tx_cost_pct x1 < xmc_min_profitability (xm_config x)" and "xm_taker_order x = None"
  shows "\<exists>y. xemm_finish_round env x = (y, None) \<and> ex_calls y = ex_calls x @ [CancelOrder (to_order_id t)]
    \<and> (\<forall>env'. xemm_process_order_completed_event env' (to_order_id t) y = y
         \<and> xemm_process_order_failed_event env' (to_order_id t) y = y \<and> xemm_process_order_created_event env' (to_order_id t) y = y)"
  using round_drops_maker [OF assms(1,2,4,5,6)] assms(7)
  by (auto simp: xemm_process_order_completed_event_def xemm_process_order_failed_event_def xemm_process_order_created_event_def is_order_of_def)

text \<open>
  When the maker order completes while a round waits for its quotes, the hedge is sent, and then
  the round drops the maker order. The shutdown asks it whether it is done, so every round raises and
  the executor never ends.
\<close>

theorem completion_during_round_never_ends:
  assumes "xm_maker_order x = Some t" and "tracked (ce_market env (maker_order_side (xm_config x))) t = Some ord" and "\<not> is_open ord"
    and up: "update_prices_and_tx_costs env ((xemm_process_order_completed_event env0 (to_order_id t) x)\<lparr>xm_quoting := False\<rparr>) = (x1, None)"
    and "- xm_tx_cost_pct x1 < xmc_min_profitability (xm_config x)"
  shows "\<exists>y. xemm_finish_round env (xemm_process_order_completed_event env0 (to_order_id t) x) = (y, None)
    \<and> ex_status y = SHUTTING_DOWN \<and> xm_maker_order y = None \<and> xm_taker_order y \<noteq> None
    \<and> (\<forall>envs. foldl (\<lambda>z env'. fst (xemm_shutdown_round env' z)) y envs = y)
    \<and> (\<forall>env'. snd (xemm_shutdown_round env' y) = Some AttributeError)"
proof -
  let ?z = "xemm_process_order_completed_event env0 (to_order_id t) x"
  have z: "xm_maker_order ?z = Some t" "xm_config ?z = xm_config x" "ex_status ?z = SHUTTING_DOWN" "xm_taker_order ?z \<noteq> None"
    using assms(1)
    by (simp_all add: xemm_process_order_completed_event_def is_order_of_def place_taker_order_def place_order_def log_call_def Let_def)
  obtain y where y: "xemm_finish_round env ?z = (y, None)" "xm_maker_order y = None" "xm_taker_order y \<noteq> None" "ex_status y = SHUTTING_DOWN"
    using round_drops_maker [OF z(1) _ assms(3) up] assms(2,5) z by auto
  then have r: "xemm_shutdown_round env' y = (y, Some AttributeError)" for env'
    by (simp add: xemm_shutdown_round_def xemm_control_shutdown_process_def)
  then have "foldl (\<lambda>z env'. fst (xemm_shutdown_round env' z)) y envs = y" for envs by (induction envs) simp_all
  then show ?thesis using y r by auto
qed

section \<open>What it reports\<close>

text \<open>
  The result of a finished executor is its hedge less its maker order, on either side: right where
  the maker order bought, and with the opposite sign where it sold, whose proceeds it subtracts.
\<close>

theorem xemm_result_by_side:
  assumes "ex_status x = TERMINATED" and "xm_maker_order x = Some m" and "xm_taker_order x = Some t"
    and "to_is_done (ce_market env (maker_order_side (xm_config x))) m" and "to_is_done (ce_market env (taker_order_side (xm_config x))) t"
    and amounts: "order_quote_amount (ce_market env (maker_order_side (xm_config x))) m = Inr a"
      "order_quote_amount (ce_market env (taker_order_side (xm_config x))) t = Inr b" "xemm_cum_fees_quote env x = Inr fees"
  shows "\<exists>sold bought. (if maker_order_side (xm_config x) = BUY then bought = a \<and> sold = b else bought = b \<and> sold = a)
    \<and> xemm_net_pnl_quote env x = Inr ((if maker_order_side (xm_config x) = BUY then sold - bought else bought - sold) - fees)"
  using assms by (auto simp: xemm_net_pnl_quote_def ex_is_closed_def Let_def)

text \<open>
  An executor that has bought and sold ends without a close type: the shutdown stops it and
  nothing sets one.
\<close>

theorem hedged_xemm_ends_without_close_type:
  assumes "ex_status x = SHUTTING_DOWN" and "xm_maker_order x = Some m" and "xm_taker_order x = Some t"
    and "to_is_done (ce_market env (maker_order_side (xm_config x))) m" and "to_is_done (ce_market env (taker_order_side (xm_config x))) t"
  shows "\<exists>y. xemm_shutdown_round env x = (y, None) \<and> ex_status y = TERMINATED \<and> ex_close_type y = ex_close_type x"
  using assms by (simp add: xemm_shutdown_round_def xemm_control_shutdown_process_def)

section \<open>A concrete executor\<close>

text \<open>Three SOL, bought with a limit order and sold on the other market.\<close>

definition demo_xemm_config :: xemm_config where
  "demo_xemm_config =
     \<lparr>xmc_id = ''m1'', xmc_timestamp = 1, xmc_controller_id = ''main'',
      xmc_buying_market = \<lparr>cp_connector_name = ''binance'', cp_trading_pair = ''SOL-USDC''\<rparr>,
      xmc_selling_market = \<lparr>cp_connector_name = ''orca'', cp_trading_pair = ''SOL-USDC''\<rparr>,
      xmc_maker_side = BUY, xmc_order_amount = 3, xmc_min_profitability = 1 / 100, xmc_target_profitability = 2 / 100,
      xmc_max_profitability = 3 / 100\<rparr>"

definition demo_filled :: in_flight_order where
  "demo_filled = demo_entry\<lparr>o_current_state := FILLED\<rparr>"

definition demo_xemm :: xemm_executor where
  "demo_xemm = (case new_xemm_executor (demo_cross demo_filled) True demo_xemm_config 10 of Inr x \<Rightarrow> x)"

text \<open>The maker order is placed and reported; the next round waits.\<close>

definition demo_xemm_quoting :: xemm_executor where
  "demo_xemm_quoting = xemm_begin_round (xemm_process_order_created_event (demo_cross demo_filled) ''o''
     (fst (xemm_finish_round (demo_cross demo_filled) (xemm_begin_round (executor_start demo_xemm)))))"

definition demo_xemm_prices :: xemm_executor where
  "demo_xemm_prices = fst (update_prices_and_tx_costs (demo_cross demo_filled) (demo_xemm_quoting\<lparr>xm_quoting := False\<rparr>))"

definition xemm_view :: "xemm_executor \<Rightarrow> runnable_status \<times> tracked_order option \<times> tracked_order option \<times> strategy_call list \<times> xemm_config" where
  "xemm_view x = (ex_status x, xm_maker_order x, xm_taker_order x, ex_calls x, xm_config x)"

lemma demo_xemm_quoting_view:
  "xemm_view demo_xemm_quoting = (RUNNING, Some \<lparr>to_order_id = ''o'', to_order = Some 0\<rparr>, None,
     [PlaceOrder ''o'' LIMIT BUY 3 (Fin (20 / (1 + 2 / 100 + 2 / 30))) NIL], demo_xemm_config)"
  by code_simp

lemma demo_xemm_prices: "update_prices_and_tx_costs (demo_cross demo_filled) (demo_xemm_quoting\<lparr>xm_quoting := False\<rparr>) = (demo_xemm_prices, None)"
proof -
  have "snd (update_prices_and_tx_costs (demo_cross demo_filled) (demo_xemm_quoting\<lparr>xm_quoting := False\<rparr>)) = None" by code_simp
  then show ?thesis unfolding demo_xemm_prices_def by (cases "update_prices_and_tx_costs (demo_cross demo_filled) (demo_xemm_quoting\<lparr>xm_quoting := False\<rparr>)") simp
qed

lemma demo_xemm_cost: "xm_tx_cost_pct demo_xemm_prices = 2 / 30" "xm_config demo_xemm_prices = demo_xemm_config"
  "xm_taker_result_price demo_xemm_prices = 20"
  by code_simp+

theorem maker_target_price_meets_target_witness:
  "trade_profitability (demo_cross demo_filled) demo_xemm_prices (demo_order\<lparr>o_price := Some (Fin (xm_maker_target_price demo_xemm_prices))\<rparr>)
    = Inr (2 / 100 + 2 / 30)"
  using maker_target_price_meets_target [OF demo_xemm_prices, of "demo_order\<lparr>o_price := Some (Fin (xm_maker_target_price demo_xemm_prices))\<rparr>"]
  by (simp add: demo_xemm_cost demo_xemm_config_def xemm_conversion_rate_def demo_cross_def maker_limit_price_def)

definition demo_xemm_hedged :: xemm_executor where
  "demo_xemm_hedged = xemm_process_order_completed_event (demo_cross demo_filled) ''o'' demo_xemm_quoting"

lemma demo_xemm_hedged_view:
  "xemm_view demo_xemm_hedged = (SHUTTING_DOWN, Some \<lparr>to_order_id = ''o'', to_order = Some 0\<rparr>, Some \<lparr>to_order_id = ''oo'', to_order = None\<rparr>,
     [PlaceOrder ''o'' LIMIT BUY 3 (Fin (20 / (1 + 2 / 100 + 2 / 30))) NIL, PlaceOrder ''oo'' MARKET SELL 3 NaN NIL], demo_xemm_config)"
  by code_simp

theorem hedge_follows_maker_completion_witness:
  "xemm_step demo_xemm_quoting demo_xemm_hedged \<and> (\<exists>new. ex_calls demo_xemm_hedged = ex_calls demo_xemm_quoting @ [PlaceOrder new MARKET SELL 3 NaN NIL])"
proof -
  have "ex_registered demo_xemm_quoting" by code_simp
  then have step: "xemm_step demo_xemm_quoting demo_xemm_hedged" unfolding demo_xemm_hedged_def by (rule xemm_step.completed)
  have c: "taker_order_side (xm_config demo_xemm_quoting) = SELL" "xmc_order_amount (xm_config demo_xemm_quoting) = 3"
    "ex_calls demo_xemm_quoting = [PlaceOrder ''o'' LIMIT BUY 3 (Fin (20 / (1 + 2 / 100 + 2 / 30))) NIL]"
    "ex_calls demo_xemm_hedged = [PlaceOrder ''o'' LIMIT BUY 3 (Fin (20 / (1 + 2 / 100 + 2 / 30))) NIL, PlaceOrder ''oo'' MARKET SELL 3 NaN NIL]"
    using demo_xemm_quoting_view demo_xemm_hedged_view
    by (simp_all add: xemm_view_def demo_xemm_config_def taker_order_side_def)
  show ?thesis using hedge_follows_maker_completion [OF step] step by (auto simp: c)
qed

lemma demo_xemm_maker:
  "xm_maker_order demo_xemm_quoting = Some \<lparr>to_order_id = ''o'', to_order = Some 0\<rparr>" "xm_taker_order demo_xemm_quoting = None"
  "tracked (ce_market (demo_cross demo_filled) sd) \<lparr>to_order_id = ''o'', to_order = Some 0\<rparr> = Some demo_filled"
  "is_filled demo_filled" "\<not> is_open demo_filled" "xm_config demo_xemm_quoting = demo_xemm_config"
proof -
  show "is_filled demo_filled" "\<not> is_open demo_filled" by code_simp+
qed (use demo_xemm_quoting_view in \<open>simp_all add: xemm_view_def tracked_def demo_cross_def demo_env_def\<close>)

theorem filled_maker_is_never_hedged_witness:
  "\<exists>y. xemm_finish_round (demo_cross demo_filled) demo_xemm_quoting = (y, None)
    \<and> xemm_process_order_completed_event (demo_cross demo_filled) ''o'' y = y"
  using filled_maker_is_never_hedged [OF demo_xemm_maker(1,3,4,5) demo_xemm_prices] demo_xemm_maker(2,6)
  by (auto simp: demo_xemm_cost demo_xemm_config_def)

theorem completion_during_round_never_ends_witness:
  "\<exists>y. xemm_finish_round (demo_cross demo_filled) demo_xemm_hedged = (y, None)
    \<and> ex_status (foldl (\<lambda>z env'. fst (xemm_shutdown_round env' z)) y (replicate 100 (demo_cross demo_filled))) = SHUTTING_DOWN"
proof -
  let ?x1 = "fst (update_prices_and_tx_costs (demo_cross demo_filled) (demo_xemm_hedged\<lparr>xm_quoting := False\<rparr>))"
  have "snd (update_prices_and_tx_costs (demo_cross demo_filled) (demo_xemm_hedged\<lparr>xm_quoting := False\<rparr>)) = None" "xm_tx_cost_pct ?x1 = 2 / 30"
    by code_simp+
  then have up: "update_prices_and_tx_costs (demo_cross demo_filled) (demo_xemm_hedged\<lparr>xm_quoting := False\<rparr>) = (?x1, None)" "xm_tx_cost_pct ?x1 = 2 / 30"
    by (auto simp: prod_eq_iff)
  then show ?thesis
    using completion_during_round_never_ends [OF demo_xemm_maker(1,3,5), of "demo_cross demo_filled" ?x1] demo_xemm_maker(6)
    by (auto simp: demo_xemm_hedged_def demo_xemm_config_def)
qed

text \<open>Sold as maker at 20, bought back as taker at 20: the two amounts change places.\<close>

definition demo_xemm_done :: "trade_type \<Rightarrow> xemm_executor" where
  "demo_xemm_done sd = demo_xemm_hedged\<lparr>ex_status := TERMINATED, xm_config := demo_xemm_config\<lparr>xmc_maker_side := sd\<rparr>,
     xm_taker_order := Some \<lparr>to_order_id = ''oo'', to_order = Some 1\<rparr>\<rparr>"

lemma demo_xemm_done_orders:
  "xm_maker_order (demo_xemm_done sd) = Some \<lparr>to_order_id = ''o'', to_order = Some 0\<rparr>"
  "xm_taker_order (demo_xemm_done sd) = Some \<lparr>to_order_id = ''oo'', to_order = Some 1\<rparr>"
  "ex_status (demo_xemm_done sd) = TERMINATED" "xm_config (demo_xemm_done sd) = demo_xemm_config\<lparr>xmc_maker_side := sd\<rparr>"
  using demo_xemm_hedged_view by (simp_all add: demo_xemm_done_def xemm_view_def)

lemma demo_xemm_is_done: "to_order t \<noteq> None \<Longrightarrow> to_is_done (ce_market (demo_cross demo_filled) sd) t"
proof -
  have "is_done demo_filled" by code_simp
  then show "to_order t \<noteq> None \<Longrightarrow> ?thesis" by (auto simp: to_is_done_def tracked_def demo_cross_def demo_env_def)
qed

theorem xemm_result_by_side_witness:
  "\<exists>fees. xemm_net_pnl_quote (demo_cross demo_filled) (demo_xemm_done SELL) = Inr (60 - 60 - fees)"
proof -
  let ?x = "demo_xemm_done SELL" and ?e = "demo_cross demo_filled"
  have "order_quote_amount (ce_market ?e SELL) \<lparr>to_order_id = ''o'', to_order = Some 0\<rparr> = Inr 60"
    "order_quote_amount (ce_market ?e BUY) \<lparr>to_order_id = ''oo'', to_order = Some 1\<rparr> = Inr 60" by code_simp+
  moreover obtain fees where "xemm_cum_fees_quote ?e ?x = Inr fees"
  proof (cases "xemm_cum_fees_quote ?e ?x")
    case (Inl err)
    moreover have "case_sum (\<lambda>_. False) (\<lambda>_. True) (xemm_cum_fees_quote ?e ?x)" by code_simp
    ultimately show ?thesis by simp
  qed
  ultimately show ?thesis
    using xemm_result_by_side [of ?x "\<lparr>to_order_id = ''o'', to_order = Some 0\<rparr>" "\<lparr>to_order_id = ''oo'', to_order = Some 1\<rparr>" ?e 60 60 fees]
    by (auto simp: demo_xemm_done_orders demo_xemm_is_done maker_order_side_def taker_order_side_def demo_xemm_config_def)
qed

theorem hedged_xemm_ends_without_close_type_witness:
  "\<exists>y. xemm_shutdown_round (demo_cross demo_filled) ((demo_xemm_done BUY)\<lparr>ex_status := SHUTTING_DOWN\<rparr>) = (y, None) \<and> ex_status y = TERMINATED
    \<and> ex_close_type y = ex_close_type (demo_xemm_done BUY)"
  using hedged_xemm_ends_without_close_type [of "(demo_xemm_done BUY)\<lparr>ex_status := SHUTTING_DOWN\<rparr>"
      "\<lparr>to_order_id = ''o'', to_order = Some 0\<rparr>" "\<lparr>to_order_id = ''oo'', to_order = Some 1\<rparr>" "demo_cross demo_filled"]
  by (auto simp: demo_xemm_done_orders demo_xemm_is_done)

end
