(* ===== verification/LP_Rebalancer.thy ===== *)
theory LP_Rebalancer
  imports LP_Executor Order_Executor Orchestrator
begin

text \<open>
  \<open>controllers/generic/lp_rebalancer/lp_rebalancer.py\<close>: a controller that keeps one liquidity position
  open. The LP executor closes by itself at its limit prices; the controller then books what came
  back, chooses the side of the next position and, if the wallet lacks one of the tokens, swaps first.

  A method that reads the market data provider takes the record \<open>lr_env\<close>; a method that reads the
  executors takes the list of their views. Prices and amounts are rationals. The status display and the
  log are not modelled: no decision reads them.
\<close>

section \<open>Configuration\<close>

record lr_config =
  lrc_id :: string
  lrc_connector_name :: string
  lrc_lp_provider :: string
  lrc_trading_pair :: string
  lrc_pool_address :: string
  lrc_total_amount_quote :: decimal
  lrc_side :: trade_type
  lrc_position_width_pct :: decimal
  lrc_position_offset_pct :: decimal
  lrc_rebalance_threshold_pct :: decimal
  lrc_sell_price_max :: "decimal option"
  lrc_sell_price_min :: "decimal option"
  lrc_buy_price_max :: "decimal option"
  lrc_buy_price_min :: "decimal option"
  lrc_strategy_type :: "int option"
  lrc_autoswap :: bool
  lrc_swap_buffer_pct :: decimal

text \<open>The value given for the side: the enumeration, a string, a number, or anything else.\<close>

datatype side_value = SideEnum trade_type | SideStr string | SideInt int | SideOther

fun validate_side :: "side_value \<Rightarrow> trade_type py_result" where
  "validate_side (SideEnum sd) = Inr sd"
| "validate_side (SideStr v) =
     (let w = map upper_char v in
      if w \<in> set [''BUY'', ''1''] then Inr BUY
      else if w \<in> set [''SELL'', ''2''] then Inr SELL
      else if w \<in> set [''RANGE'', ''3''] then Inr RANGE
      else Inl ValueError)"
| "validate_side (SideInt v) =
     (if v = 1 then Inr BUY else if v = 2 then Inr SELL else if v = 3 then Inr RANGE else Inl ValueError)"
| "validate_side SideOther = Inl ValueError"

definition inverted :: "decimal option \<Rightarrow> decimal option \<Rightarrow> bool" where
  "inverted lo hi = (case (hi, lo) of (Some h, Some l) \<Rightarrow> h < l | _ \<Rightarrow> False)"

definition validate_price_limit_ranges :: "lr_config \<Rightarrow> lr_config py_result" where
  "validate_price_limit_ranges cfg =
     (if inverted (lrc_buy_price_min cfg) (lrc_buy_price_max cfg) then Inl ValueError
      else if inverted (lrc_sell_price_min cfg) (lrc_sell_price_max cfg) then Inl ValueError
      else if lrc_position_offset_pct cfg < 0 \<and> \<bar>lrc_position_offset_pct cfg\<bar> > lrc_position_width_pct cfg
      then Inl ValueError
      else Inr cfg)"

text \<open>\<open>gateway_utils.parse_provider\<close>\<close>

definition parse_provider :: "string \<Rightarrow> string \<Rightarrow> string \<times> string" where
  "parse_provider provider default_trading_type =
     (let dex = takeWhile (\<lambda>c. c \<noteq> CHR ''/'') provider; rest = drop (length dex) provider
      in if rest = [] then (provider, default_trading_type) else (dex, tl rest))"

definition pair_tokens :: "string \<Rightarrow> string \<times> string" where
  "pair_tokens pair =
     (case split_on CHR ''-'' pair of b # q # _ \<Rightarrow> (b, q) | _ \<Rightarrow> ([], []))"

section \<open>State\<close>

record lp_rebalancer =
  lr_current_executor_id :: "string option"
  lr_last_closed_base_amount :: "decimal option"
  lr_last_closed_quote_amount :: "decimal option"
  lr_last_closed_base_fee :: "decimal option"
  lr_last_closed_quote_fee :: "decimal option"
  lr_initial_base_balance :: "decimal option"
  lr_initial_quote_balance :: "decimal option"
  lr_position_hold_base :: decimal
  lr_position_hold_quote :: decimal
  lr_pending_balance_update :: bool
  lr_pool_price :: "decimal option"
  lr_swap_executor_id :: "string option"
  lr_pending_swap_side :: "trade_type option"
  lr_initial_position_created :: bool
  lr_balance_updates :: nat  \<comment> \<open>how often the connector was asked to update its balances\<close>

definition new_lp_rebalancer :: lp_rebalancer where
  "new_lp_rebalancer =
     \<lparr>lr_current_executor_id = None, lr_last_closed_base_amount = None, lr_last_closed_quote_amount = None,
      lr_last_closed_base_fee = None, lr_last_closed_quote_fee = None, lr_initial_base_balance = None,
      lr_initial_quote_balance = None, lr_position_hold_base = 0, lr_position_hold_quote = 0,
      lr_pending_balance_update = False, lr_pool_price = None, lr_swap_executor_id = None,
      lr_pending_swap_side = None, lr_initial_position_created = False, lr_balance_updates = 0\<rparr>"

text \<open>
  What the controller reads of an executor: its info, and of \<open>custom_info\<close> the side, the state and the
  figures, of which a missing one counts as 0.
\<close>

record lr_executor =
  lre_id :: string
  lre_type :: string
  lre_is_active :: bool
  lre_status :: runnable_status
  lre_close_type :: "close_type option"
  lre_side :: "trade_type option"
  lre_state :: "lp_state option"
  lre_figures :: "(string, decimal) dict"

definition lr_figure :: "lr_executor \<Rightarrow> string \<Rightarrow> decimal" where
  "lr_figure e k = get_or (lre_figures e) k 0"

text \<open>
  The data of a tick: the clock, the wallet, what the connector says of its native currency, the price
  of a pool by address, dex and trading type (None when it cannot be had), and the id a new
  configuration draws.
\<close>

record lr_env =
  le_now :: decimal
  le_balance :: "string \<Rightarrow> decimal py_result"
  le_native_currency :: "string option"
  le_native_buffer :: decimal
  le_pool :: "string \<Rightarrow> string \<Rightarrow> string \<Rightarrow> decimal option"
  le_new_id :: string

text \<open>What an action creates; a position has also its provider and the \<open>strategyType\<close> it passes on.\<close>

datatype lr_executor_config = LPPosition lp_config string "int option" | AutoSwap order_executor_config

type_synonym lr_action = "lr_executor_config executor_action"

section \<open>Executors\<close>

definition lr_active_executor :: "lr_executor list \<Rightarrow> lr_executor option" where
  "lr_active_executor es = List.find (\<lambda>e. lre_is_active e \<and> lre_type e = ''lp_executor'') es"

definition executor_by_id :: "string option \<Rightarrow> lr_executor list \<Rightarrow> lr_executor option" where
  "executor_by_id i es = (if truthy_str i then List.find (\<lambda>e. Some (lre_id e) = i) es else None)"

definition get_tracked_executor :: "lr_executor list \<Rightarrow> lp_rebalancer \<Rightarrow> lr_executor option" where
  "get_tracked_executor es s = executor_by_id (lr_current_executor_id s) es"

definition is_tracked_executor_terminated :: "lr_executor list \<Rightarrow> lp_rebalancer \<Rightarrow> bool" where
  "is_tracked_executor_terminated es s =
     (case get_tracked_executor es s of None \<Rightarrow> True | Some e \<Rightarrow> lre_status e = TERMINATED)"

definition get_swap_executor :: "lr_executor list \<Rightarrow> lp_rebalancer \<Rightarrow> lr_executor option" where
  "get_swap_executor es s = executor_by_id (lr_swap_executor_id s) es"

definition is_swap_executor_done :: "lr_executor list \<Rightarrow> lp_rebalancer \<Rightarrow> bool" where
  "is_swap_executor_done es s =
     (case get_swap_executor es s of None \<Rightarrow> True | Some e \<Rightarrow> lre_status e = TERMINATED)"

section \<open>Bounds and amounts\<close>

text \<open>A limit that is None or 0 is falsy, and counts as not set.\<close>

definition limit_set :: "decimal option \<Rightarrow> bool" where
  "limit_set l = (case l of None \<Rightarrow> False | Some v \<Rightarrow> v \<noteq> 0)"

definition below_limit :: "decimal \<Rightarrow> decimal option \<Rightarrow> bool" where
  "below_limit p l = (limit_set l \<and> p < the l)"

definition above_limit :: "decimal \<Rightarrow> decimal option \<Rightarrow> bool" where
  "above_limit p l = (limit_set l \<and> p > the l)"

definition calculate_price_bounds :: "lr_config \<Rightarrow> trade_type \<Rightarrow> decimal \<Rightarrow> decimal \<times> decimal" where
  "calculate_price_bounds cfg sd price =
     (let width = lrc_position_width_pct cfg / 100; offset = lrc_position_offset_pct cfg / 100 in
      if sd = RANGE
      then (let half_width = width / 2 in (price * (1 - half_width), price * (1 + half_width)))
      else if sd = BUY
      then (let anchor = (if limit_set (lrc_buy_price_max cfg) then min price (the (lrc_buy_price_max cfg)) else price);
                upper = anchor * (1 - offset)
            in (upper * (1 - width), upper))
      else (let anchor = (if limit_set (lrc_sell_price_min cfg) then max price (the (lrc_sell_price_min cfg)) else price);
                lower = anchor * (1 + offset)
            in (lower, lower * (1 + width))))"

text \<open>All of the amount on one side: quote for a buying position, base for a selling one.\<close>

definition single_sided :: "decimal \<Rightarrow> trade_type \<Rightarrow> decimal \<Rightarrow> (decimal \<times> decimal) py_result" where
  "single_sided amount sd price =
     (if sd = BUY then Inr (0, amount) else ebind (dec_div amount price) (\<lambda>b. Inr (b, 0)))"

definition calculate_amounts :: "lr_config \<Rightarrow> trade_type \<Rightarrow> decimal \<Rightarrow> (decimal \<times> decimal) py_result" where
  "calculate_amounts cfg sd price =
     (let amount = lrc_total_amount_quote cfg in
      if sd = RANGE
      then ebind (dec_div (amount / 2) price) (\<lambda>b. Inr (b, amount / 2))
      else if lrc_position_offset_pct cfg \<ge> 0 then single_sided amount sd price
      else case calculate_price_bounds cfg sd price of (lower, upper) \<Rightarrow>
        (let price_range = upper - lower in
         if price_range \<le> 0 \<or> price \<le> lower then single_sided amount sd price
         else if price \<ge> upper then single_sided amount sd price
         else ebind (dec_div (price - lower) price_range) (\<lambda>price_ratio.
              ebind (dec_div (amount * (1 - price_ratio)) price) (\<lambda>b. Inr (b, amount * price_ratio)))))"

definition is_price_within_limits :: "lr_config \<Rightarrow> decimal \<Rightarrow> trade_type \<Rightarrow> bool" where
  "is_price_within_limits cfg price sd =
     (if sd = SELL then \<not> below_limit price (lrc_sell_price_min cfg) \<and> \<not> above_limit price (lrc_sell_price_max cfg)
      else if sd = BUY then \<not> below_limit price (lrc_buy_price_min cfg) \<and> \<not> above_limit price (lrc_buy_price_max cfg)
      else \<not> below_limit price (lrc_buy_price_min cfg) \<and> \<not> above_limit price (lrc_buy_price_max cfg)
           \<and> \<not> below_limit price (lrc_sell_price_min cfg) \<and> \<not> above_limit price (lrc_sell_price_max cfg))"

definition limits_of_side :: "lr_config \<Rightarrow> trade_type \<Rightarrow> decimal option \<times> decimal option" where
  "limits_of_side cfg sd =
     (if sd = BUY then (lrc_buy_price_min cfg, lrc_buy_price_max cfg)
      else (lrc_sell_price_min cfg, lrc_sell_price_max cfg))"

definition opposite_side :: "trade_type \<Rightarrow> trade_type" where
  "opposite_side sd = (if sd = BUY then SELL else BUY)"

definition validate_and_clamp_bounds ::
  "lr_config \<Rightarrow> decimal \<Rightarrow> decimal \<Rightarrow> trade_type \<Rightarrow> decimal \<Rightarrow> (decimal \<times> decimal \<times> trade_type) option" where
  "validate_and_clamp_bounds cfg lower upper sd price =
     (if sd = RANGE then Some (lower, upper, sd)
      else case limits_of_side cfg sd of (min_limit, max_limit) \<Rightarrow>
        let lower_exceeds = below_limit lower min_limit; upper_exceeds = above_limit upper max_limit in
        if \<not> lower_exceeds \<and> \<not> upper_exceeds then Some (lower, upper, sd)
        else if lower_exceeds \<and> upper_exceeds
        then (case calculate_price_bounds cfg (opposite_side sd) price of (opp_lower, opp_upper) \<Rightarrow>
              case limits_of_side cfg (opposite_side sd) of (opp_min, opp_max) \<Rightarrow>
              let opp_lower_exceeds = below_limit opp_lower opp_min; opp_upper_exceeds = above_limit opp_upper opp_max in
              if \<not> opp_lower_exceeds \<and> \<not> opp_upper_exceeds then Some (opp_lower, opp_upper, opposite_side sd)
              else if opp_lower_exceeds \<and> \<not> opp_upper_exceeds then Some (the opp_min, opp_upper, opposite_side sd)
              else if \<not> opp_lower_exceeds \<and> opp_upper_exceeds then Some (opp_lower, the opp_max, opposite_side sd)
              else None)
        else if lower_exceeds then Some (the min_limit, upper, sd)
        else Some (lower, the max_limit, sd))"

text \<open>\<open>(a + b) / 2\<close> where both limits are set; a middle of 0 is falsy again.\<close>

definition limit_mid :: "decimal option \<Rightarrow> decimal option \<Rightarrow> decimal option" where
  "limit_mid lo hi =
     (if limit_set lo \<and> limit_set hi \<and> (the lo + the hi) / 2 \<noteq> 0 then Some ((the lo + the hi) / 2) else None)"

definition determine_side_from_price :: "lr_config \<Rightarrow> decimal \<Rightarrow> trade_type" where
  "determine_side_from_price cfg price =
     (case (limit_mid (lrc_buy_price_min cfg) (lrc_buy_price_max cfg),
            limit_mid (lrc_sell_price_min cfg) (lrc_sell_price_max cfg)) of
        (Some buy_mid, Some sell_mid) \<Rightarrow>
          (if price \<le> buy_mid then BUY
           else if price \<ge> sell_mid then SELL
           else if price - buy_mid < sell_mid - price then BUY else SELL)
      | (Some buy_mid, None) \<Rightarrow> BUY
      | (None, Some sell_mid) \<Rightarrow> SELL
      | (None, None) \<Rightarrow> BUY)"

definition position_request ::
  "lr_config \<Rightarrow> lr_env \<Rightarrow> decimal \<Rightarrow> decimal \<Rightarrow> decimal \<Rightarrow> decimal \<Rightarrow> trade_type \<Rightarrow> lr_executor_config" where
  "position_request cfg env lower upper base_amt quote_amt sd =
     (let threshold = lrc_rebalance_threshold_pct cfg / 100 in
      LPPosition
        \<lparr>lc_id = le_new_id env, lc_controller_id = ''main'', lc_timestamp = le_now env,
         lc_connector_name = lrc_connector_name cfg, lc_swap_provider = None,
         lc_pool_address = lrc_pool_address cfg, lc_trading_pair = lrc_trading_pair cfg,
         lc_lower_price = lower, lc_upper_price = upper, lc_base_amount = base_amt, lc_quote_amount = quote_amt,
         lc_side = sd, lc_upper_limit_price = Some (upper * (1 + threshold)),
         lc_lower_limit_price = Some (lower * (1 - threshold)), lc_keep_position = True\<rparr>
        (lrc_lp_provider cfg) (lrc_strategy_type cfg))"

definition lr_create_executor_config ::
  "lr_config \<Rightarrow> lr_env \<Rightarrow> lp_rebalancer \<Rightarrow> trade_type \<Rightarrow> lr_executor_config option py_result" where
  "lr_create_executor_config cfg env s sd =
     (case lr_pool_price s of
        None \<Rightarrow> Inr None
      | Some price \<Rightarrow>
          (if price = 0 then Inr None
           else case calculate_price_bounds cfg sd price of (lower, upper) \<Rightarrow>
             (case validate_and_clamp_bounds cfg lower upper sd price of
                None \<Rightarrow> Inr None
              | Some (lower', upper', sd') \<Rightarrow>
                  (if lower' \<ge> upper' then Inr None
                   else ebind (calculate_amounts cfg sd' price) (\<lambda>(base_amt, quote_amt).
                        Inr (Some (position_request cfg env lower' upper' base_amt quote_amt sd')))))))"

section \<open>Swaps\<close>

definition or_0 :: "decimal option \<Rightarrow> decimal" where
  "or_0 v = (case v of None \<Rightarrow> 0 | Some x \<Rightarrow> x)"

definition swap_request :: "lr_config \<Rightarrow> lr_env \<Rightarrow> trade_type \<Rightarrow> decimal \<Rightarrow> order_executor_config" where
  "swap_request cfg env sd amount =
     \<lparr>xc_id = le_new_id env, xc_timestamp = le_now env, xc_controller_id = ''main'',
      xc_trading_pair = lrc_trading_pair cfg, xc_connector_name = lrc_connector_name cfg, xc_side = sd,
      xc_amount = amount, xc_position_action = OPEN, xc_price = None, xc_chaser_config = None,
      xc_execution_strategy = MARKET_ORDER, xc_leverage = 1, xc_level_id = None\<rparr>"

text \<open>The native currency's buffer, for a token that is the native currency.\<close>

definition native_buffer_of :: "lr_env \<Rightarrow> string \<Rightarrow> decimal" where
  "native_buffer_of env token =
     (let native = (case le_native_currency env of None \<Rightarrow> [] | Some c \<Rightarrow> map upper_char c)
      in if native \<noteq> [] \<and> map upper_char token = native then le_native_buffer env else 0)"

text \<open>What is swapped for the deficits of both tokens, given what the wallet holds.\<close>

definition swap_for_deficit ::
  "lr_config \<Rightarrow> lr_env \<Rightarrow> decimal \<Rightarrow> decimal \<Rightarrow> decimal \<Rightarrow> decimal \<Rightarrow> decimal \<Rightarrow>
   order_executor_config option py_result" where
  "swap_for_deficit cfg env price base_balance quote_balance base_deficit quote_deficit =
     (let buffer_multiplier = 1 + lrc_swap_buffer_pct cfg / 100 in
      if base_deficit > 0 \<and> quote_deficit \<le> 0
      then (let swap_amount = base_deficit * buffer_multiplier in
            if quote_balance \<ge> swap_amount * price * (102 / 100)
            then Inr (Some (swap_request cfg env BUY swap_amount)) else Inr None)
      else if quote_deficit > 0 \<and> base_deficit \<le> 0
      then ebind (dec_div quote_deficit price) (\<lambda>q.
            let swap_amount = q * buffer_multiplier in
            if base_balance \<ge> swap_amount * (102 / 100)
            then Inr (Some (swap_request cfg env SELL swap_amount)) else Inr None)
      else Inr None)"

definition check_autoswap_needed ::
  "lr_config \<Rightarrow> lr_env \<Rightarrow> lp_rebalancer \<Rightarrow> trade_type \<Rightarrow> decimal \<Rightarrow> order_executor_config option py_result" where
  "check_autoswap_needed cfg env s sd price =
     (if \<not> lrc_autoswap cfg then Inr None
      else let closed_base = or_0 (lr_last_closed_base_amount s); closed_quote = or_0 (lr_last_closed_quote_amount s);
               (base_token, quote_token) = pair_tokens (lrc_trading_pair cfg) in
        ebind (calculate_amounts cfg sd price) (\<lambda>(base_amt, quote_amt).
        case (le_balance env base_token, le_balance env quote_token) of
          (Inr b, Inr q) \<Rightarrow>
            (let settled = (closed_base > 0 \<or> closed_quote > 0);
                 base_balance = (if settled then b + (closed_base + or_0 (lr_last_closed_base_fee s)) else b);
                 quote_balance = (if settled then q + (closed_quote + or_0 (lr_last_closed_quote_fee s)) else q)
             in swap_for_deficit cfg env price base_balance quote_balance
                  (base_amt - base_balance + native_buffer_of env base_token)
                  (quote_amt - quote_balance + native_buffer_of env quote_token))
        | _ \<Rightarrow> Inr None))"

section \<open>Actions\<close>

definition trigger_balance_update :: "lp_rebalancer \<Rightarrow> lp_rebalancer" where
  "trigger_balance_update s = s\<lparr>lr_balance_updates := Suc (lr_balance_updates s)\<rparr>"

definition capture_initial_balances :: "lr_config \<Rightarrow> lr_env \<Rightarrow> lp_rebalancer \<Rightarrow> lp_rebalancer" where
  "capture_initial_balances cfg env s =
     (case pair_tokens (lrc_trading_pair cfg) of (base_token, quote_token) \<Rightarrow>
      if lr_initial_base_balance s \<noteq> None then s
      else (case le_balance env base_token of
              Inl e \<Rightarrow> s
            | Inr b \<Rightarrow>
                (case le_balance env quote_token of
                   Inl e \<Rightarrow> s\<lparr>lr_initial_base_balance := Some b\<rparr>
                 | Inr q \<Rightarrow> s\<lparr>lr_initial_base_balance := Some b, lr_initial_quote_balance := Some q\<rparr>)))"

definition adopt_swap_executor :: "lr_executor list \<Rightarrow> lp_rebalancer \<Rightarrow> lp_rebalancer" where
  "adopt_swap_executor es s =
     (if lr_pending_swap_side s \<noteq> None \<and> \<not> truthy_str (lr_swap_executor_id s)
      then (case List.find (\<lambda>e. lre_type e = ''order_executor'' \<and> lre_is_active e) es of
              None \<Rightarrow> s | Some e \<Rightarrow> s\<lparr>lr_swap_executor_id := Some (lre_id e)\<rparr>)
      else s)"

definition book_swap :: "lr_executor \<Rightarrow> lp_rebalancer \<Rightarrow> lp_rebalancer" where
  "book_swap e s =
     (let amount = lr_figure e ''executed_amount_base'';
          quote_amount = amount * lr_figure e ''average_executed_price'' in
      if lre_side e = Some BUY
      then s\<lparr>lr_position_hold_base := lr_position_hold_base s + amount,
             lr_position_hold_quote := lr_position_hold_quote s - quote_amount\<rparr>
      else s\<lparr>lr_position_hold_base := lr_position_hold_base s - amount,
             lr_position_hold_quote := lr_position_hold_quote s + quote_amount\<rparr>)"

definition position_opened :: "lp_rebalancer \<Rightarrow> lp_rebalancer" where
  "position_opened s = s\<lparr>lr_initial_position_created := True, lr_pending_balance_update := True\<rparr>"

definition lr_create_action :: "lr_config \<Rightarrow> lr_executor_config \<Rightarrow> lr_action" where
  "lr_create_action cfg c = CreateExecutorAction (Some (lrc_id cfg)) c"

definition after_swap ::
  "lr_config \<Rightarrow> lr_env \<Rightarrow> lr_executor list \<Rightarrow> lp_rebalancer \<Rightarrow> lp_rebalancer \<times> lr_action list py_result" where
  "after_swap cfg env es s =
     (let s1 = s\<lparr>lr_swap_executor_id := None, lr_pending_swap_side := None\<rparr> in
      case get_swap_executor es s of
        None \<Rightarrow> (s1, Inr [])
      | Some e \<Rightarrow>
          (if lre_close_type e = Some FAILED_CLOSE then (s1, Inr [])
           else let s2 = book_swap e (trigger_balance_update s1) in
             (case lr_pending_swap_side s of
                None \<Rightarrow> (s2, Inr [])
              | Some sd \<Rightarrow>
                  (case lr_create_executor_config cfg env s2 sd of
                     Inl err \<Rightarrow> (s2, Inl err)
                   | Inr None \<Rightarrow> (s2, Inr [])
                   | Inr (Some c) \<Rightarrow> (position_opened s2, Inr [lr_create_action cfg c])))))"

definition failed_executor :: "lr_executor option \<Rightarrow> bool" where
  "failed_executor e = (case e of None \<Rightarrow> False | Some e' \<Rightarrow> lre_close_type e' = Some FAILED_CLOSE)"

definition book_closed :: "lr_executor option \<Rightarrow> lp_rebalancer \<Rightarrow> lp_rebalancer" where
  "book_closed e s =
     (case e of
        None \<Rightarrow> s
      | Some e' \<Rightarrow>
          (if failed_executor e then s
           else let base = lr_figure e' ''base_amount''; qt = lr_figure e' ''quote_amount'';
                    base_fee = lr_figure e' ''base_fee''; quote_fee = lr_figure e' ''quote_fee''
                in s\<lparr>lr_last_closed_base_amount := Some base, lr_last_closed_quote_amount := Some qt,
                     lr_last_closed_base_fee := Some base_fee, lr_last_closed_quote_fee := Some quote_fee,
                     lr_position_hold_base := lr_position_hold_base s
                       + (base + base_fee - lr_figure e' ''initial_base_amount''),
                     lr_position_hold_quote := lr_position_hold_quote s
                       + (qt + quote_fee - lr_figure e' ''initial_quote_amount'')\<rparr>))"

text \<open>The bounds of the closed position, where it has not failed and both are not 0.\<close>

definition closed_bounds :: "lr_executor option \<Rightarrow> (decimal \<times> decimal) option" where
  "closed_bounds e =
     (case e of
        None \<Rightarrow> None
      | Some e' \<Rightarrow>
          (let lower = lr_figure e' ''lower_price''; upper = lr_figure e' ''upper_price'' in
           if failed_executor e \<or> lower = 0 \<or> upper = 0 then None else Some (lower, upper)))"

text \<open>The side of the next position; None while the pool's price is waited for.\<close>

definition next_side :: "lr_config \<Rightarrow> lr_executor option \<Rightarrow> lp_rebalancer \<Rightarrow> trade_type option" where
  "next_side cfg ended s =
     (if failed_executor ended \<and> lre_side (the ended) \<noteq> None then lre_side (the ended)
      else if \<not> lr_initial_position_created s then Some (lrc_side cfg)
      else if \<not> limit_set (lr_pool_price s) then None
      else let price = the (lr_pool_price s) in
        Some (case closed_bounds ended of
                None \<Rightarrow> determine_side_from_price cfg price
              | Some (lower, upper) \<Rightarrow>
                  (if price \<ge> upper then BUY
                   else if price < lower then SELL
                   else determine_side_from_price cfg price)))"

definition clear_closed :: "lp_rebalancer \<Rightarrow> lp_rebalancer" where
  "clear_closed s =
     s\<lparr>lr_last_closed_base_amount := None, lr_last_closed_quote_amount := None,
       lr_last_closed_base_fee := None, lr_last_closed_quote_fee := None\<rparr>"

definition open_position ::
  "lr_config \<Rightarrow> lr_env \<Rightarrow> lp_rebalancer \<Rightarrow> trade_type \<Rightarrow> lp_rebalancer \<times> lr_action list py_result" where
  "open_position cfg env s sd =
     (case lr_create_executor_config cfg env s sd of
        Inl err \<Rightarrow> (s, Inl err)
      | Inr None \<Rightarrow> (s, Inr [])
      | Inr (Some c) \<Rightarrow> (clear_closed (position_opened s), Inr [lr_create_action cfg c]))"

definition swap_or_open ::
  "lr_config \<Rightarrow> lr_env \<Rightarrow> lp_rebalancer \<Rightarrow> trade_type \<Rightarrow> lp_rebalancer \<times> lr_action list py_result" where
  "swap_or_open cfg env s sd =
     (if limit_set (lr_pool_price s) \<and> \<not> is_price_within_limits cfg (the (lr_pool_price s)) sd then (s, Inr [])
      else if lrc_autoswap cfg
      then (if \<not> limit_set (lr_pool_price s) then (s, Inr [])
            else (case check_autoswap_needed cfg env s sd (the (lr_pool_price s)) of
                    Inl err \<Rightarrow> (s, Inl err)
                  | Inr (Some swap) \<Rightarrow>
                      (s\<lparr>lr_pending_swap_side := Some sd\<rparr>, Inr [lr_create_action cfg (AutoSwap swap)])
                  | Inr None \<Rightarrow> open_position cfg env s sd))
      else open_position cfg env s sd)"

text \<open>No LP executor is active: the last one is settled once it has ended, and replaced.\<close>

definition replace_position ::
  "lr_config \<Rightarrow> lr_env \<Rightarrow> lr_executor list \<Rightarrow> lp_rebalancer \<Rightarrow> lp_rebalancer \<times> lr_action list py_result" where
  "replace_position cfg env es s =
     (if \<not> is_tracked_executor_terminated es s then (s, Inr [])
      else let ended = get_tracked_executor es s;
               s1 = (book_closed ended s)\<lparr>lr_current_executor_id := None\<rparr>
      in (case next_side cfg ended s1 of
            None \<Rightarrow> (s1, Inr [])
          | Some sd \<Rightarrow> swap_or_open cfg env s1 sd))"

definition watch_position :: "lr_executor \<Rightarrow> lp_rebalancer \<Rightarrow> lp_rebalancer" where
  "watch_position e s =
     (if lr_pending_balance_update s \<and> lre_state e \<in> set [Some IN_RANGE, Some OUT_OF_RANGE]
      then trigger_balance_update (s\<lparr>lr_pending_balance_update := False\<rparr>) else s)"

definition lr_determine_executor_actions ::
  "lr_config \<Rightarrow> lr_env \<Rightarrow> lr_executor list \<Rightarrow> lp_rebalancer \<Rightarrow> lp_rebalancer \<times> lr_action list py_result" where
  "lr_determine_executor_actions cfg env es s =
     (let s1 = adopt_swap_executor es (capture_initial_balances cfg env s) in
      if lr_pending_swap_side s1 \<noteq> None \<and> \<not> truthy_str (lr_swap_executor_id s1) then (s1, Inr [])
      else if truthy_str (lr_swap_executor_id s1)
      then (if \<not> is_swap_executor_done es s1 then (s1, Inr []) else after_swap cfg env es s1)
      else (case lr_active_executor es of
              None \<Rightarrow> replace_position cfg env es s1
            | Some e \<Rightarrow>
                (let s2 = (if truthy_str (lr_current_executor_id s1) then s1
                           else s1\<lparr>lr_current_executor_id := Some (lre_id e)\<rparr>)
                 in (watch_position e s2, Inr []))))"

definition lr_update_processed_data :: "lr_config \<Rightarrow> lr_env \<Rightarrow> lp_rebalancer \<Rightarrow> lp_rebalancer" where
  "lr_update_processed_data cfg env s =
     (case parse_provider (lrc_lp_provider cfg) ''clmm'' of (dex, trading_type) \<Rightarrow>
      case le_pool env (lrc_pool_address cfg) dex trading_type of
        None \<Rightarrow> s
      | Some price \<Rightarrow> if price = 0 then s else s\<lparr>lr_pool_price := Some price\<rparr>)"

section \<open>The controller beside its executors\<close>

text \<open>
  A tick runs while the executors it has asked for are created: \<open>control_task\<close> waits for
  \<open>executors_update_event\<close>, which \<open>send_actions\<close> clears and the strategy sets after it has executed the
  actions and updated the executors' infos.
\<close>

definition lr_tick ::
  "lr_config \<Rightarrow> lr_env \<Rightarrow> lr_executor list \<Rightarrow> lp_rebalancer \<Rightarrow> lp_rebalancer \<times> lr_action list py_result" where
  "lr_tick cfg env es s = lr_determine_executor_actions cfg env es (lr_update_processed_data cfg env s)"

fun created_executor :: "lr_action \<Rightarrow> lr_executor list" where
  "created_executor (CreateExecutorAction cid (LPPosition c provider extra)) =
     [\<lparr>lre_id = lc_id c, lre_type = ''lp_executor'', lre_is_active = True, lre_status = RUNNING,
       lre_close_type = None, lre_side = Some (lc_side c), lre_state = Some NOT_ACTIVE, lre_figures = []\<rparr>]"
| "created_executor (CreateExecutorAction cid (AutoSwap c)) =
     [\<lparr>lre_id = xc_id c, lre_type = ''order_executor'', lre_is_active = True, lre_status = RUNNING,
       lre_close_type = None, lre_side = Some (xc_side c), lre_state = None, lre_figures = []\<rparr>]"
| "created_executor _ = []"

text \<open>An executor never becomes active again, nor leaves TERMINATED, and keeps its id and type.\<close>

definition executor_progress :: "lr_executor \<Rightarrow> lr_executor \<Rightarrow> bool" where
  "executor_progress e e' \<longleftrightarrow> lre_id e' = lre_id e \<and> lre_type e' = lre_type e
     \<and> (lre_is_active e' \<longrightarrow> lre_is_active e) \<and> (lre_status e = TERMINATED \<longrightarrow> lre_status e' = TERMINATED)"

type_synonym lr_world = "lp_rebalancer \<times> lr_executor list"

inductive lr_step :: "lr_config \<Rightarrow> lr_world \<Rightarrow> lr_world \<Rightarrow> bool" for cfg where
  tick: "lr_tick cfg env es s = (s', Inr acts) \<Longrightarrow>
    lr_step cfg (s, es) (s', es @ concat (map created_executor acts))"
| refused: "lr_tick cfg env es s = (s', r) \<Longrightarrow> lr_step cfg (s, es) (s', es)"
| progress: "k < length es \<Longrightarrow> executor_progress (es ! k) e' \<Longrightarrow> lr_step cfg (s, es) (s, es[k := e'])"
| stored: "k < length es \<Longrightarrow> lre_status (es ! k) = TERMINATED \<Longrightarrow> \<not> lre_is_active (es ! k) \<Longrightarrow>
    lr_step cfg (s, es) (s, take k es @ drop (Suc k) es)"

inductive lr_reachable :: "lr_config \<Rightarrow> lr_world \<Rightarrow> bool" for cfg where
  new: "lr_reachable cfg (new_lp_rebalancer, [])"
| step: "lr_reachable cfg w \<Longrightarrow> lr_step cfg w w' \<Longrightarrow> lr_reachable cfg w'"

end
