(* ===== verification/LP_Rebalancer_Safety.thy ===== *)
theory LP_Rebalancer_Safety
  imports LP_Rebalancer LP_Accounting
begin

text \<open>
  The LP rebalancer: what a position it opens looks like, that it has one position open at a time, that a
  closed position is replaced, and the ways it forgets a side or stops acting.
\<close>

section \<open>The positions it opens\<close>

text \<open>Whatever the side, a share of the total is held as quote and the rest as base.\<close>

lemma amounts_split:
  assumes "price \<noteq> 0"
  shows "\<exists>r. 0 \<le> r \<and> r \<le> 1 \<and> calculate_amounts cfg sd price =
    Inr (lrc_total_amount_quote cfg * (1 - r) / price, lrc_total_amount_quote cfg * r)"
proof -
  let ?a = "lrc_total_amount_quote cfg"
  obtain lower upper where p: "calculate_price_bounds cfg sd price = (lower, upper)" by (cases "calculate_price_bounds cfg sd price")
  have single: "\<exists>r. 0 \<le> r \<and> r \<le> 1 \<and> single_sided ?a sd price = Inr (?a * (1 - r) / price, ?a * r)"
    using assms by (cases "sd = BUY") (auto simp: single_sided_def intro!: exI [of _ "if sd = BUY then 1 else 0"])
  show ?thesis
  proof (cases "sd = RANGE")
    case True
    then show ?thesis using assms by (auto simp: calculate_amounts_def Let_def intro!: exI [of _ "1 / 2"])
  next
    case side: False
    show ?thesis
    proof (cases "lrc_position_offset_pct cfg \<ge> 0 \<or> upper - lower \<le> 0 \<or> price \<le> lower \<or> price \<ge> upper")
      case True
      then show ?thesis using single side by (auto simp: calculate_amounts_def Let_def p)
    next
      case False
      then show ?thesis
        using side assms by (auto simp: calculate_amounts_def Let_def p intro!: exI [of _ "(price - lower) / (upper - lower)"])
    qed
  qed
qed

lemma amounts_worth_total:
  assumes "calculate_amounts cfg sd price = Inr (b, q)" and "price \<noteq> 0"
  shows "b * price + q = lrc_total_amount_quote cfg"
proof -
  obtain r where "b = lrc_total_amount_quote cfg * (1 - r) / price" "q = lrc_total_amount_quote cfg * r"
    using amounts_split [OF assms(2), of cfg sd] assms(1) by auto
  then have "b * price + q = lrc_total_amount_quote cfg * (1 - r) + lrc_total_amount_quote cfg * r" using assms(2) by simp
  then show ?thesis by (simp add: algebra_simps)
qed

lemma amounts_nonneg:
  assumes "calculate_amounts cfg sd price = Inr (b, q)" and "price > 0" and "lrc_total_amount_quote cfg \<ge> 0"
  shows "0 \<le> b \<and> 0 \<le> q"
  using amounts_split [of price cfg sd] assms by auto

lemma amounts_total: "price \<noteq> 0 \<Longrightarrow> \<exists>b q. calculate_amounts cfg sd price = Inr (b, q)"
  using amounts_split by blast

text \<open>Neither bound lies outside the side's limits.\<close>

definition within_limits :: "lr_config \<Rightarrow> trade_type \<Rightarrow> decimal \<Rightarrow> decimal \<Rightarrow> bool" where
  "within_limits cfg sd lower upper \<longleftrightarrow> sd = RANGE
     \<or> \<not> below_limit lower (fst (limits_of_side cfg sd)) \<and> \<not> above_limit upper (snd (limits_of_side cfg sd))"

lemma clamped_within_limits:
  assumes "validate_and_clamp_bounds cfg lower upper sd price = Some (l, u, sd')"
  shows "within_limits cfg sd' l u \<and> (sd' = RANGE \<longleftrightarrow> sd = RANGE)"
  using assms
  by (auto simp: validate_and_clamp_bounds_def within_limits_def below_limit_def above_limit_def opposite_side_def Let_def
      split: if_splits prod.splits)

lemma created_position:
  assumes "lr_create_executor_config cfg env s sd = Inr (Some c)"
  shows "\<exists>price lower upper base qt sd'. lr_pool_price s = Some price \<and> price \<noteq> 0 \<and> lower < upper
    \<and> calculate_amounts cfg sd' price = Inr (base, qt) \<and> within_limits cfg sd' lower upper
    \<and> c = position_request cfg env lower upper base qt sd'"
proof -
  obtain price where p: "lr_pool_price s = Some price" "price \<noteq> 0"
    using assms by (auto simp: lr_create_executor_config_def split: option.splits if_splits)
  obtain l u where lu: "calculate_price_bounds cfg sd price = (l, u)" by (cases "calculate_price_bounds cfg sd price")
  obtain lower upper sd' where v: "validate_and_clamp_bounds cfg l u sd price = Some (lower, upper, sd')"
    using assms p lu by (cases "validate_and_clamp_bounds cfg l u sd price") (auto simp: lr_create_executor_config_def)
  obtain b q where "lower < upper" "calculate_amounts cfg sd' price = Inr (b, q)" "c = position_request cfg env lower upper b q sd'"
    using assms p lu v by (auto simp: lr_create_executor_config_def ebind_eq_Inr_iff split: if_splits)
  then show ?thesis using p clamped_within_limits [OF v] by blast
qed

section \<open>One position at a time\<close>

definition active_positions :: "lr_executor list \<Rightarrow> nat" where
  "active_positions es = length (filter (\<lambda>e. lre_is_active e \<and> lre_type e = ''lp_executor'') es)"

definition sole_position :: "lr_world \<Rightarrow> bool" where
  "sole_position w \<longleftrightarrow> active_positions (snd w) \<le> 1 \<and> (lr_pending_swap_side (fst w) \<noteq> None \<longrightarrow> active_positions (snd w) = 0)
     \<and> (truthy_str (lr_swap_executor_id (fst w)) \<longrightarrow> lr_pending_swap_side (fst w) \<noteq> None)"

lemma active_positions_simps [simp]:
  "active_positions [] = 0" "active_positions (xs @ ys) = active_positions xs + active_positions ys"
  "active_positions (e # es) = (if lre_is_active e \<and> lre_type e = ''lp_executor'' then 1 else 0) + active_positions es"
  by (simp_all add: active_positions_def)

lemma no_active_position: "lr_active_executor es = None \<longleftrightarrow> active_positions es = 0"
  by (auto simp: lr_active_executor_def find_None_iff active_positions_def filter_empty_conv)

lemma active_positions_progress:
  assumes "k < length es" and "executor_progress (es ! k) e'"
  shows "active_positions (es[k := e']) \<le> active_positions es"
proof -
  have "active_positions es = active_positions (take k es @ es ! k # drop (Suc k) es)" using assms(1) by (simp add: id_take_nth_drop [symmetric])
  then show ?thesis using assms by (auto simp: upd_conv_take_nth_drop executor_progress_def)
qed

lemma active_positions_stored:
  assumes "k < length es" and "\<not> lre_is_active (es ! k)"
  shows "active_positions (take k es @ drop (Suc k) es) = active_positions es"
proof -
  have "active_positions es = active_positions (take k es @ es ! k # drop (Suc k) es)" using assms(1) by (simp add: id_take_nth_drop [symmetric])
  then show ?thesis using assms(2) by simp
qed

text \<open>What a method of the controller creates: nothing or a single executor.\<close>

definition creates :: "lr_action list py_result \<Rightarrow> lr_executor_config option \<Rightarrow> lr_config \<Rightarrow> bool" where
  "creates r c cfg \<longleftrightarrow> r = Inr (case c of None \<Rightarrow> [] | Some c' \<Rightarrow> [lr_create_action cfg c'])"

lemma create_config_succeeds: "\<exists>c. lr_create_executor_config cfg env s sd = Inr c"
proof (cases "lr_pool_price s")
  case (Some price)
  have "price \<noteq> 0 \<Longrightarrow> \<exists>b q. calculate_amounts cfg sd' price = Inr (b, q)" for sd' by (rule amounts_total)
  then show ?thesis using Some
    by (auto simp: lr_create_executor_config_def ebind_def split: prod.splits option.splits sum.splits) (metis Inr_not_Inl)+
qed (simp add: lr_create_executor_config_def)

lemma created_is_position:
  "lr_create_executor_config cfg env s sd = Inr (Some c) \<Longrightarrow> \<exists>c' p st. c = LPPosition c' p st"
  using created_position by (fastforce simp: position_request_def Let_def)

lemma swap_check_succeeds:
  assumes "price \<noteq> 0"
  shows "\<exists>c. check_autoswap_needed cfg env s sd price = Inr c"
proof -
  obtain b q where a: "calculate_amounts cfg sd price = Inr (b, q)" using amounts_total [OF assms] by blast
  show ?thesis
    using assms by (auto simp: check_autoswap_needed_def a swap_for_deficit_def Let_def split: prod.splits sum.splits)
qed

text \<open>The outcome of a tick for the swap and the positions.\<close>

definition lr_outcome :: "lr_config \<Rightarrow> lr_executor list \<Rightarrow> lp_rebalancer \<times> lr_action list py_result \<Rightarrow> bool" where
  "lr_outcome cfg es o' \<longleftrightarrow> (\<exists>c. creates (snd o') c cfg
     \<and> (case c of
          None \<Rightarrow> lr_pending_swap_side (fst o') = None
        | Some (LPPosition c' p st) \<Rightarrow> active_positions es = 0 \<and> lr_pending_swap_side (fst o') = None
        | Some (AutoSwap sw) \<Rightarrow> active_positions es = 0 \<and> lr_pending_swap_side (fst o') \<noteq> None)
     \<and> \<not> truthy_str (lr_swap_executor_id (fst o')))"

lemma outcome_waits:
  assumes "lr_outcome cfg es o'"
  shows "\<not> truthy_str (lr_swap_executor_id (fst o')) \<and> (lr_pending_swap_side (fst o') = None \<or> active_positions es = 0)"
proof -
  obtain c where "case c of None \<Rightarrow> lr_pending_swap_side (fst o') = None
      | Some (LPPosition c' p st) \<Rightarrow> active_positions es = 0 \<and> lr_pending_swap_side (fst o') = None
      | Some (AutoSwap sw) \<Rightarrow> active_positions es = 0 \<and> lr_pending_swap_side (fst o') \<noteq> None"
    "\<not> truthy_str (lr_swap_executor_id (fst o'))"
    using assms unfolding lr_outcome_def by blast
  then show ?thesis by (cases c; cases "the c") auto
qed

lemma open_position_outcome:
  assumes "active_positions es = 0" and "lr_pending_swap_side s = None" and "\<not> truthy_str (lr_swap_executor_id s)"
  shows "lr_outcome cfg es (open_position cfg env s sd)"
  using create_config_succeeds [of cfg env s sd] created_is_position [of cfg env s sd] assms
  by (fastforce simp: open_position_def lr_outcome_def creates_def clear_closed_def position_opened_def split: option.splits)

lemma swap_or_open_outcome:
  assumes "active_positions es = 0" and "lr_pending_swap_side s = None" and "\<not> truthy_str (lr_swap_executor_id s)"
  shows "lr_outcome cfg es (swap_or_open cfg env s sd)"
proof -
  note o' = open_position_outcome [OF assms]
  have quiet: "lr_outcome cfg es (s, Inr [])" using assms by (auto simp: lr_outcome_def creates_def intro!: exI [of _ None])
  show ?thesis
  proof (cases "limit_set (lr_pool_price s)")
    case True
    then obtain price where p: "lr_pool_price s = Some price" "price \<noteq> 0" by (auto simp: limit_set_def split: option.splits)
    obtain c where c: "check_autoswap_needed cfg env s sd price = Inr c" using swap_check_succeeds [OF p(2)] by blast
    have "lr_outcome cfg es (s\<lparr>lr_pending_swap_side := Some sd\<rparr>, Inr [lr_create_action cfg (AutoSwap sw)])" for sw
      using assms by (auto simp: lr_outcome_def creates_def intro!: exI [of _ "Some (AutoSwap sw)"])
    then show ?thesis using o' quiet p c by (cases c) (auto simp: swap_or_open_def)
  qed (use o' quiet in \<open>auto simp: swap_or_open_def\<close>)
qed

lemma replace_position_outcome:
  assumes "active_positions es = 0" and "lr_pending_swap_side s = None" and "\<not> truthy_str (lr_swap_executor_id s)"
  shows "lr_outcome cfg es (replace_position cfg env es s)"
proof -
  have quiet: "lr_outcome cfg es (s', Inr [])" if "lr_pending_swap_side s' = None" "\<not> truthy_str (lr_swap_executor_id s')" for s'
    using that by (auto simp: lr_outcome_def creates_def intro!: exI [of _ None])
  have k: "lr_pending_swap_side (book_closed e s) = None" "\<not> truthy_str (lr_swap_executor_id (book_closed e s))" for e
    using assms by (auto simp: book_closed_def Let_def split: option.splits)
  show ?thesis
    using assms k by (auto simp: replace_position_def Let_def intro!: quiet swap_or_open_outcome split: option.splits)
qed

lemma after_swap_outcome:
  assumes "active_positions es = 0"
  shows "lr_outcome cfg es (after_swap cfg env es s)"
proof -
  let ?s1 = "s\<lparr>lr_swap_executor_id := None, lr_pending_swap_side := None\<rparr>"
  have quiet: "lr_outcome cfg es (s', Inr [])" if "lr_pending_swap_side s' = None" "lr_swap_executor_id s' = None" for s'
    using that by (auto simp: lr_outcome_def creates_def intro!: exI [of _ None])
  have b: "lr_pending_swap_side (book_swap e (trigger_balance_update ?s1)) = None"
    "lr_swap_executor_id (book_swap e (trigger_balance_update ?s1)) = None" for e
    by (simp_all add: book_swap_def trigger_balance_update_def Let_def)
  show ?thesis
  proof (cases "get_swap_executor es s")
    case (Some e)
    let ?s2 = "book_swap e (trigger_balance_update ?s1)"
    have "lr_outcome cfg es (position_opened ?s2, Inr [lr_create_action cfg c])" if "lr_create_executor_config cfg env ?s2 sd = Inr (Some c)" for sd c
      using created_is_position [OF that] b assms by (auto simp: lr_outcome_def creates_def position_opened_def intro!: exI [of _ "Some c"])
    then show ?thesis
      using Some create_config_succeeds [of cfg env ?s2] b
      by (auto simp: after_swap_def Let_def intro!: quiet split: option.splits sum.splits) (metis Inr_not_Inl)+
  qed (auto simp: after_swap_def Let_def intro!: quiet)
qed

lemma adopt_keeps_pending [simp]:
  "lr_pending_swap_side (adopt_swap_executor es (capture_initial_balances cfg env s)) = lr_pending_swap_side s"
  by (auto simp: adopt_swap_executor_def capture_initial_balances_def split: option.splits prod.splits sum.splits)

lemma captured_swap_id [simp]: "lr_swap_executor_id (capture_initial_balances cfg env s) = lr_swap_executor_id s"
  "lr_pending_swap_side (capture_initial_balances cfg env s) = lr_pending_swap_side s"
  by (auto simp: capture_initial_balances_def split: prod.splits sum.splits)

text \<open>A tick either waits, with the swap it waits for, or has an outcome as above.\<close>

lemma tick_outcome:
  assumes "sole_position (s, es)"
  shows "lr_outcome cfg es (lr_determine_executor_actions cfg env es s)
    \<or> (\<exists>s'. lr_determine_executor_actions cfg env es s = (s', Inr []) \<and> lr_pending_swap_side s' \<noteq> None \<and> active_positions es = 0)"
proof -
  let ?s = "capture_initial_balances cfg env s" and ?s1 = "adopt_swap_executor es (capture_initial_balances cfg env s)"
  show ?thesis
  proof (cases "lr_pending_swap_side s")
    case None
    then have fresh: "?s1 = ?s" "\<not> truthy_str (lr_swap_executor_id s)" using assms by (auto simp: adopt_swap_executor_def sole_position_def)
    show ?thesis
    proof (cases "lr_active_executor es")
      case idle: None
      then have "lr_determine_executor_actions cfg env es s = replace_position cfg env es ?s"
        using None fresh by (simp add: lr_determine_executor_actions_def Let_def)
      then show ?thesis using replace_position_outcome [of es ?s cfg env] idle None fresh by (simp add: no_active_position)
    next
      case (Some e)
      then show ?thesis
        using None fresh by (auto simp: lr_determine_executor_actions_def Let_def lr_outcome_def creates_def watch_position_def
            trigger_balance_update_def intro!: exI [of _ None])
    qed
  next
    case (Some sd)
    then have "active_positions es = 0" using assms by (auto simp: sole_position_def)
    then show ?thesis using Some after_swap_outcome [of es cfg env ?s1] by (auto simp: lr_determine_executor_actions_def Let_def)
  qed
qed

lemma processed_data_keeps [simp]:
  "lr_pending_swap_side (lr_update_processed_data cfg env s) = lr_pending_swap_side s"
  "lr_swap_executor_id (lr_update_processed_data cfg env s) = lr_swap_executor_id s"
  by (auto simp: lr_update_processed_data_def split: prod.splits option.splits)

lemma lr_step_sole:
  assumes "lr_step cfg w w'" and "sole_position w"
  shows "sole_position w'"
  using assms(1)
proof cases
  case (tick env es s s' acts)
  let ?s = "lr_update_processed_data cfg env s"
  have i: "sole_position (?s, es)" "active_positions es \<le> 1" using assms(2) tick by (auto simp: sole_position_def)
  have a: "active_positions (created_executor (lr_create_action cfg c)) = (case c of LPPosition c' p st \<Rightarrow> 1 | AutoSwap sw \<Rightarrow> 0)" for c
    by (cases c) (simp_all add: lr_create_action_def)
  show ?thesis
    using tick_outcome [OF i(1), of cfg env] tick i(2) a
    by (auto simp: lr_tick_def lr_outcome_def creates_def sole_position_def split: option.splits lr_executor_config.splits)
next
  case (refused env es s s' r)
  let ?s = "lr_update_processed_data cfg env s"
  have i: "sole_position (?s, es)" "active_positions es \<le> 1" using assms(2) refused by (auto simp: sole_position_def)
  show ?thesis
    using tick_outcome [OF i(1), of cfg env] refused i(2) by (auto simp: lr_tick_def sole_position_def dest: outcome_waits)
next
  case (progress k es e' s)
  then show ?thesis using assms(2) active_positions_progress [of k es e'] by (auto simp: sole_position_def)
next
  case (stored k es s)
  then show ?thesis using assms(2) active_positions_stored [of k es] by (auto simp: sole_position_def)
qed

lemma reachable_sole: "lr_reachable cfg w \<Longrightarrow> sole_position w"
proof (induction rule: lr_reachable.induct)
  case new
  show ?case by (simp add: sole_position_def new_lp_rebalancer_def)
qed (rule lr_step_sole)

text \<open>
  Attended runs: an executor of a position stops being active, without having ended, only when the
  controller already follows it, and new executors draw new ids.
\<close>

inductive lr_attended :: "lr_config \<Rightarrow> lr_world \<Rightarrow> bool" for cfg where
  new: "lr_attended cfg (new_lp_rebalancer, [])"
| tick: "lr_attended cfg (s, es) \<Longrightarrow> le_new_id env \<notin> set (map lre_id es) \<Longrightarrow> le_new_id env \<noteq> [] \<Longrightarrow>
    lr_tick cfg env es s = (s', Inr acts) \<Longrightarrow> lr_attended cfg (s', es @ concat (map created_executor acts))"
| refused: "lr_attended cfg (s, es) \<Longrightarrow> lr_tick cfg env es s = (s', r) \<Longrightarrow> lr_attended cfg (s', es)"
| progress: "lr_attended cfg (s, es) \<Longrightarrow> k < length es \<Longrightarrow> executor_progress (es ! k) e' \<Longrightarrow>
    (lre_is_active (es ! k) \<and> \<not> lre_is_active e' \<Longrightarrow> lre_status e' = TERMINATED \<or> lr_current_executor_id s = Some (lre_id e')) \<Longrightarrow>
    lr_attended cfg (s, es[k := e'])"
| stored: "lr_attended cfg (s, es) \<Longrightarrow> k < length es \<Longrightarrow> lre_status (es ! k) = TERMINATED \<Longrightarrow> \<not> lre_is_active (es ! k) \<Longrightarrow>
    lr_attended cfg (s, take k es @ drop (Suc k) es)"

lemma attended_reachable: "lr_attended cfg w \<Longrightarrow> lr_reachable cfg w"
  by (induction rule: lr_attended.induct) (blast intro: lr_reachable.intros lr_step.intros)+

text \<open>The executors of positions that have not ended.\<close>

definition unended :: "lr_executor \<Rightarrow> bool" where
  "unended e \<longleftrightarrow> lre_type e = ''lp_executor'' \<and> lre_status e \<noteq> TERMINATED"

definition unended_positions :: "lr_executor list \<Rightarrow> nat" where
  "unended_positions es = length (filter unended es)"

lemma unended_positions_simps [simp]:
  "unended_positions [] = 0" "unended_positions (xs @ ys) = unended_positions xs + unended_positions ys"
  "unended_positions (e # es) = (if unended e then 1 else 0) + unended_positions es"
  by (simp_all add: unended_positions_def)

lemma no_unended: "unended_positions es = 0 \<longleftrightarrow> (\<forall>e \<in> set es. \<not> unended e)"
  by (simp add: unended_positions_def filter_empty_conv)

definition follows_position :: "lr_world \<Rightarrow> bool" where
  "follows_position w \<longleftrightarrow> (let s = fst w; es = snd w; i = lr_current_executor_id s in
     distinct (map lre_id es) \<and> [] \<notin> set (map lre_id es) \<and> i \<noteq> Some []
     \<and> unended_positions es \<le> 1 \<and> (lr_pending_swap_side s \<noteq> None \<longrightarrow> unended_positions es = 0 \<and> i = None)
     \<and> (\<forall>e \<in> set es. unended e \<longrightarrow> i = Some (lre_id e) \<or> i = None \<and> lre_is_active e))"

lemma tracked_by_id:
  assumes "distinct (map lre_id es)" and "[] \<notin> set (map lre_id es)" and "e \<in> set es" and "lr_current_executor_id s = Some (lre_id e)"
  shows "get_tracked_executor es s = Some e"
proof -
  have "lre_id e \<noteq> []" using assms(2,3) by (metis image_eqI set_map)
  then have "truthy_str (Some (lre_id e))" by (cases "lre_id e") simp_all
  moreover have "List.find (\<lambda>x. lre_id x = lre_id e) es = Some e"
    using assms(1,3) by (induction es) (auto simp: image_iff)
  ultimately show ?thesis by (simp add: get_tracked_executor_def executor_by_id_def assms(4))
qed

text \<open>Once nothing is active and the executor that is followed has ended, every position has ended.\<close>

lemma settled_positions:
  assumes "follows_position (s, es)" and "active_positions es = 0" and "is_tracked_executor_terminated es s"
  shows "unended_positions es = 0"
proof (unfold no_unended, intro ballI notI)
  fix e assume e: "e \<in> set es" "unended e"
  then have "\<not> lre_is_active e" using assms(2) by (auto simp: active_positions_def filter_empty_conv unended_def)
  then have "lr_current_executor_id s = Some (lre_id e)" using assms(1) e by (auto simp: follows_position_def Let_def)
  then have "get_tracked_executor es s = Some e" using tracked_by_id assms(1) e(1) by (simp add: follows_position_def Let_def)
  then show False using assms(3) e(2) by (simp add: is_tracked_executor_terminated_def unended_def)
qed

lemma tick_frames [simp]:
  "lr_current_executor_id (lr_update_processed_data cfg env s) = lr_current_executor_id s"
  "lr_current_executor_id (capture_initial_balances cfg env s) = lr_current_executor_id s"
  "lr_current_executor_id (adopt_swap_executor es s) = lr_current_executor_id s"
  "lr_current_executor_id (book_swap e s) = lr_current_executor_id s"
  "lr_current_executor_id (book_closed d s) = lr_current_executor_id s"
  "lr_current_executor_id (trigger_balance_update s) = lr_current_executor_id s"
  "lr_current_executor_id (position_opened s) = lr_current_executor_id s"
  by (auto simp: lr_update_processed_data_def capture_initial_balances_def adopt_swap_executor_def book_swap_def book_closed_def
      trigger_balance_update_def position_opened_def Let_def split: prod.splits option.splits sum.splits)

lemma opening_keeps_current:
  "lr_current_executor_id (fst (swap_or_open cfg env s sd)) = lr_current_executor_id s"
  "lr_current_executor_id (fst (after_swap cfg env es s)) = lr_current_executor_id s"
  by (auto simp: swap_or_open_def open_position_def after_swap_def clear_closed_def Let_def split: option.splits sum.splits)

lemma replacing_current:
  "\<not> is_tracked_executor_terminated es s \<and> replace_position cfg env es s = (s, Inr [])
   \<or> is_tracked_executor_terminated es s \<and> lr_current_executor_id (fst (replace_position cfg env es s)) = None"
  by (auto simp: replace_position_def Let_def opening_keeps_current split: option.splits)

lemma watching_current:
  "lr_current_executor_id (watch_position e s) = lr_current_executor_id s" "lr_pending_swap_side (watch_position e s) = lr_pending_swap_side s"
  by (simp_all add: watch_position_def trigger_balance_update_def)

text \<open>
  What a tick does to the executor it follows: either it creates nothing and follows at most the
  active one, or everything has ended, and it follows none.
\<close>

lemma tick_follows:
  assumes "sole_position (s, es)" and f: "follows_position (s, es)"
    and tick: "lr_determine_executor_actions cfg env es s = (s', r)"
  shows "r = Inr [] \<and> (lr_pending_swap_side s' \<noteq> None \<longrightarrow> lr_pending_swap_side s \<noteq> None)
      \<and> (lr_current_executor_id s' = lr_current_executor_id s
         \<or> lr_current_executor_id s = None \<and> (\<exists>e. lr_active_executor es = Some e \<and> lr_current_executor_id s' = Some (lre_id e)))
    \<or> unended_positions es = 0 \<and> lr_current_executor_id s' = None"
proof -
  let ?s = "capture_initial_balances cfg env s" and ?s1 = "adopt_swap_executor es (capture_initial_balances cfg env s)"
  show ?thesis
  proof (cases "lr_pending_swap_side s")
    case (Some sd)
    then have "unended_positions es = 0" "lr_current_executor_id s = None" using f by (auto simp: follows_position_def Let_def)
    then show ?thesis
      using tick Some opening_keeps_current(2) [of cfg env es ?s1]
      by (auto simp: lr_determine_executor_actions_def Let_def split: if_splits)
  next
    case None
    then have fresh: "?s1 = ?s" "\<not> truthy_str (lr_swap_executor_id s)"
      using assms(1) by (auto simp: adopt_swap_executor_def sole_position_def)
    show ?thesis
    proof (cases "lr_active_executor es")
      case idle: None
      then have d: "replace_position cfg env es ?s = (s', r)"
        using tick None fresh by (simp add: lr_determine_executor_actions_def Let_def)
      have "follows_position (?s, es)" using f by (simp add: follows_position_def Let_def)
      then show ?thesis
        using replacing_current [of es ?s cfg env] settled_positions [of ?s es] idle d None
        by (auto simp: no_active_position)
    next
      case (Some e)
      have i: "lr_current_executor_id s \<noteq> Some []" using f by (simp add: follows_position_def Let_def)
      show ?thesis
      proof (cases "lr_current_executor_id s")
        case none: None
        then show ?thesis using tick None fresh Some by (auto simp: lr_determine_executor_actions_def Let_def watching_current)
      next
        case (Some j)
        then have "truthy_str (lr_current_executor_id s)" using i by (cases j) simp_all
        then show ?thesis
          using tick None fresh \<open>lr_active_executor es = Some e\<close>
          by (auto simp: lr_determine_executor_actions_def Let_def watching_current)
      qed
    qed
  qed
qed

lemma created_ids:
  assumes "lr_outcome cfg es o'" and "snd o' = Inr acts"
  shows "length (concat (map created_executor acts)) \<le> 1
    \<and> (lr_pending_swap_side (fst o') \<noteq> None \<longrightarrow> unended_positions (concat (map created_executor acts)) = 0)
    \<and> (\<forall>e \<in> set (concat (map created_executor acts)). lre_is_active e)"
  using assms
  by (auto simp: lr_outcome_def creates_def lr_create_action_def unended_def split: option.splits lr_executor_config.splits)

lemma deficit_draws_id: "swap_for_deficit cfg env price b q db dq = Inr (Some sw) \<Longrightarrow> xc_id sw = le_new_id env"
  by (cases "dec_div dq price") (auto simp: swap_for_deficit_def swap_request_def Let_def split: if_splits)

lemma swap_draws_id: "check_autoswap_needed cfg env s sd price = Inr (Some sw) \<Longrightarrow> xc_id sw = le_new_id env"
  by (cases "calculate_amounts cfg sd price")
    (auto simp: check_autoswap_needed_def Let_def split: if_splits prod.splits sum.splits dest: deficit_draws_id)

lemma position_draws_id:
  "lr_create_executor_config cfg env s sd = Inr (Some c) \<Longrightarrow> e \<in> set (created_executor (lr_create_action cfg c)) \<Longrightarrow> lre_id e = le_new_id env"
  using created_position [of cfg env s sd c] by (auto simp: position_request_def lr_create_action_def Let_def)

definition draws_id :: "lr_env \<Rightarrow> lr_action list py_result \<Rightarrow> bool" where
  "draws_id env r \<longleftrightarrow> (\<forall>acts a e. r = Inr acts \<and> a \<in> set acts \<and> e \<in> set (created_executor a) \<longrightarrow> lre_id e = le_new_id env)"

lemma open_draws_id: "draws_id env (snd (open_position cfg env s sd))"
  using position_draws_id [of cfg env s sd] by (auto simp: draws_id_def open_position_def split: sum.splits option.splits)

lemma tick_draws_id: "draws_id env (snd (lr_determine_executor_actions cfg env es s))"
proof -
  have quiet: "draws_id env (Inr [])" "draws_id env (Inl e)" for e by (simp_all add: draws_id_def)
  have "draws_id env (snd (after_swap cfg env es s'))" for s'
    using position_draws_id [of cfg env] by (auto simp: draws_id_def after_swap_def Let_def split: sum.splits option.splits)
  moreover have swap: "draws_id env (snd (swap_or_open cfg env s' sd))" for s' sd
    using swap_draws_id [of cfg env s' sd] open_draws_id [of env cfg s' sd] quiet
    by (auto simp: swap_or_open_def split: sum.splits option.splits) (auto simp: draws_id_def lr_create_action_def)
  moreover have "draws_id env (snd (replace_position cfg env es s'))" for s'
    using swap quiet by (auto simp: replace_position_def Let_def split: option.splits)
  ultimately show ?thesis
    using quiet by (auto simp: lr_determine_executor_actions_def Let_def split: option.splits)
qed

lemma sole_active:
  assumes "active_positions es \<le> 1" and "lr_active_executor es = Some e"
  shows "e \<in> set es" and "d \<in> set es \<Longrightarrow> lre_is_active d \<Longrightarrow> lre_type d = ''lp_executor'' \<Longrightarrow> d = e"
proof -
  let ?act = "filter (\<lambda>e. lre_is_active e \<and> lre_type e = ''lp_executor'') es"
  have e: "e \<in> set ?act" using assms(2) by (auto simp: lr_active_executor_def find_Some_iff)
  then show "e \<in> set es" by simp
  show "d = e" if "d \<in> set es" "lre_is_active d" "lre_type d = ''lp_executor''"
  proof -
    have "d \<in> set ?act" using that by simp
    then show ?thesis using e assms(1) unfolding active_positions_def by (cases ?act; cases "tl ?act") auto
  qed
qed

lemma tick_keeps_following:
  assumes sole: "sole_position (s, es)" and f: "follows_position (s, es)"
    and tick: "lr_determine_executor_actions cfg env es s = (s', r)"
  shows "follows_position (s', es)"
  using tick_follows [OF assms]
proof (elim disjE conjE)
  assume "unended_positions es = 0" "lr_current_executor_id s' = None"
  then show ?thesis using f by (auto simp: follows_position_def Let_def no_unended)
next
  assume "lr_pending_swap_side s' \<noteq> None \<longrightarrow> lr_pending_swap_side s \<noteq> None" "lr_current_executor_id s' = lr_current_executor_id s"
  then show ?thesis using f by (auto simp: follows_position_def Let_def)
next
  assume p: "lr_pending_swap_side s' \<noteq> None \<longrightarrow> lr_pending_swap_side s \<noteq> None"
    and none: "lr_current_executor_id s = None" and "\<exists>e. lr_active_executor es = Some e \<and> lr_current_executor_id s' = Some (lre_id e)"
  then obtain e where e: "lr_active_executor es = Some e" "lr_current_executor_id s' = Some (lre_id e)" by blast
  have one: "active_positions es \<le> 1" using sole by (simp add: sole_position_def)
  have "active_positions es \<noteq> 0" using e(1) no_active_position [of es] by simp
  then have "lr_pending_swap_side s' = None" using p sole by (auto simp: sole_position_def)
  moreover have "lre_id e \<noteq> []" using sole_active(1) [OF one e(1)] f by (force simp: follows_position_def Let_def)
  moreover have "d = e" if "d \<in> set es" "unended d" for d
    using that sole_active(2) [OF one e(1)] f none by (auto simp: follows_position_def unended_def Let_def)
  ultimately show ?thesis using f e(2) by (auto simp: follows_position_def Let_def)
qed

lemma follows_created:
  assumes "follows_position (s', es)" and "unended_positions es = 0" and "lr_current_executor_id s' = None"
    and "length new \<le> 1" and "\<And>e. e \<in> set new \<Longrightarrow> lre_id e = i \<and> lre_is_active e"
    and "i \<notin> set (map lre_id es)" and "i \<noteq> []" and "lr_pending_swap_side s' \<noteq> None \<longrightarrow> unended_positions new = 0"
  shows "follows_position (s', es @ new)"
proof (cases new)
  case Nil
  then show ?thesis using assms(1) by simp
next
  case (Cons e rest)
  then have n: "new = [e]" "lre_id e = i" "lre_is_active e" using assms(4,5) by auto
  moreover have "\<forall>e \<in> set es. \<not> unended e" using assms(2) by (simp add: no_unended)
  ultimately show ?thesis using assms(1-3,6-8) by (auto simp: follows_position_def Let_def)
qed

lemma unended_progress:
  assumes "k < length es" and "executor_progress (es ! k) e'"
  shows "unended_positions (es[k := e']) \<le> unended_positions es" "map lre_id (es[k := e']) = map lre_id es"
    "unended e' \<Longrightarrow> unended (es ! k)"
proof -
  show u: "unended (es ! k)" if "unended e'" using that assms(2) by (auto simp: executor_progress_def unended_def)
  have "unended_positions es = unended_positions (take k es @ es ! k # drop (Suc k) es)" using assms(1) by (simp add: id_take_nth_drop [symmetric])
  then show "unended_positions (es[k := e']) \<le> unended_positions es" using u assms(1) by (auto simp: upd_conv_take_nth_drop)
  have "lre_id e' = map lre_id es ! k" using assms by (simp add: executor_progress_def)
  then show "map lre_id (es[k := e']) = map lre_id es" by (simp add: map_update)
qed

lemma attended_follows: "lr_attended cfg w \<Longrightarrow> follows_position w"
proof (induction rule: lr_attended.induct)
  case new
  show ?case by (simp add: follows_position_def new_lp_rebalancer_def)
next
  case (tick s es env s' acts)
  let ?s = "lr_update_processed_data cfg env s" and ?new = "concat (map created_executor acts)"
  have d: "lr_determine_executor_actions cfg env es ?s = (s', Inr acts)" using tick by (simp add: lr_tick_def)
  have sole: "sole_position (?s, es)" using reachable_sole [OF attended_reachable [OF tick.hyps(1)]] by (simp add: sole_position_def)
  have f: "follows_position (?s, es)" using tick.IH by (simp add: follows_position_def Let_def)
  have ids: "lre_id e = le_new_id env" if "e \<in> set ?new" for e
    using that tick_draws_id [of env cfg es ?s] d by (auto simp: draws_id_def)
  have c: "length ?new \<le> 1 \<and> (lr_pending_swap_side s' \<noteq> None \<longrightarrow> unended_positions ?new = 0) \<and> (\<forall>e \<in> set ?new. lre_is_active e)"
    using tick_outcome [OF sole, of cfg env] created_ids [of cfg es "(s', Inr acts)" acts] d by auto
  note kept = tick_keeps_following [OF sole f d]
  have "acts = [] \<or> unended_positions es = 0 \<and> lr_current_executor_id s' = None" using tick_follows [OF sole f d] by auto
  then show ?case
  proof
    assume "unended_positions es = 0 \<and> lr_current_executor_id s' = None"
    then show ?thesis using follows_created [OF kept, of ?new "le_new_id env"] ids c tick.hyps(2,3) by blast
  qed (use kept in simp)
next
  case (refused s es env s' r)
  let ?s = "lr_update_processed_data cfg env s"
  have "sole_position (?s, es)" using reachable_sole [OF attended_reachable [OF refused.hyps(1)]] by (simp add: sole_position_def)
  moreover have "follows_position (?s, es)" using refused.IH by (simp add: follows_position_def Let_def)
  ultimately show ?case using tick_keeps_following [of ?s es cfg env s' r] refused.hyps(2) by (simp add: lr_tick_def)
next
  case (progress s es k e')
  have id': "lre_id e' = lre_id (es ! k)" using progress.hyps(3) by (simp add: executor_progress_def)
  have e': "lr_current_executor_id s = Some (lre_id e') \<or> lr_current_executor_id s = None \<and> lre_is_active e'" if "unended e'"
  proof -
    have "unended (es ! k)" by (rule unended_progress(3) [OF progress.hyps(2,3) that])
    then have "lr_current_executor_id s = Some (lre_id e') \<or> lr_current_executor_id s = None \<and> lre_is_active (es ! k)"
      using progress.IH progress.hyps(2) id' by (auto simp: follows_position_def Let_def)
    then show ?thesis using progress.hyps(4) that by (auto simp: unended_def)
  qed
  have "lr_current_executor_id s = Some (lre_id d) \<or> lr_current_executor_id s = None \<and> lre_is_active d"
    if "d \<in> set (es[k := e'])" "unended d" for d
  proof -
    have "d = e' \<or> d \<in> set es" using that(1) set_update_subset_insert [of es k e'] by blast
    then show ?thesis using e' that(2) progress.IH by (auto simp: follows_position_def Let_def)
  qed
  moreover have "unended_positions es \<le> n \<Longrightarrow> unended_positions (es[k := e']) \<le> n" for n
    using unended_progress(1) [OF progress.hyps(2,3)] by linarith
  ultimately show ?case
    using progress.IH unended_progress(1,2) [OF progress.hyps(2,3)] unfolding follows_position_def Let_def fst_conv snd_conv
    by (metis le_zero_eq)
next
  case (stored s es k)
  let ?es = "take k es @ drop (Suc k) es"
  have es: "es = take k es @ es ! k # drop (Suc k) es" using stored.hyps(2) by (rule id_take_nth_drop)
  have "\<not> unended (es ! k)" using stored.hyps(3) by (simp add: unended_def)
  then have "unended_positions ?es = unended_positions es" by (subst (3) es) simp
  moreover have "set ?es \<subseteq> set es" by (auto dest: in_set_takeD in_set_dropD)
  moreover have "distinct (map lre_id ?es)" if "distinct (map lre_id es)"
    using that by (subst (asm) es) auto
  ultimately show ?case using stored.IH by (auto simp: follows_position_def Let_def)
qed

text \<open>
  C31: The controller keeps a single position. Whatever its executors do between its ticks, at most one
  executor of a position that has not ended exists, whether it opens, holds or closes its position, and
  none while the controller waits for a swap; a tick raises nothing and asks for at most one executor,
  and for one of a position only when every earlier one has ended. This holds in the runs in which an executor
  stops being active only after a tick has seen it (\<open>lr_attended\<close>); one that is stopped before is not
  waited for, as \<open>unseen_position_is_ignored\<close> shows.
\<close>

theorem rebalancer_keeps_one_position:
  assumes "lr_attended cfg (s, es)"
  shows "unended_positions es \<le> 1 \<and> (lr_pending_swap_side s = None \<or> unended_positions es = 0)
    \<and> (\<exists>acts. snd (lr_tick cfg env es s) = Inr acts \<and> length acts \<le> 1
         \<and> (\<forall>cid c p st. CreateExecutorAction cid (LPPosition c p st) \<in> set acts \<longrightarrow> unended_positions es = 0))"
proof -
  let ?s = "lr_update_processed_data cfg env s"
  have f: "follows_position (s, es)" "follows_position (?s, es)" using attended_follows [OF assms] by (auto simp: follows_position_def Let_def)
  have i: "sole_position (?s, es)" using reachable_sole [OF attended_reachable [OF assms]] by (auto simp: sole_position_def)
  obtain s' r where t: "lr_determine_executor_actions cfg env es ?s = (s', r)" by fastforce
  have "\<exists>acts. r = Inr acts \<and> length acts \<le> 1"
    using tick_outcome [OF i, of cfg env] t by (auto simp: lr_outcome_def creates_def split: option.splits)
  then show ?thesis using tick_follows [OF i f(2) t] f(1) t by (auto simp: lr_tick_def follows_position_def Let_def)
qed

section \<open>What it opens\<close>

text \<open>A position an outcome asks for comes from a configuration made at the price of the given state.\<close>

definition opens_from :: "lr_config \<Rightarrow> lr_env \<Rightarrow> lp_rebalancer \<Rightarrow> lr_action list py_result \<Rightarrow> bool" where
  "opens_from cfg env s r \<longleftrightarrow> (\<forall>acts cid c p st. r = Inr acts \<and> CreateExecutorAction cid (LPPosition c p st) \<in> set acts \<longrightarrow>
     (\<exists>t sd. lr_pool_price t = lr_pool_price s \<and> lr_create_executor_config cfg env t sd = Inr (Some (LPPosition c p st))))"

lemma opens_nothing [simp]: "opens_from cfg env s (Inr [])" "opens_from cfg env s (Inl e)"
  "opens_from cfg env s (Inr [lr_create_action cfg (AutoSwap sw)])"
  by (simp_all add: opens_from_def lr_create_action_def)

lemma opens_created:
  "lr_create_executor_config cfg env t sd = Inr (Some c) \<Longrightarrow> lr_pool_price t = lr_pool_price s \<Longrightarrow>
   opens_from cfg env s (Inr [lr_create_action cfg c])"
  by (auto simp: opens_from_def lr_create_action_def)

lemma open_position_opens: "lr_pool_price t = lr_pool_price s \<Longrightarrow> opens_from cfg env s (snd (open_position cfg env t sd))"
  by (auto simp: open_position_def intro: opens_created split: sum.splits option.splits)

lemma swap_or_open_opens: "lr_pool_price t = lr_pool_price s \<Longrightarrow> opens_from cfg env s (snd (swap_or_open cfg env t sd))"
  by (auto simp: swap_or_open_def open_position_opens split: sum.splits option.splits)

lemma book_closed_None [simp]: "book_closed None s = s"
  by (simp add: book_closed_def)

lemma book_closed_price [simp]: "lr_pool_price (book_closed e s) = lr_pool_price s"
  by (auto simp: book_closed_def Let_def split: option.splits)

lemma replace_position_opens: "lr_pool_price t = lr_pool_price s \<Longrightarrow> opens_from cfg env s (snd (replace_position cfg env es t))"
  by (auto simp: replace_position_def Let_def swap_or_open_opens split: option.splits)

lemma after_swap_opens: "lr_pool_price t = lr_pool_price s \<Longrightarrow> opens_from cfg env s (snd (after_swap cfg env es t))"
  by (auto simp: after_swap_def Let_def book_swap_def trigger_balance_update_def intro: opens_created split: sum.splits option.splits)

lemma tick_opens: "opens_from cfg env s (snd (lr_determine_executor_actions cfg env es s))"
proof -
  have "lr_pool_price (adopt_swap_executor es (capture_initial_balances cfg env s)) = lr_pool_price s"
    by (auto simp: adopt_swap_executor_def capture_initial_balances_def split: option.splits prod.splits sum.splits)
  then show ?thesis
    by (auto simp: lr_determine_executor_actions_def Let_def after_swap_opens replace_position_opens split: option.splits)
qed

text \<open>
  C32: A position that a tick asks for has a proper range, within the limits of its side; at the pool's price
  its amounts are worth exactly the configured total and neither is negative; and it closes by itself at
  the rebalance threshold beyond its bounds, and is kept as a position.
\<close>

theorem opened_position_deploys_total:
  assumes "lr_tick cfg env es s = (s', Inr acts)" and "CreateExecutorAction cid (LPPosition c provider extra) \<in> set acts"
    and "lr_pool_price (lr_update_processed_data cfg env s) = Some price" and "price > 0" and "lrc_total_amount_quote cfg \<ge> 0"
  shows "lc_lower_price c < lc_upper_price c \<and> within_limits cfg (lc_side c) (lc_lower_price c) (lc_upper_price c)
    \<and> lc_base_amount c * price + lc_quote_amount c = lrc_total_amount_quote cfg \<and> lc_base_amount c \<ge> 0 \<and> lc_quote_amount c \<ge> 0
    \<and> lc_upper_limit_price c = Some (lc_upper_price c * (1 + lrc_rebalance_threshold_pct cfg / 100))
    \<and> lc_lower_limit_price c = Some (lc_lower_price c * (1 - lrc_rebalance_threshold_pct cfg / 100)) \<and> lc_keep_position c"
proof -
  obtain t sd where t: "lr_pool_price t = Some price" "lr_create_executor_config cfg env t sd = Inr (Some (LPPosition c provider extra))"
    using tick_opens [of cfg env "lr_update_processed_data cfg env s" es] assms(1-3) unfolding opens_from_def lr_tick_def by fastforce
  from created_position [OF t(2)] t(1) obtain lower upper b q sd' where c: "lower < upper" "calculate_amounts cfg sd' price = Inr (b, q)"
    "within_limits cfg sd' lower upper" "LPPosition c provider extra = position_request cfg env lower upper b q sd'" by auto
  then show ?thesis
    using amounts_worth_total [OF c(2)] amounts_nonneg [OF c(2)] assms(4,5) by (auto simp: position_request_def Let_def)
qed

section \<open>Replacing a closed position\<close>

definition no_limits :: "lr_config \<Rightarrow> bool" where
  "no_limits cfg \<longleftrightarrow> \<not> limit_set (lrc_buy_price_min cfg) \<and> \<not> limit_set (lrc_buy_price_max cfg)
     \<and> \<not> limit_set (lrc_sell_price_min cfg) \<and> \<not> limit_set (lrc_sell_price_max cfg)"

lemma no_limits_simps:
  assumes "no_limits cfg"
  shows "is_price_within_limits cfg price sd" "validate_and_clamp_bounds cfg lower upper sd price = Some (lower, upper, sd)"
    "determine_side_from_price cfg price = BUY"
  using assms
  by (auto simp: no_limits_def is_price_within_limits_def validate_and_clamp_bounds_def limits_of_side_def below_limit_def above_limit_def
      determine_side_from_price_def limit_mid_def Let_def)

lemma bounds_proper:
  assumes "no_limits cfg" and "price > 0" and "lrc_position_width_pct cfg > 0" and "\<bar>lrc_position_offset_pct cfg\<bar> < 100"
    and "calculate_price_bounds cfg sd price = (lower, upper)"
  shows "lower < upper"
  using assms by (auto simp: calculate_price_bounds_def no_limits_def Let_def abs_if mult_strict_left_mono split: if_splits)

lemma create_config_unlimited:
  assumes "no_limits cfg" and "lr_pool_price s = Some price" and "price > 0" and "lrc_position_width_pct cfg > 0"
    and "\<bar>lrc_position_offset_pct cfg\<bar> < 100"
  shows "\<exists>c. lr_create_executor_config cfg env s sd = Inr (Some (LPPosition c (lrc_lp_provider cfg) (lrc_strategy_type cfg))) \<and> lc_side c = sd"
proof -
  obtain lower upper where b: "calculate_price_bounds cfg sd price = (lower, upper)" by (cases "calculate_price_bounds cfg sd price")
  obtain base qt where a: "calculate_amounts cfg sd price = Inr (base, qt)" using amounts_total [of price cfg sd] assms(3) by auto
  show ?thesis
    using assms(2,3) bounds_proper [OF assms(1,3,4,5) b]
    by (auto simp: lr_create_executor_config_def b a no_limits_simps [OF assms(1)] position_request_def Let_def)
qed

text \<open>The executor as the controller sees it.\<close>

definition lr_view :: "lp_executor \<Rightarrow> lr_executor" where
  "lr_view x =
     \<lparr>lre_id = lc_id (lx_config x), lre_type = ''lp_executor'', lre_is_active = ex_is_active x, lre_status = ex_status x,
      lre_close_type = ex_close_type x, lre_side = Some (lc_side (lx_config x)), lre_state = Some (ls_state (lx_position x)),
      lre_figures = lp_custom_figures x\<rparr>"

lemma lr_figures [simp]:
  "lr_figure (lr_view x) ''lower_price'' = ls_lower_price (lx_position x)"
  "lr_figure (lr_view x) ''upper_price'' = ls_upper_price (lx_position x)"
  "lr_figure (lr_view x) ''base_amount'' = ls_base_amount (lx_position x)"
  "lr_figure (lr_view x) ''quote_amount'' = ls_quote_amount (lx_position x)"
  "lr_figure (lr_view x) ''base_fee'' = ls_base_fee (lx_position x)"
  "lr_figure (lr_view x) ''quote_fee'' = ls_quote_fee (lx_position x)"
  "lr_figure (lr_view x) ''initial_base_amount'' =
     (if ls_initial_base_amount (lx_position x) > 0 \<or> ls_initial_quote_amount (lx_position x) > 0
      then ls_initial_base_amount (lx_position x) else lc_base_amount (lx_config x))"
  "lr_figure (lr_view x) ''initial_quote_amount'' =
     (if ls_initial_base_amount (lx_position x) > 0 \<or> ls_initial_quote_amount (lx_position x) > 0
      then ls_initial_quote_amount (lx_position x) else lc_quote_amount (lx_config x))"
  by (simp_all add: lr_figure_def lr_view_def lp_custom_figures_def Let_def get_or_def dict_get_def)

lemma lr_view_fields [simp]:
  "lre_status (lr_view x) = ex_status x" "lre_close_type (lr_view x) = ex_close_type x" "lre_side (lr_view x) = Some (lc_side (lx_config x))"
  by (simp_all add: lr_view_def)

lemma tick_idle:
  assumes "lr_pending_swap_side s = None" and "\<not> truthy_str (lr_swap_executor_id s)" and "lr_active_executor es = None"
  shows "lr_tick cfg env es s = replace_position cfg env es (capture_initial_balances cfg env (lr_update_processed_data cfg env s))"
  using assms by (simp add: lr_tick_def lr_determine_executor_actions_def adopt_swap_executor_def)

lemma captured_simps [simp]:
  "lr_current_executor_id (capture_initial_balances cfg env s) = lr_current_executor_id s"
  "lr_position_hold_base (capture_initial_balances cfg env s) = lr_position_hold_base s"
  "lr_position_hold_quote (capture_initial_balances cfg env s) = lr_position_hold_quote s"
  "lr_pool_price (capture_initial_balances cfg env s) = lr_pool_price s"
  "lr_initial_position_created (capture_initial_balances cfg env s) = lr_initial_position_created s"
  by (auto simp: capture_initial_balances_def split: prod.splits sum.splits)

lemma processed_simps [simp]:
  "lr_current_executor_id (lr_update_processed_data cfg env s) = lr_current_executor_id s"
  "lr_position_hold_base (lr_update_processed_data cfg env s) = lr_position_hold_base s"
  "lr_position_hold_quote (lr_update_processed_data cfg env s) = lr_position_hold_quote s"
  "lr_initial_position_created (lr_update_processed_data cfg env s) = lr_initial_position_created s"
  by (auto simp: lr_update_processed_data_def split: prod.splits option.splits)

text \<open>
  C33: A position that ran and closed is replaced. Conditions: the controller has no price limits and does
  not swap, and no swap is pending; its first position was opened; the executor it follows has
  ended with another close type than FAILED, has recorded its deposit and has proper bounds; no executor is
  active; and the pool's price is known and has left the old range. Then the tick opens the next
  position: it buys when the price has left the range upwards and sells when it has left it downwards,
  and the holdings change by what the executor got back, fees included, less its deposit.
\<close>

theorem closed_position_is_replaced:
  assumes cfg: "no_limits cfg" "\<not> lrc_autoswap cfg" "lrc_position_width_pct cfg > 0" "\<bar>lrc_position_offset_pct cfg\<bar> < 100"
    and s: "lr_pending_swap_side s = None" "\<not> truthy_str (lr_swap_executor_id s)" "lr_initial_position_created s"
    and es: "lr_active_executor es = None" "get_tracked_executor es s = Some (lr_view x)"
    and x: "ex_status x = TERMINATED" "ex_close_type x \<noteq> Some FAILED_CLOSE"
      "ls_initial_base_amount (lx_position x) > 0 \<or> ls_initial_quote_amount (lx_position x) > 0"
      "0 < ls_lower_price (lx_position x)" "ls_lower_price (lx_position x) < ls_upper_price (lx_position x)"
    and price: "lr_pool_price (lr_update_processed_data cfg env s) = Some price" "price > 0"
      "price \<ge> ls_upper_price (lx_position x) \<or> price < ls_lower_price (lx_position x)"
  shows "\<exists>s' c. lr_tick cfg env es s = (s', Inr [lr_create_action cfg (LPPosition c (lrc_lp_provider cfg) (lrc_strategy_type cfg))])
    \<and> lc_side c = (if price \<ge> ls_upper_price (lx_position x) then BUY else SELL)
    \<and> lr_position_hold_base s' = lr_position_hold_base s + net_base_difference x
    \<and> lr_position_hold_quote s' = lr_position_hold_quote s
        + (ls_quote_amount (lx_position x) + ls_quote_fee (lx_position x) - ls_initial_quote_amount (lx_position x))"
proof -
  let ?s = "capture_initial_balances cfg env (lr_update_processed_data cfg env s)" and ?e = "Some (lr_view x)"
  let ?s1 = "(book_closed ?e ?s)\<lparr>lr_current_executor_id := None\<rparr>"
  let ?sd = "if price \<ge> ls_upper_price (lx_position x) then BUY else SELL"
  have e: "get_tracked_executor es ?s = ?e" using es(2) by (simp add: get_tracked_executor_def)
  have nf: "\<not> failed_executor ?e" using x(2) by (simp add: failed_executor_def)
  have p1: "lr_pool_price ?s1 = Some price" using price(1) by simp
  have "lr_initial_position_created ?s1" using s(3) by (auto simp: book_closed_def Let_def)
  then have "next_side cfg ?e ?s1 = Some ?sd"
    using nf p1 x(4,5) price(2,3) by (auto simp: next_side_def closed_bounds_def limit_set_def)
  moreover obtain c where c: "lr_create_executor_config cfg env ?s1 ?sd = Inr (Some (LPPosition c (lrc_lp_provider cfg) (lrc_strategy_type cfg)))"
    "lc_side c = ?sd" using create_config_unlimited [OF cfg(1) p1 price(2) cfg(3,4)] by blast
  ultimately have "lr_tick cfg env es s =
      (clear_closed (position_opened ?s1), Inr [lr_create_action cfg (LPPosition c (lrc_lp_provider cfg) (lrc_strategy_type cfg))])"
    using cfg(2) x(1) e
    by (simp add: tick_idle [OF s(1,2) es(1)] replace_position_def is_tracked_executor_terminated_def Let_def swap_or_open_def
        no_limits_simps [OF cfg(1)] open_position_def)
  then show ?thesis
    using c(2) nf x(3) by (auto simp: clear_closed_def position_opened_def book_closed_def net_base_difference_def Let_def)
qed

section \<open>What it forgets\<close>

text \<open>The rounds of the controller, and all that it asks for in them.\<close>

fun lr_run :: "lr_config \<Rightarrow> (lr_env \<times> lr_executor list) list \<Rightarrow> lp_rebalancer \<Rightarrow> lp_rebalancer \<times> lr_action list" where
  "lr_run cfg [] s = (s, [])"
| "lr_run cfg ((env, es) # rounds) s =
     (case lr_tick cfg env es s of (s1, r) \<Rightarrow>
      case lr_run cfg rounds s1 of (s2, acts) \<Rightarrow> (s2, (case r of Inl e \<Rightarrow> [] | Inr as \<Rightarrow> as) @ acts))"

text \<open>
  C34: A swap that has ended before the controller sees its executor active is waited for without end: as
  long as no order executor is active, no round creates anything again.
\<close>

theorem unseen_swap_blocks_rebalancer:
  assumes "lr_pending_swap_side s = Some sd" and "\<not> truthy_str (lr_swap_executor_id s)"
    and "\<forall>(env, es) \<in> set rounds. \<forall>e \<in> set es. lre_type e = ''order_executor'' \<longrightarrow> \<not> lre_is_active e"
  shows "snd (lr_run cfg rounds s) = [] \<and> lr_pending_swap_side (fst (lr_run cfg rounds s)) = Some sd"
  using assms
proof (induction rounds arbitrary: s)
  case (Cons round rounds)
  obtain env es where r: "round = (env, es)" by (cases round)
  let ?s = "capture_initial_balances cfg env (lr_update_processed_data cfg env s)"
  have "List.find (\<lambda>e. lre_type e = ''order_executor'' \<and> lre_is_active e) es = None"
    using Cons.prems(3) r by (auto simp: find_None_iff)
  then have "adopt_swap_executor es ?s = ?s" by (simp add: adopt_swap_executor_def)
  then have t: "lr_tick cfg env es s = (?s, Inr [])"
    using Cons.prems(1,2) by (simp add: lr_tick_def lr_determine_executor_actions_def)
  have "snd (lr_run cfg rounds ?s) = [] \<and> lr_pending_swap_side (fst (lr_run cfg rounds ?s)) = Some sd"
    by (rule Cons.IH) (use Cons.prems in simp_all)
  then show ?case by (simp add: r t split: prod.splits)
qed simp

lemma create_config_side:
  assumes "no_limits cfg" and "lr_create_executor_config cfg env s sd = Inr (Some (LPPosition c p st))"
  shows "lc_side c = sd"
  using assms(2)
  by (auto simp: lr_create_executor_config_def no_limits_simps [OF assms(1)] ebind_eq_Inr_iff position_request_def Let_def
      split: option.splits if_splits prod.splits)

text \<open>An outcome that has to do with the given side only.\<close>

definition works_on :: "trade_type \<Rightarrow> lp_rebalancer \<times> lr_action list py_result \<Rightarrow> bool" where
  "works_on sd o' \<longleftrightarrow> lr_pending_swap_side (fst o') \<in> {None, Some sd}
     \<and> (\<forall>acts cid c p st. snd o' = Inr acts \<and> CreateExecutorAction cid (LPPosition c p st) \<in> set acts \<longrightarrow> lc_side c = sd)"

lemma works_on_nothing: "lr_pending_swap_side s \<in> {None, Some sd} \<Longrightarrow> works_on sd (s, Inr []) \<and> works_on sd (s, Inl e)"
  by (simp add: works_on_def)

lemma swap_or_open_works_on:
  assumes "no_limits cfg" and "lr_pending_swap_side s = None"
  shows "works_on sd (swap_or_open cfg env s sd)"
proof -
  have "works_on sd (open_position cfg env s sd)"
    using assms(2) create_config_side [OF assms(1)]
    by (auto simp: open_position_def works_on_def clear_closed_def position_opened_def lr_create_action_def split: sum.splits option.splits)
  moreover have "works_on sd (s\<lparr>lr_pending_swap_side := Some sd\<rparr>, Inr [lr_create_action cfg (AutoSwap sw)])" for sw
    by (simp add: works_on_def lr_create_action_def)
  ultimately show ?thesis
    using assms(2) works_on_nothing [of s sd] by (auto simp: swap_or_open_def split: sum.splits option.splits)
qed

text \<open>
  Where no price limits are set, a swap that fails for a selling position turns the controller round:
  whatever it swaps for or opens in the next tick is a buying position.
\<close>

theorem failed_swap_forgets_side:
  assumes "no_limits cfg" and "lr_initial_position_created s" and "lr_current_executor_id s = None"
    and "lr_pending_swap_side s = Some SELL" and "truthy_str (lr_swap_executor_id s)"
    and "get_swap_executor es s = Some e" and "lre_status e = TERMINATED" and "lre_close_type e = Some FAILED_CLOSE"
  shows "\<exists>s1. lr_tick cfg env es s = (s1, Inr []) \<and> works_on BUY (lr_tick cfg env' es' s1)"
proof -
  let ?s = "capture_initial_balances cfg env (lr_update_processed_data cfg env s)"
  let ?s1 = "?s\<lparr>lr_swap_executor_id := None, lr_pending_swap_side := None\<rparr>"
  let ?s2 = "capture_initial_balances cfg env' (lr_update_processed_data cfg env' ?s1)"
  have g: "get_swap_executor es ?s = Some e" using assms(6) by (simp add: get_swap_executor_def)
  have "lr_tick cfg env es s = (?s1, Inr [])"
    using assms(4,5,7,8) g by (simp add: lr_tick_def lr_determine_executor_actions_def adopt_swap_executor_def Let_def
        is_swap_executor_done_def after_swap_def)
  moreover have "works_on BUY (lr_tick cfg env' es' ?s1)"
  proof (cases "lr_active_executor es'")
    case None
    let ?t = "?s2\<lparr>lr_current_executor_id := None\<rparr>"
    have fresh: "lr_pending_swap_side ?t = None" "get_tracked_executor es' ?s2 = None" "lr_initial_position_created ?t"
      using assms(2,3) by (simp_all add: get_tracked_executor_def executor_by_id_def)
    have "next_side cfg None ?t = None \<or> next_side cfg None ?t = Some BUY"
      using fresh(3) by (simp add: next_side_def failed_executor_def closed_bounds_def no_limits_simps [OF assms(1)])
    moreover have "lr_tick cfg env' es' ?s1 = (case next_side cfg None ?t of None \<Rightarrow> (?t, Inr []) | Some sd \<Rightarrow> swap_or_open cfg env' ?t sd)"
      using None fresh(2) by (simp add: tick_idle replace_position_def is_tracked_executor_terminated_def Let_def split: option.split)
    ultimately show ?thesis
      using swap_or_open_works_on [OF assms(1) fresh(1)] works_on_nothing [of ?t BUY] fresh(1) by auto
  next
    case (Some a)
    then show ?thesis
      by (auto simp: lr_tick_def lr_determine_executor_actions_def Let_def adopt_swap_executor_def watch_position_def
          trigger_balance_update_def intro!: works_on_nothing [THEN conjunct1])
  qed
  ultimately show ?thesis by blast
qed

text \<open>
  An LP executor that the controller has not seen active does not exist for it: the tick is the same as if
  there were no executors at all. So it is neither booked when it has ended nor waited for while it closes.
\<close>

theorem unseen_position_is_ignored:
  assumes "lr_current_executor_id s = None" and "lr_pending_swap_side s = None" and "\<not> truthy_str (lr_swap_executor_id s)"
    and "lr_active_executor es = None"
  shows "lr_tick cfg env es s = lr_tick cfg env [] s"
  using assms
  by (simp add: tick_idle lr_active_executor_def replace_position_def is_tracked_executor_terminated_def get_tracked_executor_def
      executor_by_id_def)

text \<open>
  An executor stopped before it asked for its position reports the configured amounts as its deposit, and
  the controller books them as spent although nothing was.
\<close>

theorem unopened_position_booked_as_spent:
  assumes "retries \<ge> 0" and "lpe_has_connector env"
    and "x = on_pool_reply env' q (lp_early_stop keep (begin_round env (lp_on_start prov (executor_start (new_lp_executor c retries)))))"
  shows "lp_adds x = 0
    \<and> lr_position_hold_base (book_closed (Some (lr_view x)) s) = lr_position_hold_base s - lc_base_amount c
    \<and> lr_position_hold_quote (book_closed (Some (lr_view x)) s) = lr_position_hold_quote s - lc_quote_amount c"
  using stopped_before_opening [OF assms]
  by (auto simp: book_closed_def failed_executor_def Let_def new_lp_position_def lp_adds_def)

text \<open>
  A position opened after a swap leaves the amounts of the position closed before it in place, and if it
  fails they are counted once more beside the balances.
\<close>

theorem swapped_position_keeps_closed_amounts:
  assumes "get_swap_executor es s = Some e" and "lre_close_type e \<noteq> Some FAILED_CLOSE"
  shows "lr_last_closed_base_amount (fst (after_swap cfg env es s)) = lr_last_closed_base_amount s
    \<and> lr_last_closed_quote_amount (fst (after_swap cfg env es s)) = lr_last_closed_quote_amount s"
  using assms by (auto simp: after_swap_def Let_def position_opened_def book_swap_def trigger_balance_update_def split: option.splits sum.splits)

section \<open>Concrete runs\<close>

definition demo_lr_config :: "bool \<Rightarrow> lr_config" where
  "demo_lr_config autoswap =
     \<lparr>lrc_id = ''lpr'', lrc_connector_name = ''solana'', lrc_lp_provider = ''meteora/clmm'', lrc_trading_pair = ''SOL-USDC'',
      lrc_pool_address = ''pool'', lrc_total_amount_quote = 94, lrc_side = SELL, lrc_position_width_pct = 1 / 2,
      lrc_position_offset_pct = 1 / 100, lrc_rebalance_threshold_pct = 1, lrc_sell_price_max = None, lrc_sell_price_min = None,
      lrc_buy_price_max = None, lrc_buy_price_min = None, lrc_strategy_type = Some 0, lrc_autoswap = autoswap,
      lrc_swap_buffer_pct = 1 / 100\<rparr>"

text \<open>A wallet that holds the quote token only, while the pool's price is 94.\<close>

definition demo_lr_env :: "string \<Rightarrow> lr_env" where
  "demo_lr_env i =
     \<lparr>le_now = 1, le_balance = (\<lambda>t. Inr (if t = ''USDC'' then 1000 else 0)), le_native_currency = Some ''eth'',
      le_native_buffer = 1 / 200, le_pool = (\<lambda>_ _ _. Some 94), le_new_id = i\<rparr>"

lemma demo_lr_no_limits: "no_limits (demo_lr_config b)"
  by (simp add: no_limits_def demo_lr_config_def limit_set_def)

text \<open>The first tick asks for a swap, and the swap's executor ends in either way.\<close>

definition demo_lr_waiting :: lp_rebalancer where
  "demo_lr_waiting = fst (lr_tick (demo_lr_config True) (demo_lr_env ''swap'') [] new_lp_rebalancer)"

definition demo_swap_executor :: "bool \<Rightarrow> lr_executor" where
  "demo_swap_executor active =
     \<lparr>lre_id = ''swap'', lre_type = ''order_executor'', lre_is_active = active, lre_status = (if active then RUNNING else TERMINATED),
      lre_close_type = (if active then None else Some FAILED_CLOSE), lre_side = Some BUY, lre_state = None, lre_figures = []\<rparr>"

lemma demo_lr_swap:
  "snd (lr_tick (demo_lr_config True) (demo_lr_env ''swap'') [] new_lp_rebalancer) =
     Inr [lr_create_action (demo_lr_config True) (AutoSwap (swap_request (demo_lr_config True) (demo_lr_env ''swap'') BUY (10001 / 10000)))]"
  "lr_pending_swap_side demo_lr_waiting = Some SELL" "\<not> truthy_str (lr_swap_executor_id demo_lr_waiting)"
  by code_simp+

text \<open>The first tick of a controller that does not swap opens a position.\<close>

definition demo_lr_opened :: lp_rebalancer where
  "demo_lr_opened = fst (lr_tick (demo_lr_config False) (demo_lr_env ''lp1'') [] new_lp_rebalancer)"

theorem rebalancer_keeps_one_position_witness:
  "\<exists>es. lr_attended (demo_lr_config False) (demo_lr_opened, es) \<and> unended_positions es = 1
    \<and> (\<forall>cid c p st acts. snd (lr_tick (demo_lr_config False) (demo_lr_env ''lp2'') es demo_lr_opened) = Inr acts
         \<longrightarrow> CreateExecutorAction cid (LPPosition c p st) \<notin> set acts)"
proof -
  let ?cfg = "demo_lr_config False"
  have "case snd (lr_tick ?cfg (demo_lr_env ''lp1'') [] new_lp_rebalancer) of Inr acts \<Rightarrow> unended_positions (concat (map created_executor acts)) = 1 | Inl e \<Rightarrow> False"
    by code_simp
  then obtain acts where a: "lr_tick ?cfg (demo_lr_env ''lp1'') [] new_lp_rebalancer = (demo_lr_opened, Inr acts)"
      "unended_positions (concat (map created_executor acts)) = 1"
    by (auto simp: demo_lr_opened_def prod_eq_iff split: sum.splits)
  have "le_new_id (demo_lr_env ''lp1'') \<noteq> []" by (simp add: demo_lr_env_def)
  then have r: "lr_attended ?cfg (demo_lr_opened, concat (map created_executor acts))"
    using lr_attended.tick [OF lr_attended.new _ _ a(1)] by simp
  show ?thesis using rebalancer_keeps_one_position [OF r, of "demo_lr_env ''lp2''"] r a(2) by (intro exI [of _ "concat (map created_executor acts)"]) auto
qed

theorem unseen_swap_blocks_rebalancer_witness:
  "snd (lr_run (demo_lr_config True) (replicate 100 (demo_lr_env ''p'', [demo_swap_executor False])) demo_lr_waiting) = []"
  using unseen_swap_blocks_rebalancer [OF demo_lr_swap(2,3), of "replicate 100 (demo_lr_env ''p'', [demo_swap_executor False])" "demo_lr_config True"]
  by (simp add: demo_swap_executor_def)

text \<open>The same wait later in the run, with the swap's executor known.\<close>

definition demo_lr_swapping :: lp_rebalancer where
  "demo_lr_swapping = demo_lr_waiting\<lparr>lr_swap_executor_id := Some ''swap'', lr_initial_position_created := True\<rparr>"

lemma demo_lr_swapping:
  "lr_initial_position_created demo_lr_swapping" "lr_current_executor_id demo_lr_swapping = None"
  "lr_pending_swap_side demo_lr_swapping = Some SELL" "truthy_str (lr_swap_executor_id demo_lr_swapping)"
  "get_swap_executor [demo_swap_executor False] demo_lr_swapping = Some (demo_swap_executor False)"
  by code_simp+

theorem failed_swap_forgets_side_witness:
  "\<exists>s1. lr_tick (demo_lr_config True) (demo_lr_env ''p'') [demo_swap_executor False] demo_lr_swapping = (s1, Inr [])
    \<and> works_on BUY (lr_tick (demo_lr_config True) (demo_lr_env ''q'') [] s1)"
  using failed_swap_forgets_side [OF demo_lr_no_limits [of True] demo_lr_swapping, of "demo_lr_env ''p''" "demo_lr_env ''q''" "[]"]
  by (simp add: demo_swap_executor_def)

text \<open>A run of the LP executor whose position ended below its range, and the controller that follows it.\<close>

definition demo_lr_following :: lp_rebalancer where
  "demo_lr_following = new_lp_rebalancer\<lparr>lr_current_executor_id := Some ''lp1'', lr_initial_position_created := True\<rparr>"

lemma demo_lr_following:
  "lr_pending_swap_side demo_lr_following = None" "\<not> truthy_str (lr_swap_executor_id demo_lr_following)"
  "lr_initial_position_created demo_lr_following" "lr_active_executor [lr_view demo_lp_ended] = None"
  "lr_position_hold_base demo_lr_following = 0" "lr_position_hold_quote demo_lr_following = 0"
  "lr_pool_price (lr_update_processed_data (demo_lr_config False) (demo_lr_env ''lp2'') demo_lr_following) = Some 94"
  "lc_id (lx_config demo_lp_ended) = ''lp1''"
  by code_simp+

lemma demo_lp_ended_figures:
  "ex_status demo_lp_ended = TERMINATED" "ex_close_type demo_lp_ended \<noteq> Some FAILED_CLOSE"
  "ls_initial_base_amount (lx_position demo_lp_ended) > 0 \<or> ls_initial_quote_amount (lx_position demo_lp_ended) > 0"
  "ls_lower_price (lx_position demo_lp_ended) = 95" "ls_upper_price (lx_position demo_lp_ended) = 99"
  "net_base_difference demo_lp_ended = 4 / 97"
  "ls_quote_amount (lx_position demo_lp_ended) + ls_quote_fee (lx_position demo_lp_ended) - ls_initial_quote_amount (lx_position demo_lp_ended) = - 4"
  by code_simp+

theorem closed_position_is_replaced_witness:
  "\<exists>s' c. lr_tick (demo_lr_config False) (demo_lr_env ''lp2'') [lr_view demo_lp_ended] demo_lr_following =
      (s', Inr [lr_create_action (demo_lr_config False) (LPPosition c ''meteora/clmm'' (Some 0))])
    \<and> lc_side c = SELL \<and> lr_position_hold_base s' = 4 / 97 \<and> lr_position_hold_quote s' = - 4"
proof -
  have t: "get_tracked_executor [lr_view demo_lp_ended] demo_lr_following = Some (lr_view demo_lp_ended)"
    by (simp add: get_tracked_executor_def executor_by_id_def demo_lr_following_def lr_view_def demo_lr_following(8))
  have c: "\<not> lrc_autoswap (demo_lr_config False)" "lrc_position_width_pct (demo_lr_config False) > 0"
    "\<bar>lrc_position_offset_pct (demo_lr_config False)\<bar> < 100" "lrc_lp_provider (demo_lr_config False) = ''meteora/clmm''"
    "lrc_strategy_type (demo_lr_config False) = Some 0" by (simp_all add: demo_lr_config_def)
  show ?thesis
    using closed_position_is_replaced [OF demo_lr_no_limits [of False] c(1-3) demo_lr_following(1-4) t demo_lp_ended_figures(1-3) _ _ demo_lr_following(7)]
    by (simp add: demo_lp_ended_figures(4-7) demo_lr_following(5,6) c(4,5))
qed

theorem opened_position_deploys_total_witness:
  "\<exists>s' c. lr_tick (demo_lr_config False) (demo_lr_env ''lp1'') [] new_lp_rebalancer =
      (s', Inr [lr_create_action (demo_lr_config False) (LPPosition c ''meteora/clmm'' (Some 0))])
    \<and> lc_lower_price c < lc_upper_price c \<and> lc_base_amount c * 94 + lc_quote_amount c = 94"
proof -
  let ?cfg = "demo_lr_config False" and ?env = "demo_lr_env ''lp1''"
  let ?c = "(\<lambda>lower. \<lparr>lc_id = ''lp1'', lc_controller_id = ''main'', lc_timestamp = 1, lc_connector_name = ''solana'', lc_swap_provider = None,
     lc_pool_address = ''pool'', lc_trading_pair = ''SOL-USDC'', lc_lower_price = lower, lc_upper_price = lower * (1 + 1 / 200),
     lc_base_amount = 1, lc_quote_amount = 0, lc_side = SELL, lc_upper_limit_price = Some (lower * (1 + 1 / 200) * (1 + 1 / 100)),
     lc_lower_limit_price = Some (lower * (1 - 1 / 100)), lc_keep_position = True\<rparr>) (94 * (1 + 1 / 10000))"
  have "snd (lr_tick ?cfg ?env [] new_lp_rebalancer) = Inr [lr_create_action ?cfg (LPPosition ?c ''meteora/clmm'' (Some 0))]"
    by code_simp
  then obtain s' where t: "lr_tick ?cfg ?env [] new_lp_rebalancer = (s', Inr [lr_create_action ?cfg (LPPosition ?c ''meteora/clmm'' (Some 0))])"
    by (metis prod.collapse)
  have "lr_pool_price (lr_update_processed_data ?cfg ?env new_lp_rebalancer) = Some 94" "lrc_total_amount_quote ?cfg = 94" by code_simp+
  then show ?thesis using opened_position_deploys_total [OF t, of "Some ''lpr''" ?c "''meteora/clmm''" "Some 0" 94] t
    by (auto simp: lr_create_action_def demo_lr_config_def)
qed

theorem unseen_position_is_ignored_witness:
  "lr_tick (demo_lr_config False) (demo_lr_env ''lp2'') [lr_view demo_lp_ended] new_lp_rebalancer
    = lr_tick (demo_lr_config False) (demo_lr_env ''lp2'') [] new_lp_rebalancer"
  by (rule unseen_position_is_ignored) (use demo_lr_following(4) in \<open>simp_all add: new_lp_rebalancer_def\<close>)

theorem unopened_position_booked_as_spent_witness:
  "lr_position_hold_quote (book_closed (Some (lr_view (on_pool_reply demo_lp_env (Reply (Some 100)) (lp_early_stop True
     (begin_round demo_lp_env (lp_on_start None (executor_start (new_lp_executor demo_lp_config 10)))))))) demo_lr_following) = - 4"
  using unopened_position_booked_as_spent [of 10 demo_lp_env _ demo_lp_env "Reply (Some 100)" True None demo_lp_config demo_lr_following, OF _ _ refl]
  by (simp add: demo_lr_following(6) demo_lp_env_def exec_env.extend_def demo_lp_config_def)

theorem swapped_position_keeps_closed_amounts_witness:
  "lr_last_closed_base_amount (fst (after_swap (demo_lr_config True) (demo_lr_env ''p'') [(demo_swap_executor True)\<lparr>lre_status := TERMINATED\<rparr>]
     (demo_lr_swapping\<lparr>lr_last_closed_base_amount := Some 1\<rparr>))) = Some 1"
  using swapped_position_keeps_closed_amounts [of "[(demo_swap_executor True)\<lparr>lre_status := TERMINATED\<rparr>]"
      "demo_lr_swapping\<lparr>lr_last_closed_base_amount := Some 1\<rparr>" "(demo_swap_executor True)\<lparr>lre_status := TERMINATED\<rparr>"]
  by (simp add: get_swap_executor_def executor_by_id_def demo_lr_swapping_def demo_swap_executor_def)

end
