(* ===== verification/Order_Book.thy ===== *)
theory Order_Book
  imports Common_Types
begin

text \<open>
  The order book of a market: \<open>core/data_type/order_book.pyx\<close> with \<open>core/cpp/OrderBookEntry.cpp\<close>, and the
  messages of \<open>order_book_message.py\<close>; \<open>composite_order_book.pyx\<close>, the book less what was traded with it. A side is a \<open>std::set\<close> ordered by price alone; here it is the list of
  its entries by ascending price. Doubles are rationals, NaN a constructor where the code keeps or
  returns it, update ids are integers.
\<close>

section \<open>Entries and sides\<close>

text \<open>An \<open>OrderBookEntry\<close>, and the \<open>OrderBookRow\<close> with the same fields.\<close>

record book_entry =
  be_price :: decimal
  be_amount :: decimal
  be_update_id :: int

text \<open>\<open>set.insert\<close> keeps the entry that is there already, \<open>find\<close> and \<open>erase\<close> remove it.\<close>

fun set_insert :: "book_entry \<Rightarrow> book_entry list \<Rightarrow> book_entry list" where
  "set_insert e [] = [e]"
| "set_insert e (x # xs) =
     (if be_price e < be_price x then e # x # xs
      else if be_price x < be_price e then x # set_insert e xs
      else x # xs)"

definition set_erase :: "book_entry \<Rightarrow> book_entry list \<Rightarrow> book_entry list" where
  "set_erase e xs = filter (\<lambda>x. be_price x \<noteq> be_price e) xs"

text \<open>Diffs with an amount of 0 mean deletion.\<close>

definition apply_row :: "book_entry \<Rightarrow> book_entry list \<Rightarrow> book_entry list" where
  "apply_row e xs = (let ys = set_erase e xs in if be_amount e > 0 then set_insert e ys else ys)"

text \<open>
  While the best bid reaches the best ask, one of them goes: the ask if the bid wins. The bids come best
  first, as the code walks them.
\<close>

fun truncate_by ::
  "(book_entry \<Rightarrow> book_entry \<Rightarrow> bool) \<Rightarrow> book_entry list \<Rightarrow> book_entry list \<Rightarrow> book_entry list \<times> book_entry list" where
  "truncate_by bid_wins (b # bs) (a # as) =
     (if be_price b \<ge> be_price a
      then (if bid_wins b a then truncate_by bid_wins (b # bs) as else truncate_by bid_wins bs (a # as))
      else (b # bs, a # as))"
| "truncate_by bid_wins bs as = (bs, as)"

definition bid_wins_dex :: "book_entry \<Rightarrow> book_entry \<Rightarrow> bool" where
  "bid_wins_dex b a = (be_amount b * be_price b > be_amount a * be_price a)"

definition bid_wins_centralised :: "book_entry \<Rightarrow> book_entry \<Rightarrow> bool" where
  "bid_wins_centralised b a = (be_update_id b > be_update_id a)"

definition truncate_overlap_entries ::
  "bool \<Rightarrow> book_entry list \<Rightarrow> book_entry list \<Rightarrow> book_entry list \<times> book_entry list" where
  "truncate_overlap_entries dex bid_book ask_book =
     (case truncate_by (if dex then bid_wins_dex else bid_wins_centralised) (rev bid_book) ask_book of
        (bs, as) \<Rightarrow> (rev bs, as))"

section \<open>The book\<close>

record trade_event =
  bt_trading_pair :: string
  bt_timestamp :: decimal
  bt_type :: trade_type
  bt_price :: decimal
  bt_amount :: decimal
  bt_trade_id :: int

record order_book =
  ob_bid_book :: "book_entry list"
  ob_ask_book :: "book_entry list"
  ob_best_bid :: pdecimal
  ob_best_ask :: pdecimal
  ob_snapshot_uid :: int
  ob_last_diff_uid :: int
  ob_last_trade_price :: pdecimal
  ob_last_applied_trade :: decimal
  ob_last_trade_price_rest_updated :: decimal
  ob_dex :: bool
  ob_trade_events :: "trade_event list"  \<comment> \<open>the events triggered\<close>

definition new_order_book :: "bool \<Rightarrow> order_book" where
  "new_order_book dex =
     \<lparr>ob_bid_book = [], ob_ask_book = [], ob_best_bid = NaN, ob_best_ask = NaN, ob_snapshot_uid = 0,
      ob_last_diff_uid = 0, ob_last_trade_price = NaN, ob_last_applied_trade = - 1000,
      ob_last_trade_price_rest_updated = - 1000, ob_dex = dex, ob_trade_events = []\<rparr>"

definition bid_entries :: "order_book \<Rightarrow> book_entry list" where
  "bid_entries b = rev (ob_bid_book b)"

definition ask_entries :: "order_book \<Rightarrow> book_entry list" where
  "ask_entries b = ob_ask_book b"

text \<open>The price of the first entry, or what was known before if there is none.\<close>

definition first_price :: "book_entry list \<Rightarrow> pdecimal \<Rightarrow> pdecimal" where
  "first_price es known = (case es of [] \<Rightarrow> known | e # _ \<Rightarrow> Fin (be_price e))"

definition truncate_book :: "order_book \<Rightarrow> order_book" where
  "truncate_book b =
     (case truncate_overlap_entries (ob_dex b) (ob_bid_book b) (ob_ask_book b) of
        (bids, asks) \<Rightarrow> b\<lparr>ob_bid_book := bids, ob_ask_book := asks\<rparr>)"

definition c_apply_diffs :: "book_entry list \<Rightarrow> book_entry list \<Rightarrow> int \<Rightarrow> order_book \<Rightarrow> order_book" where
  "c_apply_diffs bids asks update_id b =
     (let b1 = truncate_book (b\<lparr>ob_bid_book := fold apply_row bids (ob_bid_book b),
                               ob_ask_book := fold apply_row asks (ob_ask_book b)\<rparr>)
      in b1\<lparr>ob_best_bid := first_price (bid_entries b1) (ob_best_bid b1),
            ob_best_ask := first_price (ask_entries b1) (ob_best_ask b1), ob_last_diff_uid := update_id\<rparr>)"

text \<open>\<open>if not (p <= best): best = p\<close>, where a comparison with NaN is false; likewise for the asks.\<close>

definition raise_best :: "book_entry \<Rightarrow> pdecimal \<Rightarrow> pdecimal" where
  "raise_best e best =
     (case best of NaN \<Rightarrow> Fin (be_price e) | Fin p \<Rightarrow> if be_price e \<le> p then best else Fin (be_price e))"

definition lower_best :: "book_entry \<Rightarrow> pdecimal \<Rightarrow> pdecimal" where
  "lower_best e best =
     (case best of NaN \<Rightarrow> Fin (be_price e) | Fin p \<Rightarrow> if be_price e \<ge> p then best else Fin (be_price e))"

definition c_apply_snapshot :: "book_entry list \<Rightarrow> book_entry list \<Rightarrow> int \<Rightarrow> order_book \<Rightarrow> order_book" where
  "c_apply_snapshot bids asks update_id b =
     (let b1 = b\<lparr>ob_bid_book := fold set_insert bids [], ob_ask_book := fold set_insert asks []\<rparr>;
          best_bid = fold raise_best bids NaN; best_ask = fold lower_best asks NaN
      in if ob_dex b
         then let b2 = truncate_book b1
              in b2\<lparr>ob_best_bid := first_price (bid_entries b2) best_bid,
                    ob_best_ask := first_price (ask_entries b2) best_ask, ob_snapshot_uid := update_id\<rparr>
         else b1\<lparr>ob_best_bid := best_bid, ob_best_ask := best_ask, ob_snapshot_uid := update_id\<rparr>)"

definition c_apply_trade :: "decimal \<Rightarrow> trade_event \<Rightarrow> order_book \<Rightarrow> order_book" where
  "c_apply_trade now t b =
     b\<lparr>ob_last_trade_price := Fin (bt_price t), ob_last_applied_trade := now,
       ob_trade_events := ob_trade_events b @ [t]\<rparr>"

text \<open>Arrays give an update id per row, and the greatest of them, or 0, counts.\<close>

definition last_update_id :: "book_entry list \<Rightarrow> book_entry list \<Rightarrow> int" where
  "last_update_id bids asks = fold (\<lambda>e m. max m (be_update_id e)) (bids @ asks) 0"

definition c_apply_numpy_diffs :: "book_entry list \<Rightarrow> book_entry list \<Rightarrow> order_book \<Rightarrow> order_book" where
  "c_apply_numpy_diffs bids asks = c_apply_diffs bids asks (last_update_id bids asks)"

definition c_apply_numpy_snapshot :: "book_entry list \<Rightarrow> book_entry list \<Rightarrow> order_book \<Rightarrow> order_book" where
  "c_apply_numpy_snapshot bids asks = c_apply_snapshot bids asks (last_update_id bids asks)"

section \<open>Queries\<close>

fun simulate_fill :: "book_entry list \<Rightarrow> decimal \<Rightarrow> book_entry list" where
  "simulate_fill [] amount_left = []"
| "simulate_fill (e # es) amount_left =
     (if be_amount e < amount_left then e # simulate_fill es (amount_left - be_amount e)
      else [e\<lparr>be_amount := amount_left\<rparr>])"

definition simulate_buy :: "order_book \<Rightarrow> decimal \<Rightarrow> book_entry list" where
  "simulate_buy b amount = simulate_fill (ask_entries b) amount"

definition simulate_sell :: "order_book \<Rightarrow> decimal \<Rightarrow> book_entry list" where
  "simulate_sell b amount = simulate_fill (bid_entries b) amount"

definition book_rows :: "order_book \<Rightarrow> bool \<Rightarrow> book_entry list" where
  "book_rows b is_buy = (if is_buy then ask_entries b else bid_entries b)"

text \<open>None where it raises \<open>EnvironmentError\<close>.\<close>

definition c_get_price :: "order_book \<Rightarrow> bool \<Rightarrow> pdecimal option" where
  "c_get_price b is_buy =
     (if length (if is_buy then ob_ask_book b else ob_bid_book b) < 1 then None
      else Some (if is_buy then ob_best_ask b else ob_best_bid b))"

record book_query =
  bq_query_price :: pdecimal
  bq_query_volume :: pdecimal
  bq_result_price :: pdecimal
  bq_result_volume :: decimal

text \<open>The price at which the amounts, weighed by a function, have summed up to a volume, and the sum.\<close>

fun price_at_volume :: "(book_entry \<Rightarrow> decimal) \<Rightarrow> book_entry list \<Rightarrow> decimal \<Rightarrow> decimal \<Rightarrow> pdecimal \<times> decimal" where
  "price_at_volume weight [] cumulative volume = (NaN, cumulative)"
| "price_at_volume weight (e # es) cumulative volume =
     (let c = cumulative + weight e in
      if c \<ge> volume then (Fin (be_price e), c) else price_at_volume weight es c volume)"

definition c_get_price_for_volume :: "order_book \<Rightarrow> bool \<Rightarrow> decimal \<Rightarrow> book_query" where
  "c_get_price_for_volume b is_buy volume =
     (case price_at_volume be_amount (book_rows b is_buy) 0 volume of
        (price, c) \<Rightarrow> \<lparr>bq_query_price = NaN, bq_query_volume = Fin volume, bq_result_price = price, bq_result_volume = min c volume\<rparr>)"

definition quote_amount :: "book_entry \<Rightarrow> decimal" where
  "quote_amount e = be_amount e * be_price e"

definition c_get_price_for_quote_volume :: "order_book \<Rightarrow> bool \<Rightarrow> decimal \<Rightarrow> book_query" where
  "c_get_price_for_quote_volume b is_buy quote_volume =
     (case price_at_volume quote_amount (book_rows b is_buy) 0 quote_volume of
        (price, c) \<Rightarrow> \<lparr>bq_query_price = NaN, bq_query_volume = Fin quote_volume, bq_result_price = price,
                      bq_result_volume = min c quote_volume\<rparr>)"

fun vwap_walk :: "book_entry list \<Rightarrow> decimal \<Rightarrow> decimal \<Rightarrow> decimal \<Rightarrow> (pdecimal \<times> decimal) py_result" where
  "vwap_walk [] total_cost total_volume volume = Inr (NaN, total_volume)"
| "vwap_walk (e # es) total_cost total_volume volume =
     (let cost = total_cost + be_amount e * be_price e; vol = total_volume + be_amount e in
      if vol \<ge> volume
      then let cost1 = cost - be_amount e * be_price e; vol1 = vol - be_amount e;
               incremental_amount = volume - vol1;
               cost2 = cost1 + incremental_amount * be_price e; vol2 = vol1 + incremental_amount
           in ebind (float_div cost2 vol2) (\<lambda>vwap. Inr (Fin vwap, vol2))
      else vwap_walk es cost vol volume)"

definition c_get_vwap_for_volume :: "order_book \<Rightarrow> bool \<Rightarrow> decimal \<Rightarrow> book_query py_result" where
  "c_get_vwap_for_volume b is_buy volume =
     ebind (vwap_walk (book_rows b is_buy) 0 0 volume) (\<lambda>(vwap, vol).
       Inr \<lparr>bq_query_price = NaN, bq_query_volume = Fin volume, bq_result_price = vwap, bq_result_volume = min vol volume\<rparr>)"

fun quote_volume_walk :: "book_entry list \<Rightarrow> decimal \<Rightarrow> decimal \<Rightarrow> decimal \<Rightarrow> decimal" where
  "quote_volume_walk [] cumulative_base cumulative_volume base_amount = cumulative_volume"
| "quote_volume_walk (e # es) cumulative_base cumulative_volume base_amount =
     (let row_amount = (if be_amount e + cumulative_base \<ge> base_amount then base_amount - cumulative_base else be_amount e);
          base = cumulative_base + row_amount; vol = cumulative_volume + row_amount * be_price e
      in if base \<ge> base_amount then vol else quote_volume_walk es base vol base_amount)"

definition c_get_quote_volume_for_base_amount :: "order_book \<Rightarrow> bool \<Rightarrow> decimal \<Rightarrow> book_query" where
  "c_get_quote_volume_for_base_amount b is_buy base_amount =
     \<lparr>bq_query_price = NaN, bq_query_volume = Fin base_amount, bq_result_price = NaN,
      bq_result_volume = quote_volume_walk (book_rows b is_buy) 0 0 base_amount\<rparr>"

text \<open>What the book holds up to a price: the last price within it, and the sum.\<close>

fun volume_walk ::
  "(book_entry \<Rightarrow> decimal) \<Rightarrow> (decimal \<Rightarrow> bool) \<Rightarrow> book_entry list \<Rightarrow> pdecimal \<Rightarrow> decimal \<Rightarrow> pdecimal \<times> decimal" where
  "volume_walk weight beyond [] price cumulative = (price, cumulative)"
| "volume_walk weight beyond (e # es) price cumulative =
     (if beyond (be_price e) then (price, cumulative)
      else volume_walk weight beyond es (Fin (be_price e)) (cumulative + weight e))"

definition volume_query :: "(book_entry \<Rightarrow> decimal) \<Rightarrow> order_book \<Rightarrow> bool \<Rightarrow> decimal \<Rightarrow> book_query" where
  "volume_query weight b is_buy price =
     (case volume_walk weight (if is_buy then (\<lambda>p. p > price) else (\<lambda>p. p < price)) (book_rows b is_buy) NaN 0 of
        (result, c) \<Rightarrow> \<lparr>bq_query_price = Fin price, bq_query_volume = NaN, bq_result_price = result, bq_result_volume = c\<rparr>)"

definition c_get_volume_for_price :: "order_book \<Rightarrow> bool \<Rightarrow> decimal \<Rightarrow> book_query" where
  "c_get_volume_for_price = volume_query be_amount"

definition c_get_quote_volume_for_price :: "order_book \<Rightarrow> bool \<Rightarrow> decimal \<Rightarrow> book_query" where
  "c_get_quote_volume_for_price = volume_query quote_amount"

section \<open>Messages\<close>

datatype message_type = SNAPSHOT_MSG | DIFF_MSG | TRADE_MSG

text \<open>The type, what the content holds, and the timestamp, which is given.\<close>

record book_message =
  om_type :: message_type
  om_trading_pair :: string
  om_content_update_id :: int
  om_content_first_update_id :: "int option"
  om_content_trade_id :: int
  om_content_bids :: "(decimal \<times> decimal) list"
  om_content_asks :: "(decimal \<times> decimal) list"
  om_content_price :: decimal
  om_content_amount :: decimal
  om_content_trade_type :: int
  om_timestamp :: decimal

definition has_update_id :: "book_message \<Rightarrow> bool" where
  "has_update_id m = (om_type m \<in> set [DIFF_MSG, SNAPSHOT_MSG])"

definition has_trade_id :: "book_message \<Rightarrow> bool" where
  "has_trade_id m = (om_type m = TRADE_MSG)"

definition message_update_id :: "book_message \<Rightarrow> int" where
  "message_update_id m = (if has_update_id m then om_content_update_id m else - 1)"

definition message_first_update_id :: "book_message \<Rightarrow> int" where
  "message_first_update_id m =
     (if om_type m = DIFF_MSG
      then (case om_content_first_update_id m of None \<Rightarrow> message_update_id m | Some i \<Rightarrow> i) else - 1)"

definition message_trade_id :: "book_message \<Rightarrow> int" where
  "message_trade_id m = (if has_trade_id m then om_content_trade_id m else - 1)"

definition message_rows :: "(decimal \<times> decimal) list \<Rightarrow> int \<Rightarrow> book_entry list" where
  "message_rows rows uid = map (\<lambda>(p, a). \<lparr>be_price = p, be_amount = a, be_update_id = uid\<rparr>) rows"

definition message_bids :: "book_message \<Rightarrow> book_entry list" where
  "message_bids m = message_rows (om_content_bids m) (message_update_id m)"

definition message_asks :: "book_message \<Rightarrow> book_entry list" where
  "message_asks m = message_rows (om_content_asks m) (message_update_id m)"

definition message_eq :: "book_message \<Rightarrow> book_message \<Rightarrow> bool" where
  "message_eq m n =
     (om_type m = om_type n
      \<and> (has_update_id m \<and> message_update_id m = message_update_id n \<or> message_trade_id m = message_trade_id n))"

definition message_lt :: "book_message \<Rightarrow> book_message \<Rightarrow> bool" where
  "message_lt m n =
     (has_update_id m \<and> has_update_id n \<and> message_update_id m < message_update_id n
      \<or> has_trade_id m \<and> has_trade_id n \<and> message_trade_id m < message_trade_id n
      \<or> (om_timestamp m \<noteq> om_timestamp n \<and> om_timestamp m < om_timestamp n \<or> has_update_id m))"

text \<open>\<open>bisect.bisect_right\<close>, which asks whether the new element is less than those of the list.\<close>

function bisect_loop :: "('a \<Rightarrow> 'a \<Rightarrow> bool) \<Rightarrow> 'a list \<Rightarrow> 'a \<Rightarrow> nat \<Rightarrow> nat \<Rightarrow> nat" where
  "bisect_loop lt xs x lo hi =
     (if lo < hi
      then let mid = (lo + hi) div 2 in
        if lt x (xs ! mid) then bisect_loop lt xs x lo mid else bisect_loop lt xs x (mid + 1) hi
      else lo)"
  by pat_completeness auto
termination
  by (relation "measure (\<lambda>(lt, xs, x, lo, hi). hi - lo)") auto

declare bisect_loop.simps [simp del]

definition bisect_right :: "('a \<Rightarrow> 'a \<Rightarrow> bool) \<Rightarrow> 'a list \<Rightarrow> 'a \<Rightarrow> nat" where
  "bisect_right lt xs x = bisect_loop lt xs x 0 (length xs)"

definition apply_diff_message :: "book_message \<Rightarrow> order_book \<Rightarrow> order_book" where
  "apply_diff_message m = c_apply_diffs (message_bids m) (message_asks m) (message_update_id m)"

definition apply_snapshot_message :: "book_message \<Rightarrow> order_book \<Rightarrow> order_book" where
  "apply_snapshot_message m = c_apply_snapshot (message_bids m) (message_asks m) (message_update_id m)"

definition restore_from_snapshot_and_diffs :: "book_message \<Rightarrow> book_message list \<Rightarrow> order_book \<Rightarrow> order_book" where
  "restore_from_snapshot_and_diffs snapshot past_diffs b =
     fold apply_diff_message (drop (bisect_right message_lt past_diffs snapshot) past_diffs) (apply_snapshot_message snapshot b)"

section \<open>The composite book\<close>

text \<open>
  A book beside the book of what has been filled from it. An event is a fill's price, amount, side and
  timestamp, which serves as the update id.
\<close>

record composite_book =
  co_book :: order_book
  co_traded :: order_book

definition new_composite_book :: composite_book where
  "new_composite_book = \<lparr>co_book = new_order_book False, co_traded = new_order_book False\<rparr>"

definition clear_traded_order_book :: "composite_book \<Rightarrow> composite_book" where
  "clear_traded_order_book c = c\<lparr>co_traded := (co_traded c)\<lparr>ob_bid_book := [], ob_ask_book := []\<rparr>\<rparr>"

text \<open>What is recorded at a price, walking the entries until they are past it.\<close>

fun recorded_amount :: "(decimal \<Rightarrow> decimal \<Rightarrow> bool) \<Rightarrow> book_entry list \<Rightarrow> decimal \<Rightarrow> decimal" where
  "recorded_amount past [] price = 0"
| "recorded_amount past (e # es) price =
     (if be_price e = price then be_amount e
      else if past (be_price e) price then 0 else recorded_amount past es price)"

definition record_filled_order :: "trade_type \<Rightarrow> decimal \<Rightarrow> decimal \<Rightarrow> int \<Rightarrow> composite_book \<Rightarrow> composite_book" where
  "record_filled_order sd price amount timestamp c =
     (let asks = (if sd = BUY
                  then [\<lparr>be_price = price, be_amount = amount + recorded_amount (>) (ask_entries (co_traded c)) price, be_update_id = timestamp\<rparr>]
                  else []);
          bids = (if sd = SELL
                  then [\<lparr>be_price = price, be_amount = amount + recorded_amount (<) (bid_entries (co_traded c)) price, be_update_id = timestamp\<rparr>]
                  else [])
      in c\<lparr>co_traded := c_apply_diffs bids asks timestamp (co_traded c)\<rparr>)"

text \<open>
  The rows of one side, best first, and the changes to the recorded fills, given which prices come before
  others.
\<close>

fun composite_walk ::
  "(decimal \<Rightarrow> decimal \<Rightarrow> bool) \<Rightarrow> book_entry list \<Rightarrow> book_entry list \<Rightarrow> book_entry list \<times> book_entry list" where
  "composite_walk before [] ts = ([], [])"
| "composite_walk before (e # es) [] = (case composite_walk before es [] of (rows, changes) \<Rightarrow> (e # rows, changes))"
| "composite_walk before (e # es) (t # ts) =
     (if be_price t = be_price e
      then (case composite_walk before es ts of (rows, changes) \<Rightarrow>
              if be_amount e - be_amount t > 0 then (e\<lparr>be_amount := be_amount e - be_amount t\<rparr> # rows, changes)
              else (rows, \<lparr>be_price = be_price e, be_amount = min (be_amount e) (be_amount t), be_update_id = be_update_id t\<rparr> # changes))
      else if before (be_price t) (be_price e)
      then (case composite_walk before (e # es) ts of (rows, changes) \<Rightarrow>
              (rows, \<lparr>be_price = be_price t, be_amount = 0, be_update_id = be_update_id t\<rparr> # changes))
      else (case composite_walk before es (t # ts) of (rows, changes) \<Rightarrow> (e # rows, changes)))"

definition composite_bid_rows :: "composite_book \<Rightarrow> book_entry list \<times> book_entry list" where
  "composite_bid_rows c = composite_walk (>) (bid_entries (co_book c)) (bid_entries (co_traded c))"

definition composite_ask_rows :: "composite_book \<Rightarrow> book_entry list \<times> book_entry list" where
  "composite_ask_rows c = composite_walk (<) (ask_entries (co_book c)) (ask_entries (co_traded c))"

text \<open>The iterators, run to their end: only then are the changes applied.\<close>

definition composite_bid_entries :: "composite_book \<Rightarrow> book_entry list \<times> composite_book" where
  "composite_bid_entries c =
     (case composite_bid_rows c of (rows, changes) \<Rightarrow>
        (rows, c\<lparr>co_traded := c_apply_diffs changes [] (ob_last_diff_uid (co_book c)) (co_traded c)\<rparr>))"

definition composite_ask_entries :: "composite_book \<Rightarrow> book_entry list \<times> composite_book" where
  "composite_ask_entries c =
     (case composite_ask_rows c of (rows, changes) \<Rightarrow>
        (rows, c\<lparr>co_traded := c_apply_diffs [] changes (ob_last_diff_uid (co_book c)) (co_traded c)\<rparr>))"

text \<open>
  The first row's price; None where the book is empty or no row is left, which raises. Then, too, the
  iterator has come to its end. The inherited queries are not modelled over these rows.
\<close>

definition composite_get_price :: "composite_book \<Rightarrow> bool \<Rightarrow> decimal option \<times> composite_book" where
  "composite_get_price c is_buy =
     (if length (if is_buy then ob_ask_book (co_book c) else ob_bid_book (co_book c)) < 1 then (None, c)
      else case (if is_buy then composite_ask_entries c else composite_bid_entries c) of
             ([], c1) \<Rightarrow> (None, c1) | (e # _, c1) \<Rightarrow> (Some (be_price e), c))"

end
