(* ===== verification/Order_Book_Safety.thy ===== *)
theory Order_Book_Safety
  imports Order_Book
begin

text \<open>
  The order book: its sides stay sorted, diffs leave it uncrossed and update its price levels, the volume
  queries agree with the simulated fill, which is the cheapest, and a snapshot is followed by every diff
  that is remembered, older ones too.
\<close>

section \<open>Sides as maps of prices\<close>

definition by_price :: "book_entry list \<Rightarrow> bool" where
  "by_price = sorted_wrt (\<lambda>a b. be_price a < be_price b)"

lemma by_price_simps [simp]:
  "by_price []" "by_price (e # es) \<longleftrightarrow> (\<forall>x \<in> set es. be_price e < be_price x) \<and> by_price es"
  by (simp_all add: by_price_def)

lemma by_price_rev_simps:
  "by_price (rev (e # es)) \<longleftrightarrow> (\<forall>x \<in> set es. be_price x < be_price e) \<and> by_price (rev es)"
  by (auto simp: by_price_def sorted_wrt_append)

lemma set_set_insert: "set xs \<subseteq> set (set_insert e xs) \<and> set (set_insert e xs) \<subseteq> insert e (set xs)"
  by (induction e xs rule: set_insert.induct) auto

lemma by_price_insert [intro]: "by_price xs \<Longrightarrow> by_price (set_insert e xs)"
proof (induction e xs rule: set_insert.induct)
  case (2 e x xs)
  then show ?case using set_set_insert [of xs e] by fastforce
qed simp

lemma by_price_erase [intro]: "by_price xs \<Longrightarrow> by_price (set_erase e xs)"
  by (simp add: by_price_def set_erase_def sorted_wrt_filter)

lemma by_price_row [intro]: "by_price xs \<Longrightarrow> by_price (apply_row e xs)"
  by (auto simp: apply_row_def Let_def)

lemma by_price_rows [intro]: "by_price xs \<Longrightarrow> by_price (fold apply_row rows xs)"
  by (induction rows arbitrary: xs) auto

lemma by_price_inserts: "by_price xs \<Longrightarrow> by_price (fold set_insert rows xs)"
  by (induction rows arbitrary: xs) auto

text \<open>A side as the map from its prices to amount and update id.\<close>

definition levels :: "book_entry list \<Rightarrow> decimal \<Rightarrow> (decimal \<times> int) option" where
  "levels xs = map_of (map (\<lambda>e. (be_price e, be_amount e, be_update_id e)) xs)"

definition set_level_of :: "book_entry \<Rightarrow> (decimal \<Rightarrow> (decimal \<times> int) option) \<Rightarrow> decimal \<Rightarrow> (decimal \<times> int) option" where
  "set_level_of e m = m(be_price e := if be_amount e > 0 then Some (be_amount e, be_update_id e) else None)"

lemma levels_dom: "dom (levels xs) = be_price ` set xs"
  by (simp add: levels_def dom_map_of_conv_image_fst image_image)

lemma levels_insert: "be_price e \<notin> be_price ` set xs \<Longrightarrow> levels (set_insert e xs) = (levels xs)(be_price e \<mapsto> (be_amount e, be_update_id e))"
  by (induction e xs rule: set_insert.induct) (auto simp: levels_def fun_upd_twist)

lemma levels_erase: "levels (set_erase e xs) = (levels xs)(be_price e := None)"
  by (induction xs) (auto simp: levels_def set_erase_def fun_eq_iff)

lemma levels_row: "levels (apply_row e xs) = set_level_of e (levels xs)"
proof -
  have "be_price e \<notin> be_price ` set (set_erase e xs)" by (auto simp: set_erase_def)
  then show ?thesis by (simp add: apply_row_def set_level_of_def Let_def levels_insert levels_erase)
qed

lemma levels_rows: "levels (fold apply_row rows xs) = fold set_level_of rows (levels xs)"
  by (induction rows arbitrary: xs) (simp_all add: levels_row)

section \<open>Crossing\<close>

definition uncrossed :: "book_entry list \<Rightarrow> book_entry list \<Rightarrow> bool" where
  "uncrossed bids asks \<longleftrightarrow> (\<forall>b \<in> set bids. \<forall>a \<in> set asks. be_price b < be_price a)"

lemma truncate_suffix:
  assumes "truncate_by w bs as = (bs', as')"
  shows "(\<exists>k. bs' = drop k bs) \<and> (\<exists>j. as' = drop j as)"
  using assms
proof (induction w bs as arbitrary: bs' as' rule: truncate_by.induct)
  case (1 w b bs a as)
  show ?case
  proof (cases "be_price b \<ge> be_price a")
    case True
    then show ?thesis
      using 1 by (cases "w b a") (auto, (metis drop_Suc_Cons)+)
  next
    case False
    then show ?thesis using 1(3) by (auto intro: exI [of _ 0])
  qed
qed (auto intro: exI [of _ 0])

lemma truncate_uncrossed:
  assumes "truncate_by w bs as = (bs', as')" and "by_price (rev bs)" and "by_price as"
  shows "uncrossed bs' as'"
  using assms
proof (induction w bs as arbitrary: bs' as' rule: truncate_by.induct)
  case (1 w b bs a as)
  show ?case
  proof (cases "be_price b \<ge> be_price a")
    case True
    then show ?thesis using 1 by (cases "w b a") (auto simp: by_price_rev_simps simp del: rev.simps)
  next
    case False
    then show ?thesis using 1(3-5) by (fastforce simp: uncrossed_def by_price_rev_simps simp del: rev.simps)
  qed
qed (auto simp: uncrossed_def)

lemma truncate_keeps_uncrossed: "uncrossed bs as \<Longrightarrow> truncate_by w bs as = (bs, as)"
  by (cases "(w, bs, as)" rule: truncate_by.cases) (auto simp: uncrossed_def not_le)

text \<open>The book is sorted on both sides, and its best prices are those of the first entries.\<close>

definition book_ok :: "order_book \<Rightarrow> bool" where
  "book_ok b \<longleftrightarrow> by_price (ob_bid_book b) \<and> by_price (ob_ask_book b)
     \<and> (ob_bid_book b \<noteq> [] \<longrightarrow> ob_best_bid b = Fin (be_price (last (ob_bid_book b))))
     \<and> (ob_ask_book b \<noteq> [] \<longrightarrow> ob_best_ask b = Fin (be_price (hd (ob_ask_book b))))"

lemma first_price_known [simp]:
  "first_price es k = (if es = [] then k else Fin (be_price (hd es)))"
  by (simp add: first_price_def split: list.split)

lemma truncate_book_result:
  assumes "by_price (ob_bid_book b)" and "by_price (ob_ask_book b)" and "t = truncate_book b"
  shows "by_price (ob_bid_book t) \<and> by_price (ob_ask_book t) \<and> uncrossed (ob_bid_book t) (ob_ask_book t)
    \<and> set (ob_bid_book t) \<subseteq> set (ob_bid_book b) \<and> set (ob_ask_book t) \<subseteq> set (ob_ask_book b)
    \<and> (uncrossed (ob_bid_book b) (ob_ask_book b) \<longrightarrow> t = b) \<and> ob_dex t = ob_dex b"
proof -
  let ?w = "if ob_dex b then bid_wins_dex else bid_wins_centralised"
  obtain bs as where r: "truncate_by ?w (rev (ob_bid_book b)) (ob_ask_book b) = (bs, as)"
    by (cases "truncate_by ?w (rev (ob_bid_book b)) (ob_ask_book b)")
  have t: "ob_bid_book t = rev bs" "ob_ask_book t = as" "ob_dex t = ob_dex b"
    by (simp_all add: assms(3) truncate_book_def truncate_overlap_entries_def r)
  obtain k j where d: "bs = drop k (rev (ob_bid_book b))" "as = drop j (ob_ask_book b)" using truncate_suffix [OF r] by blast
  have "rev bs = take (length (ob_bid_book b) - k) (ob_bid_book b)" using d(1) by (simp add: rev_drop)
  then have s: "by_price (rev bs)" "by_price as"
    using assms(1,2) d by (simp_all add: by_price_def sorted_wrt_take sorted_wrt_drop)
  have "set bs \<subseteq> set (ob_bid_book b)" "set as \<subseteq> set (ob_ask_book b)" using d by (auto dest: in_set_dropD)
  moreover have "uncrossed bs as" using truncate_uncrossed [OF r] assms(1,2) by simp
  moreover have "t = b" if "uncrossed (ob_bid_book b) (ob_ask_book b)"
  proof -
    have "uncrossed (rev (ob_bid_book b)) (ob_ask_book b)" using that by (simp add: uncrossed_def)
    from truncate_keeps_uncrossed [OF this, of ?w] show ?thesis
      by (simp add: assms(3) truncate_book_def truncate_overlap_entries_def)
  qed
  ultimately show ?thesis using s t by (auto simp: uncrossed_def)
qed

definition updated_book :: "book_entry list \<Rightarrow> book_entry list \<Rightarrow> order_book \<Rightarrow> order_book" where
  "updated_book bids asks b =
     b\<lparr>ob_bid_book := fold apply_row bids (ob_bid_book b), ob_ask_book := fold apply_row asks (ob_ask_book b)\<rparr>"

lemma diffs_result:
  assumes "by_price (ob_bid_book b)" and "by_price (ob_ask_book b)" and "u = updated_book bids asks b"
  shows "book_ok (c_apply_diffs bids asks uid b)"
    "ob_bid_book (c_apply_diffs bids asks uid b) = ob_bid_book (truncate_book u)"
    "ob_ask_book (c_apply_diffs bids asks uid b) = ob_ask_book (truncate_book u)"
    "uncrossed (ob_bid_book (c_apply_diffs bids asks uid b)) (ob_ask_book (c_apply_diffs bids asks uid b))"
proof -
  have "by_price (ob_bid_book u)" "by_price (ob_ask_book u)" using assms by (auto simp: updated_book_def)
  note t = truncate_book_result [OF this refl]
  show "ob_bid_book (c_apply_diffs bids asks uid b) = ob_bid_book (truncate_book u)"
    "ob_ask_book (c_apply_diffs bids asks uid b) = ob_ask_book (truncate_book u)"
    by (simp_all add: c_apply_diffs_def assms(3) updated_book_def Let_def)
  then show "book_ok (c_apply_diffs bids asks uid b)"
    "uncrossed (ob_bid_book (c_apply_diffs bids asks uid b)) (ob_ask_book (c_apply_diffs bids asks uid b))"
    using t by (auto simp: book_ok_def c_apply_diffs_def assms(3) updated_book_def Let_def bid_entries_def ask_entries_def hd_rev)
qed

lemma set_insert_nonempty [simp]: "set_insert e xs \<noteq> []"
  by (cases xs) auto

lemma hd_set_insert: "be_price (hd (set_insert e xs)) = (if xs = [] then be_price e else min (be_price e) (be_price (hd xs)))"
  by (cases xs) auto

lemma last_set_insert:
  "by_price xs \<Longrightarrow> be_price (last (set_insert e xs)) = (if xs = [] then be_price e else max (be_price e) (be_price (last xs)))"
proof (induction e xs rule: set_insert.induct)
  case (2 e x xs)
  show ?case
  proof (cases "xs = []")
    case False
    then have "be_price x < be_price (last xs)" using 2(2) by simp
    then have "be_price e \<le> be_price x \<Longrightarrow> max (be_price e) (be_price (last xs)) = be_price (last xs)" by linarith
    then show ?thesis using 2 False by auto
  qed auto
qed simp

lemma snapshot_best:
  assumes "by_price xs" and "best = (if xs = [] then NaN else Fin (be_price (last xs)))"
  shows "fold raise_best rows best = (if fold set_insert rows xs = [] then NaN else Fin (be_price (last (fold set_insert rows xs))))"
  using assms
proof (induction rows arbitrary: xs best)
  case (Cons r rows)
  have "raise_best r best = (if set_insert r xs = [] then NaN else Fin (be_price (last (set_insert r xs))))"
    using Cons.prems by (auto simp: raise_best_def last_set_insert max_def)
  then show ?case using Cons.IH [OF by_price_insert [OF Cons.prems(1)]] by simp
qed simp

lemma snapshot_lowest:
  assumes "best = (if xs = [] then NaN else Fin (be_price (hd xs)))"
  shows "fold lower_best rows best = (if fold set_insert rows xs = [] then NaN else Fin (be_price (hd (fold set_insert rows xs))))"
  using assms
proof (induction rows arbitrary: xs best)
  case (Cons r rows)
  have "lower_best r best = (if set_insert r xs = [] then NaN else Fin (be_price (hd (set_insert r xs))))"
    using Cons.prems by (auto simp: lower_best_def hd_set_insert min_def)
  then show ?case using Cons.IH [of "lower_best r best" "set_insert r xs"] by auto
qed simp

lemma snapshot_ok: "book_ok (c_apply_snapshot bids asks uid b)"
proof -
  let ?b1 = "b\<lparr>ob_bid_book := fold set_insert bids [], ob_ask_book := fold set_insert asks []\<rparr>"
  have s: "by_price (ob_bid_book ?b1)" "by_price (ob_ask_book ?b1)" by (simp_all add: by_price_inserts)
  show ?thesis
    using truncate_book_result [OF s refl] s snapshot_best [of "[]" NaN bids] snapshot_lowest [of NaN "[]" asks]
    by (auto simp: book_ok_def c_apply_snapshot_def Let_def bid_entries_def ask_entries_def hd_rev)
qed

text \<open>Every book that is made of an empty one by snapshots, diffs and trades.\<close>

inductive book_reachable :: "order_book \<Rightarrow> bool" where
  new: "book_reachable (new_order_book dex)"
| diffs: "book_reachable b \<Longrightarrow> book_reachable (c_apply_diffs bids asks uid b)"
| snapshot: "book_reachable b \<Longrightarrow> book_reachable (c_apply_snapshot bids asks uid b)"
| trade: "book_reachable b \<Longrightarrow> book_reachable (c_apply_trade now t b)"
| rest_price: "book_reachable b \<Longrightarrow> book_reachable (b\<lparr>ob_last_trade_price := p, ob_last_trade_price_rest_updated := t\<rparr>)"

lemma book_reachable_ok: "book_reachable b \<Longrightarrow> book_ok b"
proof (induction rule: book_reachable.induct)
  case (new dex)
  show ?case by (simp add: book_ok_def new_order_book_def)
next
  case (diffs b bids asks uid)
  then show ?case using diffs_result(1) [of b] by (simp add: book_ok_def)
next
  case (trade b now t)
  then show ?case by (simp add: book_ok_def c_apply_trade_def)
next
  case (rest_price b p t)
  then show ?case by (simp add: book_ok_def)
qed (rule snapshot_ok)

text \<open>
  C35: Whatever snapshots, diffs and trades a book has been through, after the next diffs its sides are sorted
  by price and do not cross, and the price it quotes for either side is that of its best entry.
\<close>

theorem diffs_leave_book_uncrossed:
  assumes "book_reachable b" and "b' = c_apply_diffs bids asks uid b"
  shows "by_price (rev (bid_entries b')) \<and> by_price (ask_entries b') \<and> uncrossed (bid_entries b') (ask_entries b')
    \<and> c_get_price b' True = (if ask_entries b' = [] then None else Some (Fin (be_price (hd (ask_entries b')))))
    \<and> c_get_price b' False = (if bid_entries b' = [] then None else Some (Fin (be_price (hd (bid_entries b')))))"
proof -
  have "by_price (ob_bid_book b)" "by_price (ob_ask_book b)" using book_reachable_ok [OF assms(1)] by (simp_all add: book_ok_def)
  from diffs_result(1,4) [OF this refl, of bids asks uid] show ?thesis
    by (auto simp: assms(2) book_ok_def bid_entries_def ask_entries_def c_get_price_def uncrossed_def hd_rev)
qed

text \<open>
  C36: Diffs refine the update of two maps from prices to levels: where the updated sides do not cross, the book
  holds exactly the updated levels, and where they do, some of them and no others.
\<close>

theorem diffs_refine_price_levels:
  assumes "book_reachable b" and "b' = c_apply_diffs bids asks uid b"
  defines "lv \<equiv> (\<lambda>rows side_book. fold set_level_of rows (levels side_book))"
  shows "levels (ob_bid_book b') \<subseteq>\<^sub>m lv bids (ob_bid_book b) \<and> levels (ob_ask_book b') \<subseteq>\<^sub>m lv asks (ob_ask_book b)
    \<and> ((\<forall>p \<in> dom (lv bids (ob_bid_book b)). \<forall>q \<in> dom (lv asks (ob_ask_book b)). p < q) \<longrightarrow>
        levels (ob_bid_book b') = lv bids (ob_bid_book b) \<and> levels (ob_ask_book b') = lv asks (ob_ask_book b))"
proof -
  have s: "by_price (ob_bid_book b)" "by_price (ob_ask_book b)" using book_reachable_ok [OF assms(1)] by (simp_all add: book_ok_def)
  define u where "u = updated_book bids asks b"
  have su: "by_price (ob_bid_book u)" "by_price (ob_ask_book u)" using s by (auto simp: u_def updated_book_def)
  note t = truncate_book_result [OF su refl] and d = diffs_result(2,3) [OF s u_def, of uid]
  have l: "lv bids (ob_bid_book b) = levels (ob_bid_book u)" "lv asks (ob_ask_book b) = levels (ob_ask_book u)"
    by (simp_all add: lv_def levels_rows u_def updated_book_def)
  have sub: "levels xs \<subseteq>\<^sub>m levels ys" if "by_price ys" "set xs \<subseteq> set ys" for xs ys
  proof -
    have "distinct (map be_price ys)" using that(1) by (induction ys) auto
    then have m: "levels ys (be_price e) = Some (be_amount e, be_update_id e)" if "e \<in> set ys" for e
      using that unfolding levels_def by (intro map_of_is_SomeI) (auto simp: comp_def)
    have "levels xs p = levels ys p" if "levels xs p \<noteq> None" for p
    proof -
      from that obtain v where v: "levels xs p = Some v" by blast
      then obtain e where "e \<in> set xs" "p = be_price e" "v = (be_amount e, be_update_id e)"
        unfolding levels_def by (auto dest!: map_of_SomeD)
      then show ?thesis using v m \<open>set xs \<subseteq> set ys\<close> by auto
    qed
    then show ?thesis by (auto simp: map_le_def)
  qed
  have "uncrossed (ob_bid_book u) (ob_ask_book u)" if "\<forall>p \<in> dom (levels (ob_bid_book u)). \<forall>q \<in> dom (levels (ob_ask_book u)). p < q"
    using that by (simp add: uncrossed_def levels_dom)
  then show ?thesis using t sub [OF su(1)] sub [OF su(2)] d by (auto simp: assms(2) l)
qed

section \<open>Fills\<close>

definition total_amount :: "book_entry list \<Rightarrow> decimal" where
  "total_amount es = sum_list (map be_amount es)"

definition fill_cost :: "book_entry list \<Rightarrow> decimal" where
  "fill_cost es = sum_list (map quote_amount es)"

lemma fill_simps [simp]:
  "total_amount [] = 0" "total_amount (e # es) = be_amount e + total_amount es"
  "fill_cost [] = 0" "fill_cost (e # es) = be_amount e * be_price e + fill_cost es"
  by (simp_all add: total_amount_def fill_cost_def quote_amount_def)

lemma fill_amount: "v \<le> total_amount es \<Longrightarrow> 0 < v \<Longrightarrow> total_amount (simulate_fill es v) = v"
  by (induction es v rule: simulate_fill.induct) auto

lemma vwap_of_fill:
  "v0 < v \<Longrightarrow> v - v0 \<le> total_amount es \<Longrightarrow> v \<noteq> 0 \<Longrightarrow>
   vwap_walk es c v0 v = Inr (Fin ((c + fill_cost (simulate_fill es (v - v0))) / v), v)"
proof (induction es c v0 v rule: vwap_walk.induct)
  case (2 e es c v0 v)
  show ?case
  proof (cases "be_amount e < v - v0")
    case True
    then show ?thesis using 2(1) [OF refl refl] 2(2-4) by (simp add: Let_def add.assoc diff_diff_eq)
  next
    case False
    then show ?thesis using 2(4) by (simp add: float_div_def Let_def)
  qed
qed simp

lemma quote_volume_of_fill:
  "cb < v \<Longrightarrow> quote_volume_walk es cb cv v = cv + fill_cost (simulate_fill es (v - cb))"
proof (induction es cb cv v rule: quote_volume_walk.induct)
  case (2 e es cb cv v)
  show ?case
  proof (cases "be_amount e < v - cb")
    case True
    then show ?thesis using 2(1) [OF refl refl refl] by (simp add: Let_def add.assoc diff_diff_eq)
  next
    case False
    then show ?thesis by (simp add: Let_def)
  qed
qed simp

text \<open>
  C37: For an amount the book can serve, the three ways to price it agree: the simulated fill has that amount,
  the quote volume for it is what the fill costs, and the volume-weighted price is that cost by the amount.
\<close>

theorem vwap_prices_simulated_fill:
  assumes "0 < v" and "v \<le> total_amount (book_rows b is_buy)"
  defines "rows \<equiv> (if is_buy then simulate_buy b v else simulate_sell b v)"
  shows "total_amount rows = v \<and> bq_result_volume (c_get_quote_volume_for_base_amount b is_buy v) = fill_cost rows
    \<and> c_get_vwap_for_volume b is_buy v = Inr \<lparr>bq_query_price = NaN, bq_query_volume = Fin v,
        bq_result_price = Fin (fill_cost rows / v), bq_result_volume = v\<rparr>"
proof -
  have "rows = simulate_fill (book_rows b is_buy) v" by (simp add: rows_def simulate_buy_def simulate_sell_def book_rows_def)
  then show ?thesis
    using fill_amount [OF assms(2,1)] vwap_of_fill [of 0 v "book_rows b is_buy" 0] quote_volume_of_fill [of 0 v "book_rows b is_buy" 0] assms(1,2)
    by (simp add: c_get_vwap_for_volume_def c_get_quote_volume_for_base_amount_def)
qed

text \<open>What a choice of amounts from the entries costs; it takes no more than there is.\<close>

definition choice_cost :: "decimal list \<Rightarrow> book_entry list \<Rightarrow> decimal" where
  "choice_cost xs es = sum_list (map2 (\<lambda>x e. x * be_price e) xs es)"

definition choice_of :: "book_entry list \<Rightarrow> decimal list \<Rightarrow> bool" where
  "choice_of es xs \<longleftrightarrow> list_all2 (\<lambda>x e. 0 \<le> x \<and> x \<le> be_amount e) xs es"

lemma choice_at_least:
  "choice_of es xs \<Longrightarrow> \<forall>e \<in> set es. q \<le> be_price e \<Longrightarrow> sum_list xs * q \<le> choice_cost xs es"
proof (induction es arbitrary: xs)
  case (Cons e es)
  then obtain x ys where x: "xs = x # ys" "0 \<le> x" "choice_of es ys" by (auto simp: choice_of_def list_all2_Cons2)
  have "x * q \<le> x * be_price e" using Cons.prems(2) x(2) by (simp add: mult_left_mono)
  then show ?case using Cons.IH [OF x(3)] Cons.prems(2) by (simp add: x(1) choice_cost_def algebra_simps)
qed (simp add: choice_of_def choice_cost_def)

lemma fill_below_choice:
  assumes "by_price es" and "choice_of es xs" and "0 \<le> v" and "v \<le> sum_list xs" and "\<forall>e \<in> set es. q \<le> be_price e"
  shows "fill_cost (simulate_fill es v) + (sum_list xs - v) * q \<le> choice_cost xs es"
  using assms
proof (induction es arbitrary: xs v q)
  case (Cons e es)
  obtain x ys where x: "xs = x # ys" "0 \<le> x" "x \<le> be_amount e" "choice_of es ys"
    using Cons.prems(2) by (auto simp: choice_of_def list_all2_Cons2)
  have p: "\<forall>e' \<in> set es. be_price e \<le> be_price e'" "q \<le> be_price e" using Cons.prems(1,5) by auto
  have more: "(sum_list xs - v) * q \<le> (sum_list xs - v) * be_price e" using Cons.prems(4) p(2) by (simp add: mult_left_mono)
  show ?case
  proof (cases "be_amount e < v")
    case True
    then have "fill_cost (simulate_fill es (v - be_amount e)) + (sum_list ys - (v - be_amount e)) * be_price e \<le> choice_cost ys es"
      using Cons.prems(1,4) x p(1) by (intro Cons.IH) auto
    then show ?thesis using more True by (simp add: x(1) choice_cost_def algebra_simps)
  next
    case False
    then show ?thesis using more choice_at_least [OF x(4) p(1)] by (simp add: x(1) choice_cost_def algebra_simps)
  qed
qed (simp add: choice_of_def choice_cost_def)

text \<open>
  C38: The simulated buy is the cheapest one: whatever amounts are chosen from the asks, as long as they add up
  to the amount bought, cost at least as much.
\<close>

theorem simulated_buy_is_cheapest:
  assumes "book_reachable b" and "choice_of (ask_entries b) xs" and "sum_list xs = v" and "0 < v"
  shows "fill_cost (simulate_buy b v) \<le> choice_cost xs (ask_entries b)"
proof -
  have "by_price (ask_entries b)" using book_reachable_ok [OF assms(1)] by (simp add: book_ok_def ask_entries_def)
  moreover obtain q where "\<forall>e \<in> set (ask_entries b). q \<le> be_price e"
  proof (cases "ask_entries b")
    case (Cons e es)
    then show ?thesis using calculation by (intro that [of "be_price e"]) (auto intro: less_imp_le)
  qed auto
  ultimately show ?thesis using fill_below_choice [of "ask_entries b" xs v q] assms(2-4) by (simp add: simulate_buy_def)
qed

section \<open>Snapshots\<close>

lemma bisect_all_less: "(\<forall>y. lt x y) \<Longrightarrow> bisect_loop lt xs x lo hi = lo"
proof (induction lt xs x lo hi rule: bisect_loop.induct)
  case (1 lt xs x lo hi)
  then show ?case by (subst bisect_loop.simps) (auto simp: Let_def)
qed

text \<open>
  C39: A message with an update id counts as less than every other message, so restoring a book replays every
  remembered diff on the snapshot, those that are older than the snapshot too.
\<close>

theorem restore_replays_all_diffs:
  assumes "om_type snapshot = SNAPSHOT_MSG"
  shows "restore_from_snapshot_and_diffs snapshot past b = fold apply_diff_message past (apply_snapshot_message snapshot b)"
proof -
  have "\<forall>m. message_lt snapshot m" using assms by (simp add: message_lt_def has_update_id_def)
  then show ?thesis by (simp add: restore_from_snapshot_and_diffs_def bisect_right_def bisect_all_less)
qed

section \<open>The composite book\<close>

text \<open>What is left of an entry after what was recorded at its price.\<close>

definition remaining :: "(decimal \<Rightarrow> (decimal \<times> int) option) \<Rightarrow> book_entry \<Rightarrow> book_entry list" where
  "remaining traded e =
     (case traded (be_price e) of
        None \<Rightarrow> [e]
      | Some (a, uid) \<Rightarrow> if be_amount e - a > 0 then [e\<lparr>be_amount := be_amount e - a\<rparr>] else [])"

lemma levels_simps [simp]:
  "levels [] = Map.empty" "levels (e # es) = (levels es)(be_price e \<mapsto> (be_amount e, be_update_id e))"
  by (simp_all add: levels_def)

lemma remaining_cong:
  "(\<And>e. e \<in> set es \<Longrightarrow> m (be_price e) = m' (be_price e)) \<Longrightarrow> map (remaining m) es = map (remaining m') es"
  by (simp add: remaining_def)

lemma levels_None: "(\<And>t. t \<in> set ts \<Longrightarrow> be_price t \<noteq> p) \<Longrightarrow> levels ts p = None"
  by (induction ts) auto

lemma composite_rows:
  assumes "transp before" and "\<forall>p. \<not> before p p" and "\<forall>p q. p \<noteq> q \<longrightarrow> before p q \<or> before q p"
    and "sorted_wrt (\<lambda>a b. before (be_price a) (be_price b)) es" and "sorted_wrt (\<lambda>a b. before (be_price a) (be_price b)) ts"
  shows "fst (composite_walk before es ts) = concat (map (remaining (levels ts)) es)"
  using assms
proof (induction before es ts rule: composite_walk.induct)
  case (3 before e es t ts)
  have es: "\<And>x. x \<in> set es \<Longrightarrow> before (be_price e) (be_price x)" and ts: "\<And>x. x \<in> set ts \<Longrightarrow> before (be_price t) (be_price x)"
    using "3.prems"(4,5) by auto
  have tr: "\<And>x y z. before x y \<Longrightarrow> before y z \<Longrightarrow> before x z" and ir: "\<And>x. \<not> before x x" using "3.prems"(1,2) by (auto dest: transpD)
  consider "be_price t = be_price e" | "be_price t \<noteq> be_price e" "before (be_price t) (be_price e)"
    | "be_price t \<noteq> be_price e" "\<not> before (be_price t) (be_price e)" "before (be_price e) (be_price t)" using "3.prems"(3) by blast
  then show ?case
  proof cases
    case 1
    have "concat (map (remaining (levels (t # ts))) es) = concat (map (remaining (levels ts)) es)"
      using 1 es ir by (intro arg_cong [of _ _ concat] remaining_cong) (simp, metis)
    moreover have "remaining (levels (t # ts)) e = (if be_amount e - be_amount t > 0 then [e\<lparr>be_amount := be_amount e - be_amount t\<rparr>] else [])"
      using 1 by (simp add: remaining_def)
    ultimately show ?thesis using 1 "3.IH"(1) "3.prems" by (auto simp del: levels_simps split: prod.splits)
  next
    case 2
    then have "before (be_price t) (be_price x)" if "x \<in> set (e # es)" for x using es tr that by auto
    then have "concat (map (remaining (levels (t # ts))) (e # es)) = concat (map (remaining (levels ts)) (e # es))"
      using ir by (intro arg_cong [of _ _ concat] remaining_cong) (simp only: levels_simps fun_upd_apply, metis)
    note same = this
    show ?thesis unfolding same using 2 "3.IH"(2) "3.prems" by (auto split: prod.splits)
  next
    case 3
    then have "before (be_price e) (be_price x)" if "x \<in> set (t # ts)" for x using ts tr that by auto
    then have "levels (t # ts) (be_price e) = None" using ir by (intro levels_None) metis
    then have "remaining (levels (t # ts)) e = [e]" by (simp add: remaining_def)
    then show ?thesis using 3 "3.IH"(3) "3.prems" by (auto simp del: levels_simps split: prod.splits)
  qed
qed (simp_all add: remaining_def case_prod_beta)

text \<open>
  The composite book shows of every entry what is left of it after the fills recorded at its price, and
  leaves out the entries of which nothing is left.
\<close>

theorem composite_book_shows_remaining:
  assumes "book_reachable (co_book c)" and "book_reachable (co_traded c)"
  shows "fst (composite_ask_entries c) = concat (map (remaining (levels (ob_ask_book (co_traded c)))) (ask_entries (co_book c)))"
    and "fst (composite_bid_entries c) = concat (map (remaining (levels (bid_entries (co_traded c)))) (bid_entries (co_book c)))"
proof -
  have s: "by_price (ob_ask_book (co_book c))" "by_price (ob_ask_book (co_traded c))" "by_price (ob_bid_book (co_book c))" "by_price (ob_bid_book (co_traded c))"
    using assms [THEN book_reachable_ok] by (simp_all add: book_ok_def)
  have "fst (composite_walk (<) (ob_ask_book (co_book c)) (ob_ask_book (co_traded c)))
      = concat (map (remaining (levels (ob_ask_book (co_traded c)))) (ob_ask_book (co_book c)))"
    by (rule composite_rows) (use s in \<open>auto simp: by_price_def\<close>)
  then show "fst (composite_ask_entries c) = concat (map (remaining (levels (ob_ask_book (co_traded c)))) (ask_entries (co_book c)))"
    by (simp add: composite_ask_entries_def composite_ask_rows_def ask_entries_def case_prod_beta)
  have "fst (composite_walk (>) (rev (ob_bid_book (co_book c))) (rev (ob_bid_book (co_traded c))))
      = concat (map (remaining (levels (rev (ob_bid_book (co_traded c))))) (rev (ob_bid_book (co_book c))))"
    by (rule composite_rows) (use s in \<open>auto simp: by_price_def sorted_wrt_rev transp_on_def\<close>)
  then show "fst (composite_bid_entries c) = concat (map (remaining (levels (bid_entries (co_traded c)))) (bid_entries (co_book c)))"
    by (simp add: composite_bid_entries_def composite_bid_rows_def bid_entries_def case_prod_beta)
qed

text \<open>
  The recorded fills are a book of their own, whose sides must not cross either: a sale recorded at or above
  the price of a recorded purchase takes its place, or the other way round.
\<close>

theorem recorded_fills_displace_each_other:
  assumes "book_reachable (co_traded c)" and "c' = record_filled_order sd price amount ts c"
  shows "uncrossed (bid_entries (co_traded c')) (ask_entries (co_traded c'))"
  using diffs_leave_book_uncrossed [OF assms(1) refl] by (simp add: assms(2) record_filled_order_def Let_def)

section \<open>A concrete book\<close>

definition demo_row :: "decimal \<Rightarrow> decimal \<Rightarrow> int \<Rightarrow> book_entry" where
  "demo_row p a uid = \<lparr>be_price = p, be_amount = a, be_update_id = uid\<rparr>"

definition demo_order_book :: order_book where
  "demo_order_book = c_apply_snapshot [demo_row 99 2 10, demo_row 98 1 10] [demo_row 102 2 10, demo_row 101 1 10] 10 (new_order_book False)"

lemma demo_order_book_reachable: "book_reachable demo_order_book"
  unfolding demo_order_book_def by (intro book_reachable.intros)

lemma demo_order_book_rows:
  "ask_entries demo_order_book = [demo_row 101 1 10, demo_row 102 2 10]" "bid_entries demo_order_book = [demo_row 99 2 10, demo_row 98 1 10]"
  by code_simp+

text \<open>A newer ask at the best bid's price removes that bid.\<close>

theorem diffs_leave_book_uncrossed_witness:
  "let b' = c_apply_diffs [] [demo_row 99 1 11] 11 demo_order_book in
   uncrossed (bid_entries b') (ask_entries b') \<and> bid_entries b' = [demo_row 98 1 10]
     \<and> c_get_price b' True = Some (Fin 99) \<and> c_get_price b' False = Some (Fin 98)"
proof -
  let ?b = "c_apply_diffs [] [demo_row 99 1 11] 11 demo_order_book"
  have "bid_entries ?b = [demo_row 98 1 10]" "ask_entries ?b = [demo_row 99 1 11, demo_row 101 1 10, demo_row 102 2 10]" by code_simp+
  then show ?thesis using diffs_leave_book_uncrossed [OF demo_order_book_reachable refl, of "[]" "[demo_row 99 1 11]" 11]
    by (simp add: Let_def demo_row_def)
qed

theorem diffs_refine_price_levels_witness:
  "levels (ob_bid_book (c_apply_diffs [demo_row 99 0 11] [demo_row 100 3 11] 11 demo_order_book)) = (levels (ob_bid_book demo_order_book))(99 := None)
   \<and> levels (ob_ask_book (c_apply_diffs [demo_row 99 0 11] [demo_row 100 3 11] 11 demo_order_book)) = (levels (ob_ask_book demo_order_book))(100 \<mapsto> (3, 11))"
proof -
  have rows: "ob_bid_book demo_order_book = [demo_row 98 1 10, demo_row 99 2 10]" "ob_ask_book demo_order_book = [demo_row 101 1 10, demo_row 102 2 10]"
    by code_simp+
  have "\<forall>p \<in> dom ((levels (ob_bid_book demo_order_book))(99 := None)). \<forall>q \<in> dom ((levels (ob_ask_book demo_order_book))(100 \<mapsto> (3, 11))). p < q"
    by (auto simp: rows levels_def demo_row_def split: if_splits)
  then show ?thesis
    using diffs_refine_price_levels [OF demo_order_book_reachable refl, of "[demo_row 99 0 11]" "[demo_row 100 3 11]" 11]
    by (simp add: set_level_of_def demo_row_def)
qed

theorem vwap_prices_simulated_fill_witness:
  "c_get_vwap_for_volume demo_order_book True 2 = Inr \<lparr>bq_query_price = NaN, bq_query_volume = Fin 2, bq_result_price = Fin (203 / 2), bq_result_volume = 2\<rparr>"
  using vwap_prices_simulated_fill [of 2 demo_order_book True]
  by (simp add: book_rows_def simulate_buy_def demo_order_book_rows demo_row_def)

theorem simulated_buy_is_cheapest_witness:
  "fill_cost (simulate_buy demo_order_book 2) = 203 \<and> fill_cost (simulate_buy demo_order_book 2) \<le> 1 / 2 * 101 + 3 / 2 * 102"
  using simulated_buy_is_cheapest [OF demo_order_book_reachable, of "[1 / 2, 3 / 2]" 2]
  by (simp add: simulate_buy_def demo_order_book_rows demo_row_def choice_of_def choice_cost_def)

definition demo_message :: "message_type \<Rightarrow> int \<Rightarrow> (decimal \<times> decimal) list \<Rightarrow> (decimal \<times> decimal) list \<Rightarrow> book_message" where
  "demo_message ty uid bids asks =
     \<lparr>om_type = ty, om_trading_pair = ''SOL-USDC'', om_content_update_id = uid, om_content_first_update_id = None, om_content_trade_id = 0,
      om_content_bids = bids, om_content_asks = asks, om_content_price = 0, om_content_amount = 0, om_content_trade_type = 1, om_timestamp = of_int uid\<rparr>"

text \<open>A level that the snapshot no longer has comes back from an older diff.\<close>

theorem restore_replays_all_diffs_witness:
  "bid_entries (restore_from_snapshot_and_diffs (demo_message SNAPSHOT_MSG 20 [(98, 1)] [(101, 1)]) [demo_message DIFF_MSG 5 [(99, 2)] []] demo_order_book)
    = [demo_row 99 2 5, demo_row 98 1 20]"
proof -
  have t: "om_type (demo_message SNAPSHOT_MSG 20 [(98, 1)] [(101, 1)]) = SNAPSHOT_MSG" by (simp add: demo_message_def)
  have "bid_entries (fold apply_diff_message [demo_message DIFF_MSG 5 [(99, 2)] []]
      (apply_snapshot_message (demo_message SNAPSHOT_MSG 20 [(98, 1)] [(101, 1)]) demo_order_book)) = [demo_row 99 2 5, demo_row 98 1 20]"
    by code_simp
  then show ?thesis by (simp only: restore_replays_all_diffs [OF t])
qed

end
