(* ===== verification/Order_Book_Tracker.thy ===== *)
theory Order_Book_Tracker
  imports Order_Book
begin

text \<open>
  \<open>core/data_type/order_book_tracker.py\<close>: the coroutines that route the messages of the exchange to the
  order books of the trading pairs and keep the books up to date. Streams and queues are lists, oldest
  first. One turn of a coroutine's loop, from the arrival of its message, is one operation, as nothing
  suspends within it; \<open>add_trading_pair\<close> and \<open>remove_trading_pair\<close> are cut where they wait for the exchange.
  The metrics of a pair are shared objects, which the routers cache: they live in a store. The clock and
  the measured latencies are arguments.
\<close>

section \<open>Metrics\<close>

record latency_stats =
  lat_count :: int
  lat_total_ms :: decimal
  lat_min_ms :: "decimal option"  \<comment> \<open>None for infinity\<close>
  lat_max_ms :: decimal
  lat_recent_samples :: "decimal list"
  lat_sample_counter :: int

definition new_latency_stats :: latency_stats where
  "new_latency_stats = \<lparr>lat_count = 0, lat_total_ms = 0, lat_min_ms = None, lat_max_ms = 0, lat_recent_samples = [], lat_sample_counter = 0\<rparr>"

text \<open>\<open>deque(maxlen=n).append\<close>\<close>

definition bounded_append :: "nat \<Rightarrow> 'a \<Rightarrow> 'a list \<Rightarrow> 'a list" where
  "bounded_append n x xs = (let ys = xs @ [x] in drop (length ys - n) ys)"

definition record_latency :: "decimal \<Rightarrow> latency_stats \<Rightarrow> latency_stats" where
  "record_latency ms s =
     (let s1 = s\<lparr>lat_count := lat_count s + 1, lat_sample_counter := lat_sample_counter s + 1,
                lat_min_ms := (case lat_min_ms s of None \<Rightarrow> Some ms | Some m \<Rightarrow> Some (if ms < m then ms else m)),
                lat_max_ms := (if ms > lat_max_ms s then ms else lat_max_ms s)\<rparr>
      in if lat_sample_counter s1 \<ge> 10
         then s1\<lparr>lat_sample_counter := 0, lat_total_ms := lat_total_ms s1 + ms * 10,
                 lat_recent_samples := bounded_append 100 ms (lat_recent_samples s1)\<rparr>
         else s1)"

definition avg_ms :: "latency_stats \<Rightarrow> decimal" where
  "avg_ms s = (if lat_count s > 0 then lat_total_ms s / of_int (lat_count s) else 0)"

definition recent_avg_ms :: "latency_stats \<Rightarrow> decimal" where
  "recent_avg_ms s =
     (if lat_recent_samples s \<noteq> [] then sum_list (lat_recent_samples s) / of_nat (length (lat_recent_samples s)) else 0)"

definition recent_samples_count :: "latency_stats \<Rightarrow> nat" where
  "recent_samples_count s = length (lat_recent_samples s)"

record pair_metrics =
  pm_trading_pair :: string
  pm_diffs_processed :: int
  pm_diffs_rejected :: int
  pm_snapshots_processed :: int
  pm_trades_processed :: int
  pm_trades_rejected :: int
  pm_last_diff_timestamp :: decimal
  pm_last_snapshot_timestamp :: decimal
  pm_last_trade_timestamp :: decimal
  pm_tracking_start_time :: decimal
  pm_diff_latency :: latency_stats
  pm_snapshot_latency :: latency_stats
  pm_trade_latency :: latency_stats

definition new_pair_metrics :: "string \<Rightarrow> decimal \<Rightarrow> pair_metrics" where
  "new_pair_metrics pair now =
     \<lparr>pm_trading_pair = pair, pm_diffs_processed = 0, pm_diffs_rejected = 0, pm_snapshots_processed = 0,
      pm_trades_processed = 0, pm_trades_rejected = 0, pm_last_diff_timestamp = 0, pm_last_snapshot_timestamp = 0,
      pm_last_trade_timestamp = 0, pm_tracking_start_time = now, pm_diff_latency = new_latency_stats,
      pm_snapshot_latency = new_latency_stats, pm_trade_latency = new_latency_stats\<rparr>"

text \<open>The rates of diffs, snapshots, trades and all of them, from the counts and the time tracked.\<close>

definition rates_per_minute :: "decimal \<Rightarrow> decimal \<Rightarrow> int \<Rightarrow> int \<Rightarrow> int \<Rightarrow> (string, decimal) dict" where
  "rates_per_minute now start nd ns nt =
     (let elapsed_minutes = (if start > 0 then (now - start) / 60 else 0) in
      if elapsed_minutes \<le> 0 then [(''diffs'', 0), (''snapshots'', 0), (''trades'', 0), (''total'', 0)]
      else let d = of_int nd / elapsed_minutes; s = of_int ns / elapsed_minutes; t = of_int nt / elapsed_minutes
           in [(''diffs'', d), (''snapshots'', s), (''trades'', t), (''total'', d + s + t)])"

definition pair_messages_per_minute :: "decimal \<Rightarrow> pair_metrics \<Rightarrow> (string, decimal) dict" where
  "pair_messages_per_minute now m =
     rates_per_minute now (pm_tracking_start_time m) (pm_diffs_processed m) (pm_snapshots_processed m) (pm_trades_processed m)"

record tracker_metrics =
  tm_diffs_processed :: int
  tm_diffs_rejected :: int
  tm_diffs_queued :: int
  tm_snapshots_processed :: int
  tm_snapshots_rejected :: int
  tm_trades_processed :: int
  tm_trades_rejected :: int
  tm_start_time :: decimal
  tm_diff_latency :: latency_stats
  tm_snapshot_latency :: latency_stats
  tm_trade_latency :: latency_stats
  tm_per_pair :: "(string, nat) dict"
  tm_store :: "nat \<Rightarrow> pair_metrics"
  tm_next :: nat

definition new_tracker_metrics :: tracker_metrics where
  "new_tracker_metrics =
     \<lparr>tm_diffs_processed = 0, tm_diffs_rejected = 0, tm_diffs_queued = 0, tm_snapshots_processed = 0,
      tm_snapshots_rejected = 0, tm_trades_processed = 0, tm_trades_rejected = 0, tm_start_time = 0,
      tm_diff_latency = new_latency_stats, tm_snapshot_latency = new_latency_stats,
      tm_trade_latency = new_latency_stats, tm_per_pair = [], tm_store = (\<lambda>_. new_pair_metrics [] 0), tm_next = 0\<rparr>"

definition get_or_create_pair_metrics :: "decimal \<Rightarrow> string \<Rightarrow> tracker_metrics \<Rightarrow> nat \<times> tracker_metrics" where
  "get_or_create_pair_metrics now pair m =
     (case dict_get (tm_per_pair m) pair of
        Some i \<Rightarrow> (i, m)
      | None \<Rightarrow> (tm_next m, m\<lparr>tm_per_pair := dict_set (tm_per_pair m) pair (tm_next m),
                              tm_store := (tm_store m)(tm_next m := new_pair_metrics pair now),
                              tm_next := Suc (tm_next m)\<rparr>))"

definition remove_pair_metrics :: "string \<Rightarrow> tracker_metrics \<Rightarrow> tracker_metrics" where
  "remove_pair_metrics pair m = m\<lparr>tm_per_pair := dict_del (tm_per_pair m) pair\<rparr>"

definition messages_per_minute :: "decimal \<Rightarrow> tracker_metrics \<Rightarrow> (string, decimal) dict" where
  "messages_per_minute now m =
     rates_per_minute now (tm_start_time m) (tm_diffs_processed m) (tm_snapshots_processed m) (tm_trades_processed m)"

definition write_pair :: "nat \<Rightarrow> (pair_metrics \<Rightarrow> pair_metrics) \<Rightarrow> tracker_metrics \<Rightarrow> tracker_metrics" where
  "write_pair i f m = m\<lparr>tm_store := (tm_store m)(i := f (tm_store m i))\<rparr>"

section \<open>The tracker\<close>

record book_tracker =
  ot_trading_pairs :: "string list"
  ot_initialized :: bool
  ot_order_books :: "(string, order_book) dict"
  ot_message_queues :: "(string, book_message list) dict"
  ot_past_diffs :: "string \<Rightarrow> book_message list"
  ot_saved :: "string \<Rightarrow> book_message list"
  ot_tracking_tasks :: "string list"
  ot_diff_stream :: "book_message list"
  ot_snapshot_stream :: "book_message list"
  ot_trade_stream :: "book_message list"
  ot_metrics :: tracker_metrics
  ot_diff_cache :: "(string, nat) dict"
  ot_snapshot_cache :: "(string, nat) dict"
  ot_trade_cache :: "(string, nat) dict"

definition new_book_tracker :: "string list \<Rightarrow> book_tracker" where
  "new_book_tracker pairs =
     \<lparr>ot_trading_pairs = pairs, ot_initialized = False, ot_order_books = [], ot_message_queues = [],
      ot_past_diffs = (\<lambda>_. []), ot_saved = (\<lambda>_. []), ot_tracking_tasks = [], ot_diff_stream = [],
      ot_snapshot_stream = [], ot_trade_stream = [], ot_metrics = new_tracker_metrics, ot_diff_cache = [],
      ot_snapshot_cache = [], ot_trade_cache = []\<rparr>"

abbreviation upd_metrics :: "(tracker_metrics \<Rightarrow> tracker_metrics) \<Rightarrow> book_tracker \<Rightarrow> book_tracker" where
  "upd_metrics f t \<equiv> t\<lparr>ot_metrics := f (ot_metrics t)\<rparr>"

text \<open>The routers' caches of the pairs' metrics: filled at the first use of a pair, never emptied.\<close>

definition cached_metrics ::
  "decimal \<Rightarrow> string \<Rightarrow> (string, nat) dict \<Rightarrow> tracker_metrics \<Rightarrow> nat \<times> (string, nat) dict \<times> tracker_metrics" where
  "cached_metrics now pair cache m =
     (case dict_get cache pair of
        Some i \<Rightarrow> (i, cache, m)
      | None \<Rightarrow> (case get_or_create_pair_metrics now pair m of (i, m1) \<Rightarrow> (i, dict_set cache pair i, m1)))"

definition enqueue :: "string \<Rightarrow> book_message \<Rightarrow> book_tracker \<Rightarrow> book_tracker" where
  "enqueue pair msg t =
     t\<lparr>ot_message_queues :=
         (case dict_get (ot_message_queues t) pair of
            None \<Rightarrow> ot_message_queues t | Some q \<Rightarrow> dict_set (ot_message_queues t) pair (q @ [msg]))\<rparr>"

text \<open>A diff for a pair whose queue exists; the book is there whenever the queue is.\<close>

definition route_diff_to_book :: "decimal \<Rightarrow> decimal \<Rightarrow> book_message \<Rightarrow> order_book \<Rightarrow> book_tracker \<Rightarrow> book_tracker" where
  "route_diff_to_book now ms msg book t =
     (let pair = om_trading_pair msg in
      case cached_metrics now pair (ot_diff_cache t) (ot_metrics t) of
        (i, cache, m) \<Rightarrow>
          (let t1 = t\<lparr>ot_diff_cache := cache, ot_metrics := m\<rparr> in
           if ob_snapshot_uid book > message_update_id msg
           then upd_metrics (\<lambda>m. write_pair i (\<lambda>p. p\<lparr>pm_diffs_rejected := pm_diffs_rejected p + 1\<rparr>)
                                  (m\<lparr>tm_diffs_rejected := tm_diffs_rejected m + 1\<rparr>)) t1
           else upd_metrics
                  (\<lambda>m. write_pair i (\<lambda>p. p\<lparr>pm_diffs_processed := pm_diffs_processed p + 1, pm_last_diff_timestamp := now,
                                            pm_diff_latency := record_latency ms (pm_diff_latency p)\<rparr>)
                         (m\<lparr>tm_diffs_processed := tm_diffs_processed m + 1,
                            tm_diff_latency := record_latency ms (tm_diff_latency m)\<rparr>))
                  (enqueue pair msg t1)))"

definition route_diff :: "decimal \<Rightarrow> decimal \<Rightarrow> book_tracker \<Rightarrow> book_tracker" where
  "route_diff now ms t =
     (case ot_diff_stream t of
        [] \<Rightarrow> t
      | msg # rest \<Rightarrow>
          (let pair = om_trading_pair msg; t1 = t\<lparr>ot_diff_stream := rest\<rparr> in
           if \<not> dict_has (ot_message_queues t) pair
           then upd_metrics (\<lambda>m. m\<lparr>tm_diffs_queued := tm_diffs_queued m + 1\<rparr>)
                  (t1\<lparr>ot_saved := (ot_saved t)(pair := bounded_append 1000 msg (ot_saved t pair))\<rparr>)
           else (case dict_get (ot_order_books t) pair of
                   None \<Rightarrow> t1 | Some book \<Rightarrow> route_diff_to_book now ms msg book t1)))"

definition route_snapshot :: "decimal \<Rightarrow> decimal \<Rightarrow> book_tracker \<Rightarrow> book_tracker" where
  "route_snapshot now ms t =
     (if \<not> ot_initialized t then t
      else case ot_snapshot_stream t of
        [] \<Rightarrow> t
      | msg # rest \<Rightarrow>
          (let pair = om_trading_pair msg; t1 = t\<lparr>ot_snapshot_stream := rest\<rparr> in
           if \<not> dict_has (ot_message_queues t) pair
           then upd_metrics (\<lambda>m. m\<lparr>tm_snapshots_rejected := tm_snapshots_rejected m + 1\<rparr>) t1
           else let t2 = upd_metrics (\<lambda>m. m\<lparr>tm_snapshots_processed := tm_snapshots_processed m + 1,
                                            tm_snapshot_latency := record_latency ms (tm_snapshot_latency m)\<rparr>) (enqueue pair msg t1)
                in (case cached_metrics now pair (ot_snapshot_cache t2) (ot_metrics t2) of
                      (i, cache, m) \<Rightarrow>
                        upd_metrics (write_pair i (\<lambda>p. p\<lparr>pm_snapshots_processed := pm_snapshots_processed p + 1,
                              pm_last_snapshot_timestamp := now, pm_snapshot_latency := record_latency ms (pm_snapshot_latency p)\<rparr>))
                          (t2\<lparr>ot_snapshot_cache := cache, ot_metrics := m\<rparr>))))"

definition handle_message :: "string \<Rightarrow> book_message \<Rightarrow> book_tracker \<Rightarrow> book_tracker" where
  "handle_message pair msg t =
     (case dict_get (ot_order_books t) pair of
        None \<Rightarrow> t
      | Some book \<Rightarrow>
          (if om_type msg = DIFF_MSG
           then t\<lparr>ot_order_books := dict_set (ot_order_books t) pair (apply_diff_message msg book),
                  ot_past_diffs := (ot_past_diffs t)(pair := bounded_append 32 msg (ot_past_diffs t pair))\<rparr>
           else if om_type msg = SNAPSHOT_MSG
           then t\<lparr>ot_order_books := dict_set (ot_order_books t) pair
                     (restore_from_snapshot_and_diffs msg (ot_past_diffs t pair) book)\<rparr>
           else t))"

definition track_single_book :: "string \<Rightarrow> book_tracker \<Rightarrow> book_tracker" where
  "track_single_book pair t =
     (if pair \<notin> set (ot_tracking_tasks t) then t
      else case ot_saved t pair of
        msg # rest \<Rightarrow> handle_message pair msg (t\<lparr>ot_saved := (ot_saved t)(pair := rest)\<rparr>)
      | [] \<Rightarrow>
          (case dict_get (ot_message_queues t) pair of
             Some (msg # rest) \<Rightarrow> handle_message pair msg (t\<lparr>ot_message_queues := dict_set (ot_message_queues t) pair rest\<rparr>)
           | _ \<Rightarrow> t))"

definition trade_event_of :: "book_message \<Rightarrow> trade_event" where
  "trade_event_of msg =
     \<lparr>bt_trading_pair = om_trading_pair msg, bt_timestamp = om_timestamp msg,
      bt_type = (if om_content_trade_type msg = 2 then SELL else BUY), bt_price = om_content_price msg,
      bt_amount = om_content_amount msg, bt_trade_id = message_trade_id msg\<rparr>"

definition emit_trade_event :: "decimal \<Rightarrow> decimal \<Rightarrow> book_tracker \<Rightarrow> book_tracker" where
  "emit_trade_event now ms t =
     (if \<not> ot_initialized t then t
      else case ot_trade_stream t of
        [] \<Rightarrow> t
      | msg # rest \<Rightarrow>
          (let pair = om_trading_pair msg; t1 = t\<lparr>ot_trade_stream := rest\<rparr> in
           case dict_get (ot_order_books t) pair of
             None \<Rightarrow> upd_metrics (\<lambda>m. m\<lparr>tm_trades_rejected := tm_trades_rejected m + 1\<rparr>) t1
           | Some book \<Rightarrow>
               (let t2 = upd_metrics (\<lambda>m. m\<lparr>tm_trades_processed := tm_trades_processed m + 1,
                                            tm_trade_latency := record_latency ms (tm_trade_latency m)\<rparr>)
                           (t1\<lparr>ot_order_books := dict_set (ot_order_books t) pair (c_apply_trade now (trade_event_of msg) book)\<rparr>)
                in (case cached_metrics now pair (ot_trade_cache t2) (ot_metrics t2) of
                      (i, cache, m) \<Rightarrow>
                        upd_metrics (write_pair i (\<lambda>p. p\<lparr>pm_trades_processed := pm_trades_processed p + 1,
                              pm_last_trade_timestamp := now, pm_trade_latency := record_latency ms (pm_trade_latency p)\<rparr>))
                          (t2\<lparr>ot_trade_cache := cache, ot_metrics := m\<rparr>)))))"

text \<open>Pairs without a trade for three minutes, whose price was not fetched in the last five seconds.\<close>

definition outdated_pairs :: "decimal \<Rightarrow> book_tracker \<Rightarrow> string list" where
  "outdated_pairs now t =
     map fst (filter (\<lambda>(pair, book). ob_last_applied_trade book < now - 180 \<and> ob_last_trade_price_rest_updated book < now - 5)
       (ot_order_books t))"

fun set_last_prices :: "decimal \<Rightarrow> (string \<times> decimal) list \<Rightarrow> book_tracker \<Rightarrow> book_tracker \<times> py_error option" where
  "set_last_prices now [] t = (t, None)"
| "set_last_prices now ((pair, price) # prices) t =
     (case dict_get (ot_order_books t) pair of
        None \<Rightarrow> (t, Some KeyError)
      | Some book \<Rightarrow>
          set_last_prices now prices
            (t\<lparr>ot_order_books := dict_set (ot_order_books t) pair
                 (book\<lparr>ob_last_trade_price := Fin price, ob_last_trade_price_rest_updated := now\<rparr>)\<rparr>))"

section \<open>Starting, adding and removing pairs\<close>

definition tracker_stop :: "book_tracker \<Rightarrow> book_tracker" where
  "tracker_stop t = t\<lparr>ot_tracking_tasks := [], ot_initialized := False\<rparr>"

definition tracker_start :: "decimal \<Rightarrow> book_tracker \<Rightarrow> book_tracker" where
  "tracker_start now t =
     upd_metrics (\<lambda>m. m\<lparr>tm_start_time := now\<rparr>)
       ((tracker_stop t)\<lparr>ot_diff_cache := [], ot_snapshot_cache := [], ot_trade_cache := []\<rparr>)"

text \<open>A fetched book, with a queue of its own and a task that works on it.\<close>

definition begin_tracking :: "string \<Rightarrow> order_book \<Rightarrow> book_tracker \<Rightarrow> book_tracker" where
  "begin_tracking pair book t =
     t\<lparr>ot_order_books := dict_set (ot_order_books t) pair book,
       ot_message_queues := dict_set (ot_message_queues t) pair [],
       ot_tracking_tasks := ot_tracking_tasks t @ [pair]\<rparr>"

definition init_order_books_done :: "book_tracker \<Rightarrow> book_tracker" where
  "init_order_books_done t = t\<lparr>ot_initialized := True\<rparr>"

text \<open>Whether \<open>add_trading_pair\<close> goes on to wait for the initialization and the subscription.\<close>

definition add_pair_accepted :: "string \<Rightarrow> book_tracker \<Rightarrow> bool" where
  "add_pair_accepted pair t = (\<not> dict_has (ot_order_books t) pair)"

definition add_pair_subscribed :: "string \<Rightarrow> bool \<Rightarrow> book_tracker \<Rightarrow> book_tracker \<times> bool" where
  "add_pair_subscribed pair subscribe_success t =
     (if \<not> subscribe_success then (t, False)
      else (if pair \<in> set (ot_trading_pairs t) then t else t\<lparr>ot_trading_pairs := ot_trading_pairs t @ [pair]\<rparr>, True))"

definition forget_pair :: "string \<Rightarrow> book_tracker \<Rightarrow> book_tracker" where
  "forget_pair pair t =
     t\<lparr>ot_order_books := dict_del (ot_order_books t) pair, ot_message_queues := dict_del (ot_message_queues t) pair\<rparr>"

text \<open>The book is fetched, or fetching raises.\<close>

definition add_pair_fetched :: "string \<Rightarrow> order_book option \<Rightarrow> book_tracker \<Rightarrow> book_tracker \<times> bool" where
  "add_pair_fetched pair reply t =
     (case reply of
        Some book \<Rightarrow> (begin_tracking pair book t, True)
      | None \<Rightarrow> ((forget_pair pair t)\<lparr>ot_tracking_tasks := filter (\<lambda>p. p \<noteq> pair) (ot_tracking_tasks t)\<rparr>, False))"

text \<open>The task is cancelled first; then the unsubscription is waited for.\<close>

definition remove_pair_begin :: "string \<Rightarrow> book_tracker \<Rightarrow> book_tracker \<times> bool" where
  "remove_pair_begin pair t =
     (if \<not> dict_has (ot_order_books t) pair then (t, False)
      else (t\<lparr>ot_tracking_tasks := filter (\<lambda>p. p \<noteq> pair) (ot_tracking_tasks t)\<rparr>, True))"

text \<open>The exchange answers with success or failure, or the call raises.\<close>

definition remove_pair_unsubscribed :: "string \<Rightarrow> bool option \<Rightarrow> book_tracker \<Rightarrow> book_tracker \<times> bool" where
  "remove_pair_unsubscribed pair reply t =
     (case reply of
        None \<Rightarrow> (t, False)
      | Some success \<Rightarrow>
          (upd_metrics (remove_pair_metrics pair)
             ((forget_pair pair t)\<lparr>ot_past_diffs := (ot_past_diffs t)(pair := []), ot_saved := (ot_saved t)(pair := []),
                                   ot_trading_pairs := remove1 pair (ot_trading_pairs t)\<rparr>), True))"

end
