(* ===== verification/Order_Book_Tracking.thy ===== *)
theory Order_Book_Tracking
  imports Order_Book_Safety Order_Book_Tracker
begin

text \<open>
  The order book tracker: a book becomes what its diffs make of it in whatever order the routers and the
  tracking task run; and the diffs, pairs and counts that go astray. Runs of the order book and of its
  tracker are at the end.
\<close>

section \<open>Routing and tracking\<close>

datatype tracker_action = RouteDiff decimal decimal | RouteSnapshot decimal decimal | TrackBook string

fun do_action :: "tracker_action \<Rightarrow> book_tracker \<Rightarrow> book_tracker" where
  "do_action (RouteDiff now ms) t = route_diff now ms t"
| "do_action (RouteSnapshot now ms) t = route_snapshot now ms t"
| "do_action (TrackBook pair) t = track_single_book pair t"

definition run_actions :: "tracker_action list \<Rightarrow> book_tracker \<Rightarrow> book_tracker" where
  "run_actions acts t = fold do_action acts t"

definition queue_in :: "(string, book_message list) dict \<Rightarrow> string \<Rightarrow> book_message list" where
  "queue_in qs pair = (case dict_get qs pair of None \<Rightarrow> [] | Some q \<Rightarrow> q)"

abbreviation queue_of :: "book_tracker \<Rightarrow> string \<Rightarrow> book_message list" where
  "queue_of t pair \<equiv> queue_in (ot_message_queues t) pair"

text \<open>The diffs a book is still to take: the router lets pass what is not older than its snapshot.\<close>

definition takes :: "order_book \<Rightarrow> string \<Rightarrow> book_message \<Rightarrow> bool" where
  "takes book pair m \<longleftrightarrow> om_trading_pair m = pair \<and> \<not> ob_snapshot_uid book > message_update_id m"

definition pending_diffs :: "string \<Rightarrow> book_tracker \<Rightarrow> order_book \<Rightarrow> book_message list" where
  "pending_diffs pair t book = ot_saved t pair @ queue_of t pair @ filter (takes book pair) (ot_diff_stream t)"

definition eventual_book :: "string \<Rightarrow> book_tracker \<Rightarrow> order_book option" where
  "eventual_book pair t =
     map_option (\<lambda>book. fold apply_diff_message (pending_diffs pair t book) book) (dict_get (ot_order_books t) pair)"

text \<open>A pair that is tracked, and for which only diffs are under way.\<close>

definition followed :: "string \<Rightarrow> book_tracker \<Rightarrow> bool" where
  "followed pair t \<longleftrightarrow> dict_has (ot_order_books t) pair \<and> dict_has (ot_message_queues t) pair \<and> pair \<in> set (ot_tracking_tasks t)
     \<and> (\<forall>m \<in> set (ot_saved t pair @ queue_of t pair). om_type m = DIFF_MSG)
     \<and> (\<forall>m \<in> set (ot_diff_stream t). om_trading_pair m = pair \<longrightarrow> om_type m = DIFF_MSG)
     \<and> (\<forall>m \<in> set (ot_snapshot_stream t). om_trading_pair m \<noteq> pair)"

lemma diffs_keep_snapshot_uid [simp]: "ob_snapshot_uid (apply_diff_message m book) = ob_snapshot_uid book"
  by (simp add: apply_diff_message_def c_apply_diffs_def truncate_book_def Let_def split: prod.splits)

lemma takes_after_diff [simp]: "takes (apply_diff_message m book) pair = takes book pair"
  by (simp add: takes_def fun_eq_iff)

text \<open>What routing leaves alone, and what it does to a queue.\<close>

lemma route_diff_fields [simp]:
  "ot_order_books (route_diff now ms t) = ot_order_books t" "ot_tracking_tasks (route_diff now ms t) = ot_tracking_tasks t"
  "ot_snapshot_stream (route_diff now ms t) = ot_snapshot_stream t" "ot_diff_stream (route_diff now ms t) = tl (ot_diff_stream t)"
  by (auto simp: route_diff_def route_diff_to_book_def enqueue_def Let_def split: list.splits option.splits prod.splits)

lemma route_snapshot_fields [simp]:
  "ot_order_books (route_snapshot now ms t) = ot_order_books t" "ot_tracking_tasks (route_snapshot now ms t) = ot_tracking_tasks t"
  "ot_diff_stream (route_snapshot now ms t) = ot_diff_stream t" "ot_saved (route_snapshot now ms t) = ot_saved t"
  by (auto simp: route_snapshot_def enqueue_def Let_def split: list.splits option.splits prod.splits)

lemma enqueue_queue [simp]:
  "queue_of (enqueue q m t) pair = (if q = pair \<and> dict_has (ot_message_queues t) pair then queue_of t pair @ [m] else queue_of t pair)"
  "dict_has (ot_message_queues (enqueue q m t)) pair = dict_has (ot_message_queues t) pair"
  "ot_saved (enqueue q m t) = ot_saved t"
  by (auto simp: enqueue_def queue_in_def dict_has_def split: option.splits)

lemma route_diff_queue:
  assumes "dict_has (ot_message_queues t) pair" and "dict_get (ot_order_books t) pair = Some book"
  shows "ot_saved (route_diff now ms t) pair = ot_saved t pair"
    "dict_has (ot_message_queues (route_diff now ms t)) pair"
    "queue_of (route_diff now ms t) pair = queue_of t pair
       @ (case ot_diff_stream t of [] \<Rightarrow> [] | m # _ \<Rightarrow> if takes book pair m then [m] else [])"
  using assms
  by (auto simp: route_diff_def route_diff_to_book_def Let_def takes_def split: list.splits option.splits prod.splits)

lemma route_snapshot_queue:
  assumes "\<forall>m \<in> set (ot_snapshot_stream t). om_trading_pair m \<noteq> pair"
  shows "queue_of (route_snapshot now ms t) pair = queue_of t pair"
    "dict_has (ot_message_queues (route_snapshot now ms t)) pair = dict_has (ot_message_queues t) pair"
    "set (ot_snapshot_stream (route_snapshot now ms t)) \<subseteq> set (ot_snapshot_stream t)"
  using assms
  by (auto simp: route_snapshot_def enqueue_def queue_in_def dict_has_def Let_def split: list.splits option.splits prod.splits)

lemma eventual_routed:
  assumes "followed pair t"
  shows "followed pair (route_diff now ms t) \<and> eventual_book pair (route_diff now ms t) = eventual_book pair t"
proof -
  obtain book where b: "dict_has (ot_message_queues t) pair" "dict_get (ot_order_books t) pair = Some book"
    using assms by (auto simp: followed_def dict_has_def)
  note q = route_diff_queue [OF b, of now ms]
  have "pending_diffs pair (route_diff now ms t) book = pending_diffs pair t book"
    by (cases "ot_diff_stream t") (simp_all add: pending_diffs_def q)
  moreover have "followed pair (route_diff now ms t)"
    using assms q by (cases "ot_diff_stream t") (auto simp: followed_def takes_def split: if_splits)
  ultimately show ?thesis by (simp add: eventual_book_def b(2))
qed

lemma eventual_snapshot_routed:
  assumes "followed pair t"
  shows "followed pair (route_snapshot now ms t) \<and> eventual_book pair (route_snapshot now ms t) = eventual_book pair t"
proof -
  have "\<forall>m \<in> set (ot_snapshot_stream t). om_trading_pair m \<noteq> pair" using assms by (simp add: followed_def)
  note q = route_snapshot_queue [OF this, of now ms]
  show ?thesis using assms q by (auto simp: followed_def eventual_book_def pending_diffs_def)
qed

text \<open>A task handles the next diff of its pair, the saved ones first, and nothing of another pair.\<close>

lemma handle_other:
  assumes "q \<noteq> pair"
  shows "dict_get (ot_order_books (handle_message q m t)) pair = dict_get (ot_order_books t) pair"
  using assms by (auto simp: handle_message_def split: option.splits)

lemma handle_fields [simp]:
  "ot_message_queues (handle_message q m t) = ot_message_queues t" "ot_saved (handle_message q m t) = ot_saved t"
  "ot_diff_stream (handle_message q m t) = ot_diff_stream t" "ot_snapshot_stream (handle_message q m t) = ot_snapshot_stream t"
  "ot_tracking_tasks (handle_message q m t) = ot_tracking_tasks t"
  "dict_has (ot_order_books (handle_message q m t)) pair = dict_has (ot_order_books t) pair"
  by (auto simp: handle_message_def dict_has_def split: option.splits)

lemma handle_diff:
  "om_type m = DIFF_MSG \<Longrightarrow> dict_get (ot_order_books t) pair = Some book \<Longrightarrow>
   dict_get (ot_order_books (handle_message pair m t)) pair = Some (apply_diff_message m book)"
  by (simp add: handle_message_def)

lemma track_other:
  assumes "q \<noteq> pair"
  shows "dict_get (ot_order_books (track_single_book q t)) pair = dict_get (ot_order_books t) pair"
    "ot_saved (track_single_book q t) pair = ot_saved t pair" "queue_of (track_single_book q t) pair = queue_of t pair"
    "dict_has (ot_message_queues (track_single_book q t)) pair = dict_has (ot_message_queues t) pair"
  using assms by (auto simp: track_single_book_def handle_other queue_in_def dict_has_def split: list.splits option.splits)

lemma track_fields [simp]:
  "ot_diff_stream (track_single_book q t) = ot_diff_stream t" "ot_snapshot_stream (track_single_book q t) = ot_snapshot_stream t"
  "ot_tracking_tasks (track_single_book q t) = ot_tracking_tasks t"
  "dict_has (ot_order_books (track_single_book q t)) pair = dict_has (ot_order_books t) pair"
  by (auto simp: track_single_book_def split: list.splits option.splits)

lemma eventual_tracked:
  assumes "followed pair t"
  shows "followed pair (track_single_book q t) \<and> eventual_book pair (track_single_book q t) = eventual_book pair t"
proof (cases "q = pair")
  case False
  then show ?thesis using assms by (simp add: followed_def eventual_book_def pending_diffs_def track_other [OF False])
next
  case True
  obtain book qs where b: "dict_get (ot_order_books t) pair = Some book" "dict_get (ot_message_queues t) pair = Some qs"
    "pair \<in> set (ot_tracking_tasks t)" using assms by (auto simp: followed_def dict_has_def)
  show ?thesis
  proof (cases "ot_saved t pair")
    case (Cons m rest)
    let ?t = "t\<lparr>ot_saved := (ot_saved t)(pair := rest)\<rparr>"
    have e: "track_single_book q t = handle_message pair m ?t" using True b(3) Cons by (simp add: track_single_book_def)
    have "om_type m = DIFF_MSG" using assms Cons by (simp add: followed_def)
    then have "dict_get (ot_order_books (handle_message pair m ?t)) pair = Some (apply_diff_message m book)"
      using b(1) by (intro handle_diff) simp_all
    then show ?thesis using assms Cons b(1) by (simp add: e followed_def eventual_book_def pending_diffs_def)
  next
    case none: Nil
    show ?thesis
    proof (cases qs)
      case Nil
      then show ?thesis using True none b assms by (simp add: track_single_book_def)
    next
      case (Cons m rest)
      let ?t = "t\<lparr>ot_message_queues := dict_set (ot_message_queues t) pair rest\<rparr>"
      have e: "track_single_book q t = handle_message pair m ?t" using True b(2,3) none Cons by (simp add: track_single_book_def)
      have "om_type m = DIFF_MSG" using assms b(2) Cons by (simp add: followed_def queue_in_def)
      then have "dict_get (ot_order_books (handle_message pair m ?t)) pair = Some (apply_diff_message m book)"
        using b(1) by (intro handle_diff) simp_all
      then show ?thesis using assms none Cons b(1,2)
        by (simp add: e followed_def eventual_book_def pending_diffs_def queue_in_def dict_has_def)
    qed
  qed
qed

lemma eventual_run:
  assumes "followed pair t"
  shows "followed pair (run_actions acts t) \<and> eventual_book pair (run_actions acts t) = eventual_book pair t"
  using assms
proof (induction acts arbitrary: t)
  case (Cons a acts)
  have "followed pair (do_action a t) \<and> eventual_book pair (do_action a t) = eventual_book pair t"
    using Cons.prems by (cases a) (simp_all only: do_action.simps eventual_routed eventual_snapshot_routed eventual_tracked simp_thms)
  then show ?case using Cons.IH [of "do_action a t"] by (simp add: run_actions_def)
qed (simp add: run_actions_def)

text \<open>
  As long as no snapshot of a tracked pair is in the stream or in its queue, the order in which the routers
  and the tracking tasks run does not matter: once nothing is pending for the pair, its book is the old one
  with its saved diffs, those in its queue, and those in the stream that are not older than its snapshot
  applied in this order. With a snapshot pending the order does matter: it decides which diffs count as older.
\<close>

theorem routing_order_is_irrelevant:
  assumes "followed pair t" and "dict_get (ot_order_books t) pair = Some book"
    and "\<forall>book'. pending_diffs pair (run_actions acts t) book' = []"
  shows "dict_get (ot_order_books (run_actions acts t)) pair = Some (fold apply_diff_message
    (ot_saved t pair @ queue_of t pair @ filter (\<lambda>m. om_trading_pair m = pair \<and> message_update_id m \<ge> ob_snapshot_uid book) (ot_diff_stream t)) book)"
proof -
  have "takes book pair = (\<lambda>m. om_trading_pair m = pair \<and> message_update_id m \<ge> ob_snapshot_uid book)"
    by (auto simp: takes_def fun_eq_iff)
  then have "eventual_book pair t = Some (fold apply_diff_message
    (ot_saved t pair @ queue_of t pair @ filter (\<lambda>m. om_trading_pair m = pair \<and> message_update_id m \<ge> ob_snapshot_uid book) (ot_diff_stream t)) book)"
    using assms(2) by (simp add: eventual_book_def pending_diffs_def)
  moreover have "eventual_book pair (run_actions acts t) = dict_get (ot_order_books (run_actions acts t)) pair"
    using assms(3) by (simp add: eventual_book_def map_option_idI)
  ultimately show ?thesis using eventual_run [OF assms(1), of acts] by simp
qed

section \<open>What goes astray\<close>

text \<open>
  Diffs saved before the book was fetched are applied to it without a look at their ids, although the
  router rejects every diff that is older than the snapshot.
\<close>

theorem saved_diffs_are_not_checked:
  assumes "\<forall>m \<in> set ds. om_type m = DIFF_MSG" and "ot_saved t pair = ds"
  shows "dict_get (ot_order_books (run_actions (replicate (length ds) (TrackBook pair)) (begin_tracking pair book t))) pair
    = Some (fold apply_diff_message ds book)"
proof -
  have "dict_get (ot_order_books (run_actions (replicate (length ds) (TrackBook pair)) z)) pair = Some (fold apply_diff_message ds b)"
    if "dict_get (ot_order_books z) pair = Some b" "pair \<in> set (ot_tracking_tasks z)" "ot_saved z pair = ds" for z b
    using that assms(1)
  proof (induction ds arbitrary: z b)
    case (Cons m ds)
    let ?z = "z\<lparr>ot_saved := (ot_saved z)(pair := ds)\<rparr>"
    have "track_single_book pair z = handle_message pair m ?z" using Cons.prems by (simp add: track_single_book_def)
    moreover have "dict_get (ot_order_books (handle_message pair m ?z)) pair = Some (apply_diff_message m b)"
      using Cons.prems by (intro handle_diff) simp_all
    ultimately show ?case using Cons.IH [of "handle_message pair m ?z"] Cons.prems by (simp add: run_actions_def)
  qed (simp add: run_actions_def)
  then show ?thesis using assms(2) by (simp add: begin_tracking_def)
qed

text \<open>
  An unsubscription that raises leaves the pair without its task: nothing that is routed or tracked changes
  its book any more, and the pair cannot be added again.
\<close>

theorem failed_unsubscription_freezes_book:
  assumes "remove_pair_begin pair t = (t1, True)" and "remove_pair_unsubscribed pair None t1 = (t2, ok)"
  shows "dict_get (ot_order_books (run_actions acts t2)) pair = dict_get (ot_order_books t) pair
    \<and> \<not> add_pair_accepted pair (run_actions acts t2)"
proof -
  have t2: "ot_order_books t2 = ot_order_books t" "pair \<notin> set (ot_tracking_tasks t2)" "dict_has (ot_order_books t) pair"
    using assms by (auto simp: remove_pair_begin_def remove_pair_unsubscribed_def split: if_splits)
  have "dict_get (ot_order_books (run_actions acts z)) pair = dict_get (ot_order_books z) pair
      \<and> dict_has (ot_order_books (run_actions acts z)) pair = dict_has (ot_order_books z) pair"
    if "pair \<notin> set (ot_tracking_tasks z)" for z
    using that
  proof (induction acts arbitrary: z)
    case (Cons a acts)
    have "dict_get (ot_order_books (do_action a z)) pair = dict_get (ot_order_books z) pair
        \<and> dict_has (ot_order_books (do_action a z)) pair = dict_has (ot_order_books z) pair \<and> pair \<notin> set (ot_tracking_tasks (do_action a z))"
    proof (cases a)
      case (TrackBook q)
      have "track_single_book pair z = z" using Cons.prems by (simp add: track_single_book_def)
      then show ?thesis using TrackBook Cons.prems track_other(1) [of q pair z] by (cases "q = pair") simp_all
    qed (use Cons.prems in simp_all)
    then show ?case using Cons.IH [of "do_action a z"] by (simp add: run_actions_def)
  qed (simp add: run_actions_def)
  then show ?thesis using t2 by (simp add: add_pair_accepted_def)
qed

text \<open>
  After a pair was removed and added again, the router counts its diffs in the metrics it remembers from
  before, which no report shows.
\<close>

theorem readded_pair_is_not_counted:
  assumes "ot_diff_stream t = msg # rest" and "dict_get (ot_diff_cache t) (om_trading_pair msg) = Some i"
    and "dict_get (tm_per_pair (ot_metrics t)) (om_trading_pair msg) = Some j" and "i \<noteq> j"
  shows "tm_store (ot_metrics (route_diff now ms t)) j = tm_store (ot_metrics t) j"
  using assms by (auto simp: route_diff_def route_diff_to_book_def cached_metrics_def enqueue_def write_pair_def Let_def split: option.splits)

section \<open>Concrete runs\<close>

text \<open>A pair is tracked while one diff is saved; two more arrive, of which one is older than the snapshot.\<close>

definition demo_tracker :: book_tracker where
  "demo_tracker =
     (begin_tracking ''SOL-USDC'' demo_order_book
        ((new_book_tracker [''SOL-USDC''])\<lparr>ot_saved := (\<lambda>_. [])(''SOL-USDC'' := [demo_message DIFF_MSG 7 [(97, 5)] []])\<rparr>))
       \<lparr>ot_diff_stream := [demo_message DIFF_MSG 8 [(96, 1)] [], demo_message DIFF_MSG 12 [(99, 3)] []]\<rparr>"

definition demo_schedule :: "tracker_action list" where
  "demo_schedule = [TrackBook ''SOL-USDC'', RouteDiff 1 1, TrackBook ''SOL-USDC'', RouteDiff 2 1, TrackBook ''SOL-USDC'']"

lemma demo_tracker:
  "followed ''SOL-USDC'' demo_tracker" "dict_get (ot_order_books demo_tracker) ''SOL-USDC'' = Some demo_order_book"
  "ob_snapshot_uid demo_order_book = 10"
proof -
  show "ob_snapshot_uid demo_order_book = 10" by code_simp
qed (simp_all add: demo_tracker_def begin_tracking_def followed_def new_book_tracker_def queue_in_def demo_message_def dict_has_def)

lemma demo_drained: "pending_diffs ''SOL-USDC'' (run_actions demo_schedule demo_tracker) book = []"
proof -
  have "ot_saved (run_actions demo_schedule demo_tracker) ''SOL-USDC'' = []" "queue_of (run_actions demo_schedule demo_tracker) ''SOL-USDC'' = []"
    "ot_diff_stream (run_actions demo_schedule demo_tracker) = []" by code_simp+
  then show ?thesis by (simp add: pending_diffs_def)
qed

theorem routing_order_is_irrelevant_witness:
  "dict_get (ot_order_books (run_actions demo_schedule demo_tracker)) ''SOL-USDC'' =
     Some (fold apply_diff_message [demo_message DIFF_MSG 7 [(97, 5)] [], demo_message DIFF_MSG 12 [(99, 3)] []] demo_order_book)"
  using routing_order_is_irrelevant [OF demo_tracker(1,2), of demo_schedule] demo_drained demo_tracker(3)
  by (simp add: demo_tracker_def begin_tracking_def new_book_tracker_def queue_in_def demo_message_def message_update_id_def has_update_id_def)

theorem saved_diffs_are_not_checked_witness:
  "dict_get (ot_order_books (run_actions [TrackBook ''SOL-USDC''] (begin_tracking ''SOL-USDC'' demo_order_book
     ((new_book_tracker [])\<lparr>ot_saved := (\<lambda>_. [demo_message DIFF_MSG 7 [(97, 5)] []])\<rparr>)))) ''SOL-USDC''
   = Some (apply_diff_message (demo_message DIFF_MSG 7 [(97, 5)] []) demo_order_book)"
  using saved_diffs_are_not_checked [of "[demo_message DIFF_MSG 7 [(97, 5)] []]"
      "(new_book_tracker [])\<lparr>ot_saved := (\<lambda>_. [demo_message DIFF_MSG 7 [(97, 5)] []])\<rparr>" "''SOL-USDC''" demo_order_book]
  by (simp add: demo_message_def)

theorem failed_unsubscription_freezes_book_witness:
  "\<exists>t2 ok. remove_pair_unsubscribed ''SOL-USDC'' None (fst (remove_pair_begin ''SOL-USDC'' demo_tracker)) = (t2, ok)
    \<and> dict_get (ot_order_books (run_actions demo_schedule t2)) ''SOL-USDC'' = Some demo_order_book"
proof -
  let ?t1 = "fst (remove_pair_begin ''SOL-USDC'' demo_tracker)"
  have "remove_pair_begin ''SOL-USDC'' demo_tracker = (?t1, True)" "remove_pair_unsubscribed ''SOL-USDC'' None ?t1 = (?t1, False)"
    using demo_tracker(2) by (simp_all add: remove_pair_begin_def remove_pair_unsubscribed_def dict_has_def)
  from failed_unsubscription_freezes_book [OF this, of demo_schedule] show ?thesis
    using demo_tracker(2) by (auto simp: remove_pair_unsubscribed_def)
qed

end
