(* ===== verification/Paper_Trade.thy ===== *)
theory Paper_Trade
  imports Order_Book Budget_Checker "HOL-Library.Char_ord" "HOL-Library.List_Lexorder"
begin

text \<open>
  \<open>connector/exchange/paper_trade/paper_trade_exchange.pyx\<close>: an exchange that fills orders against the
  composite books of a real one, with \<open>core/cpp/LimitOrder.cpp\<close> and the loop of \<open>core/clock.pyx\<close> that ticks it.

  The open limit orders of a side are an \<open>unordered_map\<close> from pairs to sets; the model iterates over it in the
  order of the dictionary, where the code leaves the order open. An order is the value that an iterator points
  to. The random part of an order id is an argument. Events are logged in the order they are triggered; the
  event of a created order is triggered by a task of its own 10 ms later and is logged when that task is
  made. Listeners do not call the exchange back while it processes orders. The target market's pair
  conversions are the identity and its split is \<open>split_hb_trading_pair\<close>, the defaults of connectors.
\<close>

section \<open>Rounding\<close>

function log10_up :: "decimal \<Rightarrow> nat" where
  "log10_up x = (if x \<ge> 10 then Suc (log10_up (x / 10)) else 0)"
  by pat_completeness auto
termination
proof (relation "measure (\<lambda>x. nat \<lfloor>x\<rfloor>)", goal_cases)
  case (2 x)
  then have "x / 10 < of_int \<lfloor>x\<rfloor>" using floor_correct [of x] by linarith
  then have "\<lfloor>x / 10\<rfloor> < \<lfloor>x\<rfloor>" by (simp add: floor_less_iff)
  moreover have "10 \<le> \<lfloor>x\<rfloor>" using 2 by (simp add: le_floor_iff)
  ultimately show ?case by simp
qed simp

function log10_down :: "decimal \<Rightarrow> nat" where
  "log10_down x = (if 0 < x \<and> x < 1 then Suc (log10_down (x * 10)) else 0)"
  by pat_completeness auto
termination
proof (relation "measure (\<lambda>x. nat \<lfloor>1 / x\<rfloor>)", goal_cases)
  case (2 x)
  define y where "y = 1 / x"
  have y: "1 < y" "1 / (x * 10) = y / 10" using 2 by (simp_all add: y_def)
  have one: "1 \<le> \<lfloor>y\<rfloor>" using y(1) by (simp add: le_floor_iff)
  then have "(of_int 1 :: rat) \<le> of_int \<lfloor>y\<rfloor>" by (simp only: of_int_le_iff)
  then have "y / 10 < of_int \<lfloor>y\<rfloor>" using floor_correct [of y] unfolding of_int_add of_int_1 by linarith
  then have "\<lfloor>y / 10\<rfloor> < \<lfloor>y\<rfloor>" by (simp add: floor_less_iff)
  then have "nat \<lfloor>1 / (x * 10)\<rfloor> < nat \<lfloor>1 / x\<rfloor>" using one unfolding y(2) y_def [symmetric] by linarith
  then show ?case by (simp only: in_measure)
qed simp

declare log10_up.simps [simp del] log10_down.simps [simp del]

definition floor_log10 :: "decimal \<Rightarrow> int" where
  "floor_log10 x = int (log10_up x) - int (log10_down x)"

definition ceil_log10 :: "decimal \<Rightarrow> int" where
  "ceil_log10 x = (if x = 10 powi floor_log10 x then floor_log10 x else floor_log10 x + 1)"

text \<open>\<open>'%.7g' % x\<close> for seven digits.\<close>

definition round_digits :: "nat \<Rightarrow> decimal \<Rightarrow> decimal" where
  "round_digits n x =
     (if x = 0 then 0
      else let q = 10 powi (floor_log10 \<bar>x\<bar> - (int n - 1)) in of_int (round_half_even (x / q)) * q)"

record quantization_params =
  qp_price_precision :: int
  qp_price_decimals :: int
  qp_order_size_precision :: int
  qp_order_size_decimals :: int

definition params_quantum :: "int \<Rightarrow> int \<Rightarrow> decimal \<Rightarrow> decimal" where
  "params_quantum precision decimals x =
     (let precision_quantum = (if x > 0 then 10 powi (ceil_log10 x - precision) else 0)
      in max precision_quantum (10 powi (- decimals)))"

definition paper_price_quantum :: "(string, quantization_params) dict \<Rightarrow> string \<Rightarrow> decimal \<Rightarrow> decimal" where
  "paper_price_quantum params pair price =
     (case dict_get params pair of
        Some q \<Rightarrow> params_quantum (qp_price_precision q) (qp_price_decimals q) price
      | None \<Rightarrow> 10 powi (- 10))"

definition paper_size_quantum :: "(string, quantization_params) dict \<Rightarrow> string \<Rightarrow> decimal \<Rightarrow> decimal" where
  "paper_size_quantum params pair order_size =
     (case dict_get params pair of
        Some q \<Rightarrow> params_quantum (qp_order_size_precision q) (qp_order_size_decimals q) order_size
      | None \<Rightarrow> 10 powi (- 7))"

definition paper_quantize_price :: "(string, quantization_params) dict \<Rightarrow> string \<Rightarrow> decimal \<Rightarrow> decimal py_result" where
  "paper_quantize_price params pair price =
     (let p = round_digits 7 price in quantize_step (paper_price_quantum params pair p) p)"

text \<open>The value of the float \<open>1e-7\<close>, just below the decimal.\<close>

definition float_1e_7 :: decimal where
  "float_1e_7 = 944473296573929 / 9444732965739290427392"

definition paper_quantize_amount :: "(string, quantization_params) dict \<Rightarrow> string \<Rightarrow> decimal \<Rightarrow> decimal py_result" where
  "paper_quantize_amount params pair amount =
     (let a = of_int (dec_trunc (amount * 10 ^ 7)) / 10 ^ 7;
          a = (if a \<le> float_1e_7 then 0 else a)
      in quantize_step (paper_size_quantum params pair a) a)"

section \<open>State\<close>

record limit_order =
  lo_client_order_id :: string
  lo_trading_pair :: string
  lo_is_buy :: bool
  lo_base_currency :: string
  lo_quote_currency :: string
  lo_price :: decimal
  lo_quantity :: decimal
  lo_creation_timestamp :: int

definition limit_order_less :: "limit_order \<Rightarrow> limit_order \<Rightarrow> bool" where
  "limit_order_less a b =
     (if lo_price a = lo_price b then lo_client_order_id a < lo_client_order_id b else lo_price a < lo_price b)"

fun insert_limit_order :: "limit_order \<Rightarrow> limit_order list \<Rightarrow> limit_order list" where
  "insert_limit_order lo [] = [lo]"
| "insert_limit_order lo (x # xs) =
     (if limit_order_less lo x then lo # x # xs
      else if limit_order_less x lo then x # insert_limit_order lo xs
      else x # xs)"

type_synonym limit_orders = "(string, limit_order list) dict"

record queued_order =
  qo_create_timestamp :: decimal
  qo_order_id :: string
  qo_is_buy :: bool
  qo_trading_pair :: string
  qo_amount :: decimal

record paper_pair =
  pr_trading_pair :: string
  pr_base_asset :: string
  pr_quote_asset :: string

text \<open>A completed order's amounts are of the base and of the quote asset.\<close>

datatype paper_event =
    PaperCreated string bool order_type string decimal decimal
  | PaperFilled decimal string string trade_type order_type decimal decimal trade_fee
  | PaperCompleted string bool string string decimal decimal order_type
  | PaperCancelled string
  | PaperFailed string order_type

record paper_exchange =
  pp_balances :: "(string, decimal) dict"
  pp_initialized :: bool
  pp_trading_pairs :: "(string, paper_pair) dict"
  pp_queued_orders :: "queued_order list"
  pp_bid_limit_orders :: limit_orders
  pp_ask_limit_orders :: limit_orders
  pp_params :: "(string, quantization_params) dict"
  pp_books :: "(string, composite_book) dict"
  pp_tracker_ready :: bool
  pp_fee_schema :: trade_fee_schema
  pp_now :: decimal
  pp_events :: "paper_event list"

definition new_paper_exchange :: "trade_fee_schema \<Rightarrow> paper_exchange" where
  "new_paper_exchange sch =
     \<lparr>pp_balances = [], pp_initialized = False, pp_trading_pairs = [], pp_queued_orders = [], pp_bid_limit_orders = [],
      pp_ask_limit_orders = [], pp_params = [], pp_books = [], pp_tracker_ready = False, pp_fee_schema = sch,
      pp_now = 0, pp_events = []\<rparr>"

definition paper_event_triggered :: "paper_event \<Rightarrow> paper_exchange \<Rightarrow> paper_exchange" where
  "paper_event_triggered ev st = st\<lparr>pp_events := pp_events st @ [ev]\<rparr>"

definition side_limit_orders :: "bool \<Rightarrow> paper_exchange \<Rightarrow> limit_orders" where
  "side_limit_orders is_buy st = (if is_buy then pp_bid_limit_orders st else pp_ask_limit_orders st)"

definition set_side_limit_orders :: "bool \<Rightarrow> limit_orders \<Rightarrow> paper_exchange \<Rightarrow> paper_exchange" where
  "set_side_limit_orders is_buy os st =
     (if is_buy then st\<lparr>pp_bid_limit_orders := os\<rparr> else st\<lparr>pp_ask_limit_orders := os\<rparr>)"

definition pair_limit_orders :: "bool \<Rightarrow> string \<Rightarrow> paper_exchange \<Rightarrow> limit_order list" where
  "pair_limit_orders is_buy pair st = get_or (side_limit_orders is_buy st) pair []"

text \<open>The bids of a pair come highest first, the asks lowest first.\<close>

definition paper_limit_orders :: "paper_exchange \<Rightarrow> limit_order list" where
  "paper_limit_orders st =
     concat (map (\<lambda>(_, os). rev os) (pp_bid_limit_orders st)) @ concat (map snd (pp_ask_limit_orders st))"

section \<open>Balances\<close>

definition paper_set_balance :: "string \<Rightarrow> decimal \<Rightarrow> paper_exchange \<Rightarrow> paper_exchange" where
  "paper_set_balance currency amount st = st\<lparr>pp_balances := dict_set (pp_balances st) (map upper_char currency) amount\<rparr>"

definition paper_get_balance :: "paper_exchange \<Rightarrow> string \<Rightarrow> decimal" where
  "paper_get_balance st currency = get_or (pp_balances st) (map upper_char currency) 0"

definition on_hold_balance :: "paper_exchange \<Rightarrow> string \<Rightarrow> decimal" where
  "on_hold_balance st currency =
     sum_list (map (\<lambda>lo. if lo_is_buy lo then (if lo_quote_currency lo = currency then lo_quantity lo * lo_price lo else 0)
                         else (if lo_base_currency lo = currency then lo_quantity lo else 0)) (paper_limit_orders st))"

definition available_balances :: "paper_exchange \<Rightarrow> (string, decimal) dict" where
  "available_balances st = map (\<lambda>(currency, b). (currency, b - on_hold_balance st currency)) (pp_balances st)"

definition paper_available_balance :: "paper_exchange \<Rightarrow> string \<Rightarrow> decimal" where
  "paper_available_balance st currency = get_or (available_balances st) (map upper_char currency) 0"

section \<open>Prices\<close>

definition set_book :: "string \<Rightarrow> composite_book \<Rightarrow> paper_exchange \<Rightarrow> paper_exchange" where
  "set_book pair c st = st\<lparr>pp_books := dict_set (pp_books st) pair c\<rparr>"

text \<open>
  An empty book gives NaN; one that has entries of which the recorded fills leave nothing raises
  \<open>StopIteration\<close>, which the handler of \<open>EnvironmentError\<close> lets pass.
\<close>

definition paper_get_price :: "string \<Rightarrow> bool \<Rightarrow> paper_exchange \<Rightarrow> pdecimal py_result \<times> paper_exchange" where
  "paper_get_price pair is_buy st =
     (if \<not> dict_has (pp_trading_pairs st) pair then (Inl ValueError, st)
      else case dict_get (pp_books st) pair of
        None \<Rightarrow> (Inl KeyError, st)
      | Some c \<Rightarrow>
          if length (if is_buy then ob_ask_book (co_book c) else ob_bid_book (co_book c)) < 1 then (Inr NaN, st)
          else case composite_get_price c is_buy of
                 (None, c1) \<Rightarrow> (Inl StopIteration, set_book pair c1 st)
               | (Some p, c1) \<Rightarrow> (ebind (paper_quantize_price (pp_params st) pair p) (\<lambda>q. Inr (Fin q)), set_book pair c1 st))"

definition paper_get_fee :: "paper_exchange \<Rightarrow> order_type \<Rightarrow> trade_type \<Rightarrow> bool option \<Rightarrow> trade_fee" where
  "paper_get_fee st ot side is_maker =
     build_trade_fee (pp_fee_schema st)
       (case is_maker of Some m \<Rightarrow> m | None \<Rightarrow> ot \<in> set [LIMIT, LIMIT_MAKER]) side None"

text \<open>
  What a candidate reads of the exchange. The price serves a fee in a third token, whose amount the
  exchange does not use: NaN is any value. What that query does to the recorded fills is left out. The
  collateral tokens and the rules are read by perpetual candidates and by sizing only.
\<close>

definition paper_view :: "paper_exchange \<Rightarrow> exchange_view" where
  "paper_view st =
     \<lparr>ex_get_price = (\<lambda>pair. ebind (fst (paper_get_price pair True st)) (\<lambda>p. Inr (case p of NaN \<Rightarrow> 0 | Fin x \<Rightarrow> x))),
      ex_get_balance = paper_get_balance st, ex_get_available_balance = paper_available_balance st,
      ex_get_buy_collateral_token = (\<lambda>_. Inl ExternalError), ex_get_sell_collateral_token = (\<lambda>_. Inl ExternalError),
      ex_fee_schema = pp_fee_schema st, ex_rules = []\<rparr>"

section \<open>Placing orders\<close>

definition paper_order_id :: "bool \<Rightarrow> string \<Rightarrow> string \<Rightarrow> string" where
  "paper_order_id is_buy pair vals = (if is_buy then ''buy'' else ''sell'') @ ''://'' @ pair @ ''/'' @ vals"

definition add_limit_order :: "limit_order \<Rightarrow> paper_exchange \<Rightarrow> paper_exchange" where
  "add_limit_order lo st =
     (let is_buy = lo_is_buy lo; pair = lo_trading_pair lo in
      set_side_limit_orders is_buy
        (dict_set (side_limit_orders is_buy st) pair (insert_limit_order lo (pair_limit_orders is_buy pair st))) st)"

text \<open>The amount and the price of an order as the exchange takes them.\<close>

definition paper_quantized_order :: "string \<Rightarrow> decimal \<Rightarrow> order_type \<Rightarrow> decimal \<Rightarrow> paper_exchange \<Rightarrow> (decimal \<times> decimal) py_result" where
  "paper_quantized_order pair amount ot price st =
     ebind (if ot = LIMIT then paper_quantize_price (pp_params st) pair price else Inr 0) (\<lambda>quantized_price.
     ebind (paper_quantize_amount (pp_params st) pair amount) (\<lambda>quantized_amount. Inr (quantized_amount, quantized_price)))"

text \<open>\<open>c_buy\<close> and \<open>c_sell\<close>. An order that is neither a market nor a limit order is announced and kept nowhere.\<close>

definition paper_submit :: "bool \<Rightarrow> string \<Rightarrow> decimal \<Rightarrow> order_type \<Rightarrow> decimal \<Rightarrow> string \<Rightarrow> paper_exchange \<Rightarrow> paper_exchange outcome" where
  "paper_submit is_buy pair amount ot price vals st =
     (case dict_get (pp_trading_pairs st) pair of
        None \<Rightarrow> (st, Some ValueError)
      | Some tp \<Rightarrow>
          (case paper_quantized_order pair amount ot price st of
             Inl e \<Rightarrow> (st, Some e)
           | Inr (qa, qp) \<Rightarrow>
               (let oid = paper_order_id is_buy pair vals;
                    st1 = (if ot = MARKET
                           then st\<lparr>pp_queued_orders := pp_queued_orders st
                                   @ [\<lparr>qo_create_timestamp = pp_now st, qo_order_id = oid, qo_is_buy = is_buy,
                                       qo_trading_pair = pair, qo_amount = qa\<rparr>]\<rparr>
                           else if ot = LIMIT
                           then add_limit_order
                                  \<lparr>lo_client_order_id = oid, lo_trading_pair = pair, lo_is_buy = is_buy,
                                   lo_base_currency = pr_base_asset tp, lo_quote_currency = pr_quote_asset tp,
                                   lo_price = qp, lo_quantity = qa, lo_creation_timestamp = dec_trunc (pp_now st * 10 ^ 6)\<rparr> st
                           else st)
                in (paper_event_triggered (PaperCreated oid is_buy ot pair qa qp) st1, None))))"

definition paper_buy :: "string \<Rightarrow> decimal \<Rightarrow> order_type \<Rightarrow> decimal \<Rightarrow> string \<Rightarrow> paper_exchange \<Rightarrow> paper_exchange outcome" where
  "paper_buy = paper_submit True"

definition paper_sell :: "string \<Rightarrow> decimal \<Rightarrow> order_type \<Rightarrow> decimal \<Rightarrow> string \<Rightarrow> paper_exchange \<Rightarrow> paper_exchange outcome" where
  "paper_sell = paper_submit False"

section \<open>Settlement\<close>

definition paper_candidate :: "bool \<Rightarrow> bool \<Rightarrow> string \<Rightarrow> decimal \<Rightarrow> decimal \<Rightarrow> order_candidate" where
  "paper_candidate is_maker is_buy pair amount price =
     new_order_candidate pair is_maker (if is_maker then LIMIT else MARKET) (if is_buy then BUY else SELL) amount price True Spot"

text \<open>What the order takes and what it returns, in the assets of its side.\<close>

definition paper_amounts :: "paper_exchange \<Rightarrow> order_candidate \<Rightarrow> (decimal \<times> decimal) py_result" where
  "paper_amounts st c =
     ebind (populate_collateral_entries (paper_view st) c) (\<lambda>c1.
     case (oc_order_collateral c1, oc_potential_returns c1) of
       (Some paid, Some acquired) \<Rightarrow> Inr (ta_amount paid, ta_amount acquired)
     | _ \<Rightarrow> Inl AttributeError)"

definition paper_affords :: "bool \<Rightarrow> string \<Rightarrow> string \<Rightarrow> decimal \<Rightarrow> paper_exchange \<Rightarrow> bool" where
  "paper_affords is_buy base quote paid st = (\<not> paid > paper_get_balance st (if is_buy then quote else base))"

definition settle_balances :: "bool \<Rightarrow> string \<Rightarrow> string \<Rightarrow> decimal \<Rightarrow> decimal \<Rightarrow> paper_exchange \<Rightarrow> paper_exchange" where
  "settle_balances is_buy base quote paid acquired st =
     (let quote_balance = paper_get_balance st quote; base_balance = paper_get_balance st base in
      if is_buy
      then paper_set_balance base (base_balance + acquired) (paper_set_balance quote (quote_balance - paid) st)
      else paper_set_balance base (base_balance - paid) (paper_set_balance quote (quote_balance + acquired) st))"

text \<open>The exchange listens to its own fills: those of market orders are recorded in the book.\<close>

definition market_order_filled :: "paper_event \<Rightarrow> paper_exchange \<Rightarrow> paper_exchange" where
  "market_order_filled ev st =
     (case ev of
        PaperFilled ts oid pair side ot price amount fee \<Rightarrow>
          (case dict_get (pp_books st) pair of
             Some c \<Rightarrow> if ot \<noteq> MARKET then st
                        else set_book pair (record_filled_order side price amount (dec_trunc ts) c) st
           | None \<Rightarrow> st)
      | _ \<Rightarrow> st)"

definition paper_fill_triggered :: "paper_event \<Rightarrow> paper_exchange \<Rightarrow> paper_exchange" where
  "paper_fill_triggered ev st = market_order_filled ev (paper_event_triggered ev st)"

section \<open>Market orders\<close>

text \<open>Whether the simulated fill stops before it has seen all rows.\<close>

fun fill_stops :: "book_entry list \<Rightarrow> decimal \<Rightarrow> bool" where
  "fill_stops [] amount_left = False"
| "fill_stops (e # es) amount_left = (if be_amount e < amount_left then fill_stops es (amount_left - be_amount e) else True)"

definition composite_entries :: "bool \<Rightarrow> composite_book \<Rightarrow> book_entry list \<times> composite_book" where
  "composite_entries is_buy c = (if is_buy then composite_ask_entries c else composite_bid_entries c)"

text \<open>\<open>simulate_buy\<close> and \<open>simulate_sell\<close> over the rows of the composite book.\<close>

definition composite_simulate :: "bool \<Rightarrow> composite_book \<Rightarrow> decimal \<Rightarrow> book_entry list \<times> composite_book" where
  "composite_simulate is_buy c amount =
     (case composite_entries is_buy c of
        (rows, c1) \<Rightarrow> (simulate_fill rows amount, if fill_stops rows amount then c else c1))"

definition rows_value :: "book_entry list \<Rightarrow> decimal" where
  "rows_value rows = fold (\<lambda>e v. v + be_price e * be_amount e) rows 0"

text \<open>\<open>c_execute_buy\<close> and \<open>c_execute_sell\<close>; the fee of the events is that of a purchase in both.\<close>

definition execute_market_order :: "bool \<Rightarrow> string \<Rightarrow> string \<Rightarrow> decimal \<Rightarrow> paper_exchange \<Rightarrow> paper_exchange outcome" where
  "execute_market_order is_buy oid pair amount st =
     (case (dict_get (pp_trading_pairs st) pair, dict_get (pp_books st) pair) of
        (Some tp, Some c) \<Rightarrow>
          (case composite_simulate is_buy c amount of
             (entries, c1) \<Rightarrow>
               (let st1 = set_book pair c1 st; base = pr_base_asset tp; quote = pr_quote_asset tp in
                case ebind (dec_div (rows_value entries) amount) (\<lambda>avg_price.
                       paper_amounts st1 (paper_candidate False is_buy pair amount avg_price)) of
                  Inl e \<Rightarrow> (st1, Some e)
                | Inr (paid, acquired) \<Rightarrow>
                    if \<not> paper_affords is_buy base quote paid st1
                    then (paper_event_triggered (PaperFailed oid MARKET) st1, None)
                    else
                      (let st2 = settle_balances is_buy base quote paid acquired st1;
                           fee = build_trade_fee (pp_fee_schema st) False BUY None;
                           fills = map (\<lambda>e. PaperFilled (pp_now st) oid pair (if is_buy then BUY else SELL) MARKET (be_price e) (be_amount e) fee) entries
                       in (paper_event_triggered
                             (PaperCompleted oid is_buy base quote (if is_buy then acquired else paid) (if is_buy then paid else acquired) MARKET)
                             (fold paper_fill_triggered fills st2), None))))
      | _ \<Rightarrow> (st, Some KeyError))"

definition trade_execution_delay :: decimal where
  "trade_execution_delay = 5"

fun run_queued_orders :: "queued_order list \<Rightarrow> paper_exchange \<Rightarrow> paper_exchange" where
  "run_queued_orders [] st = st\<lparr>pp_queued_orders := []\<rparr>"
| "run_queued_orders (q # qs) st =
     (if qo_create_timestamp q \<le> pp_now st - trade_execution_delay
      then run_queued_orders qs
             (fst (execute_market_order (qo_is_buy q) (qo_order_id q) (qo_trading_pair q) (qo_amount q) (st\<lparr>pp_queued_orders := qs\<rparr>)))
      else st\<lparr>pp_queued_orders := q # qs\<rparr>)"

definition process_market_orders :: "paper_exchange \<Rightarrow> paper_exchange" where
  "process_market_orders st = run_queued_orders (pp_queued_orders st) st"

section \<open>Limit orders\<close>

definition delete_limit_order :: "bool \<Rightarrow> string \<Rightarrow> limit_order \<Rightarrow> paper_exchange \<Rightarrow> paper_exchange" where
  "delete_limit_order is_buy pair lo st =
     (let os = filter (\<lambda>x. limit_order_less x lo \<or> limit_order_less lo x) (pair_limit_orders is_buy pair st) in
      set_side_limit_orders is_buy
        (if os = [] then dict_del (side_limit_orders is_buy st) pair else dict_set (side_limit_orders is_buy st) pair os) st)"

text \<open>\<open>c_process_limit_bid_order\<close> and \<open>c_process_limit_ask_order\<close>; what they raise is logged and the order stays.\<close>

definition process_limit_order :: "bool \<Rightarrow> string \<Rightarrow> limit_order \<Rightarrow> paper_exchange \<Rightarrow> paper_exchange" where
  "process_limit_order is_buy pair lo st =
     (let oid = lo_client_order_id lo; base = lo_base_currency lo; quote = lo_quote_currency lo in
      case paper_amounts st (paper_candidate True is_buy (lo_trading_pair lo) (lo_quantity lo) (lo_price lo)) of
        Inl e \<Rightarrow> st
      | Inr (paid, acquired) \<Rightarrow>
          if \<not> paper_affords is_buy base quote paid st
          then paper_event_triggered (PaperCancelled oid) (delete_limit_order is_buy pair lo st)
          else
            (let st1 = settle_balances is_buy base quote paid acquired st;
                 side = (if is_buy then BUY else SELL);
                 fee = build_trade_fee (pp_fee_schema st) True side None;
                 st2 = paper_fill_triggered (PaperFilled (pp_now st) oid (lo_trading_pair lo) side LIMIT (lo_price lo) (lo_quantity lo) fee) st1;
                 st3 = paper_event_triggered
                         (PaperCompleted oid is_buy base quote (if is_buy then acquired else paid) (if is_buy then paid else acquired) LIMIT) st2
             in delete_limit_order is_buy pair lo st3))"

definition crossed_orders :: "bool \<Rightarrow> decimal \<Rightarrow> limit_order list \<Rightarrow> limit_order list" where
  "crossed_orders is_buy opposite os =
     (if is_buy then takeWhile (\<lambda>lo. \<not> opposite > lo_price lo) (rev os) else takeWhile (\<lambda>lo. \<not> opposite < lo_price lo) os)"

text \<open>A comparison with NaN raises.\<close>

definition process_crossed_pair :: "bool \<Rightarrow> string \<Rightarrow> paper_exchange \<Rightarrow> paper_exchange outcome" where
  "process_crossed_pair is_buy pair st =
     (case paper_get_price pair is_buy st of
        (Inl e, st1) \<Rightarrow> (st1, Some e)
      | (Inr NaN, st1) \<Rightarrow> (st1, if pair_limit_orders is_buy pair st1 = [] then None else Some InvalidOperation)
      | (Inr (Fin opposite), st1) \<Rightarrow>
          (fold (process_limit_order is_buy pair) (crossed_orders is_buy opposite (pair_limit_orders is_buy pair st1)) st1, None))"

text \<open>Erasing the last order of a pair moves the iterator on to the next pair, and the loop moves it once more.\<close>

fun crossed_pairs_loop :: "bool \<Rightarrow> string list \<Rightarrow> paper_exchange \<Rightarrow> paper_exchange outcome" where
  "crossed_pairs_loop is_buy [] st = (st, None)"
| "crossed_pairs_loop is_buy (pair # pairs) st =
     obind (process_crossed_pair is_buy pair st) (\<lambda>st1.
       if dict_has (side_limit_orders is_buy st1) pair then crossed_pairs_loop is_buy pairs st1
       else case pairs of [] \<Rightarrow> (st1, None) | _ # rest \<Rightarrow> crossed_pairs_loop is_buy rest st1)"

definition process_crossed_limit_orders :: "paper_exchange \<Rightarrow> paper_exchange outcome" where
  "process_crossed_limit_orders st =
     obind (crossed_pairs_loop True (dict_keys (pp_bid_limit_orders st)) st) (\<lambda>st1.
       crossed_pairs_loop False (dict_keys (pp_ask_limit_orders st1)) st1)"

definition traded_through :: "bool \<Rightarrow> decimal \<Rightarrow> limit_order list \<Rightarrow> limit_order list" where
  "traded_through is_buy trade_price os =
     (if is_buy then takeWhile (\<lambda>lo. \<not> lo_price lo \<le> trade_price) (rev os) else takeWhile (\<lambda>lo. \<not> lo_price lo \<ge> trade_price) os)"

definition match_trade_to_limit_orders :: "trade_event \<Rightarrow> paper_exchange \<Rightarrow> paper_exchange" where
  "match_trade_to_limit_orders t st =
     (let is_maker_buy = (bt_type t = SELL); pair = bt_trading_pair t in
      fold (process_limit_order is_maker_buy pair)
        (traded_through is_maker_buy (bt_price t) (pair_limit_orders is_maker_buy pair st)) st)"

section \<open>Cancelling\<close>

definition cancel_limit_order :: "bool \<Rightarrow> string \<Rightarrow> limit_order \<Rightarrow> paper_exchange \<Rightarrow> paper_exchange" where
  "cancel_limit_order is_buy pair lo st =
     paper_event_triggered (PaperCancelled (lo_client_order_id lo)) (delete_limit_order is_buy pair lo st)"

text \<open>\<open>cid\<close> is None when all are cancelled. The result has the ids, each with success.\<close>

definition cancel_from_orders_map :: "bool \<Rightarrow> string \<Rightarrow> string option \<Rightarrow> paper_exchange \<Rightarrow> (string \<times> bool) list \<times> paper_exchange" where
  "cancel_from_orders_map is_buy pair cid st =
     (let os = filter (\<lambda>lo. case cid of None \<Rightarrow> True | Some c \<Rightarrow> lo_client_order_id lo = c) (pair_limit_orders is_buy pair st)
      in (map (\<lambda>lo. (lo_client_order_id lo, True)) os, fold (cancel_limit_order is_buy pair) os st))"

fun before_scheme :: "string \<Rightarrow> string" where
  "before_scheme [] = []"
| "before_scheme (c # cs) = (if take 3 (c # cs) = ''://'' then [] else c # before_scheme cs)"

definition paper_cancel :: "string \<Rightarrow> string \<Rightarrow> paper_exchange \<Rightarrow> paper_exchange" where
  "paper_cancel pair cid st =
     (let is_maker_buy = (map upper_char (before_scheme cid) = ''BUY'')
      in snd (cancel_from_orders_map is_maker_buy pair (Some cid) st))"

definition cancel_all_of_side :: "bool \<Rightarrow> (string \<times> bool) list \<times> paper_exchange \<Rightarrow> (string \<times> bool) list \<times> paper_exchange" where
  "cancel_all_of_side is_buy rst =
     fold (\<lambda>pair (results, st). case cancel_from_orders_map is_buy pair None st of (rs, st1) \<Rightarrow> (results @ rs, st1))
       (dict_keys (pp_trading_pairs (snd rst))) rst"

definition paper_cancel_all :: "paper_exchange \<Rightarrow> (string \<times> bool) list \<times> paper_exchange" where
  "paper_cancel_all st = cancel_all_of_side False (cancel_all_of_side True ([], st))"

section \<open>Start and clock\<close>

definition init_paper_trade_market :: "paper_exchange \<Rightarrow> paper_exchange outcome" where
  "init_paper_trade_market st =
     ofold (\<lambda>pair s. case split_hb_trading_pair pair of
                       Inl e \<Rightarrow> (s, Some e)
                     | Inr (base, quote) \<Rightarrow>
                         (s\<lparr>pp_trading_pairs := dict_set (pp_trading_pairs s) pair
                              \<lparr>pr_trading_pair = pair, pr_base_asset = base, pr_quote_asset = quote\<rparr>\<rparr>, None))
       (dict_keys (pp_books st)) st"

text \<open>\<open>ready\<close>, which starts the market when it is first asked with a ready tracker: the state it leaves and the answer.\<close>

definition paper_ready :: "paper_exchange \<Rightarrow> paper_exchange \<times> bool py_result" where
  "paper_ready st =
     (if \<not> pp_tracker_ready st then (st, Inr False)
      else if length (pp_books st) > 0
      then (if pp_initialized st then (st, Inr True)
            else case init_paper_trade_market st of
                   (st1, Some e) \<Rightarrow> (st1, Inl e) | (st1, None) \<Rightarrow> (st1\<lparr>pp_initialized := True\<rparr>, Inr True))
      else (st, Inr False))"

definition paper_tick :: "decimal \<Rightarrow> paper_exchange \<Rightarrow> paper_exchange outcome" where
  "paper_tick timestamp st = process_crossed_limit_orders (process_market_orders (st\<lparr>pp_now := timestamp\<rparr>))"

text \<open>
  A round of the clock over its iterators; the result says whether the clock goes on. Errors are logged,
  but \<open>StopIteration\<close> ends the run.
\<close>

fun clock_round :: "('s \<Rightarrow> 's outcome) list \<Rightarrow> 's \<Rightarrow> 's \<times> bool" where
  "clock_round [] s = (s, True)"
| "clock_round (tick # ticks) s =
     (case tick s of
        (s1, Some StopIteration) \<Rightarrow> (s1, False)
      | (s1, _) \<Rightarrow> clock_round ticks s1)"

end
