(* ===== verification/Paper_Safety.thy ===== *)
theory Paper_Safety
  imports Paper_Trade Order_Book_Safety "HOL-Library.Multiset"
begin

text \<open>
  What the paper exchange keeps: balances that never go below zero and that the events account for.
\<close>

section \<open>Rounding\<close>

lemma round_half_even_nonneg: "0 \<le> x \<Longrightarrow> 0 \<le> round_half_even x"
  by (auto simp: round_half_even_def Let_def)

lemma round_digits_nonneg: "0 \<le> x \<Longrightarrow> 0 \<le> round_digits n x"
  by (auto simp: round_digits_def Let_def intro!: mult_nonneg_nonneg round_half_even_nonneg divide_nonneg_nonneg)

lemma quanta_positive [simp]: "0 < paper_price_quantum params pair x" "0 < paper_size_quantum params pair x"
  by (simp_all add: paper_price_quantum_def paper_size_quantum_def params_quantum_def Let_def less_max_iff_disj split: option.split)

lemma quantized_price_nonneg: "paper_quantize_price params pair p = Inr q \<Longrightarrow> 0 \<le> p \<Longrightarrow> 0 \<le> q"
  unfolding paper_quantize_price_def Let_def
  by (rule quantize_step_bounds [of "paper_price_quantum params pair (round_digits 7 p)" "round_digits 7 p"]) (simp_all add: round_digits_nonneg)

lemma quantized_amount_nonneg: "paper_quantize_amount params pair a = Inr q \<Longrightarrow> 0 \<le> a \<Longrightarrow> 0 \<le> q"
  unfolding paper_quantize_amount_def Let_def
  by (rule quantize_step_bounds [of "paper_size_quantum params pair (if of_int (dec_trunc (a * 10 ^ 7)) / 10 ^ 7 \<le> float_1e_7 then 0 else of_int (dec_trunc (a * 10 ^ 7)) / 10 ^ 7)"
        "if of_int (dec_trunc (a * 10 ^ 7)) / 10 ^ 7 \<le> float_1e_7 then 0 else of_int (dec_trunc (a * 10 ^ 7)) / 10 ^ 7"])
    (simp_all add: dec_trunc_nonneg split: if_splits)

section \<open>Amounts of an order\<close>

text \<open>The part of the returns that the fee leaves, if it is taken from the returns at all.\<close>

definition kept_share :: "trade_fee_schema \<Rightarrow> bool \<Rightarrow> bool \<Rightarrow> decimal" where
  "kept_share sch is_maker is_buy =
     (if is_buy \<and> (\<not> buy_percent_fee_deducted_from_returns sch \<or> percent_fee_token sch \<noteq> None) then 1
      else 1 - (if is_maker then maker_percent_fee_decimal sch else taker_percent_fee_decimal sch))"

lemma fee_kind_candidate:
  "fee_kind (build_trade_fee sch mk (if is_buy then BUY else SELL) None)
     = (if is_buy \<and> (\<not> buy_percent_fee_deducted_from_returns sch \<or> percent_fee_token sch \<noteq> None) then AddedToCost else DeductedFromReturns)"
  by (auto simp: build_trade_fee_def new_spot_fee_def Let_def)

lemma spot_entries:
  assumes "oc_kind c = Spot"
  shows "populate_order_collateral_entry ex c = Inr c1 \<Longrightarrow>
      \<exists>t. c1 = c\<lparr>oc_order_collateral := Some \<lparr>ta_token = t, ta_amount = (if oc_order_side c = BUY then oc_amount c * oc_price c else oc_amount c)\<rparr>\<rparr>"
    and "populate_percent_fee_collateral_entry ex fee c = Inr c1 \<Longrightarrow> \<exists>f. c1 = c\<lparr>oc_percent_fee_collateral := f\<rparr>"
    and "populate_potential_returns_entry ex c = Inr c1 \<Longrightarrow>
      \<exists>t. c1 = c\<lparr>oc_potential_returns := Some \<lparr>ta_token = t, ta_amount = (if oc_order_side c = BUY then oc_amount c else oc_amount c * oc_price c)\<rparr>\<rparr>"
    and "populate_percent_fee_value ex fee c = Inr c1 \<Longrightarrow> \<exists>f. c1 = c\<lparr>oc_percent_fee_value := f\<rparr>"
proof -
  show "populate_order_collateral_entry ex c = Inr c1 \<Longrightarrow>
      \<exists>t. c1 = c\<lparr>oc_order_collateral := Some \<lparr>ta_token = t, ta_amount = (if oc_order_side c = BUY then oc_amount c * oc_price c else oc_amount c)\<rparr>\<rparr>"
    using assms by (auto simp: populate_order_collateral_entry_def get_order_collateral_token_def get_order_collateral_amount_def
        get_size_token_and_order_size_def get_size_collateral_price_def ebind_eq_Inr_iff split: if_splits)
  have keep: "\<exists>f. d = d\<lparr>oc_percent_fee_collateral := f\<rparr>" "\<exists>f. d = d\<lparr>oc_percent_fee_value := f\<rparr>" for d :: order_candidate
    by (rule exI [of _ "oc_percent_fee_collateral d"], simp, rule exI [of _ "oc_percent_fee_value d"], simp)
  show "populate_percent_fee_collateral_entry ex fee c = Inr c1 \<Longrightarrow> \<exists>f. c1 = c\<lparr>oc_percent_fee_collateral := f\<rparr>"
    using assms by (auto simp: populate_percent_fee_collateral_entry_def ebind_eq_Inr_iff split: option.split_asm intro: keep(1))
  show "populate_potential_returns_entry ex c = Inr c1 \<Longrightarrow>
      \<exists>t. c1 = c\<lparr>oc_potential_returns := Some \<lparr>ta_token = t, ta_amount = (if oc_order_side c = BUY then oc_amount c else oc_amount c * oc_price c)\<rparr>\<rparr>"
    using assms by (auto simp: populate_potential_returns_entry_def get_returns_token_def get_returns_amount_def ebind_eq_Inr_iff split: if_splits)
  show "populate_percent_fee_value ex fee c = Inr c1 \<Longrightarrow> \<exists>f. c1 = c\<lparr>oc_percent_fee_value := f\<rparr>"
  proof -
    assume "populate_percent_fee_value ex fee c = Inr c1"
    then have "ebind (get_fee_impact_on_order_cost ex fee c) (\<lambda>i. case i of Some ta \<Rightarrow> Inr (c\<lparr>oc_percent_fee_value := Some ta\<rparr>)
        | None \<Rightarrow> ebind (get_fee_impact_on_order_returns fee c) (\<lambda>r. case r of None \<Rightarrow> Inr c
            | Some x \<Rightarrow> (case oc_potential_returns c of None \<Rightarrow> Inl AttributeError
                | Some pr \<Rightarrow> Inr (c\<lparr>oc_percent_fee_value := Some \<lparr>ta_token = ta_token pr, ta_amount = x\<rparr>\<rparr>)))) = Inr c1"
      using assms by (simp add: populate_percent_fee_value_def Let_def)
    then consider ta where "c1 = c\<lparr>oc_percent_fee_value := Some ta\<rparr>" | "c1 = c"
      by (auto simp: ebind_def split: sum.split_asm option.split_asm)
    then show ?thesis using keep(2) by cases blast+
  qed
qed

lemma spot_collateral_and_returns:
  assumes "populate_collateral_entries ex c = Inr c'" and "oc_kind c = Spot" and "candidate_fee ex c = Inr fee"
  shows "\<exists>t u. oc_order_collateral c' = Some \<lparr>ta_token = t, ta_amount = (if oc_order_side c = BUY then oc_amount c * oc_price c else oc_amount c)\<rparr>
    \<and> oc_potential_returns c' = Some \<lparr>ta_token = u, ta_amount = (if oc_order_side c = BUY then oc_amount c else oc_amount c * oc_price c)
        * (if fee_kind fee = AddedToCost then 1 else 1 - fee_percent fee)\<rparr>"
proof -
  obtain c1 fee1 c2 c3 c4 where
      s: "populate_order_collateral_entry ex c = Inr c1" "candidate_fee ex c1 = Inr fee1"
      "populate_percent_fee_collateral_entry ex fee1 c1 = Inr c2"
      "populate_potential_returns_entry ex (populate_fixed_fee_collateral_entries fee1 c2) = Inr c3"
      "populate_percent_fee_value ex fee1 c3 = Inr c4" "apply_fee_impact_on_potential_returns fee1 c4 = Inr c'"
    using assms(1) unfolding populate_collateral_entries_def ebind_eq_Inr_iff by blast
  obtain t where c1: "c1 = c\<lparr>oc_order_collateral := Some \<lparr>ta_token = t, ta_amount = (if oc_order_side c = BUY then oc_amount c * oc_price c else oc_amount c)\<rparr>\<rparr>"
    using spot_entries(1) [OF assms(2) s(1)] by blast
  have fee: "fee1 = fee" using s(2) assms(3) by (auto simp: candidate_fee_def c1 assms(2) ebind_eq_Inr_iff)
  obtain f where c2: "c2 = c1\<lparr>oc_percent_fee_collateral := f\<rparr>" using spot_entries(2) [OF _ s(3)] assms(2) by (auto simp: c1)
  obtain u where c3: "c3 = c2\<lparr>oc_fixed_fee_collaterals := Some (flat_fees fee),
      oc_potential_returns := Some \<lparr>ta_token = u, ta_amount = (if oc_order_side c = BUY then oc_amount c else oc_amount c * oc_price c)\<rparr>\<rparr>"
    using spot_entries(3) [OF _ s(4) [unfolded populate_fixed_fee_collateral_entries_def]] assms(2) by (simp add: c1 c2 fee cong: if_cong) blast
  obtain g where c4: "c4 = c3\<lparr>oc_percent_fee_value := g\<rparr>" using spot_entries(4) [OF _ s(5)] assms(2) by (auto simp: c1 c2 c3)
  show ?thesis using s(6)
    by (auto simp: c1 c2 c3 c4 fee apply_fee_impact_on_potential_returns_def get_fee_impact_on_order_returns_def algebra_simps split: fee_class.splits)
qed

lemma paper_amounts_are:
  assumes "paper_amounts st (paper_candidate mk is_buy pair a p) = Inr (paid, got)"
  shows "paid = (if is_buy then a * p else a)" and "got = (if is_buy then a else a * p) * kept_share (pp_fee_schema st) mk is_buy"
proof -
  let ?c = "paper_candidate mk is_buy pair a p"
  obtain c1 where pop: "populate_collateral_entries (paper_view st) ?c = Inr c1"
    and r: "(case (oc_order_collateral c1, oc_potential_returns c1) of (Some x, Some y) \<Rightarrow> Inr (ta_amount x, ta_amount y) | _ \<Rightarrow> Inl AttributeError)
      = Inr (paid, got)"
    using assms unfolding paper_amounts_def ebind_eq_Inr_iff by blast
  then obtain x y where e: "oc_order_collateral c1 = Some x" "oc_potential_returns c1 = Some y" "paid = ta_amount x" "got = ta_amount y"
    by (cases "oc_order_collateral c1"; cases "oc_potential_returns c1") simp_all
  have c: "oc_kind ?c = Spot" "oc_order_side ?c = (if is_buy then BUY else SELL)" "oc_amount ?c = a" "oc_price ?c = p" "oc_is_maker ?c = mk"
    "oc_trading_pair ?c = pair"
    by (simp_all add: paper_candidate_def new_order_candidate_def)
  obtain v where "split_hb_trading_pair pair = Inr v"
    using pop unfolding populate_collateral_entries_def populate_order_collateral_entry_def get_order_collateral_token_def ebind_eq_Inr_iff c
    by (simp add: ebind_eq_Inr_iff) blast
  then have "candidate_fee (paper_view st) ?c = Inr (build_trade_fee (pp_fee_schema st) mk (if is_buy then BUY else SELL) None)"
    by (auto simp: candidate_fee_def c paper_view_def)
  from spot_collateral_and_returns [OF pop c(1) this]
  show "paid = (if is_buy then a * p else a)" and "got = (if is_buy then a else a * p) * kept_share (pp_fee_schema st) mk is_buy"
    using e by (auto simp: c fee_kind_candidate kept_share_def split: if_splits)
qed

section \<open>What the operations leave alone\<close>

lemma paper_frames [simp]:
  "pp_events (paper_event_triggered ev st) = pp_events st @ [ev]"
  "pp_balances (paper_event_triggered ev st) = pp_balances st"
  "pp_books (paper_event_triggered ev st) = pp_books st"
  "pp_trading_pairs (paper_event_triggered ev st) = pp_trading_pairs st"
  "pp_queued_orders (paper_event_triggered ev st) = pp_queued_orders st"
  "pp_bid_limit_orders (paper_event_triggered ev st) = pp_bid_limit_orders st"
  "pp_ask_limit_orders (paper_event_triggered ev st) = pp_ask_limit_orders st"
  "pp_fee_schema (paper_event_triggered ev st) = pp_fee_schema st"
  "pp_events (set_book pair c st) = pp_events st"
  "pp_balances (set_book pair c st) = pp_balances st"
  "pp_books (set_book pair c st) = dict_set (pp_books st) pair c"
  "pp_trading_pairs (set_book pair c st) = pp_trading_pairs st"
  "pp_queued_orders (set_book pair c st) = pp_queued_orders st"
  "pp_bid_limit_orders (set_book pair c st) = pp_bid_limit_orders st"
  "pp_ask_limit_orders (set_book pair c st) = pp_ask_limit_orders st"
  "pp_fee_schema (set_book pair c st) = pp_fee_schema st"
  by (simp_all add: paper_event_triggered_def set_book_def)

lemma settle_frames [simp]:
  "pp_events (settle_balances b base quote paid got st) = pp_events st"
  "pp_books (settle_balances b base quote paid got st) = pp_books st"
  "pp_trading_pairs (settle_balances b base quote paid got st) = pp_trading_pairs st"
  "pp_queued_orders (settle_balances b base quote paid got st) = pp_queued_orders st"
  "pp_bid_limit_orders (settle_balances b base quote paid got st) = pp_bid_limit_orders st"
  "pp_ask_limit_orders (settle_balances b base quote paid got st) = pp_ask_limit_orders st"
  "pp_fee_schema (settle_balances b base quote paid got st) = pp_fee_schema st"
  by (simp_all add: settle_balances_def paper_set_balance_def Let_def)

lemma side_orders_frames [simp]:
  "pp_events (set_side_limit_orders b os st) = pp_events st"
  "pp_balances (set_side_limit_orders b os st) = pp_balances st"
  "pp_books (set_side_limit_orders b os st) = pp_books st"
  "pp_trading_pairs (set_side_limit_orders b os st) = pp_trading_pairs st"
  "pp_queued_orders (set_side_limit_orders b os st) = pp_queued_orders st"
  "pp_fee_schema (set_side_limit_orders b os st) = pp_fee_schema st"
  "side_limit_orders b' (set_side_limit_orders b os st) = (if b' = b then os else side_limit_orders b' st)"
  "side_limit_orders b' (paper_event_triggered ev st) = side_limit_orders b' st"
  "side_limit_orders b' (settle_balances b base quote paid got st) = side_limit_orders b' st"
  "side_limit_orders b' (set_book pair c st) = side_limit_orders b' st"
  by (auto simp: set_side_limit_orders_def side_limit_orders_def)

lemma pair_orders_frames [simp]:
  "pair_limit_orders b' pair (paper_event_triggered ev st) = pair_limit_orders b' pair st"
  "pair_limit_orders b' pair (settle_balances b base quote paid got st) = pair_limit_orders b' pair st"
  "pair_limit_orders b' pair (set_book p c st) = pair_limit_orders b' pair st"
  by (simp_all add: pair_limit_orders_def)

lemma delete_frames [simp]:
  "pp_events (delete_limit_order b pair lo st) = pp_events st"
  "pp_balances (delete_limit_order b pair lo st) = pp_balances st"
  "pp_books (delete_limit_order b pair lo st) = pp_books st"
  "pp_trading_pairs (delete_limit_order b pair lo st) = pp_trading_pairs st"
  "pp_queued_orders (delete_limit_order b pair lo st) = pp_queued_orders st"
  "pp_fee_schema (delete_limit_order b pair lo st) = pp_fee_schema st"
  by (simp_all add: delete_limit_order_def Let_def)

lemma pair_orders_deleted [simp]:
  "pair_limit_orders b' pair' (delete_limit_order b pair lo st)
     = (if b' = b \<and> pair' = pair then filter (\<lambda>x. limit_order_less x lo \<or> limit_order_less lo x) (pair_limit_orders b pair st)
        else pair_limit_orders b' pair' st)"
  by (auto simp: delete_limit_order_def pair_limit_orders_def Let_def)

lemma filled_frames [simp]:
  "pp_events (paper_fill_triggered ev st) = pp_events st @ [ev]"
  "pp_balances (paper_fill_triggered ev st) = pp_balances st"
  "pp_trading_pairs (paper_fill_triggered ev st) = pp_trading_pairs st"
  "pp_queued_orders (paper_fill_triggered ev st) = pp_queued_orders st"
  "pp_fee_schema (paper_fill_triggered ev st) = pp_fee_schema st"
  "side_limit_orders b (paper_fill_triggered ev st) = side_limit_orders b st"
  by (auto simp: paper_fill_triggered_def market_order_filled_def split: paper_event.split option.split)

lemma filled_pair_orders [simp]: "pair_limit_orders b pair (paper_fill_triggered ev st) = pair_limit_orders b pair st"
  by (simp add: pair_limit_orders_def)

text \<open>The real book under a composite book is not changed by what is done with it.\<close>

definition real_book :: "paper_exchange \<Rightarrow> string \<Rightarrow> order_book option" where
  "real_book st pair = map_option co_book (dict_get (pp_books st) pair)"

lemma co_book_kept [simp]:
  "co_book (snd (composite_entries b c)) = co_book c" "co_book (record_filled_order sd p a ts c) = co_book c"
  "co_book (snd (composite_simulate b c a)) = co_book c" "co_book (snd (composite_get_price c b)) = co_book c"
  by (auto simp: composite_entries_def composite_ask_entries_def composite_bid_entries_def record_filled_order_def composite_simulate_def
      composite_get_price_def Let_def split: prod.splits list.splits)

lemma real_book_set [simp]:
  "real_book (set_book pair c st) pair' = (if pair' = pair then Some (co_book c) else real_book st pair')"
  by (simp add: real_book_def)

lemma real_book_frames [simp]:
  "real_book (paper_event_triggered ev st) = real_book st" "real_book (settle_balances b base quote paid got st) = real_book st"
  "real_book (set_side_limit_orders b os st) = real_book st" "real_book (delete_limit_order b pair lo st) = real_book st"
  by (simp_all add: real_book_def fun_eq_iff)

lemma real_book_filled [simp]: "real_book (paper_fill_triggered ev st) = real_book st"
  by (auto simp: paper_fill_triggered_def market_order_filled_def fun_eq_iff split: paper_event.split option.split) (auto simp: real_book_def)

lemma fold_fills [simp]:
  "pp_events (fold paper_fill_triggered evs st) = pp_events st @ evs"
  "pp_balances (fold paper_fill_triggered evs st) = pp_balances st"
  "pp_trading_pairs (fold paper_fill_triggered evs st) = pp_trading_pairs st"
  "pp_queued_orders (fold paper_fill_triggered evs st) = pp_queued_orders st"
  "pp_fee_schema (fold paper_fill_triggered evs st) = pp_fee_schema st"
  "side_limit_orders b (fold paper_fill_triggered evs st) = side_limit_orders b st"
  "pair_limit_orders b pair (fold paper_fill_triggered evs st) = pair_limit_orders b pair st"
  "real_book (fold paper_fill_triggered evs st) = real_book st"
  by (induction evs arbitrary: st) simp_all

section \<open>Balances\<close>

definition assets_differ :: "string \<Rightarrow> string \<Rightarrow> bool" where
  "assets_differ base quote = (map upper_char base \<noteq> map upper_char quote)"

definition book_sane :: "order_book \<Rightarrow> bool" where
  "book_sane b = (\<forall>e \<in> set (ob_bid_book b) \<union> set (ob_ask_book b). 0 \<le> be_price e \<and> 0 \<le> be_amount e)"

definition limit_order_sane :: "limit_order \<Rightarrow> bool" where
  "limit_order_sane lo = (0 \<le> lo_price lo \<and> 0 \<le> lo_quantity lo \<and> assets_differ (lo_base_currency lo) (lo_quote_currency lo))"

definition pair_sane :: "string \<Rightarrow> bool" where
  "pair_sane pair = (\<forall>base quote. split_hb_trading_pair pair = Inr (base, quote) \<longrightarrow> assets_differ base quote)"

definition paper_balance :: "paper_exchange \<Rightarrow> string \<Rightarrow> decimal" where
  "paper_balance st k = get_or (pp_balances st) k 0"

text \<open>Fees are at most the whole; amounts and prices are not negative; no pair has the same asset twice.\<close>

definition paper_sane :: "paper_exchange \<Rightarrow> bool" where
  "paper_sane st =
     (maker_percent_fee_decimal (pp_fee_schema st) \<le> 1 \<and> taker_percent_fee_decimal (pp_fee_schema st) \<le> 1
      \<and> (\<forall>k. 0 \<le> paper_balance st k)
      \<and> (\<forall>q \<in> set (pp_queued_orders st). 0 \<le> qo_amount q)
      \<and> (\<forall>b pair. \<forall>lo \<in> set (pair_limit_orders b pair st). limit_order_sane lo)
      \<and> (\<forall>pair tp. dict_get (pp_trading_pairs st) pair = Some tp \<longrightarrow> assets_differ (pr_base_asset tp) (pr_quote_asset tp))
      \<and> (\<forall>pair bk. real_book st pair = Some bk \<longrightarrow> book_sane bk \<and> pair_sane pair))"

text \<open>What an event adds to the balance of an asset.\<close>

fun event_entry :: "string \<Rightarrow> paper_event \<Rightarrow> decimal" where
  "event_entry k (PaperCompleted oid is_buy base quote ba qa ot) =
     (if map upper_char base = k then (if is_buy then ba else - ba) else 0)
     + (if map upper_char quote = k then (if is_buy then - qa else qa) else 0)"
| "event_entry k _ = 0"

definition ledger :: "paper_event list \<Rightarrow> string \<Rightarrow> decimal" where
  "ledger evs k = sum_list (map (event_entry k) evs)"

lemma ledger_simps [simp]: "ledger [] k = 0" "ledger (ev # evs) k = event_entry k ev + ledger evs k" "ledger (evs @ evs') k = ledger evs k + ledger evs' k"
  by (simp_all add: ledger_def)

definition accounted :: "paper_exchange \<Rightarrow> paper_exchange \<Rightarrow> bool" where
  "accounted st st' = (\<exists>evs. pp_events st' = pp_events st @ evs \<and> (\<forall>k. paper_balance st' k = paper_balance st k + ledger evs k))"

lemma accounted_refl [simp]: "accounted st st"
  by (auto simp: accounted_def intro: exI [of _ "[]"])

lemma accounted_trans [trans]: "accounted a b \<Longrightarrow> accounted b c \<Longrightarrow> accounted a c"
  unfolding accounted_def by (elim exE conjE) (auto intro!: exI [of _ "_ @ _"])

lemma accountedI: "pp_events st' = pp_events st @ evs \<Longrightarrow> (\<And>k. paper_balance st' k = paper_balance st k + ledger evs k) \<Longrightarrow> accounted st st'"
  by (auto simp: accounted_def)

text \<open>A good step keeps the state sane and its balances accounted for.\<close>

definition good_step :: "paper_exchange \<Rightarrow> paper_exchange \<Rightarrow> bool" where
  "good_step st st' = (paper_sane st' \<and> accounted st st')"

lemma good_step_refl: "paper_sane st \<Longrightarrow> good_step st st"
  by (simp add: good_step_def)

lemma good_step_trans: "good_step a b \<Longrightarrow> (paper_sane b \<Longrightarrow> good_step b c) \<Longrightarrow> good_step a c"
  by (auto simp: good_step_def intro: accounted_trans)

lemma good_step_fold:
  "paper_sane st \<Longrightarrow> (\<And>x s. x \<in> set xs \<Longrightarrow> paper_sane s \<Longrightarrow> good_step s (f x s)) \<Longrightarrow> good_step st (fold f xs st)"
proof (induction xs arbitrary: st)
  case (Cons x xs)
  have "good_step st (f x st)" using Cons.prems by auto
  then show ?case using Cons.IH [of "f x st"] Cons.prems by (auto intro: good_step_trans)
qed (simp add: good_step_refl)

lemma good_step_obind:
  "good_step a (fst m) \<Longrightarrow> (\<And>s. paper_sane s \<Longrightarrow> good_step s (fst (f s))) \<Longrightarrow> good_step a (fst (obind m f))"
  by (cases m; cases "snd m") (auto intro: good_step_trans)

lemma paper_balance_frames [simp]:
  "paper_balance (paper_event_triggered ev st) = paper_balance st" "paper_balance (set_book p c st) = paper_balance st"
  "paper_balance (delete_limit_order b pair lo st) = paper_balance st" "paper_balance (paper_fill_triggered ev st) = paper_balance st"
  "paper_balance (fold paper_fill_triggered evs st) = paper_balance st" "paper_balance (set_side_limit_orders b os st) = paper_balance st"
  by (simp_all add: paper_balance_def fun_eq_iff)

lemma paper_get_balance_is: "paper_get_balance st c = paper_balance st (map upper_char c)"
  by (simp add: paper_get_balance_def paper_balance_def)

lemma settled_balance:
  assumes "assets_differ base quote"
  shows "paper_balance (settle_balances b base quote paid got st) k
    = paper_balance st k + event_entry k (PaperCompleted oid b base quote (if b then got else paid) (if b then paid else got) ot)"
  using assms by (auto simp: settle_balances_def paper_set_balance_def paper_get_balance_def paper_balance_def assets_differ_def Let_def)

lemma settled_nonneg:
  assumes "assets_differ base quote" and "\<And>k. 0 \<le> paper_balance st k" and "paper_affords b base quote paid st" and "0 \<le> got"
  shows "0 \<le> paper_balance (settle_balances b base quote paid got st) k"
  using assms(1,2,3,4) assms(2) [of k]
  by (auto simp: settled_balance [OF assms(1), where oid = "[]" and ot = LIMIT] paper_affords_def paper_get_balance_is assets_differ_def split: if_splits)

lemma good_completion:
  assumes "paper_sane st" and "assets_differ base quote" and "paper_affords b base quote paid st" and "0 \<le> got"
    and "\<forall>ev \<in> set fills. \<forall>k. event_entry k ev = 0"
  shows "good_step st (paper_event_triggered (PaperCompleted oid b base quote (if b then got else paid) (if b then paid else got) ot)
      (fold paper_fill_triggered fills (settle_balances b base quote paid got st)))"
proof -
  have "ledger fills k = 0" for k using assms(5) by (induction fills) auto
  moreover have "0 \<le> paper_balance (settle_balances b base quote paid got st) k" for k
    using assms by (intro settled_nonneg) (auto simp: paper_sane_def)
  ultimately show ?thesis using assms(1)
    by (auto simp: good_step_def paper_sane_def settled_balance [OF assms(2), where oid = oid and ot = ot] intro!: accountedI [of _ _ "fills @ [_]"])
qed

lemma good_deletion: "paper_sane st \<Longrightarrow> good_step st (delete_limit_order b pair lo st)"
  by (auto simp: good_step_def paper_sane_def intro!: accountedI [of _ _ "[]"])

lemma good_event: "paper_sane st \<Longrightarrow> (\<And>k. event_entry k ev = 0) \<Longrightarrow> good_step st (paper_event_triggered ev st)"
  by (auto simp: good_step_def paper_sane_def intro!: accountedI [of _ _ "[ev]"])

lemma good_then_event: "good_step st s \<Longrightarrow> (\<And>k. event_entry k ev = 0) \<Longrightarrow> good_step st (paper_event_triggered ev s)"
  by (erule good_step_trans) (rule good_event)

lemma kept_share_nonneg: "paper_sane st \<Longrightarrow> 0 \<le> kept_share (pp_fee_schema st) mk b"
  by (auto simp: kept_share_def paper_sane_def)

lemma good_limit_order:
  assumes "paper_sane st" and "limit_order_sane lo"
  shows "good_step st (process_limit_order b pair lo st)"
proof (cases "paper_amounts st (paper_candidate True b (lo_trading_pair lo) (lo_quantity lo) (lo_price lo))")
  case (Inr r)
  then obtain paid got where r: "paper_amounts st (paper_candidate True b (lo_trading_pair lo) (lo_quantity lo) (lo_price lo)) = Inr (paid, got)"
    by (cases r) auto
  have got: "0 \<le> got"
    using paper_amounts_are(2) [OF r] assms(2) kept_share_nonneg [OF assms(1)] by (auto simp: limit_order_sane_def)
  show ?thesis
  proof (cases "paper_affords b (lo_base_currency lo) (lo_quote_currency lo) paid st")
    case True
    let ?fill = "PaperFilled (pp_now st) (lo_client_order_id lo) (lo_trading_pair lo) (if b then BUY else SELL) LIMIT (lo_price lo) (lo_quantity lo)
      (build_trade_fee (pp_fee_schema st) True (if b then BUY else SELL) None)"
    have "good_step st (paper_event_triggered (PaperCompleted (lo_client_order_id lo) b (lo_base_currency lo) (lo_quote_currency lo)
        (if b then got else paid) (if b then paid else got) LIMIT)
        (fold paper_fill_triggered [?fill] (settle_balances b (lo_base_currency lo) (lo_quote_currency lo) paid got st)))"
      using assms True got by (intro good_completion) (auto simp: limit_order_sane_def)
    from good_step_trans [OF this good_deletion] show ?thesis using True by (simp add: process_limit_order_def r Let_def)
  next
    case False
    have "good_step st (delete_limit_order b pair lo st)" using assms(1) by (rule good_deletion)
    then have "good_step st (paper_event_triggered (PaperCancelled (lo_client_order_id lo)) (delete_limit_order b pair lo st))"
      by (rule good_step_trans) (simp add: good_event)
    then show ?thesis using False by (simp add: process_limit_order_def r Let_def)
  qed
qed (use assms(1) in \<open>simp add: process_limit_order_def good_step_refl\<close>)

lemma composite_walk_sane:
  "\<forall>e \<in> set es. 0 \<le> be_price e \<and> 0 \<le> be_amount e \<Longrightarrow>
    e \<in> set (fst (composite_walk before es ts)) \<Longrightarrow> 0 \<le> be_price e \<and> 0 \<le> be_amount e"
  by (induction before es ts rule: composite_walk.induct) (auto split: if_splits prod.splits)

lemma composite_entries_sane:
  assumes "book_sane (co_book c)" and "e \<in> set (fst (composite_entries b c))"
  shows "0 \<le> be_price e \<and> 0 \<le> be_amount e"
proof (rule composite_walk_sane)
  show "\<forall>e \<in> set (if b then ask_entries (co_book c) else bid_entries (co_book c)). 0 \<le> be_price e \<and> 0 \<le> be_amount e"
    using assms(1) by (auto simp: book_sane_def ask_entries_def bid_entries_def)
  show "e \<in> set (fst (composite_walk (if b then (<) else (>)) (if b then ask_entries (co_book c) else bid_entries (co_book c))
      (if b then ask_entries (co_traded c) else bid_entries (co_traded c))))"
    using assms(2) by (auto simp: composite_entries_def composite_ask_entries_def composite_bid_entries_def composite_ask_rows_def
        composite_bid_rows_def split: prod.splits if_splits)
qed

lemma composite_simulate_rows: "fst (composite_simulate b c a) = simulate_fill (fst (composite_entries b c)) a"
  by (simp add: composite_simulate_def case_prod_beta)

lemma simulate_fill_sane:
  "\<forall>e \<in> set es. 0 \<le> be_price e \<and> 0 \<le> be_amount e \<Longrightarrow> 0 \<le> a \<Longrightarrow> e \<in> set (simulate_fill es a) \<Longrightarrow> 0 \<le> be_price e \<and> 0 \<le> be_amount e"
  by (induction es a rule: simulate_fill.induct) (auto split: if_splits)

lemma rows_value_is: "rows_value rows = sum_list (map (\<lambda>e. be_price e * be_amount e) rows)"
proof -
  have "fold (\<lambda>e v. v + be_price e * be_amount e) rows v = v + sum_list (map (\<lambda>e. be_price e * be_amount e) rows)" for v
    by (induction rows arbitrary: v) simp_all
  then show ?thesis by (simp add: rows_value_def)
qed

lemma rows_value_nonneg: "(\<And>e. e \<in> set rows \<Longrightarrow> 0 \<le> be_price e \<and> 0 \<le> be_amount e) \<Longrightarrow> 0 \<le> rows_value rows"
  unfolding rows_value_is by (intro sum_list_nonneg) auto

lemma sane_book: "paper_sane st \<Longrightarrow> dict_get (pp_books st) pair = Some c \<Longrightarrow> book_sane (co_book c) \<and> pair_sane pair"
  unfolding paper_sane_def real_book_def by (metis (no_types, lifting) option.simps(9))

lemma good_set_book: "paper_sane st \<Longrightarrow> dict_get (pp_books st) pair = Some c \<Longrightarrow> co_book c1 = co_book c \<Longrightarrow> good_step st (set_book pair c1 st)"
  using sane_book [of st pair c] by (auto simp: good_step_def paper_sane_def intro!: accountedI [of _ _ "[]"])

text \<open>The cases of a market order: it raises, is refused, or is settled at the average price.\<close>

lemma execute_market_order_cases:
  assumes "execute_market_order b oid pair amount st = (st', err)"
  obtains (missing) "st' = st" "err = Some KeyError"
  | (raised) tp c e where "dict_get (pp_trading_pairs st) pair = Some tp" "dict_get (pp_books st) pair = Some c"
      "st' = set_book pair (snd (composite_simulate b c amount)) st" "err = Some e"
  | (refused) tp c paid got where "dict_get (pp_trading_pairs st) pair = Some tp" "dict_get (pp_books st) pair = Some c"
      "paper_amounts (set_book pair (snd (composite_simulate b c amount)) st)
        (paper_candidate False b pair amount (rows_value (fst (composite_simulate b c amount)) / amount)) = Inr (paid, got)"
      "\<not> paper_affords b (pr_base_asset tp) (pr_quote_asset tp) paid (set_book pair (snd (composite_simulate b c amount)) st)"
      "st' = paper_event_triggered (PaperFailed oid MARKET) (set_book pair (snd (composite_simulate b c amount)) st)" "err = None"
  | (settled) tp c paid got where "dict_get (pp_trading_pairs st) pair = Some tp" "dict_get (pp_books st) pair = Some c" "amount \<noteq> 0"
      "paper_amounts (set_book pair (snd (composite_simulate b c amount)) st)
        (paper_candidate False b pair amount (rows_value (fst (composite_simulate b c amount)) / amount)) = Inr (paid, got)"
      "paper_affords b (pr_base_asset tp) (pr_quote_asset tp) paid (set_book pair (snd (composite_simulate b c amount)) st)"
      "st' = paper_event_triggered
         (PaperCompleted oid b (pr_base_asset tp) (pr_quote_asset tp) (if b then got else paid) (if b then paid else got) MARKET)
         (fold paper_fill_triggered
           (map (\<lambda>e. PaperFilled (pp_now st) oid pair (if b then BUY else SELL) MARKET (be_price e) (be_amount e)
               (build_trade_fee (pp_fee_schema st) False BUY None)) (fst (composite_simulate b c amount)))
           (settle_balances b (pr_base_asset tp) (pr_quote_asset tp) paid got (set_book pair (snd (composite_simulate b c amount)) st)))"
      "err = None"
proof (cases "dict_get (pp_trading_pairs st) pair")
  case None
  then show thesis using assms missing by (simp add: execute_market_order_def)
next
  case (Some tp)
  note tp = this
  show thesis
  proof (cases "dict_get (pp_books st) pair")
    case None
    then show thesis using assms missing tp by (simp add: execute_market_order_def)
  next
    case (Some c)
    obtain rows c1 where sim: "composite_simulate b c amount = (rows, c1)" by (cases "composite_simulate b c amount")
    let ?st1 = "set_book pair c1 st"
    show thesis
    proof (cases "ebind (dec_div (rows_value rows) amount) (\<lambda>avg_price. paper_amounts ?st1 (paper_candidate False b pair amount avg_price))")
      case (Inl e)
      then show thesis using assms by (intro raised [OF tp Some, of e]) (simp_all add: execute_market_order_def tp Some sim Let_def)
    next
      case (Inr r)
      then obtain paid got where r: "amount \<noteq> 0" "paper_amounts ?st1 (paper_candidate False b pair amount (rows_value rows / amount)) = Inr (paid, got)"
        "r = (paid, got)"
        by (cases r) (auto simp: ebind_eq_Inr_iff dec_div_eq_Inr_iff)
      show thesis
      proof (cases "paper_affords b (pr_base_asset tp) (pr_quote_asset tp) paid ?st1")
        case True
        then show thesis using assms settled [OF tp Some r(1)] Inr r by (simp add: execute_market_order_def tp Some sim Let_def)
      next
        case False
        then show thesis using assms refused [OF tp Some] Inr r by (simp add: execute_market_order_def tp Some sim Let_def)
      qed
    qed
  qed
qed

lemma good_market_order:
  assumes "paper_sane st" and "0 \<le> amount"
  shows "good_step st (fst (execute_market_order b oid pair amount st))"
proof (cases "execute_market_order b oid pair amount st")
  case (Pair st' err)
  show ?thesis unfolding Pair fst_conv using Pair
  proof (cases rule: execute_market_order_cases)
    case (settled tp c paid got)
    let ?st1 = "set_book pair (snd (composite_simulate b c amount)) st"
    have g: "good_step st ?st1" using assms(1) settled(2) by (rule good_set_book) simp
    then have sane: "paper_sane ?st1" by (simp add: good_step_def)
    have "book_sane (co_book c)" using sane_book [OF assms(1) settled(2)] by simp
    then have "\<forall>e \<in> set (fst (composite_entries b c)). 0 \<le> be_price e \<and> 0 \<le> be_amount e" using composite_entries_sane by blast
    then have "0 \<le> rows_value (simulate_fill (fst (composite_entries b c)) amount)"
      using assms(2) by (intro rows_value_nonneg simulate_fill_sane)
    then have "0 \<le> rows_value (fst (composite_simulate b c amount))" by (simp add: composite_simulate_rows)
    then have "0 \<le> got" using paper_amounts_are(2) [OF settled(4)] kept_share_nonneg [OF sane] assms(2) by auto
    moreover have "assets_differ (pr_base_asset tp) (pr_quote_asset tp)" using assms(1) settled(1) by (auto simp: paper_sane_def)
    ultimately have "good_step ?st1 st'"
      unfolding settled(6) using settled(5) sane by (intro good_completion) auto
    with g show "good_step st st'" by (rule good_step_trans)
  qed (use assms(1) in \<open>auto simp: good_step_refl good_set_book intro: good_step_trans [OF good_set_book good_event]\<close>)
qed

lemma field_frames [simp]:
  "paper_balance (st\<lparr>pp_queued_orders := qs\<rparr>) = paper_balance st" "paper_balance (st\<lparr>pp_now := t\<rparr>) = paper_balance st"
  "paper_balance (st\<lparr>pp_trading_pairs := ps\<rparr>) = paper_balance st" "paper_balance (st\<lparr>pp_books := bs\<rparr>) = paper_balance st"
  "pair_limit_orders b p (st\<lparr>pp_queued_orders := qs\<rparr>) = pair_limit_orders b p st" "pair_limit_orders b p (st\<lparr>pp_now := t\<rparr>) = pair_limit_orders b p st"
  "pair_limit_orders b p (st\<lparr>pp_trading_pairs := ps\<rparr>) = pair_limit_orders b p st" "pair_limit_orders b p (st\<lparr>pp_books := bs\<rparr>) = pair_limit_orders b p st"
  "real_book (st\<lparr>pp_queued_orders := qs\<rparr>) = real_book st" "real_book (st\<lparr>pp_now := t\<rparr>) = real_book st"
  "real_book (st\<lparr>pp_trading_pairs := ps\<rparr>) = real_book st" "real_book (st\<lparr>pp_initialized := i\<rparr>) = real_book st"
  "paper_balance (st\<lparr>pp_initialized := i\<rparr>) = paper_balance st" "pair_limit_orders b p (st\<lparr>pp_initialized := i\<rparr>) = pair_limit_orders b p st"
  by (simp_all add: paper_balance_def pair_limit_orders_def side_limit_orders_def real_book_def fun_eq_iff)

lemma good_queue_change:
  "paper_sane st \<Longrightarrow> \<forall>q \<in> set qs. 0 \<le> qo_amount q \<Longrightarrow> good_step st (st\<lparr>pp_queued_orders := qs\<rparr>)"
  by (auto simp: good_step_def paper_sane_def intro!: accountedI [of _ _ "[]"])

lemma good_run_queue: "paper_sane st \<Longrightarrow> \<forall>q \<in> set qs. 0 \<le> qo_amount q \<Longrightarrow> good_step st (run_queued_orders qs st)"
proof (induction qs arbitrary: st)
  case (Cons q qs)
  show ?case
  proof (cases "qo_create_timestamp q \<le> pp_now st - trade_execution_delay")
    case True
    let ?s = "st\<lparr>pp_queued_orders := qs\<rparr>"
    let ?s' = "fst (execute_market_order (qo_is_buy q) (qo_order_id q) (qo_trading_pair q) (qo_amount q) ?s)"
    have "good_step st ?s" using Cons.prems by (intro good_queue_change) auto
    moreover have "paper_sane ?s \<Longrightarrow> good_step ?s ?s'" using Cons.prems by (intro good_market_order) auto
    ultimately have "good_step st ?s'" by (rule good_step_trans)
    then have "good_step st (run_queued_orders qs ?s')" by (rule good_step_trans) (use Cons in auto)
    then show ?thesis using True by simp
  qed (use Cons.prems in \<open>simp add: good_queue_change\<close>)
qed (simp add: good_queue_change)

lemma good_limit_orders:
  assumes "paper_sane st" and "set os \<subseteq> set (pair_limit_orders b pair st)"
  shows "good_step st (fold (process_limit_order b pair) os st)"
proof (rule good_step_fold [OF assms(1)])
  fix lo s assume "lo \<in> set os" "paper_sane s"
  moreover from this have "limit_order_sane lo" using assms by (auto simp: paper_sane_def)
  ultimately show "good_step s (process_limit_order b pair lo s)" by (intro good_limit_order)
qed

lemma crossed_subset: "set (crossed_orders b p os) \<subseteq> set os" "set (traded_through b p os) \<subseteq> set os"
  by (auto simp: crossed_orders_def traded_through_def dest: set_takeWhileD)

lemma good_price_query: "paper_sane st \<Longrightarrow> good_step st (snd (paper_get_price pair b st))"
proof -
  assume sane: "paper_sane st"
  have "good_step st (set_book pair c1 st)" if "dict_get (pp_books st) pair = Some c" "composite_get_price c b = (p, c1)" for c p c1
    using good_set_book [OF sane that(1)] co_book_kept(4) [of c b] that(2) by simp
  then show ?thesis using sane by (auto simp: paper_get_price_def good_step_refl split: option.split prod.split)
qed

lemma good_crossed_pair: "paper_sane st \<Longrightarrow> good_step st (fst (process_crossed_pair b pair st))"
proof -
  assume sane: "paper_sane st"
  obtain r st1 where r: "paper_get_price pair b st = (r, st1)" by (cases "paper_get_price pair b st")
  then have g: "good_step st st1" using good_price_query [OF sane, of pair b] by simp
  moreover have "paper_sane st1 \<Longrightarrow> good_step st1 (fold (process_limit_order b pair) (crossed_orders b x (pair_limit_orders b pair st1)) st1)" for x
    using crossed_subset(1) by (intro good_limit_orders)
  ultimately show ?thesis by (auto simp: process_crossed_pair_def r intro: good_step_trans split: sum.split pdecimal.split)
qed

lemma good_crossed_loop: "paper_sane st \<Longrightarrow> good_step st (fst (crossed_pairs_loop b pairs st))"
proof (induction b pairs st rule: crossed_pairs_loop.induct)
  case (2 b pair pairs st)
  obtain st1 e where r: "process_crossed_pair b pair st = (st1, e)" by (cases "process_crossed_pair b pair st")
  then have g: "good_step st st1" using good_crossed_pair [OF "2.prems", of b pair] by simp
  then have sane: "paper_sane st1" by (simp add: good_step_def)
  show ?case
  proof (cases e)
    case None
    have "good_step st1 (fst (if dict_has (side_limit_orders b st1) pair then crossed_pairs_loop b pairs st1
        else case pairs of [] \<Rightarrow> (st1, None) | _ # rest \<Rightarrow> crossed_pairs_loop b rest st1))"
      using "2.IH" sane by (auto simp: good_step_refl split: list.split)
    from good_step_trans [OF g this] show ?thesis by (simp add: r None)
  qed (use g in \<open>simp add: r\<close>)
qed (simp add: good_step_refl)

lemma good_now: "paper_sane st \<Longrightarrow> good_step st (st\<lparr>pp_now := t\<rparr>)"
  by (auto simp: good_step_def paper_sane_def intro!: accountedI [of _ _ "[]"])

lemma good_tick:
  assumes "paper_sane st"
  shows "good_step st (fst (paper_tick t st))"
proof -
  let ?a = "st\<lparr>pp_now := t\<rparr>"
  have a: "good_step st ?a" using assms by (rule good_now)
  have b: "good_step ?a (process_market_orders ?a)" if "paper_sane ?a"
    unfolding process_market_orders_def using that by (intro good_run_queue) (auto simp: paper_sane_def)
  have c: "good_step s (fst (process_crossed_limit_orders s))" if "paper_sane s" for s
    unfolding process_crossed_limit_orders_def using that by (intro good_step_obind good_crossed_loop)
  show ?thesis unfolding paper_tick_def by (rule good_step_trans [OF good_step_trans [OF a b] c])
qed

lemma good_match: "paper_sane st \<Longrightarrow> good_step st (match_trade_to_limit_orders t st)"
  unfolding match_trade_to_limit_orders_def Let_def using crossed_subset(2) by (intro good_limit_orders)

lemma good_cancel_map: "paper_sane st \<Longrightarrow> good_step st (snd (cancel_from_orders_map b pair cid st))"
  unfolding cancel_from_orders_map_def Let_def snd_conv
proof (rule good_step_fold)
  fix lo s assume "paper_sane s"
  then show "good_step s (cancel_limit_order b pair lo s)"
    unfolding cancel_limit_order_def by (intro good_step_trans [OF good_deletion good_event]) simp_all
qed

lemma good_cancel_side: "paper_sane (snd rst) \<Longrightarrow> good_step (snd rst) (snd (cancel_all_of_side b rst))"
proof -
  have "paper_sane s \<Longrightarrow> good_step s (snd (fold (\<lambda>pair (results, st). case cancel_from_orders_map b pair None st of (rs, st1) \<Rightarrow> (results @ rs, st1)) pairs (r, s)))"
    for r s pairs
  proof (induction pairs arbitrary: r s)
    case (Cons pair pairs)
    obtain rs st1 where c: "cancel_from_orders_map b pair None s = (rs, st1)" by (cases "cancel_from_orders_map b pair None s")
    then have "good_step s st1" using good_cancel_map [OF Cons.prems, of b pair None] by simp
    from good_step_trans [OF this Cons.IH [of st1 "r @ rs"]] show ?case by (simp add: c)
  qed (simp add: good_step_refl)
  then show "paper_sane (snd rst) \<Longrightarrow> ?thesis" by (cases rst) (simp add: cancel_all_of_side_def)
qed

lemma good_cancel_all: "paper_sane st \<Longrightarrow> good_step st (snd (paper_cancel_all st))"
  unfolding paper_cancel_all_def
  using good_step_trans [OF good_cancel_side [of "([], st)" True] good_cancel_side [of "cancel_all_of_side True ([], st)" False]] by simp

lemma insert_limit_order_set: "set (insert_limit_order lo xs) \<subseteq> insert lo (set xs)"
  by (induction xs) auto

lemma pair_orders_added:
  "pair_limit_orders b p (add_limit_order lo st)
     = (if b = lo_is_buy lo \<and> p = lo_trading_pair lo then insert_limit_order lo (pair_limit_orders b p st) else pair_limit_orders b p st)"
  by (auto simp: add_limit_order_def pair_limit_orders_def Let_def)

lemma added_frames [simp]:
  "pp_events (add_limit_order lo st) = pp_events st" "pp_trading_pairs (add_limit_order lo st) = pp_trading_pairs st"
  "pp_queued_orders (add_limit_order lo st) = pp_queued_orders st" "pp_fee_schema (add_limit_order lo st) = pp_fee_schema st"
  "paper_balance (add_limit_order lo st) = paper_balance st" "real_book (add_limit_order lo st) = real_book st"
  by (simp_all add: add_limit_order_def Let_def)

lemma good_added:
  assumes "paper_sane st" and "limit_order_sane lo"
  shows "good_step st (add_limit_order lo st)"
proof -
  have "limit_order_sane x" if "x \<in> set (pair_limit_orders b p (add_limit_order lo st))" for x b p
    using that insert_limit_order_set [of lo "pair_limit_orders b p st"] assms by (auto simp: pair_orders_added paper_sane_def split: if_splits)
  then show ?thesis using assms(1) by (auto simp: good_step_def paper_sane_def intro!: accountedI [of _ _ "[]"])
qed

lemma good_submit:
  assumes "paper_sane st" and "0 \<le> amount" and "0 \<le> price" and "paper_submit b pair amount ot price vals st = (st', e)"
  shows "good_step st st'"
proof (cases "dict_get (pp_trading_pairs st) pair")
  case None
  then show ?thesis using assms(1,4) by (simp add: paper_submit_def good_step_refl)
next
  case (Some tp)
  show ?thesis
  proof (cases "paper_quantized_order pair amount ot price st")
    case (Inl err)
    then show ?thesis using assms(1,4) Some by (simp add: paper_submit_def good_step_refl)
  next
    case (Inr r)
    obtain qa qp where r: "r = (qa, qp)" by (cases r)
    have q: "0 \<le> qa" "0 \<le> qp"
      using Inr assms(2,3) by (auto simp: r paper_quantized_order_def ebind_eq_Inr_iff dest: quantized_amount_nonneg quantized_price_nonneg split: if_splits)
    have "assets_differ (pr_base_asset tp) (pr_quote_asset tp)" using assms(1) Some by (simp add: paper_sane_def)
    then have "good_step st (add_limit_order \<lparr>lo_client_order_id = oid, lo_trading_pair = pair, lo_is_buy = b, lo_base_currency = pr_base_asset tp,
        lo_quote_currency = pr_quote_asset tp, lo_price = qp, lo_quantity = qa, lo_creation_timestamp = ts\<rparr> st)" for oid ts
      using q assms(1) by (intro good_added) (simp_all add: limit_order_sane_def)
    moreover have "good_step st (st\<lparr>pp_queued_orders := pp_queued_orders st @ [\<lparr>qo_create_timestamp = pp_now st, qo_order_id = oid,
        qo_is_buy = b, qo_trading_pair = pair, qo_amount = qa\<rparr>]\<rparr>)" for oid
      using q assms(1) by (intro good_queue_change) (auto simp: paper_sane_def)
    ultimately show ?thesis using assms(4,1)
      by (auto simp: paper_submit_def Some Inr r Let_def good_step_refl split: if_splits intro: good_then_event)
  qed
qed

lemma good_init:
  assumes "paper_sane st" and "\<forall>pair \<in> set pairs. pair_sane pair"
  shows "good_step st (fst (ofold (\<lambda>pair s. case split_hb_trading_pair pair of
      Inl e \<Rightarrow> (s, Some e)
    | Inr (base, quote) \<Rightarrow> (s\<lparr>pp_trading_pairs := dict_set (pp_trading_pairs s) pair
        \<lparr>pr_trading_pair = pair, pr_base_asset = base, pr_quote_asset = quote\<rparr>\<rparr>, None)) pairs st))"
  using assms
proof (induction pairs arbitrary: st)
  case (Cons pair pairs)
  show ?case
  proof (cases "split_hb_trading_pair pair")
    case (Inr r)
    obtain base quote where r: "r = (base, quote)" by (cases r)
    let ?s = "st\<lparr>pp_trading_pairs := dict_set (pp_trading_pairs st) pair \<lparr>pr_trading_pair = pair, pr_base_asset = base, pr_quote_asset = quote\<rparr>\<rparr>"
    have "assets_differ base quote" using Cons.prems(2) Inr by (simp add: r pair_sane_def)
    then have g: "good_step st ?s" using Cons.prems(1) by (auto simp: good_step_def paper_sane_def intro!: accountedI [of _ _ "[]"])
    then have "paper_sane ?s" by (simp add: good_step_def)
    from good_step_trans [OF g Cons.IH [OF this]] show ?thesis using Cons.prems(2) by (simp add: Inr r)
  qed (use Cons.prems in \<open>simp add: good_step_refl\<close>)
qed (simp add: good_step_refl)

lemma good_ready: "paper_sane st \<Longrightarrow> good_step st (fst (paper_ready st))"
proof -
  assume sane: "paper_sane st"
  obtain st1 e where i: "init_paper_trade_market st = (st1, e)" by (cases "init_paper_trade_market st")
  have "pair_sane pair" if known: "pair \<in> set (dict_keys (pp_books st))" for pair
  proof -
    obtain c where "dict_get (pp_books st) pair = Some c" using known
      unfolding dict_keys_def dict_has_keys [symmetric] dict_has_def by blast
    then show ?thesis using sane_book [OF sane] by blast
  qed
  then have "good_step st st1" using good_init [OF sane, of "dict_keys (pp_books st)"] i by (simp add: init_paper_trade_market_def)
  moreover have "paper_sane st1 \<Longrightarrow> good_step st1 (st1\<lparr>pp_initialized := True\<rparr>)"
    by (auto simp: good_step_def paper_sane_def intro!: accountedI [of _ _ "[]"])
  ultimately show ?thesis using sane by (auto simp: paper_ready_def i good_step_refl split: option.split intro: good_step_trans)
qed

section \<open>Runs\<close>

fun created_id :: "paper_event \<Rightarrow> string list" where
  "created_id (PaperCreated oid b ot pair qa qp) = [oid]"
| "created_id _ = []"

text \<open>What happens to an exchange after its balances are set: orders with ids not used yet, and what the tracker does.\<close>

inductive paper_step :: "paper_exchange \<Rightarrow> paper_exchange \<Rightarrow> bool" where
  placed: "0 \<le> amount \<Longrightarrow> 0 \<le> price \<Longrightarrow> paper_order_id b pair vals \<notin> set (concat (map created_id (pp_events st))) \<Longrightarrow>
    paper_submit b pair amount ot price vals st = (st', e) \<Longrightarrow> paper_step st st'"
| cancelled: "paper_step st (paper_cancel pair cid st)"
| all_cancelled: "paper_step st (snd (paper_cancel_all st))"
| ticked: "paper_step st (fst (paper_tick t st))"
| traded: "paper_step st (match_trade_to_limit_orders t st)"
| asked: "paper_step st (fst (paper_ready st))"
| tracked: "(\<And>pair c. dict_get books pair = Some c \<Longrightarrow> book_sane (co_book c) \<and> pair_sane pair) \<Longrightarrow>
    paper_step st (st\<lparr>pp_books := books, pp_tracker_ready := r\<rparr>)"

lemma good_tracked:
  assumes "paper_sane st" and "\<And>pair c. dict_get books pair = Some c \<Longrightarrow> book_sane (co_book c) \<and> pair_sane pair"
  shows "good_step st (st\<lparr>pp_books := books, pp_tracker_ready := r\<rparr>)"
proof -
  have "paper_balance (st\<lparr>pp_books := books, pp_tracker_ready := r\<rparr>) = paper_balance st"
    "pair_limit_orders b p (st\<lparr>pp_books := books, pp_tracker_ready := r\<rparr>) = pair_limit_orders b p st" for b p
    by (simp_all add: paper_balance_def pair_limit_orders_def side_limit_orders_def fun_eq_iff)
  then show ?thesis using assms by (auto simp: good_step_def paper_sane_def real_book_def intro!: accountedI [of _ _ "[]"])
qed

lemma paper_step_good: "paper_step st st' \<Longrightarrow> paper_sane st \<Longrightarrow> good_step st st'"
proof (induction rule: paper_step.induct)
  case (cancelled st pair cid)
  then show ?case by (simp add: paper_cancel_def Let_def good_cancel_map)
qed (simp_all add: good_submit good_cancel_all good_tick good_match good_ready good_tracked)

lemma paper_run_good: "paper_step\<^sup>*\<^sup>* st st' \<Longrightarrow> paper_sane st \<Longrightarrow> good_step st st'"
  by (induction rule: rtranclp_induct) (auto simp: good_step_refl intro: good_step_trans paper_step_good)

text \<open>
  C6: Whatever orders are placed, cancelled, matched and filled on the paper exchange, no balance goes below
  zero, and each is what it was before plus what the completion events since then announce. The exchange
  starts with balances, books and amounts that are not negative, percent fees of at most the whole, and
  pairs of two different assets; the tracker may replace the books at any time, and orders come with ids
  that were not used.
\<close>

theorem paper_balances_accounted:
  assumes "paper_sane st" and "paper_step\<^sup>*\<^sup>* st st'"
  shows "0 \<le> paper_get_balance st' asset
    \<and> (\<exists>evs. pp_events st' = pp_events st @ evs
          \<and> paper_get_balance st' asset = paper_get_balance st asset + ledger evs (map upper_char asset))"
  using paper_run_good [OF assms(2,1)] by (auto simp: paper_get_balance_is good_step_def paper_sane_def accounted_def)

end
