(* ===== verification/Paper_Orders.thy ===== *)
theory Paper_Orders
  imports Paper_Safety
begin

text \<open>
  The orders of the paper exchange: which are filled, that each ends once, and the states in which the
  exchange fails its orders or stops the clock.
\<close>

section \<open>The order of a side\<close>

lemma less_irrefl [simp]: "\<not> limit_order_less a a"
  by (simp add: limit_order_less_def)

lemma less_trans: "limit_order_less a b \<Longrightarrow> limit_order_less b c \<Longrightarrow> limit_order_less a c"
  by (auto simp: limit_order_less_def split: if_splits)

abbreviation by_key :: "limit_order list \<Rightarrow> bool" where
  "by_key \<equiv> sorted_wrt limit_order_less"

lemma by_key_insert: "by_key xs \<Longrightarrow> by_key (insert_limit_order lo xs)"
proof (induction xs)
  case (Cons x xs)
  have "limit_order_less x y" if "limit_order_less x lo" "y \<in> set (insert_limit_order lo xs)" for y
    using that insert_limit_order_set [of lo xs] Cons.prems by auto
  then show ?case using Cons by (auto intro: less_trans)
qed simp

lemma by_key_distinct: "by_key xs \<Longrightarrow> distinct xs"
  by (induction xs) auto

lemma by_key_related: "by_key xs \<Longrightarrow> x \<in> set xs \<Longrightarrow> y \<in> set xs \<Longrightarrow> x \<noteq> y \<Longrightarrow> limit_order_less x y \<or> limit_order_less y x"
  by (induction xs) auto

lemma by_key_prices: "by_key xs \<Longrightarrow> sorted_wrt (\<lambda>a b. lo_price a \<le> lo_price b) xs"
  by (rule sorted_wrt_mono_rel) (auto simp: limit_order_less_def split: if_splits)

lemma takeWhile_filter: "sorted_wrt R xs \<Longrightarrow> (\<And>a b. R a b \<Longrightarrow> P b \<Longrightarrow> P a) \<Longrightarrow> takeWhile P xs = filter P xs"
  by (induction xs) (auto intro!: filter_False [symmetric])

text \<open>
  The orders of a pair that are processed are exactly those that the other side of the book has reached, or
  that a trade went through; the best price comes first.
\<close>

theorem processed_orders_are_reached:
  assumes "by_key os"
  shows "crossed_orders is_buy opposite os = (if is_buy then rev (filter (\<lambda>lo. lo_price lo \<ge> opposite) os) else filter (\<lambda>lo. lo_price lo \<le> opposite) os)"
    and "traded_through is_buy price os = (if is_buy then rev (filter (\<lambda>lo. lo_price lo > price) os) else filter (\<lambda>lo. lo_price lo < price) os)"
proof -
  have up: "sorted_wrt (\<lambda>a b. lo_price a \<le> lo_price b) os" and down: "sorted_wrt (\<lambda>a b. lo_price b \<le> lo_price a) (rev os)"
    using by_key_prices [OF assms] by (simp_all add: sorted_wrt_rev)
  have "takeWhile (\<lambda>lo. \<not> opposite > lo_price lo) (rev os) = filter (\<lambda>lo. \<not> opposite > lo_price lo) (rev os)"
    "takeWhile (\<lambda>lo. \<not> lo_price lo \<le> price) (rev os) = filter (\<lambda>lo. \<not> lo_price lo \<le> price) (rev os)"
    by (rule takeWhile_filter [OF down], simp)+
  moreover have "takeWhile (\<lambda>lo. \<not> opposite < lo_price lo) os = filter (\<lambda>lo. \<not> opposite < lo_price lo) os"
    "takeWhile (\<lambda>lo. \<not> lo_price lo \<ge> price) os = filter (\<lambda>lo. \<not> lo_price lo \<ge> price) os"
    by (rule takeWhile_filter [OF up], simp)+
  ultimately show "crossed_orders is_buy opposite os = (if is_buy then rev (filter (\<lambda>lo. lo_price lo \<ge> opposite) os) else filter (\<lambda>lo. lo_price lo \<le> opposite) os)"
    and "traded_through is_buy price os = (if is_buy then rev (filter (\<lambda>lo. lo_price lo > price) os) else filter (\<lambda>lo. lo_price lo < price) os)"
    by (simp_all add: crossed_orders_def traded_through_def rev_filter not_less not_le)
qed

section \<open>Each order ends once\<close>

fun ended_id :: "paper_event \<Rightarrow> string list" where
  "ended_id (PaperCompleted oid b base quote ba qa ot) = [oid]"
| "ended_id (PaperCancelled oid) = [oid]"
| "ended_id (PaperFailed oid ot) = [oid]"
| "ended_id _ = []"

definition announced_ids :: "paper_exchange \<Rightarrow> string list" where
  "announced_ids st = concat (map created_id (pp_events st))"

definition ended_ids :: "paper_exchange \<Rightarrow> string list" where
  "ended_ids st = concat (map ended_id (pp_events st))"

definition limit_order_ids :: "limit_order list \<Rightarrow> string multiset" where
  "limit_order_ids os = mset (map lo_client_order_id os)"

definition side_ids :: "limit_orders \<Rightarrow> string multiset" where
  "side_ids os = limit_order_ids (concat (map snd os))"

definition open_ids :: "paper_exchange \<Rightarrow> string multiset" where
  "open_ids st = mset (map qo_order_id (pp_queued_orders st)) + side_ids (side_limit_orders True st) + side_ids (side_limit_orders False st)"

lemma limit_order_ids_simps [simp]:
  "limit_order_ids [] = {#}" "limit_order_ids (lo # os) = add_mset (lo_client_order_id lo) (limit_order_ids os)" "limit_order_ids (os @ os') = limit_order_ids os + limit_order_ids os'"
  by (simp_all add: limit_order_ids_def)

lemma side_ids_simps [simp]: "side_ids [] = {#}" "side_ids ((p, os) # ps) = limit_order_ids os + side_ids ps"
  by (simp_all add: side_ids_def)

lemma get_or_Cons: "get_or ((k, v) # d) k' dflt = (if k' = k then v else get_or d k' dflt)"
  by (simp add: get_or_def dict_get_def)

lemma get_or_absent: "k \<notin> set (map fst d) \<Longrightarrow> get_or d k dflt = dflt"
  by (induction d) (auto simp: get_or_Cons)

lemma side_ids_set: "side_ids (dict_set os p l) + limit_order_ids (get_or os p []) = side_ids os + limit_order_ids l"
  by (induction os) (auto simp: dict_set_def get_or_Cons)

lemma side_ids_del: "dict_wf os \<Longrightarrow> side_ids (dict_del os p) + limit_order_ids (get_or os p []) = side_ids os"
proof (induction os)
  case (Cons x os)
  obtain k v where x: "x = (k, v)" by (cases x)
  have wf: "dict_wf os" "k \<notin> set (map fst os)" using Cons.prems by (auto simp: dict_wf_def x)
  have "dict_del os k = os" using wf(2) by (simp add: dict_del_def)
  moreover have "dict_del (x # os) p = (if p = k then dict_del os k else (k, v) # dict_del os p)" by (auto simp: dict_del_def x)
  ultimately show ?case using Cons.IH [OF wf(1)] by (simp add: x get_or_Cons union_ac)
qed (simp add: dict_del_def)

lemma limit_order_ids_filter: "lo \<in> set os \<Longrightarrow> limit_order_ids (filter (\<lambda>x. limit_order_less x lo \<or> limit_order_less lo x) os) + {#lo_client_order_id lo#} \<subseteq># limit_order_ids os"
proof -
  have less: "limit_order_ids (filter P xs) \<subseteq># limit_order_ids xs" for P xs
    unfolding limit_order_ids_def by (simp add: image_mset_subseteq_mono)
  show "lo \<in> set os \<Longrightarrow> ?thesis"
  proof (induction os)
    case (Cons x os)
    then show ?case
      using less [of "\<lambda>x. limit_order_less x lo \<or> limit_order_less lo x" os]
      by (cases "x = lo") (auto intro: subset_mset.order_trans)
  qed simp
qed

definition orders_kept :: "paper_exchange \<Rightarrow> bool" where
  "orders_kept st = (\<forall>b. dict_wf (side_limit_orders b st) \<and> (\<forall>pair. by_key (pair_limit_orders b pair st)))"

definition ids_once :: "paper_exchange \<Rightarrow> bool" where
  "ids_once st = (distinct (announced_ids st) \<and> open_ids st + mset (ended_ids st) \<subseteq># mset (announced_ids st))"

lemma ids_once_event:
  assumes "ids_once st" and "created_id ev = []" and "ended_id ev = []"
  shows "ids_once (paper_event_triggered ev st)"
  using assms by (simp add: ids_once_def announced_ids_def ended_ids_def open_ids_def)

lemma open_ids_deleted:
  assumes "orders_kept st" and "lo \<in> set (pair_limit_orders b pair st)"
  shows "open_ids (delete_limit_order b pair lo st) + {#lo_client_order_id lo#} \<subseteq># open_ids st"
proof -
  let ?os = "side_limit_orders b st" and ?l = "pair_limit_orders b pair st"
  let ?l' = "filter (\<lambda>x. limit_order_less x lo \<or> limit_order_less lo x) ?l"
  have wf: "dict_wf ?os" using assms(1) by (simp add: orders_kept_def)
  have l: "get_or ?os pair [] = ?l" by (simp add: pair_limit_orders_def)
  define new where "new = (if ?l' = [] then dict_del ?os pair else dict_set ?os pair ?l')"
  have new: "side_limit_orders c (delete_limit_order b pair lo st) = (if c = b then new else side_limit_orders c st)" for c
    by (simp add: delete_limit_order_def new_def Let_def)
  have "side_ids new + {#lo_client_order_id lo#} + limit_order_ids ?l = side_ids ?os + (limit_order_ids ?l' + {#lo_client_order_id lo#})"
    using side_ids_set [of ?os pair ?l'] side_ids_del [OF wf, of pair] by (auto simp: l new_def)
  also have "\<dots> \<subseteq># side_ids ?os + limit_order_ids ?l" using limit_order_ids_filter [OF assms(2)] by simp
  finally have "side_ids new + {#lo_client_order_id lo#} \<subseteq># side_ids ?os" by (simp only: subset_mset.add_le_cancel_right)
  then have "add_mset (lo_client_order_id lo) (M + side_ids new) \<subseteq># M + side_ids ?os" for M
    using subset_mset.add_left_mono [of "side_ids new + {#lo_client_order_id lo#}" "side_ids ?os" M] by simp
  note grown = this [of "mset (map qo_order_id (pp_queued_orders st)) + side_ids (side_limit_orders (\<not> b) st)"]
  show ?thesis using grown new [of True] new [of False] by (cases b) (simp_all add: open_ids_def union_ac)
qed

lemma orders_kept_deleted:
  assumes "orders_kept st"
  shows "orders_kept (delete_limit_order b pair lo st)"
  using assms by (auto simp: orders_kept_def delete_limit_order_def Let_def pair_limit_orders_def sorted_wrt_filter)

lemma deleted_keeps_others:
  assumes "orders_kept st" and "x \<in> set (pair_limit_orders b pair st)" and "lo \<in> set (pair_limit_orders b pair st)" and "x \<noteq> lo"
  shows "x \<in> set (pair_limit_orders b pair (delete_limit_order b pair lo st))"
  using assms by_key_related [of "pair_limit_orders b pair st" x lo] by (auto simp: orders_kept_def)
lemma orders_kept_cong: "(\<And>b. side_limit_orders b st' = side_limit_orders b st) \<Longrightarrow> orders_kept st' = orders_kept st"
  by (simp add: orders_kept_def pair_limit_orders_def)

lemma open_ids_cong:
  "(\<And>b. side_limit_orders b st' = side_limit_orders b st) \<Longrightarrow> pp_queued_orders st' = pp_queued_orders st \<Longrightarrow> open_ids st' = open_ids st"
  by (simp add: open_ids_def)

lemma order_frames [simp]:
  "orders_kept (paper_event_triggered ev st) = orders_kept st" "open_ids (paper_event_triggered ev st) = open_ids st"
  "orders_kept (settle_balances b base quote paid got st) = orders_kept st" "open_ids (settle_balances b base quote paid got st) = open_ids st"
  "orders_kept (paper_fill_triggered ev st) = orders_kept st" "open_ids (paper_fill_triggered ev st) = open_ids st"
  "orders_kept (fold paper_fill_triggered evs st) = orders_kept st" "open_ids (fold paper_fill_triggered evs st) = open_ids st"
  "orders_kept (set_book p c st) = orders_kept st" "open_ids (set_book p c st) = open_ids st"
  by (rule orders_kept_cong open_ids_cong; simp)+

lemma id_frames [simp]:
  "announced_ids (paper_event_triggered ev st) = announced_ids st @ created_id ev" "ended_ids (paper_event_triggered ev st) = ended_ids st @ ended_id ev"
  "announced_ids (settle_balances b base quote paid got st) = announced_ids st" "ended_ids (settle_balances b base quote paid got st) = ended_ids st"
  "announced_ids (paper_fill_triggered ev st) = announced_ids st @ created_id ev" "ended_ids (paper_fill_triggered ev st) = ended_ids st @ ended_id ev"
  "announced_ids (set_book p c st) = announced_ids st" "ended_ids (set_book p c st) = ended_ids st"
  "announced_ids (delete_limit_order b pair lo st) = announced_ids st" "ended_ids (delete_limit_order b pair lo st) = ended_ids st"
  by (simp_all add: announced_ids_def ended_ids_def)

lemma id_frames_fills:
  assumes "\<forall>ev \<in> set evs. created_id ev = [] \<and> ended_id ev = []"
  shows "announced_ids (fold paper_fill_triggered evs st) = announced_ids st" "ended_ids (fold paper_fill_triggered evs st) = ended_ids st"
  using assms by (induction evs arbitrary: st) auto

definition orders_ok :: "paper_exchange \<Rightarrow> bool" where
  "orders_ok st = (orders_kept st \<and> ids_once st)"

lemma ended_and_deleted:
  assumes "orders_ok st" and "lo \<in> set (pair_limit_orders b pair st)" and "ended_id ev = [lo_client_order_id lo]" and "created_id ev = []"
  shows "orders_ok (paper_event_triggered ev (delete_limit_order b pair lo st))"
proof -
  have "open_ids (delete_limit_order b pair lo st) + {#lo_client_order_id lo#} \<subseteq># open_ids st"
    using assms(1,2) by (intro open_ids_deleted) (simp_all add: orders_ok_def)
  then have "open_ids (delete_limit_order b pair lo st) + {#lo_client_order_id lo#} + mset (ended_ids st) \<subseteq># open_ids st + mset (ended_ids st)" by simp
  also have "\<dots> \<subseteq># mset (announced_ids st)" using assms(1) by (simp add: orders_ok_def ids_once_def)
  finally show ?thesis using assms orders_kept_deleted [of st] by (simp add: orders_ok_def ids_once_def union_ac)
qed

lemma triggered_deleted: "delete_limit_order b pair lo (paper_event_triggered ev st) = paper_event_triggered ev (delete_limit_order b pair lo st)"
  by (simp add: delete_limit_order_def paper_event_triggered_def set_side_limit_orders_def side_limit_orders_def pair_limit_orders_def Let_def)

lemma orders_ok_process:
  assumes "orders_ok st" and "lo \<in> set (pair_limit_orders b pair st)"
  shows "orders_ok (process_limit_order b pair lo st)"
    and "x \<in> set (pair_limit_orders b pair st) \<Longrightarrow> x \<noteq> lo \<Longrightarrow> x \<in> set (pair_limit_orders b pair (process_limit_order b pair lo st))"
proof -
  have kept: "orders_kept st" using assms(1) by (simp add: orders_ok_def)
  have "orders_ok (process_limit_order b pair lo st)
    \<and> (pair_limit_orders b pair (process_limit_order b pair lo st) = pair_limit_orders b pair st
       \<or> pair_limit_orders b pair (process_limit_order b pair lo st) = pair_limit_orders b pair (delete_limit_order b pair lo st))"
  proof (cases "paper_amounts st (paper_candidate True b (lo_trading_pair lo) (lo_quantity lo) (lo_price lo))")
    case (Inr r)
    obtain paid got where r: "r = (paid, got)" by (cases r)
    show ?thesis
    proof (cases "paper_affords b (lo_base_currency lo) (lo_quote_currency lo) paid st")
      case True
      let ?s = "paper_fill_triggered (PaperFilled (pp_now st) (lo_client_order_id lo) (lo_trading_pair lo) (if b then BUY else SELL) LIMIT
          (lo_price lo) (lo_quantity lo) (build_trade_fee (pp_fee_schema st) True (if b then BUY else SELL) None))
        (settle_balances b (lo_base_currency lo) (lo_quote_currency lo) paid got st)"
      have "orders_ok ?s" using assms(1) by (simp add: orders_ok_def ids_once_def)
      then show ?thesis
        using ended_and_deleted [of ?s lo b pair] assms(2) by (simp add: process_limit_order_def Inr r True Let_def triggered_deleted)
    next
      case False
      then show ?thesis
        using ended_and_deleted [OF assms] by (simp add: process_limit_order_def Inr r Let_def)
    qed
  qed (use assms(1) in \<open>simp add: process_limit_order_def\<close>)
  then show "orders_ok (process_limit_order b pair lo st)"
    and "x \<in> set (pair_limit_orders b pair st) \<Longrightarrow> x \<noteq> lo \<Longrightarrow> x \<in> set (pair_limit_orders b pair (process_limit_order b pair lo st))"
    using deleted_keeps_others [OF kept _ assms(2), of x] by auto
qed

lemma orders_ok_fold:
  assumes "\<And>lo s. orders_ok s \<Longrightarrow> lo \<in> set (pair_limit_orders b pair s) \<Longrightarrow> orders_ok (f lo s)
      \<and> (\<forall>x \<in> set (pair_limit_orders b pair s). x \<noteq> lo \<longrightarrow> x \<in> set (pair_limit_orders b pair (f lo s)))"
  shows "orders_ok st \<Longrightarrow> distinct os \<Longrightarrow> set os \<subseteq> set (pair_limit_orders b pair st) \<Longrightarrow> orders_ok (fold f os st)"
proof (induction os arbitrary: st)
  case (Cons lo os)
  have "lo \<in> set (pair_limit_orders b pair st)" using Cons.prems(3) by simp
  note step = assms [OF Cons.prems(1) this]
  then have "set os \<subseteq> set (pair_limit_orders b pair (f lo st))" using Cons.prems(2,3) by auto
  then show ?case using Cons.IH [of "f lo st"] step Cons.prems(2) by simp
qed simp

lemma orders_ok_processed:
  "orders_ok st \<Longrightarrow> distinct os \<Longrightarrow> set os \<subseteq> set (pair_limit_orders b pair st) \<Longrightarrow> orders_ok (fold (process_limit_order b pair) os st)"
  by (rule orders_ok_fold) (auto intro: orders_ok_process)

lemma reached_distinct:
  assumes "orders_ok st"
  shows "distinct (crossed_orders b' p (pair_limit_orders b pair st))" "distinct (traded_through b' p (pair_limit_orders b pair st))"
  using by_key_distinct [of "pair_limit_orders b pair st"] assms
  by (auto simp: orders_ok_def orders_kept_def crossed_orders_def traded_through_def intro: distinct_takeWhile)

lemma orders_ok_match: "orders_ok st \<Longrightarrow> orders_ok (match_trade_to_limit_orders t st)"
  unfolding match_trade_to_limit_orders_def Let_def using crossed_subset(2) reached_distinct(2) by (intro orders_ok_processed)

lemma orders_ok_cancel: "orders_ok st \<Longrightarrow> orders_ok (snd (cancel_from_orders_map b pair cid st))"
proof -
  assume ok: "orders_ok st"
  have "orders_ok (cancel_limit_order b pair lo s) \<and> (\<forall>x \<in> set (pair_limit_orders b pair s). x \<noteq> lo \<longrightarrow> x \<in> set (pair_limit_orders b pair (cancel_limit_order b pair lo s)))"
    if "orders_ok s" "lo \<in> set (pair_limit_orders b pair s)" for lo s
    using ended_and_deleted [OF that, of "PaperCancelled (lo_client_order_id lo)"] deleted_keeps_others [OF _ _ that(2)] that(1) by (simp add: cancel_limit_order_def orders_ok_def)
  moreover have "distinct (pair_limit_orders b pair st)" using ok by (simp add: orders_ok_def orders_kept_def by_key_distinct)
  ultimately show ?thesis
    unfolding cancel_from_orders_map_def Let_def snd_conv by (intro orders_ok_fold [OF _ ok]) auto
qed

lemma orders_ok_cancel_side: "orders_ok (snd rst) \<Longrightarrow> orders_ok (snd (cancel_all_of_side b rst))"
proof -
  have "orders_ok s \<Longrightarrow> orders_ok (snd (fold (\<lambda>pair (results, st). case cancel_from_orders_map b pair None st of (rs, st1) \<Rightarrow> (results @ rs, st1)) pairs (r, s)))"
    for r s pairs
  proof (induction pairs arbitrary: r s)
    case (Cons pair pairs)
    then show ?case using orders_ok_cancel [of s b pair None] by (cases "cancel_from_orders_map b pair None s") simp
  qed simp
  then show "orders_ok (snd rst) \<Longrightarrow> ?thesis" by (cases rst) (simp add: cancel_all_of_side_def)
qed

lemma orders_ok_price: "orders_ok st \<Longrightarrow> orders_ok (snd (paper_get_price pair b st))"
  by (auto simp: paper_get_price_def orders_ok_def ids_once_def split: option.split prod.split)

lemma orders_ok_crossed_pair: "orders_ok st \<Longrightarrow> orders_ok (fst (process_crossed_pair b pair st))"
proof -
  assume ok: "orders_ok st"
  obtain r st1 where r: "paper_get_price pair b st = (r, st1)" by (cases "paper_get_price pair b st")
  then have ok1: "orders_ok st1" using orders_ok_price [OF ok, of pair b] by simp
  then have "orders_ok (fold (process_limit_order b pair) (crossed_orders b x (pair_limit_orders b pair st1)) st1)" for x
    using crossed_subset(1) reached_distinct(1) by (intro orders_ok_processed)
  with ok1 show ?thesis by (auto simp: process_crossed_pair_def r split: sum.split pdecimal.split)
qed

lemma orders_ok_loop: "orders_ok st \<Longrightarrow> orders_ok (fst (crossed_pairs_loop b pairs st))"
proof (induction b pairs st rule: crossed_pairs_loop.induct)
  case (2 b pair pairs st)
  obtain st1 e where r: "process_crossed_pair b pair st = (st1, e)" by (cases "process_crossed_pair b pair st")
  then have "orders_ok st1" using orders_ok_crossed_pair [OF "2.prems", of b pair] by simp
  then show ?case using "2.IH" by (cases e) (auto simp: r split: list.split)
qed simp

lemma orders_ok_crossed: "orders_ok st \<Longrightarrow> orders_ok (fst (process_crossed_limit_orders st))"
  unfolding process_crossed_limit_orders_def by (rule obind_fst_inv) (simp_all add: orders_ok_loop)

text \<open>A market order leaves the queue before it is executed.\<close>

lemma orders_ok_executed:
  assumes "orders_kept st" and "distinct (announced_ids st)" and "open_ids st + {#oid#} + mset (ended_ids st) \<subseteq># mset (announced_ids st)"
  shows "orders_ok (fst (execute_market_order b oid pair amount st))"
proof (cases "execute_market_order b oid pair amount st")
  case (Pair st' err)
  have less: "open_ids st + mset (ended_ids st) \<subseteq># mset (announced_ids st)"
    using assms(3) by (rule subset_mset.order_trans [rotated]) (simp add: union_ac)
  show ?thesis unfolding Pair fst_conv using Pair
    by (cases rule: execute_market_order_cases)
      (use assms less in \<open>auto simp: orders_ok_def ids_once_def id_frames_fills union_ac\<close>)
qed

lemma queue_frames [simp]:
  "side_limit_orders b (st\<lparr>pp_queued_orders := qs\<rparr>) = side_limit_orders b st"
  "announced_ids (st\<lparr>pp_queued_orders := qs\<rparr>) = announced_ids st" "ended_ids (st\<lparr>pp_queued_orders := qs\<rparr>) = ended_ids st"
  "orders_kept (st\<lparr>pp_queued_orders := qs\<rparr>) = orders_kept st"
  by (auto simp: side_limit_orders_def announced_ids_def ended_ids_def orders_kept_def pair_limit_orders_def)

lemma executed_queue: "pp_queued_orders (fst (execute_market_order b oid pair amount st)) = pp_queued_orders st"
proof (cases "execute_market_order b oid pair amount st")
  case (Pair st' err)
  show ?thesis unfolding Pair fst_conv using Pair by (cases rule: execute_market_order_cases) auto
qed

lemma orders_ok_queue: "orders_ok (st\<lparr>pp_queued_orders := qs\<rparr>) \<Longrightarrow> orders_ok (run_queued_orders qs st)"
proof (induction qs arbitrary: st)
  case (Cons q qs)
  let ?s = "st\<lparr>pp_queued_orders := qs\<rparr>"
  let ?s' = "fst (execute_market_order (qo_is_buy q) (qo_order_id q) (qo_trading_pair q) (qo_amount q) ?s)"
  have "orders_ok ?s'"
    using Cons.prems by (intro orders_ok_executed) (simp_all add: orders_ok_def ids_once_def open_ids_def union_ac)
  moreover have "?s'\<lparr>pp_queued_orders := qs\<rparr> = ?s'"
    using executed_queue [of "qo_is_buy q" "qo_order_id q" "qo_trading_pair q" "qo_amount q" ?s] by simp
  ultimately show ?case using Cons.IH [of ?s'] Cons.prems by simp
qed simp

lemma orders_ok_cong:
  "(\<And>b. side_limit_orders b st' = side_limit_orders b st) \<Longrightarrow> pp_queued_orders st' = pp_queued_orders st \<Longrightarrow> pp_events st' = pp_events st \<Longrightarrow>
    orders_ok st \<Longrightarrow> orders_ok st'"
  using orders_kept_cong [of st' st] open_ids_cong [of st' st] by (simp add: orders_ok_def ids_once_def announced_ids_def ended_ids_def)

lemma orders_ok_tick: "orders_ok st \<Longrightarrow> orders_ok (fst (paper_tick t st))"
proof -
  assume ok: "orders_ok st"
  let ?s = "st\<lparr>pp_now := t\<rparr>"
  have "orders_ok (?s\<lparr>pp_queued_orders := pp_queued_orders ?s\<rparr>)"
    by (rule orders_ok_cong [OF _ _ _ ok]) (simp_all add: side_limit_orders_def)
  from orders_ok_crossed [OF orders_ok_queue [OF this]] show ?thesis by (simp add: paper_tick_def process_market_orders_def)
qed

lemma order_added:
  assumes "orders_kept st"
  shows "orders_kept (add_limit_order lo st)" and "open_ids (add_limit_order lo st) \<subseteq># add_mset (lo_client_order_id lo) (open_ids st)"
proof -
  let ?os = "side_limit_orders (lo_is_buy lo) st" and ?l = "pair_limit_orders (lo_is_buy lo) (lo_trading_pair lo) st"
  have side: "side_limit_orders c (add_limit_order lo st)
    = (if c = lo_is_buy lo then dict_set ?os (lo_trading_pair lo) (insert_limit_order lo ?l) else side_limit_orders c st)" for c
    by (simp add: add_limit_order_def Let_def)
  have ids: "limit_order_ids (insert_limit_order lo xs) \<subseteq># add_mset (lo_client_order_id lo) (limit_order_ids xs)" for xs
    by (induction xs) (auto simp: add_mset_commute)
  have l: "get_or ?os (lo_trading_pair lo) [] = ?l" by (simp add: pair_limit_orders_def)
  have "side_ids (dict_set ?os (lo_trading_pair lo) (insert_limit_order lo ?l)) + limit_order_ids ?l = side_ids ?os + limit_order_ids (insert_limit_order lo ?l)"
    using side_ids_set [of ?os "lo_trading_pair lo" "insert_limit_order lo ?l"] by (simp add: l)
  also have "\<dots> \<subseteq># side_ids ?os + add_mset (lo_client_order_id lo) (limit_order_ids ?l)" using ids by simp
  also have "\<dots> = add_mset (lo_client_order_id lo) (side_ids ?os) + limit_order_ids ?l" by simp
  finally have "side_ids (dict_set ?os (lo_trading_pair lo) (insert_limit_order lo ?l)) \<subseteq># add_mset (lo_client_order_id lo) (side_ids ?os)"
    by (simp only: subset_mset.add_le_cancel_right)
  then have "M + side_ids (dict_set ?os (lo_trading_pair lo) (insert_limit_order lo ?l)) \<subseteq># add_mset (lo_client_order_id lo) (M + side_ids ?os)" for M
    using subset_mset.add_left_mono by fastforce
  note grown = this [of "mset (map qo_order_id (pp_queued_orders st)) + side_ids (side_limit_orders (\<not> lo_is_buy lo) st)"]
  show "open_ids (add_limit_order lo st) \<subseteq># add_mset (lo_client_order_id lo) (open_ids st)"
    using grown side [of True] side [of False] by (cases "lo_is_buy lo") (simp_all add: open_ids_def union_ac)
  show "orders_kept (add_limit_order lo st)"
    using assms by (auto simp: orders_kept_def pair_orders_added by_key_insert side)
qed

lemma order_queued:
  assumes "orders_kept st"
  shows "orders_kept (st\<lparr>pp_queued_orders := pp_queued_orders st @ [q]\<rparr>)"
    and "open_ids (st\<lparr>pp_queued_orders := pp_queued_orders st @ [q]\<rparr>) \<subseteq># add_mset (qo_order_id q) (open_ids st)"
  using assms by (simp_all add: open_ids_def)

lemma orders_ok_submit:
  assumes "orders_ok st" and "paper_order_id b pair vals \<notin> set (announced_ids st)" and "paper_submit b pair amount ot price vals st = (st', e)"
  shows "orders_ok st'"
proof -
  let ?oid = "paper_order_id b pair vals"
  have kept: "orders_kept st" using assms(1) by (simp add: orders_ok_def)
  have announced: "orders_ok (paper_event_triggered (PaperCreated ?oid b ot pair qa qp) s)"
    if s: "orders_kept s" "pp_events s = pp_events st" "open_ids s \<subseteq># add_mset ?oid (open_ids st)" for s qa qp
  proof -
    have "announced_ids s = announced_ids st" "ended_ids s = ended_ids st" using s(2) by (simp_all add: announced_ids_def ended_ids_def)
    moreover have "open_ids s + mset (ended_ids st) \<subseteq># add_mset ?oid (mset (announced_ids st))"
    proof -
      have "open_ids s + mset (ended_ids st) \<subseteq># add_mset ?oid (open_ids st) + mset (ended_ids st)" using s(3) by simp
      also have "\<dots> = add_mset ?oid (open_ids st + mset (ended_ids st))" by simp
      also have "\<dots> \<subseteq># add_mset ?oid (mset (announced_ids st))" using assms(1) by (simp add: orders_ok_def ids_once_def)
      finally show ?thesis .
    qed
    ultimately show ?thesis using s(1) assms(1,2) by (simp add: orders_ok_def ids_once_def)
  qed
  show ?thesis
  proof (cases "dict_get (pp_trading_pairs st) pair")
    case (Some tp)
    show ?thesis
    proof (cases "paper_quantized_order pair amount ot price st")
      case (Inr r)
      obtain qa qp where r: "r = (qa, qp)" by (cases r)
      let ?q = "\<lparr>qo_create_timestamp = pp_now st, qo_order_id = ?oid, qo_is_buy = b, qo_trading_pair = pair, qo_amount = qa\<rparr>"
      let ?lo = "\<lparr>lo_client_order_id = ?oid, lo_trading_pair = pair, lo_is_buy = b, lo_base_currency = pr_base_asset tp,
        lo_quote_currency = pr_quote_asset tp, lo_price = qp, lo_quantity = qa, lo_creation_timestamp = dec_trunc (pp_now st * 10 ^ 6)\<rparr>"
      have st': "st' = paper_event_triggered (PaperCreated ?oid b ot pair qa qp)
          (if ot = MARKET then st\<lparr>pp_queued_orders := pp_queued_orders st @ [?q]\<rparr> else if ot = LIMIT then add_limit_order ?lo st else st)"
        using assms(3) by (simp add: paper_submit_def Some Inr r Let_def)
      have e: "pp_events (add_limit_order ?lo st) = pp_events st" by simp
      show ?thesis unfolding st'
        using order_added [OF kept, of ?lo] order_queued [OF kept, of ?q] kept e by (intro announced) (simp_all split: if_split)
    qed (use assms Some in \<open>simp add: paper_submit_def\<close>)
  qed (use assms in \<open>simp add: paper_submit_def\<close>)
qed

lemma init_frames:
  "pp_bid_limit_orders (fst (init_paper_trade_market st)) = pp_bid_limit_orders st \<and> pp_ask_limit_orders (fst (init_paper_trade_market st)) = pp_ask_limit_orders st
   \<and> pp_queued_orders (fst (init_paper_trade_market st)) = pp_queued_orders st \<and> pp_events (fst (init_paper_trade_market st)) = pp_events st"
proof -
  let ?f = "\<lambda>pair s. case split_hb_trading_pair pair of Inl e \<Rightarrow> (s, Some e)
        | Inr (base, quote) \<Rightarrow> (s\<lparr>pp_trading_pairs := dict_set (pp_trading_pairs s) pair
            \<lparr>pr_trading_pair = pair, pr_base_asset = base, pr_quote_asset = quote\<rparr>\<rparr>, None)"
  have "pp_bid_limit_orders (fst (ofold ?f ps s)) = pp_bid_limit_orders s \<and> pp_ask_limit_orders (fst (ofold ?f ps s)) = pp_ask_limit_orders s
      \<and> pp_queued_orders (fst (ofold ?f ps s)) = pp_queued_orders s \<and> pp_events (fst (ofold ?f ps s)) = pp_events s" for ps and s :: paper_exchange
  proof (induction ps arbitrary: s)
    case (Cons pair ps)
    show ?case using Cons.IH by (cases "split_hb_trading_pair pair") (auto split: prod.split)
  qed simp
  then show ?thesis unfolding init_paper_trade_market_def .
qed

lemma orders_ok_ready: "orders_ok st \<Longrightarrow> orders_ok (fst (paper_ready st))"
proof -
  assume ok: "orders_ok st"
  obtain st1 e where i: "init_paper_trade_market st = (st1, e)" by (cases "init_paper_trade_market st")
  have f: "pp_bid_limit_orders st1 = pp_bid_limit_orders st" "pp_ask_limit_orders st1 = pp_ask_limit_orders st"
    "pp_queued_orders st1 = pp_queued_orders st" "pp_events st1 = pp_events st" using init_frames [of st] by (simp_all add: i)
  have "orders_ok st1" by (rule orders_ok_cong [OF _ _ _ ok]) (simp_all add: f side_limit_orders_def)
  moreover have "orders_ok (st1\<lparr>pp_initialized := True\<rparr>)" by (rule orders_ok_cong [OF _ _ _ ok]) (simp_all add: f side_limit_orders_def)
  ultimately show ?thesis using ok by (simp add: paper_ready_def i split: option.split)
qed

lemma paper_step_orders: "paper_step st st' \<Longrightarrow> orders_ok st \<Longrightarrow> orders_ok st'"
proof (induction rule: paper_step.induct)
  case (placed amount price b pair vals st ot st' e)
  then show ?case using orders_ok_submit [of st b pair vals amount ot price st' e] by (simp add: announced_ids_def)
next
  case (all_cancelled st)
  have "orders_ok (snd (cancel_all_of_side True ([], st)))" using orders_ok_cancel_side [of "([], st)" True] all_cancelled by simp
  then show ?case unfolding paper_cancel_all_def by (rule orders_ok_cancel_side)
next
  case (tracked books st r)
  show ?case by (rule orders_ok_cong [OF _ _ _ tracked.prems]) (simp_all add: side_limit_orders_def)
qed (simp_all add: paper_cancel_def Let_def orders_ok_cancel orders_ok_tick orders_ok_match orders_ok_ready)

text \<open>
  C40: In any run of a paper exchange that starts without orders and events, with order ids that were not used
  before: an order ends at most once, by its completion, cancellation or failure; one that has ended is not
  queued and not in the book of limit orders any more; and only created orders end.
\<close>

theorem paper_orders_end_once:
  assumes "paper_step\<^sup>*\<^sup>* st st'" and "pp_queued_orders st = []" and "pp_bid_limit_orders st = []" and "pp_ask_limit_orders st = []" and "pp_events st = []"
  shows "distinct (ended_ids st') \<and> set (ended_ids st') \<inter> set_mset (open_ids st') = {} \<and> set (ended_ids st') \<subseteq> set (announced_ids st')"
proof -
  have "orders_ok st"
    using assms(2-5) by (simp add: orders_ok_def orders_kept_def ids_once_def side_limit_orders_def pair_limit_orders_def open_ids_def announced_ids_def ended_ids_def)
  with assms(1) have "orders_ok st'" by (induction rule: rtranclp_induct) (auto intro: paper_step_orders)
  then have d: "distinct (announced_ids st')" and sub: "open_ids st' + mset (ended_ids st') \<subseteq># mset (announced_ids st')"
    by (simp_all add: orders_ok_def ids_once_def)
  have le: "count (open_ids st') x + count (mset (ended_ids st')) x \<le> 1" for x
  proof -
    have "count (mset (announced_ids st')) x \<le> 1" using d [unfolded distinct_count_atmost_1] by simp
    then show ?thesis using mset_subset_eq_count [OF sub, of x] unfolding count_union by linarith
  qed
  have in_ended: "0 < count (mset (ended_ids st')) x \<longleftrightarrow> x \<in> set (ended_ids st')" for x by simp
  have "count (mset (ended_ids st')) x = (if x \<in> set (ended_ids st') then 1 else 0)" for x
    using le [of x] in_ended [of x] by (cases "x \<in> set (ended_ids st')"; simp only: if_True if_False simp_thms; linarith)
  then have "distinct (ended_ids st')" unfolding distinct_count_atmost_1 by blast
  moreover have "x \<notin># open_ids st'" if "x \<in> set (ended_ids st')" for x
    using le [of x] in_ended [of x] that unfolding count_greater_zero_iff [symmetric] by linarith
  moreover have "x \<in> set (announced_ids st')" if "x \<in> set (ended_ids st')" for x
    using mset_subset_eqD [OF sub, of x] that by simp
  ultimately show ?thesis by blast
qed

end
