(* ===== verification/Paper_Settlement.thy ===== *)
theory Paper_Settlement
  imports Paper_Orders
begin

text \<open>
  What a market order of the paper exchange fills and settles, larger than the book or not; the states in
  which the exchange stops the clock or never ends an order; and a demonstration exchange.
\<close>

section \<open>Market orders\<close>

lemma total_amount_nonneg: "\<forall>e \<in> set es. 0 \<le> be_price e \<and> 0 \<le> be_amount e \<Longrightarrow> 0 \<le> total_amount es"
  unfolding total_amount_def by (intro sum_list_nonneg) auto

lemma fill_serves:
  "0 < v \<Longrightarrow> \<forall>e \<in> set es. 0 \<le> be_price e \<and> 0 \<le> be_amount e \<Longrightarrow> total_amount (simulate_fill es v) = min v (total_amount es)"
proof (induction es v rule: simulate_fill.induct)
  case (2 e es v)
  then show ?case using total_amount_nonneg [of es] by (cases "be_amount e < v") auto
qed simp

definition market_fills :: "bool \<Rightarrow> string \<Rightarrow> string \<Rightarrow> book_entry list \<Rightarrow> paper_exchange \<Rightarrow> paper_event list" where
  "market_fills is_buy oid pair rows st =
     map (\<lambda>e. PaperFilled (pp_now st) oid pair (if is_buy then BUY else SELL) MARKET (be_price e) (be_amount e)
           (build_trade_fee (pp_fee_schema st) False BUY None)) rows"

text \<open>
  C5: For a market order that raises nothing, on an exchange whose balances, books and amounts are not
  negative: it takes the best rows of the composite book, up to its amount and no more than there is. It
  is refused exactly if the account does not hold what it pays: the worth of these rows, or for a sale the
  whole amount. Otherwise each row is announced as a fill and the whole amount changes hands, also where the
  rows are fewer: a buyer then acquires more than was filled, and a seller gives more.
\<close>

theorem market_order_settlement:
  assumes "paper_sane st" and "0 < amount" and "execute_market_order is_buy oid pair amount st = (st', None)"
  shows "\<exists>tp c. dict_get (pp_trading_pairs st) pair = Some tp \<and> dict_get (pp_books st) pair = Some c
    \<and> (let rows = fst (composite_entries is_buy c); fills = simulate_fill rows amount; value = rows_value fills;
           base = pr_base_asset tp; quote = pr_quote_asset tp; share = kept_share (pp_fee_schema st) False is_buy;
           paid = (if is_buy then value else amount); acquired = (if is_buy then amount else value) * share
       in total_amount fills = min amount (total_amount rows)
          \<and> (if paid > paper_get_balance st (if is_buy then quote else base)
             then pp_events st' = pp_events st @ [PaperFailed oid MARKET] \<and> pp_balances st' = pp_balances st
             else pp_events st' = pp_events st @ market_fills is_buy oid pair fills st
                    @ [PaperCompleted oid is_buy base quote (if is_buy then acquired else paid) (if is_buy then paid else acquired) MARKET]
                  \<and> paper_get_balance st' base = paper_get_balance st base + (if is_buy then acquired else - paid)
                  \<and> paper_get_balance st' quote = paper_get_balance st quote + (if is_buy then - paid else acquired)))"
proof -
  have rows: "total_amount (fst (composite_simulate is_buy c amount)) = min amount (total_amount (fst (composite_entries is_buy c)))"
    if "dict_get (pp_books st) pair = Some c" for c
    using sane_book [OF assms(1) that] composite_entries_sane [of c _ is_buy] assms(2) by (simp add: composite_simulate_rows fill_serves)
  have money: "paid = (if is_buy then rows_value (simulate_fill (fst (composite_entries is_buy c)) amount) else amount)"
      "got = (if is_buy then amount else rows_value (simulate_fill (fst (composite_entries is_buy c)) amount)) * kept_share (pp_fee_schema st) False is_buy"
    if "paper_amounts (set_book pair (snd (composite_simulate is_buy c amount)) st)
        (paper_candidate False is_buy pair amount (rows_value (fst (composite_simulate is_buy c amount)) / amount)) = Inr (paid, got)" for c paid got
    using paper_amounts_are [OF that] assms(2) by (simp_all add: composite_simulate_rows)
  show ?thesis using assms(3)
  proof (cases rule: execute_market_order_cases)
    case (settled tp c paid got)
    have "assets_differ (pr_base_asset tp) (pr_quote_asset tp)" using assms(1) settled(1) by (auto simp: paper_sane_def)
    note balance = settled_balance [OF this, where oid = oid and ot = MARKET] and differ = this [unfolded assets_differ_def]
    show ?thesis
      using settled(1,2,5) rows [OF settled(2)] money [OF settled(4)] differ
      unfolding settled(6) by (auto simp: Let_def market_fills_def composite_simulate_rows paper_get_balance_is balance paper_affords_def)
  next
    case (refused tp c paid got)
    show ?thesis
      using refused(1,2,4) rows [OF refused(2)] money [OF refused(3)]
      unfolding refused(5) by (auto simp: Let_def composite_simulate_rows paper_get_balance_is paper_affords_def)
  qed simp_all
qed

section \<open>A book of which nothing is left\<close>

text \<open>
  Once the recorded fills leave no ask of a pair in which a bid is open, the price query raises
  \<open>StopIteration\<close>: the round of the clock ends there, no iterator after the exchange is called, and
  the clock does not go on.
\<close>

theorem consumed_book_stops_clock:
  assumes "pp_queued_orders st = []" and "dict_keys (pp_bid_limit_orders st) = pair # pairs" and "dict_has (pp_trading_pairs st) pair"
    and "dict_get (pp_books st) pair = Some c" and "ob_ask_book (co_book c) \<noteq> []" and "fst (composite_ask_entries c) = []"
  shows "\<not> snd (clock_round (paper_tick t # ticks) st) \<and> pp_events (fst (clock_round (paper_tick t # ticks) st)) = pp_events st"
proof -
  let ?st = "st\<lparr>pp_now := t, pp_queued_orders := []\<rparr>"
  obtain c1 where "composite_ask_entries c = ([], c1)" using assms(6) by (cases "composite_ask_entries c") simp
  then have "paper_get_price pair True ?st = (Inl StopIteration, set_book pair c1 ?st)"
    using assms(3,4,5) by (cases "ob_ask_book (co_book c)") (simp_all add: paper_get_price_def composite_get_price_def)
  then have "paper_tick t st = (set_book pair c1 ?st, Some StopIteration)"
    using assms(1,2) by (simp add: paper_tick_def process_market_orders_def process_crossed_limit_orders_def process_crossed_pair_def)
  then show ?thesis by simp
qed

section \<open>A demonstration exchange\<close>

definition demo_fee_schema :: trade_fee_schema where
  "demo_fee_schema =
     \<lparr>percent_fee_token = None, maker_percent_fee_decimal = 1 / 1000, taker_percent_fee_decimal = 1 / 500,
      buy_percent_fee_deducted_from_returns = True, maker_fixed_fees = [], taker_fixed_fees = []\<rparr>"

definition demo_paper :: paper_exchange where
  "demo_paper =
     fst (paper_ready (paper_set_balance ''USDT'' 1000 (paper_set_balance ''ETH'' 5
       ((new_paper_exchange demo_fee_schema)
         \<lparr>pp_books := [(''ETH-USDT'', \<lparr>co_book = demo_order_book, co_traded = new_order_book False\<rparr>)], pp_tracker_ready := True\<rparr>))))"

lemma demo_paper_fields:
  "pp_trading_pairs demo_paper = [(''ETH-USDT'', \<lparr>pr_trading_pair = ''ETH-USDT'', pr_base_asset = ''ETH'', pr_quote_asset = ''USDT''\<rparr>)]"
  "pp_balances demo_paper = [(''ETH'', 5), (''USDT'', 1000)]" "pp_initialized demo_paper" "pp_queued_orders demo_paper = []"
  "pp_bid_limit_orders demo_paper = []" "pp_ask_limit_orders demo_paper = []" "pp_events demo_paper = []"
  "pp_fee_schema demo_paper = demo_fee_schema" "pp_now demo_paper = 0"
  "pp_books demo_paper = [(''ETH-USDT'', \<lparr>co_book = demo_order_book, co_traded = new_order_book False\<rparr>)]"
  by code_simp+

lemma demo_paper_sane: "paper_sane demo_paper"
proof -
  have book: "book_sane demo_order_book" unfolding book_sane_def by code_simp
  have balances: "0 \<le> paper_balance demo_paper k" for k
    by (simp add: paper_balance_def get_or_def dict_get_def demo_paper_fields)
  have pair: "pair_sane ''ETH-USDT''" by (simp add: pair_sane_def split_hb_trading_pair_def assets_differ_def upper_char_def)
  have "book_sane bk \<and> pair_sane p" if "real_book demo_paper p = Some bk" for p bk
    using that book pair by (auto simp: real_book_def dict_get_def demo_paper_fields split: if_splits)
  moreover have "assets_differ (pr_base_asset tp) (pr_quote_asset tp)" if "dict_get (pp_trading_pairs demo_paper) p = Some tp" for p tp
    using that by (auto simp: dict_get_def demo_paper_fields assets_differ_def upper_char_def split: if_splits)
  ultimately show ?thesis
    using balances by (simp add: paper_sane_def demo_paper_fields demo_fee_schema_def pair_limit_orders_def side_limit_orders_def get_or_def dict_get_def)
qed

text \<open>Four are bought where the book has three.\<close>

definition demo_bought :: paper_exchange where
  "demo_bought = fst (execute_market_order True ''buy://ETH-USDT/1'' ''ETH-USDT'' 4 demo_paper)"

lemma demo_rows: "fst (composite_entries True \<lparr>co_book = demo_order_book, co_traded = new_order_book False\<rparr>) = [demo_row 101 1 10, demo_row 102 2 10]"
  by code_simp

theorem market_order_settlement_witness:
  "paper_get_balance demo_bought ''ETH'' = 5 + 4 * (499 / 500) \<and> paper_get_balance demo_bought ''USDT'' = 1000 - 305"
proof -
  have "execute_market_order True ''buy://ETH-USDT/1'' ''ETH-USDT'' 4 demo_paper = (demo_bought, None)"
    unfolding demo_bought_def prod_eq_iff by code_simp
  from market_order_settlement [OF demo_paper_sane _ this] show ?thesis
    by (simp add: demo_paper_fields dict_get_def demo_rows demo_row_def rows_value_is kept_share_def demo_fee_schema_def Let_def
        paper_get_balance_def get_or_def upper_char_def split: if_splits)
qed

text \<open>The same order through the exchange's operations: placed, and executed by the tick after the delay.\<close>

definition demo_market_placed :: paper_exchange where
  "demo_market_placed = fst (paper_buy ''ETH-USDT'' 4 MARKET 0 ''1'' demo_paper)"

definition demo_run :: paper_exchange where
  "demo_run = fst (paper_tick 5 demo_market_placed)"

lemma demo_run_steps: "paper_step\<^sup>*\<^sup>* demo_paper demo_run"
proof -
  have "paper_step demo_paper demo_market_placed"
    unfolding demo_market_placed_def paper_buy_def
    by (rule paper_step.placed [where amount = 4 and price = 0 and b = True and pair = "''ETH-USDT''" and vals = "''1''" and ot = MARKET
          and e = "snd (paper_submit True ''ETH-USDT'' 4 MARKET 0 ''1'' demo_paper)"]) (simp_all add: demo_paper_fields)
  moreover have "paper_step demo_market_placed demo_run" unfolding demo_run_def by (rule paper_step.ticked)
  ultimately show ?thesis by simp
qed

lemma demo_run_events: "map ended_id (pp_events demo_run) = [[], [], [], [''buy://ETH-USDT/1'']]"
  by code_simp

theorem paper_balances_accounted_witness:
  "0 \<le> paper_get_balance demo_run ''usdt''
   \<and> (\<exists>evs. pp_events demo_run = pp_events demo_paper @ evs
         \<and> paper_get_balance demo_run ''usdt'' = paper_get_balance demo_paper ''usdt'' + ledger evs (map upper_char ''usdt''))"
  by (rule paper_balances_accounted [OF demo_paper_sane demo_run_steps])

theorem paper_orders_end_once_witness:
  "ended_ids demo_run = [''buy://ETH-USDT/1''] \<and> ''buy://ETH-USDT/1'' \<notin># open_ids demo_run"
proof -
  have "ended_ids demo_run = [''buy://ETH-USDT/1'']" by (simp add: ended_ids_def demo_run_events)
  then show ?thesis using paper_orders_end_once [OF demo_run_steps] by (auto simp: demo_paper_fields)
qed

text \<open>With a bid open, three bought at the market leave no ask, and the next round is the last.\<close>

definition demo_consumed :: paper_exchange where
  "demo_consumed =
     fst (execute_market_order True ''buy://ETH-USDT/2'' ''ETH-USDT'' 3
       (fst (paper_buy ''ETH-USDT'' 1 LIMIT 90 ''1'' demo_paper)))"

definition consumed_view :: "paper_exchange \<Rightarrow> queued_order list \<times> string list \<times> bool \<times> (bool \<times> book_entry list) option" where
  "consumed_view st =
     (pp_queued_orders st, dict_keys (pp_bid_limit_orders st), dict_has (pp_trading_pairs st) ''ETH-USDT'',
      map_option (\<lambda>c. (ob_ask_book (co_book c) \<noteq> [], fst (composite_ask_entries c))) (dict_get (pp_books st) ''ETH-USDT''))"

theorem consumed_book_stops_clock_witness:
  "\<not> snd (clock_round [paper_tick 6, paper_tick 6] demo_consumed)"
proof -
  have view: "consumed_view demo_consumed = ([], [''ETH-USDT''], True, Some (True, []))" by code_simp
  then obtain c where "dict_get (pp_books demo_consumed) ''ETH-USDT'' = Some c" "ob_ask_book (co_book c) \<noteq> []" "fst (composite_ask_entries c) = []"
    by (auto simp: consumed_view_def)
  then show ?thesis using consumed_book_stops_clock [of demo_consumed "''ETH-USDT''" "[]" c 6 "[paper_tick 6]"] view
    by (simp add: consumed_view_def)
qed

end
