(* ===== verification/Spec2Isabelle.thy ===== *)
theory Spec2Isabelle
  imports Connector_Safety Budget_Checker Position_Invariants Orchestrator_Reports LP_Accounting
    Market_Making_Safety Fleet Api_Throttler Grid_Safety Order_Safety TWAP_Safety DCA_Safety
    XEMM_Safety LP_Rebalancer_Safety Order_Book_Tracking Paper_Settlement
begin

text \<open>
  A verification development for the trading engine of this repository: the core of Hummingbot
  under \<open>hummingbot/\<close>, its controllers under \<open>controllers/\<close> and the pod runner \<open>podrunner/\<close>.

  \<^bold>\<open>The program.\<close> A connector turns a strategy's orders into calls of an exchange, within the
  exchange's request limits, and follows them in a client order tracker. Controllers look at the market
  and propose actions; the executor orchestrator carries them out: it creates executors, which place
  orders or open liquidity positions and manage them until they end, stops them, stores their results
  and keeps the positions they leave. The pod runner drives many controllers against live prices and
  replaces the ones that died.

  \<^bold>\<open>Theories\<close>, bottom up. An operation of the source has a definition of its name; methods take and
  return the record of their object's state.

  \<^item> \<open>Prelude\<close>: Python's errors as values, insertion-ordered dictionaries, decimals, strings.
  \<^item> \<open>Common_Types\<close>: enumerations of \<open>core/data_type/common.py\<close>, order and runnable states,
    trading pairs (\<open>connector/utils.py\<close>).
  \<^item> \<open>Trade_Fee\<close>: fees, schemas, JSON form and conversion (\<open>core/data_type/trade_fee.py\<close>,
    \<open>core/utils/estimate_fee.py\<close>).
  \<^item> \<open>In_Flight_Order\<close>: one order, its fills and updates (\<open>core/data_type/in_flight_order.py\<close>).
    Fills are counted once, in any order, and an order written as JSON reads back.
  \<^item> \<open>Order_Tracker\<close>: \<open>connector/client_order_tracker.py\<close>, with a store of shared order objects and
    the steps of its coroutines between awaits (\<open>tracker_step\<close>). \<open>Tracker_Ledger\<close>: what holds over
    every interleaving: the dictionaries agree, the events match the fills, a terminal update ends the
    tracking with one event, and no handler raises; restoring saved orders may.
  \<^item> \<open>Trading_Rules\<close>: rules and quantization (\<open>connector/trading_rule.pyx\<close>, \<open>connector_base.pyx\<close>,
    \<open>exchange_py_base.py\<close>), with the interface \<open>quantizer\<close> that sizing relies on.
  \<^item> \<open>Exchange_Connector\<close>: creating, sending, cancelling and polling orders
    (\<open>connector/exchange_py_base.py\<close>), its coroutines as tasks and their replies as steps.
    \<open>Connector_Safety\<close>: its steps are steps of the tracker; what a created order is sent as, or why it is
    not; with fresh ids an order is sent once; and ways an order slips away.
  \<^item> \<open>Order_Book\<close>: order books, composite books and their messages (\<open>core/data_type/order_book.pyx\<close>,
    \<open>composite_order_book.pyx\<close>, \<open>order_book_message.py\<close>, \<open>core/cpp/OrderBookEntry.cpp\<close>).
    \<open>Order_Book_Safety\<close>: diffs leave a book uncrossed and refine the update of its price levels; fills and
    their prices. \<open>Order_Book_Tracker\<close>: \<open>order_book_tracker.py\<close>, turns of its coroutines;
    \<open>Order_Book_Tracking\<close>: diffs routed in any order lead to the same book, as long as no snapshot of the
    pair is pending; diffs and pairs that go astray.
  \<^item> \<open>Paper_Trade\<close>: \<open>connector/exchange/paper_trade/paper_trade_exchange.pyx\<close>, which fills orders against
    the composite books, \<open>core/cpp/LimitOrder.cpp\<close>, and a round of \<open>core/clock.pyx\<close>. \<open>Paper_Safety\<close>: over all
    runs (\<open>paper_step\<close>) the balances stay non-negative and the events account for them. \<open>Paper_Orders\<close>: which
    limit orders are processed, and that each order ends at most once. \<open>Paper_Settlement\<close>: what a market
    order fills and settles, larger than the book or not, and the round that stops the clock.
  \<^item> \<open>Order_Candidate\<close>, \<open>Budget_Checker\<close>: what an order would cost and how it is reduced to the
    balances (\<open>core/data_type/order_candidate.py\<close>, \<open>connector/budget_checker.py\<close>,
    \<open>connector/derivative/perpetual_budget_checker.py\<close>).
  \<^item> \<open>Executor_Base\<close>: \<open>strategy_v2/runnable_base.py\<close>, \<open>executors/executor_base.py\<close>, tracked orders; the
    interface \<open>lifecycle\<close> of everything that runs.
  \<^item> \<open>Position_Executor\<close>: \<open>executors/position_executor\<close>, rounds and events as \<open>pe_step\<close>.
    \<open>Position_Safety\<close>: the barriers and the shutdown; \<open>Position_Invariants\<close>: what every reachable
    state keeps; \<open>Executor_Scenario\<close>: the run that the theorems are applied to.
  \<^item> \<open>Grid_Executor\<close>: \<open>executors/grid_executor\<close>, a ladder of levels, rounds and events as \<open>grid_step\<close>.
    \<open>Grid_Accounts\<close>: its levels fit the budget and no order is lost sight of; \<open>Grid_Safety\<close>: the
    shutdown, and what it leaves behind.
  \<^item> \<open>Order_Executor\<close>: \<open>executors/order_executor\<close>, one amount worked until it is filled (\<open>ox_step\<close>).
    \<open>Order_Safety\<close>: it asks for exactly what is missing and, unless it chases the price, knows its orders.
  \<^item> \<open>TWAP_Executor\<close>: \<open>executors/twap_executor\<close>, a plan of timed orders (\<open>twap_step\<close>). \<open>TWAP_Safety\<close>: it
    opens on its side while running; overdue plans, last, failed and resubmitted orders.
  \<^item> \<open>DCA_Executor\<close>: \<open>executors/dca_executor\<close>, levels opened in turn and one closing order (\<open>dca_step\<close>).
    \<open>DCA_Safety\<close>: it opens the next level only and knows its orders; late fills and failed levels.
  \<^item> \<open>Arbitrage_Executor\<close>: \<open>executors/arbitrage_executor\<close>, two market orders when the quotes promise
    enough (\<open>arb_step\<close>), and the environment of executors on two markets. \<open>Arbitrage_Safety\<close>: one buy
    and one sell leg, for profit, and one replacement for each counted failure, which no quote is asked
    for; stops during a round, failing legs.
  \<^item> \<open>XEMM_Executor\<close>: \<open>executors/xemm_executor\<close>, a maker order hedged on another market
    (\<open>xemm_step\<close>). \<open>XEMM_Safety\<close>: its price meets the target; a taker order follows the completion of
    the maker order or the failure of a taker order, nothing else; fills that are not hedged, a shutdown
    that never ends.
  \<^item> \<open>Position_Hold\<close>: the net position kept by the orchestrator, shown to mark its orders to market.
  \<^item> \<open>Orchestrator\<close>: \<open>executors/executor_orchestrator.py\<close> over executors of any class;
    \<open>Orchestrator_Reports\<close>: what storing, holding and reporting keep.
  \<^item> \<open>LP_Executor\<close>: \<open>executors/lp_executor\<close>, cut at its awaits, beside the position on the chain
    (\<open>lp_step\<close>). The gateway answers a failed lookup like a closed position, so a step of \<open>lp_step\<close> lets
    the executor take one for the other. \<open>LP_Safety\<close>: calls happen once; an ended executor leaves no
    position but one that such a lookup made it abandon;
    \<open>LP_Accounting\<close>: what a closed position becomes in \<open>PositionHold\<close> and in the controller's books.
  \<^item> \<open>Phoenix_LP\<close>: the controller \<open>controllers/generic/phoenix_lp.py\<close>; \<open>Phoenix_Safety\<close>: its states,
    sizes and bands.
  \<^item> \<open>LP_Rebalancer\<close>: the controller \<open>controllers/generic/lp_rebalancer\<close> over views of LP and order
    executors, its ticks and what the executors do between them as \<open>lr_step\<close>.
    \<open>LP_Rebalancer_Safety\<close>: one position at a time as long as it is attended (\<open>lr_attended\<close>: no
    executor stops before the controller follows it), what it deploys, how a closed position is booked and replaced;
    swaps and executors it loses sight of.
  \<^item> \<open>Market_Making\<close>: \<open>strategy_v2/controllers/market_making_controller_base.py\<close> and
    \<open>controllers/market_making/pmm_phoenix.py\<close>; \<open>Market_Making_Safety\<close>: levels, floors, and the
    interface \<open>level_quoter\<close> between the base class and its subclasses.
  \<^item> \<open>Fleet\<close>: selection, swarm and rotation of \<open>podrunner/fleet.py\<close>.
  \<^item> \<open>Api_Throttler\<close>: \<open>core/api_throttler\<close>, refined to a limiter that never forgets.

  \<^bold>\<open>Conventions.\<close> A raised exception is \<open>Inl\<close> of its class; \<open>None\<close> of the code is \<open>None\<close>. Decimals
  and floats are exact rationals (reals in \<open>Phoenix_LP\<close>, which needs roots and logarithms): the rounding
  of the 28-digit context and of doubles is abstracted from, and NaN is a constructor where the code
  tests for it. Coroutines are cut at their awaits where another coroutine can see the difference, and
  are one step where it cannot; each theory says which. No loop of the modelled code needs fuel: they
  run over lists or dictionaries, or are the control loop, whose rounds are the steps of a relation.

  \<^bold>\<open>Parameters.\<close> What comes from outside is an argument: replies of the exchange and the gateway,
  balances, prices, the rate oracle, the clock, fresh ids, the values of technical indicators, random
  samples. Hypotheses on them are stated in the theorems that use them.

  \<^bold>\<open>Not modelled.\<close> The concrete connectors and data sources, the gateway's HTTP client, the candle
  feeds and the rate oracle's sources: message formats of external services. The command line, user
  interface, configuration files, remote interface, notifiers and logging: input and output. The
  database models and the recorder. The older strategies, the backtesting engine and the other
  controllers: they follow the pattern of the controllers modelled here.
\<close>

end
